(* ===== verification/EnvPrelude.thy ===== *)
theory EnvPrelude
  imports Main "HOL-Library.Sublist"
begin

text \<open>
  Prelude of the development: the proof-hint collections and the generic facts about
  JavaScript arrays that the component theories share. An array is a HOL list; the four
  array operations that the reducers of the store use are

    \<^item> \<open>findIndex\<close>, modelled by \<open>find_index\<close> (\<open>None\<close> for the result \<open>-1\<close>),
    \<^item> the idiom \<open>const i = xs.findIndex(p); if (i !== -1) xs[i] = y\<close>, modelled by
      \<open>put_at_first\<close>,
    \<^item> \<open>filter\<close>, which is the library's \<open>filter\<close>, and
    \<^item> \<open>find\<close>, which is the library's \<open>find\<close>.
\<close>

named_theorems js_array "facts about array operations of the source"

type_synonym js_id = int

abbreviation nullish :: "'a option \<Rightarrow> 'a \<Rightarrow> 'a" where
  "nullish x d \<equiv> (case x of None \<Rightarrow> d | Some v \<Rightarrow> v)"

subsection \<open>\<open>findIndex\<close>\<close>

fun find_index :: "('a \<Rightarrow> bool) \<Rightarrow> 'a list \<Rightarrow> nat option" where
  "find_index p [] = None"
| "find_index p (x # xs) = (if p x then Some 0 else map_option Suc (find_index p xs))"

lemma find_index_None [js_array]: "find_index p xs = None \<longleftrightarrow> (\<forall>x \<in> set xs. \<not> p x)"
  by (induction xs) auto

lemma find_index_SomeD:
  "find_index p xs = Some i \<Longrightarrow> i < length xs \<and> p (xs ! i) \<and> (\<forall>j < i. \<not> p (xs ! j))"
proof (induction xs arbitrary: i)
  case Nil
  then show ?case by simp
next
  case (Cons x xs)
  then show ?case
    by (auto split: if_splits simp: nth_Cons less_Suc_eq_0_disj split: nat.splits)
qed

lemma find_index_less: "find_index p xs = Some i \<Longrightarrow> i < length xs"
  by (simp add: find_index_SomeD)

lemma find_index_holds: "find_index p xs = Some i \<Longrightarrow> p (xs ! i)"
  by (simp add: find_index_SomeD)

subsection \<open>Replacing the first match\<close>

definition put_at_first :: "('a \<Rightarrow> bool) \<Rightarrow> 'a \<Rightarrow> 'a list \<Rightarrow> 'a list" where
  "put_at_first p y xs = (case find_index p xs of None \<Rightarrow> xs | Some i \<Rightarrow> xs[i := y])"

definition modify_first :: "('a \<Rightarrow> bool) \<Rightarrow> ('a \<Rightarrow> 'a) \<Rightarrow> 'a list \<Rightarrow> 'a list" where
  "modify_first p f xs = (case find_index p xs of None \<Rightarrow> xs | Some i \<Rightarrow> xs[i := f (xs ! i)])"

lemma length_put_at_first [simp]: "length (put_at_first p y xs) = length xs"
  by (simp add: put_at_first_def split: option.splits)

lemma length_modify_first [simp]: "length (modify_first p f xs) = length xs"
  by (simp add: modify_first_def split: option.splits)

lemma put_at_first_absent [js_array]: "\<forall>x \<in> set xs. \<not> p x \<Longrightarrow> put_at_first p y xs = xs"
  by (simp add: put_at_first_def find_index_None [THEN iffD2])

lemma modify_first_absent [js_array]: "\<forall>x \<in> set xs. \<not> p x \<Longrightarrow> modify_first p f xs = xs"
  by (simp add: modify_first_def find_index_None [THEN iffD2])

lemma put_at_first_Nil [simp]: "put_at_first p y [] = []"
  by (simp add: put_at_first_def)

lemma put_at_first_Cons [simp]:
  "put_at_first p y (x # xs) = (if p x then y # xs else x # put_at_first p y xs)"
  by (simp add: put_at_first_def split: option.splits)

lemma modify_first_Nil [simp]: "modify_first p f [] = []"
  by (simp add: modify_first_def)

lemma modify_first_Cons [simp]:
  "modify_first p f (x # xs) = (if p x then f x # xs else x # modify_first p f xs)"
  by (simp add: modify_first_def split: option.splits)

lemma set_put_at_first: "set (put_at_first p y xs) \<subseteq> insert y (set xs)"
  by (induction xs) auto

lemma put_at_first_mem [js_array]:
  "\<exists>x \<in> set xs. p x \<Longrightarrow> y \<in> set (put_at_first p y xs)"
  by (induction xs) auto

text \<open>
  The reducers look a row up by its identifier and store a row with the same identifier, so
  the list of identifiers never changes.
\<close>

lemma map_key_put_at_first [js_array]:
  "map key (put_at_first (\<lambda>x. key x = key y) y xs) = map key xs"
  by (induction xs) auto

lemma map_key_modify_first [js_array]:
  "(\<And>x. key (f x) = key x) \<Longrightarrow> map key (modify_first p f xs) = map key xs"
  by (induction xs) auto

text \<open>
  On a list whose identifiers are distinct, replacing the first match is the same as mapping
  over the list, which is how other reducers of the store write the update.
\<close>

lemma put_at_first_eq_map [js_array]:
  "distinct (map key xs) \<Longrightarrow>
   put_at_first (\<lambda>x. key x = key y) y xs = map (\<lambda>x. if key x = key y then y else x) xs"
proof (induction xs)
  case Nil
  then show ?case by simp
next
  case (Cons x xs)
  have "map (\<lambda>z. if key z = key y then y else z) xs = xs" if "key x = key y"
  proof (rule map_idI)
    fix z assume "z \<in> set xs"
    then have "key z \<in> key ` set xs" by simp
    with Cons.prems that have "key z \<noteq> key y" by auto
    then show "(if key z = key y then y else z) = z" by simp
  qed
  with Cons show ?case by simp
qed

subsection \<open>\<open>find\<close> and \<open>filter\<close>\<close>

lemma find_SomeD: "find p xs = Some x \<Longrightarrow> x \<in> set xs \<and> p x"
  by (induction xs) (auto split: if_splits)

lemma find_filter_other [js_array]:
  "k \<noteq> d \<Longrightarrow> find (\<lambda>x. key x = k) (filter (\<lambda>x. key x \<noteq> d) xs) = find (\<lambda>x. key x = k) xs"
  by (induction xs) auto

lemma find_filter_same [js_array]:
  "find (\<lambda>x. key x = d) (filter (\<lambda>x. key x \<noteq> d) xs) = None"
  by (induction xs) auto

lemma find_put_at_first [js_array]:
  "find (\<lambda>x. key x = k) (put_at_first (\<lambda>x. key x = key y) y xs) =
     (if k = key y \<and> find (\<lambda>x. key x = k) xs \<noteq> None then Some y else find (\<lambda>x. key x = k) xs)"
  by (induction xs) auto

lemma distinct_map_filter_key [js_array]:
  "distinct (map key xs) \<Longrightarrow> distinct (map key (filter p xs))"
  by (simp add: distinct_map_filter)

end
