(* ===== verification/BookingLanes.thy ===== *)
theory BookingLanes
  imports EnvPrelude "HOL-Library.Product_Lexorder"
begin

text \<open>
  \<open>components/bookingLanes.ts\<close>: greedy packing of booking intervals into swimlanes.
  \<open>pack_order\<close> is the stable sort of the indices by start, then end; \<open>pack_step\<close> is one
  turn of the outer loop, with the array \<open>laneEnds\<close> and the array \<open>lane\<close> as its state.
  The lemmas show that the packing is sound (no two overlapping bookings share a lane) and
  optimal (no sound assignment uses fewer lanes). Times are milliseconds, as \<open>int\<close>.
\<close>

record Interval =
  startMs :: int
  endMs :: int

definition pack_order :: "Interval list \<Rightarrow> nat list" where
  "pack_order intervals =
     sort_key (\<lambda>i. (startMs (intervals ! i), endMs (intervals ! i))) [0..<length intervals]"

definition pack_step :: "Interval list \<Rightarrow> int list \<times> nat list \<Rightarrow> nat \<Rightarrow> int list \<times> nat list" where
  "pack_step intervals st idx =
     (let laneEnds = fst st; lane = snd st; iv = intervals ! idx in
      case find_index (\<lambda>e. e \<le> startMs iv) laneEnds of
        None \<Rightarrow> (laneEnds @ [endMs iv], lane[idx := length laneEnds])
      | Some l \<Rightarrow> (laneEnds[l := endMs iv], lane[idx := l]))"

definition packLanes :: "Interval list \<Rightarrow> nat list" where
  "packLanes intervals =
     snd (foldl (pack_step intervals) ([], replicate (length intervals) 0) (pack_order intervals))"

definition laneCount :: "nat list \<Rightarrow> nat" where
  "laneCount lanes = foldl (\<lambda>m l. max m (l + 1)) 0 lanes"

subsection \<open>What a sound lane assignment is\<close>

definition compatible :: "Interval \<Rightarrow> Interval \<Rightarrow> bool" where
  "compatible a b \<longleftrightarrow> endMs a \<le> startMs b \<or> endMs b \<le> startMs a"

definition sound_lanes :: "Interval list \<Rightarrow> nat list \<Rightarrow> bool" where
  "sound_lanes ivs lanes \<longleftrightarrow>
     length lanes = length ivs \<and>
     (\<forall>i < length ivs. \<forall>j < length ivs. i \<noteq> j \<longrightarrow> lanes ! i = lanes ! j
        \<longrightarrow> compatible (ivs ! i) (ivs ! j))"

lemma compatible_sym: "compatible a b = compatible b a"
  by (auto simp: compatible_def)

lemma laneCount_foldl: "foldl (\<lambda>m l. max m (l + 1)) a lanes = max a (laneCount lanes)"
  unfolding laneCount_def
proof (induction lanes rule: rev_induct)
  case Nil
  then show ?case by simp
next
  case (snoc x xs)
  then show ?case by simp
qed

lemma laneCount_bound: "l \<in> set lanes \<Longrightarrow> l < laneCount lanes"
proof (induction lanes)
  case Nil
  then show ?case by simp
next
  case (Cons x xs)
  have "laneCount (x # xs) = max (x + 1) (laneCount xs)"
    using laneCount_foldl [of "x + 1" xs] by (simp add: laneCount_def)
  with Cons show ?case by auto
qed

lemma laneCount_least: "\<forall>l \<in> set lanes. l < n \<Longrightarrow> laneCount lanes \<le> n"
proof (induction lanes)
  case Nil
  then show ?case by (simp add: laneCount_def)
next
  case (Cons x xs)
  have "laneCount (x # xs) = max (x + 1) (laneCount xs)"
    using laneCount_foldl [of "x + 1" xs] by (simp add: laneCount_def)
  with Cons show ?case by auto
qed

subsection \<open>The processing order\<close>

lemma set_pack_order [simp]: "set (pack_order ivs) = {..<length ivs}"
  by (auto simp: pack_order_def)

lemma distinct_pack_order [simp]: "distinct (pack_order ivs)"
  by (simp add: pack_order_def)

definition before :: "Interval list \<Rightarrow> nat \<Rightarrow> nat \<Rightarrow> bool" where
  "before ivs i j \<longleftrightarrow>
     startMs (ivs ! i) < startMs (ivs ! j) \<or>
     startMs (ivs ! i) = startMs (ivs ! j) \<and> endMs (ivs ! i) \<le> endMs (ivs ! j)"

lemma sorted_pack_order: "sorted_wrt (before ivs) (pack_order ivs)"
proof -
  let ?k = "\<lambda>i. (startMs (ivs ! i), endMs (ivs ! i))"
  have "sorted (map ?k (pack_order ivs))"
    by (simp add: pack_order_def)
  then have "sorted_wrt (\<lambda>i j. ?k i \<le> ?k j) (pack_order ivs)"
    by (simp add: sorted_map)
  then show ?thesis
    by (rule sorted_wrt_mono_rel [rotated]) (auto simp: before_def)
qed

subsection \<open>The loop invariant\<close>

text \<open>
  \<open>P\<close> is the set of indices processed so far. Each open lane has a booking in it that ends at
  the recorded end; every earlier booking of a lane ends before some processed booking
  starts; and there is a set of pairwise overlapping bookings, one for each open lane.
\<close>

definition pack_inv :: "Interval list \<Rightarrow> nat set \<Rightarrow> int list \<times> nat list \<Rightarrow> bool" where
  "pack_inv ivs P st \<longleftrightarrow>
     length (snd st) = length ivs \<and>
     (\<forall>i \<in> P. snd st ! i < length (fst st)) \<and>
     (\<forall>l < length (fst st). \<exists>k \<in> P. snd st ! k = l \<and> fst st ! l = endMs (ivs ! k)) \<and>
     (\<forall>i \<in> P. endMs (ivs ! i) \<le> fst st ! (snd st ! i) \<or>
              (\<exists>k \<in> P. endMs (ivs ! i) \<le> startMs (ivs ! k))) \<and>
     (\<forall>i \<in> P. \<forall>j \<in> P. i \<noteq> j \<longrightarrow> snd st ! i = snd st ! j \<longrightarrow> compatible (ivs ! i) (ivs ! j))"

definition clique :: "Interval list \<Rightarrow> nat set \<Rightarrow> bool" where
  "clique ivs K \<longleftrightarrow> (\<forall>i \<in> K. \<forall>j \<in> K. i \<noteq> j \<longrightarrow> \<not> compatible (ivs ! i) (ivs ! j))"

definition clique_inv :: "Interval list \<Rightarrow> nat set \<Rightarrow> int list \<times> nat list \<Rightarrow> bool" where
  "clique_inv ivs P st \<longleftrightarrow> (\<exists>K \<subseteq> P. card K = length (fst st) \<and> clique ivs K)"

lemma pack_inv_step:
  assumes inv: "pack_inv ivs P st"
    and P: "P \<subseteq> {..<length ivs}" and j: "j < length ivs" "j \<notin> P"
    and ord: "\<forall>i \<in> P. before ivs i j"
  shows "pack_inv ivs (insert j P) (pack_step ivs st j)"
proof -
  obtain ends lane where st: "st = (ends, lane)" by (cases st)
  note I = inv [unfolded pack_inv_def st, simplified]
  have len: "j < length lane" using I j by simp
  have start_le: "\<forall>k \<in> P. startMs (ivs ! k) \<le> startMs (ivs ! j)"
    using ord by (auto simp: before_def)
  have old: "lane[j := l] ! i = lane ! i" if "i \<in> P" for i l
    using that j by (metis nth_list_update_neq)
  show ?thesis
  proof (cases "find_index (\<lambda>e. e \<le> startMs (ivs ! j)) ends")
    case None
    then have step: "pack_step ivs st j = (ends @ [endMs (ivs ! j)], lane[j := length ends])"
      by (simp add: pack_step_def st)
    have "\<exists>k \<in> insert j P. lane[j := length ends] ! k = l \<and>
            (ends @ [endMs (ivs ! j)]) ! l = endMs (ivs ! k)" if "l < Suc (length ends)" for l
    proof (cases "l = length ends")
      case True
      then show ?thesis using len by (intro bexI [of _ j]) simp_all
    next
      case False
      with that have "l < length ends" by simp
      with I obtain k where "k \<in> P" "lane ! k = l" "ends ! l = endMs (ivs ! k)" by blast
      then show ?thesis using old \<open>l < length ends\<close>
        by (intro bexI [of _ k]) (simp_all add: nth_append)
    qed
    then show ?thesis
      using I len unfolding pack_inv_def step
      by (auto simp: old nth_append less_Suc_eq)
  next
    case (Some l)
    have l: "l < length ends" "ends ! l \<le> startMs (ivs ! j)"
      using find_index_less [OF Some] find_index_holds [OF Some] by simp_all
    have step: "pack_step ivs st j = (ends[l := endMs (ivs ! j)], lane[j := l])"
      using Some by (simp add: pack_step_def st)
    have before_j: "endMs (ivs ! i) \<le> startMs (ivs ! j)" if "i \<in> P" "lane ! i = l" for i
      using I that l start_le by (meson order_trans)
    have lanes_used: "\<exists>k \<in> insert j P. lane[j := l] ! k = m \<and>
            ends[l := endMs (ivs ! j)] ! m = endMs (ivs ! k)" if "m < length ends" for m
    proof (cases "m = l")
      case True
      then show ?thesis using len l by (intro bexI [of _ j]) simp_all
    next
      case False
      from I that obtain k where "k \<in> P" "lane ! k = m" "ends ! m = endMs (ivs ! k)" by blast
      then show ?thesis using old False by (intro bexI [of _ k]) simp_all
    qed
    have ends_ok: "endMs (ivs ! i) \<le> ends[l := endMs (ivs ! j)] ! (lane[j := l] ! i) \<or>
              (\<exists>k \<in> insert j P. endMs (ivs ! i) \<le> startMs (ivs ! k))" if "i \<in> insert j P" for i
    proof (cases "i = j")
      case True
      then show ?thesis using len l by simp
    next
      case False
      with that have i: "i \<in> P" by simp
      show ?thesis
      proof (cases "lane ! i = l")
        case True
        then show ?thesis using before_j [OF i] by blast
      next
        case False
        then show ?thesis using I i old [OF i] by auto
      qed
    qed
    have "compatible (ivs ! i) (ivs ! k)"
      if "i \<in> insert j P" "k \<in> insert j P" "i \<noteq> k" "lane[j := l] ! i = lane[j := l] ! k" for i k
    proof (cases "i = j \<or> k = j")
      case True
      with that show ?thesis using len before_j old by (auto simp: compatible_def)
    next
      case False
      with that have "i \<in> P" "k \<in> P" "lane ! i = lane ! k" using old by auto
      with I \<open>i \<noteq> k\<close> show ?thesis by blast
    qed
    then show ?thesis
      using I len l lanes_used ends_ok unfolding pack_inv_def step by (auto simp: old)
  qed
qed

lemma clique_inv_step:
  assumes inv: "pack_inv ivs P st" and cl: "clique_inv ivs P st"
    and P: "P \<subseteq> {..<length ivs}" and j: "j < length ivs" "j \<notin> P"
    and ord: "\<forall>i \<in> P. before ivs i j"
    and wf: "startMs (ivs ! j) \<le> endMs (ivs ! j)"
  shows "clique_inv ivs (insert j P) (pack_step ivs st j)"
proof -
  obtain ends lane where st: "st = (ends, lane)" by (cases st)
  note I = inv [unfolded pack_inv_def st, simplified]
  show ?thesis
  proof (cases "find_index (\<lambda>e. e \<le> startMs (ivs ! j)) ends")
    case None
    then have late: "\<forall>l < length ends. startMs (ivs ! j) < ends ! l"
      by (metis find_index_None not_le nth_mem)
    have "\<forall>l < length ends. \<exists>k. k \<in> P \<and> lane ! k = l \<and> ends ! l = endMs (ivs ! k)"
      using I by blast
    then obtain top where
      top: "\<And>l. l < length ends \<Longrightarrow> top l \<in> P \<and> lane ! top l = l \<and> ends ! l = endMs (ivs ! top l)"
      by metis
    let ?K = "top ` {..<length ends}"
    have inj: "inj_on top {..<length ends}"
      by (rule inj_onI) (metis lessThan_iff top)
    have ends_late: "startMs (ivs ! j) < endMs (ivs ! k)" and starts: "before ivs k j"
      and mem: "k \<in> P" if "k \<in> ?K" for k
      using that late top ord by auto
    have "\<not> compatible (ivs ! i) (ivs ! k)" if "i \<in> ?K" "k \<in> ?K" for i k
      using ends_late [OF that(1)] starts [OF that(1)] ends_late [OF that(2)] starts [OF that(2)]
      by (auto simp: compatible_def before_def)
    moreover have "\<not> compatible (ivs ! j) (ivs ! k)" if "k \<in> ?K" for k
      using ends_late [OF that] starts [OF that] wf by (auto simp: compatible_def before_def)
    ultimately have "clique ivs (insert j ?K)"
      unfolding clique_def using compatible_sym by blast
    moreover have "?K \<subseteq> P" using mem by blast
    moreover have "card (insert j ?K) = Suc (length ends)"
      using \<open>?K \<subseteq> P\<close> j inj by (subst card_insert_disjoint) (auto simp: card_image)
    ultimately show ?thesis
      using None unfolding clique_inv_def
      by (intro exI [of _ "insert j ?K"]) (auto simp: pack_step_def st)
  next
    case (Some l)
    then show ?thesis
      using cl unfolding clique_inv_def by (auto simp: pack_step_def st)
  qed
qed

lemma pack_loop_inv:
  assumes "sorted_wrt (before ivs) (done @ todo)" "distinct (done @ todo)"
    "set (done @ todo) \<subseteq> {..<length ivs}"
    "pack_inv ivs (set done) st"
  shows "pack_inv ivs (set (done @ todo)) (foldl (pack_step ivs) st todo)"
  using assms
proof (induction todo arbitrary: "done" st)
  case Nil
  then show ?case by simp
next
  case (Cons j todo)
  from Cons.prems have "pack_inv ivs (set (done @ [j])) (pack_step ivs st j)"
    by (simp add: sorted_wrt_append pack_inv_step)
  with Cons.prems have "pack_inv ivs (set ((done @ [j]) @ todo))
      (foldl (pack_step ivs) (pack_step ivs st j) todo)"
    by (intro Cons.IH) simp_all
  then show ?case by simp
qed

lemma clique_loop_inv:
  assumes "sorted_wrt (before ivs) (done @ todo)" "distinct (done @ todo)"
    "set (done @ todo) \<subseteq> {..<length ivs}"
    "pack_inv ivs (set done) st" "clique_inv ivs (set done) st"
    "\<forall>iv \<in> set ivs. startMs iv \<le> endMs iv"
  shows "clique_inv ivs (set (done @ todo)) (foldl (pack_step ivs) st todo)"
  using assms
proof (induction todo arbitrary: "done" st)
  case Nil
  then show ?case by simp
next
  case (Cons j todo)
  from Cons.prems have inv: "pack_inv ivs (set (done @ [j])) (pack_step ivs st j)"
    by (simp add: sorted_wrt_append pack_inv_step)
  moreover from Cons.prems have "clique_inv ivs (set (done @ [j])) (pack_step ivs st j)"
    by (simp add: sorted_wrt_append clique_inv_step)
  ultimately have "clique_inv ivs (set ((done @ [j]) @ todo))
      (foldl (pack_step ivs) (pack_step ivs st j) todo)"
    using Cons.prems by (intro Cons.IH) simp_all
  then show ?case by simp
qed

definition pack_final :: "Interval list \<Rightarrow> int list \<times> nat list" where
  "pack_final ivs = foldl (pack_step ivs) ([], replicate (length ivs) 0) (pack_order ivs)"

lemma pack_final_inv: "pack_inv ivs {..<length ivs} (pack_final ivs)"
  using pack_loop_inv [of ivs "[]" "pack_order ivs" "([], replicate (length ivs) 0)"]
  by (simp add: pack_final_def sorted_pack_order pack_inv_def)

lemma pack_final_clique:
  "\<forall>iv \<in> set ivs. startMs iv \<le> endMs iv \<Longrightarrow> clique_inv ivs {..<length ivs} (pack_final ivs)"
  using clique_loop_inv [of ivs "[]" "pack_order ivs" "([], replicate (length ivs) 0)"]
  by (simp add: pack_final_def sorted_pack_order pack_inv_def clique_inv_def clique_def)

lemma packLanes_eq: "packLanes ivs = snd (pack_final ivs)"
  by (simp add: packLanes_def pack_final_def)

lemma packLanes_lanes: "laneCount (packLanes ivs) \<le> length (fst (pack_final ivs))"
  using pack_final_inv [of ivs]
  by (intro laneCount_least) (auto simp: pack_inv_def packLanes_eq in_set_conv_nth)

text \<open>A sound assignment gives pairwise different lanes to pairwise overlapping bookings.\<close>

lemma sound_lanes_clique:
  assumes "sound_lanes ivs other" "clique ivs K" "K \<subseteq> {..<length ivs}"
  shows "card K \<le> laneCount other"
proof -
  have "inj_on (\<lambda>i. other ! i) K"
  proof (rule inj_onI)
    fix i j assume "i \<in> K" "j \<in> K" "other ! i = other ! j"
    then show "i = j"
      using assms unfolding clique_def sound_lanes_def by (metis lessThan_iff subsetD)
  qed
  moreover have "(\<lambda>i. other ! i) ` K \<subseteq> {..<laneCount other}"
    using assms by (auto simp: sound_lanes_def intro!: laneCount_bound)
  ultimately show ?thesis
    using card_inj_on_le [of "\<lambda>i. other ! i" K "{..<laneCount other}"] by simp
qed

subsection \<open>Properties\<close>

text \<open>
  C5: \<open>packLanes\<close> returns one lane for each booking and never puts two overlapping bookings on
  the same lane; bookings that only touch may share one.
\<close>

theorem packLanes_sound: "sound_lanes intervals (packLanes intervals)"
  using pack_final_inv [of intervals]
  by (simp add: sound_lanes_def pack_inv_def packLanes_eq)

text \<open>
  C6: \<open>packLanes\<close> is optimal: when no booking ends before it starts, every assignment that
  keeps overlapping bookings apart uses at least as many lanes, as counted by \<open>laneCount\<close>.
\<close>

theorem packLanes_optimal:
  assumes "\<forall>iv \<in> set intervals. startMs iv \<le> endMs iv"
    and "sound_lanes intervals other"
  shows "laneCount (packLanes intervals) \<le> laneCount other"
proof -
  obtain K where K: "K \<subseteq> {..<length intervals}" "card K = length (fst (pack_final intervals))"
      "clique intervals K"
    using pack_final_clique [OF assms(1)] by (auto simp: clique_inv_def)
  have "laneCount (packLanes intervals) \<le> card K"
    using packLanes_lanes K(2) by simp
  also have "\<dots> \<le> laneCount other"
    by (rule sound_lanes_clique [OF assms(2) K(3,1)])
  finally show ?thesis .
qed

theorem packLanes_optimal_witness:
  "laneCount (packLanes [\<lparr>startMs = 0, endMs = 5\<rparr>, \<lparr>startMs = 3, endMs = 9\<rparr>, \<lparr>startMs = 5, endMs = 7\<rparr>])
   \<le> laneCount [0, 1, 2]"
  by (rule packLanes_optimal) (simp_all add: sound_lanes_def compatible_def less_Suc_eq numeral_3_eq_3)

end
