(* ===== verification/JsString.thy ===== *)
theory JsString
  imports EnvPrelude
begin

text \<open>
  The string operations of the JavaScript standard library that the source uses. A string is
  the list of the bytes of its UTF-8 encoding; every separator, prefix and digit the source
  looks for is ASCII, so searching, slicing at a found position and concatenation agree with the
  language. \<open>trim\<close> knows the ASCII white space and \<open>toLowerCase\<close> the ASCII letters, which
  are the cases that the code under verification is written for.
\<close>

subsection \<open>Characters\<close>

definition is_ws :: "char \<Rightarrow> bool" where
  "is_ws c \<longleftrightarrow> c = CHR '' '' \<or> ((9 :: nat) \<le> of_char c \<and> (of_char c :: nat) \<le> 13)"

definition is_digit :: "char \<Rightarrow> bool" where
  "is_digit c \<longleftrightarrow> 48 \<le> (of_char c :: nat) \<and> (of_char c :: nat) \<le> 57"

definition digit_val :: "char \<Rightarrow> nat" where
  "digit_val c = (of_char c :: nat) - 48"

definition digit_char :: "nat \<Rightarrow> char" where
  "digit_char d = char_of (d + 48)"

definition lower_char :: "char \<Rightarrow> char" where
  "lower_char c = (if 65 \<le> (of_char c :: nat) \<and> (of_char c :: nat) \<le> 90
                   then char_of ((of_char c :: nat) + 32) else c)"

lemma of_digit_char: "d < 10 \<Longrightarrow> of_char (digit_char d) = d + 48"
  by (simp add: digit_char_def)

lemma digit_val_char [simp]: "d < 10 \<Longrightarrow> digit_val (digit_char d) = d"
  by (simp add: digit_val_def of_digit_char)

lemma is_digit_char [simp]: "d < 10 \<Longrightarrow> is_digit (digit_char d)"
  by (simp add: is_digit_def of_digit_char)

lemma is_digit_not_ws: "is_digit c \<Longrightarrow> \<not> is_ws c"
  by (auto simp: is_digit_def is_ws_def)

subsection \<open>\<open>trim\<close>, \<open>toLowerCase\<close>, \<open>slice\<close>\<close>

definition js_trim :: "string \<Rightarrow> string" where
  "js_trim s = rev (dropWhile is_ws (rev (dropWhile is_ws s)))"

definition js_lower :: "string \<Rightarrow> string" where
  "js_lower s = map lower_char s"

definition js_slice :: "nat \<Rightarrow> nat \<Rightarrow> string \<Rightarrow> string" where
  "js_slice a b s = drop a (take b s)"

lemma js_trim_Nil [simp]: "js_trim [] = []"
  by (simp add: js_trim_def)

lemma dropWhile_ws_idem: "dropWhile is_ws (dropWhile is_ws s) = dropWhile is_ws s"
  by (induction s) auto

lemma js_trim_id: "s \<noteq> [] \<Longrightarrow> \<not> is_ws (hd s) \<Longrightarrow> \<not> is_ws (last s) \<Longrightarrow> js_trim s = s"
proof -
  assume "s \<noteq> []" "\<not> is_ws (hd s)" "\<not> is_ws (last s)"
  then have "dropWhile is_ws s = s" "dropWhile is_ws (rev s) = rev s"
    by (simp_all add: dropWhile_eq_self_iff hd_rev)
  then show ?thesis by (simp add: js_trim_def)
qed

lemma js_trim_id_digits: "\<forall>c \<in> set s. is_digit c \<Longrightarrow> js_trim s = s"
proof (cases "s = []")
  case False
  moreover assume "\<forall>c \<in> set s. is_digit c"
  ultimately show ?thesis
    by (intro js_trim_id) (simp_all add: is_digit_not_ws)
qed simp

lemma js_trim_edges: "js_trim s \<noteq> [] \<Longrightarrow> \<not> is_ws (hd (js_trim s)) \<and> \<not> is_ws (last (js_trim s))"
proof -
  let ?u = "dropWhile is_ws s"
  let ?v = "dropWhile is_ws (rev ?u)"
  assume ne: "js_trim s \<noteq> []"
  then have v: "?v \<noteq> []" by (simp add: js_trim_def)
  then have "\<not> is_ws (hd ?v)" by (rule hd_dropWhile)
  moreover have "last ?v = hd ?u"
  proof -
    obtain w where "rev ?u = w @ ?v" by (metis takeWhile_dropWhile_id)
    then have "last ?v = last (rev ?u)" using v by (metis last_appendR)
    moreover have "?u \<noteq> []" using v by (auto dest: set_dropWhileD)
    ultimately show ?thesis by (simp add: last_rev)
  qed
  moreover have "?u \<noteq> []" using v by (auto dest: set_dropWhileD)
  then have "\<not> is_ws (hd ?u)" by (rule hd_dropWhile)
  ultimately show ?thesis using v by (simp add: js_trim_def hd_rev last_rev)
qed

lemma js_trim_idem [simp]: "js_trim (js_trim s) = js_trim s"
  by (cases "js_trim s = []") (simp_all add: js_trim_id js_trim_edges)

subsection \<open>\<open>includes\<close>, \<open>startsWith\<close>, \<open>indexOf\<close>\<close>

definition js_startsWith :: "string \<Rightarrow> string \<Rightarrow> bool" where
  "js_startsWith s p = prefix p s"

fun js_indexOf :: "string \<Rightarrow> string \<Rightarrow> nat option" where
  "js_indexOf [] p = (if p = [] then Some 0 else None)"
| "js_indexOf (c # s) p = (if prefix p (c # s) then Some 0 else map_option Suc (js_indexOf s p))"

definition js_includes :: "string \<Rightarrow> string \<Rightarrow> bool" where
  "js_includes s p \<longleftrightarrow> js_indexOf s p \<noteq> None"

lemma js_indexOf_None: "js_indexOf s p = None \<longleftrightarrow> \<not> sublist p s"
proof (induction s)
  case Nil
  then show ?case by (auto simp: sublist_def)
next
  case (Cons c s)
  then show ?case by (auto simp: sublist_Cons_right)
qed

lemma js_includes_iff: "js_includes s p \<longleftrightarrow> sublist p s"
  by (simp add: js_includes_def js_indexOf_None)

text \<open>\<open>s.replace(p, '')\<close> with a string pattern removes the first occurrence only.\<close>

definition js_remove_first :: "string \<Rightarrow> string \<Rightarrow> string" where
  "js_remove_first p s =
     (case js_indexOf s p of None \<Rightarrow> s | Some i \<Rightarrow> take i s @ drop (i + length p) s)"

lemma js_indexOf_prefix [simp]: "js_indexOf (p @ s) p = Some 0"
proof (cases "p @ s")
  case (Cons c t)
  have "prefix p (p @ s)" by simp
  with Cons show ?thesis by simp
qed simp

lemma js_remove_first_prefix [simp]: "js_remove_first p (p @ s) = s"
  by (simp add: js_remove_first_def)

subsection \<open>\<open>split\<close> and \<open>join\<close>\<close>

fun js_split :: "char \<Rightarrow> string \<Rightarrow> string list" where
  "js_split d [] = [[]]"
| "js_split d (c # s) =
     (if c = d then [] # js_split d s
      else (case js_split d s of [] \<Rightarrow> [[c]] | w # ws \<Rightarrow> (c # w) # ws))"

fun js_join :: "string \<Rightarrow> string list \<Rightarrow> string" where
  "js_join d [] = []"
| "js_join d [w] = w"
| "js_join d (w # v # ws) = w @ d @ js_join d (v # ws)"

lemma js_split_nonempty [simp]: "js_split d s \<noteq> []"
  by (induction s) (auto split: list.splits)

lemma js_join_split: "js_join [d] (js_split d s) = s"
proof (induction s)
  case Nil
  then show ?case by simp
next
  case (Cons c s)
  obtain w ws where w: "js_split d s = w # ws" by (cases "js_split d s") auto
  with Cons show ?case by (cases ws) auto
qed

lemma js_split_free: "d \<notin> set w \<Longrightarrow> js_split d w = [w]"
  by (induction w) auto

lemma js_split_append: "d \<notin> set w \<Longrightarrow> js_split d (w @ d # s) = w # js_split d s"
  by (induction w) auto

lemma js_split_join:
  "ws \<noteq> [] \<Longrightarrow> \<forall>w \<in> set ws. d \<notin> set w \<Longrightarrow> js_split d (js_join [d] ws) = ws"
proof (induction "[d]" ws rule: js_join.induct)
  case 1
  then show ?case by simp
next
  case (2 w)
  then show ?case by (simp add: js_split_free)
next
  case (3 w v ws)
  then show ?case by (simp add: js_split_append)
qed

subsection \<open>Decimal numerals: \<open>String(n)\<close> and reading digits back\<close>

fun show_nat :: "nat \<Rightarrow> string" where
  "show_nat n = (if n < 10 then [digit_char n] else show_nat (n div 10) @ [digit_char (n mod 10)])"

declare show_nat.simps [simp del]

definition show_int :: "int \<Rightarrow> string" where
  "show_int i = (if i < 0 then CHR ''-'' # show_nat (nat (- i)) else show_nat (nat i))"

definition read_nat :: "string \<Rightarrow> nat" where
  "read_nat s = foldl (\<lambda>n c. 10 * n + digit_val c) 0 s"

lemma show_nat_digits: "\<forall>c \<in> set (show_nat n). is_digit c"
proof (induction n rule: show_nat.induct)
  case (1 n)
  then show ?case by (subst show_nat.simps) auto
qed

lemma show_nat_nonempty [simp]: "show_nat n \<noteq> []"
  by (subst show_nat.simps) simp

lemma read_show_nat [simp]: "read_nat (show_nat n) = n"
proof (induction n rule: show_nat.induct)
  case (1 n)
  then show ?case
    by (subst show_nat.simps) (auto simp: read_nat_def)
qed

lemma show_nat_inject [simp]: "show_nat m = show_nat n \<longleftrightarrow> m = n"
  by (metis read_show_nat)

lemma show_nat_not_minus: "hd (show_nat n) \<noteq> CHR ''-''"
proof -
  have "is_digit (hd (show_nat n))" using show_nat_digits [of n] by simp
  then show ?thesis by (auto simp: is_digit_def)
qed

lemma show_int_inject [simp]: "show_int i = show_int j \<longleftrightarrow> i = j"
proof -
  have "show_nat m \<noteq> CHR ''-'' # s" for m s
    using show_nat_not_minus [of m] by (metis list.sel(1))
  then show ?thesis
    by (auto simp: show_int_def dest: sym [of _ "show_nat _"])
qed

lemma show_int_chars: "\<forall>c \<in> set (show_int i). is_digit c \<or> c = CHR ''-''"
  using show_nat_digits by (auto simp: show_int_def)

subsection \<open>\<open>Number(s)\<close> for integer results\<close>

text \<open>
  \<open>js_Number\<close> is the StringToNumber conversion for the strings whose value the source can
  use as a whole number: it returns \<open>Some n\<close> where \<open>Number.isInteger (Number s)\<close> holds and \<open>n\<close>
  is the value, and \<open>None\<close> otherwise (\<open>NaN\<close>, an infinity or a fraction). White space around the
  literal is dropped, the empty string is \<open>0\<close>, a decimal literal may have a sign, a fraction
  and an exponent, and a hexadecimal, octal or binary literal has no sign. The decimal value is
  computed exactly, so a literal that only rounds to an integer is not one here.
\<close>

definition all_digits :: "string \<Rightarrow> bool" where
  "all_digits s \<longleftrightarrow> (\<forall>c \<in> set s. is_digit c)"

definition radix_digit :: "nat \<Rightarrow> char \<Rightarrow> nat option" where
  "radix_digit r c =
     (let l = lower_char c;
          v = (if is_digit c then digit_val c
               else if 97 \<le> (of_char l :: nat) \<and> (of_char l :: nat) \<le> 122
                    then of_char l - 87 else 99)
      in if v < r then Some v else None)"

definition read_radix :: "nat \<Rightarrow> string \<Rightarrow> int option" where
  "read_radix r s =
     (if s = [] then None
      else map_option int
        (foldl (\<lambda>acc c. case (acc, radix_digit r c) of
            (Some n, Some v) \<Rightarrow> Some (r * n + v) | _ \<Rightarrow> None) (Some 0) s))"

text \<open>\<open>scale10 m e\<close> is \<open>m * 10 ^ e\<close> when that is an integer.\<close>

definition scale10 :: "int \<Rightarrow> int \<Rightarrow> int option" where
  "scale10 m e =
     (if 0 \<le> e then Some (m * 10 ^ nat e)
      else if 10 ^ nat (- e) dvd m then Some (m div 10 ^ nat (- e)) else None)"

definition read_signed :: "string \<Rightarrow> (int \<times> string)" where
  "read_signed s =
     (case s of
        [] \<Rightarrow> (1, [])
      | c # t \<Rightarrow> if c = CHR ''-'' then (-1, t) else if c = CHR ''+'' then (1, t) else (1, s))"

definition read_exponent :: "string \<Rightarrow> int option" where
  "read_exponent s =
     (let (sg, t) = read_signed s
      in if t \<noteq> [] \<and> all_digits t then Some (sg * int (read_nat t)) else None)"

definition read_decimal :: "string \<Rightarrow> int option" where
  "read_decimal s =
     (let (sg, t) = read_signed s;
          ip = takeWhile is_digit t; t1 = dropWhile is_digit t;
          dot = (t1 \<noteq> [] \<and> hd t1 = CHR ''.'');
          fp = (if dot then takeWhile is_digit (tl t1) else []);
          t2 = (if dot then dropWhile is_digit (tl t1) else t1)
      in if ip = [] \<and> fp = [] then None
         else if t2 = [] then scale10 (sg * int (read_nat (ip @ fp))) (- int (length fp))
         else if lower_char (hd t2) = CHR ''e'' then
           (case read_exponent (tl t2) of
              None \<Rightarrow> None
            | Some e \<Rightarrow> scale10 (sg * int (read_nat (ip @ fp))) (e - int (length fp)))
         else None)"

definition js_Number :: "string \<Rightarrow> int option" where
  "js_Number raw =
     (let s = js_trim raw; p = js_lower (take 2 s) in
      if s = [] then Some 0
      else if p = ''0x'' then read_radix 16 (drop 2 s)
      else if p = ''0o'' then read_radix 8 (drop 2 s)
      else if p = ''0b'' then read_radix 2 (drop 2 s)
      else read_decimal s)"

lemma digits_take_lower: "all_digits s \<Longrightarrow> js_lower (take 2 s) = take 2 s"
  unfolding js_lower_def
  by (rule map_idI) (auto simp: all_digits_def is_digit_def lower_char_def dest!: in_set_takeD)

lemma read_decimal_digits:
  assumes "all_digits s" "s \<noteq> []"
  shows "read_decimal s = Some (int (read_nat s))"
proof -
  have sg: "read_signed s = (1, s)"
    using assms by (auto simp: read_signed_def all_digits_def is_digit_def split: list.splits)
  have tw: "takeWhile is_digit s = s" and dw: "dropWhile is_digit s = []"
    using assms by (auto simp: all_digits_def takeWhile_eq_all_conv)
  show ?thesis
    using assms(2) by (simp add: sg tw dw read_decimal_def scale10_def Let_def)
qed

text \<open>Reading back what \<open>String(n)\<close> printed: the page number survives the URL.\<close>

lemma js_Number_show_nat: "js_Number (show_nat n) = Some (int n)"
proof -
  have dig: "all_digits (show_nat n)" by (simp add: all_digits_def show_nat_digits)
  then have lower: "js_lower (take 2 (show_nat n)) = take 2 (show_nat n)" by (rule digits_take_lower)
  have "js_trim (show_nat n) = show_nat n"
    by (simp add: js_trim_id_digits show_nat_digits)
  moreover have "take 2 (show_nat n) \<noteq> [a, b]" if "\<not> is_digit b" for a b
    using that dig by (metis all_digits_def in_set_takeD list.set_intros(1,2))
  moreover have "\<not> is_digit CHR ''x''" "\<not> is_digit CHR ''o''" "\<not> is_digit CHR ''b''"
    by (simp_all add: is_digit_def)
  ultimately show ?thesis
    using dig lower by (simp add: js_Number_def read_decimal_digits)
qed

lemma js_Number_show_int: "0 \<le> i \<Longrightarrow> js_Number (show_int i) = Some i"
  by (simp add: show_int_def js_Number_show_nat)

end
