(* ===== verification/JsMap.thy ===== *)
theory JsMap
  imports EnvPrelude
begin

text \<open>
  The \<open>Map\<close> of the JavaScript standard library, and objects used as dictionaries: an
  association list in insertion order without duplicate keys. \<open>set\<close> on a present key keeps the
  key's position; on an absent key it appends. The locale \<open>bucket_map\<close> is the interface that the
  grouping code relies on (\<open>if (!m.has(k)) m.set(k, []); m.get(k)!.push(x)\<close>), with the law of one
  push, and derives what a whole grouping loop computes; it is interpreted on the model of
  \<open>Map\<close> below.
\<close>

type_synonym ('k, 'v) jmap = "('k \<times> 'v) list"

definition jm_get :: "('k, 'v) jmap \<Rightarrow> 'k \<Rightarrow> 'v option" where
  "jm_get m k = map_of m k"

definition jm_has :: "('k, 'v) jmap \<Rightarrow> 'k \<Rightarrow> bool" where
  "jm_has m k \<longleftrightarrow> k \<in> fst ` set m"

fun jm_set :: "'k \<Rightarrow> 'v \<Rightarrow> ('k, 'v) jmap \<Rightarrow> ('k, 'v) jmap" where
  "jm_set k v [] = [(k, v)]"
| "jm_set k v ((k', v') # m) = (if k' = k then (k, v) # m else (k', v') # jm_set k v m)"

definition jm_delete :: "'k \<Rightarrow> ('k, 'v) jmap \<Rightarrow> ('k, 'v) jmap" where
  "jm_delete k m = filter (\<lambda>kv. fst kv \<noteq> k) m"

definition jm_keys :: "('k, 'v) jmap \<Rightarrow> 'k list" where
  "jm_keys m = map fst m"

definition jm_wf :: "('k, 'v) jmap \<Rightarrow> bool" where
  "jm_wf m \<longleftrightarrow> distinct (map fst m)"

lemma jm_get_Nil [simp]: "jm_get [] k = None"
  by (simp add: jm_get_def)

lemma jm_get_Cons [simp]: "jm_get ((k', v) # m) k = (if k' = k then Some v else jm_get m k)"
  by (simp add: jm_get_def)

lemma jm_get_absent: "k \<notin> fst ` set m \<Longrightarrow> jm_get m k = None"
  by (simp add: jm_get_def map_of_eq_None_iff)

lemma jm_get_set [simp]: "jm_get (jm_set k v m) k' = (if k' = k then Some v else jm_get m k')"
  by (induction m rule: jm_set.induct) (auto simp: jm_get_def)

lemma jm_get_delete [simp]: "jm_get (jm_delete k m) k' = (if k' = k then None else jm_get m k')"
  by (induction m) (auto simp: jm_get_def jm_delete_def)

lemma jm_has_get: "jm_has m k \<longleftrightarrow> jm_get m k \<noteq> None"
  by (auto simp: jm_has_def jm_get_def map_of_eq_None_iff)

lemma jm_keys_set: "jm_keys (jm_set k v m) = (if jm_has m k then jm_keys m else jm_keys m @ [k])"
  by (induction m rule: jm_set.induct) (auto simp: jm_keys_def jm_has_def)

lemma set_jm_keys: "k \<in> set (jm_keys m) \<longleftrightarrow> jm_get m k \<noteq> None"
  by (simp add: jm_keys_def jm_get_def map_of_eq_None_iff)

lemma jm_wf_Nil [simp]: "jm_wf []"
  by (simp add: jm_wf_def)

lemma jm_wf_set [simp]: "jm_wf m \<Longrightarrow> jm_wf (jm_set k v m)"
  using jm_keys_set [of k v m] by (auto simp: jm_wf_def jm_keys_def jm_has_def split: if_splits)

lemma jm_wf_delete [simp]: "jm_wf m \<Longrightarrow> jm_wf (jm_delete k m)"
  by (simp add: jm_wf_def jm_delete_def distinct_map_filter)

lemma jm_get_mem: "jm_wf m \<Longrightarrow> jm_get m k = Some v \<longleftrightarrow> (k, v) \<in> set m"
  by (simp add: jm_wf_def jm_get_def)

lemma jm_get_memD: "jm_get m k = Some v \<Longrightarrow> (k, v) \<in> set m"
  by (simp add: jm_get_def map_of_SomeD)

subsection \<open>Grouping: one push, and a loop of pushes\<close>

definition bucket_push :: "'k \<Rightarrow> 'x \<Rightarrow> ('k, 'x list) jmap \<Rightarrow> ('k, 'x list) jmap" where
  "bucket_push k x m =
     (let m1 = (if jm_has m k then m else jm_set k [] m)
      in jm_set k (nullish (jm_get m1 k) [] @ [x]) m1)"

locale bucket_map =
  fixes empty :: "'m"
    and get :: "'m \<Rightarrow> 'k \<Rightarrow> 'x list option"
    and push :: "'k \<Rightarrow> 'x \<Rightarrow> 'm \<Rightarrow> 'm"
  assumes get_empty: "get empty k = None"
    and get_push: "get (push k x m) k' = (if k' = k then Some (nullish (get m k) [] @ [x]) else get m k')"
begin

lemma get_fold_push_from:
  "get (fold (\<lambda>x. push (key x) x) xs m) k =
     (if filter (\<lambda>x. key x = k) xs = [] then get m k
      else Some (nullish (get m k) [] @ filter (\<lambda>x. key x = k) xs))"
proof (induction xs arbitrary: m)
  case Nil
  then show ?case by simp
next
  case (Cons x xs)
  then show ?case by (auto simp: get_push split: option.splits)
qed

text \<open>After the loop, the bucket of a key holds the elements with that key, in loop order.\<close>

lemma get_fold_push:
  "get (fold (\<lambda>x. push (key x) x) xs empty) k =
     (if filter (\<lambda>x. key x = k) xs = [] then None else Some (filter (\<lambda>x. key x = k) xs))"
  by (simp add: get_fold_push_from get_empty)

end

lemma jm_get_bucket_push:
  "jm_get (bucket_push k x m) k' =
     (if k' = k then Some (nullish (jm_get m k) [] @ [x]) else jm_get m k')"
  by (auto simp: bucket_push_def Let_def jm_has_get split: option.splits)

interpretation jb: bucket_map "[]" jm_get bucket_push
  by unfold_locales (simp_all add: jm_get_bucket_push)

lemma jm_wf_bucket_push [simp]: "jm_wf m \<Longrightarrow> jm_wf (bucket_push k x m)"
  by (simp add: bucket_push_def Let_def)

definition group_by :: "('x \<Rightarrow> 'k) \<Rightarrow> 'x list \<Rightarrow> ('k, 'x list) jmap" where
  "group_by key xs = fold (\<lambda>x. bucket_push (key x) x) xs []"

lemma jm_wf_group_by [simp]: "jm_wf (group_by key xs)"
proof -
  have "jm_wf m \<Longrightarrow> jm_wf (fold (\<lambda>x. bucket_push (key x) x) xs m)" for m
    by (induction xs arbitrary: m) auto
  then show ?thesis by (simp add: group_by_def)
qed

lemmas jm_get_group_by = jb.get_fold_push [where key = key for key, folded group_by_def]

lemma group_by_entry:
  "(k, ys) \<in> set (group_by key xs) \<longleftrightarrow> ys = filter (\<lambda>x. key x = k) xs \<and> ys \<noteq> []"
  using jm_get_mem [OF jm_wf_group_by, of key xs k ys]
  by (auto simp: jm_get_group_by split: if_splits)

lemma group_by_bucket: "(k, ys) \<in> set (group_by key xs) \<Longrightarrow> y \<in> set ys \<longleftrightarrow> y \<in> set xs \<and> key y = k"
  by (auto simp: group_by_entry)

lemma keys_group_by: "fst ` set (group_by key xs) = key ` set xs"
proof -
  have "k \<in> fst ` set (group_by key xs) \<longleftrightarrow> (\<exists>ys. (k, ys) \<in> set (group_by key xs))" for k
    by force
  then show ?thesis
    by (auto simp: group_by_entry filter_empty_conv)
qed

text \<open>Grouping loses nothing: the sizes of the buckets add up to the number of elements.\<close>

lemma sum_list_bucket_push:
  "jm_wf m \<Longrightarrow> sum_list (map (\<lambda>kv. length (snd kv)) (bucket_push k x m))
     = Suc (sum_list (map (\<lambda>kv. length (snd kv)) m))"
proof -
  have absent: "\<not> jm_has m k \<Longrightarrow> jm_set k v (jm_set k w m) = m @ [(k, v)]" for v w
    by (induction m) (auto simp: jm_has_def)
  have present: "jm_get m k = Some xs \<Longrightarrow>
      sum_list (map (\<lambda>kv. length (snd kv)) (jm_set k (xs @ [x]) m))
        = Suc (sum_list (map (\<lambda>kv. length (snd kv)) m))" for xs
    by (induction m) (auto simp: jm_get_def)
  show ?thesis
  proof (cases "jm_get m k")
    case None
    then show ?thesis by (simp add: bucket_push_def Let_def jm_has_get absent)
  next
    case (Some xs)
    then show ?thesis by (simp add: bucket_push_def Let_def jm_has_get present)
  qed
qed

lemma sum_list_group_by: "sum_list (map (\<lambda>kv. length (snd kv)) (group_by key xs)) = length xs"
proof -
  have "jm_wf m \<Longrightarrow> sum_list (map (\<lambda>kv. length (snd kv)) (fold (\<lambda>x. bucket_push (key x) x) xs m))
      = length xs + sum_list (map (\<lambda>kv. length (snd kv)) m)" for m
    by (induction xs arbitrary: m) (auto simp: sum_list_bucket_push)
  from this [of "[]"] show ?thesis by (simp add: group_by_def)
qed

end
