(* ===== verification/GridParams.thy ===== *)
theory GridParams
  imports JsString JsMap
begin

text \<open>
  \<open>hooks/serverGridParams.ts\<close> and \<open>constants/sortWhitelists.json\<close>: how the state of a
  server-side grid (page, sort, filters) becomes the query parameters of a list request. An
  unknown sort field is refused by the server, so it is replaced here by a whitelisted one;
  the reserved parameter names cannot be overridden by a filter.
\<close>

datatype SortDir = Asc | Desc

datatype EndpointKey =
  EP_releases | EP_bookings | EP_environments | EP_change_requests | EP_systems
| EP_infrastructure_components | EP_incidents | EP_deployments | EP_builds
| EP_environment_requests | EP_contention_escalations | EP_decommissions | EP_pir_actions
| EP_go_no_go

record WhitelistEntry =
  sortable :: "string list"
  default_field :: string
  default_dir :: SortDir

abbreviation wl_entry :: "string list \<Rightarrow> string \<Rightarrow> SortDir \<Rightarrow> WhitelistEntry" where
  "wl_entry s d dir \<equiv> \<lparr>sortable = s, default_field = d, default_dir = dir\<rparr>"

text \<open>The table of \<open>sortWhitelists.json\<close>, which \<open>whitelistFor\<close> reads.\<close>

fun whitelistFor :: "EndpointKey \<Rightarrow> WhitelistEntry" where
  "whitelistFor EP_releases = wl_entry
     [''name'', ''release_type'', ''release_kind'', ''status'', ''target_date'', ''created_at'',
      ''scope_deadline''] ''created_at'' Desc"
| "whitelistFor EP_bookings = wl_entry
     [''start_date'', ''end_date'', ''status'', ''protection_level''] ''start_date'' Asc"
| "whitelistFor EP_environments = wl_entry
     [''name'', ''tier'', ''status'', ''owner'', ''expires_at'', ''created_at''] ''name'' Asc"
| "whitelistFor EP_change_requests = wl_entry
     [''title'', ''change_type'', ''status'', ''scheduled_start''] ''scheduled_start'' Desc"
| "whitelistFor EP_systems = wl_entry [''name''] ''name'' Asc"
| "whitelistFor EP_infrastructure_components = wl_entry
     [''name'', ''component_type'', ''provider'', ''region'', ''source''] ''name'' Asc"
| "whitelistFor EP_incidents = wl_entry
     [''title'', ''severity'', ''status'', ''detected_at'', ''resolved_at''] ''detected_at'' Desc"
| "whitelistFor EP_deployments = wl_entry
     [''status'', ''deployer_name'', ''deployed_at''] ''deployed_at'' Desc"
| "whitelistFor EP_builds = wl_entry
     [''git_branch'', ''build_number'', ''commit_timestamp''] ''commit_timestamp'' Desc"
| "whitelistFor EP_environment_requests = wl_entry
     [''status'', ''kind'', ''needed_by'', ''created_at''] ''created_at'' Desc"
| "whitelistFor EP_contention_escalations = wl_entry
     [''respond_by'', ''created_at'', ''decided_at''] ''respond_by'' Asc"
| "whitelistFor EP_decommissions = wl_entry
     [''scheduled_teardown_at'', ''warned_at'', ''environment''] ''scheduled_teardown_at'' Asc"
| "whitelistFor EP_pir_actions = wl_entry
     [''title'', ''status'', ''due_date'', ''created_at'', ''release'', ''owner''] ''due_date'' Asc"
| "whitelistFor EP_go_no_go = wl_entry [''decided_at'', ''outcome''] ''decided_at'' Desc"

definition isSortable :: "EndpointKey \<Rightarrow> string \<Rightarrow> bool" where
  "isSortable endpoint field = (field \<in> set (sortable (whitelistFor endpoint)))"

record DefaultSort =
  ds_field :: string
  ds_dir :: SortDir

record ResolvedSort =
  sort_by :: string
  sort_dir :: SortDir

definition read_dir :: "string option \<Rightarrow> SortDir option" where
  "read_dir d = (if d = Some ''asc'' then Some Asc else if d = Some ''desc'' then Some Desc else None)"

definition show_dir :: "SortDir \<Rightarrow> string" where
  "show_dir d = (case d of Asc \<Rightarrow> ''asc'' | Desc \<Rightarrow> ''desc'')"

definition resolveSort ::
  "EndpointKey \<Rightarrow> string option \<Rightarrow> string option \<Rightarrow> DefaultSort option \<Rightarrow> ResolvedSort" where
  "resolveSort endpoint sortBy sortDir defaultSort =
     (let wl = whitelistFor endpoint;
          pageDefault = (case defaultSort of
              Some d \<Rightarrow> if ds_field d \<in> set (sortable wl) then Some d else None
            | None \<Rightarrow> None)
      in \<lparr>sort_by = (case sortBy of
              Some s \<Rightarrow> if s \<noteq> [] \<and> s \<in> set (sortable wl) then s
                        else nullish (map_option ds_field pageDefault) (default_field wl)
            | None \<Rightarrow> nullish (map_option ds_field pageDefault) (default_field wl)),
          sort_dir = (case read_dir sortDir of
              Some d \<Rightarrow> d
            | None \<Rightarrow> nullish (map_option ds_dir pageDefault) (default_dir wl))\<rparr>)"

subsection \<open>Building the request parameters\<close>

datatype pval = PNum int | PStr string

type_synonym ServerGridParams = "(string, pval) jmap"

definition SELECT_SENTINEL :: string where
  "SELECT_SENTINEL = ''all''"

definition RESERVED :: "string list" where
  "RESERVED = [''limit'', ''offset'', ''sort_by'', ''sort_dir'']"

record BuildArgs =
  ba_endpoint :: EndpointKey
  ba_page :: int
  ba_pageSize :: int
  ba_sortBy :: "string option"
  ba_sortDir :: "string option"
  ba_filters :: "(string, string) jmap"
  ba_textKeys :: "string list option"
  ba_defaultSort :: "DefaultSort option"

text \<open>One turn of the loop over \<open>Object.entries(args.filters)\<close>.\<close>

definition add_filter :: "string list \<Rightarrow> string \<times> string \<Rightarrow> ServerGridParams \<Rightarrow> ServerGridParams" where
  "add_filter textKeys kv params =
     (if fst kv \<in> set RESERVED then params
      else if snd kv = [] then params
      else if snd kv = SELECT_SENTINEL \<and> fst kv \<notin> set textKeys then params
      else jm_set (fst kv) (PStr (snd kv)) params)"

definition buildParams :: "BuildArgs \<Rightarrow> ServerGridParams" where
  "buildParams args =
     (let s = resolveSort (ba_endpoint args) (ba_sortBy args) (ba_sortDir args) (ba_defaultSort args);
          textKeys = nullish (ba_textKeys args) [];
          params = [(''limit'', PNum (ba_pageSize args)),
                    (''offset'', PNum (ba_page args * ba_pageSize args)),
                    (''sort_by'', PStr (sort_by s)),
                    (''sort_dir'', PStr (show_dir (sort_dir s)))]
      in fold (add_filter textKeys) (ba_filters args) params)"

subsection \<open>Facts about sorting\<close>

lemma whitelist_wf: "default_field (whitelistFor e) \<in> set (sortable (whitelistFor e))"
  by (cases e) simp_all

lemma whitelist_nonempty: "[] \<notin> set (sortable (whitelistFor e))"
  by (cases e) simp_all

lemma read_show_dir [simp]: "read_dir (Some (show_dir d)) = Some d"
  by (cases d) (simp_all add: read_dir_def show_dir_def)

lemma resolveSort_sort_by: "isSortable e (sort_by (resolveSort e sb sd def))"
  using whitelist_wf [of e]
  by (auto simp: resolveSort_def isSortable_def Let_def split: option.splits)

lemma resolveSort_accepts:
  "isSortable e f \<Longrightarrow>
   resolveSort e (Some f) (Some (show_dir d)) def = \<lparr>sort_by = f, sort_dir = d\<rparr>"
  using whitelist_nonempty [of e] by (auto simp: resolveSort_def isSortable_def Let_def)

subsection \<open>Facts about the filter loop\<close>

definition sends_filter :: "string list \<Rightarrow> string \<Rightarrow> string \<Rightarrow> bool" where
  "sends_filter textKeys k v \<longleftrightarrow>
     k \<notin> set RESERVED \<and> v \<noteq> [] \<and> (v = SELECT_SENTINEL \<longrightarrow> k \<in> set textKeys)"

lemma add_filter_eq:
  "add_filter tk (k, v) p = (if sends_filter tk k v then jm_set k (PStr v) p else p)"
  by (simp add: add_filter_def sends_filter_def)

lemma get_add_filters:
  assumes "jm_wf fs"
  shows "jm_get (fold (add_filter tk) fs p) k =
    (case jm_get fs k of
       Some v \<Rightarrow> if sends_filter tk k v then Some (PStr v) else jm_get p k
     | None \<Rightarrow> jm_get p k)"
  using assms
proof (induction fs arbitrary: p)
  case Nil
  then show ?case by simp
next
  case (Cons kv fs)
  obtain k' v where kv: "kv = (k', v)" by (cases kv)
  have "jm_get fs k' = None" and wf: "jm_wf fs"
    using Cons.prems by (auto simp: kv jm_wf_def intro: jm_get_absent)
  with Cons.IH [OF wf] show ?case
    by (cases "k' = k") (simp_all add: kv add_filter_eq split: option.splits)
qed

lemma reserved_not_sent: "k \<in> set RESERVED \<Longrightarrow> \<not> sends_filter tk k v"
  by (simp add: sends_filter_def)

subsection \<open>Properties\<close>

text \<open>
  Whatever sort the URL carries and whatever default a page declares, the request names a
  field on the endpoint's whitelist, so an unknown \<open>sort_by\<close> never leaves the browser; and the
  resolution is idempotent, which is what lets the hook resolve the sort once for display and a
  second time inside \<open>buildParams\<close>.
\<close>

theorem resolveSort_safe_idempotent:
  "isSortable endpoint (sort_by (resolveSort endpoint sortBy sortDir defaultSort)) \<and>
   (let r = resolveSort endpoint sortBy sortDir defaultSort
    in resolveSort endpoint (Some (sort_by r)) (Some (show_dir (sort_dir r))) defaultSort = r)"
  by (simp add: Let_def resolveSort_sort_by resolveSort_accepts)

text \<open>
  The parameters of a request are exactly these: \<open>limit\<close>, \<open>offset\<close>, \<open>sort_by\<close> and \<open>sort_dir\<close> hold
  the resolved page and sort even if a filter has one of these names; any other name is present
  exactly when its filter is set to a non-empty value that is not the selects' sentinel, where a
  free-text key is allowed to search for the word \<open>all\<close>.
\<close>

theorem buildParams_spec:
  assumes "jm_wf (ba_filters args)"
  shows "jm_get (buildParams args) k =
    (let s = resolveSort (ba_endpoint args) (ba_sortBy args) (ba_sortDir args) (ba_defaultSort args) in
     if k = ''limit'' then Some (PNum (ba_pageSize args))
     else if k = ''offset'' then Some (PNum (ba_page args * ba_pageSize args))
     else if k = ''sort_by'' then Some (PStr (sort_by s))
     else if k = ''sort_dir'' then Some (PStr (show_dir (sort_dir s)))
     else case jm_get (ba_filters args) k of
         None \<Rightarrow> None
       | Some v \<Rightarrow> if v \<noteq> [] \<and> (v \<noteq> SELECT_SENTINEL \<or> k \<in> set (nullish (ba_textKeys args) []))
                  then Some (PStr v) else None)"
proof -
  let ?s = "resolveSort (ba_endpoint args) (ba_sortBy args) (ba_sortDir args) (ba_defaultSort args)"
  let ?base = "[(''limit'', PNum (ba_pageSize args)), (''offset'', PNum (ba_page args * ba_pageSize args)),
     (''sort_by'', PStr (sort_by ?s)), (''sort_dir'', PStr (show_dir (sort_dir ?s)))]"
  let ?tk = "nullish (ba_textKeys args) []"
  have get: "jm_get (buildParams args) k =
      (case jm_get (ba_filters args) k of
         Some v \<Rightarrow> if sends_filter ?tk k v then Some (PStr v) else jm_get ?base k
       | None \<Rightarrow> jm_get ?base k)"
    unfolding buildParams_def Let_def by (rule get_add_filters [OF assms])
  show ?thesis
  proof (cases "k \<in> set RESERVED")
    case True
    then have "jm_get (buildParams args) k = jm_get ?base k"
      by (simp only: get reserved_not_sent if_False split: option.split) simp
    with True show ?thesis by (auto simp: RESERVED_def Let_def)
  next
    case False
    then have "jm_get ?base k = None" by (auto simp: RESERVED_def)
    then have "jm_get (buildParams args) k =
        (case jm_get (ba_filters args) k of
           None \<Rightarrow> None
         | Some v \<Rightarrow> if v \<noteq> [] \<and> (v \<noteq> SELECT_SENTINEL \<or> k \<in> set ?tk) then Some (PStr v) else None)"
      using False by (auto simp: get sends_filter_def split: option.splits)
    with False show ?thesis by (auto simp: RESERVED_def Let_def)
  qed
qed

theorem buildParams_spec_witness:
  "jm_get (buildParams \<lparr>ba_endpoint = EP_bookings, ba_page = 2, ba_pageSize = 25, ba_sortBy = None,
      ba_sortDir = None, ba_filters = [(''search'', ''all''), (''status'', ''all''), (''limit'', ''9'')],
      ba_textKeys = Some [''search''], ba_defaultSort = None\<rparr>) ''search'' = Some (PStr ''all'')"
  by (subst buildParams_spec) (simp_all add: jm_wf_def jm_get_def Let_def)

end
