(* ===== verification/UrlParams.thy ===== *)
theory UrlParams
  imports JsString
begin

text \<open>
  \<open>URLSearchParams\<close> of the JavaScript standard library, as far as \<open>useServerGrid\<close> and
  \<open>useUrlTab\<close> use it: an ordered list of name/value pairs with \<open>get\<close>, \<open>set\<close>, \<open>delete\<close> and
  \<open>toString\<close>, and the parser that reads the query string back. The locale \<open>query_codec\<close> is what
  the hooks rely on: writing the parameters to the address bar and reading them again changes
  nothing, so that comparing the written strings is comparing the parameters.
\<close>

type_synonym params = "(string \<times> string) list"

definition usp_get :: "params \<Rightarrow> string \<Rightarrow> string option" where
  "usp_get ps k = map_of ps k"

definition usp_delete :: "string \<Rightarrow> params \<Rightarrow> params" where
  "usp_delete k ps = filter (\<lambda>kv. fst kv \<noteq> k) ps"

fun usp_set :: "string \<Rightarrow> string \<Rightarrow> params \<Rightarrow> params" where
  "usp_set k v [] = [(k, v)]"
| "usp_set k v ((k', v') # ps) =
     (if k' = k then (k, v) # usp_delete k ps else (k', v') # usp_set k v ps)"

lemma usp_get_Nil [simp]: "usp_get [] k = None"
  by (simp add: usp_get_def)

lemma usp_get_delete [simp]: "usp_get (usp_delete k ps) k' = (if k' = k then None else usp_get ps k')"
  by (induction ps) (auto simp: usp_get_def usp_delete_def)

lemma usp_get_set [simp]: "usp_get (usp_set k v ps) k' = (if k' = k then Some v else usp_get ps k')"
proof (induction ps)
  case Nil
  then show ?case by (simp add: usp_get_def)
next
  case (Cons p ps)
  moreover have "k' \<noteq> k \<Longrightarrow> map_of (usp_delete k ps) k' = map_of ps k'"
    using usp_get_delete [of k ps k'] by (simp add: usp_get_def)
  ultimately show ?case by (cases p) (auto simp: usp_get_def)
qed

subsection \<open>Percent encoding\<close>

definition url_safe :: "char \<Rightarrow> bool" where
  "url_safe c \<longleftrightarrow>
     is_digit c \<or> (65 \<le> (of_char c :: nat) \<and> (of_char c :: nat) \<le> 90) \<or>
     (97 \<le> (of_char c :: nat) \<and> (of_char c :: nat) \<le> 122) \<or>
     c = CHR ''*'' \<or> c = CHR ''-'' \<or> c = CHR ''.'' \<or> c = CHR ''_''"

definition hex_char :: "nat \<Rightarrow> char" where
  "hex_char d = (if d < 10 then char_of (d + 48) else char_of (d + 55))"

definition encode_char :: "char \<Rightarrow> string" where
  "encode_char c =
     (if url_safe c then [c]
      else if c = CHR '' '' then ''+''
      else [CHR ''%'', hex_char (of_char c div 16), hex_char (of_char c mod 16)])"

definition url_encode :: "string \<Rightarrow> string" where
  "url_encode s = concat (map encode_char s)"

definition plus_to_space :: "string \<Rightarrow> string" where
  "plus_to_space s = map (\<lambda>c. if c = CHR ''+'' then CHR '' '' else c) s"

fun pct_decode :: "string \<Rightarrow> string" where
  "pct_decode [] = []"
| "pct_decode (c # s) =
     (if c \<noteq> CHR ''%'' then c # pct_decode s
      else (case s of
              a # b # t \<Rightarrow>
                (case (radix_digit 16 a, radix_digit 16 b) of
                   (Some x, Some y) \<Rightarrow> char_of (16 * x + y) # pct_decode t
                 | _ \<Rightarrow> c # pct_decode s)
            | _ \<Rightarrow> c # pct_decode s))"

definition url_decode :: "string \<Rightarrow> string" where
  "url_decode s = pct_decode (plus_to_space s)"

lemma less_16_cases: "d < 16 \<Longrightarrow> d \<in> {0, 1, 2, 3, 4, 5, 6, 7, 8, 9, 10, 11, 12, 13, 14, 15 :: nat}"
  by (simp, presburger)

lemma of_hex_char: "d < 16 \<Longrightarrow> (of_char (hex_char d) :: nat) = (if d < 10 then d + 48 else d + 55)"
  by (simp add: hex_char_def)

lemma radix_digit_hex_char: "d < 16 \<Longrightarrow> radix_digit 16 (hex_char d) = Some d"
  by (drule less_16_cases)
     (auto simp: radix_digit_def hex_char_def is_digit_def digit_val_def lower_char_def)

lemma hex_char_plain: "d < 16 \<Longrightarrow> hex_char d \<noteq> CHR ''+'' \<and> hex_char d \<noteq> CHR ''&'' \<and> hex_char d \<noteq> CHR ''=''"
  using of_hex_char [of d] by (auto split: if_splits)

lemma url_safe_plain: "url_safe c \<Longrightarrow>
  c \<noteq> CHR ''+'' \<and> c \<noteq> CHR ''%'' \<and> c \<noteq> CHR ''&'' \<and> c \<noteq> CHR ''='' \<and> c \<noteq> CHR '' ''"
  by (auto simp: url_safe_def is_digit_def)

lemma of_char_less: "(of_char c :: nat) < 256"
  using of_char_mod_256 [of c, where 'a = nat] by (metis mod_less_divisor zero_less_numeral)

lemma of_char_div_16: "of_char c div 16 < (16 :: nat)"
  by (rule less_mult_imp_div_less) (use of_char_less [of c] in simp)

lemma encode_char_plain: "d \<in> set (encode_char c) \<Longrightarrow> d \<noteq> CHR ''&'' \<and> d \<noteq> CHR ''=''"
proof -
  have "of_char c div 16 < (16 :: nat)" by (rule of_char_div_16)
  then show "d \<in> set (encode_char c) \<Longrightarrow> ?thesis"
    using hex_char_plain [of "of_char c div 16"] hex_char_plain [of "of_char c mod 16"]
      url_safe_plain [of c]
    by (auto simp: encode_char_def split: if_splits)
qed

lemma url_encode_plain: "d \<in> set (url_encode s) \<Longrightarrow> d \<noteq> CHR ''&'' \<and> d \<noteq> CHR ''=''"
  by (auto simp: url_encode_def dest: encode_char_plain)

lemma decode_encode_char: "pct_decode (plus_to_space (encode_char c) @ t) = c # pct_decode t"
proof -
  have d: "of_char c div 16 < (16 :: nat)" "of_char c mod 16 < (16 :: nat)"
    by (simp_all add: of_char_div_16)
  have p: "plus_to_space [CHR ''%'', hex_char (of_char c div 16), hex_char (of_char c mod 16)]
      = [CHR ''%'', hex_char (of_char c div 16), hex_char (of_char c mod 16)]"
    using hex_char_plain [OF d(1)] hex_char_plain [OF d(2)] by (simp add: plus_to_space_def)
  have "char_of (16 * (of_char c div 16) + of_char c mod 16 :: nat) = c"
    by (simp only: mult_div_mod_eq char_of_char)
  then show ?thesis
    using url_safe_plain [of c] p radix_digit_hex_char [OF d(1)] radix_digit_hex_char [OF d(2)]
    by (auto simp: encode_char_def plus_to_space_def)
qed

lemma url_decode_encode [simp]: "url_decode (url_encode s) = s"
proof (induction s)
  case Nil
  then show ?case by (simp add: url_decode_def url_encode_def plus_to_space_def)
next
  case (Cons c s)
  have "plus_to_space (url_encode (c # s)) = plus_to_space (encode_char c) @ plus_to_space (url_encode s)"
    by (simp add: url_encode_def plus_to_space_def)
  with Cons show ?case by (simp add: url_decode_def decode_encode_char)
qed

subsection \<open>\<open>toString\<close> and the parser\<close>

definition pair_string :: "string \<times> string \<Rightarrow> string" where
  "pair_string kv = url_encode (fst kv) @ ''='' @ url_encode (snd kv)"

definition usp_toString :: "params \<Rightarrow> string" where
  "usp_toString ps = js_join ''&'' (map pair_string ps)"

definition parse_pair :: "string \<Rightarrow> string \<times> string" where
  "parse_pair w =
     (url_decode (takeWhile (\<lambda>c. c \<noteq> CHR ''='') w), url_decode (tl (dropWhile (\<lambda>c. c \<noteq> CHR ''='') w)))"

definition usp_parse :: "string \<Rightarrow> params" where
  "usp_parse q = map parse_pair (filter (\<lambda>w. w \<noteq> []) (js_split (CHR ''&'') q))"

lemma parse_pair_string [simp]: "parse_pair (pair_string kv) = kv"
proof -
  have "CHR ''='' \<notin> set (url_encode (fst kv))" using url_encode_plain by blast
  then have "takeWhile (\<lambda>c. c \<noteq> CHR ''='') (pair_string kv) = url_encode (fst kv)"
    "dropWhile (\<lambda>c. c \<noteq> CHR ''='') (pair_string kv) = CHR ''='' # url_encode (snd kv)"
    by (simp_all add: pair_string_def takeWhile_append takeWhile_eq_all_conv [THEN iffD2]
        dropWhile_append)
       (metis takeWhile_append2 takeWhile.simps(2) append.right_neutral)?
  then show ?thesis by (simp add: parse_pair_def)
qed

locale query_codec =
  fixes to_query :: "params \<Rightarrow> string"
    and of_query :: "string \<Rightarrow> params"
  assumes of_to_query: "of_query (to_query ps) = ps"
begin

lemma to_query_inject: "to_query ps = to_query qs \<longleftrightarrow> ps = qs"
  by (metis of_to_query)

end

lemma usp_parse_toString: "usp_parse (usp_toString ps) = ps"
proof (cases "ps = []")
  case True
  then show ?thesis by (simp add: usp_parse_def usp_toString_def)
next
  case False
  have "\<forall>w \<in> set (map pair_string ps). CHR ''&'' \<notin> set w"
    using url_encode_plain by (fastforce simp: pair_string_def)
  with False have "js_split (CHR ''&'') (usp_toString ps) = map pair_string ps"
    by (simp add: usp_toString_def js_split_join)
  moreover have "filter (\<lambda>w. w \<noteq> []) (map pair_string ps) = map pair_string ps"
    by (simp add: filter_id_conv pair_string_def)
  ultimately show ?thesis
    by (simp add: usp_parse_def map_idI)
qed

interpretation usp: query_codec usp_toString usp_parse
  by unfold_locales (rule usp_parse_toString)

end
