(* ===== verification/ServerGrid.thy ===== *)
theory ServerGrid
  imports GridParams UrlParams
begin

text \<open>
  \<open>hooks/useServerGrid.ts\<close>: a data grid driven from the URL. The state holds the query string of
  the router (\<open>loc\<close>), the query string whose render was committed last (\<open>seen\<close>), the hook's refs
  (\<open>searchParamsRef\<close>, \<open>patchedSearchRef\<close>), the drafts of the debounced text boxes, the pending
  debounce timers, the refetch nonce, the dependencies of the last run of the fetch effect and
  of the clamp effect, and the requests issued so far with their abort flags.

  An event is a call of one of the hook's callbacks, a timer that comes due, a navigation that the
  hook did not cause, or a commit: React renders with the current location and runs the effects
  in the order of the source (reconcile the drafts, fetch, clamp the page). Between two commits any
  number of other events may happen, which is where the source's refs matter.
\<close>

subsection \<open>Reading the URL\<close>

definition MAX_SAFE_INTEGER :: int where
  "MAX_SAFE_INTEGER = 9007199254740991"

definition DEFAULT_PAGE_SIZE :: int where
  "DEFAULT_PAGE_SIZE = 25"

definition clampInt :: "string option \<Rightarrow> int \<Rightarrow> int \<Rightarrow> int \<Rightarrow> int" where
  "clampInt raw fallback lo hi =
     (case raw of
        None \<Rightarrow> fallback
      | Some s \<Rightarrow> (case js_Number s of
            None \<Rightarrow> fallback
          | Some n \<Rightarrow> if lo \<le> n \<and> n \<le> hi then n else fallback))"

definition ALLOWED_PAGE_SIZES :: "int list" where
  "ALLOWED_PAGE_SIZES = [10, 25, 50, 100]"

definition clampPageSize :: "string option \<Rightarrow> int" where
  "clampPageSize raw =
     (let n = clampInt raw DEFAULT_PAGE_SIZE 1 100
      in if n \<in> set ALLOWED_PAGE_SIZES then n else DEFAULT_PAGE_SIZE)"

record grid_options =
  go_endpoint :: EndpointKey
  go_filterKeys :: "string list"
  go_debounceKeys :: "string list"
  go_defaultSort :: "DefaultSort option"

definition url_page :: "params \<Rightarrow> int" where
  "url_page sp = clampInt (usp_get sp ''page'') 0 0 MAX_SAFE_INTEGER"

definition url_pageSize :: "params \<Rightarrow> int" where
  "url_pageSize sp = clampPageSize (usp_get sp ''page_size'')"

definition url_sort :: "grid_options \<Rightarrow> params \<Rightarrow> ResolvedSort" where
  "url_sort opts sp =
     resolveSort (go_endpoint opts) (usp_get sp ''sort_by'') (usp_get sp ''sort_dir'') (go_defaultSort opts)"

definition url_filters :: "grid_options \<Rightarrow> params \<Rightarrow> (string, string) jmap" where
  "url_filters opts sp =
     fold (\<lambda>key out. case usp_get sp key of None \<Rightarrow> out | Some v \<Rightarrow> jm_set key v out)
       (go_filterKeys opts) []"

definition url_params :: "grid_options \<Rightarrow> params \<Rightarrow> ServerGridParams" where
  "url_params opts sp =
     (let sort = url_sort opts sp in
      buildParams \<lparr>ba_endpoint = go_endpoint opts, ba_page = url_page sp,
        ba_pageSize = url_pageSize sp, ba_sortBy = Some (sort_by sort),
        ba_sortDir = Some (show_dir (sort_dir sort)), ba_filters = url_filters opts sp,
        ba_textKeys = Some (go_debounceKeys opts), ba_defaultSort = go_defaultSort opts\<rparr>)"

text \<open>The keys that the development-mode warning reports.\<close>

definition debounce_missing :: "grid_options \<Rightarrow> string list" where
  "debounce_missing opts = filter (\<lambda>k. k \<notin> set (go_filterKeys opts)) (go_debounceKeys opts)"

subsection \<open>State, callbacks and effects\<close>

record grid =
  loc :: string
  seen :: string
  sp_ref :: params
  patched :: "string option"
  drafts :: "(string, string) jmap"
  timers :: "(string, string) jmap"
  nonce :: nat
  fetched :: "(ServerGridParams \<times> nat) option"
  requests :: "(ServerGridParams \<times> bool) list"
  clamped :: "(int option \<times> bool \<times> int \<times> int) option"

definition mount :: "string \<Rightarrow> grid" where
  "mount q = \<lparr>loc = q, seen = q, sp_ref = usp_parse q, patched = None, drafts = [], timers = [],
     nonce = 0, fetched = None, requests = [], clamped = None\<rparr>"

definition apply_change :: "string \<times> string option \<Rightarrow> params \<Rightarrow> params" where
  "apply_change kv sp = (case snd kv of None \<Rightarrow> usp_delete (fst kv) sp | Some v \<Rightarrow> usp_set (fst kv) v sp)"

definition patch :: "(string \<times> string option) list \<Rightarrow> bool \<Rightarrow> grid \<Rightarrow> grid" where
  "patch changes resetPage g =
     (let next = fold apply_change changes (sp_ref g);
          next = (if resetPage then usp_delete ''page'' next else next)
      in g\<lparr>sp_ref := next, patched := Some (usp_toString next), loc := usp_toString next\<rparr>)"

definition setFilter :: "grid_options \<Rightarrow> string \<Rightarrow> string \<Rightarrow> grid \<Rightarrow> grid" where
  "setFilter opts key v g =
     (if key \<notin> set (go_debounceKeys opts) then patch [(key, Some v)] True g
      else g\<lparr>drafts := jm_set key v (drafts g), timers := jm_set key v (timers g)\<rparr>)"

definition timer_fires :: "string \<Rightarrow> grid \<Rightarrow> grid" where
  "timer_fires key g =
     (case jm_get (timers g) key of
        None \<Rightarrow> g
      | Some v \<Rightarrow> patch [(key, Some v)] True (g\<lparr>timers := jm_delete key (timers g)\<rparr>))"

definition onPaginationModelChange :: "int \<Rightarrow> int \<Rightarrow> grid \<Rightarrow> grid" where
  "onPaginationModelChange p ps g =
     patch [(''page'', Some (show_int p)), (''page_size'', Some (show_int ps))] False g"

definition onSortModelChange :: "grid_options \<Rightarrow> (string \<times> SortDir option) option \<Rightarrow> grid \<Rightarrow> grid" where
  "onSortModelChange opts first g =
     (let r = resolveSort (go_endpoint opts) (map_option fst first)
                (case first of None \<Rightarrow> None | Some fd \<Rightarrow> map_option show_dir (snd fd)) (go_defaultSort opts)
      in patch [(''sort_by'', Some (sort_by r)), (''sort_dir'', Some (show_dir (sort_dir r)))] True g)"

definition refetch :: "grid \<Rightarrow> grid" where
  "refetch g = g\<lparr>nonce := nonce g + 1\<rparr>"

definition reconcile :: "grid_options \<Rightarrow> params \<Rightarrow> grid \<Rightarrow> grid" where
  "reconcile opts sp g =
     (let wasSelfPatched = (patched g = Some (usp_toString sp)); g = g\<lparr>patched := None\<rparr> in
      if drafts g = [] then g
      else if \<not> wasSelfPatched then
        g\<lparr>timers := filter (\<lambda>kv. \<not> jm_has (drafts g) (fst kv)) (timers g), drafts := []\<rparr>
      else g\<lparr>drafts := filter (\<lambda>kv. jm_get (url_filters opts sp) (fst kv) \<noteq> Some (snd kv)) (drafts g)\<rparr>)"

fun abort_last :: "('r \<times> bool) list \<Rightarrow> ('r \<times> bool) list" where
  "abort_last [] = []"
| "abort_last [(r, _)] = [(r, True)]"
| "abort_last (r # q # rs) = r # abort_last (q # rs)"

definition fetch_effect :: "grid_options \<Rightarrow> params \<Rightarrow> grid \<Rightarrow> grid" where
  "fetch_effect opts sp g =
     (let p = url_params opts sp in
      if fetched g = Some (p, nonce g) then g
      else g\<lparr>fetched := Some (p, nonce g), requests := abort_last (requests g) @ [(p, False)]\<rparr>)"

definition last_page :: "int \<Rightarrow> int \<Rightarrow> int" where
  "last_page rowCount pageSize = max 0 ((rowCount + pageSize - 1) div pageSize - 1)"

definition clamp_effect :: "int option \<Rightarrow> bool \<Rightarrow> params \<Rightarrow> grid \<Rightarrow> grid" where
  "clamp_effect rowCount totalPending sp g =
     (let deps = (rowCount, totalPending, url_page sp, url_pageSize sp) in
      if clamped g = Some deps then g
      else let g = g\<lparr>clamped := Some deps\<rparr> in
        case rowCount of
          None \<Rightarrow> g
        | Some t \<Rightarrow>
            if totalPending \<or> t = 0 then g
            else let lastPage = last_page t (url_pageSize sp) in
              if lastPage < url_page sp then patch [(''page'', Some (show_int lastPage))] False g else g)"

definition commit :: "grid_options \<Rightarrow> int option \<Rightarrow> bool \<Rightarrow> grid \<Rightarrow> grid" where
  "commit opts rowCount totalPending g =
     (let sp = usp_parse (loc g);
          changed = (loc g \<noteq> seen g);
          g = g\<lparr>sp_ref := sp, seen := loc g\<rparr>;
          g = (if changed then reconcile opts sp g else g);
          g = fetch_effect opts sp g
      in clamp_effect rowCount totalPending sp g)"

definition displayFilters :: "grid_options \<Rightarrow> grid \<Rightarrow> (string, string) jmap" where
  "displayFilters opts g =
     fold (\<lambda>kv out. jm_set (fst kv) (snd kv) out) (drafts g) (url_filters opts (usp_parse (seen g)))"

definition unmount :: "grid \<Rightarrow> grid" where
  "unmount g = g\<lparr>requests := abort_last (requests g), timers := []\<rparr>"

datatype grid_event =
  SetFilter string string
| TimerFires string
| Navigate string
| PageModel int int
| SortModel "(string \<times> SortDir option) option"
| Refetch
| Commit "int option" bool

fun grid_step :: "grid_options \<Rightarrow> grid_event \<Rightarrow> grid \<Rightarrow> grid" where
  "grid_step opts (SetFilter k v) g = setFilter opts k v g"
| "grid_step opts (TimerFires k) g = timer_fires k g"
| "grid_step opts (Navigate q) g = g\<lparr>loc := q\<rparr>"
| "grid_step opts (PageModel p ps) g = onPaginationModelChange p ps g"
| "grid_step opts (SortModel m) g = onSortModelChange opts m g"
| "grid_step opts Refetch g = refetch g"
| "grid_step opts (Commit t pending) g = commit opts t pending g"

definition grid_run :: "grid_options \<Rightarrow> grid_event list \<Rightarrow> grid \<Rightarrow> grid" where
  "grid_run opts es g = fold (grid_step opts) es g"

end
