(* ===== verification/ServerGridFacts.thy ===== *)
theory ServerGridFacts
  imports ServerGrid
begin

text \<open>
  What the grid hook of theory ServerGrid guarantees. The first groups of lemmas say what a
  \<open>patch\<close> does to the URL and what each callback leaves alone; then come the request discipline
  (only the newest request is live), the round trip of the page through the URL, the page clamp
  and the life of a draft, with the properties next to their lemmas.
\<close>

subsection \<open>Reading and patching the URL\<close>

lemma usp_get_apply_change [simp]:
  "usp_get (apply_change kv sp) k = (if k = fst kv then snd kv else usp_get sp k)"
  by (simp add: apply_change_def split: option.splits)

lemma url_filters_fold:
  "jm_get (fold (\<lambda>key out. case usp_get sp key of None \<Rightarrow> out | Some v \<Rightarrow> jm_set key v out) ks m) k =
     (if k \<in> set ks \<and> usp_get sp k \<noteq> None then usp_get sp k else jm_get m k)"
  by (induction ks arbitrary: m) (auto split: option.splits)

lemma get_url_filters:
  "jm_get (url_filters opts sp) k = (if k \<in> set (go_filterKeys opts) then usp_get sp k else None)"
  by (auto simp: url_filters_def url_filters_fold)

lemma url_filters_wf [simp]: "jm_wf (url_filters opts sp)"
proof -
  have "jm_wf m \<Longrightarrow> jm_wf (fold (\<lambda>key out. case usp_get sp key of None \<Rightarrow> out
          | Some v \<Rightarrow> jm_set key v out) ks m)" for ks m
    by (induction ks arbitrary: m) (auto split: option.splits)
  then show ?thesis by (simp add: url_filters_def)
qed

lemma patch_loc: "loc (patch cs r g) = usp_toString (sp_ref (patch cs r g))"
  by (simp add: patch_def Let_def)

lemma patch_patched: "patched (patch cs r g) = Some (loc (patch cs r g))"
  by (simp add: patch_def Let_def)

lemma patch_parse [simp]: "usp_parse (loc (patch cs r g)) = sp_ref (patch cs r g)"
  by (simp add: patch_loc usp_parse_toString)

lemma patch_sp_ref: "sp_ref (patch cs r g) =
    (let next = fold apply_change cs (sp_ref g) in if r then usp_delete ''page'' next else next)"
  by (simp add: patch_def Let_def)

lemma patch_frame [simp]:
  "seen (patch cs r g) = seen g" "drafts (patch cs r g) = drafts g"
  "timers (patch cs r g) = timers g" "nonce (patch cs r g) = nonce g"
  "fetched (patch cs r g) = fetched g" "requests (patch cs r g) = requests g"
  by (simp_all add: patch_def Let_def)

lemma clamp_effect_frame [simp]:
  "seen (clamp_effect t p sp g) = seen g" "drafts (clamp_effect t p sp g) = drafts g"
  "timers (clamp_effect t p sp g) = timers g" "nonce (clamp_effect t p sp g) = nonce g"
  "fetched (clamp_effect t p sp g) = fetched g" "requests (clamp_effect t p sp g) = requests g"
  by (simp_all add: clamp_effect_def Let_def split: option.splits)

lemma reconcile_frame [simp]:
  "loc (reconcile opts sp g) = loc g" "seen (reconcile opts sp g) = seen g"
  "sp_ref (reconcile opts sp g) = sp_ref g" "nonce (reconcile opts sp g) = nonce g"
  "fetched (reconcile opts sp g) = fetched g" "requests (reconcile opts sp g) = requests g"
  by (simp_all add: reconcile_def Let_def)

lemma fetch_effect_frame [simp]:
  "loc (fetch_effect opts sp g) = loc g" "seen (fetch_effect opts sp g) = seen g"
  "sp_ref (fetch_effect opts sp g) = sp_ref g" "drafts (fetch_effect opts sp g) = drafts g"
  "timers (fetch_effect opts sp g) = timers g" "nonce (fetch_effect opts sp g) = nonce g"
  by (simp_all add: fetch_effect_def Let_def)

lemma commit_seen [simp]: "seen (commit opts t p g) = loc g"
  by (simp add: commit_def Let_def)

subsection \<open>The request discipline\<close>

lemma abort_last_snoc [simp]: "abort_last (rs @ [(r, a)]) = rs @ [(r, True)]"
proof (induction rs)
  case Nil
  then show ?case by simp
next
  case (Cons x rs)
  then show ?case by (cases x; cases rs) simp_all
qed

definition requests_inv :: "grid \<Rightarrow> bool" where
  "requests_inv g \<longleftrightarrow>
     (case fetched g of
        None \<Rightarrow> requests g = []
      | Some (p, n) \<Rightarrow> \<exists>rs. requests g = rs @ [(p, False)] \<and> (\<forall>r \<in> set rs. snd r))"

lemma requests_inv_cong:
  "fetched g' = fetched g \<Longrightarrow> requests g' = requests g \<Longrightarrow> requests_inv g' = requests_inv g"
  by (simp add: requests_inv_def split: option.split)

lemma requests_inv_frame [simp]:
  "requests_inv (g\<lparr>loc := q\<rparr>) = requests_inv g"
  "requests_inv (g\<lparr>drafts := d\<rparr>) = requests_inv g"
  "requests_inv (g\<lparr>timers := t\<rparr>) = requests_inv g"
  "requests_inv (g\<lparr>nonce := n\<rparr>) = requests_inv g"
  "requests_inv (g\<lparr>sp_ref := sp\<rparr>) = requests_inv g"
  "requests_inv (g\<lparr>seen := q\<rparr>) = requests_inv g"
  "requests_inv (reconcile opts sp g) = requests_inv g"
  "requests_inv (clamp_effect rc p sp g) = requests_inv g"
  "requests_inv (patch cs r g) = requests_inv g"
  by (rule requests_inv_cong; simp)+

lemma requests_inv_fetch: "requests_inv g \<Longrightarrow> requests_inv (fetch_effect opts sp g)"
  unfolding requests_inv_def
  by (auto simp: fetch_effect_def Let_def split: option.splits)

lemma requests_inv_commit: "requests_inv g \<Longrightarrow> requests_inv (commit opts t p g)"
  by (simp add: commit_def Let_def requests_inv_fetch)

lemma requests_inv_step: "requests_inv g \<Longrightarrow> requests_inv (grid_step opts e g)"
  by (cases e) (simp_all add: requests_inv_commit setFilter_def timer_fires_def refetch_def
      onPaginationModelChange_def onSortModelChange_def Let_def split: option.split)

lemma requests_inv_run: "requests_inv g \<Longrightarrow> requests_inv (grid_run opts es g)"
  unfolding grid_run_def by (induction es arbitrary: g) (simp_all add: requests_inv_step)

lemma requests_inv_mount [simp]: "requests_inv (mount q)"
  by (simp add: requests_inv_def mount_def)

lemma fetched_commit: "fetched (commit opts t p g) = Some (url_params opts (usp_parse (loc g)), nonce g)"
  by (simp add: commit_def Let_def fetch_effect_def)

text \<open>
  Whatever sequence of keystrokes, timers, clicks, refetches, external navigations and renders
  the hook goes through, right after a render exactly one list request is live, the newest one,
  it asks for exactly what the rendered URL says, and every request before it has been aborted.
\<close>

theorem grid_live_request:
  "\<exists>rs. requests (commit opts t p (grid_run opts es (mount q)))
          = rs @ [(url_params opts (usp_parse (loc (grid_run opts es (mount q)))), False)] \<and>
        list_all snd rs"
proof -
  have "requests_inv (commit opts t p (grid_run opts es (mount q)))"
    by (intro requests_inv_commit requests_inv_run) simp
  then show ?thesis by (simp add: requests_inv_def fetched_commit list_all_iff)
qed

subsection \<open>Pages: round trip and clamp\<close>

lemma clampInt_show: "0 \<le> n \<Longrightarrow> n \<le> hi \<Longrightarrow> lo \<le> n \<Longrightarrow> clampInt (Some (show_int n)) d lo hi = n"
  by (simp add: clampInt_def js_Number_show_int)

lemma clampInt_range: "lo \<le> d \<Longrightarrow> d \<le> hi \<Longrightarrow> lo \<le> clampInt raw d lo hi \<and> clampInt raw d lo hi \<le> hi"
  by (simp add: clampInt_def split: option.splits)

lemma url_page_range: "0 \<le> url_page sp \<and> url_page sp \<le> MAX_SAFE_INTEGER"
  unfolding url_page_def by (rule clampInt_range) (simp_all add: MAX_SAFE_INTEGER_def)

lemma url_pageSize_allowed: "url_pageSize sp \<in> set ALLOWED_PAGE_SIZES"
  by (simp add: url_pageSize_def clampPageSize_def Let_def DEFAULT_PAGE_SIZE_def ALLOWED_PAGE_SIZES_def)

lemma url_pageSize_pos: "0 < url_pageSize sp"
  using url_pageSize_allowed [of sp] by (auto simp: ALLOWED_PAGE_SIZES_def)

lemma last_page_bounds:
  assumes "0 < t" "0 < ps"
  shows "0 \<le> last_page t ps" "last_page t ps * ps < t" "t \<le> (last_page t ps + 1) * ps" "last_page t ps < t"
proof -
  define q where "q = (t + ps - 1) div ps"
  define r where "r = (t + ps - 1) mod ps"
  have eq: "q * ps + r = t + ps - 1" by (simp add: q_def r_def)
  have r: "0 \<le> r" "r < ps" using assms by (simp_all add: r_def)
  have "1 \<le> q"
  proof (rule ccontr)
    assume "\<not> 1 \<le> q"
    then have "q * ps \<le> 0" using assms by (simp add: mult_nonpos_nonneg)
    with eq r assms show False by simp
  qed
  then have lp: "last_page t ps = q - 1" by (simp add: last_page_def q_def)
  have "(q - 1) * ps = q * ps - ps" by (simp add: algebra_simps)
  with eq r lp \<open>1 \<le> q\<close>
  show "0 \<le> last_page t ps" "last_page t ps * ps < t" "t \<le> (last_page t ps + 1) * ps"
    by simp_all
  moreover from this(1) assms have "last_page t ps * 1 \<le> last_page t ps * ps"
    by (intro mult_left_mono) simp_all
  ultimately show "last_page t ps < t" by simp
qed

text \<open>The dependencies of the clamp effect at the next render.\<close>

definition clamp_deps :: "int option \<Rightarrow> bool \<Rightarrow> params \<Rightarrow> int option \<times> bool \<times> int \<times> int" where
  "clamp_deps rc p sp = (rc, p, url_page sp, url_pageSize sp)"

lemma commit_loc_cases:
  "loc (commit opts rc p g) =
     (let sp = usp_parse (loc g) in
      if clamped g = Some (clamp_deps rc p sp) then loc g
      else case rc of
        None \<Rightarrow> loc g
      | Some t \<Rightarrow>
          if \<not> p \<and> t \<noteq> 0 \<and> last_page t (url_pageSize sp) < url_page sp
          then usp_toString (usp_set ''page'' (show_int (last_page t (url_pageSize sp))) sp)
          else loc g)"
  by (auto simp: commit_def clamp_effect_def clamp_deps_def Let_def patch_def apply_change_def
      fetch_effect_def reconcile_def split: option.split)

lemma usp_get_page_size_set [simp]: "usp_get (usp_set ''page'' v sp) ''page_size'' = usp_get sp ''page_size''"
  by simp

lemma url_pageSize_set_page [simp]: "url_pageSize (usp_set ''page'' v sp) = url_pageSize sp"
  by (simp add: url_pageSize_def)

lemma url_page_set_page:
  "0 \<le> n \<Longrightarrow> n \<le> MAX_SAFE_INTEGER \<Longrightarrow> url_page (usp_set ''page'' (show_int n) sp) = n"
  by (simp add: url_page_def clampInt_show)

text \<open>
  The page and page size that the grid hands to \<open>onPaginationModelChange\<close> are the ones the next
  render reads back from the URL, for every page the URL can express and every page size the
  grid offers.
\<close>

theorem pagination_roundtrip:
  assumes "0 \<le> p" "p \<le> MAX_SAFE_INTEGER" "ps \<in> set ALLOWED_PAGE_SIZES"
  shows "let sp = usp_parse (loc (onPaginationModelChange p ps g))
         in url_page sp = p \<and> url_pageSize sp = ps"
proof -
  let ?sp = "usp_parse (loc (onPaginationModelChange p ps g))"
  have "usp_get ?sp ''page'' = Some (show_int p)" "usp_get ?sp ''page_size'' = Some (show_int ps)"
    by (simp_all add: onPaginationModelChange_def patch_sp_ref Let_def)
  moreover have "1 \<le> ps" "ps \<le> 100" using assms by (auto simp: ALLOWED_PAGE_SIZES_def)
  ultimately show ?thesis
    using assms by (simp add: url_page_def url_pageSize_def clampPageSize_def clampInt_show)
qed

theorem pagination_roundtrip_witness:
  "let sp = usp_parse (loc (onPaginationModelChange 7 50 (mount ''search=a%20b&page=2'')))
   in url_page sp = 7 \<and> url_pageSize sp = 50"
  by (rule pagination_roundtrip) (simp_all add: MAX_SAFE_INTEGER_def ALLOWED_PAGE_SIZES_def)

text \<open>
  When the server's row count is known and positive, a render whose page lies past the end (and
  whose page, size or count is new to the clamp effect) is followed by a render on the last page that has rows, and that second render changes the URL no
  more: the clamp settles in one step instead of looping, and keeps the page size.
\<close>

theorem page_clamp_settles:
  assumes "0 < t" "t \<le> MAX_SAFE_INTEGER"
    and "last_page t (url_pageSize (usp_parse (loc g))) < url_page (usp_parse (loc g))"
    and "clamped g \<noteq> Some (clamp_deps (Some t) False (usp_parse (loc g)))"
  shows "let g1 = commit opts (Some t) False g; sp = usp_parse (loc g1); g2 = commit opts (Some t) False g1
         in url_pageSize sp = url_pageSize (usp_parse (loc g)) \<and>
            url_page sp * url_pageSize sp < t \<and> t \<le> (url_page sp + 1) * url_pageSize sp \<and>
            loc g2 = loc g1"
proof -
  let ?sp = "usp_parse (loc g)"
  let ?n = "last_page t (url_pageSize ?sp)"
  note b = last_page_bounds [OF assms(1) url_pageSize_pos [of ?sp]]
  have loc1: "loc (commit opts (Some t) False g) = usp_toString (usp_set ''page'' (show_int ?n) ?sp)"
    using assms by (simp add: commit_loc_cases Let_def)
  have page1: "url_page (usp_set ''page'' (show_int ?n) ?sp) = ?n"
    using b assms by (intro url_page_set_page) simp_all
  have "loc (commit opts (Some t) False (commit opts (Some t) False g)) = loc (commit opts (Some t) False g)"
    by (subst commit_loc_cases) (simp add: loc1 usp_parse_toString page1 Let_def)
  with b show ?thesis
    by (simp add: Let_def loc1 usp_parse_toString page1)
qed

theorem page_clamp_settles_witness:
  "let opts = \<lparr>go_endpoint = EP_systems, go_filterKeys = [], go_debounceKeys = [], go_defaultSort = None\<rparr>;
       g1 = commit opts (Some 30) False (mount ''page=9''); sp = usp_parse (loc g1);
       g2 = commit opts (Some 30) False g1
   in url_pageSize sp = url_pageSize (usp_parse (loc (mount ''page=9''))) \<and>
      url_page sp * url_pageSize sp < 30 \<and> 30 \<le> (url_page sp + 1) * url_pageSize sp \<and> loc g2 = loc g1"
proof -
  have "last_page 30 (url_pageSize (usp_parse (loc (mount ''page=9''))))
      < url_page (usp_parse (loc (mount ''page=9'')))"
    by code_simp
  then show ?thesis
    unfolding Let_def
    by (intro page_clamp_settles [unfolded Let_def]) (simp_all add: MAX_SAFE_INTEGER_def mount_def)
qed

subsection \<open>Drafts and debounce timers\<close>

lemma usp_get_after_patch:
  "usp_get (sp_ref (patch [(k, Some v)] True g)) k' =
     (if k' = ''page'' then None else if k' = k then Some v else usp_get (sp_ref g) k')"
  by (simp add: patch_sp_ref Let_def)

text \<open>
  Two debounced text boxes that come due in the same tick, with no render between them, both
  reach the URL, and everything else in the URL apart from the reset page stays: the second write
  starts from the first one's result and does not stomp it.
\<close>

theorem debounced_writes_chain:
  assumes "jm_get (timers g) a = Some va" "jm_get (timers g) b = Some vb"
    and "a \<noteq> b" "a \<noteq> ''page''" "b \<noteq> ''page''"
  shows "usp_get (usp_parse (loc (timer_fires b (timer_fires a g)))) k =
    (if k = ''page'' then None else if k = a then Some va else if k = b then Some vb
     else usp_get (sp_ref g) k)"
  using assms by (simp add: timer_fires_def usp_get_after_patch)

theorem debounced_writes_chain_witness:
  "let opts = \<lparr>go_endpoint = EP_releases, go_filterKeys = [''search'', ''notes''],
         go_debounceKeys = [''search'', ''notes''], go_defaultSort = None\<rparr>;
       g = setFilter opts ''notes'' ''n'' (setFilter opts ''search'' ''s'' (mount ''page=3''))
   in usp_get (usp_parse (loc (timer_fires ''notes'' (timer_fires ''search'' g)))) ''search'' = Some ''s''"
  unfolding Let_def
  by (subst debounced_writes_chain [where va = "''s''" and vb = "''n''"]) (simp_all add: setFilter_def)

definition drafts_inv :: "grid \<Rightarrow> bool" where
  "drafts_inv g \<longleftrightarrow>
     jm_wf (drafts g) \<and> jm_wf (timers g) \<and>
     (\<forall>k v w. jm_get (timers g) k = Some v \<longrightarrow> jm_get (drafts g) k = Some w \<longrightarrow> v = w)"

lemma jm_get_filter:
  "jm_wf m \<Longrightarrow> jm_get (filter P m) k =
     (case jm_get m k of None \<Rightarrow> None | Some v \<Rightarrow> if P (k, v) then Some v else None)"
proof (induction m)
  case Nil
  then show ?case by simp
next
  case (Cons kv m)
  obtain k' v where kv: "kv = (k', v)" by (cases kv)
  have "jm_get m k' = None" using Cons.prems by (auto simp: kv jm_wf_def intro: jm_get_absent)
  moreover have "jm_wf m" using Cons.prems by (simp add: jm_wf_def)
  ultimately show ?case using Cons.IH by (cases "k' = k") (auto simp: kv)
qed

lemma jm_wf_filter: "jm_wf m \<Longrightarrow> jm_wf (filter P m)"
  by (simp add: jm_wf_def distinct_map_filter)

lemma jm_get_fold_set:
  "jm_wf d \<Longrightarrow> jm_get (fold (\<lambda>kv out. jm_set (fst kv) (snd kv) out) d m) k =
     (case jm_get d k of None \<Rightarrow> jm_get m k | Some v \<Rightarrow> Some v)"
proof (induction d arbitrary: m)
  case Nil
  then show ?case by simp
next
  case (Cons kv d)
  obtain k' v where kv: "kv = (k', v)" by (cases kv)
  have "jm_get d k' = None" using Cons.prems by (auto simp: kv jm_wf_def intro: jm_get_absent)
  moreover have "jm_wf d" using Cons.prems by (simp add: jm_wf_def)
  ultimately show ?case using Cons.IH by (cases "k' = k") (auto simp: kv split: option.splits)
qed

lemma drafts_inv_frame:
  "drafts g' = drafts g \<Longrightarrow> timers g' = timers g \<Longrightarrow> drafts_inv g' = drafts_inv g"
  by (simp add: drafts_inv_def)

lemma drafts_inv_simps [simp]:
  "drafts_inv (g\<lparr>loc := q\<rparr>) = drafts_inv g"
  "drafts_inv (g\<lparr>nonce := n\<rparr>) = drafts_inv g"
  "drafts_inv (g\<lparr>sp_ref := sp\<rparr>) = drafts_inv g"
  "drafts_inv (g\<lparr>seen := q\<rparr>) = drafts_inv g"
  "drafts_inv (clamp_effect rc p sp g) = drafts_inv g"
  "drafts_inv (fetch_effect opts sp g) = drafts_inv g"
  "drafts_inv (patch cs r g) = drafts_inv g"
  by (rule drafts_inv_frame; simp)+

lemma drafts_inv_reconcile: "drafts_inv g \<Longrightarrow> drafts_inv (reconcile opts sp g)"
  by (auto simp: drafts_inv_def reconcile_def Let_def jm_wf_filter jm_get_filter split: option.splits)

lemma drafts_inv_step: "drafts_inv g \<Longrightarrow> drafts_inv (grid_step opts e g)"
proof (cases e)
  case (SetFilter k v)
  moreover assume "drafts_inv g"
  ultimately show ?thesis
    by (auto simp: setFilter_def) (auto simp: drafts_inv_def)
next
  case (TimerFires k)
  moreover assume "drafts_inv g"
  ultimately show ?thesis
    by (auto simp: timer_fires_def split: option.splits) (auto simp: drafts_inv_def split: if_splits)
qed (simp_all add: commit_def Let_def drafts_inv_reconcile refetch_def
      onPaginationModelChange_def onSortModelChange_def)

lemma drafts_inv_run: "drafts_inv (grid_run opts es (mount q))"
proof -
  have "drafts_inv g \<Longrightarrow> drafts_inv (fold (grid_step opts) es g)" for g
    by (induction es arbitrary: g) (simp_all add: drafts_inv_step)
  moreover have "drafts_inv (mount q)" by (simp add: drafts_inv_def mount_def)
  ultimately show ?thesis by (simp add: grid_run_def)
qed

lemma get_displayFilters:
  "drafts_inv g \<Longrightarrow> jm_get (displayFilters opts g) k =
     (case jm_get (drafts g) k of
        None \<Rightarrow> jm_get (url_filters opts (usp_parse (seen g))) k | Some v \<Rightarrow> Some v)"
  by (simp add: displayFilters_def jm_get_fold_set drafts_inv_def)

lemma commit_drafts:
  "drafts (commit opts rc p g) =
     (if loc g = seen g then drafts g else drafts (reconcile opts (usp_parse (loc g)) g))"
  by (simp add: commit_def Let_def reconcile_def)

lemma commit_timers:
  "timers (commit opts rc p g) =
     (if loc g = seen g then timers g else timers (reconcile opts (usp_parse (loc g)) g))"
  by (simp add: commit_def Let_def reconcile_def)

text \<open>
  C35: text typed into a debounced box is never lost to the hook's own writes: in every reachable
  state, after any \<open>patch\<close> of the URL (a debounce landing for this or another box, a sort, a
  page, a select) and the render that follows, the box still shows exactly the typed text.
\<close>

theorem typing_survives_own_writes:
  assumes "jm_get (drafts (grid_run opts es (mount q))) k = Some w"
  shows "jm_get (displayFilters opts (commit opts rc p (patch cs r (grid_run opts es (mount q))))) k = Some w"
proof -
  let ?g = "grid_run opts es (mount q)"
  let ?h = "patch cs r ?g"
  have inv: "drafts_inv ?g" by (rule drafts_inv_run)
  then have inv': "drafts_inv (commit opts rc p ?h)"
    using drafts_inv_step [of ?h opts "Commit rc p"] by simp
  have "patched ?h = Some (usp_toString (sp_ref ?h))"
    by (simp add: patch_patched patch_loc)
  then have "drafts (commit opts rc p ?h) = drafts ?g \<or>
    drafts (commit opts rc p ?h) =
      filter (\<lambda>kv. jm_get (url_filters opts (sp_ref ?h)) (fst kv) \<noteq> Some (snd kv)) (drafts ?g)"
    by (simp add: commit_drafts reconcile_def Let_def)
  then show ?thesis
    using assms inv get_displayFilters [OF inv', of opts k]
    by (auto simp: jm_get_filter drafts_inv_def split: if_splits)
qed

theorem typing_survives_own_writes_witness:
  "let opts = \<lparr>go_endpoint = EP_releases, go_filterKeys = [''search'', ''status''],
         go_debounceKeys = [''search''], go_defaultSort = None\<rparr>;
       g = grid_run opts [SetFilter ''search'' ''pay''] (mount ''search=p'')
   in jm_get (displayFilters opts (commit opts None False (patch [(''status'', Some ''open'')] True g)))
        ''search'' = Some ''pay''"
  unfolding Let_def
  by (rule typing_survives_own_writes) (simp add: grid_run_def setFilter_def mount_def)

text \<open>
  A navigation that the hook did not cause (back, forward, a pasted link) wins over typing in
  progress: in every reachable state, if the new query string differs from the rendered one and
  from the hook's own last write, the next render drops every draft, cancels the timer of every
  dropped draft and shows exactly the filters of the new URL.
\<close>

theorem external_navigation_abandons_drafts:
  assumes "g = grid_run opts es (mount q0)"
    and "q \<noteq> seen g" "patched g \<noteq> Some (usp_toString (usp_parse q))"
  shows "let g' = commit opts rc p (grid_step opts (Navigate q) g) in
    drafts g' = [] \<and> displayFilters opts g' = url_filters opts (usp_parse q) \<and>
    (\<forall>k. jm_get (drafts g) k \<noteq> None \<longrightarrow> jm_get (timers g') k = None)"
proof -
  have inv: "drafts_inv g" using assms(1) by (simp add: drafts_inv_run)
  let ?h = "g\<lparr>loc := q\<rparr>"
  have "drafts (commit opts rc p ?h) = []"
    using assms(2,3) by (simp add: commit_drafts reconcile_def Let_def)
  moreover have "jm_get (timers (commit opts rc p ?h)) k = None" if "jm_get (drafts g) k \<noteq> None" for k
    using that inv assms(2,3)
    by (auto simp: commit_timers reconcile_def Let_def jm_get_filter drafts_inv_def jm_has_get
        split: option.splits)
  ultimately show ?thesis
    by (simp add: Let_def displayFilters_def)
qed

theorem external_navigation_abandons_drafts_witness:
  "let opts = \<lparr>go_endpoint = EP_releases, go_filterKeys = [''search''],
         go_debounceKeys = [''search''], go_defaultSort = None\<rparr>;
       g = grid_run opts [SetFilter ''search'' ''pay''] (mount ''page=2'');
       g' = commit opts None False (grid_step opts (Navigate ''sort_by=name'') g)
   in drafts g' = [] \<and> displayFilters opts g' = url_filters opts (usp_parse ''sort_by=name'') \<and>
      (\<forall>k. jm_get (drafts g) k \<noteq> None \<longrightarrow> jm_get (timers g') k = None)"
  unfolding Let_def
  by (rule external_navigation_abandons_drafts [unfolded Let_def, OF refl])
     (simp_all add: grid_run_def setFilter_def mount_def)

text \<open>
  The limit of that guarantee. When a draft has converged with the URL while its timer is
  still pending (the user typed a letter and deleted it again, then changed a select), the
  hook's own write drops the draft but leaves the timer; a navigation right after it finds no
  draft and so cancels nothing, and the orphaned timer writes the stale text into the URL of the
  view the user has moved to.
\<close>

theorem orphaned_timer_rewrites_new_view:
  "let opts = \<lparr>go_endpoint = EP_releases, go_filterKeys = [''search'', ''status''],
         go_debounceKeys = [''search''], go_defaultSort = None\<rparr>;
       before = grid_run opts
         [Commit None True, SetFilter ''search'' ''pa'', SetFilter ''search'' ''p'',
          SetFilter ''status'' ''open'', Commit None True, Navigate ''status=closed'', Commit None True]
         (mount ''search=p'');
       after = grid_run opts [TimerFires ''search'', Commit None True] before
   in jm_get (displayFilters opts before) ''search'' = None \<and> seen before = ''status=closed'' \<and>
      seen after = ''status=closed&search=p''"
  by code_simp

end
