(* ===== verification/SharedList.thy ===== *)
theory SharedList
  imports JsString JsMap
begin

text \<open>
  \<open>hooks/useSharedList.ts\<close> and the seven hooks built on it. The module-level map \<open>inFlight\<close> holds
  one request for each key while it is in flight; every component that mounts in the meantime
  subscribes to that request instead of issuing its own. The model makes the interleaving
  explicit: a component mounts, changes its key or unmounts; a request settles (the \<open>finally\<close>
  clears the map and the \<open>catch\<close> turns a failure into the empty list); and each subscriber's
  \<open>then\<close> callback runs later, in any order, guarded by its own \<open>cancelled\<close> flag.
\<close>

record 'r list_result =
  lr_rows :: "'r list"
  lr_total :: int

definition EMPTY :: "'r list_result" where
  "EMPTY = \<lparr>lr_rows = [], lr_total = 0\<rparr>"

text \<open>A component that uses the hook: the key of its last effect run and its three state cells.\<close>

record 'r consumer =
  c_key :: string
  c_rows :: "'r list"
  c_total :: int
  c_loading :: bool

text \<open>One run of the effect: whose it is, the request it waits for, its \<open>cancelled\<close> flag and
  whether its \<open>then\<close> callback has run.\<close>

record sub =
  s_consumer :: nat
  s_request :: nat
  s_cancelled :: bool
  s_done :: bool

record 'r request =
  r_key :: string
  r_result :: "'r list_result option"

record 'r shared =
  inFlight :: "(string, nat) jmap"
  reqs :: "'r request list"
  subs :: "sub list"
  consumers :: "'r consumer list"

definition shared_init :: "'r shared" where
  "shared_init = \<lparr>inFlight = [], reqs = [], subs = [], consumers = []\<rparr>"

text \<open>The body of the effect: reuse the request in flight for the key or call \<open>load()\<close>.\<close>

definition subscribe :: "nat \<Rightarrow> string \<Rightarrow> 'r shared \<Rightarrow> 'r shared" where
  "subscribe c key st =
     (let st = st\<lparr>consumers := (consumers st)[c := (consumers st ! c)\<lparr>c_key := key, c_loading := True\<rparr>]\<rparr>;
          new_sub = (\<lambda>r. \<lparr>s_consumer = c, s_request = r, s_cancelled = False, s_done = False\<rparr>) in
      case jm_get (inFlight st) key of
        Some r \<Rightarrow> st\<lparr>subs := subs st @ [new_sub r]\<rparr>
      | None \<Rightarrow>
          let r = length (reqs st) in
          st\<lparr>reqs := reqs st @ [\<lparr>r_key = key, r_result = None\<rparr>],
             inFlight := jm_set key r (inFlight st),
             subs := subs st @ [new_sub r]\<rparr>)"

text \<open>The cleanup of the effect.\<close>

definition cancel :: "nat \<Rightarrow> 'r shared \<Rightarrow> 'r shared" where
  "cancel c st = st\<lparr>subs := map (\<lambda>s. if s_consumer s = c then s\<lparr>s_cancelled := True\<rparr> else s) (subs st)\<rparr>"

text \<open>The request settles: \<open>None\<close> stands for a rejected promise.\<close>

definition settle :: "nat \<Rightarrow> 'r list_result option \<Rightarrow> 'r shared \<Rightarrow> 'r shared" where
  "settle r outcome st =
     st\<lparr>reqs := (reqs st)[r := (reqs st ! r)\<lparr>r_result := Some (nullish outcome EMPTY)\<rparr>],
        inFlight := jm_delete (r_key (reqs st ! r)) (inFlight st)\<rparr>"

text \<open>One subscriber's \<open>then\<close> callback.\<close>

definition deliver :: "nat \<Rightarrow> 'r list_result \<Rightarrow> 'r shared \<Rightarrow> 'r shared" where
  "deliver i result st =
     (let s = subs st ! i; st = st\<lparr>subs := (subs st)[i := s\<lparr>s_done := True\<rparr>]\<rparr> in
      if s_cancelled s then st
      else st\<lparr>consumers := (consumers st)[s_consumer s :=
             (consumers st ! s_consumer s)\<lparr>c_rows := lr_rows result, c_total := lr_total result,
                c_loading := False\<rparr>]\<rparr>)"

datatype 'r shared_event =
  Mount string
| ChangeKey nat string
| Unmount nat
| Settle nat "'r list_result option"
| Deliver nat

text \<open>Events that cannot happen (an unknown component, a promise that settles twice) change nothing.\<close>

fun shared_step :: "'r shared_event \<Rightarrow> 'r shared \<Rightarrow> 'r shared" where
  "shared_step (Mount key) st =
     subscribe (length (consumers st)) key
       (st\<lparr>consumers := consumers st @ [\<lparr>c_key = key, c_rows = [], c_total = 0, c_loading = True\<rparr>]\<rparr>)"
| "shared_step (ChangeKey c key) st =
     (if c < length (consumers st) \<and> c_key (consumers st ! c) \<noteq> key
      then subscribe c key (cancel c st) else st)"
| "shared_step (Unmount c) st = cancel c st"
| "shared_step (Settle r outcome) st =
     (if r < length (reqs st) \<and> r_result (reqs st ! r) = None then settle r outcome st else st)"
| "shared_step (Deliver i) st =
     (if i < length (subs st) \<and> \<not> s_done (subs st ! i)
      then (case r_result (reqs st ! s_request (subs st ! i)) of
              None \<Rightarrow> st | Some result \<Rightarrow> deliver i result st)
      else st)"

definition shared_run :: "'r shared_event list \<Rightarrow> 'r shared \<Rightarrow> 'r shared" where
  "shared_run es st = fold shared_step es st"

text \<open>The value the hook returns.\<close>

definition truncated :: "'r consumer \<Rightarrow> bool" where
  "truncated c \<longleftrightarrow> int (length (c_rows c)) < c_total c"

subsection \<open>The hooks built on it\<close>

text \<open>Each hook is a key and the list call its \<open>load\<close> makes: the path and the query parameters.\<close>

record shared_hook =
  h_key :: string
  h_path :: string
  h_query :: "(string \<times> string) list"

definition useAllSystems :: shared_hook where
  "useAllSystems = \<lparr>h_key = ''systems'', h_path = ''/systems/'', h_query = [(''limit'', ''500'')]\<rparr>"

definition useAllEnvironments :: shared_hook where
  "useAllEnvironments =
     \<lparr>h_key = ''environments'', h_path = ''/environments/'', h_query = [(''limit'', ''500'')]\<rparr>"

definition useAllHosts :: shared_hook where
  "useAllHosts =
     \<lparr>h_key = ''hosts'', h_path = ''/infrastructure-components/'', h_query = [(''limit'', ''500'')]\<rparr>"

definition useAllProjects :: shared_hook where
  "useAllProjects =
     \<lparr>h_key = ''projects'', h_path = ''/projects'', h_query = [(''is_active'', ''true''), (''limit'', ''500'')]\<rparr>"

definition useAllEnvironmentGroups :: shared_hook where
  "useAllEnvironmentGroups =
     \<lparr>h_key = ''environmentGroups'', h_path = ''/environment-groups'',
      h_query = [(''is_active'', ''true''), (''limit'', ''500'')]\<rparr>"

definition useAllEnvironmentTiers :: shared_hook where
  "useAllEnvironmentTiers =
     \<lparr>h_key = ''environment-tiers'', h_path = ''/environment-tiers/'', h_query = [(''limit'', ''500'')]\<rparr>"

definition useReleaseDeployments :: "int \<Rightarrow> shared_hook" where
  "useReleaseDeployments releaseId =
     \<lparr>h_key = ''release-deployments:'' @ show_int releaseId, h_path = ''/deployments'',
      h_query = [(''release_id'', show_int releaseId), (''limit'', ''500'')]\<rparr>"

definition all_hooks :: "shared_hook set" where
  "all_hooks = {useAllSystems, useAllEnvironments, useAllHosts, useAllProjects,
     useAllEnvironmentGroups, useAllEnvironmentTiers} \<union> range useReleaseDeployments"

lemmas fixed_hooks = useAllSystems_def useAllEnvironments_def useAllHosts_def useAllProjects_def
  useAllEnvironmentGroups_def useAllEnvironmentTiers_def

subsection \<open>The invariant\<close>

text \<open>
  \<open>inFlight\<close> holds exactly the unsettled requests, one for each key; and a subscription that is
  neither cancelled nor done belongs to a mounted component whose current key is the key of the
  request it waits for, unless the component is not loading any more.
\<close>

definition inflight_ok :: "'r shared \<Rightarrow> bool" where
  "inflight_ok st \<longleftrightarrow>
     (\<forall>key r. jm_get (inFlight st) key = Some r \<longleftrightarrow>
        r < length (reqs st) \<and> r_key (reqs st ! r) = key \<and> r_result (reqs st ! r) = None)"

definition sub_ok :: "'r shared \<Rightarrow> sub \<Rightarrow> bool" where
  "sub_ok st s \<longleftrightarrow>
     s_request s < length (reqs st) \<and> s_consumer s < length (consumers st) \<and>
     (\<not> s_cancelled s \<longrightarrow> c_key (consumers st ! s_consumer s) = r_key (reqs st ! s_request s))"

definition shared_inv :: "'r shared \<Rightarrow> bool" where
  "shared_inv st \<longleftrightarrow> inflight_ok st \<and> (\<forall>s \<in> set (subs st). sub_ok st s)"

lemma shared_inv_init: "shared_inv shared_init"
  by (simp add: shared_inv_def inflight_ok_def shared_init_def)

lemma cancel_fields [simp]:
  "inFlight (cancel c st) = inFlight st" "reqs (cancel c st) = reqs st"
  "consumers (cancel c st) = consumers st"
  "subs (cancel c st) = map (\<lambda>s. if s_consumer s = c then s\<lparr>s_cancelled := True\<rparr> else s) (subs st)"
  by (simp_all add: cancel_def)

lemma subscribe_fields:
  "consumers (subscribe c key st) =
     (consumers st)[c := (consumers st ! c)\<lparr>c_key := key, c_loading := True\<rparr>]"
  "reqs (subscribe c key st) =
     (if jm_get (inFlight st) key = None then reqs st @ [\<lparr>r_key = key, r_result = None\<rparr>] else reqs st)"
  "inFlight (subscribe c key st) =
     (if jm_get (inFlight st) key = None then jm_set key (length (reqs st)) (inFlight st) else inFlight st)"
  "subs (subscribe c key st) = subs st @
     [\<lparr>s_consumer = c, s_request = nullish (jm_get (inFlight st) key) (length (reqs st)),
       s_cancelled = False, s_done = False\<rparr>]"
  by (simp_all add: subscribe_def Let_def split: option.split)

lemma settle_fields [simp]:
  "inFlight (settle r outcome st) = jm_delete (r_key (reqs st ! r)) (inFlight st)"
  "reqs (settle r outcome st) =
     (reqs st)[r := (reqs st ! r)\<lparr>r_result := Some (nullish outcome EMPTY)\<rparr>]"
  "consumers (settle r outcome st) = consumers st" "subs (settle r outcome st) = subs st"
  by (simp_all add: settle_def)

lemma deliver_fields [simp]:
  "inFlight (deliver i result st) = inFlight st" "reqs (deliver i result st) = reqs st"
  "subs (deliver i result st) = (subs st)[i := (subs st ! i)\<lparr>s_done := True\<rparr>]"
  "length (consumers (deliver i result st)) = length (consumers st)"
  by (simp_all add: deliver_def Let_def)

lemma deliver_c_key: "j < length (consumers st) \<Longrightarrow>
    c_key (consumers (deliver i result st) ! j) = c_key (consumers st ! j)"
  by (cases "s_consumer (subs st ! i) = j") (simp_all add: deliver_def Let_def)

lemma inflight_SomeD:
  "inflight_ok st \<Longrightarrow> jm_get (inFlight st) key = Some r \<Longrightarrow>
   r < length (reqs st) \<and> r_key (reqs st ! r) = key \<and> r_result (reqs st ! r) = None"
  by (simp add: inflight_ok_def)

lemma inflight_NoneD:
  "inflight_ok st \<Longrightarrow> jm_get (inFlight st) key = None \<Longrightarrow> r < length (reqs st) \<Longrightarrow>
   r_key (reqs st ! r) = key \<Longrightarrow> r_result (reqs st ! r) \<noteq> None"
  unfolding inflight_ok_def by (metis option.distinct(1))

lemma inflight_ok_cong:
  "inFlight st' = inFlight st \<Longrightarrow> reqs st' = reqs st \<Longrightarrow> inflight_ok st' = inflight_ok st"
  by (simp add: inflight_ok_def)

lemma inflight_okI:
  assumes "\<And>key r. jm_get (inFlight st) key = Some r \<Longrightarrow>
      r < length (reqs st) \<and> r_key (reqs st ! r) = key \<and> r_result (reqs st ! r) = None"
    and "\<And>r. r < length (reqs st) \<Longrightarrow> r_result (reqs st ! r) = None \<Longrightarrow>
      jm_get (inFlight st) (r_key (reqs st ! r)) = Some r"
  shows "inflight_ok st"
  unfolding inflight_ok_def using assms by blast

lemma inflight_pending:
  "inflight_ok st \<Longrightarrow> r < length (reqs st) \<Longrightarrow> r_result (reqs st ! r) = None \<Longrightarrow>
   jm_get (inFlight st) (r_key (reqs st ! r)) = Some r"
  by (simp add: inflight_ok_def)

lemma shared_inv_cancel: "shared_inv st \<Longrightarrow> shared_inv (cancel c st)"
  by (auto simp: shared_inv_def inflight_ok_def sub_ok_def)

lemma inflight_ok_subscribe: "inflight_ok st \<Longrightarrow> inflight_ok (subscribe c key st)"
proof (cases "jm_get (inFlight st) key")
  case (Some r)
  assume "inflight_ok st"
  moreover have "inflight_ok (subscribe c key st) = inflight_ok st"
    by (rule inflight_ok_cong) (simp_all add: Some subscribe_fields)
  ultimately show ?thesis by simp
next
  case None
  assume ok: "inflight_ok st"
  show ?thesis
  proof (rule inflight_okI)
    fix k r assume "jm_get (inFlight (subscribe c key st)) k = Some r"
    then show "r < length (reqs (subscribe c key st)) \<and> r_key (reqs (subscribe c key st) ! r) = k \<and>
        r_result (reqs (subscribe c key st) ! r) = None"
      using None inflight_SomeD [OF ok] by (fastforce simp: subscribe_fields nth_append split: if_splits)
  next
    fix r assume "r < length (reqs (subscribe c key st))" "r_result (reqs (subscribe c key st) ! r) = None"
    then show "jm_get (inFlight (subscribe c key st)) (r_key (reqs (subscribe c key st) ! r)) = Some r"
      using None inflight_pending [OF ok, of r] inflight_NoneD [OF ok None, of r]
      by (auto simp: subscribe_fields nth_append less_Suc_eq)
  qed
qed

lemma sub_ok_subscribe:
  assumes "shared_inv st" "s \<in> set (subs st)" "s_consumer s = c \<longrightarrow> s_cancelled s"
  shows "sub_ok (subscribe c key st) s"
  using assms unfolding shared_inv_def sub_ok_def
  by (auto simp: subscribe_fields nth_append nth_list_update)

lemma shared_inv_subscribe:
  assumes inv: "shared_inv st" and c: "c < length (consumers st)"
    and free: "\<forall>s \<in> set (subs st). s_consumer s = c \<longrightarrow> s_cancelled s"
  shows "shared_inv (subscribe c key st)"
proof -
  have "sub_ok (subscribe c key st) \<lparr>s_consumer = c,
      s_request = nullish (jm_get (inFlight st) key) (length (reqs st)), s_cancelled = False, s_done = False\<rparr>"
    using inflight_SomeD [of st key] inv c unfolding shared_inv_def sub_ok_def
    by (auto simp: subscribe_fields nth_append split: option.splits)
  moreover have "inflight_ok (subscribe c key st)"
    using inv by (intro inflight_ok_subscribe) (simp add: shared_inv_def)
  moreover have "\<forall>s \<in> set (subs st). sub_ok (subscribe c key st) s"
    using free by (intro ballI sub_ok_subscribe [OF inv]) simp_all
  ultimately show ?thesis
    by (simp add: shared_inv_def subscribe_fields(4))
qed

lemma shared_inv_settle:
  assumes inv: "shared_inv st" and r: "r < length (reqs st)" "r_result (reqs st ! r) = None"
  shows "shared_inv (settle r outcome st)"
proof -
  have ok: "inflight_ok st" using inv by (simp add: shared_inv_def)
  have "inflight_ok (settle r outcome st)"
  proof (rule inflight_okI)
    fix k r' assume "jm_get (inFlight (settle r outcome st)) k = Some r'"
    then have "k \<noteq> r_key (reqs st ! r)" "jm_get (inFlight st) k = Some r'"
      by (simp_all split: if_splits)
    moreover from inflight_SomeD [OF ok this(2)] have "r' \<noteq> r" using \<open>k \<noteq> _\<close> by auto
    ultimately show "r' < length (reqs (settle r outcome st)) \<and>
        r_key (reqs (settle r outcome st) ! r') = k \<and> r_result (reqs (settle r outcome st) ! r') = None"
      using inflight_SomeD [OF ok, of k r'] by simp
  next
    fix r' assume r': "r' < length (reqs (settle r outcome st))"
      "r_result (reqs (settle r outcome st) ! r') = None"
    then have ne: "r' \<noteq> r" using r by auto
    with r' have "jm_get (inFlight st) (r_key (reqs st ! r')) = Some r'"
      by (intro inflight_pending [OF ok]) simp_all
    moreover have "r_key (reqs st ! r') \<noteq> r_key (reqs st ! r)"
      using calculation inflight_pending [OF ok r] ne by auto
    ultimately show "jm_get (inFlight (settle r outcome st)) (r_key (reqs (settle r outcome st) ! r')) = Some r'"
      using ne by simp
  qed
  moreover have "sub_ok st s \<Longrightarrow> sub_ok (settle r outcome st) s" for s
    using r by (auto simp: sub_ok_def nth_list_update)
  ultimately show ?thesis using inv by (simp add: shared_inv_def)
qed

lemma shared_inv_deliver:
  assumes "shared_inv st" "i < length (subs st)"
  shows "shared_inv (deliver i result st)"
proof -
  have "sub_ok (deliver i result st) s" if "sub_ok st s" for s
    using that by (auto simp: sub_ok_def deliver_c_key)
  moreover have "sub_ok st ((subs st ! i)\<lparr>s_done := True\<rparr>)"
    using assms nth_mem [of i "subs st"] by (fastforce simp: shared_inv_def sub_ok_def)
  ultimately show ?thesis
    using assms set_update_subset_insert [of "subs st" i "(subs st ! i)\<lparr>s_done := True\<rparr>"]
    by (auto simp: shared_inv_def inflight_ok_def)
qed

lemma shared_inv_step: "shared_inv st \<Longrightarrow> shared_inv (shared_step e st)"
proof (cases e)
  case (Mount key)
  let ?st = "st\<lparr>consumers := consumers st @ [\<lparr>c_key = key, c_rows = [], c_total = 0, c_loading = True\<rparr>]\<rparr>"
  assume inv: "shared_inv st"
  then have "shared_inv ?st" by (auto simp: shared_inv_def inflight_ok_def sub_ok_def nth_append)
  moreover have "\<forall>s \<in> set (subs ?st). s_consumer s = length (consumers st) \<longrightarrow> s_cancelled s"
    using inv by (auto simp: shared_inv_def sub_ok_def)
  ultimately show ?thesis using Mount by (simp add: shared_inv_subscribe)
next
  case (ChangeKey c key)
  assume inv: "shared_inv st"
  have "shared_inv (subscribe c key (cancel c st))" if "c < length (consumers st)"
  proof (rule shared_inv_subscribe)
    show "shared_inv (cancel c st)" by (rule shared_inv_cancel [OF inv])
    show "c < length (consumers (cancel c st))" using that by simp
    show "\<forall>s \<in> set (subs (cancel c st)). s_consumer s = c \<longrightarrow> s_cancelled s"
      by (simp only: cancel_fields set_map ball_simps split: if_split) simp
  qed
  with inv show ?thesis by (simp add: ChangeKey)
next
  case (Unmount c)
  then show "shared_inv st \<Longrightarrow> ?thesis" by (simp add: shared_inv_cancel)
next
  case (Settle r outcome)
  then show "shared_inv st \<Longrightarrow> ?thesis" by (simp add: shared_inv_settle)
next
  case (Deliver i)
  then show "shared_inv st \<Longrightarrow> ?thesis"
    by (simp add: shared_inv_deliver split: option.split)
qed

lemma shared_inv_run: "shared_inv (shared_run es shared_init)"
proof -
  have "shared_inv st \<Longrightarrow> shared_inv (fold shared_step es st)" for st :: "'a shared"
    by (induction es arbitrary: st) (simp_all add: shared_inv_step)
  then show ?thesis by (simp add: shared_run_def shared_inv_init)
qed

subsection \<open>Properties\<close>

text \<open>
  In every reachable state at most one request is in flight for a key, and a component that
  mounts while one is in flight issues no request of its own, whereas one that mounts when none
  is in flight always fetches afresh: the hook coalesces requests and never caches them.
\<close>

theorem shared_list_coalesces:
  fixes es :: "'r shared_event list"
  defines "st \<equiv> shared_run es shared_init"
  shows "card {r. r < length (reqs st) \<and> r_key (reqs st ! r) = key \<and> r_result (reqs st ! r) = None} \<le> 1 \<and>
    length (reqs (shared_step (Mount key) st)) =
      (if \<exists>r < length (reqs st). r_key (reqs st ! r) = key \<and> r_result (reqs st ! r) = None
       then length (reqs st) else Suc (length (reqs st)))"
proof -
  have inv: "shared_inv st" by (simp add: st_def shared_inv_run)
  let ?R = "{r. r < length (reqs st) \<and> r_key (reqs st ! r) = key \<and> r_result (reqs st ! r) = None}"
  have R: "?R = set_option (jm_get (inFlight st) key)"
    using inv inflight_SomeD [of st key] inflight_pending [of st] by (fastforce simp: shared_inv_def)
  have "card ?R \<le> 1" unfolding R by (cases "jm_get (inFlight st) key") simp_all
  moreover have "(\<exists>r < length (reqs st). r_key (reqs st ! r) = key \<and> r_result (reqs st ! r) = None)
      \<longleftrightarrow> jm_get (inFlight st) key \<noteq> None"
    using inv inflight_SomeD [of st key] inflight_pending [of st] by (fastforce simp: shared_inv_def)
  ultimately show ?thesis
    by (simp add: subscribe_fields)
qed



text \<open>
  The keys under which the hooks share requests never collide: two hooks with the same key make
  the same list call, so a component can never be handed the rows of another entity, although the
  shared map erases their types; two releases never share their deployments.
\<close>

theorem shared_hook_keys_collision_free:
  assumes "h1 \<in> all_hooks" "h2 \<in> all_hooks" "h_key h1 = h_key h2"
  shows "h1 = h2"
proof -
  let ?F = "{useAllSystems, useAllEnvironments, useAllHosts, useAllProjects,
     useAllEnvironmentGroups, useAllEnvironmentTiers}"
  have fixed: "h1 = h2" if "h1 \<in> ?F" "h2 \<in> ?F"
  proof -
    have "distinct (map h_key [useAllSystems, useAllEnvironments, useAllHosts, useAllProjects,
        useAllEnvironmentGroups, useAllEnvironmentTiers])"
      by code_simp
    then have "inj_on h_key ?F" by (simp only: distinct_map list.set)
    then show ?thesis by (rule inj_onD [OF _ assms(3) that])
  qed
  have mixed: "h_key (useReleaseDeployments i) \<noteq> h_key h" if "h \<in> ?F" for i h
  proof -
    have "hd (h_key h) \<noteq> CHR ''r''" using that by (auto simp: fixed_hooks)
    moreover have "hd (h_key (useReleaseDeployments i)) = CHR ''r''"
      by (simp add: useReleaseDeployments_def)
    ultimately show ?thesis by metis
  qed
  have per_release: "h_key (useReleaseDeployments i) = h_key (useReleaseDeployments j) \<Longrightarrow> i = j" for i j
    by (simp add: useReleaseDeployments_def)
  from assms(1) consider "h1 \<in> ?F" | i where "h1 = useReleaseDeployments i"
    unfolding all_hooks_def by blast
  then show ?thesis
  proof cases
    case 1
    with assms(2,3) mixed fixed show ?thesis unfolding all_hooks_def by (metis Un_iff rangeE)
  next
    case (2 i)
    with assms(2,3) mixed per_release show ?thesis unfolding all_hooks_def by (metis Un_iff rangeE)
  qed
qed

theorem shared_hook_keys_collision_free_witness:
  "useReleaseDeployments (3 + 4) = useReleaseDeployments 7"
  by (rule shared_hook_keys_collision_free) (auto simp: all_hooks_def)

end
