(* ===== verification/AuthSlice.thy ===== *)
theory AuthSlice
  imports EnvPrelude
begin

text \<open>
  \<open>store/authSlice.ts\<close>, the three \<open>localStorage\<close> entries it shares with \<open>services/api.ts\<close>, the
  re-hydration effect and the route guard of \<open>App.tsx\<close> and the impersonation banner. A \<open>session\<close>
  is the slice together with the storage; every reducer is a function on it. The record is
  extended in theory ApiClient by the state of the HTTP client.
\<close>

subsection \<open>State\<close>

record User =
  u_id :: js_id
  username :: string
  email :: string
  role :: string
  tenant_id :: js_id
  is_master_admin :: bool

record Tenant =
  t_id :: js_id
  t_name :: string
  t_slug :: string

record AuthState =
  user :: "User option"
  token :: "string option"
  isAuthenticated :: bool
  authInitialized :: bool
  impersonationMode :: bool
  impersonatingTenant :: "Tenant option"
  originalToken :: "string option"

record storage =
  ls_token :: "string option"
  ls_refresh :: "string option"
  ls_impersonation :: "string option"

record session =
  auth :: AuthState
  ls :: storage

text \<open>The truth value of a JavaScript value that is a string, \<open>null\<close> or \<open>undefined\<close>.\<close>

definition truthy :: "string option \<Rightarrow> bool" where
  "truthy v = (case v of None \<Rightarrow> False | Some s \<Rightarrow> s \<noteq> [])"

lemma truthy_simps [simp]: "\<not> truthy None" "truthy (Some s) \<longleftrightarrow> s \<noteq> []"
  by (simp_all add: truthy_def)

definition initialState :: "storage \<Rightarrow> AuthState" where
  "initialState st =
     \<lparr>user = None, token = ls_token st, isAuthenticated = truthy (ls_token st),
      authInitialized = (\<not> truthy (ls_token st)), impersonationMode = False,
      impersonatingTenant = None, originalToken = None\<rparr>"

text \<open>A page load: the module is evaluated again over the storage that survived.\<close>

definition reload :: "'a session_scheme \<Rightarrow> 'a session_scheme" where
  "reload s = s\<lparr>auth := initialState (ls s)\<rparr>"

subsection \<open>Reducers\<close>

definition setCredentials :: "User \<Rightarrow> string \<Rightarrow> string option \<Rightarrow> 'a session_scheme \<Rightarrow> 'a session_scheme" where
  "setCredentials u tok refreshToken s =
     s\<lparr>auth := (auth s)\<lparr>user := Some u, token := Some tok, isAuthenticated := True, authInitialized := True\<rparr>,
       ls := (let st = (ls s)\<lparr>ls_token := Some tok\<rparr> in
              if truthy refreshToken then st\<lparr>ls_refresh := refreshToken\<rparr> else st)\<rparr>"

definition authResolved :: "'a session_scheme \<Rightarrow> 'a session_scheme" where
  "authResolved s = s\<lparr>auth := (auth s)\<lparr>authInitialized := True\<rparr>\<rparr>"

definition cleared :: storage where
  "cleared = \<lparr>ls_token = None, ls_refresh = None, ls_impersonation = None\<rparr>"

definition logout :: "'a session_scheme \<Rightarrow> 'a session_scheme" where
  "logout s =
     s\<lparr>auth := (auth s)\<lparr>user := None, token := None, isAuthenticated := False, authInitialized := True,
         impersonationMode := False, impersonatingTenant := None, originalToken := None\<rparr>,
       ls := cleared\<rparr>"

definition enterImpersonation :: "string \<Rightarrow> Tenant \<Rightarrow> 'a session_scheme \<Rightarrow> 'a session_scheme" where
  "enterImpersonation tok tenant s =
     s\<lparr>auth := (auth s)\<lparr>originalToken := token (auth s), token := Some tok, impersonationMode := True,
         impersonatingTenant := Some tenant\<rparr>,
       ls := (ls s)\<lparr>ls_impersonation := Some tok\<rparr>\<rparr>"

definition exitImpersonation :: "'a session_scheme \<Rightarrow> 'a session_scheme" where
  "exitImpersonation s =
     (let st = (if truthy (originalToken (auth s)) then (ls s)\<lparr>ls_token := originalToken (auth s)\<rparr> else ls s) in
      s\<lparr>auth := (auth s)\<lparr>token := originalToken (auth s), impersonationMode := False,
          impersonatingTenant := None, originalToken := None\<rparr>,
        ls := st\<lparr>ls_impersonation := None\<rparr>\<rparr>)"

subsection \<open>The readers of the slice\<close>

text \<open>The credential of the request interceptor (\<open>services/api.ts\<close>).\<close>

definition active_token :: "storage \<Rightarrow> string option" where
  "active_token st = (if truthy (ls_impersonation st) then ls_impersonation st else ls_token st)"

text \<open>The effect of \<open>App\<close> that loads the user after a page load, and its two outcomes.\<close>

definition hydration_due :: "'a session_scheme \<Rightarrow> bool" where
  "hydration_due s \<longleftrightarrow> isAuthenticated (auth s) \<and> user (auth s) = None \<and> truthy (token (auth s))"

definition hydrate :: "User option \<Rightarrow> 'a session_scheme \<Rightarrow> 'a session_scheme" where
  "hydrate me s =
     (if \<not> hydration_due s then s
      else case (me, token (auth s)) of
             (Some u, Some tok) \<Rightarrow> setCredentials u tok None s
           | _ \<Rightarrow> logout s)"

datatype route = To_login | Spinner | To_dashboard | Page

definition PrivateRoute :: "bool \<Rightarrow> string option \<Rightarrow> AuthState \<Rightarrow> route" where
  "PrivateRoute requireMasterAdmin requiredRole a =
     (if \<not> isAuthenticated a then To_login
      else case user a of
        None \<Rightarrow> Spinner
      | Some u \<Rightarrow>
          if \<not> authInitialized a then Spinner
          else if requireMasterAdmin \<and> \<not> is_master_admin u then To_dashboard
          else if truthy requiredRole \<and> Some (role u) \<noteq> requiredRole \<and> \<not> is_master_admin u then To_dashboard
          else Page)"

text \<open>The tenant name that the impersonation banner shows, or nothing.\<close>

definition ImpersonationBanner :: "AuthState \<Rightarrow> string option" where
  "ImpersonationBanner a = (if \<not> impersonationMode a then None else map_option t_name (impersonatingTenant a))"

subsection \<open>The slice and the storage together\<close>

text \<open>
  What the guards rely on: an authenticated slice that has finished loading has its user; while no
  tenant is being impersonated the slice's token is the stored one; and an impersonation always
  has a tenant to show.
\<close>

definition auth_ok :: "'a session_scheme \<Rightarrow> bool" where
  "auth_ok s \<longleftrightarrow>
     (isAuthenticated (auth s) \<longrightarrow> authInitialized (auth s) \<longrightarrow> user (auth s) \<noteq> None) \<and>
     (\<not> isAuthenticated (auth s) \<longrightarrow> authInitialized (auth s) \<and> user (auth s) = None) \<and>
     (impersonationMode (auth s) \<longleftrightarrow> impersonatingTenant (auth s) \<noteq> None)"

lemma auth_ok_reload: "auth_ok (reload s)"
  by (simp add: auth_ok_def reload_def initialState_def)

lemma auth_ok_setCredentials: "auth_ok s \<Longrightarrow> auth_ok (setCredentials u tok r s)"
  by (simp add: auth_ok_def setCredentials_def)

lemma auth_ok_logout: "auth_ok (logout s)"
  by (simp add: auth_ok_def logout_def)

lemma auth_ok_enter: "auth_ok s \<Longrightarrow> auth_ok (enterImpersonation tok tenant s)"
  by (simp add: auth_ok_def enterImpersonation_def)

lemma auth_ok_exit: "auth_ok s \<Longrightarrow> auth_ok (exitImpersonation s)"
  by (simp add: auth_ok_def exitImpersonation_def)

lemma auth_ok_hydrate: "auth_ok s \<Longrightarrow> auth_ok (hydrate me s)"
  by (simp add: hydrate_def auth_ok_setCredentials auth_ok_logout split: option.split)

lemmas auth_ok_intros = auth_ok_reload auth_ok_setCredentials auth_ok_logout auth_ok_enter
  auth_ok_exit auth_ok_hydrate

text \<open>What each reducer leaves in the storage.\<close>

lemma ls_reducers [simp]:
  "ls (reload s) = ls s"
  "ls (authResolved s) = ls s"
  "ls (logout s) = cleared"
  "ls (enterImpersonation tok tenant s) = (ls s)\<lparr>ls_impersonation := Some tok\<rparr>"
  by (simp_all add: reload_def authResolved_def logout_def enterImpersonation_def)

lemma ls_refresh_reducers [simp]:
  "ls_refresh (ls (setCredentials u tok r s)) = (if truthy r then r else ls_refresh (ls s))"
  "ls_refresh (ls (exitImpersonation s)) = ls_refresh (ls s)"
  "ls_refresh cleared = None"
  by (simp_all add: setCredentials_def exitImpersonation_def cleared_def Let_def)

subsection \<open>Properties\<close>

text \<open>
  Leaving an impersonation gives back exactly the session it started from: if the slice held the
  stored token and no impersonation was going on, entering and exiting changes neither the slice
  nor the storage.
\<close>

theorem impersonation_roundtrip:
  assumes "token (auth s) = ls_token (ls s)" "truthy (ls_token (ls s))"
    and "\<not> impersonationMode (auth s)" "impersonatingTenant (auth s) = None"
    and "originalToken (auth s) = None" "ls_impersonation (ls s) = None"
  shows "exitImpersonation (enterImpersonation tok tenant s) = s"
proof -
  have "auth (exitImpersonation (enterImpersonation tok tenant s)) = auth s"
    using assms by (simp add: exitImpersonation_def enterImpersonation_def Let_def)
  moreover have "ls (exitImpersonation (enterImpersonation tok tenant s)) = ls s"
    using assms by (simp add: exitImpersonation_def enterImpersonation_def Let_def)
  moreover have "session.more (exitImpersonation (enterImpersonation tok tenant s)) = session.more s"
    by (simp add: exitImpersonation_def enterImpersonation_def Let_def)
  ultimately show ?thesis by (intro session.equality) simp_all
qed

definition sample_user :: User where
  "sample_user = \<lparr>u_id = 7, username = ''root'', email = ''root@corp'', role = ''Admin'', tenant_id = 1,
     is_master_admin = True\<rparr>"

definition sample_session :: session where
  "sample_session = setCredentials sample_user ''own'' (Some ''r1'')
     (reload \<lparr>auth = initialState cleared, ls = cleared\<rparr>)"

abbreviation tenant_A :: Tenant where
  "tenant_A \<equiv> \<lparr>t_id = 3, t_name = ''Acme'', t_slug = ''acme''\<rparr>"

theorem impersonation_roundtrip_witness:
  "exitImpersonation (enterImpersonation ''imp'' tenant_A sample_session) = sample_session"
  by (rule impersonation_roundtrip)
     (simp_all add: sample_session_def setCredentials_def reload_def initialState_def cleared_def)

text \<open>
  The limit of that round trip. Signing in as a tenant again while already impersonating (which
  is how a long support session is renewed) makes the first impersonation token the one to go back
  to: after \<open>Exit\<close> the banner is gone, yet the stored access token, the one every request carries, is
  the first impersonation token and the operator's own token is lost.
\<close>

theorem nested_impersonation_leaks:
  assumes "tok1 \<noteq> []"
  shows "let s' = exitImpersonation (enterImpersonation tok2 t2 (enterImpersonation tok1 t1 s))
         in ImpersonationBanner (auth s') = None \<and> active_token (ls s') = Some tok1 \<and>
            token (auth s') = Some tok1 \<and> originalToken (auth s') = None"
  using assms
  by (simp add: exitImpersonation_def enterImpersonation_def ImpersonationBanner_def active_token_def Let_def)

theorem nested_impersonation_leaks_witness:
  "active_token (ls (exitImpersonation (enterImpersonation ''imp2'' tenant_A
     (enterImpersonation ''imp1'' tenant_A sample_session)))) = Some ''imp1''"
  using nested_impersonation_leaks [of "''imp1''" "''imp2''" tenant_A tenant_A sample_session]
  by (simp add: Let_def)

text \<open>
  A page load in the middle of an impersonation hides it. Requests still carry the impersonation
  token, but the slice starts outside the impersonation, so no banner and no \<open>Exit\<close> is shown,
  neither right after the load nor after the user has been fetched.
\<close>

theorem reload_hides_impersonation:
  assumes "tok \<noteq> []" "truthy (ls_token (ls s))"
  shows "let s' = reload (enterImpersonation tok tenant s)
         in active_token (ls s') = Some tok \<and> ImpersonationBanner (auth s') = None \<and> hydration_due s' \<and>
            active_token (ls (hydrate (Some me) s')) = Some tok \<and>
            ImpersonationBanner (auth (hydrate (Some me) s')) = None \<and>
            PrivateRoute False None (auth (hydrate (Some me) s')) = Page"
  using assms
  by (cases "ls_token (ls s)")
     (simp_all add: Let_def reload_def enterImpersonation_def initialState_def active_token_def
        ImpersonationBanner_def hydration_due_def hydrate_def setCredentials_def PrivateRoute_def)

theorem reload_hides_impersonation_witness:
  "let s' = reload (enterImpersonation ''imp'' tenant_A sample_session)
   in active_token (ls s') = Some ''imp'' \<and> ImpersonationBanner (auth s') = None"
  using reload_hides_impersonation [of "''imp''" sample_session tenant_A sample_user]
  by (simp add: Let_def sample_session_def setCredentials_def)

end
