(* ===== verification/ApiClient.thy ===== *)
theory ApiClient
  imports AuthSlice JsString
begin

text \<open>
  \<open>services/api.ts\<close> and \<open>services/authService.ts\<close>: the axios instance whose request interceptor adds
  the credential and whose response interceptor exchanges the refresh token on a 401 and replays
  the request once, all concurrent failures sharing one exchange. The client extends the session
  of theory AuthSlice by the requests of the page, the exchange in flight, the refresh tokens
  posted so far and whether the page has been sent to the login form.

  Events are calls of the client, responses in any order, the outcome of the exchange, the slice's
  actions and a page load. When the exchange settles, JavaScript runs the continuation that stores
  the tokens, the \<open>finally\<close> and every waiting request in one go, so that is one event.
\<close>

subsection \<open>State\<close>

datatype req_status = Sent | AwaitingRefresh | Fulfilled | Rejected

text \<open>\<open>rq_body\<close> is the refresh token in the body of a sign-out call; \<open>sends\<close> counts how often the
  request has gone over the wire.\<close>

record api_request =
  rq_url :: string
  rq_body :: "string option"
  authorization :: "string option"
  retried :: bool
  rq_status :: req_status
  sends :: nat

datatype refresh_call = Exchanging string | NoRefreshToken

record client = session +
  requests :: "api_request list"
  refreshInFlight :: "refresh_call option"
  refresh_log :: "string list"
  at_login :: bool

datatype response = Okay | HttpError int | NetworkError

subsection \<open>The interceptors\<close>

definition bearer :: "string \<Rightarrow> string" where
  "bearer t = ''Bearer '' @ t"

definition request_interceptor :: "storage \<Rightarrow> api_request \<Rightarrow> api_request" where
  "request_interceptor st rq =
     (if truthy (active_token st) then rq\<lparr>authorization := map_option bearer (active_token st)\<rparr> else rq)"

definition send :: "string \<Rightarrow> string option \<Rightarrow> client \<Rightarrow> client" where
  "send url body s =
     s\<lparr>requests := requests s @
         [request_interceptor (ls s) \<lparr>rq_url = url, rq_body = body, authorization = None, retried = False,
            rq_status = Sent, sends = 1\<rparr>]\<rparr>"

definition endSession :: "client \<Rightarrow> client" where
  "endSession s = s\<lparr>ls := cleared, at_login := True\<rparr>"

definition refreshAccessToken :: "client \<Rightarrow> client" where
  "refreshAccessToken s =
     (case ls_refresh (ls s) of
        None \<Rightarrow> s\<lparr>refreshInFlight := Some NoRefreshToken\<rparr>
      | Some rt \<Rightarrow>
          if rt = [] then s\<lparr>refreshInFlight := Some NoRefreshToken\<rparr>
          else s\<lparr>refreshInFlight := Some (Exchanging rt), refresh_log := refresh_log s @ [rt]\<rparr>)"

definition canRetry :: "storage \<Rightarrow> api_request \<Rightarrow> response \<Rightarrow> bool" where
  "canRetry st rq r \<longleftrightarrow>
     r = HttpError 401 \<and> \<not> retried rq \<and>
     \<not> js_includes (rq_url rq) ''/auth/refresh'' \<and> \<not> js_includes (rq_url rq) ''/auth/login'' \<and>
     truthy (ls_refresh st) \<and> \<not> truthy (ls_impersonation st)"

definition set_status :: "nat \<Rightarrow> req_status \<Rightarrow> client \<Rightarrow> client" where
  "set_status i x s = s\<lparr>requests := (requests s)[i := (requests s ! i)\<lparr>rq_status := x\<rparr>]\<rparr>"

text \<open>The response interceptor up to its \<open>await\<close>.\<close>

definition respond :: "nat \<Rightarrow> response \<Rightarrow> client \<Rightarrow> client" where
  "respond i r s =
     (if r = Okay then set_status i Fulfilled s
      else if canRetry (ls s) (requests s ! i) r then
        set_status i AwaitingRefresh (if refreshInFlight s = None then refreshAccessToken s else s)
      else
        set_status i Rejected
          (if r = HttpError 401 \<and> truthy (ls_token (ls s)) then endSession s else s))"

text \<open>The continuations after the \<open>await\<close>, for one waiting request.\<close>

definition replay :: "string \<Rightarrow> storage \<Rightarrow> api_request \<Rightarrow> api_request" where
  "replay access st rq =
     (if rq_status rq = AwaitingRefresh
      then request_interceptor st
             (rq\<lparr>retried := True, authorization := Some (bearer access), rq_status := Sent, sends := sends rq + 1\<rparr>)
      else rq)"

definition give_up :: "api_request \<Rightarrow> api_request" where
  "give_up rq = (if rq_status rq = AwaitingRefresh then rq\<lparr>rq_status := Rejected\<rparr> else rq)"

definition refresh_settles :: "(string \<times> string) option \<Rightarrow> client \<Rightarrow> client" where
  "refresh_settles outcome s =
     (case refreshInFlight s of
        None \<Rightarrow> s
      | Some call \<Rightarrow>
          (case (call, outcome) of
             (Exchanging _, Some (access, refresh)) \<Rightarrow>
               let st = (ls s)\<lparr>ls_token := Some access, ls_refresh := Some refresh\<rparr> in
               s\<lparr>ls := st, refreshInFlight := None, requests := map (replay access st) (requests s)\<rparr>
           | _ \<Rightarrow>
               let s' = s\<lparr>refreshInFlight := None, requests := map give_up (requests s)\<rparr> in
               if \<exists>rq \<in> set (requests s). rq_status rq = AwaitingRefresh then endSession s' else s'))"

text \<open>\<open>authService.logout\<close>: tell the server, if there is a refresh token to revoke. The caller in
  \<open>AppLayout\<close> dispatches the slice's \<open>logout\<close> when that call has settled, either way.\<close>

definition auth_logout :: "client \<Rightarrow> client" where
  "auth_logout s = (if truthy (ls_refresh (ls s)) then send ''/auth/logout'' (ls_refresh (ls s)) s else s)"

definition page_load :: "client \<Rightarrow> client" where
  "page_load s = (reload s)\<lparr>requests := [], refreshInFlight := None, at_login := False\<rparr>"

definition open_page :: "storage \<Rightarrow> client" where
  "open_page st =
     \<lparr>auth = initialState st, ls = st, requests = [], refreshInFlight = None, refresh_log = [], at_login = False\<rparr>"

datatype client_event =
  Send string "string option"
| Respond nat response
| RefreshSettles "(string \<times> string) option"
| SetCredentials User string "string option"
| SignOut
| Logout
| EnterImpersonation string Tenant
| ExitImpersonation
| Hydrated "User option"
| PageLoad

fun client_step :: "client_event \<Rightarrow> client \<Rightarrow> client" where
  "client_step (Send url body) s = send url body s"
| "client_step (Respond i r) s =
     (if i < length (requests s) \<and> rq_status (requests s ! i) = Sent then respond i r s else s)"
| "client_step (RefreshSettles outcome) s = refresh_settles outcome s"
| "client_step (SetCredentials u tok refresh) s = setCredentials u tok refresh s"
| "client_step SignOut s = auth_logout s"
| "client_step Logout s = logout s"
| "client_step (EnterImpersonation tok tenant) s = enterImpersonation tok tenant s"
| "client_step ExitImpersonation s = exitImpersonation s"
| "client_step (Hydrated me) s = hydrate me s"
| "client_step PageLoad s = page_load s"

subsection \<open>Reachable clients\<close>

text \<open>
  What the server and the user contribute: a refresh token that arrives has never been used before
  (it is 32 random bytes), and the page is not reloaded while an exchange is in flight.
\<close>

definition allowed :: "client_event \<Rightarrow> client \<Rightarrow> bool" where
  "allowed e s =
     (case e of
        RefreshSettles (Some (_, refresh)) \<Rightarrow> refresh \<notin> set (refresh_log s)
      | SetCredentials _ _ (Some refresh) \<Rightarrow> refresh \<notin> set (refresh_log s)
      | PageLoad \<Rightarrow> refreshInFlight s = None
      | _ \<Rightarrow> True)"

inductive client_reach :: "client \<Rightarrow> bool" where
  start: "client_reach (open_page st)"
| step: "client_reach s \<Longrightarrow> allowed e s \<Longrightarrow> client_reach (client_step e s)"

inductive_cases client_reachE: "client_reach s"

definition client_run :: "client_event list \<Rightarrow> client \<Rightarrow> client" where
  "client_run es s = fold client_step es s"

fun allowed_run :: "client_event list \<Rightarrow> client \<Rightarrow> bool" where
  "allowed_run [] s \<longleftrightarrow> True"
| "allowed_run (e # es) s \<longleftrightarrow> allowed e s \<and> allowed_run es (client_step e s)"

lemma client_reach_run: "client_reach s \<Longrightarrow> allowed_run es s \<Longrightarrow> client_reach (client_run es s)"
  unfolding client_run_def by (induction es arbitrary: s) (simp_all add: client_reach.step)

end
