(* ===== verification/ApiClientFacts.thy ===== *)
theory ApiClientFacts
  imports ApiClient
begin

text \<open>
  The invariant of the HTTP client of theory ApiClient and its properties: refresh tokens are
  presented once, waiting requests are always resumed, a request goes over the wire at most twice,
  an impersonation never refreshes, and the places where the session ends differently from what
  the code means to do.
\<close>

subsection \<open>The invariant\<close>

definition request_ok :: "api_request \<Rightarrow> bool" where
  "request_ok rq \<longleftrightarrow>
     sends rq = (if retried rq then 2 else 1) \<and> (rq_status rq = AwaitingRefresh \<longrightarrow> \<not> retried rq)"

definition waiting :: "client \<Rightarrow> bool" where
  "waiting s \<longleftrightarrow> (\<exists>rq \<in> set (requests s). rq_status rq = AwaitingRefresh)"

definition refresh_ok :: "client \<Rightarrow> bool" where
  "refresh_ok s \<longleftrightarrow>
     distinct (refresh_log s) \<and> refreshInFlight s \<noteq> Some NoRefreshToken \<and>
     (\<forall>r. ls_refresh (ls s) = Some r \<longrightarrow> r \<in> set (refresh_log s) \<longrightarrow> refreshInFlight s = Some (Exchanging r))"

definition client_inv :: "client \<Rightarrow> bool" where
  "client_inv s \<longleftrightarrow>
     refresh_ok s \<and> (waiting s \<longleftrightarrow> refreshInFlight s \<noteq> None) \<and> (\<forall>rq \<in> set (requests s). request_ok rq)"

lemma client_invI:
  "refresh_ok s \<Longrightarrow> (waiting s \<longleftrightarrow> refreshInFlight s \<noteq> None) \<Longrightarrow> \<forall>rq \<in> set (requests s). request_ok rq
   \<Longrightarrow> client_inv s"
  by (simp add: client_inv_def)

lemma client_invD:
  assumes "client_inv s"
  shows "refresh_ok s" "waiting s \<longleftrightarrow> refreshInFlight s \<noteq> None" "\<forall>rq \<in> set (requests s). request_ok rq"
  using assms by (simp_all add: client_inv_def)

text \<open>What the slice's actions leave alone.\<close>

lemma client_frame [simp]:
  "requests (logout s) = requests s" "refreshInFlight (logout s) = refreshInFlight s"
  "refresh_log (logout s) = refresh_log s"
  "requests (enterImpersonation t n s) = requests s"
  "refreshInFlight (enterImpersonation t n s) = refreshInFlight s"
  "refresh_log (enterImpersonation t n s) = refresh_log s"
  "requests (exitImpersonation s) = requests s" "refreshInFlight (exitImpersonation s) = refreshInFlight s"
  "refresh_log (exitImpersonation s) = refresh_log s"
  "requests (setCredentials u t r s) = requests s"
  "refreshInFlight (setCredentials u t r s) = refreshInFlight s"
  "refresh_log (setCredentials u t r s) = refresh_log s"
  "requests (endSession s) = requests s" "refreshInFlight (endSession s) = refreshInFlight s"
  "refresh_log (endSession s) = refresh_log s" "ls (endSession s) = cleared"
  by (simp_all add: logout_def enterImpersonation_def exitImpersonation_def setCredentials_def
      endSession_def Let_def)

lemma hydrate_frame [simp]:
  "requests (hydrate me s) = requests s" "refreshInFlight (hydrate me s) = refreshInFlight s"
  "refresh_log (hydrate me s) = refresh_log s"
  for s :: client
  by (simp_all add: hydrate_def split: option.split)

lemma ls_refresh_hydrate: "ls_refresh (ls (hydrate me s)) \<in> {ls_refresh (ls s), None}"
  for s :: client
  by (simp add: hydrate_def split: option.split)

text \<open>An action that keeps the requests and the exchange keeps the invariant, if it leaves in the
  storage the refresh token it found, none, or a fresh one.\<close>

lemma client_inv_session:
  assumes "client_inv s" "requests s' = requests s" "refreshInFlight s' = refreshInFlight s"
    and "refresh_log s' = refresh_log s"
    and "\<And>r. ls_refresh (ls s') = Some r \<Longrightarrow> ls_refresh (ls s) = Some r \<or> r \<notin> set (refresh_log s)"
  shows "client_inv s'"
  using assms unfolding client_inv_def refresh_ok_def waiting_def by auto

lemma client_inv_setCredentials:
  assumes "client_inv s" "allowed (SetCredentials u t r) s"
  shows "client_inv (setCredentials u t r s)"
proof (rule client_inv_session [OF assms(1)])
  fix x
  assume "ls_refresh (ls (setCredentials u t r s)) = Some x"
  with assms(2) show "ls_refresh (ls s) = Some x \<or> x \<notin> set (refresh_log s)"
    by (cases r) (simp_all add: allowed_def split: if_splits)
qed simp_all

lemma client_inv_hydrate: "client_inv s \<Longrightarrow> client_inv (hydrate me s)"
  using ls_refresh_hydrate [of me s] by (intro client_inv_session [of s "hydrate me s"]) auto

lemma client_inv_endSession: "client_inv s \<Longrightarrow> client_inv (endSession s)"
  by (rule client_inv_session) simp_all

subsection \<open>Requests\<close>

lemma request_interceptor_frame [simp]:
  "rq_status (request_interceptor st rq) = rq_status rq" "retried (request_interceptor st rq) = retried rq"
  "sends (request_interceptor st rq) = sends rq" "rq_url (request_interceptor st rq) = rq_url rq"
  "rq_body (request_interceptor st rq) = rq_body rq"
  "request_ok (request_interceptor st rq) = request_ok rq"
  by (simp_all add: request_interceptor_def request_ok_def)

lemma client_inv_send: "client_inv s \<Longrightarrow> client_inv (send url body s)"
  by (simp add: client_inv_def refresh_ok_def waiting_def send_def request_ok_def)

lemma set_status_frame [simp]:
  "refreshInFlight (set_status i x s) = refreshInFlight s" "refresh_log (set_status i x s) = refresh_log s"
  "ls (set_status i x s) = ls s" "auth (set_status i x s) = auth s" "at_login (set_status i x s) = at_login s"
  "requests (set_status i x s) = (requests s)[i := (requests s ! i)\<lparr>rq_status := x\<rparr>]"
  "refresh_ok (set_status i x s) = refresh_ok s"
  by (simp_all add: set_status_def refresh_ok_def)

lemma bex_nth: "(\<exists>x \<in> set xs. P x) \<longleftrightarrow> (\<exists>j < length xs. P (xs ! j))"
  by (metis in_set_conv_nth)

lemma bex_list_update:
  "i < length xs \<Longrightarrow> (\<exists>x \<in> set (xs[i := y]). P x) \<longleftrightarrow> P y \<or> (\<exists>j < length xs. j \<noteq> i \<and> P (xs ! j))"
  unfolding bex_nth by (auto simp: nth_list_update)

lemma waiting_set_status:
  assumes "i < length (requests s)" "rq_status (requests s ! i) \<noteq> AwaitingRefresh"
  shows "waiting (set_status i x s) \<longleftrightarrow> x = AwaitingRefresh \<or> waiting s"
proof -
  have "waiting (set_status i x s) \<longleftrightarrow>
      x = AwaitingRefresh \<or> (\<exists>j < length (requests s). j \<noteq> i \<and> rq_status (requests s ! j) = AwaitingRefresh)"
    unfolding waiting_def by (simp add: bex_list_update [OF assms(1)])
  then show ?thesis using assms(2) unfolding waiting_def bex_nth by metis
qed

lemma requests_ok_set_status:
  assumes "i < length (requests s)" "\<forall>rq \<in> set (requests s). request_ok rq"
    and "x = AwaitingRefresh \<Longrightarrow> \<not> retried (requests s ! i)"
  shows "\<forall>rq \<in> set (requests (set_status i x s)). request_ok rq"
proof -
  have "request_ok (requests s ! i)" using assms by simp
  then have "request_ok ((requests s ! i)\<lparr>rq_status := x\<rparr>)" using assms(3) by (simp add: request_ok_def)
  then show ?thesis using assms(2) by (auto dest: set_update_subset_insert [THEN subsetD])
qed

lemma client_inv_finish:
  assumes "client_inv s" "i < length (requests s)" "rq_status (requests s ! i) = Sent" "x \<noteq> AwaitingRefresh"
  shows "client_inv (set_status i x s)"
proof (rule client_invI)
  note inv = client_invD [OF assms(1)]
  show "refresh_ok (set_status i x s)" using inv by simp
  show "waiting (set_status i x s) \<longleftrightarrow> refreshInFlight (set_status i x s) \<noteq> None"
    using assms inv by (simp add: waiting_set_status)
  show "\<forall>rq \<in> set (requests (set_status i x s)). request_ok rq"
    by (rule requests_ok_set_status) (use assms inv in simp_all)
qed

text \<open>Starting an exchange: the token is in the storage and so has not been presented before.\<close>

lemma refreshAccessToken_starts:
  assumes "truthy (ls_refresh (ls s))"
  shows "refreshAccessToken s = s\<lparr>refreshInFlight := Some (Exchanging (the (ls_refresh (ls s)))),
    refresh_log := refresh_log s @ [the (ls_refresh (ls s))]\<rparr>"
  using assms by (cases "ls_refresh (ls s)") (simp_all add: refreshAccessToken_def)

lemma refresh_ok_starts:
  assumes "refresh_ok s" "refreshInFlight s = None" "truthy (ls_refresh (ls s))"
  shows "refresh_ok (refreshAccessToken s)"
  using assms by (cases "ls_refresh (ls s)") (auto simp: refreshAccessToken_starts refresh_ok_def)

lemma client_inv_await:
  assumes "client_inv s" "i < length (requests s)" "rq_status (requests s ! i) = Sent"
    and "\<not> retried (requests s ! i)" "truthy (ls_refresh (ls s))"
  shows "client_inv (set_status i AwaitingRefresh (if refreshInFlight s = None then refreshAccessToken s else s))"
proof (rule client_invI)
  note inv = client_invD [OF assms(1)]
  let ?s = "if refreshInFlight s = None then refreshAccessToken s else s"
  have r: "requests ?s = requests s" using assms(5) by (simp add: refreshAccessToken_starts)
  show "refresh_ok (set_status i AwaitingRefresh ?s)" using refresh_ok_starts inv assms(5) by simp
  show "waiting (set_status i AwaitingRefresh ?s) \<longleftrightarrow> refreshInFlight (set_status i AwaitingRefresh ?s) \<noteq> None"
    by (subst waiting_set_status) (use assms r in \<open>simp_all add: refreshAccessToken_starts\<close>)
  show "\<forall>rq \<in> set (requests (set_status i AwaitingRefresh ?s)). request_ok rq"
    by (rule requests_ok_set_status) (use assms inv r in simp_all)
qed

lemma client_inv_respond:
  assumes "client_inv s" "i < length (requests s)" "rq_status (requests s ! i) = Sent"
  shows "client_inv (respond i r s)"
proof (cases "r \<noteq> Okay \<and> canRetry (ls s) (requests s ! i) r")
  case True
  then have "respond i r s
      = set_status i AwaitingRefresh (if refreshInFlight s = None then refreshAccessToken s else s)"
    by (simp add: respond_def)
  with True assms show ?thesis by (simp only:) (rule client_inv_await, simp_all add: canRetry_def)
next
  case False
  then show ?thesis
    using assms by (auto simp: respond_def intro!: client_inv_finish client_inv_endSession)
qed

subsection \<open>The end of an exchange\<close>

lemma replay_frame [simp]:
  "rq_status (replay a st rq) \<noteq> AwaitingRefresh" "rq_url (replay a st rq) = rq_url rq"
  "rq_body (replay a st rq) = rq_body rq"
  by (simp_all add: replay_def)

lemma request_ok_replay: "request_ok rq \<Longrightarrow> request_ok (replay a st rq)"
  by (auto simp: replay_def request_ok_def)

lemma give_up_frame [simp]: "rq_status (give_up rq) \<noteq> AwaitingRefresh"
  by (simp add: give_up_def)

lemma request_ok_give_up: "request_ok rq \<Longrightarrow> request_ok (give_up rq)"
  by (auto simp: give_up_def request_ok_def)

lemma refresh_settles_success:
  assumes "refreshInFlight s = Some (Exchanging r)"
  shows "refresh_settles (Some (access, refresh)) s =
    s\<lparr>ls := (ls s)\<lparr>ls_token := Some access, ls_refresh := Some refresh\<rparr>, refreshInFlight := None,
      requests := map (replay access ((ls s)\<lparr>ls_token := Some access, ls_refresh := Some refresh\<rparr>)) (requests s)\<rparr>"
  using assms by (simp add: refresh_settles_def Let_def)

lemma refresh_settles_failure:
  assumes "refreshInFlight s = Some (Exchanging r)" "waiting s"
  shows "refresh_settles None s = endSession (s\<lparr>refreshInFlight := None, requests := map give_up (requests s)\<rparr>)"
  using assms by (simp add: refresh_settles_def Let_def waiting_def)

lemma client_inv_settles:
  assumes inv: "client_inv s" and "allowed (RefreshSettles outcome) s"
  shows "client_inv (refresh_settles outcome s)"
proof (cases "refreshInFlight s")
  case None
  then show ?thesis using inv by (simp add: refresh_settles_def)
next
  case (Some call)
  note i = client_invD [OF inv]
  obtain r where call: "refreshInFlight s = Some (Exchanging r)"
    using Some i(1) by (cases call) (simp_all add: refresh_ok_def)
  show ?thesis
  proof (cases outcome)
    case None
    have "waiting s" using i(2) call by simp
    then show ?thesis
      using i by (auto simp: None refresh_settles_failure [OF call] client_inv_def refresh_ok_def waiting_def
          request_ok_give_up)
  next
    case (Some ar)
    obtain a rt where ar: "ar = (a, rt)" by (cases ar)
    show ?thesis
      using i assms(2)
      by (auto simp: Some ar refresh_settles_success [OF call] client_inv_def refresh_ok_def waiting_def
          request_ok_replay allowed_def)
  qed
qed

lemma client_inv_page_load: "client_inv s \<Longrightarrow> refreshInFlight s = None \<Longrightarrow> client_inv (page_load s)"
  by (simp add: client_inv_def refresh_ok_def waiting_def page_load_def reload_def)

lemma client_inv_step:
  assumes "client_inv s" "allowed e s"
  shows "client_inv (client_step e s)"
proof (cases e)
  case PageLoad
  then show ?thesis using assms by (simp add: client_inv_page_load allowed_def)
next
  case SignOut
  then show ?thesis using assms by (simp add: auth_logout_def client_inv_send)
next
  case Logout
  then show ?thesis using assms by (auto intro: client_inv_session [OF assms(1)])
next
  case EnterImpersonation
  then show ?thesis using assms by (auto intro: client_inv_session [OF assms(1)])
next
  case ExitImpersonation
  then show ?thesis using assms by (auto intro: client_inv_session [OF assms(1)])
qed (use assms in \<open>simp_all add: client_inv_send client_inv_respond client_inv_settles
      client_inv_setCredentials client_inv_hydrate\<close>)

lemma client_inv_open: "client_inv (open_page st)"
  by (simp add: client_inv_def refresh_ok_def waiting_def open_page_def)

lemma client_inv_reach: "client_reach s \<Longrightarrow> client_inv s"
  by (induction rule: client_reach.induct) (simp_all add: client_inv_open client_inv_step)

subsection \<open>Properties\<close>


definition stored :: storage where
  "stored = \<lparr>ls_token = Some ''t1'', ls_refresh = Some ''r1'', ls_impersonation = None\<rparr>"

definition two_failures :: "client_event list" where
  "two_failures = [Send ''/environments'' None, Send ''/bookings'' None, Respond 0 (HttpError 401),
     Respond 1 (HttpError 401)]"

lemma two_failures_reach: "client_reach (client_run two_failures (open_page stored))"
proof -
  have "allowed_run two_failures (open_page stored)" by code_simp
  then show ?thesis by (intro client_reach_run client_reach.start)
qed


text \<open>
  C2: every request goes over the wire at most twice, the call itself and one replay, and a request
  that has been replayed never waits for another exchange.
\<close>

theorem request_replayed_once:
  assumes "client_reach s" "rq \<in> set (requests s)"
  shows "1 \<le> sends rq \<and> sends rq \<le> 2 \<and> \<not> (retried rq \<and> rq_status rq = AwaitingRefresh)"
  using client_invD(3) [OF client_inv_reach [OF assms(1)]] assms(2) by (auto simp: request_ok_def)

theorem request_replayed_once_witness:
  "let s = client_run [RefreshSettles (Some (''t2'', ''r2'')), Respond 0 (HttpError 401)]
             (client_run two_failures (open_page stored))
   in sends (requests s ! 0) = 2 \<and> rq_status (requests s ! 0) = Rejected \<and> sends (requests s ! 1) \<le> 2"
proof -
  let ?s = "client_run [RefreshSettles (Some (''t2'', ''r2'')), Respond 0 (HttpError 401)]
             (client_run two_failures (open_page stored))"
  have "allowed_run [RefreshSettles (Some (''t2'', ''r2'')), Respond 0 (HttpError 401)]
      (client_run two_failures (open_page stored))" by code_simp
  then have "client_reach ?s" by (rule client_reach_run [OF two_failures_reach])
  moreover have len: "length (requests ?s) = 2" by code_simp
  ultimately have "sends (requests ?s ! 1) \<le> 2"
    using request_replayed_once [of ?s "requests ?s ! 1"] by simp
  moreover have "sends (requests ?s ! 0) = 2 \<and> rq_status (requests ?s ! 0) = Rejected" by code_simp
  ultimately show ?thesis by (simp only: Let_def)
qed

lemma refresh_settles_waiter:
  assumes "client_reach s" "i < length (requests s)" "rq_status (requests s ! i) = AwaitingRefresh"
    and "\<not> truthy (ls_impersonation (ls s))" "access \<noteq> []"
  shows "let s' = refresh_settles (Some (access, refresh)) s; rq = requests s' ! i in
      rq_status rq = Sent \<and> authorization rq = Some (bearer access) \<and> \<not> waiting s' \<and>
      ls_token (ls s') = Some access \<and> ls_refresh (ls s') = Some refresh \<and> refreshInFlight s' = None"
    and "let s' = refresh_settles None s in
      rq_status (requests s' ! i) = Rejected \<and> \<not> waiting s' \<and> ls s' = cleared \<and> at_login s' \<and>
      refreshInFlight s' = None"
proof -
  note inv = client_inv_reach [OF assms(1)]
  have w: "waiting s" using assms(2,3) by (auto simp: waiting_def bex_nth)
  then obtain r where "refreshInFlight s = Some (Exchanging r)"
    using client_invD [OF inv] by (cases "refreshInFlight s"; cases "the (refreshInFlight s)")
      (auto simp: refresh_ok_def)
  note settles = refresh_settles_success [OF this] refresh_settles_failure [OF this w]
  show "let s' = refresh_settles (Some (access, refresh)) s; rq = requests s' ! i in
      rq_status rq = Sent \<and> authorization rq = Some (bearer access) \<and> \<not> waiting s' \<and>
      ls_token (ls s') = Some access \<and> ls_refresh (ls s') = Some refresh \<and> refreshInFlight s' = None"
    using assms
    by (auto simp: settles Let_def waiting_def replay_def request_interceptor_def active_token_def split: if_splits)
  show "let s' = refresh_settles None s in
      rq_status (requests s' ! i) = Rejected \<and> \<not> waiting s' \<and> ls s' = cleared \<and> at_login s' \<and>
      refreshInFlight s' = None"
    using assms by (auto simp: settles Let_def waiting_def endSession_def give_up_def)
qed

text \<open>
  C3: when the exchange settles, every request that waited for it is resumed at once: after a success
  it is on the wire again with the new access token, which is also stored; after a failure it is
  rejected, the stored credentials are gone and the page is sent to the login form.
\<close>

theorem refresh_resumes_waiters:
  assumes "client_reach s" "i < length (requests s)" "rq_status (requests s ! i) = AwaitingRefresh"
    and "\<not> truthy (ls_impersonation (ls s))" "access \<noteq> []"
  shows "(let s' = refresh_settles (Some (access, refresh)) s; rq = requests s' ! i in
      rq_status rq = Sent \<and> authorization rq = Some (bearer access) \<and> \<not> waiting s' \<and>
      ls_token (ls s') = Some access \<and> ls_refresh (ls s') = Some refresh \<and> refreshInFlight s' = None) \<and>
    (let s' = refresh_settles None s in
      rq_status (requests s' ! i) = Rejected \<and> \<not> waiting s' \<and> ls s' = cleared \<and> at_login s' \<and>
      refreshInFlight s' = None)"
  using refresh_settles_waiter [OF assms] by blast

theorem refresh_resumes_waiters_witness:
  "let s' = refresh_settles (Some (''t2'', ''r2'')) (client_run two_failures (open_page stored))
   in rq_status (requests s' ! 1) = Sent \<and> authorization (requests s' ! 1) = Some (bearer ''t2'')"
proof -
  let ?s = "client_run two_failures (open_page stored)"
  have "1 < length (requests ?s)" "rq_status (requests ?s ! 1) = AwaitingRefresh"
    "\<not> truthy (ls_impersonation (ls ?s))"
    by code_simp+
  then show ?thesis
    using refresh_resumes_waiters [OF two_failures_reach, of 1 "''t2''" "''r2''"] by (simp add: Let_def)
qed

text \<open>
  While a tenant is being impersonated no step of the client starts an exchange, so the operator
  is never dropped back into their own tenant by a refresh.
\<close>

theorem impersonation_never_refreshes:
  assumes "truthy (ls_impersonation (ls s))"
  shows "refresh_log (client_step e s) = refresh_log s \<and>
    (refreshInFlight s = None \<longrightarrow> refreshInFlight (client_step e s) = None)"
  using assms
  by (cases e)
     (simp_all add: send_def respond_def canRetry_def refresh_settles_def auth_logout_def page_load_def
       reload_def Let_def endSession_def split: option.split refresh_call.split)

theorem impersonation_never_refreshes_witness:
  "let s = client_run [Send ''/me'' None, EnterImpersonation ''imp'' tenant_A] (open_page stored)
   in refresh_log (client_step (Respond 0 (HttpError 401)) s) = refresh_log s"
proof -
  let ?s = "client_run [Send ''/me'' None, EnterImpersonation ''imp'' tenant_A] (open_page stored)"
  have "truthy (ls_impersonation (ls ?s))" by code_simp
  from impersonation_never_refreshes [OF this] show ?thesis unfolding Let_def by blast
qed

text \<open>
  A sign-in that the server refuses only fails: with no token stored the visitor is not sent to
  the login form again, nothing is retried and the storage is untouched.
\<close>

theorem failed_login_stays:
  assumes "js_includes (rq_url (requests s ! i)) ''/auth/login''" "\<not> truthy (ls_token (ls s))" "r \<noteq> Okay"
  shows "respond i r s = set_status i Rejected s"
  using assms by (simp add: respond_def canRetry_def)

theorem failed_login_stays_witness:
  "let s = send ''/auth/login'' None (open_page cleared)
   in respond 0 (HttpError 401) s = set_status 0 Rejected s"
  by (simp only: Let_def, rule failed_login_stays; code_simp)

subsection \<open>Where the session ends differently\<close>

text \<open>
  Signing out while a token exchange is in flight does not stick: when the exchange succeeds, the
  client stores the new access and refresh tokens although the slice has signed out, and the next
  page load starts authenticated.
\<close>

theorem logout_undone_by_refresh:
  assumes "refreshInFlight s = Some (Exchanging r)" "access \<noteq> []"
  shows "let s' = client_run [Logout, RefreshSettles (Some (access, refresh))] s in
      \<not> isAuthenticated (auth s') \<and> ls_token (ls s') = Some access \<and> ls_refresh (ls s') = Some refresh \<and>
      isAuthenticated (auth (client_run [PageLoad] s'))"
  using assms
  by (simp add: client_run_def Let_def refresh_settles_def logout_def page_load_def reload_def initialState_def)

theorem logout_undone_by_refresh_witness:
  "let s' = client_run [Logout, RefreshSettles (Some (''t2'', ''r2''))] (client_run two_failures (open_page stored))
   in \<not> isAuthenticated (auth s') \<and> ls_token (ls s') = Some ''t2''"
proof -
  have "refreshInFlight (client_run two_failures (open_page stored)) = Some (Exchanging ''r1'')" by code_simp
  from logout_undone_by_refresh [OF this, of "''t2''" "''r2''"] show ?thesis by (simp add: Let_def)
qed

text \<open>
  C4: signing out after the access token has expired revokes the wrong token. The sign-out call fails
  with a 401, the interceptor exchanges the refresh token and replays the call with its original
  body: the token the server is asked to revoke is the one just spent, the new one is never sent,
  and clearing the storage forgets it, so the session stays alive on the server.
\<close>

theorem sign_out_revokes_spent_token:
  assumes "refreshInFlight s = None" "ls_refresh (ls s) = Some r" "r \<noteq> []"
    and "\<not> truthy (ls_impersonation (ls s))" "refresh \<noteq> r"
  shows "let n = length (requests s);
             s' = client_run [SignOut, Respond n (HttpError 401), RefreshSettles (Some (access, refresh)),
                    Respond n Okay, Logout] s
         in requests s' ! n = \<lparr>rq_url = ''/auth/logout'', rq_body = Some r,
              authorization = authorization (requests s' ! n), retried = True, rq_status = Fulfilled, sends = 2\<rparr> \<and>
            rq_body (requests s' ! n) \<noteq> Some refresh \<and> last (refresh_log s') = r \<and> ls s' = cleared \<and>
            length (requests s') = Suc n"
proof -
  let ?n = "length (requests s)"
  have no: "\<not> js_includes ''/auth/logout'' ''/auth/refresh''" "\<not> js_includes ''/auth/logout'' ''/auth/login''"
    by code_simp+
  let ?s1 = "client_run [SignOut, Respond ?n (HttpError 401)] s"
  have s1: "requests ?s1 ! ?n = (request_interceptor (ls s)
        \<lparr>rq_url = ''/auth/logout'', rq_body = Some r, authorization = None, retried = False,
         rq_status = Sent, sends = 1\<rparr>)\<lparr>rq_status := AwaitingRefresh\<rparr>"
    and len: "length (requests ?s1) = Suc ?n" and fl: "refreshInFlight ?s1 = Some (Exchanging r)"
    and log: "refresh_log ?s1 = refresh_log s @ [r]"
    using assms no
    by (simp_all add: client_run_def auth_logout_def send_def respond_def canRetry_def nth_append
        refreshAccessToken_starts)
  let ?s2 = "refresh_settles (Some (access, refresh)) ?s1"
  have s2: "requests ?s2 ! ?n = replay access (ls ?s2) (requests ?s1 ! ?n)" "length (requests ?s2) = Suc ?n"
    "refresh_log ?s2 = refresh_log s @ [r]"
    using len log by (simp_all add: refresh_settles_success [OF fl])
  have n: "rq_status (requests ?s2 ! ?n) = Sent" "rq_body (requests ?s2 ! ?n) = Some r"
    "rq_url (requests ?s2 ! ?n) = ''/auth/logout''" "retried (requests ?s2 ! ?n)" "sends (requests ?s2 ! ?n) = 2"
    unfolding s2(1) s1 by (simp_all add: replay_def)
  have "client_run [SignOut, Respond ?n (HttpError 401), RefreshSettles (Some (access, refresh)),
      Respond ?n Okay, Logout] s = client_run [Respond ?n Okay, Logout] ?s2"
    by (simp add: client_run_def)
  also have "\<dots> = logout (set_status ?n Fulfilled ?s2)"
    using n(1) s2(2) by (simp add: client_run_def respond_def)
  finally have run: "client_run [SignOut, Respond ?n (HttpError 401), RefreshSettles (Some (access, refresh)),
      Respond ?n Okay, Logout] s = logout (set_status ?n Fulfilled ?s2)" .
  show ?thesis
    unfolding Let_def run using n s2(2,3) assms(5) by simp
qed

theorem sign_out_revokes_spent_token_witness:
  "let s' = client_run [SignOut, Respond 0 (HttpError 401), RefreshSettles (Some (''t2'', ''r2'')),
              Respond 0 Okay, Logout] (open_page stored)
   in rq_body (requests s' ! 0) = Some ''r1'' \<and> ls s' = cleared"
proof -
  have hyps: "refreshInFlight (open_page stored) = None" "ls_refresh (ls (open_page stored)) = Some ''r1''"
      "\<not> truthy (ls_impersonation (ls (open_page stored)))"
    and len: "length (requests (open_page stored)) = 0"
    by code_simp+
  have ne: "''r1'' \<noteq> []" "''r2'' \<noteq> ''r1''" by simp_all
  note r = sign_out_revokes_spent_token [OF hyps(1,2) ne(1) hyps(3) ne(2), of "''t2''", unfolded Let_def len]
  have "rq_body (requests (client_run [SignOut, Respond 0 (HttpError 401),
      RefreshSettles (Some (''t2'', ''r2'')), Respond 0 Okay, Logout] (open_page stored)) ! 0) = Some ''r1''"
    by (subst r [THEN conjunct1]) (rule api_request.select_convs)
  with r show ?thesis unfolding Let_def by blast
qed

text \<open>
  After a page load with an expired access token, the token that the exchange has just fetched is
  thrown away: the effect that loads the user captured the expired token from the slice, which no
  exchange updates, and \<open>setCredentials\<close> writes it back over the new one.
\<close>

theorem hydration_restores_expired_token:
  assumes "ls_token st = Some t" "t \<noteq> []" "ls_refresh st = Some r" "r \<noteq> []"
    and "\<not> truthy (ls_impersonation st)"
  shows "let s = client_run [Send ''/auth/me'' None, Respond 0 (HttpError 401),
             RefreshSettles (Some (access, refresh)), Respond 0 Okay] (open_page st);
             s' = client_run [Hydrated (Some me)] s
         in ls_token (ls s) = Some access \<and> hydration_due s \<and>
            ls_token (ls s') = Some t \<and> ls_refresh (ls s') = Some refresh"
proof -
  have no: "\<not> js_includes ''/auth/me'' ''/auth/refresh''" "\<not> js_includes ''/auth/me'' ''/auth/login''"
    by code_simp+
  show ?thesis
    using assms no
    by (simp add: client_run_def open_page_def send_def respond_def canRetry_def refresh_settles_def replay_def
        refreshAccessToken_starts set_status_def hydrate_def hydration_due_def initialState_def
        setCredentials_def Let_def)
qed

theorem hydration_restores_expired_token_witness:
  "ls_token (ls (client_run [Send ''/auth/me'' None, Respond 0 (HttpError 401),
     RefreshSettles (Some (''t2'', ''r2'')), Respond 0 Okay, Hydrated (Some sample_user)] (open_page stored)))
   = Some ''t1''"
  using hydration_restores_expired_token [of stored "''t1''" "''r1''" "''t2''" "''r2''" sample_user]
  by (simp add: stored_def client_run_def Let_def)

end
