(* ===== verification/Topology.thy ===== *)
theory Topology
  imports JsString JsMap "HOL-Library.List_Lexorder" "HOL-Library.Char_ord"
begin

text \<open>
  The topology pipeline of \<open>components/topology\<close> up to the layout: the graph with its internal and
  external part, the sources that produce it, the visibility filter, the regrouping by deployment
  host, the collapse model that turns subsystems and dependencies into groups and (possibly
  aggregated) edges, and the focus set. The locale \<open>topology_grouping\<close> is the \<open>Grouping\<close> interface
  with the law that the collapse model needs of it.
\<close>

subsection \<open>The graph and its sources\<close>

datatype Direction = One_way | Two_way

record HostRef =
  infrastructure_component_id :: js_id
  hr_name :: string
  hr_component_type :: string
  hr_role :: "string option"

record VisibleSubsystem =
  s_id :: js_id
  s_name :: string
  system_id :: js_id
  component_type :: string
  technology :: "string option"
  is_mocked :: "bool option"
  s_hosts :: "HostRef list option"

record VisibleDependency =
  d_id :: js_id
  from_subsystem_id :: js_id
  to_subsystem_id :: js_id
  dependency_type :: string
  direction :: Direction
  label :: "string option"

record VisibilityInput =
  subsystems :: "VisibleSubsystem list"
  dependencies :: "VisibleDependency list"
  externalSubsystems :: "VisibleSubsystem list"
  externalDependencies :: "VisibleDependency list"

abbreviation all_subsystems :: "VisibilityInput \<Rightarrow> VisibleSubsystem list" where
  "all_subsystems g \<equiv> subsystems g @ externalSubsystems g"

abbreviation all_dependencies :: "VisibilityInput \<Rightarrow> VisibleDependency list" where
  "all_dependencies g \<equiv> dependencies g @ externalDependencies g"

text \<open>The two API responses; the optional fields are the ones the sources default.\<close>

record TopologyResponse =
  tr_subsystems :: "VisibleSubsystem list"
  tr_dependencies :: "VisibleDependency list"
  tr_external_subsystems :: "VisibleSubsystem list option"
  tr_external_dependencies :: "VisibleDependency list option"
  tr_system_names :: "(string, string) jmap option"

record TopologySource =
  getGraph :: VisibilityInput
  getSystemNames :: "(string, string) jmap"

definition fromTopologyResponse :: "TopologyResponse \<Rightarrow> TopologySource" where
  "fromTopologyResponse data =
     \<lparr>getGraph = \<lparr>subsystems = tr_subsystems data, dependencies = tr_dependencies data,
        externalSubsystems = nullish (tr_external_subsystems data) [],
        externalDependencies = nullish (tr_external_dependencies data) []\<rparr>,
      getSystemNames = nullish (tr_system_names data) []\<rparr>"

record EnvironmentTopologyData =
  et_environment_id :: js_id
  et_subsystems :: "VisibleSubsystem list"
  et_dependencies :: "VisibleDependency list"
  et_system_names :: "(string, string) jmap option"
  outside_subsystems :: "VisibleSubsystem list option"
  outside_dependencies :: "VisibleDependency list option"

definition fromEnvironmentTopologyResponse :: "EnvironmentTopologyData \<Rightarrow> TopologySource" where
  "fromEnvironmentTopologyResponse data =
     \<lparr>getGraph = \<lparr>subsystems = et_subsystems data, dependencies = et_dependencies data,
        externalSubsystems = nullish (outside_subsystems data) [],
        externalDependencies = nullish (outside_dependencies data) []\<rparr>,
      getSystemNames = nullish (et_system_names data) []\<rparr>"

subsection \<open>Visibility\<close>

definition computeVisibleGraph :: "VisibilityInput \<Rightarrow> string set \<Rightarrow> VisibilityInput" where
  "computeVisibleGraph g hiddenTypes =
     (let visible = (\<lambda>s. component_type s \<notin> hiddenTypes);
          subs = filter visible (subsystems g);
          ext = filter visible (externalSubsystems g);
          survivingIds = set (map s_id subs @ map s_id ext);
          bothSurvive = (\<lambda>d. from_subsystem_id d \<in> survivingIds \<and> to_subsystem_id d \<in> survivingIds)
      in \<lparr>subsystems = subs, dependencies = filter bothSurvive (dependencies g),
          externalSubsystems = ext, externalDependencies = filter bothSurvive (externalDependencies g)\<rparr>)"

text \<open>\<open>sort\<close> orders by code units, the order of the bytes on the strings of this model.\<close>

definition availableComponentTypes :: "VisibilityInput \<Rightarrow> string list" where
  "availableComponentTypes g =
     sort (fold (\<lambda>s types. if component_type s \<in> set types then types else types @ [component_type s])
       (all_subsystems g) [])"

subsection \<open>Grouping\<close>

record GroupMeta =
  gm_name :: string
  gm_isCurrent :: bool

record Grouping =
  keyOf :: "VisibleSubsystem \<Rightarrow> string"
  meta :: "string \<Rightarrow> GroupMeta"

definition bySystem :: "(string, string) jmap \<Rightarrow> js_id \<Rightarrow> Grouping" where
  "bySystem systemNames currentSystemId =
     \<lparr>keyOf = (\<lambda>s. show_int (system_id s)),
      meta = (\<lambda>key. \<lparr>gm_name = nullish (jm_get systemNames key) (''System '' @ key),
                     gm_isCurrent = (js_Number key = Some currentSystemId)\<rparr>)\<rparr>"

definition not_in_environment :: string where
  "not_in_environment = '' '' @ [CHR 0xE2, CHR 0x80, CHR 0x94] @ '' not in environment''"

definition byEnvSystem :: "(string, string) jmap \<Rightarrow> js_id set \<Rightarrow> Grouping" where
  "byEnvSystem systemNames envSystemIds =
     \<lparr>keyOf = (\<lambda>s. show_int (system_id s)),
      meta = (\<lambda>key.
        let inEnv = (case js_Number key of None \<Rightarrow> False | Some n \<Rightarrow> n \<in> envSystemIds);
            name = nullish (jm_get systemNames key) (''System '' @ key)
        in \<lparr>gm_name = (if inEnv then name else name @ not_in_environment), gm_isCurrent = inEnv\<rparr>)\<rparr>"

definition byHost :: "(js_id, string) jmap \<Rightarrow> (string, GroupMeta) jmap \<Rightarrow> Grouping" where
  "byHost hostKeyById hostMeta =
     \<lparr>keyOf = (\<lambda>s. nullish (jm_get hostKeyById (s_id s)) ''unassigned''),
      meta = (\<lambda>key. nullish (jm_get hostMeta key) \<lparr>gm_name = key, gm_isCurrent = False\<rparr>)\<rparr>"

subsection \<open>The collapse model\<close>

record ModelGroup =
  groupId :: string
  mg_name :: string
  mg_isCurrent :: bool
  collapsed :: bool
  componentCount :: nat
  components :: "VisibleSubsystem list"

record ModelEdge =
  e_id :: string
  e_source :: string
  e_target :: string
  e_label :: string
  aggregatedCount :: nat
  dependencyId :: "js_id option"
  e_direction :: Direction

record TopologyModel =
  groups :: "ModelGroup list"
  edges :: "ModelEdge list"

record CollapseContext =
  collapsedGroups :: "string set"
  grouping :: Grouping

definition groupOf :: "CollapseContext \<Rightarrow> VisibleSubsystem list \<Rightarrow> (js_id, string) jmap" where
  "groupOf ctx subs = fold (\<lambda>s m. jm_set (s_id s) (keyOf (grouping ctx) s) m) subs []"

definition byGroup :: "CollapseContext \<Rightarrow> VisibleSubsystem list \<Rightarrow> (string, VisibleSubsystem list) jmap" where
  "byGroup ctx subs = group_by (\<lambda>s. the (jm_get (groupOf ctx subs) (s_id s))) subs"

definition model_group :: "CollapseContext \<Rightarrow> string \<times> VisibleSubsystem list \<Rightarrow> ModelGroup" where
  "model_group ctx kv =
     (let gid = fst kv; comps = snd kv; c = (gid \<in> collapsedGroups ctx); m = meta (grouping ctx) gid in
      \<lparr>groupId = gid, mg_name = gm_name m, mg_isCurrent = gm_isCurrent m, collapsed = c,
       componentCount = length comps, components = (if c then [] else comps)\<rparr>)"

definition displayNode :: "CollapseContext \<Rightarrow> VisibleSubsystem list \<Rightarrow> js_id \<Rightarrow> string" where
  "displayNode ctx subs componentId =
     (case jm_get (groupOf ctx subs) componentId of
        None \<Rightarrow> show_int componentId
      | Some key \<Rightarrow> if key \<in> collapsedGroups ctx then ''sys-'' @ key else show_int componentId)"

definition edge_key :: "(js_id \<Rightarrow> string) \<Rightarrow> VisibleDependency \<Rightarrow> string" where
  "edge_key disp d = disp (from_subsystem_id d) @ ''->'' @ disp (to_subsystem_id d)"

definition edge_buckets ::
  "(js_id \<Rightarrow> string) \<Rightarrow> VisibleDependency list \<Rightarrow> (string, VisibleDependency list) jmap" where
  "edge_buckets disp deps =
     fold (\<lambda>d buckets. if disp (from_subsystem_id d) = disp (to_subsystem_id d) then buckets
                       else bucket_push (edge_key disp d) d buckets) deps []"

definition model_edge :: "string \<times> VisibleDependency list \<Rightarrow> ModelEdge" where
  "model_edge kv =
     (let key = fst kv; deps = snd kv;
          src = (case js_indexOf key ''->'' of Some i \<Rightarrow> js_slice 0 i key | None \<Rightarrow> butlast key);
          tgt = (case js_indexOf key ''->'' of Some i \<Rightarrow> drop (i + 2) key | None \<Rightarrow> drop 1 key) in
      if length deps = 1 then
        let d = hd deps in
        \<lparr>e_id = show_int (d_id d), e_source = src, e_target = tgt,
         e_label = nullish (label d) (dependency_type d), aggregatedCount = 1,
         dependencyId = Some (d_id d), e_direction = direction d\<rparr>
      else
        \<lparr>e_id = ''agg:'' @ key, e_source = src, e_target = tgt,
         e_label = show_nat (length deps) @ [CHR 0xC3, CHR 0x97], aggregatedCount = length deps,
         dependencyId = None, e_direction = One_way\<rparr>)"

definition computeCollapseModel :: "VisibilityInput \<Rightarrow> CollapseContext \<Rightarrow> TopologyModel" where
  "computeCollapseModel g ctx =
     (let allSubs = all_subsystems g; allDeps = all_dependencies g in
      \<lparr>groups = map (model_group ctx) (byGroup ctx allSubs),
       edges = map model_edge (edge_buckets (displayNode ctx allSubs) allDeps)\<rparr>)"

subsection \<open>Regrouping by host\<close>

definition UNASSIGNED :: string where
  "UNASSIGNED = ''unassigned''"

definition EXTERNAL :: string where
  "EXTERNAL = ''external''"

text \<open>The variables that \<open>buildHostGraph\<close> and its two closures update.\<close>

record host_state =
  nodeSeq :: js_id
  edgeSeq :: js_id
  hostKeyById :: "(js_id, string) jmap"
  hostMeta :: "(string, GroupMeta) jmap"
  edgeDepResolver :: "(js_id, js_id) jmap"
  instancesOf :: "(js_id, VisibleSubsystem list) jmap"
  h_subsystems :: "VisibleSubsystem list"
  h_externals :: "VisibleSubsystem list"

text \<open>\<open>addInstance\<close> without its last line: the synthetic node is also returned for the caller's \<open>out\<close>.\<close>

definition addInstance :: "VisibleSubsystem \<Rightarrow> string \<Rightarrow> host_state \<Rightarrow> VisibleSubsystem \<times> host_state" where
  "addInstance src hostKey st =
     (let node = src\<lparr>s_id := nodeSeq st\<rparr> in
      (node, st\<lparr>nodeSeq := nodeSeq st + 1, hostKeyById := jm_set (s_id node) hostKey (hostKeyById st),
                instancesOf := bucket_push (s_id src) node (instancesOf st)\<rparr>))"

definition setHostMeta :: "string \<Rightarrow> GroupMeta \<Rightarrow> host_state \<Rightarrow> host_state" where
  "setHostMeta key m st = st\<lparr>hostMeta := jm_set key m (hostMeta st)\<rparr>"

definition pushInternal :: "VisibleSubsystem \<times> host_state \<Rightarrow> host_state" where
  "pushInternal r = (snd r)\<lparr>h_subsystems := h_subsystems (snd r) @ [fst r]\<rparr>"

definition pushExternal :: "VisibleSubsystem \<times> host_state \<Rightarrow> host_state" where
  "pushExternal r = (snd r)\<lparr>h_externals := h_externals (snd r) @ [fst r]\<rparr>"

definition addToHost :: "VisibleSubsystem \<Rightarrow> HostRef \<Rightarrow> host_state \<Rightarrow> host_state" where
  "addToHost s h st =
     (let key = show_int (infrastructure_component_id h) in
      pushInternal (addInstance s key
        (setHostMeta key \<lparr>gm_name = hr_name h, gm_isCurrent = True\<rparr> st)))"

definition addInternal :: "VisibleSubsystem \<Rightarrow> host_state \<Rightarrow> host_state" where
  "addInternal s st =
     (let hosts = nullish (s_hosts s) [] in
      if hosts = [] then
        pushInternal (addInstance s UNASSIGNED
          (setHostMeta UNASSIGNED \<lparr>gm_name = ''Unassigned'', gm_isCurrent = False\<rparr> st))
      else fold (addToHost s) hosts st)"

definition addExternal :: "VisibleSubsystem \<Rightarrow> host_state \<Rightarrow> host_state" where
  "addExternal s st =
     pushExternal (addInstance s EXTERNAL
       (setHostMeta EXTERNAL \<lparr>gm_name = ''External'', gm_isCurrent = False\<rparr> st))"

text \<open>\<open>fanOut\<close>: one synthetic edge for each pair of instances of the endpoints.\<close>

definition addEdge :: "VisibleDependency \<Rightarrow> VisibleSubsystem \<times> VisibleSubsystem \<Rightarrow>
    VisibleDependency list \<times> host_state \<Rightarrow> VisibleDependency list \<times> host_state" where
  "addEdge d st_pair acc =
     (let (out, st) = acc; eid = edgeSeq st in
      (out @ [d\<lparr>d_id := eid, from_subsystem_id := s_id (fst st_pair), to_subsystem_id := s_id (snd st_pair)\<rparr>],
       st\<lparr>edgeSeq := eid + 1, edgeDepResolver := jm_set eid (d_id d) (edgeDepResolver st)\<rparr>))"

definition fanOutOne :: "VisibleDependency \<Rightarrow> VisibleDependency list \<times> host_state \<Rightarrow>
    VisibleDependency list \<times> host_state" where
  "fanOutOne d acc =
     (let sources = nullish (jm_get (instancesOf (snd acc)) (from_subsystem_id d)) [];
          targets = nullish (jm_get (instancesOf (snd acc)) (to_subsystem_id d)) []
      in fold (addEdge d) (List.product sources targets) acc)"

definition fanOut :: "VisibleDependency list \<Rightarrow> host_state \<Rightarrow> VisibleDependency list \<times> host_state" where
  "fanOut deps st = fold fanOutOne deps ([], st)"

record HostGraph =
  hg_graph :: VisibilityInput
  hg_hostKeyById :: "(js_id, string) jmap"
  hg_hostMeta :: "(string, GroupMeta) jmap"
  hg_edgeDepResolver :: "(js_id, js_id) jmap"

definition buildHostGraph :: "VisibilityInput \<Rightarrow> HostGraph" where
  "buildHostGraph g =
     (let st0 = \<lparr>nodeSeq = 1, edgeSeq = 1, hostKeyById = [], hostMeta = [], edgeDepResolver = [],
                 instancesOf = [], h_subsystems = [], h_externals = []\<rparr>;
          st1 = fold addInternal (subsystems g) st0;
          st2 = fold addExternal (externalSubsystems g) st1;
          (deps, st3) = fanOut (dependencies g) st2;
          (extDeps, st4) = fanOut (externalDependencies g) st3
      in \<lparr>hg_graph = \<lparr>subsystems = h_subsystems st4, dependencies = deps,
                      externalSubsystems = h_externals st4, externalDependencies = extDeps\<rparr>,
          hg_hostKeyById = hostKeyById st4, hg_hostMeta = hostMeta st4,
          hg_edgeDepResolver = edgeDepResolver st4\<rparr>)"

subsection \<open>Focus and search\<close>

record FocusSet =
  nodeIds :: "string set"
  edgeIds :: "string set"

definition focus_step :: "string \<Rightarrow> VisibleDependency \<Rightarrow> FocusSet \<Rightarrow> FocusSet" where
  "focus_step focusedId d fs =
     (let frm = show_int (from_subsystem_id d); tgt = show_int (to_subsystem_id d) in
      if frm = focusedId then
        \<lparr>nodeIds = insert tgt (nodeIds fs), edgeIds = insert (show_int (d_id d)) (edgeIds fs)\<rparr>
      else if tgt = focusedId then
        \<lparr>nodeIds = insert frm (nodeIds fs), edgeIds = insert (show_int (d_id d)) (edgeIds fs)\<rparr>
      else fs)"

definition computeFocusSet :: "string \<Rightarrow> VisibleDependency list \<Rightarrow> FocusSet" where
  "computeFocusSet focusedId deps = fold (focus_step focusedId) deps \<lparr>nodeIds = {focusedId}, edgeIds = {}\<rparr>"

record SearchableComponent =
  sc_id :: js_id
  sc_name :: string
  sc_systemName :: string

definition matchComponents :: "string \<Rightarrow> SearchableComponent list \<Rightarrow> SearchableComponent list" where
  "matchComponents query comps =
     (let q = js_lower (js_trim query) in
      if q = [] then [] else filter (\<lambda>c. js_includes (js_lower (sc_name c)) q) comps)"

end
