(* ===== verification/TopologyFacts.thy ===== *)
theory TopologyFacts
  imports Topology
begin

text \<open>
  What the topology pipeline of theory Topology guarantees: the groups of the collapse model
  partition the subsystems, its edges account for every drawn dependency exactly once and can be
  decoded from their string keys, and the host graph consists of fresh, distinct nodes and edges
  that resolve to the real subsystems and dependencies they stand for.
\<close>

subsection \<open>Tables filled by a loop\<close>

lemma jm_get_fold_set_other:
  "k \<notin> f ` set xs \<Longrightarrow> jm_get (fold (\<lambda>x m. jm_set (f x) (h x) m) xs m0) k = jm_get m0 k"
  by (induction xs arbitrary: m0) auto

lemma jm_get_fold_set_mem:
  "jm_get (fold (\<lambda>x m. jm_set (f x) (h x) m) xs m0) k = Some v \<Longrightarrow>
   jm_get m0 k = Some v \<or> (\<exists>x \<in> set xs. f x = k \<and> h x = v)"
proof (induction xs arbitrary: m0)
  case Nil
  then show ?case by simp
next
  case (Cons x xs)
  from Cons.IH [of "jm_set (f x) (h x) m0"] Cons.prems show ?case by (auto split: if_splits)
qed

lemma jm_get_fold_set_distinct:
  "distinct (map f xs) \<Longrightarrow> x \<in> set xs \<Longrightarrow>
   jm_get (fold (\<lambda>x m. jm_set (f x) (h x) m) xs m0) (f x) = Some (h x)"
proof (induction xs arbitrary: m0)
  case Nil
  then show ?case by simp
next
  case (Cons y ys)
  show ?case
  proof (cases "x = y")
    case True
    with Cons.prems show ?thesis by (simp add: jm_get_fold_set_other)
  next
    case False
    with Cons show ?thesis by simp
  qed
qed

lemma jm_get_fold_set_some:
  "k \<in> f ` set xs \<or> jm_get m0 k \<noteq> None \<Longrightarrow> jm_get (fold (\<lambda>x m. jm_set (f x) (h x) m) xs m0) k \<noteq> None"
  by (induction xs arbitrary: m0) (simp, force)

lemma group_by_cong: "(\<And>x. x \<in> set xs \<Longrightarrow> f x = h x) \<Longrightarrow> group_by f xs = group_by h xs"
  unfolding group_by_def by (rule fold_cong) simp_all

subsection \<open>The groups\<close>

lemma groupOf_mem: "jm_get (groupOf ctx subs) i = Some k \<Longrightarrow> \<exists>s \<in> set subs. s_id s = i \<and> keyOf (grouping ctx) s = k"
  unfolding groupOf_def by (drule jm_get_fold_set_mem) simp

lemma groupOf_distinct:
  "distinct (map s_id subs) \<Longrightarrow> s \<in> set subs \<Longrightarrow> jm_get (groupOf ctx subs) (s_id s) = Some (keyOf (grouping ctx) s)"
  unfolding groupOf_def by (rule jm_get_fold_set_distinct)

lemma byGroup_distinct: "distinct (map s_id subs) \<Longrightarrow> byGroup ctx subs = group_by (keyOf (grouping ctx)) subs"
  unfolding byGroup_def by (rule group_by_cong) (simp add: groupOf_distinct)

lemma groupId_model_group [simp]: "groupId (model_group ctx kv) = fst kv"
  by (simp add: model_group_def Let_def)

lemma componentCount_model_group [simp]: "componentCount (model_group ctx kv) = length (snd kv)"
  by (simp add: model_group_def Let_def)

lemma components_model_group [simp]:
  "components (model_group ctx kv) = (if fst kv \<in> collapsedGroups ctx then [] else snd kv)"
  "collapsed (model_group ctx kv) \<longleftrightarrow> fst kv \<in> collapsedGroups ctx"
  by (simp_all add: model_group_def Let_def)

lemma groups_eq:
  "distinct (map s_id (all_subsystems g)) \<Longrightarrow>
   groups (computeCollapseModel g ctx) = map (model_group ctx) (group_by (keyOf (grouping ctx)) (all_subsystems g))"
  by (simp add: computeCollapseModel_def Let_def byGroup_distinct)

text \<open>
  When no two subsystems share an id, the groups of the collapse model partition them: each group
  key of a subsystem gives exactly one group, the group counts exactly the subsystems with that
  key, a group that is not collapsed lists them in order and a collapsed one lists none, and the
  counts add up to the number of subsystems.
\<close>

theorem collapse_groups_partition:
  assumes "distinct (map s_id (all_subsystems g))"
  shows "let subs = all_subsystems g; gs = groups (computeCollapseModel g ctx); key = keyOf (grouping ctx) in
    distinct (map groupId gs) \<and> groupId ` set gs = key ` set subs \<and>
    list_all (\<lambda>gr. componentCount gr = length (filter (\<lambda>s. key s = groupId gr) subs) \<and>
      components gr = (if collapsed gr then [] else filter (\<lambda>s. key s = groupId gr) subs)) gs \<and>
    sum_list (map componentCount gs) = length subs"
proof -
  let ?subs = "all_subsystems g" and ?key = "keyOf (grouping ctx)"
  have gs: "groups (computeCollapseModel g ctx) = map (model_group ctx) (group_by ?key ?subs)"
    by (rule groups_eq [OF assms])
  have "distinct (map groupId (groups (computeCollapseModel g ctx)))"
    using jm_wf_group_by [of ?key ?subs] by (simp add: gs comp_def jm_wf_def)
  moreover have "groupId ` set (groups (computeCollapseModel g ctx)) = ?key ` set ?subs"
    using keys_group_by [of ?key ?subs] by (simp add: gs image_image)
  moreover have "sum_list (map componentCount (groups (computeCollapseModel g ctx))) = length ?subs"
    using sum_list_group_by [of ?key ?subs] by (simp add: gs comp_def)
  moreover have "list_all (\<lambda>gr. componentCount gr = length (filter (\<lambda>s. ?key s = groupId gr) ?subs) \<and>
      components gr = (if collapsed gr then [] else filter (\<lambda>s. ?key s = groupId gr) ?subs))
      (groups (computeCollapseModel g ctx))"
    unfolding gs by (auto simp: list_all_iff group_by_entry)
  ultimately show ?thesis by (simp only: Let_def simp_thms)
qed

subsection \<open>The \<open>Grouping\<close> interface\<close>

text \<open>
  The model edges are keyed by \<open>source->target\<close> and decoded again by searching for the arrow, so a
  grouping must not produce keys that contain one. Each grouping of the application is an instance.
\<close>

locale topology_grouping =
  fixes G :: Grouping
  assumes key_plain: "CHR ''>'' \<notin> set (keyOf G s)"
begin

lemma displayNode_plain:
  assumes "grouping ctx = G"
  shows "CHR ''>'' \<notin> set (displayNode ctx subs i)"
proof -
  have i: "CHR ''>'' \<notin> set (show_int i)" using show_int_chars [of i] by (auto simp: is_digit_def)
  show ?thesis
  proof (cases "jm_get (groupOf ctx subs) i")
    case None
    with i show ?thesis by (simp add: displayNode_def)
  next
    case (Some k)
    then have "CHR ''>'' \<notin> set k" using groupOf_mem key_plain assms by blast
    with i Some show ?thesis by (simp add: displayNode_def)
  qed
qed

end

lemma show_int_plain: "CHR ''>'' \<notin> set (show_int i)"
  using show_int_chars [of i] by (auto simp: is_digit_def)

interpretation bs: topology_grouping "bySystem names c" for names c
  by unfold_locales (simp add: bySystem_def show_int_plain)

interpretation be: topology_grouping "byEnvSystem names ids" for names ids
  by unfold_locales (simp add: byEnvSystem_def show_int_plain)

subsection \<open>The edges\<close>

lemma prefix_arrow: "prefix ''->'' (c # s) \<longleftrightarrow> c = CHR ''-'' \<and> s \<noteq> [] \<and> hd s = CHR ''>''"
  by (cases s) auto

lemma indexOf_arrow: "CHR ''>'' \<notin> set w \<Longrightarrow> js_indexOf (w @ ''->'' @ t) ''->'' = Some (length w)"
proof (induction w)
  case Nil
  then show ?case by simp
next
  case (Cons c w)
  then have "hd (w @ ''->'' @ t) \<noteq> CHR ''>''" by (cases w) auto
  then have "\<not> prefix ''->'' (c # w @ ''->'' @ t)" by (simp only: prefix_arrow) simp
  with Cons show ?case by simp
qed

definition plain_display :: "(js_id \<Rightarrow> string) \<Rightarrow> bool" where
  "plain_display disp \<longleftrightarrow> (\<forall>i. CHR ''>'' \<notin> set (disp i))"

lemma edge_key_decode:
  "plain_display disp \<Longrightarrow> js_indexOf (edge_key disp d) ''->'' = Some (length (disp (from_subsystem_id d)))"
  unfolding edge_key_def by (rule indexOf_arrow) (simp add: plain_display_def)

lemma edge_key_inject:
  assumes "plain_display disp" "edge_key disp d = edge_key disp d'"
  shows "disp (from_subsystem_id d) = disp (from_subsystem_id d') \<and> disp (to_subsystem_id d) = disp (to_subsystem_id d')"
proof -
  have "length (disp (from_subsystem_id d)) = length (disp (from_subsystem_id d'))"
    using edge_key_decode [OF assms(1), of d] edge_key_decode [OF assms(1), of d'] assms(2) by simp
  with assms(2) show ?thesis by (simp add: edge_key_def)
qed

lemma edge_key_eq_iff:
  "plain_display disp \<Longrightarrow> edge_key disp d = edge_key disp d' \<longleftrightarrow>
   disp (from_subsystem_id d) = disp (from_subsystem_id d') \<and> disp (to_subsystem_id d) = disp (to_subsystem_id d')"
  using edge_key_inject [of disp d d'] by (auto simp: edge_key_def)

abbreviation drawn :: "(js_id \<Rightarrow> string) \<Rightarrow> VisibleDependency \<Rightarrow> bool" where
  "drawn disp d \<equiv> disp (from_subsystem_id d) \<noteq> disp (to_subsystem_id d)"

lemma edge_buckets_group_by: "edge_buckets disp deps = group_by (edge_key disp) (filter (drawn disp) deps)"
proof -
  have "fold (\<lambda>d b. if disp (from_subsystem_id d) = disp (to_subsystem_id d) then b
          else bucket_push (edge_key disp d) d b) deps m
      = fold (\<lambda>d. bucket_push (edge_key disp d) d) (filter (drawn disp) deps) m" for m
    by (induction deps arbitrary: m) simp_all
  then show ?thesis by (simp add: edge_buckets_def group_by_def)
qed

lemma model_edge_source_target:
  assumes "plain_display disp"
  shows "e_source (model_edge (edge_key disp d, ds)) = disp (from_subsystem_id d)"
    and "e_target (model_edge (edge_key disp d, ds)) = disp (to_subsystem_id d)"
  by (simp_all add: model_edge_def Let_def edge_key_decode [OF assms])
     (simp_all add: edge_key_def js_slice_def)

lemma model_edge_count: "ds \<noteq> [] \<Longrightarrow> aggregatedCount (model_edge (k, ds)) = length ds"
  by (simp add: model_edge_def Let_def)

text \<open>An entry of the edge buckets: its first dependency determines the endpoints.\<close>

lemma edge_bucket_entry:
  assumes "plain_display disp" "(k, ds) \<in> set (edge_buckets disp deps)"
  obtains d where "d \<in> set deps" "drawn disp d" "k = edge_key disp d" "ds \<noteq> []"
    "ds = filter (\<lambda>d'. disp (from_subsystem_id d') = disp (from_subsystem_id d) \<and>
                       disp (to_subsystem_id d') = disp (to_subsystem_id d)) deps"
proof -
  have ds: "ds = filter (\<lambda>d. edge_key disp d = k) (filter (drawn disp) deps)" "ds \<noteq> []"
    using assms(2) by (auto simp: edge_buckets_group_by group_by_entry)
  define d where "d = hd ds"
  have "d \<in> set ds" using ds(2) by (simp add: d_def)
  with ds(1) have d: "d \<in> set deps" "drawn disp d" "k = edge_key disp d" by auto
  have "ds = filter (\<lambda>d'. disp (from_subsystem_id d') = disp (from_subsystem_id d) \<and>
      disp (to_subsystem_id d') = disp (to_subsystem_id d)) deps"
    unfolding ds(1) filter_filter
    by (rule filter_cong) (use d in \<open>auto simp: edge_key_eq_iff [OF assms(1)]\<close>)
  with d ds(2) show ?thesis by (rule that)
qed

lemma edges_sound:
  assumes "plain_display disp"
  shows "distinct (map (\<lambda>e. (e_source e, e_target e)) (map model_edge (edge_buckets disp deps))) \<and>
    list_all (\<lambda>e. e_source e \<noteq> e_target e \<and> 0 < aggregatedCount e \<and>
      aggregatedCount e = length (filter (\<lambda>d. disp (from_subsystem_id d) = e_source e \<and>
        disp (to_subsystem_id d) = e_target e) deps)) (map model_edge (edge_buckets disp deps)) \<and>
    sum_list (map aggregatedCount (map model_edge (edge_buckets disp deps))) = length (filter (drawn disp) deps)"
proof (intro conjI)
  let ?B = "edge_buckets disp deps"
  have wf: "distinct (map fst ?B)" using jm_wf_group_by by (simp add: edge_buckets_group_by jm_wf_def)
  have key: "fst kv = e_source (model_edge kv) @ ''->'' @ e_target (model_edge kv)" if "kv \<in> set ?B" for kv
  proof -
    obtain k ds where kv: "kv = (k, ds)" by (cases kv)
    with that obtain d where "k = edge_key disp d" by (auto elim: edge_bucket_entry [OF assms])
    then show ?thesis by (simp add: kv model_edge_source_target [OF assms]) (simp add: edge_key_def)
  qed
  have "fst kv = fst kv'" if "kv \<in> set ?B" "kv' \<in> set ?B"
    "(e_source (model_edge kv), e_target (model_edge kv)) = (e_source (model_edge kv'), e_target (model_edge kv'))"
    for kv kv'
    using key [OF that(1)] key [OF that(2)] that(3) by simp
  then have "inj_on (\<lambda>kv. (e_source (model_edge kv), e_target (model_edge kv))) (set ?B)"
    using inj_onD [OF distinct_map [THEN iffD1, OF wf, THEN conjunct2]] by (intro inj_onI) blast
  moreover have "distinct ?B" using wf by (simp add: distinct_map)
  ultimately show "distinct (map (\<lambda>e. (e_source e, e_target e)) (map model_edge ?B))"
    by (simp add: distinct_map comp_def)
  show "list_all (\<lambda>e. e_source e \<noteq> e_target e \<and> 0 < aggregatedCount e \<and>
      aggregatedCount e = length (filter (\<lambda>d. disp (from_subsystem_id d) = e_source e \<and>
        disp (to_subsystem_id d) = e_target e) deps)) (map model_edge ?B)"
  proof -
    have "e_source (model_edge kv) \<noteq> e_target (model_edge kv) \<and> 0 < aggregatedCount (model_edge kv) \<and>
        aggregatedCount (model_edge kv) = length (filter (\<lambda>d. disp (from_subsystem_id d) = e_source (model_edge kv)
          \<and> disp (to_subsystem_id d) = e_target (model_edge kv)) deps)" if mem: "kv \<in> set ?B" for kv
    proof -
      obtain k ds where kv: "kv = (k, ds)" by (cases kv)
      obtain d where d: "d \<in> set deps" "drawn disp d" "k = edge_key disp d" "ds \<noteq> []"
        "ds = filter (\<lambda>d'. disp (from_subsystem_id d') = disp (from_subsystem_id d) \<and>
                       disp (to_subsystem_id d') = disp (to_subsystem_id d)) deps"
        by (rule edge_bucket_entry [OF assms mem [unfolded kv]])
      then have "aggregatedCount (model_edge kv) = length ds" by (simp add: kv model_edge_count)
      with d show ?thesis by (simp add: kv model_edge_source_target [OF assms])
    qed
    then show ?thesis unfolding list_all_iff set_map ball_simps by blast
  qed
  have "sum_list (map aggregatedCount (map model_edge ?B)) = sum_list (map (\<lambda>kv. length (snd kv)) ?B)"
    by (auto simp: edge_buckets_group_by group_by_entry model_edge_count intro!: arg_cong [where f = sum_list])
  then show "sum_list (map aggregatedCount (map model_edge ?B)) = length (filter (drawn disp) deps)"
    by (simp add: edge_buckets_group_by sum_list_group_by)
qed

subsection \<open>The host graph\<close>

definition nodes :: "host_state \<Rightarrow> VisibleSubsystem list" where
  "nodes st = h_subsystems st @ h_externals st"

text \<open>A synthetic node is one of the real subsystems with a fresh id.\<close>

definition instance_of :: "VisibleSubsystem list \<Rightarrow> js_id \<Rightarrow> VisibleSubsystem \<Rightarrow> bool" where
  "instance_of subs i n \<longleftrightarrow> (\<exists>s \<in> set subs. s_id s = i \<and> n = s\<lparr>s_id := s_id n\<rparr>)"

definition nodes_ok :: "host_state \<Rightarrow> bool" where
  "nodes_ok st \<longleftrightarrow>
     1 \<le> nodeSeq st \<and> distinct (map s_id (nodes st)) \<and> s_id ` set (nodes st) = {1..<nodeSeq st}"

definition hosts_ok :: "host_state \<Rightarrow> bool" where
  "hosts_ok st \<longleftrightarrow>
     (\<forall>n \<in> set (nodes st). \<exists>k. jm_get (hostKeyById st) (s_id n) = Some k \<and> jm_get (hostMeta st) k \<noteq> None) \<and>
     (\<forall>i k. jm_get (hostKeyById st) i = Some k \<longrightarrow> CHR ''>'' \<notin> set k)"

definition instances_ok :: "VisibleSubsystem list \<Rightarrow> host_state \<Rightarrow> bool" where
  "instances_ok subs st \<longleftrightarrow>
     (\<forall>i ns n. jm_get (instancesOf st) i = Some ns \<longrightarrow> n \<in> set ns \<longrightarrow> n \<in> set (nodes st) \<and> instance_of subs i n)"

definition host_inv :: "VisibleSubsystem list \<Rightarrow> host_state \<Rightarrow> bool" where
  "host_inv subs st \<longleftrightarrow> nodes_ok st \<and> hosts_ok st \<and> instances_ok subs st"

text \<open>One step of the construction, whichever list the node goes to.\<close>

definition placed :: "VisibleSubsystem \<Rightarrow> string \<Rightarrow> GroupMeta \<Rightarrow> host_state \<Rightarrow> host_state \<Rightarrow> bool" where
  "placed s key m st st' \<longleftrightarrow>
     nodeSeq st' = nodeSeq st + 1 \<and> hostKeyById st' = jm_set (nodeSeq st) key (hostKeyById st) \<and>
     hostMeta st' = jm_set key m (hostMeta st) \<and>
     instancesOf st' = bucket_push (s_id s) (s\<lparr>s_id := nodeSeq st\<rparr>) (instancesOf st) \<and>
     set (nodes st') = insert (s\<lparr>s_id := nodeSeq st\<rparr>) (set (nodes st)) \<and>
     (distinct (map s_id (nodes st)) \<longrightarrow> nodeSeq st \<notin> s_id ` set (nodes st) \<longrightarrow> distinct (map s_id (nodes st')))"

lemmas place_defs = addInstance_def setHostMeta_def pushInternal_def pushExternal_def Let_def

lemma placed_internal: "placed s key m st (pushInternal (addInstance s key (setHostMeta key m st)))"
  by (auto simp: placed_def place_defs nodes_def)

lemma placed_external: "placed s key m st (pushExternal (addInstance s key (setHostMeta key m st)))"
  by (auto simp: placed_def place_defs nodes_def)

lemma nodes_ok_placed: "nodes_ok st \<Longrightarrow> placed s key m st st' \<Longrightarrow> nodes_ok st'"
  unfolding nodes_ok_def placed_def by (elim conjE, intro conjI) auto

lemma hosts_ok_placed:
  assumes "nodes_ok st" "hosts_ok st" "placed s key m st st'" "CHR ''>'' \<notin> set key"
  shows "hosts_ok st'"
proof -
  have "\<exists>k. jm_get (hostKeyById st') (s_id n) = Some k \<and> jm_get (hostMeta st') k \<noteq> None"
    if n: "n \<in> set (nodes st')" for n
  proof (cases "s_id n = nodeSeq st")
    case True
    then show ?thesis using assms(3) by (simp add: placed_def)
  next
    case False
    with n assms(3) have "n \<in> set (nodes st)" by (auto simp: placed_def)
    with assms(2) obtain k where "jm_get (hostKeyById st) (s_id n) = Some k" "jm_get (hostMeta st) k \<noteq> None"
      by (auto simp: hosts_ok_def)
    with False assms(3) show ?thesis by (simp add: placed_def)
  qed
  moreover have "CHR ''>'' \<notin> set k" if "jm_get (hostKeyById st') i = Some k" for i k
    using that assms(2-4) by (auto simp: placed_def hosts_ok_def split: if_splits)
  ultimately show ?thesis by (simp add: hosts_ok_def)
qed

lemma instances_ok_placed:
  assumes "instances_ok subs st" "placed s key m st st'" "s \<in> set subs"
  shows "instances_ok subs st'"
  unfolding instances_ok_def
proof (intro allI impI)
  fix i ns n
  assume ns: "jm_get (instancesOf st') i = Some ns" "n \<in> set ns"
  have "n \<in> set (nodes st) \<and> instance_of subs i n \<or> i = s_id s \<and> n = s\<lparr>s_id := nodeSeq st\<rparr>"
    using ns assms(1,2)
    by (cases "jm_get (instancesOf st) i")
       (auto simp: placed_def instances_ok_def jm_get_bucket_push split: if_splits)
  then show "n \<in> set (nodes st') \<and> instance_of subs i n"
    using assms(2,3) by (auto simp: placed_def instance_of_def)
qed

lemma host_inv_placed:
  "host_inv subs st \<Longrightarrow> placed s key m st st' \<Longrightarrow> s \<in> set subs \<Longrightarrow> CHR ''>'' \<notin> set key \<Longrightarrow> host_inv subs st'"
  unfolding host_inv_def using nodes_ok_placed hosts_ok_placed instances_ok_placed by blast

lemma host_inv_addToHost: "host_inv subs st \<Longrightarrow> s \<in> set subs \<Longrightarrow> host_inv subs (addToHost s h st)"
  unfolding addToHost_def Let_def
  by (rule host_inv_placed [OF _ placed_internal]) (simp_all add: show_int_plain)

lemma host_inv_addInternal:
  assumes "host_inv subs st" "s \<in> set subs"
  shows "host_inv subs (addInternal s st)"
proof -
  have "host_inv subs st \<Longrightarrow> host_inv subs (fold (addToHost s) hs st)" for hs st
    by (induction hs arbitrary: st) (simp_all add: host_inv_addToHost assms(2))
  moreover have "host_inv subs (pushInternal (addInstance s UNASSIGNED (setHostMeta UNASSIGNED m st)))" for m
    by (rule host_inv_placed [OF assms(1) placed_internal assms(2)]) (simp add: UNASSIGNED_def)
  ultimately show ?thesis using assms(1) by (simp add: addInternal_def Let_def)
qed

lemma host_inv_addExternal: "host_inv subs st \<Longrightarrow> s \<in> set subs \<Longrightarrow> host_inv subs (addExternal s st)"
  unfolding addExternal_def
  by (rule host_inv_placed [OF _ placed_external]) (simp_all add: EXTERNAL_def)

lemma host_inv_fold:
  assumes "\<And>s st. host_inv subs st \<Longrightarrow> s \<in> set subs \<Longrightarrow> host_inv subs (f s st)"
    and "set xs \<subseteq> set subs" "host_inv subs st"
  shows "host_inv subs (fold f xs st)"
  using assms(2,3) by (induction xs arbitrary: st) (simp_all add: assms(1))

text \<open>The fan-out: a synthetic edge stands for a real dependency between instances of its endpoints.\<close>

definition stands_for :: "VisibleSubsystem list \<Rightarrow> VisibleSubsystem list \<Rightarrow> VisibleDependency \<Rightarrow> VisibleDependency \<Rightarrow> bool" where
  "stands_for subs ns real d \<longleftrightarrow>
     d = real\<lparr>d_id := d_id d, from_subsystem_id := from_subsystem_id d, to_subsystem_id := to_subsystem_id d\<rparr> \<and>
     (\<exists>n \<in> set ns. s_id n = from_subsystem_id d \<and> instance_of subs (from_subsystem_id real) n) \<and>
     (\<exists>n \<in> set ns. s_id n = to_subsystem_id d \<and> instance_of subs (to_subsystem_id real) n)"

definition same_nodes :: "host_state \<Rightarrow> host_state \<Rightarrow> bool" where
  "same_nodes st st' \<longleftrightarrow>
     nodes st' = nodes st \<and> h_subsystems st' = h_subsystems st \<and> h_externals st' = h_externals st \<and>
     instancesOf st' = instancesOf st \<and> hostKeyById st' = hostKeyById st \<and> hostMeta st' = hostMeta st"

definition edges_ok :: "VisibleSubsystem list \<Rightarrow> VisibleDependency list \<Rightarrow> host_state \<Rightarrow>
    VisibleDependency list \<times> host_state \<Rightarrow> bool" where
  "edges_ok subs reals st0 acc \<longleftrightarrow>
     (let (out, st) = acc in
      same_nodes st0 st \<and> edgeSeq st0 \<le> edgeSeq st \<and> map d_id out = [edgeSeq st0..edgeSeq st - 1] \<and>
      (\<forall>i < edgeSeq st0. jm_get (edgeDepResolver st) i = jm_get (edgeDepResolver st0) i) \<and>
      (\<forall>d \<in> set out. \<exists>real \<in> set reals.
          jm_get (edgeDepResolver st) (d_id d) = Some (d_id real) \<and> stands_for subs (nodes st0) real d))"

lemma edges_ok_ids: "edges_ok subs reals st0 (out, st) \<Longrightarrow> d \<in> set out \<Longrightarrow> edgeSeq st0 \<le> d_id d \<and> d_id d < edgeSeq st"
proof -
  assume ok: "edges_ok subs reals st0 (out, st)" and "d \<in> set out"
  then have "d_id d \<in> set (map d_id out)" by simp
  also have "map d_id out = [edgeSeq st0..edgeSeq st - 1]" using ok by (simp add: edges_ok_def)
  finally show ?thesis by simp
qed

lemma edges_ok_addEdge:
  assumes ok: "edges_ok subs reals st0 acc" and "real \<in> set reals"
    and n: "fst nm \<in> set (nodes st0)" "instance_of subs (from_subsystem_id real) (fst nm)"
    and m: "snd nm \<in> set (nodes st0)" "instance_of subs (to_subsystem_id real) (snd nm)"
  shows "edges_ok subs reals st0 (addEdge real nm acc)"
proof -
  obtain out st where acc: "acc = (out, st)" by (cases acc)
  let ?d = "real\<lparr>d_id := edgeSeq st, from_subsystem_id := s_id (fst nm), to_subsystem_id := s_id (snd nm)\<rparr>"
  let ?st = "st\<lparr>edgeSeq := edgeSeq st + 1, edgeDepResolver := jm_set (edgeSeq st) (d_id real) (edgeDepResolver st)\<rparr>"
  have add: "addEdge real nm acc = (out @ [?d], ?st)" by (simp add: addEdge_def acc Let_def)
  have le: "edgeSeq st0 \<le> edgeSeq st" and ids: "map d_id out = [edgeSeq st0..edgeSeq st - 1]"
    using ok by (simp_all add: edges_ok_def acc)
  have "stands_for subs (nodes st0) real ?d" using n m by (auto simp: stands_for_def)
  moreover have "\<exists>r \<in> set reals. jm_get (edgeDepResolver ?st) (d_id d) = Some (d_id r) \<and> stands_for subs (nodes st0) r d"
    if d: "d \<in> set out" for d
    using ok d edges_ok_ids [OF ok [unfolded acc] d] by (simp add: edges_ok_def acc)
  moreover have "map d_id (out @ [?d]) = [edgeSeq st0..edgeSeq ?st - 1]"
    using le ids by (simp add: upto_rec2)
  ultimately show ?thesis
    using ok le assms(2) unfolding add by (auto simp: edges_ok_def acc same_nodes_def nodes_def)
qed

lemma edges_ok_fanOutOne:
  assumes "edges_ok subs reals st0 acc" "real \<in> set reals" "instances_ok subs st0"
  shows "edges_ok subs reals st0 (fanOutOne real acc)"
proof -
  have inst: "instancesOf (snd acc) = instancesOf st0"
    using assms(1) by (cases acc) (simp add: edges_ok_def same_nodes_def)
  have mem: "n \<in> set (nodes st0) \<and> instance_of subs i n" if "n \<in> set (nullish (jm_get (instancesOf st0) i) [])" for i n
    using that assms(3) by (cases "jm_get (instancesOf st0) i") (auto simp: instances_ok_def)
  let ?ps = "List.product (nullish (jm_get (instancesOf st0) (from_subsystem_id real)) [])
                          (nullish (jm_get (instancesOf st0) (to_subsystem_id real)) [])"
  have "edges_ok subs reals st0 acc' \<Longrightarrow> set ps \<subseteq> set ?ps \<Longrightarrow> edges_ok subs reals st0 (fold (addEdge real) ps acc')"
    for ps acc'
  proof (induction ps arbitrary: acc')
    case Nil
    then show ?case by simp
  next
    case (Cons nm ps)
    then have "fst nm \<in> set (nullish (jm_get (instancesOf st0) (from_subsystem_id real)) [])"
      "snd nm \<in> set (nullish (jm_get (instancesOf st0) (to_subsystem_id real)) [])"
      by (auto simp del: in_set_conv_nth)
    then have "edges_ok subs reals st0 (addEdge real nm acc')"
      using edges_ok_addEdge [OF Cons.prems(1) assms(2)] mem by blast
    with Cons show ?case by simp
  qed
  with assms(1) show ?thesis by (simp add: fanOutOne_def Let_def inst)
qed

lemma edges_ok_fanOut:
  assumes "instances_ok subs st0"
  shows "edges_ok subs reals st0 (fanOut reals st0)"
proof -
  have "edges_ok subs reals st0 acc \<Longrightarrow> set ds \<subseteq> set reals \<Longrightarrow> edges_ok subs reals st0 (fold fanOutOne ds acc)"
    for ds acc
    by (induction ds arbitrary: acc) (simp_all add: edges_ok_fanOutOne assms)
  moreover have "edges_ok subs reals st0 ([], st0)" by (simp add: edges_ok_def same_nodes_def)
  ultimately show ?thesis by (simp add: fanOut_def)
qed

text \<open>The whole construction, taken apart once for the properties below.\<close>

lemma buildHostGraph_parts:
  obtains st deps st3 extDeps st4 where
    "host_inv (all_subsystems g) st" "edgeSeq st = 1"
    "edges_ok (all_subsystems g) (dependencies g) st (deps, st3)"
    "edges_ok (all_subsystems g) (externalDependencies g) st3 (extDeps, st4)"
    "buildHostGraph g = \<lparr>hg_graph = \<lparr>subsystems = h_subsystems st, dependencies = deps,
        externalSubsystems = h_externals st, externalDependencies = extDeps\<rparr>,
      hg_hostKeyById = hostKeyById st, hg_hostMeta = hostMeta st, hg_edgeDepResolver = edgeDepResolver st4\<rparr>"
proof -
  let ?subs = "all_subsystems g"
  define st0 where "st0 = \<lparr>nodeSeq = 1, edgeSeq = 1, hostKeyById = [], hostMeta = [], edgeDepResolver = [],
      instancesOf = [], h_subsystems = [], h_externals = []\<rparr>"
  define st where "st = fold addExternal (externalSubsystems g) (fold addInternal (subsystems g) st0)"
  have "host_inv ?subs st0"
    by (simp add: st0_def host_inv_def nodes_ok_def hosts_ok_def instances_ok_def nodes_def)
  then have inv: "host_inv ?subs st"
    unfolding st_def by (intro host_inv_fold host_inv_addInternal host_inv_addExternal) auto
  have seq: "edgeSeq (fold (addToHost s) hs x) = edgeSeq x" for s hs x
    by (induction hs arbitrary: x) (simp_all add: addToHost_def place_defs)
  have "edgeSeq (fold addInternal xs x) = edgeSeq x" for xs x
    by (induction xs arbitrary: x) (simp_all add: addInternal_def place_defs seq)
  moreover have "edgeSeq (fold addExternal xs x) = edgeSeq x" for xs x
    by (induction xs arbitrary: x) (simp_all add: addExternal_def place_defs)
  ultimately have e1: "edgeSeq st = 1" by (simp add: st_def st0_def)
  obtain deps st3 where f1: "fanOut (dependencies g) st = (deps, st3)" by (cases "fanOut (dependencies g) st")
  obtain ext st4 where f2: "fanOut (externalDependencies g) st3 = (ext, st4)"
    by (cases "fanOut (externalDependencies g) st3")
  have ok1: "edges_ok ?subs (dependencies g) st (deps, st3)"
    using edges_ok_fanOut [of ?subs st] inv f1 by (metis host_inv_def)
  then have same: "same_nodes st st3" by (simp add: edges_ok_def)
  then have "instances_ok ?subs st3" using inv by (simp add: host_inv_def instances_ok_def same_nodes_def)
  then have ok2: "edges_ok ?subs (externalDependencies g) st3 (ext, st4)"
    using edges_ok_fanOut [of ?subs st3] f2 by metis
  then have same2: "same_nodes st3 st4" by (simp add: edges_ok_def)
  have "buildHostGraph g = \<lparr>hg_graph = \<lparr>subsystems = h_subsystems st4, dependencies = deps,
        externalSubsystems = h_externals st4, externalDependencies = ext\<rparr>,
      hg_hostKeyById = hostKeyById st4, hg_hostMeta = hostMeta st4, hg_edgeDepResolver = edgeDepResolver st4\<rparr>"
    unfolding buildHostGraph_def Let_def st0_def [symmetric] st_def [symmetric]
    by (simp add: f1 f2)
  also have "h_subsystems st4 = h_subsystems st" using same same2 by (simp add: same_nodes_def)
  also have "h_externals st4 = h_externals st" using same same2 by (simp add: same_nodes_def)
  also have "hostKeyById st4 = hostKeyById st" using same same2 by (simp add: same_nodes_def)
  also have "hostMeta st4 = hostMeta st" using same same2 by (simp add: same_nodes_def)
  finally show ?thesis by (rule that [OF inv e1 ok1 ok2])
qed


interpretation bh: topology_grouping
  "byHost (hg_hostKeyById (buildHostGraph g)) m" for g m
proof
  fix s
  obtain st deps st3 ext st4 where "host_inv (all_subsystems g) st"
    "hg_hostKeyById (buildHostGraph g) = hostKeyById st"
    by (rule buildHostGraph_parts [of g]) simp
  then show "CHR ''>'' \<notin> set (keyOf (byHost (hg_hostKeyById (buildHostGraph g)) m) s)"
    by (cases "jm_get (hostKeyById st) (s_id s)") (auto simp: byHost_def host_inv_def hosts_ok_def)
qed

subsection \<open>The groupings of the application\<close>

inductive app_grouping :: "Grouping \<Rightarrow> bool" where
  by_system: "app_grouping (bySystem names current)"
| by_env_system: "app_grouping (byEnvSystem names ids)"
| by_host: "app_grouping (byHost (hg_hostKeyById (buildHostGraph g)) (hg_hostMeta (buildHostGraph g)))"

inductive_cases app_groupingE: "app_grouping G"

lemma app_grouping_plain: "app_grouping G \<Longrightarrow> topology_grouping G"
  by (erule app_groupingE)
     (simp_all add: bs.topology_grouping_axioms be.topology_grouping_axioms bh.topology_grouping_axioms)

lemma plain_displayNode: "app_grouping (grouping ctx) \<Longrightarrow> plain_display (displayNode ctx subs)"
  unfolding plain_display_def using topology_grouping.displayNode_plain [OF app_grouping_plain refl] by blast

text \<open>
  Under every grouping the application uses, the edges of the collapse model account for each
  dependency whose endpoints are drawn apart exactly once: no two edges join the same pair of
  drawn nodes, none joins a node to itself, each counts exactly the dependencies between its
  endpoints, and the counts add up to the number of dependencies drawn.
\<close>

theorem collapse_edges_account:
  assumes "app_grouping (grouping ctx)"
  shows "let deps = all_dependencies g; es = edges (computeCollapseModel g ctx);
             disp = displayNode ctx (all_subsystems g) in
    distinct (map (\<lambda>e. (e_source e, e_target e)) es) \<and>
    list_all (\<lambda>e. e_source e \<noteq> e_target e \<and> 0 < aggregatedCount e \<and>
      aggregatedCount e = length (filter (\<lambda>d. disp (from_subsystem_id d) = e_source e \<and>
        disp (to_subsystem_id d) = e_target e) deps)) es \<and>
    sum_list (map aggregatedCount es) =
      length (filter (\<lambda>d. disp (from_subsystem_id d) \<noteq> disp (to_subsystem_id d)) deps)"
  using edges_sound [OF plain_displayNode [OF assms]]
  unfolding computeCollapseModel_def Let_def TopologyModel.select_convs by blast

definition sample_subsystem :: "js_id \<Rightarrow> js_id \<Rightarrow> VisibleSubsystem" where
  "sample_subsystem i sys = \<lparr>s_id = i, s_name = ''c'', system_id = sys, component_type = ''api'',
     technology = None, is_mocked = None, s_hosts = None\<rparr>"

definition sample_dependency :: "js_id \<Rightarrow> js_id \<Rightarrow> js_id \<Rightarrow> VisibleDependency" where
  "sample_dependency i a b = \<lparr>d_id = i, from_subsystem_id = a, to_subsystem_id = b,
     dependency_type = ''api_call'', direction = Two_way, label = None\<rparr>"

text \<open>Systems 7 (components 1, 2) and 8 (component 3), system 7 collapsed, both its components using 3.\<close>

definition sample_graph :: VisibilityInput where
  "sample_graph = \<lparr>subsystems = [sample_subsystem 1 7, sample_subsystem 2 7],
     dependencies = [sample_dependency 10 1 2], externalSubsystems = [sample_subsystem 3 8],
     externalDependencies = [sample_dependency 11 1 3, sample_dependency 12 2 3]\<rparr>"

definition sample_ctx :: CollapseContext where
  "sample_ctx = \<lparr>collapsedGroups = {''7''}, grouping = bySystem [] 7\<rparr>"

theorem collapse_edges_account_witness:
  "sum_list (map aggregatedCount (edges (computeCollapseModel sample_graph sample_ctx))) = 2"
proof -
  have "app_grouping (grouping sample_ctx)" by (simp add: sample_ctx_def by_system)
  moreover have "length (filter (\<lambda>d. displayNode sample_ctx (all_subsystems sample_graph) (from_subsystem_id d)
      \<noteq> displayNode sample_ctx (all_subsystems sample_graph) (to_subsystem_id d)) (all_dependencies sample_graph)) = 2"
    by code_simp
  ultimately show ?thesis using collapse_edges_account [of sample_ctx sample_graph] by (simp only: Let_def)
qed

theorem collapse_groups_partition_witness:
  "sum_list (map componentCount (groups (computeCollapseModel sample_graph sample_ctx))) = 3"
proof -
  have "distinct (map s_id (all_subsystems sample_graph))" "length (all_subsystems sample_graph) = 3"
    by code_simp+
  then show ?thesis using collapse_groups_partition [of sample_graph sample_ctx] by (simp only: Let_def)
qed

end
