(* ===== verification/TopologyElk.thy ===== *)
theory TopologyElk
  imports Complex_Main TopologyFacts
begin

text \<open>
  The rendering end of the topology pipeline: \<open>topologyElkGraph.ts\<close> (the graph handed to the ELK
  layout library and the React Flow nodes and edges made of its result), \<open>topologyLayout.ts\<close> (the
  engine that falls back from the worker to the main thread) and \<open>topologyColors.ts\<close>. ELK itself is
  third-party code and a parameter here: a function from graphs to laid out graphs, or \<open>None\<close> when
  it rejects. What the code relies on is that a layout keeps the nodes and their nesting.
\<close>

subsection \<open>The ELK graph\<close>

record ElkEdge =
  ee_id :: string
  ee_sources :: "string list"
  ee_targets :: "string list"

datatype ElkNode = ElkNode
  (en_id: string)
  (en_x: "rat option") (en_y: "rat option") (en_width: "rat option") (en_height: "rat option")
  (en_options: "(string \<times> string) list")
  (en_children: "ElkNode list option")
  (en_edges: "ElkEdge list option")

definition NODE_WIDTH :: rat where
  "NODE_WIDTH = 180"

definition NODE_HEIGHT :: rat where
  "NODE_HEIGHT = 70"

definition COLLAPSED_WIDTH :: rat where
  "COLLAPSED_WIDTH = 180"

definition COLLAPSED_HEIGHT :: rat where
  "COLLAPSED_HEIGHT = 70"

definition ROOT_OPTIONS :: "(string \<times> string) list" where
  "ROOT_OPTIONS =
     [(''elk.algorithm'', ''layered''), (''elk.direction'', ''RIGHT''),
      (''elk.hierarchyHandling'', ''INCLUDE_CHILDREN''),
      (''elk.layered.spacing.nodeNodeBetweenLayers'', ''120''), (''elk.spacing.nodeNode'', ''40''),
      (''elk.spacing.edgeNode'', ''20''), (''elk.spacing.edgeEdge'', ''15'')]"

definition CONTAINER_OPTIONS :: "(string \<times> string) list" where
  "CONTAINER_OPTIONS =
     [(''elk.padding'', ''[top=36,left=12,bottom=12,right=12]''),
      (''elk.layered.spacing.nodeNodeBetweenLayers'', ''120'')]"

definition elk_component :: "VisibleSubsystem \<Rightarrow> ElkNode" where
  "elk_component c = ElkNode (show_int (s_id c)) None None (Some NODE_WIDTH) (Some NODE_HEIGHT) [] None None"

definition elk_group :: "ModelGroup \<Rightarrow> ElkNode" where
  "elk_group g =
     (if collapsed g
      then ElkNode (''sys-'' @ groupId g) None None (Some COLLAPSED_WIDTH) (Some COLLAPSED_HEIGHT) [] None None
      else ElkNode (''group-'' @ groupId g) None None None None CONTAINER_OPTIONS
             (Some (map elk_component (components g))) None)"

definition elk_edge :: "ModelEdge \<Rightarrow> ElkEdge" where
  "elk_edge e = \<lparr>ee_id = e_id e, ee_sources = [e_source e], ee_targets = [e_target e]\<rparr>"

definition buildElkGraph :: "TopologyModel \<Rightarrow> ElkNode" where
  "buildElkGraph model =
     ElkNode ''root'' None None None None ROOT_OPTIONS (Some (map elk_group (groups model)))
       (Some (map elk_edge (edges model)))"

subsection \<open>React Flow nodes and edges\<close>

datatype NodeData =
  CollapsedData string string nat bool
| GroupData string bool string
| ComponentData VisibleSubsystem string

record RfNode =
  n_id :: string
  n_parentId :: "string option"
  n_x :: rat
  n_y :: rat
  n_size :: "(rat \<times> rat) option"
  n_data :: NodeData

record RfEdge =
  re_id :: string
  re_source :: string
  re_target :: string
  re_label :: string
  re_markerStart :: bool

record ElkRenderContext =
  rc_subsystems :: "(js_id, VisibleSubsystem) jmap"
  colorFor :: "string \<Rightarrow> string"

definition groupById :: "TopologyModel \<Rightarrow> (string, ModelGroup) jmap" where
  "groupById model = fold (\<lambda>g m. jm_set (groupId g) g m) (groups model) []"

definition child_node :: "ElkRenderContext \<Rightarrow> string \<Rightarrow> ElkNode \<Rightarrow> RfNode list" where
  "child_node ctx parent child =
     (case (case js_Number (en_id child) of None \<Rightarrow> None | Some i \<Rightarrow> jm_get (rc_subsystems ctx) i) of
        None \<Rightarrow> []
      | Some sub \<Rightarrow>
          [\<lparr>n_id = en_id child, n_parentId = Some parent, n_x = nullish (en_x child) 0, n_y = nullish (en_y child) 0,
            n_size = None, n_data = ComponentData sub (colorFor ctx (component_type sub))\<rparr>])"

text \<open>One turn of the loop over the top-level nodes: what it adds to \<open>topNodes\<close> and \<open>childNodes\<close>.\<close>

definition render_node :: "(string, ModelGroup) jmap \<Rightarrow> ElkRenderContext \<Rightarrow> ElkNode \<Rightarrow> RfNode list \<times> RfNode list" where
  "render_node byId ctx node =
     (if js_startsWith (en_id node) ''sys-'' then
        let gid = js_remove_first ''sys-'' (en_id node) in
        (case jm_get byId gid of
           None \<Rightarrow> ([], [])
         | Some g \<Rightarrow>
             ([\<lparr>n_id = en_id node, n_parentId = None, n_x = nullish (en_x node) 0, n_y = nullish (en_y node) 0,
                n_size = None, n_data = CollapsedData gid (mg_name g) (componentCount g) (mg_isCurrent g)\<rparr>], []))
      else
        let gid = js_remove_first ''group-'' (en_id node); g = jm_get byId gid in
        ([\<lparr>n_id = en_id node, n_parentId = None, n_x = nullish (en_x node) 0, n_y = nullish (en_y node) 0,
           n_size = Some (nullish (en_width node) 0, nullish (en_height node) 0),
           n_data = GroupData (nullish (map_option mg_name g) (''Group '' @ gid))
             (nullish (map_option mg_isCurrent g) False) gid\<rparr>],
         concat (map (child_node ctx (en_id node)) (nullish (en_children node) []))))"

definition rf_edge :: "ModelEdge \<Rightarrow> RfEdge" where
  "rf_edge e = \<lparr>re_id = e_id e, re_source = e_source e, re_target = e_target e, re_label = e_label e,
     re_markerStart = (e_direction e = Two_way \<and> aggregatedCount e = 1)\<rparr>"

definition elkToReactFlow :: "ElkNode \<Rightarrow> TopologyModel \<Rightarrow> ElkRenderContext \<Rightarrow> RfNode list \<times> RfEdge list" where
  "elkToReactFlow result model ctx =
     (let rendered = map (render_node (groupById model) ctx) (nullish (en_children result) []) in
      (concat (map fst rendered) @ concat (map snd rendered), map rf_edge (edges model)))"

subsection \<open>The layout engine\<close>

record engine =
  worker :: bool
  bundled :: bool
  workerFailed :: bool
  workers_made :: nat
  bundled_made :: nat
  worker_calls :: nat

definition new_engine :: engine where
  "new_engine = \<lparr>worker = False, bundled = False, workerFailed = False, workers_made = 0, bundled_made = 0,
     worker_calls = 0\<rparr>"

text \<open>The two ELK instances: their layout functions, and whether the worker can be constructed.\<close>

record elk_backend =
  worker_layout :: "ElkNode \<Rightarrow> ElkNode option"
  bundled_layout :: "ElkNode \<Rightarrow> ElkNode option"
  worker_available :: bool

definition layoutOnMainThread :: "elk_backend \<Rightarrow> ElkNode \<Rightarrow> engine \<Rightarrow> ElkNode option \<times> engine" where
  "layoutOnMainThread be graph st =
     (bundled_layout be graph,
      if bundled st then st else st\<lparr>bundled := True, bundled_made := bundled_made st + 1\<rparr>)"

definition use_worker :: "elk_backend \<Rightarrow> ElkNode \<Rightarrow> engine \<Rightarrow> ElkNode option \<times> engine" where
  "use_worker be graph st =
     (let st = (if worker st then st
                else st\<lparr>worker := worker_available be, workers_made := workers_made st + 1\<rparr>) in
      if worker st then (worker_layout be graph, st\<lparr>worker_calls := worker_calls st + 1\<rparr>) else (None, st))"

definition layoutTopology ::
  "elk_backend \<Rightarrow> TopologyModel \<Rightarrow> ElkRenderContext \<Rightarrow> engine \<Rightarrow> (RfNode list \<times> RfEdge list) option \<times> engine" where
  "layoutTopology be model ctx st =
     (let graph = buildElkGraph model;
          (result, st) =
            (if workerFailed st then layoutOnMainThread be graph st
             else case use_worker be graph st of
               (Some r, st) \<Rightarrow> (Some r, st)
             | (None, st) \<Rightarrow> layoutOnMainThread be graph (st\<lparr>workerFailed := True, worker := False\<rparr>))
      in (map_option (\<lambda>r. elkToReactFlow r model ctx) result, st))"

definition layout_run :: "elk_backend \<Rightarrow> (TopologyModel \<times> ElkRenderContext) list \<Rightarrow> engine \<Rightarrow> engine" where
  "layout_run be calls st = fold (\<lambda>c st. snd (layoutTopology be (fst c) (snd c) st)) calls st"

subsection \<open>Colours\<close>

definition COMPONENT_COLORS :: "(string, string) jmap" where
  "COMPONENT_COLORS =
     [(''database'', ''#1976d2''), (''cache'', ''#f57c00''), (''message_queue'', ''#7b1fa2''),
      (''web_service'', ''#388e3c''), (''api_gateway'', ''#00796b''), (''worker'', ''#e64a19''),
      (''frontend'', ''#303f9f''), (''other'', ''#616161'')]"

definition MOCK_COLOR :: string where
  "MOCK_COLOR = ''#9e9e9e''"

definition colorForComponentType :: "string \<Rightarrow> string" where
  "colorForComponentType t = nullish (jm_get COMPONENT_COLORS t) ''#616161''"

end
