(* ===== verification/TopologyElkFacts.thy ===== *)
theory TopologyElkFacts
  imports TopologyElk
begin

text \<open>
  What the rendering end of the topology pipeline guarantees: the graph handed to ELK never has an
  edge to a node it does not contain, everything in it is rendered when the layout keeps nodes and
  nesting, and the layout engine falls back to the main thread for good.
\<close>

subsection \<open>Node ids of the ELK graph\<close>

definition elk_shape :: "ElkNode \<Rightarrow> (string \<times> string list) list" where
  "elk_shape n =
     map (\<lambda>c. (en_id c, map en_id (nullish (en_children c) []))) (nullish (en_children n) [])"

definition elk_ids :: "ElkNode \<Rightarrow> string set" where
  "elk_ids n = (\<Union>(i, kids) \<in> set (elk_shape n). insert i (set kids))"

definition group_node_id :: "ModelGroup \<Rightarrow> string" where
  "group_node_id g = (if collapsed g then ''sys-'' @ groupId g else ''group-'' @ groupId g)"

definition group_kids :: "ModelGroup \<Rightarrow> string list" where
  "group_kids g = (if collapsed g then [] else map (show_int \<circ> s_id) (components g))"

lemma elk_shape_build: "elk_shape (buildElkGraph m) = map (\<lambda>g. (group_node_id g, group_kids g)) (groups m)"
  by (simp add: elk_shape_def buildElkGraph_def elk_group_def elk_component_def group_node_id_def group_kids_def)

lemma elk_ids_build: "elk_ids (buildElkGraph m) = (\<Union>g \<in> set (groups m). insert (group_node_id g) (set (group_kids g)))"
  by (simp add: elk_ids_def elk_shape_build)

lemma displayNode_in_elk:
  assumes "distinct (map s_id (all_subsystems g))" "s \<in> set (all_subsystems g)"
  shows "displayNode ctx (all_subsystems g) (s_id s) \<in> elk_ids (buildElkGraph (computeCollapseModel g ctx))"
proof -
  let ?key = "keyOf (grouping ctx)" and ?subs = "all_subsystems g"
  let ?g = "model_group ctx (?key s, filter (\<lambda>x. ?key x = ?key s) ?subs)"
  have "filter (\<lambda>x. ?key x = ?key s) ?subs \<noteq> []" using assms(2) by (auto simp: filter_empty_conv)
  then have "(?key s, filter (\<lambda>x. ?key x = ?key s) ?subs) \<in> set (group_by ?key ?subs)"
    by (simp only: group_by_entry simp_thms)
  then have mem: "?g \<in> set (groups (computeCollapseModel g ctx))"
    unfolding groups_eq [OF assms(1)] by (simp only: set_map imageI)
  have "displayNode ctx ?subs (s_id s) \<in> insert (group_node_id ?g) (set (group_kids ?g))"
    using assms(2) groupOf_distinct [OF assms]
    by (auto simp: displayNode_def group_node_id_def group_kids_def)
  with mem show ?thesis unfolding elk_ids_build by blast
qed

lemma visible_distinct: "distinct (map s_id (all_subsystems g)) \<Longrightarrow>
   distinct (map s_id (all_subsystems (computeVisibleGraph g hidden)))"
  by (auto simp: computeVisibleGraph_def Let_def distinct_map_filter)

lemma visible_endpoints:
  assumes "d \<in> set (all_dependencies (computeVisibleGraph g hidden))"
  shows "from_subsystem_id d \<in> s_id ` set (all_subsystems (computeVisibleGraph g hidden))"
    and "to_subsystem_id d \<in> s_id ` set (all_subsystems (computeVisibleGraph g hidden))"
  using assms by (auto simp: computeVisibleGraph_def Let_def)

lemma model_edge_endpoints:
  assumes "distinct (map s_id (all_subsystems g))" "app_grouping (grouping ctx)"
    and "e \<in> set (edges (computeCollapseModel (computeVisibleGraph g hidden) ctx))"
  shows "e_source e \<noteq> e_target e \<and>
    e_source e \<in> elk_ids (buildElkGraph (computeCollapseModel (computeVisibleGraph g hidden) ctx)) \<and>
    e_target e \<in> elk_ids (buildElkGraph (computeCollapseModel (computeVisibleGraph g hidden) ctx))"
proof -
  let ?v = "computeVisibleGraph g hidden"
  let ?disp = "displayNode ctx (all_subsystems ?v)"
  note plain = plain_displayNode [OF assms(2), of "all_subsystems ?v"]
  have "e \<in> model_edge ` set (edge_buckets ?disp (all_dependencies ?v))"
    using assms(3) by (simp only: computeCollapseModel_def Let_def TopologyModel.select_convs set_map)
  then obtain k ds where mem: "(k, ds) \<in> set (edge_buckets ?disp (all_dependencies ?v))" and e: "e = model_edge (k, ds)"
    by auto
  obtain d where d: "d \<in> set (all_dependencies ?v)" "drawn ?disp d" "k = edge_key ?disp d" "ds \<noteq> []"
    "ds = filter (\<lambda>d'. ?disp (from_subsystem_id d') = ?disp (from_subsystem_id d) \<and>
                       ?disp (to_subsystem_id d') = ?disp (to_subsystem_id d)) (all_dependencies ?v)"
    by (rule edge_bucket_entry [OF plain mem])
  have "e_source e = ?disp (from_subsystem_id d)" "e_target e = ?disp (to_subsystem_id d)"
    unfolding e d(3) by (rule model_edge_source_target [OF plain])+
  moreover have "?disp i \<in> elk_ids (buildElkGraph (computeCollapseModel ?v ctx))"
    if "i \<in> s_id ` set (all_subsystems ?v)" for i
    using that displayNode_in_elk [OF visible_distinct [OF assms(1)]] by blast
  ultimately show ?thesis using d(2) visible_endpoints [OF d(1)] by simp
qed

text \<open>
  C37: whatever component types are hidden and whatever groups are collapsed, the graph handed to ELK is
  closed: each of its edges joins two different nodes that are in the graph, so ELK never meets a
  reference to a shape it does not know, which it answers by rejecting the whole layout.
\<close>

theorem elk_graph_closed:
  assumes "distinct (map s_id (all_subsystems g))" "app_grouping (grouping ctx)"
  shows "let graph = buildElkGraph (computeCollapseModel (computeVisibleGraph g hidden) ctx) in
    list_all (\<lambda>e. \<exists>src tgt. ee_sources e = [src] \<and> ee_targets e = [tgt] \<and> src \<noteq> tgt \<and>
      src \<in> elk_ids graph \<and> tgt \<in> elk_ids graph) (nullish (en_edges graph) [])"
proof -
  have ee: "nullish (en_edges (buildElkGraph m)) [] = map elk_edge (edges m)" for m
    by (simp add: buildElkGraph_def)
  show ?thesis
    unfolding Let_def ee list_all_iff
  proof
    fix e
    assume "e \<in> set (map elk_edge (edges (computeCollapseModel (computeVisibleGraph g hidden) ctx)))"
    then obtain me where me: "me \<in> set (edges (computeCollapseModel (computeVisibleGraph g hidden) ctx))"
      "e = elk_edge me" by auto
    then show "\<exists>src tgt. ee_sources e = [src] \<and> ee_targets e = [tgt] \<and> src \<noteq> tgt \<and>
        src \<in> elk_ids (buildElkGraph (computeCollapseModel (computeVisibleGraph g hidden) ctx)) \<and>
        tgt \<in> elk_ids (buildElkGraph (computeCollapseModel (computeVisibleGraph g hidden) ctx))"
      using model_edge_endpoints [OF assms me(1)] by (simp add: elk_edge_def)
  qed
qed

theorem elk_graph_closed_witness:
  "let graph = buildElkGraph (computeCollapseModel (computeVisibleGraph sample_graph {''db''}) sample_ctx) in
   length (nullish (en_edges graph) []) = 1 \<and>
   list_all (\<lambda>e. \<exists>src tgt. ee_sources e = [src] \<and> ee_targets e = [tgt] \<and> src \<noteq> tgt \<and>
     src \<in> elk_ids graph \<and> tgt \<in> elk_ids graph) (nullish (en_edges graph) [])"
proof -
  have "distinct (map s_id (all_subsystems sample_graph))" by code_simp
  moreover have "app_grouping (grouping sample_ctx)" by (simp add: sample_ctx_def by_system)
  moreover have "length (nullish (en_edges (buildElkGraph
      (computeCollapseModel (computeVisibleGraph sample_graph {''db''}) sample_ctx))) []) = 1" by code_simp
  ultimately show ?thesis using elk_graph_closed [of sample_graph sample_ctx "{''db''}"] by (simp only: Let_def)
qed

subsection \<open>What is rendered\<close>

text \<open>The context that \<open>TopologyCanvas\<close> builds for the visible graph.\<close>

definition render_context :: "(string \<Rightarrow> string) \<Rightarrow> VisibilityInput \<Rightarrow> ElkRenderContext" where
  "render_context color g =
     \<lparr>rc_subsystems = fold (\<lambda>s m. jm_set (s_id s) s m) (all_subsystems g) [], colorFor = color\<rparr>"

lemma group_prefix [simp]:
  "js_startsWith (CHR ''s'' # CHR ''y'' # CHR ''s'' # CHR ''-'' # k) ''sys-''"
  "\<not> js_startsWith (CHR ''g'' # k) ''sys-''"
  by (simp_all add: js_startsWith_def)

lemma remove_prefix [simp]:
  "js_remove_first ''sys-'' (CHR ''s'' # CHR ''y'' # CHR ''s'' # CHR ''-'' # k) = k"
  "js_remove_first ''group-'' (CHR ''g'' # CHR ''r'' # CHR ''o'' # CHR ''u'' # CHR ''p'' # CHR ''-'' # k) = k"
  using js_remove_first_prefix [of "''sys-''" k] js_remove_first_prefix [of "''group-''" k]
  by (simp_all del: js_remove_first_prefix)

lemma child_node_known:
  assumes "en_id c = show_int (s_id s)" "0 \<le> s_id s" "s \<in> set (all_subsystems g)"
  shows "map n_id (child_node (render_context color g) p c) = [en_id c] \<and>
    map n_parentId (child_node (render_context color g) p c) = [Some p]"
proof -
  have "jm_get (fold (\<lambda>s m. jm_set (s_id s) s m) (all_subsystems g) []) (s_id s) \<noteq> None"
    by (rule jm_get_fold_set_some) (use assms(3) in auto)
  then show ?thesis
    using assms by (auto simp: child_node_def render_context_def js_Number_show_int split: option.split)
qed

lemma children_known:
  assumes "map en_id cs = map (show_int \<circ> s_id) subs" "set subs \<subseteq> set (all_subsystems g)"
    and "\<forall>s \<in> set (all_subsystems g). 0 \<le> s_id s"
  shows "map n_id (concat (map (child_node (render_context color g) p) cs)) = map en_id cs"
    and "set (map n_parentId (concat (map (child_node (render_context color g) p) cs))) \<subseteq> {Some p}"
proof -
  have "map n_id (child_node (render_context color g) p c) = [en_id c] \<and>
      map n_parentId (child_node (render_context color g) p c) = [Some p]" if c: "c \<in> set cs" for c
  proof -
    have "en_id c \<in> set (map en_id cs)" using c by simp
    then have "en_id c \<in> set (map (show_int \<circ> s_id) subs)" by (simp only: assms(1))
    then obtain s where "s \<in> set subs" "en_id c = show_int (s_id s)" by auto
    with assms(2,3) show ?thesis by (intro child_node_known) auto
  qed
  then show "map n_id (concat (map (child_node (render_context color g) p) cs)) = map en_id cs"
    and "set (map n_parentId (concat (map (child_node (render_context color g) p) cs))) \<subseteq> {Some p}"
    by (induction cs) auto
qed

lemma render_node_known:
  assumes "en_id n = group_node_id gr" "map en_id (nullish (en_children n) []) = group_kids gr"
    and "jm_get byId (groupId gr) \<noteq> None" "set (components gr) \<subseteq> set (all_subsystems g)"
    and "\<forall>s \<in> set (all_subsystems g). 0 \<le> s_id s"
  shows "map n_id (fst (render_node byId (render_context color g) n)) = [group_node_id gr] \<and>
    map n_parentId (fst (render_node byId (render_context color g) n)) = [None] \<and>
    map n_id (snd (render_node byId (render_context color g) n)) = group_kids gr \<and>
    set (map n_parentId (snd (render_node byId (render_context color g) n))) \<subseteq> {Some (group_node_id gr)}"
proof (cases "collapsed gr")
  case True
  with assms(1,3) show ?thesis
    by (auto simp: render_node_def group_node_id_def group_kids_def Let_def)
next
  case False
  then have kids: "map en_id (nullish (en_children n) []) = map (show_int \<circ> s_id) (components gr)"
    and i: "en_id n = ''group-'' @ groupId gr"
    using assms(1,2) by (simp_all add: group_kids_def group_node_id_def)
  show ?thesis
    using False children_known [OF kids assms(4,5), of color "en_id n"] kids
    by (simp add: render_node_def i Let_def group_node_id_def group_kids_def)
qed

lemma list_all2_shape:
  "map (\<lambda>c. (f c, h c)) ns = map (\<lambda>g. (u g, v g)) gs \<Longrightarrow> list_all2 (\<lambda>c g. f c = u g \<and> h c = v g) ns gs"
proof (induction ns arbitrary: gs)
  case (Cons c ns)
  then show ?case by (cases gs) auto
qed simp

lemma rendered_ids:
  assumes "list_all2 (\<lambda>n gr. R n = ([group_node_id gr], group_kids gr)) ns gs"
  shows "set (concat (map (fst \<circ> R) ns)) \<union> set (concat (map (snd \<circ> R) ns))
     = (\<Union>gr \<in> set gs. insert (group_node_id gr) (set (group_kids gr)))"
  using assms by (induction rule: list_all2_induct) auto

lemma list_all2_left: "list_all2 P xs ys \<Longrightarrow> x \<in> set xs \<Longrightarrow> \<exists>y \<in> set ys. P x y"
  by (induction rule: list_all2_induct) auto

lemma rendered_parents:
  assumes "list_all2 (\<lambda>n gr. map n_id (fst (R n)) = [group_node_id gr] \<and>
      map n_parentId (fst (R n)) = [None] \<and> map n_id (snd (R n)) = group_kids gr \<and>
      set (map n_parentId (snd (R n))) \<subseteq> {Some (group_node_id gr)}) ns gs"
  shows "set (map n_parentId (concat (map fst (map R ns)) @ concat (map snd (map R ns))))
    \<subseteq> insert None (Some ` (\<Union>gr \<in> set gs. insert (group_node_id gr) (set (group_kids gr))))"
proof -
  have "n_parentId ` set (fst (R n)) = {None} \<and>
      n_parentId ` set (snd (R n)) \<subseteq> Some ` (\<Union>gr \<in> set gs. insert (group_node_id gr) (set (group_kids gr)))"
    if n: "n \<in> set ns" for n
  proof -
    obtain gr where gr: "gr \<in> set gs" "map n_parentId (fst (R n)) = [None]"
      "set (map n_parentId (snd (R n))) \<subseteq> {Some (group_node_id gr)}"
      using list_all2_left [OF assms n] by (elim bexE conjE) (rule that)
    have "n_parentId ` set (fst (R n)) = set (map n_parentId (fst (R n)))" by simp
    with gr show ?thesis by auto
  qed
  then show ?thesis by (simp add: image_UN image_Un) blast
qed

lemma components_subset:
  assumes "distinct (map s_id (all_subsystems g))" "gr \<in> set (groups (computeCollapseModel g ctx))"
  shows "set (components gr) \<subseteq> set (all_subsystems g)"
proof -
  obtain k xs where "(k, xs) \<in> set (group_by (keyOf (grouping ctx)) (all_subsystems g))" "gr = model_group ctx (k, xs)"
    using assms(2) unfolding groups_eq [OF assms(1)] by auto
  then show ?thesis by (auto simp: group_by_entry)
qed

text \<open>
  When the layout keeps the nodes and their nesting, the canvas renders exactly the nodes of the ELK
  graph and no edge dangles: the ids of the rendered nodes are the ids of the graph, every parent a
  node names is rendered, and both ends of every rendered edge are.
\<close>

theorem rendered_graph_closed:
  assumes "distinct (map s_id (all_subsystems g))" "app_grouping (grouping ctx)"
    and "\<forall>s \<in> set (all_subsystems g). 0 \<le> s_id s"
    and "elk_shape r = elk_shape (buildElkGraph (computeCollapseModel (computeVisibleGraph g hidden) ctx))"
  shows "let v = computeVisibleGraph g hidden; m = computeCollapseModel v ctx;
             (ns, es) = elkToReactFlow r m (render_context color v); ids = set (map n_id ns)
    in ids = elk_ids (buildElkGraph m) \<and> set (map n_parentId ns) \<subseteq> insert None (Some ` ids) \<and>
       set (map re_source es) \<union> set (map re_target es) \<subseteq> ids"
proof -
  let ?v = "computeVisibleGraph g hidden" and ?ns = "nullish (en_children r) []"
  let ?m = "computeCollapseModel ?v ctx"
  let ?R = "render_node (groupById ?m) (render_context color ?v)"
  have dist: "distinct (map s_id (all_subsystems ?v))" by (rule visible_distinct [OF assms(1)])
  have pos: "\<forall>s \<in> set (all_subsystems ?v). 0 \<le> s_id s"
    using assms(3) by (auto simp: computeVisibleGraph_def Let_def)
  have shape: "list_all2 (\<lambda>n gr. en_id n = group_node_id gr \<and>
      map en_id (nullish (en_children n) []) = group_kids gr) ?ns (groups ?m)"
    using assms(4) unfolding elk_shape_build unfolding elk_shape_def by (rule list_all2_shape)
  have known: "jm_get (groupById ?m) (groupId gr) \<noteq> None" if "gr \<in> set (groups ?m)" for gr
    unfolding groupById_def by (rule jm_get_fold_set_some) (use that in blast)
  have R: "list_all2 (\<lambda>n gr. map n_id (fst (?R n)) = [group_node_id gr] \<and>
      map n_parentId (fst (?R n)) = [None] \<and> map n_id (snd (?R n)) = group_kids gr \<and>
      set (map n_parentId (snd (?R n))) \<subseteq> {Some (group_node_id gr)}) ?ns (groups ?m)"
    by (rule list.rel_mono_strong [OF shape])
       (use render_node_known [OF _ _ known components_subset [OF dist] pos] in blast)
  then have "list_all2 (\<lambda>n gr. (map n_id (fst (?R n)), map n_id (snd (?R n))) = ([group_node_id gr], group_kids gr))
      ?ns (groups ?m)" by (rule list.rel_mono_strong) simp
  from rendered_ids [OF this]
  have ids: "set (map n_id (fst (elkToReactFlow r ?m (render_context color ?v)))) = elk_ids (buildElkGraph ?m)"
    by (simp add: elkToReactFlow_def Let_def elk_ids_build map_concat comp_def image_Un image_UN)
  from rendered_parents [OF R]
  have "set (map n_parentId (fst (elkToReactFlow r ?m (render_context color ?v))))
      \<subseteq> insert None (Some ` elk_ids (buildElkGraph ?m))"
    by (simp add: elkToReactFlow_def Let_def elk_ids_build)
  moreover have "set (map re_source (snd (elkToReactFlow r ?m (render_context color ?v)))) \<union>
      set (map re_target (snd (elkToReactFlow r ?m (render_context color ?v)))) \<subseteq> elk_ids (buildElkGraph ?m)"
    using model_edge_endpoints [OF assms(1,2), of _ hidden]
    by (auto simp: elkToReactFlow_def Let_def rf_edge_def)
  ultimately show ?thesis using ids by (simp add: Let_def split_def)
qed

text \<open>A layout that moves nothing keeps the shape.\<close>

theorem rendered_graph_closed_witness:
  "let m = computeCollapseModel (computeVisibleGraph sample_graph {}) sample_ctx;
       (ns, es) = elkToReactFlow (buildElkGraph m) m
         (render_context colorForComponentType (computeVisibleGraph sample_graph {}))
   in set (map n_id ns) = {''sys-7'', ''group-8'', ''3''} \<and> set (map re_source es) \<subseteq> set (map n_id ns)"
proof -
  let ?v = "computeVisibleGraph sample_graph {}"
  let ?m = "computeCollapseModel ?v sample_ctx"
  have "distinct (map s_id (all_subsystems sample_graph))" "\<forall>s \<in> set (all_subsystems sample_graph). 0 \<le> s_id s"
    by code_simp+
  moreover have "app_grouping (grouping sample_ctx)" by (simp add: sample_ctx_def by_system)
  moreover have "set (map n_id (fst (elkToReactFlow (buildElkGraph ?m) ?m (render_context colorForComponentType ?v))))
      = {''sys-7'', ''group-8'', ''3''}" by code_simp
  moreover from calculation(1-3) have "set (map re_source (snd (elkToReactFlow (buildElkGraph ?m) ?m
      (render_context colorForComponentType ?v))))
      \<subseteq> set (map n_id (fst (elkToReactFlow (buildElkGraph ?m) ?m (render_context colorForComponentType ?v))))"
    using rendered_graph_closed [of sample_graph sample_ctx "buildElkGraph ?m" "{}" colorForComponentType]
    unfolding Let_def split_def by blast
  ultimately show ?thesis unfolding Let_def split_def by blast
qed

subsection \<open>The layout engine\<close>

definition engine_ok :: "engine \<Rightarrow> bool" where
  "engine_ok st \<longleftrightarrow>
     workers_made st \<le> 1 \<and> bundled_made st = (if bundled st then 1 else 0) \<and>
     (if workerFailed st then \<not> worker st else workers_made st = (if worker st then 1 else 0))"

lemmas engine_defs = layoutTopology_def use_worker_def layoutOnMainThread_def Let_def

lemma engine_ok_layout: "engine_ok st \<Longrightarrow> engine_ok (snd (layoutTopology be m ctx st))"
  by (auto simp: engine_ok_def engine_defs split: option.splits if_splits)

lemma engine_ok_run: "engine_ok (layout_run be calls new_engine)"
proof -
  have "engine_ok st \<Longrightarrow> engine_ok (layout_run be calls st)" for st
    unfolding layout_run_def by (induction calls arbitrary: st) (simp_all add: engine_ok_layout)
  then show ?thesis by (simp add: engine_ok_def new_engine_def)
qed

text \<open>
  However many layouts have been asked for, the engine builds at most one worker and one
  main-thread instance; a layout is lost only if the main thread itself rejects it; and after the
  worker has failed once it is never asked again.
\<close>

theorem layout_engine_falls_back:
  "let st = layout_run be calls new_engine; (res, st') = layoutTopology be m ctx st; graph = buildElkGraph m;
       by_worker = (if workerFailed st \<or> \<not> worker st \<and> \<not> worker_available be then None else worker_layout be graph)
   in workers_made st' \<le> 1 \<and> bundled_made st' \<le> 1 \<and>
      res = map_option (\<lambda>r. elkToReactFlow r m ctx)
              (case by_worker of Some r \<Rightarrow> Some r | None \<Rightarrow> bundled_layout be graph) \<and>
      workerFailed st' = (by_worker = None) \<and>
      worker_calls st' = worker_calls st + (if workerFailed st \<or> \<not> worker st \<and> \<not> worker_available be then 0 else 1)"
proof -
  let ?st = "layout_run be calls new_engine"
  have ok: "engine_ok ?st" by (rule engine_ok_run)
  have "workers_made (snd (layoutTopology be m ctx ?st)) \<le> 1" "bundled_made (snd (layoutTopology be m ctx ?st)) \<le> 1"
    using engine_ok_layout [OF ok, of be m ctx] by (simp_all add: engine_ok_def)
  then show ?thesis
    using ok by (auto simp: engine_defs engine_ok_def split: option.splits if_splits)
qed

end
