(* ===== verification/EdgeGeometry.thy ===== *)
theory EdgeGeometry
  imports Complex_Main EnvPrelude
begin

text \<open>
  \<open>floatingEdgeGeometry.ts\<close> and \<open>canvasHeight.ts\<close> over the rationals, which stand for exact
  arithmetic in place of IEEE doubles. A point whose coordinates come out as \<open>NaN\<close> in JavaScript (a
  division by zero on the way) is \<open>None\<close>.
\<close>

subsection \<open>Canvas height\<close>

definition CANVAS_MIN_HEIGHT :: int where
  "CANVAS_MIN_HEIGHT = 400"

definition CANVAS_BOTTOM_GAP :: rat where
  "CANVAS_BOTTOM_GAP = 24"

definition computeCanvasHeight :: "rat \<Rightarrow> rat \<Rightarrow> rat \<Rightarrow> int" where
  "computeCanvasHeight canvasTop viewportHeight bottomGap =
     (let available = viewportHeight - canvasTop - bottomGap in max CANVAS_MIN_HEIGHT \<lfloor>available\<rfloor>)"

lemma canvas_height_min: "CANVAS_MIN_HEIGHT \<le> computeCanvasHeight t v b"
  by (simp add: computeCanvasHeight_def Let_def)

lemma canvas_height_fits:
  "of_int CANVAS_MIN_HEIGHT \<le> v - t - b \<Longrightarrow> of_int (computeCanvasHeight t v b) \<le> v - t - b"
  by (simp add: computeCanvasHeight_def Let_def max_def)

subsection \<open>Floating edges\<close>

type_synonym point = "rat \<times> rat"

record FloatingNode =
  position :: point
  positionAbsolute :: "point option"
  width :: "rat option"
  height :: "rat option"

datatype Position = Left | Right | Top | Bottom

definition absPosition :: "FloatingNode \<Rightarrow> point" where
  "absPosition n = nullish (positionAbsolute n) (position n)"

definition center :: "FloatingNode \<Rightarrow> point" where
  "center n = (fst (absPosition n) + nullish (width n) 0 / 2, snd (absPosition n) + nullish (height n) 0 / 2)"

definition getNodeIntersection :: "FloatingNode \<Rightarrow> FloatingNode \<Rightarrow> point option" where
  "getNodeIntersection node target =
     (let w = nullish (width node) 0 / 2; h = nullish (height node) 0 / 2;
          x2 = fst (absPosition node) + w; y2 = snd (absPosition node) + h;
          x1 = fst (absPosition target) + nullish (width target) 0 / 2;
          y1 = snd (absPosition target) + nullish (height target) 0 / 2;
          xx1 = (x1 - x2) / (2 * w) - (y1 - y2) / (2 * h);
          yy1 = (x1 - x2) / (2 * w) + (y1 - y2) / (2 * h);
          a = 1 / (\<bar>xx1\<bar> + \<bar>yy1\<bar>);
          xx3 = a * xx1; yy3 = a * yy1
      in if w = 0 \<or> h = 0 \<or> \<bar>xx1\<bar> + \<bar>yy1\<bar> = 0 then None
         else Some (w * (xx3 + yy3) + x2, h * (- xx3 + yy3) + y2))"

text \<open>\<open>Math.round\<close>: the nearest integer, ties upwards.\<close>

definition js_round :: "rat \<Rightarrow> int" where
  "js_round x = \<lfloor>x + 1 / 2\<rfloor>"

text \<open>Every comparison with \<open>NaN\<close> is false, which leaves the last return.\<close>

definition getEdgePosition :: "FloatingNode \<Rightarrow> point option \<Rightarrow> Position" where
  "getEdgePosition node pt =
     (case pt of
        None \<Rightarrow> Top
      | Some p \<Rightarrow>
          let nx = js_round (fst (absPosition node)); ny = js_round (snd (absPosition node));
              px = js_round (fst p); py = js_round (snd p) in
          if px \<le> nx + 1 then Left
          else if rat_of_int nx + nullish (width node) 0 - 1 \<le> rat_of_int px then Right
          else if py \<le> ny + 1 then Top
          else if rat_of_int ny + nullish (height node) 0 - 1 \<le> rat_of_int py then Bottom
          else Top)"

record EdgeParams =
  ep_source :: "point option"
  ep_target :: "point option"
  sourcePos :: Position
  targetPos :: Position

definition measured :: "FloatingNode \<Rightarrow> bool" where
  "measured n \<longleftrightarrow> nullish (width n) 0 \<noteq> 0 \<and> nullish (height n) 0 \<noteq> 0"

definition getEdgeParams :: "FloatingNode \<Rightarrow> FloatingNode \<Rightarrow> EdgeParams option" where
  "getEdgeParams source target =
     (if \<not> measured source \<or> \<not> measured target then None
      else let s = getNodeIntersection source target; t = getNodeIntersection target source in
        Some \<lparr>ep_source = s, ep_target = t, sourcePos = getEdgePosition source s,
              targetPos = getEdgePosition target t\<rparr>)"

subsection \<open>Facts\<close>

lemma max_abs_sum: "max \<bar>p + q\<bar> \<bar>q - p\<bar> = \<bar>p\<bar> + \<bar>q\<bar>" for p q :: rat
  by (simp add: max_def abs_if)

lemma abs_sum_zero: "\<bar>p\<bar> + \<bar>q\<bar> = 0 \<longleftrightarrow> p = 0 \<and> q = 0" for p q :: rat
  by (simp add: add_nonneg_eq_0_iff)

text \<open>The intersection in terms of the two centres.\<close>

lemma getNodeIntersection_center:
  fixes node target :: FloatingNode
  defines "w \<equiv> nullish (width node) 0 / 2" and "h \<equiv> nullish (height node) 0 / 2"
    and "dx \<equiv> fst (center target) - fst (center node)" and "dy \<equiv> snd (center target) - snd (center node)"
  assumes "w \<noteq> 0" "h \<noteq> 0" "dx \<noteq> 0 \<or> dy \<noteq> 0"
  obtains a where "0 < a" "max \<bar>a * dx / w\<bar> \<bar>a * dy / h\<bar> = 1"
    "getNodeIntersection node target = Some (fst (center node) + a * dx, snd (center node) + a * dy)"
proof -
  define p where "p = dx / (2 * w) - dy / (2 * h)"
  define q where "q = dx / (2 * w) + dy / (2 * h)"
  define a where "a = 1 / (\<bar>p\<bar> + \<bar>q\<bar>)"
  have pq: "q + p = dx / w" "q - p = dy / h" using assms(5,6) by (simp_all add: p_def q_def field_simps)
  have pos: "0 < \<bar>p\<bar> + \<bar>q\<bar>"
  proof (rule ccontr)
    assume "\<not> 0 < \<bar>p\<bar> + \<bar>q\<bar>"
    then have "p = 0" "q = 0" by (simp_all add: not_less abs_le_zero_iff add_nonneg_eq_0_iff antisym)
    with pq assms(5-7) show False by simp
  qed
  then have a: "0 < a" by (simp add: a_def)
  have "max \<bar>a * dx / w\<bar> \<bar>a * dy / h\<bar> = a * max \<bar>p + q\<bar> \<bar>q - p\<bar>"
    using a pq by (simp add: max_mult_distrib_left abs_mult add.commute times_divide_eq_right [symmetric] del: times_divide_eq_right)
  also have "\<dots> = 1" using pos by (simp add: max_abs_sum a_def)
  finally have m: "max \<bar>a * dx / w\<bar> \<bar>a * dy / h\<bar> = 1" .
  have c: "fst (absPosition node) + w = fst (center node)" "snd (absPosition node) + h = snd (center node)"
    "fst (absPosition target) + nullish (width target) 0 / 2 = fst (center target)"
    "snd (absPosition target) + nullish (height target) 0 / 2 = snd (center target)"
    by (simp_all add: center_def w_def h_def)
  have x: "w * (a * p + a * q) = a * dx" "h * (- (a * p) + a * q) = a * dy"
  proof -
    have "w * (a * p + a * q) = a * (w * (q + p))" "h * (- (a * p) + a * q) = a * (h * (q - p))"
      by (simp_all add: algebra_simps)
    then show "w * (a * p + a * q) = a * dx" "h * (- (a * p) + a * q) = a * dy"
      using assms(5,6) by (simp_all only: pq) simp_all
  qed
  have "getNodeIntersection node target = Some (w * (a * p + a * q) + fst (center node), h * (- (a * p) + a * q) + snd (center node))"
    unfolding getNodeIntersection_def Let_def w_def [symmetric] h_def [symmetric] c dx_def [symmetric] dy_def [symmetric]
      p_def [symmetric] q_def [symmetric] a_def [symmetric]
    using assms(5,6) pos by simp
  then show ?thesis using that [OF a m] x by (simp add: add.commute)
qed

text \<open>
  A floating edge attaches where it should: for two measured nodes with different centres the
  attachment point lies on the border of the node's rectangle (one of its two distances from the
  centre is exactly half the width or half the height and the other is no larger), and on the ray
  from the node's centre towards the other node's centre.
\<close>

theorem floating_edge_on_border:
  assumes "0 < nullish (width node) 0" "0 < nullish (height node) 0" "center target \<noteq> center node"
  shows "\<exists>x y a. getNodeIntersection node target = Some (x, y) \<and> 0 < a \<and>
    x - fst (center node) = a * (fst (center target) - fst (center node)) \<and>
    y - snd (center node) = a * (snd (center target) - snd (center node)) \<and>
    max (\<bar>x - fst (center node)\<bar> / (nullish (width node) 0 / 2))
        (\<bar>y - snd (center node)\<bar> / (nullish (height node) 0 / 2)) = 1"
proof -
  have "fst (center target) - fst (center node) \<noteq> 0 \<or> snd (center target) - snd (center node) \<noteq> 0"
    using assms(3) by (auto simp: prod_eq_iff)
  then obtain a where "0 < a"
    "max \<bar>a * (fst (center target) - fst (center node)) / (nullish (width node) 0 / 2)\<bar>
         \<bar>a * (snd (center target) - snd (center node)) / (nullish (height node) 0 / 2)\<bar> = 1"
    "getNodeIntersection node target = Some (fst (center node) + a * (fst (center target) - fst (center node)),
       snd (center node) + a * (snd (center target) - snd (center node)))"
    using getNodeIntersection_center [of node target] assms(1,2) by auto
  then show ?thesis
    using assms(1,2) by (intro exI conjI) (assumption | simp add: abs_mult abs_divide)+
qed

theorem floating_edge_on_border_witness:
  "let node = \<lparr>position = (0, 0), positionAbsolute = None, width = Some 180, height = Some 70\<rparr>;
       target = \<lparr>position = (400, 0), positionAbsolute = None, width = Some 180, height = Some 70\<rparr>
   in \<exists>x y a. getNodeIntersection node target = Some (x, y) \<and> 0 < a \<and>
        x - fst (center node) = a * (fst (center target) - fst (center node))"
  using floating_edge_on_border
    [of "\<lparr>position = (0, 0), positionAbsolute = None, width = Some 180, height = Some 70\<rparr>"
        "\<lparr>position = (400, 0), positionAbsolute = None, width = Some 180, height = Some 70\<rparr>"]
  by (auto simp: Let_def center_def absPosition_def)

end
