(* ===== verification/Dates.thy ===== *)
theory Dates
  imports JsString
begin

text \<open>
  \<open>utils/dates.ts\<close> and \<open>utils/duration.ts\<close>. A \<open>Date\<close> is its time value, in milliseconds since the
  epoch; an invalid date is \<open>None\<close>. What belongs to the environment is an argument: the parser behind
  \<open>new Date(isoDate)\<close>, the current instant, and the wall clock of the reader's time zone.
\<close>

type_synonym date = int

definition MS_PER_DAY :: int where
  "MS_PER_DAY = 24 * 60 * 60 * 1000"

text \<open>The UTC calendar day of an instant, counted from the epoch, and its weekday (0 is Sunday; the
  epoch was a Thursday).\<close>

definition utc_day :: "date \<Rightarrow> int" where
  "utc_day t = t div MS_PER_DAY"

definition getUTCDay :: "date \<Rightarrow> int" where
  "getUTCDay t = (utc_day t + 4) mod 7"

text \<open>\<open>d.setUTCDate(d.getUTCDate() + n)\<close> keeps the time of day.\<close>

definition add_utc_days :: "int \<Rightarrow> date \<Rightarrow> date" where
  "add_utc_days n t = t + n * MS_PER_DAY"

subsection \<open>Strings of date inputs\<close>

definition toIsoDatetime :: "string option \<Rightarrow> string option" where
  "toIsoDatetime d =
     (case d of
        None \<Rightarrow> None
      | Some s \<Rightarrow>
          let trimmed = js_trim s in
          if trimmed = [] then None
          else if js_includes trimmed ''T'' then Some trimmed
          else Some (trimmed @ ''T00:00:00Z''))"

definition toDateInputValue :: "string option \<Rightarrow> string" where
  "toDateInputValue isoDate = (case isoDate of None \<Rightarrow> [] | Some s \<Rightarrow> if s = [] then [] else js_slice 0 10 s)"

subsection \<open>Working days\<close>

definition localDayAsUtc :: "(date \<Rightarrow> date) \<Rightarrow> date \<Rightarrow> date" where
  "localDayAsUtc wall instant = utc_day (wall instant) * MS_PER_DAY"

definition weekend :: "date \<Rightarrow> bool" where
  "weekend t \<longleftrightarrow> getUTCDay t = 0 \<or> getUTCDay t = 6"

lemma utc_day_add [simp]: "utc_day (add_utc_days n t) = utc_day t + n"
  by (simp add: utc_day_def add_utc_days_def MS_PER_DAY_def)

lemma getUTCDay_range: "getUTCDay t \<in> {0, 1, 2, 3, 4, 5, 6}"
proof -
  have "0 \<le> getUTCDay t \<and> getUTCDay t < 7" by (simp add: getUTCDay_def)
  then show ?thesis by auto
qed

lemma getUTCDay_next: "getUTCDay (add_utc_days 1 t) = (if getUTCDay t = 6 then 0 else getUTCDay t + 1)"
proof -
  have "(d + 1 + 4) mod 7 = (if (d + 4) mod 7 = 6 then 0 else (d + 4) mod 7 + 1)" for d :: int
  proof -
    have "(d + 1 + 4) mod 7 = ((d + 4) mod 7 + 1) mod 7" by (simp add: mod_simps algebra_simps)
    moreover have "0 \<le> (d + 4) mod 7 \<and> (d + 4) mod 7 < 7" by simp
    ultimately show ?thesis by (cases "(d + 4) mod 7 = 6") (simp_all add: mod_pos_pos_trivial)
  qed
  then show ?thesis by (simp only: getUTCDay_def utc_day_add)
qed

text \<open>The loop ends: each turn works off a day or brings the end of the weekend nearer.\<close>

function working_loop :: "date \<Rightarrow> int \<Rightarrow> date" where
  "working_loop out remaining =
     (if 0 < remaining then
        let out = add_utc_days 1 out in
        working_loop out (if weekend out then remaining else remaining - 1)
      else out)"
  by pat_completeness auto

termination
proof (relation "measure (\<lambda>(out, remaining). 3 * nat remaining + (if getUTCDay out = 5 then 2 else if getUTCDay out = 6 then 1 else 0))",
    goal_cases)
  case 1
  then show ?case by simp
next
  case (2 out remaining x)
  then show ?case
    using getUTCDay_range [of out] by (auto simp: weekend_def getUTCDay_next nat_diff_distrib)
qed

declare working_loop.simps [simp del]

definition addWorkingDays :: "date \<Rightarrow> int \<Rightarrow> date" where
  "addWorkingDays from_date days = working_loop from_date days"

subsection \<open>Expiry\<close>

datatype js_number = NaN | Num int

definition expiryDayDelta :: "(string \<Rightarrow> date option) \<Rightarrow> date \<Rightarrow> string option \<Rightarrow> js_number option" where
  "expiryDayDelta parse now isoDate =
     (case isoDate of
        None \<Rightarrow> None
      | Some s \<Rightarrow>
          if s = [] then None
          else case parse s of None \<Rightarrow> Some NaN | Some e \<Rightarrow> Some (Num (utc_day e - utc_day now)))"

definition isExpiryOverdue :: "(string \<Rightarrow> date option) \<Rightarrow> date \<Rightarrow> string option \<Rightarrow> bool" where
  "isExpiryOverdue parse now isoDate =
     (case expiryDayDelta parse now isoDate of Some (Num n) \<Rightarrow> n < 0 | _ \<Rightarrow> False)"

definition plural :: "int \<Rightarrow> string" where
  "plural n = (if n = 1 then [] else ''s'')"

definition formatExpiry :: "(string \<Rightarrow> date option) \<Rightarrow> date \<Rightarrow> string option \<Rightarrow> string" where
  "formatExpiry parse now isoDate =
     (case expiryDayDelta parse now isoDate of
        None \<Rightarrow> ''No expiry planned''
      | Some NaN \<Rightarrow> ''overdue by NaN days''
      | Some (Num days) \<Rightarrow>
          if days = 0 then ''today''
          else if 0 < days then ''in '' @ show_int days @ '' day'' @ plural days
          else ''overdue by '' @ show_int \<bar>days\<bar> @ '' day'' @ plural \<bar>days\<bar>)"

subsection \<open>Durations\<close>

definition MINUTES_PER_DAY :: int where
  "MINUTES_PER_DAY = 1440"

text \<open>\<open>wall\<close> reads the local wall clock of an instant, \<open>of_wall\<close> finds the instant of a wall clock
  reading; \<open>setDate(getDate() + n)\<close> moves the wall clock by \<open>n\<close> days.\<close>

definition addDuration :: "(date \<Rightarrow> date) \<Rightarrow> (date \<Rightarrow> date) \<Rightarrow> date \<Rightarrow> int \<Rightarrow> date" where
  "addDuration wall of_wall start minutes =
     (if 0 < minutes \<and> minutes mod MINUTES_PER_DAY = 0
      then of_wall (wall start + (minutes div MINUTES_PER_DAY) * MS_PER_DAY)
      else start + minutes * 60000)"

subsection \<open>Facts\<close>

text \<open>The working days among the \<open>k\<close> days after an instant.\<close>

definition working_days_after :: "date \<Rightarrow> nat \<Rightarrow> nat" where
  "working_days_after t k = length (filter (\<lambda>j. \<not> weekend (add_utc_days (int j) t)) [1..<Suc k])"

lemma working_days_after_0 [simp]: "working_days_after t 0 = 0"
  by (simp add: working_days_after_def)

lemma add_utc_days_add: "add_utc_days m (add_utc_days n t) = add_utc_days (n + m) t"
  by (simp add: add_utc_days_def algebra_simps)

lemma working_days_after_Suc:
  "working_days_after t (Suc k) =
     (if weekend (add_utc_days 1 t) then 0 else 1) + working_days_after (add_utc_days 1 t) k"
proof -
  have "[1..<Suc (Suc k)] = 1 # map Suc [1..<Suc k]" by (simp add: map_Suc_upt upt_conv_Cons)
  then show ?thesis
    by (simp add: working_days_after_def filter_map comp_def add_utc_days_add del: upt_Suc)
qed

lemma working_loop_spec:
  "\<exists>k. working_loop t d = add_utc_days (int k) t \<and> int (working_days_after t k) = max 0 d \<and>
     (0 < d \<longrightarrow> \<not> weekend (working_loop t d))"
proof (induction t d rule: working_loop.induct)
  case (1 t d)
  show ?case
  proof (cases "0 < d")
    case False
    then show ?thesis by (intro exI [of _ 0]) (simp add: working_loop.simps [of t d] add_utc_days_def)
  next
    case True
    let ?t = "add_utc_days 1 t" and ?d = "if weekend (add_utc_days 1 t) then d else d - 1"
    have step: "working_loop t d = working_loop ?t ?d"
      using True by (simp add: working_loop.simps [of t d] Let_def)
    obtain k where k: "working_loop ?t ?d = add_utc_days (int k) ?t" "int (working_days_after ?t k) = max 0 ?d"
      "0 < ?d \<longrightarrow> \<not> weekend (working_loop ?t ?d)"
      using "1.IH" [OF True refl] by blast
    have "working_loop t d = add_utc_days (int (Suc k)) t"
      unfolding step k(1) by (simp add: add_utc_days_def algebra_simps)
    moreover have "int (working_days_after t (Suc k)) = max 0 d"
      using k(2) True by (simp add: working_days_after_Suc)
    moreover have "\<not> weekend (working_loop t d)"
    proof (cases "0 < ?d")
      case False
      then have "\<not> weekend ?t" "?d = 0" using True by (simp_all split: if_splits)
      then show ?thesis unfolding step by (simp add: working_loop.simps [of ?t])
    qed (use step k(3) in simp)
    ultimately show ?thesis by blast
  qed
qed

text \<open>
  C40: \<open>addWorkingDays\<close> lands exactly the asked number of working days ahead: the result is some number of
  whole UTC days after the start (so the time of day is kept), exactly \<open>days\<close> of the days passed are
  working days, and the result itself is never on a weekend.
\<close>

theorem addWorkingDays_exact:
  assumes "0 < days"
  shows "\<exists>k. addWorkingDays t days = add_utc_days (int k) t \<and> int (working_days_after t k) = days \<and>
    \<not> weekend (addWorkingDays t days)"
  using working_loop_spec [of t days] assms by (simp add: addWorkingDays_def)

theorem addWorkingDays_exact_witness:
  "\<exists>k. addWorkingDays 0 3 = add_utc_days (int k) 0 \<and> int (working_days_after 0 k) = 3 \<and> \<not> weekend (addWorkingDays 0 3)"
  by (rule addWorkingDays_exact) simp

text \<open>The label and the colour of an expiry.\<close>

lemma show_int_pos_hd: "0 < n \<Longrightarrow> show_int n \<noteq> []"
  using show_nat_nonempty by (auto simp: show_int_def)

text \<open>
  The colour of an expiry agrees with its label: when the date can be read, the cell is red exactly
  when the label starts with \<open>overdue\<close>, and an expiry later today or earlier today is neither.
\<close>

theorem expiry_label_agrees:
  assumes "parse s = Some e" "s \<noteq> []"
  shows "isExpiryOverdue parse now (Some s) = js_startsWith (formatExpiry parse now (Some s)) ''overdue'' \<and>
    (formatExpiry parse now (Some s) = ''today'') = (utc_day e = utc_day now)"
  using assms by (auto simp: isExpiryOverdue_def formatExpiry_def expiryDayDelta_def js_startsWith_def)

theorem expiry_label_agrees_witness:
  "isExpiryOverdue (\<lambda>_. Some 0) (5 * MS_PER_DAY) (Some ''1970-01-01'') =
     js_startsWith (formatExpiry (\<lambda>_. Some 0) (5 * MS_PER_DAY) (Some ''1970-01-01'')) ''overdue''"
  using expiry_label_agrees [of "\<lambda>_. Some 0" "''1970-01-01''" 0 "5 * MS_PER_DAY"] by simp

text \<open>An expiry that cannot be read is labelled overdue and coloured as not overdue.\<close>

lemma unreadable_expiry_disagrees:
  "parse s = None \<Longrightarrow> s \<noteq> [] \<Longrightarrow>
   \<not> isExpiryOverdue parse now (Some s) \<and> formatExpiry parse now (Some s) = ''overdue by NaN days''"
  by (simp add: isExpiryOverdue_def formatExpiry_def expiryDayDelta_def)

text \<open>A date input survives the trip to the wire and back.\<close>

lemma date_input_roundtrip:
  assumes "length s = 10" "js_trim s = s" "\<not> js_includes s ''T''"
  shows "toDateInputValue (toIsoDatetime (Some s)) = s"
  using assms by (auto simp: toIsoDatetime_def toDateInputValue_def js_slice_def Let_def)

text \<open>A whole number of days keeps the wall clock, any other duration is exact elapsed time.\<close>

lemma addDuration_days:
  "0 < n \<Longrightarrow> wall (of_wall (wall start + n * MS_PER_DAY)) = wall start + n * MS_PER_DAY \<Longrightarrow>
   wall (addDuration wall of_wall start (n * MINUTES_PER_DAY)) = wall start + n * MS_PER_DAY"
  by (simp add: addDuration_def MINUTES_PER_DAY_def)

lemma addDuration_minutes:
  "minutes mod MINUTES_PER_DAY \<noteq> 0 \<Longrightarrow> addDuration wall of_wall start minutes - start = minutes * 60000"
  by (simp add: addDuration_def)

text \<open>A weekend start counts like the Friday before it.\<close>

lemma weekend_start:
  assumes "weekend (add_utc_days 1 t)" "0 < days"
  shows "addWorkingDays (add_utc_days 1 t) days = addWorkingDays t days"
  using assms by (simp add: addWorkingDays_def working_loop.simps [of t days])

end
