(* ===== verification/RtkLifecycle.thy ===== *)
theory RtkLifecycle
  imports JsString
begin

text \<open>
  What the slices of the store share: \<open>services/apiError.ts\<close>, the outcome of an async thunk as Redux
  Toolkit dispatches it (\<open>pending\<close>, \<open>fulfilled\<close>, \<open>rejected\<close>), the two ways a thunk of this program turns
  a failed service call into a rejection, and the session of a list query driven by \<open>useServerGrid\<close>,
  which aborts a request when it issues the next one. The locale \<open>list_query\<close> is the contract of
  the three reducer cases of such a query; the slices are its instances.
\<close>

subsection \<open>API errors\<close>

record PydanticError =
  pe_loc :: "string list option"
  pe_msg :: "string option"

text \<open>An element of a \<open>detail\<close> array: an object, or anything else as \<open>String(d)\<close> shows it.\<close>

datatype detail_item = Item PydanticError | Other string

text \<open>\<open>detail\<close>: a string, an array, or another object with its JSON text (\<open>None\<close> when it cannot be
  serialised).\<close>

datatype detail = Detail_text string | Detail_list "detail_item list" | Detail_object "string option"

record ApiError =
  ae_detail :: "detail option"
  ae_message :: "string option"

definition formatPydanticError :: "PydanticError \<Rightarrow> string" where
  "formatPydanticError e =
     (let loc = (case pe_loc e of None \<Rightarrow> [] | Some ps \<Rightarrow> js_join ''.'' (filter (\<lambda>p. p \<noteq> ''body'') ps));
          msg = nullish (pe_msg e) ''invalid value''
      in if loc \<noteq> [] then loc @ '': '' @ msg else msg)"

definition detail_item_text :: "detail_item \<Rightarrow> string" where
  "detail_item_text d = (case d of Item e \<Rightarrow> formatPydanticError e | Other s \<Rightarrow> s)"

definition message_or :: "ApiError \<Rightarrow> string \<Rightarrow> string" where
  "message_or err fallback =
     (case ae_message err of None \<Rightarrow> fallback | Some m \<Rightarrow> if m = [] then fallback else m)"

text \<open>An array is also an object, so an empty one is serialised.\<close>

definition formatApiError :: "ApiError \<Rightarrow> string \<Rightarrow> string" where
  "formatApiError err fallback =
     (case ae_detail err of
        None \<Rightarrow> message_or err fallback
      | Some (Detail_text s) \<Rightarrow> if js_trim s \<noteq> [] then s else message_or err fallback
      | Some (Detail_list ds) \<Rightarrow>
          if ds \<noteq> [] then js_join ''; '' (map detail_item_text ds) else ''[]''
      | Some (Detail_object (Some json)) \<Rightarrow> json
      | Some (Detail_object None) \<Rightarrow> message_or err fallback)"

text \<open>The server's reason is what the user reads.\<close>

lemma formatApiError_text: "js_trim s \<noteq> [] \<Longrightarrow> formatApiError \<lparr>ae_detail = Some (Detail_text s), ae_message = m\<rparr> fb = s"
  by (simp add: formatApiError_def)

lemma formatApiError_nothing: "formatApiError \<lparr>ae_detail = None, ae_message = None\<rparr> fb = fb"
  by (simp add: formatApiError_def message_or_def)

lemma formatApiError_nonempty:
  assumes "fb \<noteq> []" "\<And>ds. ae_detail err = Some (Detail_list ds) \<Longrightarrow> \<forall>d \<in> set ds. detail_item_text d \<noteq> []"
    and "ae_detail err \<noteq> Some (Detail_object (Some []))"
  shows "formatApiError err fb \<noteq> []"
proof -
  have m: "message_or err fb \<noteq> []" using assms(1) by (simp add: message_or_def split: option.split)
  have j: "js_join sep ws \<noteq> []" if "ws \<noteq> []" "\<forall>w \<in> set ws. w \<noteq> []" for sep ws
    using that by (induction sep ws rule: js_join.induct) auto
  show ?thesis
  proof (cases "ae_detail err")
    case None
    then show ?thesis using m by (simp add: formatApiError_def)
  next
    case (Some d)
    show ?thesis
    proof (cases d)
      case (Detail_text s)
      then show ?thesis using Some m by (cases "s = []") (simp_all add: formatApiError_def)
    next
      case (Detail_list ds)
      then have "js_join ''; '' (map detail_item_text ds) \<noteq> []" if "ds \<noteq> []"
        using that assms(2) Some by (intro j) auto
      then show ?thesis using Some Detail_list by (simp add: formatApiError_def)
    next
      case (Detail_object json)
      then show ?thesis using Some m assms(3) by (cases json) (simp_all add: formatApiError_def)
    qed
  qed
qed

subsection \<open>Thunks\<close>

record rejected =
  rj_payload :: "string option"
  rj_message :: "string option"
  rj_aborted :: bool

datatype 'p lifecycle = Pending | Fulfilled 'p | Rejected rejected

text \<open>A thunk whose service call failed: with \<open>rejectWithValue(formatApiError(err, fallback))\<close>, and with
  the error left to the serializer of Redux Toolkit, which keeps the message.\<close>

definition reject_with :: "string \<Rightarrow> ApiError \<Rightarrow> rejected" where
  "reject_with fallback err =
     \<lparr>rj_payload = Some (formatApiError err fallback), rj_message = Some ''Rejected'', rj_aborted = False\<rparr>"

definition reject_plain :: "ApiError \<Rightarrow> rejected" where
  "reject_plain err = \<lparr>rj_payload = None, rj_message = ae_message err, rj_aborted = False\<rparr>"

definition aborted_rejection :: rejected where
  "aborted_rejection = \<lparr>rj_payload = None, rj_message = Some ''Aborted'', rj_aborted = True\<rparr>"

definition thunk_with :: "string \<Rightarrow> ApiError + 'p \<Rightarrow> 'p lifecycle" where
  "thunk_with fallback r = (case r of Inl e \<Rightarrow> Rejected (reject_with fallback e) | Inr x \<Rightarrow> Fulfilled x)"

definition thunk_plain :: "ApiError + 'p \<Rightarrow> 'p lifecycle" where
  "thunk_plain r = (case r of Inl e \<Rightarrow> Rejected (reject_plain e) | Inr x \<Rightarrow> Fulfilled x)"

text \<open>A thunk with a \<open>fulfilled\<close> case only, and one with the three cases.\<close>

definition on_fulfilled :: "('p \<Rightarrow> 's \<Rightarrow> 's) \<Rightarrow> 'p lifecycle \<Rightarrow> 's \<Rightarrow> 's" where
  "on_fulfilled f l st = (case l of Fulfilled p \<Rightarrow> f p st | _ \<Rightarrow> st)"

definition on_cases :: "('s \<Rightarrow> 's) \<Rightarrow> ('p \<Rightarrow> 's \<Rightarrow> 's) \<Rightarrow> (rejected \<Rightarrow> 's \<Rightarrow> 's) \<Rightarrow> 'p lifecycle \<Rightarrow> 's \<Rightarrow> 's" where
  "on_cases pend ful rej l st = (case l of Pending \<Rightarrow> pend st | Fulfilled p \<Rightarrow> ful p st | Rejected r \<Rightarrow> rej r st)"

lemma on_fulfilled_simps [simp]:
  "on_fulfilled f Pending st = st" "on_fulfilled f (Fulfilled p) st = f p st" "on_fulfilled f (Rejected r) st = st"
  by (simp_all add: on_fulfilled_def)

lemma on_cases_simps [simp]:
  "on_cases a b c Pending st = a st" "on_cases a b c (Fulfilled p) st = b p st" "on_cases a b c (Rejected r) st = c r st"
  by (simp_all add: on_cases_def)

text \<open>A page of a list endpoint.\<close>

record 'r page =
  pg_rows :: "'r list"
  pg_total :: int

subsection \<open>The session of a list query\<close>

record ('s, 'p) list_ops =
  op_pending :: "'s \<Rightarrow> 's"
  op_fulfilled :: "'p \<Rightarrow> 's \<Rightarrow> 's"
  op_rejected :: "rejected \<Rightarrow> 's \<Rightarrow> 's"

text \<open>The slice, whether the newest request is unanswered, how many aborted requests have not been
  rejected yet, whether the last request was aborted by leaving the page, and the page shown.\<close>

record ('s, 'p) list_session =
  slice :: 's
  live :: bool
  stale :: nat
  hung :: bool
  shown :: 'p

datatype 'p list_event = Issue | Answer 'p | Fail rejected | AbortSettles | Leave

fun session_step :: "('s, 'p) list_ops \<Rightarrow> 'p list_event \<Rightarrow> ('s, 'p) list_session \<Rightarrow> ('s, 'p) list_session" where
  "session_step ops Issue x =
     x\<lparr>slice := op_pending ops (slice x), live := True, stale := (if live x then stale x + 1 else stale x),
       hung := False\<rparr>"
| "session_step ops (Answer p) x =
     (if live x then x\<lparr>slice := op_fulfilled ops p (slice x), live := False, shown := p\<rparr> else x)"
| "session_step ops (Fail r) x =
     (if live x \<and> \<not> rj_aborted r then x\<lparr>slice := op_rejected ops r (slice x), live := False\<rparr> else x)"
| "session_step ops AbortSettles x =
     (if 0 < stale x then x\<lparr>slice := op_rejected ops aborted_rejection (slice x), stale := stale x - 1\<rparr> else x)"
| "session_step ops Leave x =
     (if live x then x\<lparr>live := False, stale := stale x + 1, hung := True\<rparr> else x)"

definition session_run :: "('s, 'p) list_ops \<Rightarrow> 'p list_event list \<Rightarrow> ('s, 'p) list_session \<Rightarrow> ('s, 'p) list_session" where
  "session_run ops es x = fold (session_step ops) es x"

definition new_session :: "'s \<Rightarrow> 'p \<Rightarrow> ('s, 'p) list_session" where
  "new_session s p = \<lparr>slice = s, live = False, stale = 0, hung = False, shown = p\<rparr>"

text \<open>What a page may rely on: the spinner shows exactly while the newest request is unanswered (or was
  abandoned by leaving the page), an unanswered newest request shows no error, and the rows are the
  last page that was answered.\<close>

definition session_ok :: "('s \<Rightarrow> bool) \<Rightarrow> ('s \<Rightarrow> string option) \<Rightarrow> ('s \<Rightarrow> 'p) \<Rightarrow> ('s, 'p) list_session \<Rightarrow> bool" where
  "session_ok loading err rows x \<longleftrightarrow>
     (loading (slice x) \<longleftrightarrow> live x \<or> hung x) \<and> (if live x then err (slice x) = None else True) \<and>
     rows (slice x) = shown x"

locale list_query =
  fixes ops :: "('s, 'p) list_ops"
    and loading :: "'s \<Rightarrow> bool"
    and err :: "'s \<Rightarrow> string option"
    and rows :: "'s \<Rightarrow> 'p"
  assumes pending: "loading (op_pending ops s)" "err (op_pending ops s) = None"
      "rows (op_pending ops s) = rows s"
    and fulfilled: "\<not> loading (op_fulfilled ops p s)" "rows (op_fulfilled ops p s) = p"
    and rejected: "\<not> rj_aborted r \<Longrightarrow> \<not> loading (op_rejected ops r s)" "rows (op_rejected ops r s) = rows s"
    and aborted: "rj_aborted r \<Longrightarrow> op_rejected ops r s = s"
begin

lemma session_ok_step: "session_ok loading err rows x \<and> \<not> (live x \<and> hung x) \<Longrightarrow>
   session_ok loading err rows (session_step ops e x) \<and> \<not> (live (session_step ops e x) \<and> hung (session_step ops e x))"
  by (cases e) (simp_all add: session_ok_def pending fulfilled rejected aborted aborted_rejection_def)

lemma session_ok_run:
  assumes "\<not> loading s"
  shows "session_ok loading err rows (session_run ops es (new_session s (rows s)))"
proof -
  have "session_ok loading err rows x \<and> \<not> (live x \<and> hung x) \<Longrightarrow> session_ok loading err rows (session_run ops es x)"
    for x
    unfolding session_run_def by (induction es arbitrary: x) (use session_ok_step in auto)
  with assms show ?thesis by (simp add: session_ok_def new_session_def)
qed

text \<open>The rejection of a superseded request changes nothing the page can see.\<close>

lemma superseded_invisible: "slice (session_step ops AbortSettles x) = slice x"
  by (simp add: aborted aborted_rejection_def)

end

end
