(* ===== verification/ReleaseTypes.thy ===== *)
theory ReleaseTypes
  imports RtkLifecycle JsMap
begin

text \<open>
  The records of \<open>types/release.ts\<close>, \<open>types/gateCriterion.ts\<close>, \<open>types/gateWaiver.ts\<close>,
  \<open>types/gateEvidence.ts\<close>, \<open>types/releaseEvent.ts\<close> and \<open>types/releaseChange.ts\<close> that the release slice
  stores, field by field: a nullable or optional field is an option, a union of string literals a
  datatype, and the untyped values of custom fields their JSON text.
\<close>

datatype ReleaseKind = Project_release | Enterprise_release

datatype PhaseKind = Test_phase | Hypercare_phase

datatype GateStatus = Gate_pending | Gate_passed | Gate_failed | Gate_overridden

datatype WindowStatus = Win_open | Win_closing_soon | Win_closed | Win_shipped | Win_no_cutoff

datatype GateCriterionStatus = Criterion_open | Criterion_done

datatype WaiverState = Waiver_live | Waiver_expired

datatype SystemRole = Role_changing | Role_regression | Role_config_only

record GateCriterion =
  gc_id :: js_id
  gc_gate_id :: js_id
  gc_title :: string
  gc_notes :: "string option"
  gc_assigned_to_user_id :: "js_id option"
  gc_assigned_to_username :: "string option"
  gc_assigned_role :: "string option"
  gc_status :: GateCriterionStatus
  gc_completed_at :: "string option"
  gc_completed_by_user_id :: "js_id option"
  gc_created_at :: string
  gc_updated_at :: string

record GateWaiverResponse =
  gw_id :: js_id
  gw_reason :: string
  gw_approved_by_user_id :: js_id
  gw_approved_by_username :: "string option"
  gw_expires_at :: "string option"
  gw_remediation :: "string option"
  gw_created_at :: string
  gw_state :: WaiverState

record GateEvidenceResponse =
  ge_id :: js_id
  ge_gate_id :: js_id
  ge_kind :: string
  ge_label :: string
  ge_url :: "string option"
  ge_notes :: "string option"
  ge_deployment_id :: "js_id option"
  ge_added_by :: js_id
  ge_created_at :: string
  ge_is_stale :: bool

record ReleaseResponse =
  rl_id :: js_id
  rl_tenant_id :: js_id
  rl_name :: string
  rl_description :: "string option"
  rl_release_type :: string
  rl_release_kind :: ReleaseKind
  rl_owning_project_id :: "js_id option"
  rl_owning_project_name :: "string option"
  rl_parent_release_id :: "js_id option"
  rl_template_id :: "js_id option"
  rl_lifecycle_template_id :: js_id
  rl_status :: string
  rl_target_date :: "string option"
  rl_actual_date :: "string option"
  rl_scope_deadline :: "string option"
  rl_scope_creep_count :: "int option"
  rl_custom_fields :: "(string, string) jmap option"
  rl_raised_by :: js_id
  rl_created_at :: string
  rl_updated_at :: string
  rl_operations_group_id :: "js_id option"
  rl_operations_group_name :: "string option"
  rl_declared_stable_at :: "string option"
  rl_declared_stable_by_username :: "string option"
  rl_handover_confirmed_at :: "string option"
  rl_handover_confirmed_by_username :: "string option"

record ReleaseSystemBrief =
  rsb_id :: js_id
  rsb_name :: string
  rsb_role :: SystemRole

record ReleaseListItemResponse = ReleaseResponse +
  rl_phase_count :: int
  rl_scope_count :: int
  rl_blocker_count :: int
  rl_overdue_criterion_count :: int
  rl_scope_additions_count :: int
  rl_scope_removals_count :: int
  rl_scope_change_count :: int
  rl_window_status :: WindowStatus
  rl_days_to_cutoff :: "int option"
  rl_systems :: "ReleaseSystemBrief list"

record TestPhaseResponse =
  tp_id :: js_id
  tp_tenant_id :: js_id
  tp_release_id :: js_id
  tp_name :: string
  tp_order :: int
  tp_start_date :: "string option"
  tp_end_date :: "string option"
  tp_status :: string
  tp_kind :: PhaseKind

record TimelineGate =
  tg_id :: js_id
  tg_name :: string
  tg_due_date :: string
  tg_status :: GateStatus

record ReleaseGateResponse =
  rg_id :: js_id
  rg_tenant_id :: js_id
  rg_release_id :: js_id
  rg_due_date :: string
  rg_name :: string
  rg_status :: GateStatus
  rg_decided_by :: "js_id option"
  rg_decided_at :: "string option"
  rg_decision_notes :: "string option"
  rg_gate_type_id :: "js_id option"
  rg_test_phase_id :: "js_id option"
  rg_criteria :: "GateCriterion list"
  rg_overdue_criterion_count :: int
  rg_waiver :: "GateWaiverResponse option"

record ReleaseDependencyResponse =
  rd_id :: js_id
  rd_tenant_id :: js_id
  rd_release_id :: js_id
  rd_depends_on_release_id :: js_id
  rd_kind :: string
  rd_notes :: "string option"
  rd_last_dependency_target_date :: "string option"

record ReleaseDependencyAlert =
  ra_dependency_id :: js_id
  ra_depends_on_release_id :: js_id
  ra_depends_on_name :: string
  ra_prior_target_date :: "string option"
  ra_current_target_date :: "string option"
  ra_diff_days :: int

record ReleaseStatusHistory =
  rh_id :: js_id
  rh_release_id :: js_id
  rh_from_state :: "string option"
  rh_to_state :: string
  rh_changed_by :: js_id
  rh_changed_at :: string
  rh_notes :: "string option"

record ReleaseListFilters =
  rf_status :: "string option"
  rf_release_type :: "string option"
  rf_release_kind :: "ReleaseKind option"
  rf_date_from :: "string option"
  rf_date_to :: "string option"
  rf_system_id :: "string option"
  rf_project_id :: "string option"
  rf_search :: "string option"
  rf_scope_window :: "string option"
  rf_implemented :: "bool option"
  rf_open :: "bool option"
  rf_limit :: "int option"
  rf_offset :: "int option"
  rf_sort_by :: "string option"
  rf_sort_dir :: "string option"

record ReleaseCalendarEntry =
  ce_id :: js_id
  ce_title :: string
  ce_start :: "string option"
  ce_end :: "string option"
  ce_status :: string
  ce_release_type :: string

record ReleaseTimelineEntry =
  te_id :: js_id
  te_name :: string
  te_status :: string
  te_target_date :: "string option"
  te_actual_date :: "string option"
  te_phases :: "TestPhaseResponse list"
  te_gates :: "TimelineGate list"
  te_dependencies :: "ReleaseDependencyResponse list option"

record ReleaseEventResponse =
  ev_id :: js_id
  ev_tenant_id :: js_id
  ev_release_id :: js_id
  ev_event_type_id :: js_id
  ev_description :: string
  ev_occurred_at :: string
  ev_recorded_by :: js_id

record ReleaseChangeResponse =
  ch_id :: js_id
  ch_tenant_id :: js_id
  ch_release_id :: "js_id option"
  ch_external_key :: "string option"
  ch_title :: string
  ch_description :: "string option"
  ch_change_kind :: string
  ch_external_status :: "string option"
  ch_project_code :: "string option"
  ch_project_name :: "string option"
  ch_system_id :: "js_id option"
  ch_custom_fields :: "(string, string) jmap option"
  ch_jira_project_config_id :: "js_id option"
  ch_epic_id :: "js_id option"
  ch_source :: string
  ch_move_count :: int
  ch_time_in_current_status_seconds :: "int option"
  ch_is_scope_creep :: "bool option"

record ReleaseChangeReleaseHistoryResponse =
  crh_id :: js_id
  crh_change_id :: js_id
  crh_from_release_id :: "js_id option"
  crh_to_release_id :: "js_id option"
  crh_moved_at :: string
  crh_moved_by :: "js_id option"
  crh_notes :: "string option"

record ReleaseChangeStatusHistoryResponse =
  csh_id :: js_id
  csh_change_id :: js_id
  csh_from_status :: "string option"
  csh_to_status :: "string option"
  csh_changed_at :: string
  csh_changed_by :: "js_id option"
  csh_notes :: "string option"

end
