(* ===== verification/ReleaseSlice.thy ===== *)
theory ReleaseSlice
  imports ReleaseTypes
begin

text \<open>
  \<open>store/releaseSlice.ts\<close>: the releases of the grid and the release on screen with its phases, gates,
  gate evidence, criteria, dependencies, events and scope changes. Each thunk is a function of the
  service method it calls and of its arguments, whose value is the action that the answer dispatches;
  each handler of the reducer that is longer than an assignment is a definition of its own, and
  \<open>release_reducer\<close> composes them in the order of the source.
\<close>

subsection \<open>State\<close>

record ReleaseState =
  rs_list :: "ReleaseListItemResponse list"
  rs_total :: int
  rs_detail :: "ReleaseResponse option"
  rs_loading :: bool
  rs_listLoading :: bool
  rs_error :: "string option"
  rs_filters :: ReleaseListFilters
  rs_phases :: "TestPhaseResponse list"
  rs_gates :: "ReleaseGateResponse list"
  rs_gateEvidenceByGate :: "(js_id, GateEvidenceResponse list) jmap"
  rs_dependencies :: "ReleaseDependencyResponse list"
  rs_dependencyAlerts :: "ReleaseDependencyAlert list"
  rs_events :: "ReleaseEventResponse list"
  rs_changes :: "ReleaseChangeResponse list"
  rs_backlog :: "ReleaseChangeResponse list"
  rs_changeReleaseHistory :: "ReleaseChangeReleaseHistoryResponse list"
  rs_changeStatusHistory :: "ReleaseChangeStatusHistoryResponse list"
  rs_history :: "ReleaseStatusHistory list"
  rs_calendar :: "ReleaseCalendarEntry list"
  rs_timeline :: "ReleaseTimelineEntry list"

definition no_filters :: ReleaseListFilters where
  "no_filters =
     \<lparr>rf_status = None, rf_release_type = None, rf_release_kind = None, rf_date_from = None, rf_date_to = None,
      rf_system_id = None, rf_project_id = None, rf_search = None, rf_scope_window = None, rf_implemented = None,
      rf_open = None, rf_limit = None, rf_offset = None, rf_sort_by = None, rf_sort_dir = None\<rparr>"

definition release_initial :: ReleaseState where
  "release_initial =
     \<lparr>rs_list = [], rs_total = 0, rs_detail = None, rs_loading = False, rs_listLoading = False, rs_error = None,
      rs_filters = no_filters, rs_phases = [], rs_gates = [], rs_gateEvidenceByGate = [], rs_dependencies = [],
      rs_dependencyAlerts = [], rs_events = [], rs_changes = [], rs_backlog = [], rs_changeReleaseHistory = [],
      rs_changeStatusHistory = [], rs_history = [], rs_calendar = [], rs_timeline = []\<rparr>"

subsection \<open>Thunks\<close>

datatype ReleaseAction =
  ClearDetail
| FetchReleases "ReleaseListItemResponse page lifecycle"
| FetchRelease "ReleaseResponse lifecycle"
| CreateRelease "ReleaseResponse lifecycle"
| UpdateRelease "ReleaseResponse lifecycle"
| TransitionRelease "ReleaseResponse lifecycle"
| DeleteRelease "js_id lifecycle"
| FetchReleaseHistory "ReleaseStatusHistory list lifecycle"
| FetchReleaseCalendar "ReleaseCalendarEntry list lifecycle"
| FetchReleaseTimeline "ReleaseTimelineEntry list lifecycle"
| FetchPhases "TestPhaseResponse list lifecycle"
| CreatePhase "TestPhaseResponse lifecycle"
| UpdatePhase "TestPhaseResponse lifecycle"
| DeletePhase "js_id lifecycle"
| FetchGates "ReleaseGateResponse list lifecycle"
| CreateGate "ReleaseGateResponse lifecycle"
| UpdateGate "ReleaseGateResponse lifecycle"
| DeleteGate "js_id lifecycle"
| PassGate "ReleaseGateResponse lifecycle"
| FailGate "ReleaseGateResponse lifecycle"
| OverrideGate "ReleaseGateResponse lifecycle"
| FetchGateEvidence "(js_id \<times> GateEvidenceResponse list) lifecycle"
| AddGateEvidence "GateEvidenceResponse lifecycle"
| DeleteGateEvidence "(js_id \<times> js_id) lifecycle"
| CreateCriterion "GateCriterion lifecycle"
| UpdateCriterion "GateCriterion lifecycle"
| CompleteCriterion "GateCriterion lifecycle"
| ReopenCriterion "GateCriterion lifecycle"
| DeleteCriterion "js_id lifecycle"
| FetchDependencies "ReleaseDependencyResponse list lifecycle"
| AddDependency "ReleaseDependencyResponse lifecycle"
| RemoveDependency "js_id lifecycle"
| FetchDependencyAlerts "ReleaseDependencyAlert list lifecycle"
| AcknowledgeAlert "js_id lifecycle"
| FetchReleaseEvents "ReleaseEventResponse list lifecycle"
| CreateReleaseEvent "ReleaseEventResponse lifecycle"
| FetchReleaseChanges "ReleaseChangeResponse list lifecycle"
| CreateReleaseChange "ReleaseChangeResponse lifecycle"
| UpdateReleaseChange "ReleaseChangeResponse lifecycle"
| DeleteReleaseChange "js_id lifecycle"
| MoveReleaseChange "ReleaseChangeResponse lifecycle"
| FetchBacklogChanges "ReleaseChangeResponse list lifecycle"
| FetchReleaseChangeReleaseHistory "ReleaseChangeReleaseHistoryResponse list lifecycle"
| FetchReleaseChangeStatusHistory "ReleaseChangeStatusHistoryResponse list lifecycle"

definition fetchReleases :: "(ReleaseListFilters \<Rightarrow> ApiError + ReleaseListItemResponse page) \<Rightarrow> ReleaseListFilters \<Rightarrow> ReleaseAction" where
  "fetchReleases service filters = FetchReleases (thunk_with ''Failed to load releases'' (service filters))"

definition fetchRelease :: "(js_id \<Rightarrow> ApiError + ReleaseResponse) \<Rightarrow> js_id \<Rightarrow> ReleaseAction" where
  "fetchRelease service i = FetchRelease (thunk_plain (service i))"

definition createRelease :: "('d \<Rightarrow> ApiError + ReleaseResponse) \<Rightarrow> 'd \<Rightarrow> ReleaseAction" where
  "createRelease service data = CreateRelease (thunk_plain (service data))"

definition updateRelease :: "(js_id \<Rightarrow> 'd \<Rightarrow> ApiError + ReleaseResponse) \<Rightarrow> js_id \<Rightarrow> 'd \<Rightarrow> ReleaseAction" where
  "updateRelease service i data = UpdateRelease (thunk_with ''Failed to update release'' (service i data))"

definition transitionRelease :: "(js_id \<Rightarrow> 'd \<Rightarrow> ApiError + ReleaseResponse) \<Rightarrow> js_id \<Rightarrow> 'd \<Rightarrow> ReleaseAction" where
  "transitionRelease service i data = TransitionRelease (thunk_with ''Transition failed'' (service i data))"

definition deleteRelease :: "(js_id \<Rightarrow> ApiError + unit) \<Rightarrow> js_id \<Rightarrow> ReleaseAction" where
  "deleteRelease service i = DeleteRelease (thunk_plain (map_sum id (\<lambda>_. i) (service i)))"

definition fetchReleaseHistory :: "(js_id \<Rightarrow> ApiError + ReleaseStatusHistory list) \<Rightarrow> js_id \<Rightarrow> ReleaseAction" where
  "fetchReleaseHistory service i = FetchReleaseHistory (thunk_plain (service i))"

definition fetchReleaseCalendar :: "(string \<Rightarrow> string \<Rightarrow> ApiError + ReleaseCalendarEntry list) \<Rightarrow> string \<Rightarrow> string \<Rightarrow> ReleaseAction" where
  "fetchReleaseCalendar service frm to = FetchReleaseCalendar (thunk_plain (service frm to))"

definition fetchReleaseTimeline :: "(ReleaseListFilters \<Rightarrow> ApiError + ReleaseTimelineEntry list) \<Rightarrow> ReleaseListFilters \<Rightarrow> ReleaseAction" where
  "fetchReleaseTimeline service filters = FetchReleaseTimeline (thunk_plain (service filters))"

definition fetchPhases :: "(js_id \<Rightarrow> ApiError + TestPhaseResponse list) \<Rightarrow> js_id \<Rightarrow> ReleaseAction" where
  "fetchPhases service releaseId = FetchPhases (thunk_plain (service releaseId))"

definition createPhase :: "(js_id \<Rightarrow> 'd \<Rightarrow> ApiError + TestPhaseResponse) \<Rightarrow> js_id \<Rightarrow> 'd \<Rightarrow> ReleaseAction" where
  "createPhase service releaseId data = CreatePhase (thunk_plain (service releaseId data))"

definition updatePhase :: "(js_id \<Rightarrow> js_id \<Rightarrow> 'd \<Rightarrow> ApiError + TestPhaseResponse) \<Rightarrow> js_id \<Rightarrow> js_id \<Rightarrow> 'd \<Rightarrow> ReleaseAction" where
  "updatePhase service releaseId phaseId data = UpdatePhase (thunk_plain (service releaseId phaseId data))"

definition deletePhase :: "(js_id \<Rightarrow> js_id \<Rightarrow> ApiError + unit) \<Rightarrow> js_id \<Rightarrow> js_id \<Rightarrow> ReleaseAction" where
  "deletePhase service releaseId phaseId =
     DeletePhase (thunk_plain (map_sum id (\<lambda>_. phaseId) (service releaseId phaseId)))"

definition fetchGates :: "(js_id \<Rightarrow> ApiError + ReleaseGateResponse list) \<Rightarrow> js_id \<Rightarrow> ReleaseAction" where
  "fetchGates service releaseId = FetchGates (thunk_plain (service releaseId))"

definition createGate :: "(js_id \<Rightarrow> 'd \<Rightarrow> ApiError + ReleaseGateResponse) \<Rightarrow> js_id \<Rightarrow> 'd \<Rightarrow> ReleaseAction" where
  "createGate service releaseId data = CreateGate (thunk_plain (service releaseId data))"

definition updateGate :: "(js_id \<Rightarrow> js_id \<Rightarrow> 'd \<Rightarrow> ApiError + ReleaseGateResponse) \<Rightarrow> js_id \<Rightarrow> js_id \<Rightarrow> 'd \<Rightarrow> ReleaseAction" where
  "updateGate service releaseId gateId data =
     UpdateGate (thunk_with ''Failed to update gate'' (service releaseId gateId data))"

definition deleteGate :: "(js_id \<Rightarrow> js_id \<Rightarrow> ApiError + unit) \<Rightarrow> js_id \<Rightarrow> js_id \<Rightarrow> ReleaseAction" where
  "deleteGate service releaseId gateId =
     DeleteGate (thunk_plain (map_sum id (\<lambda>_. gateId) (service releaseId gateId)))"

definition passGate :: "(js_id \<Rightarrow> js_id \<Rightarrow> 'd \<Rightarrow> ApiError + ReleaseGateResponse) \<Rightarrow> js_id \<Rightarrow> js_id \<Rightarrow> 'd \<Rightarrow> ReleaseAction" where
  "passGate service releaseId gateId data = PassGate (thunk_plain (service releaseId gateId data))"

definition failGate :: "(js_id \<Rightarrow> js_id \<Rightarrow> 'd \<Rightarrow> ApiError + ReleaseGateResponse) \<Rightarrow> js_id \<Rightarrow> js_id \<Rightarrow> 'd \<Rightarrow> ReleaseAction" where
  "failGate service releaseId gateId data = FailGate (thunk_plain (service releaseId gateId data))"

definition overrideGate :: "(js_id \<Rightarrow> js_id \<Rightarrow> 'd \<Rightarrow> ApiError + ReleaseGateResponse) \<Rightarrow> js_id \<Rightarrow> js_id \<Rightarrow> 'd \<Rightarrow> ReleaseAction" where
  "overrideGate service releaseId gateId data =
     OverrideGate (thunk_with ''Failed to record the waiver'' (service releaseId gateId data))"

definition fetchGateEvidence :: "(js_id \<Rightarrow> ApiError + GateEvidenceResponse list) \<Rightarrow> js_id \<Rightarrow> ReleaseAction" where
  "fetchGateEvidence service gateId =
     FetchGateEvidence (thunk_with ''Failed to load evidence'' (map_sum id (Pair gateId) (service gateId)))"

definition addGateEvidence :: "(js_id \<Rightarrow> 'd \<Rightarrow> ApiError + GateEvidenceResponse) \<Rightarrow> js_id \<Rightarrow> 'd \<Rightarrow> ReleaseAction" where
  "addGateEvidence service gateId data =
     AddGateEvidence (thunk_with ''Failed to add evidence'' (service gateId data))"

definition deleteGateEvidence :: "(js_id \<Rightarrow> ApiError + unit) \<Rightarrow> js_id \<Rightarrow> js_id \<Rightarrow> ReleaseAction" where
  "deleteGateEvidence service gateId evidenceId = DeleteGateEvidence
     (thunk_with ''Failed to delete evidence'' (map_sum id (\<lambda>_. (gateId, evidenceId)) (service evidenceId)))"

definition createCriterion :: "(js_id \<Rightarrow> js_id \<Rightarrow> 'd \<Rightarrow> ApiError + GateCriterion) \<Rightarrow> js_id \<Rightarrow> js_id \<Rightarrow> 'd \<Rightarrow> ReleaseAction" where
  "createCriterion service releaseId gateId payload =
     CreateCriterion (thunk_plain (service releaseId gateId payload))"

definition updateCriterion :: "(js_id \<Rightarrow> 'd \<Rightarrow> ApiError + GateCriterion) \<Rightarrow> js_id \<Rightarrow> 'd \<Rightarrow> ReleaseAction" where
  "updateCriterion service criterionId payload = UpdateCriterion (thunk_plain (service criterionId payload))"

definition completeCriterion :: "(js_id \<Rightarrow> ApiError + GateCriterion) \<Rightarrow> js_id \<Rightarrow> ReleaseAction" where
  "completeCriterion service criterionId = CompleteCriterion (thunk_plain (service criterionId))"

definition reopenCriterion :: "(js_id \<Rightarrow> ApiError + GateCriterion) \<Rightarrow> js_id \<Rightarrow> ReleaseAction" where
  "reopenCriterion service criterionId = ReopenCriterion (thunk_plain (service criterionId))"

definition deleteCriterion :: "(js_id \<Rightarrow> ApiError + unit) \<Rightarrow> js_id \<Rightarrow> ReleaseAction" where
  "deleteCriterion service criterionId =
     DeleteCriterion (thunk_plain (map_sum id (\<lambda>_. criterionId) (service criterionId)))"

definition fetchDependencies :: "(js_id \<Rightarrow> ApiError + ReleaseDependencyResponse list) \<Rightarrow> js_id \<Rightarrow> ReleaseAction" where
  "fetchDependencies service releaseId = FetchDependencies (thunk_plain (service releaseId))"

definition addDependency :: "(js_id \<Rightarrow> 'd \<Rightarrow> ApiError + ReleaseDependencyResponse) \<Rightarrow> js_id \<Rightarrow> 'd \<Rightarrow> ReleaseAction" where
  "addDependency service releaseId data = AddDependency (thunk_plain (service releaseId data))"

definition removeDependency :: "(js_id \<Rightarrow> ApiError + unit) \<Rightarrow> js_id \<Rightarrow> ReleaseAction" where
  "removeDependency service releaseDependencyId =
     RemoveDependency (thunk_plain (map_sum id (\<lambda>_. releaseDependencyId) (service releaseDependencyId)))"

definition fetchDependencyAlerts :: "(js_id \<Rightarrow> ApiError + ReleaseDependencyAlert list) \<Rightarrow> js_id \<Rightarrow> ReleaseAction" where
  "fetchDependencyAlerts service releaseId = FetchDependencyAlerts (thunk_plain (service releaseId))"

definition acknowledgeAlert :: "(js_id \<Rightarrow> js_id \<Rightarrow> ApiError + unit) \<Rightarrow> js_id \<Rightarrow> js_id \<Rightarrow> ReleaseAction" where
  "acknowledgeAlert service releaseId dependencyId =
     AcknowledgeAlert (thunk_plain (map_sum id (\<lambda>_. dependencyId) (service releaseId dependencyId)))"

definition fetchReleaseEvents :: "(js_id \<Rightarrow> ApiError + ReleaseEventResponse list) \<Rightarrow> js_id \<Rightarrow> ReleaseAction" where
  "fetchReleaseEvents service releaseId = FetchReleaseEvents (thunk_plain (service releaseId))"

definition createReleaseEvent :: "(js_id \<Rightarrow> 'd \<Rightarrow> ApiError + ReleaseEventResponse) \<Rightarrow> js_id \<Rightarrow> 'd \<Rightarrow> ReleaseAction" where
  "createReleaseEvent service releaseId data = CreateReleaseEvent (thunk_plain (service releaseId data))"

definition fetchReleaseChanges :: "(js_id \<Rightarrow> ApiError + ReleaseChangeResponse list) \<Rightarrow> js_id \<Rightarrow> ReleaseAction" where
  "fetchReleaseChanges service releaseId = FetchReleaseChanges (thunk_plain (service releaseId))"

definition createReleaseChange :: "(js_id \<Rightarrow> 'd \<Rightarrow> ApiError + ReleaseChangeResponse) \<Rightarrow> js_id \<Rightarrow> 'd \<Rightarrow> ReleaseAction" where
  "createReleaseChange service releaseId data = CreateReleaseChange (thunk_plain (service releaseId data))"

definition updateReleaseChange :: "(js_id \<Rightarrow> 'd \<Rightarrow> ApiError + ReleaseChangeResponse) \<Rightarrow> js_id \<Rightarrow> 'd \<Rightarrow> ReleaseAction" where
  "updateReleaseChange service changeId data = UpdateReleaseChange (thunk_plain (service changeId data))"

definition deleteReleaseChange :: "(js_id \<Rightarrow> ApiError + unit) \<Rightarrow> js_id \<Rightarrow> ReleaseAction" where
  "deleteReleaseChange service changeId =
     DeleteReleaseChange (thunk_plain (map_sum id (\<lambda>_. changeId) (service changeId)))"

definition moveReleaseChange :: "(js_id \<Rightarrow> 'd \<Rightarrow> ApiError + ReleaseChangeResponse) \<Rightarrow> js_id \<Rightarrow> 'd \<Rightarrow> ReleaseAction" where
  "moveReleaseChange service changeId payload = MoveReleaseChange (thunk_plain (service changeId payload))"

definition fetchBacklogChanges :: "(unit \<Rightarrow> ApiError + ReleaseChangeResponse list) \<Rightarrow> ReleaseAction" where
  "fetchBacklogChanges service = FetchBacklogChanges (thunk_plain (service ()))"

definition fetchReleaseChangeReleaseHistory :: "(js_id \<Rightarrow> ApiError + ReleaseChangeReleaseHistoryResponse list) \<Rightarrow> js_id \<Rightarrow> ReleaseAction" where
  "fetchReleaseChangeReleaseHistory service changeId =
     FetchReleaseChangeReleaseHistory (thunk_plain (service changeId))"

definition fetchReleaseChangeStatusHistory :: "(js_id \<Rightarrow> ApiError + ReleaseChangeStatusHistoryResponse list) \<Rightarrow> js_id \<Rightarrow> ReleaseAction" where
  "fetchReleaseChangeStatusHistory service changeId =
     FetchReleaseChangeStatusHistory (thunk_plain (service changeId))"

subsection \<open>Handlers\<close>

definition clear_detail :: "ReleaseState \<Rightarrow> ReleaseState" where
  "clear_detail st = st\<lparr>rs_detail := None, rs_phases := [], rs_gates := [], rs_dependencies := [],
     rs_dependencyAlerts := [], rs_events := [], rs_changes := [], rs_history := []\<rparr>"

definition releases_pending :: "ReleaseState \<Rightarrow> ReleaseState" where
  "releases_pending st = st\<lparr>rs_listLoading := True, rs_error := None\<rparr>"

definition releases_fulfilled :: "ReleaseListItemResponse page \<Rightarrow> ReleaseState \<Rightarrow> ReleaseState" where
  "releases_fulfilled p st = st\<lparr>rs_listLoading := False, rs_list := pg_rows p, rs_total := pg_total p\<rparr>"

definition releases_rejected :: "rejected \<Rightarrow> ReleaseState \<Rightarrow> ReleaseState" where
  "releases_rejected r st =
     (if rj_aborted r then st
      else st\<lparr>rs_listLoading := False,
              rs_error := Some (case rj_payload r of Some p \<Rightarrow> p
                                | None \<Rightarrow> nullish (rj_message r) ''Failed to load releases'')\<rparr>)"

text \<open>The new row starts with zero counts, no window and no systems.\<close>

definition new_release_row :: "ReleaseResponse \<Rightarrow> ReleaseListItemResponse" where
  "new_release_row p = ReleaseResponse.extend (p\<lparr>rl_scope_creep_count := Some 0\<rparr>)
     (ReleaseListItemResponse.fields 0 0 0 0 0 0 0 Win_no_cutoff None [])"

definition release_created :: "ReleaseResponse \<Rightarrow> ReleaseState \<Rightarrow> ReleaseState" where
  "release_created p st = st\<lparr>rs_list := new_release_row p # rs_list st, rs_total := rs_total st + 1\<rparr>"

text \<open>\<open>{ ...item, ...payload }\<close>: the only optional key of a response, the scope creep count, stays the
  row's when the payload leaves it out.\<close>

definition merge_release :: "ReleaseListItemResponse \<Rightarrow> ReleaseResponse \<Rightarrow> ReleaseListItemResponse" where
  "merge_release item p = ReleaseResponse.extend
     (p\<lparr>rl_scope_creep_count := (case rl_scope_creep_count p of None \<Rightarrow> rl_scope_creep_count item | Some n \<Rightarrow> Some n)\<rparr>)
     (ReleaseResponse.more item)"

definition release_changed :: "ReleaseResponse \<Rightarrow> ReleaseState \<Rightarrow> ReleaseState" where
  "release_changed p st =
     st\<lparr>rs_list := modify_first (\<lambda>r. rl_id r = rl_id p) (\<lambda>r. merge_release r p) (rs_list st),
        rs_detail := (if map_option rl_id (rs_detail st) = Some (rl_id p) then Some p else rs_detail st)\<rparr>"

definition release_deleted :: "js_id \<Rightarrow> ReleaseState \<Rightarrow> ReleaseState" where
  "release_deleted i st =
     st\<lparr>rs_list := filter (\<lambda>r. rl_id r \<noteq> i) (rs_list st), rs_total := max 0 (rs_total st - 1),
        rs_detail := (if map_option rl_id (rs_detail st) = Some i then None else rs_detail st)\<rparr>"

text \<open>The loading transitions that the detail, the calendar and the timeline share.\<close>

definition loading_pending :: "ReleaseState \<Rightarrow> ReleaseState" where
  "loading_pending st = st\<lparr>rs_loading := True, rs_error := None\<rparr>"

definition loading_rejected :: "string \<Rightarrow> rejected \<Rightarrow> ReleaseState \<Rightarrow> ReleaseState" where
  "loading_rejected fallback r st = st\<lparr>rs_loading := False, rs_error := Some (nullish (rj_message r) fallback)\<rparr>"

definition gate_changed :: "ReleaseGateResponse \<Rightarrow> ReleaseState \<Rightarrow> ReleaseState" where
  "gate_changed g st = st\<lparr>rs_gates := put_at_first (\<lambda>x. rg_id x = rg_id g) g (rs_gates st)\<rparr>"

definition evidence_fetched :: "js_id \<times> GateEvidenceResponse list \<Rightarrow> ReleaseState \<Rightarrow> ReleaseState" where
  "evidence_fetched p st = st\<lparr>rs_gateEvidenceByGate := jm_set (fst p) (snd p) (rs_gateEvidenceByGate st)\<rparr>"

definition evidence_added :: "GateEvidenceResponse \<Rightarrow> ReleaseState \<Rightarrow> ReleaseState" where
  "evidence_added row st =
     (let existing = nullish (jm_get (rs_gateEvidenceByGate st) (ge_gate_id row)) []
      in st\<lparr>rs_gateEvidenceByGate := jm_set (ge_gate_id row) (existing @ [row]) (rs_gateEvidenceByGate st)\<rparr>)"

definition evidence_deleted :: "js_id \<times> js_id \<Rightarrow> ReleaseState \<Rightarrow> ReleaseState" where
  "evidence_deleted p st =
     (case jm_get (rs_gateEvidenceByGate st) (fst p) of
        None \<Rightarrow> st
      | Some existing \<Rightarrow>
          st\<lparr>rs_gateEvidenceByGate :=
               jm_set (fst p) (filter (\<lambda>e. ge_id e \<noteq> snd p) existing) (rs_gateEvidenceByGate st)\<rparr>)"

text \<open>The criteria of the first gate with the id, as a function of what happens to them.\<close>

definition with_gate_criteria ::
    "js_id \<Rightarrow> (GateCriterion list \<Rightarrow> GateCriterion list) \<Rightarrow> ReleaseState \<Rightarrow> ReleaseState" where
  "with_gate_criteria i f st =
     st\<lparr>rs_gates := modify_first (\<lambda>g. rg_id g = i) (\<lambda>g. g\<lparr>rg_criteria := f (rg_criteria g)\<rparr>) (rs_gates st)\<rparr>"

definition criterion_created :: "GateCriterion \<Rightarrow> ReleaseState \<Rightarrow> ReleaseState" where
  "criterion_created crit st = with_gate_criteria (gc_gate_id crit) (\<lambda>cs. cs @ [crit]) st"

definition criterion_changed :: "GateCriterion \<Rightarrow> ReleaseState \<Rightarrow> ReleaseState" where
  "criterion_changed crit st =
     with_gate_criteria (gc_gate_id crit) (put_at_first (\<lambda>c. gc_id c = gc_id crit) crit) st"

definition criterion_deleted :: "js_id \<Rightarrow> ReleaseState \<Rightarrow> ReleaseState" where
  "criterion_deleted i st =
     st\<lparr>rs_gates := map (\<lambda>g. g\<lparr>rg_criteria := filter (\<lambda>c. gc_id c \<noteq> i) (rg_criteria g)\<rparr>) (rs_gates st)\<rparr>"

definition change_moved :: "ReleaseChangeResponse \<Rightarrow> ReleaseState \<Rightarrow> ReleaseState" where
  "change_moved u st =
     st\<lparr>rs_changes := put_at_first (\<lambda>c. ch_id c = ch_id u) u (rs_changes st),
        rs_backlog := filter (\<lambda>c. ch_id c \<noteq> ch_id u) (rs_backlog st)\<rparr>"

subsection \<open>The reducer\<close>

text \<open>The order of the cases is the source's; deleting a gate has none.\<close>

fun release_reducer :: "ReleaseAction \<Rightarrow> ReleaseState \<Rightarrow> ReleaseState" where
  "release_reducer ClearDetail st = clear_detail st"
| "release_reducer (FetchReleases l) st = on_cases releases_pending releases_fulfilled releases_rejected l st"
| "release_reducer (FetchRelease l) st =
     on_cases loading_pending (\<lambda>x st. st\<lparr>rs_loading := False, rs_detail := Some x\<rparr>)
       (loading_rejected ''Failed to load release'') l st"
| "release_reducer (CreateRelease l) st = on_fulfilled release_created l st"
| "release_reducer (UpdateRelease l) st = on_fulfilled release_changed l st"
| "release_reducer (TransitionRelease l) st = on_fulfilled release_changed l st"
| "release_reducer (DeleteRelease l) st = on_fulfilled release_deleted l st"
| "release_reducer (FetchReleaseHistory l) st = on_fulfilled (\<lambda>xs st. st\<lparr>rs_history := xs\<rparr>) l st"
| "release_reducer (FetchReleaseCalendar l) st =
     on_cases loading_pending (\<lambda>x st. st\<lparr>rs_loading := False, rs_calendar := x\<rparr>)
       (loading_rejected ''Failed to load calendar'') l st"
| "release_reducer (FetchReleaseTimeline l) st =
     on_cases loading_pending (\<lambda>x st. st\<lparr>rs_loading := False, rs_timeline := x\<rparr>)
       (loading_rejected ''Failed to load timeline'') l st"
| "release_reducer (FetchPhases l) st = on_fulfilled (\<lambda>xs st. st\<lparr>rs_phases := xs\<rparr>) l st"
| "release_reducer (CreatePhase l) st = on_fulfilled (\<lambda>x st. st\<lparr>rs_phases := rs_phases st @ [x]\<rparr>) l st"
| "release_reducer (UpdatePhase l) st =
     on_fulfilled (\<lambda>x st. st\<lparr>rs_phases := put_at_first (\<lambda>y. tp_id y = tp_id x) x (rs_phases st)\<rparr>) l st"
| "release_reducer (DeletePhase l) st =
     on_fulfilled (\<lambda>i st. st\<lparr>rs_phases := filter (\<lambda>y. tp_id y \<noteq> i) (rs_phases st)\<rparr>) l st"
| "release_reducer (FetchGates l) st = on_fulfilled (\<lambda>xs st. st\<lparr>rs_gates := xs\<rparr>) l st"
| "release_reducer (CreateGate l) st = on_fulfilled (\<lambda>x st. st\<lparr>rs_gates := rs_gates st @ [x]\<rparr>) l st"
| "release_reducer (UpdateGate l) st = on_fulfilled gate_changed l st"
| "release_reducer (PassGate l) st = on_fulfilled gate_changed l st"
| "release_reducer (FailGate l) st = on_fulfilled gate_changed l st"
| "release_reducer (OverrideGate l) st = on_fulfilled gate_changed l st"
| "release_reducer (DeleteGate l) st = st"
| "release_reducer (FetchGateEvidence l) st = on_fulfilled evidence_fetched l st"
| "release_reducer (AddGateEvidence l) st = on_fulfilled evidence_added l st"
| "release_reducer (DeleteGateEvidence l) st = on_fulfilled evidence_deleted l st"
| "release_reducer (CreateCriterion l) st = on_fulfilled criterion_created l st"
| "release_reducer (UpdateCriterion l) st = on_fulfilled criterion_changed l st"
| "release_reducer (CompleteCriterion l) st = on_fulfilled criterion_changed l st"
| "release_reducer (ReopenCriterion l) st = on_fulfilled criterion_changed l st"
| "release_reducer (DeleteCriterion l) st = on_fulfilled criterion_deleted l st"
| "release_reducer (FetchDependencies l) st = on_fulfilled (\<lambda>xs st. st\<lparr>rs_dependencies := xs\<rparr>) l st"
| "release_reducer (AddDependency l) st = on_fulfilled (\<lambda>x st. st\<lparr>rs_dependencies := rs_dependencies st @ [x]\<rparr>) l st"
| "release_reducer (RemoveDependency l) st =
     on_fulfilled (\<lambda>i st. st\<lparr>rs_dependencies := filter (\<lambda>y. rd_id y \<noteq> i) (rs_dependencies st)\<rparr>) l st"
| "release_reducer (FetchDependencyAlerts l) st = on_fulfilled (\<lambda>xs st. st\<lparr>rs_dependencyAlerts := xs\<rparr>) l st"
| "release_reducer (AcknowledgeAlert l) st =
     on_fulfilled (\<lambda>i st. st\<lparr>rs_dependencyAlerts := filter (\<lambda>y. ra_dependency_id y \<noteq> i) (rs_dependencyAlerts st)\<rparr>) l st"
| "release_reducer (FetchReleaseEvents l) st = on_fulfilled (\<lambda>xs st. st\<lparr>rs_events := xs\<rparr>) l st"
| "release_reducer (CreateReleaseEvent l) st = on_fulfilled (\<lambda>x st. st\<lparr>rs_events := rs_events st @ [x]\<rparr>) l st"
| "release_reducer (FetchReleaseChanges l) st = on_fulfilled (\<lambda>xs st. st\<lparr>rs_changes := xs\<rparr>) l st"
| "release_reducer (CreateReleaseChange l) st = on_fulfilled (\<lambda>x st. st\<lparr>rs_changes := rs_changes st @ [x]\<rparr>) l st"
| "release_reducer (UpdateReleaseChange l) st =
     on_fulfilled (\<lambda>x st. st\<lparr>rs_changes := put_at_first (\<lambda>y. ch_id y = ch_id x) x (rs_changes st)\<rparr>) l st"
| "release_reducer (DeleteReleaseChange l) st =
     on_fulfilled (\<lambda>i st. st\<lparr>rs_changes := filter (\<lambda>y. ch_id y \<noteq> i) (rs_changes st)\<rparr>) l st"
| "release_reducer (MoveReleaseChange l) st = on_fulfilled change_moved l st"
| "release_reducer (FetchBacklogChanges l) st = on_fulfilled (\<lambda>xs st. st\<lparr>rs_backlog := xs\<rparr>) l st"
| "release_reducer (FetchReleaseChangeReleaseHistory l) st = on_fulfilled (\<lambda>xs st. st\<lparr>rs_changeReleaseHistory := xs\<rparr>) l st"
| "release_reducer (FetchReleaseChangeStatusHistory l) st = on_fulfilled (\<lambda>xs st. st\<lparr>rs_changeStatusHistory := xs\<rparr>) l st"

definition release_run :: "ReleaseAction list \<Rightarrow> ReleaseState \<Rightarrow> ReleaseState" where
  "release_run as st = fold release_reducer as st"

subsection \<open>The release grid is a list query\<close>

definition releases_ops :: "(ReleaseState, ReleaseListItemResponse page) list_ops" where
  "releases_ops = \<lparr>op_pending = releases_pending, op_fulfilled = releases_fulfilled, op_rejected = releases_rejected\<rparr>"

definition releases_page :: "ReleaseState \<Rightarrow> ReleaseListItemResponse page" where
  "releases_page st = \<lparr>pg_rows = rs_list st, pg_total = rs_total st\<rparr>"

interpretation rl: list_query releases_ops rs_listLoading rs_error releases_page
  by unfold_locales
     (simp_all add: releases_ops_def releases_pending_def releases_fulfilled_def releases_rejected_def releases_page_def)

subsection \<open>Updating a release in the grid\<close>

lemma merge_release_id [simp]: "rl_id (merge_release r p) = rl_id p"
  by (simp add: merge_release_def ReleaseResponse.defs)

lemma merge_release_more [simp]: "ReleaseResponse.more (merge_release r p) = ReleaseResponse.more r"
  by (simp add: merge_release_def ReleaseResponse.defs)

lemma truncate_merge_release: "ReleaseResponse.truncate (merge_release r p) =
    p\<lparr>rl_scope_creep_count := (case rl_scope_creep_count p of None \<Rightarrow> rl_scope_creep_count r | Some n \<Rightarrow> Some n)\<rparr>"
  by (cases p) (simp add: merge_release_def ReleaseResponse.defs)

lemma find_modify_first: "(\<And>x. P x \<Longrightarrow> P (f x)) \<Longrightarrow> find P (modify_first P f xs) = map_option f (find P xs)"
  by (induction xs) auto

lemma filter_modify_first: "(\<And>x. P x \<Longrightarrow> P (f x)) \<Longrightarrow> filter (\<lambda>x. \<not> P x) (modify_first P f xs) = filter (\<lambda>x. \<not> P x) xs"
  by (induction xs) auto

text \<open>
  An update or a transition of a release keeps the grid as the server paged it. The rows keep
  their order and number, the counts of every row and the rows of other releases are untouched, the
  release's row shows the payload (with its own scope creep count where the payload has none), and the
  release on screen is replaced only when it is the one that changed.
\<close>

theorem release_change_keeps_grid:
  "let st' = release_reducer (if transition then TransitionRelease (Fulfilled p) else UpdateRelease (Fulfilled p)) st;
       this = (\<lambda>r. rl_id r = rl_id p)
   in map rl_id (rs_list st') = map rl_id (rs_list st) \<and> rs_total st' = rs_total st \<and>
      map ReleaseResponse.more (rs_list st') = map ReleaseResponse.more (rs_list st) \<and>
      filter (\<lambda>r. \<not> this r) (rs_list st') = filter (\<lambda>r. \<not> this r) (rs_list st) \<and>
      map_option ReleaseResponse.truncate (find this (rs_list st')) =
        map_option (\<lambda>r. p\<lparr>rl_scope_creep_count := (case rl_scope_creep_count p of
          None \<Rightarrow> rl_scope_creep_count r | Some n \<Rightarrow> Some n)\<rparr>) (find this (rs_list st)) \<and>
      rs_detail st' = (case rs_detail st of None \<Rightarrow> None | Some d \<Rightarrow> Some (if rl_id d = rl_id p then p else d))"
proof -
  have ids: "map rl_id (modify_first (\<lambda>r. rl_id r = rl_id p) (\<lambda>r. merge_release r p) xs) = map rl_id xs" for xs
    by (induction xs) auto
  have more: "map ReleaseResponse.more (modify_first (\<lambda>r. rl_id r = rl_id p) (\<lambda>r. merge_release r p) xs) =
      map ReleaseResponse.more xs" for xs
    by (induction xs) auto
  show ?thesis
    by (cases transition; cases "rs_detail st")
       (simp_all add: Let_def release_changed_def ids more find_modify_first filter_modify_first
          option.map_comp comp_def truncate_merge_release)
qed

subsection \<open>Everything is filed under its parent\<close>

text \<open>Criteria under their gate, evidence under its gate.\<close>

definition gate_filed :: "ReleaseGateResponse \<Rightarrow> bool" where
  "gate_filed g \<longleftrightarrow> list_all (\<lambda>c. gc_gate_id c = rg_id g) (rg_criteria g)"

definition evidence_filed :: "(js_id, GateEvidenceResponse list) jmap \<Rightarrow> bool" where
  "evidence_filed m \<longleftrightarrow> jm_wf m \<and> list_all (\<lambda>(i, es). list_all (\<lambda>e. ge_gate_id e = i) es) m"

definition release_filed :: "ReleaseState \<Rightarrow> bool" where
  "release_filed st \<longleftrightarrow> list_all gate_filed (rs_gates st) \<and> evidence_filed (rs_gateEvidenceByGate st)"

text \<open>What the server is relied on for: a gate arrives with its own criteria, evidence with the gate asked for.\<close>

fun release_action_ok :: "ReleaseAction \<Rightarrow> bool" where
  "release_action_ok (FetchGates (Fulfilled gs)) = list_all gate_filed gs"
| "release_action_ok (CreateGate (Fulfilled g)) = gate_filed g"
| "release_action_ok (UpdateGate (Fulfilled g)) = gate_filed g"
| "release_action_ok (PassGate (Fulfilled g)) = gate_filed g"
| "release_action_ok (FailGate (Fulfilled g)) = gate_filed g"
| "release_action_ok (OverrideGate (Fulfilled g)) = gate_filed g"
| "release_action_ok (FetchGateEvidence (Fulfilled p)) = list_all (\<lambda>e. ge_gate_id e = fst p) (snd p)"
| "release_action_ok _ = True"

lemma list_all_modify_first: "list_all P xs \<Longrightarrow> (\<And>x. q x \<Longrightarrow> P x \<Longrightarrow> P (f x)) \<Longrightarrow> list_all P (modify_first q f xs)"
  by (induction xs) auto

lemma list_all_put_at_first: "list_all P xs \<Longrightarrow> P y \<Longrightarrow> list_all P (put_at_first q y xs)"
  using set_put_at_first [of q y xs] by (auto simp: list_all_iff)

lemma list_all_filter: "list_all P xs \<Longrightarrow> list_all P (filter q xs)"
  by (simp add: list_all_iff)

lemma evidence_filed_set: "evidence_filed m \<Longrightarrow> list_all (\<lambda>e. ge_gate_id e = i) es \<Longrightarrow> evidence_filed (jm_set i es m)"
proof -
  have "list_all (\<lambda>(i, es). list_all (\<lambda>e. ge_gate_id e = i) es) m \<Longrightarrow> list_all (\<lambda>e. ge_gate_id e = i) es \<Longrightarrow>
      list_all (\<lambda>(i, es). list_all (\<lambda>e. ge_gate_id e = i) es) (jm_set i es m)" for m
    by (induction i es m rule: jm_set.induct) auto
  then show "evidence_filed m \<Longrightarrow> list_all (\<lambda>e. ge_gate_id e = i) es \<Longrightarrow> evidence_filed (jm_set i es m)"
    by (simp add: evidence_filed_def)
qed

lemma evidence_filed_get: "evidence_filed m \<Longrightarrow> jm_get m i = Some es \<Longrightarrow> list_all (\<lambda>e. ge_gate_id e = i) es"
  by (auto simp: evidence_filed_def list_all_iff dest!: jm_get_memD)

lemma with_gate_criteria_filed:
  assumes "release_filed st" "\<And>cs. list_all (\<lambda>c. gc_gate_id c = i) cs \<Longrightarrow> list_all (\<lambda>c. gc_gate_id c = i) (f cs)"
  shows "release_filed (with_gate_criteria i f st)"
  using assms unfolding release_filed_def with_gate_criteria_def
  by (auto intro!: list_all_modify_first simp: gate_filed_def)

lemma evidence_added_filed: "release_filed st \<Longrightarrow> release_filed (evidence_added row st)"
  by (cases "jm_get (rs_gateEvidenceByGate st) (ge_gate_id row)")
     (auto simp: release_filed_def evidence_added_def Let_def intro!: evidence_filed_set dest: evidence_filed_get)

lemma evidence_deleted_filed: "release_filed st \<Longrightarrow> release_filed (evidence_deleted p st)"
  by (cases "jm_get (rs_gateEvidenceByGate st) (fst p)")
     (auto simp: release_filed_def evidence_deleted_def intro!: evidence_filed_set list_all_filter dest: evidence_filed_get)

lemma criterion_deleted_filed: "release_filed st \<Longrightarrow> release_filed (criterion_deleted i st)"
  by (auto simp: release_filed_def criterion_deleted_def list_all_iff gate_filed_def)

lemma criterion_created_filed: "release_filed st \<Longrightarrow> release_filed (criterion_created c st)"
  unfolding criterion_created_def by (rule with_gate_criteria_filed) auto

lemma criterion_changed_filed: "release_filed st \<Longrightarrow> release_filed (criterion_changed c st)"
  unfolding criterion_changed_def by (rule with_gate_criteria_filed) (auto intro: list_all_put_at_first)

lemma gate_changed_filed: "release_filed st \<Longrightarrow> gate_filed g \<Longrightarrow> release_filed (gate_changed g st)"
  by (auto simp: release_filed_def gate_changed_def intro: list_all_put_at_first)

lemma evidence_fetched_filed:
  "release_filed st \<Longrightarrow> list_all (\<lambda>e. ge_gate_id e = fst p) (snd p) \<Longrightarrow> release_filed (evidence_fetched p st)"
  by (auto simp: release_filed_def evidence_fetched_def intro: evidence_filed_set)

lemmas children_filed = evidence_added_filed evidence_deleted_filed criterion_deleted_filed criterion_created_filed
  criterion_changed_filed gate_changed_filed evidence_fetched_filed

lemma release_step_filed:
  assumes "release_filed st" "release_action_ok a"
  shows "release_filed (release_reducer a st)"
proof -
  have keep: "release_filed st'" if "rs_gates st' = rs_gates st" "rs_gateEvidenceByGate st' = rs_gateEvidenceByGate st" for st'
    using that assms(1) by (simp add: release_filed_def)
  show ?thesis
  proof (cases a)
    case ClearDetail
    then show ?thesis using assms by (simp add: release_filed_def clear_detail_def)
  next
    case (FetchGates l)
    then show ?thesis using assms by (cases l) (auto simp: release_filed_def)
  next
    case (CreateGate l)
    then show ?thesis using assms by (cases l) (auto simp: release_filed_def)
  next
    case (FetchReleases l)
    then show ?thesis
      by (cases l) (auto intro!: keep simp: releases_pending_def releases_fulfilled_def releases_rejected_def)
  next
    case (FetchRelease l)
    then show ?thesis by (cases l) (auto intro!: keep simp: loading_pending_def loading_rejected_def)
  next
    case (FetchReleaseCalendar l)
    then show ?thesis by (cases l) (auto intro!: keep simp: loading_pending_def loading_rejected_def)
  next
    case (FetchReleaseTimeline l)
    then show ?thesis by (cases l) (auto intro!: keep simp: loading_pending_def loading_rejected_def)
  qed (use assms in \<open>auto simp: on_fulfilled_def release_created_def release_changed_def release_deleted_def
         change_moved_def split: lifecycle.split intro!: keep children_filed\<close>)
qed

lemma release_run_filed_from:
  "release_filed st \<Longrightarrow> list_all release_action_ok as \<Longrightarrow> release_filed (release_run as st)"
  unfolding release_run_def by (induction as arbitrary: st) (auto intro: release_step_filed)

text \<open>
  C39: whatever the user does to the release on screen, every criterion the slice holds stands under the
  gate it belongs to and every piece of evidence under the key of its gate, with one entry per gate:
  along every run of actions from the initial state, as long as the gates and the evidence the server
  returns are themselves complete.
\<close>

theorem release_children_filed:
  assumes "list_all release_action_ok as"
  shows "release_filed (release_run as release_initial)"
  using assms
  by (intro release_run_filed_from)
     (simp_all add: release_filed_def release_initial_def evidence_filed_def)

definition sample_evidence :: "js_id \<Rightarrow> js_id \<Rightarrow> GateEvidenceResponse" where
  "sample_evidence i g = \<lparr>ge_id = i, ge_gate_id = g, ge_kind = ''link'', ge_label = ''run'', ge_url = None,
     ge_notes = None, ge_deployment_id = None, ge_added_by = 1, ge_created_at = ''t'', ge_is_stale = False\<rparr>"

theorem release_children_filed_witness:
  "release_filed (release_run [FetchGateEvidence (Fulfilled (4, [sample_evidence 1 4])),
     AddGateEvidence (Fulfilled (sample_evidence 2 5)), DeleteGateEvidence (Fulfilled (4, 1))] release_initial)"
  by (rule release_children_filed) (simp add: sample_evidence_def)

end
