(* ===== verification/DecommissionSlice.thy ===== *)
theory DecommissionSlice
  imports RtkLifecycle "HOL-Library.Product_Lexorder"
begin

text \<open>
  \<open>store/decommissionSlice.ts\<close> with \<open>types/decommission.ts\<close>: the decommission of the environment on
  screen, the server-paged worklist and the checklist vocabulary with its admin copy. Each thunk is
  a function of the service method it calls and of its arguments, whose value is the action that the
  answer dispatches, each action of the
  slice a constructor, and the reducer handles them case by case.
\<close>

subsection \<open>Types\<close>

datatype DecommissionState = Warned | Due | Extension_requested | Torn_down | Cancelled

record Attestation =
  at_id :: js_id
  at_decommission_id :: js_id
  at_step_key :: string
  at_signed_by :: js_id
  at_signed_at :: string
  at_reference :: "string option"
  at_notes :: "string option"
  at_signed_by_username :: "string option"

record Decommission =
  dc_id :: js_id
  dc_environment_id :: js_id
  dc_reason :: string
  dc_warned_at :: string
  dc_scheduled_teardown_at :: string
  dc_initiated_by :: js_id
  dc_extension_requested_at :: "string option"
  dc_extension_reason :: "string option"
  dc_extension_until :: "string option"
  dc_extension_decided_at :: "string option"
  dc_extension_granted :: "bool option"
  dc_torn_down_at :: "string option"
  dc_cancelled_at :: "string option"
  dc_cancel_reason :: "string option"
  dc_state :: DecommissionState
  dc_initiated_by_username :: "string option"
  dc_attestations :: "Attestation list"

record RemainingBookingSummary =
  rb_id :: js_id
  rb_start_date :: string
  rb_end_date :: string
  rb_status :: string

record TeardownResult = Decommission +
  td_remaining_bookings :: "RemainingBookingSummary list"

record DecommissionWorklistRow = Decommission +
  wl_environment_name :: "string option"
  wl_owner_username :: "string option"

record DecommissionStep =
  ds_id :: js_id
  ds_key :: string
  ds_label :: string
  ds_description :: "string option"
  ds_display_order :: int
  ds_is_required :: bool
  ds_is_active :: bool

subsection \<open>State\<close>

record DecommissionSliceState =
  current :: "Decommission option"
  remainingBookings :: "RemainingBookingSummary list"
  loading :: bool
  error :: "string option"
  worklist :: "DecommissionWorklistRow list"
  worklistTotal :: int
  worklistLoading :: bool
  worklistError :: "string option"
  steps :: "DecommissionStep list"
  stepsLoading :: bool
  stepsError :: "string option"
  adminSteps :: "DecommissionStep list"
  adminStepsLoading :: bool
  adminStepsError :: "string option"

definition initialState :: DecommissionSliceState where
  "initialState =
     \<lparr>current = None, remainingBookings = [], loading = False, error = None,
      worklist = [], worklistTotal = 0, worklistLoading = False, worklistError = None,
      steps = [], stepsLoading = False, stepsError = None,
      adminSteps = [], adminStepsLoading = False, adminStepsError = None\<rparr>"

subsection \<open>Thunks\<close>

datatype DecommissionAction =
  FetchDecommission "Decommission option lifecycle"
| InitiateDecommission "Decommission lifecycle"
| RequestExtension "Decommission lifecycle"
| DecideExtension "Decommission lifecycle"
| SignAttestation "Attestation lifecycle"
| TearDown "TeardownResult lifecycle"
| CancelDecommission "Decommission lifecycle"
| FetchWorklist "DecommissionWorklistRow page lifecycle"
| FetchSteps "DecommissionStep list lifecycle"
| FetchAllSteps "DecommissionStep list lifecycle"
| CreateStep "DecommissionStep lifecycle"
| UpdateStep "DecommissionStep lifecycle"
| DeleteStep "js_id lifecycle"

definition fetchDecommission :: "(js_id \<Rightarrow> ApiError + Decommission option) \<Rightarrow> js_id \<Rightarrow> DecommissionAction" where
  "fetchDecommission service environmentId =
     FetchDecommission (thunk_with ''Failed to load the decommission'' (service environmentId))"

definition initiateDecommission :: "(js_id \<Rightarrow> 'd \<Rightarrow> ApiError + Decommission) \<Rightarrow> js_id \<Rightarrow> 'd \<Rightarrow> DecommissionAction" where
  "initiateDecommission service environmentId data =
     InitiateDecommission (thunk_with ''Failed to initiate decommissioning'' (service environmentId data))"

definition requestExtension :: "(js_id \<Rightarrow> 'd \<Rightarrow> ApiError + Decommission) \<Rightarrow> js_id \<Rightarrow> 'd \<Rightarrow> DecommissionAction" where
  "requestExtension service decommissionId data =
     RequestExtension (thunk_with ''Failed to request an extension'' (service decommissionId data))"

definition decideExtension :: "(js_id \<Rightarrow> 'd \<Rightarrow> ApiError + Decommission) \<Rightarrow> js_id \<Rightarrow> 'd \<Rightarrow> DecommissionAction" where
  "decideExtension service decommissionId data =
     DecideExtension (thunk_with ''Failed to record the extension decision'' (service decommissionId data))"

definition signAttestation :: "(js_id \<Rightarrow> 'd \<Rightarrow> ApiError + Attestation) \<Rightarrow> js_id \<Rightarrow> 'd \<Rightarrow> DecommissionAction" where
  "signAttestation service decommissionId data =
     SignAttestation (thunk_with ''Failed to sign this step'' (service decommissionId data))"

definition tearDown :: "(js_id \<Rightarrow> ApiError + TeardownResult) \<Rightarrow> js_id \<Rightarrow> DecommissionAction" where
  "tearDown service decommissionId =
     TearDown (thunk_with ''Failed to tear down this environment'' (service decommissionId))"

definition cancelDecommission :: "(js_id \<Rightarrow> 'd \<Rightarrow> ApiError + Decommission) \<Rightarrow> js_id \<Rightarrow> 'd \<Rightarrow> DecommissionAction" where
  "cancelDecommission service decommissionId data =
     CancelDecommission (thunk_with ''Failed to cancel this decommission'' (service decommissionId data))"

text \<open>The query of the worklist: a page number becomes \<open>limit\<close> and \<open>offset\<close>.\<close>

record WorklistQuery =
  wq_state :: "DecommissionState option"
  wq_mine :: "bool option"
  wq_limit :: int
  wq_offset :: int
  wq_sort_by :: "string option"
  wq_sort_dir :: "string option"

definition worklist_query :: "int \<Rightarrow> int \<Rightarrow> DecommissionState option \<Rightarrow> bool option \<Rightarrow> string option \<Rightarrow> string option \<Rightarrow> WorklistQuery" where
  "worklist_query pg pageSize state mine sortBy sortDir =
     \<lparr>wq_state = state, wq_mine = mine, wq_limit = pageSize, wq_offset = pg * pageSize,
      wq_sort_by = sortBy, wq_sort_dir = sortDir\<rparr>"

definition fetchDecommissionWorklist :: "(WorklistQuery \<Rightarrow> ApiError + DecommissionWorklistRow page) \<Rightarrow> int \<Rightarrow> int \<Rightarrow>
    DecommissionState option \<Rightarrow> bool option \<Rightarrow> string option \<Rightarrow> string option \<Rightarrow> DecommissionAction" where
  "fetchDecommissionWorklist service pg pageSize state mine sortBy sortDir =
     FetchWorklist (thunk_with ''Failed to load the decommission worklist''
       (service (worklist_query pg pageSize state mine sortBy sortDir)))"

text \<open>The service's argument is \<open>active_only\<close>.\<close>

definition fetchDecommissionSteps :: "(bool \<Rightarrow> ApiError + DecommissionStep list) \<Rightarrow> DecommissionAction" where
  "fetchDecommissionSteps service = FetchSteps (thunk_with ''Failed to load the decommission checklist'' (service True))"

definition fetchAllDecommissionSteps :: "(bool \<Rightarrow> ApiError + DecommissionStep list) \<Rightarrow> DecommissionAction" where
  "fetchAllDecommissionSteps service =
     FetchAllSteps (thunk_with ''Failed to load the decommission checklist'' (service False))"

definition createDecommissionStep :: "('d \<Rightarrow> ApiError + DecommissionStep) \<Rightarrow> 'd \<Rightarrow> DecommissionAction" where
  "createDecommissionStep service data =
     CreateStep (thunk_with ''Failed to create this step'' (service data))"

definition updateDecommissionStep :: "(js_id \<Rightarrow> 'd \<Rightarrow> ApiError + DecommissionStep) \<Rightarrow> js_id \<Rightarrow> 'd \<Rightarrow> DecommissionAction" where
  "updateDecommissionStep service i data =
     UpdateStep (thunk_with ''Failed to update this step'' (service i data))"

definition deleteDecommissionStep :: "(js_id \<Rightarrow> ApiError + unit) \<Rightarrow> js_id \<Rightarrow> DecommissionAction" where
  "deleteDecommissionStep service i =
     DeleteStep (thunk_with ''Failed to retire this step'' (map_sum id (\<lambda>_. i) (service i)))"

subsection \<open>The reducer\<close>

text \<open>The guard of the in-place updates: only when it is the same decommission.\<close>

definition update_current :: "Decommission \<Rightarrow> DecommissionSliceState \<Rightarrow> DecommissionSliceState" where
  "update_current d st =
     (if map_option dc_id (current st) = Some (dc_id d) then st\<lparr>current := Some d\<rparr> else st)"

definition step_key :: "DecommissionStep \<Rightarrow> int \<times> js_id" where
  "step_key s = (ds_display_order s, ds_id s)"

definition worklist_pending :: "DecommissionSliceState \<Rightarrow> DecommissionSliceState" where
  "worklist_pending st = st\<lparr>worklistLoading := True, worklistError := None\<rparr>"

definition worklist_fulfilled :: "DecommissionWorklistRow page \<Rightarrow> DecommissionSliceState \<Rightarrow> DecommissionSliceState" where
  "worklist_fulfilled p st = st\<lparr>worklistLoading := False, worklist := pg_rows p, worklistTotal := pg_total p\<rparr>"

definition worklist_rejected :: "rejected \<Rightarrow> DecommissionSliceState \<Rightarrow> DecommissionSliceState" where
  "worklist_rejected r st =
     (if rj_aborted r then st
      else st\<lparr>worklistLoading := False,
              worklistError := Some (nullish (rj_payload r) ''Failed to load the decommission worklist'')\<rparr>)"

fun decommission_reducer :: "DecommissionAction \<Rightarrow> DecommissionSliceState \<Rightarrow> DecommissionSliceState" where
  "decommission_reducer (FetchDecommission Pending) st =
     st\<lparr>loading := True, current := None, remainingBookings := [], error := None\<rparr>"
| "decommission_reducer (FetchDecommission (Fulfilled d)) st = st\<lparr>loading := False, current := d\<rparr>"
| "decommission_reducer (FetchDecommission (Rejected r)) st =
     st\<lparr>loading := False, error := Some (nullish (rj_payload r) ''Failed to load the decommission'')\<rparr>"
| "decommission_reducer (InitiateDecommission (Fulfilled d)) st = st\<lparr>current := Some d, error := None\<rparr>"
| "decommission_reducer (RequestExtension (Fulfilled d)) st = update_current d st"
| "decommission_reducer (DecideExtension (Fulfilled d)) st = update_current d st"
| "decommission_reducer (TearDown (Fulfilled t)) st =
     (if map_option dc_id (current st) = Some (dc_id t)
      then st\<lparr>current := Some (Decommission.truncate t), remainingBookings := td_remaining_bookings t\<rparr>
      else st)"
| "decommission_reducer (CancelDecommission (Fulfilled d)) st = update_current d st"
| "decommission_reducer (FetchWorklist Pending) st = worklist_pending st"
| "decommission_reducer (FetchWorklist (Fulfilled p)) st = worklist_fulfilled p st"
| "decommission_reducer (FetchWorklist (Rejected r)) st = worklist_rejected r st"
| "decommission_reducer (FetchSteps Pending) st = st\<lparr>stepsLoading := True, stepsError := None\<rparr>"
| "decommission_reducer (FetchSteps (Fulfilled ss)) st = st\<lparr>stepsLoading := False, steps := ss\<rparr>"
| "decommission_reducer (FetchSteps (Rejected r)) st =
     st\<lparr>stepsLoading := False,
        stepsError := Some (nullish (rj_payload r) ''Failed to load the decommission checklist'')\<rparr>"
| "decommission_reducer (FetchAllSteps Pending) st = st\<lparr>adminStepsLoading := True, adminStepsError := None\<rparr>"
| "decommission_reducer (FetchAllSteps (Fulfilled ss)) st = st\<lparr>adminStepsLoading := False, adminSteps := ss\<rparr>"
| "decommission_reducer (FetchAllSteps (Rejected r)) st =
     st\<lparr>adminStepsLoading := False,
        adminStepsError := Some (nullish (rj_payload r) ''Failed to load the decommission checklist'')\<rparr>"
| "decommission_reducer (CreateStep (Fulfilled s)) st =
     st\<lparr>adminSteps := sort_key step_key (adminSteps st @ [s])\<rparr>"
| "decommission_reducer (UpdateStep (Fulfilled s)) st =
     st\<lparr>adminSteps := sort_key step_key (map (\<lambda>x. if ds_id x = ds_id s then s else x) (adminSteps st))\<rparr>"
| "decommission_reducer (DeleteStep (Fulfilled i)) st =
     st\<lparr>adminSteps := filter (\<lambda>s. ds_id s \<noteq> i) (adminSteps st)\<rparr>"
| "decommission_reducer _ st = st"

definition decommission_run :: "DecommissionAction list \<Rightarrow> DecommissionSliceState \<Rightarrow> DecommissionSliceState" where
  "decommission_run as st = fold decommission_reducer as st"

subsection \<open>The worklist is a list query\<close>

definition worklist_ops :: "(DecommissionSliceState, DecommissionWorklistRow page) list_ops" where
  "worklist_ops = \<lparr>op_pending = worklist_pending, op_fulfilled = worklist_fulfilled, op_rejected = worklist_rejected\<rparr>"

definition worklist_page :: "DecommissionSliceState \<Rightarrow> DecommissionWorklistRow page" where
  "worklist_page st = \<lparr>pg_rows = worklist st, pg_total = worklistTotal st\<rparr>"

interpretation dl: list_query worklist_ops worklistLoading worklistError worklist_page
  by unfold_locales
     (simp_all add: worklist_ops_def worklist_pending_def worklist_fulfilled_def worklist_rejected_def worklist_page_def)

subsection \<open>The admin copy of the checklist\<close>

definition steps_ok :: "DecommissionStep list \<Rightarrow> bool" where
  "steps_ok ss \<longleftrightarrow> sorted (map step_key ss) \<and> distinct (map ds_id ss)"

lemma steps_ok_sort: "distinct (map ds_id ss) \<Longrightarrow> steps_ok (sort_key step_key ss)"
  by (simp add: steps_ok_def distinct_map)

lemma map_replace_ids: "map ds_id (map (\<lambda>x. if ds_id x = ds_id s then s else x) ss) = map ds_id ss"
  by simp

lemma steps_ok_filter: "steps_ok ss \<Longrightarrow> steps_ok (filter P ss)"
  by (simp add: steps_ok_def sorted_filter distinct_map_filter)

text \<open>
  The admin copy of the checklist always reads like the server's answer: starting from a list in
  display order without repeated ids, creating a step with a new id, editing any step (its place in
  the order included) and retiring one keep it in display order and free of repetitions, and a retired
  step is gone.
\<close>

theorem admin_steps_stay_sorted:
  assumes "steps_ok (adminSteps st)" "ds_id new \<notin> ds_id ` set (adminSteps st)"
  shows "steps_ok (adminSteps (decommission_reducer (CreateStep (Fulfilled new)) st)) \<and>
    set (adminSteps (decommission_reducer (CreateStep (Fulfilled new)) st)) = insert new (set (adminSteps st)) \<and>
    steps_ok (adminSteps (decommission_reducer (UpdateStep (Fulfilled s)) st)) \<and>
    ds_id ` set (adminSteps (decommission_reducer (UpdateStep (Fulfilled s)) st)) = ds_id ` set (adminSteps st) \<and>
    steps_ok (adminSteps (decommission_reducer (DeleteStep (Fulfilled i)) st)) \<and>
    i \<notin> ds_id ` set (adminSteps (decommission_reducer (DeleteStep (Fulfilled i)) st))"
proof -
  have d: "distinct (map ds_id (adminSteps st @ [new]))" using assms by (simp add: steps_ok_def)
  have "distinct (map ds_id (map (\<lambda>x. if ds_id x = ds_id s then s else x) (adminSteps st)))"
    unfolding map_replace_ids using assms by (simp add: steps_ok_def)
  then have "steps_ok (sort_key step_key (map (\<lambda>x. if ds_id x = ds_id s then s else x) (adminSteps st)))"
    by (rule steps_ok_sort)
  moreover have "ds_id ` set (map (\<lambda>x. if ds_id x = ds_id s then s else x) (adminSteps st)) = ds_id ` set (adminSteps st)"
    using arg_cong [OF map_replace_ids [of s "adminSteps st"], of set] by (simp only: set_map)
  ultimately show ?thesis
    using steps_ok_sort [OF d] steps_ok_filter [OF assms(1)] by auto
qed

definition sample_step :: "js_id \<Rightarrow> int \<Rightarrow> DecommissionStep" where
  "sample_step i n = \<lparr>ds_id = i, ds_key = ''k'', ds_label = ''l'', ds_description = None, ds_display_order = n,
     ds_is_required = True, ds_is_active = True\<rparr>"

theorem admin_steps_stay_sorted_witness:
  "steps_ok (adminSteps (decommission_reducer (CreateStep (Fulfilled (sample_step 3 1)))
     (initialState\<lparr>adminSteps := [sample_step 1 0, sample_step 2 5]\<rparr>)))"
proof -
  let ?st = "initialState\<lparr>adminSteps := [sample_step 1 0, sample_step 2 5]\<rparr>"
  have "steps_ok (adminSteps ?st)" "ds_id (sample_step 3 1) \<notin> ds_id ` set (adminSteps ?st)"
    by (simp_all add: steps_ok_def sample_step_def step_key_def)
  from admin_steps_stay_sorted [OF this] show ?thesis by blast
qed

subsection \<open>Whose decommission is on screen\<close>

text \<open>
  The slice does not check which environment a reply belongs to. When the user moves from one
  environment to the next before the first answer has arrived, the first answer replaces the second,
  and the actions of the panel (the teardown among them) then take the id of the other environment's
  decommission.
\<close>

theorem late_reply_shows_other_environment:
  "let st' = decommission_run [FetchDecommission Pending, FetchDecommission Pending,
         FetchDecommission (Fulfilled second), FetchDecommission (Fulfilled (Some first))] st
   in current st' = Some first \<and> loading st' = False \<and> error st' = None \<and>
      map_option dc_id (current (decommission_run [TearDown (Fulfilled
        (Decommission.extend first (TeardownResult.fields bookings)))] st')) = Some (dc_id first) \<and>
      remainingBookings (decommission_run [TearDown (Fulfilled
        (Decommission.extend first (TeardownResult.fields bookings)))] st') = bookings"
  by (simp add: decommission_run_def Let_def Decommission.defs TeardownResult.defs)

end
