(* ===== verification/EnvironmentSlice.thy ===== *)
theory EnvironmentSlice
  imports DecommissionSlice JsMap
begin

text \<open>
  \<open>store/environmentSlice.ts\<close> with \<open>types/environment.ts\<close>: the environments of the grid, the environment
  on screen with its systems and subsystems. The grid is a window the server pages, so creating,
  updating or deleting an environment edits the environment on screen only.
\<close>

subsection \<open>Types and state\<close>

datatype EnvironmentStatus = Env_active | Env_inactive | Env_maintenance | Env_decommissioned

record EnvironmentResponse =
  en_id :: js_id
  en_name :: string
  en_description :: "string option"
  en_tier_id :: js_id
  en_tier_name :: string
  en_tier_color :: "string option"
  en_owner_user_id :: "js_id option"
  en_owner_username :: "string option"
  en_expires_at :: "string option"
  en_reserved_now :: bool
  en_idle :: bool
  en_decommission_state :: "DecommissionState option"
  en_status :: EnvironmentStatus
  en_tenant_id :: js_id
  en_custom_fields :: "(string, string) jmap option"
  en_operations_group_id :: "js_id option"
  en_operations_group_name :: "string option"
  en_access_url :: "string option"
  en_connection_notes :: "string option"
  en_support_contact :: "string option"
  en_sla_notes :: "string option"
  en_known_limitations :: "string option"
  en_decommission_notes :: "string option"
  en_name_compliant :: "bool option"
  en_quarantined :: "bool option"
  en_compliance_gaps :: "string list option"
  en_created_at :: string
  en_updated_at :: string

record SystemSummary =
  ss_id :: js_id
  ss_name :: string
  ss_description :: "string option"

record SystemRef = SystemSummary +
  sr_github_repository_url :: "string option"

record EnvironmentSystemResponse =
  es_id :: js_id
  es_environment_id :: js_id
  es_system_id :: js_id
  es_system :: SystemRef

record EnvironmentSystemsResponse =
  ed_systems :: "EnvironmentSystemResponse list"
  ed_missing_systems :: "SystemSummary list"

record VersionSummary =
  vs_build_id :: string
  vs_version_label :: string
  vs_installed_at :: string

record EnvironmentSubsystemResponse =
  eb_id :: js_id
  eb_environment_id :: js_id
  eb_subsystem_id :: js_id
  eb_subsystem_name :: string
  eb_component_type :: string
  eb_component_type_definition_id :: "js_id option"
  eb_component_type_definition_name :: "string option"
  eb_technology :: "string option"
  eb_system_id :: js_id
  eb_system_name :: string
  eb_is_mocked :: bool
  eb_mock_notes :: "string option"
  eb_custom_fields :: "(string, string) jmap option"
  eb_latest_version :: "VersionSummary option"

record EnvironmentState =
  ev_environments :: "EnvironmentResponse list"
  ev_total :: int
  ev_currentEnvironment :: "EnvironmentResponse option"
  ev_environmentSystemsData :: EnvironmentSystemsResponse
  ev_envSubsystems :: "EnvironmentSubsystemResponse list"
  ev_loading :: bool
  ev_listLoading :: bool
  ev_error :: "string option"

definition environment_initial :: EnvironmentState where
  "environment_initial =
     \<lparr>ev_environments = [], ev_total = 0, ev_currentEnvironment = None,
      ev_environmentSystemsData = \<lparr>ed_systems = [], ed_missing_systems = []\<rparr>, ev_envSubsystems = [],
      ev_loading = False, ev_listLoading = False, ev_error = None\<rparr>"

subsection \<open>Thunks\<close>

datatype EnvironmentAction =
  FetchEnvironments "EnvironmentResponse page lifecycle"
| FetchEnvironment "EnvironmentResponse lifecycle"
| CreateEnvironment "EnvironmentResponse lifecycle"
| UpdateEnvironment "EnvironmentResponse lifecycle"
| DeleteEnvironment "js_id lifecycle"
| FetchEnvironmentSystems "EnvironmentSystemsResponse lifecycle"
| AddSystemToEnvironment "EnvironmentSystemResponse lifecycle"
| UpdateSystemInEnvironment "EnvironmentSystemResponse lifecycle"
| RemoveSystemFromEnvironment "(js_id \<times> js_id) lifecycle"
| FetchEnvSubsystems "EnvironmentSubsystemResponse list lifecycle"
| UpdateEnvSubsystem "EnvironmentSubsystemResponse lifecycle"
| UpdateEnvironmentHandover "EnvironmentResponse lifecycle"

definition fetchEnvironments :: "('d \<Rightarrow> ApiError + EnvironmentResponse page) \<Rightarrow> 'd \<Rightarrow> EnvironmentAction" where
  "fetchEnvironments service params = FetchEnvironments (thunk_plain (service params))"

definition fetchEnvironment :: "(js_id \<Rightarrow> ApiError + EnvironmentResponse) \<Rightarrow> js_id \<Rightarrow> EnvironmentAction" where
  "fetchEnvironment service i = FetchEnvironment (thunk_plain (service i))"

definition createEnvironment :: "('d \<Rightarrow> ApiError + EnvironmentResponse) \<Rightarrow> 'd \<Rightarrow> EnvironmentAction" where
  "createEnvironment service data =
     CreateEnvironment (thunk_with ''Failed to create environment'' (service data))"

definition updateEnvironment :: "(js_id \<Rightarrow> 'd \<Rightarrow> ApiError + EnvironmentResponse) \<Rightarrow> js_id \<Rightarrow> 'd \<Rightarrow> EnvironmentAction" where
  "updateEnvironment service i data =
     UpdateEnvironment (thunk_with ''Failed to update environment'' (service i data))"

definition deleteEnvironment :: "(js_id \<Rightarrow> ApiError + unit) \<Rightarrow> js_id \<Rightarrow> EnvironmentAction" where
  "deleteEnvironment service i = DeleteEnvironment (thunk_plain (map_sum id (\<lambda>_. i) (service i)))"

definition fetchEnvironmentSystems :: "(js_id \<Rightarrow> ApiError + EnvironmentSystemsResponse) \<Rightarrow> js_id \<Rightarrow> EnvironmentAction" where
  "fetchEnvironmentSystems service envId = FetchEnvironmentSystems (thunk_plain (service envId))"

definition addSystemToEnvironment :: "(js_id \<Rightarrow> 'd \<Rightarrow> ApiError + EnvironmentSystemResponse) \<Rightarrow> js_id \<Rightarrow> 'd \<Rightarrow> EnvironmentAction" where
  "addSystemToEnvironment service envId data = AddSystemToEnvironment (thunk_plain (service envId data))"

definition updateSystemInEnvironment :: "(js_id \<Rightarrow> js_id \<Rightarrow> 'd \<Rightarrow> ApiError + EnvironmentSystemResponse) \<Rightarrow> js_id \<Rightarrow> js_id \<Rightarrow> 'd \<Rightarrow> EnvironmentAction" where
  "updateSystemInEnvironment service envId systemId data =
     UpdateSystemInEnvironment (thunk_plain (service envId systemId data))"

definition removeSystemFromEnvironment :: "(js_id \<Rightarrow> js_id \<Rightarrow> ApiError + unit) \<Rightarrow> js_id \<Rightarrow> js_id \<Rightarrow> EnvironmentAction" where
  "removeSystemFromEnvironment service envId systemId =
     RemoveSystemFromEnvironment (thunk_plain (map_sum id (\<lambda>_. (envId, systemId)) (service envId systemId)))"

definition fetchEnvSubsystems :: "(js_id \<Rightarrow> ApiError + EnvironmentSubsystemResponse list) \<Rightarrow> js_id \<Rightarrow> EnvironmentAction" where
  "fetchEnvSubsystems service envId = FetchEnvSubsystems (thunk_plain (service envId))"

definition updateEnvSubsystem :: "(js_id \<Rightarrow> js_id \<Rightarrow> 'd \<Rightarrow> ApiError + EnvironmentSubsystemResponse) \<Rightarrow> js_id \<Rightarrow> js_id \<Rightarrow> 'd \<Rightarrow> EnvironmentAction" where
  "updateEnvSubsystem service envId subsystemId data =
     UpdateEnvSubsystem (thunk_plain (service envId subsystemId data))"

definition updateEnvironmentHandover :: "(js_id \<Rightarrow> 'd \<Rightarrow> ApiError + EnvironmentResponse) \<Rightarrow> js_id \<Rightarrow> 'd \<Rightarrow> EnvironmentAction" where
  "updateEnvironmentHandover service environmentId data =
     UpdateEnvironmentHandover (thunk_with ''Failed to save the handover details'' (service environmentId data))"

subsection \<open>The reducer\<close>

definition environments_pending :: "EnvironmentState \<Rightarrow> EnvironmentState" where
  "environments_pending st = st\<lparr>ev_listLoading := True, ev_error := None\<rparr>"

definition environments_fulfilled :: "EnvironmentResponse page \<Rightarrow> EnvironmentState \<Rightarrow> EnvironmentState" where
  "environments_fulfilled p st = st\<lparr>ev_environments := pg_rows p, ev_total := pg_total p, ev_listLoading := False\<rparr>"

definition environments_rejected :: "rejected \<Rightarrow> EnvironmentState \<Rightarrow> EnvironmentState" where
  "environments_rejected r st =
     (if rj_aborted r then st
      else st\<lparr>ev_listLoading := False, ev_error := Some (nullish (rj_message r) ''Failed to fetch environments'')\<rparr>)"

text \<open>The transitions of every thunk but the list: the spinner goes on, and off with the answer.\<close>

definition env_pending :: "EnvironmentState \<Rightarrow> EnvironmentState" where
  "env_pending st = st\<lparr>ev_loading := True, ev_error := None\<rparr>"

definition env_failed :: "string \<Rightarrow> rejected \<Rightarrow> EnvironmentState \<Rightarrow> EnvironmentState" where
  "env_failed fallback r st = st\<lparr>ev_loading := False, ev_error := Some (nullish (rj_message r) fallback)\<rparr>"

text \<open>Creating and updating keep the reason that \<open>rejectWithValue\<close> carries.\<close>

definition env_refused :: "string \<Rightarrow> rejected \<Rightarrow> EnvironmentState \<Rightarrow> EnvironmentState" where
  "env_refused fallback r st =
     st\<lparr>ev_loading := False,
        ev_error := Some (case rj_payload r of Some p \<Rightarrow> p | None \<Rightarrow> nullish (rj_message r) fallback)\<rparr>"

definition show_environment :: "EnvironmentResponse \<Rightarrow> EnvironmentState \<Rightarrow> EnvironmentState" where
  "show_environment e st =
     (if map_option en_id (ev_currentEnvironment st) = Some (en_id e) then st\<lparr>ev_currentEnvironment := Some e\<rparr> else st)"

definition hide_environment :: "js_id \<Rightarrow> EnvironmentState \<Rightarrow> EnvironmentState" where
  "hide_environment i st =
     (if map_option en_id (ev_currentEnvironment st) = Some i then st\<lparr>ev_currentEnvironment := None\<rparr> else st)"

definition with_systems :: "(EnvironmentSystemResponse list \<Rightarrow> EnvironmentSystemResponse list) \<Rightarrow> EnvironmentState \<Rightarrow> EnvironmentState" where
  "with_systems f st =
     st\<lparr>ev_environmentSystemsData := (ev_environmentSystemsData st)\<lparr>ed_systems := f (ed_systems (ev_environmentSystemsData st))\<rparr>\<rparr>"

definition env_done :: "EnvironmentState \<Rightarrow> EnvironmentState" where
  "env_done st = st\<lparr>ev_loading := False\<rparr>"

fun environment_reducer :: "EnvironmentAction \<Rightarrow> EnvironmentState \<Rightarrow> EnvironmentState" where
  "environment_reducer (FetchEnvironments l) st =
     on_cases environments_pending environments_fulfilled environments_rejected l st"
| "environment_reducer (FetchEnvironment l) st =
     on_cases env_pending (\<lambda>e st. env_done (st\<lparr>ev_currentEnvironment := Some e\<rparr>))
       (env_failed ''Failed to fetch environment'') l st"
| "environment_reducer (CreateEnvironment l) st =
     on_cases env_pending (\<lambda>_. env_done) (env_refused ''Failed to create environment'') l st"
| "environment_reducer (UpdateEnvironment l) st =
     on_cases env_pending (\<lambda>e st. env_done (show_environment e st)) (env_refused ''Failed to update environment'') l st"
| "environment_reducer (DeleteEnvironment l) st =
     on_cases env_pending (\<lambda>i st. env_done (hide_environment i st)) (env_failed ''Failed to delete environment'') l st"
| "environment_reducer (FetchEnvironmentSystems l) st =
     on_cases env_pending (\<lambda>d st. env_done (st\<lparr>ev_environmentSystemsData := d\<rparr>))
       (env_failed ''Failed to fetch environment systems'') l st"
| "environment_reducer (AddSystemToEnvironment l) st =
     on_cases env_pending (\<lambda>s st. env_done (with_systems (\<lambda>ss. ss @ [s]) st))
       (env_failed ''Failed to add system to environment'') l st"
| "environment_reducer (UpdateSystemInEnvironment l) st =
     on_cases env_pending (\<lambda>s st. env_done (with_systems (put_at_first (\<lambda>x. es_id x = es_id s) s) st))
       (env_failed ''Failed to update system in environment'') l st"
| "environment_reducer (RemoveSystemFromEnvironment l) st =
     on_cases env_pending (\<lambda>p st. env_done (with_systems (filter (\<lambda>s. es_system_id s \<noteq> snd p)) st))
       (env_failed ''Failed to remove system from environment'') l st"
| "environment_reducer (FetchEnvSubsystems l) st =
     on_cases env_pending (\<lambda>xs st. env_done (st\<lparr>ev_envSubsystems := xs\<rparr>)) (env_failed ''Failed to fetch subsystems'') l st"
| "environment_reducer (UpdateEnvSubsystem l) st =
     on_cases env_pending
       (\<lambda>s st. env_done (st\<lparr>ev_envSubsystems := put_at_first (\<lambda>x. eb_subsystem_id x = eb_subsystem_id s) s (ev_envSubsystems st)\<rparr>))
       (env_failed ''Failed to update subsystem'') l st"
| "environment_reducer (UpdateEnvironmentHandover l) st = on_fulfilled show_environment l st"

definition environment_run :: "EnvironmentAction list \<Rightarrow> EnvironmentState \<Rightarrow> EnvironmentState" where
  "environment_run as st = fold environment_reducer as st"

subsection \<open>The environment grid is a list query\<close>

definition environments_ops :: "(EnvironmentState, EnvironmentResponse page) list_ops" where
  "environments_ops =
     \<lparr>op_pending = environments_pending, op_fulfilled = environments_fulfilled, op_rejected = environments_rejected\<rparr>"

definition environments_page :: "EnvironmentState \<Rightarrow> EnvironmentResponse page" where
  "environments_page st = \<lparr>pg_rows = ev_environments st, pg_total = ev_total st\<rparr>"

interpretation el: list_query environments_ops ev_listLoading ev_error environments_page
  by unfold_locales
     (simp_all add: environments_ops_def environments_pending_def environments_fulfilled_def
        environments_rejected_def environments_page_def)

subsection \<open>Every answer settles the page\<close>

text \<open>Whether an action is the grid's, and whether it starts a request, settles one or is a save that shows no spinner.\<close>

fun starts :: "EnvironmentAction \<Rightarrow> bool" where
  "starts (FetchEnvironments l) = False"
| "starts (FetchEnvironment l) = (l = Pending)"
| "starts (CreateEnvironment l) = (l = Pending)"
| "starts (UpdateEnvironment l) = (l = Pending)"
| "starts (DeleteEnvironment l) = (l = Pending)"
| "starts (FetchEnvironmentSystems l) = (l = Pending)"
| "starts (AddSystemToEnvironment l) = (l = Pending)"
| "starts (UpdateSystemInEnvironment l) = (l = Pending)"
| "starts (RemoveSystemFromEnvironment l) = (l = Pending)"
| "starts (FetchEnvSubsystems l) = (l = Pending)"
| "starts (UpdateEnvSubsystem l) = (l = Pending)"
| "starts (UpdateEnvironmentHandover l) = False"

fun quiet :: "EnvironmentAction \<Rightarrow> bool" where
  "quiet (FetchEnvironments l) = True"
| "quiet (UpdateEnvironmentHandover l) = True"
| "quiet _ = False"

lemma env_loading_step:
  "ev_loading (environment_reducer a st) = (if quiet a then ev_loading st else starts a)"
proof -
  have h: "ev_loading (show_environment e st) = ev_loading st" for e
    by (simp add: show_environment_def)
  show ?thesis
  proof (cases a)
    case (FetchEnvironments l)
    then show ?thesis
      by (cases l) (simp_all add: environments_pending_def environments_fulfilled_def environments_rejected_def)
  qed (auto simp: on_cases_def on_fulfilled_def env_pending_def env_done_def env_failed_def env_refused_def h split: lifecycle.split)
qed

text \<open>
  The spinner of the environment page shows the last thing that happened: after any sequence of
  actions it is on exactly when the last action that is neither the grid's nor a handover save started
  a request; so with two requests on the way (the detail and its systems) the first answer switches it
  off while the second is still on its way.
\<close>

lemma environment_spinner_last_event:
  "ev_loading (environment_run as environment_initial) =
     (case filter (\<lambda>a. \<not> quiet a) as of [] \<Rightarrow> False | _ # _ \<Rightarrow> starts (last (filter (\<lambda>a. \<not> quiet a) as))) \<and>
   ev_loading (environment_run [FetchEnvironment Pending, FetchEnvironmentSystems Pending, FetchEnvironment (Fulfilled e)]
     environment_initial) = False"
proof -
  have "ev_loading (environment_run as st) =
      (case filter (\<lambda>a. \<not> quiet a) as of [] \<Rightarrow> ev_loading st | _ # _ \<Rightarrow> starts (last (filter (\<lambda>a. \<not> quiet a) as)))" for st
    unfolding environment_run_def
    by (induction as arbitrary: st) (auto simp: env_loading_step split: list.split)
  then show ?thesis by (simp add: environment_run_def env_done_def environment_initial_def split: list.split)
qed

text \<open>
  The grid's window is the server's alone. Whatever is created, updated, deleted or saved, the rows
  and the total of the grid are those of the last page that was answered, and the environment on screen
  only ever changes to one that was fetched, to a newer version of itself, or to nothing when it is the
  one deleted.
\<close>

theorem environment_window_is_servers:
  "let st' = environment_reducer a st
   in (case a of
         FetchEnvironments (Fulfilled p) \<Rightarrow> environments_page st' = p
       | _ \<Rightarrow> environments_page st' = environments_page st) \<and>
      (case a of
         FetchEnvironment (Fulfilled e) \<Rightarrow> ev_currentEnvironment st' = Some e
       | DeleteEnvironment (Fulfilled i) \<Rightarrow>
           ev_currentEnvironment st' =
             (case ev_currentEnvironment st of None \<Rightarrow> None | Some d \<Rightarrow> if en_id d = i then None else Some d)
       | _ \<Rightarrow> map_option en_id (ev_currentEnvironment st') = map_option en_id (ev_currentEnvironment st))"
  by (cases a)
     (auto simp: Let_def on_cases_def on_fulfilled_def environments_page_def environments_pending_def
        environments_fulfilled_def environments_rejected_def env_pending_def env_done_def env_failed_def
        env_refused_def show_environment_def hide_environment_def with_systems_def
        split: lifecycle.split option.split)

end
