(* ===== verification/BookingSlice.thy ===== *)
theory BookingSlice
  imports RtkLifecycle JsMap
begin

text \<open>
  \<open>store/bookingSlice.ts\<close> with \<open>types/booking.ts\<close>, \<open>types/conflict.ts\<close> and \<open>types/contention.ts\<close>: the
  bookings of the grid, the booking on screen, the overlap warnings of the last booking made and the
  conflicts of each booking, with the answers given to them.
\<close>

subsection \<open>Types and state\<close>

datatype ProtectionLevel = Soft | Hard

datatype ContextTag = Tag_deployment | Tag_regression | Tag_none

datatype ContentionState = Unowned | Owned | Decided

datatype ContentionOutcome = Ranked | Protected | No_project | Unranked | Equal_rank

datatype EscalationState = Escalation_open | Escalation_answered | Escalation_expired

record Escalation =
  el_id :: js_id
  el_booking_id :: js_id
  el_other_booking_id :: js_id
  el_owner_user_id :: js_id
  el_owner_username :: "string option"
  el_escalated_by :: js_id
  el_escalated_by_username :: "string option"
  el_respond_by :: string
  el_state :: EscalationState
  el_bookings_live :: bool
  el_booking_environment_name :: "string option"
  el_booking_project_name :: "string option"
  el_other_booking_environment_name :: "string option"
  el_other_booking_project_name :: "string option"
  el_booking_group_name :: "string option"
  el_other_booking_group_name :: "string option"
  el_decision_yields_booking_id :: "js_id option"
  el_decision_notes :: "string option"
  el_decided_by :: "js_id option"
  el_decided_by_username :: "string option"
  el_decided_at :: "string option"

record Contention =
  cn_outcome :: ContentionOutcome
  cn_winner_booking_id :: "js_id option"
  cn_reason :: string
  cn_escalation :: "Escalation option"
  cn_booking_project_name :: "string option"
  cn_other_project_name :: "string option"

record AgreementGapAckRead =
  aa_notes :: "string option"
  aa_acknowledged_by :: js_id
  aa_acknowledged_at :: string
  aa_acknowledged_by_username :: "string option"

record CustomFieldPermission =
  cf_visible :: bool
  cf_editable :: bool

record BookingRequestRef =
  br_id :: js_id
  br_project_name :: string
  br_booking_type_id :: js_id
  br_booked_by :: js_id
  br_booked_by_username :: "string option"
  br_delegate_user_ids :: "js_id list option"

record BookingResponse =
  bo_id :: js_id
  bo_environment_id :: js_id
  bo_environment_name :: "string option"
  bo_project_name :: string
  bo_project_id :: "js_id option"
  bo_project_name_link :: "string option"
  bo_booked_by :: js_id
  bo_booked_by_username :: "string option"
  bo_start_date :: string
  bo_end_date :: string
  bo_booking_type_id :: js_id
  bo_exclusive_use :: bool
  bo_status :: string
  bo_notes :: "string option"
  bo_recurrence_rule :: "string option"
  bo_recurrence_parent_id :: "js_id option"
  bo_release_id :: "js_id option"
  bo_test_phase_id :: "js_id option"
  bo_context_tag :: ContextTag
  bo_custom_fields :: "(string, string) jmap option"
  bo_custom_field_permissions :: "(string, CustomFieldPermission) jmap option"
  bo_standard_field_permissions :: "(string, bool) jmap option"
  bo_tenant_id :: js_id
  bo_created_at :: string
  bo_updated_at :: string
  bo_has_unacknowledged_conflicts :: bool
  bo_booking_request_id :: "js_id option"
  bo_agreement_gap :: "string option"
  bo_has_unacknowledged_agreement_gap :: bool
  bo_agreement_gap_ack :: "AgreementGapAckRead option"
  bo_environment_group_id :: "js_id option"
  bo_environment_group_name :: "string option"
  bo_protection_level :: "ProtectionLevel option"
  bo_contention_state :: "ContentionState option"
  bo_request :: "BookingRequestRef option"

record BookingCreateResponse =
  bc_booking :: BookingResponse
  bc_overlap_warnings :: "js_id list"

record EnvBookingSummary =
  sb_id :: js_id
  sb_environment_id :: js_id
  sb_environment_name :: "string option"
  sb_project_name :: "string option"
  sb_start_date :: string
  sb_end_date :: string
  sb_status :: string
  sb_has_unacknowledged_conflicts :: bool
  sb_agreement_gap :: "string option"
  sb_has_unacknowledged_agreement_gap :: bool
  sb_environment_group_id :: "js_id option"
  sb_environment_group_name :: "string option"
  sb_protection_level :: ProtectionLevel

record ConflictAck =
  ca_willing_to_share :: "bool option"
  ca_notes :: "string option"
  ca_acknowledged_by :: "js_id option"
  ca_acknowledged_at :: "string option"

record ConflictItem =
  ci_other_booking :: EnvBookingSummary
  ci_contention :: Contention
  ci_ack :: "ConflictAck option"

record BookingState =
  bk_bookings :: "BookingResponse list"
  bk_total :: int
  bk_selectedBooking :: "BookingResponse option"
  bk_loading :: bool
  bk_listLoading :: bool
  bk_error :: "string option"
  bk_overlapWarnings :: "js_id list"
  bk_conflicts :: "(js_id, ConflictItem list) jmap"

definition booking_initial :: BookingState where
  "booking_initial =
     \<lparr>bk_bookings = [], bk_total = 0, bk_selectedBooking = None, bk_loading = False, bk_listLoading = False,
      bk_error = None, bk_overlapWarnings = [], bk_conflicts = []\<rparr>"

subsection \<open>Thunks\<close>

datatype BookingAction =
  ClearOverlapWarnings
| ClearSelectedBooking
| FetchBookings "BookingResponse page lifecycle"
| CreateBooking "BookingCreateResponse lifecycle"
| GetBooking "BookingResponse lifecycle"
| DeleteOccurrence "js_id lifecycle"
| DeleteSeries "js_id lifecycle"
| FetchConflicts "(js_id \<times> ConflictItem list) lifecycle"
| AcknowledgeConflict "(js_id \<times> js_id \<times> ConflictAck) lifecycle"

definition fetchBookings :: "('d \<Rightarrow> ApiError + BookingResponse page) \<Rightarrow> 'd \<Rightarrow> BookingAction" where
  "fetchBookings service params = FetchBookings (thunk_plain (service params))"

definition createBooking :: "('d \<Rightarrow> ApiError + BookingCreateResponse) \<Rightarrow> 'd \<Rightarrow> BookingAction" where
  "createBooking service data = CreateBooking (thunk_plain (service data))"

definition getBooking :: "(js_id \<Rightarrow> ApiError + BookingResponse) \<Rightarrow> js_id \<Rightarrow> BookingAction" where
  "getBooking service i = GetBooking (thunk_plain (service i))"

definition deleteOccurrence :: "(js_id \<Rightarrow> ApiError + unit) \<Rightarrow> js_id \<Rightarrow> BookingAction" where
  "deleteOccurrence service i = DeleteOccurrence (thunk_plain (map_sum id (\<lambda>_. i) (service i)))"

definition deleteSeries :: "(js_id \<Rightarrow> ApiError + unit) \<Rightarrow> js_id \<Rightarrow> BookingAction" where
  "deleteSeries service i = DeleteSeries (thunk_plain (map_sum id (\<lambda>_. i) (service i)))"

definition fetchConflicts :: "(js_id \<Rightarrow> ApiError + ConflictItem list) \<Rightarrow> js_id \<Rightarrow> BookingAction" where
  "fetchConflicts service i = FetchConflicts (thunk_plain (map_sum id (Pair i) (service i)))"

text \<open>The service takes the two bookings and the answer.\<close>

definition acknowledgeConflict ::
    "(js_id \<Rightarrow> js_id \<Rightarrow> bool \<times> string option \<Rightarrow> ApiError + ConflictAck) \<Rightarrow> js_id \<Rightarrow> js_id \<Rightarrow> bool \<Rightarrow> string option \<Rightarrow>
     BookingAction" where
  "acknowledgeConflict service i otherId willing_to_share notes = AcknowledgeConflict
     (thunk_plain (map_sum id (\<lambda>ack. (i, otherId, ack)) (service i otherId (willing_to_share, notes))))"

subsection \<open>The reducer\<close>

definition bookings_pending :: "BookingState \<Rightarrow> BookingState" where
  "bookings_pending st = st\<lparr>bk_listLoading := True, bk_error := None\<rparr>"

definition bookings_fulfilled :: "BookingResponse page \<Rightarrow> BookingState \<Rightarrow> BookingState" where
  "bookings_fulfilled p st = st\<lparr>bk_bookings := pg_rows p, bk_total := pg_total p, bk_listLoading := False\<rparr>"

definition bookings_rejected :: "rejected \<Rightarrow> BookingState \<Rightarrow> BookingState" where
  "bookings_rejected r st =
     (if rj_aborted r then st
      else st\<lparr>bk_listLoading := False, bk_error := Some (nullish (rj_message r) ''Failed to fetch bookings'')\<rparr>)"

definition bk_pending :: "BookingState \<Rightarrow> BookingState" where
  "bk_pending st = st\<lparr>bk_loading := True, bk_error := None\<rparr>"

definition bk_failed :: "string \<Rightarrow> rejected \<Rightarrow> BookingState \<Rightarrow> BookingState" where
  "bk_failed fallback r st = st\<lparr>bk_loading := False, bk_error := Some (nullish (rj_message r) fallback)\<rparr>"

definition bk_refused :: "string \<Rightarrow> rejected \<Rightarrow> BookingState \<Rightarrow> BookingState" where
  "bk_refused fallback r st = st\<lparr>bk_error := Some (nullish (rj_message r) fallback)\<rparr>"

definition deselect :: "js_id \<Rightarrow> BookingState \<Rightarrow> BookingState" where
  "deselect i st =
     (if map_option bo_id (bk_selectedBooking st) = Some i then st\<lparr>bk_selectedBooking := None\<rparr> else st)"

definition booking_created :: "BookingCreateResponse \<Rightarrow> BookingState \<Rightarrow> BookingState" where
  "booking_created r st = st\<lparr>bk_bookings := bk_bookings st @ [bc_booking r],
     bk_overlapWarnings := bc_overlap_warnings r, bk_loading := False\<rparr>"

definition occurrence_deleted :: "js_id \<Rightarrow> BookingState \<Rightarrow> BookingState" where
  "occurrence_deleted i st =
     (deselect i (st\<lparr>bk_bookings := filter (\<lambda>b. bo_id b \<noteq> i) (bk_bookings st)\<rparr>))\<lparr>bk_loading := False\<rparr>"

definition series_deleted :: "js_id \<Rightarrow> BookingState \<Rightarrow> BookingState" where
  "series_deleted i st =
     (deselect i (st\<lparr>bk_bookings :=
        filter (\<lambda>b. bo_id b \<noteq> i \<and> bo_recurrence_parent_id b \<noteq> Some i) (bk_bookings st)\<rparr>))\<lparr>bk_loading := False\<rparr>"

definition conflict_acknowledged :: "js_id \<times> js_id \<times> ConflictAck \<Rightarrow> BookingState \<Rightarrow> BookingState" where
  "conflict_acknowledged p st =
     (case p of (bookingId, otherId, ack) \<Rightarrow>
        (case jm_get (bk_conflicts st) bookingId of
           None \<Rightarrow> st
         | Some items \<Rightarrow> st\<lparr>bk_conflicts := jm_set bookingId
             (modify_first (\<lambda>c. sb_id (ci_other_booking c) = otherId) (\<lambda>c. c\<lparr>ci_ack := Some ack\<rparr>) items)
             (bk_conflicts st)\<rparr>))"

fun booking_reducer :: "BookingAction \<Rightarrow> BookingState \<Rightarrow> BookingState" where
  "booking_reducer ClearOverlapWarnings st = st\<lparr>bk_overlapWarnings := []\<rparr>"
| "booking_reducer ClearSelectedBooking st = st\<lparr>bk_selectedBooking := None\<rparr>"
| "booking_reducer (FetchBookings l) st = on_cases bookings_pending bookings_fulfilled bookings_rejected l st"
| "booking_reducer (CreateBooking l) st =
     on_cases (\<lambda>st. (bk_pending st)\<lparr>bk_overlapWarnings := []\<rparr>) booking_created (bk_failed ''Failed to create booking'') l st"
| "booking_reducer (GetBooking l) st =
     on_cases bk_pending (\<lambda>b st. st\<lparr>bk_selectedBooking := Some b, bk_loading := False\<rparr>)
       (bk_failed ''Failed to fetch booking'') l st"
| "booking_reducer (DeleteOccurrence l) st =
     on_cases bk_pending occurrence_deleted (bk_failed ''Failed to delete occurrence'') l st"
| "booking_reducer (DeleteSeries l) st =
     on_cases bk_pending series_deleted (bk_failed ''Failed to delete series'') l st"
| "booking_reducer (FetchConflicts l) st =
     on_cases id (\<lambda>p st. st\<lparr>bk_conflicts := jm_set (fst p) (snd p) (bk_conflicts st)\<rparr>)
       (bk_refused ''Failed to fetch conflicts'') l st"
| "booking_reducer (AcknowledgeConflict l) st =
     on_cases id conflict_acknowledged (bk_refused ''Failed to acknowledge conflict'') l st"

subsection \<open>The booking grid is a list query\<close>

definition bookings_ops :: "(BookingState, BookingResponse page) list_ops" where
  "bookings_ops = \<lparr>op_pending = bookings_pending, op_fulfilled = bookings_fulfilled, op_rejected = bookings_rejected\<rparr>"

definition bookings_page :: "BookingState \<Rightarrow> BookingResponse page" where
  "bookings_page st = \<lparr>pg_rows = bk_bookings st, pg_total = bk_total st\<rparr>"

interpretation bl: list_query bookings_ops bk_listLoading bk_error bookings_page
  by unfold_locales
     (simp_all add: bookings_ops_def bookings_pending_def bookings_fulfilled_def bookings_rejected_def bookings_page_def)

subsection \<open>Deleting a series\<close>

text \<open>
  Deleting a series empties the grid of it and of its occurrences and of nothing else, and closes
  the booking on screen when it is the series itself; but an occurrence of the series that is on screen
  stays there, although the source means to remove "the deleted booking and all its children".
\<close>

theorem delete_series_leaves_open_occurrence:
  "let st' = booking_reducer (DeleteSeries (Fulfilled i)) st
   in bk_bookings st' = filter (\<lambda>b. bo_id b \<noteq> i \<and> bo_recurrence_parent_id b \<noteq> Some i) (bk_bookings st) \<and>
      map_option bo_id (bk_selectedBooking st') \<noteq> Some i \<and> bk_loading st' = False \<and>
      (if map_option bo_id (bk_selectedBooking st) = Some i then True
       else bk_selectedBooking st' = bk_selectedBooking st) \<and>
      bk_selectedBooking (booking_reducer (DeleteSeries (Fulfilled i))
        (st\<lparr>bk_selectedBooking := Some (b\<lparr>bo_id := i + 1, bo_recurrence_parent_id := Some i\<rparr>)\<rparr>)) =
        Some (b\<lparr>bo_id := i + 1, bo_recurrence_parent_id := Some i\<rparr>)"
  by (cases "bk_selectedBooking st") (auto simp: Let_def series_deleted_def deselect_def)

subsection \<open>Answering a conflict\<close>

text \<open>
  The answer to a conflict is filed with the pair it was given for. After an answer to the conflict
  of one booking with another, the conflicts of every other booking are what they were, the list of this
  one keeps its order and its verdicts, the first item about the other booking carries the answer, and
  a booking whose conflicts were never loaded gets no entry.
\<close>

theorem conflict_answer_filed:
  "let st' = booking_reducer (AcknowledgeConflict (Fulfilled (bid, oid, ack))) st;
       about = (\<lambda>c. sb_id (ci_other_booking c) = oid);
       items = jm_get (bk_conflicts st) bid; items' = jm_get (bk_conflicts st') bid
   in jm_get (bk_conflicts st') other = (if other = bid then items' else jm_get (bk_conflicts st) other) \<and>
      map_option (map ci_other_booking) items' = map_option (map ci_other_booking) items \<and>
      map_option (map ci_contention) items' = map_option (map ci_contention) items \<and>
      map_option (find about) items' = map_option (\<lambda>cs. map_option (\<lambda>c. c\<lparr>ci_ack := Some ack\<rparr>) (find about cs)) items \<and>
      map_option (filter (\<lambda>c. \<not> about c)) items' = map_option (filter (\<lambda>c. \<not> about c)) items"
proof -
  let ?about = "\<lambda>c :: ConflictItem. sb_id (ci_other_booking c) = oid"
  let ?m = "modify_first ?about (\<lambda>c. c\<lparr>ci_ack := Some ack\<rparr>)"
  have "map ci_other_booking (?m cs) = map ci_other_booking cs" "map ci_contention (?m cs) = map ci_contention cs"
    "find ?about (?m cs) = map_option (\<lambda>c. c\<lparr>ci_ack := Some ack\<rparr>) (find ?about cs)"
    "filter (\<lambda>c. \<not> ?about c) (?m cs) = filter (\<lambda>c. \<not> ?about c) cs" for cs
    by (induction cs) auto
  then show ?thesis
    by (cases "jm_get (bk_conflicts st) bid") (simp_all add: Let_def conflict_acknowledged_def)
qed

end
