(* ===== verification/ServiceApi.thy ===== *)
theory ServiceApi
  imports JsString "HOL-Library.Monad_Syntax"
begin

text \<open>
  What a service function of \<open>src/frontend/src/services\<close> is made of: the request that it hands to the axios
  instance of \<open>services/api.ts\<close> and what it makes of the response. A path is the list of its pieces between
  slashes, so \<open>`/environments/${id}/systems`\<close> is \<open>[Fixed ''environments'', Id id, Fixed ''systems'']\<close> and a
  trailing slash is an empty last piece. Query parameters keep their \<open>undefined\<close> values, which axios drops when
  it writes the query string; a \<open>File\<close> of a form is an opaque value.
\<close>

subsection \<open>Values\<close>

datatype json = J_undefined | J_null | J_bool bool | J_int int | J_str string | J_arr "json list"
  | J_obj "(string \<times> json) list"

type_synonym query = "(string \<times> json) list"

definition truthy :: "json \<Rightarrow> bool" where
  "truthy j = (case j of J_undefined \<Rightarrow> False | J_null \<Rightarrow> False | J_bool b \<Rightarrow> b | J_int i \<Rightarrow> i \<noteq> 0 | J_str s \<Rightarrow> s \<noteq> []
     | _ \<Rightarrow> True)"

text \<open>Reading a property: of \<open>null\<close> and \<open>undefined\<close> it raises, which is \<open>None\<close>.\<close>

definition get_prop :: "json \<Rightarrow> string \<Rightarrow> json option" where
  "get_prop j k = (case j of J_undefined \<Rightarrow> None | J_null \<Rightarrow> None
     | J_obj m \<Rightarrow> Some (nullish (map_of m k) J_undefined) | _ \<Rightarrow> Some J_undefined)"

text \<open>\<open>a ?? b\<close>.\<close>

definition or_else :: "json \<Rightarrow> json \<Rightarrow> json" where
  "or_else a b = (if a = J_undefined \<or> a = J_null then b else a)"

definition fields_of :: "json \<Rightarrow> (string \<times> json) list" where
  "fields_of j = (case j of J_obj m \<Rightarrow> m | _ \<Rightarrow> [])"

definition put_field :: "string \<times> json \<Rightarrow> (string \<times> json) list \<Rightarrow> (string \<times> json) list" where
  "put_field f m = (if fst f \<in> fst ` set m then map (\<lambda>g. if fst g = fst f then f else g) m else m @ [f])"

text \<open>\<open>{ ...j, k: v }\<close>.\<close>

definition spread :: "json \<Rightarrow> string \<times> json \<Rightarrow> json" where
  "spread j f = J_obj (put_field f (fields_of j))"

text \<open>\<open>Object.entries\<close> and \<open>Object.fromEntries\<close>; the key of a number is the number in decimal.\<close>

definition entries :: "json \<Rightarrow> (string \<times> json) list option" where
  "entries j = (case j of J_undefined \<Rightarrow> None | J_null \<Rightarrow> None | _ \<Rightarrow> Some (fields_of j))"

definition from_entries :: "(string \<times> json) list \<Rightarrow> (string \<times> json) list" where
  "from_entries kvs = fold put_field kvs []"

definition number_key :: "string \<Rightarrow> string" where
  "number_key k = (case js_Number k of Some i \<Rightarrow> show_int i | None \<Rightarrow> ''NaN'')"

definition array_map :: "(json \<Rightarrow> json option) \<Rightarrow> json \<Rightarrow> json option" where
  "array_map f j = (case j of J_arr xs \<Rightarrow> map_option J_arr (those (map f xs)) | _ \<Rightarrow> None)"

text \<open>An object literal that copies properties under new names.\<close>

definition renamed :: "(string \<times> string) list \<Rightarrow> json \<Rightarrow> json option" where
  "renamed names j =
     map_option J_obj (those (map (\<lambda>(new, old). map_option (Pair new) (get_prop j old)) names))"

text \<open>\<open>if (filters.k !== undefined) out.k = filters.k\<close> and \<open>if (filters.k) out.k = filters.k\<close>.\<close>

definition given :: "string \<Rightarrow> query \<Rightarrow> query" where
  "given k f = (let v = nullish (map_of f k) J_undefined in if v \<noteq> J_undefined then [(k, v)] else [])"

definition if_truthy :: "string \<Rightarrow> query \<Rightarrow> query" where
  "if_truthy k f = (let v = nullish (map_of f k) J_undefined in if truthy v then [(k, v)] else [])"

subsection \<open>Requests and responses\<close>

datatype verb = GET | POST | PUT | PATCH | DELETE

datatype piece = Fixed string | Id int | Text string

datatype payload = No_body | Json json | Form_data "(string \<times> json) list"

record request =
  rq_verb :: verb
  rq_path :: "piece list"
  rq_query :: query
  rq_body :: payload

definition api_get :: "piece list \<Rightarrow> query \<Rightarrow> request" where
  "api_get p q = \<lparr>rq_verb = GET, rq_path = p, rq_query = q, rq_body = No_body\<rparr>"

definition api_delete :: "piece list \<Rightarrow> query \<Rightarrow> request" where
  "api_delete p q = \<lparr>rq_verb = DELETE, rq_path = p, rq_query = q, rq_body = No_body\<rparr>"

definition api_post :: "piece list \<Rightarrow> payload \<Rightarrow> request" where
  "api_post p b = \<lparr>rq_verb = POST, rq_path = p, rq_query = [], rq_body = b\<rparr>"

definition api_put :: "piece list \<Rightarrow> payload \<Rightarrow> request" where
  "api_put p b = \<lparr>rq_verb = PUT, rq_path = p, rq_query = [], rq_body = b\<rparr>"

definition api_patch :: "piece list \<Rightarrow> payload \<Rightarrow> request" where
  "api_patch p b = \<lparr>rq_verb = PATCH, rq_path = p, rq_query = [], rq_body = b\<rparr>"

lemmas api_defs = api_get_def api_delete_def api_post_def api_put_def api_patch_def

text \<open>The path as it goes over the wire, under the instance's \<open>baseURL\<close>.\<close>

definition piece_text :: "piece \<Rightarrow> string" where
  "piece_text p = (case p of Fixed s \<Rightarrow> s | Id i \<Rightarrow> show_int i | Text s \<Rightarrow> s)"

definition baseURL :: string where
  "baseURL = ''/api/v1''"

definition url_of :: "request \<Rightarrow> string" where
  "url_of r = baseURL @ concat (map (\<lambda>p. CHR ''/'' # piece_text p) (rq_path r))"

record response =
  rs_data :: json
  rs_total_count :: "string option"

datatype result = Value json | Undefined_value | Page_of json "int option" | Download string json | Raised

definition js_length :: "json \<Rightarrow> int option" where
  "js_length j = (case j of J_arr xs \<Rightarrow> Some (int (length xs)) | J_str s \<Rightarrow> Some (int (length s)) | _ \<Rightarrow> None)"

definition r_data :: "response \<Rightarrow> result" where
  "r_data r = Value (rs_data r)"

definition r_nothing :: "response \<Rightarrow> result" where
  "r_nothing r = Undefined_value"

text \<open>\<open>{ rows: r.data, total: Number(r.headers['x-total-count'] ?? r.data.length) }\<close>; \<open>None\<close> is \<open>NaN\<close>.\<close>

definition r_paged :: "response \<Rightarrow> result" where
  "r_paged r = Page_of (rs_data r)
     (case rs_total_count r of Some t \<Rightarrow> js_Number t | None \<Rightarrow> js_length (rs_data r))"

definition r_object :: "(json \<Rightarrow> json option) \<Rightarrow> response \<Rightarrow> result" where
  "r_object f r = (case f (rs_data r) of Some j \<Rightarrow> Value j | None \<Rightarrow> Raised)"

definition r_array :: "(json \<Rightarrow> json option) \<Rightarrow> response \<Rightarrow> result" where
  "r_array f = r_object (array_map f)"

type_synonym call = "request \<times> (response \<Rightarrow> result)"

end
