(* ===== verification/ServiceCalls.thy ===== *)
theory ServiceCalls
  imports ServiceApi
begin

text \<open>
  The service functions of \<open>src/frontend/src/services\<close>, one definition per function, named after the
    service
  object and the member. An optional argument is an option, a default is applied to \<open>None\<close>, a body
    that is passed
  on is a value, and an object of query parameters is the list of its fields. \<open>authService.logout\<close> is
    in the model
  of the HTTP client.
\<close>

subsection \<open>Renamings and filters\<close>

definition toCamel :: "json \<Rightarrow> json option" where
  "toCamel = renamed
     [(''id'', ''id''),
      (''tenantId'', ''tenant_id''),
      (''enterpriseReleaseId'', ''enterprise_release_id''),
      (''projectReleaseId'', ''project_release_id''),
      (''projectReleaseName'', ''project_release_name''),
      (''projectReleaseStatus'', ''project_release_status''),
      (''enterpriseReleaseName'', ''enterprise_release_name''),
      (''state'', ''state''),
      (''requestedBy'', ''requested_by''),
      (''requestedByUsername'', ''requested_by_username''),
      (''requestedAt'', ''requested_at''),
      (''decidedBy'', ''decided_by''),
      (''decidedByUsername'', ''decided_by_username''),
      (''decidedAt'', ''decided_at''),
      (''removedBy'', ''removed_by''),
      (''removedByUsername'', ''removed_by_username''),
      (''removedAt'', ''removed_at''),
      (''removalReason'', ''removal_reason''),
      (''lateScope'', ''late_scope''),
      (''notes'', ''notes'')]"

definition r_membership :: "response \<Rightarrow> result" where
  "r_membership r =
     (let data = rs_data r in
      (case get_prop data ''current'' of
         None \<Rightarrow> Raised
       | Some c \<Rightarrow>
           (case (if truthy c then toCamel c else Some J_null,
                  array_map toCamel (or_else (nullish (get_prop data ''history'') J_undefined) (J_arr []))) of
              (Some c', Some h) \<Rightarrow> Value (J_obj [(''current'', c'), (''history'', h)])
            | _ \<Rightarrow> Raised)))"

definition toRollupSystem :: "json \<Rightarrow> json option" where
  "toRollupSystem = renamed
     [(''systemId'', ''system_id''),
      (''systemName'', ''system_name''),
      (''rolesByProject'', ''roles_by_project'')]"

definition toRollupScope :: "json \<Rightarrow> json option" where
  "toRollupScope = renamed
     [(''releaseChangeId'', ''release_change_id''),
      (''projectReleaseId'', ''project_release_id''),
      (''projectReleaseName'', ''project_release_name''),
      (''externalKey'', ''external_key''),
      (''title'', ''title''),
      (''changeKind'', ''change_kind''),
      (''externalStatus'', ''external_status''),
      (''systemId'', ''system_id''),
      (''systemName'', ''system_name'')]"

definition toMember :: "json \<Rightarrow> json option" where
  "toMember = renamed
     [(''projectReleaseId'', ''project_release_id''),
      (''projectReleaseName'', ''project_release_name''),
      (''status'', ''status''),
      (''admittedAt'', ''admitted_at''),
      (''lateScope'', ''late_scope'')]"

definition mapPhase :: "json \<Rightarrow> json option" where
  "mapPhase = renamed
     [(''releaseId'', ''release_id''),
      (''releaseName'', ''release_name''),
      (''releaseKind'', ''release_kind''),
      (''phaseId'', ''phase_id''),
      (''phaseName'', ''phase_name''),
      (''startDate'', ''start_date''),
      (''endDate'', ''end_date''),
      (''status'', ''status'')]"

definition toDependency :: "json \<Rightarrow> json option" where
  "toDependency = renamed
     [(''fromReleaseId'', ''from_release_id''),
      (''toReleaseId'', ''to_release_id''),
      (''fromReleaseName'', ''from_release_name''),
      (''toReleaseName'', ''to_release_name''),
      (''alert'', ''alert'')]"

definition toTimeline :: "json \<Rightarrow> json option" where
  "toTimeline payload =
     do { e \<leftarrow> get_prop payload ''enterprise_phases''; es \<leftarrow> array_map mapPhase e;
          c \<leftarrow> get_prop payload ''child_phases_by_release''; m \<leftarrow> entries c;
          cs \<leftarrow> those (map (\<lambda>(k, v). map_option (Pair (number_key k)) (array_map mapPhase v)) m);
          d \<leftarrow> get_prop payload ''dependencies''; ds \<leftarrow> array_map toDependency d;
          Some (J_obj [(''enterprisePhases'', es), (''childPhasesByRelease'', J_obj (from_entries cs)),
                       (''dependencies'', ds)]) }"

definition toReportHead :: "json \<Rightarrow> json option" where
  "toReportHead = renamed
     [(''enterpriseId'', ''enterprise_id''),
      (''name'', ''name''),
      (''status'', ''status''),
      (''targetDate'', ''target_date''),
      (''actualDate'', ''actual_date''),
      (''description'', ''description'')]"

definition toReportMember :: "json \<Rightarrow> json option" where
  "toReportMember = renamed
     [(''projectReleaseId'', ''project_release_id''),
      (''projectReleaseName'', ''project_release_name''),
      (''status'', ''status''),
      (''admittedAt'', ''admitted_at''),
      (''lateScope'', ''late_scope'')]"

definition toReportSystem :: "json \<Rightarrow> json option" where
  "toReportSystem = renamed
     [(''systemId'', ''system_id''),
      (''systemName'', ''system_name''),
      (''rolesByProject'', ''roles_by_project'')]"

definition toReportScope :: "json \<Rightarrow> json option" where
  "toReportScope = renamed
     [(''releaseChangeId'', ''release_change_id''),
      (''projectReleaseId'', ''project_release_id''),
      (''projectReleaseName'', ''project_release_name''),
      (''externalKey'', ''external_key''),
      (''title'', ''title''),
      (''changeKind'', ''change_kind''),
      (''externalStatus'', ''external_status''),
      (''systemId'', ''system_id''),
      (''systemName'', ''system_name'')]"

definition toReportEvent :: "json \<Rightarrow> json option" where
  "toReportEvent = renamed
     [(''releaseId'', ''release_id''),
      (''releaseName'', ''release_name''),
      (''occurredAt'', ''occurred_at''),
      (''eventType'', ''event_type''),
      (''description'', ''description'')]"

definition toReportDependency :: "json \<Rightarrow> json option" where
  "toReportDependency = renamed
     [(''fromReleaseId'', ''from_release_id''),
      (''toReleaseId'', ''to_release_id''),
      (''fromReleaseName'', ''from_release_name''),
      (''toReleaseName'', ''to_release_name''),
      (''alert'', ''alert'')]"

definition toReportTail :: "json \<Rightarrow> json option" where
  "toReportTail = renamed
     [(''generatedAt'', ''generated_at''),
      (''generatedBy'', ''generated_by'')]"

definition toReport :: "json \<Rightarrow> json option" where
  "toReport data =
     do { h \<leftarrow> toReportHead data;
          m \<leftarrow> get_prop data ''members''; ms \<leftarrow> array_map toReportMember m;
          s \<leftarrow> get_prop data ''systems''; ss \<leftarrow> array_map toReportSystem s;
          p \<leftarrow> get_prop data ''scope_by_project''; pm \<leftarrow> entries p;
          ps \<leftarrow> those (map (\<lambda>(k, v). map_option (Pair k) (array_map toReportScope v)) pm);
          e \<leftarrow> get_prop data ''events''; es \<leftarrow> array_map toReportEvent e;
          d \<leftarrow> get_prop data ''dependencies''; ds \<leftarrow> array_map toReportDependency d;
          t \<leftarrow> toReportTail data;
          Some (J_obj (fields_of h @ [(''members'', ms), (''systems'', ss), (''scopeByProject'', J_obj
            (from_entries ps)),
                       (''events'', es), (''dependencies'', ds)] @ fields_of t)) }"

definition build_toParams :: "query option \<Rightarrow> query" where
  "build_toParams filters =
     (case filters of
        None \<Rightarrow> []
      | Some f \<Rightarrow> given ''subsystem_id'' f @
          given ''release_id'' f @
          if_truthy ''branch'' f @
          if_truthy ''date_from'' f @
          if_truthy ''date_to'' f @
          given ''limit'' f @
          given ''offset'' f @
          if_truthy ''sort_by'' f @
          if_truthy ''sort_dir'' f @
          if_truthy ''subsystem_search'' f)"

definition deployment_toParams :: "query option \<Rightarrow> query" where
  "deployment_toParams filters =
     (case filters of
        None \<Rightarrow> []
      | Some f \<Rightarrow> given ''environment_id'' f @
          given ''release_id'' f @
          given ''build_id'' f @
          if_truthy ''status'' f @
          if_truthy ''date_from'' f @
          if_truthy ''date_to'' f @
          given ''limit'' f @
          given ''offset'' f @
          if_truthy ''sort_by'' f @
          if_truthy ''sort_dir'' f @
          if_truthy ''environment_search'' f @
          if_truthy ''release_search'' f)"

definition getSystemTopology :: "int \<Rightarrow> call" where
  "getSystemTopology systemId = (api_get [Fixed ''systems'', Id systemId, Fixed ''topology''] [], r_data)"

subsection \<open>\<open>adminService\<close>\<close>

definition adminService_listTenants :: "call" where
  "adminService_listTenants =
     (api_get [Fixed ''admin'', Fixed ''tenants''] [], r_data)"

definition adminService_createTenant :: "json \<Rightarrow> call" where
  "adminService_createTenant data =
     (api_post [Fixed ''admin'', Fixed ''tenants''] (Json data), r_data)"

definition adminService_getTenant :: "int \<Rightarrow> call" where
  "adminService_getTenant id' =
     (api_get [Fixed ''admin'', Fixed ''tenants'', Id id'] [], r_data)"

definition adminService_updateTenant :: "int \<Rightarrow> json \<Rightarrow> call" where
  "adminService_updateTenant id' data =
     (api_patch [Fixed ''admin'', Fixed ''tenants'', Id id'] (Json data), r_data)"

definition adminService_disableTenant :: "int \<Rightarrow> call" where
  "adminService_disableTenant id' =
     (api_post [Fixed ''admin'', Fixed ''tenants'', Id id', Fixed ''disable''] No_body, r_data)"

definition adminService_listTenantUsers :: "int \<Rightarrow> call" where
  "adminService_listTenantUsers tenantId =
     (api_get [Fixed ''admin'', Fixed ''tenants'', Id tenantId, Fixed ''users''] [], r_data)"

definition adminService_createTenantUser :: "int \<Rightarrow> json \<Rightarrow> call" where
  "adminService_createTenantUser tenantId data =
     (api_post [Fixed ''admin'', Fixed ''tenants'', Id tenantId, Fixed ''users''] (Json data), r_data)"

definition adminService_updateTenantUser :: "int \<Rightarrow> int \<Rightarrow> json \<Rightarrow> call" where
  "adminService_updateTenantUser tenantId userId data =
     (api_patch [Fixed ''admin'', Fixed ''tenants'', Id tenantId, Fixed ''users'', Id userId] (Json data), r_data)"

definition adminService_setTenantUserRole :: "int \<Rightarrow> int \<Rightarrow> string \<Rightarrow> call" where
  "adminService_setTenantUserRole tenantId userId role =
     (api_patch [Fixed ''admin'', Fixed ''tenants'', Id tenantId, Fixed ''users'', Id userId, Fixed ''role''] (Json
       (J_obj [(''role'', (J_str role))])), r_data)"

definition adminService_deactivateTenantUser :: "int \<Rightarrow> int \<Rightarrow> call" where
  "adminService_deactivateTenantUser tenantId userId =
     (api_post [Fixed ''admin'', Fixed ''tenants'', Id tenantId, Fixed ''users'', Id userId, Fixed ''deactivate'']
       No_body, r_data)"

definition adminService_reactivateTenantUser :: "int \<Rightarrow> int \<Rightarrow> call" where
  "adminService_reactivateTenantUser tenantId userId =
     (api_post [Fixed ''admin'', Fixed ''tenants'', Id tenantId, Fixed ''users'', Id userId, Fixed ''reactivate'']
       No_body, r_data)"

definition adminService_resetUserPassword :: "int \<Rightarrow> int \<Rightarrow> string \<Rightarrow> call" where
  "adminService_resetUserPassword tenantId userId newPassword =
     (api_post [Fixed ''admin'', Fixed ''tenants'', Id tenantId, Fixed ''users'', Id userId, Fixed
       ''reset-password''] (Json (J_obj [(''new_password'', (J_str newPassword))])), r_data)"

definition adminService_signInAsTenant :: "int \<Rightarrow> call" where
  "adminService_signInAsTenant tenantId =
     (api_post [Fixed ''admin'', Fixed ''tenants'', Id tenantId, Fixed ''sign-in-as''] No_body, r_data)"

subsection \<open>\<open>agreementGapService\<close>\<close>

definition agreementGapService_ackGap :: "int \<Rightarrow> string option \<Rightarrow> call" where
  "agreementGapService_ackGap bookingId notes =
     (api_put [Fixed ''bookings'', Id bookingId, Fixed ''agreement-gap'', Fixed ''ack''] (Json (J_obj [(''notes'',
       (case notes of Some x \<Rightarrow> (J_str x) | None \<Rightarrow> J_null))])), r_data)"

subsection \<open>\<open>apiKeyService\<close>\<close>

definition apiKeyService_list :: "call" where
  "apiKeyService_list =
     (api_get [Fixed ''api-keys''] [], r_data)"

definition apiKeyService_create :: "json \<Rightarrow> call" where
  "apiKeyService_create data =
     (api_post [Fixed ''api-keys''] (Json data), r_data)"

definition apiKeyService_revoke :: "int \<Rightarrow> call" where
  "apiKeyService_revoke id' =
     (api_delete [Fixed ''api-keys'', Id id'] [], r_nothing)"

subsection \<open>\<open>authService\<close>\<close>

definition authService_login :: "json \<Rightarrow> call" where
  "authService_login credentials =
     (api_post [Fixed ''auth'', Fixed ''login''] (Json credentials), r_data)"

definition authService_getCurrentUser :: "call" where
  "authService_getCurrentUser =
     (api_get [Fixed ''auth'', Fixed ''me''] [], r_data)"

subsection \<open>\<open>bookingLifecycleService\<close>\<close>

definition bookingLifecycleService_listTemplates :: "string option \<Rightarrow> call" where
  "bookingLifecycleService_listTemplates entityType =
     (api_get [Fixed ''tenant'', Fixed ''lifecycle-templates''] [(''entity_type'', (J_str (nullish entityType
       ''booking'')))], r_data)"

definition bookingLifecycleService_getTemplate :: "int \<Rightarrow> call" where
  "bookingLifecycleService_getTemplate id' =
     (api_get [Fixed ''tenant'', Fixed ''lifecycle-templates'', Id id'] [], r_data)"

definition bookingLifecycleService_createTemplate :: "json \<Rightarrow> string option \<Rightarrow> call" where
  "bookingLifecycleService_createTemplate data entityType =
     (api_post [Fixed ''tenant'', Fixed ''lifecycle-templates''] (Json (spread data (''entity_type'', (J_str
       (nullish entityType ''booking''))))), r_data)"

definition bookingLifecycleService_updateTemplate :: "int \<Rightarrow> json \<Rightarrow> call" where
  "bookingLifecycleService_updateTemplate id' data =
     (api_put [Fixed ''tenant'', Fixed ''lifecycle-templates'', Id id'] (Json data), r_data)"

definition bookingLifecycleService_copyTemplate :: "int \<Rightarrow> string \<Rightarrow> call" where
  "bookingLifecycleService_copyTemplate id' name =
     (api_post [Fixed ''tenant'', Fixed ''lifecycle-templates'', Id id', Fixed ''copy''] (Json (J_obj [(''name'',
       (J_str name))])), r_data)"

definition bookingLifecycleService_listBookingTypes :: "call" where
  "bookingLifecycleService_listBookingTypes =
     (api_get [Fixed ''tenant'', Fixed ''booking-types''] [], r_data)"

definition bookingLifecycleService_getBookingType :: "int \<Rightarrow> call" where
  "bookingLifecycleService_getBookingType id' =
     (api_get [Fixed ''tenant'', Fixed ''booking-types'', Id id'] [], r_data)"

definition bookingLifecycleService_createBookingType :: "json \<Rightarrow> call" where
  "bookingLifecycleService_createBookingType data =
     (api_post [Fixed ''tenant'', Fixed ''booking-types''] (Json data), r_data)"

definition bookingLifecycleService_updateBookingType :: "int \<Rightarrow> json \<Rightarrow> call" where
  "bookingLifecycleService_updateBookingType id' data =
     (api_put [Fixed ''tenant'', Fixed ''booking-types'', Id id'] (Json data), r_data)"

definition bookingLifecycleService_deleteTemplate :: "int \<Rightarrow> call" where
  "bookingLifecycleService_deleteTemplate id' =
     (api_delete [Fixed ''tenant'', Fixed ''lifecycle-templates'', Id id'] [], r_nothing)"

definition bookingLifecycleService_deleteBookingType :: "int \<Rightarrow> call" where
  "bookingLifecycleService_deleteBookingType id' =
     (api_delete [Fixed ''tenant'', Fixed ''booking-types'', Id id'] [], r_nothing)"

subsection \<open>\<open>bookingRequestService\<close>\<close>

definition bookingRequestService_list :: "call" where
  "bookingRequestService_list =
     (api_get [Fixed ''booking-requests''] [], r_data)"

definition bookingRequestService_get :: "int \<Rightarrow> call" where
  "bookingRequestService_get id' =
     (api_get [Fixed ''booking-requests'', Id id'] [], r_data)"

definition bookingRequestService_create :: "json \<Rightarrow> call" where
  "bookingRequestService_create payload =
     (api_post [Fixed ''booking-requests''] (Json payload), r_data)"

definition bookingRequestService_previewConflicts :: "json \<Rightarrow> call" where
  "bookingRequestService_previewConflicts args =
     (api_post [Fixed ''booking-requests'', Fixed ''preview-conflicts''] (Json args), r_data)"

definition bookingRequestService_updateStandardFields :: "int \<Rightarrow> json \<Rightarrow> call" where
  "bookingRequestService_updateStandardFields id' values =
     (api_patch [Fixed ''booking-requests'', Id id', Fixed ''standard-fields''] (Json values), r_data)"

definition bookingRequestService_updateCustomFields :: "int \<Rightarrow> json \<Rightarrow> call" where
  "bookingRequestService_updateCustomFields id' values =
     (api_patch [Fixed ''booking-requests'', Id id', Fixed ''custom-fields''] (Json (J_obj [(''values'',
       values)])), r_data)"

definition bookingRequestService_addEnvironment :: "int \<Rightarrow> json \<Rightarrow> call" where
  "bookingRequestService_addEnvironment id' args =
     (api_post [Fixed ''booking-requests'', Id id', Fixed ''environments''] (Json args), r_data)"

definition bookingRequestService_removeEnvironment :: "int \<Rightarrow> int \<Rightarrow> call" where
  "bookingRequestService_removeEnvironment id' bookingId =
     (api_delete [Fixed ''booking-requests'', Id id', Fixed ''environments'', Id bookingId] [], r_data)"

subsection \<open>\<open>bookingService\<close>\<close>

definition bookingService_listBookings :: "query option \<Rightarrow> call" where
  "bookingService_listBookings params =
     (api_get [Fixed ''bookings'', Fixed ''''] (nullish params []), r_paged)"

definition bookingService_createBooking :: "json \<Rightarrow> call" where
  "bookingService_createBooking data =
     (api_post [Fixed ''bookings'', Fixed ''''] (Json data), r_data)"

definition bookingService_getBooking :: "int \<Rightarrow> call" where
  "bookingService_getBooking id' =
     (api_get [Fixed ''bookings'', Id id'] [], r_data)"

definition bookingService_deleteOccurrence :: "int \<Rightarrow> call" where
  "bookingService_deleteOccurrence id' =
     (api_delete [Fixed ''bookings'', Id id', Fixed ''occurrence''] [], r_data)"

definition bookingService_deleteSeries :: "int \<Rightarrow> call" where
  "bookingService_deleteSeries id' =
     (api_delete [Fixed ''bookings'', Id id'] [], r_data)"

definition bookingService_transitionState :: "int \<Rightarrow> string \<Rightarrow> string option \<Rightarrow>
  call" where
  "bookingService_transitionState id' to_state notes =
     (api_post [Fixed ''bookings'', Id id', Fixed ''transition''] (Json (J_obj [(''to_state'', (J_str to_state)),
       (''notes'', (case notes of Some x \<Rightarrow> (J_str x) | None \<Rightarrow> J_undefined))])), r_data)"

definition bookingService_getHistory :: "int \<Rightarrow> call" where
  "bookingService_getHistory id' =
     (api_get [Fixed ''bookings'', Id id', Fixed ''history''] [], r_data)"

definition bookingService_getAllowedTransitions :: "int \<Rightarrow> call" where
  "bookingService_getAllowedTransitions id' =
     (api_get [Fixed ''bookings'', Id id', Fixed ''allowed-transitions''] [], r_data)"

definition bookingService_updateStandardFields :: "int \<Rightarrow> json \<Rightarrow> call" where
  "bookingService_updateStandardFields id' values =
     (api_patch [Fixed ''bookings'', Id id', Fixed ''standard-fields''] (Json values), r_data)"

definition bookingService_getConflicts :: "int \<Rightarrow> call" where
  "bookingService_getConflicts id' =
     (api_get [Fixed ''bookings'', Id id', Fixed ''conflicts''] [], r_data)"

definition bookingService_acknowledgeConflict :: "int \<Rightarrow> int \<Rightarrow> json \<Rightarrow> call" where
  "bookingService_acknowledgeConflict id' otherId payload =
     (api_put [Fixed ''bookings'', Id id', Fixed ''conflicts'', Id otherId, Fixed ''ack''] (Json payload), r_data)"

definition bookingService_getReceivedFeedback :: "int \<Rightarrow> call" where
  "bookingService_getReceivedFeedback id' =
     (api_get [Fixed ''bookings'', Id id', Fixed ''received-feedback''] [], r_data)"

subsection \<open>\<open>buildService\<close>\<close>

definition buildService_list :: "query option \<Rightarrow> call" where
  "buildService_list filters =
     (api_get [Fixed ''builds''] (build_toParams filters), r_paged)"

definition buildService_get :: "int \<Rightarrow> call" where
  "buildService_get id' =
     (api_get [Fixed ''builds'', Id id'] [], r_data)"

subsection \<open>\<open>changeRequestService\<close>\<close>

definition changeRequestService_list :: "query option \<Rightarrow> call" where
  "changeRequestService_list filters =
     (api_get [Fixed ''change-requests''] (nullish filters []), r_paged)"

definition changeRequestService_get :: "int \<Rightarrow> call" where
  "changeRequestService_get id' =
     (api_get [Fixed ''change-requests'', Id id'] [], r_data)"

definition changeRequestService_create :: "json \<Rightarrow> call" where
  "changeRequestService_create data =
     (api_post [Fixed ''change-requests''] (Json data), r_data)"

definition changeRequestService_update :: "int \<Rightarrow> json \<Rightarrow> call" where
  "changeRequestService_update id' data =
     (api_patch [Fixed ''change-requests'', Id id'] (Json data), r_data)"

definition changeRequestService_transition :: "int \<Rightarrow> json \<Rightarrow> call" where
  "changeRequestService_transition id' data =
     (api_post [Fixed ''change-requests'', Id id', Fixed ''transition''] (Json data), r_data)"

definition changeRequestService_getAllowedTransitions :: "int \<Rightarrow> call" where
  "changeRequestService_getAllowedTransitions id' =
     (api_get [Fixed ''change-requests'', Id id', Fixed ''allowed-transitions''] [], r_data)"

definition changeRequestService_remove :: "int \<Rightarrow> call" where
  "changeRequestService_remove id' =
     (api_delete [Fixed ''change-requests'', Id id'] [], r_nothing)"

definition changeRequestService_previewOutageConflicts :: "json \<Rightarrow> call" where
  "changeRequestService_previewOutageConflicts data =
     (api_post [Fixed ''change-requests'', Fixed ''preview-outage-conflicts''] (Json data), r_data)"

subsection \<open>\<open>closeoutService\<close>\<close>

definition closeoutService_get :: "int \<Rightarrow> call" where
  "closeoutService_get releaseId =
     (api_get [Fixed ''releases'', Id releaseId, Fixed ''closeout''] [], r_data)"

definition closeoutService_declareStable :: "int \<Rightarrow> string option \<Rightarrow> call" where
  "closeoutService_declareStable releaseId note =
     (api_post [Fixed ''releases'', Id releaseId, Fixed ''declare-stable''] (Json (J_obj [(''note'', (case note of
       Some x \<Rightarrow> (J_str x) | None \<Rightarrow> J_null))])), r_data)"

definition closeoutService_withdrawStable :: "int \<Rightarrow> call" where
  "closeoutService_withdrawStable releaseId =
     (api_delete [Fixed ''releases'', Id releaseId, Fixed ''declare-stable''] [], r_data)"

definition closeoutService_confirmHandover :: "int \<Rightarrow> string option \<Rightarrow> call" where
  "closeoutService_confirmHandover releaseId note =
     (api_post [Fixed ''releases'', Id releaseId, Fixed ''confirm-handover''] (Json (J_obj [(''note'', (case note
       of Some x \<Rightarrow> (J_str x) | None \<Rightarrow> J_null))])), r_data)"

definition closeoutService_withdrawHandover :: "int \<Rightarrow> call" where
  "closeoutService_withdrawHandover releaseId =
     (api_delete [Fixed ''releases'', Id releaseId, Fixed ''confirm-handover''] [], r_data)"

subsection \<open>\<open>componentTypeService\<close>\<close>

definition componentTypeService_listTypes :: "call" where
  "componentTypeService_listTypes =
     (api_get [Fixed ''component-types'', Fixed ''''] [], r_data)"

definition componentTypeService_getType :: "int \<Rightarrow> call" where
  "componentTypeService_getType id' =
     (api_get [Fixed ''component-types'', Id id'] [], r_data)"

definition componentTypeService_createType :: "json \<Rightarrow> call" where
  "componentTypeService_createType data =
     (api_post [Fixed ''component-types'', Fixed ''''] (Json data), r_data)"

definition componentTypeService_updateType :: "int \<Rightarrow> json \<Rightarrow> call" where
  "componentTypeService_updateType id' data =
     (api_patch [Fixed ''component-types'', Id id'] (Json data), r_data)"

definition componentTypeService_deleteType :: "int \<Rightarrow> call" where
  "componentTypeService_deleteType id' =
     (api_delete [Fixed ''component-types'', Id id'] [], r_data)"

subsection \<open>\<open>contentionForecastService\<close>\<close>

definition contentionForecastService_getHorizon :: "int \<Rightarrow> call" where
  "contentionForecastService_getHorizon weeks =
     (api_get [Fixed ''bookings'', Fixed ''contention-horizon''] [(''weeks'', (J_int weeks))], r_data)"

subsection \<open>\<open>contentionService\<close>\<close>

definition contentionService_escalate :: "int \<Rightarrow> int \<Rightarrow> json \<Rightarrow> call" where
  "contentionService_escalate bookingId otherId body =
     (api_post [Fixed ''bookings'', Id bookingId, Fixed ''contentions'', Id otherId, Fixed ''escalate''] (Json
       body), r_data)"

definition contentionService_decide :: "int \<Rightarrow> json \<Rightarrow> call" where
  "contentionService_decide escalationId body =
     (api_put [Fixed ''contention-escalations'', Id escalationId, Fixed ''decision''] (Json body), r_data)"

definition contentionService_list :: "query option \<Rightarrow> call" where
  "contentionService_list params =
     (api_get [Fixed ''contention-escalations''] (nullish params []), r_paged)"

subsection \<open>\<open>customFieldService\<close>\<close>

definition customFieldService_listDefinitions :: "string \<Rightarrow> call" where
  "customFieldService_listDefinitions entityType =
     (api_get [Fixed ''tenant'', Fixed ''fields''] [(''entity_type'', (J_str entityType))], r_data)"

definition customFieldService_createDefinition :: "json \<Rightarrow> call" where
  "customFieldService_createDefinition data =
     (api_post [Fixed ''tenant'', Fixed ''fields''] (Json data), r_data)"

definition customFieldService_updateDefinition :: "int \<Rightarrow> json \<Rightarrow> call" where
  "customFieldService_updateDefinition id' data =
     (api_patch [Fixed ''tenant'', Fixed ''fields'', Id id'] (Json data), r_data)"

definition customFieldService_deleteDefinition :: "int \<Rightarrow> call" where
  "customFieldService_deleteDefinition id' =
     (api_delete [Fixed ''tenant'', Fixed ''fields'', Id id'] [], r_data)"

subsection \<open>\<open>decommissionService\<close>\<close>

definition decommissionService_getForEnvironment :: "int \<Rightarrow> call" where
  "decommissionService_getForEnvironment environmentId =
     (api_get [Fixed ''environments'', Id environmentId, Fixed ''decommission''] [], r_data)"

definition decommissionService_initiate :: "int \<Rightarrow> json \<Rightarrow> call" where
  "decommissionService_initiate environmentId data =
     (api_post [Fixed ''environments'', Id environmentId, Fixed ''decommission''] (Json data), r_data)"

definition decommissionService_requestExtension :: "int \<Rightarrow> json \<Rightarrow> call" where
  "decommissionService_requestExtension decommissionId data =
     (api_post [Fixed ''decommissions'', Id decommissionId, Fixed ''extension''] (Json data), r_data)"

definition decommissionService_decideExtension :: "int \<Rightarrow> json \<Rightarrow> call" where
  "decommissionService_decideExtension decommissionId data =
     (api_post [Fixed ''decommissions'', Id decommissionId, Fixed ''extension'', Fixed ''decision''] (Json data),
       r_data)"

definition decommissionService_signAttestation :: "int \<Rightarrow> json \<Rightarrow> call" where
  "decommissionService_signAttestation decommissionId data =
     (api_post [Fixed ''decommissions'', Id decommissionId, Fixed ''attestations''] (Json data), r_data)"

definition decommissionService_tearDown :: "int \<Rightarrow> call" where
  "decommissionService_tearDown decommissionId =
     (api_post [Fixed ''decommissions'', Id decommissionId, Fixed ''teardown''] No_body, r_data)"

definition decommissionService_cancel :: "int \<Rightarrow> json \<Rightarrow> call" where
  "decommissionService_cancel decommissionId data =
     (api_post [Fixed ''decommissions'', Id decommissionId, Fixed ''cancel''] (Json data), r_data)"

definition decommissionService_listSteps :: "bool option \<Rightarrow> call" where
  "decommissionService_listSteps activeOnly =
     (api_get [Fixed ''tenant'', Fixed ''decommission-steps''] [(''active_only'', (J_bool (nullish activeOnly
       True)))], r_data)"

definition decommissionService_createStep :: "json \<Rightarrow> call" where
  "decommissionService_createStep data =
     (api_post [Fixed ''tenant'', Fixed ''decommission-steps''] (Json data), r_data)"

definition decommissionService_updateStep :: "int \<Rightarrow> json \<Rightarrow> call" where
  "decommissionService_updateStep id' data =
     (api_patch [Fixed ''tenant'', Fixed ''decommission-steps'', Id id'] (Json data), r_data)"

definition decommissionService_deleteStep :: "int \<Rightarrow> call" where
  "decommissionService_deleteStep id' =
     (api_delete [Fixed ''tenant'', Fixed ''decommission-steps'', Id id'] [], r_nothing)"

definition decommissionService_listWorklist :: "query option \<Rightarrow> call" where
  "decommissionService_listWorklist params =
     (api_get [Fixed ''decommissions''] (nullish params []), r_paged)"

subsection \<open>\<open>dependencyService\<close>\<close>

definition dependencyService_listSystemDependencies :: "int \<Rightarrow> call" where
  "dependencyService_listSystemDependencies systemId =
     (api_get [Fixed ''systems'', Id systemId, Fixed ''dependencies''] [], r_data)"

definition dependencyService_createSystemDependency :: "int \<Rightarrow> json \<Rightarrow> call" where
  "dependencyService_createSystemDependency systemId data =
     (api_post [Fixed ''systems'', Id systemId, Fixed ''dependencies''] (Json data), r_data)"

definition dependencyService_deleteSystemDependency :: "int \<Rightarrow> int \<Rightarrow> call" where
  "dependencyService_deleteSystemDependency systemId depId =
     (api_delete [Fixed ''systems'', Id systemId, Fixed ''dependencies'', Id depId] [], r_data)"

definition dependencyService_updateSystemDependency :: "int \<Rightarrow> int \<Rightarrow> json \<Rightarrow>
  call" where
  "dependencyService_updateSystemDependency systemId depId data =
     (api_patch [Fixed ''systems'', Id systemId, Fixed ''dependencies'', Id depId] (Json data), r_data)"

definition dependencyService_listComponentDependencies :: "int \<Rightarrow> call" where
  "dependencyService_listComponentDependencies subsystemId =
     (api_get [Fixed ''subsystems'', Id subsystemId, Fixed ''dependencies''] [], r_data)"

definition dependencyService_createComponentDependency :: "int \<Rightarrow> json \<Rightarrow> call" where
  "dependencyService_createComponentDependency subsystemId data =
     (api_post [Fixed ''subsystems'', Id subsystemId, Fixed ''dependencies''] (Json data), r_data)"

definition dependencyService_deleteComponentDependency :: "int \<Rightarrow> int \<Rightarrow> call" where
  "dependencyService_deleteComponentDependency subsystemId depId =
     (api_delete [Fixed ''subsystems'', Id subsystemId, Fixed ''dependencies'', Id depId] [], r_data)"

definition dependencyService_updateComponentDependency :: "int \<Rightarrow> int \<Rightarrow> json \<Rightarrow>
  call" where
  "dependencyService_updateComponentDependency subsystemId depId data =
     (api_patch [Fixed ''subsystems'', Id subsystemId, Fixed ''dependencies'', Id depId] (Json data), r_data)"

definition dependencyService_createComponentEndpoint :: "int \<Rightarrow> int \<Rightarrow> json \<Rightarrow>
  call" where
  "dependencyService_createComponentEndpoint subsystemId depId data =
     (api_post [Fixed ''subsystems'', Id subsystemId, Fixed ''dependencies'', Id depId, Fixed ''endpoints''] (Json
       data), r_data)"

definition dependencyService_updateComponentEndpoint :: "int \<Rightarrow> int \<Rightarrow> int \<Rightarrow> json
  \<Rightarrow> call" where
  "dependencyService_updateComponentEndpoint subsystemId depId endpointId data =
     (api_patch [Fixed ''subsystems'', Id subsystemId, Fixed ''dependencies'', Id depId, Fixed ''endpoints'', Id
       endpointId] (Json data), r_data)"

definition dependencyService_deleteComponentEndpoint :: "int \<Rightarrow> int \<Rightarrow> int \<Rightarrow>
  call" where
  "dependencyService_deleteComponentEndpoint subsystemId depId endpointId =
     (api_delete [Fixed ''subsystems'', Id subsystemId, Fixed ''dependencies'', Id depId, Fixed ''endpoints'', Id
       endpointId] [], r_data)"

definition dependencyService_verifyEnvironment :: "int \<Rightarrow> call" where
  "dependencyService_verifyEnvironment envId =
     (api_get [Fixed ''environments'', Id envId, Fixed ''verify''] [], r_data)"

subsection \<open>\<open>deploymentService\<close>\<close>

definition deploymentService_list :: "query option \<Rightarrow> call" where
  "deploymentService_list filters =
     (api_get [Fixed ''deployments''] (deployment_toParams filters), r_paged)"

definition deploymentService_get :: "int \<Rightarrow> call" where
  "deploymentService_get id' =
     (api_get [Fixed ''deployments'', Id id'] [], r_data)"

definition deploymentService_linkChange :: "int \<Rightarrow> json \<Rightarrow> call" where
  "deploymentService_linkChange id' data =
     (api_post [Fixed ''deployments'', Id id', Fixed ''link-change''] (Json data), r_data)"

definition deploymentService_forEnvironment :: "int \<Rightarrow> call" where
  "deploymentService_forEnvironment envId =
     (api_get [Fixed ''environments'', Id envId, Fixed ''deployments''] [], r_data)"

subsection \<open>\<open>doraService\<close>\<close>

definition doraService_getSummary :: "query \<Rightarrow> call" where
  "doraService_getSummary params =
     (api_get [Fixed ''metrics'', Fixed ''dora''] params, r_data)"

subsection \<open>\<open>enterpriseMembershipService\<close>\<close>

definition enterpriseMembershipService_request :: "int \<Rightarrow> json \<Rightarrow> call" where
  "enterpriseMembershipService_request enterpriseId payload =
     (api_post [Fixed ''releases'', Id enterpriseId, Fixed ''memberships''] (Json payload), (r_object toCamel))"

definition enterpriseMembershipService_list :: "int \<Rightarrow> string list option \<Rightarrow> call" where
  "enterpriseMembershipService_list enterpriseId states =
     (api_get [Fixed ''releases'', Id enterpriseId, Fixed ''memberships'']
        (case states of Some s \<Rightarrow> [(''states'', J_str (js_join '','' s))] | None \<Rightarrow> []),
          r_array toCamel)"

definition enterpriseMembershipService_accept :: "int \<Rightarrow> int \<Rightarrow> call" where
  "enterpriseMembershipService_accept enterpriseId membershipId =
     (api_post [Fixed ''releases'', Id enterpriseId, Fixed ''memberships'', Id membershipId, Fixed ''accept'']
       No_body, (r_object toCamel))"

definition enterpriseMembershipService_reject :: "int \<Rightarrow> int \<Rightarrow> json \<Rightarrow> call" where
  "enterpriseMembershipService_reject enterpriseId membershipId p =
     (api_post [Fixed ''releases'', Id enterpriseId, Fixed ''memberships'', Id membershipId, Fixed ''reject'']
       (Json p), (r_object toCamel))"

definition enterpriseMembershipService_withdraw :: "int \<Rightarrow> int \<Rightarrow> call" where
  "enterpriseMembershipService_withdraw enterpriseId membershipId =
     (api_post [Fixed ''releases'', Id enterpriseId, Fixed ''memberships'', Id membershipId, Fixed ''withdraw'']
       No_body, (r_object toCamel))"

definition enterpriseMembershipService_remove :: "int \<Rightarrow> int \<Rightarrow> json \<Rightarrow> call" where
  "enterpriseMembershipService_remove enterpriseId membershipId p =
     (api_post [Fixed ''releases'', Id enterpriseId, Fixed ''memberships'', Id membershipId, Fixed ''remove'']
       (Json p), (r_object toCamel))"

definition enterpriseMembershipService_getProjectMembership :: "int \<Rightarrow> call" where
  "enterpriseMembershipService_getProjectMembership projectReleaseId =
     (api_get [Fixed ''releases'', Id projectReleaseId, Fixed ''membership''] [], r_membership)"

subsection \<open>\<open>enterpriseReportService\<close>\<close>

definition enterpriseReportService_generate :: "int \<Rightarrow> call" where
  "enterpriseReportService_generate enterpriseId =
     (api_get [Fixed ''releases'', Id enterpriseId, Fixed ''report''] [], r_object toReport)"

subsection \<open>\<open>enterpriseRollupService\<close>\<close>

definition enterpriseRollupService_systems :: "int \<Rightarrow> call" where
  "enterpriseRollupService_systems enterpriseId =
     (api_get [Fixed ''releases'', Id enterpriseId, Fixed ''rollup'', Fixed ''systems''] [], (r_array
       toRollupSystem))"

definition enterpriseRollupService_scope :: "int \<Rightarrow> query option \<Rightarrow> call" where
  "enterpriseRollupService_scope enterpriseId filters =
     (api_get [Fixed ''releases'', Id enterpriseId, Fixed ''rollup'', Fixed ''scope'']
        (filter (\<lambda>(k, v). v \<noteq> J_undefined \<and> v \<noteq> J_str []) (nullish filters [])), r_array
          toRollupScope)"

definition enterpriseRollupService_timeline :: "int \<Rightarrow> call" where
  "enterpriseRollupService_timeline enterpriseId =
     (api_get [Fixed ''releases'', Id enterpriseId, Fixed ''rollup'', Fixed ''timeline''] [], r_object toTimeline)"

definition enterpriseRollupService_members :: "int \<Rightarrow> call" where
  "enterpriseRollupService_members enterpriseId =
     (api_get [Fixed ''releases'', Id enterpriseId, Fixed ''rollup'', Fixed ''members''] [], (r_array toMember))"

subsection \<open>\<open>environmentComparisonService\<close>\<close>

definition environmentComparisonService_compare :: "int \<Rightarrow> int \<Rightarrow> call" where
  "environmentComparisonService_compare left right =
     (api_get [Fixed ''environments'', Fixed ''compare''] [(''left'', (J_int left)), (''right'', (J_int right))],
       r_data)"

subsection \<open>\<open>environmentGroupService\<close>\<close>

definition environmentGroupService_listGroups :: "query option \<Rightarrow> call" where
  "environmentGroupService_listGroups params =
     (api_get [Fixed ''environment-groups''] (nullish params []), r_paged)"

definition environmentGroupService_getGroup :: "int \<Rightarrow> call" where
  "environmentGroupService_getGroup id' =
     (api_get [Fixed ''environment-groups'', Id id'] [], r_data)"

definition environmentGroupService_createGroup :: "json \<Rightarrow> call" where
  "environmentGroupService_createGroup data =
     (api_post [Fixed ''environment-groups''] (Json data), r_data)"

definition environmentGroupService_updateGroup :: "int \<Rightarrow> json \<Rightarrow> call" where
  "environmentGroupService_updateGroup id' data =
     (api_patch [Fixed ''environment-groups'', Id id'] (Json data), r_data)"

definition environmentGroupService_deleteGroup :: "int \<Rightarrow> call" where
  "environmentGroupService_deleteGroup id' =
     (api_delete [Fixed ''environment-groups'', Id id'] [], r_data)"

definition environmentGroupService_listMembers :: "int \<Rightarrow> query option \<Rightarrow> call" where
  "environmentGroupService_listMembers groupId params =
     (api_get [Fixed ''environment-groups'', Id groupId, Fixed ''members''] (nullish params []), r_paged)"

definition environmentGroupService_listGroupsForEnvironment :: "int \<Rightarrow> query option \<Rightarrow> call"
  where
  "environmentGroupService_listGroupsForEnvironment environmentId params =
     (api_get [Fixed ''environments'', Id environmentId, Fixed ''groups''] (nullish params []), r_paged)"

definition environmentGroupService_addMember :: "int \<Rightarrow> json \<Rightarrow> call" where
  "environmentGroupService_addMember groupId data =
     (api_post [Fixed ''environment-groups'', Id groupId, Fixed ''members''] (Json data), r_data)"

definition environmentGroupService_removeMember :: "int \<Rightarrow> int \<Rightarrow> call" where
  "environmentGroupService_removeMember groupId memberId =
     (api_delete [Fixed ''environment-groups'', Id groupId, Fixed ''members'', Id memberId] [], r_data)"

definition environmentGroupService_transitionGroup :: "int \<Rightarrow> int \<Rightarrow> json \<Rightarrow> call"
  where
  "environmentGroupService_transitionGroup requestId groupId data =
     (api_post [Fixed ''booking-requests'', Id requestId, Fixed ''groups'', Id groupId, Fixed ''transition''] (Json
       data), r_data)"

definition environmentGroupService_groupAllowedTransitions :: "int \<Rightarrow> int \<Rightarrow> call" where
  "environmentGroupService_groupAllowedTransitions requestId groupId =
     (api_get [Fixed ''booking-requests'', Id requestId, Fixed ''groups'', Id groupId, Fixed
       ''allowed-transitions''] [], r_data)"

subsection \<open>\<open>environmentHealthService\<close>\<close>

definition environmentHealthService_overview :: "query option \<Rightarrow> call" where
  "environmentHealthService_overview params =
     (api_get [Fixed ''environments'', Fixed ''health''] (nullish params []), r_paged)"

definition environmentHealthService_history :: "int \<Rightarrow> int option \<Rightarrow> call" where
  "environmentHealthService_history envId limit =
     (api_get [Fixed ''environments'', Id envId, Fixed ''health'', Fixed ''history''] [(''limit'', (J_int (nullish
       limit 50)))], r_paged)"

subsection \<open>\<open>environmentLifecyclePolicyService\<close>\<close>

definition environmentLifecyclePolicyService_get :: "call" where
  "environmentLifecyclePolicyService_get =
     (api_get [Fixed ''tenant'', Fixed ''environment-lifecycle-policy''] [], r_data)"

definition environmentLifecyclePolicyService_save :: "json \<Rightarrow> call" where
  "environmentLifecyclePolicyService_save data =
     (api_put [Fixed ''tenant'', Fixed ''environment-lifecycle-policy''] (Json data), r_data)"

subsection \<open>\<open>environmentNamingPolicyService\<close>\<close>

definition environmentNamingPolicyService_get :: "call" where
  "environmentNamingPolicyService_get =
     (api_get [Fixed ''tenant'', Fixed ''environment-naming-policy''] [], r_data)"

definition environmentNamingPolicyService_save :: "json \<Rightarrow> call" where
  "environmentNamingPolicyService_save data =
     (api_put [Fixed ''tenant'', Fixed ''environment-naming-policy''] (Json data), r_data)"

definition environmentNamingPolicyService_preview :: "json \<Rightarrow> call" where
  "environmentNamingPolicyService_preview data =
     (api_post [Fixed ''tenant'', Fixed ''environment-naming-policy'', Fixed ''preview''] (Json data), r_data)"

subsection \<open>\<open>environmentOperatingHoursService\<close>\<close>

definition environmentOperatingHoursService_getConfig :: "int \<Rightarrow> call" where
  "environmentOperatingHoursService_getConfig envId =
     (api_get [Fixed ''environments'', Id envId, Fixed ''operating-hours''] [], r_data)"

definition environmentOperatingHoursService_putConfig :: "int \<Rightarrow> json \<Rightarrow> call" where
  "environmentOperatingHoursService_putConfig envId cfg =
     (api_put [Fixed ''environments'', Id envId, Fixed ''operating-hours''] (Json cfg), r_data)"

definition environmentOperatingHoursService_utilization :: "int \<Rightarrow> query \<Rightarrow> call" where
  "environmentOperatingHoursService_utilization envId params =
     (api_get [Fixed ''environments'', Id envId, Fixed ''utilization''] params, r_data)"

definition environmentOperatingHoursService_overview :: "query \<Rightarrow> call" where
  "environmentOperatingHoursService_overview params =
     (api_get [Fixed ''metrics'', Fixed ''environments'', Fixed ''utilization''] params, r_data)"

subsection \<open>\<open>environmentRequestService\<close>\<close>

definition environmentRequestService_listRequests :: "query option \<Rightarrow> call" where
  "environmentRequestService_listRequests params =
     (api_get [Fixed ''environment-requests''] (nullish params []), r_paged)"

definition environmentRequestService_getRequest :: "int \<Rightarrow> call" where
  "environmentRequestService_getRequest id' =
     (api_get [Fixed ''environment-requests'', Id id'] [], r_data)"

definition environmentRequestService_createRequest :: "json \<Rightarrow> call" where
  "environmentRequestService_createRequest data =
     (api_post [Fixed ''environment-requests''] (Json data), r_data)"

definition environmentRequestService_updateRequest :: "int \<Rightarrow> json \<Rightarrow> call" where
  "environmentRequestService_updateRequest id' data =
     (api_patch [Fixed ''environment-requests'', Id id'] (Json data), r_data)"

definition environmentRequestService_transition :: "int \<Rightarrow> string \<Rightarrow> call" where
  "environmentRequestService_transition id' toState =
     (api_post [Fixed ''environment-requests'', Id id', Fixed ''transition''] (Json (J_obj [(''to_state'', (J_str
       toState))])), r_data)"

definition environmentRequestService_allowedTransitions :: "int \<Rightarrow> call" where
  "environmentRequestService_allowedTransitions id' =
     (api_get [Fixed ''environment-requests'', Id id', Fixed ''allowed-transitions''] [], r_data)"

definition environmentRequestService_getWelcomePack :: "int \<Rightarrow> call" where
  "environmentRequestService_getWelcomePack id' =
     (api_get [Fixed ''environment-requests'', Id id', Fixed ''welcome-pack''] [], r_data)"

definition environmentRequestService_updateHandover :: "int \<Rightarrow> json \<Rightarrow> call" where
  "environmentRequestService_updateHandover environmentId data =
     (api_patch [Fixed ''environments'', Id environmentId, Fixed ''handover''] (Json data), r_data)"

subsection \<open>\<open>environmentService\<close>\<close>

definition environmentService_listEnvironments :: "query option \<Rightarrow> call" where
  "environmentService_listEnvironments params =
     (api_get [Fixed ''environments'', Fixed ''''] (nullish params []), r_paged)"

definition environmentService_getEnvironment :: "int \<Rightarrow> call" where
  "environmentService_getEnvironment id' =
     (api_get [Fixed ''environments'', Id id'] [], r_data)"

definition environmentService_createEnvironment :: "json \<Rightarrow> call" where
  "environmentService_createEnvironment data =
     (api_post [Fixed ''environments'', Fixed ''''] (Json data), r_data)"

definition environmentService_updateEnvironment :: "int \<Rightarrow> json \<Rightarrow> call" where
  "environmentService_updateEnvironment id' data =
     (api_patch [Fixed ''environments'', Id id'] (Json data), r_data)"

definition environmentService_deleteEnvironment :: "int \<Rightarrow> call" where
  "environmentService_deleteEnvironment id' =
     (api_delete [Fixed ''environments'', Id id'] [], r_data)"

definition environmentService_listSystemsInEnvironment :: "int \<Rightarrow> call" where
  "environmentService_listSystemsInEnvironment envId =
     (api_get [Fixed ''environments'', Id envId, Fixed ''systems''] [], r_data)"

definition environmentService_addSystemToEnvironment :: "int \<Rightarrow> json \<Rightarrow> call" where
  "environmentService_addSystemToEnvironment envId data =
     (api_post [Fixed ''environments'', Id envId, Fixed ''systems''] (Json data), r_data)"

definition environmentService_updateSystemInEnvironment :: "int \<Rightarrow> int \<Rightarrow> json \<Rightarrow>
  call" where
  "environmentService_updateSystemInEnvironment envId systemId data =
     (api_patch [Fixed ''environments'', Id envId, Fixed ''systems'', Id systemId] (Json data), r_data)"

definition environmentService_removeSystemFromEnvironment :: "int \<Rightarrow> int \<Rightarrow> call" where
  "environmentService_removeSystemFromEnvironment envId systemId =
     (api_delete [Fixed ''environments'', Id envId, Fixed ''systems'', Id systemId] [], r_data)"

definition environmentService_listEnvironmentSubsystems :: "int \<Rightarrow> call" where
  "environmentService_listEnvironmentSubsystems envId =
     (api_get [Fixed ''environments'', Id envId, Fixed ''subsystems''] [], r_data)"

definition environmentService_updateEnvironmentSubsystem :: "int \<Rightarrow> int \<Rightarrow> json \<Rightarrow>
  call" where
  "environmentService_updateEnvironmentSubsystem envId subsystemId data =
     (api_patch [Fixed ''environments'', Id envId, Fixed ''subsystems'', Id subsystemId] (Json data), r_data)"

definition environmentService_getEnvironmentTopology :: "int \<Rightarrow> call" where
  "environmentService_getEnvironmentTopology envId =
     (api_get [Fixed ''environments'', Id envId, Fixed ''topology''] [], r_data)"

subsection \<open>\<open>environmentTierService\<close>\<close>

definition environmentTierService_listTiers :: "query option \<Rightarrow> call" where
  "environmentTierService_listTiers params =
     (api_get [Fixed ''environment-tiers'', Fixed ''''] (nullish params []), r_paged)"

definition environmentTierService_createTier :: "json \<Rightarrow> call" where
  "environmentTierService_createTier data =
     (api_post [Fixed ''environment-tiers'', Fixed ''''] (Json data), r_data)"

definition environmentTierService_updateTier :: "int \<Rightarrow> json \<Rightarrow> call" where
  "environmentTierService_updateTier id' data =
     (api_patch [Fixed ''environment-tiers'', Id id'] (Json data), r_data)"

definition environmentTierService_deleteTier :: "int \<Rightarrow> call" where
  "environmentTierService_deleteTier id' =
     (api_delete [Fixed ''environment-tiers'', Id id'] [], r_data)"

subsection \<open>\<open>gateTypeService\<close>\<close>

definition gateTypeService_listGateTypes :: "query option \<Rightarrow> call" where
  "gateTypeService_listGateTypes params =
     (api_get [Fixed ''gate-types''] (nullish params []), r_paged)"

definition gateTypeService_createGateType :: "json \<Rightarrow> call" where
  "gateTypeService_createGateType data =
     (api_post [Fixed ''gate-types''] (Json data), r_data)"

definition gateTypeService_updateGateType :: "int \<Rightarrow> json \<Rightarrow> call" where
  "gateTypeService_updateGateType id' data =
     (api_put [Fixed ''gate-types'', Id id'] (Json data), r_data)"

definition gateTypeService_deleteGateType :: "int \<Rightarrow> call" where
  "gateTypeService_deleteGateType id' =
     (api_delete [Fixed ''gate-types'', Id id'] [], r_data)"

subsection \<open>\<open>githubIntegrationService\<close>\<close>

definition githubIntegrationService_status :: "call" where
  "githubIntegrationService_status =
     (api_get [Fixed ''integrations'', Fixed ''github''] [], r_data)"

definition githubIntegrationService_connect :: "call" where
  "githubIntegrationService_connect =
     (api_post [Fixed ''integrations'', Fixed ''github'', Fixed ''connect''] No_body, r_data)"

definition githubIntegrationService_poll :: "string \<Rightarrow> call" where
  "githubIntegrationService_poll handle =
     (api_post [Fixed ''integrations'', Fixed ''github'', Fixed ''connect'', Text handle, Fixed ''poll''] No_body,
       r_data)"

definition githubIntegrationService_disconnect :: "call" where
  "githubIntegrationService_disconnect =
     (api_delete [Fixed ''integrations'', Fixed ''github''] [], r_nothing)"

definition githubIntegrationService_scan :: "int \<Rightarrow> call" where
  "githubIntegrationService_scan systemId =
     (api_post [Fixed ''systems'', Id systemId, Fixed ''github'', Fixed ''scan''] No_body, r_data)"

definition githubIntegrationService_drift :: "int \<Rightarrow> call" where
  "githubIntegrationService_drift systemId =
     (api_get [Fixed ''systems'', Id systemId, Fixed ''github'', Fixed ''drift''] [], r_data)"

subsection \<open>\<open>goNoGoService\<close>\<close>

definition goNoGoService_list :: "int \<Rightarrow> query option \<Rightarrow> call" where
  "goNoGoService_list releaseId params =
     (api_get [Fixed ''releases'', Id releaseId, Fixed ''go-no-go''] (nullish params []), r_paged)"

definition goNoGoService_record :: "int \<Rightarrow> json \<Rightarrow> call" where
  "goNoGoService_record releaseId data =
     (api_post [Fixed ''releases'', Id releaseId, Fixed ''go-no-go''] (Json data), r_data)"

definition goNoGoService_closeCondition :: "int \<Rightarrow> bool \<Rightarrow> call" where
  "goNoGoService_closeCondition conditionId met =
     (api_patch [Fixed ''go-no-go-conditions'', Id conditionId] (Json (J_obj [(''met'', (J_bool met))])), r_data)"

definition goNoGoService_listPerspectives :: "bool option \<Rightarrow> call" where
  "goNoGoService_listPerspectives includeInactive =
     (api_get [Fixed ''tenant'', Fixed ''go-no-go-perspectives''] [(''include_inactive'', (J_bool (nullish
       includeInactive True)))], r_data)"

definition goNoGoService_createPerspective :: "json \<Rightarrow> call" where
  "goNoGoService_createPerspective data =
     (api_post [Fixed ''tenant'', Fixed ''go-no-go-perspectives''] (Json data), r_data)"

definition goNoGoService_updatePerspective :: "int \<Rightarrow> json \<Rightarrow> call" where
  "goNoGoService_updatePerspective id' data =
     (api_patch [Fixed ''tenant'', Fixed ''go-no-go-perspectives'', Id id'] (Json data), r_data)"

subsection \<open>\<open>incidentService\<close>\<close>

definition incidentService_list :: "query option \<Rightarrow> call" where
  "incidentService_list params =
     (api_get [Fixed ''incidents''] (nullish params []), r_paged)"

definition incidentService_get :: "int \<Rightarrow> call" where
  "incidentService_get id' =
     (api_get [Fixed ''incidents'', Id id'] [], r_data)"

definition incidentService_create :: "json \<Rightarrow> call" where
  "incidentService_create data =
     (api_post [Fixed ''incidents''] (Json data), r_data)"

definition incidentService_update :: "int \<Rightarrow> json \<Rightarrow> call" where
  "incidentService_update id' data =
     (api_patch [Fixed ''incidents'', Id id'] (Json data), r_data)"

definition incidentService_transition :: "int \<Rightarrow> string \<Rightarrow> call" where
  "incidentService_transition id' to_state =
     (api_post [Fixed ''incidents'', Id id', Fixed ''transition''] (Json (J_obj [(''to_state'', (J_str
       to_state))])), r_data)"

definition incidentService_remove :: "int \<Rightarrow> call" where
  "incidentService_remove id' =
     (api_delete [Fixed ''incidents'', Id id'] [], r_data)"

definition incidentService_citeOnPir :: "int \<Rightarrow> json \<Rightarrow> call" where
  "incidentService_citeOnPir incidentId data =
     (api_post [Fixed ''incidents'', Id incidentId, Fixed ''pir-citation''] (Json data), r_data)"

subsection \<open>\<open>infrastructureComponentService\<close>\<close>

definition infrastructureComponentService_listComponents :: "query option \<Rightarrow> call" where
  "infrastructureComponentService_listComponents params =
     (api_get [Fixed ''infrastructure-components'', Fixed ''''] (nullish params []), r_paged)"

definition infrastructureComponentService_getComponent :: "int \<Rightarrow> call" where
  "infrastructureComponentService_getComponent id' =
     (api_get [Fixed ''infrastructure-components'', Id id'] [], r_data)"

definition infrastructureComponentService_createComponent :: "json \<Rightarrow> call" where
  "infrastructureComponentService_createComponent data =
     (api_post [Fixed ''infrastructure-components'', Fixed ''''] (Json data), r_data)"

definition infrastructureComponentService_updateComponent :: "int \<Rightarrow> json \<Rightarrow> call" where
  "infrastructureComponentService_updateComponent id' data =
     (api_patch [Fixed ''infrastructure-components'', Id id'] (Json data), r_data)"

definition infrastructureComponentService_deleteComponent :: "int \<Rightarrow> call" where
  "infrastructureComponentService_deleteComponent id' =
     (api_delete [Fixed ''infrastructure-components'', Id id'] [], r_data)"

definition infrastructureComponentService_listEnvSubsystemHosts :: "int \<Rightarrow> int \<Rightarrow> call" where
  "infrastructureComponentService_listEnvSubsystemHosts envId subsystemId =
     (api_get [Fixed ''environments'', Id envId, Fixed ''subsystems'', Id subsystemId, Fixed ''hosts''] [], r_data)"

definition infrastructureComponentService_setEnvSubsystemHosts :: "int \<Rightarrow> int \<Rightarrow> json
  \<Rightarrow> call" where
  "infrastructureComponentService_setEnvSubsystemHosts envId subsystemId attachments =
     (api_put [Fixed ''environments'', Id envId, Fixed ''subsystems'', Id subsystemId, Fixed ''hosts''] (Json
       attachments), r_data)"

definition infrastructureComponentService_hostImpact :: "int list \<Rightarrow> result + call" where
  "infrastructureComponentService_hostImpact hostIds =
     (if hostIds = [] then Inl (Value (J_obj [(''host_ids'', J_arr []), (''environments'', J_arr [])]))
      else Inr (api_get [Fixed ''infrastructure-components'', Fixed ''impact'']
                  [(''host_ids'', J_arr (map J_int hostIds))], r_data))"

subsection \<open>\<open>myWorkService\<close>\<close>

definition myWorkService_getMyWork :: "call" where
  "myWorkService_getMyWork =
     (api_get [Fixed ''me'', Fixed ''work''] [], r_data)"

subsection \<open>\<open>pirService\<close>\<close>

definition pirService_getForRelease :: "int \<Rightarrow> call" where
  "pirService_getForRelease releaseId =
     (api_get [Fixed ''releases'', Id releaseId, Fixed ''pir''] [], r_data)"

definition pirService_create :: "int \<Rightarrow> json \<Rightarrow> call" where
  "pirService_create releaseId data =
     (api_post [Fixed ''releases'', Id releaseId, Fixed ''pir''] (Json data), r_data)"

definition pirService_update :: "int \<Rightarrow> json \<Rightarrow> call" where
  "pirService_update releaseId data =
     (api_patch [Fixed ''releases'', Id releaseId, Fixed ''pir''] (Json data), r_data)"

definition pirService_remove :: "int \<Rightarrow> call" where
  "pirService_remove releaseId =
     (api_delete [Fixed ''releases'', Id releaseId, Fixed ''pir''] [], r_data)"

definition pirService_createFinding :: "int \<Rightarrow> json \<Rightarrow> call" where
  "pirService_createFinding releaseId data =
     (api_post [Fixed ''releases'', Id releaseId, Fixed ''pir'', Fixed ''findings''] (Json data), r_data)"

definition pirService_updateFinding :: "int \<Rightarrow> int \<Rightarrow> json \<Rightarrow> call" where
  "pirService_updateFinding releaseId findingId data =
     (api_patch [Fixed ''releases'', Id releaseId, Fixed ''pir'', Fixed ''findings'', Id findingId] (Json data),
       r_data)"

definition pirService_deleteFinding :: "int \<Rightarrow> int \<Rightarrow> call" where
  "pirService_deleteFinding releaseId findingId =
     (api_delete [Fixed ''releases'', Id releaseId, Fixed ''pir'', Fixed ''findings'', Id findingId] [], r_data)"

definition pirService_createAction :: "int \<Rightarrow> int \<Rightarrow> json \<Rightarrow> call" where
  "pirService_createAction releaseId findingId data =
     (api_post [Fixed ''releases'', Id releaseId, Fixed ''pir'', Fixed ''findings'', Id findingId, Fixed
       ''actions''] (Json data), r_data)"

definition pirService_updateAction :: "int \<Rightarrow> int \<Rightarrow> int \<Rightarrow> json \<Rightarrow>
  call" where
  "pirService_updateAction releaseId findingId actionId data =
     (api_patch [Fixed ''releases'', Id releaseId, Fixed ''pir'', Fixed ''findings'', Id findingId, Fixed
       ''actions'', Id actionId] (Json data), r_data)"

definition pirService_deleteAction :: "int \<Rightarrow> int \<Rightarrow> int \<Rightarrow> call" where
  "pirService_deleteAction releaseId findingId actionId =
     (api_delete [Fixed ''releases'', Id releaseId, Fixed ''pir'', Fixed ''findings'', Id findingId, Fixed
       ''actions'', Id actionId] [], r_data)"

definition pirService_citeIncident :: "int \<Rightarrow> int \<Rightarrow> json \<Rightarrow> call" where
  "pirService_citeIncident releaseId findingId data =
     (api_post [Fixed ''releases'', Id releaseId, Fixed ''pir'', Fixed ''findings'', Id findingId, Fixed
       ''incidents''] (Json data), r_data)"

definition pirService_unciteIncident :: "int \<Rightarrow> int \<Rightarrow> int \<Rightarrow> call" where
  "pirService_unciteIncident releaseId findingId incidentId =
     (api_delete [Fixed ''releases'', Id releaseId, Fixed ''pir'', Fixed ''findings'', Id findingId, Fixed
       ''incidents'', Id incidentId] [], r_data)"

definition pirService_listActions :: "query option \<Rightarrow> call" where
  "pirService_listActions params =
     (api_get [Fixed ''pir-actions''] (nullish params []), r_paged)"

subsection \<open>\<open>projectService\<close>\<close>

definition projectService_listProjects :: "query option \<Rightarrow> call" where
  "projectService_listProjects params =
     (api_get [Fixed ''projects''] (nullish params []), r_paged)"

definition projectService_getProject :: "int \<Rightarrow> call" where
  "projectService_getProject id' =
     (api_get [Fixed ''projects'', Id id'] [], r_data)"

definition projectService_createProject :: "json \<Rightarrow> call" where
  "projectService_createProject data =
     (api_post [Fixed ''projects''] (Json data), r_data)"

definition projectService_updateProject :: "int \<Rightarrow> json \<Rightarrow> call" where
  "projectService_updateProject id' data =
     (api_patch [Fixed ''projects'', Id id'] (Json data), r_data)"

definition projectService_deleteProject :: "int \<Rightarrow> call" where
  "projectService_deleteProject id' =
     (api_delete [Fixed ''projects'', Id id'] [], r_data)"

definition projectService_listAgreementsForProject :: "int \<Rightarrow> query option \<Rightarrow> call" where
  "projectService_listAgreementsForProject projectId params =
     (api_get [Fixed ''projects'', Id projectId, Fixed ''usage-agreements''] (nullish params []), r_paged)"

definition projectService_listAgreementsForEnvironment :: "int \<Rightarrow> query option \<Rightarrow> call" where
  "projectService_listAgreementsForEnvironment environmentId params =
     (api_get [Fixed ''environments'', Id environmentId, Fixed ''usage-agreements''] (nullish params []), r_paged)"

definition projectService_createAgreement :: "int \<Rightarrow> json \<Rightarrow> call" where
  "projectService_createAgreement projectId data =
     (api_post [Fixed ''projects'', Id projectId, Fixed ''usage-agreements''] (Json data), r_data)"

definition projectService_deleteAgreement :: "int \<Rightarrow> int \<Rightarrow> call" where
  "projectService_deleteAgreement projectId agreementId =
     (api_delete [Fixed ''projects'', Id projectId, Fixed ''usage-agreements'', Id agreementId] [], r_data)"

subsection \<open>\<open>raidService\<close>\<close>

definition raidService_list :: "int \<Rightarrow> query option \<Rightarrow> call" where
  "raidService_list releaseId filters =
     (api_get [Fixed ''releases'', Id releaseId, Fixed ''raid''] (nullish filters []), r_data)"

definition raidService_get :: "int \<Rightarrow> int \<Rightarrow> call" where
  "raidService_get releaseId itemId =
     (api_get [Fixed ''releases'', Id releaseId, Fixed ''raid'', Id itemId] [], r_data)"

definition raidService_create :: "int \<Rightarrow> json \<Rightarrow> call" where
  "raidService_create releaseId data =
     (api_post [Fixed ''releases'', Id releaseId, Fixed ''raid''] (Json data), r_data)"

definition raidService_update :: "int \<Rightarrow> int \<Rightarrow> json \<Rightarrow> call" where
  "raidService_update releaseId itemId data =
     (api_patch [Fixed ''releases'', Id releaseId, Fixed ''raid'', Id itemId] (Json data), r_data)"

definition raidService_remove :: "int \<Rightarrow> int \<Rightarrow> call" where
  "raidService_remove releaseId itemId =
     (api_delete [Fixed ''releases'', Id releaseId, Fixed ''raid'', Id itemId] [], r_nothing)"

definition raidService_promote :: "int \<Rightarrow> int \<Rightarrow> string \<Rightarrow> call" where
  "raidService_promote releaseId itemId targetType =
     (api_post [Fixed ''releases'', Id releaseId, Fixed ''raid'', Id itemId, Fixed ''promote''] (Json (J_obj
       [(''target_type'', (J_str targetType))])), r_data)"

definition raidService_getLinks :: "int \<Rightarrow> int \<Rightarrow> call" where
  "raidService_getLinks releaseId itemId =
     (api_get [Fixed ''releases'', Id releaseId, Fixed ''raid'', Id itemId, Fixed ''links''] [], r_data)"

definition raidService_addScopeLink :: "int \<Rightarrow> int \<Rightarrow> int \<Rightarrow> call" where
  "raidService_addScopeLink releaseId itemId releaseChangeId =
     (api_post [Fixed ''releases'', Id releaseId, Fixed ''raid'', Id itemId, Fixed ''scope-links''] (Json (J_obj
       [(''release_change_id'', (J_int releaseChangeId))])), r_data)"

definition raidService_removeScopeLink :: "int \<Rightarrow> int \<Rightarrow> int \<Rightarrow> call" where
  "raidService_removeScopeLink releaseId itemId releaseChangeId =
     (api_delete [Fixed ''releases'', Id releaseId, Fixed ''raid'', Id itemId, Fixed ''scope-links'', Id
       releaseChangeId] [], r_nothing)"

definition raidService_addRelation :: "int \<Rightarrow> int \<Rightarrow> int \<Rightarrow> string \<Rightarrow>
  call" where
  "raidService_addRelation releaseId itemId toItemId relation =
     (api_post [Fixed ''releases'', Id releaseId, Fixed ''raid'', Id itemId, Fixed ''relations''] (Json (J_obj
       [(''to_item_id'', (J_int toItemId)), (''relation'', (J_str relation))])), r_data)"

definition raidService_removeRelation :: "int \<Rightarrow> int \<Rightarrow> int \<Rightarrow> string
  \<Rightarrow> call" where
  "raidService_removeRelation releaseId itemId toItemId relation =
     (api_delete [Fixed ''releases'', Id releaseId, Fixed ''raid'', Id itemId, Fixed ''relations'']
       [(''to_item_id'', (J_int toItemId)), (''relation'', (J_str relation))], r_nothing)"

definition raidService_summary :: "int \<Rightarrow> call" where
  "raidService_summary releaseId =
     (api_get [Fixed ''releases'', Id releaseId, Fixed ''raid'', Fixed ''summary''] [], r_data)"

definition raidService_rollup :: "int \<Rightarrow> call" where
  "raidService_rollup enterpriseId =
     (api_get [Fixed ''releases'', Id enterpriseId, Fixed ''rollup'', Fixed ''raid''] [], r_data)"

definition raidService_getConfig :: "call" where
  "raidService_getConfig =
     (api_get [Fixed ''tenant'', Fixed ''raid-config''] [], r_data)"

definition raidService_updateConfig :: "json \<Rightarrow> call" where
  "raidService_updateConfig data =
     (api_put [Fixed ''tenant'', Fixed ''raid-config''] (Json data), r_data)"

subsection \<open>\<open>releaseEventTypeService\<close>\<close>

definition releaseEventTypeService_list :: "call" where
  "releaseEventTypeService_list =
     (api_get [Fixed ''release-event-types''] [], r_data)"

definition releaseEventTypeService_get :: "int \<Rightarrow> call" where
  "releaseEventTypeService_get id' =
     (api_get [Fixed ''release-event-types'', Id id'] [], r_data)"

definition releaseEventTypeService_create :: "json \<Rightarrow> call" where
  "releaseEventTypeService_create data =
     (api_post [Fixed ''release-event-types''] (Json data), r_data)"

definition releaseEventTypeService_update :: "int \<Rightarrow> json \<Rightarrow> call" where
  "releaseEventTypeService_update id' data =
     (api_put [Fixed ''release-event-types'', Id id'] (Json data), r_data)"

definition releaseEventTypeService_remove :: "int \<Rightarrow> call" where
  "releaseEventTypeService_remove id' =
     (api_delete [Fixed ''release-event-types'', Id id'] [], r_nothing)"

subsection \<open>\<open>releaseMetricsService\<close>\<close>

definition releaseMetricsService_releases :: "query \<Rightarrow> call" where
  "releaseMetricsService_releases params =
     (api_get [Fixed ''metrics'', Fixed ''releases''] params, r_data)"

definition releaseMetricsService_conflicts :: "query \<Rightarrow> call" where
  "releaseMetricsService_conflicts params =
     (api_get [Fixed ''metrics'', Fixed ''bookings'', Fixed ''conflicts''] params, r_data)"

subsection \<open>\<open>releaseService\<close>\<close>

definition releaseService_list :: "query option \<Rightarrow> call" where
  "releaseService_list params =
     (api_get [Fixed ''releases''] (nullish params []), r_paged)"

definition releaseService_get :: "int \<Rightarrow> call" where
  "releaseService_get id' =
     (api_get [Fixed ''releases'', Id id'] [], r_data)"

definition releaseService_create :: "json \<Rightarrow> call" where
  "releaseService_create data =
     (api_post [Fixed ''releases''] (Json data), r_data)"

definition releaseService_update :: "int \<Rightarrow> json \<Rightarrow> call" where
  "releaseService_update id' data =
     (api_put [Fixed ''releases'', Id id'] (Json data), r_data)"

definition releaseService_remove :: "int \<Rightarrow> call" where
  "releaseService_remove id' =
     (api_delete [Fixed ''releases'', Id id'] [], r_nothing)"

definition releaseService_transition :: "int \<Rightarrow> json \<Rightarrow> call" where
  "releaseService_transition id' data =
     (api_post [Fixed ''releases'', Id id', Fixed ''transition''] (Json data), r_data)"

definition releaseService_listHistory :: "int \<Rightarrow> call" where
  "releaseService_listHistory id' =
     (api_get [Fixed ''releases'', Id id', Fixed ''history''] [], r_data)"

definition releaseService_getLifecycle :: "int \<Rightarrow> call" where
  "releaseService_getLifecycle id' =
     (api_get [Fixed ''releases'', Id id', Fixed ''lifecycle''] [], r_data)"

definition releaseService_listCalendar :: "string \<Rightarrow> string \<Rightarrow> call" where
  "releaseService_listCalendar from to =
     (api_get [Fixed ''releases'', Fixed ''calendar''] [(''date_from'', (J_str from)), (''date_to'', (J_str to))],
       r_data)"

definition releaseService_listTimeline :: "query option \<Rightarrow> call" where
  "releaseService_listTimeline filters =
     (api_get [Fixed ''releases'', Fixed ''timeline''] (nullish filters []), r_data)"

definition releaseService_listPhases :: "int \<Rightarrow> call" where
  "releaseService_listPhases releaseId =
     (api_get [Fixed ''releases'', Id releaseId, Fixed ''phases''] [], r_data)"

definition releaseService_createPhase :: "int \<Rightarrow> json \<Rightarrow> call" where
  "releaseService_createPhase releaseId data =
     (api_post [Fixed ''releases'', Id releaseId, Fixed ''phases''] (Json data), r_data)"

definition releaseService_updatePhase :: "int \<Rightarrow> int \<Rightarrow> json \<Rightarrow> call" where
  "releaseService_updatePhase releaseId phaseId data =
     (api_put [Fixed ''phases'', Id phaseId] (Json data), r_data)"

definition releaseService_deletePhase :: "int \<Rightarrow> int \<Rightarrow> call" where
  "releaseService_deletePhase releaseId phaseId =
     (api_delete [Fixed ''phases'', Id phaseId] [], r_nothing)"

definition releaseService_listGates :: "int \<Rightarrow> call" where
  "releaseService_listGates releaseId =
     (api_get [Fixed ''releases'', Id releaseId, Fixed ''gates''] [], r_data)"

definition releaseService_createGate :: "int \<Rightarrow> json \<Rightarrow> call" where
  "releaseService_createGate releaseId data =
     (api_post [Fixed ''releases'', Id releaseId, Fixed ''gates''] (Json data), r_data)"

definition releaseService_updateGate :: "int \<Rightarrow> int \<Rightarrow> json \<Rightarrow> call" where
  "releaseService_updateGate releaseId gateId data =
     (api_put [Fixed ''gates'', Id gateId] (Json data), r_data)"

definition releaseService_deleteGate :: "int \<Rightarrow> int \<Rightarrow> call" where
  "releaseService_deleteGate releaseId gateId =
     (api_delete [Fixed ''gates'', Id gateId] [], r_nothing)"

definition releaseService_passGate :: "int \<Rightarrow> int \<Rightarrow> json option \<Rightarrow> call" where
  "releaseService_passGate releaseId gateId data =
     (api_post [Fixed ''gates'', Id gateId, Fixed ''pass''] (Json (nullish data (J_obj []))), r_data)"

definition releaseService_failGate :: "int \<Rightarrow> int \<Rightarrow> json option \<Rightarrow> call" where
  "releaseService_failGate releaseId gateId data =
     (api_post [Fixed ''gates'', Id gateId, Fixed ''fail''] (Json (nullish data (J_obj []))), r_data)"

definition releaseService_overrideGate :: "int \<Rightarrow> int \<Rightarrow> json option \<Rightarrow> call" where
  "releaseService_overrideGate releaseId gateId data =
     (api_post [Fixed ''gates'', Id gateId, Fixed ''override''] (Json (nullish data (J_obj []))), r_data)"

definition releaseService_listGateEvidence :: "int \<Rightarrow> call" where
  "releaseService_listGateEvidence gateId =
     (api_get [Fixed ''gates'', Id gateId, Fixed ''evidence''] [], r_data)"

definition releaseService_addGateEvidence :: "int \<Rightarrow> json \<Rightarrow> call" where
  "releaseService_addGateEvidence gateId data =
     (api_post [Fixed ''gates'', Id gateId, Fixed ''evidence''] (Json data), r_data)"

definition releaseService_deleteGateEvidence :: "int \<Rightarrow> call" where
  "releaseService_deleteGateEvidence evidenceId =
     (api_delete [Fixed ''gates'', Fixed ''evidence'', Id evidenceId] [], r_nothing)"

definition releaseService_getReadiness :: "int \<Rightarrow> call" where
  "releaseService_getReadiness releaseId =
     (api_get [Fixed ''releases'', Id releaseId, Fixed ''readiness''] [], r_data)"

definition releaseService_listSystems :: "int \<Rightarrow> call" where
  "releaseService_listSystems releaseId =
     (api_get [Fixed ''releases'', Id releaseId, Fixed ''systems''] [], r_data)"

definition releaseService_addSystem :: "int \<Rightarrow> json \<Rightarrow> call" where
  "releaseService_addSystem releaseId data =
     (api_post [Fixed ''releases'', Id releaseId, Fixed ''systems''] (Json data), r_data)"

definition releaseService_removeSystem :: "int \<Rightarrow> call" where
  "releaseService_removeSystem releaseSystemId =
     (api_delete [Fixed ''release-systems'', Id releaseSystemId] [], r_nothing)"

definition releaseService_listDependencies :: "int \<Rightarrow> call" where
  "releaseService_listDependencies releaseId =
     (api_get [Fixed ''releases'', Id releaseId, Fixed ''dependencies''] [], r_data)"

definition releaseService_addDependency :: "int \<Rightarrow> json \<Rightarrow> call" where
  "releaseService_addDependency releaseId data =
     (api_post [Fixed ''releases'', Id releaseId, Fixed ''dependencies''] (Json data), r_data)"

definition releaseService_removeDependency :: "int \<Rightarrow> call" where
  "releaseService_removeDependency releaseDependencyId =
     (api_delete [Fixed ''release-dependencies'', Id releaseDependencyId] [], r_nothing)"

definition releaseService_listDependencyAlerts :: "int \<Rightarrow> call" where
  "releaseService_listDependencyAlerts releaseId =
     (api_get [Fixed ''releases'', Id releaseId, Fixed ''dependency-alerts''] [], r_data)"

definition releaseService_acknowledgeAlert :: "int \<Rightarrow> int \<Rightarrow> call" where
  "releaseService_acknowledgeAlert releaseId dependencyId =
     (api_post [Fixed ''releases'', Id releaseId, Fixed ''dependency-alerts'', Id dependencyId, Fixed
       ''acknowledge''] No_body, r_nothing)"

definition releaseService_listEvents :: "int \<Rightarrow> call" where
  "releaseService_listEvents releaseId =
     (api_get [Fixed ''releases'', Id releaseId, Fixed ''events''] [], r_data)"

definition releaseService_createEvent :: "int \<Rightarrow> json \<Rightarrow> call" where
  "releaseService_createEvent releaseId data =
     (api_post [Fixed ''releases'', Id releaseId, Fixed ''events''] (Json data), r_data)"

definition releaseService_listChanges :: "int \<Rightarrow> call" where
  "releaseService_listChanges releaseId =
     (api_get [Fixed ''releases'', Id releaseId, Fixed ''changes''] [], r_data)"

definition releaseService_createChange :: "int \<Rightarrow> json \<Rightarrow> call" where
  "releaseService_createChange releaseId data =
     (api_post [Fixed ''releases'', Id releaseId, Fixed ''changes''] (Json data), r_data)"

definition releaseService_updateChange :: "int \<Rightarrow> json \<Rightarrow> call" where
  "releaseService_updateChange changeId data =
     (api_put [Fixed ''release-changes'', Id changeId] (Json data), r_data)"

definition releaseService_deleteChange :: "int \<Rightarrow> call" where
  "releaseService_deleteChange changeId =
     (api_delete [Fixed ''release-changes'', Id changeId] [], r_nothing)"

definition releaseService_moveReleaseChange :: "int \<Rightarrow> json \<Rightarrow> call" where
  "releaseService_moveReleaseChange changeId payload =
     (api_post [Fixed ''release-changes'', Id changeId, Fixed ''move''] (Json payload), r_data)"

definition releaseService_listBacklogChanges :: "call" where
  "releaseService_listBacklogChanges =
     (api_get [Fixed ''release-changes''] [(''backlog'', J_str ''true'')], r_data)"

definition releaseService_fetchReleaseChangeReleaseHistory :: "int \<Rightarrow> call" where
  "releaseService_fetchReleaseChangeReleaseHistory changeId =
     (api_get [Fixed ''release-changes'', Id changeId, Fixed ''release-history''] [], r_data)"

definition releaseService_fetchReleaseChangeStatusHistory :: "int \<Rightarrow> call" where
  "releaseService_fetchReleaseChangeStatusHistory changeId =
     (api_get [Fixed ''release-changes'', Id changeId, Fixed ''status-history''] [], r_data)"

definition releaseService_importScope :: "int \<Rightarrow> json \<Rightarrow> call" where
  "releaseService_importScope releaseId file =
     (api_post [Fixed ''releases'', Id releaseId, Fixed ''scope'', Fixed ''import''] (Form_data [(''file'',
       file)]), r_data)"

definition releaseService_downloadScopeImportTemplate :: call where
  "releaseService_downloadScopeImportTemplate =
     (api_get [Fixed ''releases'', Fixed ''scope'', Fixed ''import-template''] [],
      \<lambda>r. Download ''scope-import-template.xlsx'' (rs_data r))"

definition releaseService_listBookings :: "int \<Rightarrow> call" where
  "releaseService_listBookings releaseId =
     (api_get [Fixed ''releases'', Id releaseId, Fixed ''bookings''] [], r_data)"

definition releaseService_getEnvironmentCoverage :: "int \<Rightarrow> call" where
  "releaseService_getEnvironmentCoverage releaseId =
     (api_get [Fixed ''releases'', Id releaseId, Fixed ''environment-coverage''] [], r_data)"

definition releaseService_getScopeChurnAnalytics :: "query option \<Rightarrow> call" where
  "releaseService_getScopeChurnAnalytics params =
     (api_get [Fixed ''releases'', Fixed ''scope-churn-analytics''] (nullish params []), r_data)"

definition releaseService_bookForPhase :: "int \<Rightarrow> json \<Rightarrow> call" where
  "releaseService_bookForPhase releaseId data =
     (api_post [Fixed ''releases'', Id releaseId, Fixed ''bookings''] (Json data), r_data)"

definition releaseService_bulkBookEnvironments :: "int \<Rightarrow> json \<Rightarrow> call" where
  "releaseService_bulkBookEnvironments releaseId payload =
     (api_post [Fixed ''releases'', Id releaseId, Fixed ''bookings'', Fixed ''bulk''] (Json payload), r_data)"

definition releaseService_listLinkedChangeRequests :: "int \<Rightarrow> call" where
  "releaseService_listLinkedChangeRequests releaseId =
     (api_get [Fixed ''releases'', Id releaseId, Fixed ''change-requests''] [], r_data)"

definition releaseService_linkChangeRequest :: "int \<Rightarrow> int \<Rightarrow> call" where
  "releaseService_linkChangeRequest releaseId crId =
     (api_post [Fixed ''releases'', Id releaseId, Fixed ''change-requests'', Id crId, Fixed ''link''] No_body,
       r_nothing)"

definition releaseService_unlinkChangeRequest :: "int \<Rightarrow> int \<Rightarrow> call" where
  "releaseService_unlinkChangeRequest releaseId crId =
     (api_delete [Fixed ''releases'', Id releaseId, Fixed ''change-requests'', Id crId, Fixed ''link''] [],
       r_nothing)"

definition releaseService_listCriteria :: "int \<Rightarrow> int \<Rightarrow> call" where
  "releaseService_listCriteria releaseId gateId =
     (api_get [Fixed ''releases'', Id releaseId, Fixed ''gates'', Id gateId, Fixed ''criteria''] [], r_data)"

definition releaseService_createCriterion :: "int \<Rightarrow> int \<Rightarrow> json \<Rightarrow> call" where
  "releaseService_createCriterion releaseId gateId payload =
     (api_post [Fixed ''releases'', Id releaseId, Fixed ''gates'', Id gateId, Fixed ''criteria''] (Json payload),
       r_data)"

definition releaseService_updateCriterion :: "int \<Rightarrow> json \<Rightarrow> call" where
  "releaseService_updateCriterion criterionId payload =
     (api_put [Fixed ''gate-criteria'', Id criterionId] (Json payload), r_data)"

definition releaseService_completeCriterion :: "int \<Rightarrow> call" where
  "releaseService_completeCriterion criterionId =
     (api_post [Fixed ''gate-criteria'', Id criterionId, Fixed ''complete''] No_body, r_data)"

definition releaseService_reopenCriterion :: "int \<Rightarrow> call" where
  "releaseService_reopenCriterion criterionId =
     (api_post [Fixed ''gate-criteria'', Id criterionId, Fixed ''reopen''] No_body, r_data)"

definition releaseService_deleteCriterion :: "int \<Rightarrow> call" where
  "releaseService_deleteCriterion criterionId =
     (api_delete [Fixed ''gate-criteria'', Id criterionId] [], r_nothing)"

definition releaseService_listReleaseOverdueCriteria :: "int \<Rightarrow> call" where
  "releaseService_listReleaseOverdueCriteria releaseId =
     (api_get [Fixed ''releases'', Id releaseId, Fixed ''overdue-criteria''] [], r_data)"

subsection \<open>\<open>releaseTemplateService\<close>\<close>

definition releaseTemplateService_list :: "call" where
  "releaseTemplateService_list =
     (api_get [Fixed ''release-templates''] [], r_data)"

definition releaseTemplateService_get :: "int \<Rightarrow> call" where
  "releaseTemplateService_get id' =
     (api_get [Fixed ''release-templates'', Id id'] [], r_data)"

definition releaseTemplateService_create :: "json \<Rightarrow> call" where
  "releaseTemplateService_create data =
     (api_post [Fixed ''release-templates''] (Json data), r_data)"

definition releaseTemplateService_update :: "int \<Rightarrow> json \<Rightarrow> call" where
  "releaseTemplateService_update id' data =
     (api_put [Fixed ''release-templates'', Id id'] (Json data), r_data)"

definition releaseTemplateService_remove :: "int \<Rightarrow> call" where
  "releaseTemplateService_remove id' =
     (api_delete [Fixed ''release-templates'', Id id'] [], r_nothing)"

definition releaseTemplateService_instantiate :: "int \<Rightarrow> json \<Rightarrow> call" where
  "releaseTemplateService_instantiate id' data =
     (api_post [Fixed ''release-templates'', Id id', Fixed ''instantiate''] (Json data), r_data)"

subsection \<open>\<open>rollbackService\<close>\<close>

definition rollbackService_listPlans :: "int \<Rightarrow> call" where
  "rollbackService_listPlans releaseId =
     (api_get [Fixed ''releases'', Id releaseId, Fixed ''rollback-plans''] [], r_data)"

definition rollbackService_upsertPlan :: "int \<Rightarrow> json \<Rightarrow> call" where
  "rollbackService_upsertPlan releaseId data =
     (api_put [Fixed ''releases'', Id releaseId, Fixed ''rollback-plans''] (Json data), r_data)"

definition rollbackService_agreePlan :: "int \<Rightarrow> int \<Rightarrow> call" where
  "rollbackService_agreePlan releaseId planId =
     (api_post [Fixed ''releases'', Id releaseId, Fixed ''rollback-plans'', Id planId, Fixed ''agree''] No_body,
       r_data)"

definition rollbackService_deletePlan :: "int \<Rightarrow> int \<Rightarrow> call" where
  "rollbackService_deletePlan releaseId planId =
     (api_delete [Fixed ''releases'', Id releaseId, Fixed ''rollback-plans'', Id planId] [], r_nothing)"

definition rollbackService_listAuthorisations :: "int \<Rightarrow> call" where
  "rollbackService_listAuthorisations releaseId =
     (api_get [Fixed ''releases'', Id releaseId, Fixed ''rollback-authorisations''] [], r_data)"

definition rollbackService_recordAuthorisation :: "int \<Rightarrow> json \<Rightarrow> call" where
  "rollbackService_recordAuthorisation releaseId data =
     (api_post [Fixed ''releases'', Id releaseId, Fixed ''rollback-authorisations''] (Json data), r_data)"

definition rollbackService_listRehearsals :: "int \<Rightarrow> call" where
  "rollbackService_listRehearsals systemId =
     (api_get [Fixed ''systems'', Id systemId, Fixed ''rollback-rehearsals''] [], r_data)"

definition rollbackService_recordRehearsal :: "int \<Rightarrow> json \<Rightarrow> call" where
  "rollbackService_recordRehearsal systemId data =
     (api_post [Fixed ''systems'', Id systemId, Fixed ''rollback-rehearsals''] (Json data), r_data)"

definition rollbackService_getPolicy :: "call" where
  "rollbackService_getPolicy =
     (api_get [Fixed ''tenant'', Fixed ''rollback-policy''] [], r_data)"

definition rollbackService_updatePolicy :: "json \<Rightarrow> call" where
  "rollbackService_updatePolicy data =
     (api_put [Fixed ''tenant'', Fixed ''rollback-policy''] (Json data), r_data)"

subsection \<open>\<open>runbookService\<close>\<close>

definition runbookService_listForRelease :: "int \<Rightarrow> call" where
  "runbookService_listForRelease releaseId =
     (api_get [Fixed ''releases'', Id releaseId, Fixed ''runbooks''] [(''limit'', (J_int 100))], r_data)"

definition runbookService_get :: "int \<Rightarrow> call" where
  "runbookService_get planId =
     (api_get [Fixed ''runbooks'', Id planId] [], r_data)"

definition runbookService_create :: "int \<Rightarrow> json \<Rightarrow> call" where
  "runbookService_create releaseId body =
     (api_post [Fixed ''releases'', Id releaseId, Fixed ''runbooks''] (Json body), r_data)"

definition runbookService_update :: "int \<Rightarrow> json \<Rightarrow> call" where
  "runbookService_update planId body =
     (api_patch [Fixed ''runbooks'', Id planId] (Json body), r_data)"

definition runbookService_remove :: "int \<Rightarrow> call" where
  "runbookService_remove planId =
     (api_delete [Fixed ''runbooks'', Id planId] [], r_nothing)"

definition runbookService_createTask :: "int \<Rightarrow> json \<Rightarrow> call" where
  "runbookService_createTask planId body =
     (api_post [Fixed ''runbooks'', Id planId, Fixed ''tasks''] (Json body), r_data)"

definition runbookService_updateTask :: "int \<Rightarrow> json \<Rightarrow> call" where
  "runbookService_updateTask taskId body =
     (api_patch [Fixed ''runbook-tasks'', Id taskId] (Json body), r_data)"

definition runbookService_removeTask :: "int \<Rightarrow> call" where
  "runbookService_removeTask taskId =
     (api_delete [Fixed ''runbook-tasks'', Id taskId] [], r_nothing)"

definition runbookService_setPredecessors :: "int \<Rightarrow> int list \<Rightarrow> call" where
  "runbookService_setPredecessors taskId ids =
     (api_put [Fixed ''runbook-tasks'', Id taskId, Fixed ''predecessors''] (Json (J_obj [(''predecessor_ids'',
       (J_arr (map J_int ids)))])), r_data)"

definition runbookService_transition :: "int \<Rightarrow> json \<Rightarrow> call" where
  "runbookService_transition taskId body =
     (api_post [Fixed ''runbook-tasks'', Id taskId, Fixed ''transition''] (Json body), r_data)"

definition runbookService_events :: "int \<Rightarrow> call" where
  "runbookService_events taskId =
     (api_get [Fixed ''runbook-tasks'', Id taskId, Fixed ''events''] [(''limit'', (J_int 100))], r_data)"

subsection \<open>\<open>scheduleService\<close>\<close>

definition scheduleService_getEnvironmentSchedule :: "int \<Rightarrow> string \<Rightarrow> string \<Rightarrow>
  call" where
  "scheduleService_getEnvironmentSchedule envId startDate endDate =
     (api_get [Fixed ''environments'', Id envId, Fixed ''schedule''] [(''start_date'', (J_str startDate)),
       (''end_date'', (J_str endDate))], r_data)"

subsection \<open>\<open>scopeChangeRulesService\<close>\<close>

definition scopeChangeRulesService_list :: "call" where
  "scopeChangeRulesService_list =
     (api_get [Fixed ''tenant'', Fixed ''scope-change-rules''] [], r_data)"

definition scopeChangeRulesService_listKinds :: "call" where
  "scopeChangeRulesService_listKinds =
     (api_get [Fixed ''tenant'', Fixed ''scope-change-rules'', Fixed ''kinds''] [], r_data)"

definition scopeChangeRulesService_upsert :: "json \<Rightarrow> call" where
  "scopeChangeRulesService_upsert payload =
     (api_put [Fixed ''tenant'', Fixed ''scope-change-rules''] (Json payload), r_data)"

subsection \<open>\<open>systemService\<close>\<close>

definition systemService_listSystems :: "query option \<Rightarrow> call" where
  "systemService_listSystems params =
     (api_get [Fixed ''systems'', Fixed ''''] (nullish params []), r_paged)"

definition systemService_getSystem :: "int \<Rightarrow> call" where
  "systemService_getSystem id' =
     (api_get [Fixed ''systems'', Id id'] [], r_data)"

definition systemService_createSystem :: "json \<Rightarrow> call" where
  "systemService_createSystem data =
     (api_post [Fixed ''systems'', Fixed ''''] (Json data), r_data)"

definition systemService_updateSystem :: "int \<Rightarrow> json \<Rightarrow> call" where
  "systemService_updateSystem id' data =
     (api_patch [Fixed ''systems'', Id id'] (Json data), r_data)"

definition systemService_deleteSystem :: "int \<Rightarrow> call" where
  "systemService_deleteSystem id' =
     (api_delete [Fixed ''systems'', Id id'] [], r_data)"

definition systemService_listSubSystems :: "int \<Rightarrow> call" where
  "systemService_listSubSystems systemId =
     (api_get [Fixed ''systems'', Id systemId, Fixed ''subsystems''] [], r_data)"

definition systemService_getSubSystem :: "int \<Rightarrow> int \<Rightarrow> call" where
  "systemService_getSubSystem systemId subId =
     (api_get [Fixed ''systems'', Id systemId, Fixed ''subsystems'', Id subId] [], r_data)"

definition systemService_createSubSystem :: "int \<Rightarrow> json \<Rightarrow> call" where
  "systemService_createSubSystem systemId data =
     (api_post [Fixed ''systems'', Id systemId, Fixed ''subsystems''] (Json data), r_data)"

definition systemService_updateSubSystem :: "int \<Rightarrow> int \<Rightarrow> json \<Rightarrow> call" where
  "systemService_updateSubSystem systemId subId data =
     (api_patch [Fixed ''systems'', Id systemId, Fixed ''subsystems'', Id subId] (Json data), r_data)"

definition systemService_deleteSubSystem :: "int \<Rightarrow> int \<Rightarrow> call" where
  "systemService_deleteSubSystem systemId subId =
     (api_delete [Fixed ''systems'', Id systemId, Fixed ''subsystems'', Id subId] [], r_data)"

subsection \<open>\<open>tenantAdminService\<close>\<close>

definition tenantAdminService_getSettings :: "call" where
  "tenantAdminService_getSettings =
     (api_get [Fixed ''tenant'', Fixed ''settings''] [], r_data)"

definition tenantAdminService_updateSettings :: "json \<Rightarrow> call" where
  "tenantAdminService_updateSettings settings =
     (api_patch [Fixed ''tenant'', Fixed ''settings''] (Json (J_obj [(''settings'', settings)])), r_data)"

definition tenantAdminService_listUsers :: "call" where
  "tenantAdminService_listUsers =
     (api_get [Fixed ''tenant'', Fixed ''users''] [], r_paged)"

definition tenantAdminService_createUser :: "json \<Rightarrow> call" where
  "tenantAdminService_createUser data =
     (api_post [Fixed ''tenant'', Fixed ''users''] (Json data), r_data)"

definition tenantAdminService_getUser :: "int \<Rightarrow> call" where
  "tenantAdminService_getUser id' =
     (api_get [Fixed ''tenant'', Fixed ''users'', Id id'] [], r_data)"

definition tenantAdminService_updateUser :: "int \<Rightarrow> json \<Rightarrow> call" where
  "tenantAdminService_updateUser id' data =
     (api_patch [Fixed ''tenant'', Fixed ''users'', Id id'] (Json data), r_data)"

definition tenantAdminService_setUserRole :: "int \<Rightarrow> string \<Rightarrow> call" where
  "tenantAdminService_setUserRole id' role =
     (api_patch [Fixed ''tenant'', Fixed ''users'', Id id', Fixed ''role''] (Json (J_obj [(''role'', (J_str
       role))])), r_data)"

definition tenantAdminService_deactivateUser :: "int \<Rightarrow> call" where
  "tenantAdminService_deactivateUser id' =
     (api_post [Fixed ''tenant'', Fixed ''users'', Id id', Fixed ''deactivate''] No_body, r_data)"

definition tenantAdminService_reactivateUser :: "int \<Rightarrow> call" where
  "tenantAdminService_reactivateUser id' =
     (api_post [Fixed ''tenant'', Fixed ''users'', Id id', Fixed ''reactivate''] No_body, r_data)"

subsection \<open>\<open>userGroupService\<close>\<close>

definition userGroupService_listGroups :: "query option \<Rightarrow> call" where
  "userGroupService_listGroups params =
     (api_get [Fixed ''tenant'', Fixed ''groups''] (nullish params []), r_paged)"

definition userGroupService_getGroup :: "int \<Rightarrow> call" where
  "userGroupService_getGroup id' =
     (api_get [Fixed ''tenant'', Fixed ''groups'', Id id'] [], r_data)"

definition userGroupService_createGroup :: "json \<Rightarrow> call" where
  "userGroupService_createGroup data =
     (api_post [Fixed ''tenant'', Fixed ''groups''] (Json data), r_data)"

definition userGroupService_updateGroup :: "int \<Rightarrow> json \<Rightarrow> call" where
  "userGroupService_updateGroup id' data =
     (api_patch [Fixed ''tenant'', Fixed ''groups'', Id id'] (Json data), r_data)"

definition userGroupService_deleteGroup :: "int \<Rightarrow> call" where
  "userGroupService_deleteGroup id' =
     (api_delete [Fixed ''tenant'', Fixed ''groups'', Id id'] [], r_data)"

definition userGroupService_listMembers :: "int \<Rightarrow> query option \<Rightarrow> call" where
  "userGroupService_listMembers groupId params =
     (api_get [Fixed ''tenant'', Fixed ''groups'', Id groupId, Fixed ''members''] (nullish params []), r_paged)"

definition userGroupService_addMember :: "int \<Rightarrow> int \<Rightarrow> call" where
  "userGroupService_addMember groupId userId =
     (api_post [Fixed ''tenant'', Fixed ''groups'', Id groupId, Fixed ''members''] (Json (J_obj [(''user_id'',
       (J_int userId))])), r_data)"

definition userGroupService_removeMember :: "int \<Rightarrow> int \<Rightarrow> call" where
  "userGroupService_removeMember groupId userId =
     (api_delete [Fixed ''tenant'', Fixed ''groups'', Id groupId, Fixed ''members'', Id userId] [], r_data)"

subsection \<open>\<open>versionService\<close>\<close>

definition versionService_listVersions :: "int \<Rightarrow> bool option \<Rightarrow> call" where
  "versionService_listVersions envId currentOnly =
     (api_get [Fixed ''environments'', Id envId, Fixed ''versions'']
        (case currentOnly of Some b \<Rightarrow> [(''current_only'', J_bool b)] | None \<Rightarrow> []), r_data)"

definition versionService_recordVersion :: "int \<Rightarrow> json \<Rightarrow> call" where
  "versionService_recordVersion envId data =
     (api_post [Fixed ''environments'', Id envId, Fixed ''versions''] (Json data), r_data)"

definition versionService_updateVersion :: "int \<Rightarrow> int \<Rightarrow> json \<Rightarrow> call" where
  "versionService_updateVersion envId versionId data =
     (api_patch [Fixed ''environments'', Id envId, Fixed ''versions'', Id versionId] (Json data), r_data)"

definition versionService_deleteVersion :: "int \<Rightarrow> int \<Rightarrow> call" where
  "versionService_deleteVersion envId versionId =
     (api_delete [Fixed ''environments'', Id envId, Fixed ''versions'', Id versionId] [], r_data)"

definition versionService_importEnvironments :: "json \<Rightarrow> call" where
  "versionService_importEnvironments file =
     (api_post [Fixed ''import'', Fixed ''environments''] (Form_data [(''file'', file)]), r_data)"

definition versionService_importSystems :: "json \<Rightarrow> call" where
  "versionService_importSystems file =
     (api_post [Fixed ''import'', Fixed ''systems''] (Form_data [(''file'', file)]), r_data)"

end
