(* ===== verification/BackendRoutes.thy ===== *)
theory BackendRoutes
  imports ServiceApi
begin

text \<open>
  The routes of the backend, which the service functions call: one \<open>router\<close> for each
    \<open>APIRouter\<close> of
  \<open>src/backend/app/api/v1\<close> that \<open>src/backend/app/main.py\<close> includes, with its prefix, and
    for each decorated
  function the verb, the path, the names of the query parameters (those of the dependencies
    \<open>pagination\<close> and
  \<open>sorting\<close> included), whether it takes a body, and its name. Every router is mounted under
    \<open>/api/v1\<close>. A request
  goes to the first route, in the order of inclusion, whose verb and path match; a path parameter matches one
  piece that is not empty.
\<close>

datatype seg = Lit string | Par string

record route =
  rt_verb :: verb
  rt_path :: "seg list"
  rt_query :: "string list"
  rt_body :: bool
  rt_handler :: string

record router =
  rr_prefix :: "seg list"
  rr_routes :: "route list"

definition route :: "verb \<Rightarrow> seg list \<Rightarrow> string list \<Rightarrow> bool \<Rightarrow> string
  \<Rightarrow> route" where
  "route v p q b h = \<lparr>rt_verb = v, rt_path = p, rt_query = q, rt_body = b, rt_handler = h\<rparr>"

definition router :: "seg list \<Rightarrow> route list \<Rightarrow> router" where
  "router p rs = \<lparr>rr_prefix = p, rr_routes = rs\<rparr>"

subsection \<open>Matching\<close>

text \<open>How a literal and how a parameter match a piece of the path is left to the arguments, so that the same
  functions run on strings and on the pieces of a request.\<close>

fun seg_matches :: "(string \<Rightarrow> 'x \<Rightarrow> bool) \<Rightarrow> ('x \<Rightarrow> bool)
  \<Rightarrow> seg \<Rightarrow> 'x \<Rightarrow> bool" where
  "seg_matches eq ne (Lit l) x = eq l x"
| "seg_matches eq ne (Par n) x = ne x"

fun after_prefix :: "(seg \<Rightarrow> 'x \<Rightarrow> bool) \<Rightarrow> seg list \<Rightarrow> 'x list
  \<Rightarrow> 'x list option" where
  "after_prefix m [] xs = Some xs"
| "after_prefix m (p # ps) [] = None"
| "after_prefix m (p # ps) (x # xs) = (if m p x then after_prefix m ps xs else None)"

definition path_matches :: "(seg \<Rightarrow> 'x \<Rightarrow> bool) \<Rightarrow> seg list \<Rightarrow> 'x list
  \<Rightarrow> bool" where
  "path_matches m p xs \<longleftrightarrow> after_prefix m p xs = Some []"

fun first_row :: "(seg \<Rightarrow> 'x \<Rightarrow> bool) \<Rightarrow> verb \<Rightarrow> 'x list \<Rightarrow>
  route list \<Rightarrow> route option" where
  "first_row m v xs [] = None"
| "first_row m v xs (r # rs) =
     (if rt_verb r = v \<and> path_matches m (rt_path r) xs then Some r else first_row m v xs rs)"

definition route_in :: "(seg \<Rightarrow> 'x \<Rightarrow> bool) \<Rightarrow> verb \<Rightarrow> 'x list
  \<Rightarrow> router \<Rightarrow> route option" where
  "route_in m v xs rr =
     (case after_prefix m (rr_prefix rr) xs of
        None \<Rightarrow> None
      | Some rest \<Rightarrow> first_row m v rest (rr_routes rr))"

fun first_route :: "(seg \<Rightarrow> 'x \<Rightarrow> bool) \<Rightarrow> verb \<Rightarrow> 'x list
  \<Rightarrow> router list \<Rightarrow> route option" where
  "first_route m v xs [] = None"
| "first_route m v xs (rr # rrs) =
     (case route_in m v xs rr of Some r \<Rightarrow> Some r | None \<Rightarrow> first_route m v xs rrs)"

definition text_matches :: "seg \<Rightarrow> string \<Rightarrow> bool" where
  "text_matches = seg_matches (\<lambda>l x. x = l) (\<lambda>x. x \<noteq> [])"

text \<open>The server's answer to a verb and a path.\<close>

definition serve :: "router list \<Rightarrow> verb \<Rightarrow> string \<Rightarrow> route option" where
  "serve rrs v path =
     (case after_prefix text_matches [Lit [], Lit ''api'', Lit ''v1''] (js_split CHR ''/'' path) of
        None \<Rightarrow> None
      | Some xs \<Rightarrow> first_route text_matches v xs rrs)"

subsection \<open>The routers\<close>

definition api_keys_routes :: router where
  "api_keys_routes = router [Lit ''api-keys'']
     [route GET [] [] False ''api_keys.list_keys'',
      route POST [] [] True ''api_keys.create_key'',
      route DELETE [Par ''key_id''] [] False ''api_keys.revoke_key'']"

definition auth_routes :: router where
  "auth_routes = router [Lit ''auth'']
     [route POST [Lit ''login''] [] True ''auth.login'',
      route POST [Lit ''refresh''] [] True ''auth.refresh_session'',
      route POST [Lit ''logout''] [] True ''auth.logout'',
      route GET [Lit ''me''] [] False ''auth.get_current_user_info'']"

definition admin_routes :: router where
  "admin_routes = router [Lit ''admin'']
     [route GET [Lit ''tenants''] [''limit'', ''offset''] False ''admin.list_tenants'',
      route POST [Lit ''tenants''] [] True ''admin.create_tenant'',
      route GET [Lit ''tenants'', Par ''tenant_id''] [] False ''admin.get_tenant'',
      route PATCH [Lit ''tenants'', Par ''tenant_id''] [] True ''admin.update_tenant'',
      route POST [Lit ''tenants'', Par ''tenant_id'', Lit ''disable''] [] False ''admin.disable_tenant'',
      route GET [Lit ''tenants'', Par ''tenant_id'', Lit ''users''] [''limit'', ''offset''] False
        ''admin.list_tenant_users'',
      route POST [Lit ''tenants'', Par ''tenant_id'', Lit ''users''] [] True ''admin.create_tenant_user'',
      route PATCH [Lit ''tenants'', Par ''tenant_id'', Lit ''users'', Par ''user_id''] [] True
        ''admin.update_tenant_user'',
      route PATCH [Lit ''tenants'', Par ''tenant_id'', Lit ''users'', Par ''user_id'', Lit ''role''] [] True
        ''admin.set_tenant_user_role'',
      route POST [Lit ''tenants'', Par ''tenant_id'', Lit ''users'', Par ''user_id'', Lit ''deactivate''] [] False
        ''admin.deactivate_tenant_user'',
      route POST [Lit ''tenants'', Par ''tenant_id'', Lit ''users'', Par ''user_id'', Lit ''reactivate''] [] False
        ''admin.reactivate_tenant_user'',
      route POST [Lit ''tenants'', Par ''tenant_id'', Lit ''users'', Par ''user_id'', Lit ''reset-password''] []
        True ''admin.reset_user_password'',
      route POST [Lit ''tenants'', Par ''tenant_id'', Lit ''sign-in-as''] [] False ''admin.sign_in_as_tenant'']"

definition tenant_admin_routes :: router where
  "tenant_admin_routes = router [Lit ''tenant'']
     [route GET [Lit ''settings''] [] False ''tenant_admin.get_settings'',
      route PATCH [Lit ''settings''] [] True ''tenant_admin.update_settings'',
      route GET [Lit ''users''] [''limit'', ''offset''] False ''tenant_admin.list_users'',
      route GET [Lit ''users'', Lit ''lite''] [''limit'', ''offset''] False ''tenant_admin.list_users_lite'',
      route POST [Lit ''users''] [] True ''tenant_admin.create_user'',
      route GET [Lit ''users'', Par ''user_id''] [] False ''tenant_admin.get_user'',
      route PATCH [Lit ''users'', Par ''user_id''] [] True ''tenant_admin.update_user'',
      route PATCH [Lit ''users'', Par ''user_id'', Lit ''role''] [] True ''tenant_admin.set_user_role'',
      route POST [Lit ''users'', Par ''user_id'', Lit ''deactivate''] [] False ''tenant_admin.deactivate_user'',
      route POST [Lit ''users'', Par ''user_id'', Lit ''reactivate''] [] False ''tenant_admin.reactivate_user'',
      route GET [Lit ''scope-change-rules''] [] False ''tenant_admin.get_scope_change_rules'',
      route GET [Lit ''scope-change-rules'', Lit ''kinds''] [] False ''tenant_admin.get_scope_change_kinds'',
      route PUT [Lit ''scope-change-rules''] [] True ''tenant_admin.upsert_scope_change_rules'']"

definition tenant_admin_fields_routes :: router where
  "tenant_admin_fields_routes = router [Lit ''tenant'']
     [route GET [Lit ''raid-config''] [] False ''tenant_admin_fields.get_raid_config'',
      route PUT [Lit ''raid-config''] [] True ''tenant_admin_fields.update_raid_config'',
      route GET [Lit ''environment-naming-policy''] [] False ''tenant_admin_fields.get_environment_naming_policy'',
      route PUT [Lit ''environment-naming-policy''] [] True ''tenant_admin_fields.put_environment_naming_policy'',
      route POST [Lit ''environment-naming-policy'', Lit ''preview''] [] True
        ''tenant_admin_fields.preview_environment_naming_policy'',
      route GET [Lit ''environment-lifecycle-policy''] [] False
        ''tenant_admin_fields.get_environment_lifecycle_policy'',
      route PUT [Lit ''environment-lifecycle-policy''] [] True
        ''tenant_admin_fields.put_environment_lifecycle_policy'',
      route GET [Lit ''decommission-steps''] [''active_only''] False
        ''tenant_admin_fields.list_decommission_steps'',
      route POST [Lit ''decommission-steps''] [] True ''tenant_admin_fields.create_decommission_step'',
      route PATCH [Lit ''decommission-steps'', Par ''step_id''] [] True
        ''tenant_admin_fields.update_decommission_step'',
      route DELETE [Lit ''decommission-steps'', Par ''step_id''] [] False
        ''tenant_admin_fields.delete_decommission_step'',
      route GET [Lit ''fields''] [''entity_type''] False ''tenant_admin_fields.list_fields'',
      route POST [Lit ''fields''] [] True ''tenant_admin_fields.create_field'',
      route PATCH [Lit ''fields'', Par ''field_id''] [] True ''tenant_admin_fields.update_field'',
      route DELETE [Lit ''fields'', Par ''field_id''] [] False ''tenant_admin_fields.delete_field'']"

definition systems_routes :: router where
  "systems_routes = router [Lit ''systems'']
     [route GET [Lit ''''] [''search'', ''limit'', ''offset'', ''sort_by'', ''sort_dir''] False
       ''systems.list_systems'',
      route POST [Lit ''''] [] True ''systems.create_system'',
      route GET [Par ''system_id''] [] False ''systems.get_system'',
      route PATCH [Par ''system_id''] [] True ''systems.update_system'',
      route DELETE [Par ''system_id''] [] False ''systems.delete_system'',
      route POST [Par ''system_id'', Lit ''github'', Lit ''scan''] [] False ''systems.scan_system_repository'',
      route GET [Par ''system_id'', Lit ''github'', Lit ''drift''] [] False ''systems.system_repository_drift'',
      route GET [Par ''system_id'', Lit ''subsystems''] [] False ''systems.list_subsystems'',
      route POST [Par ''system_id'', Lit ''subsystems''] [] True ''systems.create_subsystem'',
      route GET [Par ''system_id'', Lit ''subsystems'', Par ''sub_id''] [] False ''systems.get_subsystem'',
      route PATCH [Par ''system_id'', Lit ''subsystems'', Par ''sub_id''] [] True ''systems.update_subsystem'',
      route DELETE [Par ''system_id'', Lit ''subsystems'', Par ''sub_id''] [] False ''systems.delete_subsystem'',
      route GET [Par ''system_id'', Lit ''rollback-rehearsals''] [] False ''systems.list_rollback_rehearsals'',
      route POST [Par ''system_id'', Lit ''rollback-rehearsals''] [] True ''systems.record_rollback_rehearsal'']"

definition environment_health_routes :: router where
  "environment_health_routes = router [Lit ''environments'']
     [route POST [Par ''env_id'', Lit ''health''] [] True ''environment_health.push_health'',
      route GET [Par ''env_id'', Lit ''health'', Lit ''history''] [''limit'', ''offset''] False
        ''environment_health.health_history'',
      route GET [Lit ''health''] [''limit'', ''offset''] False ''environment_health.health_overview'']"

definition environment_operating_hours_routes :: router where
  "environment_operating_hours_routes = router [Lit ''environments'']
     [route GET [Par ''env_id'', Lit ''operating-hours''] [] False
       ''environment_operating_hours.get_operating_hours'',
      route PUT [Par ''env_id'', Lit ''operating-hours''] [] True
        ''environment_operating_hours.put_operating_hours'',
      route GET [Par ''env_id'', Lit ''utilization''] [''date_from'', ''date_to''] False
        ''environment_operating_hours.get_environment_utilization'']"

definition environments_routes :: router where
  "environments_routes = router [Lit ''environments'']
     [route GET [Lit ''''] [''tier_id'', ''owner_user_id'', ''operations_group_id'', ''expiring_within_days'',
       ''governance_gap'', ''compliance_gap'', ''quarantined'', ''idle'', ''search'', ''status'', ''limit'',
         ''offset'', ''sort_by'', ''sort_dir''] False ''environments.list_environments'',
      route POST [Lit ''''] [] True ''environments.create_environment'',
      route GET [Lit ''compare''] [''left'', ''right''] False ''environments.compare_environments_endpoint'',
      route GET [Par ''env_id''] [] False ''environments.get_environment'',
      route PATCH [Par ''env_id''] [] True ''environments.update_environment'',
      route PATCH [Par ''env_id'', Lit ''handover''] [] True ''environments.update_environment_handover'',
      route DELETE [Par ''env_id''] [] False ''environments.delete_environment'',
      route GET [Par ''env_id'', Lit ''verify''] [] False ''environments.verify_environment'',
      route GET [Par ''env_id'', Lit ''schedule''] [''start_date'', ''end_date''] False
        ''environments.get_environment_schedule'',
      route GET [Par ''env_id'', Lit ''systems''] [] False ''environments.list_systems_in_environment'',
      route POST [Par ''env_id'', Lit ''systems''] [] True ''environments.add_system_to_environment'',
      route PATCH [Par ''env_id'', Lit ''systems'', Par ''system_id''] [] True
        ''environments.update_system_in_environment'',
      route DELETE [Par ''env_id'', Lit ''systems'', Par ''system_id''] [] False
        ''environments.remove_system_from_environment'',
      route GET [Par ''env_id'', Lit ''subsystems''] [] False ''environments.list_environment_subsystems'',
      route PATCH [Par ''env_id'', Lit ''subsystems'', Par ''subsystem_id''] [] True
        ''environments.update_environment_subsystem'',
      route GET [Par ''env_id'', Lit ''subsystems'', Par ''subsystem_id'', Lit ''hosts''] [] False
        ''environments.list_env_subsystem_hosts'',
      route PUT [Par ''env_id'', Lit ''subsystems'', Par ''subsystem_id'', Lit ''hosts''] [] True
        ''environments.set_env_subsystem_hosts'',
      route GET [Par ''env_id'', Lit ''topology''] [] False ''environments.get_environment_topology'',
      route GET [Par ''env_id'', Lit ''versions''] [''current_only'', ''limit'', ''offset''] False
        ''environments.list_versions'',
      route POST [Par ''env_id'', Lit ''versions''] [] True ''environments.record_version'',
      route PATCH [Par ''env_id'', Lit ''versions'', Par ''version_id''] [] True ''environments.update_version'',
      route DELETE [Par ''env_id'', Lit ''versions'', Par ''version_id''] [] False ''environments.delete_version'',
      route GET [Par ''env_id'', Lit ''usage-agreements''] [''limit'', ''offset''] False
        ''environments.list_environment_usage_agreements'',
      route GET [Par ''env_id'', Lit ''groups''] [''limit'', ''offset''] False
        ''environments.list_environment_groups_for_environment'']"

definition environment_tiers_routes :: router where
  "environment_tiers_routes = router [Lit ''environment-tiers'']
     [route GET [Lit ''''] [''limit'', ''offset'', ''sort_by'', ''sort_dir''] False
       ''environment_tiers.list_environment_tiers'',
      route POST [Lit ''''] [] True ''environment_tiers.create_environment_tier'',
      route GET [Par ''tier_id''] [] False ''environment_tiers.get_environment_tier'',
      route PATCH [Par ''tier_id''] [] True ''environment_tiers.update_environment_tier'',
      route DELETE [Par ''tier_id''] [] False ''environment_tiers.delete_environment_tier'']"

definition dependencies_routes :: router where
  "dependencies_routes = router []
     [route GET [Lit ''systems'', Par ''system_id'', Lit ''dependencies''] [''limit'', ''offset''] False
       ''dependencies.list_system_dependencies'',
      route POST [Lit ''systems'', Par ''system_id'', Lit ''dependencies''] [] True
        ''dependencies.create_system_dependency'',
      route DELETE [Lit ''systems'', Par ''system_id'', Lit ''dependencies'', Par ''dep_id''] [] False
        ''dependencies.delete_system_dependency'',
      route PATCH [Lit ''systems'', Par ''system_id'', Lit ''dependencies'', Par ''dep_id''] [] True
        ''dependencies.update_system_dependency'',
      route GET [Lit ''subsystems'', Par ''subsystem_id'', Lit ''dependencies''] [''limit'', ''offset''] False
        ''dependencies.list_component_dependencies'',
      route POST [Lit ''subsystems'', Par ''subsystem_id'', Lit ''dependencies''] [] True
        ''dependencies.create_component_dependency'',
      route DELETE [Lit ''subsystems'', Par ''subsystem_id'', Lit ''dependencies'', Par ''dep_id''] [] False
        ''dependencies.delete_component_dependency'',
      route PATCH [Lit ''subsystems'', Par ''subsystem_id'', Lit ''dependencies'', Par ''dep_id''] [] True
        ''dependencies.update_component_dependency'',
      route POST [Lit ''subsystems'', Par ''subsystem_id'', Lit ''dependencies'', Par ''dep_id'', Lit
        ''endpoints''] [] True ''dependencies.create_component_endpoint'',
      route PATCH [Lit ''subsystems'', Par ''subsystem_id'', Lit ''dependencies'', Par ''dep_id'', Lit
        ''endpoints'', Par ''endpoint_id''] [] True ''dependencies.update_component_endpoint'',
      route DELETE [Lit ''subsystems'', Par ''subsystem_id'', Lit ''dependencies'', Par ''dep_id'', Lit
        ''endpoints'', Par ''endpoint_id''] [] False ''dependencies.delete_component_endpoint'']"

definition bookings_routes :: router where
  "bookings_routes = router [Lit ''bookings'']
     [route GET [Lit ''''] [''environment_id'', ''start'', ''end'', ''booking_status'', ''project_id'',
       ''agreement_gap'', ''protection'', ''active'', ''limit'', ''offset'', ''sort_by'', ''sort_dir''] False
         ''bookings.list_bookings'',
      route POST [Lit ''''] [] True ''bookings.create_booking'',
      route GET [Lit ''contention-horizon''] [''weeks''] False ''bookings.get_contention_horizon'',
      route GET [Par ''booking_id''] [] False ''bookings.get_booking'',
      route PATCH [Par ''booking_id'', Lit ''standard-fields''] [] True ''bookings.update_standard_fields'',
      route POST [Par ''booking_id'', Lit ''transition''] [] True ''bookings.transition_booking_state'',
      route GET [Par ''booking_id'', Lit ''history''] [] False ''bookings.get_booking_history'',
      route GET [Par ''booking_id'', Lit ''allowed-transitions''] [] False
        ''bookings.get_allowed_transitions_for_booking'',
      route PUT [Par ''booking_id'', Lit ''agreement-gap'', Lit ''ack''] [] True ''bookings.ack_agreement_gap'',
      route DELETE [Par ''booking_id''] [] False ''bookings.delete_series'',
      route DELETE [Par ''booking_id'', Lit ''occurrence''] [] False ''bookings.delete_occurrence'']"

definition import_routes_routes :: router where
  "import_routes_routes = router [Lit ''import'']
     [route POST [Lit ''environments''] [] True ''import_routes.import_environments_endpoint'',
      route POST [Lit ''systems''] [] True ''import_routes.import_systems_endpoint'',
      route POST [Lit ''docker-compose''] [] True ''import_routes.import_docker_compose_endpoint'',
      route POST [Lit ''terraform''] [] True ''import_routes.import_terraform_endpoint'']"

definition topology_routes :: router where
  "topology_routes = router []
     [route GET [Lit ''systems'', Par ''system_id'', Lit ''topology''] [] False ''topology.get_system_topology'']"

definition booking_lifecycle_routes :: router where
  "booking_lifecycle_routes = router [Lit ''tenant'']
     [route GET [Lit ''lifecycle-templates''] [''entity_type''] False
       ''booking_lifecycle.list_lifecycle_templates'',
      route POST [Lit ''lifecycle-templates''] [] True ''booking_lifecycle.create_lifecycle_template'',
      route GET [Lit ''lifecycle-templates'', Par ''template_id''] [] False
        ''booking_lifecycle.get_lifecycle_template'',
      route DELETE [Lit ''lifecycle-templates'', Par ''template_id''] [] False
        ''booking_lifecycle.delete_lifecycle_template'',
      route PUT [Lit ''lifecycle-templates'', Par ''template_id''] [] True
        ''booking_lifecycle.update_lifecycle_template'',
      route POST [Lit ''lifecycle-templates'', Par ''template_id'', Lit ''copy''] [] True
        ''booking_lifecycle.copy_lifecycle_template'',
      route GET [Lit ''booking-types''] [] False ''booking_lifecycle.list_booking_types'',
      route POST [Lit ''booking-types''] [] True ''booking_lifecycle.create_booking_type'',
      route GET [Lit ''booking-types'', Par ''type_id''] [] False ''booking_lifecycle.get_booking_type'',
      route DELETE [Lit ''booking-types'', Par ''type_id''] [] False ''booking_lifecycle.delete_booking_type'',
      route PUT [Lit ''booking-types'', Par ''type_id''] [] True ''booking_lifecycle.update_booking_type'']"

definition component_types_routes :: router where
  "component_types_routes = router [Lit ''component-types'']
     [route GET [Lit ''''] [] False ''component_types.list_component_types'',
      route POST [Lit ''''] [] True ''component_types.create_component_type'',
      route GET [Par ''definition_id''] [] False ''component_types.get_component_type'',
      route PATCH [Par ''definition_id''] [] True ''component_types.update_component_type'',
      route DELETE [Par ''definition_id''] [] False ''component_types.delete_component_type'']"

definition booking_requests_routes :: router where
  "booking_requests_routes = router [Lit ''booking-requests'']
     [route POST [] [] True ''booking_requests.create_booking_request'',
      route POST [Lit ''preview-conflicts''] [] True ''booking_requests.preview_conflicts'',
      route GET [] [''project_id'', ''limit'', ''offset''] False ''booking_requests.list_booking_requests'',
      route GET [Par ''request_id''] [] False ''booking_requests.get_booking_request'',
      route PATCH [Par ''request_id'', Lit ''standard-fields''] [] True
        ''booking_requests.update_request_standard_fields'',
      route PATCH [Par ''request_id'', Lit ''custom-fields''] [] True
        ''booking_requests.update_request_custom_fields'',
      route POST [Par ''request_id'', Lit ''environments''] [] True ''booking_requests.add_environment_to_request'',
      route DELETE [Par ''request_id'', Lit ''environments'', Par ''booking_id''] [] False
        ''booking_requests.remove_environment_from_request'',
      route POST [Par ''request_id'', Lit ''groups'', Par ''group_id'', Lit ''transition''] [] True
        ''booking_requests.transition_group_bookings'',
      route GET [Par ''request_id'', Lit ''groups'', Par ''group_id'', Lit ''allowed-transitions''] [] False
        ''booking_requests.get_group_allowed_transitions_route'']"

definition conflicts_routes :: router where
  "conflicts_routes = router [Lit ''bookings'']
     [route GET [Par ''booking_id'', Lit ''conflicts''] [''limit'', ''offset''] False ''conflicts.list_conflicts'',
      route PUT [Par ''booking_id'', Lit ''conflicts'', Par ''other_id'', Lit ''ack''] [] True
        ''conflicts.ack_conflict'',
      route GET [Par ''booking_id'', Lit ''received-feedback''] [''limit'', ''offset''] False
        ''conflicts.list_received_feedback'']"

definition me_routes :: router where
  "me_routes = router [Lit ''me'']
     [route GET [Lit ''work''] [] False ''me.my_work'']"

definition contentions_routes :: router where
  "contentions_routes = router [Lit ''bookings'']
     [route POST [Par ''booking_id'', Lit ''contentions'', Par ''other_id'', Lit ''escalate''] [] True
       ''contentions.escalate_contention'']"

definition contentions_escalations_routes :: router where
  "contentions_escalations_routes = router [Lit ''contention-escalations'']
     [route GET [] [''state'', ''owner_user_id'', ''limit'', ''offset'', ''sort_by'', ''sort_dir''] False
       ''contentions.list_contention_escalations'',
      route PUT [Par ''escalation_id'', Lit ''decision''] [] True ''contentions.decide_contention'']"

definition decommissions_routes :: router where
  "decommissions_routes = router [Lit ''environments'']
     [route POST [Par ''environment_id'', Lit ''decommission''] [] True ''decommissions.initiate_decommission'',
      route GET [Par ''environment_id'', Lit ''decommission''] [] False ''decommissions.get_decommission'']"

definition decommissions_extensions_routes :: router where
  "decommissions_extensions_routes = router [Lit ''decommissions'']
     [route GET [] [''state'', ''mine'', ''limit'', ''offset'', ''sort_by'', ''sort_dir''] False
       ''decommissions.list_decommission_worklist'',
      route POST [Par ''decommission_id'', Lit ''extension''] [] True
        ''decommissions.request_decommission_extension'',
      route POST [Par ''decommission_id'', Lit ''extension'', Lit ''decision''] [] True
        ''decommissions.decide_decommission_extension'',
      route POST [Par ''decommission_id'', Lit ''attestations''] [] True
        ''decommissions.sign_decommission_attestation'',
      route POST [Par ''decommission_id'', Lit ''teardown''] [] False ''decommissions.tear_down_decommission'',
      route POST [Par ''decommission_id'', Lit ''cancel''] [] True ''decommissions.cancel_decommission'']"

definition change_requests_routes :: router where
  "change_requests_routes = router [Lit ''change-requests'']
     [route GET [] [''environment_id'', ''host_id'', ''subsystem_id'', ''status'', ''scheduled_from'',
       ''scheduled_to'', ''limit'', ''offset'', ''sort_by'', ''sort_dir''] False
         ''change_requests.list_change_requests'',
      route POST [] [] True ''change_requests.create_change_request'',
      route POST [Lit ''preview-outage-conflicts''] [] True ''change_requests.preview_outage_conflicts'',
      route GET [Par ''cr_id''] [] False ''change_requests.get_change_request_detail'',
      route PATCH [Par ''cr_id''] [] True ''change_requests.update_change_request'',
      route POST [Par ''cr_id'', Lit ''transition''] [] True ''change_requests.transition_change_request'',
      route GET [Par ''cr_id'', Lit ''allowed-transitions''] [] False ''change_requests.get_allowed_transitions'',
      route DELETE [Par ''cr_id''] [] False ''change_requests.delete_change_request'']"

definition infrastructure_components_routes :: router where
  "infrastructure_components_routes = router [Lit ''infrastructure-components'']
     [route GET [Lit ''''] [''provider'', ''region'', ''search'', ''component_type'', ''source'', ''limit'',
       ''offset'', ''sort_by'', ''sort_dir''] False ''infrastructure_components.list_components'',
      route POST [Lit ''''] [] True ''infrastructure_components.create_component'',
      route GET [Lit ''impact''] [''host_ids''] False ''infrastructure_components.host_impact'',
      route GET [Par ''component_id''] [] False ''infrastructure_components.get_component'',
      route PATCH [Par ''component_id''] [] True ''infrastructure_components.update_component'',
      route DELETE [Par ''component_id''] [] False ''infrastructure_components.delete_component'']"

definition pir_routes :: router where
  "pir_routes = router [Lit ''releases'']
     [route GET [Par ''release_id'', Lit ''pir''] [] False ''pir.get_pir'',
      route POST [Par ''release_id'', Lit ''pir''] [] True ''pir.create_pir'',
      route PATCH [Par ''release_id'', Lit ''pir''] [] True ''pir.update_pir'',
      route DELETE [Par ''release_id'', Lit ''pir''] [] False ''pir.delete_pir'',
      route POST [Par ''release_id'', Lit ''pir'', Lit ''findings''] [] True ''pir.create_finding'',
      route PATCH [Par ''release_id'', Lit ''pir'', Lit ''findings'', Par ''finding_id''] [] True
        ''pir.update_finding'',
      route DELETE [Par ''release_id'', Lit ''pir'', Lit ''findings'', Par ''finding_id''] [] False
        ''pir.delete_finding'',
      route POST [Par ''release_id'', Lit ''pir'', Lit ''findings'', Par ''finding_id'', Lit ''actions''] [] True
        ''pir.create_action'',
      route PATCH [Par ''release_id'', Lit ''pir'', Lit ''findings'', Par ''finding_id'', Lit ''actions'', Par
        ''action_id''] [] True ''pir.update_action'',
      route DELETE [Par ''release_id'', Lit ''pir'', Lit ''findings'', Par ''finding_id'', Lit ''actions'', Par
        ''action_id''] [] False ''pir.delete_action'',
      route POST [Par ''release_id'', Lit ''pir'', Lit ''findings'', Par ''finding_id'', Lit ''incidents''] [] True
        ''pir.cite_incident'',
      route DELETE [Par ''release_id'', Lit ''pir'', Lit ''findings'', Par ''finding_id'', Lit ''incidents'', Par
        ''incident_id''] [] False ''pir.uncite_incident'']"

definition pir_actions_routes :: router where
  "pir_actions_routes = router [Lit ''pir-actions'']
     [route GET [] [''status'', ''owner_id'', ''overdue'', ''release_id'', ''incident_id'', ''limit'', ''offset'',
       ''sort_by'', ''sort_dir''] False ''pir_actions.list_pir_actions'']"

definition enterprise_rollup_routes :: router where
  "enterprise_rollup_routes = router []
     [route GET [Lit ''releases'', Par ''enterprise_id'', Lit ''rollup'', Lit ''systems''] [] False
       ''enterprise_rollup.systems_rollup'',
      route GET [Lit ''releases'', Par ''enterprise_id'', Lit ''rollup'', Lit ''scope''] [''change_kind'',
        ''status'', ''project_release_id'', ''system_id'', ''search'', ''limit'', ''offset''] False
          ''enterprise_rollup.scope_rollup'',
      route GET [Lit ''releases'', Par ''enterprise_id'', Lit ''rollup'', Lit ''timeline''] [] False
        ''enterprise_rollup.timeline_rollup'',
      route GET [Lit ''releases'', Par ''enterprise_id'', Lit ''rollup'', Lit ''members''] [] False
        ''enterprise_rollup.members_rollup'',
      route GET [Lit ''releases'', Par ''enterprise_id'', Lit ''rollup'', Lit ''raid''] [] False
        ''enterprise_rollup.raid_rollup'',
      route GET [Lit ''releases'', Par ''enterprise_id'', Lit ''report''] [] False
        ''enterprise_rollup.enterprise_report'']"

definition enterprise_memberships_routes :: router where
  "enterprise_memberships_routes = router []
     [route POST [Lit ''releases'', Par ''enterprise_id'', Lit ''memberships''] [] True
       ''enterprise_memberships.request_membership'',
      route GET [Lit ''releases'', Par ''enterprise_id'', Lit ''memberships''] [''states'', ''limit'', ''offset'']
        False ''enterprise_memberships.list_memberships'',
      route POST [Lit ''releases'', Par ''enterprise_id'', Lit ''memberships'', Par ''membership_id'', Lit
        ''accept''] [] False ''enterprise_memberships.accept_membership'',
      route POST [Lit ''releases'', Par ''enterprise_id'', Lit ''memberships'', Par ''membership_id'', Lit
        ''reject''] [] True ''enterprise_memberships.reject_membership'',
      route POST [Lit ''releases'', Par ''enterprise_id'', Lit ''memberships'', Par ''membership_id'', Lit
        ''withdraw''] [] False ''enterprise_memberships.withdraw_membership'',
      route POST [Lit ''releases'', Par ''enterprise_id'', Lit ''memberships'', Par ''membership_id'', Lit
        ''remove''] [] True ''enterprise_memberships.remove_membership'',
      route GET [Lit ''releases'', Par ''project_release_id'', Lit ''membership''] [''limit'', ''offset''] False
        ''enterprise_memberships.project_membership_view'']"

definition releases_routes :: router where
  "releases_routes = router [Lit ''releases'']
     [route GET [] [''release_type'', ''status'', ''date_from'', ''date_to'', ''owner_id'', ''search'',
       ''release_kind'', ''system_id'', ''project_id'', ''scope_window'', ''implemented'', ''open'', ''limit'',
         ''offset'', ''sort_by'', ''sort_dir''] False ''releases.list_releases'',
      route POST [] [] True ''releases.create_release'',
      route GET [Lit ''calendar''] [''date_from'', ''date_to'', ''limit'', ''offset''] False
        ''releases.get_releases_calendar'',
      route GET [Lit ''timeline''] [''date_from'', ''date_to'', ''limit'', ''offset''] False
        ''releases.get_releases_timeline'',
      route GET [Lit ''scope-churn-analytics''] [''date_from'', ''date_to''] False
        ''releases.get_scope_churn_analytics'',
      route GET [Par ''release_id''] [] False ''releases.get_release'',
      route PUT [Par ''release_id''] [] True ''releases.update_release'',
      route DELETE [Par ''release_id''] [] False ''releases.delete_release'',
      route POST [Par ''release_id'', Lit ''transition''] [] True ''releases.transition_release'',
      route GET [Par ''release_id'', Lit ''lifecycle''] [] False ''releases.get_release_lifecycle'',
      route GET [Par ''release_id'', Lit ''history''] [''limit'', ''offset''] False
        ''releases.get_release_history'',
      route GET [Par ''release_id'', Lit ''readiness''] [] False ''releases.get_release_readiness'',
      route GET [Par ''release_id'', Lit ''phases''] [] False ''releases.list_phases'',
      route POST [Par ''release_id'', Lit ''phases''] [] True ''releases.create_phase'',
      route GET [Par ''release_id'', Lit ''gates''] [] False ''releases.list_gates'',
      route POST [Par ''release_id'', Lit ''gates''] [] True ''releases.create_gate'',
      route GET [Par ''release_id'', Lit ''systems''] [''limit'', ''offset''] False
        ''releases.list_release_systems'',
      route GET [Par ''release_id'', Lit ''environment-coverage''] [] False ''releases.get_environment_coverage'',
      route POST [Par ''release_id'', Lit ''systems''] [] True ''releases.add_release_system'',
      route GET [Par ''release_id'', Lit ''dependencies''] [''limit'', ''offset''] False
        ''releases.list_dependencies'',
      route POST [Par ''release_id'', Lit ''dependencies''] [] True ''releases.create_dependency'',
      route GET [Par ''release_id'', Lit ''dependency-alerts''] [] False ''releases.get_dependency_alerts'',
      route POST [Par ''release_id'', Lit ''dependency-alerts'', Par ''dep_id'', Lit ''acknowledge''] [] False
        ''releases.acknowledge_dependency_alert'',
      route GET [Par ''release_id'', Lit ''events''] [''limit'', ''offset''] False ''releases.list_events'',
      route POST [Par ''release_id'', Lit ''events''] [] True ''releases.create_event'',
      route GET [Par ''release_id'', Lit ''changes''] [''limit'', ''offset''] False ''releases.list_changes'',
      route POST [Par ''release_id'', Lit ''changes''] [] True ''releases.create_change'',
      route POST [Par ''release_id'', Lit ''scope'', Lit ''import''] [] True ''releases.import_scope'',
      route GET [Lit ''scope'', Lit ''import-template''] [] False ''releases.scope_import_template'',
      route GET [Par ''release_id'', Lit ''bookings''] [''limit'', ''offset''] False
        ''releases.list_release_bookings'',
      route POST [Par ''release_id'', Lit ''bookings''] [] True ''releases.create_release_booking'',
      route POST [Par ''release_id'', Lit ''bookings'', Lit ''bulk''] [] True
        ''releases.bulk_book_release_environments'',
      route GET [Par ''release_id'', Lit ''change-requests''] [''limit'', ''offset''] False
        ''releases.list_linked_crs'',
      route POST [Par ''release_id'', Lit ''change-requests'', Par ''cr_id'', Lit ''link''] [] False
        ''releases.link_cr_to_release'',
      route DELETE [Par ''release_id'', Lit ''change-requests'', Par ''cr_id'', Lit ''link''] [] False
        ''releases.unlink_cr_from_release'',
      route GET [Par ''release_id'', Lit ''rollback-plans''] [] False ''releases.list_rollback_plans'',
      route PUT [Par ''release_id'', Lit ''rollback-plans''] [] True ''releases.upsert_rollback_plan'',
      route POST [Par ''release_id'', Lit ''rollback-plans'', Par ''plan_id'', Lit ''agree''] [] False
        ''releases.agree_rollback_plan'',
      route DELETE [Par ''release_id'', Lit ''rollback-plans'', Par ''plan_id''] [] False
        ''releases.delete_rollback_plan'',
      route GET [Par ''release_id'', Lit ''rollback-authorisations''] [] False
        ''releases.list_rollback_authorisations'',
      route POST [Par ''release_id'', Lit ''rollback-authorisations''] [] True
        ''releases.create_rollback_authorisation'',
      route POST [Par ''release_id'', Lit ''go-no-go''] [] True ''releases.record_go_no_go_decision'',
      route GET [Par ''release_id'', Lit ''go-no-go''] [''limit'', ''offset'', ''sort_by'', ''sort_dir''] False
        ''releases.list_go_no_go_decisions'']"

definition releases_phases_routes :: router where
  "releases_phases_routes = router [Lit ''phases'']
     [route PUT [Par ''phase_id''] [] True ''releases.update_phase'',
      route DELETE [Par ''phase_id''] [] False ''releases.delete_phase'']"

definition releases_gates_routes :: router where
  "releases_gates_routes = router [Lit ''gates'']
     [route PUT [Par ''gate_id''] [] True ''releases.update_gate'',
      route DELETE [Par ''gate_id''] [] False ''releases.delete_gate'',
      route POST [Par ''gate_id'', Lit ''pass''] [] True ''releases.pass_gate'',
      route POST [Par ''gate_id'', Lit ''fail''] [] True ''releases.fail_gate'',
      route POST [Par ''gate_id'', Lit ''override''] [] True ''releases.override_gate'',
      route GET [Par ''gate_id'', Lit ''evidence''] [] False ''releases.list_gate_evidence'',
      route POST [Par ''gate_id'', Lit ''evidence''] [] True ''releases.add_gate_evidence'',
      route DELETE [Lit ''evidence'', Par ''evidence_id''] [] False ''releases.delete_gate_evidence'']"

definition releases_release_systems_routes :: router where
  "releases_release_systems_routes = router [Lit ''release-systems'']
     [route DELETE [Par ''rs_id''] [] False ''releases.remove_release_system'']"

definition releases_release_deps_routes :: router where
  "releases_release_deps_routes = router [Lit ''release-dependencies'']
     [route DELETE [Par ''dep_id''] [] False ''releases.delete_dependency'']"

definition releases_release_changes_routes :: router where
  "releases_release_changes_routes = router [Lit ''release-changes'']
     [route PUT [Par ''change_id''] [] True ''releases.update_change'',
      route DELETE [Par ''change_id''] [] False ''releases.delete_change'',
      route GET [] [''backlog'', ''limit'', ''offset''] False ''releases.list_changes_flat'',
      route POST [Par ''change_id'', Lit ''move''] [] True ''releases.move_change'',
      route GET [Par ''change_id'', Lit ''release-history''] [] False ''releases.get_release_history'',
      route GET [Par ''change_id'', Lit ''status-history''] [] False ''releases.get_status_history'']"

definition release_templates_routes :: router where
  "release_templates_routes = router [Lit ''release-templates'']
     [route GET [] [] False ''release_templates.list_templates'',
      route POST [] [] True ''release_templates.create_template'',
      route GET [Par ''template_id''] [] False ''release_templates.get_template'',
      route PUT [Par ''template_id''] [] True ''release_templates.update_template'',
      route DELETE [Par ''template_id''] [] False ''release_templates.delete_template'',
      route POST [Par ''template_id'', Lit ''instantiate''] [] True ''release_templates.instantiate_template'']"

definition release_event_types_routes :: router where
  "release_event_types_routes = router [Lit ''release-event-types'']
     [route GET [] [] False ''release_event_types.list_event_types'',
      route POST [] [] True ''release_event_types.create_event_type'',
      route PUT [Par ''type_id''] [] True ''release_event_types.update_event_type'',
      route DELETE [Par ''type_id''] [] False ''release_event_types.delete_event_type'']"

definition gate_criteria_release_sub_routes :: router where
  "gate_criteria_release_sub_routes = router [Lit ''releases'']
     [route POST [Par ''release_id'', Lit ''gates'', Par ''gate_id'', Lit ''criteria''] [] True
       ''gate_criteria.create_criterion'',
      route GET [Par ''release_id'', Lit ''gates'', Par ''gate_id'', Lit ''criteria''] [] False
        ''gate_criteria.list_criteria'',
      route GET [Par ''release_id'', Lit ''overdue-criteria''] [] False ''gate_criteria.list_overdue'']"

definition gate_criteria_routes :: router where
  "gate_criteria_routes = router [Lit ''gate-criteria'']
     [route PUT [Par ''criterion_id''] [] True ''gate_criteria.update_criterion'',
      route POST [Par ''criterion_id'', Lit ''complete''] [] False ''gate_criteria.complete_criterion'',
      route POST [Par ''criterion_id'', Lit ''reopen''] [] False ''gate_criteria.reopen_criterion'',
      route DELETE [Par ''criterion_id''] [] False ''gate_criteria.delete_criterion'']"

definition raid_routes :: router where
  "raid_routes = router [Lit ''releases'']
     [route GET [Par ''release_id'', Lit ''raid''] [''item_type'', ''status'', ''owner_id'', ''rag'', ''overdue'',
       ''limit'', ''offset''] False ''raid.list_raid'',
      route POST [Par ''release_id'', Lit ''raid''] [] True ''raid.create_raid'',
      route GET [Par ''release_id'', Lit ''raid'', Lit ''summary''] [] False ''raid.raid_summary'',
      route GET [Par ''release_id'', Lit ''raid'', Par ''item_id''] [] False ''raid.get_raid'',
      route PATCH [Par ''release_id'', Lit ''raid'', Par ''item_id''] [] True ''raid.update_raid'',
      route POST [Par ''release_id'', Lit ''raid'', Par ''item_id'', Lit ''promote''] [] True ''raid.promote_raid'',
      route DELETE [Par ''release_id'', Lit ''raid'', Par ''item_id''] [] False ''raid.delete_raid'',
      route GET [Par ''release_id'', Lit ''raid'', Par ''item_id'', Lit ''links''] [] False ''raid.get_raid_links'',
      route POST [Par ''release_id'', Lit ''raid'', Par ''item_id'', Lit ''scope-links''] [] True
        ''raid.add_raid_scope_link'',
      route DELETE [Par ''release_id'', Lit ''raid'', Par ''item_id'', Lit ''scope-links'', Par
        ''release_change_id''] [] False ''raid.remove_raid_scope_link'',
      route POST [Par ''release_id'', Lit ''raid'', Par ''item_id'', Lit ''relations''] [] True
        ''raid.add_raid_relation'',
      route DELETE [Par ''release_id'', Lit ''raid'', Par ''item_id'', Lit ''relations''] [''to_item_id'',
        ''relation''] False ''raid.remove_raid_relation'']"

definition deployment_routes :: router where
  "deployment_routes = router [Lit ''webhooks'']
     [route POST [Lit ''deployment''] [] True ''deployment.ingest_deployment'']"

definition can_deploy_routes :: router where
  "can_deploy_routes = router [Lit ''webhooks'']
     [route GET [Lit ''can-deploy''] [''environment_slug'', ''subsystem_slug'', ''release_id'', ''booking_id'']
       False ''can_deploy.can_deploy'']"

definition release_ready_routes :: router where
  "release_ready_routes = router [Lit ''webhooks'']
     [route GET [Lit ''release-ready''] [''release_id''] False ''release_ready.release_ready'']"

definition builds_routes :: router where
  "builds_routes = router [Lit ''builds'']
     [route GET [] [''subsystem_id'', ''release_id'', ''branch'', ''date_from'', ''date_to'', ''subsystem_search'',
       ''limit'', ''offset'', ''sort_by'', ''sort_dir''] False ''builds.list_builds'',
      route GET [Par ''build_id''] [] False ''builds.get_build'']"

definition deployments_routes :: router where
  "deployments_routes = router [Lit ''deployments'']
     [route GET [] [''environment_id'', ''release_id'', ''build_id'', ''status'', ''date_from'', ''date_to'',
       ''environment_search'', ''release_search'', ''limit'', ''offset'', ''sort_by'', ''sort_dir''] False
         ''deployments.list_deployments'',
      route GET [Par ''deployment_id''] [] False ''deployments.get_deployment'',
      route POST [Par ''deployment_id'', Lit ''link-change''] [] True ''deployments.link_change'']"

definition deployments_env_sub_routes :: router where
  "deployments_env_sub_routes = router [Lit ''environments'']
     [route GET [Par ''environment_id'', Lit ''deployments''] [''limit'', ''offset''] False
       ''deployments.list_environment_deployments'']"

definition incidents_routes :: router where
  "incidents_routes = router [Lit ''incidents'']
     [route GET [] [''status'', ''severity'', ''system_id'', ''environment_id'', ''release_id'', ''source'',
       ''date_from'', ''date_to'', ''open'', ''limit'', ''offset'', ''sort_by'', ''sort_dir''] False
         ''incidents.list_incidents'',
      route POST [] [] True ''incidents.create_incident'',
      route GET [Par ''incident_id''] [] False ''incidents.get_incident'',
      route PATCH [Par ''incident_id''] [] True ''incidents.update_incident'',
      route POST [Par ''incident_id'', Lit ''transition''] [] True ''incidents.transition_incident'',
      route DELETE [Par ''incident_id''] [] False ''incidents.delete_incident'',
      route POST [Par ''incident_id'', Lit ''pir-citation''] [] True ''incidents.cite_incident_on_a_pir'']"

definition metrics_routes :: router where
  "metrics_routes = router [Lit ''metrics'']
     [route GET [Lit ''dora''] [''date_from'', ''date_to'', ''environment_id'', ''release_id'', ''granularity'']
       False ''metrics.get_dora'',
      route GET [Lit ''dora'', Lit ''export''] [''date_from'', ''date_to'', ''environment_id'', ''release_id'',
        ''granularity''] False ''metrics.export_dora'',
      route GET [Lit ''releases''] [''date_from'', ''date_to''] False ''metrics.get_release_metrics'',
      route GET [Lit ''bookings'', Lit ''conflicts''] [''date_from'', ''date_to''] False
        ''metrics.get_booking_conflicts'',
      route GET [Lit ''environments'', Lit ''utilization''] [''date_from'', ''date_to''] False
        ''metrics.get_environments_utilization'']"

definition integrations_github_routes :: router where
  "integrations_github_routes = router [Lit ''integrations'', Lit ''github'']
     [route GET [] [] False ''integrations_github.github_status'',
      route POST [Lit ''connect''] [] False ''integrations_github.github_connect'',
      route POST [Lit ''connect'', Par ''handle'', Lit ''poll''] [] False
        ''integrations_github.github_connect_poll'',
      route DELETE [] [] False ''integrations_github.github_disconnect'']"

definition user_groups_routes :: router where
  "user_groups_routes = router [Lit ''tenant'']
     [route GET [Lit ''groups''] [''limit'', ''offset'', ''sort_by'', ''sort_dir''] False
       ''user_groups.list_user_groups'',
      route POST [Lit ''groups''] [] True ''user_groups.create_user_group'',
      route GET [Lit ''groups'', Par ''group_id''] [] False ''user_groups.get_user_group'',
      route PATCH [Lit ''groups'', Par ''group_id''] [] True ''user_groups.update_user_group'',
      route DELETE [Lit ''groups'', Par ''group_id''] [] False ''user_groups.delete_user_group'',
      route GET [Lit ''groups'', Par ''group_id'', Lit ''members''] [''limit'', ''offset''] False
        ''user_groups.list_user_group_members'',
      route POST [Lit ''groups'', Par ''group_id'', Lit ''members''] [] True ''user_groups.add_user_group_member'',
      route DELETE [Lit ''groups'', Par ''group_id'', Lit ''members'', Par ''user_id''] [] False
        ''user_groups.remove_user_group_member'']"

definition environment_requests_routes :: router where
  "environment_requests_routes = router [Lit ''environment-requests'']
     [route POST [] [] True ''environment_requests.create_environment_request'',
      route GET [] [''status'', ''kind'', ''environment_id'', ''mine'', ''actionable'', ''limit'', ''offset'',
        ''sort_by'', ''sort_dir''] False ''environment_requests.list_environment_requests'',
      route GET [Par ''request_id''] [] False ''environment_requests.get_environment_request'',
      route PATCH [Par ''request_id''] [] True ''environment_requests.update_environment_request'',
      route POST [Par ''request_id'', Lit ''transition''] [] True
        ''environment_requests.transition_environment_request'',
      route GET [Par ''request_id'', Lit ''allowed-transitions''] [] False
        ''environment_requests.get_allowed_transitions'',
      route GET [Par ''request_id'', Lit ''welcome-pack''] [] False ''environment_requests.get_welcome_pack'']"

definition projects_routes :: router where
  "projects_routes = router [Lit ''projects'']
     [route GET [] [''search'', ''is_active'', ''limit'', ''offset'', ''sort_by'', ''sort_dir''] False
       ''projects.list_projects'',
      route POST [] [] True ''projects.create_project'',
      route GET [Par ''project_id''] [] False ''projects.get_project'',
      route PATCH [Par ''project_id''] [] True ''projects.update_project'',
      route DELETE [Par ''project_id''] [] False ''projects.delete_project'',
      route GET [Par ''project_id'', Lit ''usage-agreements''] [''limit'', ''offset''] False
        ''projects.list_project_usage_agreements'',
      route POST [Par ''project_id'', Lit ''usage-agreements''] [] True ''projects.create_project_usage_agreement'',
      route DELETE [Par ''project_id'', Lit ''usage-agreements'', Par ''agreement_id''] [] False
        ''projects.delete_project_usage_agreement'']"

definition environment_groups_routes :: router where
  "environment_groups_routes = router [Lit ''environment-groups'']
     [route GET [] [''search'', ''is_active'', ''limit'', ''offset'', ''sort_by'', ''sort_dir''] False
       ''environment_groups.list_environment_groups'',
      route POST [] [] True ''environment_groups.create_environment_group'',
      route GET [Par ''group_id''] [] False ''environment_groups.get_environment_group'',
      route PATCH [Par ''group_id''] [] True ''environment_groups.update_environment_group'',
      route DELETE [Par ''group_id''] [] False ''environment_groups.delete_environment_group'',
      route GET [Par ''group_id'', Lit ''members''] [''limit'', ''offset''] False
        ''environment_groups.list_group_members'',
      route POST [Par ''group_id'', Lit ''members''] [] True ''environment_groups.add_group_member'',
      route DELETE [Par ''group_id'', Lit ''members'', Par ''member_id''] [] False
        ''environment_groups.remove_group_member'']"

definition gate_types_routes :: router where
  "gate_types_routes = router [Lit ''gate-types'']
     [route GET [] [''include_inactive'', ''limit'', ''offset'', ''sort_by'', ''sort_dir''] False
       ''gate_types.list_gate_types'',
      route POST [] [] True ''gate_types.create_gate_type'',
      route PUT [Par ''type_id''] [] True ''gate_types.update_gate_type'',
      route DELETE [Par ''type_id''] [] False ''gate_types.delete_gate_type'']"

definition rollback_policy_routes :: router where
  "rollback_policy_routes = router [Lit ''tenant'']
     [route GET [Lit ''rollback-policy''] [] False ''rollback_policy.get_rollback_policy'',
      route PUT [Lit ''rollback-policy''] [] True ''rollback_policy.update_rollback_policy'']"

definition go_no_go_routes :: router where
  "go_no_go_routes = router []
     [route PATCH [Lit ''go-no-go-conditions'', Par ''condition_id''] [] True ''go_no_go.close_condition'']"

definition go_no_go_perspectives_routes :: router where
  "go_no_go_perspectives_routes = router [Lit ''tenant'', Lit ''go-no-go-perspectives'']
     [route GET [] [''include_inactive''] False ''go_no_go.list_perspectives'',
      route POST [] [] True ''go_no_go.create_perspective'',
      route PATCH [Par ''perspective_id''] [] True ''go_no_go.update_perspective'']"

definition release_closeout_routes :: router where
  "release_closeout_routes = router [Lit ''releases'']
     [route POST [Par ''release_id'', Lit ''declare-stable''] [] True ''release_closeout.declare_stable'',
      route DELETE [Par ''release_id'', Lit ''declare-stable''] [] False ''release_closeout.withdraw_stable'',
      route POST [Par ''release_id'', Lit ''confirm-handover''] [] True ''release_closeout.confirm_handover'',
      route DELETE [Par ''release_id'', Lit ''confirm-handover''] [] False ''release_closeout.withdraw_handover'',
      route GET [Par ''release_id'', Lit ''closeout''] [] False ''release_closeout.read_closeout'']"

definition runbooks_routes :: router where
  "runbooks_routes = router []
     [route GET [Lit ''releases'', Par ''release_id'', Lit ''runbooks''] [''limit'', ''offset''] False
       ''runbooks.list_runbooks'',
      route POST [Lit ''releases'', Par ''release_id'', Lit ''runbooks''] [] True ''runbooks.create_runbook'',
      route GET [Lit ''runbooks'', Par ''plan_id''] [] False ''runbooks.get_runbook'',
      route PATCH [Lit ''runbooks'', Par ''plan_id''] [] True ''runbooks.update_runbook'',
      route DELETE [Lit ''runbooks'', Par ''plan_id''] [] False ''runbooks.delete_runbook'',
      route POST [Lit ''runbooks'', Par ''plan_id'', Lit ''tasks''] [] True ''runbooks.create_task'',
      route PATCH [Lit ''runbook-tasks'', Par ''task_id''] [] True ''runbooks.update_task'',
      route DELETE [Lit ''runbook-tasks'', Par ''task_id''] [] False ''runbooks.delete_task'',
      route PUT [Lit ''runbook-tasks'', Par ''task_id'', Lit ''predecessors''] [] True
        ''runbooks.set_predecessors'',
      route POST [Lit ''runbook-tasks'', Par ''task_id'', Lit ''transition''] [] True ''runbooks.transition_task'',
      route GET [Lit ''runbook-tasks'', Par ''task_id'', Lit ''events''] [''limit'', ''offset''] False
        ''runbooks.task_events'']"

definition api_routers :: "router list" where
  "api_routers =
     [api_keys_routes, auth_routes, admin_routes, tenant_admin_routes,
      tenant_admin_fields_routes, systems_routes, environment_health_routes, environment_operating_hours_routes,
      environments_routes, environment_tiers_routes, dependencies_routes, bookings_routes,
      import_routes_routes, topology_routes, booking_lifecycle_routes, component_types_routes,
      booking_requests_routes, conflicts_routes, me_routes, contentions_routes,
      contentions_escalations_routes, decommissions_routes, decommissions_extensions_routes, change_requests_routes,
      infrastructure_components_routes, pir_routes, pir_actions_routes, enterprise_rollup_routes,
      enterprise_memberships_routes, releases_routes, releases_phases_routes, releases_gates_routes,
      releases_release_systems_routes, releases_release_deps_routes, releases_release_changes_routes,
        release_templates_routes,
      release_event_types_routes, gate_criteria_release_sub_routes, gate_criteria_routes, raid_routes,
      deployment_routes, can_deploy_routes, release_ready_routes, builds_routes,
      deployments_routes, deployments_env_sub_routes, incidents_routes, metrics_routes,
      integrations_github_routes, user_groups_routes, environment_requests_routes, projects_routes,
      environment_groups_routes, gate_types_routes, rollback_policy_routes, go_no_go_routes,
      go_no_go_perspectives_routes, release_closeout_routes, runbooks_routes]"

end
