(* ===== verification/ServiceContract.thy ===== *)
theory ServiceContract
  imports ServiceCalls BackendRoutes
begin

text \<open>
  The client's service functions against the server's routes: every request of a service function, with any
  identifiers, reaches the handler that is meant for it, past the routes that a parameter would let shadow it;
  every query parameter that its type lets it send is one that the handler declares, which FastAPI would
  otherwise drop in silence; and it carries a body exactly when the handler takes one.
\<close>

named_theorems contract \<open>evaluation of a request against the routers\<close>

subsection \<open>Matching on the pieces of a request\<close>

definition piece_matches :: "seg \<Rightarrow> piece \<Rightarrow> bool" where
  "piece_matches = seg_matches (\<lambda>l p. case p of Fixed s \<Rightarrow> s = l | _ \<Rightarrow> False)
     (\<lambda>p. case p of Fixed s \<Rightarrow> s \<noteq> [] | _ \<Rightarrow> True)"

fun lits_of :: "seg list \<Rightarrow> string list" where
  "lits_of [] = []"
| "lits_of (Lit l # ps) = l # lits_of ps"
| "lits_of (Par n # ps) = lits_of ps"

definition literals :: "router list \<Rightarrow> string list" where
  "literals rrs = concat (map (\<lambda>rr. lits_of (rr_prefix rr) @ concat (map (lits_of \<circ> rt_path)
    (rr_routes rr))) rrs)"

text \<open>A literal that no number is written as.\<close>

definition wordy :: "string \<Rightarrow> bool" where
  "wordy l \<longleftrightarrow> (case l of [] \<Rightarrow> True | c # cs \<Rightarrow> \<not> is_digit c \<and> c
    \<noteq> CHR ''-'')"

definition plain_piece :: "router list \<Rightarrow> piece \<Rightarrow> bool" where
  "plain_piece rrs p = (case p of Fixed s \<Rightarrow> CHR ''/'' \<notin> set s | Id i \<Rightarrow> True
     | Text s \<Rightarrow> CHR ''/'' \<notin> set s \<and> s \<noteq> [] \<and> s \<notin> set (literals rrs))"

lemma show_int_wordy: "show_int i \<noteq> l \<or> \<not> wordy l"
proof -
  have "show_int i \<noteq> []" by (simp add: show_int_def)
  moreover have "\<forall>c \<in> set (show_int i). is_digit c \<or> c = CHR ''-''" by (rule show_int_chars)
  ultimately show ?thesis by (cases "show_int i") (auto simp: wordy_def)
qed

lemma piece_text_matches:
  assumes "plain_piece rrs p" "set (lits_of [g]) \<subseteq> set (literals rrs)" "list_all wordy (literals rrs)"
  shows "text_matches g (piece_text p) = piece_matches g p"
proof (cases g)
  case (Lit l)
  then have "wordy l" "l \<in> set (literals rrs)" using assms(2,3) by (auto simp: list_all_iff)
  then show ?thesis
    using assms(1) show_int_wordy
    by (auto simp: Lit text_matches_def piece_matches_def plain_piece_def piece_text_def split: piece.split)
next
  case (Par n)
  have "show_int i \<noteq> []" for i by (simp add: show_int_def)
  then show ?thesis
    using assms(1)
    by (auto simp: Par text_matches_def piece_matches_def plain_piece_def piece_text_def split: piece.split)
qed

lemma after_prefix_map:
  "\<forall>g \<in> set ps. \<forall>x \<in> set xs. m' g (f x) = m g x \<Longrightarrow>
     after_prefix m' ps (map f xs) = map_option (map f) (after_prefix m ps xs)"
proof (induction m ps xs rule: after_prefix.induct)
  case (3 m p ps x xs)
  then show ?case by simp
qed simp_all

lemma after_prefix_suffix: "after_prefix m ps xs = Some ys \<Longrightarrow> set ys \<subseteq> set xs"
  by (induction m ps xs arbitrary: ys rule: after_prefix.induct) (auto split: if_splits)

lemma path_matches_map:
  assumes "\<forall>g \<in> set ps. \<forall>x \<in> set xs. m' g (f x) = m g x"
  shows "path_matches m' ps (map f xs) = path_matches m ps xs"
  using after_prefix_map [of ps xs m' f m] assms by (auto simp: path_matches_def)

lemma first_row_map:
  "\<forall>r \<in> set rs. path_matches m' (rt_path r) ys = path_matches m (rt_path r) xs \<Longrightarrow>
     first_row m' v ys rs = first_row m v xs rs"
  by (induction rs) auto

lemma route_in_map:
  assumes "\<forall>g \<in> set (rr_prefix rr) \<union> \<Union>(set ` rt_path ` set (rr_routes rr)). \<forall>x
    \<in> set xs. m' g (f x) = m g x"
  shows "route_in m' v (map f xs) rr = route_in m v xs rr"
proof -
  have p: "after_prefix m' (rr_prefix rr) (map f xs) = map_option (map f) (after_prefix m (rr_prefix rr) xs)"
    using assms by (intro after_prefix_map) auto
  show ?thesis
  proof (cases "after_prefix m (rr_prefix rr) xs")
    case (Some ys)
    have "first_row m' v (map f ys) (rr_routes rr) = first_row m v ys (rr_routes rr)"
      using assms after_prefix_suffix [OF Some]
      by (intro first_row_map ballI path_matches_map) blast
    then show ?thesis by (simp add: route_in_def p Some)
  qed (simp add: route_in_def p)
qed

lemma lits_of_mem: "g \<in> set ps \<Longrightarrow> set (lits_of [g]) \<subseteq> set (lits_of ps)"
  by (induction ps rule: lits_of.induct) (auto elim: lits_of.elims)

lemma literals_prefix: "rr \<in> set rrs \<Longrightarrow> g \<in> set (rr_prefix rr) \<Longrightarrow> set
  (lits_of [g]) \<subseteq> set (literals rrs)"
  using lits_of_mem [of g "rr_prefix rr"] by (auto simp: literals_def)

lemma literals_path:
  "rr \<in> set rrs \<Longrightarrow> r \<in> set (rr_routes rr) \<Longrightarrow> g \<in> set (rt_path r)
    \<Longrightarrow> set (lits_of [g]) \<subseteq> set (literals rrs)"
  using lits_of_mem [of g "rt_path r"] by (fastforce simp: literals_def)

lemma first_route_map:
  assumes "\<forall>rr \<in> set rrs. route_in m' v ys rr = route_in m v xs rr"
  shows "first_route m' v ys rrs = first_route m v xs rrs"
  using assms by (induction rrs) (auto split: option.split)

lemma first_route_pieces:
  assumes "list_all wordy (literals rrs)" "list_all (plain_piece rrs) ps"
  shows "first_route text_matches v (map piece_text ps) rrs = first_route piece_matches v ps rrs"
proof (intro first_route_map ballI route_in_map)
  fix rr g x
  assume rr: "rr \<in> set rrs" and g: "g \<in> set (rr_prefix rr) \<union> \<Union>(set ` rt_path ` set (rr_routes
    rr))" and x: "x \<in> set ps"
  have "set (lits_of [g]) \<subseteq> set (literals rrs)"
    using g literals_prefix [OF rr] literals_path [OF rr] by blast
  then show "text_matches g (piece_text x) = piece_matches g x"
    using piece_text_matches assms x by (auto simp: list_all_iff)
qed

lemma show_int_no_slash: "CHR ''/'' \<notin> set (show_int i)"
  using show_int_chars [of i] by (auto simp: is_digit_def)

lemma js_split_pieces:
  "d \<notin> set w \<Longrightarrow> \<forall>p \<in> set ps. d \<notin> set (t p) \<Longrightarrow>
     js_split d (w @ concat (map (\<lambda>p. d # t p) ps)) = w # map t ps"
proof (induction ps arbitrary: w)
  case Nil
  then show ?case by (simp add: js_split_free)
next
  case (Cons p ps)
  then show ?case using js_split_append [of d w "t p @ concat (map (\<lambda>p. d # t p) ps)"] by simp
qed

lemma js_split_url:
  assumes "list_all (plain_piece rrs) (rq_path rq)"
  shows "js_split CHR ''/'' (url_of rq) = [] # ''api'' # ''v1'' # map piece_text (rq_path rq)"
proof -
  have "\<forall>p \<in> set (rq_path rq). CHR ''/'' \<notin> set (piece_text p)"
    using assms show_int_no_slash by (auto simp: list_all_iff plain_piece_def piece_text_def split: piece.splits)
  then have "js_split CHR ''/'' (''v1'' @ concat (map (\<lambda>p. CHR ''/'' # piece_text p) (rq_path rq)))
      = ''v1'' # map piece_text (rq_path rq)"
    by (intro js_split_pieces) auto
  moreover have "url_of rq = [] @ CHR ''/'' # (''api'' @ CHR ''/'' # (''v1'' @
      concat (map (\<lambda>p. CHR ''/'' # piece_text p) (rq_path rq))))"
    by (simp add: url_of_def baseURL_def)
  ultimately show ?thesis
    by (simp only: js_split_append set_simps list.set empty_iff insert_iff char.inject simp_thms not_False_eq_True)
qed

lemma serve_pieces:
  assumes "list_all wordy (literals rrs)" "list_all (plain_piece rrs) (rq_path rq)"
  shows "serve rrs v (url_of rq) = first_route piece_matches v (rq_path rq) rrs"
proof -
  have "after_prefix text_matches [Lit [], Lit ''api'', Lit ''v1''] ([] # ''api'' # ''v1'' # xs) = Some xs" for xs
    by (simp add: text_matches_def)
  then show ?thesis by (simp add: serve_def js_split_url [OF assms(2)] first_route_pieces [OF assms])
qed

subsection \<open>What it means to be served\<close>

text \<open>A parameter object with every field of its declared type.\<close>

definition all_of :: "string list \<Rightarrow> query" where
  "all_of ks = map (\<lambda>k. (k, J_int 1)) ks"

definition agrees :: "route option \<Rightarrow> request \<times> string \<Rightarrow> bool" where
  "agrees r c = (case r of None \<Rightarrow> False
     | Some r \<Rightarrow> rt_handler r = snd c \<and>
         list_all (\<lambda>k. k \<in> set (rt_query r)) (map fst (rq_query (fst c))) \<and>
         rt_body r = (case rq_body (fst c) of No_body \<Rightarrow> False | _ \<Rightarrow> True))"

definition served :: "request \<times> string \<Rightarrow> bool" where
  "served c \<longleftrightarrow> agrees (serve api_routers (rq_verb (fst c)) (url_of (fst c))) c"

definition served_pieces :: "request \<times> string \<Rightarrow> bool" where
  "served_pieces c \<longleftrightarrow> list_all (plain_piece api_routers) (rq_path (fst c)) \<and>
     agrees (first_route piece_matches (rq_verb (fst c)) (rq_path (fst c)) api_routers) c"

lemma api_literals_wordy: "list_all wordy (literals api_routers)"
  by code_simp

text \<open>Only the routers without a prefix or with one that starts like the path can answer.\<close>

definition under :: "string \<Rightarrow> router list" where
  "under h = filter (\<lambda>rr. case rr_prefix rr of Lit l # ps \<Rightarrow> l = h | _ \<Rightarrow> True)
    api_routers"

lemma first_route_filter:
  "\<forall>rr \<in> set rrs. \<not> P rr \<longrightarrow> route_in m v xs rr = None \<Longrightarrow>
     first_route m v xs (filter P rrs) = first_route m v xs rrs"
  by (induction rrs) (auto split: option.split)

lemma first_route_under [contract]:
  "first_route piece_matches v (Fixed h # ps) api_routers = first_route piece_matches v (Fixed h # ps) (under h)"
  unfolding under_def
  by (rule first_route_filter [symmetric])
    (auto simp: route_in_def piece_matches_def split: list.splits seg.splits)

lemma rows_of: "R = router p rs \<Longrightarrow> first_row m v xs (rr_routes R) = first_row m v xs rs"
  by (simp add: router_def)

text \<open>Rows are looked at one by one and never rewritten.\<close>

lemma first_row_frozen: "xs = xs' \<Longrightarrow> first_row m v xs rs = first_row m v xs' rs"
  by simp

lemma route_frozen: "route v p q b h = route v p q b h"
  by simp

lemmas frozen = first_row_frozen route_frozen

declare first_row.simps(2) [simp del]

lemma first_row_route [contract]:
  "first_row m v xs (route v' p q b h # rs) =
     (if v' = v \<and> path_matches m p xs then Some (route v' p q b h) else first_row m v xs rs)"
  by (simp add: route_def first_row.simps(2))

lemma agrees_route [contract]:
  "agrees (Some (route v p q b h)) c \<longleftrightarrow> h = snd c \<and> list_all (\<lambda>k. k \<in> set q)
    (map fst (rq_query (fst c))) \<and>
     b = (case rq_body (fst c) of No_body \<Rightarrow> False | _ \<Rightarrow> True)"
  by (simp add: agrees_def route_def)

lemma piece_matches_simps [contract]:
  "piece_matches (Lit l) (Fixed s) = (s = l)" "piece_matches (Lit l) (Id i) = False" "piece_matches (Lit l) (Text
    s) = False"
  "piece_matches (Par n) (Fixed s) = (s \<noteq> [])" "piece_matches (Par n) (Id i) = True" "piece_matches (Par n)
    (Text s) = True"
  by (simp_all add: piece_matches_def)

lemma path_matches_simps [contract]:
  "path_matches m [] [] = True" "path_matches m [] (x # xs) = False" "path_matches m (p # ps) [] = False"
  "path_matches m (p # ps) (x # xs) \<longleftrightarrow> m p x \<and> path_matches m ps xs"
  by (simp_all add: path_matches_def)

lemmas contract_eval [contract] = api_defs plain_piece_def served_pieces_def route_in_def all_of_def

lemma served_pieces_served: "served_pieces c \<Longrightarrow> served c"
  by (simp add: served_def served_pieces_def serve_pieces [OF api_literals_wordy])

lemma list_all_served: "list_all served_pieces cs \<Longrightarrow> list_all served cs"
  by (simp add: list_all_iff served_pieces_served)

subsection \<open>The requests\<close>

text \<open>Each service function with its handler. The numbers, the text and the value stand for any.\<close>

definition admin_contract :: "int \<Rightarrow> int \<Rightarrow> int \<Rightarrow> int \<Rightarrow> string
  \<Rightarrow> json \<Rightarrow> (request \<times> string) list" where
  "admin_contract a b c d s j =
     [(fst adminService_listTenants, ''admin.list_tenants''),
      (fst (adminService_createTenant j), ''admin.create_tenant''),
      (fst (adminService_getTenant a), ''admin.get_tenant''),
      (fst (adminService_updateTenant a j), ''admin.update_tenant''),
      (fst (adminService_disableTenant a), ''admin.disable_tenant''),
      (fst (adminService_listTenantUsers a), ''admin.list_tenant_users''),
      (fst (adminService_createTenantUser a j), ''admin.create_tenant_user''),
      (fst (adminService_updateTenantUser a b j), ''admin.update_tenant_user''),
      (fst (adminService_setTenantUserRole a b s), ''admin.set_tenant_user_role''),
      (fst (adminService_deactivateTenantUser a b), ''admin.deactivate_tenant_user''),
      (fst (adminService_reactivateTenantUser a b), ''admin.reactivate_tenant_user''),
      (fst (adminService_resetUserPassword a b s), ''admin.reset_user_password''),
      (fst (adminService_signInAsTenant a), ''admin.sign_in_as_tenant'')]"

definition agreementGap_contract :: "int \<Rightarrow> int \<Rightarrow> int \<Rightarrow> int \<Rightarrow> string
  \<Rightarrow> json \<Rightarrow> (request \<times> string) list" where
  "agreementGap_contract a b c d s j =
     [(fst (agreementGapService_ackGap a (Some s)), ''bookings.ack_agreement_gap'')]"

definition apiKey_contract :: "int \<Rightarrow> int \<Rightarrow> int \<Rightarrow> int \<Rightarrow> string
  \<Rightarrow> json \<Rightarrow> (request \<times> string) list" where
  "apiKey_contract a b c d s j =
     [(fst apiKeyService_list, ''api_keys.list_keys''),
      (fst (apiKeyService_create j), ''api_keys.create_key''),
      (fst (apiKeyService_revoke a), ''api_keys.revoke_key'')]"

definition auth_contract :: "int \<Rightarrow> int \<Rightarrow> int \<Rightarrow> int \<Rightarrow> string
  \<Rightarrow> json \<Rightarrow> (request \<times> string) list" where
  "auth_contract a b c d s j =
     [(fst (authService_login j), ''auth.login''),
      (fst authService_getCurrentUser, ''auth.get_current_user_info'')]"

definition bookingLifecycle_contract :: "int \<Rightarrow> int \<Rightarrow> int \<Rightarrow> int \<Rightarrow>
  string \<Rightarrow> json \<Rightarrow> (request \<times> string) list" where
  "bookingLifecycle_contract a b c d s j =
     [(fst (bookingLifecycleService_listTemplates (Some s)), ''booking_lifecycle.list_lifecycle_templates''),
      (fst (bookingLifecycleService_getTemplate a), ''booking_lifecycle.get_lifecycle_template''),
      (fst (bookingLifecycleService_createTemplate j (Some s)), ''booking_lifecycle.create_lifecycle_template''),
      (fst (bookingLifecycleService_updateTemplate a j), ''booking_lifecycle.update_lifecycle_template''),
      (fst (bookingLifecycleService_copyTemplate a s), ''booking_lifecycle.copy_lifecycle_template''),
      (fst bookingLifecycleService_listBookingTypes, ''booking_lifecycle.list_booking_types''),
      (fst (bookingLifecycleService_getBookingType a), ''booking_lifecycle.get_booking_type''),
      (fst (bookingLifecycleService_createBookingType j), ''booking_lifecycle.create_booking_type''),
      (fst (bookingLifecycleService_updateBookingType a j), ''booking_lifecycle.update_booking_type''),
      (fst (bookingLifecycleService_deleteTemplate a), ''booking_lifecycle.delete_lifecycle_template''),
      (fst (bookingLifecycleService_deleteBookingType a), ''booking_lifecycle.delete_booking_type'')]"

definition bookingRequest_contract :: "int \<Rightarrow> int \<Rightarrow> int \<Rightarrow> int \<Rightarrow>
  string \<Rightarrow> json \<Rightarrow> (request \<times> string) list" where
  "bookingRequest_contract a b c d s j =
     [(fst bookingRequestService_list, ''booking_requests.list_booking_requests''),
      (fst (bookingRequestService_get a), ''booking_requests.get_booking_request''),
      (fst (bookingRequestService_create j), ''booking_requests.create_booking_request''),
      (fst (bookingRequestService_previewConflicts j), ''booking_requests.preview_conflicts''),
      (fst (bookingRequestService_updateStandardFields a j), ''booking_requests.update_request_standard_fields''),
      (fst (bookingRequestService_updateCustomFields a j), ''booking_requests.update_request_custom_fields''),
      (fst (bookingRequestService_addEnvironment a j), ''booking_requests.add_environment_to_request''),
      (fst (bookingRequestService_removeEnvironment a b), ''booking_requests.remove_environment_from_request'')]"

definition booking_contract :: "int \<Rightarrow> int \<Rightarrow> int \<Rightarrow> int \<Rightarrow> string
  \<Rightarrow> json \<Rightarrow> (request \<times> string) list" where
  "booking_contract a b c d s j =
     [(fst (bookingService_listBookings (Some (all_of [''environment_id'', ''start'', ''end'', ''booking_status'',
       ''project_id'', ''agreement_gap'', ''protection'', ''active'', ''limit'', ''offset'', ''sort_by'',
         ''sort_dir'']))), ''bookings.list_bookings''),
      (fst (bookingService_createBooking j), ''bookings.create_booking''),
      (fst (bookingService_getBooking a), ''bookings.get_booking''),
      (fst (bookingService_deleteOccurrence a), ''bookings.delete_occurrence''),
      (fst (bookingService_deleteSeries a), ''bookings.delete_series''),
      (fst (bookingService_transitionState a s (Some s)), ''bookings.transition_booking_state''),
      (fst (bookingService_getHistory a), ''bookings.get_booking_history''),
      (fst (bookingService_getAllowedTransitions a), ''bookings.get_allowed_transitions_for_booking''),
      (fst (bookingService_updateStandardFields a j), ''bookings.update_standard_fields''),
      (fst (bookingService_getConflicts a), ''conflicts.list_conflicts''),
      (fst (bookingService_acknowledgeConflict a b j), ''conflicts.ack_conflict''),
      (fst (bookingService_getReceivedFeedback a), ''conflicts.list_received_feedback'')]"

definition build_contract :: "int \<Rightarrow> int \<Rightarrow> int \<Rightarrow> int \<Rightarrow> string
  \<Rightarrow> json \<Rightarrow> (request \<times> string) list" where
  "build_contract a b c d s j =
     [(fst (buildService_list (Some (all_of [''subsystem_id'', ''release_id'', ''branch'', ''date_from'',
       ''date_to'', ''limit'', ''offset'', ''sort_by'', ''sort_dir'', ''subsystem_search'']))),
         ''builds.list_builds''),
      (fst (buildService_get a), ''builds.get_build'')]"

definition changeRequest_contract :: "int \<Rightarrow> int \<Rightarrow> int \<Rightarrow> int \<Rightarrow>
  string \<Rightarrow> json \<Rightarrow> (request \<times> string) list" where
  "changeRequest_contract a b c d s j =
     [(fst (changeRequestService_list (Some (all_of [''environment_id'', ''host_id'', ''subsystem_id'', ''status'',
       ''scheduled_from'', ''scheduled_to'', ''limit'', ''offset'', ''sort_by'', ''sort_dir'']))),
         ''change_requests.list_change_requests''),
      (fst (changeRequestService_get a), ''change_requests.get_change_request_detail''),
      (fst (changeRequestService_create j), ''change_requests.create_change_request''),
      (fst (changeRequestService_update a j), ''change_requests.update_change_request''),
      (fst (changeRequestService_transition a j), ''change_requests.transition_change_request''),
      (fst (changeRequestService_getAllowedTransitions a), ''change_requests.get_allowed_transitions''),
      (fst (changeRequestService_remove a), ''change_requests.delete_change_request''),
      (fst (changeRequestService_previewOutageConflicts j), ''change_requests.preview_outage_conflicts'')]"

definition closeout_contract :: "int \<Rightarrow> int \<Rightarrow> int \<Rightarrow> int \<Rightarrow> string
  \<Rightarrow> json \<Rightarrow> (request \<times> string) list" where
  "closeout_contract a b c d s j =
     [(fst (closeoutService_get a), ''release_closeout.read_closeout''),
      (fst (closeoutService_declareStable a (Some s)), ''release_closeout.declare_stable''),
      (fst (closeoutService_withdrawStable a), ''release_closeout.withdraw_stable''),
      (fst (closeoutService_confirmHandover a (Some s)), ''release_closeout.confirm_handover''),
      (fst (closeoutService_withdrawHandover a), ''release_closeout.withdraw_handover'')]"

definition componentType_contract :: "int \<Rightarrow> int \<Rightarrow> int \<Rightarrow> int \<Rightarrow>
  string \<Rightarrow> json \<Rightarrow> (request \<times> string) list" where
  "componentType_contract a b c d s j =
     [(fst componentTypeService_listTypes, ''component_types.list_component_types''),
      (fst (componentTypeService_getType a), ''component_types.get_component_type''),
      (fst (componentTypeService_createType j), ''component_types.create_component_type''),
      (fst (componentTypeService_updateType a j), ''component_types.update_component_type''),
      (fst (componentTypeService_deleteType a), ''component_types.delete_component_type'')]"

definition contentionForecast_contract :: "int \<Rightarrow> int \<Rightarrow> int \<Rightarrow> int \<Rightarrow>
  string \<Rightarrow> json \<Rightarrow> (request \<times> string) list" where
  "contentionForecast_contract a b c d s j =
     [(fst (contentionForecastService_getHorizon a), ''bookings.get_contention_horizon'')]"

definition contention_contract :: "int \<Rightarrow> int \<Rightarrow> int \<Rightarrow> int \<Rightarrow> string
  \<Rightarrow> json \<Rightarrow> (request \<times> string) list" where
  "contention_contract a b c d s j =
     [(fst (contentionService_escalate a b j), ''contentions.escalate_contention''),
      (fst (contentionService_decide a j), ''contentions.decide_contention''),
      (fst (contentionService_list (Some (all_of [''state'', ''owner_user_id'', ''limit'', ''offset'', ''sort_by'',
        ''sort_dir'']))), ''contentions.list_contention_escalations'')]"

definition customField_contract :: "int \<Rightarrow> int \<Rightarrow> int \<Rightarrow> int \<Rightarrow> string
  \<Rightarrow> json \<Rightarrow> (request \<times> string) list" where
  "customField_contract a b c d s j =
     [(fst (customFieldService_listDefinitions s), ''tenant_admin_fields.list_fields''),
      (fst (customFieldService_createDefinition j), ''tenant_admin_fields.create_field''),
      (fst (customFieldService_updateDefinition a j), ''tenant_admin_fields.update_field''),
      (fst (customFieldService_deleteDefinition a), ''tenant_admin_fields.delete_field'')]"

definition decommission_contract :: "int \<Rightarrow> int \<Rightarrow> int \<Rightarrow> int \<Rightarrow> string
  \<Rightarrow> json \<Rightarrow> (request \<times> string) list" where
  "decommission_contract a b c d s j =
     [(fst (decommissionService_getForEnvironment a), ''decommissions.get_decommission''),
      (fst (decommissionService_initiate a j), ''decommissions.initiate_decommission''),
      (fst (decommissionService_requestExtension a j), ''decommissions.request_decommission_extension''),
      (fst (decommissionService_decideExtension a j), ''decommissions.decide_decommission_extension''),
      (fst (decommissionService_signAttestation a j), ''decommissions.sign_decommission_attestation''),
      (fst (decommissionService_tearDown a), ''decommissions.tear_down_decommission''),
      (fst (decommissionService_cancel a j), ''decommissions.cancel_decommission''),
      (fst (decommissionService_listSteps (Some True)), ''tenant_admin_fields.list_decommission_steps''),
      (fst (decommissionService_createStep j), ''tenant_admin_fields.create_decommission_step''),
      (fst (decommissionService_updateStep a j), ''tenant_admin_fields.update_decommission_step''),
      (fst (decommissionService_deleteStep a), ''tenant_admin_fields.delete_decommission_step''),
      (fst (decommissionService_listWorklist (Some (all_of [''state'', ''mine'', ''limit'', ''offset'',
        ''sort_by'', ''sort_dir'']))), ''decommissions.list_decommission_worklist'')]"

definition dependency_contract :: "int \<Rightarrow> int \<Rightarrow> int \<Rightarrow> int \<Rightarrow> string
  \<Rightarrow> json \<Rightarrow> (request \<times> string) list" where
  "dependency_contract a b c d s j =
     [(fst (dependencyService_listSystemDependencies a), ''dependencies.list_system_dependencies''),
      (fst (dependencyService_createSystemDependency a j), ''dependencies.create_system_dependency''),
      (fst (dependencyService_deleteSystemDependency a b), ''dependencies.delete_system_dependency''),
      (fst (dependencyService_updateSystemDependency a b j), ''dependencies.update_system_dependency''),
      (fst (dependencyService_listComponentDependencies a), ''dependencies.list_component_dependencies''),
      (fst (dependencyService_createComponentDependency a j), ''dependencies.create_component_dependency''),
      (fst (dependencyService_deleteComponentDependency a b), ''dependencies.delete_component_dependency''),
      (fst (dependencyService_updateComponentDependency a b j), ''dependencies.update_component_dependency''),
      (fst (dependencyService_createComponentEndpoint a b j), ''dependencies.create_component_endpoint''),
      (fst (dependencyService_updateComponentEndpoint a b c j), ''dependencies.update_component_endpoint''),
      (fst (dependencyService_deleteComponentEndpoint a b c), ''dependencies.delete_component_endpoint''),
      (fst (dependencyService_verifyEnvironment a), ''environments.verify_environment'')]"

definition deployment_contract :: "int \<Rightarrow> int \<Rightarrow> int \<Rightarrow> int \<Rightarrow> string
  \<Rightarrow> json \<Rightarrow> (request \<times> string) list" where
  "deployment_contract a b c d s j =
     [(fst (deploymentService_list (Some (all_of [''environment_id'', ''release_id'', ''build_id'', ''status'',
       ''date_from'', ''date_to'', ''limit'', ''offset'', ''sort_by'', ''sort_dir'', ''environment_search'',
         ''release_search'']))), ''deployments.list_deployments''),
      (fst (deploymentService_get a), ''deployments.get_deployment''),
      (fst (deploymentService_linkChange a j), ''deployments.link_change''),
      (fst (deploymentService_forEnvironment a), ''deployments.list_environment_deployments'')]"

definition dora_contract :: "int \<Rightarrow> int \<Rightarrow> int \<Rightarrow> int \<Rightarrow> string
  \<Rightarrow> json \<Rightarrow> (request \<times> string) list" where
  "dora_contract a b c d s j =
     [(fst (doraService_getSummary (all_of [''date_from'', ''date_to'', ''environment_id'', ''release_id'',
       ''granularity''])), ''metrics.get_dora'')]"

definition enterpriseMembership_contract :: "int \<Rightarrow> int \<Rightarrow> int \<Rightarrow> int
  \<Rightarrow> string \<Rightarrow> json \<Rightarrow> (request \<times> string) list" where
  "enterpriseMembership_contract a b c d s j =
     [(fst (enterpriseMembershipService_request a j), ''enterprise_memberships.request_membership''),
      (fst (enterpriseMembershipService_list a (Some [s])), ''enterprise_memberships.list_memberships''),
      (fst (enterpriseMembershipService_accept a b), ''enterprise_memberships.accept_membership''),
      (fst (enterpriseMembershipService_reject a b j), ''enterprise_memberships.reject_membership''),
      (fst (enterpriseMembershipService_withdraw a b), ''enterprise_memberships.withdraw_membership''),
      (fst (enterpriseMembershipService_remove a b j), ''enterprise_memberships.remove_membership''),
      (fst (enterpriseMembershipService_getProjectMembership a),
        ''enterprise_memberships.project_membership_view'')]"

definition enterpriseReport_contract :: "int \<Rightarrow> int \<Rightarrow> int \<Rightarrow> int \<Rightarrow>
  string \<Rightarrow> json \<Rightarrow> (request \<times> string) list" where
  "enterpriseReport_contract a b c d s j =
     [(fst (enterpriseReportService_generate a), ''enterprise_rollup.enterprise_report'')]"

definition enterpriseRollup_contract :: "int \<Rightarrow> int \<Rightarrow> int \<Rightarrow> int \<Rightarrow>
  string \<Rightarrow> json \<Rightarrow> (request \<times> string) list" where
  "enterpriseRollup_contract a b c d s j =
     [(fst (enterpriseRollupService_systems a), ''enterprise_rollup.systems_rollup''),
      (fst (enterpriseRollupService_scope a (Some (all_of [''change_kind'', ''status'', ''search'']))),
        ''enterprise_rollup.scope_rollup''),
      (fst (enterpriseRollupService_timeline a), ''enterprise_rollup.timeline_rollup''),
      (fst (enterpriseRollupService_members a), ''enterprise_rollup.members_rollup'')]"

definition environmentComparison_contract :: "int \<Rightarrow> int \<Rightarrow> int \<Rightarrow> int
  \<Rightarrow> string \<Rightarrow> json \<Rightarrow> (request \<times> string) list" where
  "environmentComparison_contract a b c d s j =
     [(fst (environmentComparisonService_compare a b), ''environments.compare_environments_endpoint'')]"

definition environmentGroup_contract :: "int \<Rightarrow> int \<Rightarrow> int \<Rightarrow> int \<Rightarrow>
  string \<Rightarrow> json \<Rightarrow> (request \<times> string) list" where
  "environmentGroup_contract a b c d s j =
     [(fst (environmentGroupService_listGroups (Some (all_of [''search'', ''is_active'', ''limit'', ''offset'',
       ''sort_by'', ''sort_dir'']))), ''environment_groups.list_environment_groups''),
      (fst (environmentGroupService_getGroup a), ''environment_groups.get_environment_group''),
      (fst (environmentGroupService_createGroup j), ''environment_groups.create_environment_group''),
      (fst (environmentGroupService_updateGroup a j), ''environment_groups.update_environment_group''),
      (fst (environmentGroupService_deleteGroup a), ''environment_groups.delete_environment_group''),
      (fst (environmentGroupService_listMembers a (Some (all_of [''limit'', ''offset'']))),
        ''environment_groups.list_group_members''),
      (fst (environmentGroupService_listGroupsForEnvironment a (Some (all_of [''limit'', ''offset'']))),
        ''environments.list_environment_groups_for_environment''),
      (fst (environmentGroupService_addMember a j), ''environment_groups.add_group_member''),
      (fst (environmentGroupService_removeMember a b), ''environment_groups.remove_group_member''),
      (fst (environmentGroupService_transitionGroup a b j), ''booking_requests.transition_group_bookings''),
      (fst (environmentGroupService_groupAllowedTransitions a b),
        ''booking_requests.get_group_allowed_transitions_route'')]"

definition environmentHealth_contract :: "int \<Rightarrow> int \<Rightarrow> int \<Rightarrow> int \<Rightarrow>
  string \<Rightarrow> json \<Rightarrow> (request \<times> string) list" where
  "environmentHealth_contract a b c d s j =
     [(fst (environmentHealthService_overview (Some (all_of [''limit'', ''offset'']))),
       ''environment_health.health_overview''),
      (fst (environmentHealthService_history a (Some b)), ''environment_health.health_history'')]"

definition environmentLifecyclePolicy_contract :: "int \<Rightarrow> int \<Rightarrow> int \<Rightarrow> int
  \<Rightarrow> string \<Rightarrow> json \<Rightarrow> (request \<times> string) list" where
  "environmentLifecyclePolicy_contract a b c d s j =
     [(fst environmentLifecyclePolicyService_get, ''tenant_admin_fields.get_environment_lifecycle_policy''),
      (fst (environmentLifecyclePolicyService_save j), ''tenant_admin_fields.put_environment_lifecycle_policy'')]"

definition environmentNamingPolicy_contract :: "int \<Rightarrow> int \<Rightarrow> int \<Rightarrow> int
  \<Rightarrow> string \<Rightarrow> json \<Rightarrow> (request \<times> string) list" where
  "environmentNamingPolicy_contract a b c d s j =
     [(fst environmentNamingPolicyService_get, ''tenant_admin_fields.get_environment_naming_policy''),
      (fst (environmentNamingPolicyService_save j), ''tenant_admin_fields.put_environment_naming_policy''),
      (fst (environmentNamingPolicyService_preview j), ''tenant_admin_fields.preview_environment_naming_policy'')]"

definition environmentOperatingHours_contract :: "int \<Rightarrow> int \<Rightarrow> int \<Rightarrow> int
  \<Rightarrow> string \<Rightarrow> json \<Rightarrow> (request \<times> string) list" where
  "environmentOperatingHours_contract a b c d s j =
     [(fst (environmentOperatingHoursService_getConfig a), ''environment_operating_hours.get_operating_hours''),
      (fst (environmentOperatingHoursService_putConfig a j), ''environment_operating_hours.put_operating_hours''),
      (fst (environmentOperatingHoursService_utilization a (all_of [''date_from'', ''date_to''])),
        ''environment_operating_hours.get_environment_utilization''),
      (fst (environmentOperatingHoursService_overview (all_of [''date_from'', ''date_to''])),
        ''metrics.get_environments_utilization'')]"

definition environmentRequest_contract :: "int \<Rightarrow> int \<Rightarrow> int \<Rightarrow> int \<Rightarrow>
  string \<Rightarrow> json \<Rightarrow> (request \<times> string) list" where
  "environmentRequest_contract a b c d s j =
     [(fst (environmentRequestService_listRequests (Some (all_of [''limit'', ''offset'', ''sort_by'', ''sort_dir'',
       ''status'', ''kind'', ''environment_id'', ''mine'', ''actionable'']))),
         ''environment_requests.list_environment_requests''),
      (fst (environmentRequestService_getRequest a), ''environment_requests.get_environment_request''),
      (fst (environmentRequestService_createRequest j), ''environment_requests.create_environment_request''),
      (fst (environmentRequestService_updateRequest a j), ''environment_requests.update_environment_request''),
      (fst (environmentRequestService_transition a s), ''environment_requests.transition_environment_request''),
      (fst (environmentRequestService_allowedTransitions a), ''environment_requests.get_allowed_transitions''),
      (fst (environmentRequestService_getWelcomePack a), ''environment_requests.get_welcome_pack''),
      (fst (environmentRequestService_updateHandover a j), ''environments.update_environment_handover'')]"

definition environment_contract :: "int \<Rightarrow> int \<Rightarrow> int \<Rightarrow> int \<Rightarrow> string
  \<Rightarrow> json \<Rightarrow> (request \<times> string) list" where
  "environment_contract a b c d s j =
     [(fst (environmentService_listEnvironments (Some (all_of [''status'', ''tier_id'', ''owner_user_id'',
       ''expiring_within_days'', ''governance_gap'', ''compliance_gap'', ''quarantined'', ''search'', ''limit'',
         ''offset'', ''sort_by'', ''sort_dir'']))), ''environments.list_environments''),
      (fst (environmentService_getEnvironment a), ''environments.get_environment''),
      (fst (environmentService_createEnvironment j), ''environments.create_environment''),
      (fst (environmentService_updateEnvironment a j), ''environments.update_environment''),
      (fst (environmentService_deleteEnvironment a), ''environments.delete_environment''),
      (fst (environmentService_listSystemsInEnvironment a), ''environments.list_systems_in_environment''),
      (fst (environmentService_addSystemToEnvironment a j), ''environments.add_system_to_environment''),
      (fst (environmentService_updateSystemInEnvironment a b j), ''environments.update_system_in_environment''),
      (fst (environmentService_removeSystemFromEnvironment a b), ''environments.remove_system_from_environment''),
      (fst (environmentService_listEnvironmentSubsystems a), ''environments.list_environment_subsystems''),
      (fst (environmentService_updateEnvironmentSubsystem a b j), ''environments.update_environment_subsystem''),
      (fst (environmentService_getEnvironmentTopology a), ''environments.get_environment_topology'')]"

definition environmentTier_contract :: "int \<Rightarrow> int \<Rightarrow> int \<Rightarrow> int \<Rightarrow>
  string \<Rightarrow> json \<Rightarrow> (request \<times> string) list" where
  "environmentTier_contract a b c d s j =
     [(fst (environmentTierService_listTiers (Some (all_of [''limit'', ''offset'', ''sort_by'', ''sort_dir'']))),
       ''environment_tiers.list_environment_tiers''),
      (fst (environmentTierService_createTier j), ''environment_tiers.create_environment_tier''),
      (fst (environmentTierService_updateTier a j), ''environment_tiers.update_environment_tier''),
      (fst (environmentTierService_deleteTier a), ''environment_tiers.delete_environment_tier'')]"

definition gateType_contract :: "int \<Rightarrow> int \<Rightarrow> int \<Rightarrow> int \<Rightarrow> string
  \<Rightarrow> json \<Rightarrow> (request \<times> string) list" where
  "gateType_contract a b c d s j =
     [(fst (gateTypeService_listGateTypes (Some (all_of [''limit'', ''offset'', ''sort_by'', ''sort_dir'',
       ''include_inactive'']))), ''gate_types.list_gate_types''),
      (fst (gateTypeService_createGateType j), ''gate_types.create_gate_type''),
      (fst (gateTypeService_updateGateType a j), ''gate_types.update_gate_type''),
      (fst (gateTypeService_deleteGateType a), ''gate_types.delete_gate_type'')]"

definition githubIntegration_contract :: "int \<Rightarrow> int \<Rightarrow> int \<Rightarrow> int \<Rightarrow>
  string \<Rightarrow> json \<Rightarrow> (request \<times> string) list" where
  "githubIntegration_contract a b c d s j =
     [(fst githubIntegrationService_status, ''integrations_github.github_status''),
      (fst githubIntegrationService_connect, ''integrations_github.github_connect''),
      (fst githubIntegrationService_disconnect, ''integrations_github.github_disconnect''),
      (fst (githubIntegrationService_scan a), ''systems.scan_system_repository''),
      (fst (githubIntegrationService_drift a), ''systems.system_repository_drift'')]"

definition goNoGo_contract :: "int \<Rightarrow> int \<Rightarrow> int \<Rightarrow> int \<Rightarrow> string
  \<Rightarrow> json \<Rightarrow> (request \<times> string) list" where
  "goNoGo_contract a b c d s j =
     [(fst (goNoGoService_list a (Some (all_of [''limit'', ''offset'', ''sort_by'', ''sort_dir'']))),
       ''releases.list_go_no_go_decisions''),
      (fst (goNoGoService_record a j), ''releases.record_go_no_go_decision''),
      (fst (goNoGoService_closeCondition a True), ''go_no_go.close_condition''),
      (fst (goNoGoService_listPerspectives (Some True)), ''go_no_go.list_perspectives''),
      (fst (goNoGoService_createPerspective j), ''go_no_go.create_perspective''),
      (fst (goNoGoService_updatePerspective a j), ''go_no_go.update_perspective'')]"

definition incident_contract :: "int \<Rightarrow> int \<Rightarrow> int \<Rightarrow> int \<Rightarrow> string
  \<Rightarrow> json \<Rightarrow> (request \<times> string) list" where
  "incident_contract a b c d s j =
     [(fst (incidentService_list (Some (all_of [''status'', ''severity'', ''system_id'', ''environment_id'',
       ''release_id'', ''source'', ''date_from'', ''date_to'', ''open'', ''limit'', ''offset'', ''sort_by'',
         ''sort_dir'']))), ''incidents.list_incidents''),
      (fst (incidentService_get a), ''incidents.get_incident''),
      (fst (incidentService_create j), ''incidents.create_incident''),
      (fst (incidentService_update a j), ''incidents.update_incident''),
      (fst (incidentService_transition a s), ''incidents.transition_incident''),
      (fst (incidentService_remove a), ''incidents.delete_incident''),
      (fst (incidentService_citeOnPir a j), ''incidents.cite_incident_on_a_pir'')]"

definition infrastructureComponent_contract :: "int \<Rightarrow> int \<Rightarrow> int \<Rightarrow> int
  \<Rightarrow> string \<Rightarrow> json \<Rightarrow> (request \<times> string) list" where
  "infrastructureComponent_contract a b c d s j =
     [(fst (infrastructureComponentService_listComponents (Some (all_of [''component_type'', ''provider'',
       ''region'', ''source'', ''search'', ''limit'', ''offset'', ''sort_by'', ''sort_dir'']))),
         ''infrastructure_components.list_components''),
      (fst (infrastructureComponentService_getComponent a), ''infrastructure_components.get_component''),
      (fst (infrastructureComponentService_createComponent j), ''infrastructure_components.create_component''),
      (fst (infrastructureComponentService_updateComponent a j), ''infrastructure_components.update_component''),
      (fst (infrastructureComponentService_deleteComponent a), ''infrastructure_components.delete_component''),
      (fst (infrastructureComponentService_listEnvSubsystemHosts a b), ''environments.list_env_subsystem_hosts''),
      (fst (infrastructureComponentService_setEnvSubsystemHosts a b j), ''environments.set_env_subsystem_hosts''),
      (fst (projr (infrastructureComponentService_hostImpact [a])), ''infrastructure_components.host_impact'')]"

definition myWork_contract :: "int \<Rightarrow> int \<Rightarrow> int \<Rightarrow> int \<Rightarrow> string
  \<Rightarrow> json \<Rightarrow> (request \<times> string) list" where
  "myWork_contract a b c d s j =
     [(fst myWorkService_getMyWork, ''me.my_work'')]"

definition pir_contract :: "int \<Rightarrow> int \<Rightarrow> int \<Rightarrow> int \<Rightarrow> string
  \<Rightarrow> json \<Rightarrow> (request \<times> string) list" where
  "pir_contract a b c d s j =
     [(fst (pirService_getForRelease a), ''pir.get_pir''),
      (fst (pirService_create a j), ''pir.create_pir''),
      (fst (pirService_update a j), ''pir.update_pir''),
      (fst (pirService_remove a), ''pir.delete_pir''),
      (fst (pirService_createFinding a j), ''pir.create_finding''),
      (fst (pirService_updateFinding a b j), ''pir.update_finding''),
      (fst (pirService_deleteFinding a b), ''pir.delete_finding''),
      (fst (pirService_createAction a b j), ''pir.create_action''),
      (fst (pirService_updateAction a b c j), ''pir.update_action''),
      (fst (pirService_deleteAction a b c), ''pir.delete_action''),
      (fst (pirService_citeIncident a b j), ''pir.cite_incident''),
      (fst (pirService_unciteIncident a b c), ''pir.uncite_incident''),
      (fst (pirService_listActions (Some (all_of [''limit'', ''offset'', ''sort_by'', ''sort_dir'', ''status'',
        ''owner_id'', ''overdue'']))), ''pir_actions.list_pir_actions'')]"

definition project_contract :: "int \<Rightarrow> int \<Rightarrow> int \<Rightarrow> int \<Rightarrow> string
  \<Rightarrow> json \<Rightarrow> (request \<times> string) list" where
  "project_contract a b c d s j =
     [(fst (projectService_listProjects (Some (all_of [''search'', ''is_active'', ''limit'', ''offset'',
       ''sort_by'', ''sort_dir'']))), ''projects.list_projects''),
      (fst (projectService_getProject a), ''projects.get_project''),
      (fst (projectService_createProject j), ''projects.create_project''),
      (fst (projectService_updateProject a j), ''projects.update_project''),
      (fst (projectService_deleteProject a), ''projects.delete_project''),
      (fst (projectService_listAgreementsForProject a (Some (all_of [''limit'', ''offset'']))),
        ''projects.list_project_usage_agreements''),
      (fst (projectService_listAgreementsForEnvironment a (Some (all_of [''limit'', ''offset'']))),
        ''environments.list_environment_usage_agreements''),
      (fst (projectService_createAgreement a j), ''projects.create_project_usage_agreement''),
      (fst (projectService_deleteAgreement a b), ''projects.delete_project_usage_agreement'')]"

definition raid_contract :: "int \<Rightarrow> int \<Rightarrow> int \<Rightarrow> int \<Rightarrow> string
  \<Rightarrow> json \<Rightarrow> (request \<times> string) list" where
  "raid_contract a b c d s j =
     [(fst (raidService_list a (Some (all_of [''item_type'', ''status'', ''owner_id'', ''rag'', ''overdue'']))),
       ''raid.list_raid''),
      (fst (raidService_get a b), ''raid.get_raid''),
      (fst (raidService_create a j), ''raid.create_raid''),
      (fst (raidService_update a b j), ''raid.update_raid''),
      (fst (raidService_remove a b), ''raid.delete_raid''),
      (fst (raidService_promote a b s), ''raid.promote_raid''),
      (fst (raidService_getLinks a b), ''raid.get_raid_links''),
      (fst (raidService_addScopeLink a b c), ''raid.add_raid_scope_link''),
      (fst (raidService_removeScopeLink a b c), ''raid.remove_raid_scope_link''),
      (fst (raidService_addRelation a b c s), ''raid.add_raid_relation''),
      (fst (raidService_removeRelation a b c s), ''raid.remove_raid_relation''),
      (fst (raidService_summary a), ''raid.raid_summary''),
      (fst (raidService_rollup a), ''enterprise_rollup.raid_rollup''),
      (fst raidService_getConfig, ''tenant_admin_fields.get_raid_config''),
      (fst (raidService_updateConfig j), ''tenant_admin_fields.update_raid_config'')]"

definition releaseEventType_contract :: "int \<Rightarrow> int \<Rightarrow> int \<Rightarrow> int \<Rightarrow>
  string \<Rightarrow> json \<Rightarrow> (request \<times> string) list" where
  "releaseEventType_contract a b c d s j =
     [(fst releaseEventTypeService_list, ''release_event_types.list_event_types''),
      (fst (releaseEventTypeService_create j), ''release_event_types.create_event_type''),
      (fst (releaseEventTypeService_update a j), ''release_event_types.update_event_type''),
      (fst (releaseEventTypeService_remove a), ''release_event_types.delete_event_type'')]"

definition releaseMetrics_contract :: "int \<Rightarrow> int \<Rightarrow> int \<Rightarrow> int \<Rightarrow>
  string \<Rightarrow> json \<Rightarrow> (request \<times> string) list" where
  "releaseMetrics_contract a b c d s j =
     [(fst (releaseMetricsService_releases (all_of [''date_from'', ''date_to''])), ''metrics.get_release_metrics''),
      (fst (releaseMetricsService_conflicts (all_of [''date_from'', ''date_to''])),
        ''metrics.get_booking_conflicts'')]"

definition release_contract :: "int \<Rightarrow> int \<Rightarrow> int \<Rightarrow> int \<Rightarrow> string
  \<Rightarrow> json \<Rightarrow> (request \<times> string) list" where
  "release_contract a b c d s j =
     [(fst (releaseService_list (Some (all_of [''status'', ''release_type'', ''release_kind'', ''date_from'',
       ''date_to'', ''system_id'', ''project_id'', ''search'', ''scope_window'', ''implemented'', ''open'',
         ''limit'', ''offset'', ''sort_by'', ''sort_dir'']))), ''releases.list_releases''),
      (fst (releaseService_get a), ''releases.get_release''),
      (fst (releaseService_create j), ''releases.create_release''),
      (fst (releaseService_update a j), ''releases.update_release''),
      (fst (releaseService_remove a), ''releases.delete_release''),
      (fst (releaseService_transition a j), ''releases.transition_release''),
      (fst (releaseService_listHistory a), ''releases.get_release_history''),
      (fst (releaseService_getLifecycle a), ''releases.get_release_lifecycle''),
      (fst (releaseService_listCalendar s s), ''releases.get_releases_calendar''),
      (fst (releaseService_listPhases a), ''releases.list_phases''),
      (fst (releaseService_createPhase a j), ''releases.create_phase''),
      (fst (releaseService_updatePhase a b j), ''releases.update_phase''),
      (fst (releaseService_deletePhase a b), ''releases.delete_phase''),
      (fst (releaseService_listGates a), ''releases.list_gates''),
      (fst (releaseService_createGate a j), ''releases.create_gate''),
      (fst (releaseService_updateGate a b j), ''releases.update_gate''),
      (fst (releaseService_deleteGate a b), ''releases.delete_gate''),
      (fst (releaseService_passGate a b (Some j)), ''releases.pass_gate''),
      (fst (releaseService_failGate a b (Some j)), ''releases.fail_gate''),
      (fst (releaseService_overrideGate a b (Some j)), ''releases.override_gate''),
      (fst (releaseService_listGateEvidence a), ''releases.list_gate_evidence''),
      (fst (releaseService_addGateEvidence a j), ''releases.add_gate_evidence''),
      (fst (releaseService_deleteGateEvidence a), ''releases.delete_gate_evidence''),
      (fst (releaseService_getReadiness a), ''releases.get_release_readiness''),
      (fst (releaseService_listSystems a), ''releases.list_release_systems''),
      (fst (releaseService_addSystem a j), ''releases.add_release_system''),
      (fst (releaseService_removeSystem a), ''releases.remove_release_system''),
      (fst (releaseService_listDependencies a), ''releases.list_dependencies''),
      (fst (releaseService_addDependency a j), ''releases.create_dependency''),
      (fst (releaseService_removeDependency a), ''releases.delete_dependency''),
      (fst (releaseService_listDependencyAlerts a), ''releases.get_dependency_alerts''),
      (fst (releaseService_acknowledgeAlert a b), ''releases.acknowledge_dependency_alert''),
      (fst (releaseService_listEvents a), ''releases.list_events''),
      (fst (releaseService_createEvent a j), ''releases.create_event''),
      (fst (releaseService_listChanges a), ''releases.list_changes''),
      (fst (releaseService_createChange a j), ''releases.create_change''),
      (fst (releaseService_updateChange a j), ''releases.update_change''),
      (fst (releaseService_deleteChange a), ''releases.delete_change''),
      (fst (releaseService_moveReleaseChange a j), ''releases.move_change''),
      (fst releaseService_listBacklogChanges, ''releases.list_changes_flat''),
      (fst (releaseService_fetchReleaseChangeReleaseHistory a), ''releases.get_release_history''),
      (fst (releaseService_fetchReleaseChangeStatusHistory a), ''releases.get_status_history''),
      (fst (releaseService_importScope a j), ''releases.import_scope''),
      (fst releaseService_downloadScopeImportTemplate, ''releases.scope_import_template''),
      (fst (releaseService_listBookings a), ''releases.list_release_bookings''),
      (fst (releaseService_getEnvironmentCoverage a), ''releases.get_environment_coverage''),
      (fst (releaseService_getScopeChurnAnalytics (Some (all_of [''date_from'', ''date_to'']))),
        ''releases.get_scope_churn_analytics''),
      (fst (releaseService_bookForPhase a j), ''releases.create_release_booking''),
      (fst (releaseService_bulkBookEnvironments a j), ''releases.bulk_book_release_environments''),
      (fst (releaseService_listLinkedChangeRequests a), ''releases.list_linked_crs''),
      (fst (releaseService_linkChangeRequest a b), ''releases.link_cr_to_release''),
      (fst (releaseService_unlinkChangeRequest a b), ''releases.unlink_cr_from_release''),
      (fst (releaseService_listCriteria a b), ''gate_criteria.list_criteria''),
      (fst (releaseService_createCriterion a b j), ''gate_criteria.create_criterion''),
      (fst (releaseService_updateCriterion a j), ''gate_criteria.update_criterion''),
      (fst (releaseService_completeCriterion a), ''gate_criteria.complete_criterion''),
      (fst (releaseService_reopenCriterion a), ''gate_criteria.reopen_criterion''),
      (fst (releaseService_deleteCriterion a), ''gate_criteria.delete_criterion''),
      (fst (releaseService_listReleaseOverdueCriteria a), ''gate_criteria.list_overdue'')]"

definition releaseTemplate_contract :: "int \<Rightarrow> int \<Rightarrow> int \<Rightarrow> int \<Rightarrow>
  string \<Rightarrow> json \<Rightarrow> (request \<times> string) list" where
  "releaseTemplate_contract a b c d s j =
     [(fst releaseTemplateService_list, ''release_templates.list_templates''),
      (fst (releaseTemplateService_get a), ''release_templates.get_template''),
      (fst (releaseTemplateService_create j), ''release_templates.create_template''),
      (fst (releaseTemplateService_update a j), ''release_templates.update_template''),
      (fst (releaseTemplateService_remove a), ''release_templates.delete_template''),
      (fst (releaseTemplateService_instantiate a j), ''release_templates.instantiate_template'')]"

definition rollback_contract :: "int \<Rightarrow> int \<Rightarrow> int \<Rightarrow> int \<Rightarrow> string
  \<Rightarrow> json \<Rightarrow> (request \<times> string) list" where
  "rollback_contract a b c d s j =
     [(fst (rollbackService_listPlans a), ''releases.list_rollback_plans''),
      (fst (rollbackService_upsertPlan a j), ''releases.upsert_rollback_plan''),
      (fst (rollbackService_agreePlan a b), ''releases.agree_rollback_plan''),
      (fst (rollbackService_deletePlan a b), ''releases.delete_rollback_plan''),
      (fst (rollbackService_listAuthorisations a), ''releases.list_rollback_authorisations''),
      (fst (rollbackService_recordAuthorisation a j), ''releases.create_rollback_authorisation''),
      (fst (rollbackService_listRehearsals a), ''systems.list_rollback_rehearsals''),
      (fst (rollbackService_recordRehearsal a j), ''systems.record_rollback_rehearsal''),
      (fst rollbackService_getPolicy, ''rollback_policy.get_rollback_policy''),
      (fst (rollbackService_updatePolicy j), ''rollback_policy.update_rollback_policy'')]"

definition runbook_contract :: "int \<Rightarrow> int \<Rightarrow> int \<Rightarrow> int \<Rightarrow> string
  \<Rightarrow> json \<Rightarrow> (request \<times> string) list" where
  "runbook_contract a b c d s j =
     [(fst (runbookService_listForRelease a), ''runbooks.list_runbooks''),
      (fst (runbookService_get a), ''runbooks.get_runbook''),
      (fst (runbookService_create a j), ''runbooks.create_runbook''),
      (fst (runbookService_update a j), ''runbooks.update_runbook''),
      (fst (runbookService_remove a), ''runbooks.delete_runbook''),
      (fst (runbookService_createTask a j), ''runbooks.create_task''),
      (fst (runbookService_updateTask a j), ''runbooks.update_task''),
      (fst (runbookService_removeTask a), ''runbooks.delete_task''),
      (fst (runbookService_setPredecessors a [a]), ''runbooks.set_predecessors''),
      (fst (runbookService_transition a j), ''runbooks.transition_task''),
      (fst (runbookService_events a), ''runbooks.task_events'')]"

definition schedule_contract :: "int \<Rightarrow> int \<Rightarrow> int \<Rightarrow> int \<Rightarrow> string
  \<Rightarrow> json \<Rightarrow> (request \<times> string) list" where
  "schedule_contract a b c d s j =
     [(fst (scheduleService_getEnvironmentSchedule a s s), ''environments.get_environment_schedule'')]"

definition scopeChangeRules_contract :: "int \<Rightarrow> int \<Rightarrow> int \<Rightarrow> int \<Rightarrow>
  string \<Rightarrow> json \<Rightarrow> (request \<times> string) list" where
  "scopeChangeRules_contract a b c d s j =
     [(fst scopeChangeRulesService_list, ''tenant_admin.get_scope_change_rules''),
      (fst scopeChangeRulesService_listKinds, ''tenant_admin.get_scope_change_kinds''),
      (fst (scopeChangeRulesService_upsert j), ''tenant_admin.upsert_scope_change_rules'')]"

definition system_contract :: "int \<Rightarrow> int \<Rightarrow> int \<Rightarrow> int \<Rightarrow> string
  \<Rightarrow> json \<Rightarrow> (request \<times> string) list" where
  "system_contract a b c d s j =
     [(fst (systemService_listSystems (Some (all_of [''search'', ''limit'', ''offset'', ''sort_by'',
       ''sort_dir'']))), ''systems.list_systems''),
      (fst (systemService_getSystem a), ''systems.get_system''),
      (fst (systemService_createSystem j), ''systems.create_system''),
      (fst (systemService_updateSystem a j), ''systems.update_system''),
      (fst (systemService_deleteSystem a), ''systems.delete_system''),
      (fst (systemService_listSubSystems a), ''systems.list_subsystems''),
      (fst (systemService_getSubSystem a b), ''systems.get_subsystem''),
      (fst (systemService_createSubSystem a j), ''systems.create_subsystem''),
      (fst (systemService_updateSubSystem a b j), ''systems.update_subsystem''),
      (fst (systemService_deleteSubSystem a b), ''systems.delete_subsystem'')]"

definition tenantAdmin_contract :: "int \<Rightarrow> int \<Rightarrow> int \<Rightarrow> int \<Rightarrow> string
  \<Rightarrow> json \<Rightarrow> (request \<times> string) list" where
  "tenantAdmin_contract a b c d s j =
     [(fst tenantAdminService_getSettings, ''tenant_admin.get_settings''),
      (fst (tenantAdminService_updateSettings j), ''tenant_admin.update_settings''),
      (fst tenantAdminService_listUsers, ''tenant_admin.list_users''),
      (fst (tenantAdminService_createUser j), ''tenant_admin.create_user''),
      (fst (tenantAdminService_getUser a), ''tenant_admin.get_user''),
      (fst (tenantAdminService_updateUser a j), ''tenant_admin.update_user''),
      (fst (tenantAdminService_setUserRole a s), ''tenant_admin.set_user_role''),
      (fst (tenantAdminService_deactivateUser a), ''tenant_admin.deactivate_user''),
      (fst (tenantAdminService_reactivateUser a), ''tenant_admin.reactivate_user'')]"

definition userGroup_contract :: "int \<Rightarrow> int \<Rightarrow> int \<Rightarrow> int \<Rightarrow> string
  \<Rightarrow> json \<Rightarrow> (request \<times> string) list" where
  "userGroup_contract a b c d s j =
     [(fst (userGroupService_listGroups (Some (all_of [''limit'', ''offset'', ''sort_by'', ''sort_dir'']))),
       ''user_groups.list_user_groups''),
      (fst (userGroupService_getGroup a), ''user_groups.get_user_group''),
      (fst (userGroupService_createGroup j), ''user_groups.create_user_group''),
      (fst (userGroupService_updateGroup a j), ''user_groups.update_user_group''),
      (fst (userGroupService_deleteGroup a), ''user_groups.delete_user_group''),
      (fst (userGroupService_listMembers a (Some (all_of [''limit'', ''offset'']))),
        ''user_groups.list_user_group_members''),
      (fst (userGroupService_addMember a b), ''user_groups.add_user_group_member''),
      (fst (userGroupService_removeMember a b), ''user_groups.remove_user_group_member'')]"

definition version_contract :: "int \<Rightarrow> int \<Rightarrow> int \<Rightarrow> int \<Rightarrow> string
  \<Rightarrow> json \<Rightarrow> (request \<times> string) list" where
  "version_contract a b c d s j =
     [(fst (versionService_listVersions a (Some True)), ''environments.list_versions''),
      (fst (versionService_recordVersion a j), ''environments.record_version''),
      (fst (versionService_updateVersion a b j), ''environments.update_version''),
      (fst (versionService_deleteVersion a b), ''environments.delete_version''),
      (fst (versionService_importEnvironments j), ''import_routes.import_environments_endpoint''),
      (fst (versionService_importSystems j), ''import_routes.import_systems_endpoint'')]"

definition topology_contract :: "int \<Rightarrow> int \<Rightarrow> int \<Rightarrow> int \<Rightarrow> string
  \<Rightarrow> json \<Rightarrow> (request \<times> string) list" where
  "topology_contract a b c d s j =
     [(fst (getSystemTopology a), ''topology.get_system_topology'')]"

subsection \<open>Evaluation\<close>

lemma router_prefixes [contract]:
  "rr_prefix api_keys_routes = [Lit ''api-keys'']"
  "rr_prefix auth_routes = [Lit ''auth'']"
  "rr_prefix admin_routes = [Lit ''admin'']"
  "rr_prefix tenant_admin_routes = [Lit ''tenant'']"
  "rr_prefix tenant_admin_fields_routes = [Lit ''tenant'']"
  "rr_prefix systems_routes = [Lit ''systems'']"
  "rr_prefix environment_health_routes = [Lit ''environments'']"
  "rr_prefix environment_operating_hours_routes = [Lit ''environments'']"
  "rr_prefix environments_routes = [Lit ''environments'']"
  "rr_prefix environment_tiers_routes = [Lit ''environment-tiers'']"
  "rr_prefix dependencies_routes = []"
  "rr_prefix bookings_routes = [Lit ''bookings'']"
  "rr_prefix import_routes_routes = [Lit ''import'']"
  "rr_prefix topology_routes = []"
  "rr_prefix booking_lifecycle_routes = [Lit ''tenant'']"
  "rr_prefix component_types_routes = [Lit ''component-types'']"
  "rr_prefix booking_requests_routes = [Lit ''booking-requests'']"
  "rr_prefix conflicts_routes = [Lit ''bookings'']"
  "rr_prefix me_routes = [Lit ''me'']"
  "rr_prefix contentions_routes = [Lit ''bookings'']"
  "rr_prefix contentions_escalations_routes = [Lit ''contention-escalations'']"
  "rr_prefix decommissions_routes = [Lit ''environments'']"
  "rr_prefix decommissions_extensions_routes = [Lit ''decommissions'']"
  "rr_prefix change_requests_routes = [Lit ''change-requests'']"
  "rr_prefix infrastructure_components_routes = [Lit ''infrastructure-components'']"
  "rr_prefix pir_routes = [Lit ''releases'']"
  "rr_prefix pir_actions_routes = [Lit ''pir-actions'']"
  "rr_prefix enterprise_rollup_routes = []"
  "rr_prefix enterprise_memberships_routes = []"
  "rr_prefix releases_routes = [Lit ''releases'']"
  "rr_prefix releases_phases_routes = [Lit ''phases'']"
  "rr_prefix releases_gates_routes = [Lit ''gates'']"
  "rr_prefix releases_release_systems_routes = [Lit ''release-systems'']"
  "rr_prefix releases_release_deps_routes = [Lit ''release-dependencies'']"
  "rr_prefix releases_release_changes_routes = [Lit ''release-changes'']"
  "rr_prefix release_templates_routes = [Lit ''release-templates'']"
  "rr_prefix release_event_types_routes = [Lit ''release-event-types'']"
  "rr_prefix gate_criteria_release_sub_routes = [Lit ''releases'']"
  "rr_prefix gate_criteria_routes = [Lit ''gate-criteria'']"
  "rr_prefix raid_routes = [Lit ''releases'']"
  "rr_prefix deployment_routes = [Lit ''webhooks'']"
  "rr_prefix can_deploy_routes = [Lit ''webhooks'']"
  "rr_prefix release_ready_routes = [Lit ''webhooks'']"
  "rr_prefix builds_routes = [Lit ''builds'']"
  "rr_prefix deployments_routes = [Lit ''deployments'']"
  "rr_prefix deployments_env_sub_routes = [Lit ''environments'']"
  "rr_prefix incidents_routes = [Lit ''incidents'']"
  "rr_prefix metrics_routes = [Lit ''metrics'']"
  "rr_prefix integrations_github_routes = [Lit ''integrations'', Lit ''github'']"
  "rr_prefix user_groups_routes = [Lit ''tenant'']"
  "rr_prefix environment_requests_routes = [Lit ''environment-requests'']"
  "rr_prefix projects_routes = [Lit ''projects'']"
  "rr_prefix environment_groups_routes = [Lit ''environment-groups'']"
  "rr_prefix gate_types_routes = [Lit ''gate-types'']"
  "rr_prefix rollback_policy_routes = [Lit ''tenant'']"
  "rr_prefix go_no_go_routes = []"
  "rr_prefix go_no_go_perspectives_routes = [Lit ''tenant'', Lit ''go-no-go-perspectives'']"
  "rr_prefix release_closeout_routes = [Lit ''releases'']"
  "rr_prefix runbooks_routes = []"
  by (simp_all add: api_keys_routes_def
      auth_routes_def
      admin_routes_def
      tenant_admin_routes_def
      tenant_admin_fields_routes_def
      systems_routes_def
      environment_health_routes_def
      environment_operating_hours_routes_def
      environments_routes_def
      environment_tiers_routes_def
      dependencies_routes_def
      bookings_routes_def
      import_routes_routes_def
      topology_routes_def
      booking_lifecycle_routes_def
      component_types_routes_def
      booking_requests_routes_def
      conflicts_routes_def
      me_routes_def
      contentions_routes_def
      contentions_escalations_routes_def
      decommissions_routes_def
      decommissions_extensions_routes_def
      change_requests_routes_def
      infrastructure_components_routes_def
      pir_routes_def
      pir_actions_routes_def
      enterprise_rollup_routes_def
      enterprise_memberships_routes_def
      releases_routes_def
      releases_phases_routes_def
      releases_gates_routes_def
      releases_release_systems_routes_def
      releases_release_deps_routes_def
      releases_release_changes_routes_def
      release_templates_routes_def
      release_event_types_routes_def
      gate_criteria_release_sub_routes_def
      gate_criteria_routes_def
      raid_routes_def
      deployment_routes_def
      can_deploy_routes_def
      release_ready_routes_def
      builds_routes_def
      deployments_routes_def
      deployments_env_sub_routes_def
      incidents_routes_def
      metrics_routes_def
      integrations_github_routes_def
      user_groups_routes_def
      environment_requests_routes_def
      projects_routes_def
      environment_groups_routes_def
      gate_types_routes_def
      rollback_policy_routes_def
      go_no_go_routes_def
      go_no_go_perspectives_routes_def
      release_closeout_routes_def
      runbooks_routes_def router_def)

lemma under_heads [contract]:
  "under ''api-keys'' = [api_keys_routes, dependencies_routes, topology_routes, enterprise_rollup_routes,
    enterprise_memberships_routes, go_no_go_routes, runbooks_routes]"
  "under ''auth'' = [auth_routes, dependencies_routes, topology_routes, enterprise_rollup_routes,
    enterprise_memberships_routes, go_no_go_routes, runbooks_routes]"
  "under ''admin'' = [admin_routes, dependencies_routes, topology_routes, enterprise_rollup_routes,
    enterprise_memberships_routes, go_no_go_routes, runbooks_routes]"
  "under ''tenant'' = [tenant_admin_routes, tenant_admin_fields_routes, dependencies_routes, topology_routes,
    booking_lifecycle_routes, enterprise_rollup_routes, enterprise_memberships_routes, user_groups_routes,
      rollback_policy_routes, go_no_go_routes, go_no_go_perspectives_routes, runbooks_routes]"
  "under ''systems'' = [systems_routes, dependencies_routes, topology_routes, enterprise_rollup_routes,
    enterprise_memberships_routes, go_no_go_routes, runbooks_routes]"
  "under ''environments'' = [environment_health_routes, environment_operating_hours_routes, environments_routes,
    dependencies_routes, topology_routes, decommissions_routes, enterprise_rollup_routes,
      enterprise_memberships_routes, deployments_env_sub_routes, go_no_go_routes, runbooks_routes]"
  "under ''environment-tiers'' = [environment_tiers_routes, dependencies_routes, topology_routes,
    enterprise_rollup_routes, enterprise_memberships_routes, go_no_go_routes, runbooks_routes]"
  "under ''subsystems'' = [dependencies_routes, topology_routes, enterprise_rollup_routes,
    enterprise_memberships_routes, go_no_go_routes, runbooks_routes]"
  "under ''bookings'' = [dependencies_routes, bookings_routes, topology_routes, conflicts_routes,
    contentions_routes, enterprise_rollup_routes, enterprise_memberships_routes, go_no_go_routes, runbooks_routes]"
  "under ''import'' = [dependencies_routes, import_routes_routes, topology_routes, enterprise_rollup_routes,
    enterprise_memberships_routes, go_no_go_routes, runbooks_routes]"
  "under ''component-types'' = [dependencies_routes, topology_routes, component_types_routes,
    enterprise_rollup_routes, enterprise_memberships_routes, go_no_go_routes, runbooks_routes]"
  "under ''booking-requests'' = [dependencies_routes, topology_routes, booking_requests_routes,
    enterprise_rollup_routes, enterprise_memberships_routes, go_no_go_routes, runbooks_routes]"
  "under ''me'' = [dependencies_routes, topology_routes, me_routes, enterprise_rollup_routes,
    enterprise_memberships_routes, go_no_go_routes, runbooks_routes]"
  "under ''contention-escalations'' = [dependencies_routes, topology_routes, contentions_escalations_routes,
    enterprise_rollup_routes, enterprise_memberships_routes, go_no_go_routes, runbooks_routes]"
  "under ''decommissions'' = [dependencies_routes, topology_routes, decommissions_extensions_routes,
    enterprise_rollup_routes, enterprise_memberships_routes, go_no_go_routes, runbooks_routes]"
  "under ''change-requests'' = [dependencies_routes, topology_routes, change_requests_routes,
    enterprise_rollup_routes, enterprise_memberships_routes, go_no_go_routes, runbooks_routes]"
  "under ''infrastructure-components'' = [dependencies_routes, topology_routes, infrastructure_components_routes,
    enterprise_rollup_routes, enterprise_memberships_routes, go_no_go_routes, runbooks_routes]"
  "under ''releases'' = [dependencies_routes, topology_routes, pir_routes, enterprise_rollup_routes,
    enterprise_memberships_routes, releases_routes, gate_criteria_release_sub_routes, raid_routes, go_no_go_routes,
      release_closeout_routes, runbooks_routes]"
  "under ''pir-actions'' = [dependencies_routes, topology_routes, pir_actions_routes, enterprise_rollup_routes,
    enterprise_memberships_routes, go_no_go_routes, runbooks_routes]"
  "under ''phases'' = [dependencies_routes, topology_routes, enterprise_rollup_routes,
    enterprise_memberships_routes, releases_phases_routes, go_no_go_routes, runbooks_routes]"
  "under ''gates'' = [dependencies_routes, topology_routes, enterprise_rollup_routes,
    enterprise_memberships_routes, releases_gates_routes, go_no_go_routes, runbooks_routes]"
  "under ''release-systems'' = [dependencies_routes, topology_routes, enterprise_rollup_routes,
    enterprise_memberships_routes, releases_release_systems_routes, go_no_go_routes, runbooks_routes]"
  "under ''release-dependencies'' = [dependencies_routes, topology_routes, enterprise_rollup_routes,
    enterprise_memberships_routes, releases_release_deps_routes, go_no_go_routes, runbooks_routes]"
  "under ''release-changes'' = [dependencies_routes, topology_routes, enterprise_rollup_routes,
    enterprise_memberships_routes, releases_release_changes_routes, go_no_go_routes, runbooks_routes]"
  "under ''release-templates'' = [dependencies_routes, topology_routes, enterprise_rollup_routes,
    enterprise_memberships_routes, release_templates_routes, go_no_go_routes, runbooks_routes]"
  "under ''release-event-types'' = [dependencies_routes, topology_routes, enterprise_rollup_routes,
    enterprise_memberships_routes, release_event_types_routes, go_no_go_routes, runbooks_routes]"
  "under ''gate-criteria'' = [dependencies_routes, topology_routes, enterprise_rollup_routes,
    enterprise_memberships_routes, gate_criteria_routes, go_no_go_routes, runbooks_routes]"
  "under ''webhooks'' = [dependencies_routes, topology_routes, enterprise_rollup_routes,
    enterprise_memberships_routes, deployment_routes, can_deploy_routes, release_ready_routes, go_no_go_routes,
      runbooks_routes]"
  "under ''builds'' = [dependencies_routes, topology_routes, enterprise_rollup_routes,
    enterprise_memberships_routes, builds_routes, go_no_go_routes, runbooks_routes]"
  "under ''deployments'' = [dependencies_routes, topology_routes, enterprise_rollup_routes,
    enterprise_memberships_routes, deployments_routes, go_no_go_routes, runbooks_routes]"
  "under ''incidents'' = [dependencies_routes, topology_routes, enterprise_rollup_routes,
    enterprise_memberships_routes, incidents_routes, go_no_go_routes, runbooks_routes]"
  "under ''metrics'' = [dependencies_routes, topology_routes, enterprise_rollup_routes,
    enterprise_memberships_routes, metrics_routes, go_no_go_routes, runbooks_routes]"
  "under ''integrations'' = [dependencies_routes, topology_routes, enterprise_rollup_routes,
    enterprise_memberships_routes, integrations_github_routes, go_no_go_routes, runbooks_routes]"
  "under ''environment-requests'' = [dependencies_routes, topology_routes, enterprise_rollup_routes,
    enterprise_memberships_routes, environment_requests_routes, go_no_go_routes, runbooks_routes]"
  "under ''projects'' = [dependencies_routes, topology_routes, enterprise_rollup_routes,
    enterprise_memberships_routes, projects_routes, go_no_go_routes, runbooks_routes]"
  "under ''environment-groups'' = [dependencies_routes, topology_routes, enterprise_rollup_routes,
    enterprise_memberships_routes, environment_groups_routes, go_no_go_routes, runbooks_routes]"
  "under ''gate-types'' = [dependencies_routes, topology_routes, enterprise_rollup_routes,
    enterprise_memberships_routes, gate_types_routes, go_no_go_routes, runbooks_routes]"
  "under ''go-no-go-conditions'' = [dependencies_routes, topology_routes, enterprise_rollup_routes,
    enterprise_memberships_routes, go_no_go_routes, runbooks_routes]"
  "under ''runbooks'' = [dependencies_routes, topology_routes, enterprise_rollup_routes,
    enterprise_memberships_routes, go_no_go_routes, runbooks_routes]"
  "under ''runbook-tasks'' = [dependencies_routes, topology_routes, enterprise_rollup_routes,
    enterprise_memberships_routes, go_no_go_routes, runbooks_routes]"
  by (simp_all add: under_def api_routers_def router_prefixes)

lemmas router_rows [contract] =
  rows_of [OF api_keys_routes_def]
  rows_of [OF auth_routes_def]
  rows_of [OF admin_routes_def]
  rows_of [OF tenant_admin_routes_def]
  rows_of [OF tenant_admin_fields_routes_def]
  rows_of [OF systems_routes_def]
  rows_of [OF environment_health_routes_def]
  rows_of [OF environment_operating_hours_routes_def]
  rows_of [OF environments_routes_def]
  rows_of [OF environment_tiers_routes_def]
  rows_of [OF dependencies_routes_def]
  rows_of [OF bookings_routes_def]
  rows_of [OF import_routes_routes_def]
  rows_of [OF topology_routes_def]
  rows_of [OF booking_lifecycle_routes_def]
  rows_of [OF component_types_routes_def]
  rows_of [OF booking_requests_routes_def]
  rows_of [OF conflicts_routes_def]
  rows_of [OF me_routes_def]
  rows_of [OF contentions_routes_def]
  rows_of [OF contentions_escalations_routes_def]
  rows_of [OF decommissions_routes_def]
  rows_of [OF decommissions_extensions_routes_def]
  rows_of [OF change_requests_routes_def]
  rows_of [OF infrastructure_components_routes_def]
  rows_of [OF pir_routes_def]
  rows_of [OF pir_actions_routes_def]
  rows_of [OF enterprise_rollup_routes_def]
  rows_of [OF enterprise_memberships_routes_def]
  rows_of [OF releases_routes_def]
  rows_of [OF releases_phases_routes_def]
  rows_of [OF releases_gates_routes_def]
  rows_of [OF releases_release_systems_routes_def]
  rows_of [OF releases_release_deps_routes_def]
  rows_of [OF releases_release_changes_routes_def]
  rows_of [OF release_templates_routes_def]
  rows_of [OF release_event_types_routes_def]
  rows_of [OF gate_criteria_release_sub_routes_def]
  rows_of [OF gate_criteria_routes_def]
  rows_of [OF raid_routes_def]
  rows_of [OF deployment_routes_def]
  rows_of [OF can_deploy_routes_def]
  rows_of [OF release_ready_routes_def]
  rows_of [OF builds_routes_def]
  rows_of [OF deployments_routes_def]
  rows_of [OF deployments_env_sub_routes_def]
  rows_of [OF incidents_routes_def]
  rows_of [OF metrics_routes_def]
  rows_of [OF integrations_github_routes_def]
  rows_of [OF user_groups_routes_def]
  rows_of [OF environment_requests_routes_def]
  rows_of [OF projects_routes_def]
  rows_of [OF environment_groups_routes_def]
  rows_of [OF gate_types_routes_def]
  rows_of [OF rollback_policy_routes_def]
  rows_of [OF go_no_go_routes_def]
  rows_of [OF go_no_go_perspectives_routes_def]
  rows_of [OF release_closeout_routes_def]
  rows_of [OF runbooks_routes_def]

lemma admin_served: "list_all served_pieces (admin_contract a b c d s j)"
  by (simp add: admin_contract_def adminService_listTenants_def adminService_createTenant_def
    adminService_getTenant_def
      adminService_updateTenant_def adminService_disableTenant_def adminService_listTenantUsers_def
      adminService_createTenantUser_def adminService_updateTenantUser_def adminService_setTenantUserRole_def
      adminService_deactivateTenantUser_def adminService_reactivateTenantUser_def adminService_resetUserPassword_def
      adminService_signInAsTenant_def contract cong: frozen)

lemma agreementGap_served: "list_all served_pieces (agreementGap_contract a b c d s j)"
  by (simp add: agreementGap_contract_def agreementGapService_ackGap_def contract cong: frozen)

lemma apiKey_served: "list_all served_pieces (apiKey_contract a b c d s j)"
  by (simp add: apiKey_contract_def apiKeyService_list_def apiKeyService_create_def apiKeyService_revoke_def
    contract cong: frozen)

lemma auth_served: "list_all served_pieces (auth_contract a b c d s j)"
  by (simp add: auth_contract_def authService_login_def authService_getCurrentUser_def contract cong: frozen)

lemma bookingLifecycle_served: "list_all served_pieces (bookingLifecycle_contract a b c d s j)"
  by (simp add: bookingLifecycle_contract_def bookingLifecycleService_listTemplates_def
    bookingLifecycleService_getTemplate_def bookingLifecycleService_createTemplate_def
      bookingLifecycleService_updateTemplate_def bookingLifecycleService_copyTemplate_def
        bookingLifecycleService_listBookingTypes_def
      bookingLifecycleService_getBookingType_def bookingLifecycleService_createBookingType_def
        bookingLifecycleService_updateBookingType_def
      bookingLifecycleService_deleteTemplate_def bookingLifecycleService_deleteBookingType_def contract cong:
        frozen)

lemma bookingRequest_served: "list_all served_pieces (bookingRequest_contract a b c d s j)"
  by (simp add: bookingRequest_contract_def bookingRequestService_list_def bookingRequestService_get_def
    bookingRequestService_create_def
      bookingRequestService_previewConflicts_def bookingRequestService_updateStandardFields_def
        bookingRequestService_updateCustomFields_def
      bookingRequestService_addEnvironment_def bookingRequestService_removeEnvironment_def contract cong: frozen)

lemma booking_served: "list_all served_pieces (booking_contract a b c d s j)"
  by (simp add: booking_contract_def bookingService_listBookings_def bookingService_createBooking_def
    bookingService_getBooking_def
      bookingService_deleteOccurrence_def bookingService_deleteSeries_def bookingService_transitionState_def
      bookingService_getHistory_def bookingService_getAllowedTransitions_def bookingService_updateStandardFields_def
      bookingService_getConflicts_def bookingService_acknowledgeConflict_def bookingService_getReceivedFeedback_def
        contract cong: frozen)

lemma build_served: "list_all served_pieces (build_contract a b c d s j)"
  by (simp add: build_contract_def buildService_list_def buildService_get_def build_toParams_def given_def
    if_truthy_def truthy_def contract cong: frozen)

lemma changeRequest_served: "list_all served_pieces (changeRequest_contract a b c d s j)"
  by (simp add: changeRequest_contract_def changeRequestService_list_def changeRequestService_get_def
    changeRequestService_create_def
      changeRequestService_update_def changeRequestService_transition_def
        changeRequestService_getAllowedTransitions_def
      changeRequestService_remove_def changeRequestService_previewOutageConflicts_def contract cong: frozen)

lemma closeout_served: "list_all served_pieces (closeout_contract a b c d s j)"
  by (simp add: closeout_contract_def closeoutService_get_def closeoutService_declareStable_def
    closeoutService_withdrawStable_def
      closeoutService_confirmHandover_def closeoutService_withdrawHandover_def contract cong: frozen)

lemma componentType_served: "list_all served_pieces (componentType_contract a b c d s j)"
  by (simp add: componentType_contract_def componentTypeService_listTypes_def componentTypeService_getType_def
    componentTypeService_createType_def
      componentTypeService_updateType_def componentTypeService_deleteType_def contract cong: frozen)

lemma contentionForecast_served: "list_all served_pieces (contentionForecast_contract a b c d s j)"
  by (simp add: contentionForecast_contract_def contentionForecastService_getHorizon_def contract cong: frozen)

lemma contention_served: "list_all served_pieces (contention_contract a b c d s j)"
  by (simp add: contention_contract_def contentionService_escalate_def contentionService_decide_def
    contentionService_list_def contract cong: frozen)

lemma customField_served: "list_all served_pieces (customField_contract a b c d s j)"
  by (simp add: customField_contract_def customFieldService_listDefinitions_def
    customFieldService_createDefinition_def customFieldService_updateDefinition_def
      customFieldService_deleteDefinition_def contract cong: frozen)

lemma decommission_served: "list_all served_pieces (decommission_contract a b c d s j)"
  by (simp add: decommission_contract_def decommissionService_getForEnvironment_def
    decommissionService_initiate_def decommissionService_requestExtension_def
      decommissionService_decideExtension_def decommissionService_signAttestation_def
        decommissionService_tearDown_def
      decommissionService_cancel_def decommissionService_listSteps_def decommissionService_createStep_def
      decommissionService_updateStep_def decommissionService_deleteStep_def decommissionService_listWorklist_def
        contract cong: frozen)

lemma dependency_served: "list_all served_pieces (dependency_contract a b c d s j)"
  by (simp add: dependency_contract_def dependencyService_listSystemDependencies_def
    dependencyService_createSystemDependency_def dependencyService_deleteSystemDependency_def
      dependencyService_updateSystemDependency_def dependencyService_listComponentDependencies_def
        dependencyService_createComponentDependency_def
      dependencyService_deleteComponentDependency_def dependencyService_updateComponentDependency_def
        dependencyService_createComponentEndpoint_def
      dependencyService_updateComponentEndpoint_def dependencyService_deleteComponentEndpoint_def
        dependencyService_verifyEnvironment_def contract cong: frozen)

lemma deployment_served: "list_all served_pieces (deployment_contract a b c d s j)"
  by (simp add: deployment_contract_def deploymentService_list_def deploymentService_get_def
    deploymentService_linkChange_def
      deploymentService_forEnvironment_def deployment_toParams_def given_def if_truthy_def truthy_def contract
        cong: frozen)

lemma dora_served: "list_all served_pieces (dora_contract a b c d s j)"
  by (simp add: dora_contract_def doraService_getSummary_def contract cong: frozen)

lemma enterpriseMembership_served: "list_all served_pieces (enterpriseMembership_contract a b c d s j)"
  by (simp add: enterpriseMembership_contract_def enterpriseMembershipService_request_def
    enterpriseMembershipService_list_def enterpriseMembershipService_accept_def
      enterpriseMembershipService_reject_def enterpriseMembershipService_withdraw_def
        enterpriseMembershipService_remove_def
      enterpriseMembershipService_getProjectMembership_def contract cong: frozen)

lemma enterpriseReport_served: "list_all served_pieces (enterpriseReport_contract a b c d s j)"
  by (simp add: enterpriseReport_contract_def enterpriseReportService_generate_def contract cong: frozen)

lemma enterpriseRollup_served: "list_all served_pieces (enterpriseRollup_contract a b c d s j)"
  by (simp add: enterpriseRollup_contract_def enterpriseRollupService_systems_def enterpriseRollupService_scope_def
    enterpriseRollupService_timeline_def
      enterpriseRollupService_members_def contract cong: frozen)

lemma environmentComparison_served: "list_all served_pieces (environmentComparison_contract a b c d s j)"
  by (simp add: environmentComparison_contract_def environmentComparisonService_compare_def contract cong: frozen)

lemma environmentGroup_served: "list_all served_pieces (environmentGroup_contract a b c d s j)"
  by (simp add: environmentGroup_contract_def environmentGroupService_listGroups_def
    environmentGroupService_getGroup_def environmentGroupService_createGroup_def
      environmentGroupService_updateGroup_def environmentGroupService_deleteGroup_def
        environmentGroupService_listMembers_def
      environmentGroupService_listGroupsForEnvironment_def environmentGroupService_addMember_def
        environmentGroupService_removeMember_def
      environmentGroupService_transitionGroup_def environmentGroupService_groupAllowedTransitions_def contract
        cong: frozen)

lemma environmentHealth_served: "list_all served_pieces (environmentHealth_contract a b c d s j)"
  by (simp add: environmentHealth_contract_def environmentHealthService_overview_def
    environmentHealthService_history_def contract cong: frozen)

lemma environmentLifecyclePolicy_served: "list_all served_pieces (environmentLifecyclePolicy_contract a b c d s j)"
  by (simp add: environmentLifecyclePolicy_contract_def environmentLifecyclePolicyService_get_def
    environmentLifecyclePolicyService_save_def contract cong: frozen)

lemma environmentNamingPolicy_served: "list_all served_pieces (environmentNamingPolicy_contract a b c d s j)"
  by (simp add: environmentNamingPolicy_contract_def environmentNamingPolicyService_get_def
    environmentNamingPolicyService_save_def environmentNamingPolicyService_preview_def contract cong: frozen)

lemma environmentOperatingHours_served: "list_all served_pieces (environmentOperatingHours_contract a b c d s j)"
  by (simp add: environmentOperatingHours_contract_def environmentOperatingHoursService_getConfig_def
    environmentOperatingHoursService_putConfig_def environmentOperatingHoursService_utilization_def
      environmentOperatingHoursService_overview_def contract cong: frozen)

lemma environmentRequest_served: "list_all served_pieces (environmentRequest_contract a b c d s j)"
  by (simp add: environmentRequest_contract_def environmentRequestService_listRequests_def
    environmentRequestService_getRequest_def environmentRequestService_createRequest_def
      environmentRequestService_updateRequest_def environmentRequestService_transition_def
        environmentRequestService_allowedTransitions_def
      environmentRequestService_getWelcomePack_def environmentRequestService_updateHandover_def contract cong:
        frozen)

lemma environment_served: "list_all served_pieces (environment_contract a b c d s j)"
  by (simp add: environment_contract_def environmentService_listEnvironments_def
    environmentService_getEnvironment_def environmentService_createEnvironment_def
      environmentService_updateEnvironment_def environmentService_deleteEnvironment_def
        environmentService_listSystemsInEnvironment_def
      environmentService_addSystemToEnvironment_def environmentService_updateSystemInEnvironment_def
        environmentService_removeSystemFromEnvironment_def
      environmentService_listEnvironmentSubsystems_def environmentService_updateEnvironmentSubsystem_def
        environmentService_getEnvironmentTopology_def contract cong: frozen)

lemma environmentTier_served: "list_all served_pieces (environmentTier_contract a b c d s j)"
  by (simp add: environmentTier_contract_def environmentTierService_listTiers_def
    environmentTierService_createTier_def environmentTierService_updateTier_def
      environmentTierService_deleteTier_def contract cong: frozen)

lemma gateType_served: "list_all served_pieces (gateType_contract a b c d s j)"
  by (simp add: gateType_contract_def gateTypeService_listGateTypes_def gateTypeService_createGateType_def
    gateTypeService_updateGateType_def
      gateTypeService_deleteGateType_def contract cong: frozen)

lemma githubIntegration_served: "list_all served_pieces (githubIntegration_contract a b c d s j)"
  by (simp add: githubIntegration_contract_def githubIntegrationService_status_def
    githubIntegrationService_connect_def githubIntegrationService_disconnect_def
      githubIntegrationService_scan_def githubIntegrationService_drift_def contract cong: frozen)

lemma goNoGo_served: "list_all served_pieces (goNoGo_contract a b c d s j)"
  by (simp add: goNoGo_contract_def goNoGoService_list_def goNoGoService_record_def goNoGoService_closeCondition_def
      goNoGoService_listPerspectives_def goNoGoService_createPerspective_def goNoGoService_updatePerspective_def
        contract cong: frozen)

lemma incident_served: "list_all served_pieces (incident_contract a b c d s j)"
  by (simp add: incident_contract_def incidentService_list_def incidentService_get_def incidentService_create_def
      incidentService_update_def incidentService_transition_def incidentService_remove_def
      incidentService_citeOnPir_def contract cong: frozen)

lemma infrastructureComponent_served: "list_all served_pieces (infrastructureComponent_contract a b c d s j)"
  by (simp add: infrastructureComponent_contract_def infrastructureComponentService_listComponents_def
    infrastructureComponentService_getComponent_def infrastructureComponentService_createComponent_def
      infrastructureComponentService_updateComponent_def infrastructureComponentService_deleteComponent_def
        infrastructureComponentService_listEnvSubsystemHosts_def
      infrastructureComponentService_setEnvSubsystemHosts_def infrastructureComponentService_hostImpact_def
        contract cong: frozen)

lemma myWork_served: "list_all served_pieces (myWork_contract a b c d s j)"
  by (simp add: myWork_contract_def myWorkService_getMyWork_def contract cong: frozen)

lemma pir_served: "list_all served_pieces (pir_contract a b c d s j)"
  by (simp add: pir_contract_def pirService_getForRelease_def pirService_create_def pirService_update_def
      pirService_remove_def pirService_createFinding_def pirService_updateFinding_def
      pirService_deleteFinding_def pirService_createAction_def pirService_updateAction_def
      pirService_deleteAction_def pirService_citeIncident_def pirService_unciteIncident_def
      pirService_listActions_def contract cong: frozen)

lemma project_served: "list_all served_pieces (project_contract a b c d s j)"
  by (simp add: project_contract_def projectService_listProjects_def projectService_getProject_def
    projectService_createProject_def
      projectService_updateProject_def projectService_deleteProject_def projectService_listAgreementsForProject_def
      projectService_listAgreementsForEnvironment_def projectService_createAgreement_def
        projectService_deleteAgreement_def contract cong: frozen)

lemma raid_served: "list_all served_pieces (raid_contract a b c d s j)"
  by (simp add: raid_contract_def raidService_list_def raidService_get_def raidService_create_def
      raidService_update_def raidService_remove_def raidService_promote_def
      raidService_getLinks_def raidService_addScopeLink_def raidService_removeScopeLink_def
      raidService_addRelation_def raidService_removeRelation_def raidService_summary_def
      raidService_rollup_def raidService_getConfig_def raidService_updateConfig_def contract cong: frozen)

lemma releaseEventType_served: "list_all served_pieces (releaseEventType_contract a b c d s j)"
  by (simp add: releaseEventType_contract_def releaseEventTypeService_list_def releaseEventTypeService_create_def
    releaseEventTypeService_update_def
      releaseEventTypeService_remove_def contract cong: frozen)

lemma releaseMetrics_served: "list_all served_pieces (releaseMetrics_contract a b c d s j)"
  by (simp add: releaseMetrics_contract_def releaseMetricsService_releases_def releaseMetricsService_conflicts_def
    contract cong: frozen)

lemma release_served: "list_all served_pieces (release_contract a b c d s j)"
  by (simp add: release_contract_def releaseService_list_def releaseService_get_def releaseService_create_def
      releaseService_update_def releaseService_remove_def releaseService_transition_def
      releaseService_listHistory_def releaseService_getLifecycle_def releaseService_listCalendar_def
      releaseService_listPhases_def releaseService_createPhase_def releaseService_updatePhase_def
      releaseService_deletePhase_def releaseService_listGates_def releaseService_createGate_def
      releaseService_updateGate_def releaseService_deleteGate_def releaseService_passGate_def
      releaseService_failGate_def releaseService_overrideGate_def releaseService_listGateEvidence_def
      releaseService_addGateEvidence_def releaseService_deleteGateEvidence_def releaseService_getReadiness_def
      releaseService_listSystems_def releaseService_addSystem_def releaseService_removeSystem_def
      releaseService_listDependencies_def releaseService_addDependency_def releaseService_removeDependency_def
      releaseService_listDependencyAlerts_def releaseService_acknowledgeAlert_def releaseService_listEvents_def
      releaseService_createEvent_def releaseService_listChanges_def releaseService_createChange_def
      releaseService_updateChange_def releaseService_deleteChange_def releaseService_moveReleaseChange_def
      releaseService_listBacklogChanges_def releaseService_fetchReleaseChangeReleaseHistory_def
        releaseService_fetchReleaseChangeStatusHistory_def
      releaseService_importScope_def releaseService_downloadScopeImportTemplate_def releaseService_listBookings_def
      releaseService_getEnvironmentCoverage_def releaseService_getScopeChurnAnalytics_def
        releaseService_bookForPhase_def
      releaseService_bulkBookEnvironments_def releaseService_listLinkedChangeRequests_def
        releaseService_linkChangeRequest_def
      releaseService_unlinkChangeRequest_def releaseService_listCriteria_def releaseService_createCriterion_def
      releaseService_updateCriterion_def releaseService_completeCriterion_def releaseService_reopenCriterion_def
      releaseService_deleteCriterion_def releaseService_listReleaseOverdueCriteria_def contract cong: frozen)

lemma releaseTemplate_served: "list_all served_pieces (releaseTemplate_contract a b c d s j)"
  by (simp add: releaseTemplate_contract_def releaseTemplateService_list_def releaseTemplateService_get_def
    releaseTemplateService_create_def
      releaseTemplateService_update_def releaseTemplateService_remove_def releaseTemplateService_instantiate_def
        contract cong: frozen)

lemma rollback_served: "list_all served_pieces (rollback_contract a b c d s j)"
  by (simp add: rollback_contract_def rollbackService_listPlans_def rollbackService_upsertPlan_def
    rollbackService_agreePlan_def
      rollbackService_deletePlan_def rollbackService_listAuthorisations_def rollbackService_recordAuthorisation_def
      rollbackService_listRehearsals_def rollbackService_recordRehearsal_def rollbackService_getPolicy_def
      rollbackService_updatePolicy_def contract cong: frozen)

lemma runbook_served: "list_all served_pieces (runbook_contract a b c d s j)"
  by (simp add: runbook_contract_def runbookService_listForRelease_def runbookService_get_def
    runbookService_create_def
      runbookService_update_def runbookService_remove_def runbookService_createTask_def
      runbookService_updateTask_def runbookService_removeTask_def runbookService_setPredecessors_def
      runbookService_transition_def runbookService_events_def contract cong: frozen)

lemma schedule_served: "list_all served_pieces (schedule_contract a b c d s j)"
  by (simp add: schedule_contract_def scheduleService_getEnvironmentSchedule_def contract cong: frozen)

lemma scopeChangeRules_served: "list_all served_pieces (scopeChangeRules_contract a b c d s j)"
  by (simp add: scopeChangeRules_contract_def scopeChangeRulesService_list_def
    scopeChangeRulesService_listKinds_def scopeChangeRulesService_upsert_def contract cong: frozen)

lemma system_served: "list_all served_pieces (system_contract a b c d s j)"
  by (simp add: system_contract_def systemService_listSystems_def systemService_getSystem_def
    systemService_createSystem_def
      systemService_updateSystem_def systemService_deleteSystem_def systemService_listSubSystems_def
      systemService_getSubSystem_def systemService_createSubSystem_def systemService_updateSubSystem_def
      systemService_deleteSubSystem_def contract cong: frozen)

lemma tenantAdmin_served: "list_all served_pieces (tenantAdmin_contract a b c d s j)"
  by (simp add: tenantAdmin_contract_def tenantAdminService_getSettings_def tenantAdminService_updateSettings_def
    tenantAdminService_listUsers_def
      tenantAdminService_createUser_def tenantAdminService_getUser_def tenantAdminService_updateUser_def
      tenantAdminService_setUserRole_def tenantAdminService_deactivateUser_def
        tenantAdminService_reactivateUser_def contract cong: frozen)

lemma userGroup_served: "list_all served_pieces (userGroup_contract a b c d s j)"
  by (simp add: userGroup_contract_def userGroupService_listGroups_def userGroupService_getGroup_def
    userGroupService_createGroup_def
      userGroupService_updateGroup_def userGroupService_deleteGroup_def userGroupService_listMembers_def
      userGroupService_addMember_def userGroupService_removeMember_def contract cong: frozen)

lemma version_served: "list_all served_pieces (version_contract a b c d s j)"
  by (simp add: version_contract_def versionService_listVersions_def versionService_recordVersion_def
    versionService_updateVersion_def
      versionService_deleteVersion_def versionService_importEnvironments_def versionService_importSystems_def
        contract cong: frozen)

lemma topology_served: "list_all served_pieces (topology_contract a b c d s j)"
  by (simp add: topology_contract_def getSystemTopology_def contract cong: frozen)

subsection \<open>The contract\<close>

definition service_contract :: "int \<Rightarrow> int \<Rightarrow> int \<Rightarrow> int \<Rightarrow> string
  \<Rightarrow> json \<Rightarrow> (request \<times> string) list" where
  "service_contract a b c d s j = concat
     [admin_contract a b c d s j, agreementGap_contract a b c d s j, apiKey_contract a b c d s j,
      auth_contract a b c d s j, bookingLifecycle_contract a b c d s j, bookingRequest_contract a b c d s j,
      booking_contract a b c d s j, build_contract a b c d s j, changeRequest_contract a b c d s j,
      closeout_contract a b c d s j, componentType_contract a b c d s j, contentionForecast_contract a b c d s j,
      contention_contract a b c d s j, customField_contract a b c d s j, decommission_contract a b c d s j,
      dependency_contract a b c d s j, deployment_contract a b c d s j, dora_contract a b c d s j,
      enterpriseMembership_contract a b c d s j, enterpriseReport_contract a b c d s j, enterpriseRollup_contract a
        b c d s j,
      environmentComparison_contract a b c d s j, environmentGroup_contract a b c d s j, environmentHealth_contract
        a b c d s j,
      environmentLifecyclePolicy_contract a b c d s j, environmentNamingPolicy_contract a b c d s j,
        environmentOperatingHours_contract a b c d s j,
      environmentRequest_contract a b c d s j, environment_contract a b c d s j, environmentTier_contract a b c d s
        j,
      gateType_contract a b c d s j, githubIntegration_contract a b c d s j, goNoGo_contract a b c d s j,
      incident_contract a b c d s j, infrastructureComponent_contract a b c d s j, myWork_contract a b c d s j,
      pir_contract a b c d s j, project_contract a b c d s j, raid_contract a b c d s j,
      releaseEventType_contract a b c d s j, releaseMetrics_contract a b c d s j, release_contract a b c d s j,
      releaseTemplate_contract a b c d s j, rollback_contract a b c d s j, runbook_contract a b c d s j,
      schedule_contract a b c d s j, scopeChangeRules_contract a b c d s j, system_contract a b c d s j,
      tenantAdmin_contract a b c d s j, userGroup_contract a b c d s j, version_contract a b c d s j,
      topology_contract a b c d s j]"

lemmas tables_served [THEN list_all_served] =
  admin_served agreementGap_served apiKey_served auth_served
  bookingLifecycle_served bookingRequest_served booking_served build_served
  changeRequest_served closeout_served componentType_served contentionForecast_served
  contention_served customField_served decommission_served dependency_served
  deployment_served dora_served enterpriseMembership_served enterpriseReport_served
  enterpriseRollup_served environmentComparison_served environmentGroup_served environmentHealth_served
  environmentLifecyclePolicy_served environmentNamingPolicy_served environmentOperatingHours_served
    environmentRequest_served
  environment_served environmentTier_served gateType_served githubIntegration_served
  goNoGo_served incident_served infrastructureComponent_served myWork_served
  pir_served project_served raid_served releaseEventType_served
  releaseMetrics_served release_served releaseTemplate_served rollback_served
  runbook_served schedule_served scopeChangeRules_served system_served
  tenantAdmin_served userGroup_served version_served topology_served

text \<open>C11: every service function reaches its handler. For all identifiers, texts and values, each of the 364
  requests in the table is answered by the route of the handler that it is meant for, although several paths
  also fit a route with a parameter that is declared in another place; the handler declares every query
  parameter that the function can send, and takes a body exactly when the function sends one. The poll of the
  GitHub device flow does so for every handle that is a single piece of a path and no literal of a route.\<close>

theorem services_reach_their_handlers:
  "list_all served (service_contract a b c d s j) \<and>
   (if plain_piece api_routers (Text h)
    then served (fst (githubIntegrationService_poll h), ''integrations_github.github_connect_poll'') else True)"
proof (rule conjI)
  show "list_all served (service_contract a b c d s j)"
    by (simp add: service_contract_def tables_served)
  have "served (fst (githubIntegrationService_poll h), ''integrations_github.github_connect_poll'')"
    if "plain_piece api_routers (Text h)"
  proof (rule served_pieces_served)
    have "served_pieces (fst (githubIntegrationService_poll h), ''integrations_github.github_connect_poll'')
        \<longleftrightarrow> plain_piece api_routers (Text h)"
      by (simp add: githubIntegrationService_poll_def contract cong: frozen)
    then show "served_pieces (fst (githubIntegrationService_poll h), ''integrations_github.github_connect_poll'')"
      using that by blast
  qed
  then show "if plain_piece api_routers (Text h)
    then served (fst (githubIntegrationService_poll h), ''integrations_github.github_connect_poll'') else True"
    by simp
qed

text \<open>The two functions left out of the table. No route answers the request for one event type, whatever
  its
  id. And the release timeline is answered by a handler that declares only the dates and the window, so of the
  filters that \<open>listTimeline\<close> accepts it drops the status, the type, the kind, the system, the
    project, the
  search text, the scope window and the sort, whatever their values.\<close>

theorem service_calls_that_miss:
  "serve api_routers GET (url_of (fst (releaseEventTypeService_get a))) = None \<and>
   rq_query (fst (releaseService_listTimeline (Some f))) = f \<and>
   (case serve api_routers GET (url_of (fst (releaseService_listTimeline (Some f)))) of
      None \<Rightarrow> False
    | Some r \<Rightarrow> rt_handler r = ''releases.get_releases_timeline'' \<and>
        list_all (\<lambda>k. k \<notin> set (rt_query r))
          [''status'', ''release_type'', ''release_kind'', ''system_id'', ''project_id'', ''search'',
            ''scope_window'',
           ''implemented'', ''open'', ''sort_by'', ''sort_dir''])"
proof -
  have "serve api_routers GET (url_of (fst (releaseEventTypeService_get a))) = None"
    by (simp add: serve_pieces [OF api_literals_wordy] releaseEventTypeService_get_def contract cong: frozen)
  moreover have "serve api_routers GET (url_of (fst (releaseService_listTimeline (Some f)))) =
      Some (route GET [Lit ''timeline''] [''date_from'', ''date_to'', ''limit'', ''offset''] False
        ''releases.get_releases_timeline'')"
    by (simp add: serve_pieces [OF api_literals_wordy] releaseService_listTimeline_def contract cong: frozen)
  ultimately show ?thesis
    by (simp add: releaseService_listTimeline_def api_get_def route_def)
qed

end
