(* ===== verification/NavConfig.thy ===== *)
theory NavConfig
  imports AuthSlice UrlParams
begin

text \<open>
  How the user gets around: the drawer of the application and of the admin area
  (\<open>components/navConfig.tsx\<close>, \<open>components/adminNavConfig.tsx\<close>), the configuration pages per entity
  (\<open>pages/admin/entityConfigTabs.ts\<close>), the tab in the URL (\<open>hooks/useUrlTab.ts\<close>), the highlighting of the
  drawer (\<open>components/NavDrawer.tsx\<close>), the route table of \<open>App.tsx\<close> with its guards and the redirects of
  moved pages (\<open>components/legacyRedirects.tsx\<close>). Icons are left out. A pathname is matched against the
  route table by React Router, which is a parameter.
\<close>

subsection \<open>Trees\<close>

record NavUser =
  nu_role :: "string option"
  nu_is_master_admin :: "bool option"

datatype NavRole = Nav_admin | Nav_masterAdmin | Nav_adminOrMaster

datatype NavBadgeKey = My_work

record NavItem =
  ni_label :: string
  ni_path :: string
  ni_requires :: "NavRole option"
  ni_description :: "string option"
  ni_badge :: "NavBadgeKey option"

record NavGroup =
  ng_label :: string
  ng_requires :: "NavRole option"
  ng_children :: "NavItem list"

datatype NavEntry = Nav_item NavItem | Nav_group NavGroup

definition nav_item :: "string \<Rightarrow> string \<Rightarrow> NavRole option \<Rightarrow> string option \<Rightarrow> NavBadgeKey option \<Rightarrow> NavItem" where
  "nav_item l p r d b = \<lparr>ni_label = l, ni_path = p, ni_requires = r, ni_description = d, ni_badge = b\<rparr>"

definition nav_group :: "string \<Rightarrow> NavRole option \<Rightarrow> NavItem list \<Rightarrow> NavGroup" where
  "nav_group l r cs = \<lparr>ng_label = l, ng_requires = r, ng_children = cs\<rparr>"

definition isNavGroup :: "NavEntry \<Rightarrow> bool" where
  "isNavGroup e = (case e of Nav_item _ \<Rightarrow> False | Nav_group _ \<Rightarrow> True)"

definition ADMIN_ROOT :: string where
  "ADMIN_ROOT = ''/admin''"

definition userSatisfies :: "NavUser option \<Rightarrow> NavRole option \<Rightarrow> bool" where
  "userSatisfies u requires =
     (case requires of
        None \<Rightarrow> True
      | Some r \<Rightarrow>
          let isAdmin = (Option.bind u nu_role = Some ''Admin'');
              isMaster = (Option.bind u nu_is_master_admin = Some True)
          in if r = Nav_admin then isAdmin else if r = Nav_masterAdmin then isMaster else isAdmin \<or> isMaster)"

definition appNav :: "NavEntry list" where
  "appNav =
   [Nav_item (nav_item ''Dashboard'' ''/dashboard'' None None None),
    Nav_item (nav_item ''My work'' ''/my-work'' None None (Some My_work)),
    Nav_group (nav_group ''Catalogue'' None
     [nav_item ''Systems'' ''/systems'' None None None,
      nav_item ''Environments'' ''/environments'' None None None,
      nav_item ''Hosts'' ''/infrastructure/hosts'' None None None,
      nav_item ''Compare environments'' ''/environments/compare'' None None None,
      nav_item ''Import'' ''/import'' None None None]),
    Nav_group (nav_group ''Bookings'' None
     [nav_item ''Calendar'' ''/bookings/calendar'' None None None,
      nav_item ''List'' ''/bookings/list'' None None None,
      nav_item ''Environment requests'' ''/environment-requests'' None None None,
      nav_item ''Change requests'' ''/change-requests'' None None None,
      nav_item ''Projects'' ''/projects'' None None None,
      nav_item ''Environment groups'' ''/environment-groups'' None None None,
      nav_item ''Contentions'' ''/contentions'' None None None,
      nav_item ''Decommissions'' ''/decommissions'' None None None]),
    Nav_group (nav_group ''Releases'' None
     [nav_item ''List'' ''/releases'' None None None,
      nav_item ''Calendar'' ''/releases/calendar'' None None None,
      nav_item ''Timeline'' ''/releases/timeline'' None None None,
      nav_item ''Scope windows'' ''/releases/scope-windows'' None None None,
      nav_item ''Analytics'' ''/releases/analytics'' None None None,
      nav_item ''Builds'' ''/builds'' None None None,
      nav_item ''Deployments'' ''/deployments'' None None None,
      nav_item ''Incidents'' ''/incidents'' None None None,
      nav_item ''PIR actions'' ''/pir-actions'' None None None]),
    Nav_group (nav_group ''Insights'' None
     [nav_item ''DORA metrics'' ''/insights/dora'' None None None,
      nav_item ''Environment health'' ''/insights/health'' None None None]),
    Nav_item (nav_item ''Administration'' ''/admin'' (Some Nav_adminOrMaster) None None)]"

definition entry_requires :: "NavEntry \<Rightarrow> NavRole option" where
  "entry_requires e = (case e of Nav_item i \<Rightarrow> ni_requires i | Nav_group g \<Rightarrow> ng_requires g)"

fun visible_entry :: "NavUser option \<Rightarrow> NavEntry \<Rightarrow> NavEntry list" where
  "visible_entry u (Nav_group g) =
     (if \<not> userSatisfies u (ng_requires g) then []
      else let children = filter (\<lambda>c. userSatisfies u (ni_requires c)) (ng_children g)
           in if children \<noteq> [] then [Nav_group (g\<lparr>ng_children := children\<rparr>)] else [])"
| "visible_entry u (Nav_item i) = (if \<not> userSatisfies u (ni_requires i) then [] else [Nav_item i])"

definition visibleAppNav :: "NavUser option \<Rightarrow> NavEntry list" where
  "visibleAppNav u = foldl (\<lambda>out e. out @ visible_entry u e) [] appNav"

subsection \<open>Configuration pages\<close>

datatype EntityPanel = Panel_fields | Panel_lifecycle | Panel_booking_types | Panel_event_types | Panel_gate_types
  | Panel_rollback_policy | Panel_go_no_go_perspectives | Panel_tiers | Panel_naming_policy | Panel_lifecycle_policy

record EntityConfigTab =
  tab_key :: string
  tab_label :: string
  tab_panel :: EntityPanel
  tab_description :: string

record EntityConfigPage =
  cp_entity :: string
  cp_label :: string
  cp_entityType :: string
  cp_tabs :: "EntityConfigTab list"

definition config_tab :: "string \<Rightarrow> string \<Rightarrow> EntityPanel \<Rightarrow> string \<Rightarrow> EntityConfigTab" where
  "config_tab k l p d = \<lparr>tab_key = k, tab_label = l, tab_panel = p, tab_description = d\<rparr>"

definition config_page :: "string \<Rightarrow> string \<Rightarrow> string \<Rightarrow> EntityConfigTab list \<Rightarrow> EntityConfigPage" where
  "config_page e l t ts = \<lparr>cp_entity = e, cp_label = l, cp_entityType = t, cp_tabs = ts\<rparr>"

definition ENTITY_CONFIG_PAGES :: "EntityConfigPage list" where
  "ENTITY_CONFIG_PAGES =
   [config_page ''environments'' ''Environments'' ''environment''
     [config_tab ''tiers'' ''Tiers'' Panel_tiers (''The tier vocabulary (dev, SIT, UAT'' @ [CHR 0xE2, CHR 0x80, CHR 0xA6] @ '') and per-tier idle thresholds.''),
      config_tab ''naming-policy'' ''Naming policy'' Panel_naming_policy ''Name pattern, required attributes and quarantine grace.'',
      config_tab ''lifecycle-policy'' ''Decommissioning'' Panel_lifecycle_policy ''Idle detection, notice period and the teardown checklist.'',
      config_tab ''fields'' ''Custom fields'' Panel_fields ''Tenant-defined fields on every environment.''],
    config_page ''environment-requests'' ''Environment requests'' ''environment_request''
     [config_tab ''lifecycle'' ''Lifecycle'' Panel_lifecycle ''States and transitions for environment requests.'',
      config_tab ''fields'' ''Custom fields'' Panel_fields ''Custom fields on environment requests.''],
    config_page ''bookings'' ''Bookings'' ''booking''
     [config_tab ''types'' ''Booking types'' Panel_booking_types ''Types, default protection level and duration presets.'',
      config_tab ''lifecycle'' ''Lifecycle'' Panel_lifecycle ''States and transitions for bookings.'',
      config_tab ''fields'' ''Custom fields'' Panel_fields ''Tenant-defined fields on every booking.''],
    config_page ''releases'' ''Releases'' ''release''
     [config_tab ''gate-types'' ''Gate types'' Panel_gate_types ''The gate vocabulary, failure behaviour and expected evidence.'',
      config_tab ''rollback-policy'' ''Rollback policy'' Panel_rollback_policy ''Whether a missing plan or stale rehearsal warns or blocks.'',
      config_tab ''go-no-go-perspectives'' ''Go/No-Go Perspectives'' Panel_go_no_go_perspectives ''The sign-off vocabulary a Go/No-Go decision is recorded against.'',
      config_tab ''event-types'' ''Event types'' Panel_event_types ''Release calendar event types.'',
      config_tab ''lifecycle'' ''Lifecycle'' Panel_lifecycle ''States and transitions for releases.'',
      config_tab ''fields'' ''Custom fields'' Panel_fields ''Tenant-defined fields on every release.''],
    config_page ''release-changes'' ''Release scope items'' ''release_change''
     [config_tab ''fields'' ''Custom fields'' Panel_fields ''Tenant-defined fields on release scope items.''],
    config_page ''change-requests'' ''Change requests'' ''change_request''
     [config_tab ''lifecycle'' ''Lifecycle'' Panel_lifecycle ''States and transitions for change requests.'',
      config_tab ''fields'' ''Custom fields'' Panel_fields ''Tenant-defined fields on every change request.''],
    config_page ''builds'' ''Builds'' ''build''
     [config_tab ''fields'' ''Custom fields'' Panel_fields ''Custom fields on builds.''],
    config_page ''deployments'' ''Deployments'' ''deployment''
     [config_tab ''fields'' ''Custom fields'' Panel_fields ''Custom fields on deployments.''],
    config_page ''incidents'' ''Incidents'' ''incident''
     [config_tab ''lifecycle'' ''Lifecycle'' Panel_lifecycle ''States and transitions for incidents.'',
      config_tab ''fields'' ''Custom fields'' Panel_fields ''Custom fields on incidents.''],
    config_page ''systems'' ''Systems'' ''system''
     [config_tab ''fields'' ''Custom fields'' Panel_fields ''Custom fields on systems.''],
    config_page ''subsystems'' ''Subsystems'' ''subsystem''
     [config_tab ''fields'' ''Custom fields'' Panel_fields ''Custom fields on subsystems.'']]"

definition entityConfigPage :: "string option \<Rightarrow> EntityConfigPage option" where
  "entityConfigPage entity = find (\<lambda>p. Some (cp_entity p) = entity) ENTITY_CONFIG_PAGES"

definition entityTabPath :: "string \<Rightarrow> string \<Rightarrow> string" where
  "entityTabPath entity tab = ''/admin/'' @ entity @ ''?tab='' @ tab"

text \<open>The two builders of the admin tree throw for an entity that is not configured; the tree is then not
  built at all, which the missing value stands for.\<close>

definition entityTabItems :: "string \<Rightarrow> NavItem list option" where
  "entityTabItems entity = map_option
     (\<lambda>page. map (\<lambda>t. nav_item (tab_label t) (entityTabPath entity (tab_key t)) None (Some (tab_description t)) None)
                 (cp_tabs page))
     (entityConfigPage (Some entity))"

definition entityPageItem :: "string \<Rightarrow> string \<Rightarrow> NavItem list option" where
  "entityPageItem entity description = map_option
     (\<lambda>page. [nav_item (cp_label page) (entityTabPath entity (tab_key (hd (cp_tabs page)))) None (Some description) None])
     (entityConfigPage (Some entity))"

definition section_of :: "string \<Rightarrow> NavRole option \<Rightarrow> NavItem list option list \<Rightarrow> NavGroup option" where
  "section_of label requires parts = map_option (\<lambda>cs. nav_group label requires (concat cs)) (those parts)"

definition adminNavTree :: "NavGroup list option" where
  "adminNavTree = those
   [section_of ''Organisation'' None
      [Some [nav_item ''Users'' ''/admin/users'' (Some Nav_admin) (Some ''Accounts, roles and access for this tenant.'') None,
        nav_item ''User groups'' ''/admin/user-groups'' None (Some ''Teams that operate environments and staff projects.'') None,
        nav_item ''Tenant settings'' ''/admin/settings'' (Some Nav_admin) (Some ''Tenant name, slug and advanced settings.'') None]],
    section_of ''Environments'' (Some Nav_admin)
      [entityTabItems ''environments'',
       entityPageItem ''environment-requests'' ''Custom fields and lifecycle for environment requests.''],
    section_of ''Bookings'' (Some Nav_admin)
      [entityTabItems ''bookings''],
    section_of ''Releases'' (Some Nav_admin)
      [Some [nav_item ''Templates'' ''/admin/releases/templates'' None (Some ''Reusable release blueprints: phases, gates and events.'') None],
       entityTabItems ''releases'',
       Some [nav_item ''Scope-change rules'' ''/admin/releases/scope-change-rules'' None (Some ''Change kinds and what counts as scope creep.'') None,
        nav_item ''RAID settings'' ''/admin/releases/raid'' None (Some ''RAID categories, RAG thresholds and defaults.'') None],
       entityPageItem ''release-changes'' ''Tenant-defined fields on release scope items.''],
    section_of ''Delivery'' (Some Nav_admin)
      [entityPageItem ''change-requests'' ''Custom fields and lifecycle for change requests.'',
       entityPageItem ''builds'' ''Custom fields on builds.'',
       entityPageItem ''deployments'' ''Custom fields on deployments.'',
       entityPageItem ''incidents'' ''Custom fields and lifecycle for incidents.'',
       entityPageItem ''systems'' ''Custom fields on systems.'',
       entityPageItem ''subsystems'' ''Custom fields on subsystems.'',
       Some [nav_item ''Component types'' ''/admin/component-types'' None (Some ''Infrastructure component types and their field schemas.'') None]],
    section_of ''Integrations'' (Some Nav_admin)
      [Some [nav_item ''API keys'' ''/admin/api-keys'' None (Some ''Keys and scopes for pipelines and webhooks.'') None,
        nav_item ''GitHub'' ''/admin/github'' None (Some ''Connect GitHub for repository scanning and drift checks.'') None]],
    section_of ''Platform'' (Some Nav_masterAdmin)
      [Some [nav_item ''Tenants'' ''/admin/tenants'' None (Some ''Provision tenants, their first Admin, and sign in as one.'') None]]]"

definition adminNav :: "NavGroup list" where
  "adminNav = nullish adminNavTree []"

definition child_requires :: "NavGroup \<Rightarrow> NavItem \<Rightarrow> NavRole option" where
  "child_requires s c = (case ni_requires c of None \<Rightarrow> ng_requires s | Some r \<Rightarrow> Some r)"

definition visibleAdminNav :: "NavUser option \<Rightarrow> NavGroup list" where
  "visibleAdminNav u =
     (let platformOnly = (Option.bind u nu_is_master_admin = Some True \<and> Option.bind u nu_role \<noteq> Some ''Admin'')
      in filter (\<lambda>s. ng_children s \<noteq> [])
           (map (\<lambda>s. s\<lparr>ng_children := filter (\<lambda>c. userSatisfies u (child_requires s c)) (ng_children s)\<rparr>)
              (filter (\<lambda>s. \<not> platformOnly \<or> ng_label s = ''Platform'') adminNav)))"

subsection \<open>The tab in the URL\<close>

definition url_tab :: "string list \<Rightarrow> string \<Rightarrow> string \<Rightarrow> params \<Rightarrow> string" where
  "url_tab keys defaultKey param sp =
     (case usp_get sp param of
        None \<Rightarrow> defaultKey
      | Some requested \<Rightarrow> if requested \<noteq> [] \<and> requested \<in> set keys then requested else defaultKey)"

definition set_url_tab :: "string \<Rightarrow> string \<Rightarrow> params \<Rightarrow> params" where
  "set_url_tab param key sp = usp_set param key sp"

text \<open>What \<open>EntityConfig\<close> shows for an entity segment and a query: the panel of the selected tab, or the
  not-found page.\<close>

definition EntityConfig :: "string \<Rightarrow> params \<Rightarrow> EntityPanel option" where
  "EntityConfig entity sp =
     (case entityConfigPage (Some entity) of
        None \<Rightarrow> None
      | Some page \<Rightarrow>
          let tab = url_tab (map tab_key (cp_tabs page)) (tab_key (hd (cp_tabs page))) ''tab'' sp
          in Some (tab_panel (nullish (find (\<lambda>t. tab_key t = tab) (cp_tabs page)) (hd (cp_tabs page)))))"

subsection \<open>Highlighting\<close>

definition splitPathAndQuery :: "string \<Rightarrow> string \<times> string" where
  "splitPathAndQuery v =
     (case js_indexOf v ''?'' of None \<Rightarrow> (v, []) | Some i \<Rightarrow> (take i v, drop (i + 1) v))"

definition isPathActive :: "string \<Rightarrow> string \<Rightarrow> bool" where
  "isPathActive current path =
     (let (currentPathname, currentSearch) = splitPathAndQuery current;
          (pathPathname, pathSearch) = splitPathAndQuery path
      in if \<not> (currentPathname = pathPathname \<or> js_startsWith currentPathname (pathPathname @ ''/'')) then False
         else let requiredParams = usp_parse pathSearch; currentParams = usp_parse currentSearch
              in list_all (\<lambda>(k, v). usp_get currentParams k = Some v) requiredParams)"

definition allItems :: "NavEntry list \<Rightarrow> NavItem list" where
  "allItems entries = concat (map (\<lambda>e. case e of Nav_group g \<Rightarrow> ng_children g | Nav_item i \<Rightarrow> [i]) entries)"

definition better_path :: "string \<Rightarrow> string option \<Rightarrow> NavItem \<Rightarrow> string option" where
  "better_path current best item =
     (if isPathActive current (ni_path item) \<and>
         (case best of None \<Rightarrow> True | Some b \<Rightarrow> length b < length (ni_path item))
      then Some (ni_path item) else best)"

definition activeItemPath :: "NavEntry list \<Rightarrow> string \<Rightarrow> string option" where
  "activeItemPath entries current = foldl (better_path current) None (allItems entries)"

definition groupContaining :: "NavEntry list \<Rightarrow> string \<Rightarrow> string option" where
  "groupContaining entries current =
     (case activeItemPath entries current of
        None \<Rightarrow> None
      | Some active \<Rightarrow>
          Option.bind
            (find (\<lambda>e. case e of Nav_group g \<Rightarrow> list_ex (\<lambda>c. ni_path c = active) (ng_children g) | Nav_item _ \<Rightarrow> False) entries)
            (\<lambda>e. case e of Nav_group g \<Rightarrow> Some (ng_label g) | Nav_item _ \<Rightarrow> None))"

subsection \<open>Routes\<close>

text \<open>A guard is the pair \<open>requireMasterAdmin\<close>, \<open>requiredRole\<close> of a \<open>PrivateRoute\<close>; the routes without one
  stand behind the layout, which sends a visitor who is not signed in to the login form.\<close>

datatype route_element = Shows string | Redirects string

record AppRoute =
  ar_path :: string
  ar_guard :: "(bool \<times> string option) option"
  ar_element :: route_element

definition app_route :: "string \<Rightarrow> (bool \<times> string option) option \<Rightarrow> route_element \<Rightarrow> AppRoute" where
  "app_route p g e = \<lparr>ar_path = p, ar_guard = g, ar_element = e\<rparr>"

definition app_routes :: "AppRoute list" where
  "app_routes =
   [app_route ''/dashboard'' None (Shows ''Dashboard''),
    app_route ''/my-work'' None (Shows ''MyWork''),
    app_route ''/insights/dora'' None (Shows ''DoraDashboard''),
    app_route ''/insights/health'' None (Shows ''HealthDashboard''),
    app_route ''/systems'' None (Shows ''SystemCatalog''),
    app_route ''/systems/:id'' None (Shows ''SystemDetail''),
    app_route ''/environments'' None (Shows ''EnvironmentList''),
    app_route ''/environments/compare'' None (Shows ''EnvironmentCompare''),
    app_route ''/environments/:id'' None (Shows ''EnvironmentDetail''),
    app_route ''/infrastructure/hosts'' None (Shows ''InfrastructureComponentList''),
    app_route ''/import'' None (Shows ''ImportPage''),
    app_route ''/bookings'' None (Redirects ''/bookings/calendar''),
    app_route ''/bookings/calendar'' None (Shows ''BookingCalendar''),
    app_route ''/bookings/list'' None (Shows ''BookingList''),
    app_route ''/bookings/:id'' None (Shows ''BookingDetail''),
    app_route ''/environment-requests'' None (Shows ''EnvironmentRequestList''),
    app_route ''/environment-requests/new'' None (Shows ''EnvironmentRequestForm''),
    app_route ''/environment-requests/:id'' None (Shows ''EnvironmentRequestDetail''),
    app_route ''/change-requests'' None (Shows ''ChangeRequestList''),
    app_route ''/change-requests/:id'' None (Shows ''ChangeRequestDetail''),
    app_route ''/projects'' (Some (False, None)) (Shows ''Projects''),
    app_route ''/projects/:id'' (Some (False, None)) (Shows ''ProjectDetail''),
    app_route ''/environment-groups'' (Some (False, None)) (Shows ''EnvironmentGroups''),
    app_route ''/environment-groups/:id'' (Some (False, None)) (Shows ''EnvironmentGroupDetail''),
    app_route ''/contentions'' None (Shows ''ContentionEscalations''),
    app_route ''/decommissions'' None (Shows ''DecommissionWorklist''),
    app_route ''/releases'' None (Shows ''ReleaseList''),
    app_route ''/releases/new'' None (Shows ''ReleaseList''),
    app_route ''/releases/calendar'' None (Shows ''ReleaseCalendar''),
    app_route ''/releases/timeline'' None (Shows ''ReleaseTimeline''),
    app_route ''/releases/scope-windows'' None (Shows ''ScopeWindows''),
    app_route ''/releases/analytics'' None (Shows ''ReleaseAnalytics''),
    app_route ''/releases/:id'' None (Shows ''ReleaseDetail''),
    app_route ''/builds'' None (Shows ''BuildList''),
    app_route ''/builds/:id'' None (Shows ''BuildDetail''),
    app_route ''/deployments'' None (Shows ''DeploymentList''),
    app_route ''/deployments/:id'' None (Shows ''DeploymentDetail''),
    app_route ''/incidents'' None (Shows ''IncidentList''),
    app_route ''/incidents/new'' None (Shows ''IncidentForm''),
    app_route ''/incidents/:id'' None (Shows ''IncidentDetail''),
    app_route ''/incidents/:id/edit'' None (Shows ''IncidentForm''),
    app_route ''/pir-actions'' None (Shows ''PirActionList''),
    app_route ''/admin'' (Some (False, Some ''Admin'')) (Shows ''AdminHome''),
    app_route ''/admin/users'' (Some (False, Some ''Admin'')) (Shows ''UserManagement''),
    app_route ''/admin/user-groups'' (Some (False, None)) (Shows ''UserGroups''),
    app_route ''/admin/user-groups/:id'' (Some (False, None)) (Shows ''UserGroupDetail''),
    app_route ''/admin/settings'' (Some (False, Some ''Admin'')) (Shows ''TenantSettings''),
    app_route ''/admin/api-keys'' (Some (False, Some ''Admin'')) (Shows ''ApiKeyManagement''),
    app_route ''/admin/github'' (Some (False, Some ''Admin'')) (Shows ''GitHubIntegration''),
    app_route ''/admin/component-types'' (Some (False, Some ''Admin'')) (Shows ''ComponentTypesPage''),
    app_route ''/admin/releases/templates'' (Some (False, Some ''Admin'')) (Shows ''ReleaseTemplateLibrary''),
    app_route ''/admin/releases/templates/:id'' (Some (False, Some ''Admin'')) (Shows ''ReleaseTemplateForm''),
    app_route ''/admin/releases/scope-change-rules'' (Some (False, Some ''Admin'')) (Shows ''TenantScopeChangeRules''),
    app_route ''/admin/releases/raid'' (Some (False, Some ''Admin'')) (Shows ''RaidSettings''),
    app_route ''/admin/tenants'' (Some (True, None)) (Shows ''TenantList''),
    app_route ''/admin/tenants/:tenantId'' (Some (True, None)) (Shows ''TenantDetail''),
    app_route ''/admin/:entity/:tab'' (Some (False, Some ''Admin'')) (Shows ''EntityTabRedirect''),
    app_route ''/admin/:entity'' (Some (False, Some ''Admin'')) (Shows ''EntityConfig'')]"

definition LEGACY_CONFIG_SLUGS :: "(string \<times> string) list" where
  "LEGACY_CONFIG_SLUGS =
   [(''system'', ''systems''), (''subsystem'', ''subsystems''), (''environment'', ''environments''), (''booking'', ''bookings''), (''change-request'', ''change-requests''), (''release'', ''releases''), (''release-change'', ''release-changes''), (''build'', ''builds''), (''deployment'', ''deployments''), (''incident'', ''incidents''), (''environment-request'', ''environment-requests'')]"

record LegacyRedirect =
  lr_from :: string
  lr_to :: string

definition redirect :: "string \<Rightarrow> string \<Rightarrow> LegacyRedirect" where
  "redirect f t = \<lparr>lr_from = f, lr_to = t\<rparr>"

definition LEGACY_REDIRECTS :: "LegacyRedirect list" where
  "LEGACY_REDIRECTS =
   [redirect ''/tenant/users'' ''/admin/users'',
    redirect ''/tenant/settings'' ''/admin/settings'',
    redirect ''/tenant/groups'' ''/admin/user-groups'',
    redirect ''/tenant/groups/:id'' ''/admin/user-groups/:id'',
    redirect ''/tenant/projects'' ''/projects'',
    redirect ''/tenant/projects/:id'' ''/projects/:id'',
    redirect ''/tenant/environment-groups'' ''/environment-groups'',
    redirect ''/tenant/environment-groups/:id'' ''/environment-groups/:id'',
    redirect ''/tenant/api-keys'' ''/admin/api-keys'',
    redirect ''/tenant/raid-settings'' ''/admin/releases/raid'',
    redirect ''/admin/config/component-types'' ''/admin/component-types''] @
   map (\<lambda>(slug, entity). redirect (''/admin/config/'' @ slug) (entityTabPath entity ''fields'')) LEGACY_CONFIG_SLUGS @
   [redirect ''/admin/scope-change-rules'' ''/admin/releases/scope-change-rules'',
    redirect ''/admin/release-templates'' ''/admin/releases/templates'',
    redirect ''/admin/release-templates/:id'' ''/admin/releases/templates/:id'']"

definition legacy_routes :: "AppRoute list" where
  "legacy_routes = map (\<lambda>r. app_route (lr_from r) None (Redirects (lr_to r))) LEGACY_REDIRECTS"

text \<open>What a visitor of a URL gets, \<open>router\<close> being the pattern that React Router picks for a pathname.\<close>

datatype visit = Login_page | Waiting | Dashboard_page | Shown string | Redirected string | Not_found

definition visit_route :: "AuthState \<Rightarrow> AppRoute \<Rightarrow> visit" where
  "visit_route a r =
     (if \<not> isAuthenticated a then Login_page
      else case (case ar_guard r of None \<Rightarrow> Page | Some (m, required) \<Rightarrow> PrivateRoute m required a) of
             To_login \<Rightarrow> Login_page
           | Spinner \<Rightarrow> Waiting
           | To_dashboard \<Rightarrow> Dashboard_page
           | Page \<Rightarrow> (case ar_element r of Shows e \<Rightarrow> Shown e | Redirects t \<Rightarrow> Redirected t))"

definition open_url :: "(string \<Rightarrow> string option) \<Rightarrow> AuthState \<Rightarrow> string \<Rightarrow> visit" where
  "open_url router a url =
     (case Option.bind (router (fst (splitPathAndQuery url)))
             (\<lambda>p. find (\<lambda>r. ar_path r = p) (app_routes @ legacy_routes)) of
        None \<Rightarrow> Not_found
      | Some r \<Rightarrow> visit_route a r)"

end
