(* ===== verification/NavFacts.thy ===== *)
theory NavFacts
  imports NavConfig
begin

text \<open>
  What holds of the navigation: every drawer item opens a page that its user may see and lights up
  itself, a configuration tab is opened by its own link, redirects of moved pages end in one step; and
  where the highlighting fails.
\<close>

subsection \<open>The drawer of a user\<close>

definition nav_user_of :: "User \<Rightarrow> NavUser" where
  "nav_user_of u = \<lparr>nu_role = Some (role u), nu_is_master_admin = Some (is_master_admin u)\<rparr>"

definition drawer :: "bool \<Rightarrow> NavUser option \<Rightarrow> NavEntry list" where
  "drawer adminMode u = (if adminMode then map Nav_group (visibleAdminNav u) else visibleAppNav u)"

definition admin_items :: "(NavRole option \<times> NavItem) list" where
  "admin_items = concat (map (\<lambda>s. map (\<lambda>c. (child_requires s c, c)) (ng_children s)) adminNav)"

definition app_items :: "(NavRole option \<times> NavItem) list" where
  "app_items = concat (map (\<lambda>e. case e of Nav_group g \<Rightarrow> map (\<lambda>c. (ni_requires c, c)) (ng_children g)
                                  | Nav_item i \<Rightarrow> [(ni_requires i, i)]) appNav)"

lemma userSatisfies_None [simp]: "userSatisfies u None"
  by (simp add: userSatisfies_def)

lemma visibleAdminNav_items:
  assumes "i \<in> set (allItems (map Nav_group (visibleAdminNav u)))"
  shows "\<exists>r. (r, i) \<in> set admin_items \<and> userSatisfies u r"
proof -
  obtain s where "s \<in> set adminNav" "i \<in> set (ng_children s)" "userSatisfies u (child_requires s i)"
    using assms by (auto simp: allItems_def visibleAdminNav_def Let_def)
  then show ?thesis unfolding admin_items_def by (intro exI [of _ "child_requires s i"]) auto
qed

lemma visible_entry_items:
  assumes "i \<in> set (allItems (visible_entry u e))"
  shows "\<exists>r. (r, i) \<in> set (case e of Nav_group g \<Rightarrow> map (\<lambda>c. (ni_requires c, c)) (ng_children g)
      | Nav_item i \<Rightarrow> [(ni_requires i, i)]) \<and> userSatisfies u r"
  using assms by (cases e) (auto simp: allItems_def Let_def split: if_splits)

lemma allItems_append: "allItems (xs @ ys) = allItems xs @ allItems ys"
  by (simp add: allItems_def)

lemma foldl_append_concat: "foldl (\<lambda>out e. out @ f e) acc es = acc @ concat (map f es)"
  by (induction es arbitrary: acc) simp_all

lemma allItems_concat: "allItems (concat xss) = concat (map allItems xss)"
  by (induction xss) (simp_all add: allItems_append, simp add: allItems_def)

lemma visibleAppNav_items:
  assumes "i \<in> set (allItems (visibleAppNav u))"
  shows "\<exists>r. (r, i) \<in> set app_items \<and> userSatisfies u r"
proof -
  obtain e where "e \<in> set appNav" "i \<in> set (allItems (visible_entry u e))"
    using assms by (auto simp: visibleAppNav_def foldl_append_concat allItems_concat)
  with visible_entry_items [of i u e] show ?thesis by (auto simp: app_items_def)
qed

lemma drawer_items:
  "i \<in> set (allItems (drawer m u)) \<Longrightarrow>
   \<exists>r. (r, i) \<in> set (if m then admin_items else app_items) \<and> userSatisfies u r"
  using visibleAdminNav_items visibleAppNav_items by (auto simp: drawer_def)

subsection \<open>Every item opens\<close>

text \<open>What is relied on of React Router (documented: a static segment outranks a dynamic one): a pathname
  that is itself a route is matched by that route, and a configured entity by the entity route.\<close>

definition static_routes_win :: "(string \<Rightarrow> string option) \<Rightarrow> bool" where
  "static_routes_win router \<longleftrightarrow>
     list_all (\<lambda>r. if CHR '':'' \<in> set (ar_path r) then True else router (ar_path r) = Some (ar_path r)) app_routes \<and>
     list_all (\<lambda>p. router (''/admin/'' @ cp_entity p) = Some ''/admin/:entity'') ENTITY_CONFIG_PAGES"

text \<open>The route an item of the trees leads to, and whether what the item asks of its user is enough for
  the guard of that route.\<close>

definition entity_paths :: "string list" where
  "entity_paths = map (\<lambda>p. ''/admin/'' @ cp_entity p) ENTITY_CONFIG_PAGES"

definition item_route :: "string \<Rightarrow> AppRoute option" where
  "item_route p = find (\<lambda>r. ar_path r = (if p \<in> set entity_paths then ''/admin/:entity'' else p)) app_routes"

definition guard_met :: "NavRole option \<Rightarrow> (bool \<times> string option) option \<Rightarrow> bool" where
  "guard_met req g = (case g of
     None \<Rightarrow> True
   | Some (m, required) \<Rightarrow>
       (if m then req = Some Nav_masterAdmin else True) \<and>
       (case required of None \<Rightarrow> True | Some r \<Rightarrow> r = ''Admin'' \<and> req \<noteq> None))"

definition item_opens :: "NavRole option \<times> NavItem \<Rightarrow> bool" where
  "item_opens ri =
     (let p = fst (splitPathAndQuery (ni_path (snd ri))) in
      (p \<in> set entity_paths \<or> CHR '':'' \<notin> set p) \<and>
      (case item_route p of
         None \<Rightarrow> False
       | Some r \<Rightarrow> guard_met (fst ri) (ar_guard r) \<and> (case ar_element r of Shows _ \<Rightarrow> True | Redirects _ \<Rightarrow> False)))"

lemma admin_items_open: "list_all item_opens admin_items"
  by code_simp

lemma app_items_open: "list_all item_opens app_items"
  by code_simp

lemma find_map_fst: "find P xs = Some x \<Longrightarrow> P x"
  by (induction xs) (auto split: if_splits)

lemma find_mem: "find P xs = Some x \<Longrightarrow> x \<in> set xs"
  by (induction xs) (auto split: if_splits)

lemma find_append: "find P (xs @ ys) = (case find P xs of None \<Rightarrow> find P ys | Some x \<Rightarrow> Some x)"
  by (induction xs) auto

lemma guard_met_page:
  assumes "guard_met req g" "userSatisfies (Some (nav_user_of u)) req"
    and "isAuthenticated a" "authInitialized a" "user a = Some u"
  shows "(case g of None \<Rightarrow> Page | Some (m, required) \<Rightarrow> PrivateRoute m required a) = Page"
proof (cases g)
  case None
  then show ?thesis by simp
next
  case (Some mg)
  obtain m required where g: "g = Some (m, required)" using Some by (cases mg) simp
  have master: "is_master_admin u" if m using assms(1,2) that g
    by (simp add: guard_met_def userSatisfies_def nav_user_of_def)
  have role: "role u = ''Admin'' \<or> is_master_admin u" if "required = Some r" for r
  proof -
    from assms(1) g that obtain n where "req = Some n" by (auto simp: guard_met_def)
    with assms(2) show ?thesis
      by (auto simp: userSatisfies_def nav_user_of_def Let_def simp del: list.inject char.inject split: if_splits)
  qed
  have "r = ''Admin''" if "required = Some r" for r using assms(1) g that by (simp add: guard_met_def)
  with master role show ?thesis
    unfolding g by (cases required) (auto simp: PrivateRoute_def assms(3-5))
qed

lemma router_item:
  assumes "static_routes_win router" "item_opens (req, i)"
  obtains r e where "Option.bind (router (fst (splitPathAndQuery (ni_path i))))
      (\<lambda>p. find (\<lambda>r. ar_path r = p) (app_routes @ legacy_routes)) = Some r"
    "guard_met req (ar_guard r)" "ar_element r = Shows e"
proof -
  let ?p = "fst (splitPathAndQuery (ni_path i))"
  obtain r e where r: "item_route ?p = Some r" "guard_met req (ar_guard r)" "ar_element r = Shows e"
    using assms(2) by (auto simp: item_opens_def Let_def split: option.splits route_element.splits)
  have "router ?p = Some (if ?p \<in> set entity_paths then ''/admin/:entity'' else ?p)"
  proof (cases "?p \<in> set entity_paths")
    case True
    then show ?thesis using assms(1) by (auto simp: static_routes_win_def entity_paths_def list_all_iff)
  next
    case False
    then have "CHR '':'' \<notin> set ?p" using assms(2) by (auto simp: item_opens_def Let_def)
    moreover have "ar_path r = ?p" "r \<in> set app_routes"
      using r(1) False find_map_fst [OF r(1) [unfolded item_route_def]] find_mem [OF r(1) [unfolded item_route_def]] by auto
    ultimately show ?thesis using assms(1) False by (auto simp: static_routes_win_def list_all_iff)
  qed
  with r(1) have "Option.bind (router ?p) (\<lambda>p. find (\<lambda>r. ar_path r = p) (app_routes @ legacy_routes)) = Some r"
    by (simp add: find_append item_route_def)
  with r that show ?thesis by blast
qed

text \<open>
  C31: no item of the drawer leads nowhere. For every signed-in user, each item that the drawer shows,
  in the application and in the admin area, opens a page: its path is routed, the route is not a
  redirect and its guard lets exactly this user in, so nobody is offered a link that bounces.
\<close>

theorem drawer_items_open:
  assumes "static_routes_win router" "isAuthenticated a" "authInitialized a" "user a = Some u"
  shows "list_all (\<lambda>i. case open_url router a (ni_path i) of Shown _ \<Rightarrow> True | _ \<Rightarrow> False)
    (allItems (drawer adminMode (Some (nav_user_of u))))"
proof -
  have "\<exists>e. open_url router a (ni_path i) = Shown e"
    if i: "i \<in> set (allItems (drawer adminMode (Some (nav_user_of u))))" for i
  proof -
    obtain req where req: "(req, i) \<in> set (if adminMode then admin_items else app_items)"
        "userSatisfies (Some (nav_user_of u)) req"
      using drawer_items [OF i] by blast
    then have "item_opens (req, i)"
      using admin_items_open app_items_open by (auto simp: list_all_iff split: if_splits)
    from router_item [OF assms(1) this] obtain r e where
      "Option.bind (router (fst (splitPathAndQuery (ni_path i))))
        (\<lambda>p. find (\<lambda>r. ar_path r = p) (app_routes @ legacy_routes)) = Some r"
      "guard_met req (ar_guard r)" "ar_element r = Shows e" by blast
    moreover from this(2) req(2) assms(2-4) have
      "(case ar_guard r of None \<Rightarrow> Page | Some (m, required) \<Rightarrow> PrivateRoute m required a) = Page"
      by (rule guard_met_page)
    ultimately show ?thesis using assms(2) by (simp add: open_url_def visit_route_def)
  qed
  then show ?thesis unfolding list_all_iff by fastforce
qed

definition plain_router :: "string \<Rightarrow> string option" where
  "plain_router p = Some (if p \<in> set entity_paths then ''/admin/:entity'' else p)"

lemma plain_router_static: "static_routes_win plain_router"
  by code_simp

definition signed_in :: "User \<Rightarrow> AuthState" where
  "signed_in u = \<lparr>user = Some u, token = Some ''t'', isAuthenticated = True, authInitialized = True,
     impersonationMode = False, impersonatingTenant = None, originalToken = None\<rparr>"

definition sample_user :: "string \<Rightarrow> bool \<Rightarrow> User" where
  "sample_user r m = \<lparr>u_id = 1, username = ''u'', email = ''e'', role = r, tenant_id = 1, is_master_admin = m\<rparr>"

theorem drawer_items_open_witness:
  "list_all (\<lambda>i. case open_url plain_router (signed_in (sample_user ''Developer'' False)) (ni_path i) of
       Shown _ \<Rightarrow> True | _ \<Rightarrow> False)
     (allItems (drawer True (Some (nav_user_of (sample_user ''Developer'' False)))))"
  by (rule drawer_items_open) (simp_all add: plain_router_static signed_in_def)

subsection \<open>Configuration tabs\<close>

text \<open>
  The link of a configuration tab opens that tab. For every entity and every tab of the table, the
  page that the tab's link names is found and shows the tab's own panel, and choosing the tab in the
  page leaves every other parameter of the URL as it was and selects the same panel.
\<close>

theorem entity_tab_roundtrip:
  "list_all (\<lambda>page. list_all (\<lambda>t.
       EntityConfig (cp_entity page) (usp_parse (snd (splitPathAndQuery (entityTabPath (cp_entity page) (tab_key t))))) =
         Some (tab_panel t) \<and>
       EntityConfig (cp_entity page) (set_url_tab ''tab'' (tab_key t) sp) = Some (tab_panel t) \<and>
       usp_get (set_url_tab ''tab'' (tab_key t) sp) k = (if k = ''tab'' then Some (tab_key t) else usp_get sp k))
     (cp_tabs page)) ENTITY_CONFIG_PAGES"
proof -
  have one: "usp_get [(''tab'', key)] ''tab'' = Some key" for key
    by (simp add: usp_get_def)
  have tab: "url_tab keys d ''tab'' (usp_set ''tab'' key sp) = url_tab keys d ''tab'' [(''tab'', key)]" for keys d key
    by (simp add: url_tab_def one)
  have set: "EntityConfig e (set_url_tab ''tab'' key sp) = EntityConfig e [(''tab'', key)]" for e key
    by (simp add: EntityConfig_def set_url_tab_def tab split: option.split)
  have all: "list_all (\<lambda>page. list_all (\<lambda>t.
       EntityConfig (cp_entity page) (usp_parse (snd (splitPathAndQuery (entityTabPath (cp_entity page) (tab_key t))))) =
         Some (tab_panel t) \<and>
       EntityConfig (cp_entity page) [(''tab'', tab_key t)] = Some (tab_panel t)) (cp_tabs page)) ENTITY_CONFIG_PAGES"
    by code_simp
  have get: "usp_get (set_url_tab ''tab'' v sp) k = (if k = ''tab'' then Some v else usp_get sp k)" for v
    by (simp add: set_url_tab_def)
  show ?thesis unfolding set get using all by (simp only: list_all_iff simp_thms)
qed

subsection \<open>Highlighting\<close>

text \<open>The first of the elements no element exceeds, when one is put before another.\<close>

lemma find_max_first:
  assumes "f n \<le> (f b :: nat)"
  shows "find (\<lambda>p. list_all (\<lambda>q. f q \<le> f p) (b # n # ps)) (b # n # ps) =
    find (\<lambda>p. list_all (\<lambda>q. f q \<le> f p) (b # ps)) (b # ps)"
proof -
  let ?P = "\<lambda>p. list_all (\<lambda>q. f q \<le> f p) (b # ps)"
  have "list_all (\<lambda>q. f q \<le> f p) (b # n # ps) = ?P p" for p using assms by auto
  moreover have "?P n \<Longrightarrow> ?P b" using assms by (auto simp: list_all_iff)
  ultimately show ?thesis by auto
qed

lemma find_max_second:
  assumes "f b < (f n :: nat)"
  shows "find (\<lambda>p. list_all (\<lambda>q. f q \<le> f p) (b # n # ps)) (b # n # ps) =
    find (\<lambda>p. list_all (\<lambda>q. f q \<le> f p) (n # ps)) (n # ps)"
proof -
  let ?P = "\<lambda>p. list_all (\<lambda>q. f q \<le> f p) (n # ps)"
  have "list_all (\<lambda>q. f q \<le> f p) (b # n # ps) = ?P p" for p using assms by auto
  moreover have "\<not> ?P b" using assms by simp
  ultimately show ?thesis by (simp only: find.simps if_False)
qed

lemma best_path_longest:
  "foldl (better_path cur) best is =
     (let ps = (case best of None \<Rightarrow> [] | Some b \<Rightarrow> [b]) @ filter (isPathActive cur) (map ni_path is)
      in find (\<lambda>p. list_all (\<lambda>q. length q \<le> length p) ps) ps)"
proof (induction "is" arbitrary: best)
  case Nil
  then show ?case by (cases best) simp_all
next
  case (Cons i "is")
  let ?ps = "filter (isPathActive cur) (map ni_path is)"
  show ?case
  proof (cases "isPathActive cur (ni_path i)")
    case False
    then show ?thesis using Cons.IH [of best] by (simp add: better_path_def)
  next
    case active: True
    show ?thesis
    proof (cases best)
      case None
      then show ?thesis using active Cons.IH [of "Some (ni_path i)"] by (simp add: better_path_def)
    next
      case (Some b)
      show ?thesis
      proof (cases "length b < length (ni_path i)")
        case True
        with Some active Cons.IH [of "Some (ni_path i)"] show ?thesis
          using find_max_second [of length b "ni_path i" ?ps] by (simp only: better_path_def Let_def) simp
      next
        case False
        with Some active Cons.IH [of "Some b"] show ?thesis
          using find_max_first [of length "ni_path i" b ?ps] by (simp only: better_path_def Let_def) simp
      qed
    qed
  qed
qed

text \<open>
  The loop that picks the highlighted item is the specification "the longest matching path wins, the
  first one on a tie": it returns the first of the matching paths that no matching path is longer than,
  and nothing exactly when no path matches.
\<close>

theorem activeItemPath_longest:
  "activeItemPath entries current =
     (let ps = filter (isPathActive current) (map ni_path (allItems entries))
      in find (\<lambda>p. list_all (\<lambda>q. length q \<le> length p) ps) ps)"
  using best_path_longest [of current None "allItems entries"] by (simp add: activeItemPath_def)

text \<open>Over all the items of a tree, so over the items of any user: whatever matches the path of an item is
  a shorter path, or the item's own.\<close>

definition lights_itself :: "NavItem list \<Rightarrow> NavItem \<Rightarrow> bool" where
  "lights_itself is i \<longleftrightarrow> isPathActive (ni_path i) (ni_path i) \<and>
     list_all (\<lambda>j. if isPathActive (ni_path i) (ni_path j) then ni_path j = ni_path i \<or> length (ni_path j) < length (ni_path i)
                   else True) is"

lemma admin_items_light: "list_all (lights_itself (map snd admin_items)) (map snd admin_items)"
  by code_simp

lemma app_items_light: "list_all (lights_itself (map snd app_items)) (map snd app_items)"
  by code_simp

lemma activeItemPath_self:
  assumes "i \<in> set (allItems es)" "list_all (lights_itself is) is" "set (allItems es) \<subseteq> set is"
  shows "activeItemPath es (ni_path i) = Some (ni_path i)"
proof -
  let ?ps = "filter (isPathActive (ni_path i)) (map ni_path (allItems es))"
  let ?P = "\<lambda>p. list_all (\<lambda>q. length q \<le> length p) ?ps"
  have i: "lights_itself is i" using assms by (auto simp: list_all_iff)
  have mem: "ni_path i \<in> set ?ps" using i assms(1) by (auto simp: lights_itself_def)
  have all: "q = ni_path i \<or> length q < length (ni_path i)" if "q \<in> set ?ps" for q
    using that i assms(3) unfolding lights_itself_def list_all_iff by (auto split: if_splits)
  have "?P (ni_path i)" using all by (fastforce simp: list_all_iff)
  then obtain p where p: "find ?P ?ps = Some p"
    using mem by (cases "find ?P ?ps") (auto simp: find_None_iff)
  have "p \<in> set ?ps" "?P p" using find_mem [OF p] find_map_fst [OF p] by blast+
  have "length (ni_path i) \<le> length p" using \<open>?P p\<close> mem unfolding list_all_iff by blast
  with all [OF \<open>p \<in> set ?ps\<close>] have "p = ni_path i" by linarith
  with p show ?thesis by (simp add: activeItemPath_def best_path_longest Let_def)
qed

text \<open>
  Opening an item highlights it. For every user and in both areas, once the drawer's item is open its
  own path is the highlighted one, so neither another tab of the same entity nor a parent page lights
  up in its place.
\<close>

theorem drawer_item_lights_up:
  "list_all (\<lambda>i. activeItemPath (drawer adminMode u) (ni_path i) = Some (ni_path i)) (allItems (drawer adminMode u))"
proof -
  let ?is = "map snd (if adminMode then admin_items else app_items)"
  have sub: "set (allItems (drawer adminMode u)) \<subseteq> set ?is"
  proof
    fix i assume "i \<in> set (allItems (drawer adminMode u))"
    from drawer_items [OF this] obtain r where "(r, i) \<in> set (if adminMode then admin_items else app_items)" by blast
    then have "snd (r, i) \<in> set ?is" by (simp only: set_map image_eqI)
    then show "i \<in> set ?is" by simp
  qed
  have "list_all (lights_itself ?is) ?is" using admin_items_light app_items_light by simp
  then show ?thesis unfolding list_all_iff [of _ "allItems _"] using activeItemPath_self sub by blast
qed

text \<open>
  But the drawer loses its place on the other tabs of an entity that has a single item. The item
  of the incidents (and of the environment requests and the change requests) links to the first tab
  with its query, so on the custom fields tab, where the redirect of the old bookmark also lands, no
  item is highlighted and no group counts as the current one, for any user.
\<close>

theorem second_tab_loses_highlight:
  "list_all (\<lambda>e. activeItemPath (drawer True u) (entityTabPath e ''fields'') = None \<and>
       groupContaining (drawer True u) (entityTabPath e ''fields'') = None \<and>
       EntityConfig e (usp_parse (snd (splitPathAndQuery (entityTabPath e ''fields'')))) = Some Panel_fields)
     [''incidents'', ''environment-requests'', ''change-requests'']"
proof -
  have none: "activeItemPath (drawer True u) url = None"
    if "list_all (\<lambda>i. \<not> isPathActive url (ni_path i)) (map snd admin_items)" for url
  proof -
    have "list_all (\<lambda>i. \<not> isPathActive url (ni_path i)) (allItems (drawer True u))"
      using that drawer_items [of _ True u] by (fastforce simp: list_all_iff)
    then have "filter (isPathActive url) (map ni_path (allItems (drawer True u))) = []"
      by (auto simp: list_all_iff filter_empty_conv)
    then show ?thesis by (simp add: activeItemPath_def best_path_longest)
  qed
  have inactive: "list_all (\<lambda>e. list_all (\<lambda>i. \<not> isPathActive (entityTabPath e ''fields'') (ni_path i)) (map snd admin_items))
      [''incidents'', ''environment-requests'', ''change-requests'']"
    by code_simp
  have panels: "list_all (\<lambda>e. EntityConfig e (usp_parse (snd (splitPathAndQuery (entityTabPath e ''fields'')))) =
      Some Panel_fields) [''incidents'', ''environment-requests'', ''change-requests'']"
    by code_simp
  show ?thesis using inactive panels none unfolding list_all_iff groupContaining_def by simp
qed

subsection \<open>Moved pages\<close>

definition dynamic_segments :: "string \<Rightarrow> string list" where
  "dynamic_segments p = filter (\<lambda>w. js_startsWith w '':'') (js_split (CHR ''/'') p)"

definition settles :: "LegacyRedirect \<Rightarrow> bool" where
  "settles r \<longleftrightarrow>
     (case item_route (fst (splitPathAndQuery (lr_to r))) of
        None \<Rightarrow> False
      | Some t \<Rightarrow> (case ar_element t of Shows _ \<Rightarrow> True | Redirects _ \<Rightarrow> False) \<and> guard_met (Some Nav_admin) (ar_guard t)) \<and>
     list_all (\<lambda>w. w \<in> set (dynamic_segments (lr_from r))) (dynamic_segments (lr_to r))"

lemma legacy_settle: "list_all settles LEGACY_REDIRECTS"
  by code_simp

lemma legacy_not_routed: "list_all (\<lambda>r. lr_from r \<notin> set (map ar_path app_routes)) LEGACY_REDIRECTS"
  by code_simp

text \<open>
  A bookmark of a moved page lands in one step. Every redirect shadows no current route, its target
  is a current route (so not the old path of another redirect) that shows a page and asks no more of the
  visitor than being an Admin of the tenant, and every parameter that the target needs is a parameter
  of the old path.
\<close>

theorem legacy_redirects_settle:
  "list_all (\<lambda>r. lr_from r \<notin> set (map ar_path app_routes) \<and>
       (case item_route (fst (splitPathAndQuery (lr_to r))) of
          None \<Rightarrow> False
        | Some t \<Rightarrow> (case ar_element t of Shows _ \<Rightarrow> True | Redirects _ \<Rightarrow> False) \<and> guard_met (Some Nav_admin) (ar_guard t)) \<and>
       list_all (\<lambda>w. w \<in> set (dynamic_segments (lr_from r))) (dynamic_segments (lr_to r)))
     LEGACY_REDIRECTS"
  using legacy_settle legacy_not_routed by (simp add: list_all_iff settles_def)

end
