(* ===== verification/AppDrawer.thy ===== *)
theory AppDrawer
  imports NavFacts JsMap
begin

text \<open>
  The remembered state of the user interface (\<open>store/uiSlice.ts\<close>) and the effect of
  \<open>components/AppLayout.tsx\<close> that keeps the drawer on the current page. The storage entry of the open groups
  is what \<open>JSON.parse\<close> makes of it; a blocked storage throws on every access.
\<close>

subsection \<open>The slice\<close>

datatype ThemeModePreference = Light | Dark | System

record UiState =
  themeMode :: ThemeModePreference
  navOpenGroups :: "(string, bool) jmap"
  lastAppRoute :: string

datatype stored_groups = Absent | Garbage | Not_an_object | Stored "(string, bool) jmap"

record ui_storage =
  st_usable :: bool
  st_theme :: "string option"
  st_groups :: stored_groups

definition theme_text :: "ThemeModePreference \<Rightarrow> string" where
  "theme_text m = (case m of Light \<Rightarrow> ''light'' | Dark \<Rightarrow> ''dark'' | System \<Rightarrow> ''system'')"

text \<open>Without a value: the access throws.\<close>

definition readInitialMode :: "ui_storage \<Rightarrow> ThemeModePreference option" where
  "readInitialMode st =
     (if \<not> st_usable st then None
      else Some (if st_theme st = Some ''light'' then Light else if st_theme st = Some ''dark'' then Dark
                 else if st_theme st = Some ''system'' then System else System))"

definition readNavGroups :: "ui_storage \<Rightarrow> (string, bool) jmap" where
  "readNavGroups st = (if \<not> st_usable st then [] else case st_groups st of Stored m \<Rightarrow> m | _ \<Rightarrow> [])"

definition writeNavGroups :: "(string, bool) jmap \<Rightarrow> ui_storage \<Rightarrow> ui_storage" where
  "writeNavGroups m st = (if st_usable st then st\<lparr>st_groups := Stored m\<rparr> else st)"

definition ui_initial :: "ui_storage \<Rightarrow> UiState option" where
  "ui_initial st = map_option
     (\<lambda>m. \<lparr>themeMode = m, navOpenGroups = readNavGroups st, lastAppRoute = ''/dashboard''\<rparr>) (readInitialMode st)"

type_synonym ui = "UiState \<times> ui_storage"

definition setThemeMode :: "ThemeModePreference \<Rightarrow> ui \<Rightarrow> ui option" where
  "setThemeMode m x =
     (if \<not> st_usable (snd x) then None
      else Some ((fst x)\<lparr>themeMode := m\<rparr>, (snd x)\<lparr>st_theme := Some (theme_text m)\<rparr>))"

definition setNavGroupOpen :: "string \<Rightarrow> bool \<Rightarrow> ui \<Rightarrow> ui" where
  "setNavGroupOpen key opened x =
     (let groups = jm_set key opened (navOpenGroups (fst x))
      in ((fst x)\<lparr>navOpenGroups := groups\<rparr>, writeNavGroups groups (snd x)))"

definition setLastAppRoute :: "string \<Rightarrow> ui \<Rightarrow> ui" where
  "setLastAppRoute r x = ((fst x)\<lparr>lastAppRoute := r\<rparr>, snd x)"

subsection \<open>The layout\<close>

definition admin_mode :: "string \<Rightarrow> bool" where
  "admin_mode pathname \<longleftrightarrow> pathname = ADMIN_ROOT \<or> js_startsWith pathname (ADMIN_ROOT @ ''/'')"

definition groupKey :: "bool \<Rightarrow> string \<Rightarrow> string" where
  "groupKey adminMode label = (if adminMode then ''admin'' else ''app'') @ '':'' @ label"

definition isGroupOpen :: "bool \<Rightarrow> string \<Rightarrow> ui \<Rightarrow> bool" where
  "isGroupOpen adminMode label x = nullish (jm_get (navOpenGroups (fst x)) (groupKey adminMode label)) True"

definition toggleGroup :: "bool \<Rightarrow> string \<Rightarrow> ui \<Rightarrow> ui" where
  "toggleGroup adminMode label x = setNavGroupOpen (groupKey adminMode label) (\<not> isGroupOpen adminMode label x) x"

definition cycleThemeMode :: "ui \<Rightarrow> ui option" where
  "cycleThemeMode x = setThemeMode (case themeMode (fst x) of Light \<Rightarrow> Dark | Dark \<Rightarrow> System | System \<Rightarrow> Light) x"

text \<open>The effect that runs after every navigation, for the full URL.\<close>

definition on_navigation :: "NavUser option \<Rightarrow> string \<Rightarrow> ui \<Rightarrow> ui" where
  "on_navigation u url x =
     (let adminMode = admin_mode (fst (splitPathAndQuery url));
          y = (if \<not> adminMode then setLastAppRoute url x else x)
      in case groupContaining (drawer adminMode u) url of
           None \<Rightarrow> y
         | Some holder \<Rightarrow>
             if jm_get (navOpenGroups (fst x)) (groupKey adminMode holder) = Some False
             then setNavGroupOpen (groupKey adminMode holder) True y
             else y)"

datatype ui_event = Navigate "NavUser option" string | Toggle bool string

fun ui_step :: "ui_event \<Rightarrow> ui \<Rightarrow> ui" where
  "ui_step (Navigate u url) x = on_navigation u url x"
| "ui_step (Toggle m label) x = toggleGroup m label x"

definition ui_run :: "ui_event list \<Rightarrow> ui \<Rightarrow> ui" where
  "ui_run es x = fold ui_step es x"

subsection \<open>What the user sees\<close>

lemma navOpenGroups_setLastAppRoute [simp]:
  "navOpenGroups (fst (setLastAppRoute r x)) = navOpenGroups (fst x)" "snd (setLastAppRoute r x) = snd x"
  by (simp_all add: setLastAppRoute_def)

lemma setNavGroupOpen_simps [simp]:
  "navOpenGroups (fst (setNavGroupOpen k b x)) = jm_set k b (navOpenGroups (fst x))"
  "lastAppRoute (fst (setNavGroupOpen k b x)) = lastAppRoute (fst x)"
  "st_usable (snd (setNavGroupOpen k b x)) = st_usable (snd x)"
  by (simp_all add: setNavGroupOpen_def Let_def writeNavGroups_def)

text \<open>
  After every navigation the group that holds the current page is open, and every other group is as
  the user left it, in the state and under its own key.
\<close>

theorem current_group_open:
  "let adminMode = admin_mode (fst (splitPathAndQuery url)); y = on_navigation u url x
   in case groupContaining (drawer adminMode u) url of
        None \<Rightarrow> navOpenGroups (fst y) = navOpenGroups (fst x)
      | Some holder \<Rightarrow> isGroupOpen adminMode holder y \<and>
          jm_get (navOpenGroups (fst y)) k =
            (if k = groupKey adminMode holder \<and> jm_get (navOpenGroups (fst x)) k = Some False then Some True
             else jm_get (navOpenGroups (fst x)) k)"
proof (cases "groupContaining (drawer (admin_mode (fst (splitPathAndQuery url))) u) url")
  case None
  then show ?thesis by (simp add: Let_def on_navigation_def)
next
  case (Some holder)
  then show ?thesis
    by (cases "jm_get (navOpenGroups (fst x)) (groupKey (admin_mode (fst (splitPathAndQuery url))) holder)")
       (auto simp: Let_def on_navigation_def isGroupOpen_def)
qed

definition ui_ok :: "ui \<Rightarrow> bool" where
  "ui_ok x \<longleftrightarrow> \<not> admin_mode (fst (splitPathAndQuery (lastAppRoute (fst x)))) \<and>
     (if st_usable (snd x) then readNavGroups (snd x) = navOpenGroups (fst x) else True)"

lemma ui_ok_set: "ui_ok x \<Longrightarrow> ui_ok (setNavGroupOpen k b x)"
  by (simp add: ui_ok_def setNavGroupOpen_def Let_def readNavGroups_def writeNavGroups_def)

lemma ui_ok_last: "ui_ok x \<Longrightarrow> \<not> admin_mode (fst (splitPathAndQuery url)) \<Longrightarrow> ui_ok (setLastAppRoute url x)"
  by (simp add: ui_ok_def setLastAppRoute_def)

lemma ui_ok_step: "ui_ok x \<Longrightarrow> ui_ok (ui_step e x)"
  by (cases e)
     (auto simp: on_navigation_def toggleGroup_def Let_def ui_ok_last split: option.split intro!: ui_ok_set)

lemma ui_ok_run: "ui_ok x \<Longrightarrow> ui_ok (ui_run es x)"
  unfolding ui_run_def by (induction es arbitrary: x) (simp_all add: ui_ok_step)

text \<open>
  "Back to EnvManager" leaves the admin area, and the drawer survives a reload. From a fresh start,
  after any navigations and clicks of any users, the remembered route is not one of the admin area, and
  starting again over the storage gives the same open and closed groups, as long as the storage works;
  if it does not, the drawer still starts with everything open.
\<close>

theorem back_leaves_admin:
  "case ui_initial st of
     None \<Rightarrow> \<not> st_usable st \<and> readNavGroups st = []
   | Some s \<Rightarrow>
       let y = ui_run es (s, st)
       in \<not> admin_mode (fst (splitPathAndQuery (lastAppRoute (fst y)))) \<and>
          map_option navOpenGroups (ui_initial (snd y)) = Some (navOpenGroups (fst y))"
proof (cases "st_usable st")
  case False
  then show ?thesis by (simp add: ui_initial_def readInitialMode_def readNavGroups_def)
next
  case True
  then obtain s where s: "ui_initial st = Some s" "navOpenGroups s = readNavGroups st" "lastAppRoute s = ''/dashboard''"
    by (cases "ui_initial st") (auto simp: ui_initial_def readInitialMode_def)
  have "\<not> admin_mode (fst (splitPathAndQuery ''/dashboard''))" by code_simp
  then have "ui_ok (s, st)" using s by (simp add: ui_ok_def)
  then have ok: "ui_ok (ui_run es (s, st))" by (rule ui_ok_run)
  have "st_usable (snd (ui_step e x)) = st_usable (snd x)" for e x
    by (cases e) (auto simp: on_navigation_def toggleGroup_def Let_def split: option.split)
  then have "st_usable (snd (ui_run es x)) = st_usable (snd x)" for x
    unfolding ui_run_def by (induction es arbitrary: x) auto
  with True have "st_usable (snd (ui_run es (s, st)))" by simp
  with ok have "map_option navOpenGroups (ui_initial (snd (ui_run es (s, st)))) = Some (navOpenGroups (fst (ui_run es (s, st))))"
    by (simp add: ui_ok_def ui_initial_def readInitialMode_def)
  with s ok show ?thesis by (simp add: ui_ok_def)
qed

text \<open>
  A blocked storage does not stop the open groups, as the comment on them promises, but it stops the
  slice: the start value of the theme is read unguarded, so the slice has no initial state, and changing
  the theme throws inside the reducer. With a working storage the theme survives a reload and three
  changes come back to the first one.
\<close>

theorem blocked_storage_stops_theme:
  "(if st_usable st then
      (case setThemeMode m (s, st) of None \<Rightarrow> False | Some y \<Rightarrow> map_option themeMode (ui_initial (snd y)) = Some m) \<and>
      map_option (themeMode \<circ> fst) (Option.bind (Option.bind (cycleThemeMode (s, st)) cycleThemeMode) cycleThemeMode) =
        Some (themeMode s)
    else ui_initial st = None \<and> setThemeMode m (s, st) = None \<and> readNavGroups st = [] \<and>
      navOpenGroups (fst (setNavGroupOpen k b (s, st))) = jm_set k b (navOpenGroups s))"
  by (cases m; cases "themeMode s")
     (simp_all add: setThemeMode_def cycleThemeMode_def ui_initial_def readInitialMode_def theme_text_def readNavGroups_def)

end
