(* ===== verification/RouteMeta.thy ===== *)
theory RouteMeta
  imports NavConfig
begin

text \<open>
  Where a page sits (\<open>components/layout/routeMeta.ts\<close>) and what the browser tab is called
  (\<open>hooks/usePageTitle.ts\<close>). \<open>matchPath\<close> and \<open>generatePath\<close> of React Router are parameters; what is relied
  on of them is named where it is used.
\<close>

subsection \<open>The table\<close>

record RouteMeta =
  rm_label :: string
  rm_parent :: "string option"

definition route_meta :: "string \<Rightarrow> string option \<Rightarrow> RouteMeta" where
  "route_meta l p = \<lparr>rm_label = l, rm_parent = p\<rparr>"

definition adminEntityRoutes :: "(string \<times> RouteMeta) list" where
  "adminEntityRoutes =
     map (\<lambda>page. (''/admin/'' @ cp_entity page, route_meta (cp_label page) (Some ''/admin''))) ENTITY_CONFIG_PAGES"

definition ROUTE_META :: "(string \<times> RouteMeta) list" where
  "ROUTE_META =
   [(''/dashboard'', route_meta ''Dashboard'' None),
    (''/my-work'', route_meta ''My work'' None),
    (''/systems'', route_meta ''Systems'' None),
    (''/systems/:id'', route_meta ''System'' (Some ''/systems'')),
    (''/environments'', route_meta ''Environments'' None),
    (''/environments/:id'', route_meta ''Environment'' (Some ''/environments'')),
    (''/environments/compare'', route_meta ''Compare environments'' None),
    (''/infrastructure/hosts'', route_meta ''Hosts'' None),
    (''/import'', route_meta ''Import'' None),
    (''/bookings/calendar'', route_meta ''Calendar'' None),
    (''/bookings/list'', route_meta ''Bookings'' None),
    (''/bookings/:id'', route_meta ''Booking'' (Some ''/bookings/list'')),
    (''/environment-requests'', route_meta ''Environment requests'' None),
    (''/environment-requests/new'', route_meta ''New environment request'' (Some ''/environment-requests'')),
    (''/environment-requests/:id'', route_meta ''Environment request'' (Some ''/environment-requests'')),
    (''/change-requests'', route_meta ''Change requests'' None),
    (''/change-requests/:id'', route_meta ''Change request'' (Some ''/change-requests'')),
    (''/projects'', route_meta ''Projects'' None),
    (''/projects/:id'', route_meta ''Project'' (Some ''/projects'')),
    (''/environment-groups'', route_meta ''Environment groups'' None),
    (''/environment-groups/:id'', route_meta ''Environment group'' (Some ''/environment-groups'')),
    (''/contentions'', route_meta ''Contentions'' None),
    (''/decommissions'', route_meta ''Decommissions'' None),
    (''/releases'', route_meta ''Releases'' None),
    (''/releases/calendar'', route_meta ''Calendar'' None),
    (''/releases/timeline'', route_meta ''Timeline'' None),
    (''/releases/scope-windows'', route_meta ''Scope windows'' None),
    (''/releases/analytics'', route_meta ''Analytics'' None),
    (''/releases/:id'', route_meta ''Release'' (Some ''/releases'')),
    (''/releases/new'', route_meta ''New release'' (Some ''/releases'')),
    (''/builds'', route_meta ''Builds'' None),
    (''/builds/:id'', route_meta ''Build'' (Some ''/builds'')),
    (''/deployments'', route_meta ''Deployments'' None),
    (''/deployments/:id'', route_meta ''Deployment'' (Some ''/deployments'')),
    (''/incidents'', route_meta ''Incidents'' None),
    (''/incidents/new'', route_meta ''New incident'' (Some ''/incidents'')),
    (''/incidents/:id'', route_meta ''Incident'' (Some ''/incidents'')),
    (''/incidents/:id/edit'', route_meta ''Edit incident'' (Some ''/incidents/:id'')),
    (''/pir-actions'', route_meta ''PIR actions'' None),
    (''/insights/dora'', route_meta ''DORA metrics'' None),
    (''/insights/health'', route_meta ''Environment health'' None),
    (''/admin'', route_meta ''Administration'' None),
    (''/admin/users'', route_meta ''Users'' (Some ''/admin'')),
    (''/admin/user-groups'', route_meta ''User groups'' (Some ''/admin'')),
    (''/admin/user-groups/:id'', route_meta ''User group'' (Some ''/admin/user-groups'')),
    (''/admin/settings'', route_meta ''Tenant settings'' (Some ''/admin'')),
    (''/admin/api-keys'', route_meta ''API keys'' (Some ''/admin'')),
    (''/admin/github'', route_meta ''GitHub'' (Some ''/admin'')),
    (''/admin/component-types'', route_meta ''Component types'' (Some ''/admin'')),
    (''/admin/releases/templates'', route_meta ''Templates'' (Some ''/admin'')),
    (''/admin/releases/templates/:id'', route_meta ''Template'' (Some ''/admin/releases/templates'')),
    (''/admin/releases/scope-change-rules'', route_meta ''Scope-change rules'' (Some ''/admin'')),
    (''/admin/releases/raid'', route_meta ''RAID settings'' (Some ''/admin'')),
    (''/admin/tenants'', route_meta ''Tenants'' (Some ''/admin'')),
    (''/admin/tenants/:tenantId'', route_meta ''Tenant'' (Some ''/admin/tenants''))] @
   adminEntityRoutes"

subsection \<open>Matching\<close>

definition segments :: "string \<Rightarrow> string list" where
  "segments p = filter (\<lambda>w. w \<noteq> []) (js_split (CHR ''/'') p)"

definition is_dynamic :: "string \<Rightarrow> bool" where
  "is_dynamic w \<longleftrightarrow> js_startsWith w '':'' \<or> w = ''*''"

definition specificity :: "string \<Rightarrow> int" where
  "specificity pattern = foldl (\<lambda>score w. score + (if is_dynamic w then 1 else 100)) 0 (segments pattern)"

definition better_pattern :: "(string \<Rightarrow> string \<Rightarrow> params option) \<Rightarrow> string \<Rightarrow> string option \<times> int \<Rightarrow> string \<Rightarrow> string option \<times> int" where
  "better_pattern matchPath pathname best pattern =
     (if matchPath pattern pathname = None then best
      else let score = specificity pattern in
        if snd best < score then (Some pattern, score) else best)"

definition matchRoutePattern :: "(string \<Rightarrow> string \<Rightarrow> params option) \<Rightarrow> string \<Rightarrow> string option" where
  "matchRoutePattern matchPath pathname =
     fst (foldl (better_pattern matchPath pathname) (None, -1) (map fst ROUTE_META))"

subsection \<open>Breadcrumbs\<close>

record crumb =
  cr_label :: string
  cr_to :: "string option"

text \<open>The loop over the parents. A pattern that is not in the table throws; that and a loop that never ends
  have no value.\<close>

definition crumb_of :: "(string \<Rightarrow> params \<Rightarrow> string) \<Rightarrow> params \<Rightarrow> string \<Rightarrow> RouteMeta \<Rightarrow> crumb" where
  "crumb_of generatePath params p m =
     \<lparr>cr_label = rm_label m, cr_to = Some (if js_includes p '':'' then generatePath p params else p)\<rparr>"

partial_function (option) trail_loop ::
    "(string \<Rightarrow> params \<Rightarrow> string) \<Rightarrow> params \<Rightarrow> string option \<Rightarrow> crumb list \<Rightarrow> crumb list option" where
  "trail_loop generatePath params p trail =
     (case p of
        None \<Rightarrow> Some trail
      | Some q \<Rightarrow>
          if q = [] then Some trail
          else (case map_of ROUTE_META q of
                  None \<Rightarrow> None
                | Some m \<Rightarrow> trail_loop generatePath params (rm_parent m) (crumb_of generatePath params q m # trail)))"

definition unlink_last :: "crumb list \<Rightarrow> crumb list" where
  "unlink_last trail = trail[length trail - 1 := (trail ! (length trail - 1))\<lparr>cr_to := None\<rparr>]"

definition breadcrumbsFor ::
    "(string \<Rightarrow> string \<Rightarrow> params option) \<Rightarrow> (string \<Rightarrow> params \<Rightarrow> string) \<Rightarrow> string \<Rightarrow> crumb list option" where
  "breadcrumbsFor matchPath generatePath pathname =
     (case matchRoutePattern matchPath pathname of
        None \<Rightarrow> Some []
      | Some pattern \<Rightarrow>
          if pattern = [] then Some []
          else let params = nullish (matchPath pattern pathname) []
               in map_option unlink_last (trail_loop generatePath params (Some pattern) []))"

text \<open>The title: the override in place of the page's own crumb, innermost first, joined by a middle dot.\<close>

definition page_title :: "string option \<Rightarrow> crumb list \<Rightarrow> string" where
  "page_title override trail =
     (let crumbs = rev (map cr_label trail);
          parts = (if truthy override then the override # drop 1 crumbs else crumbs)
      in js_join ('' '' @ [CHR 0xC2, CHR 0xB7] @ '' '') (parts @ [''EnvManager'']))"

subsection \<open>The parents of a page\<close>

text \<open>Five steps are enough for every page of the table.\<close>

fun ancestors :: "nat \<Rightarrow> string option \<Rightarrow> (string \<times> RouteMeta) list option" where
  "ancestors n None = Some []"
| "ancestors 0 (Some p) = None"
| "ancestors (Suc n) (Some p) =
     (if p = [] then Some []
      else Option.bind (map_of ROUTE_META p) (\<lambda>m. map_option (\<lambda>ps. (p, m) # ps) (ancestors n (rm_parent m))))"

definition parent_pages :: "string list" where
  "parent_pages =
     [''/systems'', ''/environments'', ''/bookings/list'', ''/environment-requests'', ''/change-requests'', ''/projects'', ''/environment-groups'', ''/releases'', ''/builds'', ''/deployments'', ''/incidents'', ''/incidents/:id'', ''/admin'', ''/admin/user-groups'', ''/admin/releases/templates'', ''/admin/tenants'']"

lemma parents_found: "list_all (\<lambda>p. ancestors 4 (Some p) \<noteq> None) parent_pages"
  by code_simp

lemma parents_listed:
  "list_all (\<lambda>pm. case rm_parent (snd pm) of None \<Rightarrow> True | Some q \<Rightarrow> q \<in> set parent_pages) ROUTE_META"
  by code_simp

lemma ancestors_found: "list_all (\<lambda>p. ancestors 5 (Some p) \<noteq> None) (map fst ROUTE_META)"
proof -
  have "ancestors 5 (Some p) \<noteq> None" if "p \<in> set (map fst ROUTE_META)" for p
  proof -
    from that obtain m where m: "map_of ROUTE_META p = Some m" "(p, m) \<in> set ROUTE_META"
      by (metis map_of_SomeD map_of_eq_None_iff not_None_eq set_map)
    then have "ancestors 4 (rm_parent m) \<noteq> None"
      using parents_found parents_listed by (cases "rm_parent m") (fastforce simp: list_all_iff)+
    with m(1) show ?thesis by (simp add: eval_nat_numeral)
  qed
  then show ?thesis by (simp add: list_all_iff)
qed

lemma trail_loop_ancestors:
  "ancestors n p = Some ps \<Longrightarrow>
   trail_loop gp params p acc = Some (rev (map (\<lambda>(q, m). crumb_of gp params q m) ps) @ acc)"
proof (induction n p arbitrary: ps acc rule: ancestors.induct)
  case (1 n)
  then show ?case by (subst trail_loop.simps) simp
next
  case (2 p)
  then show ?case by simp
next
  case (3 n p)
  show ?case
  proof (cases "p = []")
    case True
    with 3 show ?thesis by (subst trail_loop.simps) simp
  next
    case False
    then obtain m qs where "map_of ROUTE_META p = Some m" "ancestors n (rm_parent m) = Some qs" "ps = (p, m) # qs"
      using 3(2) by (auto simp: bind_eq_Some_conv)
    with False 3(1) show ?thesis by (subst trail_loop.simps) simp
  qed
qed

lemma fold_better:
  "foldl (better_pattern mp path) best ps = (case best of (b, s) \<Rightarrow>
     foldl (better_pattern mp path) (b, s) (filter (\<lambda>p. mp p path \<noteq> None) ps))"
  by (induction ps arbitrary: best) (auto simp: better_pattern_def split: prod.splits)

lemma better_pattern_mem:
  "fst (foldl (better_pattern mp path) (b, s) ps) = b \<or>
   (\<exists>p. fst (foldl (better_pattern mp path) (b, s) ps) = Some p \<and> p \<in> set ps \<and> mp p path \<noteq> None)"
proof (induction ps arbitrary: b s)
  case (Cons p ps)
  show ?case
  proof (cases "mp p path = None \<or> \<not> s < specificity p")
    case True
    then have "better_pattern mp path (b, s) p = (b, s)" by (auto simp: better_pattern_def)
    with Cons.IH [of b s] show ?thesis by auto
  next
    case False
    then have "better_pattern mp path (b, s) p = (Some p, specificity p)" by (auto simp: better_pattern_def)
    with Cons.IH [of "Some p" "specificity p"] False show ?thesis by auto
  qed
qed simp

lemma matchRoutePattern_mem:
  "matchRoutePattern mp path = Some p \<Longrightarrow> p \<in> set (map fst ROUTE_META) \<and> mp p path \<noteq> None"
  using better_pattern_mem [of mp path None "-1" "map fst ROUTE_META"] by (auto simp: matchRoutePattern_def)

text \<open>
  Breadcrumbs end. For every pathname, whatever matches it, the walk over the parents reaches the
  root of the trail and every parent is in the table: the trail is a value. It is empty exactly when no
  pattern of the table matches; otherwise it ends with the page itself, the only crumb without a link,
  and every crumb before it is a link to the page of the crumb's own pattern.
\<close>

theorem breadcrumbs_end:
  "case breadcrumbsFor matchPath generatePath pathname of
     None \<Rightarrow> False
   | Some trail \<Rightarrow>
       (case matchRoutePattern matchPath pathname of
          None \<Rightarrow> trail = []
        | Some pattern \<Rightarrow>
            (case ancestors 5 (Some pattern) of
               None \<Rightarrow> False
             | Some ps \<Rightarrow>
                 map cr_label trail = map (rm_label \<circ> snd) (rev ps) \<and> last trail = \<lparr>cr_label = cr_label (last trail), cr_to = None\<rparr> \<and>
                 map cr_to (butlast trail) = map (\<lambda>q. Some (if js_includes (fst q) '':''
                   then generatePath (fst q) (nullish (matchPath pattern pathname) []) else fst q)) (rev (tl ps))))"
proof (cases "matchRoutePattern matchPath pathname")
  case None
  then show ?thesis by (simp add: breadcrumbsFor_def)
next
  case (Some pattern)
  then have mem: "pattern \<in> set (map fst ROUTE_META)" using matchRoutePattern_mem by blast
  then obtain ps where ps: "ancestors 5 (Some pattern) = Some ps"
    using ancestors_found by (auto simp: list_all_iff)
  have "list_all (\<lambda>p. p \<noteq> []) (map fst ROUTE_META)" by code_simp
  then have ne: "pattern \<noteq> []" using mem by (auto simp: list_all_iff)
  then obtain m qs where q: "ps = (pattern, m) # qs"
    using ps by (auto simp: eval_nat_numeral bind_eq_Some_conv split: if_splits)
  let ?f = "\<lambda>(q, m). crumb_of generatePath (nullish (matchPath pattern pathname) []) q m"
  have trail: "breadcrumbsFor matchPath generatePath pathname =
      Some (rev (map ?f qs) @ [(?f (pattern, m))\<lparr>cr_to := None\<rparr>])"
    using Some ne trail_loop_ancestors [OF ps, of generatePath "nullish (matchPath pattern pathname) []" "[]"]
    by (simp add: breadcrumbsFor_def q unlink_last_def nth_append list_update_append)
  show ?thesis unfolding trail using Some ps
    by (simp add: q rev_map butlast_append crumb_of_def split_beta comp_def)
qed

subsection \<open>Literal pages win\<close>

text \<open>What is relied on of \<open>matchPath\<close> (documented): a pattern matches segment by segment, a dynamic segment
  anything and a literal one the same text, ignoring case.\<close>

definition matches_by_segment :: "(string \<Rightarrow> string \<Rightarrow> params option) \<Rightarrow> string \<Rightarrow> bool" where
  "matches_by_segment mp path \<longleftrightarrow>
     list_all (\<lambda>p. if mp p path = None then True
                   else list_all2 (\<lambda>s t. is_dynamic s \<or> js_lower s = js_lower t) (segments p) (segments path))
       (map fst ROUTE_META)"

definition score :: "string list \<Rightarrow> int" where
  "score ws = sum_list (map (\<lambda>w. if is_dynamic w then 1 else 100) ws)"

lemma specificity_score: "specificity p = score (segments p)"
proof -
  have "foldl (\<lambda>s w. s + (if is_dynamic w then 1 else 100)) a ws = a + score ws" for a :: int and ws
    by (induction ws arbitrary: a) (simp_all add: score_def)
  then show ?thesis by (simp add: specificity_def)
qed

lemma score_literal: "list_all (\<lambda>w. \<not> is_dynamic w) ws \<Longrightarrow> score ws = 100 * int (length ws)"
  by (induction ws) (simp_all add: score_def)

lemma score_dynamic: "\<not> list_all (\<lambda>w. \<not> is_dynamic w) ws \<Longrightarrow> score ws < 100 * int (length ws)"
proof (induction ws)
  case (Cons w ws)
  have "score ws \<le> 100 * int (length ws)" by (induction ws) (simp_all add: score_def)
  with Cons show ?case by (cases "is_dynamic w") (simp_all add: score_def)
qed (simp add: score_def)

lemma score_bound: "0 \<le> score ws"
  by (induction ws) (simp_all add: score_def)

definition plain_pattern :: "string \<Rightarrow> bool" where
  "plain_pattern p \<longleftrightarrow> p = js_join ''/'' ([] # segments p) \<and> list_all (\<lambda>w. is_dynamic w \<or> js_lower w = w) (segments p)"

lemma table_plain: "list_all plain_pattern (map fst ROUTE_META)"
  by code_simp

lemma fold_better_keeps:
  "list_all (\<lambda>p. mp p path = None \<or> specificity p \<le> specificity q) ps \<Longrightarrow>
   foldl (better_pattern mp path) (Some q, specificity q) ps = (Some q, specificity q)"
  by (induction ps) (auto simp: better_pattern_def)

lemma fold_better_finds:
  assumes "q \<in> set ps" "mp q path \<noteq> None" "s < specificity q"
    and "list_all (\<lambda>p. mp p path = None \<or> p = q \<or> specificity p < specificity q) ps"
  shows "fst (foldl (better_pattern mp path) (b, s) ps) = Some q"
  using assms
proof (induction ps arbitrary: b s)
  case (Cons p ps)
  show ?case
  proof (cases "p = q")
    case True
    have "list_all (\<lambda>p. mp p path = None \<or> specificity p \<le> specificity q) ps"
      using Cons.prems(4) by (auto simp: list_all_iff)
    from fold_better_keeps [where mp = mp and path = path, OF this] show ?thesis
    proof -
      have "better_pattern mp path (b, s) p = (Some q, specificity q)"
        using True Cons.prems(2,3) by (simp add: better_pattern_def)
      with \<open>foldl _ (Some q, specificity q) ps = _\<close> show ?thesis by simp
    qed
  next
    case False
    with Cons.prems have q: "q \<in> set ps" by simp
    obtain b' s' where bs: "better_pattern mp path (b, s) p = (b', s')" "s' < specificity q"
      using Cons.prems(3,4) False
      by (cases "better_pattern mp path (b, s) p") (auto simp: better_pattern_def Let_def split: if_splits)
    have "list_all (\<lambda>p. mp p path = None \<or> p = q \<or> specificity p < specificity q) ps"
      using Cons.prems(4) by simp
    from Cons.IH [OF q Cons.prems(2) bs(2) this] bs(1) show ?thesis by simp
  qed
qed simp

text \<open>
  A literal page is never mistaken for the page of an id. A pathname that is itself a pattern of the
  table without a dynamic segment (\<open>/environments/compare\<close>, \<open>/releases/new\<close>) gets its own entry, wherever the
  entry stands in the table and whatever dynamic patterns match it too.
\<close>

theorem literal_page_wins:
  assumes "matches_by_segment mp path" "path \<in> set (map fst ROUTE_META)"
    and "list_all (\<lambda>w. \<not> is_dynamic w) (segments path)" "mp path path \<noteq> None"
  shows "matchRoutePattern mp path = Some path"
proof -
  have other: "specificity p < specificity path"
    if p: "p \<in> set (map fst ROUTE_META)" "mp p path \<noteq> None" "p \<noteq> path" for p
  proof -
    have seg: "list_all2 (\<lambda>s t. is_dynamic s \<or> js_lower s = js_lower t) (segments p) (segments path)"
      using assms(1) p(1,2) by (auto simp: matches_by_segment_def list_all_iff split: if_splits)
    have pl: "plain_pattern p" "plain_pattern path" using table_plain p(1) assms(2) by (auto simp: list_all_iff)
    have "\<not> list_all (\<lambda>w. \<not> is_dynamic w) (segments p)"
    proof
      assume lit: "list_all (\<lambda>w. \<not> is_dynamic w) (segments p)"
      have "list_all2 (=) (segments p) (segments path)"
        unfolding list_all2_conv_all_nth
      proof (intro conjI allI impI)
        show len: "length (segments p) = length (segments path)" using seg by (rule list_all2_lengthD)
        fix i assume i: "i < length (segments p)"
        then have "\<not> is_dynamic (segments p ! i)" "\<not> is_dynamic (segments path ! i)"
          using lit assms(3) len by (simp_all add: list_all_length)
        moreover have "js_lower (segments p ! i) = js_lower (segments path ! i)"
          using list_all2_nthD [OF seg i] calculation by simp
        moreover have "is_dynamic (segments p ! i) \<or> js_lower (segments p ! i) = segments p ! i"
            "is_dynamic (segments path ! i) \<or> js_lower (segments path ! i) = segments path ! i"
          using pl i len by (simp_all add: plain_pattern_def list_all_length)
        ultimately show "segments p ! i = segments path ! i" by simp
      qed
      then have "segments p = segments path" by (simp add: list.rel_eq)
      with pl p(3) show False unfolding plain_pattern_def by metis
    qed
    then show ?thesis
      using score_dynamic [of "segments p"] score_literal [OF assms(3)] list_all2_lengthD [OF seg]
      by (simp add: specificity_score)
  qed
  have "fst (foldl (better_pattern mp path) (None, -1) (map fst ROUTE_META)) = Some path"
  proof (rule fold_better_finds)
    show "- 1 < specificity path" using score_bound [of "segments path"] by (simp add: specificity_score)
    show "list_all (\<lambda>p. mp p path = None \<or> p = path \<or> specificity p < specificity path) (map fst ROUTE_META)"
      using other by (force simp: list_all_iff)
  qed (use assms in auto)
  then show ?thesis by (simp add: matchRoutePattern_def)
qed

text \<open>A matcher that collects the dynamic segments.\<close>

fun collect_params :: "string list \<Rightarrow> string list \<Rightarrow> params option" where
  "collect_params [] [] = Some []"
| "collect_params (s # ss) (t # ts) =
     (if js_startsWith s '':'' then map_option (\<lambda>ps. (tl s, t) # ps) (collect_params ss ts)
      else if js_lower s = js_lower t then collect_params ss ts else None)"
| "collect_params _ _ = None"

definition segment_matcher :: "string \<Rightarrow> string \<Rightarrow> params option" where
  "segment_matcher pattern path = collect_params (segments pattern) (segments path)"

lemma collect_params_segments:
  "collect_params ss ts \<noteq> None \<Longrightarrow> list_all2 (\<lambda>s t. is_dynamic s \<or> js_lower s = js_lower t) ss ts"
  by (induction ss ts rule: collect_params.induct) (auto simp: is_dynamic_def split: if_splits)

theorem literal_page_wins_witness:
  "matchRoutePattern segment_matcher ''/environments/compare'' = Some ''/environments/compare''"
proof (rule literal_page_wins)
  show "matches_by_segment segment_matcher ''/environments/compare''"
    using collect_params_segments
    by (auto simp: matches_by_segment_def segment_matcher_def list_all_iff split: if_splits)
  show "''/environments/compare'' \<in> set (map fst ROUTE_META)" by code_simp
  show "list_all (\<lambda>w. \<not> is_dynamic w) (segments ''/environments/compare'')" by code_simp
  show "segment_matcher ''/environments/compare'' ''/environments/compare'' \<noteq> None" by code_simp
qed

end
