(* ===== verification/LifecycleEditor.thy ===== *)
theory LifecycleEditor
  imports RtkLifecycle JsMap
begin

text \<open>
  The lifecycle templates of the tenant: their definition (\<open>types/bookingLifecycle.ts\<close>), the editor of
  \<open>components/admin/LifecycleTemplatesPanel.tsx\<close> as a state with one function per handler, and the two
  readers of a definition, \<open>components/lifecycle/TransitionControls.tsx\<close>, whose check is a port of
  \<open>validate_transition\<close> in \<open>backend/app/services/lifecycle_service.py\<close>, and
  \<open>components/lifecycle/LifecycleAwareFieldsPanel.tsx\<close>. An object \<open>{ editable_by: [...] }\<close> is its role list.
\<close>

subsection \<open>Definitions\<close>

type_synonym roles = "string list"
type_synonym field_roles = "(string, roles) jmap"

record LifecycleState =
  lc_key :: string
  lc_label :: string
  lc_is_initial :: bool
  lc_is_terminal :: bool
  lc_is_admission_lockdown :: "bool option"
  lc_is_failed :: "bool option"
  lc_marks_deployed :: "bool option"
  lc_is_closed :: "bool option"
  lc_requires_pir_complete :: "bool option"
  lc_requires_handover_confirmed :: "bool option"

text \<open>Older seeded templates lack labels of transitions.\<close>

record LifecycleTransition =
  lt_from_state :: string
  lt_to_state :: string
  lt_label :: "string option"
  lt_allowed_roles :: roles

text \<open>A permission on the wire: today's shape, the required fields that the server keeps with it, and the
  shape of old templates.\<close>

record LifecycleFieldPermission =
  fp_standard_fields :: "field_roles option"
  fp_custom_fields :: "field_roles option"
  fp_required_fields :: "string list option"
  fp_editable_fields :: "string list option"
  fp_editable_by :: "roles option"

record LifecycleDefinition =
  ld_states :: "LifecycleState list"
  ld_transitions :: "LifecycleTransition list"
  ld_field_permissions :: "(string, LifecycleFieldPermission) jmap option"
  ld_action_permissions :: "(string, (string, roles) jmap) jmap option"

record BookingLifecycleTemplate =
  bt_id :: js_id
  bt_tenant_id :: js_id
  bt_entity_type :: string
  bt_name :: string
  bt_description :: "string option"
  bt_is_default :: bool
  bt_applies_to_kind :: "string option"
  bt_definition :: LifecycleDefinition
  bt_created_at :: string
  bt_updated_at :: string

subsection \<open>The editor\<close>

definition ALL_ROLES :: roles where
  "ALL_ROLES = [''Admin'', ''Release Manager'', ''Test Manager'', ''Developer'', ''Viewer'']"

record StandardField =
  sf_key :: string
  sf_label :: string
  sf_mandatory :: bool

definition standard_field :: "string \<Rightarrow> string \<Rightarrow> bool \<Rightarrow> StandardField" where
  "standard_field k l m = \<lparr>sf_key = k, sf_label = l, sf_mandatory = m\<rparr>"

definition STANDARD_FIELDS_BY_ENTITY :: "(string, StandardField list) jmap" where
  "STANDARD_FIELDS_BY_ENTITY =
    [(''booking'',
      [standard_field ''project_name'' ''Purpose'' True,
       standard_field ''start_date'' ''Start Date'' True,
       standard_field ''end_date'' ''End Date'' True,
       standard_field ''booking_type'' ''Booking Type'' True,
       standard_field ''notes'' ''Notes'' False,
       standard_field ''exclusive_use'' ''Exclusive Use'' False,
       standard_field ''context_tag'' ''Context Tag'' False]),
     (''change_request'',
      [standard_field ''title'' ''Title'' True,
       standard_field ''description'' ''Description'' False,
       standard_field ''change_type'' ''Change Type'' True,
       standard_field ''scheduled_start'' ''Scheduled Start'' True,
       standard_field ''scheduled_end'' ''Scheduled End'' True,
       standard_field ''has_outage'' ''Has Outage'' False,
       standard_field ''outage_start'' ''Outage Start'' False,
       standard_field ''outage_end'' ''Outage End'' False]),
     (''release'',
      [standard_field ''name'' ''Name'' True,
       standard_field ''description'' ''Description'' False,
       standard_field ''release_type'' ''Release Type'' True,
       standard_field ''target_date'' ''Target Date'' False,
       standard_field ''actual_date'' ''Actual Date'' False]),
     (''incident'',
      [standard_field ''title'' ''Title'' True,
       standard_field ''severity'' ''Severity'' True,
       standard_field ''detected_at'' ''Detected At'' True,
       standard_field ''description'' ''Description'' False,
       standard_field ''resolved_at'' ''Resolved At'' False])]"

definition STANDARD_FIELDS :: "string \<Rightarrow> StandardField list" where
  "STANDARD_FIELDS entityType = nullish (jm_get STANDARD_FIELDS_BY_ENTITY entityType) []"

record StateRow =
  sr_key :: string
  sr_label :: string
  sr_is_initial :: bool
  sr_is_terminal :: bool
  sr_is_admission_lockdown :: bool
  sr_is_failed :: bool
  sr_marks_deployed :: bool
  sr_is_closed :: bool
  sr_requires_pir_complete :: bool
  sr_requires_handover_confirmed :: bool

record TransitionRow =
  tr_from_state :: string
  tr_to_state :: string
  tr_label :: string
  tr_allowed_roles :: roles

record FieldPermState =
  ps_standard_fields :: field_roles
  ps_custom_fields :: field_roles

definition emptyState :: StateRow where
  "emptyState = \<lparr>sr_key = [], sr_label = [], sr_is_initial = False, sr_is_terminal = False,
     sr_is_admission_lockdown = False, sr_is_failed = False, sr_marks_deployed = False, sr_is_closed = False,
     sr_requires_pir_complete = False, sr_requires_handover_confirmed = False\<rparr>"

definition emptyTransition :: TransitionRow where
  "emptyTransition = \<lparr>tr_from_state = [], tr_to_state = [], tr_label = [], tr_allowed_roles = []\<rparr>"

definition no_perms :: FieldPermState where
  "no_perms = \<lparr>ps_standard_fields = [], ps_custom_fields = []\<rparr>"

record editor =
  ed_entityType :: string
  ed_name :: string
  ed_description :: string
  ed_appliesToKind :: "string option"
  ed_states :: "StateRow list"
  ed_transitions :: "TransitionRow list"
  ed_fieldPerms :: "(string, FieldPermState) jmap"
  ed_actionPermissions :: "(string, (string, roles) jmap) jmap"
  ed_editTemplateId :: "js_id option"

text \<open>\<open>handleOpen\<close>: a new template.\<close>

definition handleOpen :: "string \<Rightarrow> editor" where
  "handleOpen entityType =
     \<lparr>ed_entityType = entityType, ed_name = [], ed_description = [], ed_appliesToKind = None, ed_states = [],
      ed_transitions = [], ed_fieldPerms = [], ed_actionPermissions = [], ed_editTemplateId = None\<rparr>"

definition state_row :: "LifecycleState \<Rightarrow> StateRow" where
  "state_row s = \<lparr>sr_key = lc_key s, sr_label = lc_label s, sr_is_initial = lc_is_initial s,
     sr_is_terminal = lc_is_terminal s, sr_is_admission_lockdown = nullish (lc_is_admission_lockdown s) False,
     sr_is_failed = nullish (lc_is_failed s) False, sr_marks_deployed = nullish (lc_marks_deployed s) False,
     sr_is_closed = nullish (lc_is_closed s) False,
     sr_requires_pir_complete = nullish (lc_requires_pir_complete s) False,
     sr_requires_handover_confirmed = nullish (lc_requires_handover_confirmed s) False\<rparr>"

definition transition_row :: "LifecycleTransition \<Rightarrow> TransitionRow" where
  "transition_row t = \<lparr>tr_from_state = lt_from_state t, tr_to_state = lt_to_state t,
     tr_label = nullish (lt_label t) [], tr_allowed_roles = lt_allowed_roles t\<rparr>"

definition perm_state :: "StandardField list \<Rightarrow> LifecycleFieldPermission \<Rightarrow> FieldPermState" where
  "perm_state flds p =
     (case fp_editable_fields p of
        Some oldEditableFields \<Rightarrow>
          let oldEditableBy = filter (\<lambda>r. r \<in> set ALL_ROLES) (nullish (fp_editable_by p) [])
          in \<lparr>ps_standard_fields =
                map (\<lambda>f. (sf_key f, if sf_key f \<in> set oldEditableFields then oldEditableBy else [])) flds,
              ps_custom_fields = nullish (fp_custom_fields p) []\<rparr>
      | None \<Rightarrow>
          \<lparr>ps_standard_fields =
             map (\<lambda>f. (sf_key f, nullish (jm_get (nullish (fp_standard_fields p) []) (sf_key f)) [])) flds,
           ps_custom_fields = nullish (fp_custom_fields p) []\<rparr>)"

definition handleEditOpen :: "string \<Rightarrow> BookingLifecycleTemplate \<Rightarrow> editor" where
  "handleEditOpen entityType t =
     \<lparr>ed_entityType = entityType, ed_name = bt_name t, ed_description = nullish (bt_description t) [],
      ed_appliesToKind = bt_applies_to_kind t,
      ed_states = map state_row (ld_states (bt_definition t)),
      ed_transitions = map transition_row (ld_transitions (bt_definition t)),
      ed_fieldPerms = map (\<lambda>(k, p). (k, perm_state (STANDARD_FIELDS entityType) p))
        (nullish (ld_field_permissions (bt_definition t)) []),
      ed_actionPermissions = nullish (ld_action_permissions (bt_definition t)) [],
      ed_editTemplateId = Some (bt_id t)\<rparr>"

subsection \<open>Editing\<close>

datatype state_patch = Key string | Label string | Initial bool | Terminal bool | Failed_flag bool | Deployed bool
  | Closed bool | Pir bool | Handover bool

definition patch_state :: "state_patch \<Rightarrow> StateRow \<Rightarrow> StateRow" where
  "patch_state p s = (case p of
     Key k \<Rightarrow> s\<lparr>sr_key := k\<rparr> | Label l \<Rightarrow> s\<lparr>sr_label := l\<rparr> | Initial b \<Rightarrow> s\<lparr>sr_is_initial := b\<rparr>
   | Terminal b \<Rightarrow> s\<lparr>sr_is_terminal := b\<rparr> | Failed_flag b \<Rightarrow> s\<lparr>sr_is_failed := b\<rparr>
   | Deployed b \<Rightarrow> s\<lparr>sr_marks_deployed := b\<rparr> | Closed b \<Rightarrow> s\<lparr>sr_is_closed := b\<rparr>
   | Pir b \<Rightarrow> s\<lparr>sr_requires_pir_complete := b\<rparr> | Handover b \<Rightarrow> s\<lparr>sr_requires_handover_confirmed := b\<rparr>)"

definition rename_key :: "string \<Rightarrow> string \<Rightarrow> (string, 'v) jmap \<Rightarrow> (string, 'v) jmap" where
  "rename_key old new m =
     (case jm_get m old of None \<Rightarrow> m | Some v \<Rightarrow> jm_delete old (jm_set new v m))"

definition updateState :: "nat \<Rightarrow> state_patch \<Rightarrow> editor \<Rightarrow> editor" where
  "updateState i p e =
     (let oldKey = sr_key (ed_states e ! i);
          e' = e\<lparr>ed_states := (ed_states e)[i := patch_state p (ed_states e ! i)]\<rparr>
      in case p of
           Key k \<Rightarrow>
             if k \<noteq> oldKey then
               e'\<lparr>ed_fieldPerms := rename_key oldKey k (ed_fieldPerms e),
                  ed_actionPermissions := rename_key oldKey k (ed_actionPermissions e)\<rparr>
             else e'
         | _ \<Rightarrow> e')"

definition remove_at :: "nat \<Rightarrow> 'a list \<Rightarrow> 'a list" where
  "remove_at i xs = take i xs @ drop (i + 1) xs"

definition removeState :: "nat \<Rightarrow> editor \<Rightarrow> editor" where
  "removeState i e =
     (let key = sr_key (ed_states e ! i)
      in e\<lparr>ed_states := remove_at i (ed_states e), ed_fieldPerms := jm_delete key (ed_fieldPerms e),
           ed_actionPermissions := jm_delete key (ed_actionPermissions e)\<rparr>)"

definition toggle :: "string \<Rightarrow> roles \<Rightarrow> roles" where
  "toggle r rs = (if r \<in> set rs then filter (\<lambda>x. x \<noteq> r) rs else rs @ [r])"

datatype transition_patch = From_state string | To_state string | Transition_label string

definition patch_transition :: "transition_patch \<Rightarrow> TransitionRow \<Rightarrow> TransitionRow" where
  "patch_transition p t = (case p of From_state s \<Rightarrow> t\<lparr>tr_from_state := s\<rparr> | To_state s \<Rightarrow> t\<lparr>tr_to_state := s\<rparr>
     | Transition_label l \<Rightarrow> t\<lparr>tr_label := l\<rparr>)"

definition updateTransition :: "nat \<Rightarrow> transition_patch \<Rightarrow> editor \<Rightarrow> editor" where
  "updateTransition i p e = e\<lparr>ed_transitions := (ed_transitions e)[i := patch_transition p (ed_transitions e ! i)]\<rparr>"

definition removeTransition :: "nat \<Rightarrow> editor \<Rightarrow> editor" where
  "removeTransition i e = e\<lparr>ed_transitions := remove_at i (ed_transitions e)\<rparr>"

definition toggleRole :: "nat \<Rightarrow> string \<Rightarrow> editor \<Rightarrow> editor" where
  "toggleRole i r e = e\<lparr>ed_transitions := (ed_transitions e)[i := (ed_transitions e ! i)
     \<lparr>tr_allowed_roles := toggle r (tr_allowed_roles (ed_transitions e ! i))\<rparr>]\<rparr>"

definition setLockdownKey :: "string \<Rightarrow> editor \<Rightarrow> editor" where
  "setLockdownKey k e = e\<lparr>ed_states := map (\<lambda>s. s\<lparr>sr_is_admission_lockdown := (sr_key s = k)\<rparr>) (ed_states e)\<rparr>"

definition toggleActionPermission :: "string \<Rightarrow> string \<Rightarrow> string \<Rightarrow> bool \<Rightarrow> editor \<Rightarrow> editor" where
  "toggleActionPermission stateKey action r checked e =
     (let statePerm = nullish (jm_get (ed_actionPermissions e) stateKey) [];
          current = nullish (jm_get statePerm action) [];
          updated = (if checked then current @ [r] else filter (\<lambda>x. x \<noteq> r) current)
      in e\<lparr>ed_actionPermissions := jm_set stateKey (jm_set action updated statePerm) (ed_actionPermissions e)\<rparr>)"

definition handleToggleRole :: "string \<Rightarrow> string \<Rightarrow> string \<Rightarrow> editor \<Rightarrow> editor" where
  "handleToggleRole stateKey fieldKey r e =
     (let st = nullish (jm_get (ed_fieldPerms e) stateKey) no_perms;
          newRoles = toggle r (nullish (jm_get (ps_standard_fields st) fieldKey) [])
      in e\<lparr>ed_fieldPerms := jm_set stateKey (st\<lparr>ps_standard_fields := jm_set fieldKey newRoles (ps_standard_fields st)\<rparr>)
             (ed_fieldPerms e)\<rparr>)"

definition stateKeys :: "editor \<Rightarrow> string list" where
  "stateKeys e = filter (\<lambda>k. k \<noteq> []) (map (js_trim \<circ> sr_key) (ed_states e))"

subsection \<open>Validation and saving\<close>

definition transition_error :: "string list \<Rightarrow> TransitionRow \<Rightarrow> string option" where
  "transition_error keys t =
     (if js_trim (tr_label t) = [] then Some ''All transitions must have a label''
      else if tr_from_state t = [] \<or> tr_to_state t = [] then Some ''All transitions must have from and to states''
      else if tr_from_state t \<notin> set keys \<or> tr_to_state t \<notin> set keys then Some ''Transitions must reference valid state keys''
      else if tr_allowed_roles t = [] then Some ''Each transition must have at least one allowed role''
      else None)"

fun first_error :: "('a \<Rightarrow> string option) \<Rightarrow> 'a list \<Rightarrow> string option" where
  "first_error f [] = None"
| "first_error f (x # xs) = (case f x of Some m \<Rightarrow> Some m | None \<Rightarrow> first_error f xs)"

definition validate :: "editor \<Rightarrow> string option" where
  "validate e =
     (if js_trim (ed_name e) = [] then Some ''Name is required''
      else if ed_states e = [] then Some ''At least one state is required''
      else if length (filter sr_is_initial (ed_states e)) \<noteq> 1 then Some ''Exactly one state must be marked as initial''
      else let keys = map (js_trim \<circ> sr_key) (ed_states e) in
        if list_ex (\<lambda>k. k = []) keys then Some ''All state keys must be non-empty''
        else if card (set keys) \<noteq> length keys then Some ''State keys must be unique''
        else first_error (transition_error keys) (ed_transitions e))"

definition validateFieldPerms :: "editor \<Rightarrow> string list" where
  "validateFieldPerms e =
     (case find sr_is_initial (ed_states e) of
        None \<Rightarrow> []
      | Some initialState \<Rightarrow>
          let initPerms = jm_get (ed_fieldPerms e) (js_trim (sr_key initialState))
          in List.map_filter
               (\<lambda>f. if nullish (Option.bind initPerms (\<lambda>p. jm_get (ps_standard_fields p) (sf_key f))) [] = []
                    then Some (''Field '' @ [CHR 0x27] @ sf_label f @ [CHR 0x27] @
                               '' must have at least one editable role in the initial state'')
                    else None)
               (filter sf_mandatory (STANDARD_FIELDS (ed_entityType e))))"

definition isEnterprise :: "editor \<Rightarrow> bool" where
  "isEnterprise e \<longleftrightarrow> ed_appliesToKind e = Some ''enterprise''"

definition isReleaseCloseoutFields :: "editor \<Rightarrow> bool" where
  "isReleaseCloseoutFields e \<longleftrightarrow> ed_entityType e = ''release'' \<and> \<not> isEnterprise e"

definition saved_state :: "bool \<Rightarrow> bool \<Rightarrow> StateRow \<Rightarrow> LifecycleState" where
  "saved_state enterprise closeout s =
     (let opt = (\<lambda>c b. if c then Some b else None) in
      \<lparr>lc_key = js_trim (sr_key s), lc_label = js_trim (sr_label s), lc_is_initial = sr_is_initial s,
       lc_is_terminal = sr_is_terminal s,
       lc_is_admission_lockdown = opt enterprise (sr_is_admission_lockdown s),
       lc_is_failed = Some (sr_is_terminal s \<and> sr_is_failed s),
       lc_marks_deployed = opt closeout (sr_marks_deployed s),
       lc_is_closed = opt closeout (sr_is_terminal s \<and> sr_is_closed s),
       lc_requires_pir_complete = opt closeout (sr_is_terminal s \<and> sr_is_closed s \<and> sr_requires_pir_complete s),
       lc_requires_handover_confirmed =
         opt closeout (sr_is_terminal s \<and> sr_is_closed s \<and> sr_requires_handover_confirmed s)\<rparr>)"

definition saved_transition :: "TransitionRow \<Rightarrow> LifecycleTransition" where
  "saved_transition t = \<lparr>lt_from_state = tr_from_state t, lt_to_state = tr_to_state t,
     lt_label = Some (js_trim (tr_label t)), lt_allowed_roles = tr_allowed_roles t\<rparr>"

definition saved_perm :: "FieldPermState \<Rightarrow> LifecycleFieldPermission" where
  "saved_perm p = \<lparr>fp_standard_fields = Some (ps_standard_fields p), fp_custom_fields = Some (ps_custom_fields p),
     fp_required_fields = None, fp_editable_fields = None, fp_editable_by = None\<rparr>"

definition saved_definition :: "editor \<Rightarrow> LifecycleDefinition" where
  "saved_definition e =
     \<lparr>ld_states = map (saved_state (isEnterprise e) (isReleaseCloseoutFields e)) (ed_states e),
      ld_transitions = map saved_transition (ed_transitions e),
      ld_field_permissions = Some (map (\<lambda>k. (k, saved_perm (nullish (jm_get (ed_fieldPerms e) k) no_perms))) (stateKeys e)),
      ld_action_permissions = (if isEnterprise e then Some (ed_actionPermissions e) else None)\<rparr>"

text \<open>What saving comes to: the message or the messages shown, or the request sent.\<close>

record template_data =
  td_name :: string
  td_description :: "string option"
  td_is_default :: "bool option"
  td_applies_to_kind :: "string option"
  td_definition :: LifecycleDefinition

datatype save_outcome = Refused string | Perms_refused "string list" | Update_template js_id template_data
  | Create_template string template_data

definition handleSave :: "editor \<Rightarrow> save_outcome" where
  "handleSave e =
     (case validate e of
        Some err \<Rightarrow> Refused err
      | None \<Rightarrow>
          let fpErrors = validateFieldPerms e in
          if fpErrors \<noteq> [] then Perms_refused fpErrors
          else let d = \<lparr>td_name = js_trim (ed_name e),
                        td_description = (if js_trim (ed_description e) = [] then None else Some (js_trim (ed_description e))),
                        td_is_default = None, td_applies_to_kind = ed_appliesToKind e,
                        td_definition = saved_definition e\<rparr>
               in case ed_editTemplateId e of
                    Some i \<Rightarrow> Update_template i d
                  | None \<Rightarrow> Create_template (ed_entityType e) (d\<lparr>td_is_default := Some False\<rparr>))"

subsection \<open>Reading a definition\<close>

text \<open>A field value: \<open>null\<close> or \<open>undefined\<close>, a string, or anything else.\<close>

datatype field_value = No_value | Text_value string | Other_value

record record_values =
  rv_fields :: "(string, field_value) jmap"
  rv_custom_fields :: "(string, field_value) jmap option"

definition quote :: "string \<Rightarrow> string" where
  "quote s = [CHR 0x27] @ s @ [CHR 0x27]"

definition arrow :: string where
  "arrow = '' '' @ [CHR 0xE2, CHR 0x86, CHR 0x92] @ '' ''"

definition empty_value :: "field_value \<Rightarrow> bool" where
  "empty_value v = (case v of No_value \<Rightarrow> True | Text_value s \<Rightarrow> js_trim s = [] | Other_value \<Rightarrow> False)"

text \<open>\<open>None\<close>: allowed; otherwise the reason.\<close>

definition validateTransition ::
    "LifecycleDefinition \<Rightarrow> string \<Rightarrow> string \<Rightarrow> string \<Rightarrow> record_values \<Rightarrow> string option" where
  "validateTransition d fromState toState userRole values =
     (case find (\<lambda>t. lt_from_state t = fromState \<and> lt_to_state t = toState) (ld_transitions d) of
        None \<Rightarrow> Some (''No transition from '' @ quote fromState @ '' to '' @ quote toState @ '' is defined'')
      | Some t \<Rightarrow>
          if userRole \<notin> set (lt_allowed_roles t)
          then Some (''Role '' @ quote userRole @ '' is not allowed to transition '' @ fromState @ arrow @ toState)
          else
            let required = nullish (Option.bind (Option.bind (ld_field_permissions d) (\<lambda>m. jm_get m toState)) fp_required_fields) [];
                customValues = nullish (rv_custom_fields values) [];
                missing = filter (\<lambda>key. empty_value (case jm_get (rv_fields values) key of
                    Some v \<Rightarrow> v | None \<Rightarrow> nullish (jm_get customValues key) No_value)) required
            in if missing \<noteq> []
               then Some (''Required fields empty for '' @ quote toState @ '': '' @ js_join '', '' missing)
               else None)"

text \<open>The server's check, from the Python source: its \<open>strip\<close> also drops the separators 28 to 31.\<close>

definition py_space :: "char \<Rightarrow> bool" where
  "py_space c \<longleftrightarrow> is_ws c \<or> (28 \<le> (of_char c :: nat) \<and> (of_char c :: nat) \<le> 31)"

definition py_blank :: "field_value \<Rightarrow> bool" where
  "py_blank v = (case v of No_value \<Rightarrow> True
     | Text_value s \<Rightarrow> rev (dropWhile py_space (rev (dropWhile py_space s))) = [] | Other_value \<Rightarrow> False)"

fun py_missing :: "record_values \<Rightarrow> string list \<Rightarrow> string list" where
  "py_missing values [] = []"
| "py_missing values (key # keys) =
     (let v = (case jm_get (rv_fields values) key of
                 Some v \<Rightarrow> v
               | None \<Rightarrow> nullish (jm_get (nullish (rv_custom_fields values) []) key) No_value)
      in if py_blank v then key # py_missing values keys else py_missing values keys)"

definition validate_transition ::
    "LifecycleDefinition \<Rightarrow> string \<Rightarrow> string \<Rightarrow> string \<Rightarrow> record_values \<Rightarrow> bool \<times> string option" where
  "validate_transition d from_state to_state user_role values =
     (case find (\<lambda>t. lt_from_state t = from_state \<and> lt_to_state t = to_state) (ld_transitions d) of
        None \<Rightarrow> (False, Some (''No transition from '' @ quote from_state @ '' to '' @ quote to_state @ '' is defined''))
      | Some t \<Rightarrow>
          if user_role \<notin> set (lt_allowed_roles t)
          then (False, Some (''Role '' @ quote user_role @ '' is not allowed to transition '' @ from_state @ arrow @ to_state))
          else
            let perms = (case ld_field_permissions d of None \<Rightarrow> [] | Some m \<Rightarrow> m);
                required = (case jm_get perms to_state of None \<Rightarrow> [] | Some p \<Rightarrow> nullish (fp_required_fields p) []);
                missing = py_missing values required
            in if missing \<noteq> []
               then (False, Some (''Required fields empty for '' @ quote to_state @ '': '' @ js_join '', '' missing))
               else (True, None))"

text \<open>The field panel.\<close>

definition isEditable :: "string \<Rightarrow> field_roles option \<Rightarrow> string \<Rightarrow> bool" where
  "isEditable fieldKey permMap userRole =
     (case permMap of
        None \<Rightarrow> False
      | Some m \<Rightarrow> (case jm_get m fieldKey of
                     None \<Rightarrow> False
                   | Some editable_by \<Rightarrow> userRole \<in> set editable_by \<or> ''*'' \<in> set editable_by))"

definition isRequired :: "string \<Rightarrow> string list option \<Rightarrow> bool" where
  "isRequired fieldKey requiredFields \<longleftrightarrow> fieldKey \<in> set (nullish requiredFields [])"

end
