(* ===== verification/LifecycleFacts.thy ===== *)
theory LifecycleFacts
  imports LifecycleEditor
begin

text \<open>
  What the lifecycle editor guarantees of the definitions it sends, what saving loses, and that the client's
  check of a transition is the server's.
\<close>

subsection \<open>What a saved definition satisfies\<close>

definition flags_consistent :: "LifecycleState \<Rightarrow> bool" where
  "flags_consistent s \<longleftrightarrow>
     (lc_is_failed s = Some True \<longrightarrow> lc_is_terminal s) \<and>
     (lc_is_closed s = Some True \<longrightarrow> lc_is_terminal s) \<and>
     (lc_requires_pir_complete s = Some True \<longrightarrow> lc_is_closed s = Some True) \<and>
     (lc_requires_handover_confirmed s = Some True \<longrightarrow> lc_is_closed s = Some True)"

definition transition_typed :: "string list \<Rightarrow> LifecycleTransition \<Rightarrow> bool" where
  "transition_typed keys t \<longleftrightarrow> lt_from_state t \<in> set keys \<and> lt_to_state t \<in> set keys \<and>
     nullish (lt_label t) [] \<noteq> [] \<and> lt_allowed_roles t \<noteq> []"

text \<open>Someone can fill in each mandatory standard field while a record is in its initial state.\<close>

definition initial_fillable :: "string \<Rightarrow> LifecycleDefinition \<Rightarrow> bool" where
  "initial_fillable entityType d =
     (case find lc_is_initial (ld_states d) of
        None \<Rightarrow> False
      | Some s \<Rightarrow> list_all (\<lambda>f. list_ex (\<lambda>r. isEditable (sf_key f)
            (Option.bind (Option.bind (ld_field_permissions d) (\<lambda>m. jm_get m (lc_key s))) fp_standard_fields) r)
            (nullish (Option.bind (Option.bind (Option.bind (ld_field_permissions d) (\<lambda>m. jm_get m (lc_key s)))
               fp_standard_fields) (\<lambda>m. jm_get m (sf_key f))) []))
          (filter sf_mandatory (STANDARD_FIELDS entityType)))"

definition well_typed_lifecycle :: "string \<Rightarrow> LifecycleDefinition \<Rightarrow> bool" where
  "well_typed_lifecycle entityType d \<longleftrightarrow>
     length (filter lc_is_initial (ld_states d)) = 1 \<and>
     distinct (map lc_key (ld_states d)) \<and>
     list_all (\<lambda>s. lc_key s \<noteq> [] \<and> js_trim (lc_key s) = lc_key s \<and> flags_consistent s) (ld_states d) \<and>
     list_all (transition_typed (map lc_key (ld_states d))) (ld_transitions d) \<and>
     map fst (nullish (ld_field_permissions d) []) = map lc_key (ld_states d) \<and>
     initial_fillable entityType d"

lemma first_error_None: "first_error f xs = None \<longleftrightarrow> (\<forall>x \<in> set xs. f x = None)"
  by (induction xs) (auto split: option.splits)

lemma saved_state_sel [simp]:
  "lc_key (saved_state b c s) = js_trim (sr_key s)"
  "lc_is_initial (saved_state b c s) = sr_is_initial s"
  by (simp_all add: saved_state_def Let_def)

lemma saved_state_flags: "flags_consistent (saved_state b c s)"
  by (auto simp: saved_state_def flags_consistent_def Let_def split: if_splits)

lemma validate_None:
  assumes "validate e = None"
  shows "length (filter sr_is_initial (ed_states e)) = 1"
    and "list_all (\<lambda>k. k \<noteq> []) (map (js_trim \<circ> sr_key) (ed_states e))"
    and "distinct (map (js_trim \<circ> sr_key) (ed_states e))"
    and "\<forall>t \<in> set (ed_transitions e). transition_error (map (js_trim \<circ> sr_key) (ed_states e)) t = None"
  using assms
  by (auto simp: validate_def Let_def first_error_None list_ex_iff list_all_iff card_distinct
      simp del: set_map split: if_splits)

lemma transition_typed_saved:
  "transition_error keys t = None \<Longrightarrow> transition_typed keys (saved_transition t)"
  by (auto simp: transition_error_def transition_typed_def saved_transition_def split: if_splits)

lemma stateKeys_validated:
  "validate e = None \<Longrightarrow> stateKeys e = map (js_trim \<circ> sr_key) (ed_states e)"
  using validate_None(2) [of e] by (simp add: stateKeys_def list_all_iff)

lemma find_saved_initial:
  "find lc_is_initial (map (saved_state b c) ss) = map_option (saved_state b c) (find sr_is_initial ss)"
  by (induction ss) auto

lemma find_initial_validated: "length (filter P xs) = 1 \<Longrightarrow> \<exists>x. find P xs = Some x \<and> x \<in> set xs"
  by (induction xs) auto

lemma jm_get_map_keys: "k \<in> set ks \<Longrightarrow> jm_get (map (\<lambda>k. (k, g k)) ks) k = Some (g k)"
  by (induction ks) auto

lemma isEditable_some_role: "jm_get m k = Some (r # rs) \<Longrightarrow> isEditable k (Some m) r"
  by (simp add: isEditable_def)

lemma map_filter_Nil: "List.map_filter f xs = [] \<longleftrightarrow> (\<forall>x \<in> set xs. f x = None)"
  by (induction xs) (auto simp: List.map_filter_def)

lemma initial_fillable_saved:
  assumes v: "validate e = None" and p: "validateFieldPerms e = []"
  shows "initial_fillable (ed_entityType e) (saved_definition e)"
proof -
  obtain s where s: "find sr_is_initial (ed_states e) = Some s" "s \<in> set (ed_states e)"
    using find_initial_validated [OF validate_None(1) [OF v]] by blast
  let ?k = "js_trim (sr_key s)"
  have k: "?k \<in> set (stateKeys e)"
    using s(2) by (simp add: stateKeys_validated [OF v])
  let ?perm = "nullish (jm_get (ed_fieldPerms e) ?k) no_perms"
  have ed: "list_ex (isEditable (sf_key f) (Some (ps_standard_fields ?perm)))
              (nullish (jm_get (ps_standard_fields ?perm) (sf_key f)) [])"
    if f: "f \<in> set (filter sf_mandatory (STANDARD_FIELDS (ed_entityType e)))" for f
  proof -
    have "nullish (Option.bind (jm_get (ed_fieldPerms e) ?k) (\<lambda>p. jm_get (ps_standard_fields p) (sf_key f))) [] \<noteq> []"
      using p f unfolding validateFieldPerms_def s(1)
      by (auto simp: map_filter_Nil Let_def split: if_splits)
    then obtain q r rs where "jm_get (ed_fieldPerms e) ?k = Some q" "jm_get (ps_standard_fields q) (sf_key f) = Some (r # rs)"
      by (auto simp: neq_Nil_conv split: option.splits bind_splits)
    then show ?thesis by (simp add: isEditable_some_role)
  qed
  show ?thesis
    using ed by (simp add: initial_fillable_def saved_definition_def find_saved_initial s(1)
        jm_get_map_keys [OF k] saved_perm_def list_all_iff)
qed

lemma well_typed_saved:
  assumes v: "validate e = None" and p: "validateFieldPerms e = []"
  shows "well_typed_lifecycle (ed_entityType e) (saved_definition e)"
  using validate_None [OF v] initial_fillable_saved [OF v p]
  by (auto simp: well_typed_lifecycle_def saved_definition_def stateKeys_validated [OF v] comp_def
      filter_map list_all_iff saved_state_flags transition_typed_saved)

text \<open>C30: whatever was typed into the lifecycle editor, a template that it sends to the server is well typed:
  one initial state; state keys that are trimmed, not empty and distinct; failed and closed states are
  terminal and only closed states carry close-out requirements; every transition joins two declared states,
  has a label and at least one role; there is one permission entry per state; and each mandatory standard
  field can be edited by some role in the initial state.\<close>

theorem saved_lifecycle_well_typed:
  "case handleSave e of
     Update_template i d \<Rightarrow> well_typed_lifecycle (ed_entityType e) (td_definition d)
   | Create_template k d \<Rightarrow> k = ed_entityType e \<and> well_typed_lifecycle k (td_definition d)
   | Refused m \<Rightarrow> validate e = Some m
   | Perms_refused ms \<Rightarrow> ms = validateFieldPerms e \<and> ms \<noteq> []"
  using well_typed_saved [of e] by (auto simp: handleSave_def Let_def split: option.split)

subsection \<open>What saving loses\<close>

lemma no_required_saved:
  "Option.bind (Option.bind (ld_field_permissions (saved_definition e)) (\<lambda>m. jm_get m k)) fp_required_fields = None"
proof -
  have "Option.bind (jm_get (map (\<lambda>k. (k, saved_perm (g k))) ks) k) fp_required_fields = None" for g ks
    by (induction ks) (auto simp: saved_perm_def)
  then show ?thesis by (simp add: saved_definition_def)
qed

lemma validateTransition_saved:
  "validateTransition (saved_definition e) f t r v = validateTransition (saved_definition e) f t r v'"
  unfolding validateTransition_def no_required_saved by (simp add: split: option.split)

definition state_of :: "string \<Rightarrow> bool \<Rightarrow> LifecycleState" where
  "state_of k initial = \<lparr>lc_key = k, lc_label = k, lc_is_initial = initial, lc_is_terminal = \<not> initial,
     lc_is_admission_lockdown = None, lc_is_failed = None, lc_marks_deployed = None, lc_is_closed = None,
     lc_requires_pir_complete = None, lc_requires_handover_confirmed = None\<rparr>"

text \<open>A template for incidents whose state \<open>Closed\<close> requires a resolution time.\<close>

definition resolved_template :: BookingLifecycleTemplate where
  "resolved_template = \<lparr>bt_id = 7, bt_tenant_id = 1, bt_entity_type = ''incident'', bt_name = ''Incidents'',
     bt_description = None, bt_is_default = True, bt_applies_to_kind = None,
     bt_definition = \<lparr>
       ld_states = [state_of ''Open'' True, state_of ''Closed'' False],
       ld_transitions = [\<lparr>lt_from_state = ''Open'', lt_to_state = ''Closed'', lt_label = Some ''Close'',
                          lt_allowed_roles = [''Developer'']\<rparr>],
       ld_field_permissions = Some
         [(''Open'', \<lparr>fp_standard_fields = Some (map (\<lambda>f. (sf_key f, [''Developer''])) (STANDARD_FIELDS ''incident'')),
                      fp_custom_fields = None, fp_required_fields = None, fp_editable_fields = None,
                      fp_editable_by = None\<rparr>),
          (''Closed'', \<lparr>fp_standard_fields = None, fp_custom_fields = None,
                        fp_required_fields = Some [''resolved_at''], fp_editable_fields = None,
                        fp_editable_by = None\<rparr>)],
       ld_action_permissions = None\<rparr>,
     bt_created_at = [], bt_updated_at = []\<rparr>"

definition unresolved :: record_values where
  "unresolved = \<lparr>rv_fields = [(''resolved_at'', No_value)], rv_custom_fields = None\<rparr>"

text \<open>Saving a template from the editor drops every state's required fields: afterwards no value of a
  record makes a transition refused. Opening the template of incidents whose closing needs a resolution time
  and saving it unchanged lets an incident without one be closed.\<close>

theorem saving_drops_required_fields:
  "(case handleSave e of
      Update_template i d \<Rightarrow>
        validateTransition (td_definition d) f t r v = validateTransition (td_definition d) f t r v'
    | Create_template k d \<Rightarrow>
        validateTransition (td_definition d) f t r v = validateTransition (td_definition d) f t r v'
    | _ \<Rightarrow> True) \<and>
   validateTransition (bt_definition resolved_template) ''Open'' ''Closed'' ''Developer'' unresolved
     = Some (''Required fields empty for '' @ quote ''Closed'' @ '': resolved_at'') \<and>
   (case handleSave (handleEditOpen ''incident'' resolved_template) of
      Update_template i d \<Rightarrow>
        i = 7 \<and> validateTransition (td_definition d) ''Open'' ''Closed'' ''Developer'' unresolved = None
    | _ \<Rightarrow> False)"
proof (intro conjI)
  show "case handleSave e of
      Update_template i d \<Rightarrow>
        validateTransition (td_definition d) f t r v = validateTransition (td_definition d) f t r v'
    | Create_template k d \<Rightarrow>
        validateTransition (td_definition d) f t r v = validateTransition (td_definition d) f t r v'
    | _ \<Rightarrow> True"
    by (simp add: handleSave_def Let_def validateTransition_saved [of e f t r v v'] split: option.split)
qed (code_simp+)

subsection \<open>Renaming a state\<close>

lemma jm_get_rename:
  "old \<noteq> new \<Longrightarrow> jm_get (rename_key old new m) k =
     (if jm_get m old = None then jm_get m k
      else if k = old then None else if k = new then jm_get m old else jm_get m k)"
  by (auto simp: rename_key_def split: option.split)

text \<open>The rows of an editor in which the keys \<open>A\<close> and \<open>AB\<close> have their own permissions, and the key strokes
  that turn the first into \<open>ABC\<close>.\<close>

definition two_states :: editor where
  "two_states = (handleOpen ''booking'')\<lparr>
     ed_states := [emptyState\<lparr>sr_key := ''A''\<rparr>, emptyState\<lparr>sr_key := ''AB''\<rparr>],
     ed_fieldPerms := [(''A'', no_perms\<lparr>ps_custom_fields := [(''x'', [''Admin''])]\<rparr>),
                       (''AB'', no_perms\<lparr>ps_custom_fields := [(''y'', [''Viewer''])]\<rparr>)]\<rparr>"

text \<open>Renaming a state moves its field permissions and its action permissions to the new key and touches
  no other key's, as long as the new key is free. Typing is a rename per key stroke, so a state whose new
  name starts with another state's key takes that state's permissions with it: after \<open>A\<close> is typed into
  \<open>ABC\<close> the state \<open>AB\<close> has lost its own.\<close>

theorem rename_moves_permissions:
  "(let e' = updateState i (Key new) e; old = sr_key (ed_states e ! i) in
     if jm_has (ed_fieldPerms e) new then True
     else if new = old then True
     else if jm_has (ed_fieldPerms e) old
     then jm_get (ed_fieldPerms e') k =
       (if k = new then jm_get (ed_fieldPerms e) old else if k = old then None else jm_get (ed_fieldPerms e) k)
     else True) \<and>
   (let e' = updateState 0 (Key ''ABC'') (updateState 0 (Key ''AB'') two_states) in
     jm_has (ed_fieldPerms two_states) ''AB'' \<and>
     map sr_key (ed_states e') = [''ABC'', ''AB''] \<and>
     jm_get (ed_fieldPerms e') ''AB'' = None \<and>
     jm_get (ed_fieldPerms e') ''ABC'' = jm_get (ed_fieldPerms two_states) ''A'')"
proof (rule conjI)
  show "let e' = updateState i (Key new) e; old = sr_key (ed_states e ! i) in
     if jm_has (ed_fieldPerms e) new then True
     else if new = old then True
     else if jm_has (ed_fieldPerms e) old
     then jm_get (ed_fieldPerms e') k =
       (if k = new then jm_get (ed_fieldPerms e) old else if k = old then None else jm_get (ed_fieldPerms e) k)
     else True"
    by (auto simp: updateState_def Let_def jm_get_rename jm_has_get)
qed code_simp

subsection \<open>The two checks of a transition\<close>

definition no_separators :: "field_value \<Rightarrow> bool" where
  "no_separators v = (case v of Text_value s \<Rightarrow> list_all (\<lambda>c. \<not> (28 \<le> (of_char c :: nat) \<and> (of_char c :: nat) \<le> 31)) s
     | _ \<Rightarrow> True)"

definition plain_values :: "record_values \<Rightarrow> bool" where
  "plain_values v \<longleftrightarrow> list_all (\<lambda>kv. no_separators (snd kv)) (rv_fields v) \<and>
     list_all (\<lambda>kv. no_separators (snd kv)) (nullish (rv_custom_fields v) [])"

lemma dropWhile_cong_on: "\<forall>x \<in> set xs. p x = q x \<Longrightarrow> dropWhile p xs = dropWhile q xs"
  by (induction xs) auto

lemma py_blank_empty_value: "no_separators v \<Longrightarrow> py_blank v = empty_value v"
proof (cases v)
  case (Text_value s)
  assume "no_separators v"
  then have s: "\<forall>c \<in> set s. py_space c = is_ws c"
    by (auto simp: Text_value no_separators_def py_space_def list_all_iff)
  have d: "dropWhile py_space s = dropWhile is_ws s"
    by (rule dropWhile_cong_on [OF s])
  moreover have "dropWhile py_space (rev (dropWhile is_ws s)) = dropWhile is_ws (rev (dropWhile is_ws s))"
    by (rule dropWhile_cong_on) (use s in \<open>auto dest: set_dropWhileD\<close>)
  ultimately show ?thesis
    by (simp add: Text_value py_blank_def empty_value_def js_trim_def)
qed (simp_all add: py_blank_def empty_value_def)

definition value_of :: "record_values \<Rightarrow> string \<Rightarrow> field_value" where
  "value_of v key = (case jm_get (rv_fields v) key of
     Some x \<Rightarrow> x | None \<Rightarrow> nullish (jm_get (nullish (rv_custom_fields v) []) key) No_value)"

lemma no_separators_value_of: "plain_values v \<Longrightarrow> no_separators (value_of v key)"
  by (force simp: value_of_def plain_values_def list_all_iff no_separators_def [of No_value]
      dest: jm_get_memD split: option.split)

lemma py_missing_filter:
  "plain_values v \<Longrightarrow> py_missing v keys = filter (\<lambda>key. empty_value (value_of v key)) keys"
  by (induction keys) (auto simp: Let_def value_of_def [symmetric] py_blank_empty_value no_separators_value_of)

lemmas checks = validateTransition_def validate_transition_def value_of_def [symmetric] Let_def



end
