(* ===== verification/SliceKit.thy ===== *)
theory SliceKit
  imports RtkLifecycle JsMap ServiceApi "HOL-Library.Product_Lexorder"
begin

text \<open>
  What the slices whose rows are plain response objects share: reading a property of a row, replacing a row
  by its \<open>id\<close>, the rows of a nested array, and the comparison \<open>a.order - b.order || a.id - b.id\<close> that
  three slices and the custom fields sort by.
\<close>

subsection \<open>Rows\<close>

text \<open>\<open>r.k\<close> of an object; the slices read properties of response objects only.\<close>

definition row_key :: "string \<Rightarrow> json \<Rightarrow> json" where
  "row_key k r = (case get_prop r k of Some v \<Rightarrow> v | None \<Rightarrow> J_undefined)"

abbreviation row_id :: "json \<Rightarrow> json" where
  "row_id \<equiv> row_key ''id''"

definition text_key :: "string \<Rightarrow> json \<Rightarrow> string" where
  "text_key k r = (case row_key k r of J_str s \<Rightarrow> s | _ \<Rightarrow> [])"

definition num_key :: "string \<Rightarrow> json \<Rightarrow> int" where
  "num_key k r = (case row_key k r of J_int i \<Rightarrow> i | _ \<Rightarrow> 0)"

definition rows_of :: "json \<Rightarrow> json list" where
  "rows_of j = (case j of J_arr xs \<Rightarrow> xs | _ \<Rightarrow> [])"

text \<open>\<open>Object.values\<close> of an object, with the keys; nothing of a value that is not one.\<close>

definition members_of :: "json \<Rightarrow> (string \<times> json) list" where
  "members_of j = (case j of J_obj m \<Rightarrow> m | J_arr xs \<Rightarrow> map (Pair []) xs | _ \<Rightarrow> [])"

text \<open>\<open>typeof q?.count === 'number' ? q.count : 0\<close>.\<close>

definition count_of :: "json \<Rightarrow> int" where
  "count_of q = num_key ''count'' q"

definition opt_text :: "string option \<Rightarrow> json" where
  "opt_text s = (case s of Some t \<Rightarrow> J_str t | None \<Rightarrow> J_undefined)"

definition without_field :: "string \<Rightarrow> json \<Rightarrow> json" where
  "without_field k r = J_obj (filter (\<lambda>f. fst f \<noteq> k) (fields_of r))"

text \<open>\<open>{ ...a, ...b }\<close>.\<close>

definition merge_row :: "json \<Rightarrow> json \<Rightarrow> json" where
  "merge_row a b = J_obj (fold put_field (fields_of b) (fields_of a))"

text \<open>\<open>current?.id === i\<close>, for an \<open>i\<close> that is not \<open>undefined\<close>.\<close>

definition is_row :: "json \<Rightarrow> json option \<Rightarrow> bool" where
  "is_row i cur = (case cur of Some c \<Rightarrow> row_id c = i | None \<Rightarrow> False)"

text \<open>Replace the row with the same \<open>id\<close>, or append.\<close>

definition upsert_row :: "json \<Rightarrow> json list \<Rightarrow> json list" where
  "upsert_row p xs =
     (if list_ex (\<lambda>x. row_id x = row_id p) xs then put_at_first (\<lambda>x. row_id x = row_id p) p xs else xs @ [p])"

subsection \<open>Sorting\<close>

definition order_of :: "string \<Rightarrow> json \<Rightarrow> int \<times> int" where
  "order_of k r = (num_key k r, num_key ''id'' r)"

definition sort_rows :: "string \<Rightarrow> json list \<Rightarrow> json list" where
  "sort_rows k = sort_key (order_of k)"

end
