(* ===== verification/AdminSlices.thy ===== *)
theory AdminSlices
  imports SliceKit ServiceCalls AuthSlice
begin

text \<open>
  The slices of administration: tenants and their users, the tenant of the session, API keys, user groups and
  custom field definitions.
  A slice is its state with its initial value, one definition per thunk with the call it makes, one
  definition per thunk for its \<open>pending\<close>, \<open>fulfilled\<close> and \<open>rejected\<close> cases,
    and the reducer that
  dispatches to them. A thunk takes the outcome of a call as the parameter \<open>api\<close>.
\<close>

subsection \<open>\<open>store/adminSlice.ts\<close>\<close>

record AdminState =
  adm_tenants :: "json list"
  adm_tenantUsers :: "json list"
  adm_loading :: bool
  adm_error :: "string option"

definition adm_initial :: AdminState where
  "adm_initial = \<lparr>adm_tenants = [], adm_tenantUsers = [], adm_loading = False, adm_error = None\<rparr>"

definition on_fetchTenants :: "(json list) lifecycle \<Rightarrow> AdminState \<Rightarrow> AdminState" where
  "on_fetchTenants = on_cases
     (\<lambda>st. st\<lparr>adm_loading := True, adm_error := None\<rparr>)
     (\<lambda>p st. st\<lparr>adm_tenants := p, adm_loading := False\<rparr>)
     (\<lambda>r st. st\<lparr>adm_loading := False, adm_error := Some (nullish (rj_message r) ''Failed'')\<rparr>)"

definition on_createTenant :: "json lifecycle \<Rightarrow> AdminState \<Rightarrow> AdminState" where
  "on_createTenant = on_cases
     (\<lambda>st. st\<lparr>adm_loading := True, adm_error := None\<rparr>)
     (\<lambda>p st. st\<lparr>adm_tenants := adm_tenants st @ [p], adm_loading := False\<rparr>)
     (\<lambda>r st. st\<lparr>adm_loading := False, adm_error := Some (nullish (rj_message r) ''Failed'')\<rparr>)"

definition on_disableTenant :: "json lifecycle \<Rightarrow> AdminState \<Rightarrow> AdminState" where
  "on_disableTenant = on_cases
     (\<lambda>st. st\<lparr>adm_loading := True, adm_error := None\<rparr>)
     (\<lambda>p st. st\<lparr>adm_tenants := put_at_first (\<lambda>x. row_id x = row_id p) p (adm_tenants st),
       adm_loading := False\<rparr>)
     (\<lambda>r st. st\<lparr>adm_loading := False, adm_error := Some (nullish (rj_message r) ''Failed'')\<rparr>)"

definition on_fetchTenantUsers :: "(json list) lifecycle \<Rightarrow> AdminState \<Rightarrow> AdminState" where
  "on_fetchTenantUsers = on_cases
     (\<lambda>st. st\<lparr>adm_loading := True, adm_error := None\<rparr>)
     (\<lambda>p st. st\<lparr>adm_tenantUsers := p, adm_loading := False\<rparr>)
     (\<lambda>r st. st\<lparr>adm_loading := False, adm_error := Some (nullish (rj_message r) ''Failed'')\<rparr>)"

definition on_createTenantUser :: "json lifecycle \<Rightarrow> AdminState \<Rightarrow> AdminState" where
  "on_createTenantUser = on_cases
     (\<lambda>st. st\<lparr>adm_loading := True, adm_error := None\<rparr>)
     (\<lambda>p st. st\<lparr>adm_tenantUsers := adm_tenantUsers st @ [p], adm_loading := False\<rparr>)
     (\<lambda>r st. st\<lparr>adm_loading := False, adm_error := Some (nullish (rj_message r) ''Failed'')\<rparr>)"

definition on_updateTenantUser :: "json lifecycle \<Rightarrow> AdminState \<Rightarrow> AdminState" where
  "on_updateTenantUser = on_cases
     (\<lambda>st. st\<lparr>adm_loading := True, adm_error := None\<rparr>)
     (\<lambda>p st. st\<lparr>adm_tenantUsers := put_at_first (\<lambda>x. row_id x = row_id p) p (adm_tenantUsers
       st), adm_loading := False\<rparr>)
     (\<lambda>r st. st\<lparr>adm_loading := False, adm_error := Some (nullish (rj_message r) ''Failed'')\<rparr>)"

definition on_setTenantUserRole :: "json lifecycle \<Rightarrow> AdminState \<Rightarrow> AdminState" where
  "on_setTenantUserRole = on_cases
     (\<lambda>st. st\<lparr>adm_loading := True, adm_error := None\<rparr>)
     (\<lambda>p st. st\<lparr>adm_tenantUsers := put_at_first (\<lambda>x. row_id x = row_id p) p (adm_tenantUsers
       st), adm_loading := False\<rparr>)
     (\<lambda>r st. st\<lparr>adm_loading := False, adm_error := Some (nullish (rj_message r) ''Failed'')\<rparr>)"

definition on_deactivateTenantUser :: "json lifecycle \<Rightarrow> AdminState \<Rightarrow> AdminState" where
  "on_deactivateTenantUser = on_cases
     (\<lambda>st. st\<lparr>adm_loading := True, adm_error := None\<rparr>)
     (\<lambda>p st. st\<lparr>adm_tenantUsers := put_at_first (\<lambda>x. row_id x = row_id p) p (adm_tenantUsers
       st), adm_loading := False\<rparr>)
     (\<lambda>r st. st\<lparr>adm_loading := False, adm_error := Some (nullish (rj_message r) ''Failed'')\<rparr>)"

definition on_reactivateTenantUser :: "json lifecycle \<Rightarrow> AdminState \<Rightarrow> AdminState" where
  "on_reactivateTenantUser = on_cases
     (\<lambda>st. st\<lparr>adm_loading := True, adm_error := None\<rparr>)
     (\<lambda>p st. st\<lparr>adm_tenantUsers := put_at_first (\<lambda>x. row_id x = row_id p) p (adm_tenantUsers
       st), adm_loading := False\<rparr>)
     (\<lambda>r st. st\<lparr>adm_loading := False, adm_error := Some (nullish (rj_message r) ''Failed'')\<rparr>)"

definition on_resetUserPassword :: "json lifecycle \<Rightarrow> AdminState \<Rightarrow> AdminState" where
  "on_resetUserPassword = on_cases
     (\<lambda>st. st\<lparr>adm_loading := True, adm_error := None\<rparr>)
     (\<lambda>p st. st\<lparr>adm_loading := False\<rparr>)
     (\<lambda>r st. st\<lparr>adm_loading := False, adm_error := Some (nullish (rj_message r) ''Failed'')\<rparr>)"

datatype AdminAction =
    FetchTenants "(json list) lifecycle"
  | CreateTenant "json lifecycle"
  | DisableTenant "json lifecycle"
  | FetchTenantUsers "(json list) lifecycle"
  | CreateTenantUser "json lifecycle"
  | UpdateTenantUser "json lifecycle"
  | SetTenantUserRole "json lifecycle"
  | DeactivateTenantUser "json lifecycle"
  | ReactivateTenantUser "json lifecycle"
  | ResetUserPassword "json lifecycle"

fun adm_reducer :: "AdminAction \<Rightarrow> AdminState \<Rightarrow> AdminState" where
  "adm_reducer (FetchTenants l) st = on_fetchTenants l st"
| "adm_reducer (CreateTenant l) st = on_createTenant l st"
| "adm_reducer (DisableTenant l) st = on_disableTenant l st"
| "adm_reducer (FetchTenantUsers l) st = on_fetchTenantUsers l st"
| "adm_reducer (CreateTenantUser l) st = on_createTenantUser l st"
| "adm_reducer (UpdateTenantUser l) st = on_updateTenantUser l st"
| "adm_reducer (SetTenantUserRole l) st = on_setTenantUserRole l st"
| "adm_reducer (DeactivateTenantUser l) st = on_deactivateTenantUser l st"
| "adm_reducer (ReactivateTenantUser l) st = on_reactivateTenantUser l st"
| "adm_reducer (ResetUserPassword l) st = on_resetUserPassword l st"

definition fetchTenants :: "(call \<Rightarrow> ApiError + json list) \<Rightarrow> AdminAction" where
  "fetchTenants api = FetchTenants (thunk_plain (api adminService_listTenants))"

definition createTenant :: "(call \<Rightarrow> ApiError + json) \<Rightarrow> json \<Rightarrow> AdminAction" where
  "createTenant api data = CreateTenant (thunk_plain (api (adminService_createTenant data)))"

definition disableTenant :: "(call \<Rightarrow> ApiError + json) \<Rightarrow> int \<Rightarrow> AdminAction" where
  "disableTenant api id' = DisableTenant (thunk_plain (api (adminService_disableTenant id')))"

definition fetchTenantUsers :: "(call \<Rightarrow> ApiError + json list) \<Rightarrow> int \<Rightarrow>
  AdminAction" where
  "fetchTenantUsers api tenantId = FetchTenantUsers (thunk_plain (api (adminService_listTenantUsers tenantId)))"

definition createTenantUser :: "(call \<Rightarrow> ApiError + json) \<Rightarrow> int \<Rightarrow> json
  \<Rightarrow> AdminAction" where
  "createTenantUser api tenantId data = CreateTenantUser (thunk_plain (api (adminService_createTenantUser tenantId
    data)))"

definition updateTenantUser :: "(call \<Rightarrow> ApiError + json) \<Rightarrow> int \<Rightarrow> int
  \<Rightarrow> json \<Rightarrow> AdminAction" where
  "updateTenantUser api tenantId userId data = UpdateTenantUser (thunk_plain (api (adminService_updateTenantUser
    tenantId userId data)))"

definition setTenantUserRole :: "(call \<Rightarrow> ApiError + json) \<Rightarrow> int \<Rightarrow> int
  \<Rightarrow> string \<Rightarrow> AdminAction" where
  "setTenantUserRole api tenantId userId role' = SetTenantUserRole (thunk_plain (api
    (adminService_setTenantUserRole tenantId userId role')))"

definition deactivateTenantUser :: "(call \<Rightarrow> ApiError + json) \<Rightarrow> int \<Rightarrow> int
  \<Rightarrow> AdminAction" where
  "deactivateTenantUser api tenantId userId = DeactivateTenantUser (thunk_plain (api
    (adminService_deactivateTenantUser tenantId userId)))"

definition reactivateTenantUser :: "(call \<Rightarrow> ApiError + json) \<Rightarrow> int \<Rightarrow> int
  \<Rightarrow> AdminAction" where
  "reactivateTenantUser api tenantId userId = ReactivateTenantUser (thunk_plain (api
    (adminService_reactivateTenantUser tenantId userId)))"

definition resetUserPassword :: "(call \<Rightarrow> ApiError + json) \<Rightarrow> int \<Rightarrow> int
  \<Rightarrow> string \<Rightarrow> AdminAction" where
  "resetUserPassword api tenantId userId newPassword = ResetUserPassword (thunk_plain (api
    (adminService_resetUserPassword tenantId userId newPassword)))"

definition signInAsTenant :: "(call \<Rightarrow> ApiError + string \<times> Tenant) \<Rightarrow> int
  \<Rightarrow> session \<Rightarrow> session \<times> (string \<times> Tenant) lifecycle" where
  "signInAsTenant api tenantId s =
     (let result = api (adminService_signInAsTenant tenantId)
      in (case result of Inl _ \<Rightarrow> s | Inr (tok, tenant) \<Rightarrow> enterImpersonation tok tenant s,
        thunk_plain result))"

subsection \<open>\<open>store/tenantAdminSlice.ts\<close>\<close>

record TenantAdminState =
  tad_users :: "json list"
  tad_usersTotal :: int
  tad_settings :: "json option"
  tad_loading :: bool
  tad_error :: "string option"

definition tad_initial :: TenantAdminState where
  "tad_initial = \<lparr>tad_users = [], tad_usersTotal = 0, tad_settings = None, tad_loading = False, tad_error =
    None\<rparr>"

definition on_fetchTenantSettings :: "json lifecycle \<Rightarrow> TenantAdminState \<Rightarrow> TenantAdminState"
  where
  "on_fetchTenantSettings = on_cases
     (\<lambda>st. st\<lparr>tad_loading := True, tad_error := None\<rparr>)
     (\<lambda>p st. st\<lparr>tad_settings := Some p, tad_loading := False\<rparr>)
     (\<lambda>r st. st\<lparr>tad_loading := False, tad_error := Some (nullish (rj_message r) ''Failed'')\<rparr>)"

definition on_updateTenantSettings :: "json lifecycle \<Rightarrow> TenantAdminState \<Rightarrow>
  TenantAdminState" where
  "on_updateTenantSettings = on_cases
     (\<lambda>st. st\<lparr>tad_loading := True, tad_error := None\<rparr>)
     (\<lambda>p st. st\<lparr>tad_settings := Some p, tad_loading := False\<rparr>)
     (\<lambda>r st. st\<lparr>tad_loading := False, tad_error := Some (nullish (rj_message r) ''Failed'')\<rparr>)"

definition on_fetchUsers :: "(json page) lifecycle \<Rightarrow> TenantAdminState \<Rightarrow> TenantAdminState"
  where
  "on_fetchUsers = on_cases
     (\<lambda>st. st\<lparr>tad_loading := True, tad_error := None\<rparr>)
     (\<lambda>p st. st\<lparr>tad_users := pg_rows p, tad_usersTotal := pg_total p, tad_loading := False\<rparr>)
     (\<lambda>r st. st\<lparr>tad_loading := False, tad_error := Some (nullish (rj_message r) ''Failed'')\<rparr>)"

definition on_createUser :: "json lifecycle \<Rightarrow> TenantAdminState \<Rightarrow> TenantAdminState" where
  "on_createUser = on_cases
     (\<lambda>st. st\<lparr>tad_loading := True, tad_error := None\<rparr>)
     (\<lambda>p st. st\<lparr>tad_users := tad_users st @ [p], tad_loading := False\<rparr>)
     (\<lambda>r st. st\<lparr>tad_loading := False, tad_error := Some (nullish (rj_message r) ''Failed'')\<rparr>)"

definition on_updateUser :: "json lifecycle \<Rightarrow> TenantAdminState \<Rightarrow> TenantAdminState" where
  "on_updateUser = on_cases
     (\<lambda>st. st\<lparr>tad_loading := True, tad_error := None\<rparr>)
     (\<lambda>p st. st\<lparr>tad_users := put_at_first (\<lambda>x. row_id x = row_id p) p (tad_users st),
       tad_loading := False\<rparr>)
     (\<lambda>r st. st\<lparr>tad_loading := False, tad_error := Some (nullish (rj_message r) ''Failed'')\<rparr>)"

definition on_setUserRole :: "json lifecycle \<Rightarrow> TenantAdminState \<Rightarrow> TenantAdminState" where
  "on_setUserRole = on_fulfilled (\<lambda>p st. st\<lparr>tad_users := put_at_first (\<lambda>x. row_id x = row_id
    p) p (tad_users st), tad_loading := False\<rparr>)"

definition on_deactivateUser :: "json lifecycle \<Rightarrow> TenantAdminState \<Rightarrow> TenantAdminState" where
  "on_deactivateUser = on_fulfilled (\<lambda>p st. st\<lparr>tad_users := put_at_first (\<lambda>x. row_id x =
    row_id p) p (tad_users st), tad_loading := False\<rparr>)"

definition on_reactivateUser :: "json lifecycle \<Rightarrow> TenantAdminState \<Rightarrow> TenantAdminState" where
  "on_reactivateUser = on_fulfilled (\<lambda>p st. st\<lparr>tad_users := put_at_first (\<lambda>x. row_id x =
    row_id p) p (tad_users st), tad_loading := False\<rparr>)"

datatype TenantAdminAction =
    FetchTenantSettings "json lifecycle"
  | UpdateTenantSettings "json lifecycle"
  | FetchUsers "(json page) lifecycle"
  | CreateUser "json lifecycle"
  | UpdateUser "json lifecycle"
  | SetUserRole "json lifecycle"
  | DeactivateUser "json lifecycle"
  | ReactivateUser "json lifecycle"

fun tad_reducer :: "TenantAdminAction \<Rightarrow> TenantAdminState \<Rightarrow> TenantAdminState" where
  "tad_reducer (FetchTenantSettings l) st = on_fetchTenantSettings l st"
| "tad_reducer (UpdateTenantSettings l) st = on_updateTenantSettings l st"
| "tad_reducer (FetchUsers l) st = on_fetchUsers l st"
| "tad_reducer (CreateUser l) st = on_createUser l st"
| "tad_reducer (UpdateUser l) st = on_updateUser l st"
| "tad_reducer (SetUserRole l) st = on_setUserRole l st"
| "tad_reducer (DeactivateUser l) st = on_deactivateUser l st"
| "tad_reducer (ReactivateUser l) st = on_reactivateUser l st"

definition fetchTenantSettings :: "(call \<Rightarrow> ApiError + json) \<Rightarrow> TenantAdminAction" where
  "fetchTenantSettings api = FetchTenantSettings (thunk_plain (api tenantAdminService_getSettings))"

definition updateTenantSettings :: "(call \<Rightarrow> ApiError + json) \<Rightarrow> json \<Rightarrow>
  TenantAdminAction" where
  "updateTenantSettings api settings = UpdateTenantSettings (thunk_plain (api (tenantAdminService_updateSettings
    settings)))"

definition fetchUsers :: "(call \<Rightarrow> ApiError + json page) \<Rightarrow> TenantAdminAction" where
  "fetchUsers api = FetchUsers (thunk_plain (api tenantAdminService_listUsers))"

definition createUser :: "(call \<Rightarrow> ApiError + json) \<Rightarrow> json \<Rightarrow> TenantAdminAction"
  where
  "createUser api data = CreateUser (thunk_plain (api (tenantAdminService_createUser data)))"

definition updateUser :: "(call \<Rightarrow> ApiError + json) \<Rightarrow> int \<Rightarrow> json \<Rightarrow>
  TenantAdminAction" where
  "updateUser api id' data = UpdateUser (thunk_plain (api (tenantAdminService_updateUser id' data)))"

definition setUserRole :: "(call \<Rightarrow> ApiError + json) \<Rightarrow> int \<Rightarrow> string
  \<Rightarrow> TenantAdminAction" where
  "setUserRole api id' role' = SetUserRole (thunk_plain (api (tenantAdminService_setUserRole id' role')))"

definition deactivateUser :: "(call \<Rightarrow> ApiError + json) \<Rightarrow> int \<Rightarrow>
  TenantAdminAction" where
  "deactivateUser api id' = DeactivateUser (thunk_plain (api (tenantAdminService_deactivateUser id')))"

definition reactivateUser :: "(call \<Rightarrow> ApiError + json) \<Rightarrow> int \<Rightarrow>
  TenantAdminAction" where
  "reactivateUser api id' = ReactivateUser (thunk_plain (api (tenantAdminService_reactivateUser id')))"

subsection \<open>\<open>store/apiKeySlice.ts\<close>\<close>

record ApiKeyState =
  apk_items :: "json list"
  apk_loading :: bool
  apk_error :: "string option"
  apk_justCreated :: "json option"

definition apk_initial :: ApiKeyState where
  "apk_initial = \<lparr>apk_items = [], apk_loading = False, apk_error = None, apk_justCreated = None\<rparr>"

definition on_clearJustCreated :: "ApiKeyState \<Rightarrow> ApiKeyState" where
  "on_clearJustCreated st = st\<lparr>apk_justCreated := None\<rparr>"

definition on_fetchApiKeys :: "(json list) lifecycle \<Rightarrow> ApiKeyState \<Rightarrow> ApiKeyState" where
  "on_fetchApiKeys = on_cases
     (\<lambda>st. st\<lparr>apk_loading := True, apk_error := None\<rparr>)
     (\<lambda>p st. st\<lparr>apk_loading := False, apk_items := p\<rparr>)
     (\<lambda>r st. st\<lparr>apk_loading := False, apk_error := Some (nullish (rj_message r)
       ''Failed to load API keys'')\<rparr>)"

definition on_createApiKey :: "json lifecycle \<Rightarrow> ApiKeyState \<Rightarrow> ApiKeyState" where
  "on_createApiKey = on_fulfilled (\<lambda>p st. st\<lparr>apk_justCreated := Some p, apk_items := without_field
    ''raw_key'' p # apk_items st\<rparr>)"

definition on_revokeApiKey :: "int lifecycle \<Rightarrow> ApiKeyState \<Rightarrow> ApiKeyState" where
  "on_revokeApiKey = on_fulfilled (\<lambda>p st. st\<lparr>apk_items := filter (\<lambda>x. row_id x \<noteq>
    J_int p) (apk_items st)\<rparr>)"

datatype ApiKeyAction =
    FetchApiKeys "(json list) lifecycle"
  | CreateApiKey "json lifecycle"
  | RevokeApiKey "int lifecycle"
  | ClearJustCreated

fun apk_reducer :: "ApiKeyAction \<Rightarrow> ApiKeyState \<Rightarrow> ApiKeyState" where
  "apk_reducer (FetchApiKeys l) st = on_fetchApiKeys l st"
| "apk_reducer (CreateApiKey l) st = on_createApiKey l st"
| "apk_reducer (RevokeApiKey l) st = on_revokeApiKey l st"
| "apk_reducer ClearJustCreated st = on_clearJustCreated st"

definition fetchApiKeys :: "(call \<Rightarrow> ApiError + json list) \<Rightarrow> ApiKeyAction" where
  "fetchApiKeys api = FetchApiKeys (thunk_plain (api apiKeyService_list))"

definition createApiKey :: "(call \<Rightarrow> ApiError + json) \<Rightarrow> json \<Rightarrow> ApiKeyAction"
  where
  "createApiKey api data = CreateApiKey (thunk_plain (api (apiKeyService_create data)))"

definition revokeApiKey :: "(call \<Rightarrow> ApiError + unit) \<Rightarrow> int \<Rightarrow> ApiKeyAction" where
  "revokeApiKey api id' = RevokeApiKey (thunk_plain (map_sum id (\<lambda>_. id') (api (apiKeyService_revoke
    id'))))"

subsection \<open>\<open>store/userGroupSlice.ts\<close>\<close>

record UserGroupState =
  ugr_groups :: "json list"
  ugr_total :: int
  ugr_currentGroup :: "json option"
  ugr_members :: "json list"
  ugr_memberTotal :: int
  ugr_loading :: bool
  ugr_error :: "string option"

definition ugr_initial :: UserGroupState where
  "ugr_initial = \<lparr>ugr_groups = [], ugr_total = 0, ugr_currentGroup = None, ugr_members = [], ugr_memberTotal
    = 0, ugr_loading = False, ugr_error = None\<rparr>"

definition on_fetchUserGroups :: "(json page) lifecycle \<Rightarrow> UserGroupState \<Rightarrow> UserGroupState"
  where
  "on_fetchUserGroups = on_cases
     (\<lambda>st. st\<lparr>ugr_loading := True, ugr_error := None\<rparr>)
     (\<lambda>p st. st\<lparr>ugr_loading := False, ugr_groups := pg_rows p, ugr_total := pg_total p\<rparr>)
     (\<lambda>r st. st\<lparr>ugr_loading := False, ugr_error := Some (nullish (rj_payload r)
       ''Failed to load user groups'')\<rparr>)"

definition on_fetchUserGroup :: "json lifecycle \<Rightarrow> UserGroupState \<Rightarrow> UserGroupState" where
  "on_fetchUserGroup = on_cases
     (\<lambda>st. st)
     (\<lambda>p st. st\<lparr>ugr_currentGroup := Some p, ugr_error := None\<rparr>)
     (\<lambda>r st. st\<lparr>ugr_error := Some (nullish (rj_payload r) ''Failed to load user group'')\<rparr>)"

definition on_fetchGroupMembers :: "(json page) lifecycle \<Rightarrow> UserGroupState \<Rightarrow>
  UserGroupState" where
  "on_fetchGroupMembers = on_cases
     (\<lambda>st. st)
     (\<lambda>p st. st\<lparr>ugr_members := pg_rows p, ugr_memberTotal := pg_total p, ugr_error := None\<rparr>)
     (\<lambda>r st. st\<lparr>ugr_error := Some (nullish (rj_payload r) ''Failed to load members'')\<rparr>)"

definition on_addGroupMember :: "json lifecycle \<Rightarrow> UserGroupState \<Rightarrow> UserGroupState" where
  "on_addGroupMember = on_fulfilled (\<lambda>p st. st\<lparr>ugr_members := ugr_members st @ [p], ugr_memberTotal
    := ugr_memberTotal st + 1\<rparr>)"

definition on_removeGroupMember :: "int lifecycle \<Rightarrow> UserGroupState \<Rightarrow> UserGroupState" where
  "on_removeGroupMember = on_fulfilled (\<lambda>p st. st\<lparr>ugr_members := filter (\<lambda>x. row_key
    ''user_id'' x \<noteq> J_int p) (ugr_members st), ugr_memberTotal := ugr_memberTotal st - 1\<rparr>)"

datatype UserGroupAction =
    FetchUserGroups "(json page) lifecycle"
  | FetchUserGroup "json lifecycle"
  | CreateUserGroup "json lifecycle"
  | UpdateUserGroup "json lifecycle"
  | DeleteUserGroup "int lifecycle"
  | FetchGroupMembers "(json page) lifecycle"
  | AddGroupMember "json lifecycle"
  | RemoveGroupMember "int lifecycle"

fun ugr_reducer :: "UserGroupAction \<Rightarrow> UserGroupState \<Rightarrow> UserGroupState" where
  "ugr_reducer (FetchUserGroups l) st = on_fetchUserGroups l st"
| "ugr_reducer (FetchUserGroup l) st = on_fetchUserGroup l st"
| "ugr_reducer (CreateUserGroup l) st = st"
| "ugr_reducer (UpdateUserGroup l) st = st"
| "ugr_reducer (DeleteUserGroup l) st = st"
| "ugr_reducer (FetchGroupMembers l) st = on_fetchGroupMembers l st"
| "ugr_reducer (AddGroupMember l) st = on_addGroupMember l st"
| "ugr_reducer (RemoveGroupMember l) st = on_removeGroupMember l st"

definition fetchUserGroups :: "(call \<Rightarrow> ApiError + json page) \<Rightarrow> query option \<Rightarrow>
  UserGroupAction" where
  "fetchUserGroups api params = FetchUserGroups (thunk_with ''Failed to load user groups'' (api
    (userGroupService_listGroups params)))"

definition fetchUserGroup :: "(call \<Rightarrow> ApiError + json) \<Rightarrow> int \<Rightarrow> UserGroupAction"
  where
  "fetchUserGroup api id' = FetchUserGroup (thunk_with ''Failed to load user group'' (api
    (userGroupService_getGroup id')))"

definition createUserGroup :: "(call \<Rightarrow> ApiError + json) \<Rightarrow> json \<Rightarrow>
  UserGroupAction" where
  "createUserGroup api data = CreateUserGroup (thunk_with ''Failed to create user group'' (api
    (userGroupService_createGroup data)))"

definition updateUserGroup :: "(call \<Rightarrow> ApiError + json) \<Rightarrow> int \<Rightarrow> json
  \<Rightarrow> UserGroupAction" where
  "updateUserGroup api id' data = UpdateUserGroup (thunk_with ''Failed to update user group'' (api
    (userGroupService_updateGroup id' data)))"

definition deleteUserGroup :: "(call \<Rightarrow> ApiError + unit) \<Rightarrow> int \<Rightarrow>
  UserGroupAction" where
  "deleteUserGroup api id' = DeleteUserGroup (thunk_with ''Failed to delete user group'' (map_sum id (\<lambda>_.
    id') (api (userGroupService_deleteGroup id'))))"

definition fetchGroupMembers :: "(call \<Rightarrow> ApiError + json page) \<Rightarrow> int \<Rightarrow>
  UserGroupAction" where
  "fetchGroupMembers api groupId = FetchGroupMembers (thunk_with ''Failed to load members'' (api
    (userGroupService_listMembers groupId None)))"

definition addGroupMember :: "(call \<Rightarrow> ApiError + json) \<Rightarrow> int \<Rightarrow> int
  \<Rightarrow> UserGroupAction" where
  "addGroupMember api groupId userId = AddGroupMember (thunk_with ''Failed to add member'' (api
    (userGroupService_addMember groupId userId)))"

definition removeGroupMember :: "(call \<Rightarrow> ApiError + unit) \<Rightarrow> int \<Rightarrow> int
  \<Rightarrow> UserGroupAction" where
  "removeGroupMember api groupId userId = RemoveGroupMember (thunk_with ''Failed to remove member'' (map_sum id
    (\<lambda>_. userId) (api (userGroupService_removeMember groupId userId))))"

subsection \<open>\<open>store/customFieldSlice.ts\<close>\<close>

record CustomFieldState =
  cfs_definitions :: "(string, json list) jmap"
  cfs_loading :: bool
  cfs_error :: "string option"

definition cfs_initial :: CustomFieldState where
  "cfs_initial = \<lparr>cfs_definitions = [], cfs_loading = False, cfs_error = None\<rparr>"

definition on_fetchDefinitions :: "string \<Rightarrow> (json list) lifecycle \<Rightarrow> CustomFieldState
  \<Rightarrow> CustomFieldState" where
  "on_fetchDefinitions arg = on_cases
     (\<lambda>st. st\<lparr>cfs_loading := True, cfs_error := None\<rparr>)
     (\<lambda>p st. st\<lparr>cfs_loading := False, cfs_definitions := jm_set arg p (cfs_definitions st)\<rparr>)
     (\<lambda>r st. st\<lparr>cfs_loading := False, cfs_error := Some (nullish (rj_message r)
       ''Failed to load fields'')\<rparr>)"

definition on_createDefinition :: "json lifecycle \<Rightarrow> CustomFieldState \<Rightarrow> CustomFieldState"
  where
  "on_createDefinition = on_fulfilled (\<lambda>p st. st\<lparr>cfs_definitions := jm_set (text_key ''entity_type''
    p) (sort_rows ''display_order'' (nullish (jm_get (cfs_definitions st) (text_key ''entity_type'' p)) [] @ [p]))
      (cfs_definitions st)\<rparr>)"

definition on_updateDefinition :: "json lifecycle \<Rightarrow> CustomFieldState \<Rightarrow> CustomFieldState"
  where
  "on_updateDefinition = on_fulfilled (\<lambda>p st. st\<lparr>cfs_definitions := jm_set (text_key ''entity_type''
    p) (map (\<lambda>x. if row_id x = row_id p then p else x) (nullish (jm_get (cfs_definitions st) (text_key
      ''entity_type'' p)) [])) (cfs_definitions st)\<rparr>)"

definition on_deleteDefinition :: "int lifecycle \<Rightarrow> CustomFieldState \<Rightarrow> CustomFieldState"
  where
  "on_deleteDefinition = on_cases
     (\<lambda>st. st)
     (\<lambda>p st. st\<lparr>cfs_definitions := fold (\<lambda>et m. jm_set et (filter (\<lambda>x. row_id x
       \<noteq> J_int p) (nullish (jm_get m et) [])) m) (jm_keys (cfs_definitions st)) (cfs_definitions st)\<rparr>)
     (\<lambda>r st. st\<lparr>cfs_error := Some (nullish (rj_message r) ''Failed to delete field'')\<rparr>)"

datatype CustomFieldAction =
    FetchDefinitions string "(json list) lifecycle"
  | CreateDefinition "json lifecycle"
  | UpdateDefinition "json lifecycle"
  | DeleteDefinition "int lifecycle"

fun cfs_reducer :: "CustomFieldAction \<Rightarrow> CustomFieldState \<Rightarrow> CustomFieldState" where
  "cfs_reducer (FetchDefinitions arg l) st = on_fetchDefinitions arg l st"
| "cfs_reducer (CreateDefinition l) st = on_createDefinition l st"
| "cfs_reducer (UpdateDefinition l) st = on_updateDefinition l st"
| "cfs_reducer (DeleteDefinition l) st = on_deleteDefinition l st"

definition fetchDefinitions :: "(call \<Rightarrow> ApiError + json list) \<Rightarrow> string \<Rightarrow>
  CustomFieldAction" where
  "fetchDefinitions api entityType = FetchDefinitions entityType (thunk_plain (api
    (customFieldService_listDefinitions entityType)))"

definition createDefinition :: "(call \<Rightarrow> ApiError + json) \<Rightarrow> json \<Rightarrow>
  CustomFieldAction" where
  "createDefinition api data = CreateDefinition (thunk_plain (api (customFieldService_createDefinition data)))"

definition updateDefinition :: "(call \<Rightarrow> ApiError + json) \<Rightarrow> int \<Rightarrow> json
  \<Rightarrow> CustomFieldAction" where
  "updateDefinition api id' data = UpdateDefinition (thunk_plain (api (customFieldService_updateDefinition id'
    data)))"

definition deleteDefinition :: "(call \<Rightarrow> ApiError + unit) \<Rightarrow> int \<Rightarrow>
  CustomFieldAction" where
  "deleteDefinition api id' = DeleteDefinition (thunk_plain (map_sum id (\<lambda>_. id') (api
    (customFieldService_deleteDefinition id'))))"

end
