(* ===== verification/PolicySlices.thy ===== *)
theory PolicySlices
  imports SliceKit ServiceCalls
begin

text \<open>
  The slices of the tenant's vocabularies and policies: naming policy, lifecycle policy, scope-change rules,
  tiers, gate types, component types, lifecycle templates with booking types, release event types and
  release templates.
  A slice is its state with its initial value, one definition per thunk with the call it makes, one
  definition per thunk for its \<open>pending\<close>, \<open>fulfilled\<close> and \<open>rejected\<close> cases,
    and the reducer that
  dispatches to them. A thunk takes the outcome of a call as the parameter \<open>api\<close>.
\<close>

subsection \<open>\<open>store/environmentNamingPolicySlice.ts\<close>\<close>

record EnvironmentNamingPolicyState =
  enp_policy :: "json option"
  enp_preview :: "json option"
  enp_loading :: bool
  enp_error :: "string option"

definition enp_initial :: EnvironmentNamingPolicyState where
  "enp_initial = \<lparr>enp_policy = None, enp_preview = None, enp_loading = False, enp_error = None\<rparr>"

definition on_fetchNamingPolicy :: "json lifecycle \<Rightarrow> EnvironmentNamingPolicyState \<Rightarrow>
  EnvironmentNamingPolicyState" where
  "on_fetchNamingPolicy = on_cases
     (\<lambda>st. st\<lparr>enp_loading := True, enp_error := None, enp_policy := None, enp_preview :=
       None\<rparr>)
     (\<lambda>p st. st\<lparr>enp_loading := False, enp_policy := Some p\<rparr>)
     (\<lambda>r st. st\<lparr>enp_loading := False, enp_error := rj_payload r\<rparr>)"

definition on_saveNamingPolicy :: "json lifecycle \<Rightarrow> EnvironmentNamingPolicyState \<Rightarrow>
  EnvironmentNamingPolicyState" where
  "on_saveNamingPolicy = on_cases
     (\<lambda>st. st)
     (\<lambda>p st. st\<lparr>enp_policy := Some p, enp_error := None, enp_preview := None\<rparr>)
     (\<lambda>r st. st\<lparr>enp_error := rj_payload r\<rparr>)"

definition on_previewNamingPolicy :: "json lifecycle \<Rightarrow> EnvironmentNamingPolicyState \<Rightarrow>
  EnvironmentNamingPolicyState" where
  "on_previewNamingPolicy = on_cases
     (\<lambda>st. st\<lparr>enp_preview := None, enp_error := None\<rparr>)
     (\<lambda>p st. st\<lparr>enp_preview := Some p\<rparr>)
     (\<lambda>r st. st\<lparr>enp_error := rj_payload r\<rparr>)"

datatype EnvironmentNamingPolicyAction =
    FetchNamingPolicy "json lifecycle"
  | SaveNamingPolicy "json lifecycle"
  | PreviewNamingPolicy "json lifecycle"

fun enp_reducer :: "EnvironmentNamingPolicyAction \<Rightarrow> EnvironmentNamingPolicyState \<Rightarrow>
  EnvironmentNamingPolicyState" where
  "enp_reducer (FetchNamingPolicy l) st = on_fetchNamingPolicy l st"
| "enp_reducer (SaveNamingPolicy l) st = on_saveNamingPolicy l st"
| "enp_reducer (PreviewNamingPolicy l) st = on_previewNamingPolicy l st"

definition fetchNamingPolicy :: "(call \<Rightarrow> ApiError + json) \<Rightarrow> EnvironmentNamingPolicyAction"
  where
  "fetchNamingPolicy api = FetchNamingPolicy (thunk_with ''Request failed'' (api
    environmentNamingPolicyService_get))"

definition saveNamingPolicy :: "(call \<Rightarrow> ApiError + json) \<Rightarrow> json \<Rightarrow>
  EnvironmentNamingPolicyAction" where
  "saveNamingPolicy api data = SaveNamingPolicy (thunk_with ''Request failed'' (api
    (environmentNamingPolicyService_save data)))"

definition previewNamingPolicy :: "(call \<Rightarrow> ApiError + json) \<Rightarrow> json \<Rightarrow>
  EnvironmentNamingPolicyAction" where
  "previewNamingPolicy api data = PreviewNamingPolicy (thunk_with ''Request failed'' (api
    (environmentNamingPolicyService_preview data)))"

subsection \<open>\<open>store/environmentLifecyclePolicySlice.ts\<close>\<close>

record EnvironmentLifecyclePolicyState =
  elp_policy :: "json option"
  elp_loading :: bool
  elp_error :: "string option"

definition elp_initial :: EnvironmentLifecyclePolicyState where
  "elp_initial = \<lparr>elp_policy = None, elp_loading = False, elp_error = None\<rparr>"

definition on_fetchLifecyclePolicy :: "json lifecycle \<Rightarrow> EnvironmentLifecyclePolicyState \<Rightarrow>
  EnvironmentLifecyclePolicyState" where
  "on_fetchLifecyclePolicy = on_cases
     (\<lambda>st. st\<lparr>elp_loading := True, elp_error := None, elp_policy := None\<rparr>)
     (\<lambda>p st. st\<lparr>elp_loading := False, elp_policy := Some p\<rparr>)
     (\<lambda>r st. st\<lparr>elp_loading := False, elp_error := Some (nullish (rj_payload r)
       ''Failed to load the lifecycle policy'')\<rparr>)"

definition on_saveLifecyclePolicy :: "json lifecycle \<Rightarrow> EnvironmentLifecyclePolicyState \<Rightarrow>
  EnvironmentLifecyclePolicyState" where
  "on_saveLifecyclePolicy = on_cases
     (\<lambda>st. st)
     (\<lambda>p st. st\<lparr>elp_policy := Some p, elp_error := None\<rparr>)
     (\<lambda>r st. st\<lparr>elp_error := Some (nullish (rj_payload r)
       ''Failed to save the lifecycle policy'')\<rparr>)"

datatype EnvironmentLifecyclePolicyAction =
    FetchLifecyclePolicy "json lifecycle"
  | SaveLifecyclePolicy "json lifecycle"

fun elp_reducer :: "EnvironmentLifecyclePolicyAction \<Rightarrow> EnvironmentLifecyclePolicyState \<Rightarrow>
  EnvironmentLifecyclePolicyState" where
  "elp_reducer (FetchLifecyclePolicy l) st = on_fetchLifecyclePolicy l st"
| "elp_reducer (SaveLifecyclePolicy l) st = on_saveLifecyclePolicy l st"

definition fetchLifecyclePolicy :: "(call \<Rightarrow> ApiError + json) \<Rightarrow>
  EnvironmentLifecyclePolicyAction" where
  "fetchLifecyclePolicy api = FetchLifecyclePolicy (thunk_with ''Failed to load the lifecycle policy'' (api
    environmentLifecyclePolicyService_get))"

definition saveLifecyclePolicy :: "(call \<Rightarrow> ApiError + json) \<Rightarrow> json \<Rightarrow>
  EnvironmentLifecyclePolicyAction" where
  "saveLifecyclePolicy api data = SaveLifecyclePolicy (thunk_with ''Failed to save the lifecycle policy'' (api
    (environmentLifecyclePolicyService_save data)))"

subsection \<open>\<open>store/scopeChangeRulesSlice.ts\<close>\<close>

record ScopeChangeRulesState =
  scr_rules :: "json list"
  scr_kinds :: "string list"
  scr_kindsLoaded :: bool
  scr_loading :: bool
  scr_error :: "string option"

definition scr_initial :: ScopeChangeRulesState where
  "scr_initial = \<lparr>scr_rules = [], scr_kinds = [], scr_kindsLoaded = False, scr_loading = False, scr_error =
    None\<rparr>"

definition on_fetchScopeChangeRules :: "(json list) lifecycle \<Rightarrow> ScopeChangeRulesState \<Rightarrow>
  ScopeChangeRulesState" where
  "on_fetchScopeChangeRules = on_cases
     (\<lambda>st. st\<lparr>scr_loading := True, scr_error := None\<rparr>)
     (\<lambda>p st. st\<lparr>scr_loading := False, scr_rules := p, scr_kinds := map (text_key ''change_kind'') p,
       scr_kindsLoaded := True\<rparr>)
     (\<lambda>r st. st\<lparr>scr_loading := False, scr_error := Some (nullish (rj_message r)
       ''Failed to load scope change rules'')\<rparr>)"

definition on_fetchScopeChangeKinds :: "(string list) lifecycle \<Rightarrow> ScopeChangeRulesState \<Rightarrow>
  ScopeChangeRulesState" where
  "on_fetchScopeChangeKinds = on_fulfilled (\<lambda>p st. st\<lparr>scr_kinds := p, scr_kindsLoaded :=
    True\<rparr>)"

definition on_upsertScopeChangeRules :: "(json list) lifecycle \<Rightarrow> ScopeChangeRulesState \<Rightarrow>
  ScopeChangeRulesState" where
  "on_upsertScopeChangeRules = on_cases
     (\<lambda>st. st\<lparr>scr_loading := True, scr_error := None\<rparr>)
     (\<lambda>p st. st\<lparr>scr_loading := False, scr_rules := p, scr_kinds := map (text_key ''change_kind'') p,
       scr_kindsLoaded := True\<rparr>)
     (\<lambda>r st. st\<lparr>scr_loading := False, scr_error := Some (nullish (rj_message r)
       ''Failed to save scope change rules'')\<rparr>)"

datatype ScopeChangeRulesAction =
    FetchScopeChangeRules "(json list) lifecycle"
  | FetchScopeChangeKinds "(string list) lifecycle"
  | UpsertScopeChangeRules "(json list) lifecycle"

fun scr_reducer :: "ScopeChangeRulesAction \<Rightarrow> ScopeChangeRulesState \<Rightarrow> ScopeChangeRulesState"
  where
  "scr_reducer (FetchScopeChangeRules l) st = on_fetchScopeChangeRules l st"
| "scr_reducer (FetchScopeChangeKinds l) st = on_fetchScopeChangeKinds l st"
| "scr_reducer (UpsertScopeChangeRules l) st = on_upsertScopeChangeRules l st"

definition fetchScopeChangeRules :: "(call \<Rightarrow> ApiError + json list) \<Rightarrow>
  ScopeChangeRulesAction" where
  "fetchScopeChangeRules api = FetchScopeChangeRules (thunk_plain (api scopeChangeRulesService_list))"

definition fetchScopeChangeKinds :: "(call \<Rightarrow> ApiError + (string list)) \<Rightarrow>
  ScopeChangeRulesAction" where
  "fetchScopeChangeKinds api = FetchScopeChangeKinds (thunk_plain (api scopeChangeRulesService_listKinds))"

definition upsertScopeChangeRules :: "(call \<Rightarrow> ApiError + json list) \<Rightarrow> json list
  \<Rightarrow> ScopeChangeRulesAction" where
  "upsertScopeChangeRules api rules = UpsertScopeChangeRules (thunk_plain (api (scopeChangeRulesService_upsert
    (J_obj [(''rules'', J_arr rules)]))))"

subsection \<open>\<open>store/environmentTierSlice.ts\<close>\<close>

record EnvironmentTierState =
  etr_tiers :: "json list"
  etr_total :: int
  etr_loading :: bool
  etr_error :: "string option"

definition etr_initial :: EnvironmentTierState where
  "etr_initial = \<lparr>etr_tiers = [], etr_total = 0, etr_loading = False, etr_error = None\<rparr>"

definition sortTiers :: "json list \<Rightarrow> json list" where
  "sortTiers = sort_rows ''display_order''"

definition on_fetchEnvironmentTiers :: "(json page) lifecycle \<Rightarrow> EnvironmentTierState \<Rightarrow>
  EnvironmentTierState" where
  "on_fetchEnvironmentTiers = on_cases
     (\<lambda>st. st\<lparr>etr_loading := True, etr_error := None\<rparr>)
     (\<lambda>p st. st\<lparr>etr_loading := False, etr_tiers := pg_rows p, etr_total := pg_total p\<rparr>)
     (\<lambda>r st. st\<lparr>etr_loading := False, etr_error := Some (nullish (rj_payload r) (nullish (rj_message
       r) ''Failed to load tiers''))\<rparr>)"

definition on_createEnvironmentTier :: "json lifecycle \<Rightarrow> EnvironmentTierState \<Rightarrow>
  EnvironmentTierState" where
  "on_createEnvironmentTier = on_fulfilled (\<lambda>p st. st\<lparr>etr_tiers := sortTiers (etr_tiers st @ [p]),
    etr_total := etr_total st + 1\<rparr>)"

definition on_updateEnvironmentTier :: "json lifecycle \<Rightarrow> EnvironmentTierState \<Rightarrow>
  EnvironmentTierState" where
  "on_updateEnvironmentTier = on_fulfilled (\<lambda>p st. st\<lparr>etr_tiers := sortTiers (map (\<lambda>x. if
    row_id x = row_id p then p else x) (etr_tiers st))\<rparr>)"

definition on_deleteEnvironmentTier :: "int lifecycle \<Rightarrow> EnvironmentTierState \<Rightarrow>
  EnvironmentTierState" where
  "on_deleteEnvironmentTier = on_fulfilled (\<lambda>p st. st\<lparr>etr_tiers := filter (\<lambda>x. row_id x
    \<noteq> J_int p) (etr_tiers st), etr_total := etr_total st - 1\<rparr>)"

datatype EnvironmentTierAction =
    FetchEnvironmentTiers "(json page) lifecycle"
  | CreateEnvironmentTier "json lifecycle"
  | UpdateEnvironmentTier "json lifecycle"
  | DeleteEnvironmentTier "int lifecycle"

fun etr_reducer :: "EnvironmentTierAction \<Rightarrow> EnvironmentTierState \<Rightarrow> EnvironmentTierState"
  where
  "etr_reducer (FetchEnvironmentTiers l) st = on_fetchEnvironmentTiers l st"
| "etr_reducer (CreateEnvironmentTier l) st = on_createEnvironmentTier l st"
| "etr_reducer (UpdateEnvironmentTier l) st = on_updateEnvironmentTier l st"
| "etr_reducer (DeleteEnvironmentTier l) st = on_deleteEnvironmentTier l st"

definition fetchEnvironmentTiers :: "(call \<Rightarrow> ApiError + json page) \<Rightarrow> EnvironmentTierAction"
  where
  "fetchEnvironmentTiers api = FetchEnvironmentTiers (thunk_with ''Failed to load tiers'' (api
    (environmentTierService_listTiers None)))"

definition createEnvironmentTier :: "(call \<Rightarrow> ApiError + json) \<Rightarrow> json \<Rightarrow>
  EnvironmentTierAction" where
  "createEnvironmentTier api data = CreateEnvironmentTier (thunk_with ''Failed to create tier'' (api
    (environmentTierService_createTier data)))"

definition updateEnvironmentTier :: "(call \<Rightarrow> ApiError + json) \<Rightarrow> int \<Rightarrow> json
  \<Rightarrow> EnvironmentTierAction" where
  "updateEnvironmentTier api id' data = UpdateEnvironmentTier (thunk_with ''Failed to update tier'' (api
    (environmentTierService_updateTier id' data)))"

definition deleteEnvironmentTier :: "(call \<Rightarrow> ApiError + unit) \<Rightarrow> int \<Rightarrow>
  EnvironmentTierAction" where
  "deleteEnvironmentTier api id' = DeleteEnvironmentTier (thunk_with ''Failed to delete tier'' (map_sum id
    (\<lambda>_. id') (api (environmentTierService_deleteTier id'))))"

subsection \<open>\<open>store/gateTypeSlice.ts\<close>\<close>

record GateTypeState =
  gty_gateTypes :: "json list"
  gty_total :: int
  gty_loading :: bool
  gty_error :: "string option"

definition gty_initial :: GateTypeState where
  "gty_initial = \<lparr>gty_gateTypes = [], gty_total = 0, gty_loading = False, gty_error = None\<rparr>"

definition sortGateTypes :: "json list \<Rightarrow> json list" where
  "sortGateTypes = sort_rows ''display_order''"

definition selectActiveGateTypes :: "json list \<Rightarrow> json list" where
  "selectActiveGateTypes types =
     sortGateTypes (filter (\<lambda>t. truthy (row_key ''is_active'' t)) types)"

definition on_fetchGateTypes :: "(json page) lifecycle \<Rightarrow> GateTypeState \<Rightarrow> GateTypeState"
  where
  "on_fetchGateTypes = on_cases
     (\<lambda>st. st\<lparr>gty_loading := True, gty_error := None\<rparr>)
     (\<lambda>p st. st\<lparr>gty_loading := False, gty_gateTypes := pg_rows p, gty_total := pg_total p\<rparr>)
     (\<lambda>r st. st\<lparr>gty_loading := False, gty_error := Some (nullish (rj_payload r) (nullish (rj_message
       r) ''Failed to load gate types''))\<rparr>)"

definition on_createGateType :: "json lifecycle \<Rightarrow> GateTypeState \<Rightarrow> GateTypeState" where
  "on_createGateType = on_fulfilled (\<lambda>p st. st\<lparr>gty_gateTypes := sortGateTypes (gty_gateTypes st @
    [p]), gty_total := gty_total st + 1\<rparr>)"

definition on_updateGateType :: "json lifecycle \<Rightarrow> GateTypeState \<Rightarrow> GateTypeState" where
  "on_updateGateType = on_fulfilled (\<lambda>p st. st\<lparr>gty_gateTypes := sortGateTypes (map (\<lambda>x. if
    row_id x = row_id p then p else x) (gty_gateTypes st))\<rparr>)"

definition on_deleteGateType :: "int lifecycle \<Rightarrow> GateTypeState \<Rightarrow> GateTypeState" where
  "on_deleteGateType = on_fulfilled (\<lambda>p st. st\<lparr>gty_gateTypes := filter (\<lambda>x. row_id x
    \<noteq> J_int p) (gty_gateTypes st), gty_total := gty_total st - 1\<rparr>)"

datatype GateTypeAction =
    FetchGateTypes "(json page) lifecycle"
  | CreateGateType "json lifecycle"
  | UpdateGateType "json lifecycle"
  | DeleteGateType "int lifecycle"

fun gty_reducer :: "GateTypeAction \<Rightarrow> GateTypeState \<Rightarrow> GateTypeState" where
  "gty_reducer (FetchGateTypes l) st = on_fetchGateTypes l st"
| "gty_reducer (CreateGateType l) st = on_createGateType l st"
| "gty_reducer (UpdateGateType l) st = on_updateGateType l st"
| "gty_reducer (DeleteGateType l) st = on_deleteGateType l st"

definition fetchGateTypes :: "(call \<Rightarrow> ApiError + json page) \<Rightarrow> GateTypeAction" where
  "fetchGateTypes api = FetchGateTypes (thunk_with ''Failed to load gate types'' (api
    (gateTypeService_listGateTypes None)))"

definition createGateType :: "(call \<Rightarrow> ApiError + json) \<Rightarrow> json \<Rightarrow> GateTypeAction"
  where
  "createGateType api data = CreateGateType (thunk_with ''Failed to create gate type'' (api
    (gateTypeService_createGateType data)))"

definition updateGateType :: "(call \<Rightarrow> ApiError + json) \<Rightarrow> int \<Rightarrow> json
  \<Rightarrow> GateTypeAction" where
  "updateGateType api id' data = UpdateGateType (thunk_with ''Failed to update gate type'' (api
    (gateTypeService_updateGateType id' data)))"

definition deleteGateType :: "(call \<Rightarrow> ApiError + unit) \<Rightarrow> int \<Rightarrow> GateTypeAction"
  where
  "deleteGateType api id' = DeleteGateType (thunk_with ''Failed to delete gate type'' (map_sum id (\<lambda>_. id')
    (api (gateTypeService_deleteGateType id'))))"

subsection \<open>\<open>store/componentTypeSlice.ts\<close>\<close>

record ComponentTypeState =
  cty_definitions :: "json list"
  cty_loading :: bool
  cty_error :: "string option"

definition cty_initial :: ComponentTypeState where
  "cty_initial = \<lparr>cty_definitions = [], cty_loading = False, cty_error = None\<rparr>"

definition on_fetchComponentTypes :: "(json list) lifecycle \<Rightarrow> ComponentTypeState \<Rightarrow>
  ComponentTypeState" where
  "on_fetchComponentTypes = on_cases
     (\<lambda>st. st\<lparr>cty_loading := True, cty_error := None\<rparr>)
     (\<lambda>p st. st\<lparr>cty_loading := False, cty_definitions := p\<rparr>)
     (\<lambda>r st. st\<lparr>cty_loading := False, cty_error := Some (nullish (rj_message r)
       ''Failed to fetch component types'')\<rparr>)"

definition on_createComponentType :: "json lifecycle \<Rightarrow> ComponentTypeState \<Rightarrow>
  ComponentTypeState" where
  "on_createComponentType = on_fulfilled (\<lambda>p st. st\<lparr>cty_definitions := cty_definitions st @
    [p]\<rparr>)"

definition on_updateComponentType :: "json lifecycle \<Rightarrow> ComponentTypeState \<Rightarrow>
  ComponentTypeState" where
  "on_updateComponentType = on_fulfilled (\<lambda>p st. st\<lparr>cty_definitions := put_at_first (\<lambda>x.
    row_id x = row_id p) p (cty_definitions st)\<rparr>)"

definition on_deleteComponentType :: "int lifecycle \<Rightarrow> ComponentTypeState \<Rightarrow>
  ComponentTypeState" where
  "on_deleteComponentType = on_fulfilled (\<lambda>p st. st\<lparr>cty_definitions := filter (\<lambda>x. row_id x
    \<noteq> J_int p) (cty_definitions st)\<rparr>)"

datatype ComponentTypeAction =
    FetchComponentTypes "(json list) lifecycle"
  | CreateComponentType "json lifecycle"
  | UpdateComponentType "json lifecycle"
  | DeleteComponentType "int lifecycle"

fun cty_reducer :: "ComponentTypeAction \<Rightarrow> ComponentTypeState \<Rightarrow> ComponentTypeState" where
  "cty_reducer (FetchComponentTypes l) st = on_fetchComponentTypes l st"
| "cty_reducer (CreateComponentType l) st = on_createComponentType l st"
| "cty_reducer (UpdateComponentType l) st = on_updateComponentType l st"
| "cty_reducer (DeleteComponentType l) st = on_deleteComponentType l st"

definition fetchComponentTypes :: "(call \<Rightarrow> ApiError + json list) \<Rightarrow> ComponentTypeAction"
  where
  "fetchComponentTypes api = FetchComponentTypes (thunk_plain (api componentTypeService_listTypes))"

definition createComponentType :: "(call \<Rightarrow> ApiError + json) \<Rightarrow> json \<Rightarrow>
  ComponentTypeAction" where
  "createComponentType api data = CreateComponentType (thunk_with ''Failed to create component type'' (api
    (componentTypeService_createType data)))"

definition updateComponentType :: "(call \<Rightarrow> ApiError + json) \<Rightarrow> int \<Rightarrow> json
  \<Rightarrow> ComponentTypeAction" where
  "updateComponentType api id' data = UpdateComponentType (thunk_with ''Failed to update component type'' (api
    (componentTypeService_updateType id' data)))"

definition deleteComponentType :: "(call \<Rightarrow> ApiError + unit) \<Rightarrow> int \<Rightarrow>
  ComponentTypeAction" where
  "deleteComponentType api id' = DeleteComponentType (thunk_with ''Failed to delete component type'' (map_sum id
    (\<lambda>_. id') (api (componentTypeService_deleteType id'))))"

subsection \<open>\<open>store/bookingLifecycleSlice.ts\<close>\<close>

record BookingLifecycleState =
  blc_templatesByEntity :: "(string, json list) jmap"
  blc_bookingTypes :: "json list"
  blc_loading :: bool
  blc_error :: "string option"

definition blc_initial :: BookingLifecycleState where
  "blc_initial = \<lparr>blc_templatesByEntity = [], blc_bookingTypes = [], blc_loading = False, blc_error =
    None\<rparr>"

definition findEntityTypeOf :: "(string, json list) jmap \<Rightarrow> int \<Rightarrow> string option" where
  "findEntityTypeOf byEntity templateId =
     map_option fst (find (\<lambda>kv. list_ex (\<lambda>t. row_id t = J_int templateId) (snd kv)) byEntity)"

definition push_template :: "json \<Rightarrow> (string, json list) jmap \<Rightarrow> (string, json list) jmap"
  where
  "push_template tpl m =
     (let et = text_key ''entity_type'' tpl in jm_set et (nullish (jm_get m et) [] @ [tpl]) m)"

definition on_fetchLifecycleTemplates :: "(string \<times> json list) lifecycle \<Rightarrow> BookingLifecycleState
  \<Rightarrow> BookingLifecycleState" where
  "on_fetchLifecycleTemplates = on_cases
     (\<lambda>st. st\<lparr>blc_loading := True, blc_error := None\<rparr>)
     (\<lambda>p st. st\<lparr>blc_loading := False, blc_templatesByEntity := jm_set (fst p) (snd p)
       (blc_templatesByEntity st)\<rparr>)
     (\<lambda>r st. st\<lparr>blc_loading := False, blc_error := Some (nullish (rj_message r)
       ''Failed to load templates'')\<rparr>)"

definition on_fetchBookingTypes :: "(json list) lifecycle \<Rightarrow> BookingLifecycleState \<Rightarrow>
  BookingLifecycleState" where
  "on_fetchBookingTypes = on_cases
     (\<lambda>st. st\<lparr>blc_loading := True, blc_error := None\<rparr>)
     (\<lambda>p st. st\<lparr>blc_loading := False, blc_bookingTypes := p\<rparr>)
     (\<lambda>r st. st\<lparr>blc_loading := False, blc_error := Some (nullish (rj_message r)
       ''Failed to load booking types'')\<rparr>)"

definition on_createLifecycleTemplate :: "json lifecycle \<Rightarrow> BookingLifecycleState \<Rightarrow>
  BookingLifecycleState" where
  "on_createLifecycleTemplate = on_fulfilled (\<lambda>p st. st\<lparr>blc_templatesByEntity := push_template p
    (blc_templatesByEntity st)\<rparr>)"

definition on_updateLifecycleTemplate :: "json lifecycle \<Rightarrow> BookingLifecycleState \<Rightarrow>
  BookingLifecycleState" where
  "on_updateLifecycleTemplate = on_fulfilled (\<lambda>p st. (case jm_get (blc_templatesByEntity st) (text_key
    ''entity_type'' p) of None \<Rightarrow> st | Some list \<Rightarrow> st\<lparr>blc_templatesByEntity := jm_set
      (text_key ''entity_type'' p) (put_at_first (\<lambda>x. row_id x = row_id p) p list) (blc_templatesByEntity
        st)\<rparr>))"

definition on_copyLifecycleTemplate :: "json lifecycle \<Rightarrow> BookingLifecycleState \<Rightarrow>
  BookingLifecycleState" where
  "on_copyLifecycleTemplate = on_fulfilled (\<lambda>p st. st\<lparr>blc_templatesByEntity := push_template p
    (blc_templatesByEntity st)\<rparr>)"

definition on_createBookingType :: "json lifecycle \<Rightarrow> BookingLifecycleState \<Rightarrow>
  BookingLifecycleState" where
  "on_createBookingType = on_fulfilled (\<lambda>p st. st\<lparr>blc_bookingTypes := blc_bookingTypes st @
    [p]\<rparr>)"

definition on_updateBookingType :: "json lifecycle \<Rightarrow> BookingLifecycleState \<Rightarrow>
  BookingLifecycleState" where
  "on_updateBookingType = on_fulfilled (\<lambda>p st. st\<lparr>blc_bookingTypes := put_at_first (\<lambda>x.
    row_id x = row_id p) p (blc_bookingTypes st)\<rparr>)"

definition on_deleteLifecycleTemplate :: "int lifecycle \<Rightarrow> BookingLifecycleState \<Rightarrow>
  BookingLifecycleState" where
  "on_deleteLifecycleTemplate = on_fulfilled (\<lambda>p st. (case findEntityTypeOf (blc_templatesByEntity st) p of
    None \<Rightarrow> st | Some et \<Rightarrow> (if et = [] then st else case jm_get (blc_templatesByEntity st)
      et of None \<Rightarrow> st | Some list \<Rightarrow> st\<lparr>blc_templatesByEntity := jm_set et (filter
        (\<lambda>x. row_id x \<noteq> J_int p) list) (blc_templatesByEntity st)\<rparr>)))"

definition on_deleteBookingType :: "int lifecycle \<Rightarrow> BookingLifecycleState \<Rightarrow>
  BookingLifecycleState" where
  "on_deleteBookingType = on_fulfilled (\<lambda>p st. st\<lparr>blc_bookingTypes := filter (\<lambda>x. row_id x
    \<noteq> J_int p) (blc_bookingTypes st)\<rparr>)"

datatype BookingLifecycleAction =
    FetchLifecycleTemplates "(string \<times> json list) lifecycle"
  | FetchBookingTypes "(json list) lifecycle"
  | CreateLifecycleTemplate "json lifecycle"
  | UpdateLifecycleTemplate "json lifecycle"
  | CopyLifecycleTemplate "json lifecycle"
  | CreateBookingType "json lifecycle"
  | UpdateBookingType "json lifecycle"
  | DeleteLifecycleTemplate "int lifecycle"
  | DeleteBookingType "int lifecycle"

fun blc_reducer :: "BookingLifecycleAction \<Rightarrow> BookingLifecycleState \<Rightarrow> BookingLifecycleState"
  where
  "blc_reducer (FetchLifecycleTemplates l) st = on_fetchLifecycleTemplates l st"
| "blc_reducer (FetchBookingTypes l) st = on_fetchBookingTypes l st"
| "blc_reducer (CreateLifecycleTemplate l) st = on_createLifecycleTemplate l st"
| "blc_reducer (UpdateLifecycleTemplate l) st = on_updateLifecycleTemplate l st"
| "blc_reducer (CopyLifecycleTemplate l) st = on_copyLifecycleTemplate l st"
| "blc_reducer (CreateBookingType l) st = on_createBookingType l st"
| "blc_reducer (UpdateBookingType l) st = on_updateBookingType l st"
| "blc_reducer (DeleteLifecycleTemplate l) st = on_deleteLifecycleTemplate l st"
| "blc_reducer (DeleteBookingType l) st = on_deleteBookingType l st"

definition fetchLifecycleTemplates :: "(call \<Rightarrow> ApiError + json list) \<Rightarrow> string option
  \<Rightarrow> BookingLifecycleAction" where
  "fetchLifecycleTemplates api entityType = FetchLifecycleTemplates (thunk_plain (map_sum id (Pair (nullish
    entityType ''booking'')) (api (bookingLifecycleService_listTemplates (Some (nullish entityType
      ''booking''))))))"

definition fetchBookingTypes :: "(call \<Rightarrow> ApiError + json list) \<Rightarrow> BookingLifecycleAction"
  where
  "fetchBookingTypes api = FetchBookingTypes (thunk_plain (api bookingLifecycleService_listBookingTypes))"

definition createLifecycleTemplate :: "(call \<Rightarrow> ApiError + json) \<Rightarrow> json \<Rightarrow> string
  option \<Rightarrow> BookingLifecycleAction" where
  "createLifecycleTemplate api data entityType = CreateLifecycleTemplate (thunk_with ''Failed to create template''
    (api (bookingLifecycleService_createTemplate data (Some (nullish entityType ''booking'')))))"

definition updateLifecycleTemplate :: "(call \<Rightarrow> ApiError + json) \<Rightarrow> int \<Rightarrow> json
  \<Rightarrow> BookingLifecycleAction" where
  "updateLifecycleTemplate api id' data = UpdateLifecycleTemplate (thunk_with ''Failed to update template'' (api
    (bookingLifecycleService_updateTemplate id' data)))"

definition copyLifecycleTemplate :: "(call \<Rightarrow> ApiError + json) \<Rightarrow> int \<Rightarrow> string
  \<Rightarrow> BookingLifecycleAction" where
  "copyLifecycleTemplate api id' name = CopyLifecycleTemplate (thunk_with ''Failed to copy template'' (api
    (bookingLifecycleService_copyTemplate id' name)))"

definition createBookingType :: "(call \<Rightarrow> ApiError + json) \<Rightarrow> json \<Rightarrow>
  BookingLifecycleAction" where
  "createBookingType api data = CreateBookingType (thunk_with ''Failed to create booking type'' (api
    (bookingLifecycleService_createBookingType data)))"

definition updateBookingType :: "(call \<Rightarrow> ApiError + json) \<Rightarrow> int \<Rightarrow> json
  \<Rightarrow> BookingLifecycleAction" where
  "updateBookingType api id' data = UpdateBookingType (thunk_with ''Failed to update booking type'' (api
    (bookingLifecycleService_updateBookingType id' data)))"

definition deleteLifecycleTemplate :: "(call \<Rightarrow> ApiError + unit) \<Rightarrow> int \<Rightarrow>
  BookingLifecycleAction" where
  "deleteLifecycleTemplate api id' = DeleteLifecycleTemplate (thunk_with ''Failed to delete template'' (map_sum id
    (\<lambda>_. id') (api (bookingLifecycleService_deleteTemplate id'))))"

definition deleteBookingType :: "(call \<Rightarrow> ApiError + unit) \<Rightarrow> int \<Rightarrow>
  BookingLifecycleAction" where
  "deleteBookingType api id' = DeleteBookingType (thunk_with ''Failed to delete booking type'' (map_sum id
    (\<lambda>_. id') (api (bookingLifecycleService_deleteBookingType id'))))"

definition selectBookingTemplates :: "BookingLifecycleState \<Rightarrow> json list" where
  "selectBookingTemplates st = nullish (jm_get (blc_templatesByEntity st) ''booking'') []"

definition selectTemplatesForEntity :: "string \<Rightarrow> BookingLifecycleState \<Rightarrow> json list" where
  "selectTemplatesForEntity entityType st = nullish (jm_get (blc_templatesByEntity st) entityType) []"

subsection \<open>\<open>store/releaseEventTypeSlice.ts\<close>\<close>

record ReleaseEventTypeState =
  ret_list :: "json list"
  ret_loading :: bool
  ret_error :: "string option"

definition ret_initial :: ReleaseEventTypeState where
  "ret_initial = \<lparr>ret_list = [], ret_loading = False, ret_error = None\<rparr>"

definition on_fetchReleaseEventTypes :: "(json list) lifecycle \<Rightarrow> ReleaseEventTypeState \<Rightarrow>
  ReleaseEventTypeState" where
  "on_fetchReleaseEventTypes = on_cases
     (\<lambda>st. st\<lparr>ret_loading := True, ret_error := None\<rparr>)
     (\<lambda>p st. st\<lparr>ret_loading := False, ret_list := p\<rparr>)
     (\<lambda>r st. st\<lparr>ret_loading := False, ret_error := Some (nullish (rj_message r)
       ''Failed to load release event types'')\<rparr>)"

definition on_createReleaseEventType :: "json lifecycle \<Rightarrow> ReleaseEventTypeState \<Rightarrow>
  ReleaseEventTypeState" where
  "on_createReleaseEventType = on_fulfilled (\<lambda>p st. st\<lparr>ret_list := ret_list st @ [p]\<rparr>)"

definition on_updateReleaseEventType :: "json lifecycle \<Rightarrow> ReleaseEventTypeState \<Rightarrow>
  ReleaseEventTypeState" where
  "on_updateReleaseEventType = on_fulfilled (\<lambda>p st. st\<lparr>ret_list := put_at_first (\<lambda>x. row_id
    x = row_id p) p (ret_list st)\<rparr>)"

definition on_deleteReleaseEventType :: "int lifecycle \<Rightarrow> ReleaseEventTypeState \<Rightarrow>
  ReleaseEventTypeState" where
  "on_deleteReleaseEventType = on_fulfilled (\<lambda>p st. st\<lparr>ret_list := filter (\<lambda>x. row_id x
    \<noteq> J_int p) (ret_list st)\<rparr>)"

datatype ReleaseEventTypeAction =
    FetchReleaseEventTypes "(json list) lifecycle"
  | CreateReleaseEventType "json lifecycle"
  | UpdateReleaseEventType "json lifecycle"
  | DeleteReleaseEventType "int lifecycle"

fun ret_reducer :: "ReleaseEventTypeAction \<Rightarrow> ReleaseEventTypeState \<Rightarrow> ReleaseEventTypeState"
  where
  "ret_reducer (FetchReleaseEventTypes l) st = on_fetchReleaseEventTypes l st"
| "ret_reducer (CreateReleaseEventType l) st = on_createReleaseEventType l st"
| "ret_reducer (UpdateReleaseEventType l) st = on_updateReleaseEventType l st"
| "ret_reducer (DeleteReleaseEventType l) st = on_deleteReleaseEventType l st"

definition fetchReleaseEventTypes :: "(call \<Rightarrow> ApiError + json list) \<Rightarrow>
  ReleaseEventTypeAction" where
  "fetchReleaseEventTypes api = FetchReleaseEventTypes (thunk_plain (api releaseEventTypeService_list))"

definition createReleaseEventType :: "(call \<Rightarrow> ApiError + json) \<Rightarrow> json \<Rightarrow>
  ReleaseEventTypeAction" where
  "createReleaseEventType api data = CreateReleaseEventType (thunk_plain (api (releaseEventTypeService_create
    data)))"

definition updateReleaseEventType :: "(call \<Rightarrow> ApiError + json) \<Rightarrow> int \<Rightarrow> json
  \<Rightarrow> ReleaseEventTypeAction" where
  "updateReleaseEventType api id' data = UpdateReleaseEventType (thunk_plain (api (releaseEventTypeService_update
    id' data)))"

definition deleteReleaseEventType :: "(call \<Rightarrow> ApiError + unit) \<Rightarrow> int \<Rightarrow>
  ReleaseEventTypeAction" where
  "deleteReleaseEventType api id' = DeleteReleaseEventType (thunk_plain (map_sum id (\<lambda>_. id') (api
    (releaseEventTypeService_remove id'))))"

subsection \<open>\<open>store/releaseTemplateSlice.ts\<close>\<close>

record ReleaseTemplateState =
  rtp_list :: "json list"
  rtp_detail :: "json option"
  rtp_loading :: bool
  rtp_error :: "string option"

definition rtp_initial :: ReleaseTemplateState where
  "rtp_initial = \<lparr>rtp_list = [], rtp_detail = None, rtp_loading = False, rtp_error = None\<rparr>"

definition on_clearDetail :: "ReleaseTemplateState \<Rightarrow> ReleaseTemplateState" where
  "on_clearDetail st = st\<lparr>rtp_detail := None\<rparr>"

definition on_fetchReleaseTemplates :: "(json list) lifecycle \<Rightarrow> ReleaseTemplateState \<Rightarrow>
  ReleaseTemplateState" where
  "on_fetchReleaseTemplates = on_cases
     (\<lambda>st. st\<lparr>rtp_loading := True, rtp_error := None\<rparr>)
     (\<lambda>p st. st\<lparr>rtp_loading := False, rtp_list := p\<rparr>)
     (\<lambda>r st. st\<lparr>rtp_loading := False, rtp_error := Some (nullish (rj_message r)
       ''Failed to load release templates'')\<rparr>)"

definition on_fetchReleaseTemplate :: "json lifecycle \<Rightarrow> ReleaseTemplateState \<Rightarrow>
  ReleaseTemplateState" where
  "on_fetchReleaseTemplate = on_cases
     (\<lambda>st. st\<lparr>rtp_loading := True, rtp_error := None\<rparr>)
     (\<lambda>p st. st\<lparr>rtp_loading := False, rtp_detail := Some p\<rparr>)
     (\<lambda>r st. st\<lparr>rtp_loading := False, rtp_error := Some (nullish (rj_message r)
       ''Failed to load release template'')\<rparr>)"

definition on_createReleaseTemplate :: "json lifecycle \<Rightarrow> ReleaseTemplateState \<Rightarrow>
  ReleaseTemplateState" where
  "on_createReleaseTemplate = on_fulfilled (\<lambda>p st. st\<lparr>rtp_list := rtp_list st @ [p]\<rparr>)"

definition on_updateReleaseTemplate :: "json lifecycle \<Rightarrow> ReleaseTemplateState \<Rightarrow>
  ReleaseTemplateState" where
  "on_updateReleaseTemplate = on_fulfilled (\<lambda>p st. st\<lparr>rtp_list := put_at_first (\<lambda>x. row_id x
    = row_id p) p (rtp_list st), rtp_detail := (if is_row (row_id p) (rtp_detail st) then Some p else rtp_detail
      st)\<rparr>)"

definition on_deleteReleaseTemplate :: "int lifecycle \<Rightarrow> ReleaseTemplateState \<Rightarrow>
  ReleaseTemplateState" where
  "on_deleteReleaseTemplate = on_fulfilled (\<lambda>p st. st\<lparr>rtp_list := filter (\<lambda>x. row_id x
    \<noteq> J_int p) (rtp_list st), rtp_detail := (if is_row (J_int p) (rtp_detail st) then None else rtp_detail
      st)\<rparr>)"

datatype ReleaseTemplateAction =
    FetchReleaseTemplates "(json list) lifecycle"
  | FetchReleaseTemplate "json lifecycle"
  | CreateReleaseTemplate "json lifecycle"
  | UpdateReleaseTemplate "json lifecycle"
  | DeleteReleaseTemplate "int lifecycle"
  | InstantiateReleaseTemplate "json lifecycle"
  | ClearDetail_rtp

fun rtp_reducer :: "ReleaseTemplateAction \<Rightarrow> ReleaseTemplateState \<Rightarrow> ReleaseTemplateState"
  where
  "rtp_reducer (FetchReleaseTemplates l) st = on_fetchReleaseTemplates l st"
| "rtp_reducer (FetchReleaseTemplate l) st = on_fetchReleaseTemplate l st"
| "rtp_reducer (CreateReleaseTemplate l) st = on_createReleaseTemplate l st"
| "rtp_reducer (UpdateReleaseTemplate l) st = on_updateReleaseTemplate l st"
| "rtp_reducer (DeleteReleaseTemplate l) st = on_deleteReleaseTemplate l st"
| "rtp_reducer (InstantiateReleaseTemplate l) st = st"
| "rtp_reducer ClearDetail_rtp st = on_clearDetail st"

definition fetchReleaseTemplates :: "(call \<Rightarrow> ApiError + json list) \<Rightarrow> ReleaseTemplateAction"
  where
  "fetchReleaseTemplates api = FetchReleaseTemplates (thunk_plain (api releaseTemplateService_list))"

definition fetchReleaseTemplate :: "(call \<Rightarrow> ApiError + json) \<Rightarrow> int \<Rightarrow>
  ReleaseTemplateAction" where
  "fetchReleaseTemplate api id' = FetchReleaseTemplate (thunk_plain (api (releaseTemplateService_get id')))"

definition createReleaseTemplate :: "(call \<Rightarrow> ApiError + json) \<Rightarrow> json \<Rightarrow>
  ReleaseTemplateAction" where
  "createReleaseTemplate api data = CreateReleaseTemplate (thunk_plain (api (releaseTemplateService_create data)))"

definition updateReleaseTemplate :: "(call \<Rightarrow> ApiError + json) \<Rightarrow> int \<Rightarrow> json
  \<Rightarrow> ReleaseTemplateAction" where
  "updateReleaseTemplate api id' data = UpdateReleaseTemplate (thunk_plain (api (releaseTemplateService_update id'
    data)))"

definition deleteReleaseTemplate :: "(call \<Rightarrow> ApiError + unit) \<Rightarrow> int \<Rightarrow>
  ReleaseTemplateAction" where
  "deleteReleaseTemplate api id' = DeleteReleaseTemplate (thunk_plain (map_sum id (\<lambda>_. id') (api
    (releaseTemplateService_remove id'))))"

definition instantiateReleaseTemplate :: "(call \<Rightarrow> ApiError + json) \<Rightarrow> int \<Rightarrow> json
  \<Rightarrow> ReleaseTemplateAction" where
  "instantiateReleaseTemplate api id' data = InstantiateReleaseTemplate (thunk_plain (api
    (releaseTemplateService_instantiate id' data)))"

end
