(* ===== verification/EnvironmentSlices.thy ===== *)
theory EnvironmentSlices
  imports SliceKit ServiceCalls
begin

text \<open>
  The slices around environments: requests for an environment, environment groups, projects with their usage
  agreements, installed versions and infrastructure components.
  A slice is its state with its initial value, one definition per thunk with the call it makes, one
  definition per thunk for its \<open>pending\<close>, \<open>fulfilled\<close> and \<open>rejected\<close> cases,
    and the reducer that
  dispatches to them. A thunk takes the outcome of a call as the parameter \<open>api\<close>.
\<close>

subsection \<open>\<open>store/environmentRequestSlice.ts\<close>\<close>

record EnvironmentRequestState =
  erq_requests :: "json list"
  erq_total :: int
  erq_current :: "json option"
  erq_allowedTransitions :: "json list"
  erq_welcomePack :: "json option"
  erq_welcomePackLoading :: bool
  erq_welcomePackError :: "string option"
  erq_loading :: bool
  erq_error :: "string option"

definition erq_initial :: EnvironmentRequestState where
  "erq_initial = \<lparr>erq_requests = [], erq_total = 0, erq_current = None, erq_allowedTransitions = [],
    erq_welcomePack = None, erq_welcomePackLoading = False, erq_welcomePackError = None, erq_loading = False,
      erq_error = None\<rparr>"

definition on_fetchEnvironmentRequests :: "(json page) lifecycle \<Rightarrow> EnvironmentRequestState
  \<Rightarrow> EnvironmentRequestState" where
  "on_fetchEnvironmentRequests = on_cases
     (\<lambda>st. st\<lparr>erq_loading := True, erq_error := None\<rparr>)
     (\<lambda>p st. st\<lparr>erq_loading := False, erq_error := None, erq_requests := pg_rows p, erq_total :=
       pg_total p\<rparr>)
     (\<lambda>r st. st\<lparr>erq_loading := False, erq_error := Some (nullish (rj_payload r)
       ''Failed to load requests'')\<rparr>)"

definition on_fetchEnvironmentRequest :: "json lifecycle \<Rightarrow> EnvironmentRequestState \<Rightarrow>
  EnvironmentRequestState" where
  "on_fetchEnvironmentRequest = on_cases
     (\<lambda>st. st\<lparr>erq_loading := True, erq_error := None, erq_current := None\<rparr>)
     (\<lambda>p st. st\<lparr>erq_current := Some p, erq_error := None, erq_loading := False\<rparr>)
     (\<lambda>r st. st\<lparr>erq_error := Some (nullish (rj_payload r) ''Failed to load the request''),
       erq_loading := False\<rparr>)"

definition on_transitionEnvironmentRequest :: "json lifecycle \<Rightarrow> EnvironmentRequestState \<Rightarrow>
  EnvironmentRequestState" where
  "on_transitionEnvironmentRequest = on_fulfilled (\<lambda>p st. st\<lparr>erq_current := Some p\<rparr>)"

definition on_fetchAllowedTransitions :: "(json list) lifecycle \<Rightarrow> EnvironmentRequestState \<Rightarrow>
  EnvironmentRequestState" where
  "on_fetchAllowedTransitions = on_fulfilled (\<lambda>p st. st\<lparr>erq_allowedTransitions := p\<rparr>)"

definition on_fetchWelcomePack :: "json lifecycle \<Rightarrow> EnvironmentRequestState \<Rightarrow>
  EnvironmentRequestState" where
  "on_fetchWelcomePack = on_cases
     (\<lambda>st. st\<lparr>erq_welcomePack := None, erq_welcomePackLoading := True, erq_welcomePackError :=
       None\<rparr>)
     (\<lambda>p st. st\<lparr>erq_welcomePack := Some p, erq_welcomePackLoading := False, erq_welcomePackError :=
       None\<rparr>)
     (\<lambda>r st. st\<lparr>erq_welcomePack := None, erq_welcomePackLoading := False, erq_welcomePackError :=
       Some (nullish (rj_payload r) ''Failed to load the welcome pack'')\<rparr>)"

datatype EnvironmentRequestAction =
    FetchEnvironmentRequests "(json page) lifecycle"
  | FetchEnvironmentRequest "json lifecycle"
  | CreateEnvironmentRequest "json lifecycle"
  | UpdateEnvironmentRequest "json lifecycle"
  | TransitionEnvironmentRequest "json lifecycle"
  | FetchAllowedTransitions "(json list) lifecycle"
  | FetchWelcomePack "json lifecycle"
  | UpdateEnvironmentHandover_erq "json lifecycle"

fun erq_reducer :: "EnvironmentRequestAction \<Rightarrow> EnvironmentRequestState \<Rightarrow>
  EnvironmentRequestState" where
  "erq_reducer (FetchEnvironmentRequests l) st = on_fetchEnvironmentRequests l st"
| "erq_reducer (FetchEnvironmentRequest l) st = on_fetchEnvironmentRequest l st"
| "erq_reducer (CreateEnvironmentRequest l) st = st"
| "erq_reducer (UpdateEnvironmentRequest l) st = st"
| "erq_reducer (TransitionEnvironmentRequest l) st = on_transitionEnvironmentRequest l st"
| "erq_reducer (FetchAllowedTransitions l) st = on_fetchAllowedTransitions l st"
| "erq_reducer (FetchWelcomePack l) st = on_fetchWelcomePack l st"
| "erq_reducer (UpdateEnvironmentHandover_erq l) st = st"

definition fetchEnvironmentRequests :: "(call \<Rightarrow> ApiError + json page) \<Rightarrow> query option
  \<Rightarrow> EnvironmentRequestAction" where
  "fetchEnvironmentRequests api params = FetchEnvironmentRequests (thunk_with ''Failed to load requests'' (api
    (environmentRequestService_listRequests params)))"

definition fetchEnvironmentRequest :: "(call \<Rightarrow> ApiError + json) \<Rightarrow> int \<Rightarrow>
  EnvironmentRequestAction" where
  "fetchEnvironmentRequest api id' = FetchEnvironmentRequest (thunk_with ''Failed to load the request'' (api
    (environmentRequestService_getRequest id')))"

definition createEnvironmentRequest :: "(call \<Rightarrow> ApiError + json) \<Rightarrow> json \<Rightarrow>
  EnvironmentRequestAction" where
  "createEnvironmentRequest api data = CreateEnvironmentRequest (thunk_with ''Failed to create the request'' (api
    (environmentRequestService_createRequest data)))"

definition updateEnvironmentRequest :: "(call \<Rightarrow> ApiError + json) \<Rightarrow> int \<Rightarrow> json
  \<Rightarrow> EnvironmentRequestAction" where
  "updateEnvironmentRequest api id' data = UpdateEnvironmentRequest (thunk_with ''Failed to update the request''
    (api (environmentRequestService_updateRequest id' data)))"

definition transitionEnvironmentRequest :: "(call \<Rightarrow> ApiError + json) \<Rightarrow> int \<Rightarrow>
  string \<Rightarrow> EnvironmentRequestAction" where
  "transitionEnvironmentRequest api id' toState = TransitionEnvironmentRequest (thunk_with
    ''Failed to update the request state'' (api (environmentRequestService_transition id' toState)))"

definition fetchAllowedTransitions :: "(call \<Rightarrow> ApiError + json list) \<Rightarrow> int \<Rightarrow>
  EnvironmentRequestAction" where
  "fetchAllowedTransitions api id' = FetchAllowedTransitions (thunk_with ''Failed to load available actions'' (api
    (environmentRequestService_allowedTransitions id')))"

definition fetchWelcomePack :: "(call \<Rightarrow> ApiError + json) \<Rightarrow> int \<Rightarrow>
  EnvironmentRequestAction" where
  "fetchWelcomePack api id' = FetchWelcomePack (thunk_with ''Failed to load the welcome pack'' (api
    (environmentRequestService_getWelcomePack id')))"

definition updateEnvironmentHandover_erq :: "(call \<Rightarrow> ApiError + json) \<Rightarrow> int \<Rightarrow>
  json \<Rightarrow> EnvironmentRequestAction" where
  "updateEnvironmentHandover_erq api environmentId data = UpdateEnvironmentHandover_erq (thunk_with
    ''Failed to save the handover details'' (api (environmentRequestService_updateHandover environmentId data)))"

subsection \<open>\<open>store/environmentGroupSlice.ts\<close>\<close>

record EnvironmentGroupState =
  egr_groups :: "json list"
  egr_total :: int
  egr_current :: "json option"
  egr_members :: "json list"
  egr_memberTotal :: int
  egr_environmentGroups :: "json list"
  egr_environmentGroupsTotal :: int
  egr_environmentGroupsError :: "string option"
  egr_environmentGroupsRequestId :: "string option"
  egr_loading :: bool
  egr_error :: "string option"

definition egr_initial :: EnvironmentGroupState where
  "egr_initial = \<lparr>egr_groups = [], egr_total = 0, egr_current = None, egr_members = [], egr_memberTotal = 0,
    egr_environmentGroups = [], egr_environmentGroupsTotal = 0, egr_environmentGroupsError = None,
      egr_environmentGroupsRequestId = None, egr_loading = False, egr_error = None\<rparr>"

definition on_fetchEnvironmentGroups :: "(json page) lifecycle \<Rightarrow> EnvironmentGroupState \<Rightarrow>
  EnvironmentGroupState" where
  "on_fetchEnvironmentGroups = on_cases
     (\<lambda>st. st\<lparr>egr_loading := True, egr_error := None\<rparr>)
     (\<lambda>p st. st\<lparr>egr_loading := False, egr_groups := pg_rows p, egr_total := pg_total p\<rparr>)
     (\<lambda>r st. st\<lparr>egr_loading := False, egr_error := Some (nullish (rj_payload r)
       ''Failed to load environment groups'')\<rparr>)"

definition on_fetchEnvironmentGroup :: "json lifecycle \<Rightarrow> EnvironmentGroupState \<Rightarrow>
  EnvironmentGroupState" where
  "on_fetchEnvironmentGroup = on_cases
     (\<lambda>st. st\<lparr>egr_current := None, egr_error := None\<rparr>)
     (\<lambda>p st. st\<lparr>egr_current := Some p, egr_error := None\<rparr>)
     (\<lambda>r st. st\<lparr>egr_error := Some (nullish (rj_payload r)
       ''Failed to load environment group'')\<rparr>)"

definition on_fetchGroupMembers_egr :: "(json page) lifecycle \<Rightarrow> EnvironmentGroupState \<Rightarrow>
  EnvironmentGroupState" where
  "on_fetchGroupMembers_egr = on_cases
     (\<lambda>st. st\<lparr>egr_members := [], egr_memberTotal := 0, egr_error := None\<rparr>)
     (\<lambda>p st. st\<lparr>egr_members := pg_rows p, egr_memberTotal := pg_total p, egr_error := None\<rparr>)
     (\<lambda>r st. st\<lparr>egr_error := Some (nullish (rj_payload r) ''Failed to load group members'')\<rparr>)"

definition on_fetchGroupsForEnvironment :: "string \<Rightarrow> (json page) lifecycle \<Rightarrow>
  EnvironmentGroupState \<Rightarrow> EnvironmentGroupState" where
  "on_fetchGroupsForEnvironment reqId = on_cases
     (\<lambda>st. st\<lparr>egr_environmentGroupsRequestId := Some reqId, egr_environmentGroups := [],
       egr_environmentGroupsTotal := 0, egr_environmentGroupsError := None\<rparr>)
     (\<lambda>p st. if egr_environmentGroupsRequestId st \<noteq> Some reqId then st else
       st\<lparr>egr_environmentGroups := pg_rows p, egr_environmentGroupsTotal := pg_total p,
         egr_environmentGroupsError := None\<rparr>)
     (\<lambda>r st. if egr_environmentGroupsRequestId st \<noteq> Some reqId then st else
       st\<lparr>egr_environmentGroupsError := Some (nullish (rj_payload r)
         ''Failed to load environment groups'')\<rparr>)"

datatype EnvironmentGroupAction =
    FetchEnvironmentGroups "(json page) lifecycle"
  | FetchEnvironmentGroup "json lifecycle"
  | CreateEnvironmentGroup "json lifecycle"
  | UpdateEnvironmentGroup "json lifecycle"
  | DeleteEnvironmentGroup "int lifecycle"
  | FetchGroupMembers_egr "(json page) lifecycle"
  | FetchGroupsForEnvironment string "(json page) lifecycle"
  | AddGroupMember_egr "json lifecycle"
  | RemoveGroupMember_egr "int lifecycle"

fun egr_reducer :: "EnvironmentGroupAction \<Rightarrow> EnvironmentGroupState \<Rightarrow> EnvironmentGroupState"
  where
  "egr_reducer (FetchEnvironmentGroups l) st = on_fetchEnvironmentGroups l st"
| "egr_reducer (FetchEnvironmentGroup l) st = on_fetchEnvironmentGroup l st"
| "egr_reducer (CreateEnvironmentGroup l) st = st"
| "egr_reducer (UpdateEnvironmentGroup l) st = st"
| "egr_reducer (DeleteEnvironmentGroup l) st = st"
| "egr_reducer (FetchGroupMembers_egr l) st = on_fetchGroupMembers_egr l st"
| "egr_reducer (FetchGroupsForEnvironment reqId l) st = on_fetchGroupsForEnvironment reqId l st"
| "egr_reducer (AddGroupMember_egr l) st = st"
| "egr_reducer (RemoveGroupMember_egr l) st = st"

definition fetchEnvironmentGroups :: "(call \<Rightarrow> ApiError + json page) \<Rightarrow> query option
  \<Rightarrow> EnvironmentGroupAction" where
  "fetchEnvironmentGroups api params = FetchEnvironmentGroups (thunk_with ''Failed to load environment groups''
    (api (environmentGroupService_listGroups params)))"

definition fetchEnvironmentGroup :: "(call \<Rightarrow> ApiError + json) \<Rightarrow> int \<Rightarrow>
  EnvironmentGroupAction" where
  "fetchEnvironmentGroup api id' = FetchEnvironmentGroup (thunk_with ''Failed to load environment group'' (api
    (environmentGroupService_getGroup id')))"

definition createEnvironmentGroup :: "(call \<Rightarrow> ApiError + json) \<Rightarrow> json \<Rightarrow>
  EnvironmentGroupAction" where
  "createEnvironmentGroup api data = CreateEnvironmentGroup (thunk_with ''Failed to create environment group'' (api
    (environmentGroupService_createGroup data)))"

definition updateEnvironmentGroup :: "(call \<Rightarrow> ApiError + json) \<Rightarrow> int \<Rightarrow> json
  \<Rightarrow> EnvironmentGroupAction" where
  "updateEnvironmentGroup api id' data = UpdateEnvironmentGroup (thunk_with ''Failed to update environment group''
    (api (environmentGroupService_updateGroup id' data)))"

definition deleteEnvironmentGroup :: "(call \<Rightarrow> ApiError + unit) \<Rightarrow> int \<Rightarrow>
  EnvironmentGroupAction" where
  "deleteEnvironmentGroup api id' = DeleteEnvironmentGroup (thunk_with ''Failed to delete environment group''
    (map_sum id (\<lambda>_. id') (api (environmentGroupService_deleteGroup id'))))"

definition fetchGroupMembers_egr :: "(call \<Rightarrow> ApiError + json page) \<Rightarrow> int \<Rightarrow>
  EnvironmentGroupAction" where
  "fetchGroupMembers_egr api groupId = FetchGroupMembers_egr (thunk_with ''Failed to load group members'' (api
    (environmentGroupService_listMembers groupId None)))"

definition fetchGroupsForEnvironment :: "(call \<Rightarrow> ApiError + json page) \<Rightarrow> int \<Rightarrow>
  string \<Rightarrow> EnvironmentGroupAction" where
  "fetchGroupsForEnvironment api environmentId reqId = FetchGroupsForEnvironment reqId (thunk_with
    ''Failed to load environment groups'' (api (environmentGroupService_listGroupsForEnvironment environmentId
      None)))"

definition addGroupMember_egr :: "(call \<Rightarrow> ApiError + json) \<Rightarrow> int \<Rightarrow> json
  \<Rightarrow> EnvironmentGroupAction" where
  "addGroupMember_egr api groupId data = AddGroupMember_egr (thunk_with ''Failed to add group member'' (api
    (environmentGroupService_addMember groupId data)))"

definition removeGroupMember_egr :: "(call \<Rightarrow> ApiError + unit) \<Rightarrow> int \<Rightarrow> int
  \<Rightarrow> EnvironmentGroupAction" where
  "removeGroupMember_egr api groupId memberId = RemoveGroupMember_egr (thunk_with ''Failed to remove group member''
    (map_sum id (\<lambda>_. memberId) (api (environmentGroupService_removeMember groupId memberId))))"

subsection \<open>\<open>store/projectSlice.ts\<close>\<close>

record ProjectState =
  prj_projects :: "json list"
  prj_total :: int
  prj_current :: "json option"
  prj_agreements :: "json list"
  prj_agreementTotal :: int
  prj_gapBookingCount :: "int option"
  prj_gapBookingCountError :: "string option"
  prj_loading :: bool
  prj_error :: "string option"

definition prj_initial :: ProjectState where
  "prj_initial = \<lparr>prj_projects = [], prj_total = 0, prj_current = None, prj_agreements = [],
    prj_agreementTotal = 0, prj_gapBookingCount = None, prj_gapBookingCountError = None, prj_loading = False,
      prj_error = None\<rparr>"

definition on_fetchProjects :: "(json page) lifecycle \<Rightarrow> ProjectState \<Rightarrow> ProjectState" where
  "on_fetchProjects = on_cases
     (\<lambda>st. st\<lparr>prj_loading := True, prj_error := None\<rparr>)
     (\<lambda>p st. st\<lparr>prj_loading := False, prj_projects := pg_rows p, prj_total := pg_total p\<rparr>)
     (\<lambda>r st. st\<lparr>prj_loading := False, prj_error := Some (nullish (rj_payload r)
       ''Failed to load projects'')\<rparr>)"

definition on_fetchProject :: "json lifecycle \<Rightarrow> ProjectState \<Rightarrow> ProjectState" where
  "on_fetchProject = on_cases
     (\<lambda>st. st\<lparr>prj_current := None, prj_error := None\<rparr>)
     (\<lambda>p st. st\<lparr>prj_current := Some p, prj_error := None\<rparr>)
     (\<lambda>r st. st\<lparr>prj_error := Some (nullish (rj_payload r) ''Failed to load project'')\<rparr>)"

definition on_fetchProjectAgreements :: "(json page) lifecycle \<Rightarrow> ProjectState \<Rightarrow>
  ProjectState" where
  "on_fetchProjectAgreements = on_cases
     (\<lambda>st. st\<lparr>prj_agreements := [], prj_agreementTotal := 0, prj_error := None\<rparr>)
     (\<lambda>p st. st\<lparr>prj_agreements := pg_rows p, prj_agreementTotal := pg_total p, prj_error :=
       None\<rparr>)
     (\<lambda>r st. st\<lparr>prj_error := Some (nullish (rj_payload r)
       ''Failed to load usage agreements'')\<rparr>)"

definition on_fetchProjectGapBookingCount :: "int lifecycle \<Rightarrow> ProjectState \<Rightarrow> ProjectState"
  where
  "on_fetchProjectGapBookingCount = on_cases
     (\<lambda>st. st\<lparr>prj_gapBookingCount := None, prj_gapBookingCountError := None\<rparr>)
     (\<lambda>p st. st\<lparr>prj_gapBookingCount := Some p, prj_gapBookingCountError := None\<rparr>)
     (\<lambda>r st. st\<lparr>prj_gapBookingCountError := Some (nullish (rj_payload r)
       ''Failed to count bookings in gap'')\<rparr>)"

definition on_fetchEnvironmentAgreements :: "(json page) lifecycle \<Rightarrow> ProjectState \<Rightarrow>
  ProjectState" where
  "on_fetchEnvironmentAgreements = on_cases
     (\<lambda>st. st\<lparr>prj_agreements := [], prj_agreementTotal := 0, prj_error := None\<rparr>)
     (\<lambda>p st. st\<lparr>prj_agreements := pg_rows p, prj_agreementTotal := pg_total p, prj_error :=
       None\<rparr>)
     (\<lambda>r st. st\<lparr>prj_error := Some (nullish (rj_payload r)
       ''Failed to load usage agreements'')\<rparr>)"

datatype ProjectAction =
    FetchProjects "(json page) lifecycle"
  | FetchProject "json lifecycle"
  | CreateProject "json lifecycle"
  | UpdateProject "json lifecycle"
  | DeleteProject "int lifecycle"
  | FetchProjectAgreements "(json page) lifecycle"
  | FetchProjectGapBookingCount "int lifecycle"
  | FetchEnvironmentAgreements "(json page) lifecycle"
  | CreateUsageAgreement "json lifecycle"
  | DeleteUsageAgreement "int lifecycle"

fun prj_reducer :: "ProjectAction \<Rightarrow> ProjectState \<Rightarrow> ProjectState" where
  "prj_reducer (FetchProjects l) st = on_fetchProjects l st"
| "prj_reducer (FetchProject l) st = on_fetchProject l st"
| "prj_reducer (CreateProject l) st = st"
| "prj_reducer (UpdateProject l) st = st"
| "prj_reducer (DeleteProject l) st = st"
| "prj_reducer (FetchProjectAgreements l) st = on_fetchProjectAgreements l st"
| "prj_reducer (FetchProjectGapBookingCount l) st = on_fetchProjectGapBookingCount l st"
| "prj_reducer (FetchEnvironmentAgreements l) st = on_fetchEnvironmentAgreements l st"
| "prj_reducer (CreateUsageAgreement l) st = st"
| "prj_reducer (DeleteUsageAgreement l) st = st"

definition fetchProjects :: "(call \<Rightarrow> ApiError + json page) \<Rightarrow> query option \<Rightarrow>
  ProjectAction" where
  "fetchProjects api params = FetchProjects (thunk_with ''Failed to load projects'' (api
    (projectService_listProjects params)))"

definition fetchProject :: "(call \<Rightarrow> ApiError + json) \<Rightarrow> int \<Rightarrow> ProjectAction"
  where
  "fetchProject api id' = FetchProject (thunk_with ''Failed to load project'' (api (projectService_getProject
    id')))"

definition createProject :: "(call \<Rightarrow> ApiError + json) \<Rightarrow> json \<Rightarrow> ProjectAction"
  where
  "createProject api data = CreateProject (thunk_with ''Failed to create project'' (api
    (projectService_createProject data)))"

definition updateProject :: "(call \<Rightarrow> ApiError + json) \<Rightarrow> int \<Rightarrow> json
  \<Rightarrow> ProjectAction" where
  "updateProject api id' data = UpdateProject (thunk_with ''Failed to update project'' (api
    (projectService_updateProject id' data)))"

definition deleteProject :: "(call \<Rightarrow> ApiError + unit) \<Rightarrow> int \<Rightarrow> ProjectAction"
  where
  "deleteProject api id' = DeleteProject (thunk_with ''Failed to delete project'' (map_sum id (\<lambda>_. id')
    (api (projectService_deleteProject id'))))"

definition fetchProjectAgreements :: "(call \<Rightarrow> ApiError + json page) \<Rightarrow> int \<Rightarrow>
  ProjectAction" where
  "fetchProjectAgreements api projectId = FetchProjectAgreements (thunk_with ''Failed to load usage agreements''
    (api (projectService_listAgreementsForProject projectId None)))"

definition fetchProjectGapBookingCount :: "(call \<Rightarrow> ApiError + json page) \<Rightarrow> int
  \<Rightarrow> ProjectAction" where
  "fetchProjectGapBookingCount api projectId = FetchProjectGapBookingCount (thunk_with
    ''Failed to count bookings in gap'' (map_sum id pg_total (api (bookingService_listBookings (Some
      [(''project_id'', J_int projectId), (''agreement_gap'', J_bool True), (''limit'', J_int 1)])))))"

definition fetchEnvironmentAgreements :: "(call \<Rightarrow> ApiError + json page) \<Rightarrow> int \<Rightarrow>
  ProjectAction" where
  "fetchEnvironmentAgreements api environmentId = FetchEnvironmentAgreements (thunk_with
    ''Failed to load usage agreements'' (api (projectService_listAgreementsForEnvironment environmentId None)))"

definition createUsageAgreement :: "(call \<Rightarrow> ApiError + json) \<Rightarrow> int \<Rightarrow> json
  \<Rightarrow> ProjectAction" where
  "createUsageAgreement api projectId data = CreateUsageAgreement (thunk_with ''Failed to create usage agreement''
    (api (projectService_createAgreement projectId data)))"

definition deleteUsageAgreement :: "(call \<Rightarrow> ApiError + unit) \<Rightarrow> int \<Rightarrow> int
  \<Rightarrow> ProjectAction" where
  "deleteUsageAgreement api projectId agreementId = DeleteUsageAgreement (thunk_with
    ''Failed to delete usage agreement'' (map_sum id (\<lambda>_. agreementId) (api (projectService_deleteAgreement
      projectId agreementId))))"

subsection \<open>\<open>store/versionSlice.ts\<close>\<close>

record VersionState =
  ver_versions :: "json list"
  ver_loading :: bool
  ver_error :: "string option"
  ver_lastImportResult :: "json option"
  ver_importLoading :: bool
  ver_importError :: "string option"

definition ver_initial :: VersionState where
  "ver_initial = \<lparr>ver_versions = [], ver_loading = False, ver_error = None, ver_lastImportResult = None,
    ver_importLoading = False, ver_importError = None\<rparr>"

definition on_clearVersions :: "VersionState \<Rightarrow> VersionState" where
  "on_clearVersions st = st\<lparr>ver_versions := []\<rparr>"

definition on_clearImportResult :: "VersionState \<Rightarrow> VersionState" where
  "on_clearImportResult st = st\<lparr>ver_lastImportResult := None, ver_importError := None\<rparr>"

definition on_fetchVersions :: "(json list) lifecycle \<Rightarrow> VersionState \<Rightarrow> VersionState" where
  "on_fetchVersions = on_cases
     (\<lambda>st. st\<lparr>ver_loading := True, ver_error := None\<rparr>)
     (\<lambda>p st. st\<lparr>ver_loading := False, ver_versions := p\<rparr>)
     (\<lambda>r st. st\<lparr>ver_loading := False, ver_error := Some (nullish (rj_message r)
       ''Failed to fetch versions'')\<rparr>)"

definition on_recordVersion :: "json lifecycle \<Rightarrow> VersionState \<Rightarrow> VersionState" where
  "on_recordVersion = on_cases
     (\<lambda>st. st\<lparr>ver_loading := True, ver_error := None\<rparr>)
     (\<lambda>p st. st\<lparr>ver_loading := False, ver_versions := ver_versions st @ [p]\<rparr>)
     (\<lambda>r st. st\<lparr>ver_loading := False, ver_error := Some (nullish (rj_message r)
       ''Failed to record version'')\<rparr>)"

definition on_updateVersion :: "json lifecycle \<Rightarrow> VersionState \<Rightarrow> VersionState" where
  "on_updateVersion = on_fulfilled (\<lambda>p st. st\<lparr>ver_versions := put_at_first (\<lambda>x. row_id x =
    row_id p) p (ver_versions st)\<rparr>)"

definition on_deleteVersion :: "int lifecycle \<Rightarrow> VersionState \<Rightarrow> VersionState" where
  "on_deleteVersion = on_fulfilled (\<lambda>p st. st\<lparr>ver_versions := filter (\<lambda>x. row_id x \<noteq>
    J_int p) (ver_versions st)\<rparr>)"

definition on_importEnvironments :: "json lifecycle \<Rightarrow> VersionState \<Rightarrow> VersionState" where
  "on_importEnvironments = on_cases
     (\<lambda>st. st\<lparr>ver_importLoading := True, ver_importError := None, ver_lastImportResult :=
       None\<rparr>)
     (\<lambda>p st. st\<lparr>ver_importLoading := False, ver_lastImportResult := Some p\<rparr>)
     (\<lambda>r st. st\<lparr>ver_importLoading := False, ver_importError := Some (nullish (rj_message r)
       ''Import failed'')\<rparr>)"

definition on_importSystems :: "json lifecycle \<Rightarrow> VersionState \<Rightarrow> VersionState" where
  "on_importSystems = on_cases
     (\<lambda>st. st\<lparr>ver_importLoading := True, ver_importError := None, ver_lastImportResult :=
       None\<rparr>)
     (\<lambda>p st. st\<lparr>ver_importLoading := False, ver_lastImportResult := Some p\<rparr>)
     (\<lambda>r st. st\<lparr>ver_importLoading := False, ver_importError := Some (nullish (rj_message r)
       ''Import failed'')\<rparr>)"

datatype VersionAction =
    FetchVersions "(json list) lifecycle"
  | RecordVersion "json lifecycle"
  | UpdateVersion "json lifecycle"
  | DeleteVersion "int lifecycle"
  | ImportEnvironments "json lifecycle"
  | ImportSystems "json lifecycle"
  | ClearVersions
  | ClearImportResult

fun ver_reducer :: "VersionAction \<Rightarrow> VersionState \<Rightarrow> VersionState" where
  "ver_reducer (FetchVersions l) st = on_fetchVersions l st"
| "ver_reducer (RecordVersion l) st = on_recordVersion l st"
| "ver_reducer (UpdateVersion l) st = on_updateVersion l st"
| "ver_reducer (DeleteVersion l) st = on_deleteVersion l st"
| "ver_reducer (ImportEnvironments l) st = on_importEnvironments l st"
| "ver_reducer (ImportSystems l) st = on_importSystems l st"
| "ver_reducer ClearVersions st = on_clearVersions st"
| "ver_reducer ClearImportResult st = on_clearImportResult st"

definition fetchVersions :: "(call \<Rightarrow> ApiError + json list) \<Rightarrow> int \<Rightarrow> bool option
  \<Rightarrow> VersionAction" where
  "fetchVersions api envId currentOnly = FetchVersions (thunk_plain (api (versionService_listVersions envId
    currentOnly)))"

definition recordVersion :: "(call \<Rightarrow> ApiError + json) \<Rightarrow> int \<Rightarrow> json
  \<Rightarrow> VersionAction" where
  "recordVersion api envId data = RecordVersion (thunk_plain (api (versionService_recordVersion envId data)))"

definition updateVersion :: "(call \<Rightarrow> ApiError + json) \<Rightarrow> int \<Rightarrow> int \<Rightarrow>
  json \<Rightarrow> VersionAction" where
  "updateVersion api envId versionId data = UpdateVersion (thunk_plain (api (versionService_updateVersion envId
    versionId data)))"

definition deleteVersion :: "(call \<Rightarrow> ApiError + unit) \<Rightarrow> int \<Rightarrow> int \<Rightarrow>
  VersionAction" where
  "deleteVersion api envId versionId = DeleteVersion (thunk_plain (map_sum id (\<lambda>_. versionId) (api
    (versionService_deleteVersion envId versionId))))"

definition importEnvironments :: "(call \<Rightarrow> ApiError + json) \<Rightarrow> json \<Rightarrow>
  VersionAction" where
  "importEnvironments api file = ImportEnvironments (thunk_plain (api (versionService_importEnvironments file)))"

definition importSystems :: "(call \<Rightarrow> ApiError + json) \<Rightarrow> json \<Rightarrow> VersionAction"
  where
  "importSystems api file = ImportSystems (thunk_plain (api (versionService_importSystems file)))"

subsection \<open>\<open>store/infrastructureComponentSlice.ts\<close>\<close>

record InfrastructureComponentState =
  inf_components :: "json list"
  inf_total :: int
  inf_loading :: bool
  inf_listLoading :: bool
  inf_error :: "string option"

definition inf_initial :: InfrastructureComponentState where
  "inf_initial = \<lparr>inf_components = [], inf_total = 0, inf_loading = False, inf_listLoading = False,
    inf_error = None\<rparr>"

definition on_fetchInfrastructureComponents :: "(json page) lifecycle \<Rightarrow> InfrastructureComponentState
  \<Rightarrow> InfrastructureComponentState" where
  "on_fetchInfrastructureComponents = on_cases
     (\<lambda>st. st\<lparr>inf_listLoading := True, inf_error := None\<rparr>)
     (\<lambda>p st. st\<lparr>inf_components := pg_rows p, inf_total := pg_total p, inf_listLoading :=
       False\<rparr>)
     (\<lambda>r st. if rj_aborted r then st else st\<lparr>inf_listLoading := False, inf_error := Some (nullish
       (rj_message r) ''Failed to fetch hosts'')\<rparr>)"

definition on_createInfrastructureComponent :: "json lifecycle \<Rightarrow> InfrastructureComponentState
  \<Rightarrow> InfrastructureComponentState" where
  "on_createInfrastructureComponent = on_fulfilled (\<lambda>p st. st)"

definition on_updateInfrastructureComponent :: "json lifecycle \<Rightarrow> InfrastructureComponentState
  \<Rightarrow> InfrastructureComponentState" where
  "on_updateInfrastructureComponent = on_fulfilled (\<lambda>p st. st)"

definition on_deleteInfrastructureComponent :: "int lifecycle \<Rightarrow> InfrastructureComponentState
  \<Rightarrow> InfrastructureComponentState" where
  "on_deleteInfrastructureComponent = on_fulfilled (\<lambda>p st. st)"

datatype InfrastructureComponentAction =
    FetchInfrastructureComponents "(json page) lifecycle"
  | CreateInfrastructureComponent "json lifecycle"
  | UpdateInfrastructureComponent "json lifecycle"
  | DeleteInfrastructureComponent "int lifecycle"
  | SetEnvSubsystemHosts "json lifecycle"

fun inf_reducer :: "InfrastructureComponentAction \<Rightarrow> InfrastructureComponentState \<Rightarrow>
  InfrastructureComponentState" where
  "inf_reducer (FetchInfrastructureComponents l) st = on_fetchInfrastructureComponents l st"
| "inf_reducer (CreateInfrastructureComponent l) st = on_createInfrastructureComponent l st"
| "inf_reducer (UpdateInfrastructureComponent l) st = on_updateInfrastructureComponent l st"
| "inf_reducer (DeleteInfrastructureComponent l) st = on_deleteInfrastructureComponent l st"
| "inf_reducer (SetEnvSubsystemHosts l) st = st"

definition fetchInfrastructureComponents :: "(call \<Rightarrow> ApiError + json page) \<Rightarrow> query option
  \<Rightarrow> InfrastructureComponentAction" where
  "fetchInfrastructureComponents api params = FetchInfrastructureComponents (thunk_plain (api
    (infrastructureComponentService_listComponents params)))"

definition createInfrastructureComponent :: "(call \<Rightarrow> ApiError + json) \<Rightarrow> json \<Rightarrow>
  InfrastructureComponentAction" where
  "createInfrastructureComponent api data = CreateInfrastructureComponent (thunk_plain (api
    (infrastructureComponentService_createComponent data)))"

definition updateInfrastructureComponent :: "(call \<Rightarrow> ApiError + json) \<Rightarrow> int \<Rightarrow>
  json \<Rightarrow> InfrastructureComponentAction" where
  "updateInfrastructureComponent api id' data = UpdateInfrastructureComponent (thunk_plain (api
    (infrastructureComponentService_updateComponent id' data)))"

definition deleteInfrastructureComponent :: "(call \<Rightarrow> ApiError + unit) \<Rightarrow> int \<Rightarrow>
  InfrastructureComponentAction" where
  "deleteInfrastructureComponent api id' = DeleteInfrastructureComponent (thunk_plain (map_sum id (\<lambda>_. id')
    (api (infrastructureComponentService_deleteComponent id'))))"

definition setEnvSubsystemHosts :: "(call \<Rightarrow> ApiError + json) \<Rightarrow> int \<Rightarrow> int
  \<Rightarrow> json \<Rightarrow> InfrastructureComponentAction" where
  "setEnvSubsystemHosts api envId subsystemId attachments = SetEnvSubsystemHosts (thunk_plain (api
    (infrastructureComponentService_setEnvSubsystemHosts envId subsystemId attachments)))"

end
