(* ===== verification/SystemSlices.thy ===== *)
theory SystemSlices
  imports SliceKit ServiceCalls
begin

text \<open>
  The slices of systems: systems with their subsystems, dependencies, builds, deployments and the topology.
  A slice is its state with its initial value, one definition per thunk with the call it makes, one
  definition per thunk for its \<open>pending\<close>, \<open>fulfilled\<close> and \<open>rejected\<close> cases,
    and the reducer that
  dispatches to them. A thunk takes the outcome of a call as the parameter \<open>api\<close>.
\<close>

subsection \<open>\<open>store/systemSlice.ts\<close>\<close>

record SystemState =
  sys_systems :: "json list"
  sys_total :: int
  sys_currentSystem :: "json option"
  sys_subsystems :: "json list"
  sys_currentSubSystem :: "json option"
  sys_loading :: bool
  sys_listLoading :: bool
  sys_error :: "string option"

definition sys_initial :: SystemState where
  "sys_initial = \<lparr>sys_systems = [], sys_total = 0, sys_currentSystem = None, sys_subsystems = [],
    sys_currentSubSystem = None, sys_loading = False, sys_listLoading = False, sys_error = None\<rparr>"

definition on_fetchSystems :: "(json page) lifecycle \<Rightarrow> SystemState \<Rightarrow> SystemState" where
  "on_fetchSystems = on_cases
     (\<lambda>st. st\<lparr>sys_listLoading := True, sys_error := None\<rparr>)
     (\<lambda>p st. st\<lparr>sys_systems := pg_rows p, sys_total := pg_total p, sys_listLoading := False\<rparr>)
     (\<lambda>r st. if rj_aborted r then st else st\<lparr>sys_listLoading := False, sys_error := Some (nullish
       (rj_message r) ''Failed to fetch systems'')\<rparr>)"

definition on_fetchSystem :: "json lifecycle \<Rightarrow> SystemState \<Rightarrow> SystemState" where
  "on_fetchSystem = on_cases
     (\<lambda>st. st\<lparr>sys_loading := True, sys_error := None\<rparr>)
     (\<lambda>p st. st\<lparr>sys_currentSystem := Some p, sys_loading := False\<rparr>)
     (\<lambda>r st. st\<lparr>sys_loading := False, sys_error := Some (nullish (rj_message r)
       ''Failed to fetch system'')\<rparr>)"

definition on_createSystem :: "json lifecycle \<Rightarrow> SystemState \<Rightarrow> SystemState" where
  "on_createSystem = on_cases
     (\<lambda>st. st\<lparr>sys_loading := True, sys_error := None\<rparr>)
     (\<lambda>p st. st\<lparr>sys_loading := False\<rparr>)
     (\<lambda>r st. st\<lparr>sys_loading := False, sys_error := Some (nullish (rj_message r)
       ''Failed to create system'')\<rparr>)"

definition on_updateSystem :: "json lifecycle \<Rightarrow> SystemState \<Rightarrow> SystemState" where
  "on_updateSystem = on_cases
     (\<lambda>st. st\<lparr>sys_loading := True, sys_error := None\<rparr>)
     (\<lambda>p st. st\<lparr>sys_currentSystem := (if is_row (row_id p) (sys_currentSystem st) then Some p else
       sys_currentSystem st), sys_loading := False\<rparr>)
     (\<lambda>r st. st\<lparr>sys_loading := False, sys_error := Some (nullish (rj_message r)
       ''Failed to update system'')\<rparr>)"

definition on_deleteSystem :: "int lifecycle \<Rightarrow> SystemState \<Rightarrow> SystemState" where
  "on_deleteSystem = on_cases
     (\<lambda>st. st\<lparr>sys_loading := True, sys_error := None\<rparr>)
     (\<lambda>p st. st\<lparr>sys_currentSystem := (if is_row (J_int p) (sys_currentSystem st) then None else
       sys_currentSystem st), sys_loading := False\<rparr>)
     (\<lambda>r st. st\<lparr>sys_loading := False, sys_error := Some (nullish (rj_message r)
       ''Failed to delete system'')\<rparr>)"

definition on_fetchSubSystems :: "(json list) lifecycle \<Rightarrow> SystemState \<Rightarrow> SystemState" where
  "on_fetchSubSystems = on_cases
     (\<lambda>st. st\<lparr>sys_loading := True, sys_error := None\<rparr>)
     (\<lambda>p st. st\<lparr>sys_subsystems := p, sys_loading := False\<rparr>)
     (\<lambda>r st. st\<lparr>sys_loading := False, sys_error := Some (nullish (rj_message r)
       ''Failed to fetch subsystems'')\<rparr>)"

definition on_createSubSystem :: "json lifecycle \<Rightarrow> SystemState \<Rightarrow> SystemState" where
  "on_createSubSystem = on_cases
     (\<lambda>st. st\<lparr>sys_loading := True, sys_error := None\<rparr>)
     (\<lambda>p st. st\<lparr>sys_subsystems := sys_subsystems st @ [p], sys_loading := False\<rparr>)
     (\<lambda>r st. st\<lparr>sys_loading := False, sys_error := Some (nullish (rj_message r)
       ''Failed to create subsystem'')\<rparr>)"

definition on_updateSubSystem :: "json lifecycle \<Rightarrow> SystemState \<Rightarrow> SystemState" where
  "on_updateSubSystem = on_cases
     (\<lambda>st. st\<lparr>sys_loading := True, sys_error := None\<rparr>)
     (\<lambda>p st. st\<lparr>sys_subsystems := put_at_first (\<lambda>x. row_id x = row_id p) p (sys_subsystems
       st), sys_loading := False\<rparr>)
     (\<lambda>r st. st\<lparr>sys_loading := False, sys_error := Some (nullish (rj_message r)
       ''Failed to update subsystem'')\<rparr>)"

definition on_fetchSubSystem :: "json lifecycle \<Rightarrow> SystemState \<Rightarrow> SystemState" where
  "on_fetchSubSystem = on_cases
     (\<lambda>st. st\<lparr>sys_loading := True, sys_error := None\<rparr>)
     (\<lambda>p st. st\<lparr>sys_currentSubSystem := Some p, sys_loading := False\<rparr>)
     (\<lambda>r st. st\<lparr>sys_loading := False, sys_error := Some (nullish (rj_message r)
       ''Failed to fetch subsystem'')\<rparr>)"

definition on_deleteSubSystem :: "int lifecycle \<Rightarrow> SystemState \<Rightarrow> SystemState" where
  "on_deleteSubSystem = on_cases
     (\<lambda>st. st\<lparr>sys_loading := True, sys_error := None\<rparr>)
     (\<lambda>p st. st\<lparr>sys_subsystems := filter (\<lambda>x. row_id x \<noteq> J_int p) (sys_subsystems
       st), sys_loading := False\<rparr>)
     (\<lambda>r st. st\<lparr>sys_loading := False, sys_error := Some (nullish (rj_message r)
       ''Failed to delete subsystem'')\<rparr>)"

datatype SystemAction =
    FetchSystems "(json page) lifecycle"
  | FetchSystem "json lifecycle"
  | CreateSystem "json lifecycle"
  | UpdateSystem "json lifecycle"
  | DeleteSystem "int lifecycle"
  | FetchSubSystems "(json list) lifecycle"
  | CreateSubSystem "json lifecycle"
  | UpdateSubSystem "json lifecycle"
  | FetchSubSystem "json lifecycle"
  | DeleteSubSystem "int lifecycle"

fun sys_reducer :: "SystemAction \<Rightarrow> SystemState \<Rightarrow> SystemState" where
  "sys_reducer (FetchSystems l) st = on_fetchSystems l st"
| "sys_reducer (FetchSystem l) st = on_fetchSystem l st"
| "sys_reducer (CreateSystem l) st = on_createSystem l st"
| "sys_reducer (UpdateSystem l) st = on_updateSystem l st"
| "sys_reducer (DeleteSystem l) st = on_deleteSystem l st"
| "sys_reducer (FetchSubSystems l) st = on_fetchSubSystems l st"
| "sys_reducer (CreateSubSystem l) st = on_createSubSystem l st"
| "sys_reducer (UpdateSubSystem l) st = on_updateSubSystem l st"
| "sys_reducer (FetchSubSystem l) st = on_fetchSubSystem l st"
| "sys_reducer (DeleteSubSystem l) st = on_deleteSubSystem l st"

definition fetchSystems :: "(call \<Rightarrow> ApiError + json page) \<Rightarrow> query option \<Rightarrow>
  SystemAction" where
  "fetchSystems api params = FetchSystems (thunk_plain (api (systemService_listSystems params)))"

definition fetchSystem :: "(call \<Rightarrow> ApiError + json) \<Rightarrow> int \<Rightarrow> SystemAction" where
  "fetchSystem api id' = FetchSystem (thunk_plain (api (systemService_getSystem id')))"

definition createSystem :: "(call \<Rightarrow> ApiError + json) \<Rightarrow> json \<Rightarrow> SystemAction"
  where
  "createSystem api data = CreateSystem (thunk_plain (api (systemService_createSystem data)))"

definition updateSystem :: "(call \<Rightarrow> ApiError + json) \<Rightarrow> int \<Rightarrow> json \<Rightarrow>
  SystemAction" where
  "updateSystem api id' data = UpdateSystem (thunk_plain (api (systemService_updateSystem id' data)))"

definition deleteSystem :: "(call \<Rightarrow> ApiError + unit) \<Rightarrow> int \<Rightarrow> SystemAction" where
  "deleteSystem api id' = DeleteSystem (thunk_plain (map_sum id (\<lambda>_. id') (api (systemService_deleteSystem
    id'))))"

definition fetchSubSystems :: "(call \<Rightarrow> ApiError + json list) \<Rightarrow> int \<Rightarrow>
  SystemAction" where
  "fetchSubSystems api systemId = FetchSubSystems (thunk_plain (api (systemService_listSubSystems systemId)))"

definition createSubSystem :: "(call \<Rightarrow> ApiError + json) \<Rightarrow> int \<Rightarrow> json
  \<Rightarrow> SystemAction" where
  "createSubSystem api systemId data = CreateSubSystem (thunk_plain (api (systemService_createSubSystem systemId
    data)))"

definition updateSubSystem :: "(call \<Rightarrow> ApiError + json) \<Rightarrow> int \<Rightarrow> int
  \<Rightarrow> json \<Rightarrow> SystemAction" where
  "updateSubSystem api systemId subId data = UpdateSubSystem (thunk_plain (api (systemService_updateSubSystem
    systemId subId data)))"

definition fetchSubSystem :: "(call \<Rightarrow> ApiError + json) \<Rightarrow> int \<Rightarrow> int
  \<Rightarrow> SystemAction" where
  "fetchSubSystem api systemId subId = FetchSubSystem (thunk_plain (api (systemService_getSubSystem systemId
    subId)))"

definition deleteSubSystem :: "(call \<Rightarrow> ApiError + unit) \<Rightarrow> int \<Rightarrow> int
  \<Rightarrow> SystemAction" where
  "deleteSubSystem api systemId subId = DeleteSubSystem (thunk_plain (map_sum id (\<lambda>_. subId) (api
    (systemService_deleteSubSystem systemId subId))))"

subsection \<open>\<open>store/dependencySlice.ts\<close>\<close>

record DependencyState =
  dep_systemDependencies :: "json list"
  dep_componentDependencies :: "json list"
  dep_verifyResult :: "json option"
  dep_loading :: bool
  dep_error :: "string option"

definition dep_initial :: DependencyState where
  "dep_initial = \<lparr>dep_systemDependencies = [], dep_componentDependencies = [], dep_verifyResult = None,
    dep_loading = False, dep_error = None\<rparr>"

definition on_clearVerifyResult :: "DependencyState \<Rightarrow> DependencyState" where
  "on_clearVerifyResult st = st\<lparr>dep_verifyResult := None\<rparr>"

definition on_fetchSystemDependencies :: "(json list) lifecycle \<Rightarrow> DependencyState \<Rightarrow>
  DependencyState" where
  "on_fetchSystemDependencies = on_cases
     (\<lambda>st. st\<lparr>dep_loading := True, dep_error := None\<rparr>)
     (\<lambda>p st. st\<lparr>dep_loading := False, dep_systemDependencies := p\<rparr>)
     (\<lambda>r st. st\<lparr>dep_loading := False, dep_error := Some (nullish (rj_message r)
       ''Failed to load system dependencies'')\<rparr>)"

definition on_createSystemDependency :: "json lifecycle \<Rightarrow> DependencyState \<Rightarrow>
  DependencyState" where
  "on_createSystemDependency = on_cases
     (\<lambda>st. st\<lparr>dep_loading := True, dep_error := None\<rparr>)
     (\<lambda>p st. st\<lparr>dep_loading := False, dep_systemDependencies := dep_systemDependencies st @
       [p]\<rparr>)
     (\<lambda>r st. st\<lparr>dep_loading := False, dep_error := Some (nullish (rj_message r)
       ''Failed to create dependency'')\<rparr>)"

definition on_deleteSystemDependency :: "int lifecycle \<Rightarrow> DependencyState \<Rightarrow> DependencyState"
  where
  "on_deleteSystemDependency = on_cases
     (\<lambda>st. st\<lparr>dep_loading := True, dep_error := None\<rparr>)
     (\<lambda>p st. st\<lparr>dep_loading := False, dep_systemDependencies := filter (\<lambda>x. row_id x
       \<noteq> J_int p) (dep_systemDependencies st)\<rparr>)
     (\<lambda>r st. st\<lparr>dep_loading := False, dep_error := Some (nullish (rj_message r)
       ''Failed to delete dependency'')\<rparr>)"

definition on_updateSystemDependency :: "json lifecycle \<Rightarrow> DependencyState \<Rightarrow>
  DependencyState" where
  "on_updateSystemDependency = on_cases
     (\<lambda>st. st\<lparr>dep_loading := True, dep_error := None\<rparr>)
     (\<lambda>p st. st\<lparr>dep_loading := False, dep_systemDependencies := put_at_first (\<lambda>x. row_id x =
       row_id p) p (dep_systemDependencies st)\<rparr>)
     (\<lambda>r st. st\<lparr>dep_loading := False, dep_error := Some (nullish (rj_message r)
       ''Failed to update dependency'')\<rparr>)"

definition on_fetchComponentDependencies :: "(json list) lifecycle \<Rightarrow> DependencyState \<Rightarrow>
  DependencyState" where
  "on_fetchComponentDependencies = on_cases
     (\<lambda>st. st\<lparr>dep_loading := True, dep_error := None\<rparr>)
     (\<lambda>p st. st\<lparr>dep_loading := False, dep_componentDependencies := p\<rparr>)
     (\<lambda>r st. st\<lparr>dep_loading := False, dep_error := Some (nullish (rj_message r)
       ''Failed to load component dependencies'')\<rparr>)"

definition on_createComponentDependency :: "json lifecycle \<Rightarrow> DependencyState \<Rightarrow>
  DependencyState" where
  "on_createComponentDependency = on_cases
     (\<lambda>st. st\<lparr>dep_loading := True, dep_error := None\<rparr>)
     (\<lambda>p st. st\<lparr>dep_loading := False, dep_componentDependencies := dep_componentDependencies st @
       [p]\<rparr>)
     (\<lambda>r st. st\<lparr>dep_loading := False, dep_error := Some (nullish (rj_message r)
       ''Failed to create component dependency'')\<rparr>)"

definition on_deleteComponentDependency :: "int lifecycle \<Rightarrow> DependencyState \<Rightarrow>
  DependencyState" where
  "on_deleteComponentDependency = on_cases
     (\<lambda>st. st\<lparr>dep_loading := True, dep_error := None\<rparr>)
     (\<lambda>p st. st\<lparr>dep_loading := False, dep_componentDependencies := filter (\<lambda>x. row_id x
       \<noteq> J_int p) (dep_componentDependencies st)\<rparr>)
     (\<lambda>r st. st\<lparr>dep_loading := False, dep_error := Some (nullish (rj_message r)
       ''Failed to delete component dependency'')\<rparr>)"

definition on_updateComponentDependency :: "json lifecycle \<Rightarrow> DependencyState \<Rightarrow>
  DependencyState" where
  "on_updateComponentDependency = on_cases
     (\<lambda>st. st\<lparr>dep_loading := True, dep_error := None\<rparr>)
     (\<lambda>p st. st\<lparr>dep_loading := False, dep_componentDependencies := put_at_first (\<lambda>x. row_id
       x = row_id p) p (dep_componentDependencies st)\<rparr>)
     (\<lambda>r st. st\<lparr>dep_loading := False, dep_error := Some (nullish (rj_message r)
       ''Failed to update component dependency'')\<rparr>)"

definition on_verifyEnvironment :: "json lifecycle \<Rightarrow> DependencyState \<Rightarrow> DependencyState"
  where
  "on_verifyEnvironment = on_cases
     (\<lambda>st. st\<lparr>dep_loading := True, dep_error := None\<rparr>)
     (\<lambda>p st. st\<lparr>dep_loading := False, dep_verifyResult := Some p\<rparr>)
     (\<lambda>r st. st\<lparr>dep_loading := False, dep_error := Some (nullish (rj_message r)
       ''Failed to verify environment'')\<rparr>)"

datatype DependencyAction =
    FetchSystemDependencies "(json list) lifecycle"
  | CreateSystemDependency "json lifecycle"
  | DeleteSystemDependency "int lifecycle"
  | UpdateSystemDependency "json lifecycle"
  | FetchComponentDependencies "(json list) lifecycle"
  | CreateComponentDependency "json lifecycle"
  | DeleteComponentDependency "int lifecycle"
  | UpdateComponentDependency "json lifecycle"
  | VerifyEnvironment "json lifecycle"
  | ClearVerifyResult

fun dep_reducer :: "DependencyAction \<Rightarrow> DependencyState \<Rightarrow> DependencyState" where
  "dep_reducer (FetchSystemDependencies l) st = on_fetchSystemDependencies l st"
| "dep_reducer (CreateSystemDependency l) st = on_createSystemDependency l st"
| "dep_reducer (DeleteSystemDependency l) st = on_deleteSystemDependency l st"
| "dep_reducer (UpdateSystemDependency l) st = on_updateSystemDependency l st"
| "dep_reducer (FetchComponentDependencies l) st = on_fetchComponentDependencies l st"
| "dep_reducer (CreateComponentDependency l) st = on_createComponentDependency l st"
| "dep_reducer (DeleteComponentDependency l) st = on_deleteComponentDependency l st"
| "dep_reducer (UpdateComponentDependency l) st = on_updateComponentDependency l st"
| "dep_reducer (VerifyEnvironment l) st = on_verifyEnvironment l st"
| "dep_reducer ClearVerifyResult st = on_clearVerifyResult st"

definition fetchSystemDependencies :: "(call \<Rightarrow> ApiError + json list) \<Rightarrow> int \<Rightarrow>
  DependencyAction" where
  "fetchSystemDependencies api systemId = FetchSystemDependencies (thunk_plain (api
    (dependencyService_listSystemDependencies systemId)))"

definition createSystemDependency :: "(call \<Rightarrow> ApiError + json) \<Rightarrow> int \<Rightarrow> json
  \<Rightarrow> DependencyAction" where
  "createSystemDependency api systemId data = CreateSystemDependency (thunk_plain (api
    (dependencyService_createSystemDependency systemId data)))"

definition deleteSystemDependency :: "(call \<Rightarrow> ApiError + unit) \<Rightarrow> int \<Rightarrow> int
  \<Rightarrow> DependencyAction" where
  "deleteSystemDependency api systemId depId = DeleteSystemDependency (thunk_plain (map_sum id (\<lambda>_. depId)
    (api (dependencyService_deleteSystemDependency systemId depId))))"

definition updateSystemDependency :: "(call \<Rightarrow> ApiError + json) \<Rightarrow> int \<Rightarrow> int
  \<Rightarrow> json \<Rightarrow> DependencyAction" where
  "updateSystemDependency api systemId depId data = UpdateSystemDependency (thunk_plain (api
    (dependencyService_updateSystemDependency systemId depId data)))"

definition fetchComponentDependencies :: "(call \<Rightarrow> ApiError + json list) \<Rightarrow> int \<Rightarrow>
  DependencyAction" where
  "fetchComponentDependencies api subsystemId = FetchComponentDependencies (thunk_plain (api
    (dependencyService_listComponentDependencies subsystemId)))"

definition createComponentDependency :: "(call \<Rightarrow> ApiError + json) \<Rightarrow> int \<Rightarrow> json
  \<Rightarrow> DependencyAction" where
  "createComponentDependency api subsystemId data = CreateComponentDependency (thunk_plain (api
    (dependencyService_createComponentDependency subsystemId data)))"

definition deleteComponentDependency :: "(call \<Rightarrow> ApiError + unit) \<Rightarrow> int \<Rightarrow> int
  \<Rightarrow> DependencyAction" where
  "deleteComponentDependency api subsystemId depId = DeleteComponentDependency (thunk_plain (map_sum id
    (\<lambda>_. depId) (api (dependencyService_deleteComponentDependency subsystemId depId))))"

definition updateComponentDependency :: "(call \<Rightarrow> ApiError + json) \<Rightarrow> int \<Rightarrow> int
  \<Rightarrow> json \<Rightarrow> DependencyAction" where
  "updateComponentDependency api subsystemId depId data = UpdateComponentDependency (thunk_plain (api
    (dependencyService_updateComponentDependency subsystemId depId data)))"

definition verifyEnvironment :: "(call \<Rightarrow> ApiError + json) \<Rightarrow> int \<Rightarrow>
  DependencyAction" where
  "verifyEnvironment api envId = VerifyEnvironment (thunk_plain (api (dependencyService_verifyEnvironment envId)))"

subsection \<open>\<open>store/buildSlice.ts\<close>\<close>

record BuildState =
  bld_items :: "json list"
  bld_total :: int
  bld_current :: "json option"
  bld_loading :: bool
  bld_listLoading :: bool
  bld_error :: "string option"

definition bld_initial :: BuildState where
  "bld_initial = \<lparr>bld_items = [], bld_total = 0, bld_current = None, bld_loading = False, bld_listLoading =
    False, bld_error = None\<rparr>"

definition on_fetchBuilds :: "(json page) lifecycle \<Rightarrow> BuildState \<Rightarrow> BuildState" where
  "on_fetchBuilds = on_cases
     (\<lambda>st. st\<lparr>bld_listLoading := True, bld_error := None\<rparr>)
     (\<lambda>p st. st\<lparr>bld_listLoading := False, bld_items := pg_rows p, bld_total := pg_total p\<rparr>)
     (\<lambda>r st. if rj_aborted r then st else st\<lparr>bld_listLoading := False, bld_error := Some (nullish
       (rj_payload r) (nullish (rj_message r) ''Failed to load builds''))\<rparr>)"

definition on_fetchBuildById :: "json lifecycle \<Rightarrow> BuildState \<Rightarrow> BuildState" where
  "on_fetchBuildById = on_fulfilled (\<lambda>p st. st\<lparr>bld_current := Some p\<rparr>)"

datatype BuildAction =
    FetchBuilds "(json page) lifecycle"
  | FetchBuildById "json lifecycle"

fun bld_reducer :: "BuildAction \<Rightarrow> BuildState \<Rightarrow> BuildState" where
  "bld_reducer (FetchBuilds l) st = on_fetchBuilds l st"
| "bld_reducer (FetchBuildById l) st = on_fetchBuildById l st"

definition fetchBuilds :: "(call \<Rightarrow> ApiError + json page) \<Rightarrow> query option \<Rightarrow>
  BuildAction" where
  "fetchBuilds api filters = FetchBuilds (thunk_with ''Failed to load builds'' (api (buildService_list filters)))"

definition fetchBuildById :: "(call \<Rightarrow> ApiError + json) \<Rightarrow> int \<Rightarrow> BuildAction"
  where
  "fetchBuildById api id' = FetchBuildById (thunk_plain (api (buildService_get id')))"

subsection \<open>\<open>store/deploymentSlice.ts\<close>\<close>

record DeploymentState =
  dpl_items :: "json list"
  dpl_total :: int
  dpl_byBuild :: "(int, json list) jmap"
  dpl_current :: "json option"
  dpl_loading :: bool
  dpl_listLoading :: bool
  dpl_error :: "string option"

definition dpl_initial :: DeploymentState where
  "dpl_initial = \<lparr>dpl_items = [], dpl_total = 0, dpl_byBuild = [], dpl_current = None, dpl_loading = False,
    dpl_listLoading = False, dpl_error = None\<rparr>"

definition on_fetchDeployments :: "(json page) lifecycle \<Rightarrow> DeploymentState \<Rightarrow>
  DeploymentState" where
  "on_fetchDeployments = on_cases
     (\<lambda>st. st\<lparr>dpl_listLoading := True, dpl_error := None\<rparr>)
     (\<lambda>p st. st\<lparr>dpl_listLoading := False, dpl_items := pg_rows p, dpl_total := pg_total p\<rparr>)
     (\<lambda>r st. if rj_aborted r then st else st\<lparr>dpl_listLoading := False, dpl_error := Some (nullish
       (rj_payload r) (nullish (rj_message r) ''Failed to load deployments''))\<rparr>)"

definition on_fetchDeploymentById :: "json lifecycle \<Rightarrow> DeploymentState \<Rightarrow> DeploymentState"
  where
  "on_fetchDeploymentById = on_fulfilled (\<lambda>p st. st\<lparr>dpl_current := Some p\<rparr>)"

definition on_fetchDeploymentsByBuild :: "int \<Rightarrow> (json page) lifecycle \<Rightarrow> DeploymentState
  \<Rightarrow> DeploymentState" where
  "on_fetchDeploymentsByBuild arg = on_fulfilled (\<lambda>p st. st\<lparr>dpl_byBuild := jm_set arg (pg_rows p)
    (dpl_byBuild st)\<rparr>)"

definition on_linkDeploymentChange :: "json lifecycle \<Rightarrow> DeploymentState \<Rightarrow> DeploymentState"
  where
  "on_linkDeploymentChange = on_fulfilled (\<lambda>p st. st\<lparr>dpl_current := Some p, dpl_items := map
    (\<lambda>x. if row_id x = row_id p then p else x) (dpl_items st)\<rparr>)"

datatype DeploymentAction =
    FetchDeployments "(json page) lifecycle"
  | FetchDeploymentById "json lifecycle"
  | FetchDeploymentsByBuild int "(json page) lifecycle"
  | LinkDeploymentChange "json lifecycle"

fun dpl_reducer :: "DeploymentAction \<Rightarrow> DeploymentState \<Rightarrow> DeploymentState" where
  "dpl_reducer (FetchDeployments l) st = on_fetchDeployments l st"
| "dpl_reducer (FetchDeploymentById l) st = on_fetchDeploymentById l st"
| "dpl_reducer (FetchDeploymentsByBuild arg l) st = on_fetchDeploymentsByBuild arg l st"
| "dpl_reducer (LinkDeploymentChange l) st = on_linkDeploymentChange l st"

definition fetchDeployments :: "(call \<Rightarrow> ApiError + json page) \<Rightarrow> query option \<Rightarrow>
  DeploymentAction" where
  "fetchDeployments api filters = FetchDeployments (thunk_with ''Failed to load deployments'' (api
    (deploymentService_list filters)))"

definition fetchDeploymentById :: "(call \<Rightarrow> ApiError + json) \<Rightarrow> int \<Rightarrow>
  DeploymentAction" where
  "fetchDeploymentById api id' = FetchDeploymentById (thunk_plain (api (deploymentService_get id')))"

definition fetchDeploymentsByBuild :: "(call \<Rightarrow> ApiError + json page) \<Rightarrow> int \<Rightarrow>
  DeploymentAction" where
  "fetchDeploymentsByBuild api buildId = FetchDeploymentsByBuild buildId (thunk_plain (api (deploymentService_list
    (Some [(''build_id'', J_int buildId)]))))"

definition linkDeploymentChange :: "(call \<Rightarrow> ApiError + json) \<Rightarrow> int \<Rightarrow> json
  \<Rightarrow> DeploymentAction" where
  "linkDeploymentChange api id' data = LinkDeploymentChange (thunk_plain (api (deploymentService_linkChange id'
    data)))"

subsection \<open>\<open>store/topologySlice.ts\<close>\<close>

record TopologyState =
  tpo_data :: "json option"
  tpo_loading :: bool
  tpo_error :: "string option"

definition tpo_initial :: TopologyState where
  "tpo_initial = \<lparr>tpo_data = None, tpo_loading = False, tpo_error = None\<rparr>"

definition on_clearTopology :: "TopologyState \<Rightarrow> TopologyState" where
  "on_clearTopology st = st\<lparr>tpo_data := None, tpo_error := None, tpo_loading := False\<rparr>"

definition on_fetchTopology :: "json lifecycle \<Rightarrow> TopologyState \<Rightarrow> TopologyState" where
  "on_fetchTopology = on_cases
     (\<lambda>st. st\<lparr>tpo_loading := True, tpo_error := None\<rparr>)
     (\<lambda>p st. st\<lparr>tpo_loading := False, tpo_data := Some p\<rparr>)
     (\<lambda>r st. st\<lparr>tpo_loading := False, tpo_error := Some (nullish (rj_message r)
       ''Failed to load topology'')\<rparr>)"

datatype TopologyAction =
    FetchTopology "json lifecycle"
  | ClearTopology

fun tpo_reducer :: "TopologyAction \<Rightarrow> TopologyState \<Rightarrow> TopologyState" where
  "tpo_reducer (FetchTopology l) st = on_fetchTopology l st"
| "tpo_reducer ClearTopology st = on_clearTopology st"

definition fetchTopology :: "(call \<Rightarrow> ApiError + json) \<Rightarrow> int \<Rightarrow> TopologyAction"
  where
  "fetchTopology api systemId = FetchTopology (thunk_plain (api (getSystemTopology systemId)))"

end
