(* ===== verification/RecordSlices.thy ===== *)
theory RecordSlices
  imports SliceKit ServiceCalls
begin

text \<open>
  The slices of the records a release collects: change requests, incidents, RAID items, go/no-go decisions,
  booking requests, the contention forecast, the work queues of the user and rollback plans.
  A slice is its state with its initial value, one definition per thunk with the call it makes, one
  definition per thunk for its \<open>pending\<close>, \<open>fulfilled\<close> and \<open>rejected\<close> cases,
    and the reducer that
  dispatches to them. A thunk takes the outcome of a call as the parameter \<open>api\<close>.
\<close>

subsection \<open>\<open>store/changeRequestSlice.ts\<close>\<close>

record ChangeRequestState =
  crq_list :: "json list"
  crq_total :: int
  crq_detail :: "json option"
  crq_loading :: bool
  crq_listLoading :: bool
  crq_error :: "string option"
  crq_filters :: query

definition crq_initial :: ChangeRequestState where
  "crq_initial = \<lparr>crq_list = [], crq_total = 0, crq_detail = None, crq_loading = False, crq_listLoading =
    False, crq_error = None, crq_filters = []\<rparr>"

definition on_setFilters :: "query \<Rightarrow> ChangeRequestState \<Rightarrow> ChangeRequestState" where
  "on_setFilters p st = st\<lparr>crq_filters := p\<rparr>"

definition on_clearDetail_crq :: "ChangeRequestState \<Rightarrow> ChangeRequestState" where
  "on_clearDetail_crq st = st\<lparr>crq_detail := None\<rparr>"

definition on_fetchChangeRequests :: "(json page) lifecycle \<Rightarrow> ChangeRequestState \<Rightarrow>
  ChangeRequestState" where
  "on_fetchChangeRequests = on_cases
     (\<lambda>st. st\<lparr>crq_listLoading := True, crq_error := None\<rparr>)
     (\<lambda>p st. st\<lparr>crq_list := pg_rows p, crq_total := pg_total p, crq_listLoading := False\<rparr>)
     (\<lambda>r st. if rj_aborted r then st else st\<lparr>crq_listLoading := False, crq_error := Some (nullish
       (rj_message r) ''Failed to load change requests'')\<rparr>)"

definition on_fetchChangeRequest :: "json lifecycle \<Rightarrow> ChangeRequestState \<Rightarrow>
  ChangeRequestState" where
  "on_fetchChangeRequest = on_cases
     (\<lambda>st. st\<lparr>crq_loading := True, crq_error := None\<rparr>)
     (\<lambda>p st. st\<lparr>crq_loading := False, crq_detail := Some p\<rparr>)
     (\<lambda>r st. st\<lparr>crq_loading := False, crq_error := Some (nullish (rj_message r)
       ''Failed to load change request'')\<rparr>)"

definition on_updateChangeRequest :: "json lifecycle \<Rightarrow> ChangeRequestState \<Rightarrow>
  ChangeRequestState" where
  "on_updateChangeRequest = on_fulfilled (\<lambda>p st. st\<lparr>crq_detail := (if is_row (row_id p) (crq_detail
    st) then map_option (\<lambda>d. merge_row d p) (crq_detail st) else crq_detail st)\<rparr>)"

definition on_transitionChangeRequest :: "json lifecycle \<Rightarrow> ChangeRequestState \<Rightarrow>
  ChangeRequestState" where
  "on_transitionChangeRequest = on_fulfilled (\<lambda>p st. st\<lparr>crq_detail := (if is_row (row_id p)
    (crq_detail st) then map_option (\<lambda>d. merge_row d p) (crq_detail st) else crq_detail st)\<rparr>)"

definition on_deleteChangeRequest :: "int lifecycle \<Rightarrow> ChangeRequestState \<Rightarrow>
  ChangeRequestState" where
  "on_deleteChangeRequest = on_fulfilled (\<lambda>p st. st\<lparr>crq_detail := (if is_row (J_int p) (crq_detail
    st) then None else crq_detail st)\<rparr>)"

datatype ChangeRequestAction =
    FetchChangeRequests "(json page) lifecycle"
  | FetchChangeRequest "json lifecycle"
  | CreateChangeRequest "json lifecycle"
  | UpdateChangeRequest "json lifecycle"
  | TransitionChangeRequest "json lifecycle"
  | DeleteChangeRequest "int lifecycle"
  | SetFilters query
  | ClearDetail_crq

fun crq_reducer :: "ChangeRequestAction \<Rightarrow> ChangeRequestState \<Rightarrow> ChangeRequestState" where
  "crq_reducer (FetchChangeRequests l) st = on_fetchChangeRequests l st"
| "crq_reducer (FetchChangeRequest l) st = on_fetchChangeRequest l st"
| "crq_reducer (CreateChangeRequest l) st = st"
| "crq_reducer (UpdateChangeRequest l) st = on_updateChangeRequest l st"
| "crq_reducer (TransitionChangeRequest l) st = on_transitionChangeRequest l st"
| "crq_reducer (DeleteChangeRequest l) st = on_deleteChangeRequest l st"
| "crq_reducer (SetFilters p) st = on_setFilters p st"
| "crq_reducer ClearDetail_crq st = on_clearDetail_crq st"

definition fetchChangeRequests :: "(call \<Rightarrow> ApiError + json page) \<Rightarrow> query option
  \<Rightarrow> ChangeRequestAction" where
  "fetchChangeRequests api filters = FetchChangeRequests (thunk_plain (api (changeRequestService_list (Some
    (nullish filters [])))))"

definition fetchChangeRequest :: "(call \<Rightarrow> ApiError + json) \<Rightarrow> int \<Rightarrow>
  ChangeRequestAction" where
  "fetchChangeRequest api id' = FetchChangeRequest (thunk_plain (api (changeRequestService_get id')))"

definition createChangeRequest :: "(call \<Rightarrow> ApiError + json) \<Rightarrow> json \<Rightarrow>
  ChangeRequestAction" where
  "createChangeRequest api data = CreateChangeRequest (thunk_plain (api (changeRequestService_create data)))"

definition updateChangeRequest :: "(call \<Rightarrow> ApiError + json) \<Rightarrow> int \<Rightarrow> json
  \<Rightarrow> ChangeRequestAction" where
  "updateChangeRequest api id' data = UpdateChangeRequest (thunk_plain (api (changeRequestService_update id'
    data)))"

definition transitionChangeRequest :: "(call \<Rightarrow> ApiError + json) \<Rightarrow> int \<Rightarrow> json
  \<Rightarrow> ChangeRequestAction" where
  "transitionChangeRequest api id' data = TransitionChangeRequest (thunk_plain (api
    (changeRequestService_transition id' data)))"

definition deleteChangeRequest :: "(call \<Rightarrow> ApiError + unit) \<Rightarrow> int \<Rightarrow>
  ChangeRequestAction" where
  "deleteChangeRequest api id' = DeleteChangeRequest (thunk_plain (map_sum id (\<lambda>_. id') (api
    (changeRequestService_remove id'))))"

subsection \<open>\<open>store/incidentSlice.ts\<close>\<close>

record IncidentState =
  inc_list :: "json list"
  inc_total :: int
  inc_detail :: "json option"
  inc_loading :: bool
  inc_listLoading :: bool
  inc_error :: "string option"

definition inc_initial :: IncidentState where
  "inc_initial = \<lparr>inc_list = [], inc_total = 0, inc_detail = None, inc_loading = False, inc_listLoading =
    False, inc_error = None\<rparr>"

definition on_clearDetail_inc :: "IncidentState \<Rightarrow> IncidentState" where
  "on_clearDetail_inc st = st\<lparr>inc_detail := None\<rparr>"

definition on_fetchIncidents :: "(json page) lifecycle \<Rightarrow> IncidentState \<Rightarrow> IncidentState"
  where
  "on_fetchIncidents = on_cases
     (\<lambda>st. st\<lparr>inc_listLoading := True, inc_error := None\<rparr>)
     (\<lambda>p st. st\<lparr>inc_listLoading := False, inc_list := pg_rows p, inc_total := pg_total p\<rparr>)
     (\<lambda>r st. if rj_aborted r then st else st\<lparr>inc_listLoading := False, inc_error := Some (nullish
       (rj_message r) ''Failed to load incidents'')\<rparr>)"

definition on_fetchIncident :: "json lifecycle \<Rightarrow> IncidentState \<Rightarrow> IncidentState" where
  "on_fetchIncident = on_fulfilled (\<lambda>p st. st\<lparr>inc_detail := Some p\<rparr>)"

definition on_createIncident :: "json lifecycle \<Rightarrow> IncidentState \<Rightarrow> IncidentState" where
  "on_createIncident = on_fulfilled (\<lambda>p st. st\<lparr>inc_detail := Some p\<rparr>)"

definition on_updateIncident :: "json lifecycle \<Rightarrow> IncidentState \<Rightarrow> IncidentState" where
  "on_updateIncident = on_fulfilled (\<lambda>p st. st\<lparr>inc_detail := Some p\<rparr>)"

definition on_transitionIncident :: "json lifecycle \<Rightarrow> IncidentState \<Rightarrow> IncidentState" where
  "on_transitionIncident = on_fulfilled (\<lambda>p st. st\<lparr>inc_detail := Some p\<rparr>)"

definition on_deleteIncident :: "int lifecycle \<Rightarrow> IncidentState \<Rightarrow> IncidentState" where
  "on_deleteIncident = on_fulfilled (\<lambda>p st. st\<lparr>inc_detail := (if is_row (J_int p) (inc_detail st)
    then None else inc_detail st)\<rparr>)"

datatype IncidentAction =
    FetchIncidents "(json page) lifecycle"
  | FetchIncident "json lifecycle"
  | CreateIncident "json lifecycle"
  | UpdateIncident "json lifecycle"
  | TransitionIncident "json lifecycle"
  | DeleteIncident "int lifecycle"
  | ClearDetail_inc

fun inc_reducer :: "IncidentAction \<Rightarrow> IncidentState \<Rightarrow> IncidentState" where
  "inc_reducer (FetchIncidents l) st = on_fetchIncidents l st"
| "inc_reducer (FetchIncident l) st = on_fetchIncident l st"
| "inc_reducer (CreateIncident l) st = on_createIncident l st"
| "inc_reducer (UpdateIncident l) st = on_updateIncident l st"
| "inc_reducer (TransitionIncident l) st = on_transitionIncident l st"
| "inc_reducer (DeleteIncident l) st = on_deleteIncident l st"
| "inc_reducer ClearDetail_inc st = on_clearDetail_inc st"

definition fetchIncidents :: "(call \<Rightarrow> ApiError + json page) \<Rightarrow> query option \<Rightarrow>
  IncidentAction" where
  "fetchIncidents api params = FetchIncidents (thunk_plain (api (incidentService_list (Some (nullish params [])))))"

definition fetchIncident :: "(call \<Rightarrow> ApiError + json) \<Rightarrow> int \<Rightarrow> IncidentAction"
  where
  "fetchIncident api id' = FetchIncident (thunk_plain (api (incidentService_get id')))"

definition createIncident :: "(call \<Rightarrow> ApiError + json) \<Rightarrow> json \<Rightarrow> IncidentAction"
  where
  "createIncident api data = CreateIncident (thunk_plain (api (incidentService_create data)))"

definition updateIncident :: "(call \<Rightarrow> ApiError + json) \<Rightarrow> int \<Rightarrow> json
  \<Rightarrow> IncidentAction" where
  "updateIncident api id' data = UpdateIncident (thunk_plain (api (incidentService_update id' data)))"

definition transitionIncident :: "(call \<Rightarrow> ApiError + json) \<Rightarrow> int \<Rightarrow> string
  \<Rightarrow> IncidentAction" where
  "transitionIncident api id' to_state = TransitionIncident (thunk_plain (api (incidentService_transition id'
    to_state)))"

definition deleteIncident :: "(call \<Rightarrow> ApiError + unit) \<Rightarrow> int \<Rightarrow> IncidentAction"
  where
  "deleteIncident api id' = DeleteIncident (thunk_plain (map_sum id (\<lambda>_. id') (api (incidentService_remove
    id'))))"

subsection \<open>\<open>store/raidSlice.ts\<close>\<close>

record RaidState =
  rai_items :: "json list"
  rai_summary :: "json option"
  rai_config :: "json option"
  rai_loading :: bool
  rai_error :: "string option"

definition rai_initial :: RaidState where
  "rai_initial = \<lparr>rai_items = [], rai_summary = None, rai_config = None, rai_loading = False, rai_error =
    None\<rparr>"

definition on_clearRaid :: "RaidState \<Rightarrow> RaidState" where
  "on_clearRaid st = st\<lparr>rai_items := [], rai_summary := None, rai_error := None\<rparr>"

definition on_fetchRaidItems :: "(json list) lifecycle \<Rightarrow> RaidState \<Rightarrow> RaidState" where
  "on_fetchRaidItems = on_cases
     (\<lambda>st. st\<lparr>rai_loading := True, rai_error := None\<rparr>)
     (\<lambda>p st. st\<lparr>rai_loading := False, rai_items := p\<rparr>)
     (\<lambda>r st. st\<lparr>rai_loading := False, rai_error := Some (nullish (rj_message r)
       ''Failed to load RAID items'')\<rparr>)"

definition on_createRaidItem :: "json lifecycle \<Rightarrow> RaidState \<Rightarrow> RaidState" where
  "on_createRaidItem = on_fulfilled (\<lambda>p st. st\<lparr>rai_items := rai_items st @ [p]\<rparr>)"

definition on_updateRaidItem :: "json lifecycle \<Rightarrow> RaidState \<Rightarrow> RaidState" where
  "on_updateRaidItem = on_fulfilled (\<lambda>p st. st\<lparr>rai_items := put_at_first (\<lambda>x. row_id x =
    row_id p) p (rai_items st)\<rparr>)"

definition on_deleteRaidItem :: "int lifecycle \<Rightarrow> RaidState \<Rightarrow> RaidState" where
  "on_deleteRaidItem = on_fulfilled (\<lambda>p st. st\<lparr>rai_items := filter (\<lambda>x. row_id x \<noteq>
    J_int p) (rai_items st)\<rparr>)"

definition on_promoteRaidItem :: "json lifecycle \<Rightarrow> RaidState \<Rightarrow> RaidState" where
  "on_promoteRaidItem = on_fulfilled (\<lambda>p st. st\<lparr>rai_items := rai_items st @ [p]\<rparr>)"

definition on_fetchRaidSummary :: "json lifecycle \<Rightarrow> RaidState \<Rightarrow> RaidState" where
  "on_fetchRaidSummary = on_fulfilled (\<lambda>p st. st\<lparr>rai_summary := Some p\<rparr>)"

definition on_fetchRaidConfig :: "json lifecycle \<Rightarrow> RaidState \<Rightarrow> RaidState" where
  "on_fetchRaidConfig = on_fulfilled (\<lambda>p st. st\<lparr>rai_config := Some p\<rparr>)"

definition on_updateRaidConfig :: "json lifecycle \<Rightarrow> RaidState \<Rightarrow> RaidState" where
  "on_updateRaidConfig = on_fulfilled (\<lambda>p st. st\<lparr>rai_config := Some p\<rparr>)"

datatype RaidAction =
    FetchRaidItems "(json list) lifecycle"
  | CreateRaidItem "json lifecycle"
  | UpdateRaidItem "json lifecycle"
  | DeleteRaidItem "int lifecycle"
  | PromoteRaidItem "json lifecycle"
  | FetchRaidSummary "json lifecycle"
  | FetchRaidConfig "json lifecycle"
  | UpdateRaidConfig "json lifecycle"
  | ClearRaid

fun rai_reducer :: "RaidAction \<Rightarrow> RaidState \<Rightarrow> RaidState" where
  "rai_reducer (FetchRaidItems l) st = on_fetchRaidItems l st"
| "rai_reducer (CreateRaidItem l) st = on_createRaidItem l st"
| "rai_reducer (UpdateRaidItem l) st = on_updateRaidItem l st"
| "rai_reducer (DeleteRaidItem l) st = on_deleteRaidItem l st"
| "rai_reducer (PromoteRaidItem l) st = on_promoteRaidItem l st"
| "rai_reducer (FetchRaidSummary l) st = on_fetchRaidSummary l st"
| "rai_reducer (FetchRaidConfig l) st = on_fetchRaidConfig l st"
| "rai_reducer (UpdateRaidConfig l) st = on_updateRaidConfig l st"
| "rai_reducer ClearRaid st = on_clearRaid st"

definition fetchRaidItems :: "(call \<Rightarrow> ApiError + json list) \<Rightarrow> int \<Rightarrow> query
  option \<Rightarrow> RaidAction" where
  "fetchRaidItems api releaseId filters = FetchRaidItems (thunk_plain (api (raidService_list releaseId filters)))"

definition createRaidItem :: "(call \<Rightarrow> ApiError + json) \<Rightarrow> int \<Rightarrow> json
  \<Rightarrow> RaidAction" where
  "createRaidItem api releaseId data = CreateRaidItem (thunk_plain (api (raidService_create releaseId data)))"

definition updateRaidItem :: "(call \<Rightarrow> ApiError + json) \<Rightarrow> int \<Rightarrow> int
  \<Rightarrow> json \<Rightarrow> RaidAction" where
  "updateRaidItem api releaseId itemId data = UpdateRaidItem (thunk_plain (api (raidService_update releaseId itemId
    data)))"

definition deleteRaidItem :: "(call \<Rightarrow> ApiError + unit) \<Rightarrow> int \<Rightarrow> int
  \<Rightarrow> RaidAction" where
  "deleteRaidItem api releaseId itemId = DeleteRaidItem (thunk_plain (map_sum id (\<lambda>_. itemId) (api
    (raidService_remove releaseId itemId))))"

definition promoteRaidItem :: "(call \<Rightarrow> ApiError + json) \<Rightarrow> int \<Rightarrow> int
  \<Rightarrow> string \<Rightarrow> RaidAction" where
  "promoteRaidItem api releaseId itemId targetType = PromoteRaidItem (thunk_plain (api (raidService_promote
    releaseId itemId targetType)))"

definition fetchRaidSummary :: "(call \<Rightarrow> ApiError + json) \<Rightarrow> int \<Rightarrow> RaidAction"
  where
  "fetchRaidSummary api releaseId = FetchRaidSummary (thunk_plain (api (raidService_summary releaseId)))"

definition fetchRaidConfig :: "(call \<Rightarrow> ApiError + json) \<Rightarrow> RaidAction" where
  "fetchRaidConfig api = FetchRaidConfig (thunk_plain (api raidService_getConfig))"

definition updateRaidConfig :: "(call \<Rightarrow> ApiError + json) \<Rightarrow> json \<Rightarrow> RaidAction"
  where
  "updateRaidConfig api data = UpdateRaidConfig (thunk_plain (api (raidService_updateConfig data)))"

subsection \<open>\<open>store/goNoGoSlice.ts\<close>\<close>

record GoNoGoState =
  gng_decisions :: "json list"
  gng_total :: int
  gng_listLoading :: bool
  gng_listError :: "string option"
  gng_perspectives :: "json list"
  gng_perspectivesLoading :: bool
  gng_perspectivesError :: "string option"
  gng_conditionError :: "string option"

definition gng_initial :: GoNoGoState where
  "gng_initial = \<lparr>gng_decisions = [], gng_total = 0, gng_listLoading = False, gng_listError = None,
    gng_perspectives = [], gng_perspectivesLoading = False, gng_perspectivesError = None, gng_conditionError =
      None\<rparr>"

definition sortPerspectives :: "json list \<Rightarrow> json list" where
  "sortPerspectives = sort_rows ''sort_order''"

definition close_condition :: "json \<Rightarrow> json \<Rightarrow> json" where
  "close_condition c d =
     spread d (''conditions'', J_arr (put_at_first (\<lambda>x. row_id x = row_id c) c (rows_of (row_key
       ''conditions'' d))))"

definition on_fetchDecisions :: "(json page) lifecycle \<Rightarrow> GoNoGoState \<Rightarrow> GoNoGoState" where
  "on_fetchDecisions = on_cases
     (\<lambda>st. st\<lparr>gng_listLoading := True, gng_listError := None\<rparr>)
     (\<lambda>p st. st\<lparr>gng_listLoading := False, gng_decisions := pg_rows p, gng_total := pg_total
       p\<rparr>)
     (\<lambda>r st. if rj_aborted r then st else st\<lparr>gng_listLoading := False, gng_listError := Some
       (nullish (rj_message r) ''Failed to fetch go/no-go decisions'')\<rparr>)"

definition on_fetchPerspectives :: "(json list) lifecycle \<Rightarrow> GoNoGoState \<Rightarrow> GoNoGoState" where
  "on_fetchPerspectives = on_cases
     (\<lambda>st. st\<lparr>gng_perspectivesLoading := True, gng_perspectivesError := None\<rparr>)
     (\<lambda>p st. st\<lparr>gng_perspectivesLoading := False, gng_perspectives := p\<rparr>)
     (\<lambda>r st. if rj_aborted r then st else st\<lparr>gng_perspectivesLoading := False, gng_perspectivesError
       := Some (nullish (rj_message r) ''Failed to fetch go/no-go perspectives'')\<rparr>)"

definition on_closeCondition :: "json lifecycle \<Rightarrow> GoNoGoState \<Rightarrow> GoNoGoState" where
  "on_closeCondition = on_cases
     (\<lambda>st. st\<lparr>gng_conditionError := None\<rparr>)
     (\<lambda>p st. st\<lparr>gng_decisions := modify_first (\<lambda>d. row_id d = row_key ''decision_id'' p)
       (close_condition p) (gng_decisions st)\<rparr>)
     (\<lambda>r st. st\<lparr>gng_conditionError := Some (nullish (rj_payload r)
       ''Failed to update condition'')\<rparr>)"

definition on_createPerspective :: "json lifecycle \<Rightarrow> GoNoGoState \<Rightarrow> GoNoGoState" where
  "on_createPerspective = on_fulfilled (\<lambda>p st. st\<lparr>gng_perspectives := sortPerspectives
    (gng_perspectives st @ [p])\<rparr>)"

definition on_updatePerspective :: "json lifecycle \<Rightarrow> GoNoGoState \<Rightarrow> GoNoGoState" where
  "on_updatePerspective = on_fulfilled (\<lambda>p st. st\<lparr>gng_perspectives := sortPerspectives (map
    (\<lambda>x. if row_id x = row_id p then p else x) (gng_perspectives st))\<rparr>)"

datatype GoNoGoAction =
    FetchDecisions "(json page) lifecycle"
  | FetchPerspectives "(json list) lifecycle"
  | RecordDecision "json lifecycle"
  | CloseCondition "json lifecycle"
  | CreatePerspective "json lifecycle"
  | UpdatePerspective "json lifecycle"

fun gng_reducer :: "GoNoGoAction \<Rightarrow> GoNoGoState \<Rightarrow> GoNoGoState" where
  "gng_reducer (FetchDecisions l) st = on_fetchDecisions l st"
| "gng_reducer (FetchPerspectives l) st = on_fetchPerspectives l st"
| "gng_reducer (RecordDecision l) st = st"
| "gng_reducer (CloseCondition l) st = on_closeCondition l st"
| "gng_reducer (CreatePerspective l) st = on_createPerspective l st"
| "gng_reducer (UpdatePerspective l) st = on_updatePerspective l st"

definition fetchDecisions :: "(call \<Rightarrow> ApiError + json page) \<Rightarrow> int \<Rightarrow> query
  option \<Rightarrow> GoNoGoAction" where
  "fetchDecisions api releaseId params = FetchDecisions (thunk_plain (api (goNoGoService_list releaseId (Some
    (nullish params [])))))"

definition fetchPerspectives :: "(call \<Rightarrow> ApiError + json list) \<Rightarrow> bool option \<Rightarrow>
  GoNoGoAction" where
  "fetchPerspectives api includeInactive = FetchPerspectives (thunk_plain (api (goNoGoService_listPerspectives
    (Some (nullish includeInactive True)))))"

definition recordDecision :: "(call \<Rightarrow> ApiError + json) \<Rightarrow> int \<Rightarrow> json
  \<Rightarrow> GoNoGoAction" where
  "recordDecision api releaseId data = RecordDecision (thunk_with ''Failed to record decision'' (api
    (goNoGoService_record releaseId data)))"

definition closeCondition :: "(call \<Rightarrow> ApiError + json) \<Rightarrow> int \<Rightarrow> bool
  \<Rightarrow> GoNoGoAction" where
  "closeCondition api conditionId met = CloseCondition (thunk_with ''Failed to update condition'' (api
    (goNoGoService_closeCondition conditionId met)))"

definition createPerspective :: "(call \<Rightarrow> ApiError + json) \<Rightarrow> json \<Rightarrow>
  GoNoGoAction" where
  "createPerspective api data = CreatePerspective (thunk_with ''Failed to create perspective'' (api
    (goNoGoService_createPerspective data)))"

definition updatePerspective :: "(call \<Rightarrow> ApiError + json) \<Rightarrow> int \<Rightarrow> json
  \<Rightarrow> GoNoGoAction" where
  "updatePerspective api id' data = UpdatePerspective (thunk_with ''Failed to update perspective'' (api
    (goNoGoService_updatePerspective id' data)))"

subsection \<open>\<open>store/bookingRequestSlice.ts\<close>\<close>

record BookingRequestState =
  brq_requests :: "json list"
  brq_loading :: bool
  brq_error :: "string option"

definition brq_initial :: BookingRequestState where
  "brq_initial = \<lparr>brq_requests = [], brq_loading = False, brq_error = None\<rparr>"

definition on_fetchBookingRequests :: "(json list) lifecycle \<Rightarrow> BookingRequestState \<Rightarrow>
  BookingRequestState" where
  "on_fetchBookingRequests = on_cases
     (\<lambda>st. st\<lparr>brq_loading := True, brq_error := None\<rparr>)
     (\<lambda>p st. st\<lparr>brq_loading := False, brq_requests := p\<rparr>)
     (\<lambda>r st. st\<lparr>brq_loading := False, brq_error := Some (nullish (rj_message r)
       ''Failed to load'')\<rparr>)"

definition on_fetchBookingRequest :: "json lifecycle \<Rightarrow> BookingRequestState \<Rightarrow>
  BookingRequestState" where
  "on_fetchBookingRequest = on_fulfilled (\<lambda>p st. st\<lparr>brq_requests := upsert_row p (brq_requests
    st)\<rparr>)"

definition on_createBookingRequest :: "json lifecycle \<Rightarrow> BookingRequestState \<Rightarrow>
  BookingRequestState" where
  "on_createBookingRequest = on_fulfilled (\<lambda>p st. st\<lparr>brq_requests := row_key ''request'' p #
    brq_requests st\<rparr>)"

definition on_updateRequestStandardFields :: "json lifecycle \<Rightarrow> BookingRequestState \<Rightarrow>
  BookingRequestState" where
  "on_updateRequestStandardFields = on_fulfilled (\<lambda>p st. st\<lparr>brq_requests := put_at_first
    (\<lambda>x. row_id x = row_id p) p (brq_requests st)\<rparr>)"

definition on_updateRequestCustomFields :: "json lifecycle \<Rightarrow> BookingRequestState \<Rightarrow>
  BookingRequestState" where
  "on_updateRequestCustomFields = on_fulfilled (\<lambda>p st. st\<lparr>brq_requests := put_at_first (\<lambda>x.
    row_id x = row_id p) p (brq_requests st)\<rparr>)"

datatype BookingRequestAction =
    FetchBookingRequests "(json list) lifecycle"
  | FetchBookingRequest "json lifecycle"
  | CreateBookingRequest "json lifecycle"
  | AddEnvironmentToRequest "json lifecycle"
  | RemoveEnvironmentFromRequest "(int \<times> int) lifecycle"
  | UpdateRequestStandardFields "json lifecycle"
  | UpdateRequestCustomFields "json lifecycle"

fun brq_reducer :: "BookingRequestAction \<Rightarrow> BookingRequestState \<Rightarrow> BookingRequestState" where
  "brq_reducer (FetchBookingRequests l) st = on_fetchBookingRequests l st"
| "brq_reducer (FetchBookingRequest l) st = on_fetchBookingRequest l st"
| "brq_reducer (CreateBookingRequest l) st = on_createBookingRequest l st"
| "brq_reducer (AddEnvironmentToRequest l) st = st"
| "brq_reducer (RemoveEnvironmentFromRequest l) st = st"
| "brq_reducer (UpdateRequestStandardFields l) st = on_updateRequestStandardFields l st"
| "brq_reducer (UpdateRequestCustomFields l) st = on_updateRequestCustomFields l st"

definition fetchBookingRequests :: "(call \<Rightarrow> ApiError + json list) \<Rightarrow> BookingRequestAction"
  where
  "fetchBookingRequests api = FetchBookingRequests (thunk_plain (api bookingRequestService_list))"

definition fetchBookingRequest :: "(call \<Rightarrow> ApiError + json) \<Rightarrow> int \<Rightarrow>
  BookingRequestAction" where
  "fetchBookingRequest api id' = FetchBookingRequest (thunk_plain (api (bookingRequestService_get id')))"

definition createBookingRequest :: "(call \<Rightarrow> ApiError + json) \<Rightarrow> json \<Rightarrow>
  BookingRequestAction" where
  "createBookingRequest api payload = CreateBookingRequest (thunk_with ''Failed to create booking request'' (api
    (bookingRequestService_create payload)))"

definition addEnvironmentToRequest :: "(call \<Rightarrow> ApiError + json) \<Rightarrow> int \<Rightarrow> int
  \<Rightarrow> string option \<Rightarrow> string option \<Rightarrow> BookingRequestAction" where
  "addEnvironmentToRequest api id' environment_id start_date end_date = AddEnvironmentToRequest (thunk_plain (api
    (bookingRequestService_addEnvironment id' (J_obj [(''environment_id'', J_int environment_id), (''start_date'',
      opt_text start_date), (''end_date'', opt_text end_date)]))))"

definition removeEnvironmentFromRequest :: "(call \<Rightarrow> ApiError + unit) \<Rightarrow> int \<Rightarrow>
  int \<Rightarrow> BookingRequestAction" where
  "removeEnvironmentFromRequest api id' bookingId = RemoveEnvironmentFromRequest (thunk_plain (map_sum id
    (\<lambda>_. (id', bookingId)) (api (bookingRequestService_removeEnvironment id' bookingId))))"

definition updateRequestStandardFields :: "(call \<Rightarrow> ApiError + json) \<Rightarrow> int \<Rightarrow>
  json \<Rightarrow> BookingRequestAction" where
  "updateRequestStandardFields api id' values = UpdateRequestStandardFields (thunk_plain (api
    (bookingRequestService_updateStandardFields id' values)))"

definition updateRequestCustomFields :: "(call \<Rightarrow> ApiError + json) \<Rightarrow> int \<Rightarrow> json
  \<Rightarrow> BookingRequestAction" where
  "updateRequestCustomFields api id' values = UpdateRequestCustomFields (thunk_plain (api
    (bookingRequestService_updateCustomFields id' values)))"

subsection \<open>\<open>store/contentionForecastSlice.ts\<close>\<close>

record ContentionForecastState =
  cfc_count :: "int option"
  cfc_weeks :: "int option"
  cfc_loading :: bool
  cfc_error :: "string option"
  cfc_currentRequestId :: "string option"

definition cfc_initial :: ContentionForecastState where
  "cfc_initial = \<lparr>cfc_count = None, cfc_weeks = None, cfc_loading = False, cfc_error = None,
    cfc_currentRequestId = None\<rparr>"

definition on_fetchContentionHorizon :: "string \<Rightarrow> (int \<times> int) lifecycle \<Rightarrow>
  ContentionForecastState \<Rightarrow> ContentionForecastState" where
  "on_fetchContentionHorizon reqId = on_cases
     (\<lambda>st. st\<lparr>cfc_currentRequestId := Some reqId, cfc_loading := True, cfc_error := None\<rparr>)
     (\<lambda>p st. if cfc_currentRequestId st \<noteq> Some reqId then st else st\<lparr>cfc_loading := False,
       cfc_count := Some (fst p), cfc_weeks := Some (snd p)\<rparr>)
     (\<lambda>r st. if cfc_currentRequestId st \<noteq> Some reqId then st else st\<lparr>cfc_loading := False,
       cfc_error := Some (nullish (rj_payload r) ''Failed to load the contention forecast'')\<rparr>)"

datatype ContentionForecastAction =
    FetchContentionHorizon string "(int \<times> int) lifecycle"

fun cfc_reducer :: "ContentionForecastAction \<Rightarrow> ContentionForecastState \<Rightarrow>
  ContentionForecastState" where
  "cfc_reducer (FetchContentionHorizon reqId l) st = on_fetchContentionHorizon reqId l st"

definition fetchContentionHorizon :: "(call \<Rightarrow> ApiError + (int \<times> int)) \<Rightarrow> int
  \<Rightarrow> string \<Rightarrow> ContentionForecastAction" where
  "fetchContentionHorizon api weeks reqId = FetchContentionHorizon reqId (thunk_with
    ''Failed to load the contention forecast'' (api (contentionForecastService_getHorizon weeks)))"

subsection \<open>\<open>store/myWorkSlice.ts\<close>\<close>

record MyWorkState =
  mwk_data :: "json option"
  mwk_loading :: bool
  mwk_error :: "string option"

definition mwk_initial :: MyWorkState where
  "mwk_initial = \<lparr>mwk_data = None, mwk_loading = False, mwk_error = None\<rparr>"

definition on_fetchMyWork :: "json lifecycle \<Rightarrow> MyWorkState \<Rightarrow> MyWorkState" where
  "on_fetchMyWork = on_cases
     (\<lambda>st. st\<lparr>mwk_loading := True, mwk_error := None\<rparr>)
     (\<lambda>p st. st\<lparr>mwk_loading := False, mwk_data := Some p\<rparr>)
     (\<lambda>r st. st\<lparr>mwk_loading := False, mwk_error := Some (nullish (rj_payload r)
       ''Failed to load your work queues'')\<rparr>)"

datatype MyWorkAction =
    FetchMyWork "json lifecycle"

fun mwk_reducer :: "MyWorkAction \<Rightarrow> MyWorkState \<Rightarrow> MyWorkState" where
  "mwk_reducer (FetchMyWork l) st = on_fetchMyWork l st"

definition fetchMyWork :: "(call \<Rightarrow> ApiError + json) \<Rightarrow> MyWorkAction" where
  "fetchMyWork api = FetchMyWork (thunk_with ''Failed to load your work queues'' (api myWorkService_getMyWork))"

definition selectMyWorkTotal :: "MyWorkState \<Rightarrow> int" where
  "selectMyWorkTotal st =
     (case mwk_data st of None \<Rightarrow> 0
      | Some d \<Rightarrow> sum_list (map (\<lambda>q. count_of (snd q)) (members_of (row_key ''queues'' d))))"

subsection \<open>\<open>store/rollbackSlice.ts\<close>\<close>

record RollbackState =
  rbk_plans :: "json list"
  rbk_plansLoading :: bool
  rbk_plansError :: "string option"
  rbk_authorisations :: "json list"
  rbk_authorisationsLoading :: bool
  rbk_authorisationsError :: "string option"
  rbk_rehearsals :: "json list"
  rbk_rehearsalsLoading :: bool
  rbk_rehearsalsError :: "string option"
  rbk_policy :: "json option"
  rbk_policyLoading :: bool
  rbk_policyError :: "string option"

definition rbk_initial :: RollbackState where
  "rbk_initial = \<lparr>rbk_plans = [], rbk_plansLoading = False, rbk_plansError = None, rbk_authorisations = [],
    rbk_authorisationsLoading = False, rbk_authorisationsError = None, rbk_rehearsals = [], rbk_rehearsalsLoading =
      False, rbk_rehearsalsError = None, rbk_policy = None, rbk_policyLoading = False, rbk_policyError =
        None\<rparr>"

definition on_fetchRollbackPlans :: "(json list) lifecycle \<Rightarrow> RollbackState \<Rightarrow> RollbackState"
  where
  "on_fetchRollbackPlans = on_cases
     (\<lambda>st. st\<lparr>rbk_plansLoading := True, rbk_plansError := None, rbk_plans := []\<rparr>)
     (\<lambda>p st. st\<lparr>rbk_plansLoading := False, rbk_plans := p\<rparr>)
     (\<lambda>r st. st\<lparr>rbk_plansLoading := False, rbk_plansError := Some (nullish (rj_payload r)
       ''Failed to load rollback plans'')\<rparr>)"

definition on_upsertRollbackPlan :: "json lifecycle \<Rightarrow> RollbackState \<Rightarrow> RollbackState" where
  "on_upsertRollbackPlan = on_fulfilled (\<lambda>p st. st\<lparr>rbk_plans := upsert_row p (rbk_plans st)\<rparr>)"

definition on_agreeRollbackPlan :: "json lifecycle \<Rightarrow> RollbackState \<Rightarrow> RollbackState" where
  "on_agreeRollbackPlan = on_fulfilled (\<lambda>p st. st\<lparr>rbk_plans := put_at_first (\<lambda>x. row_id x =
    row_id p) p (rbk_plans st)\<rparr>)"

definition on_deleteRollbackPlan :: "int lifecycle \<Rightarrow> RollbackState \<Rightarrow> RollbackState" where
  "on_deleteRollbackPlan = on_fulfilled (\<lambda>p st. st\<lparr>rbk_plans := filter (\<lambda>x. row_id x
    \<noteq> J_int p) (rbk_plans st)\<rparr>)"

definition on_fetchRollbackAuthorisations :: "(json list) lifecycle \<Rightarrow> RollbackState \<Rightarrow>
  RollbackState" where
  "on_fetchRollbackAuthorisations = on_cases
     (\<lambda>st. st\<lparr>rbk_authorisationsLoading := True, rbk_authorisationsError := None, rbk_authorisations
       := []\<rparr>)
     (\<lambda>p st. st\<lparr>rbk_authorisationsLoading := False, rbk_authorisations := p\<rparr>)
     (\<lambda>r st. st\<lparr>rbk_authorisationsLoading := False, rbk_authorisationsError := Some (nullish
       (rj_payload r) ''Failed to load rollback authorisations'')\<rparr>)"

definition on_recordRollbackAuthorisation :: "json lifecycle \<Rightarrow> RollbackState \<Rightarrow>
  RollbackState" where
  "on_recordRollbackAuthorisation = on_fulfilled (\<lambda>p st. st\<lparr>rbk_authorisations := p #
    rbk_authorisations st\<rparr>)"

definition on_fetchRehearsals :: "(json list) lifecycle \<Rightarrow> RollbackState \<Rightarrow> RollbackState"
  where
  "on_fetchRehearsals = on_cases
     (\<lambda>st. st\<lparr>rbk_rehearsalsLoading := True, rbk_rehearsalsError := None, rbk_rehearsals :=
       []\<rparr>)
     (\<lambda>p st. st\<lparr>rbk_rehearsalsLoading := False, rbk_rehearsals := p\<rparr>)
     (\<lambda>r st. st\<lparr>rbk_rehearsalsLoading := False, rbk_rehearsalsError := Some (nullish (rj_payload r)
       ''Failed to load rollback rehearsals'')\<rparr>)"

definition on_recordRehearsal :: "json lifecycle \<Rightarrow> RollbackState \<Rightarrow> RollbackState" where
  "on_recordRehearsal = on_fulfilled (\<lambda>p st. st\<lparr>rbk_rehearsals := p # rbk_rehearsals st\<rparr>)"

definition on_fetchRollbackPolicy :: "json lifecycle \<Rightarrow> RollbackState \<Rightarrow> RollbackState" where
  "on_fetchRollbackPolicy = on_cases
     (\<lambda>st. st\<lparr>rbk_policyLoading := True, rbk_policyError := None, rbk_policy := None\<rparr>)
     (\<lambda>p st. st\<lparr>rbk_policyLoading := False, rbk_policy := Some p\<rparr>)
     (\<lambda>r st. st\<lparr>rbk_policyLoading := False, rbk_policyError := Some (nullish (rj_payload r)
       ''Failed to load the rollback policy'')\<rparr>)"

definition on_updateRollbackPolicy :: "json lifecycle \<Rightarrow> RollbackState \<Rightarrow> RollbackState" where
  "on_updateRollbackPolicy = on_cases
     (\<lambda>st. st)
     (\<lambda>p st. st\<lparr>rbk_policy := Some p, rbk_policyError := None\<rparr>)
     (\<lambda>r st. st\<lparr>rbk_policyError := Some (nullish (rj_payload r)
       ''Failed to save the rollback policy'')\<rparr>)"

datatype RollbackAction =
    FetchRollbackPlans "(json list) lifecycle"
  | UpsertRollbackPlan "json lifecycle"
  | AgreeRollbackPlan "json lifecycle"
  | DeleteRollbackPlan "int lifecycle"
  | FetchRollbackAuthorisations "(json list) lifecycle"
  | RecordRollbackAuthorisation "json lifecycle"
  | FetchRehearsals "(json list) lifecycle"
  | RecordRehearsal "json lifecycle"
  | FetchRollbackPolicy "json lifecycle"
  | UpdateRollbackPolicy "json lifecycle"

fun rbk_reducer :: "RollbackAction \<Rightarrow> RollbackState \<Rightarrow> RollbackState" where
  "rbk_reducer (FetchRollbackPlans l) st = on_fetchRollbackPlans l st"
| "rbk_reducer (UpsertRollbackPlan l) st = on_upsertRollbackPlan l st"
| "rbk_reducer (AgreeRollbackPlan l) st = on_agreeRollbackPlan l st"
| "rbk_reducer (DeleteRollbackPlan l) st = on_deleteRollbackPlan l st"
| "rbk_reducer (FetchRollbackAuthorisations l) st = on_fetchRollbackAuthorisations l st"
| "rbk_reducer (RecordRollbackAuthorisation l) st = on_recordRollbackAuthorisation l st"
| "rbk_reducer (FetchRehearsals l) st = on_fetchRehearsals l st"
| "rbk_reducer (RecordRehearsal l) st = on_recordRehearsal l st"
| "rbk_reducer (FetchRollbackPolicy l) st = on_fetchRollbackPolicy l st"
| "rbk_reducer (UpdateRollbackPolicy l) st = on_updateRollbackPolicy l st"

definition fetchRollbackPlans :: "(call \<Rightarrow> ApiError + json list) \<Rightarrow> int \<Rightarrow>
  RollbackAction" where
  "fetchRollbackPlans api releaseId = FetchRollbackPlans (thunk_with ''Failed to load rollback plans'' (api
    (rollbackService_listPlans releaseId)))"

definition upsertRollbackPlan :: "(call \<Rightarrow> ApiError + json) \<Rightarrow> int \<Rightarrow> json
  \<Rightarrow> RollbackAction" where
  "upsertRollbackPlan api releaseId data = UpsertRollbackPlan (thunk_with ''Failed to save the rollback plan'' (api
    (rollbackService_upsertPlan releaseId data)))"

definition agreeRollbackPlan :: "(call \<Rightarrow> ApiError + json) \<Rightarrow> int \<Rightarrow> int
  \<Rightarrow> RollbackAction" where
  "agreeRollbackPlan api releaseId planId = AgreeRollbackPlan (thunk_with ''Failed to record agreement'' (api
    (rollbackService_agreePlan releaseId planId)))"

definition deleteRollbackPlan :: "(call \<Rightarrow> ApiError + unit) \<Rightarrow> int \<Rightarrow> int
  \<Rightarrow> RollbackAction" where
  "deleteRollbackPlan api releaseId planId = DeleteRollbackPlan (thunk_with ''Failed to delete the rollback plan''
    (map_sum id (\<lambda>_. planId) (api (rollbackService_deletePlan releaseId planId))))"

definition fetchRollbackAuthorisations :: "(call \<Rightarrow> ApiError + json list) \<Rightarrow> int
  \<Rightarrow> RollbackAction" where
  "fetchRollbackAuthorisations api releaseId = FetchRollbackAuthorisations (thunk_with
    ''Failed to load rollback authorisations'' (api (rollbackService_listAuthorisations releaseId)))"

definition recordRollbackAuthorisation :: "(call \<Rightarrow> ApiError + json) \<Rightarrow> int \<Rightarrow>
  json \<Rightarrow> RollbackAction" where
  "recordRollbackAuthorisation api releaseId data = RecordRollbackAuthorisation (thunk_with
    ''Failed to record the rollback'' (api (rollbackService_recordAuthorisation releaseId data)))"

definition fetchRehearsals :: "(call \<Rightarrow> ApiError + json list) \<Rightarrow> int \<Rightarrow>
  RollbackAction" where
  "fetchRehearsals api systemId = FetchRehearsals (thunk_with ''Failed to load rollback rehearsals'' (api
    (rollbackService_listRehearsals systemId)))"

definition recordRehearsal :: "(call \<Rightarrow> ApiError + json) \<Rightarrow> int \<Rightarrow> json
  \<Rightarrow> RollbackAction" where
  "recordRehearsal api systemId data = RecordRehearsal (thunk_with ''Failed to record the rehearsal'' (api
    (rollbackService_recordRehearsal systemId data)))"

definition fetchRollbackPolicy :: "(call \<Rightarrow> ApiError + json) \<Rightarrow> RollbackAction" where
  "fetchRollbackPolicy api = FetchRollbackPolicy (thunk_with ''Failed to load the rollback policy'' (api
    rollbackService_getPolicy))"

definition updateRollbackPolicy :: "(call \<Rightarrow> ApiError + json) \<Rightarrow> json \<Rightarrow>
  RollbackAction" where
  "updateRollbackPolicy api data = UpdateRollbackPolicy (thunk_with ''Failed to save the rollback policy'' (api
    (rollbackService_updatePolicy data)))"

end
