(* ===== verification/SliceFacts.thy ===== *)
theory SliceFacts
  imports AdminSlices PolicySlices EnvironmentSlices SystemSlices RecordSlices
begin

text \<open>
  What the slices over plain rows promise. The seven list queries that the grid hook may abort are instances
  of \<open>list_query\<close>; the list of environment requests is not, and the run that shows it is a theorem. The
  locale \<open>latest_query\<close> is the contract of the two queries that remember the id of their newest
    request:
  answers to older ones are invisible.
\<close>

subsection \<open>List queries behind the grid\<close>

named_theorems on_defs

declare on_fetchBuilds_def [on_defs] on_fetchDeployments_def [on_defs] on_fetchSystems_def [on_defs]
  on_fetchChangeRequests_def [on_defs] on_fetchIncidents_def [on_defs] on_fetchDecisions_def [on_defs]
  on_fetchInfrastructureComponents_def [on_defs] on_fetchEnvironmentRequests_def [on_defs]

definition query_ops :: "('p lifecycle \<Rightarrow> 's \<Rightarrow> 's) \<Rightarrow> ('s, 'p) list_ops" where
  "query_ops f = \<lparr>op_pending = f Pending, op_fulfilled = (\<lambda>p. f (Fulfilled p)), op_rejected =
    (\<lambda>r. f (Rejected r))\<rparr>"

lemma query_ops_simps [simp]:
  "op_pending (query_ops f) = f Pending" "op_fulfilled (query_ops f) p = f (Fulfilled p)"
  "op_rejected (query_ops f) r = f (Rejected r)"
  by (simp_all add: query_ops_def)

definition builds_page :: "BuildState \<Rightarrow> json page" where
  "builds_page s = \<lparr>pg_rows = bld_items s, pg_total = bld_total s\<rparr>"

definition deployments_page :: "DeploymentState \<Rightarrow> json page" where
  "deployments_page s = \<lparr>pg_rows = dpl_items s, pg_total = dpl_total s\<rparr>"

definition systems_page :: "SystemState \<Rightarrow> json page" where
  "systems_page s = \<lparr>pg_rows = sys_systems s, pg_total = sys_total s\<rparr>"

definition changes_page :: "ChangeRequestState \<Rightarrow> json page" where
  "changes_page s = \<lparr>pg_rows = crq_list s, pg_total = crq_total s\<rparr>"

definition incidents_page :: "IncidentState \<Rightarrow> json page" where
  "incidents_page s = \<lparr>pg_rows = inc_list s, pg_total = inc_total s\<rparr>"

definition decisions_page :: "GoNoGoState \<Rightarrow> json page" where
  "decisions_page s = \<lparr>pg_rows = gng_decisions s, pg_total = gng_total s\<rparr>"

definition hosts_page :: "InfrastructureComponentState \<Rightarrow> json page" where
  "hosts_page s = \<lparr>pg_rows = inf_components s, pg_total = inf_total s\<rparr>"

definition requests_page :: "EnvironmentRequestState \<Rightarrow> json page" where
  "requests_page s = \<lparr>pg_rows = erq_requests s, pg_total = erq_total s\<rparr>"

lemmas page_defs = builds_page_def deployments_page_def systems_page_def changes_page_def incidents_page_def
  decisions_page_def hosts_page_def requests_page_def

interpretation builds: list_query "query_ops on_fetchBuilds" bld_listLoading bld_error builds_page
  by unfold_locales (simp_all add: on_defs page_defs)

interpretation deployments: list_query "query_ops on_fetchDeployments" dpl_listLoading dpl_error deployments_page
  by unfold_locales (simp_all add: on_defs page_defs)

interpretation systems: list_query "query_ops on_fetchSystems" sys_listLoading sys_error systems_page
  by unfold_locales (simp_all add: on_defs page_defs)

interpretation changes: list_query "query_ops on_fetchChangeRequests" crq_listLoading crq_error changes_page
  by unfold_locales (simp_all add: on_defs page_defs)

interpretation incidents: list_query "query_ops on_fetchIncidents" inc_listLoading inc_error incidents_page
  by unfold_locales (simp_all add: on_defs page_defs)

interpretation decisions: list_query "query_ops on_fetchDecisions" gng_listLoading gng_listError decisions_page
  by unfold_locales (simp_all add: on_defs page_defs)

interpretation hosts: list_query "query_ops on_fetchInfrastructureComponents" inf_listLoading inf_error hosts_page
  by unfold_locales (simp_all add: on_defs page_defs)

text \<open>
  The list of environment requests, which the grid hook drives too, has no such guard. When the grid
  replaces a request that is still unanswered, the rejection of the aborted one stops the spinner of the new
  one and puts an error over it.
\<close>

theorem environment_requests_abort_shows:
  "let x = session_run (query_ops on_fetchEnvironmentRequests) [Issue, Issue, AbortSettles]
             (new_session erq_initial (requests_page erq_initial))
   in live x \<and> \<not> erq_loading (slice x) \<and> erq_error (slice x) = Some ''Failed to load requests''"
  by (simp add: session_run_def new_session_def erq_initial_def on_defs aborted_rejection_def)

subsection \<open>Queries that remember their newest request\<close>

datatype ('q, 'p) keyed_event = Sent 'q | Answered 'q 'p | Failed 'q rejected

fun event_key :: "('q, 'p) keyed_event \<Rightarrow> 'q" where
  "event_key (Sent q) = q"
| "event_key (Answered q p) = q"
| "event_key (Failed q r) = q"

fun is_sent :: "('q, 'p) keyed_event \<Rightarrow> bool" where
  "is_sent (Sent q) = True"
| "is_sent (Answered q p) = False"
| "is_sent (Failed q r) = False"

fun keyed_step :: "('q \<Rightarrow> 'p lifecycle \<Rightarrow> 's \<Rightarrow> 's) \<Rightarrow> ('q, 'p)
  keyed_event \<Rightarrow> 's \<Rightarrow> 's" where
  "keyed_step f (Sent q) = f q Pending"
| "keyed_step f (Answered q p) = f q (Fulfilled p)"
| "keyed_step f (Failed q r) = f q (Rejected r)"

definition keyed_run :: "('q \<Rightarrow> 'p lifecycle \<Rightarrow> 's \<Rightarrow> 's) \<Rightarrow> ('q, 'p)
  keyed_event list \<Rightarrow> 's \<Rightarrow> 's" where
  "keyed_run f es s = fold (keyed_step f) es s"

lemma keyed_run_append: "keyed_run f (es @ es') s = keyed_run f es' (keyed_run f es s)"
  by (simp add: keyed_run_def)

locale latest_query =
  fixes handle :: "'q \<Rightarrow> 'p lifecycle \<Rightarrow> 's \<Rightarrow> 's"
    and newest :: "'s \<Rightarrow> 'q option"
  assumes pending: "newest (handle q Pending s) = Some q"
    and keeps: "newest (handle q (Fulfilled p) s) = newest s" "newest (handle q (Rejected r) s) = newest s"
    and stale: "newest s \<noteq> Some q \<Longrightarrow> handle q (Fulfilled p) s = s" "newest s \<noteq> Some q
      \<Longrightarrow> handle q (Rejected r) s = s"
begin

lemma newest_run: "list_all (\<lambda>e. \<not> is_sent e) es \<Longrightarrow> newest (keyed_run handle es s) =
  newest s"
proof (induction es arbitrary: s)
  case (Cons e es)
  then show ?case by (cases e) (simp_all add: keyed_run_def keeps)
qed (simp add: keyed_run_def)

text \<open>After the newest request only its own answers count.\<close>

lemma stale_invisible:
  "newest s = Some q \<Longrightarrow> list_all (\<lambda>e. \<not> is_sent e) es \<Longrightarrow>
   keyed_run handle es s = keyed_run handle (filter (\<lambda>e. event_key e = q) es) s"
proof (induction es arbitrary: s)
  case (Cons e es)
  then have n: "newest (keyed_step handle e s) = Some q" by (cases e) (simp_all add: keeps)
  have i: "event_key e \<noteq> q \<Longrightarrow> keyed_step handle e s = s"
    using Cons.prems by (cases e) (simp_all add: stale)
  show ?case
    using Cons.IH [OF n] Cons.IH [of s] Cons.prems i by (cases "event_key e = q") (simp_all add: keyed_run_def)
qed (simp add: keyed_run_def)

theorem latest_wins:
  assumes "list_all (\<lambda>e. \<not> is_sent e) post"
  shows "keyed_run handle (pre @ Sent q # post) s =
         keyed_run handle (Sent q # filter (\<lambda>e. event_key e = q) post) (keyed_run handle pre s)"
proof -
  let ?s = "handle q Pending (keyed_run handle pre s)"
  have "keyed_run handle post ?s = keyed_run handle (filter (\<lambda>e. event_key e = q) post) ?s"
    using assms by (intro stale_invisible) (simp_all add: pending)
  then show ?thesis by (simp add: keyed_run_def)
qed

end

interpretation horizon: latest_query on_fetchContentionHorizon cfc_currentRequestId
  by unfold_locales (simp_all add: on_fetchContentionHorizon_def)

interpretation member_of: latest_query on_fetchGroupsForEnvironment egr_environmentGroupsRequestId
  by unfold_locales (simp_all add: on_fetchGroupsForEnvironment_def)

text \<open>
  The contention forecast and the groups of an environment show the answer to the newest request only:
  once it is sent, every answer and failure of an older request, in whatever order it arrives, leaves no
  trace, and the spinner of the forecast is on exactly until the newest request settles.
\<close>

theorem forecast_and_groups_latest_wins:
  assumes "list_all (\<lambda>e. \<not> is_sent e) post" and "list_all (\<lambda>e. \<not> is_sent e) post'"
  shows "keyed_run on_fetchContentionHorizon (pre @ Sent q # post) s =
           keyed_run on_fetchContentionHorizon (Sent q # filter (\<lambda>e. event_key e = q) post)
             (keyed_run on_fetchContentionHorizon pre s) \<and>
         cfc_loading (keyed_run on_fetchContentionHorizon (pre @ Sent q # post) s) =
           list_all (\<lambda>e. event_key e \<noteq> q) post \<and>
         keyed_run on_fetchGroupsForEnvironment (pre' @ Sent q' # post') s' =
           keyed_run on_fetchGroupsForEnvironment (Sent q' # filter (\<lambda>e. event_key e = q') post')
             (keyed_run on_fetchGroupsForEnvironment pre' s')"
proof (intro conjI)
  show a: "keyed_run on_fetchContentionHorizon (pre @ Sent q # post) s =
           keyed_run on_fetchContentionHorizon (Sent q # filter (\<lambda>e. event_key e = q) post)
             (keyed_run on_fetchContentionHorizon pre s)"
    using assms(1) by (rule horizon.latest_wins)
  show "keyed_run on_fetchGroupsForEnvironment (pre' @ Sent q' # post') s' =
           keyed_run on_fetchGroupsForEnvironment (Sent q' # filter (\<lambda>e. event_key e = q') post')
             (keyed_run on_fetchGroupsForEnvironment pre' s')"
    using assms(2) by (rule member_of.latest_wins)
  have settle: "list_all (\<lambda>e. \<not> is_sent e \<and> event_key e = q) es \<Longrightarrow>
    cfc_currentRequestId t = Some q \<Longrightarrow>
      cfc_loading (keyed_run on_fetchContentionHorizon es t) = (if es = [] then cfc_loading t else False)" for es t
  proof (induction es arbitrary: t)
    case (Cons e es)
    then show ?case by (cases e) (simp_all add: keyed_run_def on_fetchContentionHorizon_def)
  qed (simp add: keyed_run_def)
  have "list_all (\<lambda>e. \<not> is_sent e \<and> event_key e = q) (filter (\<lambda>e. event_key e = q) post)"
    using assms(1) by (simp add: list_all_iff)
  from settle [OF this, of "on_fetchContentionHorizon q Pending (keyed_run on_fetchContentionHorizon pre s)"]
  show "cfc_loading (keyed_run on_fetchContentionHorizon (pre @ Sent q # post) s) =
           list_all (\<lambda>e. event_key e \<noteq> q) post"
    unfolding a by (auto simp add: keyed_run_def on_fetchContentionHorizon_def filter_empty_conv list_all_iff)
qed

lemma forecast_and_groups_latest_wins_witness:
  "cfc_weeks (keyed_run on_fetchContentionHorizon
     [Sent ''a'', Sent ''b'', Answered ''b'' (3, 26), Answered ''a'' (1, 2)] cfc_initial) = Some 26"
proof -
  let ?post = "[Answered ''b'' (3, 26), Answered ''a'' (1, 2)]"
  have "keyed_run on_fetchContentionHorizon ([Sent ''a''] @ Sent ''b'' # ?post) cfc_initial =
        keyed_run on_fetchContentionHorizon (Sent ''b'' # filter (\<lambda>e. event_key e = ''b'') ?post)
          (keyed_run on_fetchContentionHorizon [Sent ''a''] cfc_initial)"
    by (rule forecast_and_groups_latest_wins [where pre' = "[]" and q' = "''b''" and post' = "[]" and s' =
      egr_initial,
          THEN conjunct1]) simp_all
  then show ?thesis by (simp add: keyed_run_def on_fetchContentionHorizon_def cfc_initial_def)
qed

text \<open>
  The usage agreements have one slot for two pages and no such guard. An environment page that is opened
  while the agreements of a project are still on their way ends up showing the project's agreements, with
  the project's total, and nothing on the page says so.
\<close>

theorem late_agreements_overwrite:
  "let s = prj_reducer (FetchProjectAgreements (Fulfilled late)) (prj_reducer (FetchEnvironmentAgreements
    (Fulfilled mine)) st)
   in prj_agreements s = pg_rows late \<and> prj_agreementTotal s = pg_total late \<and> prj_error s = None"
  by (simp add: on_fetchProjectAgreements_def on_fetchEnvironmentAgreements_def)

subsection \<open>The secret of an API key\<close>

text \<open>A row without the plain key.\<close>

definition secret_free :: "json \<Rightarrow> bool" where
  "secret_free r \<longleftrightarrow> \<not> list_ex (\<lambda>f. fst f = ''raw_key'') (fields_of r)"

text \<open>The list endpoint answers with rows that do not carry the key.\<close>

fun honest_keys :: "ApiKeyAction \<Rightarrow> bool" where
  "honest_keys (FetchApiKeys (Fulfilled xs)) = list_all secret_free xs"
| "honest_keys _ = True"

lemma secret_free_without: "secret_free (without_field ''raw_key'' r)"
  by (simp add: secret_free_def without_field_def fields_of_def list_ex_iff)

lemma list_all_filter_id: "list_all P xs \<Longrightarrow> list_all P (filter Q xs)"
  by (induction xs) auto

lemma apk_step:
  "honest_keys a \<Longrightarrow> list_all secret_free (apk_items s) \<Longrightarrow> list_all secret_free
    (apk_items (apk_reducer a s))"
proof (cases a)
  case (FetchApiKeys l)
  assume "honest_keys a" "list_all secret_free (apk_items s)"
  then show ?thesis using FetchApiKeys by (cases l) (simp_all add: on_fetchApiKeys_def)
next
  case (CreateApiKey l)
  assume "list_all secret_free (apk_items s)"
  then show ?thesis using CreateApiKey secret_free_without by (cases l) (simp_all add: on_createApiKey_def)
next
  case (RevokeApiKey l)
  assume "list_all secret_free (apk_items s)"
  then show ?thesis using RevokeApiKey list_all_filter_id by (cases l) (simp_all add: on_revokeApiKey_def)
next
  case ClearJustCreated
  assume "list_all secret_free (apk_items s)"
  then show ?thesis using ClearJustCreated by (simp add: on_clearJustCreated_def)
qed

text \<open>
  C33: the plain text of an API key is kept in one place. Whatever the sequence of actions, no row of the
  list of keys carries it, the answer to the newest creation is the only place that may, and dismissing the
  dialog removes it from there.
\<close>

theorem api_key_secret_confined:
  assumes "list_all honest_keys acts"
  shows "list_all secret_free (apk_items (fold apk_reducer acts apk_initial)) \<and>
         apk_justCreated (apk_reducer ClearJustCreated (fold apk_reducer acts apk_initial)) = None \<and>
         apk_justCreated (apk_reducer (CreateApiKey (Fulfilled k)) (fold apk_reducer acts apk_initial)) = Some k"
proof -
  have "list_all secret_free (apk_items s) \<Longrightarrow> list_all secret_free (apk_items (fold apk_reducer acts
    s))" for s
    using assms by (induction acts arbitrary: s) (simp_all add: apk_step)
  then show ?thesis by (simp add: apk_initial_def on_clearJustCreated_def on_createApiKey_def)
qed

lemma api_key_secret_confined_witness:
  "let key = J_obj [(''id'', J_int 1), (''name'', J_str ''ci''), (''raw_key'', J_str ''s3cret'')]
   in list_all secret_free (apk_items (fold apk_reducer
        [FetchApiKeys (Fulfilled []), CreateApiKey (Fulfilled key), RevokeApiKey Pending] apk_initial))"
  unfolding Let_def by (rule api_key_secret_confined [THEN conjunct1]) simp

end
