(* ===== verification/RowStores.thy ===== *)
theory RowStores
  imports AdminSlices PolicySlices EnvironmentSlices SystemSlices RecordSlices "HOL-Library.Multiset"
begin

text \<open>
  The abstract specification of a slice that keeps a whole collection: the server's table, a map from
    \<open>id\<close> to
  row, and what creating, updating and deleting a row does to it. The locale \<open>row_store\<close> is what the
    three
  \<open>fulfilled\<close> cases of such a slice promise about the multiset of its rows; its theorem is the
    simulation:
  after any sequence of successful writes the rows are the server's table. Eleven collections of the
  store are its instances. \<open>ordered_store\<close> extends it for the collections kept in display order with a
    total.
\<close>

subsection \<open>The server's table\<close>

type_synonym "table" = "json \<rightharpoonup> json"

definition table_of :: "json list \<Rightarrow> table" where
  "table_of xs = map_of (map (\<lambda>r. (row_id r, r)) xs)"

datatype crud = Created json | Updated json | Deleted int

fun server_step :: "crud \<Rightarrow> table \<Rightarrow> table" where
  "server_step (Created p) t = t(row_id p \<mapsto> p)"
| "server_step (Updated p) t = (if t (row_id p) = None then t else t(row_id p \<mapsto> p))"
| "server_step (Deleted i) t = t(J_int i := None)"

text \<open>What the server accepts: a new row has a new \<open>id\<close>, a deleted one exists.\<close>

fun accepted :: "table \<Rightarrow> crud list \<Rightarrow> bool" where
  "accepted t [] = True"
| "accepted t (e # es) =
     ((case e of Created p \<Rightarrow> t (row_id p) = None | Updated p \<Rightarrow> True | Deleted i
       \<Rightarrow> t (J_int i) \<noteq> None) \<and>
      accepted (server_step e t) es)"

definition server_run :: "crud list \<Rightarrow> table \<Rightarrow> table" where
  "server_run es t = fold server_step es t"

text \<open>The actions that answer the writes, given the three action constructors of a slice.\<close>

fun answer :: "(json lifecycle \<Rightarrow> 'a) \<Rightarrow> (json lifecycle \<Rightarrow> 'a) \<Rightarrow> (int
  lifecycle \<Rightarrow> 'a) \<Rightarrow> crud \<Rightarrow> 'a" where
  "answer c u d (Created p) = c (Fulfilled p)"
| "answer c u d (Updated p) = u (Fulfilled p)"
| "answer c u d (Deleted i) = d (Fulfilled i)"

abbreviation ids :: "json list \<Rightarrow> json list" where
  "ids xs \<equiv> map row_id xs"

abbreviation put_row :: "json \<Rightarrow> json \<Rightarrow> json" where
  "put_row p \<equiv> (\<lambda>x. if row_id x = row_id p then p else x)"

lemma table_of_None: "table_of xs i = None \<longleftrightarrow> i \<notin> set (ids xs)"
  by (simp add: table_of_def map_of_eq_None_iff image_image)

lemma table_of_mset:
  assumes "mset xs = mset ys" "distinct (ids xs)"
  shows "table_of xs = table_of ys"
proof -
  have "distinct (ids ys)" using assms by (metis mset_eq_imp_distinct_iff mset_map)
  moreover have "set xs = set ys" using assms(1) by (rule mset_eq_setD)
  ultimately show ?thesis using assms(2) unfolding table_of_def by (intro map_of_inject_set [THEN iffD2]) (simp_all
    add: comp_def)
qed

lemma distinct_ids_mset: "mset xs = mset ys \<Longrightarrow> distinct (ids xs) = distinct (ids ys)"
  by (metis mset_eq_imp_distinct_iff mset_map)

lemma ids_put: "ids (map (put_row p) xs) = ids xs"
  by (induction xs) auto

lemma table_put: "table_of (map (put_row p) xs) = server_step (Updated p) (table_of xs)"
proof (rule ext)
  fix i
  show "table_of (map (put_row p) xs) i = server_step (Updated p) (table_of xs) i"
    by (induction xs) (auto simp: table_of_def split: if_splits)
qed

lemma table_remove: "table_of (filter (\<lambda>x. row_id x \<noteq> J_int i) xs) = server_step (Deleted i)
  (table_of xs)"
  by (rule ext, induction xs) (auto simp: table_of_def split: if_splits)

lemma table_add: "row_id p \<notin> set (ids xs) \<Longrightarrow> table_of (p # xs) = server_step (Created p)
  (table_of xs)"
  by (simp add: table_of_def)

lemma distinct_ids_filter: "distinct (ids xs) \<Longrightarrow> distinct (ids (filter P xs))"
  by (simp add: distinct_map_filter)

subsection \<open>The contract and its theorem\<close>

locale row_store =
  fixes step :: "crud \<Rightarrow> 's \<Rightarrow> 's" and rows :: "'s \<Rightarrow> json list"
  assumes created: "mset (rows (step (Created p) s)) = add_mset p (mset (rows s))"
    and updated: "distinct (ids (rows s)) \<Longrightarrow> mset (rows (step (Updated p) s)) = mset (map (put_row
      p) (rows s))"
    and deleted: "mset (rows (step (Deleted i) s)) = mset (filter (\<lambda>x. row_id x \<noteq> J_int i) (rows s))"
begin

lemma simulates:
  assumes d: "distinct (ids (rows s))" and a: "accepted (table_of (rows s)) [e]"
  shows "table_of (rows (step e s)) = server_step e (table_of (rows s)) \<and> distinct (ids (rows (step e s)))"
proof (cases e)
  case (Created p)
  then have n: "row_id p \<notin> set (ids (rows s))" using a by (simp add: table_of_None)
  have m: "mset (p # rows s) = mset (rows (step e s))" using Created by (simp add: created)
  have "distinct (ids (p # rows s))" using d n by simp
  then show ?thesis using table_of_mset [OF m] distinct_ids_mset [OF m] table_add [OF n] Created by simp
next
  case (Updated p)
  have m: "mset (map (put_row p) (rows s)) = mset (rows (step e s))" using Updated updated [OF d] by simp
  have "distinct (ids (map (put_row p) (rows s)))" using d by (simp only: ids_put)
  then show ?thesis
    using table_of_mset [OF m] distinct_ids_mset [OF m] unfolding table_put [symmetric] Updated by simp
next
  case (Deleted i)
  have m: "mset (filter (\<lambda>x. row_id x \<noteq> J_int i) (rows s)) = mset (rows (step e s))"
    using Deleted by (simp only: deleted)
  show ?thesis
    using table_of_mset [OF m] distinct_ids_mset [OF m] distinct_ids_filter [OF d] table_remove Deleted by simp
qed

lemma mirror_run:
  "distinct (ids (rows s)) \<Longrightarrow> accepted (table_of (rows s)) es \<Longrightarrow>
   table_of (rows (fold step es s)) = server_run es (table_of (rows s)) \<and> distinct (ids (rows (fold step es
     s)))"
proof (induction es arbitrary: s)
  case (Cons e es)
  have "table_of (rows (step e s)) = server_step e (table_of (rows s)) \<and> distinct (ids (rows (step e s)))"
    by (rule simulates) (use Cons.prems in \<open>simp_all split: crud.splits\<close>)
  then show ?case using Cons.IH [of "step e s"] Cons.prems by (simp add: server_run_def)
qed (simp add: server_run_def)

text \<open>Read once, then written: the rows are what the server has.\<close>

lemma mirrors:
  "rows s = xs \<Longrightarrow> distinct (ids xs) \<Longrightarrow> accepted (table_of xs) es \<Longrightarrow>
   table_of (rows (fold step es s)) = server_run es (table_of xs)"
  using mirror_run by blast

end

text \<open>A collection kept in an order, with a count that the page shows.\<close>

locale ordered_store = row_store +
  fixes order :: "json \<Rightarrow> int \<times> int" and total :: "'s \<Rightarrow> int"
  assumes sorts: "sorted (map order (rows (step (Created p) s)))" "sorted (map order (rows (step (Updated p) s)))"
      "sorted (map order (rows s)) \<Longrightarrow> sorted (map order (rows (step (Deleted i) s)))"
    and counts: "total (step (Created p) s) = total s + 1" "total (step (Updated p) s) = total s"
      "total (step (Deleted i) s) = total s - 1"
begin

lemma length_delete:
  assumes "distinct (ids xs)" "J_int i \<in> set (ids xs)"
  shows "length (filter (\<lambda>x. row_id x \<noteq> J_int i) xs) + 1 = length xs"
  using assms
proof (induction xs)
  case (Cons x xs)
  show ?case
  proof (cases "row_id x = J_int i")
    case True
    then have "\<forall>y \<in> set xs. row_id y \<noteq> J_int i" using Cons.prems(1) by force
    then have "filter (\<lambda>x. row_id x \<noteq> J_int i) xs = xs" by (simp add: filter_id_conv)
    then show ?thesis using True by simp
  next
    case False
    then show ?thesis using Cons by simp
  qed
qed simp

lemma length_step:
  assumes "distinct (ids (rows s))" "accepted (table_of (rows s)) [e]"
  shows "int (length (rows (step e s))) - total (step e s) = int (length (rows s)) - total s"
proof (cases e)
  case (Created p)
  then show ?thesis using arg_cong [OF created [of p s], of size] by (simp add: counts)
next
  case (Updated p)
  then show ?thesis using arg_cong [OF updated [OF assms(1), of p], of size] by (simp add: counts)
next
  case (Deleted i)
  then have "J_int i \<in> set (ids (rows s))" using assms(2) table_of_None [of "rows s" "J_int i"] by auto
  from length_delete [OF assms(1) this]
  have "length (rows (step (Deleted i) s)) + 1 = length (rows s)" by (metis deleted size_mset)
  then show ?thesis using Deleted by (simp add: counts)
qed

lemma order_run:
  "distinct (ids (rows s)) \<Longrightarrow> accepted (table_of (rows s)) es \<Longrightarrow> sorted (map order
    (rows s)) \<Longrightarrow>
   sorted (map order (rows (fold step es s))) \<and>
   int (length (rows (fold step es s))) - total (fold step es s) = int (length (rows s)) - total s"
proof (induction es arbitrary: s)
  case (Cons e es)
  have a: "accepted (table_of (rows s)) [e]" using Cons.prems by simp
  have t: "table_of (rows (step e s)) = server_step e (table_of (rows s)) \<and> distinct (ids (rows (step e s)))"
    using simulates [OF Cons.prems(1) a] .
  have "sorted (map order (rows (step e s)))" using Cons.prems(3) by (cases e) (simp_all add: sorts)
  then show ?case using Cons.IH [of "step e s"] t Cons.prems length_step [OF Cons.prems(1) a] by simp
qed simp

end

subsection \<open>The collections of the store\<close>

lemmas row_cases =
  on_createComponentType_def on_updateComponentType_def on_deleteComponentType_def
  on_fetchComponentTypes_def on_createBookingType_def on_updateBookingType_def
  on_deleteBookingType_def on_fetchBookingTypes_def on_createReleaseEventType_def
  on_updateReleaseEventType_def on_deleteReleaseEventType_def on_fetchReleaseEventTypes_def
  on_createReleaseTemplate_def on_updateReleaseTemplate_def on_deleteReleaseTemplate_def
  on_fetchReleaseTemplates_def on_createRaidItem_def on_updateRaidItem_def
  on_deleteRaidItem_def on_fetchRaidItems_def on_recordVersion_def
  on_updateVersion_def on_deleteVersion_def on_fetchVersions_def
  on_createSubSystem_def on_updateSubSystem_def on_deleteSubSystem_def
  on_fetchSubSystems_def on_createSystemDependency_def on_updateSystemDependency_def
  on_deleteSystemDependency_def on_fetchSystemDependencies_def on_createComponentDependency_def
  on_updateComponentDependency_def on_deleteComponentDependency_def on_fetchComponentDependencies_def
  on_createEnvironmentTier_def on_updateEnvironmentTier_def on_deleteEnvironmentTier_def
  on_fetchEnvironmentTiers_def on_createGateType_def on_updateGateType_def
  on_deleteGateType_def on_fetchGateTypes_def

lemma mset_put_at_first:
  "distinct (ids xs) \<Longrightarrow> mset (put_at_first (\<lambda>x. row_id x = row_id p) p xs) = mset (map
    (put_row p) xs)"
  by (simp add: put_at_first_eq_map)

lemma sort_rows_sorted [simp]: "sorted (map (order_of k) (sort_rows k xs))"
  by (simp add: sort_rows_def)

lemma mset_sort_rows [simp]: "mset (sort_rows k xs) = mset xs"
  by (simp add: sort_rows_def)

interpretation types: row_store "\<lambda>e. cty_reducer (answer CreateComponentType UpdateComponentType
  DeleteComponentType e)" cty_definitions
  by unfold_locales (simp_all add: row_cases mset_put_at_first)

interpretation booking_types: row_store "\<lambda>e. blc_reducer (answer CreateBookingType UpdateBookingType
  DeleteBookingType e)" blc_bookingTypes
  by unfold_locales (simp_all add: row_cases mset_put_at_first)

interpretation event_types: row_store "\<lambda>e. ret_reducer (answer CreateReleaseEventType
  UpdateReleaseEventType DeleteReleaseEventType e)" ret_list
  by unfold_locales (simp_all add: row_cases mset_put_at_first)

interpretation templates: row_store "\<lambda>e. rtp_reducer (answer CreateReleaseTemplate UpdateReleaseTemplate
  DeleteReleaseTemplate e)" rtp_list
  by unfold_locales (simp_all add: row_cases mset_put_at_first)

interpretation raid: row_store "\<lambda>e. rai_reducer (answer CreateRaidItem UpdateRaidItem DeleteRaidItem e)"
  rai_items
  by unfold_locales (simp_all add: row_cases mset_put_at_first)

interpretation versions: row_store "\<lambda>e. ver_reducer (answer RecordVersion UpdateVersion DeleteVersion e)"
  ver_versions
  by unfold_locales (simp_all add: row_cases mset_put_at_first)

interpretation subsystems: row_store "\<lambda>e. sys_reducer (answer CreateSubSystem UpdateSubSystem
  DeleteSubSystem e)" sys_subsystems
  by unfold_locales (simp_all add: row_cases mset_put_at_first)

interpretation system_deps: row_store "\<lambda>e. dep_reducer (answer CreateSystemDependency
  UpdateSystemDependency DeleteSystemDependency e)" dep_systemDependencies
  by unfold_locales (simp_all add: row_cases mset_put_at_first)

interpretation component_deps: row_store "\<lambda>e. dep_reducer (answer CreateComponentDependency
  UpdateComponentDependency DeleteComponentDependency e)" dep_componentDependencies
  by unfold_locales (simp_all add: row_cases mset_put_at_first)

interpretation tiers: ordered_store "\<lambda>e. etr_reducer (answer CreateEnvironmentTier UpdateEnvironmentTier
  DeleteEnvironmentTier e)" etr_tiers
    "order_of ''display_order''" etr_total
  by unfold_locales (simp_all add: row_cases sortTiers_def sortGateTypes_def sorted_filter)

interpretation gates: ordered_store "\<lambda>e. gty_reducer (answer CreateGateType UpdateGateType DeleteGateType
  e)" gty_gateTypes
    "order_of ''display_order''" gty_total
  by unfold_locales (simp_all add: row_cases sortTiers_def sortGateTypes_def sorted_filter)

subsection \<open>The store mirrors the server\<close>

lemmas fetch_cases =
  on_fetchComponentTypes_def on_fetchBookingTypes_def on_fetchReleaseEventTypes_def
  on_fetchReleaseTemplates_def on_fetchRaidItems_def on_fetchVersions_def
  on_fetchSubSystems_def on_fetchSystemDependencies_def on_fetchComponentDependencies_def
  on_fetchEnvironmentTiers_def on_fetchGateTypes_def



text \<open>
  The tiers and the gate types stay in display order, ties by \<open>id\<close>, and the total shown stays the
    number
  of rows, through any accepted sequence of creations, updates and deletions.
\<close>

theorem vocabularies_stay_ordered:
  assumes "distinct (ids xs)" and "accepted (table_of xs) es" and "sorted (map (order_of ''display_order'') xs)"
    and "n = int (length xs)"
  shows "(let s = fold (\<lambda>e. etr_reducer (answer CreateEnvironmentTier UpdateEnvironmentTier
    DeleteEnvironmentTier e)) es
             (etr_reducer (FetchEnvironmentTiers (Fulfilled \<lparr>pg_rows = xs, pg_total = n\<rparr>)) s_tiers)
          in sorted (map (order_of ''display_order'') (etr_tiers s)) \<and> etr_total s = int (length (etr_tiers
            s))) \<and>
         (let s = fold (\<lambda>e. gty_reducer (answer CreateGateType UpdateGateType DeleteGateType e)) es
             (gty_reducer (FetchGateTypes (Fulfilled \<lparr>pg_rows = xs, pg_total = n\<rparr>)) s_gates)
          in sorted (map (order_of ''display_order'') (gty_gateTypes s)) \<and> gty_total s = int (length
            (gty_gateTypes s)))"
  using tiers.order_run [of "etr_reducer (FetchEnvironmentTiers (Fulfilled \<lparr>pg_rows = xs, pg_total =
    n\<rparr>)) s_tiers" es]
    gates.order_run [of "gty_reducer (FetchGateTypes (Fulfilled \<lparr>pg_rows = xs, pg_total = n\<rparr>))
      s_gates" es] assms
  by (simp add: fetch_cases Let_def)

lemma vocabularies_stay_ordered_witness:
  "let row = (\<lambda>i n. J_obj [(''id'', J_int i), (''display_order'', J_int n)]);
       s = fold (\<lambda>e. etr_reducer (answer CreateEnvironmentTier UpdateEnvironmentTier DeleteEnvironmentTier
         e))
             [Created (row 3 0), Updated (row 1 9), Deleted 2]
             (etr_reducer (FetchEnvironmentTiers (Fulfilled \<lparr>pg_rows = [row 1 1, row 2 1], pg_total =
               2\<rparr>)) etr_initial)
   in sorted (map (order_of ''display_order'') (etr_tiers s)) \<and> etr_total s = int (length (etr_tiers s))"
proof -
  let ?row = "\<lambda>i n. J_obj [(''id'', J_int i), (''display_order'', J_int n)]"
  show ?thesis
    using vocabularies_stay_ordered [of "[?row 1 1, ?row 2 1]" "[Created (?row 3 0), Updated (?row 1 9), Deleted
      2]" 2
        etr_initial gty_initial]
    by (simp add: row_key_def get_prop_def table_of_def order_of_def num_key_def less_eq_prod_def Let_def)
qed

end
