(* ===== verification/CompositeSlices.thy ===== *)
theory CompositeSlices
  imports SliceKit ServiceCalls
begin

text \<open>
  The slices whose writes read the whole record again: runbooks (\<open>store/runbookSlice.ts\<close>), release
    closeout
  (\<open>store/closeoutSlice.ts\<close>) and the memberships of an enterprise release
  (\<open>store/enterpriseMembershipSlice.ts\<close>). A runbook write that the server refuses dispatches a fresh
    read
  of the runbook after its own rejection, so such a thunk yields a list of actions in the order in which
  they reach the reducer. The numeric keys of an object are integers here.
\<close>

subsection \<open>\<open>store/runbookSlice.ts\<close>\<close>

record RunbookState =
  rnb_plansByRelease :: "(int, json list) jmap"
  rnb_byPlan :: "(int, json) jmap"
  rnb_loadedAt :: "(int, string) jmap"
  rnb_loading :: bool
  rnb_listError :: "(int, string) jmap"
  rnb_refreshError :: "(int, string) jmap"

definition rnb_initial :: RunbookState where
  "rnb_initial =
     \<lparr>rnb_plansByRelease = [], rnb_byPlan = [], rnb_loadedAt = [], rnb_loading = False, rnb_listError = [],
      rnb_refreshError = []\<rparr>"

text \<open>The release and the plan of a composite.\<close>

definition plan_of :: "json \<Rightarrow> json" where
  "plan_of read = row_key ''plan'' read"

definition plan_id :: "json \<Rightarrow> int" where
  "plan_id read = num_key ''id'' (plan_of read)"

definition plan_release :: "json \<Rightarrow> int" where
  "plan_release read = num_key ''release_id'' (plan_of read)"

definition on_fetchRunbooks :: "int \<Rightarrow> (json list) lifecycle \<Rightarrow> RunbookState \<Rightarrow>
  RunbookState" where
  "on_fetchRunbooks arg = on_cases
     (\<lambda>st. st\<lparr>rnb_loading := True, rnb_listError := jm_delete arg (rnb_listError st)\<rparr>)
     (\<lambda>p st. st\<lparr>rnb_loading := False, rnb_plansByRelease := jm_set arg p (rnb_plansByRelease
       st)\<rparr>)
     (\<lambda>r st. st\<lparr>rnb_loading := False,
        rnb_listError := jm_set arg (nullish (rj_payload r) ''Failed to load runbooks'') (rnb_listError
          st)\<rparr>)"

definition on_runbook_refused :: "int \<Rightarrow> rejected \<Rightarrow> RunbookState \<Rightarrow> RunbookState"
  where
  "on_runbook_refused arg r st =
     st\<lparr>rnb_refreshError := jm_set arg (nullish (rj_payload r) ''Failed to load runbook'') (rnb_refreshError
       st)\<rparr>"

definition on_deleteRunbook :: "(int \<times> int) lifecycle \<Rightarrow> RunbookState \<Rightarrow> RunbookState"
  where
  "on_deleteRunbook = on_fulfilled (\<lambda>(releaseId, planId) st.
     st\<lparr>rnb_byPlan := jm_delete planId (rnb_byPlan st), rnb_loadedAt := jm_delete planId (rnb_loadedAt st),
        rnb_refreshError := jm_delete planId (rnb_refreshError st),
        rnb_plansByRelease := jm_set releaseId
          (filter (\<lambda>x. row_id x \<noteq> J_int planId) (nullish (jm_get (rnb_plansByRelease st) releaseId)
            []))
          (rnb_plansByRelease st)\<rparr>)"

text \<open>The shared \<open>fulfilled\<close> case of the eight thunks that answer with a composite;
  \<open>now\<close> is
  \<open>new Date().toISOString()\<close>.\<close>

definition on_runbook_read :: "string \<Rightarrow> json \<Rightarrow> RunbookState \<Rightarrow> RunbookState"
  where
  "on_runbook_read now read st =
     st\<lparr>rnb_byPlan := jm_set (plan_id read) read (rnb_byPlan st),
        rnb_loadedAt := jm_set (plan_id read) now (rnb_loadedAt st),
        rnb_refreshError := jm_delete (plan_id read) (rnb_refreshError st),
        rnb_plansByRelease :=
          (case jm_get (rnb_plansByRelease st) (plan_release read) of
             None \<Rightarrow> rnb_plansByRelease st
           | Some list \<Rightarrow> jm_set (plan_release read) (upsert_row (plan_of read) list)
             (rnb_plansByRelease st))\<rparr>"

datatype runbook_write = Create | Update | Create_task | Update_task | Delete_task | Set_predecessors | Transition

datatype RunbookAction =
    FetchRunbooks int "(json list) lifecycle"
  | FetchRunbook int "json lifecycle"
  | DeleteRunbook "(int \<times> int) lifecycle"
  | RunbookWrite runbook_write "json lifecycle"

fun rnb_reducer :: "string \<Rightarrow> RunbookAction \<Rightarrow> RunbookState \<Rightarrow> RunbookState" where
  "rnb_reducer now (FetchRunbooks arg l) st = on_fetchRunbooks arg l st"
| "rnb_reducer now (FetchRunbook arg l) st =
     on_cases (\<lambda>s. s) (on_runbook_read now) (on_runbook_refused arg) l st"
| "rnb_reducer now (DeleteRunbook l) st = on_deleteRunbook l st"
| "rnb_reducer now (RunbookWrite w l) st = on_fulfilled (on_runbook_read now) l st"

definition fetchRunbooks :: "(call \<Rightarrow> ApiError + json list) \<Rightarrow> int \<Rightarrow>
  RunbookAction" where
  "fetchRunbooks api releaseId =
     FetchRunbooks releaseId (thunk_with ''Failed to load runbooks'' (api (runbookService_listForRelease
       releaseId)))"

definition fetchRunbook :: "(call \<Rightarrow> ApiError + json) \<Rightarrow> int \<Rightarrow> RunbookAction"
  where
  "fetchRunbook api planId =
     FetchRunbook planId (thunk_with ''Failed to load runbook'' (api (runbookService_get planId)))"

definition createRunbook :: "(call \<Rightarrow> ApiError + json) \<Rightarrow> int \<Rightarrow> json
  \<Rightarrow> RunbookAction" where
  "createRunbook api releaseId body =
     RunbookWrite Create (thunk_with ''Failed to create runbook'' (api (runbookService_create releaseId body)))"

text \<open>\<open>catch (err) { void dispatch(fetchRunbook(planId)); return rejectWithValue(...) }\<close>: the
  answer of the
  new read comes after the rejection. \<open>again\<close> answers the new read.\<close>

definition or_reread :: "(call \<Rightarrow> ApiError + json) \<Rightarrow> int \<Rightarrow> string \<Rightarrow>
  ('p lifecycle \<Rightarrow> RunbookAction) \<Rightarrow> ApiError + 'p
    \<Rightarrow> RunbookAction list" where
  "or_reread again planId fallback con r =
     (case r of Inr x \<Rightarrow> [con (Fulfilled x)]
      | Inl e \<Rightarrow> [con (Rejected (reject_with fallback e)), fetchRunbook again planId])"

definition updateRunbook :: "(call \<Rightarrow> ApiError + json) \<Rightarrow> (call \<Rightarrow> ApiError +
  json) \<Rightarrow> int \<Rightarrow> json \<Rightarrow> RunbookAction list" where
  "updateRunbook api again planId body =
     or_reread again planId ''Failed to update runbook'' (RunbookWrite Update) (api (runbookService_update planId
       body))"

definition deleteRunbook :: "(call \<Rightarrow> ApiError + unit) \<Rightarrow> (call \<Rightarrow> ApiError +
  json) \<Rightarrow> int \<Rightarrow> int \<Rightarrow> RunbookAction list" where
  "deleteRunbook api again releaseId planId =
     or_reread again planId ''Failed to delete runbook'' DeleteRunbook
       (map_sum id (\<lambda>_. (releaseId, planId)) (api (runbookService_remove planId)))"

text \<open>A write followed by a read of the composite, in one \<open>try\<close>.\<close>

definition then_read :: "ApiError + 'q \<Rightarrow> ApiError + json \<Rightarrow> ApiError + json" where
  "then_read written read = (case written of Inl e \<Rightarrow> Inl e | Inr _ \<Rightarrow> read)"

definition createTask :: "(call \<Rightarrow> ApiError + json) \<Rightarrow> (call \<Rightarrow> ApiError + json)
  \<Rightarrow> (call \<Rightarrow> ApiError + json) \<Rightarrow> int \<Rightarrow> json \<Rightarrow>
    RunbookAction list" where
  "createTask api read again planId body =
     or_reread again planId ''Failed to add task'' (RunbookWrite Create_task)
       (then_read (api (runbookService_createTask planId body)) (read (runbookService_get planId)))"

definition updateTask :: "(call \<Rightarrow> ApiError + json) \<Rightarrow> (call \<Rightarrow> ApiError + json)
  \<Rightarrow> int \<Rightarrow> int \<Rightarrow> json \<Rightarrow> RunbookAction list" where
  "updateTask api again planId taskId body =
     or_reread again planId ''Failed to update task'' (RunbookWrite Update_task) (api (runbookService_updateTask
       taskId body))"

definition deleteTask :: "(call \<Rightarrow> ApiError + unit) \<Rightarrow> (call \<Rightarrow> ApiError + json)
  \<Rightarrow> (call \<Rightarrow> ApiError + json) \<Rightarrow> int \<Rightarrow> int \<Rightarrow>
    RunbookAction list" where
  "deleteTask api read again planId taskId =
     or_reread again planId ''Failed to delete task'' (RunbookWrite Delete_task)
       (then_read (api (runbookService_removeTask taskId)) (read (runbookService_get planId)))"

definition setPredecessors :: "(call \<Rightarrow> ApiError + json) \<Rightarrow> (call \<Rightarrow> ApiError +
  json) \<Rightarrow> int \<Rightarrow> int \<Rightarrow> int list \<Rightarrow> RunbookAction list" where
  "setPredecessors api again planId taskId ids =
     or_reread again planId ''Failed to update dependencies'' (RunbookWrite Set_predecessors)
       (api (runbookService_setPredecessors taskId ids))"

definition transitionTask :: "(call \<Rightarrow> ApiError + json) \<Rightarrow> (call \<Rightarrow> ApiError +
  json) \<Rightarrow> int \<Rightarrow> int \<Rightarrow> json \<Rightarrow> RunbookAction list" where
  "transitionTask api again planId taskId body =
     or_reread again planId ''Failed to update task'' (RunbookWrite Transition) (api (runbookService_transition
       taskId body))"

text \<open>The history of a task is not kept in the slice.\<close>

definition fetchTaskEvents :: "(call \<Rightarrow> ApiError + json list) \<Rightarrow> int \<Rightarrow> (json
  list) lifecycle" where
  "fetchTaskEvents api taskId = thunk_with ''Failed to load task history'' (api (runbookService_events taskId))"

subsection \<open>\<open>store/closeoutSlice.ts\<close>\<close>

record CloseoutState =
  clo_byRelease :: "(int, json) jmap"
  clo_loading :: bool
  clo_error :: "string option"

definition clo_initial :: CloseoutState where
  "clo_initial = \<lparr>clo_byRelease = [], clo_loading = False, clo_error = None\<rparr>"

definition on_fetchCloseout :: "int \<Rightarrow> json lifecycle \<Rightarrow> CloseoutState \<Rightarrow>
  CloseoutState" where
  "on_fetchCloseout arg = on_cases
     (\<lambda>st. st\<lparr>clo_loading := True, clo_error := None\<rparr>)
     (\<lambda>p st. st\<lparr>clo_loading := False, clo_byRelease := jm_set arg p (clo_byRelease st)\<rparr>)
     (\<lambda>r st. st\<lparr>clo_loading := False, clo_error := Some (nullish (rj_payload r)
       ''Failed to load closeout'')\<rparr>)"

definition on_closeout_written :: "int \<Rightarrow> json lifecycle \<Rightarrow> CloseoutState \<Rightarrow>
  CloseoutState" where
  "on_closeout_written releaseId = on_fulfilled (\<lambda>p st. st\<lparr>clo_byRelease := jm_set releaseId p
    (clo_byRelease st)\<rparr>)"

datatype closeout_write = DeclareStable | WithdrawStable | ConfirmHandover | WithdrawHandover

datatype CloseoutAction =
    FetchCloseout int "json lifecycle"
  | CloseoutWrite closeout_write int "json lifecycle"

fun clo_reducer :: "CloseoutAction \<Rightarrow> CloseoutState \<Rightarrow> CloseoutState" where
  "clo_reducer (FetchCloseout arg l) st = on_fetchCloseout arg l st"
| "clo_reducer (CloseoutWrite w releaseId l) st = on_closeout_written releaseId l st"

definition fetchCloseout :: "(call \<Rightarrow> ApiError + json) \<Rightarrow> int \<Rightarrow> CloseoutAction"
  where
  "fetchCloseout api releaseId =
     FetchCloseout releaseId (thunk_with ''Failed to load closeout'' (api (closeoutService_get releaseId)))"

definition closeout_write :: "string \<Rightarrow> (int \<Rightarrow> string option \<Rightarrow> call)
  \<Rightarrow> (json lifecycle \<Rightarrow> CloseoutAction) \<Rightarrow> (call \<Rightarrow> ApiError + 'q)
    \<Rightarrow> (call \<Rightarrow> ApiError + json) \<Rightarrow> int \<Rightarrow> string option \<Rightarrow>
      CloseoutAction" where
  "closeout_write name call con api read releaseId note =
     con (thunk_with (''Failed to '' @ name)
       (then_read (api (call releaseId note)) (read (closeoutService_get releaseId))))"

definition declareStable :: "(call \<Rightarrow> ApiError + 'q) \<Rightarrow> (call \<Rightarrow> ApiError + json)
  \<Rightarrow> int \<Rightarrow> string option \<Rightarrow> CloseoutAction" where
  "declareStable api read releaseId =
     closeout_write ''declare stable'' closeoutService_declareStable (CloseoutWrite DeclareStable releaseId) api
       read releaseId"

definition withdrawStable :: "(call \<Rightarrow> ApiError + 'q) \<Rightarrow> (call \<Rightarrow> ApiError + json)
  \<Rightarrow> int \<Rightarrow> string option \<Rightarrow> CloseoutAction" where
  "withdrawStable api read releaseId =
     closeout_write ''withdraw stability declaration'' (\<lambda>i _. closeoutService_withdrawStable i)
       (CloseoutWrite WithdrawStable releaseId) api read releaseId"

definition confirmHandover :: "(call \<Rightarrow> ApiError + 'q) \<Rightarrow> (call \<Rightarrow> ApiError +
  json) \<Rightarrow> int \<Rightarrow> string option \<Rightarrow> CloseoutAction" where
  "confirmHandover api read releaseId =
     closeout_write ''confirm handover'' closeoutService_confirmHandover (CloseoutWrite ConfirmHandover releaseId)
       api read releaseId"

definition withdrawHandover :: "(call \<Rightarrow> ApiError + 'q) \<Rightarrow> (call \<Rightarrow> ApiError +
  json) \<Rightarrow> int \<Rightarrow> string option \<Rightarrow> CloseoutAction" where
  "withdrawHandover api read releaseId =
     closeout_write ''withdraw handover'' (\<lambda>i _. closeoutService_withdrawHandover i)
       (CloseoutWrite WithdrawHandover releaseId) api read releaseId"

subsection \<open>\<open>store/enterpriseMembershipSlice.ts\<close>\<close>

record EnterpriseMembershipState =
  emb_byEnterprise :: "(int, json list) jmap"
  emb_loading :: bool
  emb_error :: "string option"

definition emb_initial :: EnterpriseMembershipState where
  "emb_initial = \<lparr>emb_byEnterprise = [], emb_loading = False, emb_error = None\<rparr>"

definition upsert :: "int \<times> json \<Rightarrow> EnterpriseMembershipState \<Rightarrow>
  EnterpriseMembershipState" where
  "upsert p st =
     (let enterpriseId = fst p; membership = snd p;
          list = nullish (jm_get (emb_byEnterprise st) enterpriseId) [];
          list' = (if list_ex (\<lambda>m. row_id m = row_id membership) list
                   then put_at_first (\<lambda>m. row_id m = row_id membership) membership list
                   else membership # list)
      in st\<lparr>emb_byEnterprise := jm_set enterpriseId list' (emb_byEnterprise st)\<rparr>)"

definition on_fetchMemberships :: "(int \<times> json list) lifecycle \<Rightarrow> EnterpriseMembershipState
  \<Rightarrow> EnterpriseMembershipState" where
  "on_fetchMemberships = on_cases
     (\<lambda>st. st\<lparr>emb_loading := True\<rparr>)
     (\<lambda>p st. st\<lparr>emb_loading := False, emb_byEnterprise := jm_set (fst p) (snd p) (emb_byEnterprise
       st)\<rparr>)
     (\<lambda>r st. st\<lparr>emb_loading := False, emb_error := rj_message r\<rparr>)"

datatype membership_write = Request | Accept | Reject | Withdraw | Remove

datatype EnterpriseMembershipAction =
    FetchMemberships "(int \<times> json list) lifecycle"
  | MembershipWrite membership_write "(int \<times> json) lifecycle"

fun emb_reducer :: "EnterpriseMembershipAction \<Rightarrow> EnterpriseMembershipState \<Rightarrow>
  EnterpriseMembershipState" where
  "emb_reducer (FetchMemberships l) st = on_fetchMemberships l st"
| "emb_reducer (MembershipWrite w l) st = on_fulfilled upsert l st"

definition fetchMemberships :: "(call \<Rightarrow> ApiError + json list) \<Rightarrow> int \<Rightarrow> string
  list option \<Rightarrow> EnterpriseMembershipAction" where
  "fetchMemberships api enterpriseId states =
     FetchMemberships (thunk_plain (map_sum id (Pair enterpriseId) (api (enterpriseMembershipService_list
       enterpriseId states))))"

definition requestMembership :: "(call \<Rightarrow> ApiError + json) \<Rightarrow> int \<Rightarrow> int
  \<Rightarrow> string option \<Rightarrow> EnterpriseMembershipAction" where
  "requestMembership api enterpriseId projectReleaseId notes =
     MembershipWrite Request (thunk_plain (map_sum id (Pair enterpriseId) (api (enterpriseMembershipService_request
       enterpriseId (J_obj [(''project_release_id'', J_int projectReleaseId), (''notes'', opt_text notes)])))))"

definition acceptMembership :: "(call \<Rightarrow> ApiError + json) \<Rightarrow> int \<Rightarrow> int
  \<Rightarrow> EnterpriseMembershipAction" where
  "acceptMembership api enterpriseId membershipId =
     MembershipWrite Accept (thunk_plain (map_sum id (Pair enterpriseId)
       (api (enterpriseMembershipService_accept enterpriseId membershipId))))"

definition rejectMembership :: "(call \<Rightarrow> ApiError + json) \<Rightarrow> int \<Rightarrow> int
  \<Rightarrow> string \<Rightarrow> EnterpriseMembershipAction" where
  "rejectMembership api enterpriseId membershipId notes =
     MembershipWrite Reject (thunk_plain (map_sum id (Pair enterpriseId)
       (api (enterpriseMembershipService_reject enterpriseId membershipId (J_obj [(''notes'', J_str notes)])))))"

definition withdrawMembership :: "(call \<Rightarrow> ApiError + json) \<Rightarrow> int \<Rightarrow> int
  \<Rightarrow> EnterpriseMembershipAction" where
  "withdrawMembership api enterpriseId membershipId =
     MembershipWrite Withdraw (thunk_plain (map_sum id (Pair enterpriseId)
       (api (enterpriseMembershipService_withdraw enterpriseId membershipId))))"

definition removeMembership :: "(call \<Rightarrow> ApiError + json) \<Rightarrow> int \<Rightarrow> int
  \<Rightarrow> string \<Rightarrow> EnterpriseMembershipAction" where
  "removeMembership api enterpriseId membershipId reason =
     MembershipWrite Remove (thunk_plain (map_sum id (Pair enterpriseId)
       (api (enterpriseMembershipService_remove enterpriseId membershipId (J_obj [(''reason'', J_str reason)])))))"

end
