(* ===== verification/CompositeFacts.thy ===== *)
theory CompositeFacts
  imports CompositeSlices
begin

text \<open>
  What the slices with composite records promise: a runbook on screen is the composite the server sent, with
  the time of its reading; a write that is refused leads to a fresh read, and when that fails too the page
  says so. Two behaviours are stated because they are not what the user expects: a write that succeeded but
  could not be read back is reported as a failed write, and a read that was under way when a runbook was
  deleted brings it back.
\<close>

subsection \<open>The invariant of the runbook slice\<close>

definition runbook_ok :: "RunbookState \<Rightarrow> bool" where
  "runbook_ok st \<longleftrightarrow>
     jm_wf (rnb_byPlan st) \<and> list_all (\<lambda>(k, v). plan_id v = k) (rnb_byPlan st) \<and>
     jm_keys (rnb_loadedAt st) = jm_keys (rnb_byPlan st)"

lemma list_all_jm_set: "list_all (\<lambda>(k, v). P k v) m \<Longrightarrow> P k v \<Longrightarrow> list_all (\<lambda>(k, v). P k v) (jm_set k v m)"
  by (induction k v m rule: jm_set.induct) auto

lemma list_all_jm_delete: "list_all P m \<Longrightarrow> list_all P (jm_delete k m)"
  by (induction m) (auto simp: jm_delete_def)

lemma jm_has_keys: "jm_has m k \<longleftrightarrow> k \<in> set (jm_keys m)"
  by (simp add: jm_has_def jm_keys_def)

lemma jm_keys_delete: "jm_keys (jm_delete k m) = filter (\<lambda>k'. k' \<noteq> k) (jm_keys m)"
  by (induction m) (auto simp: jm_keys_def jm_delete_def)

lemma runbook_ok_read: "runbook_ok st \<Longrightarrow> runbook_ok (on_runbook_read now read st)"
  by (auto simp: runbook_ok_def on_runbook_read_def Let_def list_all_jm_set jm_keys_set jm_has_keys)

lemma runbook_ok_delete: "runbook_ok st \<Longrightarrow> runbook_ok (on_deleteRunbook l st)"
  by (cases l) (auto simp: runbook_ok_def on_deleteRunbook_def list_all_jm_delete jm_keys_delete)

lemma runbook_ok_step: "runbook_ok st \<Longrightarrow> runbook_ok (rnb_reducer now a st)"
proof (cases a)
  case (FetchRunbooks i l)
  assume "runbook_ok st"
  then show ?thesis using FetchRunbooks by (cases l) (simp_all add: runbook_ok_def on_fetchRunbooks_def)
next
  case (FetchRunbook i l)
  assume ok: "runbook_ok st"
  then have "runbook_ok (on_runbook_refused i r st)" for r by (simp add: runbook_ok_def on_runbook_refused_def)
  with ok show ?thesis using FetchRunbook by (cases l) (simp_all add: runbook_ok_read)
next
  case (DeleteRunbook l)
  assume "runbook_ok st"
  then show ?thesis using DeleteRunbook by (simp add: runbook_ok_delete)
next
  case (RunbookWrite w l)
  assume "runbook_ok st"
  then show ?thesis using RunbookWrite by (cases l) (simp_all add: runbook_ok_read)
qed


subsection \<open>Refused writes\<close>

definition rnb_run :: "string \<Rightarrow> RunbookAction list \<Rightarrow> RunbookState \<Rightarrow> RunbookState" where
  "rnb_run now acts st = fold (rnb_reducer now) acts st"

text \<open>The seven writes of a runbook that the server refuses with \<open>e\<close>.\<close>

definition refused_writes :: "ApiError \<Rightarrow> (call \<Rightarrow> ApiError + json) \<Rightarrow> int \<Rightarrow> int \<Rightarrow> int \<Rightarrow> int list \<Rightarrow> json \<Rightarrow> RunbookAction list list" where
  "refused_writes e again releaseId planId taskId ids body =
     [updateRunbook (\<lambda>_. Inl e) again planId body, deleteRunbook (\<lambda>_. Inl e) again releaseId planId,
      createTask (\<lambda>_. Inl e) again again planId body, updateTask (\<lambda>_. Inl e) again planId taskId body,
      deleteTask (\<lambda>_. Inl e) again again planId taskId, setPredecessors (\<lambda>_. Inl e) again planId taskId ids,
      transitionTask (\<lambda>_. Inl e) again planId taskId body]"

lemmas runbook_thunks = updateRunbook_def deleteRunbook_def createTask_def updateTask_def deleteTask_def
  setPredecessors_def transitionTask_def or_reread_def then_read_def fetchRunbook_def thunk_with_def

text \<open>
  A refused write of a runbook never leaves the page stale without a word: it dispatches a new read, whose
  answer, when it comes, replaces the runbook and its time; when that read fails too, the runbook stays as it
  was and the page gets the reason of the failure.
\<close>

theorem refused_writes_reread:
  "list_all (\<lambda>acts.
     (case again (runbookService_get planId) of
        Inr read \<Rightarrow> jm_get (rnb_byPlan (rnb_run now acts st)) (plan_id read) = Some read \<and>
                    jm_get (rnb_loadedAt (rnb_run now acts st)) (plan_id read) = Some now \<and>
                    jm_get (rnb_refreshError (rnb_run now acts st)) (plan_id read) = None
      | Inl e' \<Rightarrow> rnb_byPlan (rnb_run now acts st) = rnb_byPlan st \<and> rnb_loadedAt (rnb_run now acts st) = rnb_loadedAt st \<and>
                  jm_get (rnb_refreshError (rnb_run now acts st)) planId =
                    Some (formatApiError e' ''Failed to load runbook'')))
     (refused_writes e again releaseId planId taskId is body)"
  by (cases "again (runbookService_get planId)")
     (simp_all add: refused_writes_def runbook_thunks rnb_run_def on_runbook_read_def on_runbook_refused_def
       on_deleteRunbook_def reject_with_def)

text \<open>
  A write that the server carried out but that could not be read back is reported as a write that failed:
  the user who added a task, declared a release stable or confirmed the handover is told that it could not be
  done, with the reason of the read.
\<close>

theorem unread_write_reported_failed:
  "hd (createTask (\<lambda>_. Inr task) (\<lambda>_. Inl e) again planId body) =
     RunbookWrite Create_task (Rejected (reject_with ''Failed to add task'' e)) \<and>
   hd (deleteTask (\<lambda>_. Inr ()) (\<lambda>_. Inl e) again planId taskId) =
     RunbookWrite Delete_task (Rejected (reject_with ''Failed to delete task'' e)) \<and>
   declareStable (\<lambda>_. Inr x) (\<lambda>_. Inl e) releaseId note =
     CloseoutWrite DeclareStable releaseId (Rejected (reject_with ''Failed to declare stable'' e)) \<and>
   withdrawStable (\<lambda>_. Inr x) (\<lambda>_. Inl e) releaseId note =
     CloseoutWrite WithdrawStable releaseId (Rejected (reject_with ''Failed to withdraw stability declaration'' e)) \<and>
   confirmHandover (\<lambda>_. Inr x) (\<lambda>_. Inl e) releaseId note =
     CloseoutWrite ConfirmHandover releaseId (Rejected (reject_with ''Failed to confirm handover'' e)) \<and>
   withdrawHandover (\<lambda>_. Inr x) (\<lambda>_. Inl e) releaseId note =
     CloseoutWrite WithdrawHandover releaseId (Rejected (reject_with ''Failed to withdraw handover'' e))"
  by (simp add: runbook_thunks declareStable_def withdrawStable_def confirmHandover_def withdrawHandover_def
      closeout_write_def)

lemma upsert_row_mem: "p \<in> set (upsert_row p xs)"
  by (induction xs) (auto simp: upsert_row_def)

text \<open>
  Deleting a runbook does not cancel the reads of it that are under way, and the page reads it every few
  seconds. An answer that was sent before the deletion and arrives after it puts the runbook back, in the
  composites and in the list of the release.
\<close>

theorem late_read_restores_deleted_runbook:
  "let st' = rnb_run now [DeleteRunbook (Fulfilled (plan_release read, plan_id read)),
                          FetchRunbook (plan_id read) (Fulfilled read)] st
   in jm_get (rnb_byPlan st') (plan_id read) = Some read \<and>
      plan_of read \<in> set (nullish (jm_get (rnb_plansByRelease st') (plan_release read)) [])"
  by (simp add: rnb_run_def on_deleteRunbook_def on_runbook_read_def upsert_row_mem)

end
