(* ===== verification/TsTypes.thy ===== *)
theory TsTypes
  imports SliceKit
begin

text \<open>
  The types that \<open>src/frontend/src/types\<close> declares, as values: what a TypeScript type says of a JSON value at
  run time, and when every value of one type has another. A number is an integer here, as in the model of
  JSON. \<open>Exact\<close> is an object with no other property than those listed, which is how the backend
  serialises a response model. The compiler checks none of this at run time: a response is cast to its
  type, so the theorems take the type of a response as a hypothesis or derive it from the backend's model.
\<close>

datatype ts = Any | Num | Str | Bool | Null | Void | Lit string | Arr ts | Dict ts
  | Obj "(string \<times> bool \<times> ts) list" | Exact "(string \<times> bool \<times> ts) list" | Union "ts list"

type_synonym member = "string \<times> bool \<times> ts"

text \<open>\<open>k: t\<close> and \<open>k?: t\<close>.\<close>

abbreviation req :: "string \<Rightarrow> ts \<Rightarrow> member" where
  "req k t \<equiv> (k, True, t)"

abbreviation opt :: "string \<Rightarrow> ts \<Rightarrow> member" where
  "opt k t \<equiv> (k, False, t)"

abbreviation nullable :: "ts \<Rightarrow> ts" where
  "nullable t \<equiv> Union [t, Null]"

definition lits :: "string list \<Rightarrow> ts" where
  "lits ss = Union (map Lit ss)"

definition members :: "ts \<Rightarrow> member list" where
  "members t = (case t of Obj ms \<Rightarrow> ms | Exact ms \<Rightarrow> ms | _ \<Rightarrow> [])"

text \<open>\<open>interface A extends B\<close>, \<open>Partial<A>\<close>, \<open>Omit<A, ks>\<close>, \<open>Pick<A, ks>\<close>.\<close>

definition extends :: "ts \<Rightarrow> member list \<Rightarrow> ts" where
  "extends t ms = Obj (filter (\<lambda>m. fst m \<notin> fst ` set ms) (members t) @ ms)"

definition partial :: "ts \<Rightarrow> ts" where
  "partial t = Obj (map (\<lambda>(k, r, u). (k, False, u)) (members t))"

definition omit :: "string list \<Rightarrow> ts \<Rightarrow> ts" where
  "omit ks t = Obj (filter (\<lambda>m. \<not> List.member ks (fst m)) (members t))"

definition pick :: "string list \<Rightarrow> ts \<Rightarrow> ts" where
  "pick ks t = Obj (filter (\<lambda>m. List.member ks (fst m)) (members t))"

subsection \<open>Values of a type\<close>

fun has_type :: "ts \<Rightarrow> json \<Rightarrow> bool" where
  "has_type Any j = True"
| "has_type Num j = (case j of J_int i \<Rightarrow> True | _ \<Rightarrow> False)"
| "has_type Str j = (case j of J_str s \<Rightarrow> True | _ \<Rightarrow> False)"
| "has_type Bool j = (case j of J_bool b \<Rightarrow> True | _ \<Rightarrow> False)"
| "has_type Null j = (j = J_null)"
| "has_type Void j = (j = J_undefined)"
| "has_type (Lit s) j = (j = J_str s)"
| "has_type (Arr t) j = (case j of J_arr xs \<Rightarrow> list_all (has_type t) xs | _ \<Rightarrow> False)"
| "has_type (Dict t) j = (case j of J_obj m \<Rightarrow> list_all (\<lambda>f. has_type t (snd f)) m | _ \<Rightarrow> False)"
| "has_type (Obj ms) j = (case j of J_obj m \<Rightarrow>
     list_all (\<lambda>(k, r, t). case map_of m k of None \<Rightarrow> \<not> r | Some v \<Rightarrow> has_type t v) ms | _ \<Rightarrow> False)"
| "has_type (Exact ms) j = (case j of J_obj m \<Rightarrow>
     list_all (\<lambda>(k, r, t). case map_of m k of None \<Rightarrow> \<not> r | Some v \<Rightarrow> has_type t v) ms \<and>
     list_all (\<lambda>f. list_ex (\<lambda>(k, r, t). k = fst f \<and> has_type t (snd f)) ms) m | _ \<Rightarrow> False)"
| "has_type (Union us) j = list_ex (\<lambda>t. has_type t j) us"

subsection \<open>Assignability\<close>

fun find_member :: "string \<Rightarrow> member list \<Rightarrow> (bool \<times> ts) option" where
  "find_member k [] = None"
| "find_member k (m # ms) = (if fst m = k then Some (snd m) else find_member k ms)"

lemma find_member_mem: "find_member k ms = Some (r, t) \<Longrightarrow> (k, r, t) \<in> set ms"
  by (induction ms) (auto split: if_splits)

lemma find_member_size [termination_simp]:
  "find_member k ms = Some (r, t) \<Longrightarrow> size t < Suc (size_list (\<lambda>x. Suc (Suc (size (snd (snd x))))) ms)"
  "find_member k ms = Some (r, t) \<Longrightarrow> size t \<le> Suc (size_list (\<lambda>x. Suc (Suc (size (snd (snd x))))) ms)"
proof -
  show "find_member k ms = Some (r, t) \<Longrightarrow> size t < Suc (size_list (\<lambda>x. Suc (Suc (size (snd (snd x))))) ms)"
    by (induction ms) (auto split: if_splits)
  then show "find_member k ms = Some (r, t) \<Longrightarrow> size t \<le> Suc (size_list (\<lambda>x. Suc (Suc (size (snd (snd x))))) ms)"
    by simp
qed

lemma find_member_None: "find_member k ms = None \<Longrightarrow> (k, m) \<notin> set ms"
  by (induction ms) (auto split: if_splits)

text \<open>Some alternative of a union.\<close>

fun into :: "(ts \<Rightarrow> bool) \<Rightarrow> ts \<Rightarrow> bool" where
  "into P (Union us) = list_ex (into P) us"
| "into P Any = True"
| "into P t = P t"

text \<open>Every value of the first type has the second.\<close>

fun sub :: "ts \<Rightarrow> ts \<Rightarrow> bool" where
  "sub Any = into (\<lambda>b. False)"
| "sub Num = into (\<lambda>b. b = Num)"
| "sub Str = into (\<lambda>b. b = Str)"
| "sub Bool = into (\<lambda>b. b = Bool)"
| "sub Null = into (\<lambda>b. b = Null)"
| "sub Void = into (\<lambda>b. b = Void)"
| "sub (Lit s) = into (\<lambda>b. b = Lit s \<or> b = Str)"
| "sub (Union us) = (\<lambda>b. list_all (\<lambda>u. sub u b) us)"
| "sub (Arr t) = into (\<lambda>b. case b of Arr u \<Rightarrow> sub t u | _ \<Rightarrow> False)"
| "sub (Dict t) = into (\<lambda>b. case b of Dict u \<Rightarrow> sub t u | _ \<Rightarrow> False)"
| "sub (Obj ms) = into (\<lambda>b. case b of Obj ns \<Rightarrow>
      list_all (\<lambda>n. case find_member (fst n) ms of None \<Rightarrow> False
                     | Some m \<Rightarrow> (fst (snd n) \<longrightarrow> fst m) \<and> sub (snd m) (snd (snd n))) ns
    | _ \<Rightarrow> False)"
| "sub (Exact ms) = into (\<lambda>b. case b of Obj ns \<Rightarrow>
      list_all (\<lambda>n. case find_member (fst n) ms of None \<Rightarrow> \<not> fst (snd n)
                     | Some m \<Rightarrow> (fst (snd n) \<longrightarrow> fst m) \<and> sub (snd m) (snd (snd n))) ns
    | Dict u \<Rightarrow> list_all (\<lambda>m. sub (snd (snd m)) u) ms
    | _ \<Rightarrow> False)"

lemma into_has_type: "into P b \<Longrightarrow> (\<And>t. P t \<Longrightarrow> has_type t j) \<Longrightarrow> has_type b j"
proof (induction P b rule: into.induct)
  case (1 P us)
  then show ?case by (auto simp: list_ex_iff)
qed (simp, auto simp del: has_type.simps)


lemma sub_obj:
  assumes "list_all (\<lambda>n. case find_member (fst n) ms of None \<Rightarrow> \<not> fst (snd n)
             | Some m \<Rightarrow> (fst (snd n) \<longrightarrow> fst m) \<and> sub (snd m) (snd (snd n))) ns"
    and ih: "\<And>k r t u v. (k, r, t) \<in> set ms \<Longrightarrow> sub t u \<Longrightarrow> has_type t v \<Longrightarrow> has_type u v"
    and m: "list_all (\<lambda>(k, r, t). case map_of f k of None \<Rightarrow> \<not> r | Some v \<Rightarrow> has_type t v) ms"
    and closed: "\<And>k r t v. (k, r, t) \<in> set ns \<Longrightarrow> find_member k ms = None \<Longrightarrow> map_of f k = Some v \<Longrightarrow> False"
  shows "list_all (\<lambda>(k, r, t). case map_of f k of None \<Rightarrow> \<not> r | Some v \<Rightarrow> has_type t v) ns"
  unfolding list_all_iff
proof (clarify)
  fix k r t assume n: "(k, r, t) \<in> set ns"
  show "case map_of f k of None \<Rightarrow> \<not> r | Some v \<Rightarrow> has_type t v"
  proof (cases "find_member k ms")
    case None
    then have "\<not> r" using assms(1) n by (auto simp: list_all_iff)
    moreover have "map_of f k = None" using closed [OF n None] by (cases "map_of f k") auto
    ultimately show ?thesis by simp
  next
    case (Some m')
    obtain r' t' where m': "m' = (r', t')" by (cases m')
    have mem: "(k, r', t') \<in> set ms" using Some m' find_member_mem by simp
    have s: "r \<longrightarrow> r'" "sub t' t" using assms(1) n Some m' by (auto simp: list_all_iff dest: bspec)
    have "case map_of f k of None \<Rightarrow> \<not> r' | Some v \<Rightarrow> has_type t' v" using m mem by (auto simp: list_all_iff)
    then show ?thesis using s ih [OF mem s(2)] by (cases "map_of f k") auto
  qed
qed

theorem sub_sound: "sub a b \<Longrightarrow> has_type a j \<Longrightarrow> has_type b j"
proof (induction a arbitrary: b j)
  case (Arr t)
  show ?case
  proof (rule into_has_type [OF Arr.prems(1) [unfolded sub.simps]])
    fix u assume "case u of Arr u \<Rightarrow> sub t u | _ \<Rightarrow> False"
    then show "has_type u j" using Arr.IH Arr.prems(2) by (cases u; cases j) (auto simp: list_all_iff)
  qed
next
  case (Dict t)
  show ?case
  proof (rule into_has_type [OF Dict.prems(1) [unfolded sub.simps]])
    fix u assume "case u of Dict u \<Rightarrow> sub t u | _ \<Rightarrow> False"
    then show "has_type u j" using Dict.IH Dict.prems(2) by (cases u; cases j) (auto simp: list_all_iff)
  qed
next
  case (Obj ms)
  have ih: "(k, r, t) \<in> set ms \<Longrightarrow> sub t u \<Longrightarrow> has_type t v \<Longrightarrow> has_type u v" for k r t u v
    using Obj.IH [of "(k, r, t)" "(r, t)" t] by (simp add: prod_set_simps)
  show ?case
  proof (rule into_has_type [OF Obj.prems(1) [unfolded sub.simps]])
    fix b assume b: "case b of Obj ns \<Rightarrow>
      list_all (\<lambda>n. case find_member (fst n) ms of None \<Rightarrow> False
                     | Some m \<Rightarrow> (fst (snd n) \<longrightarrow> fst m) \<and> sub (snd m) (snd (snd n))) ns
    | _ \<Rightarrow> False"
    then obtain ns where ns: "b = Obj ns" by (cases b) auto
    obtain f where f: "j = J_obj f" using Obj.prems(2) by (cases j) auto
    have "list_all (\<lambda>(k, r, t). case map_of f k of None \<Rightarrow> \<not> r | Some v \<Rightarrow> has_type t v) ns"
    proof (rule sub_obj [where ms = ms])
      show "list_all (\<lambda>n. case find_member (fst n) ms of None \<Rightarrow> \<not> fst (snd n)
             | Some m \<Rightarrow> (fst (snd n) \<longrightarrow> fst m) \<and> sub (snd m) (snd (snd n))) ns"
        using b ns by (auto simp: list_all_iff split: option.splits)
      show "list_all (\<lambda>(k, r, t). case map_of f k of None \<Rightarrow> \<not> r | Some v \<Rightarrow> has_type t v) ms"
        using Obj.prems(2) f by simp
      fix k r t v assume "(k, r, t) \<in> set ns" "find_member k ms = None"
      then show False using b ns by (auto simp: list_all_iff)
    qed (rule ih)
    then show "has_type b j" using ns f by simp
  qed
next
  case (Exact ms)
  have ih: "(k, r, t) \<in> set ms \<Longrightarrow> sub t u \<Longrightarrow> has_type t v \<Longrightarrow> has_type u v" for k r t u v
    using Exact.IH [of "(k, r, t)" "(r, t)" t] by (simp add: prod_set_simps)
  obtain f where f: "j = J_obj f" using Exact.prems(2) by (cases j) auto
  have ms: "list_all (\<lambda>(k, r, t). case map_of f k of None \<Rightarrow> \<not> r | Some v \<Rightarrow> has_type t v) ms"
    and cl: "list_all (\<lambda>g. list_ex (\<lambda>(k, r, t). k = fst g \<and> has_type t (snd g)) ms) f"
    using Exact.prems(2) f by simp_all
  show ?case
  proof (rule into_has_type [OF Exact.prems(1) [unfolded sub.simps]])
    fix b assume b: "case b of Obj ns \<Rightarrow>
      list_all (\<lambda>n. case find_member (fst n) ms of None \<Rightarrow> \<not> fst (snd n)
                     | Some m \<Rightarrow> (fst (snd n) \<longrightarrow> fst m) \<and> sub (snd m) (snd (snd n))) ns
    | Dict u \<Rightarrow> list_all (\<lambda>m. sub (snd (snd m)) u) ms
    | _ \<Rightarrow> False"
    show "has_type b j"
    proof (cases b)
      case ns: (Obj ns)
      have "list_all (\<lambda>(k, r, t). case map_of f k of None \<Rightarrow> \<not> r | Some v \<Rightarrow> has_type t v) ns"
      proof (rule sub_obj [where ms = ms])
        show "list_all (\<lambda>n. case find_member (fst n) ms of None \<Rightarrow> \<not> fst (snd n)
               | Some m \<Rightarrow> (fst (snd n) \<longrightarrow> fst m) \<and> sub (snd m) (snd (snd n))) ns"
          using b ns by simp
        show "list_all (\<lambda>(k, r, t). case map_of f k of None \<Rightarrow> \<not> r | Some v \<Rightarrow> has_type t v) ms" by (rule ms)
        fix k r t v assume "(k, r, t) \<in> set ns" and n: "find_member k ms = None" and "map_of f k = Some v"
        then have "(k, v) \<in> set f" by (simp add: map_of_SomeD)
        then have "list_ex (\<lambda>(k', r, t). k' = k \<and> has_type t v) ms" using cl by (fastforce simp: list_all_iff)
        then obtain r' t' where "(k, r', t') \<in> set ms" by (auto simp: list_ex_iff)
        then show False using find_member_None [OF n] by blast
      qed (rule ih)
      then show ?thesis using ns f by simp
    next
      case (Dict u)
      have "has_type u (snd g)" if "g \<in> set f" for g
      proof -
        have "list_ex (\<lambda>(k, r, t). k = fst g \<and> has_type t (snd g)) ms" using cl that by (simp add: list_all_iff)
        then obtain k r t where "(k, r, t) \<in> set ms" "has_type t (snd g)" by (auto simp: list_ex_iff)
        moreover from this(1) have "sub t u" using b Dict by (fastforce simp: list_all_iff)
        ultimately show ?thesis using ih by blast
      qed
      then show ?thesis using Dict f by (simp add: list_all_iff)
    qed (use b in auto)
  qed
next
  case (Union us)
  then show ?case by (auto simp: list_all_iff list_ex_iff)
qed (auto elim!: into_has_type split: json.splits)

subsection \<open>What the other side cannot know\<close>

text \<open>
  The backend declares a column with a fixed vocabulary as \<open>str\<close> and a JSON column as \<open>dict\<close>: a literal type
  becomes \<open>string\<close>, and the members named \<open>ks\<close> become \<open>unknown\<close>.
\<close>

fun erase :: "string list \<Rightarrow> ts \<Rightarrow> ts" where
  "erase ks (Lit s) = Str"
| "erase ks (Arr t) = Arr (erase ks t)"
| "erase ks (Dict t) = Dict (erase ks t)"
| "erase ks (Obj ms) = Obj (map (\<lambda>m. (fst m, fst (snd m), if List.member ks (fst m) then Any else erase ks (snd (snd m)))) ms)"
| "erase ks (Exact ms) = Exact (map (\<lambda>m. (fst m, fst (snd m), if List.member ks (fst m) then Any else erase ks (snd (snd m)))) ms)"
| "erase ks (Union us) = Union (map (erase ks) us)"
| "erase ks t = t"

lemma erase_weaker: "has_type t j \<Longrightarrow> has_type (erase ks t) j"
proof (induction t arbitrary: j)
  case (Obj ms)
  have ih: "(k, r, t) \<in> set ms \<Longrightarrow> has_type t v \<Longrightarrow> has_type (erase ks t) v" for k r t v
    using Obj.IH [of "(k, r, t)" "(r, t)" t] by (simp add: prod_set_simps)
  obtain f where f: "j = J_obj f" using Obj.prems by (cases j) auto
  show ?case using Obj.prems ih by (fastforce simp: f list_all_iff split: option.splits)
next
  case (Exact ms)
  have ih: "(k, r, t) \<in> set ms \<Longrightarrow> has_type t v \<Longrightarrow> has_type (erase ks t) v" for k r t v
    using Exact.IH [of "(k, r, t)" "(r, t)" t] by (simp add: prod_set_simps)
  obtain f where f: "j = J_obj f" using Exact.prems by (cases j) auto
  have "list_all (\<lambda>(k, r, t). case map_of f k of None \<Rightarrow> \<not> r | Some v \<Rightarrow> has_type t v)
      (map (\<lambda>m. (fst m, fst (snd m), if List.member ks (fst m) then Any else erase ks (snd (snd m)))) ms)"
    using Exact.prems ih by (fastforce simp: f list_all_iff split: option.splits)
  moreover have "list_ex (\<lambda>(k, r, t). k = fst g \<and> has_type t (snd g))
      (map (\<lambda>m. (fst m, fst (snd m), if List.member ks (fst m) then Any else erase ks (snd (snd m)))) ms)" if "g \<in> set f" for g
  proof -
    have "list_ex (\<lambda>(k, r, t). k = fst g \<and> has_type t (snd g)) ms" using Exact.prems that by (simp add: f list_all_iff)
    then obtain k r t where "(k, r, t) \<in> set ms" "k = fst g" "has_type t (snd g)" by (auto simp: list_ex_iff)
    then show ?thesis using ih by (force simp: list_ex_iff)
  qed
  ultimately show ?case by (simp add: f list_all_iff)
qed (auto simp: list_all_iff list_ex_iff split: json.splits)

text \<open>A payload that the client builds has no other members than its type lists.\<close>

fun closed :: "ts \<Rightarrow> ts" where
  "closed (Obj ms) = Exact (map (\<lambda>m. (fst m, fst (snd m), closed (snd (snd m)))) ms)"
| "closed (Exact ms) = Exact (map (\<lambda>m. (fst m, fst (snd m), closed (snd (snd m)))) ms)"
| "closed (Arr t) = Arr (closed t)"
| "closed (Dict t) = Dict (closed t)"
| "closed (Union us) = Union (map closed us)"
| "closed t = t"

lemma into_mono: "into P b \<Longrightarrow> b \<in> set us \<Longrightarrow> into P (Union us)"
  by (auto simp: list_ex_iff)

lemma sub_into_union: "sub a b \<Longrightarrow> b \<in> set us \<Longrightarrow> sub a (Union us)"
proof (induction a)
  case (Union vs)
  then show ?case by (simp add: list_all_iff)
qed (simp_all only: sub.simps into_mono)

lemma sub_Any: "sub a Any"
  by (induction a) (auto simp: list_all_iff)

text \<open>Evaluate the target of a check before its test.\<close>

lemma into_target: "b = b' \<Longrightarrow> into P b = into P b'"
  by simp

lemma sub_nullable: "sub a b \<Longrightarrow> sub a (Union [b, Null])"
  by (erule sub_into_union) simp

text \<open>A member the sender never sends and the receiver requires: no value has both types.\<close>

lemma never_both:
  assumes "has_type (Exact ms) j" "find_member k ms = None" "find_member k ns = Some (True, t)"
  shows "\<not> has_type (Obj ns) j"
proof
  assume o: "has_type (Obj ns) j"
  obtain f where f: "j = J_obj f" using assms(1) by (cases j) auto
  have "(k, True, t) \<in> set ns" using assms(3) by (rule find_member_mem)
  then obtain v where "map_of f k = Some v" using o by (auto simp: f list_all_iff split: option.splits)
  then have "(k, v) \<in> set f" by (rule map_of_SomeD)
  then have "list_ex (\<lambda>(k', r, t). k' = k \<and> has_type t v) ms" using assms(1) by (fastforce simp: f list_all_iff)
  then obtain r u where "(k, r, u) \<in> set ms" by (auto simp: list_ex_iff)
  then show False using find_member_None [OF assms(2)] by blast
qed

end
