(* ===== verification/WireTypes.thy ===== *)
theory WireTypes
  imports TsTypes
begin

text \<open>
  The interfaces and types of \<open>src/frontend/src/types\<close> and of the services, in an order in which each
    is
  declared before it is used. A definition has the name of its interface, or that name with \<open>_t\<close> where
    the
  name is taken in another theory.
\<close>

definition ProtectionLevel_t :: ts where
  "ProtectionLevel_t = lits [''soft'', ''hard'']"

definition PydanticError_t :: ts where
  "PydanticError_t = Obj [
     opt ''type'' Str,
     opt ''loc'' (Arr (Union [Str, Num])),
     opt ''msg'' Str,
     opt ''input'' Any,
     opt ''ctx'' (Dict Any),
     opt ''url'' Str]"

definition ApiErrorShape :: ts where
  "ApiErrorShape = Obj [
     opt ''response'' (Obj [
     opt ''data'' (Obj [
     opt ''detail'' (Union [Str, Arr PydanticError_t, Any])])]),
     opt ''message'' Str]"

definition LoginCredentials :: ts where
  "LoginCredentials = Obj [
     req ''username'' Str,
     req ''password'' Str,
     req ''tenant_slug'' Str]"

definition NamingPolicyPreviewRequest :: ts where
  "NamingPolicyPreviewRequest = Obj [
     opt ''name_pattern'' (nullable Str),
     opt ''required_attributes'' (Arr Str)]"

definition ScheduleBooking :: ts where
  "ScheduleBooking = Obj [
     req ''id'' Num,
     req ''environment_id'' Num,
     req ''project_name'' Str,
     req ''start_date'' Str,
     req ''end_date'' Str,
     req ''status'' Str]"

definition ScheduleChangeRequest :: ts where
  "ScheduleChangeRequest = Obj [
     req ''id'' Num,
     req ''environment_id'' Num,
     req ''subsystem_id'' Num,
     req ''title'' Str,
     req ''change_type'' Str,
     req ''status'' Str,
     req ''scheduled_start'' Str,
     req ''scheduled_end'' Str,
     req ''has_outage'' Bool,
     req ''outage_start'' (nullable Str),
     req ''outage_end'' (nullable Str)]"

definition ScheduleDeployment :: ts where
  "ScheduleDeployment = Obj [
     req ''id'' Num,
     req ''build_id'' Num,
     req ''build_sha'' Str,
     req ''build_sha_short'' Str,
     req ''release_id'' (nullable Num),
     req ''change_request_id'' Num,
     req ''status'' Str,
     req ''deployed_at'' Str,
     req ''deployer_name'' (nullable Str)]"

definition EnvironmentScheduleResponse :: ts where
  "EnvironmentScheduleResponse = Obj [
     req ''environment_id'' Num,
     req ''start_date'' Str,
     req ''end_date'' Str,
     req ''bookings'' (Arr ScheduleBooking),
     req ''change_requests'' (Arr ScheduleChangeRequest),
     req ''deployments'' (Arr ScheduleDeployment)]"

definition AgreementGapAckRead_t :: ts where
  "AgreementGapAckRead_t = Obj [
     req ''notes'' (nullable Str),
     req ''acknowledged_by'' Num,
     req ''acknowledged_at'' Str,
     req ''acknowledged_by_username'' (nullable Str)]"

definition ApiKey :: ts where
  "ApiKey = Obj [
     req ''id'' Num,
     req ''name'' Str,
     req ''scopes'' (Arr Str),
     req ''created_by'' Num,
     req ''created_by_username'' (nullable Str),
     req ''last_used_at'' (nullable Str),
     req ''expires_at'' (nullable Str),
     req ''created_at'' Str]"

definition ApiKeyCreatePayload :: ts where
  "ApiKeyCreatePayload = Obj [
     req ''name'' Str,
     req ''scopes'' (Arr Str),
     opt ''expires_at'' (nullable Str)]"

definition ApiKeyCreated :: ts where
  "ApiKeyCreated = extends ApiKey [
     req ''raw_key'' Str]"

definition BookingStatus :: ts where
  "BookingStatus = Str"

definition ContextTag_t :: ts where
  "ContextTag_t = lits [''deployment'', ''regression'', ''none'']"

definition CustomFieldPermission_t :: ts where
  "CustomFieldPermission_t = Obj [
     req ''visible'' Bool,
     req ''editable'' Bool]"

definition ContentionState_t :: ts where
  "ContentionState_t = lits [''unowned'', ''owned'', ''decided'']"

definition BookingResponse_t :: ts where
  "BookingResponse_t = Obj [
     req ''id'' Num,
     req ''environment_id'' Num,
     req ''environment_name'' (nullable Str),
     req ''project_name'' Str,
     req ''project_id'' (nullable Num),
     req ''project_name_link'' (nullable Str),
     req ''booked_by'' Num,
     req ''booked_by_username'' (nullable Str),
     req ''start_date'' Str,
     req ''end_date'' Str,
     req ''booking_type_id'' Num,
     req ''exclusive_use'' Bool,
     req ''status'' BookingStatus,
     req ''notes'' (nullable Str),
     req ''recurrence_rule'' (nullable Str),
     req ''recurrence_parent_id'' (nullable Num),
     req ''release_id'' (nullable Num),
     req ''test_phase_id'' (nullable Num),
     req ''context_tag'' ContextTag_t,
     req ''custom_fields'' (nullable (Dict Any)),
     opt ''custom_field_permissions'' (Dict CustomFieldPermission_t),
     opt ''standard_field_permissions'' (Dict (Obj [
     req ''editable'' Bool])),
     req ''tenant_id'' Num,
     req ''created_at'' Str,
     req ''updated_at'' Str,
     req ''has_unacknowledged_conflicts'' Bool,
     opt ''booking_request_id'' (nullable Num),
     req ''agreement_gap'' (nullable Str),
     req ''has_unacknowledged_agreement_gap'' Bool,
     opt ''agreement_gap_ack'' (nullable AgreementGapAckRead_t),
     req ''environment_group_id'' (nullable Num),
     req ''environment_group_name'' (nullable Str),
     opt ''protection_level'' (nullable ProtectionLevel_t),
     req ''contention_state'' (nullable ContentionState_t),
     opt ''request'' (nullable (Obj [
     req ''id'' Num,
     req ''project_name'' Str,
     req ''booking_type_id'' Num,
     req ''booked_by'' Num,
     opt ''booked_by_username'' Str,
     req ''delegate_user_ids'' (nullable (Arr Num))]))]"

definition BookingCreate :: ts where
  "BookingCreate = Obj [
     req ''environment_id'' Num,
     req ''project_name'' Str,
     req ''start_date'' Str,
     req ''end_date'' Str,
     req ''booking_type_id'' Num,
     opt ''exclusive_use'' Bool,
     opt ''protection_level'' (nullable ProtectionLevel_t),
     opt ''notes'' Str,
     opt ''recurrence_rule'' Str,
     opt ''release_id'' Num,
     opt ''test_phase_id'' Num,
     opt ''context_tag'' ContextTag_t,
     opt ''custom_fields'' (Dict Any)]"

definition BookingCreateResponse_t :: ts where
  "BookingCreateResponse_t = Obj [
     req ''booking'' BookingResponse_t,
     req ''overlap_warnings'' (Arr Num)]"

definition LifecycleState_t :: ts where
  "LifecycleState_t = Obj [
     req ''key'' Str,
     req ''label'' Str,
     req ''is_initial'' Bool,
     req ''is_terminal'' Bool,
     opt ''is_admission_lockdown'' Bool,
     opt ''is_failed'' Bool,
     opt ''marks_deployed'' Bool,
     opt ''is_closed'' Bool,
     opt ''requires_pir_complete'' Bool,
     opt ''requires_handover_confirmed'' Bool]"

definition LifecycleTransition_t :: ts where
  "LifecycleTransition_t = Obj [
     req ''from_state'' Str,
     req ''to_state'' Str,
     req ''label'' Str,
     req ''allowed_roles'' (Arr Str)]"

definition LifecycleFieldPermission_t :: ts where
  "LifecycleFieldPermission_t = Obj [
     req ''standard_fields'' (Dict (Obj [
     req ''editable_by'' (Arr Str)])),
     opt ''custom_fields'' (Dict (Obj [
     req ''editable_by'' (Arr Str)]))]"

definition LifecycleDefinition_t :: ts where
  "LifecycleDefinition_t = Obj [
     req ''states'' (Arr LifecycleState_t),
     req ''transitions'' (Arr LifecycleTransition_t),
     req ''field_permissions'' (Dict LifecycleFieldPermission_t),
     opt ''action_permissions'' (Dict (Dict (Arr Str)))]"

definition BookingLifecycleTemplate_t :: ts where
  "BookingLifecycleTemplate_t = Obj [
     req ''id'' Num,
     req ''tenant_id'' Num,
     req ''entity_type'' Str,
     req ''name'' Str,
     req ''description'' (nullable Str),
     req ''is_default'' Bool,
     opt ''applies_to_kind'' (nullable Str),
     req ''definition'' LifecycleDefinition_t,
     req ''created_at'' Str,
     req ''updated_at'' Str]"

definition BookingTypeRecord :: ts where
  "BookingTypeRecord = Obj [
     req ''id'' Num,
     req ''tenant_id'' Num,
     req ''name'' Str,
     req ''description'' (nullable Str),
     req ''lifecycle_template_id'' Num,
     req ''color'' (nullable Str),
     req ''is_active'' Bool,
     req ''default_protection_level'' ProtectionLevel_t,
     req ''default_duration_minutes'' (nullable Num),
     req ''created_at'' Str,
     req ''updated_at'' Str]"

definition BookingStatusHistory :: ts where
  "BookingStatusHistory = Obj [
     req ''id'' Num,
     req ''from_state'' (nullable Str),
     req ''to_state'' Str,
     req ''changed_by'' Num,
     req ''changed_at'' Str,
     req ''notes'' (nullable Str)]"

definition EnvBookingSummary_t :: ts where
  "EnvBookingSummary_t = Obj [
     req ''id'' Num,
     req ''environment_id'' Num,
     opt ''environment_name'' (nullable Str),
     opt ''project_name'' (nullable Str),
     req ''start_date'' Str,
     req ''end_date'' Str,
     req ''status'' Str,
     req ''has_unacknowledged_conflicts'' Bool,
     req ''agreement_gap'' (nullable Str),
     req ''has_unacknowledged_agreement_gap'' Bool,
     req ''environment_group_id'' (nullable Num),
     req ''environment_group_name'' (nullable Str),
     req ''protection_level'' ProtectionLevel_t]"

definition BookingRequestResponse :: ts where
  "BookingRequestResponse = Obj [
     req ''id'' Num,
     req ''tenant_id'' Num,
     req ''project_name'' Str,
     req ''project_id'' (nullable Num),
     req ''project_name_link'' (nullable Str),
     req ''booking_type_id'' Num,
     req ''start_date'' Str,
     req ''end_date'' Str,
     req ''notes'' (nullable Str),
     req ''context_tag'' Str,
     req ''exclusive_use_requested'' Bool,
     req ''protection_level'' ProtectionLevel_t,
     req ''custom_fields'' (nullable (Dict Any)),
     req ''booked_by'' Num,
     req ''delegate_user_ids'' (nullable (Arr Num)),
     req ''rollup_status'' Str,
     req ''bookings'' (Arr EnvBookingSummary_t)]"

definition BookingRequestCreatePayload :: ts where
  "BookingRequestCreatePayload = Obj [
     req ''project_name'' Str,
     opt ''project_id'' (nullable Num),
     req ''booking_type_id'' Num,
     req ''start_date'' Str,
     req ''end_date'' Str,
     req ''environment_ids'' (Arr Num),
     opt ''environment_group_ids'' (Arr Num),
     opt ''notes'' (nullable Str),
     opt ''context_tag'' Str,
     opt ''exclusive_use_requested'' Bool,
     opt ''protection_level'' (nullable ProtectionLevel_t),
     opt ''custom_fields'' (nullable (Dict Any)),
     opt ''delegate_user_ids'' (nullable (Arr Num))]"

definition BookingRequestCreateResponse :: ts where
  "BookingRequestCreateResponse = Obj [
     req ''request'' BookingRequestResponse,
     req ''detected_conflicts'' (Dict (Arr EnvBookingSummary_t)),
     req ''agreement_gaps'' (Dict Str)]"

definition PreviewConflictsResponse :: ts where
  "PreviewConflictsResponse = Obj [
     req ''conflicts'' (Dict (Arr EnvBookingSummary_t))]"

definition PipelineStep :: ts where
  "PipelineStep = Obj [
     req ''name'' Str,
     req ''status'' Str,
     req ''started_at'' (nullable Str),
     req ''finished_at'' (nullable Str)]"

definition Build :: ts where
  "Build = Obj [
     req ''id'' Num,
     req ''tenant_id'' Num,
     req ''subsystem_id'' Num,
     req ''subsystem_name'' (nullable Str),
     req ''release_id'' (nullable Num),
     req ''release_name'' (nullable Str),
     req ''git_sha'' Str,
     req ''git_branch'' (nullable Str),
     req ''build_number'' (nullable Str),
     req ''commit_timestamp'' Str,
     req ''build_started_at'' (nullable Str),
     req ''build_finished_at'' (nullable Str),
     req ''jira_tickets'' (Arr Str),
     req ''pipeline_steps'' (Arr PipelineStep),
     req ''custom_fields'' (Dict Any),
     req ''created_at'' Str,
     req ''updated_at'' Str]"

definition BuildFilters :: ts where
  "BuildFilters = Obj [
     opt ''subsystem_id'' Num,
     opt ''release_id'' Num,
     opt ''branch'' Str,
     opt ''date_from'' Str,
     opt ''date_to'' Str,
     opt ''limit'' Num,
     opt ''offset'' Num,
     opt ''sort_by'' Str,
     opt ''sort_dir'' (lits [''asc'', ''desc'']),
     opt ''subsystem_search'' Str]"

definition ChangeType :: ts where
  "ChangeType = lits [''configuration'', ''infrastructure'', ''code_deployment'']"

definition EnvironmentSummary :: ts where
  "EnvironmentSummary = Obj [
     req ''id'' Num,
     req ''name'' Str]"

definition InfrastructureComponentType :: ts where
  "InfrastructureComponentType = lits [''server'', ''container_runtime'', ''kubernetes_cluster'',
    ''managed_database'', ''load_balancer'', ''network'', ''cdn'', ''queue'', ''cache'', ''other'']"

definition InfrastructureComponentSummary :: ts where
  "InfrastructureComponentSummary = Obj [
     req ''id'' Num,
     req ''name'' Str,
     req ''component_type'' InfrastructureComponentType,
     req ''provider'' (nullable Str),
     req ''region'' (nullable Str)]"

definition ChangeRequestResponse :: ts where
  "ChangeRequestResponse = Obj [
     req ''id'' Num,
     req ''tenant_id'' Num,
     req ''title'' Str,
     req ''description'' (nullable Str),
     req ''change_type'' ChangeType,
     req ''status'' Str,
     req ''lifecycle_id'' Num,
     req ''subsystem_id'' (nullable Num),
     req ''environment_ids'' (Arr Num),
     req ''host_ids'' (Arr Num),
     req ''environments'' (Arr EnvironmentSummary),
     req ''hosts'' (Arr InfrastructureComponentSummary),
     req ''derived_environment_ids'' (Arr Num),
     req ''derived_environments'' (Arr EnvironmentSummary),
     req ''release_id'' (nullable Num),
     req ''has_outage'' Bool,
     req ''outage_start'' (nullable Str),
     req ''outage_end'' (nullable Str),
     req ''scheduled_start'' Str,
     req ''scheduled_end'' Str,
     req ''custom_fields'' (nullable (Dict Any)),
     req ''raised_by'' Num,
     req ''created_at'' Str,
     req ''updated_at'' Str]"

definition ChangeHistoryEntry :: ts where
  "ChangeHistoryEntry = Obj [
     req ''id'' Num,
     req ''from_state'' (nullable Str),
     req ''to_state'' (nullable Str),
     req ''field_name'' (nullable Str),
     req ''old_value'' (nullable Any),
     req ''new_value'' (nullable Any),
     req ''changed_by'' Num,
     req ''changed_at'' Str,
     req ''notes'' (nullable Str)]"

definition ChangeRequestDetailResponse :: ts where
  "ChangeRequestDetailResponse = extends ChangeRequestResponse [
     req ''history'' (Arr ChangeHistoryEntry)]"

definition ChangeRequestCreatePayload :: ts where
  "ChangeRequestCreatePayload = Obj [
     req ''title'' Str,
     opt ''description'' (nullable Str),
     req ''change_type'' ChangeType,
     req ''lifecycle_id'' Num,
     opt ''subsystem_id'' (nullable Num),
     opt ''environment_ids'' (Arr Num),
     opt ''host_ids'' (Arr Num),
     opt ''release_id'' (nullable Num),
     opt ''has_outage'' Bool,
     opt ''outage_start'' (nullable Str),
     opt ''outage_end'' (nullable Str),
     req ''scheduled_start'' Str,
     req ''scheduled_end'' Str,
     opt ''custom_fields'' (nullable (Dict Any))]"

definition ChangeRequestUpdatePayload :: ts where
  "ChangeRequestUpdatePayload = Obj [
     opt ''title'' Str,
     opt ''description'' (nullable Str),
     opt ''change_type'' ChangeType,
     opt ''subsystem_id'' (nullable Num),
     opt ''environment_ids'' (Arr Num),
     opt ''host_ids'' (Arr Num),
     opt ''release_id'' (nullable Num),
     opt ''has_outage'' Bool,
     opt ''outage_start'' (nullable Str),
     opt ''outage_end'' (nullable Str),
     opt ''scheduled_start'' Str,
     opt ''scheduled_end'' Str,
     opt ''custom_fields'' (nullable (Dict Any))]"

definition ChangeRequestTransitionPayload :: ts where
  "ChangeRequestTransitionPayload = Obj [
     req ''to_state'' Str,
     opt ''notes'' (nullable Str)]"

definition ChangeRequestListFilters :: ts where
  "ChangeRequestListFilters = Obj [
     opt ''environment_id'' Num,
     opt ''host_id'' Num,
     opt ''subsystem_id'' Num,
     opt ''status'' Str,
     opt ''scheduled_from'' Str,
     opt ''scheduled_to'' Str,
     opt ''limit'' Num,
     opt ''offset'' Num,
     opt ''sort_by'' Str,
     opt ''sort_dir'' (lits [''asc'', ''desc''])]"

definition OutageConflictBooking :: ts where
  "OutageConflictBooking = Obj [
     req ''id'' Num,
     req ''environment_id'' Num,
     req ''environment_name'' Str,
     req ''project_name'' Str,
     req ''start_date'' Str,
     req ''end_date'' Str,
     req ''status'' Str]"

definition OutageConflictEnvironment :: ts where
  "OutageConflictEnvironment = Obj [
     req ''environment_id'' Num,
     req ''environment_name'' Str,
     req ''conflicts'' (Arr OutageConflictBooking)]"

definition PreviewOutageConflictsPayload :: ts where
  "PreviewOutageConflictsPayload = Obj [
     opt ''environment_ids'' (Arr Num),
     opt ''host_ids'' (Arr Num),
     req ''outage_start'' Str,
     req ''outage_end'' Str,
     opt ''exclude_change_request_id'' (nullable Num)]"

definition PreviewOutageConflictsResponse :: ts where
  "PreviewOutageConflictsResponse = Obj [
     req ''environments'' (Arr OutageConflictEnvironment),
     req ''derived_environment_ids'' (Arr Num),
     req ''derived_environments'' (Arr EnvironmentSummary)]"

definition HypercareState :: ts where
  "HypercareState = lits [''none'', ''planned'', ''active'', ''overdue'', ''stable'']"

definition CloseTarget :: ts where
  "CloseTarget = Obj [
     req ''state_key'' Str,
     req ''label'' Str,
     req ''requires_pir_complete'' Bool,
     req ''requires_handover_confirmed'' Bool,
     req ''unmet'' (Arr Str),
     req ''can_close'' Bool]"

definition CloseoutRead :: ts where
  "CloseoutRead = Obj [
     req ''hypercare'' (Obj [
     req ''state'' HypercareState,
     req ''phase'' (nullable (Obj [
     req ''id'' Num,
     req ''name'' Str,
     req ''start_date'' (nullable Str),
     req ''end_date'' (nullable Str)])),
     req ''declared_stable_at'' (nullable Str),
     req ''declared_stable_by_username'' (nullable Str)]),
     req ''handover'' (Obj [
     req ''operations_group_id'' (nullable Num),
     req ''operations_group_name'' (nullable Str),
     req ''confirmed_at'' (nullable Str),
     req ''confirmed_by_username'' (nullable Str)]),
     req ''pir'' (Obj [
     req ''exists'' Bool,
     req ''status'' (nullable Str),
     req ''completed_at'' (nullable Str)]),
     req ''incidents'' (Obj [
     req ''window_start'' (nullable Str),
     req ''window_end'' (nullable Str),
     req ''by_severity'' (Dict Num),
     req ''total'' Num,
     req ''items'' (Arr (Obj [
     req ''id'' Num,
     req ''title'' Str,
     req ''severity'' Str,
     req ''status'' Str,
     req ''detected_at'' Str]))]),
     req ''close_targets'' (Arr CloseTarget)]"

definition FieldDefinitionSchema :: ts where
  "FieldDefinitionSchema = Obj [
     req ''field_key'' Str,
     req ''label'' Str,
     req ''field_type'' (lits [''text'', ''number'', ''boolean'']),
     req ''required'' Bool,
     req ''display_order'' Num]"

definition ComponentTypeDefinitionResponse :: ts where
  "ComponentTypeDefinitionResponse = Obj [
     req ''id'' Num,
     req ''tenant_id'' Num,
     req ''name'' Str,
     req ''description'' (nullable Str),
     req ''category'' (nullable Str),
     req ''icon'' (nullable Str),
     req ''field_definitions'' (nullable (Arr FieldDefinitionSchema)),
     req ''created_at'' Str,
     req ''updated_at'' Str]"

definition ComponentTypeDefinitionCreate :: ts where
  "ComponentTypeDefinitionCreate = Obj [
     req ''name'' Str,
     opt ''description'' (nullable Str),
     opt ''category'' (nullable Str),
     opt ''icon'' (nullable Str),
     opt ''field_definitions'' (Arr FieldDefinitionSchema)]"

definition ComponentTypeDefinitionUpdate :: ts where
  "ComponentTypeDefinitionUpdate = Obj [
     opt ''name'' Str,
     opt ''description'' (nullable Str),
     opt ''category'' (nullable Str),
     opt ''icon'' (nullable Str),
     opt ''field_definitions'' (Arr FieldDefinitionSchema)]"

definition ConflictAck_t :: ts where
  "ConflictAck_t = Obj [
     req ''willing_to_share'' (nullable Bool),
     req ''notes'' (nullable Str),
     req ''acknowledged_by'' (nullable Num),
     req ''acknowledged_at'' (nullable Str)]"

definition ContentionOutcome_t :: ts where
  "ContentionOutcome_t = lits [''ranked'', ''protected'', ''no_project'', ''unranked'', ''equal_rank'']"

definition EscalationState_t :: ts where
  "EscalationState_t = lits [''open'', ''answered'', ''expired'']"

definition Escalation_t :: ts where
  "Escalation_t = Obj [
     req ''id'' Num,
     req ''booking_id'' Num,
     req ''other_booking_id'' Num,
     req ''owner_user_id'' Num,
     req ''owner_username'' (nullable Str),
     req ''escalated_by'' Num,
     req ''escalated_by_username'' (nullable Str),
     req ''respond_by'' Str,
     req ''state'' EscalationState_t,
     req ''bookings_live'' Bool,
     req ''booking_environment_name'' (nullable Str),
     req ''booking_project_name'' (nullable Str),
     req ''other_booking_environment_name'' (nullable Str),
     req ''other_booking_project_name'' (nullable Str),
     req ''booking_group_name'' (nullable Str),
     req ''other_booking_group_name'' (nullable Str),
     req ''decision_yields_booking_id'' (nullable Num),
     req ''decision_notes'' (nullable Str),
     req ''decided_by'' (nullable Num),
     req ''decided_by_username'' (nullable Str),
     req ''decided_at'' (nullable Str)]"

definition Contention_t :: ts where
  "Contention_t = Obj [
     req ''outcome'' ContentionOutcome_t,
     req ''winner_booking_id'' (nullable Num),
     req ''reason'' Str,
     req ''escalation'' (nullable Escalation_t),
     req ''booking_project_name'' (nullable Str),
     req ''other_project_name'' (nullable Str)]"

definition ConflictItem_t :: ts where
  "ConflictItem_t = Obj [
     req ''other_booking'' EnvBookingSummary_t,
     req ''contention'' Contention_t,
     req ''ack'' (nullable ConflictAck_t)]"

definition UserRef :: ts where
  "UserRef = Obj [
     req ''id'' Num,
     req ''username'' Str,
     req ''email'' Str]"

definition RequestContextRef :: ts where
  "RequestContextRef = Obj [
     req ''id'' Num,
     req ''project_name'' Str,
     req ''notes'' (nullable Str),
     req ''context_tag'' Str,
     req ''exclusive_use_requested'' Bool,
     req ''booked_by'' UserRef]"

definition ReceivedFeedbackItem :: ts where
  "ReceivedFeedbackItem = Obj [
     req ''willing_to_share'' (nullable Bool),
     req ''notes'' (nullable Str),
     req ''acknowledged_at'' Str,
     req ''acknowledged_by'' UserRef,
     req ''source_booking'' EnvBookingSummary_t,
     req ''source_request'' RequestContextRef]"

definition EscalationCreate :: ts where
  "EscalationCreate = Obj [
     req ''owner_user_id'' Num,
     req ''respond_by'' Str]"

definition EscalationDecision :: ts where
  "EscalationDecision = Obj [
     req ''yields_booking_id'' Num,
     opt ''notes'' (nullable Str)]"

definition ContentionHorizon :: ts where
  "ContentionHorizon = Obj [
     req ''count'' Num,
     req ''weeks'' Num]"

definition EntityType :: ts where
  "EntityType = lits [''system'', ''subsystem'', ''environment'', ''booking'', ''change_request'', ''release'',
    ''release_change'', ''build'', ''deployment'', ''incident'', ''environment_request'']"

definition FieldType :: ts where
  "FieldType = lits [''text'', ''number'', ''boolean'']"

definition CustomFieldDefinition :: ts where
  "CustomFieldDefinition = Obj [
     req ''id'' Num,
     req ''tenant_id'' Num,
     req ''entity_type'' EntityType,
     req ''entity_subtype'' (nullable Str),
     req ''field_key'' Str,
     req ''label'' Str,
     req ''field_type'' FieldType,
     req ''required'' Bool,
     req ''display_order'' Num,
     req ''options'' (nullable (Dict Any)),
     req ''lifecycle_states'' (nullable (Arr Str)),
     req ''created_at'' Str,
     req ''updated_at'' Str]"

definition CustomFieldDefinitionCreate :: ts where
  "CustomFieldDefinitionCreate = Obj [
     req ''entity_type'' EntityType,
     opt ''entity_subtype'' (nullable Str),
     opt ''field_key'' Str,
     req ''label'' Str,
     req ''field_type'' FieldType,
     opt ''required'' Bool,
     opt ''display_order'' Num]"

definition CustomFieldDefinitionUpdate :: ts where
  "CustomFieldDefinitionUpdate = Obj [
     opt ''label'' Str,
     opt ''entity_subtype'' (nullable Str),
     opt ''required'' Bool,
     opt ''display_order'' Num]"

definition DecommissionState_t :: ts where
  "DecommissionState_t = lits [''warned'', ''due'', ''extension_requested'', ''torn_down'', ''cancelled'']"

definition Attestation_t :: ts where
  "Attestation_t = Obj [
     req ''id'' Num,
     req ''decommission_id'' Num,
     req ''step_key'' Str,
     req ''signed_by'' Num,
     req ''signed_at'' Str,
     req ''reference'' (nullable Str),
     req ''notes'' (nullable Str),
     opt ''signed_by_username'' (nullable Str)]"

definition Decommission_t :: ts where
  "Decommission_t = Obj [
     req ''id'' Num,
     req ''environment_id'' Num,
     req ''reason'' Str,
     req ''warned_at'' Str,
     req ''scheduled_teardown_at'' Str,
     req ''initiated_by'' Num,
     req ''extension_requested_at'' (nullable Str),
     req ''extension_reason'' (nullable Str),
     req ''extension_until'' (nullable Str),
     req ''extension_decided_at'' (nullable Str),
     req ''extension_granted'' (nullable Bool),
     req ''torn_down_at'' (nullable Str),
     req ''cancelled_at'' (nullable Str),
     req ''cancel_reason'' (nullable Str),
     req ''state'' DecommissionState_t,
     opt ''initiated_by_username'' (nullable Str),
     req ''attestations'' (Arr Attestation_t)]"

definition DecommissionCreate :: ts where
  "DecommissionCreate = Obj [
     req ''reason'' Str,
     opt ''scheduled_teardown_at'' Str]"

definition ExtensionRequest :: ts where
  "ExtensionRequest = Obj [
     req ''reason'' Str,
     req ''until'' Str]"

definition ExtensionDecision :: ts where
  "ExtensionDecision = Obj [
     req ''granted'' Bool]"

definition CancelRequest :: ts where
  "CancelRequest = Obj [
     req ''reason'' Str]"

definition AttestationCreate :: ts where
  "AttestationCreate = Obj [
     req ''step_key'' Str,
     opt ''reference'' (nullable Str),
     opt ''notes'' (nullable Str)]"

definition RemainingBookingSummary_t :: ts where
  "RemainingBookingSummary_t = Obj [
     req ''id'' Num,
     req ''start_date'' Str,
     req ''end_date'' Str,
     req ''status'' Str]"

definition TeardownResult_t :: ts where
  "TeardownResult_t = extends Decommission_t [
     req ''remaining_bookings'' (Arr RemainingBookingSummary_t)]"

definition DecommissionWorklistRow_t :: ts where
  "DecommissionWorklistRow_t = extends Decommission_t [
     req ''environment_name'' (nullable Str),
     req ''initiated_by_username'' (nullable Str),
     req ''owner_username'' (nullable Str)]"

definition DecommissionStep_t :: ts where
  "DecommissionStep_t = Obj [
     req ''id'' Num,
     req ''key'' Str,
     req ''label'' Str,
     req ''description'' (nullable Str),
     req ''display_order'' Num,
     req ''is_required'' Bool,
     req ''is_active'' Bool]"

definition DecommissionStepWrite :: ts where
  "DecommissionStepWrite = Obj [
     req ''key'' Str,
     req ''label'' Str,
     opt ''description'' (nullable Str),
     opt ''display_order'' Num,
     opt ''is_required'' Bool,
     opt ''is_active'' Bool]"

definition EnvironmentLifecyclePolicy :: ts where
  "EnvironmentLifecyclePolicy = Obj [
     req ''idle_detection_enabled'' Bool,
     req ''idle_threshold_days'' Num,
     req ''decommission_notice_days'' Num]"

definition EnvironmentLifecyclePolicyUpdate :: ts where
  "EnvironmentLifecyclePolicyUpdate = Obj [
     req ''idle_detection_enabled'' Bool,
     req ''idle_threshold_days'' Num,
     req ''decommission_notice_days'' Num]"

definition DependencyType :: ts where
  "DependencyType = lits [''api_call'', ''database'', ''message_queue'', ''event'', ''file'', ''other'']"

definition HttpMethod :: ts where
  "HttpMethod = lits [''get'', ''post'', ''put'', ''patch'', ''delete'', ''head'', ''options'']"

definition ComponentEndpointResponse :: ts where
  "ComponentEndpointResponse = Obj [
     req ''id'' Num,
     req ''dependency_id'' Num,
     req ''http_method'' (nullable HttpMethod),
     req ''path'' Str,
     req ''description'' (nullable Str),
     req ''tenant_id'' Num]"

definition ComponentEndpointCreate :: ts where
  "ComponentEndpointCreate = Obj [
     opt ''http_method'' (nullable HttpMethod),
     req ''path'' Str,
     opt ''description'' (nullable Str)]"

definition ComponentEndpointUpdate :: ts where
  "ComponentEndpointUpdate = Obj [
     opt ''http_method'' (nullable HttpMethod),
     opt ''path'' Str,
     opt ''description'' (nullable Str)]"

definition DependencySource :: ts where
  "DependencySource = lits [''manual'', ''terraform'', ''docker_compose'']"

definition DependencyDirection :: ts where
  "DependencyDirection = lits [''one_way'', ''two_way'']"

definition SystemDependencyResponse :: ts where
  "SystemDependencyResponse = Obj [
     req ''id'' Num,
     req ''from_system_id'' Num,
     req ''to_system_id'' Num,
     req ''dependency_type'' DependencyType,
     req ''direction'' DependencyDirection,
     req ''source'' DependencySource,
     req ''tenant_id'' Num,
     req ''to_system'' (Obj [
     req ''id'' Num,
     req ''name'' Str,
     req ''description'' (nullable Str)]),
     opt ''from_system'' (Obj [
     req ''id'' Num,
     req ''name'' Str,
     opt ''description'' Str]),
     req ''is_incoming'' Bool]"

definition ComponentDependencyResponse :: ts where
  "ComponentDependencyResponse = Obj [
     req ''id'' Num,
     req ''from_subsystem_id'' Num,
     req ''to_subsystem_id'' Num,
     req ''dependency_type'' DependencyType,
     req ''direction'' DependencyDirection,
     req ''label'' (nullable Str),
     req ''protocol'' (nullable Str),
     req ''port'' (nullable Num),
     req ''source'' DependencySource,
     req ''tenant_id'' Num,
     req ''to_subsystem'' (Obj [
     req ''id'' Num,
     req ''name'' Str,
     req ''description'' (nullable Str),
     req ''system_id'' Num]),
     opt ''from_subsystem'' (Obj [
     req ''id'' Num,
     req ''name'' Str,
     opt ''description'' Str,
     req ''system_id'' Num]),
     req ''is_incoming'' Bool,
     req ''endpoints'' (Arr ComponentEndpointResponse)]"

definition SystemDependencyCreate :: ts where
  "SystemDependencyCreate = Obj [
     req ''to_system_id'' Num,
     req ''dependency_type'' DependencyType,
     opt ''direction'' DependencyDirection,
     opt ''source'' DependencySource]"

definition ComponentDependencyCreate :: ts where
  "ComponentDependencyCreate = Obj [
     req ''to_subsystem_id'' Num,
     req ''dependency_type'' DependencyType,
     opt ''direction'' DependencyDirection,
     opt ''protocol'' Str,
     opt ''port'' Num,
     opt ''source'' DependencySource]"

definition DependencyVerifyItem :: ts where
  "DependencyVerifyItem = Obj [
     req ''to_system_id'' Num,
     req ''to_system_name'' Str,
     req ''dependency_type'' DependencyType,
     req ''status'' (lits [''satisfied'', ''mocked'', ''missing''])]"

definition SystemVerifyResult :: ts where
  "SystemVerifyResult = Obj [
     req ''system_id'' Num,
     req ''system_name'' Str,
     req ''dependencies'' (Arr DependencyVerifyItem)]"

definition ComponentVerifyItem :: ts where
  "ComponentVerifyItem = Obj [
     req ''from_subsystem_id'' Num,
     req ''from_subsystem_name'' Str,
     req ''to_subsystem_id'' Num,
     req ''to_subsystem_name'' Str,
     req ''dependency_type'' DependencyType,
     req ''status'' (lits [''satisfied'', ''mocked'', ''missing''])]"

definition VerifyResponse :: ts where
  "VerifyResponse = Obj [
     req ''environment_id'' Num,
     req ''total_dependencies'' Num,
     req ''satisfied_count'' Num,
     req ''mocked_count'' Num,
     req ''missing_count'' Num,
     req ''systems'' (Arr SystemVerifyResult),
     req ''component_total'' Num,
     req ''component_satisfied'' Num,
     req ''component_mocked'' Num,
     req ''component_missing'' Num,
     req ''component_dependencies'' (Arr ComponentVerifyItem)]"

definition DeploymentStatus :: ts where
  "DeploymentStatus = lits [''pending'', ''in_progress'', ''success'', ''failed'', ''rolled_back'']"

definition Deployment :: ts where
  "Deployment = Obj [
     req ''id'' Num,
     req ''tenant_id'' Num,
     req ''build_id'' Num,
     req ''build_sha_short'' (nullable Str),
     req ''environment_id'' Num,
     req ''environment_name'' (nullable Str),
     req ''release_id'' (nullable Num),
     req ''release_name'' (nullable Str),
     req ''change_request_id'' Num,
     req ''change_request_title'' (nullable Str),
     req ''event_id'' Str,
     req ''deployer_name'' (nullable Str),
     req ''deployed_at'' Str,
     req ''completed_at'' (nullable Str),
     req ''status'' DeploymentStatus,
     req ''custom_fields'' (Dict Any),
     req ''created_at'' Str,
     req ''updated_at'' Str]"

definition DeploymentFilters :: ts where
  "DeploymentFilters = Obj [
     opt ''environment_id'' Num,
     opt ''release_id'' Num,
     opt ''build_id'' Num,
     opt ''status'' DeploymentStatus,
     opt ''date_from'' Str,
     opt ''date_to'' Str,
     opt ''limit'' Num,
     opt ''offset'' Num,
     opt ''sort_by'' Str,
     opt ''sort_dir'' (lits [''asc'', ''desc'']),
     opt ''environment_search'' Str,
     opt ''release_search'' Str]"

definition DeploymentLinkChangeRequest :: ts where
  "DeploymentLinkChangeRequest = Obj [
     req ''change_request_id'' Num]"

definition SeriesPoint :: ts where
  "SeriesPoint = Obj [
     req ''period'' Str]"

definition DeploymentFrequency :: ts where
  "DeploymentFrequency = Obj [
     req ''total'' Num,
     req ''series'' (Arr (Obj [
     req ''period'' Str,
     req ''count'' Num]))]"

definition LeadTime :: ts where
  "LeadTime = Obj [
     req ''median_seconds'' Num,
     req ''p90_seconds'' Num,
     req ''count'' Num,
     req ''series'' (Arr (Obj [
     req ''period'' Str,
     req ''median_seconds'' Num]))]"

definition ChangeFailureRate :: ts where
  "ChangeFailureRate = Obj [
     req ''rate'' Num,
     req ''failed_count'' Num,
     req ''shipped_count'' Num]"

definition Mttr :: ts where
  "Mttr = Obj [
     req ''mean_seconds'' Num,
     req ''median_seconds'' Num,
     req ''count'' Num,
     req ''series'' (Arr (Obj [
     req ''period'' Str,
     req ''mean_seconds'' Num]))]"

definition DoraSummary :: ts where
  "DoraSummary = Obj [
     req ''deployment_frequency'' DeploymentFrequency,
     req ''lead_time'' LeadTime,
     req ''change_failure_rate'' ChangeFailureRate,
     req ''mttr'' Mttr]"

definition DoraParams :: ts where
  "DoraParams = Obj [
     req ''date_from'' Str,
     req ''date_to'' Str,
     opt ''environment_id'' Num,
     opt ''release_id'' Num,
     opt ''granularity'' (lits [''day'', ''week'', ''month''])]"

definition MembershipState :: ts where
  "MembershipState = lits [''pending_request'', ''accepted'', ''rejected'', ''withdrawn'', ''removed'']"

definition ReleaseMembership :: ts where
  "ReleaseMembership = Obj [
     req ''id'' Num,
     req ''tenantId'' Num,
     req ''enterpriseReleaseId'' Num,
     req ''projectReleaseId'' Num,
     opt ''projectReleaseName'' (nullable Str),
     opt ''projectReleaseStatus'' (nullable Str),
     opt ''enterpriseReleaseName'' (nullable Str),
     req ''state'' MembershipState,
     req ''requestedBy'' Num,
     opt ''requestedByUsername'' (nullable Str),
     req ''requestedAt'' Str,
     opt ''decidedBy'' (nullable Num),
     opt ''decidedByUsername'' (nullable Str),
     opt ''decidedAt'' (nullable Str),
     opt ''removedBy'' (nullable Num),
     opt ''removedByUsername'' (nullable Str),
     opt ''removedAt'' (nullable Str),
     opt ''removalReason'' (nullable Str),
     req ''lateScope'' Bool,
     opt ''notes'' (nullable Str)]"

definition MembershipSummary :: ts where
  "MembershipSummary = Obj [
     req ''pending'' Num,
     req ''accepted'' Num,
     req ''rejected'' Num,
     req ''withdrawn'' Num,
     req ''removed'' Num]"

definition MembershipCreatePayload :: ts where
  "MembershipCreatePayload = Obj [
     req ''project_release_id'' Num,
     opt ''notes'' Str]"

definition MembershipRejectPayload :: ts where
  "MembershipRejectPayload = Obj [
     req ''notes'' Str]"

definition MembershipRemovePayload :: ts where
  "MembershipRemovePayload = Obj [
     req ''reason'' Str]"

definition ApiReleaseMembership :: ts where
  "ApiReleaseMembership = Obj [
     req ''id'' Num,
     req ''tenant_id'' Num,
     req ''enterprise_release_id'' Num,
     req ''project_release_id'' Num,
     opt ''project_release_name'' (nullable Str),
     opt ''project_release_status'' (nullable Str),
     opt ''enterprise_release_name'' (nullable Str),
     req ''state'' MembershipState,
     req ''requested_by'' Num,
     opt ''requested_by_username'' (nullable Str),
     req ''requested_at'' Str,
     opt ''decided_by'' (nullable Num),
     opt ''decided_by_username'' (nullable Str),
     opt ''decided_at'' (nullable Str),
     opt ''removed_by'' (nullable Num),
     opt ''removed_by_username'' (nullable Str),
     opt ''removed_at'' (nullable Str),
     opt ''removal_reason'' (nullable Str),
     req ''late_scope'' Bool,
     opt ''notes'' (nullable Str)]"

definition ApiProjectMembership :: ts where
  "ApiProjectMembership = Obj [
     req ''current'' (nullable ApiReleaseMembership),
     opt ''history'' (nullable (Arr ApiReleaseMembership))]"

definition SystemRollupRow :: ts where
  "SystemRollupRow = Obj [
     req ''systemId'' Num,
     req ''systemName'' Str,
     req ''rolesByProject'' (Dict (Arr Str))]"

definition ScopeRollupItem :: ts where
  "ScopeRollupItem = Obj [
     req ''releaseChangeId'' Num,
     req ''projectReleaseId'' Num,
     req ''projectReleaseName'' Str,
     opt ''externalKey'' (nullable Str),
     req ''title'' Str,
     req ''changeKind'' Str,
     opt ''externalStatus'' (nullable Str),
     opt ''systemId'' (nullable Num),
     opt ''systemName'' (nullable Str)]"

definition TimelinePhase :: ts where
  "TimelinePhase = Obj [
     req ''releaseId'' Num,
     req ''releaseName'' Str,
     req ''releaseKind'' Str,
     opt ''phaseId'' (nullable Num),
     req ''phaseName'' Str,
     opt ''startDate'' (nullable Str),
     opt ''endDate'' (nullable Str),
     opt ''status'' (nullable Str)]"

definition TimelineDependencyEdge :: ts where
  "TimelineDependencyEdge = Obj [
     req ''fromReleaseId'' Num,
     req ''toReleaseId'' Num,
     opt ''fromReleaseName'' (nullable Str),
     opt ''toReleaseName'' (nullable Str),
     opt ''alert'' (nullable Str)]"

definition TimelineRollup :: ts where
  "TimelineRollup = Obj [
     req ''enterprisePhases'' (Arr TimelinePhase),
     req ''childPhasesByRelease'' (Dict (Arr TimelinePhase)),
     req ''dependencies'' (Arr TimelineDependencyEdge)]"

definition MemberRollupRow :: ts where
  "MemberRollupRow = Obj [
     req ''projectReleaseId'' Num,
     req ''projectReleaseName'' Str,
     req ''status'' Str,
     opt ''admittedAt'' (nullable Str),
     req ''lateScope'' Bool]"

definition EnterpriseReportEvent :: ts where
  "EnterpriseReportEvent = Obj [
     req ''releaseId'' Num,
     req ''releaseName'' Str,
     req ''occurredAt'' Str,
     req ''eventType'' Str,
     opt ''description'' (nullable Str)]"

definition EnterpriseReport :: ts where
  "EnterpriseReport = Obj [
     req ''enterpriseId'' Num,
     req ''name'' Str,
     req ''status'' Str,
     opt ''targetDate'' (nullable Str),
     opt ''actualDate'' (nullable Str),
     opt ''description'' (nullable Str),
     req ''members'' (Arr MemberRollupRow),
     req ''systems'' (Arr SystemRollupRow),
     req ''scopeByProject'' (Dict (Arr ScopeRollupItem)),
     req ''events'' (Arr EnterpriseReportEvent),
     req ''dependencies'' (Arr TimelineDependencyEdge),
     req ''generatedAt'' Str,
     req ''generatedBy'' Str]"

definition ApiSystemRollupRow :: ts where
  "ApiSystemRollupRow = Obj [
     req ''system_id'' Num,
     req ''system_name'' Str,
     req ''roles_by_project'' (Dict (Arr Str))]"

definition ApiScopeRollupItem :: ts where
  "ApiScopeRollupItem = Obj [
     req ''release_change_id'' Num,
     req ''project_release_id'' Num,
     req ''project_release_name'' Str,
     opt ''external_key'' (nullable Str),
     req ''title'' Str,
     req ''change_kind'' Str,
     opt ''external_status'' (nullable Str),
     opt ''system_id'' (nullable Num),
     opt ''system_name'' (nullable Str)]"

definition ApiTimelinePhase :: ts where
  "ApiTimelinePhase = Obj [
     req ''release_id'' Num,
     req ''release_name'' Str,
     req ''release_kind'' Str,
     opt ''phase_id'' (nullable Num),
     req ''phase_name'' Str,
     opt ''start_date'' (nullable Str),
     opt ''end_date'' (nullable Str),
     opt ''status'' (nullable Str)]"

definition ApiTimelineDependencyEdge :: ts where
  "ApiTimelineDependencyEdge = Obj [
     req ''from_release_id'' Num,
     req ''to_release_id'' Num,
     opt ''from_release_name'' (nullable Str),
     opt ''to_release_name'' (nullable Str),
     opt ''alert'' (nullable Str)]"

definition ApiTimelineRollup :: ts where
  "ApiTimelineRollup = Obj [
     req ''enterprise_phases'' (Arr ApiTimelinePhase),
     req ''child_phases_by_release'' (Dict (Arr ApiTimelinePhase)),
     req ''dependencies'' (Arr ApiTimelineDependencyEdge)]"

definition ApiMemberRollupRow :: ts where
  "ApiMemberRollupRow = Obj [
     req ''project_release_id'' Num,
     req ''project_release_name'' Str,
     req ''status'' Str,
     opt ''admitted_at'' (nullable Str),
     req ''late_scope'' Bool]"

definition ApiEnterpriseReportEvent :: ts where
  "ApiEnterpriseReportEvent = Obj [
     req ''release_id'' Num,
     req ''release_name'' Str,
     req ''occurred_at'' Str,
     req ''event_type'' Str,
     opt ''description'' (nullable Str)]"

definition ApiEnterpriseReport :: ts where
  "ApiEnterpriseReport = Obj [
     req ''enterprise_id'' Num,
     req ''name'' Str,
     req ''status'' Str,
     opt ''target_date'' (nullable Str),
     opt ''actual_date'' (nullable Str),
     opt ''description'' (nullable Str),
     req ''members'' (Arr ApiMemberRollupRow),
     req ''systems'' (Arr ApiSystemRollupRow),
     req ''scope_by_project'' (Dict (Arr ApiScopeRollupItem)),
     req ''events'' (Arr ApiEnterpriseReportEvent),
     req ''dependencies'' (Arr ApiTimelineDependencyEdge),
     req ''generated_at'' Str,
     req ''generated_by'' Str]"

definition EnvironmentStatus_t :: ts where
  "EnvironmentStatus_t = lits [''active'', ''inactive'', ''maintenance'', ''decommissioned'']"

definition EnvironmentResponse_t :: ts where
  "EnvironmentResponse_t = Obj [
     req ''id'' Num,
     req ''name'' Str,
     req ''description'' (nullable Str),
     req ''tier_id'' Num,
     req ''tier_name'' Str,
     req ''tier_color'' (nullable Str),
     req ''owner_user_id'' (nullable Num),
     req ''owner_username'' (nullable Str),
     req ''expires_at'' (nullable Str),
     req ''reserved_now'' Bool,
     req ''idle'' Bool,
     req ''decommission_state'' (nullable DecommissionState_t),
     req ''status'' EnvironmentStatus_t,
     req ''tenant_id'' Num,
     req ''custom_fields'' (nullable (Dict Any)),
     req ''operations_group_id'' (nullable Num),
     req ''operations_group_name'' (nullable Str),
     req ''access_url'' (nullable Str),
     req ''connection_notes'' (nullable Str),
     req ''support_contact'' (nullable Str),
     req ''sla_notes'' (nullable Str),
     req ''known_limitations'' (nullable Str),
     req ''decommission_notes'' (nullable Str),
     opt ''name_compliant'' (nullable Bool),
     opt ''quarantined'' Bool,
     opt ''compliance_gaps'' (Arr Str),
     req ''created_at'' Str,
     req ''updated_at'' Str]"

definition EnvironmentNamingPolicy :: ts where
  "EnvironmentNamingPolicy = Obj [
     req ''is_enabled'' Bool,
     req ''name_pattern'' (nullable Str),
     req ''name_pattern_example'' (nullable Str),
     req ''required_attributes'' (Arr Str),
     req ''grace_days'' Num,
     req ''effective_from'' Str]"

definition EnvironmentNamingPolicyUpdate :: ts where
  "EnvironmentNamingPolicyUpdate = omit [''effective_from''] EnvironmentNamingPolicy"

definition EnvironmentNamingPolicyPreview :: ts where
  "EnvironmentNamingPolicyPreview = Obj [
     req ''total_environments'' Num,
     req ''in_gap'' Num,
     req ''quarantined_now'' Num,
     req ''sample_names'' (Arr Str)]"

definition SystemSummary_t :: ts where
  "SystemSummary_t = Obj [
     req ''id'' Num,
     req ''name'' Str,
     req ''description'' (nullable Str)]"

definition EnvironmentSystemResponse_t :: ts where
  "EnvironmentSystemResponse_t = Obj [
     req ''id'' Num,
     req ''environment_id'' Num,
     req ''system_id'' Num,
     req ''system'' (Obj [
     req ''id'' Num,
     req ''name'' Str,
     req ''description'' (nullable Str),
     req ''github_repository_url'' (nullable Str)])]"

definition EnvironmentSystemsResponse_t :: ts where
  "EnvironmentSystemsResponse_t = Obj [
     req ''systems'' (Arr EnvironmentSystemResponse_t),
     req ''missing_systems'' (Arr SystemSummary_t)]"

definition EnvironmentCreate :: ts where
  "EnvironmentCreate = Obj [
     req ''name'' Str,
     opt ''description'' Str,
     req ''tier_id'' Num,
     req ''owner_user_id'' Num,
     req ''expires_at'' Str,
     opt ''status'' EnvironmentStatus_t,
     opt ''custom_fields'' (Dict Any),
     opt ''operations_group_id'' (nullable Num)]"

definition EnvironmentUpdate :: ts where
  "EnvironmentUpdate = Obj [
     opt ''name'' Str,
     opt ''description'' Str,
     opt ''tier_id'' Num,
     opt ''owner_user_id'' Num,
     opt ''expires_at'' (nullable Str),
     opt ''status'' EnvironmentStatus_t,
     opt ''custom_fields'' (Dict Any),
     opt ''operations_group_id'' (nullable Num)]"

definition EnvironmentSystemCreate :: ts where
  "EnvironmentSystemCreate = Obj [
     req ''system_id'' Num]"

definition EnvironmentSystemUpdate :: ts where
  "EnvironmentSystemUpdate = Obj []"

definition VersionSummary_t :: ts where
  "VersionSummary_t = Obj [
     req ''build_id'' Str,
     req ''version_label'' Str,
     req ''installed_at'' Str]"

definition EnvironmentSubsystemResponse_t :: ts where
  "EnvironmentSubsystemResponse_t = Obj [
     req ''id'' Num,
     req ''environment_id'' Num,
     req ''subsystem_id'' Num,
     req ''subsystem_name'' Str,
     req ''component_type'' Str,
     req ''component_type_definition_id'' (nullable Num),
     req ''component_type_definition_name'' (nullable Str),
     req ''technology'' (nullable Str),
     req ''system_id'' Num,
     req ''system_name'' Str,
     req ''is_mocked'' Bool,
     req ''mock_notes'' (nullable Str),
     req ''custom_fields'' (nullable (Dict Any)),
     req ''latest_version'' (nullable VersionSummary_t)]"

definition EnvironmentSubsystemUpdate :: ts where
  "EnvironmentSubsystemUpdate = Obj [
     opt ''is_mocked'' Bool,
     opt ''mock_notes'' (nullable Str),
     opt ''component_type_definition_id'' (nullable Num),
     opt ''custom_fields'' (nullable (Dict Any))]"

definition EnvSubsystemHostRef :: ts where
  "EnvSubsystemHostRef = Obj [
     req ''infrastructure_component_id'' Num,
     req ''name'' Str,
     req ''component_type'' Str,
     req ''role'' (nullable Str)]"

definition EnvSubsystemNode :: ts where
  "EnvSubsystemNode = Obj [
     req ''id'' Num,
     req ''name'' Str,
     req ''component_type'' Str,
     req ''technology'' (nullable Str),
     req ''system_id'' Num,
     req ''is_mocked'' Bool,
     req ''hosts'' (Arr EnvSubsystemHostRef)]"

definition EnvironmentTopologyData_t :: ts where
  "EnvironmentTopologyData_t = Obj [
     req ''environment_id'' Num,
     req ''subsystems'' (Arr EnvSubsystemNode),
     req ''dependencies'' (Arr ComponentDependencyResponse),
     req ''system_names'' (Dict Str),
     req ''outside_subsystems'' (Arr EnvSubsystemNode),
     req ''outside_dependencies'' (Arr ComponentDependencyResponse)]"

definition Environment_t :: ts where
  "Environment_t = EnvironmentResponse_t"

definition Presence :: ts where
  "Presence = lits [''both'', ''left_only'', ''right_only'']"

definition DifferenceKind :: ts where
  "DifferenceKind = lits [''presence'', ''mocked'', ''version'', ''host_shape'']"

definition HostShapeEntry :: ts where
  "HostShapeEntry = Obj [
     req ''component_type'' Str,
     req ''role'' (nullable Str),
     req ''count'' Num]"

definition ComparedEnvironment :: ts where
  "ComparedEnvironment = Obj [
     req ''id'' Num,
     req ''name'' Str,
     req ''status'' Str]"

definition SystemPresence :: ts where
  "SystemPresence = Obj [
     req ''system_id'' Num,
     req ''name'' Str,
     req ''presence'' Presence]"

definition SubsystemSide :: ts where
  "SubsystemSide = Obj [
     req ''is_mocked'' Bool,
     req ''mock_notes'' (nullable Str),
     req ''version'' (nullable Str),
     req ''host_shape'' (Arr HostShapeEntry)]"

definition SubsystemComparison :: ts where
  "SubsystemComparison = Obj [
     req ''subsystem_id'' Num,
     req ''name'' Str,
     req ''system_id'' Num,
     req ''system_name'' Str,
     req ''presence'' Presence,
     req ''left'' (nullable SubsystemSide),
     req ''right'' (nullable SubsystemSide),
     req ''differences'' (Arr DifferenceKind)]"

definition EnvironmentComparison :: ts where
  "EnvironmentComparison = Obj [
     req ''left'' ComparedEnvironment,
     req ''right'' ComparedEnvironment,
     req ''systems'' (Arr SystemPresence),
     req ''subsystems'' (Arr SubsystemComparison),
     req ''summary'' (Obj [
     req ''compared'' Num,
     req ''differing'' Num,
     req ''by_kind'' (Dict Num)])]"

definition EnvironmentGroupResponse :: ts where
  "EnvironmentGroupResponse = Obj [
     req ''id'' Num,
     req ''tenant_id'' Num,
     req ''name'' Str,
     req ''description'' (nullable Str),
     req ''member_count'' Num,
     req ''is_active'' Bool,
     req ''created_at'' Str,
     req ''updated_at'' Str]"

definition EnvironmentGroupCreate :: ts where
  "EnvironmentGroupCreate = Obj [
     req ''name'' Str,
     opt ''description'' (nullable Str),
     opt ''is_active'' Bool]"

definition EnvironmentGroupUpdate :: ts where
  "EnvironmentGroupUpdate = Obj [
     opt ''name'' Str,
     opt ''description'' (nullable Str),
     opt ''is_active'' Bool]"

definition MemberCreate :: ts where
  "MemberCreate = Obj [
     req ''environment_id'' Num]"

definition MemberResponse :: ts where
  "MemberResponse = Obj [
     req ''id'' Num,
     req ''tenant_id'' Num,
     req ''group_id'' Num,
     req ''group_name'' Str,
     req ''environment_id'' Num,
     req ''environment_name'' Str,
     req ''created_at'' Str]"

definition HealthStatus :: ts where
  "HealthStatus = lits [''up'', ''down'', ''issue'', ''unknown'']"

definition HealthSample :: ts where
  "HealthSample = Obj [
     req ''id'' Num,
     req ''environment_id'' Num,
     req ''status'' (lits [''up'', ''down'', ''issue'']),
     req ''recorded_at'' Str,
     req ''source'' Str,
     req ''detail'' (nullable Str)]"

definition ActiveBookingSummary :: ts where
  "ActiveBookingSummary = Obj [
     req ''project_name'' Str,
     req ''start_date'' Str,
     req ''end_date'' Str]"

definition EnvironmentHealthOverviewRow :: ts where
  "EnvironmentHealthOverviewRow = Obj [
     req ''environment_id'' Num,
     req ''environment_name'' Str,
     req ''current_status'' HealthStatus,
     req ''last_recorded_at'' (nullable Str),
     req ''active_booking'' Bool,
     req ''active_booking_summary'' (nullable ActiveBookingSummary),
     req ''planned_outage'' Bool,
     req ''alert'' Bool]"

definition OperatingHoursDay :: ts where
  "OperatingHoursDay = Obj [
     req ''closed'' Bool,
     opt ''open'' (nullable Str),
     opt ''close'' (nullable Str)]"

definition OperatingHoursConfig :: ts where
  "OperatingHoursConfig = Obj [
     req ''configured'' Bool,
     opt ''timezone'' (nullable Str),
     opt ''week'' (nullable (Arr OperatingHoursDay))]"

definition OperatingHoursConfigInput :: ts where
  "OperatingHoursConfigInput = Obj [
     req ''timezone'' Str,
     req ''week'' (Arr OperatingHoursDay)]"

definition EnvironmentUtilization :: ts where
  "EnvironmentUtilization = Obj [
     req ''environment_id'' Num,
     req ''environment_name'' Str,
     req ''configured'' Bool,
     opt ''timezone'' (nullable Str),
     req ''total_operating_seconds'' Num,
     req ''booked_operating_seconds'' Num,
     req ''utilization_ratio'' Num]"

definition UtilizationOverview :: ts where
  "UtilizationOverview = Obj [
     req ''rows'' (Arr EnvironmentUtilization),
     req ''unconfigured_count'' Num]"

definition UtilizationParams :: ts where
  "UtilizationParams = Obj [
     req ''date_from'' Str,
     req ''date_to'' Str]"

definition EnvironmentRequestKind :: ts where
  "EnvironmentRequestKind = lits [''access'', ''new_environment'']"

definition EnvironmentRequestResponse :: ts where
  "EnvironmentRequestResponse = Obj [
     req ''id'' Num,
     req ''tenant_id'' Num,
     req ''kind'' EnvironmentRequestKind,
     req ''status'' Str,
     req ''lifecycle_id'' Num,
     req ''requested_by'' Num,
     req ''requester_username'' (nullable Str),
     req ''justification'' Str,
     req ''needed_by'' (nullable Str),
     req ''environment_id'' (nullable Num),
     req ''environment_name'' (nullable Str),
     req ''proposed_name'' (nullable Str),
     req ''tier_id'' (nullable Num),
     req ''tier_name'' (nullable Str),
     req ''expires_at'' (nullable Str),
     req ''operations_group_id'' (nullable Num),
     req ''operations_group_name'' (nullable Str),
     req ''created_environment_id'' (nullable Num),
     req ''created_at'' Str,
     req ''updated_at'' Str]"

definition EnvironmentRequestCreate :: ts where
  "EnvironmentRequestCreate = Obj [
     req ''kind'' EnvironmentRequestKind,
     req ''justification'' Str,
     opt ''needed_by'' (nullable Str),
     opt ''environment_id'' (nullable Num),
     opt ''proposed_name'' (nullable Str),
     opt ''tier_id'' (nullable Num),
     opt ''expires_at'' (nullable Str)]"

definition EnvironmentRequestUpdate :: ts where
  "EnvironmentRequestUpdate = Obj [
     opt ''justification'' Str,
     opt ''needed_by'' (nullable Str),
     opt ''environment_id'' (nullable Num),
     opt ''proposed_name'' (nullable Str),
     opt ''tier_id'' (nullable Num),
     opt ''expires_at'' (nullable Str),
     opt ''operations_group_id'' (nullable Num)]"

definition AllowedTransition :: ts where
  "AllowedTransition = Obj [
     req ''from_state'' Str,
     req ''to_state'' Str,
     req ''label'' Str,
     req ''allowed_roles'' (Arr Str)]"

definition WelcomePack :: ts where
  "WelcomePack = Obj [
     req ''environment'' (Dict Any),
     req ''access'' (Dict Str),
     req ''support'' (Obj [
     req ''sla_notes'' Str,
     req ''operations_group'' Str,
     req ''operations_group_members'' (Arr Str)]),
     req ''caveats'' (Obj [
     req ''known_limitations'' Str]),
     req ''offboarding'' (Obj [
     req ''decommission_notes'' Str]),
     req ''context'' (Dict Any)]"

definition EnvironmentHandoverUpdate :: ts where
  "EnvironmentHandoverUpdate = Obj [
     opt ''access_url'' (nullable Str),
     opt ''connection_notes'' (nullable Str),
     opt ''support_contact'' (nullable Str),
     opt ''sla_notes'' (nullable Str),
     opt ''known_limitations'' (nullable Str),
     opt ''decommission_notes'' (nullable Str)]"

definition EnvironmentTierResponse :: ts where
  "EnvironmentTierResponse = Obj [
     req ''id'' Num,
     req ''tenant_id'' Num,
     req ''name'' Str,
     req ''description'' (nullable Str),
     req ''category'' (nullable Str),
     req ''color'' (nullable Str),
     req ''display_order'' Num,
     req ''is_active'' Bool,
     req ''created_at'' Str,
     req ''updated_at'' Str,
     req ''idle_threshold_days'' (nullable Num)]"

definition EnvironmentTierCreate :: ts where
  "EnvironmentTierCreate = Obj [
     req ''name'' Str,
     opt ''description'' (nullable Str),
     opt ''color'' (nullable Str),
     opt ''display_order'' Num,
     opt ''is_active'' Bool,
     opt ''idle_threshold_days'' (nullable Num)]"

definition EnvironmentTierUpdate :: ts where
  "EnvironmentTierUpdate = Obj [
     opt ''name'' Str,
     opt ''description'' (nullable Str),
     opt ''color'' (nullable Str),
     opt ''display_order'' Num,
     opt ''is_active'' Bool,
     opt ''idle_threshold_days'' (nullable Num)]"

definition GateCriterionStatus_t :: ts where
  "GateCriterionStatus_t = lits [''open'', ''done'']"

definition GateCriterion_t :: ts where
  "GateCriterion_t = Obj [
     req ''id'' Num,
     req ''gate_id'' Num,
     req ''title'' Str,
     req ''notes'' (nullable Str),
     req ''assigned_to_user_id'' (nullable Num),
     req ''assigned_to_username'' (nullable Str),
     req ''assigned_role'' (nullable Str),
     req ''status'' GateCriterionStatus_t,
     req ''completed_at'' (nullable Str),
     req ''completed_by_user_id'' (nullable Num),
     req ''created_at'' Str,
     req ''updated_at'' Str]"

definition GateCriterionWithGate :: ts where
  "GateCriterionWithGate = extends GateCriterion_t [
     req ''gate_name'' Str,
     req ''gate_due_date'' Str]"

definition GateCriterionCreatePayload :: ts where
  "GateCriterionCreatePayload = Obj [
     req ''title'' Str,
     opt ''notes'' (nullable Str),
     opt ''assigned_to_user_id'' (nullable Num),
     opt ''assigned_role'' (nullable Str)]"

definition GateCriterionUpdatePayload :: ts where
  "GateCriterionUpdatePayload = Obj [
     opt ''title'' Str,
     opt ''notes'' (nullable Str),
     opt ''assigned_to_user_id'' (nullable Num),
     opt ''assigned_role'' (nullable Str)]"

definition GateEvidenceResponse_t :: ts where
  "GateEvidenceResponse_t = Obj [
     req ''id'' Num,
     req ''gate_id'' Num,
     req ''kind'' Str,
     req ''label'' Str,
     req ''url'' (nullable Str),
     req ''notes'' (nullable Str),
     req ''deployment_id'' (nullable Num),
     req ''added_by'' Num,
     req ''created_at'' Str,
     req ''is_stale'' Bool]"

definition GateEvidenceCreatePayload :: ts where
  "GateEvidenceCreatePayload = Obj [
     req ''kind'' Str,
     req ''label'' Str,
     opt ''url'' (nullable Str),
     opt ''notes'' (nullable Str),
     opt ''deployment_id'' (nullable Num)]"

definition ReadinessBlockerType :: ts where
  "ReadinessBlockerType = lits [''gate_pending'', ''gate_failed'', ''waiver_expired'', ''rollback_plan_missing'',
    ''rollback_plan_unagreed'', ''rehearsal_missing'', ''rehearsal_stale'']"

definition ReadinessWarningType :: ts where
  "ReadinessWarningType = lits [''gate_waived'', ''gate_waived_no_record'', ''gate_untyped'', ''gate_pending'',
    ''gate_failed'', ''evidence_missing'', ''evidence_stale'', ''rollback_plan_missing'',
      ''rollback_plan_unagreed'', ''rehearsal_missing'', ''rehearsal_stale'', ''rollback_irreversible'',
        ''rollback_lossy'']"

definition ReadinessBlocker :: ts where
  "ReadinessBlocker = Obj [
     req ''type'' ReadinessBlockerType,
     req ''ref_kind'' (lits [''gate'', ''system'']),
     req ''ref_id'' Num,
     req ''gate_name'' (nullable Str),
     req ''gate_type'' (nullable Str),
     req ''detail'' (nullable Str)]"

definition ReadinessWarning :: ts where
  "ReadinessWarning = Obj [
     req ''type'' ReadinessWarningType,
     req ''ref_kind'' (lits [''gate'', ''evidence'', ''system'']),
     req ''ref_id'' Num,
     req ''gate_name'' (nullable Str),
     req ''gate_type'' (nullable Str),
     req ''detail'' (nullable Str)]"

definition ReleaseReadinessResponse :: ts where
  "ReleaseReadinessResponse = Obj [
     req ''ok'' Bool,
     req ''release_id'' Num,
     req ''checked_at'' Str,
     req ''blockers'' (Arr ReadinessBlocker),
     req ''warnings'' (Arr ReadinessWarning),
     opt ''reversibility'' (nullable Str)]"

definition GateFailureBehaviour :: ts where
  "GateFailureBehaviour = lits [''block'', ''warn'', ''accept_with_exception'']"

definition GateTypeResponse :: ts where
  "GateTypeResponse = Obj [
     req ''id'' Num,
     req ''tenant_id'' Num,
     req ''name'' Str,
     req ''description'' (nullable Str),
     req ''category'' (nullable Str),
     req ''failure_behaviour'' GateFailureBehaviour,
     req ''expected_evidence'' (Arr Str),
     req ''requires_deployment_link'' Bool,
     req ''display_order'' Num,
     req ''is_active'' Bool]"

definition GateTypeCreate :: ts where
  "GateTypeCreate = Obj [
     req ''name'' Str,
     opt ''description'' (nullable Str),
     opt ''category'' (nullable Str),
     opt ''failure_behaviour'' GateFailureBehaviour,
     opt ''expected_evidence'' (Arr Str),
     opt ''requires_deployment_link'' Bool,
     opt ''display_order'' Num,
     opt ''is_active'' Bool]"

definition GateTypeUpdate :: ts where
  "GateTypeUpdate = Obj [
     opt ''name'' Str,
     opt ''description'' (nullable Str),
     opt ''category'' (nullable Str),
     opt ''failure_behaviour'' GateFailureBehaviour,
     opt ''expected_evidence'' (Arr Str),
     opt ''requires_deployment_link'' Bool,
     opt ''display_order'' Num,
     opt ''is_active'' Bool]"

definition GateWaiverResponse_t :: ts where
  "GateWaiverResponse_t = Obj [
     req ''id'' Num,
     req ''reason'' Str,
     req ''approved_by_user_id'' Num,
     req ''approved_by_username'' (nullable Str),
     req ''expires_at'' (nullable Str),
     req ''remediation'' (nullable Str),
     req ''created_at'' Str,
     req ''state'' (lits [''live'', ''expired''])]"

definition GitHubStatus :: ts where
  "GitHubStatus = Obj [
     req ''connected'' Bool,
     req ''github_login'' (nullable Str),
     req ''connected_at'' (nullable Str)]"

definition DeviceFlowStarted :: ts where
  "DeviceFlowStarted = Obj [
     req ''handle'' Str,
     req ''user_code'' Str,
     req ''verification_uri'' Str,
     req ''expires_in'' Num,
     req ''interval'' Num]"

definition PollStatus :: ts where
  "PollStatus = lits [''pending'', ''slow_down'', ''connected'', ''denied'', ''expired'']"

definition PollResult :: ts where
  "PollResult = Obj [
     req ''status'' PollStatus,
     opt ''github_login'' Str,
     opt ''interval'' Num]"

definition DetectorReport :: ts where
  "DetectorReport = Obj [
     req ''detector'' Str,
     req ''paths'' (Arr Str),
     req ''subsystems_created'' Num,
     req ''subsystems_updated'' Num,
     req ''dependencies_written'' Num,
     req ''warnings'' (Arr Str),
     req ''errors'' (Arr Str),
     req ''paths_unread'' Num]"

definition ScanResult :: ts where
  "ScanResult = Obj [
     req ''ref'' Str,
     req ''files_scanned'' Num,
     req ''truncated'' Bool,
     req ''stopped_early'' Bool,
     req ''detectors'' (Arr DetectorReport)]"

definition DriftSubsystem :: ts where
  "DriftSubsystem = Obj [
     req ''name'' Str,
     req ''component_type'' Str,
     req ''technology'' (nullable Str),
     req ''source_path'' Str]"

definition DriftChangedSubsystem :: ts where
  "DriftChangedSubsystem = Obj [
     req ''name'' Str,
     req ''field'' Str,
     req ''catalogue'' (nullable Str),
     req ''declared'' (nullable Str),
     req ''source_path'' Str]"

definition DriftEdge :: ts where
  "DriftEdge = Obj [
     req ''from_name'' Str,
     req ''to_name'' Str,
     req ''port'' (nullable Num),
     opt ''source_path'' Str]"

definition DriftChangedEdge :: ts where
  "DriftChangedEdge = Obj [
     req ''from_name'' Str,
     req ''to_name'' Str,
     req ''catalogue_port'' (nullable Num),
     req ''declared_port'' (nullable Num),
     req ''source_path'' Str]"

definition DriftConflictingEdge :: ts where
  "DriftConflictingEdge = Obj [
     req ''from_name'' Str,
     req ''to_name'' Str,
     req ''port'' (nullable Num),
     req ''source_path'' Str,
     req ''catalogue_source'' Str]"

definition DriftDetectorReport :: ts where
  "DriftDetectorReport = Obj [
     req ''detector'' Str,
     req ''paths'' (Arr Str),
     req ''paths_unread'' Num,
     req ''errors'' (Arr Str),
     req ''warnings'' (Arr Str),
     req ''absence_computed'' Bool,
     req ''absence_reason'' (nullable Str),
     req ''has_drift'' Bool,
     req ''subsystems'' (Obj [
     req ''missing_in_catalogue'' (Arr DriftSubsystem),
     req ''missing_in_code'' (nullable (Arr Str)),
     req ''changed'' (Arr DriftChangedSubsystem)]),
     req ''edges'' (Obj [
     req ''missing_in_catalogue'' (Arr DriftEdge),
     req ''missing_in_code'' (nullable (Arr DriftEdge)),
     req ''conflicting_source'' (Arr DriftConflictingEdge),
     req ''changed'' (Arr DriftChangedEdge)])]"

definition DriftResult :: ts where
  "DriftResult = Obj [
     req ''ref'' Str,
     req ''files_scanned'' Num,
     req ''truncated'' Bool,
     req ''stopped_early'' Bool,
     req ''has_drift'' Bool,
     req ''detectors'' (Arr DriftDetectorReport)]"

definition GoNoGoOutcome :: ts where
  "GoNoGoOutcome = lits [''go'', ''conditional_go'', ''no_go'']"

definition GoNoGoSignoffCreate :: ts where
  "GoNoGoSignoffCreate = Obj [
     req ''perspective_id'' Num,
     req ''user_id'' Num,
     req ''verdict'' GoNoGoOutcome,
     opt ''dissent_note'' (nullable Str)]"

definition GoNoGoConditionCreate :: ts where
  "GoNoGoConditionCreate = Obj [
     req ''text'' Str,
     opt ''owner_user_id'' (nullable Num),
     opt ''due_date'' (nullable Str)]"

definition GoNoGoDecisionCreate :: ts where
  "GoNoGoDecisionCreate = Obj [
     req ''outcome'' GoNoGoOutcome,
     req ''rationale'' Str,
     req ''decided_at'' Str,
     opt ''attendees'' (Arr Num),
     opt ''signoffs'' (Arr GoNoGoSignoffCreate),
     opt ''conditions'' (Arr GoNoGoConditionCreate)]"

definition GoNoGoSignoffRead :: ts where
  "GoNoGoSignoffRead = Obj [
     req ''id'' Num,
     req ''decision_id'' Num,
     req ''perspective_id'' Num,
     req ''user_id'' Num,
     req ''username'' (nullable Str),
     req ''perspective_name'' (nullable Str),
     req ''verdict'' Str,
     req ''dissent_note'' (nullable Str)]"

definition GoNoGoConditionRead :: ts where
  "GoNoGoConditionRead = Obj [
     req ''id'' Num,
     req ''decision_id'' Num,
     req ''text'' Str,
     req ''owner_user_id'' (nullable Num),
     req ''owner_username'' (nullable Str),
     req ''due_date'' (nullable Str),
     req ''met_at'' (nullable Str),
     req ''met_by_user_id'' (nullable Num),
     req ''met_by_username'' (nullable Str)]"

definition GoNoGoConditionClose :: ts where
  "GoNoGoConditionClose = Obj [
     req ''met'' Bool]"

definition GoNoGoSnapshotFinding :: ts where
  "GoNoGoSnapshotFinding = Obj [
     req ''type'' Str,
     req ''detail'' (nullable Str)]"

definition GoNoGoDecisionRead :: ts where
  "GoNoGoDecisionRead = Obj [
     req ''id'' Num,
     req ''tenant_id'' Num,
     req ''release_id'' Num,
     req ''outcome'' Str,
     req ''rationale'' Str,
     req ''decided_at'' Str,
     req ''chaired_by_user_id'' Num,
     req ''chaired_by_username'' (nullable Str),
     req ''attendees'' (Arr Num),
     req ''attendee_usernames'' (Arr Str),
     req ''snapshot_ok'' Bool,
     req ''snapshot_blockers'' (Arr GoNoGoSnapshotFinding),
     req ''snapshot_warnings'' (Arr GoNoGoSnapshotFinding),
     req ''snapshot_reversibility'' (nullable Str),
     req ''snapshot_rehearsal_state'' (nullable Str),
     req ''signoffs'' (Arr GoNoGoSignoffRead),
     req ''conditions'' (Arr GoNoGoConditionRead),
     req ''unmet_condition_count'' Num]"

definition GoNoGoPerspectiveCreate :: ts where
  "GoNoGoPerspectiveCreate = Obj [
     req ''name'' Str,
     opt ''description'' (nullable Str),
     opt ''sort_order'' Num,
     opt ''is_active'' Bool]"

definition GoNoGoPerspectiveUpdate :: ts where
  "GoNoGoPerspectiveUpdate = Obj [
     opt ''name'' Str,
     opt ''description'' (nullable Str),
     opt ''sort_order'' Num,
     opt ''is_active'' Bool]"

definition GoNoGoPerspectiveRead :: ts where
  "GoNoGoPerspectiveRead = Obj [
     req ''id'' Num,
     req ''tenant_id'' Num,
     req ''name'' Str,
     req ''description'' (nullable Str),
     req ''sort_order'' Num,
     req ''is_active'' Bool]"

definition Severity :: ts where
  "Severity = lits [''P1'', ''P2'', ''P3'', ''P4'']"

definition ReleaseSummary :: ts where
  "ReleaseSummary = Obj [
     req ''id'' Num,
     req ''name'' Str,
     req ''target_date'' (nullable Str),
     req ''status'' Str]"

definition ReleaseChangeRow :: ts where
  "ReleaseChangeRow = Obj [
     req ''id'' Num,
     req ''title'' Str,
     req ''epic_id'' (nullable Num)]"

definition TransitionOption :: ts where
  "TransitionOption = Obj [
     req ''to_state'' Str,
     req ''label'' Str]"

definition StatusHistoryRow :: ts where
  "StatusHistoryRow = Obj [
     req ''from_state'' (nullable Str),
     req ''to_state'' Str,
     req ''changed_by'' (nullable Num),
     req ''changed_at'' Str]"

definition IncidentListRow :: ts where
  "IncidentListRow = Obj [
     req ''id'' Num,
     req ''title'' Str,
     req ''severity'' Severity,
     req ''status'' Str,
     req ''detected_at'' Str,
     req ''resolved_at'' (nullable Str),
     req ''system_id'' (nullable Num),
     req ''system_name'' (nullable Str),
     req ''environment_id'' (nullable Num),
     req ''environment_name'' (nullable Str),
     req ''release_id'' (nullable Num),
     req ''release_name'' (nullable Str),
     req ''fix_release'' (nullable ReleaseSummary),
     req ''pir_status'' (lits [''complete'', ''draft'', ''none''])]"

definition IncidentPirCitation :: ts where
  "IncidentPirCitation = Obj [
     req ''pir_id'' Num,
     req ''release_id'' Num,
     req ''release_name'' Str,
     req ''pir_status'' (lits [''draft'', ''complete'']),
     req ''finding_id'' Num,
     req ''finding_title'' Str,
     req ''root_cause'' (nullable Str),
     req ''note'' (nullable Str),
     req ''action_count'' Num,
     req ''open_action_count'' Num]"

definition IncidentDetail :: ts where
  "IncidentDetail = Obj [
     req ''id'' Num,
     req ''title'' Str,
     req ''description'' (nullable Str),
     req ''severity'' Severity,
     req ''status'' Str,
     req ''detected_at'' Str,
     req ''resolved_at'' (nullable Str),
     req ''source'' Str,
     req ''external_ref'' (nullable Str),
     req ''environment_id'' (nullable Num),
     req ''environment_name'' (nullable Str),
     req ''deployment_id'' (nullable Num),
     req ''release_id'' (nullable Num),
     req ''release'' (nullable ReleaseSummary),
     req ''fix_release_id'' (nullable Num),
     req ''fix_release'' (nullable ReleaseSummary),
     req ''fix_release_changes_by_epic'' (Dict (Arr ReleaseChangeRow)),
     req ''system_id'' (nullable Num),
     req ''system_name'' (nullable Str),
     req ''subsystem_id'' (nullable Num),
     req ''subsystem_name'' (nullable Str),
     req ''custom_fields'' (nullable (Dict Any)),
     req ''allowed_transitions'' (Arr TransitionOption),
     req ''status_history'' (Arr StatusHistoryRow),
     req ''pir_citations'' (Arr IncidentPirCitation)]"

definition IncidentListFilters :: ts where
  "IncidentListFilters = Obj [
     opt ''status'' Str,
     opt ''severity'' Str,
     opt ''system_id'' (Union [Num, Str]),
     opt ''environment_id'' Num,
     opt ''release_id'' Num,
     opt ''source'' Str,
     opt ''date_from'' Str,
     opt ''date_to'' Str,
     opt ''open'' Bool,
     opt ''limit'' Num,
     opt ''offset'' Num,
     opt ''sort_by'' Str,
     opt ''sort_dir'' (lits [''asc'', ''desc''])]"

definition IncidentCreate :: ts where
  "IncidentCreate = Obj [
     req ''title'' Str,
     opt ''description'' Str,
     req ''severity'' Severity,
     opt ''detected_at'' Str,
     opt ''environment_id'' (nullable Num),
     opt ''deployment_id'' (nullable Num),
     opt ''release_id'' (nullable Num),
     opt ''fix_release_id'' (nullable Num),
     opt ''system_id'' (nullable Num),
     opt ''subsystem_id'' (nullable Num),
     opt ''source'' Str,
     opt ''external_ref'' (nullable Str),
     opt ''custom_fields'' (nullable (Dict Any))]"

definition IncidentUpdate :: ts where
  "IncidentUpdate = partial (omit [''source''] IncidentCreate)"

definition TenantResponse :: ts where
  "TenantResponse = Obj [
     req ''id'' Num,
     req ''name'' Str,
     req ''slug'' Str,
     req ''settings'' (nullable (Dict Any)),
     req ''is_active'' Bool,
     req ''created_at'' Str]"

definition UserResponse :: ts where
  "UserResponse = Obj [
     req ''id'' Num,
     req ''username'' Str,
     req ''email'' Str,
     req ''role'' Str,
     req ''tenant_id'' Num,
     req ''is_active'' Bool,
     req ''is_master_admin'' Bool,
     req ''created_at'' Str,
     req ''notification_preferences'' (nullable (Dict Any))]"

definition InfrastructureComponentSource :: ts where
  "InfrastructureComponentSource = lits [''manual'', ''terraform'', ''docker_compose'']"

definition InfrastructureComponentResponse :: ts where
  "InfrastructureComponentResponse = Obj [
     req ''id'' Num,
     req ''tenant_id'' Num,
     req ''name'' Str,
     req ''description'' (nullable Str),
     req ''component_type'' InfrastructureComponentType,
     req ''provider'' (nullable Str),
     req ''region'' (nullable Str),
     req ''location'' (nullable Str),
     req ''source'' InfrastructureComponentSource,
     req ''external_id'' (nullable Str),
     req ''custom_fields'' (nullable (Dict Any)),
     req ''tags'' (nullable (Dict Any)),
     req ''created_at'' Str,
     req ''updated_at'' Str]"

definition InfrastructureComponentCreate :: ts where
  "InfrastructureComponentCreate = Obj [
     req ''name'' Str,
     opt ''description'' Str,
     req ''component_type'' InfrastructureComponentType,
     opt ''provider'' Str,
     opt ''region'' Str,
     opt ''location'' Str,
     opt ''source'' InfrastructureComponentSource,
     opt ''external_id'' Str,
     opt ''custom_fields'' (Dict Any),
     opt ''tags'' (Dict Any)]"

definition InfrastructureComponentUpdate :: ts where
  "InfrastructureComponentUpdate = Obj [
     opt ''name'' Str,
     opt ''description'' Str,
     opt ''component_type'' InfrastructureComponentType,
     opt ''provider'' Str,
     opt ''region'' Str,
     opt ''location'' Str,
     opt ''source'' InfrastructureComponentSource,
     opt ''external_id'' Str,
     opt ''custom_fields'' (Dict Any),
     opt ''tags'' (Dict Any)]"

definition HostAttachment :: ts where
  "HostAttachment = Obj [
     req ''infrastructure_component_id'' Num,
     opt ''role'' (nullable Str)]"

definition EnvironmentSubSystemHostResponse :: ts where
  "EnvironmentSubSystemHostResponse = Obj [
     req ''id'' Num,
     req ''environment_subsystem_id'' Num,
     req ''infrastructure_component_id'' Num,
     req ''infrastructure_component'' InfrastructureComponentSummary,
     req ''role'' (nullable Str)]"

definition EnvironmentSubSystemHostsResponse :: ts where
  "EnvironmentSubSystemHostsResponse = Obj [
     req ''hosts'' (Arr EnvironmentSubSystemHostResponse)]"

definition HostImpactMatch :: ts where
  "HostImpactMatch = Obj [
     req ''host_id'' Num,
     req ''host_name'' Str,
     req ''role'' (nullable Str)]"

definition HostImpactSubsystem :: ts where
  "HostImpactSubsystem = Obj [
     req ''subsystem_id'' Num,
     req ''subsystem_name'' Str,
     req ''system_name'' Str,
     req ''is_mocked'' Bool,
     req ''matches'' (Arr HostImpactMatch)]"

definition HostImpactEnvironment :: ts where
  "HostImpactEnvironment = Obj [
     req ''environment_id'' Num,
     req ''environment_name'' Str,
     req ''subsystems'' (Arr HostImpactSubsystem)]"

definition HostImpactResponse :: ts where
  "HostImpactResponse = Obj [
     req ''host_ids'' (Arr Num),
     req ''environments'' (Arr HostImpactEnvironment)]"

definition WorkItem :: ts where
  "WorkItem = Obj [
     req ''id'' Num,
     req ''title'' Str,
     opt ''subtitle'' (nullable Str),
     req ''url'' Str,
     opt ''due'' (nullable Str)]"

definition QueueResult :: ts where
  "QueueResult = Obj [
     req ''count'' Num,
     req ''items'' (Arr WorkItem),
     opt ''overdue'' Num,
     req ''failed'' Bool]"

definition MyWorkQueueKey :: ts where
  "MyWorkQueueKey = lits [''environment_requests'', ''contentions'', ''decommissions'', ''pir_actions'',
    ''incidents'', ''hypercare'', ''runbook_tasks'']"

definition MyWorkResponse :: ts where
  "MyWorkResponse = Obj [
     req ''as_of'' Str,
     req ''queues'' (Dict QueueResult)]"

definition Paged :: "ts \<Rightarrow> ts" where
  "Paged T = Obj [
     req ''rows'' (Arr T),
     req ''total'' Num]"

definition PirStatus :: ts where
  "PirStatus = lits [''draft'', ''complete'']"

definition PirFindingKind :: ts where
  "PirFindingKind = lits [''went_well'', ''went_wrong'']"

definition PirActionStatus :: ts where
  "PirActionStatus = lits [''open'', ''in_progress'', ''done'', ''cancelled'']"

definition PirCitation :: ts where
  "PirCitation = Obj [
     req ''incident_id'' Num,
     req ''incident_title'' Str,
     req ''severity'' Str,
     req ''status'' Str,
     req ''note'' (nullable Str)]"

definition PirAction :: ts where
  "PirAction = Obj [
     req ''id'' Num,
     req ''finding_id'' Num,
     req ''seq'' Num,
     req ''title'' Str,
     req ''detail'' (nullable Str),
     req ''owner_id'' (nullable Num),
     req ''owner_username'' (nullable Str),
     req ''due_date'' (nullable Str),
     req ''status'' PirActionStatus,
     req ''closed_at'' (nullable Str),
     req ''closure_note'' (nullable Str),
     req ''is_overdue'' Bool]"

definition PirFinding :: ts where
  "PirFinding = Obj [
     req ''id'' Num,
     req ''kind'' PirFindingKind,
     req ''seq'' Num,
     req ''title'' Str,
     req ''detail'' (nullable Str),
     req ''root_cause'' (nullable Str),
     req ''created_at'' Str,
     req ''actions'' (Arr PirAction),
     req ''incidents'' (Arr PirCitation)]"

definition PIR :: ts where
  "PIR = Obj [
     req ''id'' Num,
     req ''release_id'' Num,
     req ''summary'' (nullable Str),
     req ''status'' PirStatus,
     req ''completed_at'' (nullable Str),
     req ''findings'' (Arr PirFinding)]"

definition PIRWrite :: ts where
  "PIRWrite = Obj [
     opt ''summary'' (nullable Str),
     opt ''status'' PirStatus]"

definition PirFindingWrite :: ts where
  "PirFindingWrite = Obj [
     opt ''kind'' PirFindingKind,
     opt ''title'' Str,
     opt ''detail'' (nullable Str),
     opt ''root_cause'' (nullable Str)]"

definition PirActionWrite :: ts where
  "PirActionWrite = Obj [
     opt ''title'' Str,
     opt ''detail'' (nullable Str),
     opt ''owner_id'' (nullable Num),
     opt ''due_date'' (nullable Str),
     opt ''status'' PirActionStatus,
     opt ''closure_note'' (nullable Str)]"

definition PirActionRow :: ts where
  "PirActionRow = extends PirAction [
     req ''finding_title'' Str,
     req ''release_id'' Num,
     req ''release_name'' Str,
     req ''pir_status'' PirStatus]"

definition ProjectResponse :: ts where
  "ProjectResponse = Obj [
     req ''id'' Num,
     req ''tenant_id'' Num,
     req ''name'' Str,
     req ''code'' (nullable Str),
     req ''description'' (nullable Str),
     req ''team_group_id'' (nullable Num),
     req ''team_group_name'' (nullable Str),
     req ''environment_count'' Num,
     req ''is_active'' Bool,
     req ''priority_rank'' (nullable Num),
     req ''created_at'' Str,
     req ''updated_at'' Str]"

definition ProjectCreate :: ts where
  "ProjectCreate = Obj [
     req ''name'' Str,
     opt ''code'' (nullable Str),
     opt ''description'' (nullable Str),
     opt ''team_group_id'' (nullable Num),
     opt ''is_active'' Bool,
     opt ''priority_rank'' (nullable Num)]"

definition ProjectUpdate :: ts where
  "ProjectUpdate = Obj [
     opt ''name'' Str,
     opt ''code'' (nullable Str),
     opt ''description'' (nullable Str),
     opt ''team_group_id'' (nullable Num),
     opt ''is_active'' Bool,
     opt ''priority_rank'' (nullable Num)]"

definition UsageAgreementResponse :: ts where
  "UsageAgreementResponse = Obj [
     req ''id'' Num,
     req ''tenant_id'' Num,
     req ''project_id'' Num,
     req ''project_name'' Str,
     req ''environment_id'' Num,
     req ''environment_name'' Str,
     req ''starts_at'' (nullable Str),
     req ''ends_at'' (nullable Str),
     req ''notes'' (nullable Str),
     req ''created_at'' Str]"

definition UsageAgreementCreate :: ts where
  "UsageAgreementCreate = Obj [
     req ''environment_id'' Num,
     opt ''starts_at'' (nullable Str),
     opt ''ends_at'' (nullable Str),
     opt ''notes'' (nullable Str)]"

definition RaidItemType :: ts where
  "RaidItemType = lits [''risk'', ''assumption'', ''issue'', ''dependency'']"

definition RaidRag :: ts where
  "RaidRag = lits [''green'', ''amber'', ''red'']"

definition RaidRelation :: ts where
  "RaidRelation = lits [''relates_to'', ''caused_by'', ''duplicates'', ''blocks'']"

definition RaidItemResponse :: ts where
  "RaidItemResponse = Obj [
     req ''id'' Num,
     req ''tenant_id'' Num,
     req ''release_id'' Num,
     req ''item_type'' RaidItemType,
     req ''seq'' Num,
     req ''ref_code'' Str,
     req ''title'' Str,
     req ''description'' (nullable Str),
     req ''status'' Str,
     req ''owner_id'' (nullable Num),
     req ''owner_username'' (nullable Str),
     req ''raised_by'' Num,
     req ''raised_at'' Str,
     req ''target_date'' (nullable Str),
     req ''review_date'' (nullable Str),
     req ''closed_at'' (nullable Str),
     req ''probability'' (nullable Num),
     req ''impact'' (nullable Num),
     req ''severity'' (nullable Num),
     req ''rag'' (nullable RaidRag),
     req ''response_strategy'' (nullable Str),
     req ''mitigation_plan'' (nullable Str),
     req ''contingency_plan'' (nullable Str),
     req ''validation_status'' (nullable Str),
     req ''validated_at'' (nullable Str),
     req ''evidence'' (nullable Str),
     req ''resolution_plan'' (nullable Str),
     req ''resolved_at'' (nullable Str),
     req ''escalated'' Bool,
     req ''direction'' (nullable Str),
     req ''counterparty'' (nullable Str),
     req ''due_date'' (nullable Str),
     req ''at_risk'' Bool,
     req ''release_dependency_id'' (nullable Num),
     req ''promoted_from_id'' (nullable Num),
     req ''custom_fields'' (nullable (Dict Any))]"

definition RaidItemCreatePayload :: ts where
  "RaidItemCreatePayload = Obj [
     req ''item_type'' RaidItemType,
     req ''title'' Str,
     opt ''description'' (nullable Str),
     opt ''owner_id'' (nullable Num),
     opt ''target_date'' (nullable Str),
     opt ''review_date'' (nullable Str),
     opt ''probability'' (nullable Num),
     opt ''impact'' (nullable Num),
     opt ''response_strategy'' (nullable Str),
     opt ''mitigation_plan'' (nullable Str),
     opt ''contingency_plan'' (nullable Str),
     opt ''evidence'' (nullable Str),
     opt ''resolution_plan'' (nullable Str),
     opt ''direction'' (nullable Str),
     opt ''counterparty'' (nullable Str),
     opt ''due_date'' (nullable Str),
     opt ''release_dependency_id'' (nullable Num),
     opt ''custom_fields'' (nullable (Dict Any))]"

definition RaidItemUpdatePayload :: ts where
  "RaidItemUpdatePayload = Obj [
     opt ''title'' Str,
     opt ''description'' (nullable Str),
     opt ''status'' Str,
     opt ''owner_id'' (nullable Num),
     opt ''target_date'' (nullable Str),
     opt ''review_date'' (nullable Str),
     opt ''probability'' (nullable Num),
     opt ''impact'' (nullable Num),
     opt ''response_strategy'' (nullable Str),
     opt ''mitigation_plan'' (nullable Str),
     opt ''contingency_plan'' (nullable Str),
     opt ''validation_status'' (nullable Str),
     opt ''evidence'' (nullable Str),
     opt ''resolution_plan'' (nullable Str),
     opt ''escalated'' Bool,
     opt ''direction'' (nullable Str),
     opt ''counterparty'' (nullable Str),
     opt ''due_date'' (nullable Str),
     opt ''at_risk'' Bool,
     opt ''custom_fields'' (nullable (Dict Any))]"

definition RaidListFilters :: ts where
  "RaidListFilters = Obj [
     opt ''item_type'' RaidItemType,
     opt ''status'' Str,
     opt ''owner_id'' Num,
     opt ''rag'' RaidRag,
     opt ''overdue'' Bool]"

definition RaidRelationRef :: ts where
  "RaidRelationRef = Obj [
     req ''to_item_id'' Num,
     req ''relation'' RaidRelation]"

definition RaidLinksResponse :: ts where
  "RaidLinksResponse = Obj [
     req ''scope_change_ids'' (Arr Num),
     req ''relations'' (Arr RaidRelationRef)]"

definition RaidSummaryResponse :: ts where
  "RaidSummaryResponse = Obj [
     req ''counts_by_type'' (Dict Num),
     req ''counts_by_rag'' (Dict Num),
     req ''open_issues'' Num,
     req ''overdue_reviews'' Num,
     req ''heatmap'' (Arr (Arr (Arr Str)))]"

definition RaidRollupTopRisk :: ts where
  "RaidRollupTopRisk = Obj [
     req ''ref_code'' Str,
     req ''release_id'' Num,
     req ''title'' Str,
     req ''severity'' (nullable Num),
     req ''rag'' (nullable RaidRag)]"

definition RaidRollupResponse :: ts where
  "RaidRollupResponse = Obj [
     req ''counts_by_type'' (Dict Num),
     req ''counts_by_rag'' (Dict Num),
     req ''open_issues'' Num,
     req ''overdue_reviews'' Num,
     req ''top_risks'' (Arr RaidRollupTopRisk)]"

definition RaidScaleLevel :: ts where
  "RaidScaleLevel = Obj [
     req ''level'' Num,
     req ''label'' Str,
     req ''color'' Str]"

definition RaidBand :: ts where
  "RaidBand = Obj [
     req ''rag'' RaidRag,
     req ''min'' Num,
     req ''max'' Num,
     req ''color'' Str]"

definition RaidConfig :: ts where
  "RaidConfig = Obj [
     req ''probability_scale'' (Arr RaidScaleLevel),
     req ''impact_scale'' (Arr RaidScaleLevel),
     req ''rag_bands'' (Arr RaidBand)]"

definition RaidConfigUpdatePayload :: ts where
  "RaidConfigUpdatePayload = Obj [
     opt ''probability_scale'' (Arr RaidScaleLevel),
     opt ''impact_scale'' (Arr RaidScaleLevel),
     opt ''rag_bands'' (Arr RaidBand)]"

definition ReleaseStatus :: ts where
  "ReleaseStatus = Str"

definition ReleaseKind_t :: ts where
  "ReleaseKind_t = lits [''project'', ''enterprise'']"

definition ReleaseResponse_t :: ts where
  "ReleaseResponse_t = Obj [
     req ''id'' Num,
     req ''tenant_id'' Num,
     req ''name'' Str,
     req ''description'' (nullable Str),
     req ''release_type'' Str,
     req ''release_kind'' ReleaseKind_t,
     req ''owning_project_id'' (nullable Num),
     req ''owning_project_name'' (nullable Str),
     req ''parent_release_id'' (nullable Num),
     req ''template_id'' (nullable Num),
     req ''lifecycle_template_id'' Num,
     req ''status'' ReleaseStatus,
     req ''target_date'' (nullable Str),
     req ''actual_date'' (nullable Str),
     req ''scope_deadline'' (nullable Str),
     opt ''scope_creep_count'' Num,
     req ''custom_fields'' (nullable (Dict Any)),
     req ''raised_by'' Num,
     req ''created_at'' Str,
     req ''updated_at'' Str,
     req ''operations_group_id'' (nullable Num),
     req ''operations_group_name'' (nullable Str),
     req ''declared_stable_at'' (nullable Str),
     req ''declared_stable_by_username'' (nullable Str),
     req ''handover_confirmed_at'' (nullable Str),
     req ''handover_confirmed_by_username'' (nullable Str)]"

definition ReleaseSystemBrief_t :: ts where
  "ReleaseSystemBrief_t = Obj [
     req ''id'' Num,
     req ''name'' Str,
     req ''role'' (lits [''changing'', ''regression'', ''config_only''])]"

definition ReleaseListItemResponse_t :: ts where
  "ReleaseListItemResponse_t = extends ReleaseResponse_t [
     req ''phase_count'' Num,
     req ''scope_count'' Num,
     req ''blocker_count'' Num,
     req ''overdue_criterion_count'' Num,
     req ''scope_additions_count'' Num,
     req ''scope_removals_count'' Num,
     req ''scope_change_count'' Num,
     req ''scope_creep_count'' Num,
     req ''window_status'' (lits [''open'', ''closing_soon'', ''closed'', ''shipped'', ''no_cutoff'']),
     req ''days_to_cutoff'' (nullable Num),
     req ''systems'' (Arr ReleaseSystemBrief_t)]"

definition PhaseKind_t :: ts where
  "PhaseKind_t = lits [''test'', ''hypercare'']"

definition TestPhaseResponse_t :: ts where
  "TestPhaseResponse_t = Obj [
     req ''id'' Num,
     req ''tenant_id'' Num,
     req ''release_id'' Num,
     req ''name'' Str,
     req ''order'' Num,
     req ''start_date'' (nullable Str),
     req ''end_date'' (nullable Str),
     req ''status'' Str,
     req ''kind'' PhaseKind_t]"

definition TimelineGate_t :: ts where
  "TimelineGate_t = Obj [
     req ''id'' Num,
     req ''name'' Str,
     req ''due_date'' Str,
     req ''status'' (lits [''pending'', ''passed'', ''failed'', ''overridden''])]"

definition ReleaseGateResponse_t :: ts where
  "ReleaseGateResponse_t = Obj [
     req ''id'' Num,
     req ''tenant_id'' Num,
     req ''release_id'' Num,
     req ''due_date'' Str,
     req ''name'' Str,
     req ''status'' (lits [''pending'', ''passed'', ''failed'', ''overridden'']),
     req ''decided_by'' (nullable Num),
     req ''decided_at'' (nullable Str),
     req ''decision_notes'' (nullable Str),
     req ''gate_type_id'' (nullable Num),
     req ''test_phase_id'' (nullable Num),
     req ''criteria'' (Arr GateCriterion_t),
     req ''overdue_criterion_count'' Num,
     req ''waiver'' (nullable GateWaiverResponse_t)]"

definition ReleaseSystemResponse :: ts where
  "ReleaseSystemResponse = Obj [
     req ''id'' Num,
     req ''tenant_id'' Num,
     req ''release_id'' Num,
     req ''system_id'' Num,
     req ''system_name'' (nullable Str),
     req ''role'' (lits [''changing'', ''regression'', ''config_only'']),
     req ''deployment_date'' (nullable Str)]"

definition ReleaseDependencyResponse_t :: ts where
  "ReleaseDependencyResponse_t = Obj [
     req ''id'' Num,
     req ''tenant_id'' Num,
     req ''release_id'' Num,
     req ''depends_on_release_id'' Num,
     req ''kind'' Str,
     req ''notes'' (nullable Str),
     req ''last_dependency_target_date'' (nullable Str)]"

definition ReleaseDependencyAlert_t :: ts where
  "ReleaseDependencyAlert_t = Obj [
     req ''dependency_id'' Num,
     req ''depends_on_release_id'' Num,
     req ''depends_on_name'' Str,
     req ''prior_target_date'' (nullable Str),
     req ''current_target_date'' (nullable Str),
     req ''diff_days'' Num]"

definition ReleaseStatusHistory_t :: ts where
  "ReleaseStatusHistory_t = Obj [
     req ''id'' Num,
     req ''release_id'' Num,
     req ''from_state'' (nullable Str),
     req ''to_state'' Str,
     req ''changed_by'' Num,
     req ''changed_at'' Str,
     req ''notes'' (nullable Str)]"

definition ReleaseCreatePayload :: ts where
  "ReleaseCreatePayload = Obj [
     req ''name'' Str,
     opt ''description'' (nullable Str),
     req ''release_type'' Str,
     opt ''release_kind'' ReleaseKind_t,
     opt ''owning_project_id'' (nullable Num),
     opt ''template_id'' (nullable Num),
     opt ''lifecycle_template_id'' (nullable Num),
     opt ''target_date'' (nullable Str),
     opt ''scope_deadline'' (nullable Str),
     opt ''custom_fields'' (nullable (Dict Any))]"

definition ReleaseUpdatePayload :: ts where
  "ReleaseUpdatePayload = Obj [
     opt ''name'' Str,
     opt ''description'' (nullable Str),
     opt ''release_type'' Str,
     opt ''owning_project_id'' (nullable Num),
     opt ''target_date'' (nullable Str),
     opt ''scope_deadline'' (nullable Str),
     opt ''actual_date'' (nullable Str),
     opt ''custom_fields'' (nullable (Dict Any)),
     opt ''operations_group_id'' (nullable Num)]"

definition ReleaseTransitionPayload :: ts where
  "ReleaseTransitionPayload = Obj [
     req ''to_state'' Str,
     opt ''notes'' (nullable Str)]"

definition ReleaseListFilters_t :: ts where
  "ReleaseListFilters_t = Obj [
     opt ''status'' Str,
     opt ''release_type'' Str,
     opt ''release_kind'' ReleaseKind_t,
     opt ''date_from'' Str,
     opt ''date_to'' Str,
     opt ''system_id'' (Union [Num, Str]),
     opt ''project_id'' (Union [Num, Str]),
     opt ''search'' Str,
     opt ''scope_window'' (lits [''actionable'', ''all'']),
     opt ''implemented'' Bool,
     opt ''open'' Bool,
     opt ''limit'' Num,
     opt ''offset'' Num,
     opt ''sort_by'' Str,
     opt ''sort_dir'' (lits [''asc'', ''desc''])]"

definition TestPhaseCreatePayload :: ts where
  "TestPhaseCreatePayload = Obj [
     req ''name'' Str,
     opt ''order'' Num,
     opt ''start_date'' (nullable Str),
     opt ''end_date'' (nullable Str),
     opt ''status'' Str,
     opt ''kind'' PhaseKind_t]"

definition TestPhaseUpdatePayload :: ts where
  "TestPhaseUpdatePayload = Obj [
     opt ''name'' Str,
     opt ''order'' Num,
     opt ''start_date'' (nullable Str),
     opt ''end_date'' (nullable Str),
     opt ''status'' Str,
     opt ''kind'' PhaseKind_t]"

definition ReleaseGateCreatePayload :: ts where
  "ReleaseGateCreatePayload = Obj [
     req ''name'' Str,
     req ''due_date'' Str]"

definition ReleaseGateUpdatePayload :: ts where
  "ReleaseGateUpdatePayload = Obj [
     opt ''name'' Str,
     opt ''due_date'' Str,
     opt ''gate_type_id'' (nullable Num),
     opt ''test_phase_id'' (nullable Num)]"

definition ReleaseGateDecisionPayload :: ts where
  "ReleaseGateDecisionPayload = Obj [
     opt ''notes'' (nullable Str),
     opt ''expires_at'' (nullable Str),
     opt ''remediation'' (nullable Str),
     opt ''approved_by_user_id'' (nullable Num)]"

definition ReleaseSystemCreatePayload :: ts where
  "ReleaseSystemCreatePayload = Obj [
     req ''system_id'' Num,
     req ''role'' (lits [''changing'', ''regression'', ''config_only'']),
     opt ''deployment_date'' (nullable Str)]"

definition ReleaseDependencyCreatePayload :: ts where
  "ReleaseDependencyCreatePayload = Obj [
     req ''depends_on_release_id'' Num,
     opt ''kind'' Str,
     opt ''notes'' (nullable Str)]"

definition ReleaseCalendarEntry_t :: ts where
  "ReleaseCalendarEntry_t = Obj [
     req ''id'' Num,
     req ''title'' Str,
     req ''start'' (nullable Str),
     req ''end'' (nullable Str),
     req ''status'' Str,
     req ''release_type'' Str]"

definition ReleaseTimelineEntry_t :: ts where
  "ReleaseTimelineEntry_t = Obj [
     req ''id'' Num,
     req ''name'' Str,
     req ''status'' Str,
     req ''target_date'' (nullable Str),
     req ''actual_date'' (nullable Str),
     req ''phases'' (Arr TestPhaseResponse_t),
     req ''gates'' (Arr TimelineGate_t),
     opt ''dependencies'' (Arr ReleaseDependencyResponse_t)]"

definition ReleaseBookingCreatePayload :: ts where
  "ReleaseBookingCreatePayload = Obj [
     req ''environment_id'' Num,
     opt ''project_name'' (nullable Str),
     req ''start'' Str,
     req ''end'' Str,
     req ''booking_type_id'' Num,
     opt ''phase_id'' (nullable Num),
     opt ''exclusive_use'' Bool,
     opt ''notes'' (nullable Str)]"

definition ReleaseBulkBookingPayload :: ts where
  "ReleaseBulkBookingPayload = Obj [
     req ''environment_ids'' (Arr Num),
     opt ''phase_id'' (nullable Num),
     req ''start'' Str,
     req ''end'' Str,
     req ''booking_type_id'' Num,
     opt ''project_name'' (nullable Str),
     opt ''notes'' (nullable Str),
     opt ''exclusive_use'' Bool]"

definition BulkBookCreatedItem :: ts where
  "BulkBookCreatedItem = Obj [
     req ''environment_id'' Num,
     req ''booking_id'' Num,
     req ''warnings'' (Arr Num)]"

definition BulkBookSkippedItem :: ts where
  "BulkBookSkippedItem = Obj [
     req ''environment_id'' Num,
     req ''conflicts'' (Arr Num),
     opt ''reason'' (nullable Str)]"

definition BulkBookResultResponse :: ts where
  "BulkBookResultResponse = Obj [
     req ''created'' (Arr BulkBookCreatedItem),
     req ''skipped'' (Arr BulkBookSkippedItem)]"

definition CoverageSystemResponse :: ts where
  "CoverageSystemResponse = Obj [
     req ''system_id'' Num,
     req ''system_name'' Str,
     req ''role'' (lits [''changing'', ''regression''])]"

definition CoverageEnvironmentResponse :: ts where
  "CoverageEnvironmentResponse = Obj [
     req ''environment_id'' Num,
     req ''name'' Str,
     req ''tier_name'' Str,
     req ''status'' Str,
     req ''covered_system_ids'' (Arr Num)]"

definition ReleaseEnvironmentCoverageResponse :: ts where
  "ReleaseEnvironmentCoverageResponse = Obj [
     req ''needed_systems'' (Arr CoverageSystemResponse),
     req ''environments'' (Arr CoverageEnvironmentResponse),
     req ''uncovered_system_ids'' (Arr Num)]"

definition ChurnCohortResponse :: ts where
  "ChurnCohortResponse = Obj [
     req ''count'' Num,
     req ''delayed_count'' Num,
     req ''delayed_pct'' Num,
     req ''issue_count'' Num,
     req ''issue_pct'' Num]"

definition ChurnReleaseRowResponse :: ts where
  "ChurnReleaseRowResponse = Obj [
     req ''release_id'' Num,
     req ''name'' Str,
     req ''shipped_at'' Str,
     req ''scope_changed'' Bool,
     req ''delayed'' Bool,
     req ''had_issue'' Bool]"

definition ScopeChurnAnalyticsResponse :: ts where
  "ScopeChurnAnalyticsResponse = Obj [
     req ''date_from'' (nullable Str),
     req ''date_to'' (nullable Str),
     req ''scope_changed'' ChurnCohortResponse,
     req ''stable'' ChurnCohortResponse,
     req ''releases'' (Arr ChurnReleaseRowResponse)]"

definition ReleaseChangeResponse_t :: ts where
  "ReleaseChangeResponse_t = Obj [
     req ''id'' Num,
     req ''tenant_id'' Num,
     req ''release_id'' (nullable Num),
     req ''external_key'' (nullable Str),
     req ''title'' Str,
     req ''description'' (nullable Str),
     req ''change_kind'' Str,
     req ''external_status'' (nullable Str),
     req ''project_code'' (nullable Str),
     req ''project_name'' (nullable Str),
     req ''system_id'' (nullable Num),
     req ''custom_fields'' (nullable (Dict Any)),
     req ''jira_project_config_id'' (nullable Num),
     req ''epic_id'' (nullable Num),
     req ''source'' Str,
     req ''move_count'' Num,
     req ''time_in_current_status_seconds'' (nullable Num),
     opt ''is_scope_creep'' Bool]"

definition ReleaseChangeMovePayload :: ts where
  "ReleaseChangeMovePayload = Obj [
     req ''release_id'' (nullable Num),
     opt ''notes'' (nullable Str)]"

definition ReleaseChangeReleaseHistoryResponse_t :: ts where
  "ReleaseChangeReleaseHistoryResponse_t = Obj [
     req ''id'' Num,
     req ''change_id'' Num,
     req ''from_release_id'' (nullable Num),
     req ''to_release_id'' (nullable Num),
     req ''moved_at'' Str,
     req ''moved_by'' (nullable Num),
     req ''notes'' (nullable Str)]"

definition ReleaseChangeStatusHistoryResponse_t :: ts where
  "ReleaseChangeStatusHistoryResponse_t = Obj [
     req ''id'' Num,
     req ''change_id'' Num,
     req ''from_status'' (nullable Str),
     req ''to_status'' (nullable Str),
     req ''changed_at'' Str,
     req ''changed_by'' (nullable Num),
     req ''notes'' (nullable Str)]"

definition ReleaseChangeCreatePayload :: ts where
  "ReleaseChangeCreatePayload = Obj [
     opt ''external_key'' (nullable Str),
     req ''title'' Str,
     opt ''description'' (nullable Str),
     req ''change_kind'' Str,
     opt ''external_status'' (nullable Str),
     opt ''project_code'' (nullable Str),
     opt ''project_name'' (nullable Str),
     opt ''system_id'' (nullable Num),
     opt ''custom_fields'' (nullable (Dict Any))]"

definition ReleaseChangeUpdatePayload :: ts where
  "ReleaseChangeUpdatePayload = Obj [
     opt ''external_key'' (nullable Str),
     opt ''title'' Str,
     opt ''description'' (nullable Str),
     opt ''external_status'' (nullable Str),
     opt ''project_code'' (nullable Str),
     opt ''project_name'' (nullable Str),
     opt ''system_id'' (nullable Num),
     opt ''custom_fields'' (nullable (Dict Any))]"

definition ScopeImportRowError :: ts where
  "ScopeImportRowError = Obj [
     req ''row'' Num,
     req ''field'' Str,
     req ''message'' Str]"

definition ScopeImportResult :: ts where
  "ScopeImportResult = Obj [
     req ''created'' Num,
     req ''updated'' Num,
     req ''errors'' (Arr ScopeImportRowError)]"

definition ReleaseEventTypeResponse :: ts where
  "ReleaseEventTypeResponse = Obj [
     req ''id'' Num,
     req ''tenant_id'' Num,
     req ''name'' Str,
     req ''display_color'' (nullable Str),
     req ''is_system'' Bool]"

definition ReleaseEventTypeCreatePayload :: ts where
  "ReleaseEventTypeCreatePayload = Obj [
     req ''name'' Str,
     opt ''display_color'' (nullable Str)]"

definition ReleaseEventTypeUpdatePayload :: ts where
  "ReleaseEventTypeUpdatePayload = Obj [
     opt ''name'' Str,
     opt ''display_color'' (nullable Str)]"

definition ReleaseEventResponse_t :: ts where
  "ReleaseEventResponse_t = Obj [
     req ''id'' Num,
     req ''tenant_id'' Num,
     req ''release_id'' Num,
     req ''event_type_id'' Num,
     req ''description'' Str,
     req ''occurred_at'' Str,
     req ''recorded_by'' Num]"

definition ReleaseEventCreatePayload :: ts where
  "ReleaseEventCreatePayload = Obj [
     req ''event_type_id'' Num,
     req ''description'' Str,
     opt ''occurred_at'' (nullable Str)]"

definition ReleaseMetrics :: ts where
  "ReleaseMetrics = Obj [
     req ''success_rate'' Num,
     req ''shipped_count'' Num,
     req ''failed_count'' Num,
     req ''emergency_pct'' Num,
     req ''emergency_count'' Num,
     req ''closed_count'' Num,
     req ''avg_cycle_time_seconds'' Num,
     req ''cycle_time_count'' Num]"

definition BookingConflictRow :: ts where
  "BookingConflictRow = Obj [
     req ''environment_id'' Num,
     req ''environment_name'' Str,
     req ''month'' Str,
     req ''conflict_count'' Num]"

definition ReleaseMetricsParams :: ts where
  "ReleaseMetricsParams = Obj [
     req ''date_from'' Str,
     req ''date_to'' Str]"

definition ReleaseTemplatePhase :: ts where
  "ReleaseTemplatePhase = Obj [
     req ''name'' Str,
     req ''order'' Num,
     req ''default_duration_days'' Num,
     req ''activities'' (Arr Str),
     opt ''kind'' (lits [''test'', ''hypercare''])]"

definition ReleaseTemplateGate :: ts where
  "ReleaseTemplateGate = Obj [
     req ''name'' Str,
     req ''phase_name'' (nullable Str),
     req ''acceptance_criteria'' (nullable Str),
     opt ''gate_type_id'' (nullable Num)]"

definition ReleaseTemplateResponse :: ts where
  "ReleaseTemplateResponse = Obj [
     req ''id'' Num,
     req ''tenant_id'' Num,
     req ''name'' Str,
     req ''description'' (nullable Str),
     req ''release_type'' Str,
     req ''default_lifecycle_template_id'' (nullable Num),
     req ''phases'' (Arr ReleaseTemplatePhase),
     req ''gates'' (Arr ReleaseTemplateGate),
     req ''version'' Num,
     req ''created_at'' Str,
     req ''updated_at'' Str]"

definition ReleaseTemplateCreatePayload :: ts where
  "ReleaseTemplateCreatePayload = Obj [
     req ''name'' Str,
     opt ''description'' (nullable Str),
     req ''release_type'' Str,
     opt ''default_lifecycle_template_id'' (nullable Num),
     opt ''phases'' (Arr ReleaseTemplatePhase),
     opt ''gates'' (Arr ReleaseTemplateGate)]"

definition ReleaseTemplateUpdatePayload :: ts where
  "ReleaseTemplateUpdatePayload = Obj [
     opt ''name'' Str,
     opt ''description'' (nullable Str),
     opt ''release_type'' Str,
     opt ''default_lifecycle_template_id'' (nullable Num),
     opt ''phases'' (Arr ReleaseTemplatePhase),
     opt ''gates'' (Arr ReleaseTemplateGate)]"

definition ReleaseTemplateInstantiatePayload :: ts where
  "ReleaseTemplateInstantiatePayload = Obj [
     req ''name'' Str,
     req ''target_date'' Str,
     opt ''description'' (nullable Str),
     opt ''custom_fields'' (nullable (Dict Any))]"

definition Reversibility :: ts where
  "Reversibility = lits [''reversible'', ''lossy'', ''irreversible'']"

definition RehearsalOutcome :: ts where
  "RehearsalOutcome = lits [''passed'', ''failed'', ''partial'']"

definition RehearsalState :: ts where
  "RehearsalState = lits [''current'', ''stale'']"

definition RollbackPlanCreate :: ts where
  "RollbackPlanCreate = Obj [
     req ''system_id'' Num,
     req ''steps'' Str,
     req ''reversibility'' Reversibility,
     opt ''estimated_minutes'' (nullable Num),
     opt ''notes'' (nullable Str)]"

definition RollbackPlanResponse :: ts where
  "RollbackPlanResponse = Obj [
     req ''id'' Num,
     req ''release_id'' Num,
     req ''system_id'' Num,
     req ''system_name'' (nullable Str),
     req ''steps'' Str,
     req ''reversibility'' Str,
     req ''estimated_minutes'' (nullable Num),
     req ''notes'' (nullable Str),
     req ''agreed_by_user_id'' (nullable Num),
     req ''agreed_by_username'' (nullable Str),
     req ''agreed_at'' (nullable Str)]"

definition RehearsalCreate :: ts where
  "RehearsalCreate = Obj [
     req ''rehearsed_at'' Str,
     req ''outcome'' RehearsalOutcome,
     opt ''notes'' (nullable Str)]"

definition RehearsalResponse :: ts where
  "RehearsalResponse = Obj [
     req ''id'' Num,
     req ''system_id'' Num,
     req ''rehearsed_at'' Str,
     req ''rehearsed_by_user_id'' Num,
     req ''rehearsed_by_username'' (nullable Str),
     req ''outcome'' Str,
     req ''notes'' (nullable Str),
     req ''state'' RehearsalState]"

definition RollbackAuthorisationCreate :: ts where
  "RollbackAuthorisationCreate = Obj [
     req ''decided_at'' Str,
     req ''trigger'' Str,
     req ''rationale'' Str,
     req ''system_ids'' (Arr Num)]"

definition RollbackAuthorisationResponse :: ts where
  "RollbackAuthorisationResponse = Obj [
     req ''id'' Num,
     req ''release_id'' Num,
     req ''decided_by_user_id'' Num,
     req ''decided_by_username'' (nullable Str),
     req ''decided_at'' Str,
     req ''trigger'' Str,
     req ''rationale'' Str,
     req ''system_ids'' (Arr Num),
     req ''system_names'' (Arr Str)]"

definition RollbackPolicy :: ts where
  "RollbackPolicy = Obj [
     req ''require_rollback_plan'' Bool,
     req ''require_current_rehearsal'' Bool,
     req ''rehearsal_validity_days'' Num]"

definition RollbackPolicyUpdate :: ts where
  "RollbackPolicyUpdate = Obj [
     opt ''require_rollback_plan'' Bool,
     opt ''require_current_rehearsal'' Bool,
     opt ''rehearsal_validity_days'' Num]"

definition TaskStatus :: ts where
  "TaskStatus = lits [''not_started'', ''in_progress'', ''done'', ''failed'', ''skipped'']"

definition TaskKind :: ts where
  "TaskKind = lits [''task'', ''check'', ''deploy'', ''verification'', ''ramp'']"

definition DeployPattern :: ts where
  "DeployPattern = lits [''rolling'', ''blue_green'', ''canary'', ''big_bang'', ''other'']"

definition PlanState :: ts where
  "PlanState = lits [''not_started'', ''in_progress'', ''complete'', ''failed'']"

definition RunbookPlanRead :: ts where
  "RunbookPlanRead = Obj [
     req ''id'' Num,
     req ''release_id'' Num,
     req ''environment_id'' Num,
     req ''environment_name'' (nullable Str),
     req ''name'' Str,
     req ''anchor_start_at'' Str,
     req ''deploy_pattern'' (nullable DeployPattern),
     req ''notes'' (nullable Str),
     req ''state'' PlanState]"

definition RunbookTaskRead :: ts where
  "RunbookTaskRead = Obj [
     req ''id'' Num,
     req ''name'' Str,
     req ''description'' (nullable Str),
     req ''kind'' TaskKind,
     req ''team_group_id'' (nullable Num),
     req ''team_name'' (nullable Str),
     req ''system_id'' (nullable Num),
     req ''system_name'' (nullable Str),
     req ''system_on_release'' Bool,
     req ''duration_minutes'' Num,
     req ''fixed_start_at'' (nullable Str),
     req ''status'' TaskStatus,
     req ''actual_started_at'' (nullable Str),
     req ''actual_finished_at'' (nullable Str),
     req ''sort_order'' Num,
     req ''predecessor_ids'' (Arr Num),
     req ''planned_start'' Str,
     req ''planned_finish'' Str,
     req ''forecast_start'' Str,
     req ''forecast_finish'' Str,
     req ''late_start'' Bool,
     req ''overrunning'' Bool,
     req ''slipped_past_fixed_start'' Bool,
     req ''blocked'' Bool,
     req ''critical'' Bool,
     req ''allowed_transitions'' (Arr TaskStatus)]"

definition RunbookRead :: ts where
  "RunbookRead = Obj [
     req ''plan'' RunbookPlanRead,
     req ''planned_end'' Str,
     req ''forecast_end'' Str,
     req ''slip_minutes'' Num,
     req ''tasks'' (Arr RunbookTaskRead)]"

definition RunbookTaskEventRead :: ts where
  "RunbookTaskEventRead = Obj [
     req ''id'' Num,
     req ''from_status'' TaskStatus,
     req ''to_status'' TaskStatus,
     req ''at'' Str,
     req ''recorded_at'' Str,
     req ''by_username'' (nullable Str),
     req ''note'' (nullable Str)]"

definition RunbookPlanCreate :: ts where
  "RunbookPlanCreate = Obj [
     req ''environment_id'' Num,
     req ''name'' Str,
     req ''anchor_start_at'' Str,
     opt ''deploy_pattern'' (nullable DeployPattern),
     opt ''notes'' (nullable Str)]"

definition RunbookPlanUpdate :: ts where
  "RunbookPlanUpdate = partial (omit [''environment_id''] RunbookPlanCreate)"

definition RunbookTaskCreate :: ts where
  "RunbookTaskCreate = Obj [
     req ''name'' Str,
     opt ''description'' (nullable Str),
     opt ''team_group_id'' (nullable Num),
     opt ''system_id'' (nullable Num),
     opt ''kind'' TaskKind,
     req ''duration_minutes'' Num,
     opt ''fixed_start_at'' (nullable Str),
     opt ''sort_order'' Num,
     opt ''predecessor_ids'' (Arr Num)]"

definition RunbookTaskUpdate :: ts where
  "RunbookTaskUpdate = partial (omit [''predecessor_ids''] RunbookTaskCreate)"

definition TransitionRequest :: ts where
  "TransitionRequest = Obj [
     req ''to_status'' TaskStatus,
     opt ''at'' (nullable Str),
     opt ''reason'' (nullable Str)]"

definition ScopeChangeKindRuleResponse :: ts where
  "ScopeChangeKindRuleResponse = Obj [
     req ''id'' Num,
     req ''change_kind'' Str,
     req ''counts_as_scope_change'' Bool]"

definition ScopeChangeKindRuleUpsertItem :: ts where
  "ScopeChangeKindRuleUpsertItem = Obj [
     req ''change_kind'' Str,
     req ''counts_as_scope_change'' Bool]"

definition ScopeChangeKindRulesUpsertPayload :: ts where
  "ScopeChangeKindRulesUpsertPayload = Obj [
     req ''rules'' (Arr ScopeChangeKindRuleUpsertItem)]"

definition SystemResponse :: ts where
  "SystemResponse = Obj [
     req ''id'' Num,
     req ''name'' Str,
     req ''description'' (nullable Str),
     req ''tenant_id'' Num,
     req ''github_repository_url'' (nullable Str),
     req ''custom_fields'' (nullable (Dict Any)),
     req ''created_at'' Str,
     req ''updated_at'' Str]"

definition SubSystemResponse :: ts where
  "SubSystemResponse = Obj [
     req ''id'' Num,
     req ''name'' Str,
     req ''description'' (nullable Str),
     req ''system_id'' Num,
     req ''tenant_id'' Num,
     req ''component_type'' Str,
     req ''technology'' (nullable Str),
     req ''custom_fields'' (nullable (Dict Any)),
     req ''created_at'' Str,
     req ''updated_at'' Str]"

definition SystemCreate :: ts where
  "SystemCreate = Obj [
     req ''name'' Str,
     opt ''description'' Str,
     opt ''github_repository_url'' Str,
     opt ''custom_fields'' (Dict Any)]"

definition SystemUpdate :: ts where
  "SystemUpdate = Obj [
     opt ''name'' Str,
     opt ''description'' Str,
     opt ''github_repository_url'' Str,
     opt ''custom_fields'' (Dict Any)]"

definition SubSystemCreate :: ts where
  "SubSystemCreate = Obj [
     req ''name'' Str,
     opt ''description'' Str,
     opt ''component_type'' Str,
     opt ''technology'' Str,
     opt ''custom_fields'' (Dict Any)]"

definition SubSystemUpdate :: ts where
  "SubSystemUpdate = Obj [
     opt ''name'' Str,
     opt ''description'' Str,
     opt ''component_type'' Str,
     opt ''technology'' Str,
     opt ''custom_fields'' (Dict Any)]"

definition TopologyResponse_t :: ts where
  "TopologyResponse_t = Obj [
     req ''subsystems'' (Arr SubSystemResponse),
     req ''dependencies'' (Arr ComponentDependencyResponse),
     req ''external_subsystems'' (Arr SubSystemResponse),
     req ''external_dependencies'' (Arr ComponentDependencyResponse),
     req ''system_names'' (Dict Str)]"

definition UserGroupResponse :: ts where
  "UserGroupResponse = Obj [
     req ''id'' Num,
     req ''tenant_id'' Num,
     req ''name'' Str,
     req ''description'' (nullable Str),
     req ''member_count'' Num,
     req ''environment_count'' Num,
     req ''created_at'' Str,
     req ''updated_at'' Str]"

definition UserGroupCreate :: ts where
  "UserGroupCreate = Obj [
     req ''name'' Str,
     opt ''description'' (nullable Str)]"

definition UserGroupUpdate :: ts where
  "UserGroupUpdate = Obj [
     opt ''name'' Str,
     opt ''description'' (nullable Str)]"

definition UserGroupMemberResponse :: ts where
  "UserGroupMemberResponse = Obj [
     req ''id'' Num,
     req ''user_id'' Num,
     req ''username'' Str,
     req ''group_id'' Num,
     req ''created_at'' Str]"

definition VersionResponse :: ts where
  "VersionResponse = Obj [
     req ''id'' Num,
     req ''environment_id'' Num,
     req ''subsystem_id'' Num,
     req ''subsystem_name'' Str,
     req ''build_id'' Str,
     req ''version_label'' Str,
     req ''installed_at'' Str,
     req ''tenant_id'' Num,
     req ''created_at'' Str]"

definition VersionCreate :: ts where
  "VersionCreate = Obj [
     req ''subsystem_id'' Num,
     req ''build_id'' Str,
     req ''version_label'' Str,
     opt ''installed_at'' Str]"

definition VersionUpdate :: ts where
  "VersionUpdate = Obj [
     opt ''build_id'' Str,
     opt ''version_label'' Str,
     opt ''installed_at'' Str]"

definition ImportError :: ts where
  "ImportError = Obj [
     req ''row'' Num,
     req ''field'' Str,
     req ''message'' Str]"

definition ImportResult :: ts where
  "ImportResult = Obj [
     req ''created'' Num,
     req ''skipped'' Num,
     req ''errors'' (Arr ImportError),
     req ''tier_fallbacks'' (Arr ImportError)]"

end
