(* ===== verification/BackendModels.thy ===== *)
theory BackendModels
  imports TsTypes
begin

text \<open>
  The Pydantic models of \<open>src/backend/app/api/v1\<close> that the service functions meet. \<open>py_X\<close>
    is what FastAPI
  serialises for the response model \<open>X\<close>: every field and no other, a date as a string.
    \<open>in_X\<close> is what it accepts for
  the request model \<open>X\<close>: a field without a default is required, other fields are ignored. Enumerations
    are
  their values. Constraints on values (lengths, ranges, validators) are not modelled.
\<close>

subsection \<open>Response models\<close>

definition py_ConnectStarted :: ts where
  "py_ConnectStarted = Exact [
     req ''handle'' Str,
     req ''user_code'' Str,
     req ''verification_uri'' Str,
     req ''expires_in'' Num,
     req ''interval'' Num]"

definition py_IntegrationStatus :: ts where
  "py_IntegrationStatus = Exact [
     req ''connected'' Bool,
     req ''github_login'' (nullable Str),
     req ''connected_at'' (nullable Str)]"

definition py_TenantResponse :: ts where
  "py_TenantResponse = Exact [
     req ''name'' Str,
     req ''slug'' Str,
     req ''settings'' (nullable (Dict Any)),
     req ''id'' Num,
     req ''is_active'' Bool,
     req ''created_at'' Str]"

definition py_ImpersonationToken :: ts where
  "py_ImpersonationToken = Exact [
     req ''access_token'' Str,
     req ''token_type'' Str,
     req ''target_tenant'' py_TenantResponse]"

definition py_UserResponse :: ts where
  "py_UserResponse = Exact [
     req ''username'' Str,
     req ''email'' Str,
     req ''role'' Str,
     req ''notification_preferences'' (nullable (Dict Any)),
     req ''id'' Num,
     req ''tenant_id'' Num,
     req ''is_active'' Bool,
     req ''is_master_admin'' Bool,
     req ''created_at'' Str]"

definition py_AgreementGapAckRead :: ts where
  "py_AgreementGapAckRead = Exact [
     req ''notes'' (nullable Str),
     req ''acknowledged_by'' Num,
     req ''acknowledged_at'' Str,
     req ''acknowledged_by_username'' (nullable Str)]"

definition py_ApiKeyCreated :: ts where
  "py_ApiKeyCreated = Exact [
     req ''id'' Num,
     req ''name'' Str,
     req ''scopes'' (Arr Str),
     req ''created_by'' Num,
     req ''created_by_username'' (nullable Str),
     req ''last_used_at'' (nullable Str),
     req ''expires_at'' (nullable Str),
     req ''created_at'' Str,
     req ''raw_key'' Str]"

definition py_ApiKeyRead :: ts where
  "py_ApiKeyRead = Exact [
     req ''id'' Num,
     req ''name'' Str,
     req ''scopes'' (Arr Str),
     req ''created_by'' Num,
     req ''created_by_username'' (nullable Str),
     req ''last_used_at'' (nullable Str),
     req ''expires_at'' (nullable Str),
     req ''created_at'' Str]"

definition py_AllowedTransitionResponse :: ts where
  "py_AllowedTransitionResponse = Exact [
     req ''from_state'' Str,
     req ''to_state'' Str,
     req ''label'' Str]"

definition py_BookingRequestSummary :: ts where
  "py_BookingRequestSummary = Exact [
     req ''id'' Num,
     req ''project_name'' Str,
     req ''booking_type_id'' Num,
     req ''booked_by'' Num,
     req ''booked_by_username'' (nullable Str),
     req ''context_tag'' (lits [''deployment'', ''regression'', ''none'']),
     req ''exclusive_use_requested'' Bool,
     req ''start_date'' Str,
     req ''end_date'' Str,
     req ''notes'' (nullable Str),
     req ''delegate_user_ids'' (nullable (Arr Num)),
     req ''custom_fields'' (nullable (Dict Any)),
     req ''protection_level'' (nullable Str)]"

definition py_BookingResponse :: ts where
  "py_BookingResponse = Exact [
     req ''id'' Num,
     req ''environment_id'' Num,
     req ''environment_name'' (nullable Str),
     req ''project_name'' (nullable Str),
     req ''project_id'' (nullable Num),
     req ''project_name_link'' (nullable Str),
     req ''booked_by'' (nullable Num),
     req ''booked_by_username'' (nullable Str),
     req ''booking_type_id'' (nullable Num),
     req ''exclusive_use'' (nullable Bool),
     req ''notes'' (nullable Str),
     req ''context_tag'' (nullable (lits [''deployment'', ''regression'', ''none''])),
     req ''custom_fields'' (nullable (Dict Any)),
     req ''start_date'' Str,
     req ''end_date'' Str,
     req ''status'' Str,
     req ''recurrence_rule'' (nullable Str),
     req ''recurrence_parent_id'' (nullable Num),
     req ''release_id'' (nullable Num),
     req ''test_phase_id'' (nullable Num),
     req ''custom_field_permissions'' (nullable (Dict (Dict Any))),
     req ''standard_field_permissions'' (nullable (Dict (Dict Any))),
     req ''tenant_id'' Num,
     req ''created_at'' Str,
     req ''updated_at'' Str,
     req ''booking_request_id'' (nullable Num),
     req ''request'' (nullable py_BookingRequestSummary),
     req ''protection_level'' (nullable Str),
     req ''has_unacknowledged_conflicts'' Bool,
     req ''agreement_gap'' (nullable Str),
     req ''has_unacknowledged_agreement_gap'' Bool,
     req ''agreement_gap_ack'' (nullable py_AgreementGapAckRead),
     req ''environment_group_id'' (nullable Num),
     req ''environment_group_name'' (nullable Str),
     req ''contention_state'' (nullable Str)]"

definition py_BookingCreateResponse :: ts where
  "py_BookingCreateResponse = Exact [
     req ''booking'' py_BookingResponse,
     req ''overlap_warnings'' (Arr Num)]"

definition py_BookingStatusHistoryResponse :: ts where
  "py_BookingStatusHistoryResponse = Exact [
     req ''id'' Num,
     req ''from_state'' (nullable Str),
     req ''to_state'' Str,
     req ''changed_by'' Num,
     req ''changed_at'' Str,
     req ''notes'' (nullable Str)]"

definition py_BookingTypeResponse :: ts where
  "py_BookingTypeResponse = Exact [
     req ''id'' Num,
     req ''tenant_id'' Num,
     req ''name'' Str,
     req ''description'' (nullable Str),
     req ''lifecycle_template_id'' Num,
     req ''color'' (nullable Str),
     req ''is_active'' Bool,
     req ''default_protection_level'' Str,
     req ''default_duration_minutes'' (nullable Num),
     req ''created_at'' Str,
     req ''updated_at'' Str]"

definition py_LifecycleTemplateResponse :: ts where
  "py_LifecycleTemplateResponse = Exact [
     req ''id'' Num,
     req ''tenant_id'' Num,
     req ''entity_type'' Str,
     req ''applies_to_kind'' (nullable Str),
     req ''name'' Str,
     req ''description'' (nullable Str),
     req ''is_default'' Bool,
     req ''definition'' (Dict Any),
     req ''created_at'' Str,
     req ''updated_at'' Str]"

definition py_EnvBookingSummary :: ts where
  "py_EnvBookingSummary = Exact [
     req ''id'' Num,
     req ''environment_id'' Num,
     req ''environment_name'' (nullable Str),
     req ''project_name'' (nullable Str),
     req ''start_date'' Str,
     req ''end_date'' Str,
     req ''status'' Str,
     req ''has_unacknowledged_conflicts'' Bool,
     req ''agreement_gap'' (nullable Str),
     req ''has_unacknowledged_agreement_gap'' Bool,
     req ''environment_group_id'' (nullable Num),
     req ''environment_group_name'' (nullable Str),
     req ''protection_level'' Str]"

definition py_BookingRequestResponse :: ts where
  "py_BookingRequestResponse = Exact [
     req ''id'' Num,
     req ''tenant_id'' Num,
     req ''project_name'' Str,
     req ''project_id'' (nullable Num),
     req ''project_name_link'' (nullable Str),
     req ''booking_type_id'' Num,
     req ''start_date'' Str,
     req ''end_date'' Str,
     req ''notes'' (nullable Str),
     req ''context_tag'' Str,
     req ''exclusive_use_requested'' Bool,
     req ''protection_level'' Str,
     req ''custom_fields'' (nullable (Dict Any)),
     req ''booked_by'' Num,
     req ''delegate_user_ids'' (nullable (Arr Num)),
     req ''rollup_status'' Str,
     req ''bookings'' (Arr py_EnvBookingSummary)]"

definition py_BookingRequestCreateResponse :: ts where
  "py_BookingRequestCreateResponse = Exact [
     req ''request'' py_BookingRequestResponse,
     req ''detected_conflicts'' (Dict (Arr py_EnvBookingSummary)),
     req ''agreement_gaps'' (Dict Str)]"

definition py_PreviewConflictsResponse :: ts where
  "py_PreviewConflictsResponse = Exact [
     req ''conflicts'' (Dict (Arr py_EnvBookingSummary))]"

definition py_PipelineStep :: ts where
  "py_PipelineStep = Exact [
     req ''name'' Str,
     req ''status'' Str,
     req ''started_at'' (nullable Str),
     req ''finished_at'' (nullable Str)]"

definition py_BuildRead :: ts where
  "py_BuildRead = Exact [
     req ''id'' Num,
     req ''tenant_id'' Num,
     req ''subsystem_id'' Num,
     req ''subsystem_name'' (nullable Str),
     req ''release_id'' (nullable Num),
     req ''release_name'' (nullable Str),
     req ''git_sha'' Str,
     req ''git_branch'' (nullable Str),
     req ''build_number'' (nullable Str),
     req ''commit_timestamp'' Str,
     req ''build_started_at'' (nullable Str),
     req ''build_finished_at'' (nullable Str),
     req ''jira_tickets'' (Arr Str),
     req ''pipeline_steps'' (Arr py_PipelineStep),
     req ''custom_fields'' (Dict Any),
     req ''created_at'' Str,
     req ''updated_at'' Str]"

definition py_ChangeHistoryEntry :: ts where
  "py_ChangeHistoryEntry = Exact [
     req ''id'' Num,
     req ''from_state'' (nullable Str),
     req ''to_state'' (nullable Str),
     req ''field_name'' (nullable Str),
     req ''old_value'' (nullable Any),
     req ''new_value'' (nullable Any),
     req ''changed_by'' Num,
     req ''changed_at'' Str,
     req ''notes'' (nullable Str)]"

definition py_EnvironmentSummary :: ts where
  "py_EnvironmentSummary = Exact [
     req ''id'' Num,
     req ''name'' Str]"

definition py_InfrastructureComponentSummary :: ts where
  "py_InfrastructureComponentSummary = Exact [
     req ''id'' Num,
     req ''name'' Str,
     req ''component_type'' (lits [''server'', ''container_runtime'', ''kubernetes_cluster'', ''managed_database'',
       ''load_balancer'', ''network'', ''cdn'', ''queue'', ''cache'', ''other'']),
     req ''provider'' (nullable Str),
     req ''region'' (nullable Str)]"

definition py_ChangeRequestDetailResponse :: ts where
  "py_ChangeRequestDetailResponse = Exact [
     req ''id'' Num,
     req ''tenant_id'' Num,
     req ''title'' Str,
     req ''description'' (nullable Str),
     req ''change_type'' Str,
     req ''status'' Str,
     req ''lifecycle_id'' Num,
     req ''subsystem_id'' (nullable Num),
     req ''environment_ids'' (Arr Num),
     req ''host_ids'' (Arr Num),
     req ''environments'' (Arr py_EnvironmentSummary),
     req ''hosts'' (Arr py_InfrastructureComponentSummary),
     req ''derived_environment_ids'' (Arr Num),
     req ''derived_environments'' (Arr py_EnvironmentSummary),
     req ''release_id'' (nullable Num),
     req ''has_outage'' Bool,
     req ''outage_start'' (nullable Str),
     req ''outage_end'' (nullable Str),
     req ''scheduled_start'' Str,
     req ''scheduled_end'' Str,
     req ''custom_fields'' (nullable (Dict Any)),
     req ''raised_by'' Num,
     req ''created_at'' Str,
     req ''updated_at'' Str,
     req ''history'' (Arr py_ChangeHistoryEntry)]"

definition py_ChangeRequestResponse :: ts where
  "py_ChangeRequestResponse = Exact [
     req ''id'' Num,
     req ''tenant_id'' Num,
     req ''title'' Str,
     req ''description'' (nullable Str),
     req ''change_type'' Str,
     req ''status'' Str,
     req ''lifecycle_id'' Num,
     req ''subsystem_id'' (nullable Num),
     req ''environment_ids'' (Arr Num),
     req ''host_ids'' (Arr Num),
     req ''environments'' (Arr py_EnvironmentSummary),
     req ''hosts'' (Arr py_InfrastructureComponentSummary),
     req ''derived_environment_ids'' (Arr Num),
     req ''derived_environments'' (Arr py_EnvironmentSummary),
     req ''release_id'' (nullable Num),
     req ''has_outage'' Bool,
     req ''outage_start'' (nullable Str),
     req ''outage_end'' (nullable Str),
     req ''scheduled_start'' Str,
     req ''scheduled_end'' Str,
     req ''custom_fields'' (nullable (Dict Any)),
     req ''raised_by'' Num,
     req ''created_at'' Str,
     req ''updated_at'' Str]"

definition py_OutageConflictBooking :: ts where
  "py_OutageConflictBooking = Exact [
     req ''id'' Num,
     req ''environment_id'' Num,
     req ''environment_name'' Str,
     req ''project_name'' Str,
     req ''start_date'' Str,
     req ''end_date'' Str,
     req ''status'' Str]"

definition py_OutageConflictEnvironment :: ts where
  "py_OutageConflictEnvironment = Exact [
     req ''environment_id'' Num,
     req ''environment_name'' Str,
     req ''conflicts'' (Arr py_OutageConflictBooking)]"

definition py_PreviewOutageConflictsResponse :: ts where
  "py_PreviewOutageConflictsResponse = Exact [
     req ''environments'' (Arr py_OutageConflictEnvironment),
     req ''derived_environment_ids'' (Arr Num),
     req ''derived_environments'' (Arr py_EnvironmentSummary)]"

definition py_CloseTargetRead :: ts where
  "py_CloseTargetRead = Exact [
     req ''state_key'' Str,
     req ''label'' Str,
     req ''requires_pir_complete'' Bool,
     req ''requires_handover_confirmed'' Bool,
     req ''unmet'' (Arr Str),
     req ''can_close'' Bool]"

definition py_HypercarePhaseRead :: ts where
  "py_HypercarePhaseRead = Exact [
     req ''id'' Num,
     req ''name'' Str,
     req ''start_date'' (nullable Str),
     req ''end_date'' (nullable Str)]"

definition py_HypercareRead :: ts where
  "py_HypercareRead = Exact [
     req ''state'' Str,
     req ''phase'' (nullable py_HypercarePhaseRead),
     req ''declared_stable_at'' (nullable Str),
     req ''declared_stable_by_username'' (nullable Str)]"

definition py_HandoverRead :: ts where
  "py_HandoverRead = Exact [
     req ''operations_group_id'' (nullable Num),
     req ''operations_group_name'' (nullable Str),
     req ''confirmed_at'' (nullable Str),
     req ''confirmed_by_username'' (nullable Str)]"

definition py_PirStateRead :: ts where
  "py_PirStateRead = Exact [
     req ''exists'' Bool,
     req ''status'' (nullable Str),
     req ''completed_at'' (nullable Str)]"

definition py_IncidentWindowItem :: ts where
  "py_IncidentWindowItem = Exact [
     req ''id'' Num,
     req ''title'' Str,
     req ''severity'' Str,
     req ''status'' Str,
     req ''detected_at'' Str]"

definition py_IncidentsWindowRead :: ts where
  "py_IncidentsWindowRead = Exact [
     req ''window_start'' (nullable Str),
     req ''window_end'' (nullable Str),
     req ''by_severity'' (Dict Num),
     req ''total'' Num,
     req ''items'' (Arr py_IncidentWindowItem)]"

definition py_CloseoutRead :: ts where
  "py_CloseoutRead = Exact [
     req ''hypercare'' py_HypercareRead,
     req ''handover'' py_HandoverRead,
     req ''pir'' py_PirStateRead,
     req ''incidents'' py_IncidentsWindowRead,
     req ''close_targets'' (Arr py_CloseTargetRead)]"

definition py_FieldDefinitionSchema :: ts where
  "py_FieldDefinitionSchema = Exact [
     req ''field_key'' Str,
     req ''label'' Str,
     req ''field_type'' Str,
     req ''required'' Bool,
     req ''display_order'' Num]"

definition py_ComponentTypeDefinitionResponse :: ts where
  "py_ComponentTypeDefinitionResponse = Exact [
     req ''id'' Num,
     req ''tenant_id'' Num,
     req ''name'' Str,
     req ''description'' (nullable Str),
     req ''category'' (nullable Str),
     req ''icon'' (nullable Str),
     req ''field_definitions'' (nullable (Arr py_FieldDefinitionSchema)),
     req ''created_at'' Str,
     req ''updated_at'' Str]"

definition py_ConflictAckRead :: ts where
  "py_ConflictAckRead = Exact [
     req ''willing_to_share'' (nullable Bool),
     req ''notes'' (nullable Str),
     req ''acknowledged_by'' (nullable Num),
     req ''acknowledged_at'' (nullable Str)]"

definition py_EscalationRead :: ts where
  "py_EscalationRead = Exact [
     req ''id'' Num,
     req ''booking_id'' Num,
     req ''other_booking_id'' Num,
     req ''owner_user_id'' Num,
     req ''owner_username'' (nullable Str),
     req ''escalated_by'' Num,
     req ''escalated_by_username'' (nullable Str),
     req ''respond_by'' Str,
     req ''state'' Str,
     req ''bookings_live'' Bool,
     req ''booking_environment_name'' (nullable Str),
     req ''booking_project_name'' (nullable Str),
     req ''other_booking_environment_name'' (nullable Str),
     req ''other_booking_project_name'' (nullable Str),
     req ''booking_group_name'' (nullable Str),
     req ''other_booking_group_name'' (nullable Str),
     req ''decision_yields_booking_id'' (nullable Num),
     req ''decision_notes'' (nullable Str),
     req ''decided_by'' (nullable Num),
     req ''decided_by_username'' (nullable Str),
     req ''decided_at'' (nullable Str)]"

definition py_ContentionRead :: ts where
  "py_ContentionRead = Exact [
     req ''outcome'' Str,
     req ''winner_booking_id'' (nullable Num),
     req ''reason'' Str,
     req ''escalation'' (nullable py_EscalationRead),
     req ''booking_project_name'' (nullable Str),
     req ''other_project_name'' (nullable Str)]"

definition py_ConflictItem :: ts where
  "py_ConflictItem = Exact [
     req ''other_booking'' py_EnvBookingSummary,
     req ''contention'' py_ContentionRead,
     req ''ack'' (nullable py_ConflictAckRead)]"

definition py_UserRef :: ts where
  "py_UserRef = Exact [
     req ''id'' Num,
     req ''username'' Str,
     req ''email'' Str]"

definition py_RequestContextRef :: ts where
  "py_RequestContextRef = Exact [
     req ''id'' Num,
     req ''project_name'' Str,
     req ''notes'' (nullable Str),
     req ''context_tag'' Str,
     req ''exclusive_use_requested'' Bool,
     req ''booked_by'' py_UserRef]"

definition py_ReceivedFeedbackItem :: ts where
  "py_ReceivedFeedbackItem = Exact [
     req ''willing_to_share'' (nullable Bool),
     req ''notes'' (nullable Str),
     req ''acknowledged_at'' Str,
     req ''acknowledged_by'' py_UserRef,
     req ''source_booking'' py_EnvBookingSummary,
     req ''source_request'' py_RequestContextRef]"

definition py_CustomFieldDefinitionResponse :: ts where
  "py_CustomFieldDefinitionResponse = Exact [
     req ''id'' Num,
     req ''tenant_id'' Num,
     req ''entity_type'' Str,
     req ''entity_subtype'' (nullable Str),
     req ''field_key'' Str,
     req ''label'' Str,
     req ''field_type'' Str,
     req ''required'' Bool,
     req ''display_order'' Num,
     req ''options'' (nullable (Dict Any)),
     req ''lifecycle_states'' (nullable (Arr Any)),
     req ''created_at'' Str,
     req ''updated_at'' Str]"

definition py_AttestationRead :: ts where
  "py_AttestationRead = Exact [
     req ''id'' Num,
     req ''decommission_id'' Num,
     req ''step_key'' Str,
     req ''signed_by'' Num,
     req ''signed_at'' Str,
     req ''reference'' (nullable Str),
     req ''notes'' (nullable Str),
     req ''signed_by_username'' (nullable Str)]"

definition py_DecommissionRead :: ts where
  "py_DecommissionRead = Exact [
     req ''id'' Num,
     req ''environment_id'' Num,
     req ''reason'' Str,
     req ''warned_at'' Str,
     req ''scheduled_teardown_at'' Str,
     req ''initiated_by'' Num,
     req ''extension_requested_at'' (nullable Str),
     req ''extension_reason'' (nullable Str),
     req ''extension_until'' (nullable Str),
     req ''extension_decided_at'' (nullable Str),
     req ''extension_granted'' (nullable Bool),
     req ''torn_down_at'' (nullable Str),
     req ''cancelled_at'' (nullable Str),
     req ''cancel_reason'' (nullable Str),
     req ''state'' Str,
     req ''initiated_by_username'' (nullable Str),
     req ''attestations'' (Arr py_AttestationRead)]"

definition py_DecommissionWorklistRow :: ts where
  "py_DecommissionWorklistRow = Exact [
     req ''id'' Num,
     req ''environment_id'' Num,
     req ''reason'' Str,
     req ''warned_at'' Str,
     req ''scheduled_teardown_at'' Str,
     req ''initiated_by'' Num,
     req ''extension_requested_at'' (nullable Str),
     req ''extension_reason'' (nullable Str),
     req ''extension_until'' (nullable Str),
     req ''extension_decided_at'' (nullable Str),
     req ''extension_granted'' (nullable Bool),
     req ''torn_down_at'' (nullable Str),
     req ''cancelled_at'' (nullable Str),
     req ''cancel_reason'' (nullable Str),
     req ''state'' Str,
     req ''initiated_by_username'' (nullable Str),
     req ''attestations'' (Arr py_AttestationRead),
     req ''environment_name'' (nullable Str),
     req ''owner_username'' (nullable Str)]"

definition py_RemainingBookingSummary :: ts where
  "py_RemainingBookingSummary = Exact [
     req ''id'' Num,
     req ''start_date'' Str,
     req ''end_date'' Str,
     req ''status'' Str]"

definition py_TeardownRead :: ts where
  "py_TeardownRead = Exact [
     req ''id'' Num,
     req ''environment_id'' Num,
     req ''reason'' Str,
     req ''warned_at'' Str,
     req ''scheduled_teardown_at'' Str,
     req ''initiated_by'' Num,
     req ''extension_requested_at'' (nullable Str),
     req ''extension_reason'' (nullable Str),
     req ''extension_until'' (nullable Str),
     req ''extension_decided_at'' (nullable Str),
     req ''extension_granted'' (nullable Bool),
     req ''torn_down_at'' (nullable Str),
     req ''cancelled_at'' (nullable Str),
     req ''cancel_reason'' (nullable Str),
     req ''state'' Str,
     req ''initiated_by_username'' (nullable Str),
     req ''attestations'' (Arr py_AttestationRead),
     req ''remaining_bookings'' (Arr py_RemainingBookingSummary)]"

definition py_SubSystemResponse :: ts where
  "py_SubSystemResponse = Exact [
     req ''id'' Num,
     req ''name'' Str,
     req ''description'' (nullable Str),
     req ''component_type'' (lits [''web_service'', ''api_gateway'', ''database'', ''cache'', ''message_queue'',
       ''worker'', ''frontend'', ''other'']),
     req ''technology'' (nullable Str),
     req ''system_id'' Num,
     req ''tenant_id'' Num,
     req ''custom_fields'' (nullable (Dict Any)),
     req ''created_at'' Str,
     req ''updated_at'' Str]"

definition py_SubSystemBase :: ts where
  "py_SubSystemBase = Exact [
     req ''id'' Num,
     req ''name'' Str,
     req ''description'' (nullable Str),
     req ''system_id'' Num]"

definition py_ComponentEndpointResponse :: ts where
  "py_ComponentEndpointResponse = Exact [
     req ''id'' Num,
     req ''dependency_id'' Num,
     req ''http_method'' (nullable (lits [''get'', ''post'', ''put'', ''patch'', ''delete'', ''head'',
       ''options''])),
     req ''path'' Str,
     req ''description'' (nullable Str),
     req ''tenant_id'' Num]"

definition py_ComponentDependencyResponse :: ts where
  "py_ComponentDependencyResponse = Exact [
     req ''id'' Num,
     req ''from_subsystem_id'' Num,
     req ''to_subsystem_id'' Num,
     req ''dependency_type'' (lits [''api_call'', ''database'', ''message_queue'', ''event'', ''file'', ''other'']),
     req ''direction'' (lits [''one_way'', ''two_way'']),
     req ''protocol'' (nullable Str),
     req ''port'' (nullable Num),
     req ''source'' (lits [''manual'', ''terraform'', ''docker_compose'']),
     req ''label'' (nullable Str),
     req ''tenant_id'' Num,
     req ''to_subsystem'' py_SubSystemResponse,
     req ''from_subsystem'' (nullable py_SubSystemBase),
     req ''is_incoming'' Bool,
     req ''endpoints'' (Arr py_ComponentEndpointResponse)]"

definition py_ComponentVerifyItem :: ts where
  "py_ComponentVerifyItem = Exact [
     req ''from_subsystem_id'' Num,
     req ''from_subsystem_name'' Str,
     req ''to_subsystem_id'' Num,
     req ''to_subsystem_name'' Str,
     req ''dependency_type'' (lits [''api_call'', ''database'', ''message_queue'', ''event'', ''file'', ''other'']),
     req ''status'' (lits [''satisfied'', ''mocked'', ''missing''])]"

definition py_DependencyVerifyItem :: ts where
  "py_DependencyVerifyItem = Exact [
     req ''to_system_id'' Num,
     req ''to_system_name'' Str,
     req ''dependency_type'' (lits [''api_call'', ''database'', ''message_queue'', ''event'', ''file'', ''other'']),
     req ''status'' (lits [''satisfied'', ''mocked'', ''missing''])]"

definition py_SystemBase :: ts where
  "py_SystemBase = Exact [
     req ''id'' Num,
     req ''name'' Str,
     req ''description'' (nullable Str)]"

definition py_SystemResponse :: ts where
  "py_SystemResponse = Exact [
     req ''id'' Num,
     req ''name'' Str,
     req ''description'' (nullable Str),
     req ''tenant_id'' Num,
     req ''github_repository_url'' (nullable Str),
     req ''custom_fields'' (nullable (Dict Any)),
     req ''created_at'' Str,
     req ''updated_at'' Str]"

definition py_SystemDependencyResponse :: ts where
  "py_SystemDependencyResponse = Exact [
     req ''id'' Num,
     req ''from_system_id'' Num,
     req ''to_system_id'' Num,
     req ''dependency_type'' (lits [''api_call'', ''database'', ''message_queue'', ''event'', ''file'', ''other'']),
     req ''direction'' (lits [''one_way'', ''two_way'']),
     req ''source'' (lits [''manual'', ''terraform'', ''docker_compose'']),
     req ''label'' (nullable Str),
     req ''tenant_id'' Num,
     req ''to_system'' py_SystemResponse,
     req ''from_system'' (nullable py_SystemBase),
     req ''is_incoming'' Bool]"

definition py_SystemVerifyResult :: ts where
  "py_SystemVerifyResult = Exact [
     req ''system_id'' Num,
     req ''system_name'' Str,
     req ''dependencies'' (Arr py_DependencyVerifyItem)]"

definition py_VerifyResponse :: ts where
  "py_VerifyResponse = Exact [
     req ''environment_id'' Num,
     req ''total_dependencies'' Num,
     req ''satisfied_count'' Num,
     req ''mocked_count'' Num,
     req ''missing_count'' Num,
     req ''systems'' (Arr py_SystemVerifyResult),
     req ''component_total'' Num,
     req ''component_satisfied'' Num,
     req ''component_mocked'' Num,
     req ''component_missing'' Num,
     req ''component_dependencies'' (Arr py_ComponentVerifyItem)]"

definition py_DeploymentRead :: ts where
  "py_DeploymentRead = Exact [
     req ''id'' Num,
     req ''tenant_id'' Num,
     req ''build_id'' Num,
     req ''build_sha_short'' (nullable Str),
     req ''environment_id'' Num,
     req ''environment_name'' (nullable Str),
     req ''release_id'' (nullable Num),
     req ''release_name'' (nullable Str),
     req ''change_request_id'' Num,
     req ''change_request_title'' (nullable Str),
     req ''event_id'' Str,
     req ''deployer_name'' (nullable Str),
     req ''deployed_at'' Str,
     req ''completed_at'' (nullable Str),
     req ''status'' Str,
     req ''custom_fields'' (Dict Any),
     req ''created_at'' Str,
     req ''updated_at'' Str]"

definition py_EnterpriseReportEvent :: ts where
  "py_EnterpriseReportEvent = Exact [
     req ''release_id'' Num,
     req ''release_name'' Str,
     req ''occurred_at'' Str,
     req ''event_type'' Str,
     req ''description'' (nullable Str)]"

definition py_MemberRollupRow :: ts where
  "py_MemberRollupRow = Exact [
     req ''project_release_id'' Num,
     req ''project_release_name'' Str,
     req ''status'' Str,
     req ''admitted_at'' (nullable Str),
     req ''late_scope'' Bool]"

definition py_SystemRollupRow :: ts where
  "py_SystemRollupRow = Exact [
     req ''system_id'' Num,
     req ''system_name'' Str,
     req ''roles_by_project'' (Dict (Arr Str))]"

definition py_ScopeRollupItem :: ts where
  "py_ScopeRollupItem = Exact [
     req ''release_change_id'' Num,
     req ''project_release_id'' Num,
     req ''project_release_name'' Str,
     req ''external_key'' (nullable Str),
     req ''title'' Str,
     req ''change_kind'' Str,
     req ''external_status'' (nullable Str),
     req ''system_id'' (nullable Num),
     req ''system_name'' (nullable Str)]"

definition py_TimelineDependencyEdge :: ts where
  "py_TimelineDependencyEdge = Exact [
     req ''from_release_id'' Num,
     req ''to_release_id'' Num,
     req ''from_release_name'' (nullable Str),
     req ''to_release_name'' (nullable Str),
     req ''alert'' (nullable Str)]"

definition py_EnterpriseReportRead :: ts where
  "py_EnterpriseReportRead = Exact [
     req ''enterprise_id'' Num,
     req ''name'' Str,
     req ''status'' Str,
     req ''target_date'' (nullable Str),
     req ''actual_date'' (nullable Str),
     req ''description'' (nullable Str),
     req ''members'' (Arr py_MemberRollupRow),
     req ''systems'' (Arr py_SystemRollupRow),
     req ''scope_by_project'' (Dict (Arr py_ScopeRollupItem)),
     req ''events'' (Arr py_EnterpriseReportEvent),
     req ''dependencies'' (Arr py_TimelineDependencyEdge),
     req ''generated_at'' Str,
     req ''generated_by'' Str]"

definition py_TimelinePhaseRead :: ts where
  "py_TimelinePhaseRead = Exact [
     req ''release_id'' Num,
     req ''release_name'' Str,
     req ''release_kind'' Str,
     req ''phase_id'' (nullable Num),
     req ''phase_name'' Str,
     req ''start_date'' (nullable Str),
     req ''end_date'' (nullable Str),
     req ''status'' (nullable Str)]"

definition py_TimelineRollupRead :: ts where
  "py_TimelineRollupRead = Exact [
     req ''enterprise_phases'' (Arr py_TimelinePhaseRead),
     req ''child_phases_by_release'' (Dict (Arr py_TimelinePhaseRead)),
     req ''dependencies'' (Arr py_TimelineDependencyEdge)]"

definition py_EnvSubsystemHostRef :: ts where
  "py_EnvSubsystemHostRef = Exact [
     req ''infrastructure_component_id'' Num,
     req ''name'' Str,
     req ''component_type'' Str,
     req ''role'' (nullable Str)]"

definition py_EnvSubsystemNode :: ts where
  "py_EnvSubsystemNode = Exact [
     req ''id'' Num,
     req ''name'' Str,
     req ''component_type'' Str,
     req ''technology'' (nullable Str),
     req ''system_id'' Num,
     req ''is_mocked'' Bool,
     req ''hosts'' (Arr py_EnvSubsystemHostRef)]"

definition py_EnvironmentResponse :: ts where
  "py_EnvironmentResponse = Exact [
     req ''id'' Num,
     req ''name'' Str,
     req ''description'' (nullable Str),
     req ''tier_id'' Num,
     req ''tier_name'' Str,
     req ''tier_color'' (nullable Str),
     req ''owner_user_id'' (nullable Num),
     req ''owner_username'' (nullable Str),
     req ''operations_group_id'' (nullable Num),
     req ''operations_group_name'' (nullable Str),
     req ''expires_at'' (nullable Str),
     req ''status'' (lits [''active'', ''inactive'', ''maintenance'', ''decommissioned'']),
     req ''reserved_now'' Bool,
     req ''name_compliant'' (nullable Bool),
     req ''quarantined'' Bool,
     req ''compliance_gaps'' (Arr Str),
     req ''idle'' Bool,
     req ''decommission_state'' (nullable Str),
     req ''access_url'' (nullable Str),
     req ''connection_notes'' (nullable Str),
     req ''support_contact'' (nullable Str),
     req ''sla_notes'' (nullable Str),
     req ''known_limitations'' (nullable Str),
     req ''decommission_notes'' (nullable Str),
     req ''tenant_id'' Num,
     req ''custom_fields'' (nullable (Dict Any)),
     req ''created_at'' Str,
     req ''updated_at'' Str]"

definition py_VersionSummary :: ts where
  "py_VersionSummary = Exact [
     req ''build_identifier'' Str,
     req ''version_label'' Str,
     req ''installed_at'' Str]"

definition py_EnvironmentSubsystemResponse :: ts where
  "py_EnvironmentSubsystemResponse = Exact [
     req ''id'' Num,
     req ''environment_id'' Num,
     req ''subsystem_id'' Num,
     req ''subsystem_name'' Str,
     req ''component_type'' Str,
     req ''component_type_definition_id'' (nullable Num),
     req ''component_type_definition_name'' (nullable Str),
     req ''technology'' (nullable Str),
     req ''system_id'' Num,
     req ''system_name'' Str,
     req ''is_mocked'' Bool,
     req ''mock_notes'' (nullable Str),
     req ''custom_fields'' (nullable (Dict Any)),
     req ''latest_version'' (nullable py_VersionSummary)]"

definition py_EnvironmentSystemResponse :: ts where
  "py_EnvironmentSystemResponse = Exact [
     req ''id'' Num,
     req ''environment_id'' Num,
     req ''system_id'' Num,
     req ''system'' py_SystemResponse]"

definition py_SystemSummary :: ts where
  "py_SystemSummary = Exact [
     req ''id'' Num,
     req ''name'' Str,
     req ''description'' (nullable Str)]"

definition py_EnvironmentSystemsResponse :: ts where
  "py_EnvironmentSystemsResponse = Exact [
     req ''systems'' (Arr py_EnvironmentSystemResponse),
     req ''missing_systems'' (Arr py_SystemSummary)]"

definition py_EnvironmentTopologyResponse :: ts where
  "py_EnvironmentTopologyResponse = Exact [
     req ''environment_id'' Num,
     req ''subsystems'' (Arr py_EnvSubsystemNode),
     req ''dependencies'' (Arr py_ComponentDependencyResponse),
     req ''system_names'' (Dict Str),
     req ''outside_subsystems'' (Arr py_EnvSubsystemNode),
     req ''outside_dependencies'' (Arr py_ComponentDependencyResponse)]"

definition py_ComparedEnvironment :: ts where
  "py_ComparedEnvironment = Exact [
     req ''id'' Num,
     req ''name'' Str,
     req ''status'' Str]"

definition py_ComparisonSummary :: ts where
  "py_ComparisonSummary = Exact [
     req ''compared'' Num,
     req ''differing'' Num,
     req ''by_kind'' (Dict Num)]"

definition py_SystemPresence :: ts where
  "py_SystemPresence = Exact [
     req ''system_id'' Num,
     req ''name'' Str,
     req ''presence'' (lits [''both'', ''left_only'', ''right_only''])]"

definition py_HostShapeEntry :: ts where
  "py_HostShapeEntry = Exact [
     req ''component_type'' Str,
     req ''role'' (nullable Str),
     req ''count'' Num]"

definition py_SubsystemSide :: ts where
  "py_SubsystemSide = Exact [
     req ''is_mocked'' Bool,
     req ''mock_notes'' (nullable Str),
     req ''version'' (nullable Str),
     req ''host_shape'' (Arr py_HostShapeEntry)]"

definition py_SubsystemComparison :: ts where
  "py_SubsystemComparison = Exact [
     req ''subsystem_id'' Num,
     req ''name'' Str,
     req ''system_id'' Num,
     req ''system_name'' Str,
     req ''presence'' (lits [''both'', ''left_only'', ''right_only'']),
     req ''left'' (nullable py_SubsystemSide),
     req ''right'' (nullable py_SubsystemSide),
     req ''differences'' (Arr (lits [''presence'', ''mocked'', ''version'', ''host_shape'']))]"

definition py_EnvironmentComparisonResponse :: ts where
  "py_EnvironmentComparisonResponse = Exact [
     req ''left'' py_ComparedEnvironment,
     req ''right'' py_ComparedEnvironment,
     req ''systems'' (Arr py_SystemPresence),
     req ''subsystems'' (Arr py_SubsystemComparison),
     req ''summary'' py_ComparisonSummary]"

definition py_EnvironmentGroupResponse :: ts where
  "py_EnvironmentGroupResponse = Exact [
     req ''id'' Num,
     req ''tenant_id'' Num,
     req ''name'' Str,
     req ''description'' (nullable Str),
     req ''member_count'' Num,
     req ''is_active'' Bool,
     req ''created_at'' Str,
     req ''updated_at'' Str]"

definition py_MemberResponse :: ts where
  "py_MemberResponse = Exact [
     req ''id'' Num,
     req ''tenant_id'' Num,
     req ''group_id'' Num,
     req ''group_name'' Str,
     req ''environment_id'' Num,
     req ''environment_name'' Str,
     req ''created_at'' Str]"

definition py_ActiveBookingSummary :: ts where
  "py_ActiveBookingSummary = Exact [
     req ''project_name'' Str,
     req ''start_date'' Str,
     req ''end_date'' Str]"

definition py_EnvironmentHealthOverviewRow :: ts where
  "py_EnvironmentHealthOverviewRow = Exact [
     req ''environment_id'' Num,
     req ''environment_name'' Str,
     req ''current_status'' Str,
     req ''last_recorded_at'' (nullable Str),
     req ''active_booking'' Bool,
     req ''active_booking_summary'' (nullable py_ActiveBookingSummary),
     req ''planned_outage'' Bool,
     req ''alert'' Bool]"

definition py_HealthSample :: ts where
  "py_HealthSample = Exact [
     req ''id'' Num,
     req ''environment_id'' Num,
     req ''status'' Str,
     req ''recorded_at'' Str,
     req ''source'' Str,
     req ''detail'' (nullable Str)]"

definition py_EnvironmentNamingPolicyPreview :: ts where
  "py_EnvironmentNamingPolicyPreview = Exact [
     req ''total_environments'' Num,
     req ''in_gap'' Num,
     req ''quarantined_now'' Num,
     req ''sample_names'' (Arr Str)]"

definition py_EnvironmentNamingPolicyRead :: ts where
  "py_EnvironmentNamingPolicyRead = Exact [
     req ''is_enabled'' Bool,
     req ''name_pattern'' (nullable Str),
     req ''name_pattern_example'' (nullable Str),
     req ''required_attributes'' (Arr Str),
     req ''grace_days'' Num,
     req ''effective_from'' Str]"

definition py_EnvironmentUtilization :: ts where
  "py_EnvironmentUtilization = Exact [
     req ''environment_id'' Num,
     req ''environment_name'' Str,
     req ''configured'' Bool,
     req ''timezone'' (nullable Str),
     req ''total_operating_seconds'' Num,
     req ''booked_operating_seconds'' Num,
     req ''utilization_ratio'' Num]"

definition py_OperatingHoursDay :: ts where
  "py_OperatingHoursDay = Exact [
     req ''closed'' Bool,
     req ''open'' (nullable Str),
     req ''close'' (nullable Str)]"

definition py_OperatingHoursConfigResponse :: ts where
  "py_OperatingHoursConfigResponse = Exact [
     req ''configured'' Bool,
     req ''timezone'' (nullable Str),
     req ''week'' (nullable (Arr py_OperatingHoursDay))]"

definition py_UtilizationOverview :: ts where
  "py_UtilizationOverview = Exact [
     req ''rows'' (Arr py_EnvironmentUtilization),
     req ''unconfigured_count'' Num]"

definition py_EnvironmentRequestResponse :: ts where
  "py_EnvironmentRequestResponse = Exact [
     req ''id'' Num,
     req ''tenant_id'' Num,
     req ''kind'' Str,
     req ''status'' Str,
     req ''lifecycle_id'' Num,
     req ''requested_by'' Num,
     req ''requester_username'' (nullable Str),
     req ''justification'' Str,
     req ''needed_by'' (nullable Str),
     req ''environment_id'' (nullable Num),
     req ''environment_name'' (nullable Str),
     req ''proposed_name'' (nullable Str),
     req ''tier_id'' (nullable Num),
     req ''tier_name'' (nullable Str),
     req ''expires_at'' (nullable Str),
     req ''operations_group_id'' (nullable Num),
     req ''operations_group_name'' (nullable Str),
     req ''created_environment_id'' (nullable Num),
     req ''created_at'' Str,
     req ''updated_at'' Str]"

definition py_WelcomePackResponse :: ts where
  "py_WelcomePackResponse = Exact [
     req ''environment'' (Dict Any),
     req ''access'' (Dict Any),
     req ''support'' (Dict Any),
     req ''caveats'' (Dict Any),
     req ''offboarding'' (Dict Any),
     req ''context'' (Dict Any)]"

definition py_EnvironmentTierResponse :: ts where
  "py_EnvironmentTierResponse = Exact [
     req ''id'' Num,
     req ''tenant_id'' Num,
     req ''name'' Str,
     req ''description'' (nullable Str),
     req ''category'' (nullable Str),
     req ''color'' (nullable Str),
     req ''display_order'' Num,
     req ''is_active'' Bool,
     req ''created_at'' Str,
     req ''updated_at'' Str,
     req ''idle_threshold_days'' (nullable Num)]"

definition py_GateCriterionRead :: ts where
  "py_GateCriterionRead = Exact [
     req ''id'' Num,
     req ''gate_id'' Num,
     req ''title'' Str,
     req ''notes'' (nullable Str),
     req ''assigned_to_user_id'' (nullable Num),
     req ''assigned_to_username'' (nullable Str),
     req ''assigned_role'' (nullable Str),
     req ''status'' Str,
     req ''completed_at'' (nullable Str),
     req ''completed_by_user_id'' (nullable Num),
     req ''created_at'' Str,
     req ''updated_at'' Str]"

definition py_GateCriterionWithGate :: ts where
  "py_GateCriterionWithGate = Exact [
     req ''id'' Num,
     req ''gate_id'' Num,
     req ''title'' Str,
     req ''notes'' (nullable Str),
     req ''assigned_to_user_id'' (nullable Num),
     req ''assigned_to_username'' (nullable Str),
     req ''assigned_role'' (nullable Str),
     req ''status'' Str,
     req ''completed_at'' (nullable Str),
     req ''completed_by_user_id'' (nullable Num),
     req ''created_at'' Str,
     req ''updated_at'' Str,
     req ''gate_name'' Str,
     req ''gate_due_date'' Str]"

definition py_GateEvidenceRead :: ts where
  "py_GateEvidenceRead = Exact [
     req ''id'' Num,
     req ''gate_id'' Num,
     req ''kind'' Str,
     req ''label'' Str,
     req ''url'' (nullable Str),
     req ''notes'' (nullable Str),
     req ''deployment_id'' (nullable Num),
     req ''added_by'' Num,
     req ''created_at'' Str,
     req ''is_stale'' Bool]"

definition py_LatestDecisionRead :: ts where
  "py_LatestDecisionRead = Exact [
     req ''outcome'' Str,
     req ''decided_at'' Str,
     req ''chaired_by_username'' (nullable Str),
     req ''unmet_condition_count'' Num]"

definition py_ReadinessBlocker :: ts where
  "py_ReadinessBlocker = Exact [
     req ''type'' (lits [''gate_pending'', ''gate_failed'', ''waiver_expired'', ''rollback_plan_missing'',
       ''rollback_plan_unagreed'', ''rehearsal_missing'', ''rehearsal_stale'']),
     req ''ref_kind'' (lits [''gate'', ''system'']),
     req ''ref_id'' Num,
     req ''gate_name'' (nullable Str),
     req ''gate_type'' (nullable Str),
     req ''detail'' (nullable Str)]"

definition py_ReadinessWarning :: ts where
  "py_ReadinessWarning = Exact [
     req ''type'' (lits [''gate_waived'', ''gate_waived_no_record'', ''gate_untyped'', ''gate_pending'',
       ''gate_failed'', ''evidence_missing'', ''evidence_stale'', ''rollback_plan_missing'',
         ''rollback_plan_unagreed'', ''rehearsal_missing'', ''rehearsal_stale'', ''rollback_irreversible'',
           ''rollback_lossy'']),
     req ''ref_kind'' (lits [''gate'', ''evidence'', ''system'']),
     req ''ref_id'' Num,
     req ''gate_name'' (nullable Str),
     req ''gate_type'' (nullable Str),
     req ''detail'' (nullable Str)]"

definition py_ReleaseReadinessResponse :: ts where
  "py_ReleaseReadinessResponse = Exact [
     req ''ok'' Bool,
     req ''release_id'' Num,
     req ''checked_at'' Str,
     req ''blockers'' (Arr py_ReadinessBlocker),
     req ''warnings'' (Arr py_ReadinessWarning),
     req ''reversibility'' (nullable Str),
     req ''latest_decision'' (nullable py_LatestDecisionRead)]"

definition py_GateTypeRead :: ts where
  "py_GateTypeRead = Exact [
     req ''id'' Num,
     req ''tenant_id'' Num,
     req ''name'' Str,
     req ''description'' (nullable Str),
     req ''category'' (nullable Str),
     req ''failure_behaviour'' Str,
     req ''expected_evidence'' (Arr Str),
     req ''requires_deployment_link'' Bool,
     req ''display_order'' Num,
     req ''is_active'' Bool]"

definition py_GoNoGoConditionRead :: ts where
  "py_GoNoGoConditionRead = Exact [
     req ''id'' Num,
     req ''decision_id'' Num,
     req ''text'' Str,
     req ''owner_user_id'' (nullable Num),
     req ''owner_username'' (nullable Str),
     req ''due_date'' (nullable Str),
     req ''met_at'' (nullable Str),
     req ''met_by_user_id'' (nullable Num),
     req ''met_by_username'' (nullable Str)]"

definition py_GoNoGoSignoffRead :: ts where
  "py_GoNoGoSignoffRead = Exact [
     req ''id'' Num,
     req ''decision_id'' Num,
     req ''perspective_id'' Num,
     req ''user_id'' Num,
     req ''username'' (nullable Str),
     req ''perspective_name'' (nullable Str),
     req ''verdict'' Str,
     req ''dissent_note'' (nullable Str)]"

definition py_GoNoGoDecisionRead :: ts where
  "py_GoNoGoDecisionRead = Exact [
     req ''id'' Num,
     req ''tenant_id'' Num,
     req ''release_id'' Num,
     req ''outcome'' Str,
     req ''rationale'' Str,
     req ''decided_at'' Str,
     req ''chaired_by_user_id'' Num,
     req ''chaired_by_username'' (nullable Str),
     req ''attendees'' (Arr Num),
     req ''attendee_usernames'' (Arr Str),
     req ''snapshot_ok'' Bool,
     req ''snapshot_blockers'' (Arr (Dict Any)),
     req ''snapshot_warnings'' (Arr (Dict Any)),
     req ''snapshot_reversibility'' (nullable Str),
     req ''snapshot_rehearsal_state'' (nullable Str),
     req ''signoffs'' (Arr py_GoNoGoSignoffRead),
     req ''conditions'' (Arr py_GoNoGoConditionRead),
     req ''unmet_condition_count'' Num]"

definition py_GoNoGoPerspectiveRead :: ts where
  "py_GoNoGoPerspectiveRead = Exact [
     req ''id'' Num,
     req ''tenant_id'' Num,
     req ''name'' Str,
     req ''description'' (nullable Str),
     req ''sort_order'' Num,
     req ''is_active'' Bool]"

definition py_ReleaseSummary :: ts where
  "py_ReleaseSummary = Exact [
     req ''id'' Num,
     req ''name'' Str,
     req ''target_date'' (nullable Str),
     req ''status'' Str]"

definition py_ReleaseChangeRow :: ts where
  "py_ReleaseChangeRow = Exact [
     req ''id'' Num,
     req ''title'' Str,
     req ''epic_id'' (nullable Num)]"

definition py_TransitionOption :: ts where
  "py_TransitionOption = Exact [
     req ''to_state'' Str,
     req ''label'' Str]"

definition py_StatusHistoryRow :: ts where
  "py_StatusHistoryRow = Exact [
     req ''from_state'' (nullable Str),
     req ''to_state'' Str,
     req ''changed_by'' (nullable Num),
     req ''changed_at'' Str]"

definition py_IncidentPirCitation :: ts where
  "py_IncidentPirCitation = Exact [
     req ''pir_id'' Num,
     req ''release_id'' Num,
     req ''release_name'' Str,
     req ''pir_status'' Str,
     req ''finding_id'' Num,
     req ''finding_title'' Str,
     req ''root_cause'' (nullable Str),
     req ''note'' (nullable Str),
     req ''action_count'' Num,
     req ''open_action_count'' Num]"

definition py_IncidentDetail :: ts where
  "py_IncidentDetail = Exact [
     req ''id'' Num,
     req ''title'' Str,
     req ''description'' (nullable Str),
     req ''severity'' Str,
     req ''status'' Str,
     req ''detected_at'' Str,
     req ''resolved_at'' (nullable Str),
     req ''source'' Str,
     req ''external_ref'' (nullable Str),
     req ''environment_id'' (nullable Num),
     req ''environment_name'' (nullable Str),
     req ''deployment_id'' (nullable Num),
     req ''release_id'' (nullable Num),
     req ''release'' (nullable py_ReleaseSummary),
     req ''fix_release_id'' (nullable Num),
     req ''fix_release'' (nullable py_ReleaseSummary),
     req ''fix_release_changes_by_epic'' (Dict (Arr py_ReleaseChangeRow)),
     req ''system_id'' (nullable Num),
     req ''system_name'' (nullable Str),
     req ''subsystem_id'' (nullable Num),
     req ''subsystem_name'' (nullable Str),
     req ''custom_fields'' (nullable (Dict Any)),
     req ''allowed_transitions'' (Arr py_TransitionOption),
     req ''status_history'' (Arr py_StatusHistoryRow),
     req ''pir_citations'' (Arr py_IncidentPirCitation)]"

definition py_IncidentListRow :: ts where
  "py_IncidentListRow = Exact [
     req ''id'' Num,
     req ''title'' Str,
     req ''severity'' Str,
     req ''status'' Str,
     req ''detected_at'' Str,
     req ''resolved_at'' (nullable Str),
     req ''system_id'' (nullable Num),
     req ''system_name'' (nullable Str),
     req ''environment_id'' (nullable Num),
     req ''environment_name'' (nullable Str),
     req ''release_id'' (nullable Num),
     req ''release_name'' (nullable Str),
     req ''fix_release'' (nullable py_ReleaseSummary),
     req ''pir_status'' Str]"

definition py_EnvironmentSubSystemHostResponse :: ts where
  "py_EnvironmentSubSystemHostResponse = Exact [
     req ''id'' Num,
     req ''environment_subsystem_id'' Num,
     req ''infrastructure_component_id'' Num,
     req ''infrastructure_component'' py_InfrastructureComponentSummary,
     req ''role'' (nullable Str)]"

definition py_EnvironmentSubSystemHostsResponse :: ts where
  "py_EnvironmentSubSystemHostsResponse = Exact [
     req ''hosts'' (Arr py_EnvironmentSubSystemHostResponse)]"

definition py_InfrastructureComponentResponse :: ts where
  "py_InfrastructureComponentResponse = Exact [
     req ''id'' Num,
     req ''tenant_id'' Num,
     req ''name'' Str,
     req ''description'' (nullable Str),
     req ''component_type'' (lits [''server'', ''container_runtime'', ''kubernetes_cluster'', ''managed_database'',
       ''load_balancer'', ''network'', ''cdn'', ''queue'', ''cache'', ''other'']),
     req ''provider'' (nullable Str),
     req ''region'' (nullable Str),
     req ''location'' (nullable Str),
     req ''source'' (lits [''manual'', ''terraform'', ''docker_compose'']),
     req ''external_id'' (nullable Str),
     req ''custom_fields'' (nullable (Dict Any)),
     req ''tags'' (nullable (Dict Any)),
     req ''created_at'' Str,
     req ''updated_at'' Str]"

definition py_DecommissionStepRead :: ts where
  "py_DecommissionStepRead = Exact [
     req ''id'' Num,
     req ''key'' Str,
     req ''label'' Str,
     req ''description'' (nullable Str),
     req ''display_order'' Num,
     req ''is_required'' Bool,
     req ''is_active'' Bool]"

definition py_EnvironmentLifecyclePolicyRead :: ts where
  "py_EnvironmentLifecyclePolicyRead = Exact [
     req ''idle_detection_enabled'' Bool,
     req ''idle_threshold_days'' Num,
     req ''decommission_notice_days'' Num]"

definition py_WorkItem :: ts where
  "py_WorkItem = Exact [
     req ''id'' Num,
     req ''title'' Str,
     req ''subtitle'' (nullable Str),
     req ''url'' Str,
     req ''due'' (nullable Str)]"

definition py_QueueResult :: ts where
  "py_QueueResult = Exact [
     req ''count'' Num,
     req ''items'' (Arr py_WorkItem),
     req ''overdue'' (nullable Num),
     req ''failed'' Bool]"

definition py_MyWorkResponse :: ts where
  "py_MyWorkResponse = Exact [
     req ''as_of'' Str,
     req ''queues'' (Dict py_QueueResult)]"

definition py_PirActionResponse :: ts where
  "py_PirActionResponse = Exact [
     req ''id'' Num,
     req ''finding_id'' Num,
     req ''seq'' Num,
     req ''title'' Str,
     req ''detail'' (nullable Str),
     req ''owner_id'' (nullable Num),
     req ''owner_username'' (nullable Str),
     req ''due_date'' (nullable Str),
     req ''status'' Str,
     req ''closed_at'' (nullable Str),
     req ''closure_note'' (nullable Str),
     req ''is_overdue'' Bool]"

definition py_PirCitationResponse :: ts where
  "py_PirCitationResponse = Exact [
     req ''incident_id'' Num,
     req ''incident_title'' Str,
     req ''severity'' Str,
     req ''status'' Str,
     req ''note'' (nullable Str)]"

definition py_PirFindingResponse :: ts where
  "py_PirFindingResponse = Exact [
     req ''id'' Num,
     req ''kind'' Str,
     req ''seq'' Num,
     req ''title'' Str,
     req ''detail'' (nullable Str),
     req ''root_cause'' (nullable Str),
     req ''created_at'' Str,
     req ''actions'' (Arr py_PirActionResponse),
     req ''incidents'' (Arr py_PirCitationResponse)]"

definition py_PIRResponse :: ts where
  "py_PIRResponse = Exact [
     req ''id'' Num,
     req ''release_id'' Num,
     req ''summary'' (nullable Str),
     req ''status'' Str,
     req ''completed_at'' (nullable Str),
     req ''findings'' (Arr py_PirFindingResponse)]"

definition py_PirActionRow :: ts where
  "py_PirActionRow = Exact [
     req ''id'' Num,
     req ''finding_id'' Num,
     req ''finding_title'' Str,
     req ''release_id'' Num,
     req ''release_name'' Str,
     req ''pir_status'' Str,
     req ''title'' Str,
     req ''detail'' (nullable Str),
     req ''owner_id'' (nullable Num),
     req ''owner_username'' (nullable Str),
     req ''due_date'' (nullable Str),
     req ''status'' Str,
     req ''closed_at'' (nullable Str),
     req ''closure_note'' (nullable Str),
     req ''is_overdue'' Bool]"

definition py_ProjectResponse :: ts where
  "py_ProjectResponse = Exact [
     req ''id'' Num,
     req ''tenant_id'' Num,
     req ''name'' Str,
     req ''code'' (nullable Str),
     req ''description'' (nullable Str),
     req ''team_group_id'' (nullable Num),
     req ''team_group_name'' (nullable Str),
     req ''environment_count'' Num,
     req ''is_active'' Bool,
     req ''priority_rank'' (nullable Num),
     req ''created_at'' Str,
     req ''updated_at'' Str]"

definition py_UsageAgreementResponse :: ts where
  "py_UsageAgreementResponse = Exact [
     req ''id'' Num,
     req ''tenant_id'' Num,
     req ''project_id'' Num,
     req ''project_name'' Str,
     req ''environment_id'' Num,
     req ''environment_name'' Str,
     req ''starts_at'' (nullable Str),
     req ''ends_at'' (nullable Str),
     req ''notes'' (nullable Str),
     req ''created_at'' Str]"

definition py_RaidConfigRead :: ts where
  "py_RaidConfigRead = Exact [
     req ''probability_scale'' (Arr (Dict Any)),
     req ''impact_scale'' (Arr (Dict Any)),
     req ''rag_bands'' (Arr (Dict Any))]"

definition py_RaidItemRead :: ts where
  "py_RaidItemRead = Exact [
     req ''id'' Num,
     req ''tenant_id'' Num,
     req ''release_id'' Num,
     req ''item_type'' Str,
     req ''seq'' Num,
     req ''ref_code'' Str,
     req ''title'' Str,
     req ''description'' (nullable Str),
     req ''status'' Str,
     req ''owner_id'' (nullable Num),
     req ''owner_username'' (nullable Str),
     req ''raised_by'' Num,
     req ''raised_at'' Str,
     req ''target_date'' (nullable Str),
     req ''review_date'' (nullable Str),
     req ''closed_at'' (nullable Str),
     req ''probability'' (nullable Num),
     req ''impact'' (nullable Num),
     req ''severity'' (nullable Num),
     req ''rag'' (nullable Str),
     req ''response_strategy'' (nullable Str),
     req ''mitigation_plan'' (nullable Str),
     req ''contingency_plan'' (nullable Str),
     req ''validation_status'' (nullable Str),
     req ''validated_at'' (nullable Str),
     req ''evidence'' (nullable Str),
     req ''resolution_plan'' (nullable Str),
     req ''resolved_at'' (nullable Str),
     req ''escalated'' Bool,
     req ''direction'' (nullable Str),
     req ''counterparty'' (nullable Str),
     req ''due_date'' (nullable Str),
     req ''at_risk'' Bool,
     req ''release_dependency_id'' (nullable Num),
     req ''promoted_from_id'' (nullable Num),
     req ''custom_fields'' (nullable (Dict Any))]"

definition py_RaidLinksRead :: ts where
  "py_RaidLinksRead = Exact [
     req ''scope_change_ids'' (Arr Num),
     req ''relations'' (Arr (Dict Any))]"

definition py_RaidRollupRead :: ts where
  "py_RaidRollupRead = Exact [
     req ''counts_by_type'' (Dict Num),
     req ''counts_by_rag'' (Dict Num),
     req ''open_issues'' Num,
     req ''overdue_reviews'' Num,
     req ''top_risks'' (Arr (Dict Any))]"

definition py_RaidSummaryRead :: ts where
  "py_RaidSummaryRead = Exact [
     req ''counts_by_type'' (Dict Num),
     req ''counts_by_rag'' (Dict Num),
     req ''open_issues'' Num,
     req ''overdue_reviews'' Num,
     req ''heatmap'' (Arr (Arr (Arr Str)))]"

definition py_MembershipSummary :: ts where
  "py_MembershipSummary = Exact [
     req ''pending'' Num,
     req ''accepted'' Num,
     req ''rejected'' Num,
     req ''withdrawn'' Num,
     req ''removed'' Num]"

definition py_ReleaseSystemBrief :: ts where
  "py_ReleaseSystemBrief = Exact [
     req ''id'' Num,
     req ''name'' Str,
     req ''role'' Str]"

definition py_ReleaseListItemRead :: ts where
  "py_ReleaseListItemRead = Exact [
     req ''id'' Num,
     req ''tenant_id'' Num,
     req ''name'' Str,
     req ''description'' (nullable Str),
     req ''release_type'' Str,
     req ''release_kind'' Str,
     req ''owning_project_id'' (nullable Num),
     req ''owning_project_name'' (nullable Str),
     req ''parent_release_id'' (nullable Num),
     req ''template_id'' (nullable Num),
     req ''lifecycle_template_id'' Num,
     req ''status'' Str,
     req ''target_date'' (nullable Str),
     req ''actual_date'' (nullable Str),
     req ''scope_deadline'' (nullable Str),
     req ''operations_group_id'' (nullable Num),
     req ''operations_group_name'' (nullable Str),
     req ''declared_stable_at'' (nullable Str),
     req ''declared_stable_by_username'' (nullable Str),
     req ''handover_confirmed_at'' (nullable Str),
     req ''handover_confirmed_by_username'' (nullable Str),
     req ''scope_creep_count'' Num,
     req ''custom_fields'' (nullable (Dict Any)),
     req ''raised_by'' Num,
     req ''created_at'' Str,
     req ''updated_at'' Str,
     req ''custom_field_permissions'' (nullable (Dict (Dict Any))),
     req ''standard_field_permissions'' (nullable (Dict (Dict Any))),
     req ''membership_summary'' (nullable py_MembershipSummary),
     req ''phase_count'' Num,
     req ''scope_count'' Num,
     req ''blocker_count'' Num,
     req ''overdue_criterion_count'' Num,
     req ''scope_additions_count'' Num,
     req ''scope_removals_count'' Num,
     req ''scope_change_count'' Num,
     req ''window_status'' Str,
     req ''days_to_cutoff'' (nullable Num),
     req ''systems'' (Arr py_ReleaseSystemBrief)]"

definition py_ReleaseRead :: ts where
  "py_ReleaseRead = Exact [
     req ''id'' Num,
     req ''tenant_id'' Num,
     req ''name'' Str,
     req ''description'' (nullable Str),
     req ''release_type'' Str,
     req ''release_kind'' Str,
     req ''owning_project_id'' (nullable Num),
     req ''owning_project_name'' (nullable Str),
     req ''parent_release_id'' (nullable Num),
     req ''template_id'' (nullable Num),
     req ''lifecycle_template_id'' Num,
     req ''status'' Str,
     req ''target_date'' (nullable Str),
     req ''actual_date'' (nullable Str),
     req ''scope_deadline'' (nullable Str),
     req ''operations_group_id'' (nullable Num),
     req ''operations_group_name'' (nullable Str),
     req ''declared_stable_at'' (nullable Str),
     req ''declared_stable_by_username'' (nullable Str),
     req ''handover_confirmed_at'' (nullable Str),
     req ''handover_confirmed_by_username'' (nullable Str),
     req ''scope_creep_count'' Num,
     req ''custom_fields'' (nullable (Dict Any)),
     req ''raised_by'' Num,
     req ''created_at'' Str,
     req ''updated_at'' Str,
     req ''custom_field_permissions'' (nullable (Dict (Dict Any))),
     req ''standard_field_permissions'' (nullable (Dict (Dict Any))),
     req ''membership_summary'' (nullable py_MembershipSummary)]"

definition py_BulkBookCreated :: ts where
  "py_BulkBookCreated = Exact [
     req ''environment_id'' Num,
     req ''booking_id'' Num,
     req ''warnings'' (Arr Num)]"

definition py_BulkBookSkipped :: ts where
  "py_BulkBookSkipped = Exact [
     req ''environment_id'' Num,
     req ''conflicts'' (Arr Num),
     req ''reason'' (nullable Str)]"

definition py_BulkBookResult :: ts where
  "py_BulkBookResult = Exact [
     req ''created'' (Arr py_BulkBookCreated),
     req ''skipped'' (Arr py_BulkBookSkipped)]"

definition py_ReleaseChangeRead :: ts where
  "py_ReleaseChangeRead = Exact [
     req ''id'' Num,
     req ''tenant_id'' Num,
     req ''release_id'' (nullable Num),
     req ''external_key'' (nullable Str),
     req ''title'' Str,
     req ''description'' (nullable Str),
     req ''change_kind'' Str,
     req ''external_status'' (nullable Str),
     req ''system_id'' (nullable Num),
     req ''custom_fields'' (nullable (Dict Any)),
     req ''jira_project_config_id'' (nullable Num),
     req ''epic_id'' (nullable Num),
     req ''source'' Str,
     req ''project_code'' (nullable Str),
     req ''project_name'' (nullable Str),
     req ''move_count'' Num,
     req ''time_in_current_status_seconds'' (nullable Num),
     req ''is_scope_creep'' Bool]"

definition py_ReleaseChangeStatusHistoryRead :: ts where
  "py_ReleaseChangeStatusHistoryRead = Exact [
     req ''id'' Num,
     req ''change_id'' Num,
     req ''from_status'' (nullable Str),
     req ''to_status'' (nullable Str),
     req ''changed_at'' Str,
     req ''changed_by'' (nullable Num),
     req ''notes'' (nullable Str)]"

definition py_ImportError :: ts where
  "py_ImportError = Exact [
     req ''row'' Num,
     req ''field'' Str,
     req ''message'' Str]"

definition py_ScopeImportResult :: ts where
  "py_ScopeImportResult = Exact [
     req ''created'' Num,
     req ''updated'' Num,
     req ''errors'' (Arr py_ImportError)]"

definition py_ReleaseDependencyAlert :: ts where
  "py_ReleaseDependencyAlert = Exact [
     req ''dependency_id'' Num,
     req ''depends_on_release_id'' Num,
     req ''depends_on_name'' Str,
     req ''prior_target_date'' (nullable Str),
     req ''current_target_date'' (nullable Str),
     req ''diff_days'' Num]"

definition py_ReleaseDependencyRead :: ts where
  "py_ReleaseDependencyRead = Exact [
     req ''id'' Num,
     req ''tenant_id'' Num,
     req ''release_id'' Num,
     req ''depends_on_release_id'' Num,
     req ''kind'' Str,
     req ''notes'' (nullable Str),
     req ''last_dependency_target_date'' (nullable Str)]"

definition py_CoverageEnvironment :: ts where
  "py_CoverageEnvironment = Exact [
     req ''environment_id'' Num,
     req ''name'' Str,
     req ''tier_name'' Str,
     req ''status'' Str,
     req ''covered_system_ids'' (Arr Num)]"

definition py_CoverageSystem :: ts where
  "py_CoverageSystem = Exact [
     req ''system_id'' Num,
     req ''system_name'' Str,
     req ''role'' Str]"

definition py_ReleaseEnvironmentCoverageRead :: ts where
  "py_ReleaseEnvironmentCoverageRead = Exact [
     req ''needed_systems'' (Arr py_CoverageSystem),
     req ''environments'' (Arr py_CoverageEnvironment),
     req ''uncovered_system_ids'' (Arr Num)]"

definition py_ReleaseEventRead :: ts where
  "py_ReleaseEventRead = Exact [
     req ''id'' Num,
     req ''tenant_id'' Num,
     req ''release_id'' Num,
     req ''event_type_id'' Num,
     req ''description'' Str,
     req ''occurred_at'' Str,
     req ''recorded_by'' Num]"

definition py_ReleaseEventTypeRead :: ts where
  "py_ReleaseEventTypeRead = Exact [
     req ''id'' Num,
     req ''tenant_id'' Num,
     req ''name'' Str,
     req ''display_color'' (nullable Str),
     req ''is_system'' Bool]"

definition py_GateWaiverRead :: ts where
  "py_GateWaiverRead = Exact [
     req ''id'' Num,
     req ''reason'' Str,
     req ''approved_by_user_id'' Num,
     req ''approved_by_username'' (nullable Str),
     req ''expires_at'' (nullable Str),
     req ''remediation'' (nullable Str),
     req ''created_at'' Str,
     req ''state'' (lits [''live'', ''expired''])]"

definition py_ReleaseGateRead :: ts where
  "py_ReleaseGateRead = Exact [
     req ''id'' Num,
     req ''tenant_id'' Num,
     req ''release_id'' Num,
     req ''name'' Str,
     req ''due_date'' Str,
     req ''status'' Str,
     req ''decided_by'' (nullable Num),
     req ''decided_at'' (nullable Str),
     req ''decision_notes'' (nullable Str),
     req ''gate_type_id'' (nullable Num),
     req ''test_phase_id'' (nullable Num),
     req ''criteria'' (Arr py_GateCriterionRead),
     req ''overdue_criterion_count'' Num,
     req ''waiver'' (nullable py_GateWaiverRead)]"

definition py_ReleaseSystemRead :: ts where
  "py_ReleaseSystemRead = Exact [
     req ''id'' Num,
     req ''tenant_id'' Num,
     req ''release_id'' Num,
     req ''system_id'' Num,
     req ''system_name'' (nullable Str),
     req ''role'' Str,
     req ''deployment_date'' (nullable Str)]"

definition py_ReleaseTemplateRead :: ts where
  "py_ReleaseTemplateRead = Exact [
     req ''id'' Num,
     req ''tenant_id'' Num,
     req ''name'' Str,
     req ''description'' (nullable Str),
     req ''release_type'' Str,
     req ''default_lifecycle_template_id'' (nullable Num),
     req ''phases'' (Arr Any),
     req ''gates'' (Arr Any),
     req ''version'' Num,
     req ''created_at'' Str,
     req ''updated_at'' Str]"

definition py_RehearsalRead :: ts where
  "py_RehearsalRead = Exact [
     req ''id'' Num,
     req ''system_id'' Num,
     req ''rehearsed_at'' Str,
     req ''rehearsed_by_user_id'' Num,
     req ''rehearsed_by_username'' (nullable Str),
     req ''outcome'' Str,
     req ''notes'' (nullable Str),
     req ''state'' (lits [''current'', ''stale''])]"

definition py_RollbackAuthorisationRead :: ts where
  "py_RollbackAuthorisationRead = Exact [
     req ''id'' Num,
     req ''release_id'' Num,
     req ''decided_by_user_id'' Num,
     req ''decided_by_username'' (nullable Str),
     req ''decided_at'' Str,
     req ''trigger'' Str,
     req ''rationale'' Str,
     req ''system_ids'' (Arr Num),
     req ''system_names'' (Arr Str)]"

definition py_RollbackPlanRead :: ts where
  "py_RollbackPlanRead = Exact [
     req ''id'' Num,
     req ''release_id'' Num,
     req ''system_id'' Num,
     req ''system_name'' (nullable Str),
     req ''steps'' Str,
     req ''reversibility'' Str,
     req ''estimated_minutes'' (nullable Num),
     req ''notes'' (nullable Str),
     req ''agreed_by_user_id'' (nullable Num),
     req ''agreed_by_username'' (nullable Str),
     req ''agreed_at'' (nullable Str)]"

definition py_RollbackPolicyRead :: ts where
  "py_RollbackPolicyRead = Exact [
     req ''require_rollback_plan'' Bool,
     req ''require_current_rehearsal'' Bool,
     req ''rehearsal_validity_days'' Num]"

definition py_RunbookPlanRead :: ts where
  "py_RunbookPlanRead = Exact [
     req ''id'' Num,
     req ''release_id'' Num,
     req ''environment_id'' Num,
     req ''environment_name'' (nullable Str),
     req ''name'' Str,
     req ''anchor_start_at'' Str,
     req ''deploy_pattern'' (nullable Str),
     req ''notes'' (nullable Str),
     req ''state'' Str]"

definition py_RunbookTaskRead :: ts where
  "py_RunbookTaskRead = Exact [
     req ''id'' Num,
     req ''name'' Str,
     req ''description'' (nullable Str),
     req ''kind'' Str,
     req ''team_group_id'' (nullable Num),
     req ''team_name'' (nullable Str),
     req ''system_id'' (nullable Num),
     req ''system_name'' (nullable Str),
     req ''system_on_release'' Bool,
     req ''duration_minutes'' Num,
     req ''fixed_start_at'' (nullable Str),
     req ''status'' Str,
     req ''actual_started_at'' (nullable Str),
     req ''actual_finished_at'' (nullable Str),
     req ''sort_order'' Num,
     req ''predecessor_ids'' (Arr Num),
     req ''planned_start'' Str,
     req ''planned_finish'' Str,
     req ''forecast_start'' Str,
     req ''forecast_finish'' Str,
     req ''late_start'' Bool,
     req ''overrunning'' Bool,
     req ''slipped_past_fixed_start'' Bool,
     req ''blocked'' Bool,
     req ''critical'' Bool,
     req ''allowed_transitions'' (Arr Str)]"

definition py_RunbookRead :: ts where
  "py_RunbookRead = Exact [
     req ''plan'' py_RunbookPlanRead,
     req ''planned_end'' Str,
     req ''forecast_end'' Str,
     req ''slip_minutes'' Num,
     req ''tasks'' (Arr py_RunbookTaskRead)]"

definition py_RunbookTaskEventRead :: ts where
  "py_RunbookTaskEventRead = Exact [
     req ''id'' Num,
     req ''from_status'' Str,
     req ''to_status'' Str,
     req ''at'' Str,
     req ''recorded_at'' Str,
     req ''by_username'' (nullable Str),
     req ''note'' (nullable Str)]"

definition py_ScheduleBooking :: ts where
  "py_ScheduleBooking = Exact [
     req ''id'' Num,
     req ''environment_id'' Num,
     req ''project_name'' Str,
     req ''start_date'' Str,
     req ''end_date'' Str,
     req ''status'' Str]"

definition py_ScheduleChangeRequest :: ts where
  "py_ScheduleChangeRequest = Exact [
     req ''id'' Num,
     req ''environment_id'' Num,
     req ''environment_ids'' (Arr Num),
     req ''host_ids'' (Arr Num),
     req ''subsystem_id'' (nullable Num),
     req ''title'' Str,
     req ''change_type'' Str,
     req ''status'' Str,
     req ''scheduled_start'' Str,
     req ''scheduled_end'' Str,
     req ''has_outage'' Bool,
     req ''outage_start'' (nullable Str),
     req ''outage_end'' (nullable Str)]"

definition py_EnvironmentScheduleResponse :: ts where
  "py_EnvironmentScheduleResponse = Exact [
     req ''environment_id'' Num,
     req ''start_date'' Str,
     req ''end_date'' Str,
     req ''bookings'' (Arr py_ScheduleBooking),
     req ''change_requests'' (Arr py_ScheduleChangeRequest),
     req ''deployments'' (Arr (Dict Any))]"

definition py_ScopeChangeKindRuleRead :: ts where
  "py_ScopeChangeKindRuleRead = Exact [
     req ''id'' Num,
     req ''change_kind'' Str,
     req ''counts_as_scope_change'' Bool]"

definition py_ChurnCohort :: ts where
  "py_ChurnCohort = Exact [
     req ''count'' Num,
     req ''delayed_count'' Num,
     req ''delayed_pct'' Num,
     req ''issue_count'' Num,
     req ''issue_pct'' Num]"

definition py_ChurnReleaseRow :: ts where
  "py_ChurnReleaseRow = Exact [
     req ''release_id'' Num,
     req ''name'' Str,
     req ''shipped_at'' Str,
     req ''scope_changed'' Bool,
     req ''delayed'' Bool,
     req ''had_issue'' Bool]"

definition py_ScopeChurnAnalyticsRead :: ts where
  "py_ScopeChurnAnalyticsRead = Exact [
     req ''date_from'' (nullable Str),
     req ''date_to'' (nullable Str),
     req ''scope_changed'' py_ChurnCohort,
     req ''stable'' py_ChurnCohort,
     req ''releases'' (Arr py_ChurnReleaseRow)]"

definition py_TestPhaseRead :: ts where
  "py_TestPhaseRead = Exact [
     req ''id'' Num,
     req ''tenant_id'' Num,
     req ''release_id'' Num,
     req ''name'' Str,
     req ''order'' Num,
     req ''start_date'' (nullable Str),
     req ''end_date'' (nullable Str),
     req ''status'' Str,
     req ''kind'' Str]"

definition py_UserGroupMemberResponse :: ts where
  "py_UserGroupMemberResponse = Exact [
     req ''id'' Num,
     req ''user_id'' Num,
     req ''username'' Str,
     req ''group_id'' Num,
     req ''created_at'' Str]"

definition py_UserGroupResponse :: ts where
  "py_UserGroupResponse = Exact [
     req ''id'' Num,
     req ''tenant_id'' Num,
     req ''name'' Str,
     req ''description'' (nullable Str),
     req ''member_count'' Num,
     req ''environment_count'' Num,
     req ''created_at'' Str,
     req ''updated_at'' Str]"

definition py_ImportResult :: ts where
  "py_ImportResult = Exact [
     req ''created'' Num,
     req ''skipped'' Num,
     req ''errors'' (Arr py_ImportError),
     req ''tier_fallbacks'' (Arr py_ImportError)]"

definition py_VersionResponse :: ts where
  "py_VersionResponse = Exact [
     req ''id'' Num,
     req ''environment_id'' Num,
     req ''subsystem_id'' Num,
     req ''subsystem_name'' Str,
     req ''build_identifier'' Str,
     req ''version_label'' Str,
     req ''installed_at'' Str,
     req ''tenant_id'' Num,
     req ''created_at'' Str]"

subsection \<open>Request models\<close>

definition in_TenantCreate :: ts where
  "in_TenantCreate = Obj [
     req ''name'' Str,
     req ''slug'' Str,
     opt ''settings'' (nullable (Dict Any))]"

definition in_TenantUpdate :: ts where
  "in_TenantUpdate = Obj [
     opt ''name'' (nullable Str),
     opt ''slug'' (nullable Str),
     opt ''settings'' (nullable (Dict Any))]"

definition in_UserAdminCreate :: ts where
  "in_UserAdminCreate = Obj [
     req ''username'' Str,
     req ''email'' Str,
     req ''password'' Str,
     opt ''role'' Str,
     opt ''is_master_admin'' Bool]"

definition in_UserAdminUpdate :: ts where
  "in_UserAdminUpdate = Obj [
     opt ''username'' (nullable Str),
     opt ''email'' (nullable Str),
     opt ''is_master_admin'' (nullable Bool)]"

definition in_UserRoleUpdate :: ts where
  "in_UserRoleUpdate = Obj [
     req ''role'' Str]"

definition in_PasswordReset :: ts where
  "in_PasswordReset = Obj [
     req ''new_password'' Str]"

definition in_AgreementGapAckUpsert :: ts where
  "in_AgreementGapAckUpsert = Obj [
     opt ''notes'' (nullable Str)]"

definition in_ApiKeyCreate :: ts where
  "in_ApiKeyCreate = Obj [
     req ''name'' Str,
     opt ''scopes'' (Arr Str),
     opt ''expires_at'' (nullable Str)]"

definition in_UserLogin :: ts where
  "in_UserLogin = Obj [
     req ''username'' Str,
     req ''password'' Str,
     req ''tenant_slug'' Str]"

definition in_LifecycleState :: ts where
  "in_LifecycleState = Obj [
     req ''key'' Str,
     req ''label'' Str,
     opt ''is_initial'' Bool,
     opt ''is_terminal'' Bool,
     opt ''is_admission_lockdown'' Bool,
     opt ''is_failed'' Bool,
     opt ''marks_deployed'' Bool,
     opt ''is_closed'' Bool,
     opt ''requires_pir_complete'' Bool,
     opt ''requires_handover_confirmed'' Bool]"

definition in_LifecycleTransition :: ts where
  "in_LifecycleTransition = Obj [
     req ''from_state'' Str,
     req ''to_state'' Str,
     req ''label'' Str,
     req ''allowed_roles'' (Arr Str)]"

definition in_StandardFieldPermission :: ts where
  "in_StandardFieldPermission = Obj [
     req ''editable_by'' (Arr Str)]"

definition in_CustomFieldPermission :: ts where
  "in_CustomFieldPermission = Obj [
     req ''editable_by'' (Arr Str)]"

definition in_LifecycleFieldPermission :: ts where
  "in_LifecycleFieldPermission = Obj [
     opt ''standard_fields'' (Dict in_StandardFieldPermission),
     opt ''custom_fields'' (nullable (Dict in_CustomFieldPermission))]"

definition in_LifecycleDefinition :: ts where
  "in_LifecycleDefinition = Obj [
     req ''states'' (Arr in_LifecycleState),
     req ''transitions'' (Arr in_LifecycleTransition),
     req ''field_permissions'' (Dict in_LifecycleFieldPermission),
     opt ''action_permissions'' (nullable (Dict (Dict (Arr Str))))]"

definition in_LifecycleTemplateUpdate :: ts where
  "in_LifecycleTemplateUpdate = Obj [
     opt ''name'' (nullable Str),
     opt ''description'' (nullable Str),
     opt ''is_default'' (nullable Bool),
     opt ''applies_to_kind'' (nullable Str),
     opt ''definition'' (nullable in_LifecycleDefinition)]"

definition in_LifecycleTemplateCopy :: ts where
  "in_LifecycleTemplateCopy = Obj [
     req ''name'' Str]"

definition in_BookingTypeCreate :: ts where
  "in_BookingTypeCreate = Obj [
     req ''name'' Str,
     opt ''description'' (nullable Str),
     req ''lifecycle_template_id'' Num,
     opt ''color'' (nullable Str),
     opt ''is_active'' Bool,
     opt ''default_protection_level'' (lits [''soft'', ''hard'']),
     opt ''default_duration_minutes'' (nullable Num)]"

definition in_BookingTypeUpdate :: ts where
  "in_BookingTypeUpdate = Obj [
     opt ''name'' (nullable Str),
     opt ''description'' (nullable Str),
     opt ''lifecycle_template_id'' (nullable Num),
     opt ''color'' (nullable Str),
     opt ''is_active'' (nullable Bool),
     opt ''default_protection_level'' (nullable (lits [''soft'', ''hard''])),
     opt ''default_duration_minutes'' (nullable Num)]"

definition in_BookingRequestCreate :: ts where
  "in_BookingRequestCreate = Obj [
     req ''project_name'' Str,
     opt ''project_id'' (nullable Num),
     req ''booking_type_id'' Num,
     req ''start_date'' Str,
     req ''end_date'' Str,
     opt ''environment_ids'' (Arr Num),
     opt ''environment_group_ids'' (Arr Num),
     opt ''notes'' (nullable Str),
     opt ''context_tag'' Str,
     opt ''exclusive_use_requested'' Bool,
     opt ''protection_level'' (nullable (lits [''soft'', ''hard''])),
     opt ''custom_fields'' (nullable (Dict Any)),
     opt ''delegate_user_ids'' (nullable (Arr Num))]"

definition in_PreviewConflictsRequest :: ts where
  "in_PreviewConflictsRequest = Obj [
     req ''environment_ids'' (Arr Num),
     req ''start_date'' Str,
     req ''end_date'' Str]"

definition in_BookingRequestCustomFieldsUpdate :: ts where
  "in_BookingRequestCustomFieldsUpdate = Obj [
     req ''values'' (Dict Any)]"

definition in_AddEnvironmentRequest :: ts where
  "in_AddEnvironmentRequest = Obj [
     req ''environment_id'' Num,
     opt ''start_date'' (nullable Str),
     opt ''end_date'' (nullable Str)]"

definition in_BookingCreate :: ts where
  "in_BookingCreate = Obj [
     req ''environment_id'' Num,
     req ''project_name'' Str,
     req ''start_date'' Str,
     req ''end_date'' Str,
     req ''booking_type_id'' Num,
     opt ''exclusive_use'' Bool,
     opt ''protection_level'' (nullable (lits [''soft'', ''hard''])),
     opt ''notes'' (nullable Str),
     opt ''recurrence_rule'' (nullable Str),
     opt ''release_id'' (nullable Num),
     opt ''test_phase_id'' (nullable Num),
     opt ''context_tag'' (nullable (lits [''deployment'', ''regression'', ''none''])),
     opt ''custom_fields'' (nullable (Dict Any))]"

definition in_BookingTransitionRequest :: ts where
  "in_BookingTransitionRequest = Obj [
     req ''to_state'' Str,
     opt ''notes'' (nullable Str)]"

definition in_ConflictAckUpsert :: ts where
  "in_ConflictAckUpsert = Obj [
     req ''willing_to_share'' Bool,
     opt ''notes'' (nullable Str)]"

definition in_ChangeRequestCreate :: ts where
  "in_ChangeRequestCreate = Obj [
     req ''title'' Str,
     opt ''description'' (nullable Str),
     req ''change_type'' Str,
     req ''lifecycle_id'' Num,
     opt ''subsystem_id'' (nullable Num),
     opt ''environment_ids'' (Arr Num),
     opt ''host_ids'' (Arr Num),
     opt ''release_id'' (nullable Num),
     opt ''has_outage'' Bool,
     opt ''outage_start'' (nullable Str),
     opt ''outage_end'' (nullable Str),
     req ''scheduled_start'' Str,
     req ''scheduled_end'' Str,
     opt ''custom_fields'' (nullable (Dict Any))]"

definition in_ChangeRequestUpdate :: ts where
  "in_ChangeRequestUpdate = Obj [
     opt ''title'' (nullable Str),
     opt ''description'' (nullable Str),
     opt ''change_type'' (nullable Str),
     opt ''subsystem_id'' (nullable Num),
     opt ''environment_ids'' (nullable (Arr Num)),
     opt ''host_ids'' (nullable (Arr Num)),
     opt ''release_id'' (nullable Num),
     opt ''has_outage'' (nullable Bool),
     opt ''outage_start'' (nullable Str),
     opt ''outage_end'' (nullable Str),
     opt ''scheduled_start'' (nullable Str),
     opt ''scheduled_end'' (nullable Str),
     opt ''custom_fields'' (nullable (Dict Any))]"

definition in_ChangeRequestTransition :: ts where
  "in_ChangeRequestTransition = Obj [
     req ''to_state'' Str,
     opt ''notes'' (nullable Str)]"

definition in_PreviewOutageConflictsRequest :: ts where
  "in_PreviewOutageConflictsRequest = Obj [
     opt ''environment_ids'' (Arr Num),
     opt ''host_ids'' (Arr Num),
     req ''outage_start'' Str,
     req ''outage_end'' Str,
     opt ''exclude_change_request_id'' (nullable Num)]"

definition in_AuditNote :: ts where
  "in_AuditNote = Obj [
     opt ''note'' (nullable Str)]"

definition in_FieldDefinitionSchema :: ts where
  "in_FieldDefinitionSchema = Obj [
     req ''field_key'' Str,
     req ''label'' Str,
     req ''field_type'' Str,
     opt ''required'' Bool,
     opt ''display_order'' Num]"

definition in_ComponentTypeDefinitionCreate :: ts where
  "in_ComponentTypeDefinitionCreate = Obj [
     req ''name'' Str,
     opt ''description'' (nullable Str),
     opt ''category'' (nullable Str),
     opt ''icon'' (nullable Str),
     opt ''field_definitions'' (nullable (Arr in_FieldDefinitionSchema))]"

definition in_ComponentTypeDefinitionUpdate :: ts where
  "in_ComponentTypeDefinitionUpdate = Obj [
     opt ''name'' (nullable Str),
     opt ''description'' (nullable Str),
     opt ''category'' (nullable Str),
     opt ''icon'' (nullable Str),
     opt ''field_definitions'' (nullable (Arr in_FieldDefinitionSchema))]"

definition in_EscalationCreate :: ts where
  "in_EscalationCreate = Obj [
     req ''owner_user_id'' Num,
     req ''respond_by'' Str]"

definition in_EscalationDecision :: ts where
  "in_EscalationDecision = Obj [
     req ''yields_booking_id'' Num,
     opt ''notes'' (nullable Str)]"

definition in_CustomFieldDefinitionCreate :: ts where
  "in_CustomFieldDefinitionCreate = Obj [
     req ''entity_type'' Str,
     opt ''entity_subtype'' (nullable Str),
     opt ''field_key'' (nullable Str),
     req ''label'' Str,
     req ''field_type'' Str,
     opt ''required'' Bool,
     opt ''display_order'' Num]"

definition in_CustomFieldDefinitionUpdate :: ts where
  "in_CustomFieldDefinitionUpdate = Obj [
     opt ''label'' (nullable Str),
     opt ''entity_subtype'' (nullable Str),
     opt ''required'' (nullable Bool),
     opt ''display_order'' (nullable Num)]"

definition in_DecommissionCreate :: ts where
  "in_DecommissionCreate = Obj [
     req ''reason'' Str,
     opt ''scheduled_teardown_at'' (nullable Str)]"

definition in_ExtensionRequest :: ts where
  "in_ExtensionRequest = Obj [
     req ''reason'' Str,
     req ''until'' Str]"

definition in_ExtensionDecision :: ts where
  "in_ExtensionDecision = Obj [
     req ''granted'' Bool]"

definition in_AttestationCreate :: ts where
  "in_AttestationCreate = Obj [
     req ''step_key'' Str,
     opt ''reference'' (nullable Str),
     opt ''notes'' (nullable Str)]"

definition in_CancelRequest :: ts where
  "in_CancelRequest = Obj [
     req ''reason'' Str]"

definition in_DecommissionStepWrite :: ts where
  "in_DecommissionStepWrite = Obj [
     req ''key'' Str,
     req ''label'' Str,
     opt ''description'' (nullable Str),
     opt ''display_order'' Num,
     opt ''is_required'' Bool,
     opt ''is_active'' Bool]"

definition in_SystemDependencyCreate :: ts where
  "in_SystemDependencyCreate = Obj [
     req ''to_system_id'' Num,
     req ''dependency_type'' (lits [''api_call'', ''database'', ''message_queue'', ''event'', ''file'', ''other'']),
     opt ''direction'' (lits [''one_way'', ''two_way'']),
     opt ''source'' (lits [''manual'', ''terraform'', ''docker_compose'']),
     opt ''label'' (nullable Str)]"

definition in_SystemDependencyUpdate :: ts where
  "in_SystemDependencyUpdate = Obj [
     opt ''dependency_type'' (nullable (lits [''api_call'', ''database'', ''message_queue'', ''event'', ''file'',
       ''other''])),
     opt ''source'' (nullable (lits [''manual'', ''terraform'', ''docker_compose''])),
     opt ''direction'' (nullable (lits [''one_way'', ''two_way''])),
     opt ''label'' (nullable Str)]"

definition in_ComponentDependencyCreate :: ts where
  "in_ComponentDependencyCreate = Obj [
     req ''to_subsystem_id'' Num,
     req ''dependency_type'' (lits [''api_call'', ''database'', ''message_queue'', ''event'', ''file'', ''other'']),
     opt ''direction'' (lits [''one_way'', ''two_way'']),
     opt ''protocol'' (nullable Str),
     opt ''port'' (nullable Num),
     opt ''source'' (lits [''manual'', ''terraform'', ''docker_compose'']),
     opt ''label'' (nullable Str)]"

definition in_ComponentDependencyUpdate :: ts where
  "in_ComponentDependencyUpdate = Obj [
     opt ''dependency_type'' (nullable (lits [''api_call'', ''database'', ''message_queue'', ''event'', ''file'',
       ''other''])),
     opt ''protocol'' (nullable Str),
     opt ''port'' (nullable Num),
     opt ''source'' (nullable (lits [''manual'', ''terraform'', ''docker_compose''])),
     opt ''direction'' (nullable (lits [''one_way'', ''two_way''])),
     opt ''label'' (nullable Str)]"

definition in_ComponentEndpointCreate :: ts where
  "in_ComponentEndpointCreate = Obj [
     opt ''http_method'' (nullable (lits [''get'', ''post'', ''put'', ''patch'', ''delete'', ''head'',
       ''options''])),
     req ''path'' Str,
     opt ''description'' (nullable Str)]"

definition in_ComponentEndpointUpdate :: ts where
  "in_ComponentEndpointUpdate = Obj [
     opt ''http_method'' (nullable (lits [''get'', ''post'', ''put'', ''patch'', ''delete'', ''head'',
       ''options''])),
     opt ''path'' (nullable Str),
     opt ''description'' (nullable Str)]"

definition in_DeploymentLinkChangeRequest :: ts where
  "in_DeploymentLinkChangeRequest = Obj [
     req ''change_request_id'' Num]"

definition in_ReleaseMembershipCreate :: ts where
  "in_ReleaseMembershipCreate = Obj [
     req ''project_release_id'' Num,
     opt ''notes'' (nullable Str)]"

definition in_MembershipRejectRequest :: ts where
  "in_MembershipRejectRequest = Obj [
     req ''notes'' Str]"

definition in_MembershipRemoveRequest :: ts where
  "in_MembershipRemoveRequest = Obj [
     req ''reason'' Str]"

definition in_EnvironmentGroupCreate :: ts where
  "in_EnvironmentGroupCreate = Obj [
     req ''name'' Str,
     opt ''description'' (nullable Str),
     opt ''is_active'' Bool]"

definition in_EnvironmentGroupUpdate :: ts where
  "in_EnvironmentGroupUpdate = Obj [
     opt ''name'' (nullable Str),
     opt ''description'' (nullable Str),
     opt ''is_active'' (nullable Bool)]"

definition in_MemberCreate :: ts where
  "in_MemberCreate = Obj [
     req ''environment_id'' Num]"

definition in_EnvironmentLifecyclePolicyUpdate :: ts where
  "in_EnvironmentLifecyclePolicyUpdate = Obj [
     req ''idle_detection_enabled'' Bool,
     req ''idle_threshold_days'' Num,
     req ''decommission_notice_days'' Num]"

definition in_EnvironmentNamingPolicyUpdate :: ts where
  "in_EnvironmentNamingPolicyUpdate = Obj [
     req ''is_enabled'' Bool,
     opt ''name_pattern'' (nullable Str),
     opt ''name_pattern_example'' (nullable Str),
     opt ''required_attributes'' (Arr Str),
     opt ''grace_days'' Num]"

definition in_EnvironmentNamingPolicyPreviewRequest :: ts where
  "in_EnvironmentNamingPolicyPreviewRequest = Obj [
     opt ''name_pattern'' (nullable Str),
     opt ''required_attributes'' (nullable (Arr Str))]"

definition in_OperatingHoursDay :: ts where
  "in_OperatingHoursDay = Obj [
     opt ''closed'' Bool,
     opt ''open'' (nullable Str),
     opt ''close'' (nullable Str)]"

definition in_OperatingHoursConfigIn :: ts where
  "in_OperatingHoursConfigIn = Obj [
     req ''timezone'' Str,
     req ''week'' (Arr in_OperatingHoursDay)]"

definition in_EnvironmentRequestCreate :: ts where
  "in_EnvironmentRequestCreate = Obj [
     req ''kind'' Str,
     req ''justification'' Str,
     opt ''needed_by'' (nullable Str),
     opt ''environment_id'' (nullable Num),
     opt ''proposed_name'' (nullable Str),
     opt ''tier_id'' (nullable Num),
     opt ''expires_at'' (nullable Str)]"

definition in_EnvironmentRequestUpdate :: ts where
  "in_EnvironmentRequestUpdate = Obj [
     opt ''justification'' (nullable Str),
     opt ''needed_by'' (nullable Str),
     opt ''environment_id'' (nullable Num),
     opt ''proposed_name'' (nullable Str),
     opt ''tier_id'' (nullable Num),
     opt ''expires_at'' (nullable Str),
     opt ''operations_group_id'' (nullable Num)]"

definition in_EnvironmentRequestTransition :: ts where
  "in_EnvironmentRequestTransition = Obj [
     req ''to_state'' Str]"

definition in_EnvironmentHandoverUpdate :: ts where
  "in_EnvironmentHandoverUpdate = Obj [
     opt ''access_url'' (nullable Str),
     opt ''connection_notes'' (nullable Str),
     opt ''support_contact'' (nullable Str),
     opt ''sla_notes'' (nullable Str),
     opt ''known_limitations'' (nullable Str),
     opt ''decommission_notes'' (nullable Str)]"

definition in_EnvironmentCreate :: ts where
  "in_EnvironmentCreate = Obj [
     req ''name'' Str,
     opt ''description'' (nullable Str),
     req ''tier_id'' Num,
     req ''owner_user_id'' Num,
     opt ''operations_group_id'' (nullable Num),
     req ''expires_at'' Str,
     opt ''status'' (lits [''active'', ''inactive'', ''maintenance'', ''decommissioned'']),
     opt ''custom_fields'' (nullable (Dict Any))]"

definition in_EnvironmentUpdate :: ts where
  "in_EnvironmentUpdate = Obj [
     opt ''name'' (nullable Str),
     opt ''description'' (nullable Str),
     opt ''tier_id'' (nullable Num),
     opt ''owner_user_id'' (nullable Num),
     opt ''operations_group_id'' (nullable Num),
     opt ''expires_at'' (nullable Str),
     opt ''status'' (nullable (lits [''active'', ''inactive'', ''maintenance'', ''decommissioned''])),
     opt ''custom_fields'' (nullable (Dict Any))]"

definition in_EnvironmentSystemCreate :: ts where
  "in_EnvironmentSystemCreate = Obj [
     req ''system_id'' Num]"

definition in_EnvironmentSystemUpdate :: ts where
  "in_EnvironmentSystemUpdate = Obj []"

definition in_EnvironmentSubsystemUpdate :: ts where
  "in_EnvironmentSubsystemUpdate = Obj [
     opt ''is_mocked'' (nullable Bool),
     opt ''mock_notes'' (nullable Str),
     opt ''component_type_definition_id'' (nullable Num),
     opt ''custom_fields'' (nullable (Dict Any))]"

definition in_EnvironmentTierCreate :: ts where
  "in_EnvironmentTierCreate = Obj [
     req ''name'' Str,
     opt ''description'' (nullable Str),
     opt ''color'' (nullable Str),
     opt ''display_order'' Num,
     opt ''is_active'' Bool,
     opt ''idle_threshold_days'' (nullable Num)]"

definition in_EnvironmentTierUpdate :: ts where
  "in_EnvironmentTierUpdate = Obj [
     opt ''name'' (nullable Str),
     opt ''description'' (nullable Str),
     opt ''color'' (nullable Str),
     opt ''display_order'' (nullable Num),
     opt ''is_active'' (nullable Bool),
     opt ''idle_threshold_days'' (nullable Num)]"

definition in_GateTypeCreate :: ts where
  "in_GateTypeCreate = Obj [
     req ''name'' Str,
     opt ''description'' (nullable Str),
     opt ''category'' (nullable Str),
     opt ''failure_behaviour'' (lits [''block'', ''warn'', ''accept_with_exception'']),
     opt ''expected_evidence'' (Arr Str),
     opt ''requires_deployment_link'' Bool,
     opt ''display_order'' Num,
     opt ''is_active'' Bool]"

definition in_GateTypeUpdate :: ts where
  "in_GateTypeUpdate = Obj [
     opt ''name'' (nullable Str),
     opt ''description'' (nullable Str),
     opt ''category'' (nullable Str),
     opt ''failure_behaviour'' (nullable (lits [''block'', ''warn'', ''accept_with_exception''])),
     opt ''expected_evidence'' (nullable (Arr Str)),
     opt ''requires_deployment_link'' (nullable Bool),
     opt ''display_order'' (nullable Num),
     opt ''is_active'' (nullable Bool)]"

definition in_GoNoGoSignoffCreate :: ts where
  "in_GoNoGoSignoffCreate = Obj [
     req ''perspective_id'' Num,
     req ''user_id'' Num,
     req ''verdict'' Str,
     opt ''dissent_note'' (nullable Str)]"

definition in_GoNoGoConditionCreate :: ts where
  "in_GoNoGoConditionCreate = Obj [
     req ''text'' Str,
     opt ''owner_user_id'' (nullable Num),
     opt ''due_date'' (nullable Str)]"

definition in_GoNoGoDecisionCreate :: ts where
  "in_GoNoGoDecisionCreate = Obj [
     req ''outcome'' Str,
     req ''rationale'' Str,
     req ''decided_at'' Str,
     opt ''attendees'' (Arr Num),
     opt ''signoffs'' (Arr in_GoNoGoSignoffCreate),
     opt ''conditions'' (Arr in_GoNoGoConditionCreate)]"

definition in_GoNoGoConditionClose :: ts where
  "in_GoNoGoConditionClose = Obj [
     req ''met'' Bool]"

definition in_GoNoGoPerspectiveCreate :: ts where
  "in_GoNoGoPerspectiveCreate = Obj [
     req ''name'' Str,
     opt ''description'' (nullable Str),
     opt ''sort_order'' Num,
     opt ''is_active'' Bool]"

definition in_GoNoGoPerspectiveUpdate :: ts where
  "in_GoNoGoPerspectiveUpdate = Obj [
     opt ''name'' (nullable Str),
     opt ''description'' (nullable Str),
     opt ''sort_order'' (nullable Num),
     opt ''is_active'' (nullable Bool)]"

definition in_IncidentCreate :: ts where
  "in_IncidentCreate = Obj [
     req ''title'' Str,
     opt ''description'' (nullable Str),
     req ''severity'' Str,
     opt ''detected_at'' (nullable Str),
     opt ''environment_id'' (nullable Num),
     opt ''deployment_id'' (nullable Num),
     opt ''release_id'' (nullable Num),
     opt ''fix_release_id'' (nullable Num),
     opt ''system_id'' (nullable Num),
     opt ''subsystem_id'' (nullable Num),
     opt ''source'' Str,
     opt ''external_ref'' (nullable Str),
     opt ''lifecycle_template_id'' (nullable Num),
     opt ''custom_fields'' (nullable (Dict Any))]"

definition in_IncidentUpdate :: ts where
  "in_IncidentUpdate = Obj [
     opt ''title'' (nullable Str),
     opt ''description'' (nullable Str),
     opt ''severity'' (nullable Str),
     opt ''detected_at'' (nullable Str),
     opt ''environment_id'' (nullable Num),
     opt ''deployment_id'' (nullable Num),
     opt ''release_id'' (nullable Num),
     opt ''fix_release_id'' (nullable Num),
     opt ''system_id'' (nullable Num),
     opt ''subsystem_id'' (nullable Num),
     opt ''external_ref'' (nullable Str),
     opt ''custom_fields'' (nullable (Dict Any))]"

definition in_IncidentTransition :: ts where
  "in_IncidentTransition = Obj [
     req ''to_state'' Str]"

definition in_PirActionCreate :: ts where
  "in_PirActionCreate = Obj [
     req ''title'' Str,
     opt ''detail'' (nullable Str),
     opt ''owner_id'' (nullable Num),
     opt ''due_date'' (nullable Str),
     opt ''status'' Str,
     opt ''closure_note'' (nullable Str)]"

definition in_IncidentPirNewFinding :: ts where
  "in_IncidentPirNewFinding = Obj [
     req ''title'' Str,
     opt ''detail'' (nullable Str),
     opt ''root_cause'' (nullable Str),
     opt ''actions'' (Arr in_PirActionCreate)]"

definition in_IncidentPirCitationRequest :: ts where
  "in_IncidentPirCitationRequest = Obj [
     req ''release_id'' Num,
     opt ''finding_id'' (nullable Num),
     opt ''new_finding'' (nullable in_IncidentPirNewFinding),
     opt ''note'' (nullable Str)]"

definition in_InfrastructureComponentCreate :: ts where
  "in_InfrastructureComponentCreate = Obj [
     req ''name'' Str,
     opt ''description'' (nullable Str),
     opt ''component_type'' (lits [''server'', ''container_runtime'', ''kubernetes_cluster'', ''managed_database'',
       ''load_balancer'', ''network'', ''cdn'', ''queue'', ''cache'', ''other'']),
     opt ''provider'' (nullable Str),
     opt ''region'' (nullable Str),
     opt ''location'' (nullable Str),
     opt ''source'' (lits [''manual'', ''terraform'', ''docker_compose'']),
     opt ''external_id'' (nullable Str),
     opt ''custom_fields'' (nullable (Dict Any)),
     opt ''tags'' (nullable (Dict Any))]"

definition in_InfrastructureComponentUpdate :: ts where
  "in_InfrastructureComponentUpdate = Obj [
     opt ''name'' (nullable Str),
     opt ''description'' (nullable Str),
     opt ''component_type'' (nullable (lits [''server'', ''container_runtime'', ''kubernetes_cluster'',
       ''managed_database'', ''load_balancer'', ''network'', ''cdn'', ''queue'', ''cache'', ''other''])),
     opt ''provider'' (nullable Str),
     opt ''region'' (nullable Str),
     opt ''location'' (nullable Str),
     opt ''source'' (nullable (lits [''manual'', ''terraform'', ''docker_compose''])),
     opt ''external_id'' (nullable Str),
     opt ''custom_fields'' (nullable (Dict Any)),
     opt ''tags'' (nullable (Dict Any))]"

definition in_HostAttachment :: ts where
  "in_HostAttachment = Obj [
     req ''infrastructure_component_id'' Num,
     opt ''role'' (nullable Str)]"

definition in_PIRCreate :: ts where
  "in_PIRCreate = Obj [
     opt ''summary'' (nullable Str),
     opt ''status'' (nullable Str)]"

definition in_PIRUpdate :: ts where
  "in_PIRUpdate = Obj [
     opt ''summary'' (nullable Str),
     opt ''status'' (nullable Str)]"

definition in_PirFindingUpdate :: ts where
  "in_PirFindingUpdate = Obj [
     opt ''kind'' (nullable Str),
     opt ''title'' (nullable Str),
     opt ''detail'' (nullable Str),
     opt ''root_cause'' (nullable Str)]"

definition in_PirActionUpdate :: ts where
  "in_PirActionUpdate = Obj [
     opt ''title'' (nullable Str),
     opt ''detail'' (nullable Str),
     opt ''owner_id'' (nullable Num),
     opt ''due_date'' (nullable Str),
     opt ''status'' (nullable Str),
     opt ''closure_note'' (nullable Str)]"

definition in_PirCitationCreate :: ts where
  "in_PirCitationCreate = Obj [
     req ''incident_id'' Num,
     opt ''note'' (nullable Str)]"

definition in_ProjectCreate :: ts where
  "in_ProjectCreate = Obj [
     req ''name'' Str,
     opt ''code'' (nullable Str),
     opt ''description'' (nullable Str),
     opt ''team_group_id'' (nullable Num),
     opt ''is_active'' Bool,
     opt ''priority_rank'' (nullable Num)]"

definition in_ProjectUpdate :: ts where
  "in_ProjectUpdate = Obj [
     opt ''name'' (nullable Str),
     opt ''code'' (nullable Str),
     opt ''description'' (nullable Str),
     opt ''team_group_id'' (nullable Num),
     opt ''is_active'' (nullable Bool),
     opt ''priority_rank'' (nullable Num)]"

definition in_UsageAgreementCreate :: ts where
  "in_UsageAgreementCreate = Obj [
     req ''environment_id'' Num,
     opt ''starts_at'' (nullable Str),
     opt ''ends_at'' (nullable Str),
     opt ''notes'' (nullable Str)]"

definition in_RaidItemCreate :: ts where
  "in_RaidItemCreate = Obj [
     req ''item_type'' (lits [''risk'', ''assumption'', ''issue'', ''dependency'']),
     req ''title'' Str,
     opt ''description'' (nullable Str),
     opt ''owner_id'' (nullable Num),
     opt ''target_date'' (nullable Str),
     opt ''review_date'' (nullable Str),
     opt ''probability'' (nullable Num),
     opt ''impact'' (nullable Num),
     opt ''response_strategy'' (nullable Str),
     opt ''mitigation_plan'' (nullable Str),
     opt ''contingency_plan'' (nullable Str),
     opt ''evidence'' (nullable Str),
     opt ''resolution_plan'' (nullable Str),
     opt ''direction'' (nullable Str),
     opt ''counterparty'' (nullable Str),
     opt ''due_date'' (nullable Str),
     opt ''release_dependency_id'' (nullable Num),
     opt ''custom_fields'' (nullable (Dict Any))]"

definition in_RaidItemUpdate :: ts where
  "in_RaidItemUpdate = Obj [
     opt ''title'' (nullable Str),
     opt ''description'' (nullable Str),
     opt ''status'' (nullable Str),
     opt ''owner_id'' (nullable Num),
     opt ''target_date'' (nullable Str),
     opt ''review_date'' (nullable Str),
     opt ''probability'' (nullable Num),
     opt ''impact'' (nullable Num),
     opt ''response_strategy'' (nullable Str),
     opt ''mitigation_plan'' (nullable Str),
     opt ''contingency_plan'' (nullable Str),
     opt ''validation_status'' (nullable Str),
     opt ''evidence'' (nullable Str),
     opt ''resolution_plan'' (nullable Str),
     opt ''escalated'' (nullable Bool),
     opt ''direction'' (nullable Str),
     opt ''counterparty'' (nullable Str),
     opt ''due_date'' (nullable Str),
     opt ''at_risk'' (nullable Bool),
     opt ''custom_fields'' (nullable (Dict Any))]"

definition in_RaidPromotePayload :: ts where
  "in_RaidPromotePayload = Obj [
     req ''target_type'' (lits [''risk'', ''issue''])]"

definition in_RaidScopeLinkPayload :: ts where
  "in_RaidScopeLinkPayload = Obj [
     req ''release_change_id'' Num]"

definition in_RaidRelationPayload :: ts where
  "in_RaidRelationPayload = Obj [
     req ''to_item_id'' Num,
     req ''relation'' (lits [''relates_to'', ''caused_by'', ''duplicates'', ''blocks''])]"

definition in_RaidConfigUpdate :: ts where
  "in_RaidConfigUpdate = Obj [
     opt ''probability_scale'' (nullable (Arr (Dict Any))),
     opt ''impact_scale'' (nullable (Arr (Dict Any))),
     opt ''rag_bands'' (nullable (Arr (Dict Any)))]"

definition in_ReleaseEventTypeCreate :: ts where
  "in_ReleaseEventTypeCreate = Obj [
     req ''name'' Str,
     opt ''display_color'' (nullable Str)]"

definition in_ReleaseEventTypeUpdate :: ts where
  "in_ReleaseEventTypeUpdate = Obj [
     opt ''name'' (nullable Str),
     opt ''display_color'' (nullable Str)]"

definition in_ReleaseCreate :: ts where
  "in_ReleaseCreate = Obj [
     req ''name'' Str,
     opt ''description'' (nullable Str),
     req ''release_type'' Str,
     opt ''release_kind'' Str,
     opt ''owning_project_id'' (nullable Num),
     opt ''operations_group_id'' (nullable Num),
     opt ''template_id'' (nullable Num),
     opt ''lifecycle_template_id'' (nullable Num),
     opt ''target_date'' (nullable Str),
     opt ''scope_deadline'' (nullable Str),
     opt ''custom_fields'' (nullable (Dict Any))]"

definition in_ReleaseUpdate :: ts where
  "in_ReleaseUpdate = Obj [
     opt ''name'' (nullable Str),
     opt ''description'' (nullable Str),
     opt ''release_type'' (nullable Str),
     opt ''owning_project_id'' (nullable Num),
     opt ''operations_group_id'' (nullable Num),
     opt ''target_date'' (nullable Str),
     opt ''scope_deadline'' (nullable Str),
     opt ''actual_date'' (nullable Str),
     opt ''custom_fields'' (nullable (Dict Any))]"

definition in_ReleaseTransition :: ts where
  "in_ReleaseTransition = Obj [
     req ''to_state'' Str,
     opt ''notes'' (nullable Str)]"

definition in_TestPhaseCreate :: ts where
  "in_TestPhaseCreate = Obj [
     req ''name'' Str,
     opt ''order'' Num,
     opt ''start_date'' (nullable Str),
     opt ''end_date'' (nullable Str),
     opt ''status'' Str,
     opt ''kind'' (lits [''test'', ''hypercare''])]"

definition in_TestPhaseUpdate :: ts where
  "in_TestPhaseUpdate = Obj [
     opt ''name'' (nullable Str),
     opt ''order'' (nullable Num),
     opt ''start_date'' (nullable Str),
     opt ''end_date'' (nullable Str),
     opt ''status'' (nullable Str),
     opt ''kind'' (nullable (lits [''test'', ''hypercare'']))]"

definition in_ReleaseGateCreate :: ts where
  "in_ReleaseGateCreate = Obj [
     req ''name'' Str,
     req ''due_date'' Str,
     opt ''gate_type_id'' (nullable Num),
     opt ''test_phase_id'' (nullable Num)]"

definition in_ReleaseGateUpdate :: ts where
  "in_ReleaseGateUpdate = Obj [
     opt ''name'' (nullable Str),
     opt ''due_date'' (nullable Str),
     opt ''gate_type_id'' (nullable Num),
     opt ''test_phase_id'' (nullable Num)]"

definition in_ReleaseGateDecision :: ts where
  "in_ReleaseGateDecision = Obj [
     opt ''notes'' (nullable Str),
     opt ''expires_at'' (nullable Str),
     opt ''remediation'' (nullable Str),
     opt ''approved_by_user_id'' (nullable Num)]"

definition in_GateEvidenceCreate :: ts where
  "in_GateEvidenceCreate = Obj [
     req ''kind'' Str,
     req ''label'' Str,
     opt ''url'' (nullable Str),
     opt ''notes'' (nullable Str),
     opt ''deployment_id'' (nullable Num)]"

definition in_ReleaseSystemCreate :: ts where
  "in_ReleaseSystemCreate = Obj [
     req ''system_id'' Num,
     req ''role'' Str,
     opt ''deployment_date'' (nullable Str)]"

definition in_ReleaseDependencyCreate :: ts where
  "in_ReleaseDependencyCreate = Obj [
     req ''depends_on_release_id'' Num,
     opt ''kind'' Str,
     opt ''notes'' (nullable Str)]"

definition in_ReleaseEventCreate :: ts where
  "in_ReleaseEventCreate = Obj [
     req ''event_type_id'' Num,
     req ''description'' Str,
     opt ''occurred_at'' (nullable Str)]"

definition in_ReleaseChangeCreate :: ts where
  "in_ReleaseChangeCreate = Obj [
     opt ''external_key'' (nullable Str),
     req ''title'' Str,
     opt ''description'' (nullable Str),
     req ''change_kind'' Str,
     opt ''external_status'' (nullable Str),
     opt ''system_id'' (nullable Num),
     opt ''custom_fields'' (nullable (Dict Any)),
     opt ''project_code'' (nullable Str),
     opt ''project_name'' (nullable Str)]"

definition in_ReleaseChangeUpdate :: ts where
  "in_ReleaseChangeUpdate = Obj [
     opt ''external_key'' (nullable Str),
     opt ''title'' (nullable Str),
     opt ''description'' (nullable Str),
     opt ''external_status'' (nullable Str),
     opt ''system_id'' (nullable Num),
     opt ''custom_fields'' (nullable (Dict Any)),
     opt ''project_code'' (nullable Str),
     opt ''project_name'' (nullable Str)]"

definition in_ReleaseChangeMovePayload :: ts where
  "in_ReleaseChangeMovePayload = Obj [
     opt ''release_id'' (nullable Num),
     opt ''notes'' (nullable Str)]"

definition in_ReleaseBookingRequest :: ts where
  "in_ReleaseBookingRequest = Obj [
     req ''environment_id'' Num,
     req ''start'' Str,
     req ''end'' Str,
     req ''booking_type_id'' Num,
     opt ''phase_id'' (nullable Num),
     opt ''project_name'' (nullable Str),
     opt ''notes'' (nullable Str),
     opt ''exclusive_use'' Bool]"

definition in_ReleaseBulkBookingRequest :: ts where
  "in_ReleaseBulkBookingRequest = Obj [
     req ''environment_ids'' (Arr Num),
     opt ''phase_id'' (nullable Num),
     req ''start'' Str,
     req ''end'' Str,
     req ''booking_type_id'' Num,
     opt ''project_name'' (nullable Str),
     opt ''notes'' (nullable Str),
     opt ''exclusive_use'' Bool]"

definition in_GateCriterionCreate :: ts where
  "in_GateCriterionCreate = Obj [
     req ''title'' Str,
     opt ''notes'' (nullable Str),
     opt ''assigned_to_user_id'' (nullable Num),
     opt ''assigned_role'' (nullable Str)]"

definition in_GateCriterionUpdate :: ts where
  "in_GateCriterionUpdate = Obj [
     opt ''title'' (nullable Str),
     opt ''notes'' (nullable Str),
     opt ''assigned_to_user_id'' (nullable Num),
     opt ''assigned_role'' (nullable Str)]"

definition in_ReleaseTemplatePhase :: ts where
  "in_ReleaseTemplatePhase = Obj [
     req ''name'' Str,
     opt ''order'' Num,
     opt ''default_duration_days'' Num,
     opt ''activities'' (Arr Str),
     opt ''kind'' (lits [''test'', ''hypercare''])]"

definition in_ReleaseTemplateGate :: ts where
  "in_ReleaseTemplateGate = Obj [
     req ''name'' Str,
     opt ''phase_name'' (nullable Str),
     opt ''acceptance_criteria'' (nullable Str),
     opt ''gate_type_id'' (nullable Num)]"

definition in_ReleaseTemplateCreate :: ts where
  "in_ReleaseTemplateCreate = Obj [
     req ''name'' Str,
     opt ''description'' (nullable Str),
     req ''release_type'' Str,
     opt ''default_lifecycle_template_id'' (nullable Num),
     opt ''phases'' (Arr in_ReleaseTemplatePhase),
     opt ''gates'' (Arr in_ReleaseTemplateGate)]"

definition in_ReleaseTemplateUpdate :: ts where
  "in_ReleaseTemplateUpdate = Obj [
     opt ''name'' (nullable Str),
     opt ''description'' (nullable Str),
     opt ''release_type'' (nullable Str),
     opt ''default_lifecycle_template_id'' (nullable Num),
     opt ''phases'' (nullable (Arr in_ReleaseTemplatePhase)),
     opt ''gates'' (nullable (Arr in_ReleaseTemplateGate))]"

definition in_ReleaseTemplateInstantiate :: ts where
  "in_ReleaseTemplateInstantiate = Obj [
     req ''name'' Str,
     req ''target_date'' Str,
     opt ''description'' (nullable Str),
     opt ''custom_fields'' (nullable (Dict Any))]"

definition in_RollbackPlanCreate :: ts where
  "in_RollbackPlanCreate = Obj [
     req ''system_id'' Num,
     req ''steps'' Str,
     req ''reversibility'' (lits [''reversible'', ''lossy'', ''irreversible'']),
     opt ''estimated_minutes'' (nullable Num),
     opt ''notes'' (nullable Str)]"

definition in_RollbackAuthorisationCreate :: ts where
  "in_RollbackAuthorisationCreate = Obj [
     req ''decided_at'' Str,
     req ''trigger'' Str,
     req ''rationale'' Str,
     req ''system_ids'' (Arr Num)]"

definition in_RehearsalCreate :: ts where
  "in_RehearsalCreate = Obj [
     req ''rehearsed_at'' Str,
     req ''outcome'' (lits [''passed'', ''failed'', ''partial'']),
     opt ''notes'' (nullable Str)]"

definition in_RollbackPolicyUpdate :: ts where
  "in_RollbackPolicyUpdate = Obj [
     opt ''require_rollback_plan'' (nullable Bool),
     opt ''require_current_rehearsal'' (nullable Bool),
     opt ''rehearsal_validity_days'' (nullable Num)]"

definition in_RunbookPlanCreate :: ts where
  "in_RunbookPlanCreate = Obj [
     req ''environment_id'' Num,
     req ''name'' Str,
     req ''anchor_start_at'' Str,
     opt ''deploy_pattern'' (nullable (lits [''rolling'', ''blue_green'', ''canary'', ''big_bang'', ''other''])),
     opt ''notes'' (nullable Str)]"

definition in_RunbookPlanUpdate :: ts where
  "in_RunbookPlanUpdate = Obj [
     opt ''name'' (nullable Str),
     opt ''anchor_start_at'' (nullable Str),
     opt ''deploy_pattern'' (nullable (lits [''rolling'', ''blue_green'', ''canary'', ''big_bang'', ''other''])),
     opt ''notes'' (nullable Str)]"

definition in_RunbookTaskCreate :: ts where
  "in_RunbookTaskCreate = Obj [
     req ''name'' Str,
     opt ''description'' (nullable Str),
     opt ''team_group_id'' (nullable Num),
     opt ''system_id'' (nullable Num),
     opt ''kind'' (lits [''task'', ''check'', ''deploy'', ''verification'', ''ramp'']),
     req ''duration_minutes'' Num,
     opt ''fixed_start_at'' (nullable Str),
     opt ''sort_order'' Num,
     opt ''predecessor_ids'' (Arr Num)]"

definition in_RunbookTaskUpdate :: ts where
  "in_RunbookTaskUpdate = Obj [
     opt ''name'' (nullable Str),
     opt ''description'' (nullable Str),
     opt ''team_group_id'' (nullable Num),
     opt ''system_id'' (nullable Num),
     opt ''kind'' (nullable (lits [''task'', ''check'', ''deploy'', ''verification'', ''ramp''])),
     opt ''duration_minutes'' (nullable Num),
     opt ''fixed_start_at'' (nullable Str),
     opt ''sort_order'' (nullable Num)]"

definition in_PredecessorsUpdate :: ts where
  "in_PredecessorsUpdate = Obj [
     req ''predecessor_ids'' (Arr Num)]"

definition in_TransitionRequest :: ts where
  "in_TransitionRequest = Obj [
     req ''to_status'' (lits [''not_started'', ''in_progress'', ''done'', ''failed'', ''skipped'']),
     opt ''at'' (nullable Str),
     opt ''reason'' (nullable Str)]"

definition in_ScopeChangeKindRuleUpsertItem :: ts where
  "in_ScopeChangeKindRuleUpsertItem = Obj [
     req ''change_kind'' Str,
     req ''counts_as_scope_change'' Bool]"

definition in_ScopeChangeKindRulesUpsertPayload :: ts where
  "in_ScopeChangeKindRulesUpsertPayload = Obj [
     req ''rules'' (Arr in_ScopeChangeKindRuleUpsertItem)]"

definition in_SystemCreate :: ts where
  "in_SystemCreate = Obj [
     req ''name'' Str,
     opt ''description'' (nullable Str),
     opt ''github_repository_url'' (nullable Str),
     opt ''custom_fields'' (nullable (Dict Any))]"

definition in_SystemUpdate :: ts where
  "in_SystemUpdate = Obj [
     opt ''name'' (nullable Str),
     opt ''description'' (nullable Str),
     opt ''github_repository_url'' (nullable Str),
     opt ''custom_fields'' (nullable (Dict Any))]"

definition in_SubSystemCreate :: ts where
  "in_SubSystemCreate = Obj [
     req ''name'' Str,
     opt ''description'' (nullable Str),
     opt ''component_type'' (lits [''web_service'', ''api_gateway'', ''database'', ''cache'', ''message_queue'',
       ''worker'', ''frontend'', ''other'']),
     opt ''technology'' (nullable Str),
     opt ''custom_fields'' (nullable (Dict Any))]"

definition in_SubSystemUpdate :: ts where
  "in_SubSystemUpdate = Obj [
     opt ''name'' (nullable Str),
     opt ''description'' (nullable Str),
     opt ''component_type'' (nullable (lits [''web_service'', ''api_gateway'', ''database'', ''cache'',
       ''message_queue'', ''worker'', ''frontend'', ''other''])),
     opt ''technology'' (nullable Str),
     opt ''custom_fields'' (nullable (Dict Any))]"

definition in_TenantAdminSettings :: ts where
  "in_TenantAdminSettings = Obj [
     req ''settings'' (Dict Any)]"

definition in_UserGroupCreate :: ts where
  "in_UserGroupCreate = Obj [
     req ''name'' Str,
     opt ''description'' (nullable Str)]"

definition in_UserGroupUpdate :: ts where
  "in_UserGroupUpdate = Obj [
     opt ''name'' (nullable Str),
     opt ''description'' (nullable Str)]"

definition in_UserGroupMemberCreate :: ts where
  "in_UserGroupMemberCreate = Obj [
     req ''user_id'' Num]"

definition in_VersionUpdate :: ts where
  "in_VersionUpdate = Obj [
     opt ''build_identifier'' (nullable Str),
     opt ''version_label'' (nullable Str),
     opt ''installed_at'' (nullable Str)]"

definition in_BookingRequestUpdate :: ts where
  "in_BookingRequestUpdate = Obj [
     opt ''project_name'' (nullable Str),
     opt ''project_id'' (nullable Num),
     opt ''booking_type_id'' (nullable Num),
     opt ''start_date'' (nullable Str),
     opt ''end_date'' (nullable Str),
     opt ''notes'' (nullable Str),
     opt ''context_tag'' (nullable Str),
     opt ''exclusive_use_requested'' (nullable Bool),
     opt ''delegate_user_ids'' (nullable (Arr Num)),
     opt ''protection_level'' (nullable (lits [''soft'', ''hard'']))]"

definition in_PirFindingCreate :: ts where
  "in_PirFindingCreate = Obj [
     req ''kind'' Str,
     req ''title'' Str,
     opt ''detail'' (nullable Str),
     opt ''root_cause'' (nullable Str)]"

definition in_VersionCreate :: ts where
  "in_VersionCreate = Obj [
     req ''subsystem_id'' Num,
     req ''build_identifier'' Str,
     req ''version_label'' Str,
     opt ''installed_at'' (nullable Str)]"

end
