(* ===== verification/WireTable.thy ===== *)
theory WireTable
  imports WireTypes BackendModels
begin

text \<open>
  The two sides of every request, side by side: for each service function the response model of the handler
  that answers it (by its module and name) and the type that the function declares, and for each function with a
    body the type of the
  payload and the request model of the handler. \<open>erase\<close> names the JSON columns of the row. The lemmas
  check the rows model by model.
\<close>

named_theorems wire

lemmas wire_eval = sub_nullable sub_Any members_def extends_def partial_def omit_def pick_def lits_def

lemma wire_1 [wire]: "sub py_TenantResponse (erase [] TenantResponse)"
  by (simp add: wire wire_eval TenantResponse_def py_TenantResponse_def cong: into_target)

lemma wire_2 [wire]: "sub py_UserResponse (erase [] UserResponse)"
  by (simp add: wire wire_eval UserResponse_def py_UserResponse_def cong: into_target)

lemma wire_3 [wire]: "sub py_AgreementGapAckRead (erase [] AgreementGapAckRead_t)"
  by (simp add: wire wire_eval AgreementGapAckRead_t_def py_AgreementGapAckRead_def cong: into_target)

lemma wire_4 [wire]: "sub py_ApiKeyRead (erase [] ApiKey)"
  by (simp add: wire wire_eval ApiKey_def py_ApiKeyRead_def cong: into_target)

lemma wire_5 [wire]: "sub py_ApiKeyCreated (erase [] ApiKeyCreated)"
  by (simp add: wire wire_eval ApiKeyCreated_def ApiKey_def py_ApiKeyCreated_def cong: into_target)

lemma wire_6 [wire]: "sub py_LifecycleTemplateResponse (erase [''definition''] BookingLifecycleTemplate_t)"
  by (simp add: wire wire_eval BookingLifecycleTemplate_t_def py_LifecycleTemplateResponse_def cong: into_target)

lemma wire_7 [wire]: "sub py_BookingTypeResponse (erase [] BookingTypeRecord)"
  by (simp add: wire wire_eval BookingTypeRecord_def ProtectionLevel_t_def py_BookingTypeResponse_def cong:
    into_target)

lemma wire_8 [wire]: "sub py_EnvBookingSummary (erase [] EnvBookingSummary_t)"
  by (simp add: wire wire_eval EnvBookingSummary_t_def ProtectionLevel_t_def py_EnvBookingSummary_def cong:
    into_target)

lemma wire_9 [wire]: "sub py_BookingRequestResponse (erase [] BookingRequestResponse)"
  by (simp add: wire wire_eval BookingRequestResponse_def ProtectionLevel_t_def py_BookingRequestResponse_def cong:
    into_target)

lemma wire_10 [wire]: "sub py_BookingRequestCreateResponse (erase [] BookingRequestCreateResponse)"
  by (simp add: wire wire_eval BookingRequestCreateResponse_def py_BookingRequestCreateResponse_def cong:
    into_target)

lemma wire_11 [wire]: "sub py_PreviewConflictsResponse (erase [] PreviewConflictsResponse)"
  by (simp add: wire wire_eval PreviewConflictsResponse_def py_PreviewConflictsResponse_def cong: into_target)

lemma wire_12 [wire]: "sub py_BookingStatusHistoryResponse (erase [] BookingStatusHistory)"
  by (simp add: wire wire_eval BookingStatusHistory_def py_BookingStatusHistoryResponse_def cong: into_target)

lemma wire_13 [wire]: "sub py_EscalationRead (erase [] Escalation_t)"
  by (simp add: wire wire_eval EscalationState_t_def Escalation_t_def py_EscalationRead_def cong: into_target)

lemma wire_14 [wire]: "sub py_ContentionRead (erase [] Contention_t)"
  by (simp add: wire wire_eval ContentionOutcome_t_def Contention_t_def py_ContentionRead_def cong: into_target)

lemma wire_15 [wire]: "sub py_ConflictAckRead (erase [] ConflictAck_t)"
  by (simp add: wire wire_eval ConflictAck_t_def py_ConflictAckRead_def cong: into_target)

lemma wire_16 [wire]: "sub py_ConflictItem (erase [] ConflictItem_t)"
  by (simp add: wire wire_eval ConflictItem_t_def py_ConflictItem_def cong: into_target)

lemma wire_17 [wire]: "sub py_UserRef (erase [] UserRef)"
  by (simp add: wire wire_eval UserRef_def py_UserRef_def cong: into_target)

lemma wire_18 [wire]: "sub py_RequestContextRef (erase [] RequestContextRef)"
  by (simp add: wire wire_eval RequestContextRef_def py_RequestContextRef_def cong: into_target)

lemma wire_19 [wire]: "sub py_ReceivedFeedbackItem (erase [] ReceivedFeedbackItem)"
  by (simp add: wire wire_eval ReceivedFeedbackItem_def py_ReceivedFeedbackItem_def cong: into_target)

lemma wire_20 [wire]: "sub py_PipelineStep (erase [] PipelineStep)"
  by (simp add: wire wire_eval PipelineStep_def py_PipelineStep_def cong: into_target)

lemma wire_21 [wire]: "sub py_BuildRead (erase [] Build)"
  by (simp add: wire wire_eval Build_def py_BuildRead_def cong: into_target)

lemma wire_22 [wire]: "sub py_EnvironmentSummary (erase [] EnvironmentSummary)"
  by (simp add: wire wire_eval EnvironmentSummary_def py_EnvironmentSummary_def cong: into_target)

lemma wire_23 [wire]: "sub py_InfrastructureComponentSummary (erase [] InfrastructureComponentSummary)"
  by (simp add: wire wire_eval InfrastructureComponentSummary_def InfrastructureComponentType_def
    py_InfrastructureComponentSummary_def cong: into_target)

lemma wire_24 [wire]: "sub py_ChangeRequestResponse (erase [] ChangeRequestResponse)"
  by (simp add: wire wire_eval ChangeRequestResponse_def ChangeType_def py_ChangeRequestResponse_def cong:
    into_target)

lemma wire_25 [wire]: "sub py_ChangeHistoryEntry (erase [] ChangeHistoryEntry)"
  by (simp add: wire wire_eval ChangeHistoryEntry_def py_ChangeHistoryEntry_def cong: into_target)

lemma wire_26 [wire]: "sub py_ChangeRequestDetailResponse (erase [] ChangeRequestDetailResponse)"
  by (simp add: wire wire_eval ChangeRequestDetailResponse_def ChangeRequestResponse_def ChangeType_def
    py_ChangeRequestDetailResponse_def cong: into_target)

lemma wire_27 [wire]: "sub py_OutageConflictBooking (erase [] OutageConflictBooking)"
  by (simp add: wire wire_eval OutageConflictBooking_def py_OutageConflictBooking_def cong: into_target)

lemma wire_28 [wire]: "sub py_OutageConflictEnvironment (erase [] OutageConflictEnvironment)"
  by (simp add: wire wire_eval OutageConflictEnvironment_def py_OutageConflictEnvironment_def cong: into_target)

lemma wire_29 [wire]: "sub py_PreviewOutageConflictsResponse (erase [] PreviewOutageConflictsResponse)"
  by (simp add: wire wire_eval PreviewOutageConflictsResponse_def py_PreviewOutageConflictsResponse_def cong:
    into_target)

lemma wire_30 [wire]: "sub py_CloseTargetRead (erase [] CloseTarget)"
  by (simp add: wire wire_eval CloseTarget_def py_CloseTargetRead_def cong: into_target)

lemma wire_31 [wire]: "sub py_CloseoutRead (erase [] CloseoutRead)"
  by (simp add: wire wire_eval CloseoutRead_def HypercareState_def py_CloseoutRead_def py_HandoverRead_def
    py_HypercarePhaseRead_def py_HypercareRead_def py_IncidentWindowItem_def py_IncidentsWindowRead_def
      py_PirStateRead_def cong: into_target)

lemma wire_32 [wire]: "sub py_ReleaseRead (erase [] ReleaseResponse_t)"
  by (simp add: wire wire_eval ReleaseKind_t_def ReleaseResponse_t_def ReleaseStatus_def py_ReleaseRead_def cong:
    into_target)

lemma wire_33 [wire]: "sub py_FieldDefinitionSchema (erase [] FieldDefinitionSchema)"
  by (simp add: wire wire_eval FieldDefinitionSchema_def py_FieldDefinitionSchema_def cong: into_target)

lemma wire_34 [wire]: "sub py_ComponentTypeDefinitionResponse (erase [] ComponentTypeDefinitionResponse)"
  by (simp add: wire wire_eval ComponentTypeDefinitionResponse_def py_ComponentTypeDefinitionResponse_def cong:
    into_target)

lemma wire_35 [wire]: "sub py_CustomFieldDefinitionResponse (erase [''lifecycle_states''] CustomFieldDefinition)"
  by (simp add: wire wire_eval CustomFieldDefinition_def EntityType_def FieldType_def
    py_CustomFieldDefinitionResponse_def cong: into_target)

lemma wire_36 [wire]: "sub py_AttestationRead (erase [] Attestation_t)"
  by (simp add: wire wire_eval Attestation_t_def py_AttestationRead_def cong: into_target)

lemma wire_37 [wire]: "sub py_DecommissionRead (erase [] Decommission_t)"
  by (simp add: wire wire_eval DecommissionState_t_def Decommission_t_def py_DecommissionRead_def cong: into_target)

lemma wire_38 [wire]: "sub py_RemainingBookingSummary (erase [] RemainingBookingSummary_t)"
  by (simp add: wire wire_eval RemainingBookingSummary_t_def py_RemainingBookingSummary_def cong: into_target)

lemma wire_39 [wire]: "sub py_TeardownRead (erase [] TeardownResult_t)"
  by (simp add: wire wire_eval DecommissionState_t_def Decommission_t_def TeardownResult_t_def py_TeardownRead_def
    cong: into_target)

lemma wire_40 [wire]: "sub py_DecommissionStepRead (erase [] DecommissionStep_t)"
  by (simp add: wire wire_eval DecommissionStep_t_def py_DecommissionStepRead_def cong: into_target)

lemma wire_41 [wire]: "sub py_DecommissionWorklistRow (erase [] DecommissionWorklistRow_t)"
  by (simp add: wire wire_eval DecommissionState_t_def DecommissionWorklistRow_t_def Decommission_t_def
    py_DecommissionWorklistRow_def cong: into_target)

lemma wire_42 [wire]: "sub py_DependencyVerifyItem (erase [] DependencyVerifyItem)"
  by (simp add: wire wire_eval DependencyType_def DependencyVerifyItem_def py_DependencyVerifyItem_def cong:
    into_target)

lemma wire_43 [wire]: "sub py_SystemVerifyResult (erase [] SystemVerifyResult)"
  by (simp add: wire wire_eval SystemVerifyResult_def py_SystemVerifyResult_def cong: into_target)

lemma wire_44 [wire]: "sub py_ComponentVerifyItem (erase [] ComponentVerifyItem)"
  by (simp add: wire wire_eval ComponentVerifyItem_def DependencyType_def py_ComponentVerifyItem_def cong:
    into_target)

lemma wire_45 [wire]: "sub py_VerifyResponse (erase [] VerifyResponse)"
  by (simp add: wire wire_eval VerifyResponse_def py_VerifyResponse_def cong: into_target)

lemma wire_46 [wire]: "sub py_DeploymentRead (erase [] Deployment)"
  by (simp add: wire wire_eval DeploymentStatus_def Deployment_def py_DeploymentRead_def cong: into_target)

lemma wire_47 [wire]: "sub py_MemberRollupRow (erase [] ApiMemberRollupRow)"
  by (simp add: wire wire_eval ApiMemberRollupRow_def py_MemberRollupRow_def cong: into_target)

lemma wire_48 [wire]: "sub py_SystemRollupRow (erase [] ApiSystemRollupRow)"
  by (simp add: wire wire_eval ApiSystemRollupRow_def py_SystemRollupRow_def cong: into_target)

lemma wire_49 [wire]: "sub py_ScopeRollupItem (erase [] ApiScopeRollupItem)"
  by (simp add: wire wire_eval ApiScopeRollupItem_def py_ScopeRollupItem_def cong: into_target)

lemma wire_50 [wire]: "sub py_EnterpriseReportEvent (erase [] ApiEnterpriseReportEvent)"
  by (simp add: wire wire_eval ApiEnterpriseReportEvent_def py_EnterpriseReportEvent_def cong: into_target)

lemma wire_51 [wire]: "sub py_TimelineDependencyEdge (erase [] ApiTimelineDependencyEdge)"
  by (simp add: wire wire_eval ApiTimelineDependencyEdge_def py_TimelineDependencyEdge_def cong: into_target)

lemma wire_52 [wire]: "sub py_EnterpriseReportRead (erase [] ApiEnterpriseReport)"
  by (simp add: wire wire_eval ApiEnterpriseReport_def py_EnterpriseReportRead_def cong: into_target)

lemma wire_53 [wire]: "sub py_TimelinePhaseRead (erase [] ApiTimelinePhase)"
  by (simp add: wire wire_eval ApiTimelinePhase_def py_TimelinePhaseRead_def cong: into_target)

lemma wire_54 [wire]: "sub py_TimelineRollupRead (erase [] ApiTimelineRollup)"
  by (simp add: wire wire_eval ApiTimelineRollup_def py_TimelineRollupRead_def cong: into_target)

lemma wire_55 [wire]: "sub py_ComparedEnvironment (erase [] ComparedEnvironment)"
  by (simp add: wire wire_eval ComparedEnvironment_def py_ComparedEnvironment_def cong: into_target)

lemma wire_56 [wire]: "sub py_SystemPresence (erase [] SystemPresence)"
  by (simp add: wire wire_eval Presence_def SystemPresence_def py_SystemPresence_def cong: into_target)

lemma wire_57 [wire]: "sub py_HostShapeEntry (erase [] HostShapeEntry)"
  by (simp add: wire wire_eval HostShapeEntry_def py_HostShapeEntry_def cong: into_target)

lemma wire_58 [wire]: "sub py_SubsystemSide (erase [] SubsystemSide)"
  by (simp add: wire wire_eval SubsystemSide_def py_SubsystemSide_def cong: into_target)

lemma wire_59 [wire]: "sub py_SubsystemComparison (erase [] SubsystemComparison)"
  by (simp add: wire wire_eval DifferenceKind_def Presence_def SubsystemComparison_def py_SubsystemComparison_def
    cong: into_target)

lemma wire_60 [wire]: "sub py_EnvironmentComparisonResponse (erase [] EnvironmentComparison)"
  by (simp add: wire wire_eval EnvironmentComparison_def py_ComparisonSummary_def
    py_EnvironmentComparisonResponse_def cong: into_target)

lemma wire_61 [wire]: "sub py_EnvironmentGroupResponse (erase [] EnvironmentGroupResponse)"
  by (simp add: wire wire_eval EnvironmentGroupResponse_def py_EnvironmentGroupResponse_def cong: into_target)

lemma wire_62 [wire]: "sub py_MemberResponse (erase [] MemberResponse)"
  by (simp add: wire wire_eval MemberResponse_def py_MemberResponse_def cong: into_target)

lemma wire_63 [wire]: "sub py_ActiveBookingSummary (erase [] ActiveBookingSummary)"
  by (simp add: wire wire_eval ActiveBookingSummary_def py_ActiveBookingSummary_def cong: into_target)

lemma wire_64 [wire]: "sub py_EnvironmentHealthOverviewRow (erase [] EnvironmentHealthOverviewRow)"
  by (simp add: wire wire_eval EnvironmentHealthOverviewRow_def HealthStatus_def
    py_EnvironmentHealthOverviewRow_def cong: into_target)

lemma wire_65 [wire]: "sub py_HealthSample (erase [] HealthSample)"
  by (simp add: wire wire_eval HealthSample_def py_HealthSample_def cong: into_target)

lemma wire_66 [wire]: "sub py_EnvironmentLifecyclePolicyRead (erase [] EnvironmentLifecyclePolicy)"
  by (simp add: wire wire_eval EnvironmentLifecyclePolicy_def py_EnvironmentLifecyclePolicyRead_def cong:
    into_target)

lemma wire_67 [wire]: "sub py_EnvironmentNamingPolicyRead (erase [] EnvironmentNamingPolicy)"
  by (simp add: wire wire_eval EnvironmentNamingPolicy_def py_EnvironmentNamingPolicyRead_def cong: into_target)

lemma wire_68 [wire]: "sub py_EnvironmentNamingPolicyPreview (erase [] EnvironmentNamingPolicyPreview)"
  by (simp add: wire wire_eval EnvironmentNamingPolicyPreview_def py_EnvironmentNamingPolicyPreview_def cong:
    into_target)

lemma wire_69 [wire]: "sub py_OperatingHoursDay (erase [] OperatingHoursDay)"
  by (simp add: wire wire_eval OperatingHoursDay_def py_OperatingHoursDay_def cong: into_target)

lemma wire_70 [wire]: "sub py_OperatingHoursConfigResponse (erase [] OperatingHoursConfig)"
  by (simp add: wire wire_eval OperatingHoursConfig_def py_OperatingHoursConfigResponse_def cong: into_target)

lemma wire_71 [wire]: "sub py_EnvironmentUtilization (erase [] EnvironmentUtilization)"
  by (simp add: wire wire_eval EnvironmentUtilization_def py_EnvironmentUtilization_def cong: into_target)

lemma wire_72 [wire]: "sub py_UtilizationOverview (erase [] UtilizationOverview)"
  by (simp add: wire wire_eval UtilizationOverview_def py_UtilizationOverview_def cong: into_target)

lemma wire_73 [wire]: "sub py_EnvironmentRequestResponse (erase [] EnvironmentRequestResponse)"
  by (simp add: wire wire_eval EnvironmentRequestKind_def EnvironmentRequestResponse_def
    py_EnvironmentRequestResponse_def cong: into_target)

lemma wire_74 [wire]: "sub py_WelcomePackResponse (erase [''access'', ''support'', ''caveats'', ''offboarding'']
  WelcomePack)"
  by (simp add: wire wire_eval WelcomePack_def py_WelcomePackResponse_def cong: into_target)

lemma wire_75 [wire]: "sub py_EnvironmentResponse (erase [] EnvironmentResponse_t)"
  by (simp add: wire wire_eval DecommissionState_t_def EnvironmentResponse_t_def EnvironmentStatus_t_def
    py_EnvironmentResponse_def cong: into_target)

lemma wire_76 [wire]: "sub py_EnvironmentSystemResponse (erase [] EnvironmentSystemResponse_t)"
  by (simp add: wire wire_eval EnvironmentSystemResponse_t_def py_EnvironmentSystemResponse_def
    py_SystemResponse_def cong: into_target)

lemma wire_77 [wire]: "sub py_SystemSummary (erase [] SystemSummary_t)"
  by (simp add: wire wire_eval SystemSummary_t_def py_SystemSummary_def cong: into_target)

lemma wire_78 [wire]: "sub py_EnvironmentSystemsResponse (erase [] EnvironmentSystemsResponse_t)"
  by (simp add: wire wire_eval EnvironmentSystemsResponse_t_def py_EnvironmentSystemsResponse_def cong: into_target)

lemma wire_79 [wire]: "sub py_EnvironmentTierResponse (erase [] EnvironmentTierResponse)"
  by (simp add: wire wire_eval EnvironmentTierResponse_def py_EnvironmentTierResponse_def cong: into_target)

lemma wire_80 [wire]: "sub py_GateTypeRead (erase [] GateTypeResponse)"
  by (simp add: wire wire_eval GateFailureBehaviour_def GateTypeResponse_def py_GateTypeRead_def cong: into_target)

lemma wire_81 [wire]: "sub py_IntegrationStatus (erase [] GitHubStatus)"
  by (simp add: wire wire_eval GitHubStatus_def py_IntegrationStatus_def cong: into_target)

lemma wire_82 [wire]: "sub py_ConnectStarted (erase [] DeviceFlowStarted)"
  by (simp add: wire wire_eval DeviceFlowStarted_def py_ConnectStarted_def cong: into_target)

lemma wire_83 [wire]: "sub py_GoNoGoSignoffRead (erase [''snapshot_blockers'', ''snapshot_warnings'']
  GoNoGoSignoffRead)"
  by (simp add: wire wire_eval GoNoGoSignoffRead_def py_GoNoGoSignoffRead_def cong: into_target)

lemma wire_84 [wire]: "sub py_GoNoGoConditionRead (erase [''snapshot_blockers'', ''snapshot_warnings'']
  GoNoGoConditionRead)"
  by (simp add: wire wire_eval GoNoGoConditionRead_def py_GoNoGoConditionRead_def cong: into_target)

lemma wire_85 [wire]: "sub py_GoNoGoDecisionRead (erase [''snapshot_blockers'', ''snapshot_warnings'']
  GoNoGoDecisionRead)"
  by (simp add: wire wire_eval GoNoGoDecisionRead_def py_GoNoGoDecisionRead_def cong: into_target)

lemma wire_86 [wire]: "sub py_GoNoGoConditionRead (erase [] GoNoGoConditionRead)"
  by (simp add: wire wire_eval GoNoGoConditionRead_def py_GoNoGoConditionRead_def cong: into_target)

lemma wire_87 [wire]: "sub py_GoNoGoPerspectiveRead (erase [] GoNoGoPerspectiveRead)"
  by (simp add: wire wire_eval GoNoGoPerspectiveRead_def py_GoNoGoPerspectiveRead_def cong: into_target)

lemma wire_88 [wire]: "sub py_ReleaseSummary (erase [] ReleaseSummary)"
  by (simp add: wire wire_eval ReleaseSummary_def py_ReleaseSummary_def cong: into_target)

lemma wire_89 [wire]: "sub py_IncidentListRow (erase [] IncidentListRow)"
  by (simp add: wire wire_eval IncidentListRow_def Severity_def py_IncidentListRow_def cong: into_target)

lemma wire_90 [wire]: "sub py_ReleaseChangeRow (erase [] ReleaseChangeRow)"
  by (simp add: wire wire_eval ReleaseChangeRow_def py_ReleaseChangeRow_def cong: into_target)

lemma wire_91 [wire]: "sub py_TransitionOption (erase [] TransitionOption)"
  by (simp add: wire wire_eval TransitionOption_def py_TransitionOption_def cong: into_target)

lemma wire_92 [wire]: "sub py_StatusHistoryRow (erase [] StatusHistoryRow)"
  by (simp add: wire wire_eval StatusHistoryRow_def py_StatusHistoryRow_def cong: into_target)

lemma wire_93 [wire]: "sub py_IncidentPirCitation (erase [] IncidentPirCitation)"
  by (simp add: wire wire_eval IncidentPirCitation_def py_IncidentPirCitation_def cong: into_target)

lemma wire_94 [wire]: "sub py_IncidentDetail (erase [] IncidentDetail)"
  by (simp add: wire wire_eval IncidentDetail_def Severity_def py_IncidentDetail_def cong: into_target)

lemma wire_95 [wire]: "sub py_InfrastructureComponentResponse (erase [] InfrastructureComponentResponse)"
  by (simp add: wire wire_eval InfrastructureComponentResponse_def InfrastructureComponentSource_def
    InfrastructureComponentType_def py_InfrastructureComponentResponse_def cong: into_target)

lemma wire_96 [wire]: "sub py_EnvironmentSubSystemHostResponse (erase [] EnvironmentSubSystemHostResponse)"
  by (simp add: wire wire_eval EnvironmentSubSystemHostResponse_def py_EnvironmentSubSystemHostResponse_def cong:
    into_target)

lemma wire_97 [wire]: "sub py_EnvironmentSubSystemHostsResponse (erase [] EnvironmentSubSystemHostsResponse)"
  by (simp add: wire wire_eval EnvironmentSubSystemHostsResponse_def py_EnvironmentSubSystemHostsResponse_def cong:
    into_target)

lemma wire_98 [wire]: "sub py_PirActionResponse (erase [] PirAction)"
  by (simp add: wire wire_eval PirActionStatus_def PirAction_def py_PirActionResponse_def cong: into_target)

lemma wire_99 [wire]: "sub py_PirCitationResponse (erase [] PirCitation)"
  by (simp add: wire wire_eval PirCitation_def py_PirCitationResponse_def cong: into_target)

lemma wire_100 [wire]: "sub py_PirFindingResponse (erase [] PirFinding)"
  by (simp add: wire wire_eval PirFindingKind_def PirFinding_def py_PirFindingResponse_def cong: into_target)

lemma wire_101 [wire]: "sub py_PIRResponse (erase [] PIR)"
  by (simp add: wire wire_eval PIR_def PirStatus_def py_PIRResponse_def cong: into_target)

lemma wire_102 [wire]: "sub py_ProjectResponse (erase [] ProjectResponse)"
  by (simp add: wire wire_eval ProjectResponse_def py_ProjectResponse_def cong: into_target)

lemma wire_103 [wire]: "sub py_UsageAgreementResponse (erase [] UsageAgreementResponse)"
  by (simp add: wire wire_eval UsageAgreementResponse_def py_UsageAgreementResponse_def cong: into_target)

lemma wire_104 [wire]: "sub py_RaidItemRead (erase [] RaidItemResponse)"
  by (simp add: wire wire_eval RaidItemResponse_def RaidItemType_def RaidRag_def py_RaidItemRead_def cong:
    into_target)

lemma wire_105 [wire]: "sub py_RaidLinksRead (erase [''relations''] RaidLinksResponse)"
  by (simp add: wire wire_eval RaidLinksResponse_def py_RaidLinksRead_def cong: into_target)

lemma wire_106 [wire]: "sub py_RaidSummaryRead (erase [] RaidSummaryResponse)"
  by (simp add: wire wire_eval RaidSummaryResponse_def py_RaidSummaryRead_def cong: into_target)

lemma wire_107 [wire]: "sub py_RaidRollupRead (erase [''top_risks''] RaidRollupResponse)"
  by (simp add: wire wire_eval RaidRollupResponse_def py_RaidRollupRead_def cong: into_target)

lemma wire_108 [wire]: "sub py_RaidConfigRead (erase [''probability_scale'', ''impact_scale'', ''rag_bands'']
  RaidConfig)"
  by (simp add: wire wire_eval RaidConfig_def py_RaidConfigRead_def cong: into_target)

lemma wire_109 [wire]: "sub py_ReleaseEventTypeRead (erase [] ReleaseEventTypeResponse)"
  by (simp add: wire wire_eval ReleaseEventTypeResponse_def py_ReleaseEventTypeRead_def cong: into_target)

lemma wire_110 [wire]: "sub py_ReleaseSystemBrief (erase [] ReleaseSystemBrief_t)"
  by (simp add: wire wire_eval ReleaseSystemBrief_t_def py_ReleaseSystemBrief_def cong: into_target)

lemma wire_111 [wire]: "sub py_ReleaseListItemRead (erase [] ReleaseListItemResponse_t)"
  by (simp add: wire wire_eval ReleaseKind_t_def ReleaseListItemResponse_t_def ReleaseResponse_t_def
    ReleaseStatus_def py_ReleaseListItemRead_def cong: into_target)

lemma wire_112 [wire]: "sub py_TestPhaseRead (erase [] TestPhaseResponse_t)"
  by (simp add: wire wire_eval PhaseKind_t_def TestPhaseResponse_t_def py_TestPhaseRead_def cong: into_target)

lemma wire_113 [wire]: "sub py_GateCriterionRead (erase [] GateCriterion_t)"
  by (simp add: wire wire_eval GateCriterionStatus_t_def GateCriterion_t_def py_GateCriterionRead_def cong:
    into_target)

lemma wire_114 [wire]: "sub py_GateWaiverRead (erase [] GateWaiverResponse_t)"
  by (simp add: wire wire_eval GateWaiverResponse_t_def py_GateWaiverRead_def cong: into_target)

lemma wire_115 [wire]: "sub py_ReleaseGateRead (erase [] ReleaseGateResponse_t)"
  by (simp add: wire wire_eval ReleaseGateResponse_t_def py_ReleaseGateRead_def cong: into_target)

lemma wire_116 [wire]: "sub py_GateEvidenceRead (erase [] GateEvidenceResponse_t)"
  by (simp add: wire wire_eval GateEvidenceResponse_t_def py_GateEvidenceRead_def cong: into_target)

lemma wire_117 [wire]: "sub py_ReadinessBlocker (erase [] ReadinessBlocker)"
  by (simp add: wire wire_eval ReadinessBlockerType_def ReadinessBlocker_def py_ReadinessBlocker_def cong:
    into_target)

lemma wire_118 [wire]: "sub py_ReadinessWarning (erase [] ReadinessWarning)"
  by (simp add: wire wire_eval ReadinessWarningType_def ReadinessWarning_def py_ReadinessWarning_def cong:
    into_target)

lemma wire_119 [wire]: "sub py_ReleaseReadinessResponse (erase [] ReleaseReadinessResponse)"
  by (simp add: wire wire_eval ReleaseReadinessResponse_def py_ReleaseReadinessResponse_def cong: into_target)

lemma wire_120 [wire]: "sub py_ReleaseSystemRead (erase [] ReleaseSystemResponse)"
  by (simp add: wire wire_eval ReleaseSystemResponse_def py_ReleaseSystemRead_def cong: into_target)

lemma wire_121 [wire]: "sub py_ReleaseDependencyRead (erase [] ReleaseDependencyResponse_t)"
  by (simp add: wire wire_eval ReleaseDependencyResponse_t_def py_ReleaseDependencyRead_def cong: into_target)

lemma wire_122 [wire]: "sub py_ReleaseDependencyAlert (erase [] ReleaseDependencyAlert_t)"
  by (simp add: wire wire_eval ReleaseDependencyAlert_t_def py_ReleaseDependencyAlert_def cong: into_target)

lemma wire_123 [wire]: "sub py_ReleaseEventRead (erase [] ReleaseEventResponse_t)"
  by (simp add: wire wire_eval ReleaseEventResponse_t_def py_ReleaseEventRead_def cong: into_target)

lemma wire_124 [wire]: "sub py_ReleaseChangeRead (erase [] ReleaseChangeResponse_t)"
  by (simp add: wire wire_eval ReleaseChangeResponse_t_def py_ReleaseChangeRead_def cong: into_target)

lemma wire_125 [wire]: "sub py_ReleaseChangeStatusHistoryRead (erase [] ReleaseChangeStatusHistoryResponse_t)"
  by (simp add: wire wire_eval ReleaseChangeStatusHistoryResponse_t_def py_ReleaseChangeStatusHistoryRead_def cong:
    into_target)

lemma wire_126 [wire]: "sub py_ImportError (erase [] ScopeImportRowError)"
  by (simp add: wire wire_eval ScopeImportRowError_def py_ImportError_def cong: into_target)

lemma wire_127 [wire]: "sub py_ScopeImportResult (erase [] ScopeImportResult)"
  by (simp add: wire wire_eval ScopeImportResult_def py_ScopeImportResult_def cong: into_target)

lemma wire_128 [wire]: "sub py_CoverageSystem (erase [] CoverageSystemResponse)"
  by (simp add: wire wire_eval CoverageSystemResponse_def py_CoverageSystem_def cong: into_target)

lemma wire_129 [wire]: "sub py_CoverageEnvironment (erase [] CoverageEnvironmentResponse)"
  by (simp add: wire wire_eval CoverageEnvironmentResponse_def py_CoverageEnvironment_def cong: into_target)

lemma wire_130 [wire]: "sub py_ReleaseEnvironmentCoverageRead (erase [] ReleaseEnvironmentCoverageResponse)"
  by (simp add: wire wire_eval ReleaseEnvironmentCoverageResponse_def py_ReleaseEnvironmentCoverageRead_def cong:
    into_target)

lemma wire_131 [wire]: "sub py_ChurnCohort (erase [] ChurnCohortResponse)"
  by (simp add: wire wire_eval ChurnCohortResponse_def py_ChurnCohort_def cong: into_target)

lemma wire_132 [wire]: "sub py_ChurnReleaseRow (erase [] ChurnReleaseRowResponse)"
  by (simp add: wire wire_eval ChurnReleaseRowResponse_def py_ChurnReleaseRow_def cong: into_target)

lemma wire_133 [wire]: "sub py_ScopeChurnAnalyticsRead (erase [] ScopeChurnAnalyticsResponse)"
  by (simp add: wire wire_eval ScopeChurnAnalyticsResponse_def py_ScopeChurnAnalyticsRead_def cong: into_target)

lemma wire_134 [wire]: "sub py_BulkBookCreated (erase [] BulkBookCreatedItem)"
  by (simp add: wire wire_eval BulkBookCreatedItem_def py_BulkBookCreated_def cong: into_target)

lemma wire_135 [wire]: "sub py_BulkBookSkipped (erase [] BulkBookSkippedItem)"
  by (simp add: wire wire_eval BulkBookSkippedItem_def py_BulkBookSkipped_def cong: into_target)

lemma wire_136 [wire]: "sub py_BulkBookResult (erase [] BulkBookResultResponse)"
  by (simp add: wire wire_eval BulkBookResultResponse_def py_BulkBookResult_def cong: into_target)

lemma wire_137 [wire]: "sub py_GateCriterionWithGate (erase [] GateCriterionWithGate)"
  by (simp add: wire wire_eval GateCriterionStatus_t_def GateCriterionWithGate_def GateCriterion_t_def
    py_GateCriterionWithGate_def cong: into_target)

lemma wire_138 [wire]: "sub py_ReleaseTemplateRead (erase [''phases'', ''gates''] ReleaseTemplateResponse)"
  by (simp add: wire wire_eval ReleaseTemplateResponse_def py_ReleaseTemplateRead_def cong: into_target)

lemma wire_139 [wire]: "sub py_RollbackPlanRead (erase [] RollbackPlanResponse)"
  by (simp add: wire wire_eval RollbackPlanResponse_def py_RollbackPlanRead_def cong: into_target)

lemma wire_140 [wire]: "sub py_RollbackAuthorisationRead (erase [] RollbackAuthorisationResponse)"
  by (simp add: wire wire_eval RollbackAuthorisationResponse_def py_RollbackAuthorisationRead_def cong: into_target)

lemma wire_141 [wire]: "sub py_RehearsalRead (erase [] RehearsalResponse)"
  by (simp add: wire wire_eval RehearsalResponse_def RehearsalState_def py_RehearsalRead_def cong: into_target)

lemma wire_142 [wire]: "sub py_RollbackPolicyRead (erase [] RollbackPolicy)"
  by (simp add: wire wire_eval RollbackPolicy_def py_RollbackPolicyRead_def cong: into_target)

lemma wire_143 [wire]: "sub py_RunbookPlanRead (erase [] RunbookPlanRead)"
  by (simp add: wire wire_eval DeployPattern_def PlanState_def RunbookPlanRead_def py_RunbookPlanRead_def cong:
    into_target)

lemma wire_144 [wire]: "sub py_RunbookTaskRead (erase [] RunbookTaskRead)"
  by (simp add: wire wire_eval RunbookTaskRead_def TaskKind_def TaskStatus_def py_RunbookTaskRead_def cong:
    into_target)

lemma wire_145 [wire]: "sub py_RunbookRead (erase [] RunbookRead)"
  by (simp add: wire wire_eval RunbookRead_def py_RunbookRead_def cong: into_target)

lemma wire_146 [wire]: "sub py_RunbookTaskEventRead (erase [] RunbookTaskEventRead)"
  by (simp add: wire wire_eval RunbookTaskEventRead_def TaskStatus_def py_RunbookTaskEventRead_def cong:
    into_target)

lemma wire_147 [wire]: "sub py_ScopeChangeKindRuleRead (erase [] ScopeChangeKindRuleResponse)"
  by (simp add: wire wire_eval ScopeChangeKindRuleResponse_def py_ScopeChangeKindRuleRead_def cong: into_target)

lemma wire_148 [wire]: "sub py_SystemResponse (erase [] SystemResponse)"
  by (simp add: wire wire_eval SystemResponse_def py_SystemResponse_def cong: into_target)

lemma wire_149 [wire]: "sub py_SubSystemResponse (erase [] SubSystemResponse)"
  by (simp add: wire wire_eval SubSystemResponse_def py_SubSystemResponse_def cong: into_target)

lemma wire_150 [wire]: "sub py_UserGroupResponse (erase [] UserGroupResponse)"
  by (simp add: wire wire_eval UserGroupResponse_def py_UserGroupResponse_def cong: into_target)

lemma wire_151 [wire]: "sub py_UserGroupMemberResponse (erase [] UserGroupMemberResponse)"
  by (simp add: wire wire_eval UserGroupMemberResponse_def py_UserGroupMemberResponse_def cong: into_target)

lemma wire_152 [wire]: "sub py_ImportError (erase [] ImportError)"
  by (simp add: wire wire_eval ImportError_def py_ImportError_def cong: into_target)

lemma wire_153 [wire]: "sub py_ImportResult (erase [] ImportResult)"
  by (simp add: wire wire_eval ImportResult_def py_ImportResult_def cong: into_target)

definition admin_responses :: "(string \<times> string \<times> ts \<times> ts) list" where
  "admin_responses =
     [(''adminService.listTenants'', ''admin.list_tenants'', Arr py_TenantResponse, erase [] (Arr TenantResponse)),
      (''adminService.createTenant'', ''admin.create_tenant'', py_TenantResponse, erase [] TenantResponse),
      (''adminService.getTenant'', ''admin.get_tenant'', py_TenantResponse, erase [] TenantResponse),
      (''adminService.updateTenant'', ''admin.update_tenant'', py_TenantResponse, erase [] TenantResponse),
      (''adminService.disableTenant'', ''admin.disable_tenant'', py_TenantResponse, erase [] TenantResponse),
      (''adminService.listTenantUsers'', ''admin.list_tenant_users'', Arr py_UserResponse, erase [] (Arr
        UserResponse)),
      (''adminService.createTenantUser'', ''admin.create_tenant_user'', py_UserResponse, erase [] UserResponse),
      (''adminService.updateTenantUser'', ''admin.update_tenant_user'', py_UserResponse, erase [] UserResponse),
      (''adminService.setTenantUserRole'', ''admin.set_tenant_user_role'', py_UserResponse, erase [] UserResponse),
      (''adminService.deactivateTenantUser'', ''admin.deactivate_tenant_user'', py_UserResponse, erase []
        UserResponse),
      (''adminService.reactivateTenantUser'', ''admin.reactivate_tenant_user'', py_UserResponse, erase []
        UserResponse),
      (''adminService.resetUserPassword'', ''admin.reset_user_password'', py_UserResponse, erase [] UserResponse),
      (''adminService.signInAsTenant'', ''admin.sign_in_as_tenant'', py_ImpersonationToken, erase [] (Obj [
     req ''access_token'' Str,
     req ''token_type'' Str,
     req ''target_tenant'' TenantResponse]))]"

lemma admin_responses_listTenants: "sub (Arr py_TenantResponse) (erase [] (Arr TenantResponse))"
  by (simp add: wire wire_eval  cong: into_target)

lemma admin_responses_createTenant: "sub py_TenantResponse (erase [] TenantResponse)"
  by (simp add: wire wire_eval  cong: into_target)

lemma admin_responses_listTenantUsers: "sub (Arr py_UserResponse) (erase [] (Arr UserResponse))"
  by (simp add: wire wire_eval  cong: into_target)

lemma admin_responses_createTenantUser: "sub py_UserResponse (erase [] UserResponse)"
  by (simp add: wire wire_eval  cong: into_target)

lemma admin_responses_signInAsTenant: "sub py_ImpersonationToken (erase [] (Obj [
     req ''access_token'' Str,
     req ''token_type'' Str,
     req ''target_tenant'' TenantResponse]))"
  by (simp add: wire wire_eval py_ImpersonationToken_def cong: into_target)

lemma admin_responses_wired: "list_all (\<lambda>w. sub (fst (snd (snd w))) (snd (snd (snd w)))) admin_responses"
  by (simp only: admin_responses_def list.pred_inject fst_conv snd_conv simp_thms admin_responses_listTenants
    admin_responses_createTenant admin_responses_listTenantUsers admin_responses_createTenantUser
      admin_responses_signInAsTenant)

definition agreementGap_responses :: "(string \<times> string \<times> ts \<times> ts) list" where
  "agreementGap_responses =
     [(''agreementGapService.ackGap'', ''bookings.ack_agreement_gap'', py_AgreementGapAckRead, erase []
       AgreementGapAckRead_t)]"

lemma agreementGap_responses_ackGap: "sub py_AgreementGapAckRead (erase [] AgreementGapAckRead_t)"
  by (simp add: wire wire_eval  cong: into_target)

lemma agreementGap_responses_wired: "list_all (\<lambda>w. sub (fst (snd (snd w))) (snd (snd (snd w))))
  agreementGap_responses"
  by (simp only: agreementGap_responses_def list.pred_inject fst_conv snd_conv simp_thms
    agreementGap_responses_ackGap)

definition apiKey_responses :: "(string \<times> string \<times> ts \<times> ts) list" where
  "apiKey_responses =
     [(''apiKeyService.list'', ''api_keys.list_keys'', Arr py_ApiKeyRead, erase [] (Arr ApiKey)),
      (''apiKeyService.create'', ''api_keys.create_key'', py_ApiKeyCreated, erase [] ApiKeyCreated)]"

lemma apiKey_responses_list: "sub (Arr py_ApiKeyRead) (erase [] (Arr ApiKey))"
  by (simp add: wire wire_eval  cong: into_target)

lemma apiKey_responses_create: "sub py_ApiKeyCreated (erase [] ApiKeyCreated)"
  by (simp add: wire wire_eval  cong: into_target)

lemma apiKey_responses_wired: "list_all (\<lambda>w. sub (fst (snd (snd w))) (snd (snd (snd w)))) apiKey_responses"
  by (simp only: apiKey_responses_def list.pred_inject fst_conv snd_conv simp_thms apiKey_responses_list
    apiKey_responses_create)

definition bookingLifecycle_responses :: "(string \<times> string \<times> ts \<times> ts) list" where
  "bookingLifecycle_responses =
     [(''bookingLifecycleService.listTemplates'', ''booking_lifecycle.list_lifecycle_templates'', Arr
       py_LifecycleTemplateResponse, erase [''definition''] (Arr BookingLifecycleTemplate_t)),
      (''bookingLifecycleService.getTemplate'', ''booking_lifecycle.get_lifecycle_template'',
        py_LifecycleTemplateResponse, erase [''definition''] BookingLifecycleTemplate_t),
      (''bookingLifecycleService.createTemplate'', ''booking_lifecycle.create_lifecycle_template'',
        py_LifecycleTemplateResponse, erase [''definition''] BookingLifecycleTemplate_t),
      (''bookingLifecycleService.updateTemplate'', ''booking_lifecycle.update_lifecycle_template'',
        py_LifecycleTemplateResponse, erase [''definition''] BookingLifecycleTemplate_t),
      (''bookingLifecycleService.copyTemplate'', ''booking_lifecycle.copy_lifecycle_template'',
        py_LifecycleTemplateResponse, erase [''definition''] BookingLifecycleTemplate_t),
      (''bookingLifecycleService.listBookingTypes'', ''booking_lifecycle.list_booking_types'', Arr
        py_BookingTypeResponse, erase [] (Arr BookingTypeRecord)),
      (''bookingLifecycleService.getBookingType'', ''booking_lifecycle.get_booking_type'', py_BookingTypeResponse,
        erase [] BookingTypeRecord),
      (''bookingLifecycleService.createBookingType'', ''booking_lifecycle.create_booking_type'',
        py_BookingTypeResponse, erase [] BookingTypeRecord),
      (''bookingLifecycleService.updateBookingType'', ''booking_lifecycle.update_booking_type'',
        py_BookingTypeResponse, erase [] BookingTypeRecord)]"

lemma bookingLifecycle_responses_listTemplates: "sub (Arr py_LifecycleTemplateResponse) (erase [''definition'']
  (Arr BookingLifecycleTemplate_t))"
  by (simp add: wire wire_eval  cong: into_target)

lemma bookingLifecycle_responses_getTemplate: "sub py_LifecycleTemplateResponse (erase [''definition'']
  BookingLifecycleTemplate_t)"
  by (simp add: wire wire_eval  cong: into_target)

lemma bookingLifecycle_responses_listBookingTypes: "sub (Arr py_BookingTypeResponse) (erase [] (Arr
  BookingTypeRecord))"
  by (simp add: wire wire_eval  cong: into_target)

lemma bookingLifecycle_responses_getBookingType: "sub py_BookingTypeResponse (erase [] BookingTypeRecord)"
  by (simp add: wire wire_eval  cong: into_target)

lemma bookingLifecycle_responses_wired: "list_all (\<lambda>w. sub (fst (snd (snd w))) (snd (snd (snd w))))
  bookingLifecycle_responses"
  by (simp only: bookingLifecycle_responses_def list.pred_inject fst_conv snd_conv simp_thms
    bookingLifecycle_responses_listTemplates bookingLifecycle_responses_getTemplate
      bookingLifecycle_responses_listBookingTypes bookingLifecycle_responses_getBookingType)

definition bookingRequest_responses :: "(string \<times> string \<times> ts \<times> ts) list" where
  "bookingRequest_responses =
     [(''bookingRequestService.list'', ''booking_requests.list_booking_requests'', Arr py_BookingRequestResponse,
       erase [] (Arr BookingRequestResponse)),
      (''bookingRequestService.get'', ''booking_requests.get_booking_request'', py_BookingRequestResponse, erase []
        BookingRequestResponse),
      (''bookingRequestService.create'', ''booking_requests.create_booking_request'',
        py_BookingRequestCreateResponse, erase [] BookingRequestCreateResponse),
      (''bookingRequestService.previewConflicts'', ''booking_requests.preview_conflicts'',
        py_PreviewConflictsResponse, erase [] PreviewConflictsResponse),
      (''bookingRequestService.updateStandardFields'', ''booking_requests.update_request_standard_fields'',
        py_BookingRequestResponse, erase [] BookingRequestResponse),
      (''bookingRequestService.updateCustomFields'', ''booking_requests.update_request_custom_fields'',
        py_BookingRequestResponse, erase [] BookingRequestResponse),
      (''bookingRequestService.addEnvironment'', ''booking_requests.add_environment_to_request'',
        py_EnvBookingSummary, erase [] EnvBookingSummary_t)]"

lemma bookingRequest_responses_list: "sub (Arr py_BookingRequestResponse) (erase [] (Arr BookingRequestResponse))"
  by (simp add: wire wire_eval  cong: into_target)

lemma bookingRequest_responses_get: "sub py_BookingRequestResponse (erase [] BookingRequestResponse)"
  by (simp add: wire wire_eval  cong: into_target)

lemma bookingRequest_responses_create: "sub py_BookingRequestCreateResponse (erase [] BookingRequestCreateResponse)"
  by (simp add: wire wire_eval  cong: into_target)

lemma bookingRequest_responses_previewConflicts: "sub py_PreviewConflictsResponse (erase []
  PreviewConflictsResponse)"
  by (simp add: wire wire_eval  cong: into_target)

lemma bookingRequest_responses_addEnvironment: "sub py_EnvBookingSummary (erase [] EnvBookingSummary_t)"
  by (simp add: wire wire_eval  cong: into_target)

lemma bookingRequest_responses_wired: "list_all (\<lambda>w. sub (fst (snd (snd w))) (snd (snd (snd w))))
  bookingRequest_responses"
  by (simp only: bookingRequest_responses_def list.pred_inject fst_conv snd_conv simp_thms
    bookingRequest_responses_list bookingRequest_responses_get bookingRequest_responses_create
      bookingRequest_responses_previewConflicts bookingRequest_responses_addEnvironment)

definition booking_responses :: "(string \<times> string \<times> ts \<times> ts) list" where
  "booking_responses =
     [(''bookingService.getHistory'', ''bookings.get_booking_history'', Arr py_BookingStatusHistoryResponse, erase
       [] (Arr BookingStatusHistory)),
      (''bookingService.getConflicts'', ''conflicts.list_conflicts'', Arr py_ConflictItem, erase [] (Arr
        ConflictItem_t)),
      (''bookingService.acknowledgeConflict'', ''conflicts.ack_conflict'', py_ConflictAckRead, erase []
        ConflictAck_t),
      (''bookingService.getReceivedFeedback'', ''conflicts.list_received_feedback'', Arr py_ReceivedFeedbackItem,
        erase [] (Arr ReceivedFeedbackItem))]"

lemma booking_responses_getHistory: "sub (Arr py_BookingStatusHistoryResponse) (erase [] (Arr
  BookingStatusHistory))"
  by (simp add: wire wire_eval  cong: into_target)

lemma booking_responses_getConflicts: "sub (Arr py_ConflictItem) (erase [] (Arr ConflictItem_t))"
  by (simp add: wire wire_eval  cong: into_target)

lemma booking_responses_acknowledgeConflict: "sub py_ConflictAckRead (erase [] ConflictAck_t)"
  by (simp add: wire wire_eval  cong: into_target)

lemma booking_responses_getReceivedFeedback: "sub (Arr py_ReceivedFeedbackItem) (erase [] (Arr
  ReceivedFeedbackItem))"
  by (simp add: wire wire_eval  cong: into_target)

lemma booking_responses_wired: "list_all (\<lambda>w. sub (fst (snd (snd w))) (snd (snd (snd w))))
  booking_responses"
  by (simp only: booking_responses_def list.pred_inject fst_conv snd_conv simp_thms booking_responses_getHistory
    booking_responses_getConflicts booking_responses_acknowledgeConflict booking_responses_getReceivedFeedback)

definition build_responses :: "(string \<times> string \<times> ts \<times> ts) list" where
  "build_responses =
     [(''buildService.list'', ''builds.list_builds'', Arr py_BuildRead, erase [] (Arr Build)),
      (''buildService.get'', ''builds.get_build'', py_BuildRead, erase [] Build)]"

lemma build_responses_list: "sub (Arr py_BuildRead) (erase [] (Arr Build))"
  by (simp add: wire wire_eval  cong: into_target)

lemma build_responses_get: "sub py_BuildRead (erase [] Build)"
  by (simp add: wire wire_eval  cong: into_target)

lemma build_responses_wired: "list_all (\<lambda>w. sub (fst (snd (snd w))) (snd (snd (snd w)))) build_responses"
  by (simp only: build_responses_def list.pred_inject fst_conv snd_conv simp_thms build_responses_list
    build_responses_get)

definition changeRequest_responses :: "(string \<times> string \<times> ts \<times> ts) list" where
  "changeRequest_responses =
     [(''changeRequestService.list'', ''change_requests.list_change_requests'', Arr py_ChangeRequestResponse, erase
       [] (Arr ChangeRequestResponse)),
      (''changeRequestService.get'', ''change_requests.get_change_request_detail'', py_ChangeRequestDetailResponse,
        erase [] ChangeRequestDetailResponse),
      (''changeRequestService.create'', ''change_requests.create_change_request'', py_ChangeRequestResponse, erase
        [] ChangeRequestResponse),
      (''changeRequestService.update'', ''change_requests.update_change_request'', py_ChangeRequestResponse, erase
        [] ChangeRequestResponse),
      (''changeRequestService.transition'', ''change_requests.transition_change_request'',
        py_ChangeRequestResponse, erase [] ChangeRequestResponse),
      (''changeRequestService.previewOutageConflicts'', ''change_requests.preview_outage_conflicts'',
        py_PreviewOutageConflictsResponse, erase [] PreviewOutageConflictsResponse)]"

lemma changeRequest_responses_list: "sub (Arr py_ChangeRequestResponse) (erase [] (Arr ChangeRequestResponse))"
  by (simp add: wire wire_eval  cong: into_target)

lemma changeRequest_responses_get: "sub py_ChangeRequestDetailResponse (erase [] ChangeRequestDetailResponse)"
  by (simp add: wire wire_eval  cong: into_target)

lemma changeRequest_responses_create: "sub py_ChangeRequestResponse (erase [] ChangeRequestResponse)"
  by (simp add: wire wire_eval  cong: into_target)

lemma changeRequest_responses_previewOutageConflicts: "sub py_PreviewOutageConflictsResponse (erase []
  PreviewOutageConflictsResponse)"
  by (simp add: wire wire_eval  cong: into_target)

lemma changeRequest_responses_wired: "list_all (\<lambda>w. sub (fst (snd (snd w))) (snd (snd (snd w))))
  changeRequest_responses"
  by (simp only: changeRequest_responses_def list.pred_inject fst_conv snd_conv simp_thms
    changeRequest_responses_list changeRequest_responses_get changeRequest_responses_create
      changeRequest_responses_previewOutageConflicts)

definition closeout_responses :: "(string \<times> string \<times> ts \<times> ts) list" where
  "closeout_responses =
     [(''closeoutService.get'', ''release_closeout.read_closeout'', py_CloseoutRead, erase [] CloseoutRead),
      (''closeoutService.declareStable'', ''release_closeout.declare_stable'', py_ReleaseRead, erase []
        ReleaseResponse_t),
      (''closeoutService.withdrawStable'', ''release_closeout.withdraw_stable'', py_ReleaseRead, erase []
        ReleaseResponse_t),
      (''closeoutService.confirmHandover'', ''release_closeout.confirm_handover'', py_ReleaseRead, erase []
        ReleaseResponse_t),
      (''closeoutService.withdrawHandover'', ''release_closeout.withdraw_handover'', py_ReleaseRead, erase []
        ReleaseResponse_t)]"

lemma closeout_responses_get: "sub py_CloseoutRead (erase [] CloseoutRead)"
  by (simp add: wire wire_eval  cong: into_target)

lemma closeout_responses_declareStable: "sub py_ReleaseRead (erase [] ReleaseResponse_t)"
  by (simp add: wire wire_eval  cong: into_target)

lemma closeout_responses_wired: "list_all (\<lambda>w. sub (fst (snd (snd w))) (snd (snd (snd w))))
  closeout_responses"
  by (simp only: closeout_responses_def list.pred_inject fst_conv snd_conv simp_thms closeout_responses_get
    closeout_responses_declareStable)

definition componentType_responses :: "(string \<times> string \<times> ts \<times> ts) list" where
  "componentType_responses =
     [(''componentTypeService.listTypes'', ''component_types.list_component_types'', Arr
       py_ComponentTypeDefinitionResponse, erase [] (Arr ComponentTypeDefinitionResponse)),
      (''componentTypeService.getType'', ''component_types.get_component_type'',
        py_ComponentTypeDefinitionResponse, erase [] ComponentTypeDefinitionResponse),
      (''componentTypeService.createType'', ''component_types.create_component_type'',
        py_ComponentTypeDefinitionResponse, erase [] ComponentTypeDefinitionResponse),
      (''componentTypeService.updateType'', ''component_types.update_component_type'',
        py_ComponentTypeDefinitionResponse, erase [] ComponentTypeDefinitionResponse)]"

lemma componentType_responses_listTypes: "sub (Arr py_ComponentTypeDefinitionResponse) (erase [] (Arr
  ComponentTypeDefinitionResponse))"
  by (simp add: wire wire_eval  cong: into_target)

lemma componentType_responses_getType: "sub py_ComponentTypeDefinitionResponse (erase []
  ComponentTypeDefinitionResponse)"
  by (simp add: wire wire_eval  cong: into_target)

lemma componentType_responses_wired: "list_all (\<lambda>w. sub (fst (snd (snd w))) (snd (snd (snd w))))
  componentType_responses"
  by (simp only: componentType_responses_def list.pred_inject fst_conv snd_conv simp_thms
    componentType_responses_listTypes componentType_responses_getType)

definition contention_responses :: "(string \<times> string \<times> ts \<times> ts) list" where
  "contention_responses =
     [(''contentionService.escalate'', ''contentions.escalate_contention'', py_EscalationRead, erase []
       Escalation_t),
      (''contentionService.decide'', ''contentions.decide_contention'', py_EscalationRead, erase [] Escalation_t),
      (''contentionService.list'', ''contentions.list_contention_escalations'', Arr py_EscalationRead, erase []
        (Arr Escalation_t))]"

lemma contention_responses_escalate: "sub py_EscalationRead (erase [] Escalation_t)"
  by (simp add: wire wire_eval  cong: into_target)

lemma contention_responses_list: "sub (Arr py_EscalationRead) (erase [] (Arr Escalation_t))"
  by (simp add: wire wire_eval  cong: into_target)

lemma contention_responses_wired: "list_all (\<lambda>w. sub (fst (snd (snd w))) (snd (snd (snd w))))
  contention_responses"
  by (simp only: contention_responses_def list.pred_inject fst_conv snd_conv simp_thms
    contention_responses_escalate contention_responses_list)

definition customField_responses :: "(string \<times> string \<times> ts \<times> ts) list" where
  "customField_responses =
     [(''customFieldService.listDefinitions'', ''tenant_admin_fields.list_fields'', Arr
       py_CustomFieldDefinitionResponse, erase [''lifecycle_states''] (Arr CustomFieldDefinition)),
      (''customFieldService.createDefinition'', ''tenant_admin_fields.create_field'',
        py_CustomFieldDefinitionResponse, erase [''lifecycle_states''] CustomFieldDefinition),
      (''customFieldService.updateDefinition'', ''tenant_admin_fields.update_field'',
        py_CustomFieldDefinitionResponse, erase [''lifecycle_states''] CustomFieldDefinition)]"

lemma customField_responses_listDefinitions: "sub (Arr py_CustomFieldDefinitionResponse) (erase
  [''lifecycle_states''] (Arr CustomFieldDefinition))"
  by (simp add: wire wire_eval  cong: into_target)

lemma customField_responses_createDefinition: "sub py_CustomFieldDefinitionResponse (erase [''lifecycle_states'']
  CustomFieldDefinition)"
  by (simp add: wire wire_eval  cong: into_target)

lemma customField_responses_wired: "list_all (\<lambda>w. sub (fst (snd (snd w))) (snd (snd (snd w))))
  customField_responses"
  by (simp only: customField_responses_def list.pred_inject fst_conv snd_conv simp_thms
    customField_responses_listDefinitions customField_responses_createDefinition)

definition decommission_responses :: "(string \<times> string \<times> ts \<times> ts) list" where
  "decommission_responses =
     [(''decommissionService.getForEnvironment'', ''decommissions.get_decommission'', nullable py_DecommissionRead,
       erase [] (nullable Decommission_t)),
      (''decommissionService.initiate'', ''decommissions.initiate_decommission'', py_DecommissionRead, erase []
        Decommission_t),
      (''decommissionService.requestExtension'', ''decommissions.request_decommission_extension'',
        py_DecommissionRead, erase [] Decommission_t),
      (''decommissionService.decideExtension'', ''decommissions.decide_decommission_extension'',
        py_DecommissionRead, erase [] Decommission_t),
      (''decommissionService.signAttestation'', ''decommissions.sign_decommission_attestation'',
        py_AttestationRead, erase [] Attestation_t),
      (''decommissionService.tearDown'', ''decommissions.tear_down_decommission'', py_TeardownRead, erase []
        TeardownResult_t),
      (''decommissionService.cancel'', ''decommissions.cancel_decommission'', py_DecommissionRead, erase []
        Decommission_t),
      (''decommissionService.listSteps'', ''tenant_admin_fields.list_decommission_steps'', Arr
        py_DecommissionStepRead, erase [] (Arr DecommissionStep_t)),
      (''decommissionService.createStep'', ''tenant_admin_fields.create_decommission_step'',
        py_DecommissionStepRead, erase [] DecommissionStep_t),
      (''decommissionService.updateStep'', ''tenant_admin_fields.update_decommission_step'',
        py_DecommissionStepRead, erase [] DecommissionStep_t),
      (''decommissionService.listWorklist'', ''decommissions.list_decommission_worklist'', Arr
        py_DecommissionWorklistRow, erase [] (Arr DecommissionWorklistRow_t))]"

lemma decommission_responses_getForEnvironment: "sub (nullable py_DecommissionRead) (erase [] (nullable
  Decommission_t))"
  by (simp add: wire wire_eval  cong: into_target)

lemma decommission_responses_initiate: "sub py_DecommissionRead (erase [] Decommission_t)"
  by (simp add: wire wire_eval  cong: into_target)

lemma decommission_responses_signAttestation: "sub py_AttestationRead (erase [] Attestation_t)"
  by (simp add: wire wire_eval  cong: into_target)

lemma decommission_responses_tearDown: "sub py_TeardownRead (erase [] TeardownResult_t)"
  by (simp add: wire wire_eval  cong: into_target)

lemma decommission_responses_listSteps: "sub (Arr py_DecommissionStepRead) (erase [] (Arr DecommissionStep_t))"
  by (simp add: wire wire_eval  cong: into_target)

lemma decommission_responses_createStep: "sub py_DecommissionStepRead (erase [] DecommissionStep_t)"
  by (simp add: wire wire_eval  cong: into_target)

lemma decommission_responses_listWorklist: "sub (Arr py_DecommissionWorklistRow) (erase [] (Arr
  DecommissionWorklistRow_t))"
  by (simp add: wire wire_eval  cong: into_target)

lemma decommission_responses_wired: "list_all (\<lambda>w. sub (fst (snd (snd w))) (snd (snd (snd w))))
  decommission_responses"
  by (simp only: decommission_responses_def list.pred_inject fst_conv snd_conv simp_thms
    decommission_responses_getForEnvironment decommission_responses_initiate decommission_responses_signAttestation
      decommission_responses_tearDown decommission_responses_listSteps decommission_responses_createStep
        decommission_responses_listWorklist)

definition dependency_responses :: "(string \<times> string \<times> ts \<times> ts) list" where
  "dependency_responses =
     [(''dependencyService.verifyEnvironment'', ''environments.verify_environment'', py_VerifyResponse, erase []
       VerifyResponse)]"

lemma dependency_responses_verifyEnvironment: "sub py_VerifyResponse (erase [] VerifyResponse)"
  by (simp add: wire wire_eval  cong: into_target)

lemma dependency_responses_wired: "list_all (\<lambda>w. sub (fst (snd (snd w))) (snd (snd (snd w))))
  dependency_responses"
  by (simp only: dependency_responses_def list.pred_inject fst_conv snd_conv simp_thms
    dependency_responses_verifyEnvironment)

definition deployment_responses :: "(string \<times> string \<times> ts \<times> ts) list" where
  "deployment_responses =
     [(''deploymentService.list'', ''deployments.list_deployments'', Arr py_DeploymentRead, erase [] (Arr
       Deployment)),
      (''deploymentService.get'', ''deployments.get_deployment'', py_DeploymentRead, erase [] Deployment),
      (''deploymentService.linkChange'', ''deployments.link_change'', py_DeploymentRead, erase [] Deployment),
      (''deploymentService.forEnvironment'', ''deployments.list_environment_deployments'', Arr py_DeploymentRead,
        erase [] (Arr Deployment))]"

lemma deployment_responses_list: "sub (Arr py_DeploymentRead) (erase [] (Arr Deployment))"
  by (simp add: wire wire_eval  cong: into_target)

lemma deployment_responses_get: "sub py_DeploymentRead (erase [] Deployment)"
  by (simp add: wire wire_eval  cong: into_target)

lemma deployment_responses_wired: "list_all (\<lambda>w. sub (fst (snd (snd w))) (snd (snd (snd w))))
  deployment_responses"
  by (simp only: deployment_responses_def list.pred_inject fst_conv snd_conv simp_thms deployment_responses_list
    deployment_responses_get)

definition enterpriseReport_responses :: "(string \<times> string \<times> ts \<times> ts) list" where
  "enterpriseReport_responses =
     [(''enterpriseReportService.generate'', ''enterprise_rollup.enterprise_report'', py_EnterpriseReportRead,
       erase [] ApiEnterpriseReport)]"

lemma enterpriseReport_responses_generate: "sub py_EnterpriseReportRead (erase [] ApiEnterpriseReport)"
  by (simp add: wire wire_eval  cong: into_target)

lemma enterpriseReport_responses_wired: "list_all (\<lambda>w. sub (fst (snd (snd w))) (snd (snd (snd w))))
  enterpriseReport_responses"
  by (simp only: enterpriseReport_responses_def list.pred_inject fst_conv snd_conv simp_thms
    enterpriseReport_responses_generate)

definition enterpriseRollup_responses :: "(string \<times> string \<times> ts \<times> ts) list" where
  "enterpriseRollup_responses =
     [(''enterpriseRollupService.timeline'', ''enterprise_rollup.timeline_rollup'', py_TimelineRollupRead, erase []
       ApiTimelineRollup)]"

lemma enterpriseRollup_responses_timeline: "sub py_TimelineRollupRead (erase [] ApiTimelineRollup)"
  by (simp add: wire wire_eval  cong: into_target)

lemma enterpriseRollup_responses_wired: "list_all (\<lambda>w. sub (fst (snd (snd w))) (snd (snd (snd w))))
  enterpriseRollup_responses"
  by (simp only: enterpriseRollup_responses_def list.pred_inject fst_conv snd_conv simp_thms
    enterpriseRollup_responses_timeline)

definition environmentComparison_responses :: "(string \<times> string \<times> ts \<times> ts) list" where
  "environmentComparison_responses =
     [(''environmentComparisonService.compare'', ''environments.compare_environments_endpoint'',
       py_EnvironmentComparisonResponse, erase [] EnvironmentComparison)]"

lemma environmentComparison_responses_compare: "sub py_EnvironmentComparisonResponse (erase []
  EnvironmentComparison)"
  by (simp add: wire wire_eval  cong: into_target)

lemma environmentComparison_responses_wired: "list_all (\<lambda>w. sub (fst (snd (snd w))) (snd (snd (snd w))))
  environmentComparison_responses"
  by (simp only: environmentComparison_responses_def list.pred_inject fst_conv snd_conv simp_thms
    environmentComparison_responses_compare)

definition environmentGroup_responses :: "(string \<times> string \<times> ts \<times> ts) list" where
  "environmentGroup_responses =
     [(''environmentGroupService.listGroups'', ''environment_groups.list_environment_groups'', Arr
       py_EnvironmentGroupResponse, erase [] (Arr EnvironmentGroupResponse)),
      (''environmentGroupService.getGroup'', ''environment_groups.get_environment_group'',
        py_EnvironmentGroupResponse, erase [] EnvironmentGroupResponse),
      (''environmentGroupService.createGroup'', ''environment_groups.create_environment_group'',
        py_EnvironmentGroupResponse, erase [] EnvironmentGroupResponse),
      (''environmentGroupService.updateGroup'', ''environment_groups.update_environment_group'',
        py_EnvironmentGroupResponse, erase [] EnvironmentGroupResponse),
      (''environmentGroupService.listMembers'', ''environment_groups.list_group_members'', Arr py_MemberResponse,
        erase [] (Arr MemberResponse)),
      (''environmentGroupService.listGroupsForEnvironment'',
        ''environments.list_environment_groups_for_environment'', Arr py_MemberResponse, erase [] (Arr
          MemberResponse)),
      (''environmentGroupService.addMember'', ''environment_groups.add_group_member'', py_MemberResponse, erase []
        MemberResponse)]"

lemma environmentGroup_responses_listGroups: "sub (Arr py_EnvironmentGroupResponse) (erase [] (Arr
  EnvironmentGroupResponse))"
  by (simp add: wire wire_eval  cong: into_target)

lemma environmentGroup_responses_getGroup: "sub py_EnvironmentGroupResponse (erase [] EnvironmentGroupResponse)"
  by (simp add: wire wire_eval  cong: into_target)

lemma environmentGroup_responses_listMembers: "sub (Arr py_MemberResponse) (erase [] (Arr MemberResponse))"
  by (simp add: wire wire_eval  cong: into_target)

lemma environmentGroup_responses_addMember: "sub py_MemberResponse (erase [] MemberResponse)"
  by (simp add: wire wire_eval  cong: into_target)

lemma environmentGroup_responses_wired: "list_all (\<lambda>w. sub (fst (snd (snd w))) (snd (snd (snd w))))
  environmentGroup_responses"
  by (simp only: environmentGroup_responses_def list.pred_inject fst_conv snd_conv simp_thms
    environmentGroup_responses_listGroups environmentGroup_responses_getGroup
      environmentGroup_responses_listMembers environmentGroup_responses_addMember)

definition environmentHealth_responses :: "(string \<times> string \<times> ts \<times> ts) list" where
  "environmentHealth_responses =
     [(''environmentHealthService.overview'', ''environment_health.health_overview'', Arr
       py_EnvironmentHealthOverviewRow, erase [] (Arr EnvironmentHealthOverviewRow)),
      (''environmentHealthService.history'', ''environment_health.health_history'', Arr py_HealthSample, erase []
        (Arr HealthSample))]"

lemma environmentHealth_responses_overview: "sub (Arr py_EnvironmentHealthOverviewRow) (erase [] (Arr
  EnvironmentHealthOverviewRow))"
  by (simp add: wire wire_eval  cong: into_target)

lemma environmentHealth_responses_history: "sub (Arr py_HealthSample) (erase [] (Arr HealthSample))"
  by (simp add: wire wire_eval  cong: into_target)

lemma environmentHealth_responses_wired: "list_all (\<lambda>w. sub (fst (snd (snd w))) (snd (snd (snd w))))
  environmentHealth_responses"
  by (simp only: environmentHealth_responses_def list.pred_inject fst_conv snd_conv simp_thms
    environmentHealth_responses_overview environmentHealth_responses_history)

definition environmentLifecyclePolicy_responses :: "(string \<times> string \<times> ts \<times> ts) list" where
  "environmentLifecyclePolicy_responses =
     [(''environmentLifecyclePolicyService.get'', ''tenant_admin_fields.get_environment_lifecycle_policy'',
       py_EnvironmentLifecyclePolicyRead, erase [] EnvironmentLifecyclePolicy),
      (''environmentLifecyclePolicyService.save'', ''tenant_admin_fields.put_environment_lifecycle_policy'',
        py_EnvironmentLifecyclePolicyRead, erase [] EnvironmentLifecyclePolicy)]"

lemma environmentLifecyclePolicy_responses_get: "sub py_EnvironmentLifecyclePolicyRead (erase []
  EnvironmentLifecyclePolicy)"
  by (simp add: wire wire_eval  cong: into_target)

lemma environmentLifecyclePolicy_responses_wired: "list_all (\<lambda>w. sub (fst (snd (snd w))) (snd (snd (snd
  w)))) environmentLifecyclePolicy_responses"
  by (simp only: environmentLifecyclePolicy_responses_def list.pred_inject fst_conv snd_conv simp_thms
    environmentLifecyclePolicy_responses_get)

definition environmentNamingPolicy_responses :: "(string \<times> string \<times> ts \<times> ts) list" where
  "environmentNamingPolicy_responses =
     [(''environmentNamingPolicyService.get'', ''tenant_admin_fields.get_environment_naming_policy'',
       py_EnvironmentNamingPolicyRead, erase [] EnvironmentNamingPolicy),
      (''environmentNamingPolicyService.save'', ''tenant_admin_fields.put_environment_naming_policy'',
        py_EnvironmentNamingPolicyRead, erase [] EnvironmentNamingPolicy),
      (''environmentNamingPolicyService.preview'', ''tenant_admin_fields.preview_environment_naming_policy'',
        py_EnvironmentNamingPolicyPreview, erase [] EnvironmentNamingPolicyPreview)]"

lemma environmentNamingPolicy_responses_get: "sub py_EnvironmentNamingPolicyRead (erase [] EnvironmentNamingPolicy)"
  by (simp add: wire wire_eval  cong: into_target)

lemma environmentNamingPolicy_responses_preview: "sub py_EnvironmentNamingPolicyPreview (erase []
  EnvironmentNamingPolicyPreview)"
  by (simp add: wire wire_eval  cong: into_target)

lemma environmentNamingPolicy_responses_wired: "list_all (\<lambda>w. sub (fst (snd (snd w))) (snd (snd (snd w))))
  environmentNamingPolicy_responses"
  by (simp only: environmentNamingPolicy_responses_def list.pred_inject fst_conv snd_conv simp_thms
    environmentNamingPolicy_responses_get environmentNamingPolicy_responses_preview)

definition environmentOperatingHours_responses :: "(string \<times> string \<times> ts \<times> ts) list" where
  "environmentOperatingHours_responses =
     [(''environmentOperatingHoursService.getConfig'', ''environment_operating_hours.get_operating_hours'',
       py_OperatingHoursConfigResponse, erase [] OperatingHoursConfig),
      (''environmentOperatingHoursService.putConfig'', ''environment_operating_hours.put_operating_hours'',
        py_OperatingHoursConfigResponse, erase [] OperatingHoursConfig),
      (''environmentOperatingHoursService.utilization'',
        ''environment_operating_hours.get_environment_utilization'', py_EnvironmentUtilization, erase []
          EnvironmentUtilization),
      (''environmentOperatingHoursService.overview'', ''metrics.get_environments_utilization'',
        py_UtilizationOverview, erase [] UtilizationOverview)]"

lemma environmentOperatingHours_responses_getConfig: "sub py_OperatingHoursConfigResponse (erase []
  OperatingHoursConfig)"
  by (simp add: wire wire_eval  cong: into_target)

lemma environmentOperatingHours_responses_utilization: "sub py_EnvironmentUtilization (erase []
  EnvironmentUtilization)"
  by (simp add: wire wire_eval  cong: into_target)

lemma environmentOperatingHours_responses_overview: "sub py_UtilizationOverview (erase [] UtilizationOverview)"
  by (simp add: wire wire_eval  cong: into_target)

lemma environmentOperatingHours_responses_wired: "list_all (\<lambda>w. sub (fst (snd (snd w))) (snd (snd (snd
  w)))) environmentOperatingHours_responses"
  by (simp only: environmentOperatingHours_responses_def list.pred_inject fst_conv snd_conv simp_thms
    environmentOperatingHours_responses_getConfig environmentOperatingHours_responses_utilization
      environmentOperatingHours_responses_overview)

definition environmentRequest_responses :: "(string \<times> string \<times> ts \<times> ts) list" where
  "environmentRequest_responses =
     [(''environmentRequestService.listRequests'', ''environment_requests.list_environment_requests'', Arr
       py_EnvironmentRequestResponse, erase [] (Arr EnvironmentRequestResponse)),
      (''environmentRequestService.getRequest'', ''environment_requests.get_environment_request'',
        py_EnvironmentRequestResponse, erase [] EnvironmentRequestResponse),
      (''environmentRequestService.createRequest'', ''environment_requests.create_environment_request'',
        py_EnvironmentRequestResponse, erase [] EnvironmentRequestResponse),
      (''environmentRequestService.updateRequest'', ''environment_requests.update_environment_request'',
        py_EnvironmentRequestResponse, erase [] EnvironmentRequestResponse),
      (''environmentRequestService.transition'', ''environment_requests.transition_environment_request'',
        py_EnvironmentRequestResponse, erase [] EnvironmentRequestResponse),
      (''environmentRequestService.getWelcomePack'', ''environment_requests.get_welcome_pack'',
        py_WelcomePackResponse, erase [''access'', ''support'', ''caveats'', ''offboarding''] WelcomePack),
      (''environmentRequestService.updateHandover'', ''environments.update_environment_handover'',
        py_EnvironmentResponse, erase [] EnvironmentResponse_t)]"

lemma environmentRequest_responses_listRequests: "sub (Arr py_EnvironmentRequestResponse) (erase [] (Arr
  EnvironmentRequestResponse))"
  by (simp add: wire wire_eval  cong: into_target)

lemma environmentRequest_responses_getRequest: "sub py_EnvironmentRequestResponse (erase []
  EnvironmentRequestResponse)"
  by (simp add: wire wire_eval  cong: into_target)

lemma environmentRequest_responses_getWelcomePack: "sub py_WelcomePackResponse (erase [''access'', ''support'',
  ''caveats'', ''offboarding''] WelcomePack)"
  by (simp add: wire wire_eval  cong: into_target)

lemma environmentRequest_responses_updateHandover: "sub py_EnvironmentResponse (erase [] EnvironmentResponse_t)"
  by (simp add: wire wire_eval  cong: into_target)

lemma environmentRequest_responses_wired: "list_all (\<lambda>w. sub (fst (snd (snd w))) (snd (snd (snd w))))
  environmentRequest_responses"
  by (simp only: environmentRequest_responses_def list.pred_inject fst_conv snd_conv simp_thms
    environmentRequest_responses_listRequests environmentRequest_responses_getRequest
      environmentRequest_responses_getWelcomePack environmentRequest_responses_updateHandover)

definition environment_responses :: "(string \<times> string \<times> ts \<times> ts) list" where
  "environment_responses =
     [(''environmentService.listEnvironments'', ''environments.list_environments'', Arr py_EnvironmentResponse,
       erase [] (Arr EnvironmentResponse_t)),
      (''environmentService.getEnvironment'', ''environments.get_environment'', py_EnvironmentResponse, erase []
        EnvironmentResponse_t),
      (''environmentService.createEnvironment'', ''environments.create_environment'', py_EnvironmentResponse, erase
        [] EnvironmentResponse_t),
      (''environmentService.updateEnvironment'', ''environments.update_environment'', py_EnvironmentResponse, erase
        [] EnvironmentResponse_t),
      (''environmentService.listSystemsInEnvironment'', ''environments.list_systems_in_environment'',
        py_EnvironmentSystemsResponse, erase [] EnvironmentSystemsResponse_t),
      (''environmentService.addSystemToEnvironment'', ''environments.add_system_to_environment'',
        py_EnvironmentSystemResponse, erase [] EnvironmentSystemResponse_t),
      (''environmentService.updateSystemInEnvironment'', ''environments.update_system_in_environment'',
        py_EnvironmentSystemResponse, erase [] EnvironmentSystemResponse_t)]"

lemma environment_responses_listEnvironments: "sub (Arr py_EnvironmentResponse) (erase [] (Arr
  EnvironmentResponse_t))"
  by (simp add: wire wire_eval  cong: into_target)

lemma environment_responses_getEnvironment: "sub py_EnvironmentResponse (erase [] EnvironmentResponse_t)"
  by (simp add: wire wire_eval  cong: into_target)

lemma environment_responses_listSystemsInEnvironment: "sub py_EnvironmentSystemsResponse (erase []
  EnvironmentSystemsResponse_t)"
  by (simp add: wire wire_eval  cong: into_target)

lemma environment_responses_addSystemToEnvironment: "sub py_EnvironmentSystemResponse (erase []
  EnvironmentSystemResponse_t)"
  by (simp add: wire wire_eval  cong: into_target)

lemma environment_responses_wired: "list_all (\<lambda>w. sub (fst (snd (snd w))) (snd (snd (snd w))))
  environment_responses"
  by (simp only: environment_responses_def list.pred_inject fst_conv snd_conv simp_thms
    environment_responses_listEnvironments environment_responses_getEnvironment
      environment_responses_listSystemsInEnvironment environment_responses_addSystemToEnvironment)

definition environmentTier_responses :: "(string \<times> string \<times> ts \<times> ts) list" where
  "environmentTier_responses =
     [(''environmentTierService.listTiers'', ''environment_tiers.list_environment_tiers'', Arr
       py_EnvironmentTierResponse, erase [] (Arr EnvironmentTierResponse)),
      (''environmentTierService.createTier'', ''environment_tiers.create_environment_tier'',
        py_EnvironmentTierResponse, erase [] EnvironmentTierResponse),
      (''environmentTierService.updateTier'', ''environment_tiers.update_environment_tier'',
        py_EnvironmentTierResponse, erase [] EnvironmentTierResponse)]"

lemma environmentTier_responses_listTiers: "sub (Arr py_EnvironmentTierResponse) (erase [] (Arr
  EnvironmentTierResponse))"
  by (simp add: wire wire_eval  cong: into_target)

lemma environmentTier_responses_createTier: "sub py_EnvironmentTierResponse (erase [] EnvironmentTierResponse)"
  by (simp add: wire wire_eval  cong: into_target)

lemma environmentTier_responses_wired: "list_all (\<lambda>w. sub (fst (snd (snd w))) (snd (snd (snd w))))
  environmentTier_responses"
  by (simp only: environmentTier_responses_def list.pred_inject fst_conv snd_conv simp_thms
    environmentTier_responses_listTiers environmentTier_responses_createTier)

definition gateType_responses :: "(string \<times> string \<times> ts \<times> ts) list" where
  "gateType_responses =
     [(''gateTypeService.listGateTypes'', ''gate_types.list_gate_types'', Arr py_GateTypeRead, erase [] (Arr
       GateTypeResponse)),
      (''gateTypeService.createGateType'', ''gate_types.create_gate_type'', py_GateTypeRead, erase []
        GateTypeResponse),
      (''gateTypeService.updateGateType'', ''gate_types.update_gate_type'', py_GateTypeRead, erase []
        GateTypeResponse)]"

lemma gateType_responses_listGateTypes: "sub (Arr py_GateTypeRead) (erase [] (Arr GateTypeResponse))"
  by (simp add: wire wire_eval  cong: into_target)

lemma gateType_responses_createGateType: "sub py_GateTypeRead (erase [] GateTypeResponse)"
  by (simp add: wire wire_eval  cong: into_target)

lemma gateType_responses_wired: "list_all (\<lambda>w. sub (fst (snd (snd w))) (snd (snd (snd w))))
  gateType_responses"
  by (simp only: gateType_responses_def list.pred_inject fst_conv snd_conv simp_thms
    gateType_responses_listGateTypes gateType_responses_createGateType)

definition githubIntegration_responses :: "(string \<times> string \<times> ts \<times> ts) list" where
  "githubIntegration_responses =
     [(''githubIntegrationService.status'', ''integrations_github.github_status'', py_IntegrationStatus, erase []
       GitHubStatus),
      (''githubIntegrationService.connect'', ''integrations_github.github_connect'', py_ConnectStarted, erase []
        DeviceFlowStarted)]"

lemma githubIntegration_responses_status: "sub py_IntegrationStatus (erase [] GitHubStatus)"
  by (simp add: wire wire_eval  cong: into_target)

lemma githubIntegration_responses_connect: "sub py_ConnectStarted (erase [] DeviceFlowStarted)"
  by (simp add: wire wire_eval  cong: into_target)

lemma githubIntegration_responses_wired: "list_all (\<lambda>w. sub (fst (snd (snd w))) (snd (snd (snd w))))
  githubIntegration_responses"
  by (simp only: githubIntegration_responses_def list.pred_inject fst_conv snd_conv simp_thms
    githubIntegration_responses_status githubIntegration_responses_connect)

definition goNoGo_responses :: "(string \<times> string \<times> ts \<times> ts) list" where
  "goNoGo_responses =
     [(''goNoGoService.list'', ''releases.list_go_no_go_decisions'', Arr py_GoNoGoDecisionRead, erase
       [''snapshot_blockers'', ''snapshot_warnings''] (Arr GoNoGoDecisionRead)),
      (''goNoGoService.record'', ''releases.record_go_no_go_decision'', py_GoNoGoDecisionRead, erase
        [''snapshot_blockers'', ''snapshot_warnings''] GoNoGoDecisionRead),
      (''goNoGoService.closeCondition'', ''go_no_go.close_condition'', py_GoNoGoConditionRead, erase []
        GoNoGoConditionRead),
      (''goNoGoService.listPerspectives'', ''go_no_go.list_perspectives'', Arr py_GoNoGoPerspectiveRead, erase []
        (Arr GoNoGoPerspectiveRead)),
      (''goNoGoService.createPerspective'', ''go_no_go.create_perspective'', py_GoNoGoPerspectiveRead, erase []
        GoNoGoPerspectiveRead),
      (''goNoGoService.updatePerspective'', ''go_no_go.update_perspective'', py_GoNoGoPerspectiveRead, erase []
        GoNoGoPerspectiveRead)]"

lemma goNoGo_responses_list: "sub (Arr py_GoNoGoDecisionRead) (erase [''snapshot_blockers'', ''snapshot_warnings'']
  (Arr GoNoGoDecisionRead))"
  by (simp add: wire wire_eval  cong: into_target)

lemma goNoGo_responses_record: "sub py_GoNoGoDecisionRead (erase [''snapshot_blockers'', ''snapshot_warnings'']
  GoNoGoDecisionRead)"
  by (simp add: wire wire_eval  cong: into_target)

lemma goNoGo_responses_closeCondition: "sub py_GoNoGoConditionRead (erase [] GoNoGoConditionRead)"
  by (simp add: wire wire_eval  cong: into_target)

lemma goNoGo_responses_listPerspectives: "sub (Arr py_GoNoGoPerspectiveRead) (erase [] (Arr GoNoGoPerspectiveRead))"
  by (simp add: wire wire_eval  cong: into_target)

lemma goNoGo_responses_createPerspective: "sub py_GoNoGoPerspectiveRead (erase [] GoNoGoPerspectiveRead)"
  by (simp add: wire wire_eval  cong: into_target)

lemma goNoGo_responses_wired: "list_all (\<lambda>w. sub (fst (snd (snd w))) (snd (snd (snd w)))) goNoGo_responses"
  by (simp only: goNoGo_responses_def list.pred_inject fst_conv snd_conv simp_thms goNoGo_responses_list
    goNoGo_responses_record goNoGo_responses_closeCondition goNoGo_responses_listPerspectives
      goNoGo_responses_createPerspective)

definition incident_responses :: "(string \<times> string \<times> ts \<times> ts) list" where
  "incident_responses =
     [(''incidentService.list'', ''incidents.list_incidents'', Arr py_IncidentListRow, erase [] (Arr
       IncidentListRow)),
      (''incidentService.get'', ''incidents.get_incident'', py_IncidentDetail, erase [] IncidentDetail),
      (''incidentService.create'', ''incidents.create_incident'', py_IncidentDetail, erase [] IncidentDetail),
      (''incidentService.update'', ''incidents.update_incident'', py_IncidentDetail, erase [] IncidentDetail),
      (''incidentService.transition'', ''incidents.transition_incident'', py_IncidentDetail, erase []
        IncidentDetail),
      (''incidentService.citeOnPir'', ''incidents.cite_incident_on_a_pir'', Arr py_IncidentPirCitation, erase []
        (Arr IncidentPirCitation))]"

lemma incident_responses_list: "sub (Arr py_IncidentListRow) (erase [] (Arr IncidentListRow))"
  by (simp add: wire wire_eval  cong: into_target)

lemma incident_responses_get: "sub py_IncidentDetail (erase [] IncidentDetail)"
  by (simp add: wire wire_eval  cong: into_target)

lemma incident_responses_citeOnPir: "sub (Arr py_IncidentPirCitation) (erase [] (Arr IncidentPirCitation))"
  by (simp add: wire wire_eval  cong: into_target)

lemma incident_responses_wired: "list_all (\<lambda>w. sub (fst (snd (snd w))) (snd (snd (snd w))))
  incident_responses"
  by (simp only: incident_responses_def list.pred_inject fst_conv snd_conv simp_thms incident_responses_list
    incident_responses_get incident_responses_citeOnPir)

definition infrastructureComponent_responses :: "(string \<times> string \<times> ts \<times> ts) list" where
  "infrastructureComponent_responses =
     [(''infrastructureComponentService.listComponents'', ''infrastructure_components.list_components'', Arr
       py_InfrastructureComponentResponse, erase [] (Arr InfrastructureComponentResponse)),
      (''infrastructureComponentService.getComponent'', ''infrastructure_components.get_component'',
        py_InfrastructureComponentResponse, erase [] InfrastructureComponentResponse),
      (''infrastructureComponentService.createComponent'', ''infrastructure_components.create_component'',
        py_InfrastructureComponentResponse, erase [] InfrastructureComponentResponse),
      (''infrastructureComponentService.updateComponent'', ''infrastructure_components.update_component'',
        py_InfrastructureComponentResponse, erase [] InfrastructureComponentResponse),
      (''infrastructureComponentService.listEnvSubsystemHosts'', ''environments.list_env_subsystem_hosts'',
        py_EnvironmentSubSystemHostsResponse, erase [] EnvironmentSubSystemHostsResponse),
      (''infrastructureComponentService.setEnvSubsystemHosts'', ''environments.set_env_subsystem_hosts'',
        py_EnvironmentSubSystemHostsResponse, erase [] EnvironmentSubSystemHostsResponse)]"

lemma infrastructureComponent_responses_listComponents: "sub (Arr py_InfrastructureComponentResponse) (erase []
  (Arr InfrastructureComponentResponse))"
  by (simp add: wire wire_eval  cong: into_target)

lemma infrastructureComponent_responses_getComponent: "sub py_InfrastructureComponentResponse (erase []
  InfrastructureComponentResponse)"
  by (simp add: wire wire_eval  cong: into_target)

lemma infrastructureComponent_responses_listEnvSubsystemHosts: "sub py_EnvironmentSubSystemHostsResponse (erase []
  EnvironmentSubSystemHostsResponse)"
  by (simp add: wire wire_eval  cong: into_target)

lemma infrastructureComponent_responses_wired: "list_all (\<lambda>w. sub (fst (snd (snd w))) (snd (snd (snd w))))
  infrastructureComponent_responses"
  by (simp only: infrastructureComponent_responses_def list.pred_inject fst_conv snd_conv simp_thms
    infrastructureComponent_responses_listComponents infrastructureComponent_responses_getComponent
      infrastructureComponent_responses_listEnvSubsystemHosts)

definition pir_responses :: "(string \<times> string \<times> ts \<times> ts) list" where
  "pir_responses =
     [(''pirService.getForRelease'', ''pir.get_pir'', nullable py_PIRResponse, erase [] (nullable PIR)),
      (''pirService.create'', ''pir.create_pir'', py_PIRResponse, erase [] PIR),
      (''pirService.update'', ''pir.update_pir'', py_PIRResponse, erase [] PIR),
      (''pirService.createFinding'', ''pir.create_finding'', py_PirFindingResponse, erase [] PirFinding),
      (''pirService.updateFinding'', ''pir.update_finding'', py_PirFindingResponse, erase [] PirFinding),
      (''pirService.createAction'', ''pir.create_action'', py_PirActionResponse, erase [] PirAction),
      (''pirService.updateAction'', ''pir.update_action'', py_PirActionResponse, erase [] PirAction),
      (''pirService.citeIncident'', ''pir.cite_incident'', Arr py_PirCitationResponse, erase [] (Arr PirCitation))]"

lemma pir_responses_getForRelease: "sub (nullable py_PIRResponse) (erase [] (nullable PIR))"
  by (simp add: wire wire_eval  cong: into_target)

lemma pir_responses_create: "sub py_PIRResponse (erase [] PIR)"
  by (simp add: wire wire_eval  cong: into_target)

lemma pir_responses_createFinding: "sub py_PirFindingResponse (erase [] PirFinding)"
  by (simp add: wire wire_eval  cong: into_target)

lemma pir_responses_createAction: "sub py_PirActionResponse (erase [] PirAction)"
  by (simp add: wire wire_eval  cong: into_target)

lemma pir_responses_citeIncident: "sub (Arr py_PirCitationResponse) (erase [] (Arr PirCitation))"
  by (simp add: wire wire_eval  cong: into_target)

lemma pir_responses_wired: "list_all (\<lambda>w. sub (fst (snd (snd w))) (snd (snd (snd w)))) pir_responses"
  by (simp only: pir_responses_def list.pred_inject fst_conv snd_conv simp_thms pir_responses_getForRelease
    pir_responses_create pir_responses_createFinding pir_responses_createAction pir_responses_citeIncident)

definition project_responses :: "(string \<times> string \<times> ts \<times> ts) list" where
  "project_responses =
     [(''projectService.listProjects'', ''projects.list_projects'', Arr py_ProjectResponse, erase [] (Arr
       ProjectResponse)),
      (''projectService.getProject'', ''projects.get_project'', py_ProjectResponse, erase [] ProjectResponse),
      (''projectService.createProject'', ''projects.create_project'', py_ProjectResponse, erase [] ProjectResponse),
      (''projectService.updateProject'', ''projects.update_project'', py_ProjectResponse, erase [] ProjectResponse),
      (''projectService.listAgreementsForProject'', ''projects.list_project_usage_agreements'', Arr
        py_UsageAgreementResponse, erase [] (Arr UsageAgreementResponse)),
      (''projectService.listAgreementsForEnvironment'', ''environments.list_environment_usage_agreements'', Arr
        py_UsageAgreementResponse, erase [] (Arr UsageAgreementResponse)),
      (''projectService.createAgreement'', ''projects.create_project_usage_agreement'', py_UsageAgreementResponse,
        erase [] UsageAgreementResponse)]"

lemma project_responses_listProjects: "sub (Arr py_ProjectResponse) (erase [] (Arr ProjectResponse))"
  by (simp add: wire wire_eval  cong: into_target)

lemma project_responses_getProject: "sub py_ProjectResponse (erase [] ProjectResponse)"
  by (simp add: wire wire_eval  cong: into_target)

lemma project_responses_listAgreementsForProject: "sub (Arr py_UsageAgreementResponse) (erase [] (Arr
  UsageAgreementResponse))"
  by (simp add: wire wire_eval  cong: into_target)

lemma project_responses_createAgreement: "sub py_UsageAgreementResponse (erase [] UsageAgreementResponse)"
  by (simp add: wire wire_eval  cong: into_target)

lemma project_responses_wired: "list_all (\<lambda>w. sub (fst (snd (snd w))) (snd (snd (snd w))))
  project_responses"
  by (simp only: project_responses_def list.pred_inject fst_conv snd_conv simp_thms project_responses_listProjects
    project_responses_getProject project_responses_listAgreementsForProject project_responses_createAgreement)

definition raid_responses :: "(string \<times> string \<times> ts \<times> ts) list" where
  "raid_responses =
     [(''raidService.list'', ''raid.list_raid'', Arr py_RaidItemRead, erase [] (Arr RaidItemResponse)),
      (''raidService.get'', ''raid.get_raid'', py_RaidItemRead, erase [] RaidItemResponse),
      (''raidService.create'', ''raid.create_raid'', py_RaidItemRead, erase [] RaidItemResponse),
      (''raidService.update'', ''raid.update_raid'', py_RaidItemRead, erase [] RaidItemResponse),
      (''raidService.promote'', ''raid.promote_raid'', py_RaidItemRead, erase [] RaidItemResponse),
      (''raidService.getLinks'', ''raid.get_raid_links'', py_RaidLinksRead, erase [''relations'']
        RaidLinksResponse),
      (''raidService.addScopeLink'', ''raid.add_raid_scope_link'', py_RaidLinksRead, erase [''relations'']
        RaidLinksResponse),
      (''raidService.addRelation'', ''raid.add_raid_relation'', py_RaidLinksRead, erase [''relations'']
        RaidLinksResponse),
      (''raidService.summary'', ''raid.raid_summary'', py_RaidSummaryRead, erase [] RaidSummaryResponse),
      (''raidService.rollup'', ''enterprise_rollup.raid_rollup'', py_RaidRollupRead, erase [''top_risks'']
        RaidRollupResponse),
      (''raidService.getConfig'', ''tenant_admin_fields.get_raid_config'', py_RaidConfigRead, erase
        [''probability_scale'', ''impact_scale'', ''rag_bands''] RaidConfig),
      (''raidService.updateConfig'', ''tenant_admin_fields.update_raid_config'', py_RaidConfigRead, erase
        [''probability_scale'', ''impact_scale'', ''rag_bands''] RaidConfig)]"

lemma raid_responses_list: "sub (Arr py_RaidItemRead) (erase [] (Arr RaidItemResponse))"
  by (simp add: wire wire_eval  cong: into_target)

lemma raid_responses_get: "sub py_RaidItemRead (erase [] RaidItemResponse)"
  by (simp add: wire wire_eval  cong: into_target)

lemma raid_responses_getLinks: "sub py_RaidLinksRead (erase [''relations''] RaidLinksResponse)"
  by (simp add: wire wire_eval  cong: into_target)

lemma raid_responses_summary: "sub py_RaidSummaryRead (erase [] RaidSummaryResponse)"
  by (simp add: wire wire_eval  cong: into_target)

lemma raid_responses_rollup: "sub py_RaidRollupRead (erase [''top_risks''] RaidRollupResponse)"
  by (simp add: wire wire_eval  cong: into_target)

lemma raid_responses_getConfig: "sub py_RaidConfigRead (erase [''probability_scale'', ''impact_scale'',
  ''rag_bands''] RaidConfig)"
  by (simp add: wire wire_eval  cong: into_target)

lemma raid_responses_wired: "list_all (\<lambda>w. sub (fst (snd (snd w))) (snd (snd (snd w)))) raid_responses"
  by (simp only: raid_responses_def list.pred_inject fst_conv snd_conv simp_thms raid_responses_list
    raid_responses_get raid_responses_getLinks raid_responses_summary raid_responses_rollup
      raid_responses_getConfig)

definition releaseEventType_responses :: "(string \<times> string \<times> ts \<times> ts) list" where
  "releaseEventType_responses =
     [(''releaseEventTypeService.list'', ''release_event_types.list_event_types'', Arr py_ReleaseEventTypeRead,
       erase [] (Arr ReleaseEventTypeResponse)),
      (''releaseEventTypeService.create'', ''release_event_types.create_event_type'', py_ReleaseEventTypeRead,
        erase [] ReleaseEventTypeResponse),
      (''releaseEventTypeService.update'', ''release_event_types.update_event_type'', py_ReleaseEventTypeRead,
        erase [] ReleaseEventTypeResponse)]"

lemma releaseEventType_responses_list: "sub (Arr py_ReleaseEventTypeRead) (erase [] (Arr ReleaseEventTypeResponse))"
  by (simp add: wire wire_eval  cong: into_target)

lemma releaseEventType_responses_create: "sub py_ReleaseEventTypeRead (erase [] ReleaseEventTypeResponse)"
  by (simp add: wire wire_eval  cong: into_target)

lemma releaseEventType_responses_wired: "list_all (\<lambda>w. sub (fst (snd (snd w))) (snd (snd (snd w))))
  releaseEventType_responses"
  by (simp only: releaseEventType_responses_def list.pred_inject fst_conv snd_conv simp_thms
    releaseEventType_responses_list releaseEventType_responses_create)

definition release_responses :: "(string \<times> string \<times> ts \<times> ts) list" where
  "release_responses =
     [(''releaseService.list'', ''releases.list_releases'', Arr py_ReleaseListItemRead, erase [] (Arr
       ReleaseListItemResponse_t)),
      (''releaseService.get'', ''releases.get_release'', py_ReleaseRead, erase [] ReleaseResponse_t),
      (''releaseService.create'', ''releases.create_release'', py_ReleaseRead, erase [] ReleaseResponse_t),
      (''releaseService.update'', ''releases.update_release'', py_ReleaseRead, erase [] ReleaseResponse_t),
      (''releaseService.transition'', ''releases.transition_release'', py_ReleaseRead, erase [] ReleaseResponse_t),
      (''releaseService.listPhases'', ''releases.list_phases'', Arr py_TestPhaseRead, erase [] (Arr
        TestPhaseResponse_t)),
      (''releaseService.createPhase'', ''releases.create_phase'', py_TestPhaseRead, erase [] TestPhaseResponse_t),
      (''releaseService.updatePhase'', ''releases.update_phase'', py_TestPhaseRead, erase [] TestPhaseResponse_t),
      (''releaseService.listGates'', ''releases.list_gates'', Arr py_ReleaseGateRead, erase [] (Arr
        ReleaseGateResponse_t)),
      (''releaseService.createGate'', ''releases.create_gate'', py_ReleaseGateRead, erase [] ReleaseGateResponse_t),
      (''releaseService.updateGate'', ''releases.update_gate'', py_ReleaseGateRead, erase [] ReleaseGateResponse_t),
      (''releaseService.passGate'', ''releases.pass_gate'', py_ReleaseGateRead, erase [] ReleaseGateResponse_t),
      (''releaseService.failGate'', ''releases.fail_gate'', py_ReleaseGateRead, erase [] ReleaseGateResponse_t),
      (''releaseService.overrideGate'', ''releases.override_gate'', py_ReleaseGateRead, erase []
        ReleaseGateResponse_t),
      (''releaseService.listGateEvidence'', ''releases.list_gate_evidence'', Arr py_GateEvidenceRead, erase [] (Arr
        GateEvidenceResponse_t)),
      (''releaseService.addGateEvidence'', ''releases.add_gate_evidence'', py_GateEvidenceRead, erase []
        GateEvidenceResponse_t),
      (''releaseService.getReadiness'', ''releases.get_release_readiness'', py_ReleaseReadinessResponse, erase []
        ReleaseReadinessResponse),
      (''releaseService.listSystems'', ''releases.list_release_systems'', Arr py_ReleaseSystemRead, erase [] (Arr
        ReleaseSystemResponse)),
      (''releaseService.addSystem'', ''releases.add_release_system'', py_ReleaseSystemRead, erase []
        ReleaseSystemResponse),
      (''releaseService.listDependencies'', ''releases.list_dependencies'', Arr py_ReleaseDependencyRead, erase []
        (Arr ReleaseDependencyResponse_t)),
      (''releaseService.addDependency'', ''releases.create_dependency'', py_ReleaseDependencyRead, erase []
        ReleaseDependencyResponse_t),
      (''releaseService.listDependencyAlerts'', ''releases.get_dependency_alerts'', Arr py_ReleaseDependencyAlert,
        erase [] (Arr ReleaseDependencyAlert_t)),
      (''releaseService.listEvents'', ''releases.list_events'', Arr py_ReleaseEventRead, erase [] (Arr
        ReleaseEventResponse_t)),
      (''releaseService.createEvent'', ''releases.create_event'', py_ReleaseEventRead, erase []
        ReleaseEventResponse_t),
      (''releaseService.listChanges'', ''releases.list_changes'', Arr py_ReleaseChangeRead, erase [] (Arr
        ReleaseChangeResponse_t)),
      (''releaseService.createChange'', ''releases.create_change'', py_ReleaseChangeRead, erase []
        ReleaseChangeResponse_t),
      (''releaseService.updateChange'', ''releases.update_change'', py_ReleaseChangeRead, erase []
        ReleaseChangeResponse_t),
      (''releaseService.moveReleaseChange'', ''releases.move_change'', py_ReleaseChangeRead, erase []
        ReleaseChangeResponse_t),
      (''releaseService.listBacklogChanges'', ''releases.list_changes_flat'', Arr py_ReleaseChangeRead, erase []
        (Arr ReleaseChangeResponse_t)),
      (''releaseService.fetchReleaseChangeStatusHistory'', ''releases.get_status_history'', Arr
        py_ReleaseChangeStatusHistoryRead, erase [] (Arr ReleaseChangeStatusHistoryResponse_t)),
      (''releaseService.importScope'', ''releases.import_scope'', py_ScopeImportResult, erase [] ScopeImportResult),
      (''releaseService.getEnvironmentCoverage'', ''releases.get_environment_coverage'',
        py_ReleaseEnvironmentCoverageRead, erase [] ReleaseEnvironmentCoverageResponse),
      (''releaseService.getScopeChurnAnalytics'', ''releases.get_scope_churn_analytics'',
        py_ScopeChurnAnalyticsRead, erase [] ScopeChurnAnalyticsResponse),
      (''releaseService.bulkBookEnvironments'', ''releases.bulk_book_release_environments'', py_BulkBookResult,
        erase [] BulkBookResultResponse),
      (''releaseService.listCriteria'', ''gate_criteria.list_criteria'', Arr py_GateCriterionRead, erase [] (Arr
        GateCriterion_t)),
      (''releaseService.createCriterion'', ''gate_criteria.create_criterion'', py_GateCriterionRead, erase []
        GateCriterion_t),
      (''releaseService.updateCriterion'', ''gate_criteria.update_criterion'', py_GateCriterionRead, erase []
        GateCriterion_t),
      (''releaseService.completeCriterion'', ''gate_criteria.complete_criterion'', py_GateCriterionRead, erase []
        GateCriterion_t),
      (''releaseService.reopenCriterion'', ''gate_criteria.reopen_criterion'', py_GateCriterionRead, erase []
        GateCriterion_t),
      (''releaseService.listReleaseOverdueCriteria'', ''gate_criteria.list_overdue'', Arr py_GateCriterionWithGate,
        erase [] (Arr GateCriterionWithGate))]"

lemma release_responses_list: "sub (Arr py_ReleaseListItemRead) (erase [] (Arr ReleaseListItemResponse_t))"
  by (simp add: wire wire_eval  cong: into_target)

lemma release_responses_get: "sub py_ReleaseRead (erase [] ReleaseResponse_t)"
  by (simp add: wire wire_eval  cong: into_target)

lemma release_responses_listPhases: "sub (Arr py_TestPhaseRead) (erase [] (Arr TestPhaseResponse_t))"
  by (simp add: wire wire_eval  cong: into_target)

lemma release_responses_createPhase: "sub py_TestPhaseRead (erase [] TestPhaseResponse_t)"
  by (simp add: wire wire_eval  cong: into_target)

lemma release_responses_listGates: "sub (Arr py_ReleaseGateRead) (erase [] (Arr ReleaseGateResponse_t))"
  by (simp add: wire wire_eval  cong: into_target)

lemma release_responses_createGate: "sub py_ReleaseGateRead (erase [] ReleaseGateResponse_t)"
  by (simp add: wire wire_eval  cong: into_target)

lemma release_responses_listGateEvidence: "sub (Arr py_GateEvidenceRead) (erase [] (Arr GateEvidenceResponse_t))"
  by (simp add: wire wire_eval  cong: into_target)

lemma release_responses_addGateEvidence: "sub py_GateEvidenceRead (erase [] GateEvidenceResponse_t)"
  by (simp add: wire wire_eval  cong: into_target)

lemma release_responses_getReadiness: "sub py_ReleaseReadinessResponse (erase [] ReleaseReadinessResponse)"
  by (simp add: wire wire_eval  cong: into_target)

lemma release_responses_listSystems: "sub (Arr py_ReleaseSystemRead) (erase [] (Arr ReleaseSystemResponse))"
  by (simp add: wire wire_eval  cong: into_target)

lemma release_responses_addSystem: "sub py_ReleaseSystemRead (erase [] ReleaseSystemResponse)"
  by (simp add: wire wire_eval  cong: into_target)

lemma release_responses_listDependencies: "sub (Arr py_ReleaseDependencyRead) (erase [] (Arr
  ReleaseDependencyResponse_t))"
  by (simp add: wire wire_eval  cong: into_target)

lemma release_responses_addDependency: "sub py_ReleaseDependencyRead (erase [] ReleaseDependencyResponse_t)"
  by (simp add: wire wire_eval  cong: into_target)

lemma release_responses_listDependencyAlerts: "sub (Arr py_ReleaseDependencyAlert) (erase [] (Arr
  ReleaseDependencyAlert_t))"
  by (simp add: wire wire_eval  cong: into_target)

lemma release_responses_listEvents: "sub (Arr py_ReleaseEventRead) (erase [] (Arr ReleaseEventResponse_t))"
  by (simp add: wire wire_eval  cong: into_target)

lemma release_responses_createEvent: "sub py_ReleaseEventRead (erase [] ReleaseEventResponse_t)"
  by (simp add: wire wire_eval  cong: into_target)

lemma release_responses_listChanges: "sub (Arr py_ReleaseChangeRead) (erase [] (Arr ReleaseChangeResponse_t))"
  by (simp add: wire wire_eval  cong: into_target)

lemma release_responses_createChange: "sub py_ReleaseChangeRead (erase [] ReleaseChangeResponse_t)"
  by (simp add: wire wire_eval  cong: into_target)

lemma release_responses_fetchReleaseChangeStatusHistory: "sub (Arr py_ReleaseChangeStatusHistoryRead) (erase []
  (Arr ReleaseChangeStatusHistoryResponse_t))"
  by (simp add: wire wire_eval  cong: into_target)

lemma release_responses_importScope: "sub py_ScopeImportResult (erase [] ScopeImportResult)"
  by (simp add: wire wire_eval  cong: into_target)

lemma release_responses_getEnvironmentCoverage: "sub py_ReleaseEnvironmentCoverageRead (erase []
  ReleaseEnvironmentCoverageResponse)"
  by (simp add: wire wire_eval  cong: into_target)

lemma release_responses_getScopeChurnAnalytics: "sub py_ScopeChurnAnalyticsRead (erase []
  ScopeChurnAnalyticsResponse)"
  by (simp add: wire wire_eval  cong: into_target)

lemma release_responses_bulkBookEnvironments: "sub py_BulkBookResult (erase [] BulkBookResultResponse)"
  by (simp add: wire wire_eval  cong: into_target)

lemma release_responses_listCriteria: "sub (Arr py_GateCriterionRead) (erase [] (Arr GateCriterion_t))"
  by (simp add: wire wire_eval  cong: into_target)

lemma release_responses_createCriterion: "sub py_GateCriterionRead (erase [] GateCriterion_t)"
  by (simp add: wire wire_eval  cong: into_target)

lemma release_responses_listReleaseOverdueCriteria: "sub (Arr py_GateCriterionWithGate) (erase [] (Arr
  GateCriterionWithGate))"
  by (simp add: wire wire_eval  cong: into_target)

lemma release_responses_wired: "list_all (\<lambda>w. sub (fst (snd (snd w))) (snd (snd (snd w))))
  release_responses"
  by (simp only: release_responses_def list.pred_inject fst_conv snd_conv simp_thms release_responses_list
    release_responses_get release_responses_listPhases release_responses_createPhase release_responses_listGates
      release_responses_createGate release_responses_listGateEvidence release_responses_addGateEvidence
        release_responses_getReadiness release_responses_listSystems release_responses_addSystem
          release_responses_listDependencies release_responses_addDependency release_responses_listDependencyAlerts
            release_responses_listEvents release_responses_createEvent release_responses_listChanges
              release_responses_createChange release_responses_fetchReleaseChangeStatusHistory
                release_responses_importScope release_responses_getEnvironmentCoverage
                  release_responses_getScopeChurnAnalytics release_responses_bulkBookEnvironments
                    release_responses_listCriteria release_responses_createCriterion
                      release_responses_listReleaseOverdueCriteria)

definition releaseTemplate_responses :: "(string \<times> string \<times> ts \<times> ts) list" where
  "releaseTemplate_responses =
     [(''releaseTemplateService.list'', ''release_templates.list_templates'', Arr py_ReleaseTemplateRead, erase
       [''phases'', ''gates''] (Arr ReleaseTemplateResponse)),
      (''releaseTemplateService.get'', ''release_templates.get_template'', py_ReleaseTemplateRead, erase
        [''phases'', ''gates''] ReleaseTemplateResponse),
      (''releaseTemplateService.create'', ''release_templates.create_template'', py_ReleaseTemplateRead, erase
        [''phases'', ''gates''] ReleaseTemplateResponse),
      (''releaseTemplateService.update'', ''release_templates.update_template'', py_ReleaseTemplateRead, erase
        [''phases'', ''gates''] ReleaseTemplateResponse),
      (''releaseTemplateService.instantiate'', ''release_templates.instantiate_template'', py_ReleaseRead, erase []
        ReleaseResponse_t)]"

lemma releaseTemplate_responses_list: "sub (Arr py_ReleaseTemplateRead) (erase [''phases'', ''gates''] (Arr
  ReleaseTemplateResponse))"
  by (simp add: wire wire_eval  cong: into_target)

lemma releaseTemplate_responses_get: "sub py_ReleaseTemplateRead (erase [''phases'', ''gates'']
  ReleaseTemplateResponse)"
  by (simp add: wire wire_eval  cong: into_target)

lemma releaseTemplate_responses_instantiate: "sub py_ReleaseRead (erase [] ReleaseResponse_t)"
  by (simp add: wire wire_eval  cong: into_target)

lemma releaseTemplate_responses_wired: "list_all (\<lambda>w. sub (fst (snd (snd w))) (snd (snd (snd w))))
  releaseTemplate_responses"
  by (simp only: releaseTemplate_responses_def list.pred_inject fst_conv snd_conv simp_thms
    releaseTemplate_responses_list releaseTemplate_responses_get releaseTemplate_responses_instantiate)

definition rollback_responses :: "(string \<times> string \<times> ts \<times> ts) list" where
  "rollback_responses =
     [(''rollbackService.listPlans'', ''releases.list_rollback_plans'', Arr py_RollbackPlanRead, erase [] (Arr
       RollbackPlanResponse)),
      (''rollbackService.upsertPlan'', ''releases.upsert_rollback_plan'', py_RollbackPlanRead, erase []
        RollbackPlanResponse),
      (''rollbackService.agreePlan'', ''releases.agree_rollback_plan'', py_RollbackPlanRead, erase []
        RollbackPlanResponse),
      (''rollbackService.listAuthorisations'', ''releases.list_rollback_authorisations'', Arr
        py_RollbackAuthorisationRead, erase [] (Arr RollbackAuthorisationResponse)),
      (''rollbackService.recordAuthorisation'', ''releases.create_rollback_authorisation'',
        py_RollbackAuthorisationRead, erase [] RollbackAuthorisationResponse),
      (''rollbackService.listRehearsals'', ''systems.list_rollback_rehearsals'', Arr py_RehearsalRead, erase []
        (Arr RehearsalResponse)),
      (''rollbackService.recordRehearsal'', ''systems.record_rollback_rehearsal'', py_RehearsalRead, erase []
        RehearsalResponse),
      (''rollbackService.getPolicy'', ''rollback_policy.get_rollback_policy'', py_RollbackPolicyRead, erase []
        RollbackPolicy),
      (''rollbackService.updatePolicy'', ''rollback_policy.update_rollback_policy'', py_RollbackPolicyRead, erase
        [] RollbackPolicy)]"

lemma rollback_responses_listPlans: "sub (Arr py_RollbackPlanRead) (erase [] (Arr RollbackPlanResponse))"
  by (simp add: wire wire_eval  cong: into_target)

lemma rollback_responses_upsertPlan: "sub py_RollbackPlanRead (erase [] RollbackPlanResponse)"
  by (simp add: wire wire_eval  cong: into_target)

lemma rollback_responses_listAuthorisations: "sub (Arr py_RollbackAuthorisationRead) (erase [] (Arr
  RollbackAuthorisationResponse))"
  by (simp add: wire wire_eval  cong: into_target)

lemma rollback_responses_recordAuthorisation: "sub py_RollbackAuthorisationRead (erase []
  RollbackAuthorisationResponse)"
  by (simp add: wire wire_eval  cong: into_target)

lemma rollback_responses_listRehearsals: "sub (Arr py_RehearsalRead) (erase [] (Arr RehearsalResponse))"
  by (simp add: wire wire_eval  cong: into_target)

lemma rollback_responses_recordRehearsal: "sub py_RehearsalRead (erase [] RehearsalResponse)"
  by (simp add: wire wire_eval  cong: into_target)

lemma rollback_responses_getPolicy: "sub py_RollbackPolicyRead (erase [] RollbackPolicy)"
  by (simp add: wire wire_eval  cong: into_target)

lemma rollback_responses_wired: "list_all (\<lambda>w. sub (fst (snd (snd w))) (snd (snd (snd w))))
  rollback_responses"
  by (simp only: rollback_responses_def list.pred_inject fst_conv snd_conv simp_thms rollback_responses_listPlans
    rollback_responses_upsertPlan rollback_responses_listAuthorisations rollback_responses_recordAuthorisation
      rollback_responses_listRehearsals rollback_responses_recordRehearsal rollback_responses_getPolicy)

definition runbook_responses :: "(string \<times> string \<times> ts \<times> ts) list" where
  "runbook_responses =
     [(''runbookService.listForRelease'', ''runbooks.list_runbooks'', Arr py_RunbookPlanRead, erase [] (Arr
       RunbookPlanRead)),
      (''runbookService.get'', ''runbooks.get_runbook'', py_RunbookRead, erase [] RunbookRead),
      (''runbookService.create'', ''runbooks.create_runbook'', py_RunbookRead, erase [] RunbookRead),
      (''runbookService.update'', ''runbooks.update_runbook'', py_RunbookRead, erase [] RunbookRead),
      (''runbookService.createTask'', ''runbooks.create_task'', py_RunbookTaskRead, erase [] RunbookTaskRead),
      (''runbookService.updateTask'', ''runbooks.update_task'', py_RunbookRead, erase [] RunbookRead),
      (''runbookService.setPredecessors'', ''runbooks.set_predecessors'', py_RunbookRead, erase [] RunbookRead),
      (''runbookService.transition'', ''runbooks.transition_task'', py_RunbookRead, erase [] RunbookRead),
      (''runbookService.events'', ''runbooks.task_events'', Arr py_RunbookTaskEventRead, erase [] (Arr
        RunbookTaskEventRead))]"

lemma runbook_responses_listForRelease: "sub (Arr py_RunbookPlanRead) (erase [] (Arr RunbookPlanRead))"
  by (simp add: wire wire_eval  cong: into_target)

lemma runbook_responses_get: "sub py_RunbookRead (erase [] RunbookRead)"
  by (simp add: wire wire_eval  cong: into_target)

lemma runbook_responses_createTask: "sub py_RunbookTaskRead (erase [] RunbookTaskRead)"
  by (simp add: wire wire_eval  cong: into_target)

lemma runbook_responses_events: "sub (Arr py_RunbookTaskEventRead) (erase [] (Arr RunbookTaskEventRead))"
  by (simp add: wire wire_eval  cong: into_target)

lemma runbook_responses_wired: "list_all (\<lambda>w. sub (fst (snd (snd w))) (snd (snd (snd w))))
  runbook_responses"
  by (simp only: runbook_responses_def list.pred_inject fst_conv snd_conv simp_thms
    runbook_responses_listForRelease runbook_responses_get runbook_responses_createTask runbook_responses_events)

definition scopeChangeRules_responses :: "(string \<times> string \<times> ts \<times> ts) list" where
  "scopeChangeRules_responses =
     [(''scopeChangeRulesService.list'', ''tenant_admin.get_scope_change_rules'', Arr py_ScopeChangeKindRuleRead,
       erase [] (Arr ScopeChangeKindRuleResponse)),
      (''scopeChangeRulesService.listKinds'', ''tenant_admin.get_scope_change_kinds'', Arr Str, erase [] (Arr Str)),
      (''scopeChangeRulesService.upsert'', ''tenant_admin.upsert_scope_change_rules'', Arr
        py_ScopeChangeKindRuleRead, erase [] (Arr ScopeChangeKindRuleResponse))]"

lemma scopeChangeRules_responses_list: "sub (Arr py_ScopeChangeKindRuleRead) (erase [] (Arr
  ScopeChangeKindRuleResponse))"
  by (simp add: wire wire_eval  cong: into_target)

lemma scopeChangeRules_responses_listKinds: "sub (Arr Str) (erase [] (Arr Str))"
  by (simp add: wire wire_eval  cong: into_target)

lemma scopeChangeRules_responses_wired: "list_all (\<lambda>w. sub (fst (snd (snd w))) (snd (snd (snd w))))
  scopeChangeRules_responses"
  by (simp only: scopeChangeRules_responses_def list.pred_inject fst_conv snd_conv simp_thms
    scopeChangeRules_responses_list scopeChangeRules_responses_listKinds)

definition system_responses :: "(string \<times> string \<times> ts \<times> ts) list" where
  "system_responses =
     [(''systemService.listSystems'', ''systems.list_systems'', Arr py_SystemResponse, erase [] (Arr
       SystemResponse)),
      (''systemService.getSystem'', ''systems.get_system'', py_SystemResponse, erase [] SystemResponse),
      (''systemService.createSystem'', ''systems.create_system'', py_SystemResponse, erase [] SystemResponse),
      (''systemService.updateSystem'', ''systems.update_system'', py_SystemResponse, erase [] SystemResponse),
      (''systemService.listSubSystems'', ''systems.list_subsystems'', Arr py_SubSystemResponse, erase [] (Arr
        SubSystemResponse)),
      (''systemService.getSubSystem'', ''systems.get_subsystem'', py_SubSystemResponse, erase [] SubSystemResponse),
      (''systemService.createSubSystem'', ''systems.create_subsystem'', py_SubSystemResponse, erase []
        SubSystemResponse),
      (''systemService.updateSubSystem'', ''systems.update_subsystem'', py_SubSystemResponse, erase []
        SubSystemResponse)]"

lemma system_responses_listSystems: "sub (Arr py_SystemResponse) (erase [] (Arr SystemResponse))"
  by (simp add: wire wire_eval  cong: into_target)

lemma system_responses_getSystem: "sub py_SystemResponse (erase [] SystemResponse)"
  by (simp add: wire wire_eval  cong: into_target)

lemma system_responses_listSubSystems: "sub (Arr py_SubSystemResponse) (erase [] (Arr SubSystemResponse))"
  by (simp add: wire wire_eval  cong: into_target)

lemma system_responses_getSubSystem: "sub py_SubSystemResponse (erase [] SubSystemResponse)"
  by (simp add: wire wire_eval  cong: into_target)

lemma system_responses_wired: "list_all (\<lambda>w. sub (fst (snd (snd w))) (snd (snd (snd w)))) system_responses"
  by (simp only: system_responses_def list.pred_inject fst_conv snd_conv simp_thms system_responses_listSystems
    system_responses_getSystem system_responses_listSubSystems system_responses_getSubSystem)

definition tenantAdmin_responses :: "(string \<times> string \<times> ts \<times> ts) list" where
  "tenantAdmin_responses =
     [(''tenantAdminService.getSettings'', ''tenant_admin.get_settings'', py_TenantResponse, erase []
       TenantResponse),
      (''tenantAdminService.updateSettings'', ''tenant_admin.update_settings'', py_TenantResponse, erase []
        TenantResponse),
      (''tenantAdminService.listUsers'', ''tenant_admin.list_users'', Arr py_UserResponse, erase [] (Arr
        UserResponse)),
      (''tenantAdminService.createUser'', ''tenant_admin.create_user'', py_UserResponse, erase [] UserResponse),
      (''tenantAdminService.getUser'', ''tenant_admin.get_user'', py_UserResponse, erase [] UserResponse),
      (''tenantAdminService.updateUser'', ''tenant_admin.update_user'', py_UserResponse, erase [] UserResponse),
      (''tenantAdminService.setUserRole'', ''tenant_admin.set_user_role'', py_UserResponse, erase [] UserResponse),
      (''tenantAdminService.deactivateUser'', ''tenant_admin.deactivate_user'', py_UserResponse, erase []
        UserResponse),
      (''tenantAdminService.reactivateUser'', ''tenant_admin.reactivate_user'', py_UserResponse, erase []
        UserResponse)]"

lemma tenantAdmin_responses_getSettings: "sub py_TenantResponse (erase [] TenantResponse)"
  by (simp add: wire wire_eval  cong: into_target)

lemma tenantAdmin_responses_listUsers: "sub (Arr py_UserResponse) (erase [] (Arr UserResponse))"
  by (simp add: wire wire_eval  cong: into_target)

lemma tenantAdmin_responses_createUser: "sub py_UserResponse (erase [] UserResponse)"
  by (simp add: wire wire_eval  cong: into_target)

lemma tenantAdmin_responses_wired: "list_all (\<lambda>w. sub (fst (snd (snd w))) (snd (snd (snd w))))
  tenantAdmin_responses"
  by (simp only: tenantAdmin_responses_def list.pred_inject fst_conv snd_conv simp_thms
    tenantAdmin_responses_getSettings tenantAdmin_responses_listUsers tenantAdmin_responses_createUser)

definition userGroup_responses :: "(string \<times> string \<times> ts \<times> ts) list" where
  "userGroup_responses =
     [(''userGroupService.listGroups'', ''user_groups.list_user_groups'', Arr py_UserGroupResponse, erase [] (Arr
       UserGroupResponse)),
      (''userGroupService.getGroup'', ''user_groups.get_user_group'', py_UserGroupResponse, erase []
        UserGroupResponse),
      (''userGroupService.createGroup'', ''user_groups.create_user_group'', py_UserGroupResponse, erase []
        UserGroupResponse),
      (''userGroupService.updateGroup'', ''user_groups.update_user_group'', py_UserGroupResponse, erase []
        UserGroupResponse),
      (''userGroupService.listMembers'', ''user_groups.list_user_group_members'', Arr py_UserGroupMemberResponse,
        erase [] (Arr UserGroupMemberResponse)),
      (''userGroupService.addMember'', ''user_groups.add_user_group_member'', py_UserGroupMemberResponse, erase []
        UserGroupMemberResponse)]"

lemma userGroup_responses_listGroups: "sub (Arr py_UserGroupResponse) (erase [] (Arr UserGroupResponse))"
  by (simp add: wire wire_eval  cong: into_target)

lemma userGroup_responses_getGroup: "sub py_UserGroupResponse (erase [] UserGroupResponse)"
  by (simp add: wire wire_eval  cong: into_target)

lemma userGroup_responses_listMembers: "sub (Arr py_UserGroupMemberResponse) (erase [] (Arr
  UserGroupMemberResponse))"
  by (simp add: wire wire_eval  cong: into_target)

lemma userGroup_responses_addMember: "sub py_UserGroupMemberResponse (erase [] UserGroupMemberResponse)"
  by (simp add: wire wire_eval  cong: into_target)

lemma userGroup_responses_wired: "list_all (\<lambda>w. sub (fst (snd (snd w))) (snd (snd (snd w))))
  userGroup_responses"
  by (simp only: userGroup_responses_def list.pred_inject fst_conv snd_conv simp_thms
    userGroup_responses_listGroups userGroup_responses_getGroup userGroup_responses_listMembers
      userGroup_responses_addMember)

definition version_responses :: "(string \<times> string \<times> ts \<times> ts) list" where
  "version_responses =
     [(''versionService.importEnvironments'', ''import_routes.import_environments_endpoint'', py_ImportResult,
       erase [] ImportResult),
      (''versionService.importSystems'', ''import_routes.import_systems_endpoint'', py_ImportResult, erase []
        ImportResult)]"

lemma version_responses_importEnvironments: "sub py_ImportResult (erase [] ImportResult)"
  by (simp add: wire wire_eval  cong: into_target)

lemma version_responses_wired: "list_all (\<lambda>w. sub (fst (snd (snd w))) (snd (snd (snd w))))
  version_responses"
  by (simp only: version_responses_def list.pred_inject fst_conv snd_conv simp_thms
    version_responses_importEnvironments)

subsection \<open>Requests\<close>

named_theorems request_wire

lemmas request_eval = sub_nullable sub_Any members_def extends_def partial_def omit_def pick_def lits_def

lemma wire_154 [request_wire]: "sub (closed ApiKeyCreatePayload) (erase [] in_ApiKeyCreate)"
  by (simp add: request_wire request_eval ApiKeyCreatePayload_def in_ApiKeyCreate_def cong: into_target)

lemma wire_155 [request_wire]: "sub (closed LoginCredentials) (erase [] in_UserLogin)"
  by (simp add: request_wire request_eval LoginCredentials_def in_UserLogin_def cong: into_target)

lemma wire_156 [request_wire]: "sub (closed LifecycleState_t) (erase [] in_LifecycleState)"
  by (simp add: request_wire request_eval LifecycleState_t_def in_LifecycleState_def cong: into_target)

lemma wire_157 [request_wire]: "sub (closed LifecycleTransition_t) (erase [] in_LifecycleTransition)"
  by (simp add: request_wire request_eval LifecycleTransition_t_def in_LifecycleTransition_def cong: into_target)

lemma wire_158 [request_wire]: "sub (closed LifecycleFieldPermission_t) (erase [] in_LifecycleFieldPermission)"
  by (simp add: request_wire request_eval LifecycleFieldPermission_t_def in_CustomFieldPermission_def
    in_LifecycleFieldPermission_def in_StandardFieldPermission_def cong: into_target)

lemma wire_159 [request_wire]: "sub (closed LifecycleDefinition_t) (erase [] in_LifecycleDefinition)"
  by (simp add: request_wire request_eval LifecycleDefinition_t_def in_LifecycleDefinition_def cong: into_target)

lemma wire_160 [request_wire]: "sub (closed BookingRequestCreatePayload) (erase [] in_BookingRequestCreate)"
  by (simp add: request_wire request_eval BookingRequestCreatePayload_def ProtectionLevel_t_def
    in_BookingRequestCreate_def cong: into_target)

lemma wire_161 [request_wire]: "sub (closed BookingCreate) (erase [] in_BookingCreate)"
  by (simp add: request_wire request_eval BookingCreate_def ContextTag_t_def ProtectionLevel_t_def
    in_BookingCreate_def cong: into_target)

lemma wire_162 [request_wire]: "sub (closed ChangeRequestCreatePayload) (erase [] in_ChangeRequestCreate)"
  by (simp add: request_wire request_eval ChangeRequestCreatePayload_def ChangeType_def in_ChangeRequestCreate_def
    cong: into_target)

lemma wire_163 [request_wire]: "sub (closed ChangeRequestUpdatePayload) (erase [] in_ChangeRequestUpdate)"
  by (simp add: request_wire request_eval ChangeRequestUpdatePayload_def ChangeType_def in_ChangeRequestUpdate_def
    cong: into_target)

lemma wire_164 [request_wire]: "sub (closed ChangeRequestTransitionPayload) (erase [] in_ChangeRequestTransition)"
  by (simp add: request_wire request_eval ChangeRequestTransitionPayload_def in_ChangeRequestTransition_def cong:
    into_target)

lemma wire_165 [request_wire]: "sub (closed PreviewOutageConflictsPayload) (erase []
  in_PreviewOutageConflictsRequest)"
  by (simp add: request_wire request_eval PreviewOutageConflictsPayload_def in_PreviewOutageConflictsRequest_def
    cong: into_target)

lemma wire_166 [request_wire]: "sub (closed FieldDefinitionSchema) (erase [] in_FieldDefinitionSchema)"
  by (simp add: request_wire request_eval FieldDefinitionSchema_def in_FieldDefinitionSchema_def cong: into_target)

lemma wire_167 [request_wire]: "sub (closed ComponentTypeDefinitionCreate) (erase []
  in_ComponentTypeDefinitionCreate)"
  by (simp add: request_wire request_eval ComponentTypeDefinitionCreate_def in_ComponentTypeDefinitionCreate_def
    cong: into_target)

lemma wire_168 [request_wire]: "sub (closed ComponentTypeDefinitionUpdate) (erase []
  in_ComponentTypeDefinitionUpdate)"
  by (simp add: request_wire request_eval ComponentTypeDefinitionUpdate_def in_ComponentTypeDefinitionUpdate_def
    cong: into_target)

lemma wire_169 [request_wire]: "sub (closed EscalationCreate) (erase [] in_EscalationCreate)"
  by (simp add: request_wire request_eval EscalationCreate_def in_EscalationCreate_def cong: into_target)

lemma wire_170 [request_wire]: "sub (closed EscalationDecision) (erase [] in_EscalationDecision)"
  by (simp add: request_wire request_eval EscalationDecision_def in_EscalationDecision_def cong: into_target)

lemma wire_171 [request_wire]: "sub (closed CustomFieldDefinitionCreate) (erase [] in_CustomFieldDefinitionCreate)"
  by (simp add: request_wire request_eval CustomFieldDefinitionCreate_def EntityType_def FieldType_def
    in_CustomFieldDefinitionCreate_def cong: into_target)

lemma wire_172 [request_wire]: "sub (closed CustomFieldDefinitionUpdate) (erase [] in_CustomFieldDefinitionUpdate)"
  by (simp add: request_wire request_eval CustomFieldDefinitionUpdate_def in_CustomFieldDefinitionUpdate_def cong:
    into_target)

lemma wire_173 [request_wire]: "sub (closed DecommissionCreate) (erase [] in_DecommissionCreate)"
  by (simp add: request_wire request_eval DecommissionCreate_def in_DecommissionCreate_def cong: into_target)

lemma wire_174 [request_wire]: "sub (closed ExtensionRequest) (erase [] in_ExtensionRequest)"
  by (simp add: request_wire request_eval ExtensionRequest_def in_ExtensionRequest_def cong: into_target)

lemma wire_175 [request_wire]: "sub (closed ExtensionDecision) (erase [] in_ExtensionDecision)"
  by (simp add: request_wire request_eval ExtensionDecision_def in_ExtensionDecision_def cong: into_target)

lemma wire_176 [request_wire]: "sub (closed AttestationCreate) (erase [] in_AttestationCreate)"
  by (simp add: request_wire request_eval AttestationCreate_def in_AttestationCreate_def cong: into_target)

lemma wire_177 [request_wire]: "sub (closed CancelRequest) (erase [] in_CancelRequest)"
  by (simp add: request_wire request_eval CancelRequest_def in_CancelRequest_def cong: into_target)

lemma wire_178 [request_wire]: "sub (closed DecommissionStepWrite) (erase [] in_DecommissionStepWrite)"
  by (simp add: request_wire request_eval DecommissionStepWrite_def in_DecommissionStepWrite_def cong: into_target)

lemma wire_179 [request_wire]: "sub (closed SystemDependencyCreate) (erase [] in_SystemDependencyCreate)"
  by (simp add: request_wire request_eval DependencyDirection_def DependencySource_def DependencyType_def
    SystemDependencyCreate_def in_SystemDependencyCreate_def cong: into_target)

lemma wire_180 [request_wire]: "sub (closed ComponentDependencyCreate) (erase [] in_ComponentDependencyCreate)"
  by (simp add: request_wire request_eval ComponentDependencyCreate_def DependencyDirection_def
    DependencySource_def DependencyType_def in_ComponentDependencyCreate_def cong: into_target)

lemma wire_181 [request_wire]: "sub (closed ComponentEndpointCreate) (erase [] in_ComponentEndpointCreate)"
  by (simp add: request_wire request_eval ComponentEndpointCreate_def HttpMethod_def in_ComponentEndpointCreate_def
    cong: into_target)

lemma wire_182 [request_wire]: "sub (closed ComponentEndpointUpdate) (erase [] in_ComponentEndpointUpdate)"
  by (simp add: request_wire request_eval ComponentEndpointUpdate_def HttpMethod_def in_ComponentEndpointUpdate_def
    cong: into_target)

lemma wire_183 [request_wire]: "sub (closed DeploymentLinkChangeRequest) (erase [] in_DeploymentLinkChangeRequest)"
  by (simp add: request_wire request_eval DeploymentLinkChangeRequest_def in_DeploymentLinkChangeRequest_def cong:
    into_target)

lemma wire_184 [request_wire]: "sub (closed MembershipCreatePayload) (erase [] in_ReleaseMembershipCreate)"
  by (simp add: request_wire request_eval MembershipCreatePayload_def in_ReleaseMembershipCreate_def cong:
    into_target)

lemma wire_185 [request_wire]: "sub (closed MembershipRejectPayload) (erase [] in_MembershipRejectRequest)"
  by (simp add: request_wire request_eval MembershipRejectPayload_def in_MembershipRejectRequest_def cong:
    into_target)

lemma wire_186 [request_wire]: "sub (closed MembershipRemovePayload) (erase [] in_MembershipRemoveRequest)"
  by (simp add: request_wire request_eval MembershipRemovePayload_def in_MembershipRemoveRequest_def cong:
    into_target)

lemma wire_187 [request_wire]: "sub (closed EnvironmentGroupCreate) (erase [] in_EnvironmentGroupCreate)"
  by (simp add: request_wire request_eval EnvironmentGroupCreate_def in_EnvironmentGroupCreate_def cong:
    into_target)

lemma wire_188 [request_wire]: "sub (closed EnvironmentGroupUpdate) (erase [] in_EnvironmentGroupUpdate)"
  by (simp add: request_wire request_eval EnvironmentGroupUpdate_def in_EnvironmentGroupUpdate_def cong:
    into_target)

lemma wire_189 [request_wire]: "sub (closed MemberCreate) (erase [] in_MemberCreate)"
  by (simp add: request_wire request_eval MemberCreate_def in_MemberCreate_def cong: into_target)

lemma wire_190 [request_wire]: "sub (closed EnvironmentLifecyclePolicyUpdate) (erase []
  in_EnvironmentLifecyclePolicyUpdate)"
  by (simp add: request_wire request_eval EnvironmentLifecyclePolicyUpdate_def
    in_EnvironmentLifecyclePolicyUpdate_def cong: into_target)

lemma wire_191 [request_wire]: "sub (closed NamingPolicyPreviewRequest) (erase []
  in_EnvironmentNamingPolicyPreviewRequest)"
  by (simp add: request_wire request_eval NamingPolicyPreviewRequest_def
    in_EnvironmentNamingPolicyPreviewRequest_def cong: into_target)

lemma wire_192 [request_wire]: "sub (closed OperatingHoursDay) (erase [] in_OperatingHoursDay)"
  by (simp add: request_wire request_eval OperatingHoursDay_def in_OperatingHoursDay_def cong: into_target)

lemma wire_193 [request_wire]: "sub (closed OperatingHoursConfigInput) (erase [] in_OperatingHoursConfigIn)"
  by (simp add: request_wire request_eval OperatingHoursConfigInput_def in_OperatingHoursConfigIn_def cong:
    into_target)

lemma wire_194 [request_wire]: "sub (closed EnvironmentRequestCreate) (erase [] in_EnvironmentRequestCreate)"
  by (simp add: request_wire request_eval EnvironmentRequestCreate_def EnvironmentRequestKind_def
    in_EnvironmentRequestCreate_def cong: into_target)

lemma wire_195 [request_wire]: "sub (closed EnvironmentRequestUpdate) (erase [] in_EnvironmentRequestUpdate)"
  by (simp add: request_wire request_eval EnvironmentRequestUpdate_def in_EnvironmentRequestUpdate_def cong:
    into_target)

lemma wire_196 [request_wire]: "sub (closed EnvironmentHandoverUpdate) (erase [] in_EnvironmentHandoverUpdate)"
  by (simp add: request_wire request_eval EnvironmentHandoverUpdate_def in_EnvironmentHandoverUpdate_def cong:
    into_target)

lemma wire_197 [request_wire]: "sub (closed EnvironmentCreate) (erase [] in_EnvironmentCreate)"
  by (simp add: request_wire request_eval EnvironmentCreate_def EnvironmentStatus_t_def in_EnvironmentCreate_def
    cong: into_target)

lemma wire_198 [request_wire]: "sub (closed EnvironmentUpdate) (erase [] in_EnvironmentUpdate)"
  by (simp add: request_wire request_eval EnvironmentStatus_t_def EnvironmentUpdate_def in_EnvironmentUpdate_def
    cong: into_target)

lemma wire_199 [request_wire]: "sub (closed EnvironmentSystemCreate) (erase [] in_EnvironmentSystemCreate)"
  by (simp add: request_wire request_eval EnvironmentSystemCreate_def in_EnvironmentSystemCreate_def cong:
    into_target)

lemma wire_200 [request_wire]: "sub (closed EnvironmentSystemUpdate) (erase [] in_EnvironmentSystemUpdate)"
  by (simp add: request_wire request_eval EnvironmentSystemUpdate_def in_EnvironmentSystemUpdate_def cong:
    into_target)

lemma wire_201 [request_wire]: "sub (closed EnvironmentSubsystemUpdate) (erase [] in_EnvironmentSubsystemUpdate)"
  by (simp add: request_wire request_eval EnvironmentSubsystemUpdate_def in_EnvironmentSubsystemUpdate_def cong:
    into_target)

lemma wire_202 [request_wire]: "sub (closed EnvironmentTierCreate) (erase [] in_EnvironmentTierCreate)"
  by (simp add: request_wire request_eval EnvironmentTierCreate_def in_EnvironmentTierCreate_def cong: into_target)

lemma wire_203 [request_wire]: "sub (closed EnvironmentTierUpdate) (erase [] in_EnvironmentTierUpdate)"
  by (simp add: request_wire request_eval EnvironmentTierUpdate_def in_EnvironmentTierUpdate_def cong: into_target)

lemma wire_204 [request_wire]: "sub (closed GateTypeCreate) (erase [] in_GateTypeCreate)"
  by (simp add: request_wire request_eval GateFailureBehaviour_def GateTypeCreate_def in_GateTypeCreate_def cong:
    into_target)

lemma wire_205 [request_wire]: "sub (closed GateTypeUpdate) (erase [] in_GateTypeUpdate)"
  by (simp add: request_wire request_eval GateFailureBehaviour_def GateTypeUpdate_def in_GateTypeUpdate_def cong:
    into_target)

lemma wire_206 [request_wire]: "sub (closed GoNoGoSignoffCreate) (erase [] in_GoNoGoSignoffCreate)"
  by (simp add: request_wire request_eval GoNoGoOutcome_def GoNoGoSignoffCreate_def in_GoNoGoSignoffCreate_def
    cong: into_target)

lemma wire_207 [request_wire]: "sub (closed GoNoGoConditionCreate) (erase [] in_GoNoGoConditionCreate)"
  by (simp add: request_wire request_eval GoNoGoConditionCreate_def in_GoNoGoConditionCreate_def cong: into_target)

lemma wire_208 [request_wire]: "sub (closed GoNoGoDecisionCreate) (erase [] in_GoNoGoDecisionCreate)"
  by (simp add: request_wire request_eval GoNoGoDecisionCreate_def GoNoGoOutcome_def in_GoNoGoDecisionCreate_def
    cong: into_target)

lemma wire_209 [request_wire]: "sub (closed GoNoGoPerspectiveCreate) (erase [] in_GoNoGoPerspectiveCreate)"
  by (simp add: request_wire request_eval GoNoGoPerspectiveCreate_def in_GoNoGoPerspectiveCreate_def cong:
    into_target)

lemma wire_210 [request_wire]: "sub (closed GoNoGoPerspectiveUpdate) (erase [] in_GoNoGoPerspectiveUpdate)"
  by (simp add: request_wire request_eval GoNoGoPerspectiveUpdate_def in_GoNoGoPerspectiveUpdate_def cong:
    into_target)

lemma wire_211 [request_wire]: "sub (closed IncidentCreate) (erase [] in_IncidentCreate)"
  by (simp add: request_wire request_eval IncidentCreate_def Severity_def in_IncidentCreate_def cong: into_target)

lemma wire_212 [request_wire]: "sub (closed InfrastructureComponentCreate) (erase []
  in_InfrastructureComponentCreate)"
  by (simp add: request_wire request_eval InfrastructureComponentCreate_def InfrastructureComponentSource_def
    InfrastructureComponentType_def in_InfrastructureComponentCreate_def cong: into_target)

lemma wire_213 [request_wire]: "sub (closed InfrastructureComponentUpdate) (erase []
  in_InfrastructureComponentUpdate)"
  by (simp add: request_wire request_eval InfrastructureComponentSource_def InfrastructureComponentType_def
    InfrastructureComponentUpdate_def in_InfrastructureComponentUpdate_def cong: into_target)

lemma wire_214 [request_wire]: "sub (closed HostAttachment) (erase [] in_HostAttachment)"
  by (simp add: request_wire request_eval HostAttachment_def in_HostAttachment_def cong: into_target)

lemma wire_215 [request_wire]: "sub (closed PIRWrite) (erase [] in_PIRCreate)"
  by (simp add: request_wire request_eval PIRWrite_def PirStatus_def in_PIRCreate_def cong: into_target)

lemma wire_216 [request_wire]: "sub (closed PIRWrite) (erase [] in_PIRUpdate)"
  by (simp add: request_wire request_eval PIRWrite_def PirStatus_def in_PIRUpdate_def cong: into_target)

lemma wire_217 [request_wire]: "sub (closed PirFindingWrite) (erase [] in_PirFindingUpdate)"
  by (simp add: request_wire request_eval PirFindingKind_def PirFindingWrite_def in_PirFindingUpdate_def cong:
    into_target)

lemma wire_218 [request_wire]: "sub (closed PirActionWrite) (erase [] in_PirActionUpdate)"
  by (simp add: request_wire request_eval PirActionStatus_def PirActionWrite_def in_PirActionUpdate_def cong:
    into_target)

lemma wire_219 [request_wire]: "sub (closed ProjectCreate) (erase [] in_ProjectCreate)"
  by (simp add: request_wire request_eval ProjectCreate_def in_ProjectCreate_def cong: into_target)

lemma wire_220 [request_wire]: "sub (closed ProjectUpdate) (erase [] in_ProjectUpdate)"
  by (simp add: request_wire request_eval ProjectUpdate_def in_ProjectUpdate_def cong: into_target)

lemma wire_221 [request_wire]: "sub (closed UsageAgreementCreate) (erase [] in_UsageAgreementCreate)"
  by (simp add: request_wire request_eval UsageAgreementCreate_def in_UsageAgreementCreate_def cong: into_target)

lemma wire_222 [request_wire]: "sub (closed RaidItemCreatePayload) (erase [] in_RaidItemCreate)"
  by (simp add: request_wire request_eval RaidItemCreatePayload_def RaidItemType_def in_RaidItemCreate_def cong:
    into_target)

lemma wire_223 [request_wire]: "sub (closed RaidItemUpdatePayload) (erase [] in_RaidItemUpdate)"
  by (simp add: request_wire request_eval RaidItemUpdatePayload_def in_RaidItemUpdate_def cong: into_target)

lemma wire_224 [request_wire]: "sub (closed RaidConfigUpdatePayload) (erase [] in_RaidConfigUpdate)"
  by (simp add: request_wire request_eval RaidBand_def RaidConfigUpdatePayload_def RaidScaleLevel_def
    in_RaidConfigUpdate_def cong: into_target)

lemma wire_225 [request_wire]: "sub (closed ReleaseEventTypeCreatePayload) (erase [] in_ReleaseEventTypeCreate)"
  by (simp add: request_wire request_eval ReleaseEventTypeCreatePayload_def in_ReleaseEventTypeCreate_def cong:
    into_target)

lemma wire_226 [request_wire]: "sub (closed ReleaseEventTypeUpdatePayload) (erase [] in_ReleaseEventTypeUpdate)"
  by (simp add: request_wire request_eval ReleaseEventTypeUpdatePayload_def in_ReleaseEventTypeUpdate_def cong:
    into_target)

lemma wire_227 [request_wire]: "sub (closed ReleaseCreatePayload) (erase [] in_ReleaseCreate)"
  by (simp add: request_wire request_eval ReleaseCreatePayload_def ReleaseKind_t_def in_ReleaseCreate_def cong:
    into_target)

lemma wire_228 [request_wire]: "sub (closed ReleaseUpdatePayload) (erase [] in_ReleaseUpdate)"
  by (simp add: request_wire request_eval ReleaseUpdatePayload_def in_ReleaseUpdate_def cong: into_target)

lemma wire_229 [request_wire]: "sub (closed ReleaseTransitionPayload) (erase [] in_ReleaseTransition)"
  by (simp add: request_wire request_eval ReleaseTransitionPayload_def in_ReleaseTransition_def cong: into_target)

lemma wire_230 [request_wire]: "sub (closed TestPhaseCreatePayload) (erase [] in_TestPhaseCreate)"
  by (simp add: request_wire request_eval PhaseKind_t_def TestPhaseCreatePayload_def in_TestPhaseCreate_def cong:
    into_target)

lemma wire_231 [request_wire]: "sub (closed TestPhaseUpdatePayload) (erase [] in_TestPhaseUpdate)"
  by (simp add: request_wire request_eval PhaseKind_t_def TestPhaseUpdatePayload_def in_TestPhaseUpdate_def cong:
    into_target)

lemma wire_232 [request_wire]: "sub (closed ReleaseGateCreatePayload) (erase [] in_ReleaseGateCreate)"
  by (simp add: request_wire request_eval ReleaseGateCreatePayload_def in_ReleaseGateCreate_def cong: into_target)

lemma wire_233 [request_wire]: "sub (closed ReleaseGateUpdatePayload) (erase [] in_ReleaseGateUpdate)"
  by (simp add: request_wire request_eval ReleaseGateUpdatePayload_def in_ReleaseGateUpdate_def cong: into_target)

lemma wire_234 [request_wire]: "sub (closed ReleaseGateDecisionPayload) (erase [] in_ReleaseGateDecision)"
  by (simp add: request_wire request_eval ReleaseGateDecisionPayload_def in_ReleaseGateDecision_def cong:
    into_target)

lemma wire_235 [request_wire]: "sub (closed GateEvidenceCreatePayload) (erase [] in_GateEvidenceCreate)"
  by (simp add: request_wire request_eval GateEvidenceCreatePayload_def in_GateEvidenceCreate_def cong: into_target)

lemma wire_236 [request_wire]: "sub (closed ReleaseSystemCreatePayload) (erase [] in_ReleaseSystemCreate)"
  by (simp add: request_wire request_eval ReleaseSystemCreatePayload_def in_ReleaseSystemCreate_def cong:
    into_target)

lemma wire_237 [request_wire]: "sub (closed ReleaseDependencyCreatePayload) (erase [] in_ReleaseDependencyCreate)"
  by (simp add: request_wire request_eval ReleaseDependencyCreatePayload_def in_ReleaseDependencyCreate_def cong:
    into_target)

lemma wire_238 [request_wire]: "sub (closed ReleaseEventCreatePayload) (erase [] in_ReleaseEventCreate)"
  by (simp add: request_wire request_eval ReleaseEventCreatePayload_def in_ReleaseEventCreate_def cong: into_target)

lemma wire_239 [request_wire]: "sub (closed ReleaseChangeCreatePayload) (erase [] in_ReleaseChangeCreate)"
  by (simp add: request_wire request_eval ReleaseChangeCreatePayload_def in_ReleaseChangeCreate_def cong:
    into_target)

lemma wire_240 [request_wire]: "sub (closed ReleaseChangeUpdatePayload) (erase [] in_ReleaseChangeUpdate)"
  by (simp add: request_wire request_eval ReleaseChangeUpdatePayload_def in_ReleaseChangeUpdate_def cong:
    into_target)

lemma wire_241 [request_wire]: "sub (closed ReleaseChangeMovePayload) (erase [] in_ReleaseChangeMovePayload)"
  by (simp add: request_wire request_eval ReleaseChangeMovePayload_def in_ReleaseChangeMovePayload_def cong:
    into_target)

lemma wire_242 [request_wire]: "sub (closed ReleaseBookingCreatePayload) (erase [] in_ReleaseBookingRequest)"
  by (simp add: request_wire request_eval ReleaseBookingCreatePayload_def in_ReleaseBookingRequest_def cong:
    into_target)

lemma wire_243 [request_wire]: "sub (closed ReleaseBulkBookingPayload) (erase [] in_ReleaseBulkBookingRequest)"
  by (simp add: request_wire request_eval ReleaseBulkBookingPayload_def in_ReleaseBulkBookingRequest_def cong:
    into_target)

lemma wire_244 [request_wire]: "sub (closed GateCriterionCreatePayload) (erase [] in_GateCriterionCreate)"
  by (simp add: request_wire request_eval GateCriterionCreatePayload_def in_GateCriterionCreate_def cong:
    into_target)

lemma wire_245 [request_wire]: "sub (closed GateCriterionUpdatePayload) (erase [] in_GateCriterionUpdate)"
  by (simp add: request_wire request_eval GateCriterionUpdatePayload_def in_GateCriterionUpdate_def cong:
    into_target)

lemma wire_246 [request_wire]: "sub (closed ReleaseTemplatePhase) (erase [] in_ReleaseTemplatePhase)"
  by (simp add: request_wire request_eval ReleaseTemplatePhase_def in_ReleaseTemplatePhase_def cong: into_target)

lemma wire_247 [request_wire]: "sub (closed ReleaseTemplateGate) (erase [] in_ReleaseTemplateGate)"
  by (simp add: request_wire request_eval ReleaseTemplateGate_def in_ReleaseTemplateGate_def cong: into_target)

lemma wire_248 [request_wire]: "sub (closed ReleaseTemplateCreatePayload) (erase [] in_ReleaseTemplateCreate)"
  by (simp add: request_wire request_eval ReleaseTemplateCreatePayload_def in_ReleaseTemplateCreate_def cong:
    into_target)

lemma wire_249 [request_wire]: "sub (closed ReleaseTemplateUpdatePayload) (erase [] in_ReleaseTemplateUpdate)"
  by (simp add: request_wire request_eval ReleaseTemplateUpdatePayload_def in_ReleaseTemplateUpdate_def cong:
    into_target)

lemma wire_250 [request_wire]: "sub (closed ReleaseTemplateInstantiatePayload) (erase []
  in_ReleaseTemplateInstantiate)"
  by (simp add: request_wire request_eval ReleaseTemplateInstantiatePayload_def in_ReleaseTemplateInstantiate_def
    cong: into_target)

lemma wire_251 [request_wire]: "sub (closed RollbackPlanCreate) (erase [] in_RollbackPlanCreate)"
  by (simp add: request_wire request_eval Reversibility_def RollbackPlanCreate_def in_RollbackPlanCreate_def cong:
    into_target)

lemma wire_252 [request_wire]: "sub (closed RollbackAuthorisationCreate) (erase [] in_RollbackAuthorisationCreate)"
  by (simp add: request_wire request_eval RollbackAuthorisationCreate_def in_RollbackAuthorisationCreate_def cong:
    into_target)

lemma wire_253 [request_wire]: "sub (closed RehearsalCreate) (erase [] in_RehearsalCreate)"
  by (simp add: request_wire request_eval RehearsalCreate_def RehearsalOutcome_def in_RehearsalCreate_def cong:
    into_target)

lemma wire_254 [request_wire]: "sub (closed RollbackPolicyUpdate) (erase [] in_RollbackPolicyUpdate)"
  by (simp add: request_wire request_eval RollbackPolicyUpdate_def in_RollbackPolicyUpdate_def cong: into_target)

lemma wire_255 [request_wire]: "sub (closed RunbookPlanCreate) (erase [] in_RunbookPlanCreate)"
  by (simp add: request_wire request_eval DeployPattern_def RunbookPlanCreate_def in_RunbookPlanCreate_def cong:
    into_target)

lemma wire_256 [request_wire]: "sub (closed RunbookTaskCreate) (erase [] in_RunbookTaskCreate)"
  by (simp add: request_wire request_eval RunbookTaskCreate_def TaskKind_def in_RunbookTaskCreate_def cong:
    into_target)

lemma wire_257 [request_wire]: "sub (closed TransitionRequest) (erase [] in_TransitionRequest)"
  by (simp add: request_wire request_eval TaskStatus_def TransitionRequest_def in_TransitionRequest_def cong:
    into_target)

lemma wire_258 [request_wire]: "sub (closed ScopeChangeKindRuleUpsertItem) (erase []
  in_ScopeChangeKindRuleUpsertItem)"
  by (simp add: request_wire request_eval ScopeChangeKindRuleUpsertItem_def in_ScopeChangeKindRuleUpsertItem_def
    cong: into_target)

lemma wire_259 [request_wire]: "sub (closed ScopeChangeKindRulesUpsertPayload) (erase []
  in_ScopeChangeKindRulesUpsertPayload)"
  by (simp add: request_wire request_eval ScopeChangeKindRulesUpsertPayload_def
    in_ScopeChangeKindRulesUpsertPayload_def cong: into_target)

lemma wire_260 [request_wire]: "sub (closed SystemCreate) (erase [] in_SystemCreate)"
  by (simp add: request_wire request_eval SystemCreate_def in_SystemCreate_def cong: into_target)

lemma wire_261 [request_wire]: "sub (closed SystemUpdate) (erase [] in_SystemUpdate)"
  by (simp add: request_wire request_eval SystemUpdate_def in_SystemUpdate_def cong: into_target)

lemma wire_262 [request_wire]: "sub (closed SubSystemCreate) (erase [] in_SubSystemCreate)"
  by (simp add: request_wire request_eval SubSystemCreate_def in_SubSystemCreate_def cong: into_target)

lemma wire_263 [request_wire]: "sub (closed SubSystemUpdate) (erase [] in_SubSystemUpdate)"
  by (simp add: request_wire request_eval SubSystemUpdate_def in_SubSystemUpdate_def cong: into_target)

lemma wire_264 [request_wire]: "sub (closed UserGroupCreate) (erase [] in_UserGroupCreate)"
  by (simp add: request_wire request_eval UserGroupCreate_def in_UserGroupCreate_def cong: into_target)

lemma wire_265 [request_wire]: "sub (closed UserGroupUpdate) (erase [] in_UserGroupUpdate)"
  by (simp add: request_wire request_eval UserGroupUpdate_def in_UserGroupUpdate_def cong: into_target)

lemma wire_266 [request_wire]: "sub (closed VersionUpdate) (erase [] in_VersionUpdate)"
  by (simp add: request_wire request_eval VersionUpdate_def in_VersionUpdate_def cong: into_target)

definition admin_payloads :: "(string \<times> string \<times> ts \<times> ts) list" where
  "admin_payloads =
     [(''adminService.createTenant'', ''admin.create_tenant'', closed (Obj [
     req ''name'' Str,
     req ''slug'' Str,
     opt ''settings'' (Dict Any)]), erase [] in_TenantCreate),
      (''adminService.updateTenant'', ''admin.update_tenant'', closed (Obj [
     opt ''name'' Str,
     opt ''slug'' Str,
     opt ''settings'' (Dict Any)]), erase [] in_TenantUpdate),
      (''adminService.createTenantUser'', ''admin.create_tenant_user'', closed (Obj [
     req ''username'' Str,
     req ''email'' Str,
     req ''password'' Str,
     opt ''role'' Str,
     opt ''is_master_admin'' Bool]), erase [] in_UserAdminCreate),
      (''adminService.updateTenantUser'', ''admin.update_tenant_user'', closed (Obj [
     opt ''username'' Str,
     opt ''email'' Str,
     opt ''is_master_admin'' Bool]), erase [] in_UserAdminUpdate),
      (''adminService.setTenantUserRole'', ''admin.set_tenant_user_role'', closed (Obj [
     req ''role'' Str]), erase [] in_UserRoleUpdate),
      (''adminService.resetUserPassword'', ''admin.reset_user_password'', closed (Obj [
     req ''new_password'' Str]), erase [] in_PasswordReset)]"

lemma admin_payloads_createTenant: "sub (closed (Obj [
     req ''name'' Str,
     req ''slug'' Str,
     opt ''settings'' (Dict Any)])) (erase [] in_TenantCreate)"
  by (simp add: request_wire request_eval in_TenantCreate_def cong: into_target)

lemma admin_payloads_updateTenant: "sub (closed (Obj [
     opt ''name'' Str,
     opt ''slug'' Str,
     opt ''settings'' (Dict Any)])) (erase [] in_TenantUpdate)"
  by (simp add: request_wire request_eval in_TenantUpdate_def cong: into_target)

lemma admin_payloads_createTenantUser: "sub (closed (Obj [
     req ''username'' Str,
     req ''email'' Str,
     req ''password'' Str,
     opt ''role'' Str,
     opt ''is_master_admin'' Bool])) (erase [] in_UserAdminCreate)"
  by (simp add: request_wire request_eval in_UserAdminCreate_def cong: into_target)

lemma admin_payloads_updateTenantUser: "sub (closed (Obj [
     opt ''username'' Str,
     opt ''email'' Str,
     opt ''is_master_admin'' Bool])) (erase [] in_UserAdminUpdate)"
  by (simp add: request_wire request_eval in_UserAdminUpdate_def cong: into_target)

lemma admin_payloads_setTenantUserRole: "sub (closed (Obj [
     req ''role'' Str])) (erase [] in_UserRoleUpdate)"
  by (simp add: request_wire request_eval in_UserRoleUpdate_def cong: into_target)

lemma admin_payloads_resetUserPassword: "sub (closed (Obj [
     req ''new_password'' Str])) (erase [] in_PasswordReset)"
  by (simp add: request_wire request_eval in_PasswordReset_def cong: into_target)

lemma admin_payloads_wired: "list_all (\<lambda>w. sub (fst (snd (snd w))) (snd (snd (snd w)))) admin_payloads"
  by (simp only: admin_payloads_def list.pred_inject fst_conv snd_conv simp_thms admin_payloads_createTenant
    admin_payloads_updateTenant admin_payloads_createTenantUser admin_payloads_updateTenantUser
      admin_payloads_setTenantUserRole admin_payloads_resetUserPassword)

definition agreementGap_payloads :: "(string \<times> string \<times> ts \<times> ts) list" where
  "agreementGap_payloads =
     [(''agreementGapService.ackGap'', ''bookings.ack_agreement_gap'', closed (Obj [
     req ''notes'' (nullable (nullable Str))]), erase [] in_AgreementGapAckUpsert)]"

lemma agreementGap_payloads_ackGap: "sub (closed (Obj [
     req ''notes'' (nullable (nullable Str))])) (erase [] in_AgreementGapAckUpsert)"
  by (simp add: request_wire request_eval in_AgreementGapAckUpsert_def cong: into_target)

lemma agreementGap_payloads_wired: "list_all (\<lambda>w. sub (fst (snd (snd w))) (snd (snd (snd w))))
  agreementGap_payloads"
  by (simp only: agreementGap_payloads_def list.pred_inject fst_conv snd_conv simp_thms
    agreementGap_payloads_ackGap)

definition apiKey_payloads :: "(string \<times> string \<times> ts \<times> ts) list" where
  "apiKey_payloads =
     [(''apiKeyService.create'', ''api_keys.create_key'', closed ApiKeyCreatePayload, erase [] in_ApiKeyCreate)]"

lemma apiKey_payloads_create: "sub (closed ApiKeyCreatePayload) (erase [] in_ApiKeyCreate)"
  by (simp add: request_wire request_eval  cong: into_target)

lemma apiKey_payloads_wired: "list_all (\<lambda>w. sub (fst (snd (snd w))) (snd (snd (snd w)))) apiKey_payloads"
  by (simp only: apiKey_payloads_def list.pred_inject fst_conv snd_conv simp_thms apiKey_payloads_create)

definition auth_payloads :: "(string \<times> string \<times> ts \<times> ts) list" where
  "auth_payloads =
     [(''authService.login'', ''auth.login'', closed LoginCredentials, erase [] in_UserLogin)]"

lemma auth_payloads_login: "sub (closed LoginCredentials) (erase [] in_UserLogin)"
  by (simp add: request_wire request_eval  cong: into_target)

lemma auth_payloads_wired: "list_all (\<lambda>w. sub (fst (snd (snd w))) (snd (snd (snd w)))) auth_payloads"
  by (simp only: auth_payloads_def list.pred_inject fst_conv snd_conv simp_thms auth_payloads_login)

definition bookingLifecycle_payloads :: "(string \<times> string \<times> ts \<times> ts) list" where
  "bookingLifecycle_payloads =
     [(''bookingLifecycleService.updateTemplate'', ''booking_lifecycle.update_lifecycle_template'', closed (partial
       (pick [''name'', ''description'', ''is_default'', ''definition'', ''applies_to_kind'']
         BookingLifecycleTemplate_t)), erase [] in_LifecycleTemplateUpdate),
      (''bookingLifecycleService.copyTemplate'', ''booking_lifecycle.copy_lifecycle_template'', closed (Obj [
     req ''name'' Str]), erase [] in_LifecycleTemplateCopy),
      (''bookingLifecycleService.createBookingType'', ''booking_lifecycle.create_booking_type'', closed (omit
        [''id'', ''tenant_id'', ''created_at'', ''updated_at''] BookingTypeRecord), erase [] in_BookingTypeCreate),
      (''bookingLifecycleService.updateBookingType'', ''booking_lifecycle.update_booking_type'', closed (partial
        (pick [''name'', ''description'', ''lifecycle_template_id'', ''color'', ''is_active'',
          ''default_protection_level'', ''default_duration_minutes''] BookingTypeRecord)), erase []
            in_BookingTypeUpdate)]"

lemma bookingLifecycle_payloads_updateTemplate: "sub (closed (partial (pick [''name'', ''description'',
  ''is_default'', ''definition'', ''applies_to_kind''] BookingLifecycleTemplate_t))) (erase []
    in_LifecycleTemplateUpdate)"
  by (simp add: request_wire request_eval BookingLifecycleTemplate_t_def in_LifecycleTemplateUpdate_def cong:
    into_target)

lemma bookingLifecycle_payloads_copyTemplate: "sub (closed (Obj [
     req ''name'' Str])) (erase [] in_LifecycleTemplateCopy)"
  by (simp add: request_wire request_eval in_LifecycleTemplateCopy_def cong: into_target)

lemma bookingLifecycle_payloads_createBookingType: "sub (closed (omit [''id'', ''tenant_id'', ''created_at'',
  ''updated_at''] BookingTypeRecord)) (erase [] in_BookingTypeCreate)"
  by (simp add: request_wire request_eval BookingTypeRecord_def ProtectionLevel_t_def in_BookingTypeCreate_def
    cong: into_target)

lemma bookingLifecycle_payloads_updateBookingType: "sub (closed (partial (pick [''name'', ''description'',
  ''lifecycle_template_id'', ''color'', ''is_active'', ''default_protection_level'', ''default_duration_minutes'']
    BookingTypeRecord))) (erase [] in_BookingTypeUpdate)"
  by (simp add: request_wire request_eval BookingTypeRecord_def ProtectionLevel_t_def in_BookingTypeUpdate_def
    cong: into_target)

lemma bookingLifecycle_payloads_wired: "list_all (\<lambda>w. sub (fst (snd (snd w))) (snd (snd (snd w))))
  bookingLifecycle_payloads"
  by (simp only: bookingLifecycle_payloads_def list.pred_inject fst_conv snd_conv simp_thms
    bookingLifecycle_payloads_updateTemplate bookingLifecycle_payloads_copyTemplate
      bookingLifecycle_payloads_createBookingType bookingLifecycle_payloads_updateBookingType)

definition bookingRequest_payloads :: "(string \<times> string \<times> ts \<times> ts) list" where
  "bookingRequest_payloads =
     [(''bookingRequestService.create'', ''booking_requests.create_booking_request'', closed
       BookingRequestCreatePayload, erase [] in_BookingRequestCreate),
      (''bookingRequestService.previewConflicts'', ''booking_requests.preview_conflicts'', closed (Obj [
     req ''environment_ids'' (Arr Num),
     req ''start_date'' Str,
     req ''end_date'' Str]), erase [] in_PreviewConflictsRequest),
      (''bookingRequestService.updateCustomFields'', ''booking_requests.update_request_custom_fields'', closed (Obj
        [
     req ''values'' (Dict Any)]), erase [] in_BookingRequestCustomFieldsUpdate),
      (''bookingRequestService.addEnvironment'', ''booking_requests.add_environment_to_request'', closed (Obj [
     req ''environment_id'' Num,
     opt ''start_date'' Str,
     opt ''end_date'' Str]), erase [] in_AddEnvironmentRequest)]"

lemma bookingRequest_payloads_create: "sub (closed BookingRequestCreatePayload) (erase [] in_BookingRequestCreate)"
  by (simp add: request_wire request_eval  cong: into_target)

lemma bookingRequest_payloads_previewConflicts: "sub (closed (Obj [
     req ''environment_ids'' (Arr Num),
     req ''start_date'' Str,
     req ''end_date'' Str])) (erase [] in_PreviewConflictsRequest)"
  by (simp add: request_wire request_eval in_PreviewConflictsRequest_def cong: into_target)

lemma bookingRequest_payloads_updateCustomFields: "sub (closed (Obj [
     req ''values'' (Dict Any)])) (erase [] in_BookingRequestCustomFieldsUpdate)"
  by (simp add: request_wire request_eval in_BookingRequestCustomFieldsUpdate_def cong: into_target)

lemma bookingRequest_payloads_addEnvironment: "sub (closed (Obj [
     req ''environment_id'' Num,
     opt ''start_date'' Str,
     opt ''end_date'' Str])) (erase [] in_AddEnvironmentRequest)"
  by (simp add: request_wire request_eval in_AddEnvironmentRequest_def cong: into_target)

lemma bookingRequest_payloads_wired: "list_all (\<lambda>w. sub (fst (snd (snd w))) (snd (snd (snd w))))
  bookingRequest_payloads"
  by (simp only: bookingRequest_payloads_def list.pred_inject fst_conv snd_conv simp_thms
    bookingRequest_payloads_create bookingRequest_payloads_previewConflicts
      bookingRequest_payloads_updateCustomFields bookingRequest_payloads_addEnvironment)

definition booking_payloads :: "(string \<times> string \<times> ts \<times> ts) list" where
  "booking_payloads =
     [(''bookingService.createBooking'', ''bookings.create_booking'', closed BookingCreate, erase []
       in_BookingCreate),
      (''bookingService.transitionState'', ''bookings.transition_booking_state'', closed (Obj [
     req ''to_state'' Str,
     opt ''notes'' Str]), erase [] in_BookingTransitionRequest),
      (''bookingService.acknowledgeConflict'', ''conflicts.ack_conflict'', closed (Obj [
     req ''willing_to_share'' Bool,
     opt ''notes'' Str]), erase [] in_ConflictAckUpsert)]"

lemma booking_payloads_createBooking: "sub (closed BookingCreate) (erase [] in_BookingCreate)"
  by (simp add: request_wire request_eval  cong: into_target)

lemma booking_payloads_transitionState: "sub (closed (Obj [
     req ''to_state'' Str,
     opt ''notes'' Str])) (erase [] in_BookingTransitionRequest)"
  by (simp add: request_wire request_eval in_BookingTransitionRequest_def cong: into_target)

lemma booking_payloads_acknowledgeConflict: "sub (closed (Obj [
     req ''willing_to_share'' Bool,
     opt ''notes'' Str])) (erase [] in_ConflictAckUpsert)"
  by (simp add: request_wire request_eval in_ConflictAckUpsert_def cong: into_target)

lemma booking_payloads_wired: "list_all (\<lambda>w. sub (fst (snd (snd w))) (snd (snd (snd w)))) booking_payloads"
  by (simp only: booking_payloads_def list.pred_inject fst_conv snd_conv simp_thms booking_payloads_createBooking
    booking_payloads_transitionState booking_payloads_acknowledgeConflict)

definition changeRequest_payloads :: "(string \<times> string \<times> ts \<times> ts) list" where
  "changeRequest_payloads =
     [(''changeRequestService.create'', ''change_requests.create_change_request'', closed
       ChangeRequestCreatePayload, erase [] in_ChangeRequestCreate),
      (''changeRequestService.update'', ''change_requests.update_change_request'', closed
        ChangeRequestUpdatePayload, erase [] in_ChangeRequestUpdate),
      (''changeRequestService.transition'', ''change_requests.transition_change_request'', closed
        ChangeRequestTransitionPayload, erase [] in_ChangeRequestTransition),
      (''changeRequestService.previewOutageConflicts'', ''change_requests.preview_outage_conflicts'', closed
        PreviewOutageConflictsPayload, erase [] in_PreviewOutageConflictsRequest)]"

lemma changeRequest_payloads_create: "sub (closed ChangeRequestCreatePayload) (erase [] in_ChangeRequestCreate)"
  by (simp add: request_wire request_eval  cong: into_target)

lemma changeRequest_payloads_update: "sub (closed ChangeRequestUpdatePayload) (erase [] in_ChangeRequestUpdate)"
  by (simp add: request_wire request_eval  cong: into_target)

lemma changeRequest_payloads_transition: "sub (closed ChangeRequestTransitionPayload) (erase []
  in_ChangeRequestTransition)"
  by (simp add: request_wire request_eval  cong: into_target)

lemma changeRequest_payloads_previewOutageConflicts: "sub (closed PreviewOutageConflictsPayload) (erase []
  in_PreviewOutageConflictsRequest)"
  by (simp add: request_wire request_eval  cong: into_target)

lemma changeRequest_payloads_wired: "list_all (\<lambda>w. sub (fst (snd (snd w))) (snd (snd (snd w))))
  changeRequest_payloads"
  by (simp only: changeRequest_payloads_def list.pred_inject fst_conv snd_conv simp_thms
    changeRequest_payloads_create changeRequest_payloads_update changeRequest_payloads_transition
      changeRequest_payloads_previewOutageConflicts)

definition closeout_payloads :: "(string \<times> string \<times> ts \<times> ts) list" where
  "closeout_payloads =
     [(''closeoutService.declareStable'', ''release_closeout.declare_stable'', closed (Obj [
     req ''note'' (nullable Str)]), erase [] in_AuditNote),
      (''closeoutService.confirmHandover'', ''release_closeout.confirm_handover'', closed (Obj [
     req ''note'' (nullable Str)]), erase [] in_AuditNote)]"

lemma closeout_payloads_declareStable: "sub (closed (Obj [
     req ''note'' (nullable Str)])) (erase [] in_AuditNote)"
  by (simp add: request_wire request_eval in_AuditNote_def cong: into_target)

lemma closeout_payloads_wired: "list_all (\<lambda>w. sub (fst (snd (snd w))) (snd (snd (snd w))))
  closeout_payloads"
  by (simp only: closeout_payloads_def list.pred_inject fst_conv snd_conv simp_thms closeout_payloads_declareStable)

definition componentType_payloads :: "(string \<times> string \<times> ts \<times> ts) list" where
  "componentType_payloads =
     [(''componentTypeService.createType'', ''component_types.create_component_type'', closed
       ComponentTypeDefinitionCreate, erase [] in_ComponentTypeDefinitionCreate),
      (''componentTypeService.updateType'', ''component_types.update_component_type'', closed
        ComponentTypeDefinitionUpdate, erase [] in_ComponentTypeDefinitionUpdate)]"

lemma componentType_payloads_createType: "sub (closed ComponentTypeDefinitionCreate) (erase []
  in_ComponentTypeDefinitionCreate)"
  by (simp add: request_wire request_eval  cong: into_target)

lemma componentType_payloads_updateType: "sub (closed ComponentTypeDefinitionUpdate) (erase []
  in_ComponentTypeDefinitionUpdate)"
  by (simp add: request_wire request_eval  cong: into_target)

lemma componentType_payloads_wired: "list_all (\<lambda>w. sub (fst (snd (snd w))) (snd (snd (snd w))))
  componentType_payloads"
  by (simp only: componentType_payloads_def list.pred_inject fst_conv snd_conv simp_thms
    componentType_payloads_createType componentType_payloads_updateType)

definition contention_payloads :: "(string \<times> string \<times> ts \<times> ts) list" where
  "contention_payloads =
     [(''contentionService.escalate'', ''contentions.escalate_contention'', closed EscalationCreate, erase []
       in_EscalationCreate),
      (''contentionService.decide'', ''contentions.decide_contention'', closed EscalationDecision, erase []
        in_EscalationDecision)]"

lemma contention_payloads_escalate: "sub (closed EscalationCreate) (erase [] in_EscalationCreate)"
  by (simp add: request_wire request_eval  cong: into_target)

lemma contention_payloads_decide: "sub (closed EscalationDecision) (erase [] in_EscalationDecision)"
  by (simp add: request_wire request_eval  cong: into_target)

lemma contention_payloads_wired: "list_all (\<lambda>w. sub (fst (snd (snd w))) (snd (snd (snd w))))
  contention_payloads"
  by (simp only: contention_payloads_def list.pred_inject fst_conv snd_conv simp_thms contention_payloads_escalate
    contention_payloads_decide)

definition customField_payloads :: "(string \<times> string \<times> ts \<times> ts) list" where
  "customField_payloads =
     [(''customFieldService.createDefinition'', ''tenant_admin_fields.create_field'', closed
       CustomFieldDefinitionCreate, erase [] in_CustomFieldDefinitionCreate),
      (''customFieldService.updateDefinition'', ''tenant_admin_fields.update_field'', closed
        CustomFieldDefinitionUpdate, erase [] in_CustomFieldDefinitionUpdate)]"

lemma customField_payloads_createDefinition: "sub (closed CustomFieldDefinitionCreate) (erase []
  in_CustomFieldDefinitionCreate)"
  by (simp add: request_wire request_eval  cong: into_target)

lemma customField_payloads_updateDefinition: "sub (closed CustomFieldDefinitionUpdate) (erase []
  in_CustomFieldDefinitionUpdate)"
  by (simp add: request_wire request_eval  cong: into_target)

lemma customField_payloads_wired: "list_all (\<lambda>w. sub (fst (snd (snd w))) (snd (snd (snd w))))
  customField_payloads"
  by (simp only: customField_payloads_def list.pred_inject fst_conv snd_conv simp_thms
    customField_payloads_createDefinition customField_payloads_updateDefinition)

definition decommission_payloads :: "(string \<times> string \<times> ts \<times> ts) list" where
  "decommission_payloads =
     [(''decommissionService.initiate'', ''decommissions.initiate_decommission'', closed DecommissionCreate, erase
       [] in_DecommissionCreate),
      (''decommissionService.requestExtension'', ''decommissions.request_decommission_extension'', closed
        ExtensionRequest, erase [] in_ExtensionRequest),
      (''decommissionService.decideExtension'', ''decommissions.decide_decommission_extension'', closed
        ExtensionDecision, erase [] in_ExtensionDecision),
      (''decommissionService.signAttestation'', ''decommissions.sign_decommission_attestation'', closed
        AttestationCreate, erase [] in_AttestationCreate),
      (''decommissionService.cancel'', ''decommissions.cancel_decommission'', closed CancelRequest, erase []
        in_CancelRequest),
      (''decommissionService.createStep'', ''tenant_admin_fields.create_decommission_step'', closed
        DecommissionStepWrite, erase [] in_DecommissionStepWrite),
      (''decommissionService.updateStep'', ''tenant_admin_fields.update_decommission_step'', closed
        DecommissionStepWrite, erase [] in_DecommissionStepWrite)]"

lemma decommission_payloads_initiate: "sub (closed DecommissionCreate) (erase [] in_DecommissionCreate)"
  by (simp add: request_wire request_eval  cong: into_target)

lemma decommission_payloads_requestExtension: "sub (closed ExtensionRequest) (erase [] in_ExtensionRequest)"
  by (simp add: request_wire request_eval  cong: into_target)

lemma decommission_payloads_decideExtension: "sub (closed ExtensionDecision) (erase [] in_ExtensionDecision)"
  by (simp add: request_wire request_eval  cong: into_target)

lemma decommission_payloads_signAttestation: "sub (closed AttestationCreate) (erase [] in_AttestationCreate)"
  by (simp add: request_wire request_eval  cong: into_target)

lemma decommission_payloads_cancel: "sub (closed CancelRequest) (erase [] in_CancelRequest)"
  by (simp add: request_wire request_eval  cong: into_target)

lemma decommission_payloads_createStep: "sub (closed DecommissionStepWrite) (erase [] in_DecommissionStepWrite)"
  by (simp add: request_wire request_eval  cong: into_target)

lemma decommission_payloads_wired: "list_all (\<lambda>w. sub (fst (snd (snd w))) (snd (snd (snd w))))
  decommission_payloads"
  by (simp only: decommission_payloads_def list.pred_inject fst_conv snd_conv simp_thms
    decommission_payloads_initiate decommission_payloads_requestExtension decommission_payloads_decideExtension
      decommission_payloads_signAttestation decommission_payloads_cancel decommission_payloads_createStep)

definition dependency_payloads :: "(string \<times> string \<times> ts \<times> ts) list" where
  "dependency_payloads =
     [(''dependencyService.createSystemDependency'', ''dependencies.create_system_dependency'', closed
       SystemDependencyCreate, erase [] in_SystemDependencyCreate),
      (''dependencyService.updateSystemDependency'', ''dependencies.update_system_dependency'', closed (partial
        SystemDependencyCreate), erase [] in_SystemDependencyUpdate),
      (''dependencyService.createComponentDependency'', ''dependencies.create_component_dependency'', closed
        ComponentDependencyCreate, erase [] in_ComponentDependencyCreate),
      (''dependencyService.updateComponentDependency'', ''dependencies.update_component_dependency'', closed
        (partial ComponentDependencyCreate), erase [] in_ComponentDependencyUpdate),
      (''dependencyService.createComponentEndpoint'', ''dependencies.create_component_endpoint'', closed
        ComponentEndpointCreate, erase [] in_ComponentEndpointCreate),
      (''dependencyService.updateComponentEndpoint'', ''dependencies.update_component_endpoint'', closed
        ComponentEndpointUpdate, erase [] in_ComponentEndpointUpdate)]"

lemma dependency_payloads_createSystemDependency: "sub (closed SystemDependencyCreate) (erase []
  in_SystemDependencyCreate)"
  by (simp add: request_wire request_eval  cong: into_target)

lemma dependency_payloads_updateSystemDependency: "sub (closed (partial SystemDependencyCreate)) (erase []
  in_SystemDependencyUpdate)"
  by (simp add: request_wire request_eval DependencyDirection_def DependencySource_def DependencyType_def
    SystemDependencyCreate_def in_SystemDependencyUpdate_def cong: into_target)

lemma dependency_payloads_createComponentDependency: "sub (closed ComponentDependencyCreate) (erase []
  in_ComponentDependencyCreate)"
  by (simp add: request_wire request_eval  cong: into_target)

lemma dependency_payloads_updateComponentDependency: "sub (closed (partial ComponentDependencyCreate)) (erase []
  in_ComponentDependencyUpdate)"
  by (simp add: request_wire request_eval ComponentDependencyCreate_def DependencyDirection_def
    DependencySource_def DependencyType_def in_ComponentDependencyUpdate_def cong: into_target)

lemma dependency_payloads_createComponentEndpoint: "sub (closed ComponentEndpointCreate) (erase []
  in_ComponentEndpointCreate)"
  by (simp add: request_wire request_eval  cong: into_target)

lemma dependency_payloads_updateComponentEndpoint: "sub (closed ComponentEndpointUpdate) (erase []
  in_ComponentEndpointUpdate)"
  by (simp add: request_wire request_eval  cong: into_target)

lemma dependency_payloads_wired: "list_all (\<lambda>w. sub (fst (snd (snd w))) (snd (snd (snd w))))
  dependency_payloads"
  by (simp only: dependency_payloads_def list.pred_inject fst_conv snd_conv simp_thms
    dependency_payloads_createSystemDependency dependency_payloads_updateSystemDependency
      dependency_payloads_createComponentDependency dependency_payloads_updateComponentDependency
        dependency_payloads_createComponentEndpoint dependency_payloads_updateComponentEndpoint)

definition deployment_payloads :: "(string \<times> string \<times> ts \<times> ts) list" where
  "deployment_payloads =
     [(''deploymentService.linkChange'', ''deployments.link_change'', closed DeploymentLinkChangeRequest, erase []
       in_DeploymentLinkChangeRequest)]"

lemma deployment_payloads_linkChange: "sub (closed DeploymentLinkChangeRequest) (erase []
  in_DeploymentLinkChangeRequest)"
  by (simp add: request_wire request_eval  cong: into_target)

lemma deployment_payloads_wired: "list_all (\<lambda>w. sub (fst (snd (snd w))) (snd (snd (snd w))))
  deployment_payloads"
  by (simp only: deployment_payloads_def list.pred_inject fst_conv snd_conv simp_thms
    deployment_payloads_linkChange)

definition enterpriseMembership_payloads :: "(string \<times> string \<times> ts \<times> ts) list" where
  "enterpriseMembership_payloads =
     [(''enterpriseMembershipService.request'', ''enterprise_memberships.request_membership'', closed
       MembershipCreatePayload, erase [] in_ReleaseMembershipCreate),
      (''enterpriseMembershipService.reject'', ''enterprise_memberships.reject_membership'', closed
        MembershipRejectPayload, erase [] in_MembershipRejectRequest),
      (''enterpriseMembershipService.remove'', ''enterprise_memberships.remove_membership'', closed
        MembershipRemovePayload, erase [] in_MembershipRemoveRequest)]"

lemma enterpriseMembership_payloads_request: "sub (closed MembershipCreatePayload) (erase []
  in_ReleaseMembershipCreate)"
  by (simp add: request_wire request_eval  cong: into_target)

lemma enterpriseMembership_payloads_reject: "sub (closed MembershipRejectPayload) (erase []
  in_MembershipRejectRequest)"
  by (simp add: request_wire request_eval  cong: into_target)

lemma enterpriseMembership_payloads_remove: "sub (closed MembershipRemovePayload) (erase []
  in_MembershipRemoveRequest)"
  by (simp add: request_wire request_eval  cong: into_target)

lemma enterpriseMembership_payloads_wired: "list_all (\<lambda>w. sub (fst (snd (snd w))) (snd (snd (snd w))))
  enterpriseMembership_payloads"
  by (simp only: enterpriseMembership_payloads_def list.pred_inject fst_conv snd_conv simp_thms
    enterpriseMembership_payloads_request enterpriseMembership_payloads_reject enterpriseMembership_payloads_remove)

definition environmentGroup_payloads :: "(string \<times> string \<times> ts \<times> ts) list" where
  "environmentGroup_payloads =
     [(''environmentGroupService.createGroup'', ''environment_groups.create_environment_group'', closed
       EnvironmentGroupCreate, erase [] in_EnvironmentGroupCreate),
      (''environmentGroupService.updateGroup'', ''environment_groups.update_environment_group'', closed
        EnvironmentGroupUpdate, erase [] in_EnvironmentGroupUpdate),
      (''environmentGroupService.addMember'', ''environment_groups.add_group_member'', closed MemberCreate, erase
        [] in_MemberCreate),
      (''environmentGroupService.transitionGroup'', ''booking_requests.transition_group_bookings'', closed (Obj [
     req ''to_state'' Str,
     opt ''notes'' Str]), erase [] in_BookingTransitionRequest)]"

lemma environmentGroup_payloads_createGroup: "sub (closed EnvironmentGroupCreate) (erase []
  in_EnvironmentGroupCreate)"
  by (simp add: request_wire request_eval  cong: into_target)

lemma environmentGroup_payloads_updateGroup: "sub (closed EnvironmentGroupUpdate) (erase []
  in_EnvironmentGroupUpdate)"
  by (simp add: request_wire request_eval  cong: into_target)

lemma environmentGroup_payloads_addMember: "sub (closed MemberCreate) (erase [] in_MemberCreate)"
  by (simp add: request_wire request_eval  cong: into_target)

lemma environmentGroup_payloads_transitionGroup: "sub (closed (Obj [
     req ''to_state'' Str,
     opt ''notes'' Str])) (erase [] in_BookingTransitionRequest)"
  by (simp add: request_wire request_eval in_BookingTransitionRequest_def cong: into_target)

lemma environmentGroup_payloads_wired: "list_all (\<lambda>w. sub (fst (snd (snd w))) (snd (snd (snd w))))
  environmentGroup_payloads"
  by (simp only: environmentGroup_payloads_def list.pred_inject fst_conv snd_conv simp_thms
    environmentGroup_payloads_createGroup environmentGroup_payloads_updateGroup environmentGroup_payloads_addMember
      environmentGroup_payloads_transitionGroup)

definition environmentLifecyclePolicy_payloads :: "(string \<times> string \<times> ts \<times> ts) list" where
  "environmentLifecyclePolicy_payloads =
     [(''environmentLifecyclePolicyService.save'', ''tenant_admin_fields.put_environment_lifecycle_policy'', closed
       EnvironmentLifecyclePolicyUpdate, erase [] in_EnvironmentLifecyclePolicyUpdate)]"

lemma environmentLifecyclePolicy_payloads_save: "sub (closed EnvironmentLifecyclePolicyUpdate) (erase []
  in_EnvironmentLifecyclePolicyUpdate)"
  by (simp add: request_wire request_eval  cong: into_target)

lemma environmentLifecyclePolicy_payloads_wired: "list_all (\<lambda>w. sub (fst (snd (snd w))) (snd (snd (snd
  w)))) environmentLifecyclePolicy_payloads"
  by (simp only: environmentLifecyclePolicy_payloads_def list.pred_inject fst_conv snd_conv simp_thms
    environmentLifecyclePolicy_payloads_save)

definition environmentNamingPolicy_payloads :: "(string \<times> string \<times> ts \<times> ts) list" where
  "environmentNamingPolicy_payloads =
     [(''environmentNamingPolicyService.save'', ''tenant_admin_fields.put_environment_naming_policy'', closed
       EnvironmentNamingPolicyUpdate, erase [] in_EnvironmentNamingPolicyUpdate),
      (''environmentNamingPolicyService.preview'', ''tenant_admin_fields.preview_environment_naming_policy'',
        closed NamingPolicyPreviewRequest, erase [] in_EnvironmentNamingPolicyPreviewRequest)]"

lemma environmentNamingPolicy_payloads_save: "sub (closed EnvironmentNamingPolicyUpdate) (erase []
  in_EnvironmentNamingPolicyUpdate)"
  by (simp add: request_wire request_eval EnvironmentNamingPolicyUpdate_def EnvironmentNamingPolicy_def
    in_EnvironmentNamingPolicyUpdate_def cong: into_target)

lemma environmentNamingPolicy_payloads_preview: "sub (closed NamingPolicyPreviewRequest) (erase []
  in_EnvironmentNamingPolicyPreviewRequest)"
  by (simp add: request_wire request_eval  cong: into_target)

lemma environmentNamingPolicy_payloads_wired: "list_all (\<lambda>w. sub (fst (snd (snd w))) (snd (snd (snd w))))
  environmentNamingPolicy_payloads"
  by (simp only: environmentNamingPolicy_payloads_def list.pred_inject fst_conv snd_conv simp_thms
    environmentNamingPolicy_payloads_save environmentNamingPolicy_payloads_preview)

definition environmentOperatingHours_payloads :: "(string \<times> string \<times> ts \<times> ts) list" where
  "environmentOperatingHours_payloads =
     [(''environmentOperatingHoursService.putConfig'', ''environment_operating_hours.put_operating_hours'', closed
       OperatingHoursConfigInput, erase [] in_OperatingHoursConfigIn)]"

lemma environmentOperatingHours_payloads_putConfig: "sub (closed OperatingHoursConfigInput) (erase []
  in_OperatingHoursConfigIn)"
  by (simp add: request_wire request_eval  cong: into_target)

lemma environmentOperatingHours_payloads_wired: "list_all (\<lambda>w. sub (fst (snd (snd w))) (snd (snd (snd w))))
  environmentOperatingHours_payloads"
  by (simp only: environmentOperatingHours_payloads_def list.pred_inject fst_conv snd_conv simp_thms
    environmentOperatingHours_payloads_putConfig)

definition environmentRequest_payloads :: "(string \<times> string \<times> ts \<times> ts) list" where
  "environmentRequest_payloads =
     [(''environmentRequestService.createRequest'', ''environment_requests.create_environment_request'', closed
       EnvironmentRequestCreate, erase [] in_EnvironmentRequestCreate),
      (''environmentRequestService.updateRequest'', ''environment_requests.update_environment_request'', closed
        EnvironmentRequestUpdate, erase [] in_EnvironmentRequestUpdate),
      (''environmentRequestService.transition'', ''environment_requests.transition_environment_request'', closed
        (Obj [
     req ''to_state'' Str]), erase [] in_EnvironmentRequestTransition),
      (''environmentRequestService.updateHandover'', ''environments.update_environment_handover'', closed
        EnvironmentHandoverUpdate, erase [] in_EnvironmentHandoverUpdate)]"

lemma environmentRequest_payloads_createRequest: "sub (closed EnvironmentRequestCreate) (erase []
  in_EnvironmentRequestCreate)"
  by (simp add: request_wire request_eval  cong: into_target)

lemma environmentRequest_payloads_updateRequest: "sub (closed EnvironmentRequestUpdate) (erase []
  in_EnvironmentRequestUpdate)"
  by (simp add: request_wire request_eval  cong: into_target)

lemma environmentRequest_payloads_transition: "sub (closed (Obj [
     req ''to_state'' Str])) (erase [] in_EnvironmentRequestTransition)"
  by (simp add: request_wire request_eval in_EnvironmentRequestTransition_def cong: into_target)

lemma environmentRequest_payloads_updateHandover: "sub (closed EnvironmentHandoverUpdate) (erase []
  in_EnvironmentHandoverUpdate)"
  by (simp add: request_wire request_eval  cong: into_target)

lemma environmentRequest_payloads_wired: "list_all (\<lambda>w. sub (fst (snd (snd w))) (snd (snd (snd w))))
  environmentRequest_payloads"
  by (simp only: environmentRequest_payloads_def list.pred_inject fst_conv snd_conv simp_thms
    environmentRequest_payloads_createRequest environmentRequest_payloads_updateRequest
      environmentRequest_payloads_transition environmentRequest_payloads_updateHandover)

definition environment_payloads :: "(string \<times> string \<times> ts \<times> ts) list" where
  "environment_payloads =
     [(''environmentService.createEnvironment'', ''environments.create_environment'', closed EnvironmentCreate,
       erase [] in_EnvironmentCreate),
      (''environmentService.updateEnvironment'', ''environments.update_environment'', closed EnvironmentUpdate,
        erase [] in_EnvironmentUpdate),
      (''environmentService.addSystemToEnvironment'', ''environments.add_system_to_environment'', closed
        EnvironmentSystemCreate, erase [] in_EnvironmentSystemCreate),
      (''environmentService.updateSystemInEnvironment'', ''environments.update_system_in_environment'', closed
        EnvironmentSystemUpdate, erase [] in_EnvironmentSystemUpdate),
      (''environmentService.updateEnvironmentSubsystem'', ''environments.update_environment_subsystem'', closed
        EnvironmentSubsystemUpdate, erase [] in_EnvironmentSubsystemUpdate)]"

lemma environment_payloads_createEnvironment: "sub (closed EnvironmentCreate) (erase [] in_EnvironmentCreate)"
  by (simp add: request_wire request_eval  cong: into_target)

lemma environment_payloads_updateEnvironment: "sub (closed EnvironmentUpdate) (erase [] in_EnvironmentUpdate)"
  by (simp add: request_wire request_eval  cong: into_target)

lemma environment_payloads_addSystemToEnvironment: "sub (closed EnvironmentSystemCreate) (erase []
  in_EnvironmentSystemCreate)"
  by (simp add: request_wire request_eval  cong: into_target)

lemma environment_payloads_updateSystemInEnvironment: "sub (closed EnvironmentSystemUpdate) (erase []
  in_EnvironmentSystemUpdate)"
  by (simp add: request_wire request_eval  cong: into_target)

lemma environment_payloads_updateEnvironmentSubsystem: "sub (closed EnvironmentSubsystemUpdate) (erase []
  in_EnvironmentSubsystemUpdate)"
  by (simp add: request_wire request_eval  cong: into_target)

lemma environment_payloads_wired: "list_all (\<lambda>w. sub (fst (snd (snd w))) (snd (snd (snd w))))
  environment_payloads"
  by (simp only: environment_payloads_def list.pred_inject fst_conv snd_conv simp_thms
    environment_payloads_createEnvironment environment_payloads_updateEnvironment
      environment_payloads_addSystemToEnvironment environment_payloads_updateSystemInEnvironment
        environment_payloads_updateEnvironmentSubsystem)

definition environmentTier_payloads :: "(string \<times> string \<times> ts \<times> ts) list" where
  "environmentTier_payloads =
     [(''environmentTierService.createTier'', ''environment_tiers.create_environment_tier'', closed
       EnvironmentTierCreate, erase [] in_EnvironmentTierCreate),
      (''environmentTierService.updateTier'', ''environment_tiers.update_environment_tier'', closed
        EnvironmentTierUpdate, erase [] in_EnvironmentTierUpdate)]"

lemma environmentTier_payloads_createTier: "sub (closed EnvironmentTierCreate) (erase [] in_EnvironmentTierCreate)"
  by (simp add: request_wire request_eval  cong: into_target)

lemma environmentTier_payloads_updateTier: "sub (closed EnvironmentTierUpdate) (erase [] in_EnvironmentTierUpdate)"
  by (simp add: request_wire request_eval  cong: into_target)

lemma environmentTier_payloads_wired: "list_all (\<lambda>w. sub (fst (snd (snd w))) (snd (snd (snd w))))
  environmentTier_payloads"
  by (simp only: environmentTier_payloads_def list.pred_inject fst_conv snd_conv simp_thms
    environmentTier_payloads_createTier environmentTier_payloads_updateTier)

definition gateType_payloads :: "(string \<times> string \<times> ts \<times> ts) list" where
  "gateType_payloads =
     [(''gateTypeService.createGateType'', ''gate_types.create_gate_type'', closed GateTypeCreate, erase []
       in_GateTypeCreate),
      (''gateTypeService.updateGateType'', ''gate_types.update_gate_type'', closed GateTypeUpdate, erase []
        in_GateTypeUpdate)]"

lemma gateType_payloads_createGateType: "sub (closed GateTypeCreate) (erase [] in_GateTypeCreate)"
  by (simp add: request_wire request_eval  cong: into_target)

lemma gateType_payloads_updateGateType: "sub (closed GateTypeUpdate) (erase [] in_GateTypeUpdate)"
  by (simp add: request_wire request_eval  cong: into_target)

lemma gateType_payloads_wired: "list_all (\<lambda>w. sub (fst (snd (snd w))) (snd (snd (snd w))))
  gateType_payloads"
  by (simp only: gateType_payloads_def list.pred_inject fst_conv snd_conv simp_thms
    gateType_payloads_createGateType gateType_payloads_updateGateType)

definition goNoGo_payloads :: "(string \<times> string \<times> ts \<times> ts) list" where
  "goNoGo_payloads =
     [(''goNoGoService.record'', ''releases.record_go_no_go_decision'', closed GoNoGoDecisionCreate, erase []
       in_GoNoGoDecisionCreate),
      (''goNoGoService.closeCondition'', ''go_no_go.close_condition'', closed (Obj [
     req ''met'' Bool]), erase [] in_GoNoGoConditionClose),
      (''goNoGoService.createPerspective'', ''go_no_go.create_perspective'', closed GoNoGoPerspectiveCreate, erase
        [] in_GoNoGoPerspectiveCreate),
      (''goNoGoService.updatePerspective'', ''go_no_go.update_perspective'', closed GoNoGoPerspectiveUpdate, erase
        [] in_GoNoGoPerspectiveUpdate)]"

lemma goNoGo_payloads_record: "sub (closed GoNoGoDecisionCreate) (erase [] in_GoNoGoDecisionCreate)"
  by (simp add: request_wire request_eval  cong: into_target)

lemma goNoGo_payloads_closeCondition: "sub (closed (Obj [
     req ''met'' Bool])) (erase [] in_GoNoGoConditionClose)"
  by (simp add: request_wire request_eval in_GoNoGoConditionClose_def cong: into_target)

lemma goNoGo_payloads_createPerspective: "sub (closed GoNoGoPerspectiveCreate) (erase []
  in_GoNoGoPerspectiveCreate)"
  by (simp add: request_wire request_eval  cong: into_target)

lemma goNoGo_payloads_updatePerspective: "sub (closed GoNoGoPerspectiveUpdate) (erase []
  in_GoNoGoPerspectiveUpdate)"
  by (simp add: request_wire request_eval  cong: into_target)

lemma goNoGo_payloads_wired: "list_all (\<lambda>w. sub (fst (snd (snd w))) (snd (snd (snd w)))) goNoGo_payloads"
  by (simp only: goNoGo_payloads_def list.pred_inject fst_conv snd_conv simp_thms goNoGo_payloads_record
    goNoGo_payloads_closeCondition goNoGo_payloads_createPerspective goNoGo_payloads_updatePerspective)

definition incident_payloads :: "(string \<times> string \<times> ts \<times> ts) list" where
  "incident_payloads =
     [(''incidentService.create'', ''incidents.create_incident'', closed IncidentCreate, erase []
       in_IncidentCreate),
      (''incidentService.update'', ''incidents.update_incident'', closed IncidentUpdate, erase []
        in_IncidentUpdate),
      (''incidentService.transition'', ''incidents.transition_incident'', closed (Obj [
     req ''to_state'' Str]), erase [] in_IncidentTransition),
      (''incidentService.citeOnPir'', ''incidents.cite_incident_on_a_pir'', closed (Obj [
     req ''release_id'' Num,
     opt ''finding_id'' Num,
     opt ''new_finding'' (Obj [
     req ''title'' Str,
     opt ''detail'' (nullable Str),
     opt ''root_cause'' (nullable Str),
     opt ''actions'' (Arr (Obj [
     req ''title'' Str,
     opt ''owner_id'' (nullable Num),
     opt ''due_date'' (nullable Str)]))]),
     opt ''note'' (nullable Str)]), erase [] in_IncidentPirCitationRequest)]"

lemma incident_payloads_create: "sub (closed IncidentCreate) (erase [] in_IncidentCreate)"
  by (simp add: request_wire request_eval  cong: into_target)

lemma incident_payloads_update: "sub (closed IncidentUpdate) (erase [] in_IncidentUpdate)"
  by (simp add: request_wire request_eval IncidentCreate_def IncidentUpdate_def Severity_def in_IncidentUpdate_def
    cong: into_target)

lemma incident_payloads_transition: "sub (closed (Obj [
     req ''to_state'' Str])) (erase [] in_IncidentTransition)"
  by (simp add: request_wire request_eval in_IncidentTransition_def cong: into_target)

lemma incident_payloads_citeOnPir: "sub (closed (Obj [
     req ''release_id'' Num,
     opt ''finding_id'' Num,
     opt ''new_finding'' (Obj [
     req ''title'' Str,
     opt ''detail'' (nullable Str),
     opt ''root_cause'' (nullable Str),
     opt ''actions'' (Arr (Obj [
     req ''title'' Str,
     opt ''owner_id'' (nullable Num),
     opt ''due_date'' (nullable Str)]))]),
     opt ''note'' (nullable Str)])) (erase [] in_IncidentPirCitationRequest)"
  by (simp add: request_wire request_eval in_IncidentPirCitationRequest_def in_IncidentPirNewFinding_def
    in_PirActionCreate_def cong: into_target)

lemma incident_payloads_wired: "list_all (\<lambda>w. sub (fst (snd (snd w))) (snd (snd (snd w))))
  incident_payloads"
  by (simp only: incident_payloads_def list.pred_inject fst_conv snd_conv simp_thms incident_payloads_create
    incident_payloads_update incident_payloads_transition incident_payloads_citeOnPir)

definition infrastructureComponent_payloads :: "(string \<times> string \<times> ts \<times> ts) list" where
  "infrastructureComponent_payloads =
     [(''infrastructureComponentService.createComponent'', ''infrastructure_components.create_component'', closed
       InfrastructureComponentCreate, erase [] in_InfrastructureComponentCreate),
      (''infrastructureComponentService.updateComponent'', ''infrastructure_components.update_component'', closed
        InfrastructureComponentUpdate, erase [] in_InfrastructureComponentUpdate),
      (''infrastructureComponentService.setEnvSubsystemHosts'', ''environments.set_env_subsystem_hosts'', closed
        (Arr HostAttachment), erase [] (Arr in_HostAttachment))]"

lemma infrastructureComponent_payloads_createComponent: "sub (closed InfrastructureComponentCreate) (erase []
  in_InfrastructureComponentCreate)"
  by (simp add: request_wire request_eval  cong: into_target)

lemma infrastructureComponent_payloads_updateComponent: "sub (closed InfrastructureComponentUpdate) (erase []
  in_InfrastructureComponentUpdate)"
  by (simp add: request_wire request_eval  cong: into_target)

lemma infrastructureComponent_payloads_setEnvSubsystemHosts: "sub (closed (Arr HostAttachment)) (erase [] (Arr
  in_HostAttachment))"
  by (simp add: request_wire request_eval  cong: into_target)

lemma infrastructureComponent_payloads_wired: "list_all (\<lambda>w. sub (fst (snd (snd w))) (snd (snd (snd w))))
  infrastructureComponent_payloads"
  by (simp only: infrastructureComponent_payloads_def list.pred_inject fst_conv snd_conv simp_thms
    infrastructureComponent_payloads_createComponent infrastructureComponent_payloads_updateComponent
      infrastructureComponent_payloads_setEnvSubsystemHosts)

definition pir_payloads :: "(string \<times> string \<times> ts \<times> ts) list" where
  "pir_payloads =
     [(''pirService.create'', ''pir.create_pir'', closed PIRWrite, erase [] in_PIRCreate),
      (''pirService.update'', ''pir.update_pir'', closed PIRWrite, erase [] in_PIRUpdate),
      (''pirService.updateFinding'', ''pir.update_finding'', closed PirFindingWrite, erase [] in_PirFindingUpdate),
      (''pirService.updateAction'', ''pir.update_action'', closed PirActionWrite, erase [] in_PirActionUpdate),
      (''pirService.citeIncident'', ''pir.cite_incident'', closed (Obj [
     req ''incident_id'' Num,
     opt ''note'' (nullable Str)]), erase [] in_PirCitationCreate)]"

lemma pir_payloads_create: "sub (closed PIRWrite) (erase [] in_PIRCreate)"
  by (simp add: request_wire request_eval  cong: into_target)

lemma pir_payloads_update: "sub (closed PIRWrite) (erase [] in_PIRUpdate)"
  by (simp add: request_wire request_eval  cong: into_target)

lemma pir_payloads_updateFinding: "sub (closed PirFindingWrite) (erase [] in_PirFindingUpdate)"
  by (simp add: request_wire request_eval  cong: into_target)

lemma pir_payloads_updateAction: "sub (closed PirActionWrite) (erase [] in_PirActionUpdate)"
  by (simp add: request_wire request_eval  cong: into_target)

lemma pir_payloads_citeIncident: "sub (closed (Obj [
     req ''incident_id'' Num,
     opt ''note'' (nullable Str)])) (erase [] in_PirCitationCreate)"
  by (simp add: request_wire request_eval in_PirCitationCreate_def cong: into_target)

lemma pir_payloads_wired: "list_all (\<lambda>w. sub (fst (snd (snd w))) (snd (snd (snd w)))) pir_payloads"
  by (simp only: pir_payloads_def list.pred_inject fst_conv snd_conv simp_thms pir_payloads_create
    pir_payloads_update pir_payloads_updateFinding pir_payloads_updateAction pir_payloads_citeIncident)

definition project_payloads :: "(string \<times> string \<times> ts \<times> ts) list" where
  "project_payloads =
     [(''projectService.createProject'', ''projects.create_project'', closed ProjectCreate, erase []
       in_ProjectCreate),
      (''projectService.updateProject'', ''projects.update_project'', closed ProjectUpdate, erase []
        in_ProjectUpdate),
      (''projectService.createAgreement'', ''projects.create_project_usage_agreement'', closed
        UsageAgreementCreate, erase [] in_UsageAgreementCreate)]"

lemma project_payloads_createProject: "sub (closed ProjectCreate) (erase [] in_ProjectCreate)"
  by (simp add: request_wire request_eval  cong: into_target)

lemma project_payloads_updateProject: "sub (closed ProjectUpdate) (erase [] in_ProjectUpdate)"
  by (simp add: request_wire request_eval  cong: into_target)

lemma project_payloads_createAgreement: "sub (closed UsageAgreementCreate) (erase [] in_UsageAgreementCreate)"
  by (simp add: request_wire request_eval  cong: into_target)

lemma project_payloads_wired: "list_all (\<lambda>w. sub (fst (snd (snd w))) (snd (snd (snd w)))) project_payloads"
  by (simp only: project_payloads_def list.pred_inject fst_conv snd_conv simp_thms project_payloads_createProject
    project_payloads_updateProject project_payloads_createAgreement)

definition raid_payloads :: "(string \<times> string \<times> ts \<times> ts) list" where
  "raid_payloads =
     [(''raidService.create'', ''raid.create_raid'', closed RaidItemCreatePayload, erase [] in_RaidItemCreate),
      (''raidService.update'', ''raid.update_raid'', closed RaidItemUpdatePayload, erase [] in_RaidItemUpdate),
      (''raidService.promote'', ''raid.promote_raid'', closed (Obj [
     req ''target_type'' RaidItemType]), erase [] in_RaidPromotePayload),
      (''raidService.addScopeLink'', ''raid.add_raid_scope_link'', closed (Obj [
     req ''release_change_id'' Num]), erase [] in_RaidScopeLinkPayload),
      (''raidService.addRelation'', ''raid.add_raid_relation'', closed (Obj [
     req ''to_item_id'' Num,
     req ''relation'' RaidRelation]), erase [] in_RaidRelationPayload),
      (''raidService.updateConfig'', ''tenant_admin_fields.update_raid_config'', closed RaidConfigUpdatePayload,
        erase [] in_RaidConfigUpdate)]"

lemma raid_payloads_create: "sub (closed RaidItemCreatePayload) (erase [] in_RaidItemCreate)"
  by (simp add: request_wire request_eval  cong: into_target)

lemma raid_payloads_update: "sub (closed RaidItemUpdatePayload) (erase [] in_RaidItemUpdate)"
  by (simp add: request_wire request_eval  cong: into_target)

lemma raid_payloads_promote: "sub (closed (Obj [
     req ''target_type'' RaidItemType])) (erase [] in_RaidPromotePayload)"
  by (simp add: request_wire request_eval RaidItemType_def in_RaidPromotePayload_def cong: into_target)

lemma raid_payloads_addScopeLink: "sub (closed (Obj [
     req ''release_change_id'' Num])) (erase [] in_RaidScopeLinkPayload)"
  by (simp add: request_wire request_eval in_RaidScopeLinkPayload_def cong: into_target)

lemma raid_payloads_addRelation: "sub (closed (Obj [
     req ''to_item_id'' Num,
     req ''relation'' RaidRelation])) (erase [] in_RaidRelationPayload)"
  by (simp add: request_wire request_eval RaidRelation_def in_RaidRelationPayload_def cong: into_target)

lemma raid_payloads_updateConfig: "sub (closed RaidConfigUpdatePayload) (erase [] in_RaidConfigUpdate)"
  by (simp add: request_wire request_eval  cong: into_target)

lemma raid_payloads_wired: "list_all (\<lambda>w. sub (fst (snd (snd w))) (snd (snd (snd w)))) raid_payloads"
  by (simp only: raid_payloads_def list.pred_inject fst_conv snd_conv simp_thms raid_payloads_create
    raid_payloads_update raid_payloads_promote raid_payloads_addScopeLink raid_payloads_addRelation
      raid_payloads_updateConfig)

definition releaseEventType_payloads :: "(string \<times> string \<times> ts \<times> ts) list" where
  "releaseEventType_payloads =
     [(''releaseEventTypeService.create'', ''release_event_types.create_event_type'', closed
       ReleaseEventTypeCreatePayload, erase [] in_ReleaseEventTypeCreate),
      (''releaseEventTypeService.update'', ''release_event_types.update_event_type'', closed
        ReleaseEventTypeUpdatePayload, erase [] in_ReleaseEventTypeUpdate)]"

lemma releaseEventType_payloads_create: "sub (closed ReleaseEventTypeCreatePayload) (erase []
  in_ReleaseEventTypeCreate)"
  by (simp add: request_wire request_eval  cong: into_target)

lemma releaseEventType_payloads_update: "sub (closed ReleaseEventTypeUpdatePayload) (erase []
  in_ReleaseEventTypeUpdate)"
  by (simp add: request_wire request_eval  cong: into_target)

lemma releaseEventType_payloads_wired: "list_all (\<lambda>w. sub (fst (snd (snd w))) (snd (snd (snd w))))
  releaseEventType_payloads"
  by (simp only: releaseEventType_payloads_def list.pred_inject fst_conv snd_conv simp_thms
    releaseEventType_payloads_create releaseEventType_payloads_update)

definition release_payloads :: "(string \<times> string \<times> ts \<times> ts) list" where
  "release_payloads =
     [(''releaseService.create'', ''releases.create_release'', closed ReleaseCreatePayload, erase []
       in_ReleaseCreate),
      (''releaseService.update'', ''releases.update_release'', closed ReleaseUpdatePayload, erase []
        in_ReleaseUpdate),
      (''releaseService.transition'', ''releases.transition_release'', closed ReleaseTransitionPayload, erase []
        in_ReleaseTransition),
      (''releaseService.createPhase'', ''releases.create_phase'', closed TestPhaseCreatePayload, erase []
        in_TestPhaseCreate),
      (''releaseService.updatePhase'', ''releases.update_phase'', closed TestPhaseUpdatePayload, erase []
        in_TestPhaseUpdate),
      (''releaseService.createGate'', ''releases.create_gate'', closed ReleaseGateCreatePayload, erase []
        in_ReleaseGateCreate),
      (''releaseService.updateGate'', ''releases.update_gate'', closed ReleaseGateUpdatePayload, erase []
        in_ReleaseGateUpdate),
      (''releaseService.passGate'', ''releases.pass_gate'', closed ReleaseGateDecisionPayload, erase []
        in_ReleaseGateDecision),
      (''releaseService.failGate'', ''releases.fail_gate'', closed ReleaseGateDecisionPayload, erase []
        in_ReleaseGateDecision),
      (''releaseService.overrideGate'', ''releases.override_gate'', closed ReleaseGateDecisionPayload, erase []
        in_ReleaseGateDecision),
      (''releaseService.addGateEvidence'', ''releases.add_gate_evidence'', closed GateEvidenceCreatePayload, erase
        [] in_GateEvidenceCreate),
      (''releaseService.addSystem'', ''releases.add_release_system'', closed ReleaseSystemCreatePayload, erase []
        in_ReleaseSystemCreate),
      (''releaseService.addDependency'', ''releases.create_dependency'', closed ReleaseDependencyCreatePayload,
        erase [] in_ReleaseDependencyCreate),
      (''releaseService.createEvent'', ''releases.create_event'', closed ReleaseEventCreatePayload, erase []
        in_ReleaseEventCreate),
      (''releaseService.createChange'', ''releases.create_change'', closed ReleaseChangeCreatePayload, erase []
        in_ReleaseChangeCreate),
      (''releaseService.updateChange'', ''releases.update_change'', closed ReleaseChangeUpdatePayload, erase []
        in_ReleaseChangeUpdate),
      (''releaseService.moveReleaseChange'', ''releases.move_change'', closed ReleaseChangeMovePayload, erase []
        in_ReleaseChangeMovePayload),
      (''releaseService.bookForPhase'', ''releases.create_release_booking'', closed ReleaseBookingCreatePayload,
        erase [] in_ReleaseBookingRequest),
      (''releaseService.bulkBookEnvironments'', ''releases.bulk_book_release_environments'', closed
        ReleaseBulkBookingPayload, erase [] in_ReleaseBulkBookingRequest),
      (''releaseService.createCriterion'', ''gate_criteria.create_criterion'', closed GateCriterionCreatePayload,
        erase [] in_GateCriterionCreate),
      (''releaseService.updateCriterion'', ''gate_criteria.update_criterion'', closed GateCriterionUpdatePayload,
        erase [] in_GateCriterionUpdate)]"

lemma release_payloads_create: "sub (closed ReleaseCreatePayload) (erase [] in_ReleaseCreate)"
  by (simp add: request_wire request_eval  cong: into_target)

lemma release_payloads_update: "sub (closed ReleaseUpdatePayload) (erase [] in_ReleaseUpdate)"
  by (simp add: request_wire request_eval  cong: into_target)

lemma release_payloads_transition: "sub (closed ReleaseTransitionPayload) (erase [] in_ReleaseTransition)"
  by (simp add: request_wire request_eval  cong: into_target)

lemma release_payloads_createPhase: "sub (closed TestPhaseCreatePayload) (erase [] in_TestPhaseCreate)"
  by (simp add: request_wire request_eval  cong: into_target)

lemma release_payloads_updatePhase: "sub (closed TestPhaseUpdatePayload) (erase [] in_TestPhaseUpdate)"
  by (simp add: request_wire request_eval  cong: into_target)

lemma release_payloads_createGate: "sub (closed ReleaseGateCreatePayload) (erase [] in_ReleaseGateCreate)"
  by (simp add: request_wire request_eval  cong: into_target)

lemma release_payloads_updateGate: "sub (closed ReleaseGateUpdatePayload) (erase [] in_ReleaseGateUpdate)"
  by (simp add: request_wire request_eval  cong: into_target)

lemma release_payloads_passGate: "sub (closed ReleaseGateDecisionPayload) (erase [] in_ReleaseGateDecision)"
  by (simp add: request_wire request_eval  cong: into_target)

lemma release_payloads_addGateEvidence: "sub (closed GateEvidenceCreatePayload) (erase [] in_GateEvidenceCreate)"
  by (simp add: request_wire request_eval  cong: into_target)

lemma release_payloads_addSystem: "sub (closed ReleaseSystemCreatePayload) (erase [] in_ReleaseSystemCreate)"
  by (simp add: request_wire request_eval  cong: into_target)

lemma release_payloads_addDependency: "sub (closed ReleaseDependencyCreatePayload) (erase []
  in_ReleaseDependencyCreate)"
  by (simp add: request_wire request_eval  cong: into_target)

lemma release_payloads_createEvent: "sub (closed ReleaseEventCreatePayload) (erase [] in_ReleaseEventCreate)"
  by (simp add: request_wire request_eval  cong: into_target)

lemma release_payloads_createChange: "sub (closed ReleaseChangeCreatePayload) (erase [] in_ReleaseChangeCreate)"
  by (simp add: request_wire request_eval  cong: into_target)

lemma release_payloads_updateChange: "sub (closed ReleaseChangeUpdatePayload) (erase [] in_ReleaseChangeUpdate)"
  by (simp add: request_wire request_eval  cong: into_target)

lemma release_payloads_moveReleaseChange: "sub (closed ReleaseChangeMovePayload) (erase []
  in_ReleaseChangeMovePayload)"
  by (simp add: request_wire request_eval  cong: into_target)

lemma release_payloads_bookForPhase: "sub (closed ReleaseBookingCreatePayload) (erase [] in_ReleaseBookingRequest)"
  by (simp add: request_wire request_eval  cong: into_target)

lemma release_payloads_bulkBookEnvironments: "sub (closed ReleaseBulkBookingPayload) (erase []
  in_ReleaseBulkBookingRequest)"
  by (simp add: request_wire request_eval  cong: into_target)

lemma release_payloads_createCriterion: "sub (closed GateCriterionCreatePayload) (erase [] in_GateCriterionCreate)"
  by (simp add: request_wire request_eval  cong: into_target)

lemma release_payloads_updateCriterion: "sub (closed GateCriterionUpdatePayload) (erase [] in_GateCriterionUpdate)"
  by (simp add: request_wire request_eval  cong: into_target)

lemma release_payloads_wired: "list_all (\<lambda>w. sub (fst (snd (snd w))) (snd (snd (snd w)))) release_payloads"
  by (simp only: release_payloads_def list.pred_inject fst_conv snd_conv simp_thms release_payloads_create
    release_payloads_update release_payloads_transition release_payloads_createPhase release_payloads_updatePhase
      release_payloads_createGate release_payloads_updateGate release_payloads_passGate
        release_payloads_addGateEvidence release_payloads_addSystem release_payloads_addDependency
          release_payloads_createEvent release_payloads_createChange release_payloads_updateChange
            release_payloads_moveReleaseChange release_payloads_bookForPhase release_payloads_bulkBookEnvironments
              release_payloads_createCriterion release_payloads_updateCriterion)

definition releaseTemplate_payloads :: "(string \<times> string \<times> ts \<times> ts) list" where
  "releaseTemplate_payloads =
     [(''releaseTemplateService.create'', ''release_templates.create_template'', closed
       ReleaseTemplateCreatePayload, erase [] in_ReleaseTemplateCreate),
      (''releaseTemplateService.update'', ''release_templates.update_template'', closed
        ReleaseTemplateUpdatePayload, erase [] in_ReleaseTemplateUpdate),
      (''releaseTemplateService.instantiate'', ''release_templates.instantiate_template'', closed
        ReleaseTemplateInstantiatePayload, erase [] in_ReleaseTemplateInstantiate)]"

lemma releaseTemplate_payloads_create: "sub (closed ReleaseTemplateCreatePayload) (erase []
  in_ReleaseTemplateCreate)"
  by (simp add: request_wire request_eval  cong: into_target)

lemma releaseTemplate_payloads_update: "sub (closed ReleaseTemplateUpdatePayload) (erase []
  in_ReleaseTemplateUpdate)"
  by (simp add: request_wire request_eval  cong: into_target)

lemma releaseTemplate_payloads_instantiate: "sub (closed ReleaseTemplateInstantiatePayload) (erase []
  in_ReleaseTemplateInstantiate)"
  by (simp add: request_wire request_eval  cong: into_target)

lemma releaseTemplate_payloads_wired: "list_all (\<lambda>w. sub (fst (snd (snd w))) (snd (snd (snd w))))
  releaseTemplate_payloads"
  by (simp only: releaseTemplate_payloads_def list.pred_inject fst_conv snd_conv simp_thms
    releaseTemplate_payloads_create releaseTemplate_payloads_update releaseTemplate_payloads_instantiate)

definition rollback_payloads :: "(string \<times> string \<times> ts \<times> ts) list" where
  "rollback_payloads =
     [(''rollbackService.upsertPlan'', ''releases.upsert_rollback_plan'', closed RollbackPlanCreate, erase []
       in_RollbackPlanCreate),
      (''rollbackService.recordAuthorisation'', ''releases.create_rollback_authorisation'', closed
        RollbackAuthorisationCreate, erase [] in_RollbackAuthorisationCreate),
      (''rollbackService.recordRehearsal'', ''systems.record_rollback_rehearsal'', closed RehearsalCreate, erase []
        in_RehearsalCreate),
      (''rollbackService.updatePolicy'', ''rollback_policy.update_rollback_policy'', closed RollbackPolicyUpdate,
        erase [] in_RollbackPolicyUpdate)]"

lemma rollback_payloads_upsertPlan: "sub (closed RollbackPlanCreate) (erase [] in_RollbackPlanCreate)"
  by (simp add: request_wire request_eval  cong: into_target)

lemma rollback_payloads_recordAuthorisation: "sub (closed RollbackAuthorisationCreate) (erase []
  in_RollbackAuthorisationCreate)"
  by (simp add: request_wire request_eval  cong: into_target)

lemma rollback_payloads_recordRehearsal: "sub (closed RehearsalCreate) (erase [] in_RehearsalCreate)"
  by (simp add: request_wire request_eval  cong: into_target)

lemma rollback_payloads_updatePolicy: "sub (closed RollbackPolicyUpdate) (erase [] in_RollbackPolicyUpdate)"
  by (simp add: request_wire request_eval  cong: into_target)

lemma rollback_payloads_wired: "list_all (\<lambda>w. sub (fst (snd (snd w))) (snd (snd (snd w))))
  rollback_payloads"
  by (simp only: rollback_payloads_def list.pred_inject fst_conv snd_conv simp_thms rollback_payloads_upsertPlan
    rollback_payloads_recordAuthorisation rollback_payloads_recordRehearsal rollback_payloads_updatePolicy)

definition runbook_payloads :: "(string \<times> string \<times> ts \<times> ts) list" where
  "runbook_payloads =
     [(''runbookService.create'', ''runbooks.create_runbook'', closed RunbookPlanCreate, erase []
       in_RunbookPlanCreate),
      (''runbookService.update'', ''runbooks.update_runbook'', closed RunbookPlanUpdate, erase []
        in_RunbookPlanUpdate),
      (''runbookService.createTask'', ''runbooks.create_task'', closed RunbookTaskCreate, erase []
        in_RunbookTaskCreate),
      (''runbookService.updateTask'', ''runbooks.update_task'', closed RunbookTaskUpdate, erase []
        in_RunbookTaskUpdate),
      (''runbookService.setPredecessors'', ''runbooks.set_predecessors'', closed (Obj [
     req ''predecessor_ids'' (Arr Num)]), erase [] in_PredecessorsUpdate),
      (''runbookService.transition'', ''runbooks.transition_task'', closed TransitionRequest, erase []
        in_TransitionRequest)]"

lemma runbook_payloads_create: "sub (closed RunbookPlanCreate) (erase [] in_RunbookPlanCreate)"
  by (simp add: request_wire request_eval  cong: into_target)

lemma runbook_payloads_update: "sub (closed RunbookPlanUpdate) (erase [] in_RunbookPlanUpdate)"
  by (simp add: request_wire request_eval DeployPattern_def RunbookPlanCreate_def RunbookPlanUpdate_def
    in_RunbookPlanUpdate_def cong: into_target)

lemma runbook_payloads_createTask: "sub (closed RunbookTaskCreate) (erase [] in_RunbookTaskCreate)"
  by (simp add: request_wire request_eval  cong: into_target)

lemma runbook_payloads_updateTask: "sub (closed RunbookTaskUpdate) (erase [] in_RunbookTaskUpdate)"
  by (simp add: request_wire request_eval RunbookTaskCreate_def RunbookTaskUpdate_def TaskKind_def
    in_RunbookTaskUpdate_def cong: into_target)

lemma runbook_payloads_setPredecessors: "sub (closed (Obj [
     req ''predecessor_ids'' (Arr Num)])) (erase [] in_PredecessorsUpdate)"
  by (simp add: request_wire request_eval in_PredecessorsUpdate_def cong: into_target)

lemma runbook_payloads_transition: "sub (closed TransitionRequest) (erase [] in_TransitionRequest)"
  by (simp add: request_wire request_eval  cong: into_target)

lemma runbook_payloads_wired: "list_all (\<lambda>w. sub (fst (snd (snd w))) (snd (snd (snd w)))) runbook_payloads"
  by (simp only: runbook_payloads_def list.pred_inject fst_conv snd_conv simp_thms runbook_payloads_create
    runbook_payloads_update runbook_payloads_createTask runbook_payloads_updateTask
      runbook_payloads_setPredecessors runbook_payloads_transition)

definition scopeChangeRules_payloads :: "(string \<times> string \<times> ts \<times> ts) list" where
  "scopeChangeRules_payloads =
     [(''scopeChangeRulesService.upsert'', ''tenant_admin.upsert_scope_change_rules'', closed
       ScopeChangeKindRulesUpsertPayload, erase [] in_ScopeChangeKindRulesUpsertPayload)]"

lemma scopeChangeRules_payloads_upsert: "sub (closed ScopeChangeKindRulesUpsertPayload) (erase []
  in_ScopeChangeKindRulesUpsertPayload)"
  by (simp add: request_wire request_eval  cong: into_target)

lemma scopeChangeRules_payloads_wired: "list_all (\<lambda>w. sub (fst (snd (snd w))) (snd (snd (snd w))))
  scopeChangeRules_payloads"
  by (simp only: scopeChangeRules_payloads_def list.pred_inject fst_conv snd_conv simp_thms
    scopeChangeRules_payloads_upsert)

definition system_payloads :: "(string \<times> string \<times> ts \<times> ts) list" where
  "system_payloads =
     [(''systemService.createSystem'', ''systems.create_system'', closed SystemCreate, erase [] in_SystemCreate),
      (''systemService.updateSystem'', ''systems.update_system'', closed SystemUpdate, erase [] in_SystemUpdate),
      (''systemService.createSubSystem'', ''systems.create_subsystem'', closed SubSystemCreate, erase []
        in_SubSystemCreate),
      (''systemService.updateSubSystem'', ''systems.update_subsystem'', closed SubSystemUpdate, erase []
        in_SubSystemUpdate)]"

lemma system_payloads_createSystem: "sub (closed SystemCreate) (erase [] in_SystemCreate)"
  by (simp add: request_wire request_eval  cong: into_target)

lemma system_payloads_updateSystem: "sub (closed SystemUpdate) (erase [] in_SystemUpdate)"
  by (simp add: request_wire request_eval  cong: into_target)

lemma system_payloads_createSubSystem: "sub (closed SubSystemCreate) (erase [] in_SubSystemCreate)"
  by (simp add: request_wire request_eval  cong: into_target)

lemma system_payloads_updateSubSystem: "sub (closed SubSystemUpdate) (erase [] in_SubSystemUpdate)"
  by (simp add: request_wire request_eval  cong: into_target)

lemma system_payloads_wired: "list_all (\<lambda>w. sub (fst (snd (snd w))) (snd (snd (snd w)))) system_payloads"
  by (simp only: system_payloads_def list.pred_inject fst_conv snd_conv simp_thms system_payloads_createSystem
    system_payloads_updateSystem system_payloads_createSubSystem system_payloads_updateSubSystem)

definition tenantAdmin_payloads :: "(string \<times> string \<times> ts \<times> ts) list" where
  "tenantAdmin_payloads =
     [(''tenantAdminService.updateSettings'', ''tenant_admin.update_settings'', closed (Obj [
     req ''settings'' (Dict Any)]), erase [] in_TenantAdminSettings),
      (''tenantAdminService.createUser'', ''tenant_admin.create_user'', closed (Obj [
     req ''username'' Str,
     req ''email'' Str,
     req ''password'' Str,
     opt ''role'' Str]), erase [] in_UserAdminCreate),
      (''tenantAdminService.updateUser'', ''tenant_admin.update_user'', closed (Obj [
     opt ''username'' Str,
     opt ''email'' Str]), erase [] in_UserAdminUpdate),
      (''tenantAdminService.setUserRole'', ''tenant_admin.set_user_role'', closed (Obj [
     req ''role'' Str]), erase [] in_UserRoleUpdate)]"

lemma tenantAdmin_payloads_updateSettings: "sub (closed (Obj [
     req ''settings'' (Dict Any)])) (erase [] in_TenantAdminSettings)"
  by (simp add: request_wire request_eval in_TenantAdminSettings_def cong: into_target)

lemma tenantAdmin_payloads_createUser: "sub (closed (Obj [
     req ''username'' Str,
     req ''email'' Str,
     req ''password'' Str,
     opt ''role'' Str])) (erase [] in_UserAdminCreate)"
  by (simp add: request_wire request_eval in_UserAdminCreate_def cong: into_target)

lemma tenantAdmin_payloads_updateUser: "sub (closed (Obj [
     opt ''username'' Str,
     opt ''email'' Str])) (erase [] in_UserAdminUpdate)"
  by (simp add: request_wire request_eval in_UserAdminUpdate_def cong: into_target)

lemma tenantAdmin_payloads_setUserRole: "sub (closed (Obj [
     req ''role'' Str])) (erase [] in_UserRoleUpdate)"
  by (simp add: request_wire request_eval in_UserRoleUpdate_def cong: into_target)

lemma tenantAdmin_payloads_wired: "list_all (\<lambda>w. sub (fst (snd (snd w))) (snd (snd (snd w))))
  tenantAdmin_payloads"
  by (simp only: tenantAdmin_payloads_def list.pred_inject fst_conv snd_conv simp_thms
    tenantAdmin_payloads_updateSettings tenantAdmin_payloads_createUser tenantAdmin_payloads_updateUser
      tenantAdmin_payloads_setUserRole)

definition userGroup_payloads :: "(string \<times> string \<times> ts \<times> ts) list" where
  "userGroup_payloads =
     [(''userGroupService.createGroup'', ''user_groups.create_user_group'', closed UserGroupCreate, erase []
       in_UserGroupCreate),
      (''userGroupService.updateGroup'', ''user_groups.update_user_group'', closed UserGroupUpdate, erase []
        in_UserGroupUpdate),
      (''userGroupService.addMember'', ''user_groups.add_user_group_member'', closed (Obj [
     req ''user_id'' Num]), erase [] in_UserGroupMemberCreate)]"

lemma userGroup_payloads_createGroup: "sub (closed UserGroupCreate) (erase [] in_UserGroupCreate)"
  by (simp add: request_wire request_eval  cong: into_target)

lemma userGroup_payloads_updateGroup: "sub (closed UserGroupUpdate) (erase [] in_UserGroupUpdate)"
  by (simp add: request_wire request_eval  cong: into_target)

lemma userGroup_payloads_addMember: "sub (closed (Obj [
     req ''user_id'' Num])) (erase [] in_UserGroupMemberCreate)"
  by (simp add: request_wire request_eval in_UserGroupMemberCreate_def cong: into_target)

lemma userGroup_payloads_wired: "list_all (\<lambda>w. sub (fst (snd (snd w))) (snd (snd (snd w))))
  userGroup_payloads"
  by (simp only: userGroup_payloads_def list.pred_inject fst_conv snd_conv simp_thms userGroup_payloads_createGroup
    userGroup_payloads_updateGroup userGroup_payloads_addMember)

definition version_payloads :: "(string \<times> string \<times> ts \<times> ts) list" where
  "version_payloads =
     [(''versionService.updateVersion'', ''environments.update_version'', closed VersionUpdate, erase []
       in_VersionUpdate)]"

lemma version_payloads_updateVersion: "sub (closed VersionUpdate) (erase [] in_VersionUpdate)"
  by (simp add: request_wire request_eval  cong: into_target)

lemma version_payloads_wired: "list_all (\<lambda>w. sub (fst (snd (snd w))) (snd (snd (snd w)))) version_payloads"
  by (simp only: version_payloads_def list.pred_inject fst_conv snd_conv simp_thms version_payloads_updateVersion)

subsection \<open>All of them\<close>

definition wire_responses :: "(string \<times> string \<times> ts \<times> ts) list" where
  "wire_responses = concat [
     admin_responses, agreementGap_responses, apiKey_responses, bookingLifecycle_responses,
       bookingRequest_responses, booking_responses, build_responses, changeRequest_responses, closeout_responses,
         componentType_responses, contention_responses, customField_responses, decommission_responses,
           dependency_responses, deployment_responses, enterpriseReport_responses, enterpriseRollup_responses,
             environmentComparison_responses, environmentGroup_responses, environmentHealth_responses,
               environmentLifecyclePolicy_responses, environmentNamingPolicy_responses,
                 environmentOperatingHours_responses, environmentRequest_responses, environment_responses,
                   environmentTier_responses, gateType_responses, githubIntegration_responses, goNoGo_responses,
                     incident_responses, infrastructureComponent_responses, pir_responses, project_responses,
                       raid_responses, releaseEventType_responses, release_responses, releaseTemplate_responses,
                         rollback_responses, runbook_responses, scopeChangeRules_responses, system_responses,
                           tenantAdmin_responses, userGroup_responses, version_responses]"

definition wire_payloads :: "(string \<times> string \<times> ts \<times> ts) list" where
  "wire_payloads = concat [
     admin_payloads, agreementGap_payloads, apiKey_payloads, auth_payloads, bookingLifecycle_payloads,
       bookingRequest_payloads, booking_payloads, changeRequest_payloads, closeout_payloads,
         componentType_payloads, contention_payloads, customField_payloads, decommission_payloads,
           dependency_payloads, deployment_payloads, enterpriseMembership_payloads, environmentGroup_payloads,
             environmentLifecyclePolicy_payloads, environmentNamingPolicy_payloads,
               environmentOperatingHours_payloads, environmentRequest_payloads, environment_payloads,
                 environmentTier_payloads, gateType_payloads, goNoGo_payloads, incident_payloads,
                   infrastructureComponent_payloads, pir_payloads, project_payloads, raid_payloads,
                     releaseEventType_payloads, release_payloads, releaseTemplate_payloads, rollback_payloads,
                       runbook_payloads, scopeChangeRules_payloads, system_payloads, tenantAdmin_payloads,
                         userGroup_payloads, version_payloads]"

lemma wire_responses_wired: "list_all (\<lambda>w. sub (fst (snd (snd w))) (snd (snd (snd w)))) wire_responses"
  by (simp add: wire_responses_def admin_responses_wired agreementGap_responses_wired apiKey_responses_wired
    bookingLifecycle_responses_wired bookingRequest_responses_wired booking_responses_wired build_responses_wired
      changeRequest_responses_wired closeout_responses_wired componentType_responses_wired
        contention_responses_wired customField_responses_wired decommission_responses_wired
          dependency_responses_wired deployment_responses_wired enterpriseReport_responses_wired
            enterpriseRollup_responses_wired environmentComparison_responses_wired environmentGroup_responses_wired
              environmentHealth_responses_wired environmentLifecyclePolicy_responses_wired
                environmentNamingPolicy_responses_wired environmentOperatingHours_responses_wired
                  environmentRequest_responses_wired environment_responses_wired environmentTier_responses_wired
                    gateType_responses_wired githubIntegration_responses_wired goNoGo_responses_wired
                      incident_responses_wired infrastructureComponent_responses_wired pir_responses_wired
                        project_responses_wired raid_responses_wired releaseEventType_responses_wired
                          release_responses_wired releaseTemplate_responses_wired rollback_responses_wired
                            runbook_responses_wired scopeChangeRules_responses_wired system_responses_wired
                              tenantAdmin_responses_wired userGroup_responses_wired version_responses_wired)

lemma wire_payloads_wired: "list_all (\<lambda>w. sub (fst (snd (snd w))) (snd (snd (snd w)))) wire_payloads"
  by (simp add: wire_payloads_def admin_payloads_wired agreementGap_payloads_wired apiKey_payloads_wired
    auth_payloads_wired bookingLifecycle_payloads_wired bookingRequest_payloads_wired booking_payloads_wired
      changeRequest_payloads_wired closeout_payloads_wired componentType_payloads_wired contention_payloads_wired
        customField_payloads_wired decommission_payloads_wired dependency_payloads_wired deployment_payloads_wired
          enterpriseMembership_payloads_wired environmentGroup_payloads_wired
            environmentLifecyclePolicy_payloads_wired environmentNamingPolicy_payloads_wired
              environmentOperatingHours_payloads_wired environmentRequest_payloads_wired environment_payloads_wired
                environmentTier_payloads_wired gateType_payloads_wired goNoGo_payloads_wired
                  incident_payloads_wired infrastructureComponent_payloads_wired pir_payloads_wired
                    project_payloads_wired raid_payloads_wired releaseEventType_payloads_wired
                      release_payloads_wired releaseTemplate_payloads_wired rollback_payloads_wired
                        runbook_payloads_wired scopeChangeRules_payloads_wired system_payloads_wired
                          tenantAdmin_payloads_wired userGroup_payloads_wired version_payloads_wired)

end
