(* ===== verification/WireFacts.thy ===== *)
theory WireFacts
  imports WireTable
begin

text \<open>
  What the rows of \<open>WireTable\<close> mean for values: every response that a handler's model allows has the
    type
  that the service function declares, and every payload of the declared type is one that the handler's
  model accepts. The exceptions are theorems of their own.
\<close>





text \<open>
  C34: recording an installed version from the browser can never succeed. The form's payload names the build
  \<open>build_id\<close>; the backend requires \<open>build_identifier\<close>, so no such payload is accepted, an
    update never
  carries a build, and no version that the backend sends has the type that the client expects. The form's own
  payload is such a value.
\<close>

theorem versions_never_recorded:
  "(if has_type (closed VersionCreate) j then \<not> has_type in_VersionCreate j else True) \<and>
   (if has_type (closed VersionUpdate) j then jm_get (fields_of j) ''build_identifier'' = None else True) \<and>
   (if has_type py_VersionResponse j then \<not> has_type VersionResponse j else True) \<and>
   has_type (closed VersionCreate) (J_obj [(''subsystem_id'', J_int s), (''build_id'', J_str b),
     (''version_label'', J_str v)])"
proof (intro conjI)
  have "has_type (closed VersionCreate) j \<Longrightarrow> \<not> has_type in_VersionCreate j"
    unfolding VersionCreate_def in_VersionCreate_def closed.simps
    by (rule never_both [where k = "''build_identifier''" and t = Str]) (assumption, simp_all)
  then show "if has_type (closed VersionCreate) j then \<not> has_type in_VersionCreate j else True" by simp
  have "has_type py_VersionResponse j \<Longrightarrow> \<not> has_type VersionResponse j"
    unfolding VersionResponse_def py_VersionResponse_def
    by (rule never_both [where k = "''build_id''" and t = Str]) (assumption, simp_all)
  then show "if has_type py_VersionResponse j then \<not> has_type VersionResponse j else True" by simp
  have "jm_get (fields_of j) ''build_identifier'' = None" if u: "has_type (closed VersionUpdate) j"
  proof -
    obtain m where m: "j = J_obj m" using u by (cases j) (auto simp: VersionUpdate_def)
    have "list_all (\<lambda>f. fst f \<noteq> ''build_identifier'') m"
      using u by (auto simp: VersionUpdate_def m list_all_iff list_ex_iff)
    then show ?thesis by (auto simp: m fields_of_def jm_get_def map_of_eq_None_iff list_all_iff)
  qed
  then show "if has_type (closed VersionUpdate) j then jm_get (fields_of j) ''build_identifier'' = None else True"
    by simp
  show "has_type (closed VersionCreate) (J_obj [(''subsystem_id'', J_int s), (''build_id'', J_str b),
    (''version_label'', J_str v)])"
    by (simp add: VersionCreate_def)
qed

text \<open>
  Three more responses never have the type that the client declares, because the backend does not send a
  member that the type requires: the allowed roles of a transition, the build of the latest version of a
  component, and the number of a PIR action in the worklist.
\<close>

theorem responses_without_a_member:
  "\<not> (has_type py_AllowedTransitionResponse j \<and> has_type AllowedTransition j) \<and>
   \<not> (has_type py_VersionSummary j \<and> has_type VersionSummary_t j) \<and>
   \<not> (has_type py_PirActionRow j \<and> has_type PirActionRow j)"
proof (intro conjI notI; elim conjE)
  assume a: "has_type py_AllowedTransitionResponse j" "has_type AllowedTransition j"
  show False using a(2) never_both [OF a(1) [unfolded py_AllowedTransitionResponse_def], of "''allowed_roles''"]
    by (simp add: AllowedTransition_def)
next
  assume a: "has_type py_VersionSummary j" "has_type VersionSummary_t j"
  show False using a(2) never_both [OF a(1) [unfolded py_VersionSummary_def], of "''build_id''"]
    by (simp add: VersionSummary_t_def)
next
  assume a: "has_type py_PirActionRow j" "has_type PirActionRow j"
  show False using a(2) never_both [OF a(1) [unfolded py_PirActionRow_def], of "''seq''"]
    by (simp add: PirActionRow_def PirAction_def extends_def members_def)
qed

end
