(* ===== verification/GridCells.thy ===== *)
theory GridCells
  imports BackendModels Dates
begin

text \<open>
  The columns of the grid pages: for each column its field, its heading, whether a click on the heading sorts,
  whether it can be hidden, and what a cell shows for a row. A cell is \<open>None\<close> where the code of the
    cell raises,
  which the data grid does not catch. Widths, alignment and icons are left out, and a typography element is its
  text. Dates and times in the reader's language, and the parser behind \<open>new Date(text)\<close>, are a record
    of
  parameters.
\<close>

subsection \<open>Values\<close>

definition DASH :: string where
  "DASH = [CHR 0xE2, CHR 0x80, CHR 0x94]"

text \<open>\<open>a.length\<close> of an array, \<open>xs.map(f)\<close>, \<open>xs.join(s)\<close> and
  \<open>xs[0]\<close>; reading a property of \<open>null\<close> or
  \<open>undefined\<close> and calling what is not a function raise.\<close>

definition array_of :: "json \<Rightarrow> json list option" where
  "array_of j = (case j of J_arr xs \<Rightarrow> Some xs | _ \<Rightarrow> None)"

definition length_prop :: "json \<Rightarrow> json option" where
  "length_prop j = (case j of J_arr xs \<Rightarrow> Some (J_int (int (length xs))) | J_str s \<Rightarrow> Some
    (J_int (int (length s)))
     | _ \<Rightarrow> get_prop j ''length'')"

definition js_positive :: "json \<Rightarrow> bool" where
  "js_positive j = (case j of J_int n \<Rightarrow> 0 < n | J_bool b \<Rightarrow> b
     | J_str s \<Rightarrow> (case js_Number s of Some n \<Rightarrow> 0 < n | None \<Rightarrow> False) | _
       \<Rightarrow> False)"

text \<open>\<open>String(j)\<close>, as a template writes it.\<close>

fun js_text :: "json \<Rightarrow> string" where
  "js_text J_undefined = ''undefined''"
| "js_text J_null = ''null''"
| "js_text (J_bool b) = (if b then ''true'' else ''false'')"
| "js_text (J_int n) = show_int n"
| "js_text (J_str s) = s"
| "js_text (J_arr xs) = js_join '','' (map (\<lambda>x. case x of J_undefined \<Rightarrow> [] | J_null
  \<Rightarrow> [] | _ \<Rightarrow> js_text x) xs)"
| "js_text (J_obj m) = ''[object Object]''"

definition js_join_values :: "string \<Rightarrow> json \<Rightarrow> string option" where
  "js_join_values sep j = map_option (\<lambda>xs. js_join sep (map (\<lambda>x. case x of J_undefined
    \<Rightarrow> [] | J_null \<Rightarrow> [] | _ \<Rightarrow> js_text x) xs)) (array_of j)"

text \<open>\<open>Table[key]\<close> for a table of texts, \<open>undefined\<close> for a missing key.\<close>

definition table :: "(string \<times> string) list \<Rightarrow> json \<Rightarrow> json" where
  "table t j = (case map_of t (js_text j) of Some s \<Rightarrow> J_str s | None \<Rightarrow> J_undefined)"

subsection \<open>The reader's locale\<close>

record reader =
  parse_date :: "string \<Rightarrow> date option"
  wall_time :: "date \<Rightarrow> nat \<times> nat"
  date_text :: "date option \<Rightarrow> string"
  time_text :: "date \<Rightarrow> string"
  date_time_text :: "date option \<Rightarrow> string"
  day_month_year :: "date \<Rightarrow> string"
  utc_day_month_year :: "date option \<Rightarrow> string"
  now :: date

text \<open>\<open>new Date(j)\<close>.\<close>

definition js_date :: "reader \<Rightarrow> json \<Rightarrow> date option" where
  "js_date rd j = (case j of J_str s \<Rightarrow> parse_date rd s | J_int n \<Rightarrow> Some n | J_null
    \<Rightarrow> Some 0
     | J_bool b \<Rightarrow> Some (if b then 1 else 0) | _ \<Rightarrow> None)"

text \<open>\<open>utils/datetime.ts\<close>: \<open>formatBookingDateTime\<close>.\<close>

definition formatBookingDateTime :: "reader \<Rightarrow> json \<Rightarrow> string" where
  "formatBookingDateTime rd v =
     (case js_date rd v of
        None \<Rightarrow> DASH
      | Some d \<Rightarrow> if wall_time rd d = (0, 0) then date_text rd (Some d)
                  else date_text rd (Some d) @ '', '' @ time_text rd d)"

text \<open>\<open>formatDue\<close> of the PIR actions and of the go/no-go tab.\<close>

definition formatDue :: "reader \<Rightarrow> json \<Rightarrow> string" where
  "formatDue rd due = (if truthy due then utc_day_month_year rd (js_date rd due) else DASH)"

definition opt_date :: "reader \<Rightarrow> json \<Rightarrow> string" where
  "opt_date rd v = (if truthy v then date_text rd (js_date rd v) else DASH)"

subsection \<open>Cells and columns\<close>

datatype cell = Nothing | Shown json | Chip json json | Link json string | Tip json cell | Icon string json
  | Button string | Cells "cell list"

abbreviation Words :: "string \<Rightarrow> cell" where
  "Words s \<equiv> Shown (J_str s)"

abbreviation Chip_text :: "string \<Rightarrow> string \<Rightarrow> cell" where
  "Chip_text l c \<equiv> Chip (J_str l) (J_str c)"

record column =
  col_field :: string
  col_header :: string
  col_sortable :: bool
  col_hideable :: bool
  col_cell :: "json \<Rightarrow> cell option"

definition column :: "string \<Rightarrow> string \<Rightarrow> bool \<Rightarrow> bool \<Rightarrow> (json
  \<Rightarrow> cell option) \<Rightarrow> column" where
  "column f h s hb c = \<lparr>col_field = f, col_header = h, col_sortable = s, col_hideable = hb, col_cell =
    c\<rparr>"

text \<open>A sortable column, an unsortable one, and the two that cannot be hidden.\<close>

abbreviation sorts :: "string \<Rightarrow> string \<Rightarrow> (json \<Rightarrow> cell option) \<Rightarrow>
  column" where
  "sorts f h c \<equiv> column f h True True c"

abbreviation plain :: "string \<Rightarrow> string \<Rightarrow> (json \<Rightarrow> cell option) \<Rightarrow>
  column" where
  "plain f h c \<equiv> column f h False True c"

abbreviation sorts_fixed :: "string \<Rightarrow> string \<Rightarrow> (json \<Rightarrow> cell option)
  \<Rightarrow> column" where
  "sorts_fixed f h c \<equiv> column f h True False c"

abbreviation plain_fixed :: "string \<Rightarrow> string \<Rightarrow> (json \<Rightarrow> cell option)
  \<Rightarrow> column" where
  "plain_fixed f h c \<equiv> column f h False False c"

text \<open>The cell of a column without a renderer, and the common ones.\<close>

definition raw :: "string \<Rightarrow> json \<Rightarrow> cell option" where
  "raw k r = map_option Shown (get_prop r k)"

definition or_words :: "string \<Rightarrow> string \<Rightarrow> json \<Rightarrow> cell option" where
  "or_words k s r = map_option (\<lambda>v. Shown (or_else v (J_str s))) (get_prop r k)"

definition words_of :: "string \<Rightarrow> (json \<Rightarrow> string) \<Rightarrow> json \<Rightarrow> cell
  option" where
  "words_of k f r = map_option (\<lambda>v. Words (f v)) (get_prop r k)"

definition chip_of :: "string \<Rightarrow> (json \<Rightarrow> json) \<Rightarrow> json \<Rightarrow> cell option"
  where
  "chip_of k colour r = map_option (\<lambda>v. Chip v (colour v)) (get_prop r k)"

definition colour_in :: "(string \<times> string) list \<Rightarrow> json \<Rightarrow> json" where
  "colour_in t v = or_else (table t v) (J_str ''default'')"

lemmas cell_defs = raw_def or_words_def words_of_def chip_of_def

end
