(* ===== verification/GridColumns.thy ===== *)
theory GridColumns
  imports GridCells
begin

text \<open>
  The column tables of the fifteen grids, in the order of the source. \<open>rd\<close> is the reader's locale.
    Where a page
  maps the rows of the slice to rows of its own before it hands them to the grid, that map is a definition and
  the cell reads its result.
\<close>

subsection \<open>Releases\<close>

definition RELEASE_STATUS_COLORS :: "(string \<times> string) list" where
  "RELEASE_STATUS_COLORS =
     [(''draft'', ''default''), (''planning'', ''info''), (''in_progress'', ''info''), (''submitted'', ''warning''),
      (''approved'', ''success''), (''rejected'', ''error''), (''completed'', ''success''), (''cancelled'',
        ''error'')]"

definition RELEASE_SYSTEM_ROLE_LABELS :: "(string \<times> string) list" where
  "RELEASE_SYSTEM_ROLE_LABELS =
     [(''changing'', ''Changing''), (''regression'', ''Regression (needs testing)''), (''config_only'',
       ''Config only'')]"

definition system_chip :: "json \<Rightarrow> cell option" where
  "system_chip s = do {
     nm \<leftarrow> get_prop s ''name''; rl \<leftarrow> get_prop s ''role'';
     Some (Tip (table RELEASE_SYSTEM_ROLE_LABELS rl) (Chip nm (J_str ''default''))) }"

definition scope_changes_cell :: "json \<Rightarrow> cell option" where
  "scope_changes_cell r = do {
     n \<leftarrow> get_prop r ''scope_change_count''; a \<leftarrow> get_prop r ''scope_additions_count'';
     d \<leftarrow> get_prop r ''scope_removals_count'';
     Some (if \<not> truthy n then Words DASH
           else Tip (J_str (''+'' @ js_text a @ '' additions, -'' @ js_text d @ '' removals''))
                  (Chip_text (''scope: +'' @ js_text a @ ''/-'' @ js_text d) ''warning'')) }"

definition release_systems_cell :: "json \<Rightarrow> cell option" where
  "release_systems_cell r = do {
     ss \<leftarrow> get_prop r ''systems''; n \<leftarrow> length_prop ss;
     if n = J_int 0 then Some (Words DASH)
     else do { xs \<leftarrow> array_of ss; cs \<leftarrow> those (map system_chip xs); Some (Cells cs) } }"

definition count_cell :: "string \<Rightarrow> (string \<Rightarrow> cell) \<Rightarrow> cell \<Rightarrow> json
  \<Rightarrow> cell option" where
  "count_cell k some none r = map_option (\<lambda>n. if js_positive n then some (js_text n) else none) (get_prop r
    k)"

definition releaseColumns :: "reader \<Rightarrow> column list" where
  "releaseColumns rd =
     [plain ''id'' ''ID'' (raw ''id''),
      sorts ''name'' ''Name'' (raw ''name''),
      sorts ''release_type'' ''Type'' (chip_of ''release_type'' (\<lambda>_. J_str ''default'')),
      sorts ''release_kind'' ''Kind''
        (chip_of ''release_kind'' (\<lambda>v. J_str (if v = J_str ''enterprise'' then ''secondary'' else
          ''default''))),
      plain ''owning_project_name'' ''Project'' (or_words ''owning_project_name'' DASH),
      sorts ''status'' ''Status'' (chip_of ''status'' (colour_in RELEASE_STATUS_COLORS)),
      sorts ''target_date'' ''Target Date'' (words_of ''target_date'' (opt_date rd)),
      plain ''phase_count'' ''Phases'' (raw ''phase_count''),
      plain ''scope_count'' ''Scope'' (raw ''scope_count''),
      plain ''scope_change_count'' ''Scope Changes'' scope_changes_cell,
      plain ''systems'' ''Systems'' release_systems_cell,
      plain ''blocker_count'' ''Blockers''
        (count_cell ''blocker_count'' (\<lambda>n. Tip (J_str (n @ '' pending gate(s)'')) (Chip_text n
          ''warning'')) (Words DASH)),
      plain ''overdue_criterion_count'' ''Overdue''
        (count_cell ''overdue_criterion_count'' (\<lambda>n. Chip_text (n @ '' overdue'') ''error'') (Words DASH)),
      sorts ''created_at'' ''Created'' (words_of ''created_at'' (opt_date rd))]"

subsection \<open>Release scope windows\<close>

definition WINDOW_COLORS :: "(string \<times> string) list" where
  "WINDOW_COLORS =
     [(''open'', ''success''), (''closing_soon'', ''warning''), (''closed'', ''default''), (''shipped'', ''info''),
      (''no_cutoff'', ''default'')]"

definition WINDOW_LABELS :: "(string \<times> string) list" where
  "WINDOW_LABELS =
     [(''open'', ''Open''), (''closing_soon'', ''Closing soon''), (''closed'', ''Closed''), (''shipped'',
       ''Shipped''),
      (''no_cutoff'', ''No cutoff'')]"

definition window_systems_cell :: "json \<Rightarrow> cell option" where
  "window_systems_cell r = do {
     ss \<leftarrow> get_prop r ''systems''; n \<leftarrow> length_prop ss;
     if n = J_int 0 then Some (Words DASH)
     else do { xs \<leftarrow> array_of ss;
               cs \<leftarrow> those (map (\<lambda>s. map_option (\<lambda>nm. Chip nm (J_str ''default''))
                 (get_prop s ''name'')) xs);
               Some (Cells cs) } }"

definition scopeWindowColumns :: "reader \<Rightarrow> column list" where
  "scopeWindowColumns rd =
     [sorts ''name'' ''Release'' (raw ''name''),
      plain ''systems'' ''Systems'' window_systems_cell,
      sorts ''release_type'' ''Type'' (raw ''release_type''),
      sorts ''status'' ''Status'' (raw ''status''),
      sorts ''target_date'' ''Target'' (words_of ''target_date'' (opt_date rd)),
      sorts ''scope_deadline'' ''Scope deadline'' (words_of ''scope_deadline'' (opt_date rd)),
      plain ''window_status'' ''Window'' (\<lambda>r. map_option
        (\<lambda>w. Chip (or_else (table WINDOW_LABELS w) w) (colour_in WINDOW_COLORS w)) (get_prop r
          ''window_status'')),
      plain ''days_to_cutoff'' ''Days to cutoff''
        (\<lambda>r. map_option (\<lambda>d. if d = J_null then Words DASH else Shown d) (get_prop r
          ''days_to_cutoff'')),
      plain ''scope_count'' ''Scope'' (raw ''scope_count''),
      plain ''scope_creep_count'' ''Creep''
        (\<lambda>r. map_option (\<lambda>n. if js_positive n then Chip n (J_str ''warning'') else Words DASH)
           (get_prop r ''scope_creep_count''))]"

subsection \<open>Bookings\<close>

definition BOOKING_STATUS_COLORS :: "(string \<times> string) list" where
  "BOOKING_STATUS_COLORS =
     [(''draft'', ''default''), (''submitted'', ''warning''), (''approved'', ''success''), (''rejected'',
       ''error''),
      (''extension_requested'', ''warning''), (''closed'', ''info'')]"

definition PROTECTION_LABELS :: "(string \<times> string) list" where
  "PROTECTION_LABELS = [(''soft'', ''Preemptible''), (''hard'', ''Protected'')]"

text \<open>\<open>components/bookings\<close>: \<open>AgreementGapIndicator\<close>,
  \<open>ConflictIndicator\<close> and \<open>ContentionMarker\<close>, whose
  configuration is destructured, so that a state it does not list raises.\<close>

definition AgreementGapIndicator :: "json \<Rightarrow> json \<Rightarrow> cell" where
  "AgreementGapIndicator gap unack =
     (if gap = J_null \<or> gap = J_undefined then Nothing
      else let acknowledged = \<not> truthy unack in
        Tip (if acknowledged then J_str (''Acknowledged '' @ DASH @ '' '' @ js_text gap) else gap)
          (Icon (if acknowledged then ''Usage agreement gap, acknowledged'' else ''Usage agreement gap'')
             (J_str (if acknowledged then ''disabled'' else ''warning''))))"

definition ConflictIndicator :: "json \<Rightarrow> json \<Rightarrow> cell" where
  "ConflictIndicator hasUnacknowledged count =
     (if \<not> truthy hasUnacknowledged then Nothing
      else Tip (J_str (if truthy count then js_text count @ '' unacknowledged conflicts'' else
        ''Unacknowledged conflicts''))
             (Icon [] (J_str ''warning'')))"

definition STATE_CONFIG :: "(string \<times> string \<times> string) list" where
  "STATE_CONFIG =
     [(''unowned'', ''Contention '' @ DASH @ '' needs escalating'', ''error.main''),
      (''owned'', ''Contention '' @ DASH @ '' awaiting a decision'', ''warning.main''),
      (''decided'', ''Contention '' @ DASH @ '' decided'', ''success.main'')]"

definition ContentionMarker :: "json \<Rightarrow> cell option" where
  "ContentionMarker state =
     map_option (\<lambda>(label, colour). Cells [Icon label (J_str colour), Words label]) (map_of STATE_CONFIG
       (js_text state))"

definition day_cell :: "reader \<Rightarrow> string \<Rightarrow> json \<Rightarrow> cell option" where
  "day_cell rd k r = do { v \<leftarrow> get_prop r k; d \<leftarrow> js_date rd v; Some (Words (day_month_year rd
    d)) }"

definition bookingColumns :: "reader \<Rightarrow> column list" where
  "bookingColumns rd =
     [plain_fixed ''project_name'' ''Purpose'' (\<lambda>r. do {
        i \<leftarrow> get_prop r ''id''; nm \<leftarrow> get_prop r ''project_name''; Some (Link nm
          (''/bookings/'' @ js_text i)) }),
      plain ''project_name_link'' ''Project'' (or_words ''project_name_link'' DASH),
      plain_fixed ''environment_name'' ''Environment'' (or_words ''environment_name'' DASH),
      plain ''environment_group_name'' ''Group'' (or_words ''environment_group_name'' DASH),
      plain_fixed ''booked_by_username'' ''Booked By'' (or_words ''booked_by_username'' DASH),
      sorts_fixed ''start_date'' ''Start'' (day_cell rd ''start_date''),
      sorts_fixed ''end_date'' ''End'' (day_cell rd ''end_date''),
      plain_fixed ''booking_type_id'' ''Type'' (chip_of ''booking_type_id'' (\<lambda>_. J_str ''primary'')),
      sorts_fixed ''status'' ''Status'' (chip_of ''status'' (table BOOKING_STATUS_COLORS)),
      sorts ''protection_level'' ''Protection'' (\<lambda>r. map_option (\<lambda>p.
        if truthy p then Chip (table PROTECTION_LABELS p) (J_str (if p = J_str ''hard'' then ''secondary'' else
          ''default''))
        else Nothing) (get_prop r ''protection_level'')),
      plain_fixed ''agreement_gap'' ''Agreement'' (\<lambda>r. do {
        g \<leftarrow> get_prop r ''agreement_gap''; u \<leftarrow> get_prop r ''has_unacknowledged_agreement_gap'';
        Some (AgreementGapIndicator g u) }),
      plain_fixed ''conflicts'' ''Conflicts''
        (\<lambda>r. map_option (\<lambda>u. ConflictIndicator u J_undefined) (get_prop r
          ''has_unacknowledged_conflicts'')),
      plain_fixed ''contention_state'' ''Contention'' (\<lambda>r. do {
        s \<leftarrow> get_prop r ''contention_state''; if truthy s then ContentionMarker s else Some Nothing }),
      plain_fixed ''actions'' [] (raw ''actions'')]"

text \<open>\<open>buildCustomFieldColumns\<close>, which the pages of bookings, environments and systems each
  declare.\<close>

definition CUSTOM_FIELD_COLUMN_PREFIX :: string where
  "CUSTOM_FIELD_COLUMN_PREFIX = ''cf_''"

definition custom_value :: "string \<Rightarrow> json \<Rightarrow> json option" where
  "custom_value key r = do {
     cf \<leftarrow> get_prop r ''custom_fields'';
     v \<leftarrow> (if cf = J_null \<or> cf = J_undefined then Some J_undefined else get_prop cf key);
     Some (or_else v (J_str DASH)) }"

definition buildCustomFieldColumns :: "(string \<times> string) list \<Rightarrow> column list" where
  "buildCustomFieldColumns defs =
     map (\<lambda>(field_key, label). plain (CUSTOM_FIELD_COLUMN_PREFIX @ field_key) label
            (\<lambda>r. map_option Shown (custom_value field_key r))) defs"

text \<open>The columns as \<open>BookingList\<close> renders them: the last one opens the menu of its row.\<close>

definition BookingList_columns :: "reader \<Rightarrow> (string \<times> string) list \<Rightarrow> column list"
  where
  "BookingList_columns rd defs =
     map (\<lambda>c. if col_field c = ''actions'' then c\<lparr>col_cell := (\<lambda>r. map_option (\<lambda>_.
       Button ''row actions'') (get_prop r ''id''))\<rparr>
              else c) (bookingColumns rd) @ buildCustomFieldColumns defs"

definition groupDivergenceWarning :: "json \<Rightarrow> string option" where
  "groupDivergenceWarning row =
     (if \<not> truthy row then None
      else let gid = nullish (get_prop row ''environment_group_id'') J_undefined in
        if gid = J_null \<or> gid = J_undefined then None
        else let nm = or_else (nullish (get_prop row ''environment_group_name'') J_undefined) (J_str (''#'' @
          js_text gid))
          in Some (''In group \"'' @ js_text nm @ ''\" '' @ DASH @
                   '' transitioning here alone will not move the rest of the group.''))"

subsection \<open>Environments\<close>

definition ENVIRONMENT_STATUS_COLORS :: "(string \<times> string) list" where
  "ENVIRONMENT_STATUS_COLORS =
     [(''active'', ''success''), (''maintenance'', ''warning''), (''inactive'', ''default''),
      (''decommissioned'', ''error'')]"

definition DECOMMISSION_STATE_LABELS :: "(string \<times> string) list" where
  "DECOMMISSION_STATE_LABELS =
     [(''warned'', ''Warned''), (''due'', ''Due''), (''extension_requested'', ''Extension requested''),
      (''torn_down'', ''Torn down''), (''cancelled'', ''Cancelled'')]"

definition DECOMMISSION_STATE_COLORS :: "(string \<times> string) list" where
  "DECOMMISSION_STATE_COLORS =
     [(''warned'', ''warning''), (''due'', ''error''), (''extension_requested'', ''info''),
      (''torn_down'', ''default''), (''cancelled'', ''default'')]"

definition expiry_text :: "reader \<Rightarrow> json \<Rightarrow> string" where
  "expiry_text rd v = formatExpiry (parse_date rd) (now rd) (case v of J_str s \<Rightarrow> Some s | _
    \<Rightarrow> None)"

definition compliance_cell :: "json \<Rightarrow> cell option" where
  "compliance_cell r = do {
     quarantined \<leftarrow> get_prop r ''quarantined''; gaps \<leftarrow> get_prop r ''compliance_gaps'';
     let gaps = or_else gaps (J_arr []);
     if truthy quarantined
     then do { t \<leftarrow> js_join_values ''; '' gaps; Some (Tip (J_str t) (Chip_text ''Quarantined''
       ''error'')) }
     else do {
       n \<leftarrow> length_prop gaps;
       if js_positive n
       then do { t \<leftarrow> js_join_values ''; '' gaps; Some (Tip (J_str t) (Chip_text ''Policy gap''
         ''warning'')) }
       else Some (Words DASH) } }"

definition environmentColumns :: "reader \<Rightarrow> column list" where
  "environmentColumns rd =
     [sorts_fixed ''name'' ''Name'' (raw ''name''),
      sorts_fixed ''tier'' ''Tier'' (\<lambda>r. do {
        nm \<leftarrow> get_prop r ''tier_name''; c \<leftarrow> get_prop r ''tier_color''; Some (Chip nm (or_else
          c J_undefined)) }),
      sorts ''owner'' ''Owner'' (or_words ''owner_username'' (DASH @ '' unowned'')),
      sorts ''expires_at'' ''Expires'' (words_of ''expires_at'' (expiry_text rd)),
      plain ''reserved_now'' ''Reserved'' (\<lambda>r. map_option
        (\<lambda>b. if truthy b then Chip_text ''Reserved'' ''info'' else Words DASH) (get_prop r
          ''reserved_now'')),
      plain ''idle'' ''Idle'' (\<lambda>r. map_option
        (\<lambda>b. if truthy b then Chip_text ''Idle'' ''warning'' else Words DASH) (get_prop r ''idle'')),
      plain ''decommission_state'' ''Decommission'' (\<lambda>r. map_option
        (\<lambda>s. if \<not> truthy s then Nothing
             else Chip (table DECOMMISSION_STATE_LABELS s) (table DECOMMISSION_STATE_COLORS s))
        (get_prop r ''decommission_state'')),
      plain ''compliance'' ''Compliance'' compliance_cell,
      sorts_fixed ''status'' ''Status'' (chip_of ''status'' (table ENVIRONMENT_STATUS_COLORS)),
      plain ''operations_group_name'' ''Operations Group'' (or_words ''operations_group_name'' DASH),
      sorts_fixed ''created_at'' ''Created'' (words_of ''created_at'' (\<lambda>v. date_text rd (js_date rd v))),
      plain_fixed ''actions'' [] (raw ''actions'')]"

text \<open>The pages of environments, systems and hosts put the column with the buttons of the row last.\<close>

definition row_buttons :: "json \<Rightarrow> cell option" where
  "row_buttons r = Some (Cells [Button ''Edit'', Button ''Delete''])"

definition with_actions :: "column list \<Rightarrow> column list \<Rightarrow> column list" where
  "with_actions cols custom =
     filter (\<lambda>c. col_field c \<noteq> ''actions'') cols @ custom @
     map (\<lambda>c. c\<lparr>col_cell := row_buttons\<rparr>) (filter (\<lambda>c. col_field c = ''actions'')
       cols)"

definition EnvironmentList_columns :: "reader \<Rightarrow> (string \<times> string) list \<Rightarrow> column
  list" where
  "EnvironmentList_columns rd customFieldDefs =
     with_actions (environmentColumns rd) (buildCustomFieldColumns customFieldDefs)"

subsection \<open>Change requests\<close>

definition CHANGE_STATUS_COLORS :: "(string \<times> string) list" where
  "CHANGE_STATUS_COLORS =
     [(''draft'', ''default''), (''submitted'', ''warning''), (''approved'', ''success''), (''rejected'',
       ''error''),
      (''in_progress'', ''info''), (''completed'', ''info'')]"

definition CHANGE_TYPE_LABELS :: "(string \<times> string) list" where
  "CHANGE_TYPE_LABELS =
     [(''configuration'', ''Configuration''), (''infrastructure'', ''Infrastructure''),
      (''code_deployment'', ''Code Deployment'')]"

text \<open>The first name as a chip and how many more there are.\<close>

definition name_chip :: "json \<Rightarrow> cell option" where
  "name_chip e = map_option (\<lambda>n. Chip n (J_str ''default'')) (get_prop e ''name'')"

definition plus_chip :: "nat \<Rightarrow> string \<Rightarrow> string \<Rightarrow> cell list" where
  "plus_chip n what colour = (if 0 < n then [Chip_text (''+'' @ show_nat n @ what) colour] else [])"

definition environments_cell :: "json \<Rightarrow> cell option" where
  "environments_cell r = do {
     es \<leftarrow> get_prop r ''environments''; ds \<leftarrow> get_prop r ''derived_environment_ids'';
     envs \<leftarrow> array_of (or_else es (J_arr [])); derived \<leftarrow> array_of (or_else ds (J_arr []));
     let derivedCount = length (remdups derived);
     let found = filter truthy (take 1 envs);
     if found = [] \<and> derivedCount = 0 then Some (Words DASH)
     else do {
       first \<leftarrow> those (map name_chip found);
       Some (Cells (first @ plus_chip (length envs - 1) [] ''default'' @ plus_chip derivedCount '' derived''
         ''info'')) } }"

definition hosts_cell :: "json \<Rightarrow> cell option" where
  "hosts_cell r = do {
     hs \<leftarrow> get_prop r ''hosts''; hostList \<leftarrow> array_of (or_else hs (J_arr []));
     if hostList = [] then Some (Words DASH)
     else do {
       first \<leftarrow> those (map name_chip (take 1 hostList));
       Some (Cells (first @ plus_chip (length hostList - 1) [] ''default'')) } }"

definition changeRequestColumns :: "reader \<Rightarrow> column list" where
  "changeRequestColumns rd =
     [plain ''id'' ''ID'' (raw ''id''),
      sorts ''title'' ''Title'' (raw ''title''),
      sorts ''change_type'' ''Type''
        (\<lambda>r. map_option (\<lambda>t. Shown (or_else (table CHANGE_TYPE_LABELS t) t)) (get_prop r
          ''change_type'')),
      sorts ''status'' ''Status'' (chip_of ''status'' (colour_in CHANGE_STATUS_COLORS)),
      plain ''environments'' ''Environments'' environments_cell,
      plain ''hosts'' ''Hosts'' hosts_cell,
      plain ''has_outage'' ''Outage'' (\<lambda>r. map_option
        (\<lambda>b. if truthy b then Chip_text ''Outage'' ''error'' else Nothing) (get_prop r ''has_outage'')),
      sorts ''scheduled_start'' ''Scheduled'' (words_of ''scheduled_start'' (\<lambda>v. date_time_text rd (js_date
        rd v)))]"

subsection \<open>Systems and hosts\<close>

definition systemColumns :: "column list" where
  "systemColumns =
     [sorts_fixed ''name'' ''Name'' (raw ''name''),
      plain_fixed ''description'' ''Description'' (or_words ''description'' DASH),
      plain_fixed ''github_repository_url'' ''GitHub'' (\<lambda>r. map_option
        (\<lambda>u. if truthy u then Link (J_str ''GitHub'') (js_text u) else Words DASH) (get_prop r
          ''github_repository_url'')),
      plain_fixed ''actions'' [] (raw ''actions'')]"

definition SystemCatalog_columns :: "(string \<times> string) list \<Rightarrow> column list" where
  "SystemCatalog_columns customFieldDefs = with_actions systemColumns (buildCustomFieldColumns customFieldDefs)"

definition COMPONENT_TYPE_OPTIONS :: "(string \<times> string) list" where
  "COMPONENT_TYPE_OPTIONS =
     [(''server'', ''Server / VM''), (''container_runtime'', ''Container runtime''),
      (''kubernetes_cluster'', ''Kubernetes cluster''), (''managed_database'', ''Managed database''),
      (''load_balancer'', ''Load balancer''), (''network'', ''Network''), (''cdn'', ''CDN''), (''queue'',
        ''Queue''),
      (''cache'', ''Cache''), (''other'', ''Other'')]"

definition infraComponentColumns :: "column list" where
  "infraComponentColumns =
     [sorts ''name'' ''Name'' (raw ''name''),
      sorts ''component_type'' ''Type''
        (\<lambda>r. map_option (\<lambda>t. Shown (or_else (table COMPONENT_TYPE_OPTIONS t) t)) (get_prop r
          ''component_type'')),
      sorts ''provider'' ''Provider'' (raw ''provider''),
      sorts ''region'' ''Region'' (raw ''region''),
      plain ''location'' ''Location'' (raw ''location''),
      sorts ''source'' ''Source''
        (chip_of ''source'' (\<lambda>v. J_str (if v = J_str ''manual'' then ''default'' else ''info''))),
      plain ''actions'' [] (raw ''actions'')]"

definition InfrastructureComponentList_columns :: "column list" where
  "InfrastructureComponentList_columns = with_actions infraComponentColumns []"

subsection \<open>Incidents\<close>

definition SEVERITY_COLOR :: "(string \<times> string) list" where
  "SEVERITY_COLOR = [(''P1'', ''error''), (''P2'', ''warning''), (''P3'', ''info''), (''P4'', ''default'')]"

definition truthy_or_dash :: "string \<Rightarrow> json \<Rightarrow> cell option" where
  "truthy_or_dash k r = map_option (\<lambda>v. if truthy v then Shown v else Words DASH) (get_prop r k)"

definition fix_eta_cell :: "reader \<Rightarrow> json \<Rightarrow> cell option" where
  "fix_eta_cell rd r = do {
     f \<leftarrow> get_prop r ''fix_release'';
     targetDate \<leftarrow> (if f = J_null \<or> f = J_undefined then Some J_undefined else get_prop f
       ''target_date'');
     Some (Words (opt_date rd targetDate)) }"

definition incidentColumns :: "reader \<Rightarrow> column list" where
  "incidentColumns rd =
     [sorts ''title'' ''Title'' (raw ''title''),
      sorts ''severity'' ''Severity'' (chip_of ''severity'' (colour_in SEVERITY_COLOR)),
      sorts ''status'' ''Status'' (chip_of ''status'' (\<lambda>_. J_str ''default'')),
      plain ''system_name'' ''System'' (truthy_or_dash ''system_name''),
      plain ''environment_name'' ''Environment'' (truthy_or_dash ''environment_name''),
      plain ''release_name'' ''Causal Release'' (truthy_or_dash ''release_name''),
      plain ''fix_release'' ''Fix ETA'' (fix_eta_cell rd),
      sorts ''detected_at'' ''Detected'' (words_of ''detected_at'' (opt_date rd)),
      sorts ''resolved_at'' ''Resolved'' (words_of ''resolved_at'' (opt_date rd)),
      plain ''pir_status'' ''Reviewed'' (\<lambda>r. map_option
        (\<lambda>s. if s = J_str ''complete'' then Chip_text ''Complete'' ''success''
             else if s = J_str ''draft'' then Chip_text ''Draft'' ''warning'' else Words DASH) (get_prop r
               ''pir_status''))]"

subsection \<open>Deployments and builds\<close>

text \<open>\<open>components/deployments/DeploymentStatusChip\<close>.\<close>

definition DEPLOYMENT_LABELS :: "(string \<times> string) list" where
  "DEPLOYMENT_LABELS =
     [(''pending'', ''Pending''), (''in_progress'', ''In progress''), (''success'', ''Success''), (''failed'',
       ''Failed''),
      (''rolled_back'', ''Rolled back'')]"

definition DEPLOYMENT_COLORS :: "(string \<times> string) list" where
  "DEPLOYMENT_COLORS =
     [(''pending'', ''#607d8b''), (''in_progress'', ''#607d8b''), (''success'', ''#43a047''), (''failed'',
       ''#e53935''),
      (''rolled_back'', ''#ffb300'')]"

definition DeploymentStatusChip :: "json \<Rightarrow> cell" where
  "DeploymentStatusChip status = Chip (table DEPLOYMENT_LABELS status) (table DEPLOYMENT_COLORS status)"

definition DeploymentList_row :: "reader \<Rightarrow> json \<Rightarrow> json option" where
  "DeploymentList_row rd d = do {
     i \<leftarrow> get_prop d ''id''; env \<leftarrow> get_prop d ''environment_name''; sha \<leftarrow> get_prop
       d ''build_sha_short'';
     st \<leftarrow> get_prop d ''status''; by \<leftarrow> get_prop d ''deployer_name''; at \<leftarrow> get_prop
       d ''deployed_at'';
     rel \<leftarrow> get_prop d ''release_name''; cr \<leftarrow> get_prop d ''change_request_title'';
     Some (J_obj [(''id'', i), (''environment_name'', or_else env (J_str DASH)),
       (''build_sha_short'', or_else sha (J_str DASH)), (''status'', st), (''deployer_name'', or_else by (J_str
         DASH)),
       (''deployed_at'', J_str (date_time_text rd (js_date rd at))), (''release_name'', or_else rel (J_str DASH)),
       (''change_request_title'', or_else cr (J_str DASH))]) }"

definition deploymentColumns :: "column list" where
  "deploymentColumns =
     [plain ''environment_name'' ''Environment'' (raw ''environment_name''),
      plain ''build_sha_short'' ''Build'' (raw ''build_sha_short''),
      sorts ''status'' ''Status'' (\<lambda>r. map_option DeploymentStatusChip (get_prop r ''status'')),
      sorts ''deployer_name'' ''Deployer'' (raw ''deployer_name''),
      sorts ''deployed_at'' ''Deployed at'' (raw ''deployed_at''),
      plain ''release_name'' ''Release'' (raw ''release_name''),
      plain ''change_request_title'' ''Change request'' (raw ''change_request_title'')]"

definition js_slice_text :: "int \<Rightarrow> int \<Rightarrow> json \<Rightarrow> json option" where
  "js_slice_text a b j = (case j of J_str s \<Rightarrow> Some (J_str (js_slice (nat a) (nat b) s)) | _
    \<Rightarrow> None)"

definition latestStepSummary :: "json \<Rightarrow> json option" where
  "latestStepSummary steps = do {
     xs \<leftarrow> array_of steps;
     if xs = [] then Some (J_str DASH)
     else do { nm \<leftarrow> get_prop (last xs) ''name''; st \<leftarrow> get_prop (last xs) ''status'';
               Some (J_str (js_text nm @ '' ('' @ js_text st @ '')'')) } }"

definition BuildList_row :: "reader \<Rightarrow> json \<Rightarrow> json option" where
  "BuildList_row rd b = do {
     i \<leftarrow> get_prop b ''id''; sub \<leftarrow> get_prop b ''subsystem_name''; sha \<leftarrow> get_prop b
       ''git_sha'';
     short \<leftarrow> js_slice_text 0 8 sha; br \<leftarrow> get_prop b ''git_branch''; n \<leftarrow> get_prop b
       ''build_number'';
     rel \<leftarrow> get_prop b ''release_name''; at \<leftarrow> get_prop b ''commit_timestamp''; steps
       \<leftarrow> get_prop b ''pipeline_steps'';
     latest \<leftarrow> latestStepSummary steps;
     Some (J_obj [(''id'', i), (''subsystem_name'', or_else sub (J_str DASH)), (''git_sha_short'', short),
       (''git_branch'', or_else br (J_str DASH)), (''build_number'', or_else n (J_str DASH)),
       (''release_name'', or_else rel (J_str DASH)), (''commit_timestamp'', J_str (date_time_text rd (js_date rd
         at))),
       (''latest_step'', latest)]) }"

definition buildColumns :: "column list" where
  "buildColumns =
     [plain ''subsystem_name'' ''SubSystem'' (raw ''subsystem_name''),
      sorts ''git_branch'' ''Branch'' (raw ''git_branch''),
      plain ''git_sha_short'' ''SHA'' (raw ''git_sha_short''),
      sorts ''build_number'' ''Build #'' (raw ''build_number''),
      plain ''release_name'' ''Release'' (raw ''release_name''),
      sorts ''commit_timestamp'' ''Commit at'' (raw ''commit_timestamp''),
      plain ''latest_step'' ''Latest step'' (raw ''latest_step'')]"

text \<open>A column over the page's own rows, as a column over the rows of the slice.\<close>

definition over_rows :: "(json \<Rightarrow> json option) \<Rightarrow> column list \<Rightarrow> column list" where
  "over_rows row cols = map (\<lambda>c. c\<lparr>col_cell := (\<lambda>r. do { r' \<leftarrow> row r; col_cell c
    r' })\<rparr>) cols"

subsection \<open>Environment requests, escalations, decommissions\<close>

definition environmentRequestColumns :: "reader \<Rightarrow> column list" where
  "environmentRequestColumns rd =
     [plain ''target'' ''Target'' (\<lambda>r. do {
        k \<leftarrow> get_prop r ''kind''; env \<leftarrow> get_prop r ''environment_name''; nm \<leftarrow>
          get_prop r ''proposed_name'';
        Some (if k = J_str ''access'' then Shown (or_else env (J_str DASH))
              else Words (js_text (or_else nm (J_str DASH)) @ '' (new)'')) }),
      sorts ''kind'' ''Kind''
        (words_of ''kind'' (\<lambda>v. if v = J_str ''access'' then ''Access'' else ''New environment'')),
      plain ''requester_username'' ''Requested by'' (raw ''requester_username''),
      sorts ''status'' ''Status'' (raw ''status''),
      sorts ''needed_by'' ''Needed by'' (words_of ''needed_by'' (opt_date rd))]"

definition STATE_CHIP :: "(string \<times> string \<times> string) list" where
  "STATE_CHIP =
     [(''open'', ''Open'', ''info''), (''answered'', ''Answered'', ''success''), (''expired'', ''Expired'',
       ''warning'')]"

definition sideLabel :: "json \<Rightarrow> json \<Rightarrow> string" where
  "sideLabel environmentName projectName =
     (let project = js_text (or_else projectName (J_str ''no linked project'')) in
      if truthy environmentName then project @ '' on '' @ js_text environmentName else project)"

definition groupNote :: "json \<Rightarrow> string \<Rightarrow> string option" where
  "groupNote groupName subject =
     (if truthy groupName
      then Some (''Moving '' @ subject @ '' moves every environment in '' @ js_text groupName @ '' '' @ DASH @
                 '' the group was booked as one unit and transitions together.'')
      else None)"

definition groupNameOf :: "json \<Rightarrow> json \<Rightarrow> json option" where
  "groupNameOf row bookingId = do {
     own \<leftarrow> get_prop row ''booking_id'';
     get_prop row (if bookingId = own then ''booking_group_name'' else ''other_booking_group_name'') }"

definition own_side :: "json \<Rightarrow> string option" where
  "own_side r = do { e \<leftarrow> get_prop r ''booking_environment_name''; p \<leftarrow> get_prop r
    ''booking_project_name''; Some (sideLabel e p) }"

definition other_side :: "json \<Rightarrow> string option" where
  "other_side r = do {
     e \<leftarrow> get_prop r ''other_booking_environment_name''; p \<leftarrow> get_prop r
       ''other_booking_project_name''; Some (sideLabel e p) }"

definition contention_cell :: "json \<Rightarrow> cell option" where
  "contention_cell r = do {
     a \<leftarrow> own_side r; b \<leftarrow> other_side r; live \<leftarrow> get_prop r ''bookings_live'';
     Some (Cells ([Words a, Words (''vs '' @ b)] @
       (if truthy live then []
        else [Words (''No longer live '' @ DASH @ '' one or both bookings have closed or been removed'')]))) }"

definition state_cell :: "json \<Rightarrow> cell option" where
  "state_cell r = do {
     s \<leftarrow> get_prop r ''state''; (label, colour) \<leftarrow> map_of STATE_CHIP (js_text s); Some
       (Chip_text label colour) }"

definition decision_cell :: "reader \<Rightarrow> json \<Rightarrow> cell option" where
  "decision_cell rd r = do {
     yields \<leftarrow> get_prop r ''decision_yields_booking_id'';
     if yields = J_null then Some (Words DASH)
     else do {
       grp \<leftarrow> groupNameOf r yields; own \<leftarrow> get_prop r ''booking_id'';
       side \<leftarrow> (if yields = own then own_side r else other_side r);
       notes \<leftarrow> get_prop r ''decision_notes''; by \<leftarrow> get_prop r ''decided_by_username''; at
         \<leftarrow> get_prop r ''decided_at'';
       Some (Cells ([Words (side @ '' gives way'')] @
         (case groupNote grp ''that booking'' of Some t \<Rightarrow> [Words t] | None \<Rightarrow> []) @
         (if truthy notes then [Shown notes] else []) @
         (if truthy by then [Words (''Recorded by '' @ js_text by @
            (if truthy at then '' on '' @ date_text rd (js_date rd at) else []))] else []))) } }"

text \<open>Who may decide: the owner, an administrator, the platform's master.\<close>

record session_user =
  su_id :: int
  su_role :: string
  su_master :: bool

definition canDecide :: "session_user option \<Rightarrow> json \<Rightarrow> bool option" where
  "canDecide user row =
     (case user of
        None \<Rightarrow> Some False
      | Some u \<Rightarrow> map_option (\<lambda>ow. ow = J_int (su_id u) \<or> su_role u = ''Admin'' \<or>
        su_master u)
                    (get_prop row ''owner_user_id''))"

definition EscalationWorklist_columns :: "reader \<Rightarrow> session_user option \<Rightarrow> column list" where
  "EscalationWorklist_columns rd user =
     [plain ''contention'' ''Contention'' contention_cell,
      plain ''owner_username'' ''To decide'' (or_words ''owner_username'' ''Someone no longer in this tenant''),
      plain ''escalated_by_username'' ''Raised by''
        (or_words ''escalated_by_username'' ''Someone no longer in this tenant''),
      sorts ''respond_by'' ''Respond by'' (words_of ''respond_by'' (\<lambda>v. date_text rd (js_date rd v))),
      plain ''state'' ''State'' state_cell,
      sorts ''decided_at'' ''Decision'' (decision_cell rd),
      plain ''actions'' [] (\<lambda>r. map_option (\<lambda>b. if b then Button ''Decide'' else Nothing)
        (canDecide user r))]"

definition DecommissionWorklist_columns :: "reader \<Rightarrow> column list" where
  "DecommissionWorklist_columns rd =
     [sorts ''environment'' ''Environment'' (\<lambda>r. do {
        i \<leftarrow> get_prop r ''environment_id''; nm \<leftarrow> get_prop r ''environment_name'';
        Some (Link (or_else nm (J_str (''Environment '' @ js_text i))) (''/environments/'' @ js_text i)) }),
      plain ''state'' ''State''
        (\<lambda>r. map_option (\<lambda>s. Chip (table DECOMMISSION_STATE_LABELS s) (table
          DECOMMISSION_STATE_COLORS s)) (get_prop r ''state'')),
      sorts ''warned_at'' ''Warned'' (words_of ''warned_at'' (\<lambda>v. date_text rd (js_date rd v))),
      sorts ''scheduled_teardown_at'' ''Scheduled teardown''
        (words_of ''scheduled_teardown_at'' (\<lambda>v. date_text rd (js_date rd v))),
      plain ''reason'' ''Reason'' (raw ''reason''),
      plain ''owner_username'' ''Owner'' (or_words ''owner_username'' ''No owner on record''),
      plain ''initiated_by_username'' ''Initiated by''
        (or_words ''initiated_by_username'' ''Someone no longer in this tenant'')]"

subsection \<open>PIR actions and go/no-go decisions\<close>

definition PIR_STATUS_LABELS :: "(string \<times> string) list" where
  "PIR_STATUS_LABELS =
     [(''open'', ''Open''), (''in_progress'', ''In progress''), (''done'', ''Done''), (''cancelled'',
       ''Cancelled'')]"

definition PirActionList_columns :: "reader \<Rightarrow> column list" where
  "PirActionList_columns rd =
     [sorts ''title'' ''Action'' (\<lambda>r. do {
        t \<leftarrow> get_prop r ''title''; d \<leftarrow> get_prop r ''detail'';
        Some (Cells ([Shown t] @ (if truthy d then [Shown d] else []))) }),
      sorts ''release'' ''Release'' (\<lambda>r. do {
        i \<leftarrow> get_prop r ''release_id''; nm \<leftarrow> get_prop r ''release_name''; Some (Link nm
          (''/releases/'' @ js_text i)) }),
      plain ''finding_title'' ''Finding'' (raw ''finding_title''),
      sorts ''owner'' ''Owner'' (or_words ''owner_username'' DASH),
      sorts ''due_date'' ''Due'' (\<lambda>r. do {
        d \<leftarrow> get_prop r ''due_date''; late \<leftarrow> get_prop r ''is_overdue'';
        Some (Cells ([Words (formatDue rd d)] @ (if truthy late then [Chip_text ''Overdue'' ''error''] else [])))
          }),
      sorts ''status'' ''Status''
        (\<lambda>r. map_option (\<lambda>s. Chip (table PIR_STATUS_LABELS s) (J_str ''default'')) (get_prop r
          ''status''))]"

definition OUTCOME_COLOR :: "(string \<times> string) list" where
  "OUTCOME_COLOR = [(''go'', ''success''), (''conditional_go'', ''warning''), (''no_go'', ''error'')]"

definition OUTCOME_LABEL :: "(string \<times> string) list" where
  "OUTCOME_LABEL = [(''go'', ''Go''), (''conditional_go'', ''Conditional Go''), (''no_go'', ''No Go'')]"

definition outcomeLabel :: "json \<Rightarrow> json" where
  "outcomeLabel v = or_else (table OUTCOME_LABEL v) v"

definition GoNoGoTab_row :: "json \<Rightarrow> json option" where
  "GoNoGoTab_row d = do {
     i \<leftarrow> get_prop d ''id''; at \<leftarrow> get_prop d ''decided_at''; oc \<leftarrow> get_prop d
       ''outcome'';
     chair \<leftarrow> get_prop d ''chaired_by_username''; so \<leftarrow> get_prop d ''signoffs''; nso
       \<leftarrow> length_prop so;
     unmet \<leftarrow> get_prop d ''unmet_condition_count''; ok \<leftarrow> get_prop d ''snapshot_ok'';
     bl \<leftarrow> get_prop d ''snapshot_blockers''; nbl \<leftarrow> length_prop bl;
     wa \<leftarrow> get_prop d ''snapshot_warnings''; nwa \<leftarrow> length_prop wa;
     Some (J_obj [(''id'', i), (''decided_at'', at), (''outcome'', oc), (''chaired_by_username'', or_else chair
       (J_str DASH)),
       (''signoff_count'', nso), (''unmet_condition_count'', unmet), (''snapshot_ok'', ok),
       (''snapshot_blocker_count'', nbl), (''snapshot_warning_count'', nwa)]) }"

definition readiness_cell :: "json \<Rightarrow> cell option" where
  "readiness_cell r = do {
     blockers \<leftarrow> get_prop r ''snapshot_blocker_count''; warnings \<leftarrow> get_prop r
       ''snapshot_warning_count'';
     Some (if js_positive blockers
           then Chip_text (js_text blockers @ '' blocker'' @ (if blockers = J_int 1 then [] else ''s'')) ''error''
           else if js_positive warnings
           then Chip_text (''Ready, '' @ js_text warnings @ '' warning'' @ (if warnings = J_int 1 then [] else
             ''s'')) ''warning''
           else Chip_text ''Was ready'' ''success'') }"

definition goNoGoColumns :: "reader \<Rightarrow> column list" where
  "goNoGoColumns rd =
     [sorts ''decided_at'' ''Decided'' (words_of ''decided_at'' (formatBookingDateTime rd)),
      sorts ''outcome'' ''Outcome''
        (\<lambda>r. map_option (\<lambda>v. Chip (outcomeLabel v) (colour_in OUTCOME_COLOR v)) (get_prop r
          ''outcome'')),
      plain ''chaired_by_username'' ''Chaired by'' (raw ''chaired_by_username''),
      plain ''signoff_count'' ''Sign-offs'' (raw ''signoff_count''),
      plain ''unmet_condition_count'' ''Unmet conditions''
        (\<lambda>r. map_option (\<lambda>n. if js_positive n then Chip n (J_str ''warning'') else Words ''0'')
          (get_prop r ''unmet_condition_count'')),
      plain ''snapshot_ok'' ''Readiness at decision'' readiness_cell]"

text \<open>The newest decision on the page, by a \<open>reduce\<close> that keeps the first of equals; an instant
  that cannot be
  read compares as not greater.\<close>

definition later :: "reader \<Rightarrow> json \<Rightarrow> json \<Rightarrow> bool" where
  "later rd d acc =
     (case (js_date rd (nullish (get_prop d ''decided_at'') J_undefined), js_date rd (nullish (get_prop acc
       ''decided_at'') J_undefined)) of
        (Some a, Some b) \<Rightarrow> b < a | _ \<Rightarrow> False)"

definition latest_decision :: "reader \<Rightarrow> json list \<Rightarrow> json option" where
  "latest_decision rd decisions =
     (case decisions of [] \<Rightarrow> None
      | d # ds \<Rightarrow> Some (fold (\<lambda>x acc. if later rd x acc then x else acc) ds d))"

definition rehearsalAnswerFromSnapshot :: "json \<Rightarrow> string" where
  "rehearsalAnswerFromSnapshot t =
     (if t = J_str ''rehearsal_missing''
      then ''No '' @ DASH @ '' no rollback rehearsal had been recorded at decision time.''
      else if t = J_str ''rehearsal_stale''
      then ''Not currently '' @ DASH @ '' the rehearsal on record was stale at decision time.''
      else ''Yes '' @ DASH @ '' a current rollback rehearsal was on record at decision time.'')"

end
