(* ===== verification/ListHandlers.thy ===== *)
theory ListHandlers
  imports ServiceApi
begin

text \<open>
  What the list handlers of the backend make of a query string (\<open>src/backend/app/api/v1\<close>): the
    parameters
  that each declares with their types, the window of \<open>pagination\<close> and the sort fields of
    \<open>sorting\<close>
  (\<open>src/backend/app/core/pagination.py\<close>). An undeclared parameter is ignored, a declared one whose
    text does not
  read as its type is answered with 422. How FastAPI reads an integer, a boolean and an instant is a parameter.
\<close>

datatype qtype = Q_int "int option" "int option" | Q_bool | Q_text | Q_datetime | Q_one_of "string list"

text \<open>The readers of the framework.\<close>

record readers =
  read_int :: "string \<Rightarrow> int option"
  read_bool :: "string \<Rightarrow> bool option"
  read_datetime :: "string \<Rightarrow> bool"

definition within :: "int option \<Rightarrow> int option \<Rightarrow> int \<Rightarrow> bool" where
  "within lo hi n \<longleftrightarrow> nullish (map_option (\<lambda>l. l \<le> n) lo) True \<and> nullish
    (map_option (\<lambda>h. n \<le> h) hi) True"

definition accepts :: "readers \<Rightarrow> qtype \<Rightarrow> string \<Rightarrow> bool" where
  "accepts lib t s =
     (case t of
        Q_int lo hi \<Rightarrow> (case read_int lib s of Some n \<Rightarrow> within lo hi n | None \<Rightarrow>
          False)
      | Q_bool \<Rightarrow> read_bool lib s \<noteq> None
      | Q_text \<Rightarrow> True
      | Q_datetime \<Rightarrow> read_datetime lib s
      | Q_one_of xs \<Rightarrow> s \<in> set xs)"

text \<open>The readers read back what JavaScript prints for an integer and for a boolean.\<close>

definition reads_javascript :: "readers \<Rightarrow> bool" where
  "reads_javascript lib \<longleftrightarrow> (\<forall>n. read_int lib (show_int n) = Some n) \<and> read_bool lib
    ''true'' = Some True \<and>
     read_bool lib ''false'' = Some False"

record list_handler =
  lh_name :: string
  lh_sorts :: "string list"
  lh_default :: string
  lh_default_dir :: string
  lh_params :: "(string \<times> qtype) list"

text \<open>\<open>Depends(pagination(max_limit=...))\<close> and \<open>Depends(sorting(allowed, default,
  default_dir=...))\<close>.\<close>

definition page_params :: "int \<Rightarrow> (string \<times> qtype) list" where
  "page_params max_limit = [(''limit'', Q_int (Some 1) (Some max_limit)), (''offset'', Q_int (Some 0) None)]"

definition sort_params :: "string list \<Rightarrow> (string \<times> qtype) list" where
  "sort_params allowed = [(''sort_by'', Q_one_of allowed), (''sort_dir'', Q_one_of [''asc'', ''desc''])]"

definition list_handler :: "string \<Rightarrow> int \<Rightarrow> string list \<Rightarrow> string \<Rightarrow>
  string \<Rightarrow> (string \<times> qtype) list \<Rightarrow> list_handler" where
  "list_handler name max_limit allowed dflt dir ps =
     \<lparr>lh_name = name, lh_sorts = allowed, lh_default = dflt, lh_default_dir = dir,
      lh_params = ps @ page_params max_limit @ sort_params allowed\<rparr>"

subsection \<open>What axios writes\<close>

text \<open>The text of a value in the query string; \<open>null\<close> and \<open>undefined\<close> are left
  out.\<close>

definition wire_text :: "json \<Rightarrow> string option" where
  "wire_text j =
     (case j of J_bool b \<Rightarrow> Some (if b then ''true'' else ''false'') | J_int n \<Rightarrow> Some
       (show_int n)
      | J_str s \<Rightarrow> Some s | _ \<Rightarrow> None)"

text \<open>The text with which a parameter is sent, if it is.\<close>

definition sent_as :: "query \<Rightarrow> string \<Rightarrow> string option" where
  "sent_as q k = Option.bind (map_of q k) wire_text"

text \<open>What the handler says to one parameter of a request.\<close>

datatype verdict = Not_sent | Ignored | Accepted | Refused

definition verdict_of :: "readers \<Rightarrow> list_handler \<Rightarrow> query \<Rightarrow> string \<Rightarrow>
  verdict" where
  "verdict_of lib h q k =
     (case sent_as q k of
        None \<Rightarrow> Not_sent
      | Some s \<Rightarrow> (case map_of (lh_params h) k of
            None \<Rightarrow> Ignored
          | Some t \<Rightarrow> if accepts lib t s then Accepted else Refused))"

subsection \<open>Sort fields\<close>

definition RELEASE_SORTS :: "string list" where
  "RELEASE_SORTS = [''name'', ''release_type'', ''release_kind'', ''status'', ''target_date'', ''created_at'',
    ''scope_deadline'']"

definition BOOKING_SORTS :: "string list" where
  "BOOKING_SORTS = [''start_date'', ''end_date'', ''status'', ''protection_level'']"

definition ENVIRONMENT_SORTS :: "string list" where
  "ENVIRONMENT_SORTS = [''name'', ''tier'', ''status'', ''owner'', ''expires_at'', ''created_at'']"

definition CHANGE_REQUEST_SORTS :: "string list" where
  "CHANGE_REQUEST_SORTS = [''title'', ''change_type'', ''status'', ''scheduled_start'']"

definition SYSTEM_SORTS :: "string list" where
  "SYSTEM_SORTS = [''name'']"

definition INFRASTRUCTURE_SORTS :: "string list" where
  "INFRASTRUCTURE_SORTS = [''name'', ''component_type'', ''provider'', ''region'', ''source'']"

definition INCIDENT_SORTS :: "string list" where
  "INCIDENT_SORTS = [''title'', ''severity'', ''status'', ''detected_at'', ''resolved_at'']"

definition DEPLOYMENT_SORTS :: "string list" where
  "DEPLOYMENT_SORTS = [''status'', ''deployer_name'', ''deployed_at'']"

definition BUILD_SORTS :: "string list" where
  "BUILD_SORTS = [''git_branch'', ''build_number'', ''commit_timestamp'']"

definition REQUEST_SORTS :: "string list" where
  "REQUEST_SORTS = [''status'', ''kind'', ''needed_by'', ''created_at'']"

definition ESCALATION_SORTS :: "string list" where
  "ESCALATION_SORTS = [''respond_by'', ''created_at'', ''decided_at'']"

definition DECOMMISSION_SORTS :: "string list" where
  "DECOMMISSION_SORTS = [''scheduled_teardown_at'', ''warned_at'', ''environment'']"

definition PIR_ACTION_SORTS :: "string list" where
  "PIR_ACTION_SORTS = [''title'', ''status'', ''due_date'', ''created_at'', ''release'', ''owner'']"

definition GO_NO_GO_SORTS :: "string list" where
  "GO_NO_GO_SORTS = [''decided_at'', ''outcome'']"

subsection \<open>Handlers\<close>

definition handler_list_releases :: list_handler where
  "handler_list_releases =
     list_handler ''releases.list_releases'' 200 RELEASE_SORTS ''created_at'' ''desc''
       [(''release_type'', Q_text),
        (''status'', Q_text),
        (''date_from'', Q_datetime),
        (''date_to'', Q_datetime),
        (''owner_id'', Q_int None None),
        (''search'', Q_text),
        (''release_kind'', Q_one_of [''project'', ''enterprise'']),
        (''system_id'', Q_int None None),
        (''project_id'', Q_int None None),
        (''scope_window'', Q_one_of [''actionable'', ''all'']),
        (''implemented'', Q_bool),
        (''open'', Q_bool)]"

definition handler_list_bookings :: list_handler where
  "handler_list_bookings =
     list_handler ''bookings.list_bookings'' 1000 BOOKING_SORTS ''start_date'' ''asc''
       [(''environment_id'', Q_int None None),
        (''start'', Q_datetime),
        (''end'', Q_datetime),
        (''booking_status'', Q_text),
        (''project_id'', Q_int None None),
        (''agreement_gap'', Q_bool),
        (''protection'', Q_one_of [''soft'', ''hard'']),
        (''active'', Q_bool)]"

definition handler_list_environments :: list_handler where
  "handler_list_environments =
     list_handler ''environments.list_environments'' 1000 ENVIRONMENT_SORTS ''name'' ''asc''
       [(''status'', Q_one_of [''active'', ''inactive'', ''maintenance'', ''decommissioned'']),
        (''tier_id'', Q_int None None),
        (''owner_user_id'', Q_int None None),
        (''operations_group_id'', Q_int None None),
        (''expiring_within_days'', Q_int (Some 0) None),
        (''governance_gap'', Q_bool),
        (''compliance_gap'', Q_bool),
        (''quarantined'', Q_bool),
        (''idle'', Q_bool),
        (''search'', Q_text)]"

definition handler_list_change_requests :: list_handler where
  "handler_list_change_requests =
     list_handler ''change_requests.list_change_requests'' 1000 CHANGE_REQUEST_SORTS ''scheduled_start'' ''desc''
       [(''environment_id'', Q_int None None),
        (''host_id'', Q_int None None),
        (''subsystem_id'', Q_int None None),
        (''status'', Q_text),
        (''scheduled_from'', Q_datetime),
        (''scheduled_to'', Q_datetime)]"

definition handler_list_systems :: list_handler where
  "handler_list_systems =
     list_handler ''systems.list_systems'' 1000 SYSTEM_SORTS ''name'' ''asc''
       [(''search'', Q_text)]"

definition handler_list_components :: list_handler where
  "handler_list_components =
     list_handler ''infrastructure_components.list_components'' 1000 INFRASTRUCTURE_SORTS ''name'' ''asc''
       [(''component_type'', Q_one_of [''server'', ''container_runtime'', ''kubernetes_cluster'',
         ''managed_database'', ''load_balancer'', ''network'', ''cdn'', ''queue'', ''cache'', ''other'']),
        (''provider'', Q_text),
        (''region'', Q_text),
        (''source'', Q_one_of [''manual'', ''terraform'', ''docker_compose'']),
        (''search'', Q_text)]"

definition handler_list_incidents :: list_handler where
  "handler_list_incidents =
     list_handler ''incidents.list_incidents'' 1000 INCIDENT_SORTS ''detected_at'' ''desc''
       [(''status'', Q_text),
        (''severity'', Q_text),
        (''system_id'', Q_int None None),
        (''environment_id'', Q_int None None),
        (''release_id'', Q_int None None),
        (''source'', Q_text),
        (''date_from'', Q_datetime),
        (''date_to'', Q_datetime),
        (''open'', Q_bool)]"

definition handler_list_deployments :: list_handler where
  "handler_list_deployments =
     list_handler ''deployments.list_deployments'' 500 DEPLOYMENT_SORTS ''deployed_at'' ''desc''
       [(''environment_id'', Q_int None None),
        (''release_id'', Q_int None None),
        (''build_id'', Q_int None None),
        (''status'', Q_text),
        (''date_from'', Q_datetime),
        (''date_to'', Q_datetime),
        (''environment_search'', Q_text),
        (''release_search'', Q_text)]"

definition handler_list_builds :: list_handler where
  "handler_list_builds =
     list_handler ''builds.list_builds'' 500 BUILD_SORTS ''commit_timestamp'' ''desc''
       [(''subsystem_id'', Q_int None None),
        (''release_id'', Q_int None None),
        (''branch'', Q_text),
        (''date_from'', Q_datetime),
        (''date_to'', Q_datetime),
        (''subsystem_search'', Q_text)]"

definition handler_list_environment_requests :: list_handler where
  "handler_list_environment_requests =
     list_handler ''environment_requests.list_environment_requests'' 1000 REQUEST_SORTS ''created_at'' ''desc''
       [(''status'', Q_text),
        (''kind'', Q_text),
        (''environment_id'', Q_int None None),
        (''mine'', Q_bool),
        (''actionable'', Q_bool)]"

definition handler_list_contention_escalations :: list_handler where
  "handler_list_contention_escalations =
     list_handler ''contentions.list_contention_escalations'' 1000 ESCALATION_SORTS ''respond_by'' ''asc''
       [(''state'', Q_one_of [''open'', ''answered'', ''expired'']),
        (''owner_user_id'', Q_int None None)]"

definition handler_list_decommission_worklist :: list_handler where
  "handler_list_decommission_worklist =
     list_handler ''decommissions.list_decommission_worklist'' 1000 DECOMMISSION_SORTS ''scheduled_teardown_at''
       ''asc''
       [(''state'', Q_one_of [''warned'', ''due'', ''extension_requested'', ''torn_down'', ''cancelled'']),
        (''mine'', Q_bool)]"

definition handler_list_pir_actions :: list_handler where
  "handler_list_pir_actions =
     list_handler ''pir_actions.list_pir_actions'' 1000 PIR_ACTION_SORTS ''due_date'' ''asc''
       [(''status'', Q_text),
        (''owner_id'', Q_int None None),
        (''overdue'', Q_bool),
        (''release_id'', Q_int None None),
        (''incident_id'', Q_int None None)]"

definition handler_list_go_no_go_decisions :: list_handler where
  "handler_list_go_no_go_decisions =
     list_handler ''releases.list_go_no_go_decisions'' 200 GO_NO_GO_SORTS ''decided_at'' ''desc''
       []"

lemmas handler_defs =
  handler_list_releases_def handler_list_bookings_def handler_list_environments_def
    handler_list_change_requests_def handler_list_systems_def handler_list_components_def
      handler_list_incidents_def handler_list_deployments_def handler_list_builds_def
        handler_list_environment_requests_def handler_list_contention_escalations_def
          handler_list_decommission_worklist_def handler_list_pir_actions_def handler_list_go_no_go_decisions_def

lemmas sorts_defs =
  RELEASE_SORTS_def BOOKING_SORTS_def ENVIRONMENT_SORTS_def CHANGE_REQUEST_SORTS_def SYSTEM_SORTS_def
    INFRASTRUCTURE_SORTS_def INCIDENT_SORTS_def DEPLOYMENT_SORTS_def BUILD_SORTS_def REQUEST_SORTS_def
      ESCALATION_SORTS_def DECOMMISSION_SORTS_def PIR_ACTION_SORTS_def GO_NO_GO_SORTS_def

end
