(* ===== verification/GridPages.thy ===== *)
theory GridPages
  imports GridColumns ServerGrid ServiceCalls ListHandlers
begin

text \<open>
  The fifteen pages that drive a grid with \<open>useServerGrid\<close>: the options each hands to the hook, the
    values that
  its filter controls write, what it makes of the hook's parameters (\<open>onFetch\<close>), and the service
    function that the
  slice's thunk or the page itself then calls. The handlers behind the services are those of
    \<open>ListHandlers\<close>.
\<close>

subsection \<open>Parameters of a request\<close>

definition pv_json :: "pval \<Rightarrow> json" where
  "pv_json v = (case v of PNum n \<Rightarrow> J_int n | PStr s \<Rightarrow> J_str s)"

text \<open>\<open>params.k\<close> and \<open>{ ...params }\<close>.\<close>

definition param :: "ServerGridParams \<Rightarrow> string \<Rightarrow> json" where
  "param p k = (case jm_get p k of Some v \<Rightarrow> pv_json v | None \<Rightarrow> J_undefined)"

definition all_params :: "ServerGridParams \<Rightarrow> query" where
  "all_params p = map (\<lambda>(k, v). (k, pv_json v)) p"

definition window_params :: "ServerGridParams \<Rightarrow> query" where
  "window_params p = map (\<lambda>k. (k, param p k)) [''limit'', ''offset'', ''sort_by'', ''sort_dir'']"

text \<open>A text that \<open>Number\<close> reads as a finite number that is not whole, and the range beyond
  which it reads
  infinity. Such a fraction is sent as its literal.\<close>

definition decimal_literal :: "string \<Rightarrow> bool" where
  "decimal_literal s =
     (let t = snd (read_signed s); ip = takeWhile is_digit t; t1 = dropWhile is_digit t;
          dot = (t1 \<noteq> [] \<and> hd t1 = CHR ''.'');
          fp = (if dot then takeWhile is_digit (tl t1) else []);
          t2 = (if dot then dropWhile is_digit (tl t1) else t1)
      in (ip \<noteq> [] \<or> fp \<noteq> []) \<and>
         (if t2 = [] then True else lower_char (hd t2) = CHR ''e'' \<and> read_exponent (tl t2) \<noteq> None))"

definition finite_double :: "int \<Rightarrow> bool" where
  "finite_double n \<longleftrightarrow> \<bar>n\<bar> < 2 ^ 1024 - 2 ^ 970"

subsection \<open>Releases\<close>

definition apiProjectId :: "json \<Rightarrow> json" where
  "apiProjectId urlValue =
     (case urlValue of
        J_int n \<Rightarrow> J_int n
      | J_str s \<Rightarrow>
          if s = ''any'' then J_undefined
          else (case js_Number s of
                  Some n \<Rightarrow> if finite_double n then J_int n else J_undefined
                | None \<Rightarrow> if decimal_literal (js_trim s) then J_str (js_trim s) else J_undefined)
      | _ \<Rightarrow> J_undefined)"

definition ReleaseList_apiProjectId :: "json \<Rightarrow> json" where
  "ReleaseList_apiProjectId = apiProjectId"

definition ReleaseList_options :: grid_options where
  "ReleaseList_options =
     \<lparr>go_endpoint = EP_releases, go_filterKeys = [''status'', ''release_type'', ''release_kind'',
       ''system_id'', ''project_id'', ''open''],
      go_debounceKeys = [], go_defaultSort = None\<rparr>"

definition RELEASE_TYPES :: "string list" where
  "RELEASE_TYPES = [''project'', ''hotfix'', ''patch'', ''major'', ''minor'']"

definition ReleaseList_controls :: "(string \<times> string list) list" where
  "ReleaseList_controls =
     [(''status'', [''all'', ''draft'', ''planning'', ''in_progress'', ''completed'', ''cancelled'']),
      (''release_type'', ''all'' # RELEASE_TYPES), (''release_kind'', [''all'', ''project'', ''enterprise''])]"

definition ReleaseList_query :: "ServerGridParams \<Rightarrow> query" where
  "ReleaseList_query p = put_field (''project_id'', ReleaseList_apiProjectId (param p ''project_id'')) (all_params
    p)"

subsection \<open>Bookings\<close>

text \<open>The reader of the two tri-state filters.\<close>

definition tri_state :: "json \<Rightarrow> json" where
  "tri_state v = (if v = J_str ''true'' then J_bool True else if v = J_str ''false'' then J_bool False else
    J_undefined)"

definition apiAgreementGap :: "json \<Rightarrow> json" where
  "apiAgreementGap urlValue = tri_state urlValue"

definition apiActive :: "json \<Rightarrow> json" where
  "apiActive urlValue = tri_state urlValue"

definition apiProtection :: "json \<Rightarrow> json" where
  "apiProtection urlValue =
     (if urlValue = J_str ''soft'' \<or> urlValue = J_str ''hard'' then urlValue else J_undefined)"

definition BOOKING_STATUS_OPTIONS :: "string list" where
  "BOOKING_STATUS_OPTIONS =
     [''all'', ''draft'', ''submitted'', ''approved'', ''rejected'', ''extension_requested'', ''closed'']"

definition GAP_FILTER_OPTIONS :: "string list" where
  "GAP_FILTER_OPTIONS = [''any'', ''true'', ''false'']"

definition PROTECTION_FILTER_OPTIONS :: "string list" where
  "PROTECTION_FILTER_OPTIONS = ''any'' # map fst PROTECTION_LABELS"

definition BookingList_options :: grid_options where
  "BookingList_options =
     \<lparr>go_endpoint = EP_bookings, go_filterKeys = [''booking_status'', ''project_id'', ''agreement_gap'',
       ''protection'', ''start'', ''end'', ''active''],
      go_debounceKeys = [], go_defaultSort = None\<rparr>"

definition BookingList_controls :: "(string \<times> string list) list" where
  "BookingList_controls =
     [(''booking_status'', BOOKING_STATUS_OPTIONS), (''agreement_gap'', GAP_FILTER_OPTIONS),
      (''protection'', PROTECTION_FILTER_OPTIONS)]"

definition BookingList_query :: "ServerGridParams \<Rightarrow> query" where
  "BookingList_query p =
     put_field (''active'', apiActive (param p ''active''))
       (put_field (''protection'', apiProtection (param p ''protection''))
         (put_field (''agreement_gap'', apiAgreementGap (param p ''agreement_gap''))
           (put_field (''project_id'', apiProjectId (param p ''project_id'')) (all_params p))))"

text \<open>The chip that clears the filters of the dashboard's link, and which option the two selects show.\<close>

definition clear_live_now :: "grid_options \<Rightarrow> grid \<Rightarrow> grid" where
  "clear_live_now opts g =
     setFilter opts ''active'' [] (setFilter opts ''end'' [] (setFilter opts ''start'' [] g))"

definition gapFilterValue :: "json \<Rightarrow> string" where
  "gapFilterValue v = (case apiAgreementGap v of J_bool b \<Rightarrow> if b then ''true'' else ''false'' | _
    \<Rightarrow> ''any'')"

definition protectionFilterValue :: "json \<Rightarrow> json" where
  "protectionFilterValue v = or_else (apiProtection v) (J_str ''any'')"

subsection \<open>Environments\<close>

definition STATUS_FILTERS :: "string list" where
  "STATUS_FILTERS = [''all'', ''active'', ''inactive'', ''maintenance'', ''decommissioned'']"

definition EXPIRY_WINDOW_FILTERS :: "string list" where
  "EXPIRY_WINDOW_FILTERS = [''7'', ''30'', ''90'']"

definition IDLE_FILTERS :: "string list" where
  "IDLE_FILTERS = [[], ''true'', ''false'']"

definition EnvironmentList_options :: grid_options where
  "EnvironmentList_options =
     \<lparr>go_endpoint = EP_environments, go_filterKeys = [''search'', ''status'', ''tier_id'',
       ''governance_gap'', ''compliance_gap'', ''quarantined'', ''owner_user_id'', ''expiring_within_days'',
         ''operations_group_id'', ''idle''],
      go_debounceKeys = [''search''], go_defaultSort = None\<rparr>"

definition EnvironmentList_controls :: "(string \<times> string list) list" where
  "EnvironmentList_controls =
     [(''status'', STATUS_FILTERS), (''expiring_within_days'', [] # EXPIRY_WINDOW_FILTERS), (''idle'',
       IDLE_FILTERS),
      (''governance_gap'', [[], ''true'']), (''compliance_gap'', [[], ''true'']), (''quarantined'', [[],
        ''true''])]"

subsection \<open>Change requests, systems, hosts, incidents\<close>

definition ChangeRequestList_options :: grid_options where
  "ChangeRequestList_options =
     \<lparr>go_endpoint = EP_change_requests, go_filterKeys = [''status'', ''environment_id'', ''host_id''],
      go_debounceKeys = [], go_defaultSort = None\<rparr>"

definition ChangeRequestList_controls :: "(string \<times> string list) list" where
  "ChangeRequestList_controls =
     [(''status'', [''all'', ''draft'', ''submitted'', ''approved'', ''rejected'', ''in_progress'',
       ''completed''])]"

definition SystemCatalog_options :: grid_options where
  "SystemCatalog_options =
     \<lparr>go_endpoint = EP_systems, go_filterKeys = [''search''],
      go_debounceKeys = [''search''], go_defaultSort = None\<rparr>"

definition InfrastructureComponentList_options :: grid_options where
  "InfrastructureComponentList_options =
     \<lparr>go_endpoint = EP_infrastructure_components, go_filterKeys = [''search'', ''component_type''],
      go_debounceKeys = [''search''], go_defaultSort = None\<rparr>"

definition InfrastructureComponentList_controls :: "(string \<times> string list) list" where
  "InfrastructureComponentList_controls = [(''component_type'', ''all'' # map fst COMPONENT_TYPE_OPTIONS)]"

definition IncidentList_options :: grid_options where
  "IncidentList_options =
     \<lparr>go_endpoint = EP_incidents, go_filterKeys = [''status'', ''severity'', ''system_id'', ''open''],
      go_debounceKeys = [], go_defaultSort = None\<rparr>"

definition SEVERITIES :: "string list" where
  "SEVERITIES = [''P1'', ''P2'', ''P3'', ''P4'']"

definition IncidentList_controls :: "(string \<times> string list) list" where
  "IncidentList_controls = [(''severity'', ''all'' # SEVERITIES)]"

text \<open>The statuses that the incident page offers: the states of the default template, or of the first
  one.\<close>

definition statusOptions :: "json list \<Rightarrow> (json \<times> json) list" where
  "statusOptions templates =
     (let defaultTpl = (case find (\<lambda>t. truthy (nullish (get_prop t ''is_default'') J_undefined)) templates
       of
            Some t \<Rightarrow> t | None \<Rightarrow> (case templates of t # _ \<Rightarrow> t | [] \<Rightarrow>
              J_null));
          defn = nullish (get_prop defaultTpl ''definition'') J_undefined;
          states = nullish (get_prop defn ''states'') J_undefined
      in (case states of
            J_arr ss \<Rightarrow> map (\<lambda>s. (nullish (get_prop s ''key'') J_undefined, nullish (get_prop s
              ''label'') J_undefined)) ss
          | _ \<Rightarrow> []))"

subsection \<open>Deployments and builds\<close>

definition DEPLOYMENT_STATUS_OPTIONS :: "string list" where
  "DEPLOYMENT_STATUS_OPTIONS = [''pending'', ''in_progress'', ''success'', ''failed'', ''rolled_back'']"

definition DeploymentList_options :: grid_options where
  "DeploymentList_options =
     \<lparr>go_endpoint = EP_deployments, go_filterKeys = [''status'', ''environment_search'', ''release_search''],
      go_debounceKeys = [''environment_search'', ''release_search''], go_defaultSort = None\<rparr>"

definition DeploymentList_controls :: "(string \<times> string list) list" where
  "DeploymentList_controls = [(''status'', [] # DEPLOYMENT_STATUS_OPTIONS)]"

definition BuildList_options :: grid_options where
  "BuildList_options =
     \<lparr>go_endpoint = EP_builds, go_filterKeys = [''subsystem_search'', ''branch'', ''date_from'',
       ''date_to''],
      go_debounceKeys = [''subsystem_search'', ''branch''], go_defaultSort = None\<rparr>"

text \<open>The two date boxes of the builds page write the ends of the UTC day; the parser and printer of
  \<open>Date\<close> are
  parameters.\<close>

definition BuildList_date_from :: "(string \<Rightarrow> date option) \<Rightarrow> (date \<Rightarrow> string)
  \<Rightarrow> string \<Rightarrow> string option" where
  "BuildList_date_from parse toISO v =
     (if v = [] then Some [] else map_option toISO (parse (v @ ''T00:00:00Z'')))"

definition BuildList_date_to :: "(string \<Rightarrow> date option) \<Rightarrow> (date \<Rightarrow> string)
  \<Rightarrow> string \<Rightarrow> string option" where
  "BuildList_date_to parse toISO v =
     (if v = [] then Some [] else map_option toISO (parse (v @ ''T23:59:59Z'')))"

subsection \<open>Worklists\<close>

definition EnvironmentRequestList_options :: grid_options where
  "EnvironmentRequestList_options =
     \<lparr>go_endpoint = EP_environment_requests, go_filterKeys = [''queue''],
      go_debounceKeys = [], go_defaultSort = None\<rparr>"

definition QUEUE_FILTERS :: "string list" where
  "QUEUE_FILTERS = [''any'', ''mine'', ''team'']"

definition queueParams :: "json \<Rightarrow> query" where
  "queueParams value =
     (if value = J_str ''mine'' then [(''mine'', J_bool True)]
      else if value = J_str ''team'' then [(''actionable'', J_bool True)] else [])"

definition EnvironmentRequestList_query :: "ServerGridParams \<Rightarrow> query" where
  "EnvironmentRequestList_query p = window_params p @ queueParams (param p ''queue'')"

definition EscalationWorklist_options :: grid_options where
  "EscalationWorklist_options =
     \<lparr>go_endpoint = EP_contention_escalations, go_filterKeys = [''escalation_state'', ''escalation_owner''],
      go_debounceKeys = [], go_defaultSort = None\<rparr>"

definition ESCALATION_STATE_FILTERS :: "string list" where
  "ESCALATION_STATE_FILTERS = [''any'', ''open'', ''answered'', ''expired'']"

definition OWNER_FILTERS :: "string list" where
  "OWNER_FILTERS = [''anyone'', ''me'']"

definition one_of_param :: "string \<Rightarrow> string list \<Rightarrow> json \<Rightarrow> query" where
  "one_of_param k vs value = (case value of J_str s \<Rightarrow> if s \<in> set vs then [(k, J_str s)] else [] | _
    \<Rightarrow> [])"

definition EscalationWorklist_stateParam :: "json \<Rightarrow> query" where
  "EscalationWorklist_stateParam value = one_of_param ''state'' [''open'', ''answered'', ''expired''] value"

definition owner_param :: "string \<Rightarrow> int option \<Rightarrow> json \<Rightarrow> query" where
  "owner_param k userId value =
     (case userId of Some u \<Rightarrow> if value = J_str ''me'' then [(k, J_int u)] else [] | None \<Rightarrow>
       [])"

definition EscalationWorklist_ownerParam :: "json \<Rightarrow> int option \<Rightarrow> query" where
  "EscalationWorklist_ownerParam value userId = owner_param ''owner_user_id'' userId value"

definition EscalationWorklist_query :: "int option \<Rightarrow> ServerGridParams \<Rightarrow> query" where
  "EscalationWorklist_query userId p =
     window_params p @ EscalationWorklist_stateParam (param p ''escalation_state'') @
     EscalationWorklist_ownerParam (param p ''escalation_owner'') userId"

definition DecommissionWorklist_options :: grid_options where
  "DecommissionWorklist_options =
     \<lparr>go_endpoint = EP_decommissions, go_filterKeys = [''state'', ''mine''],
      go_debounceKeys = [], go_defaultSort = None\<rparr>"

definition DECOMMISSION_STATE_FILTERS :: "string list" where
  "DECOMMISSION_STATE_FILTERS = ''any'' # map fst DECOMMISSION_STATE_LABELS"

definition DecommissionWorklist_stateParam :: "json \<Rightarrow> query" where
  "DecommissionWorklist_stateParam value = one_of_param ''state'' (map fst DECOMMISSION_STATE_LABELS) value"

definition mineParam :: "json \<Rightarrow> query" where
  "mineParam value = (if value = J_str ''true'' then [(''mine'', J_bool True)] else [])"

text \<open>The page divides the offset by the limit and the thunk multiplies again; the offset is a multiple of the
  limit.\<close>

definition DecommissionWorklist_query :: "ServerGridParams \<Rightarrow> query" where
  "DecommissionWorklist_query p =
     (let num = (\<lambda>k. case param p k of J_int n \<Rightarrow> n | _ \<Rightarrow> 0); page = num ''offset''
       div num ''limit'' in
      DecommissionWorklist_stateParam (param p ''state'') @ mineParam (param p ''mine'') @
      [(''limit'', param p ''limit''), (''offset'', J_int (page * num ''limit'')),
       (''sort_by'', param p ''sort_by''), (''sort_dir'', param p ''sort_dir'')])"

definition PirActionList_options :: grid_options where
  "PirActionList_options =
     \<lparr>go_endpoint = EP_pir_actions, go_filterKeys = [''status'', ''action_owner'', ''overdue''],
      go_debounceKeys = [], go_defaultSort = None\<rparr>"

definition PirActionList_statusParam :: "json \<Rightarrow> query" where
  "PirActionList_statusParam value = one_of_param ''status'' [''open'', ''in_progress'', ''done'', ''cancelled'']
    value"

definition PirActionList_ownerParam :: "json \<Rightarrow> int option \<Rightarrow> query" where
  "PirActionList_ownerParam value userId = owner_param ''owner_id'' userId value"

definition overdueParam :: "json \<Rightarrow> query" where
  "overdueParam value =
     (if value = J_str ''true'' then [(''overdue'', J_bool True)]
      else if value = J_str ''false'' then [(''overdue'', J_bool False)] else [])"

definition PirActionList_query :: "int option \<Rightarrow> ServerGridParams \<Rightarrow> query" where
  "PirActionList_query userId p =
     window_params p @ PirActionList_statusParam (param p ''status'') @
     PirActionList_ownerParam (param p ''action_owner'') userId @ overdueParam (param p ''overdue'')"

definition GoNoGoTab_options :: grid_options where
  "GoNoGoTab_options =
     \<lparr>go_endpoint = EP_go_no_go, go_filterKeys = [],
      go_debounceKeys = [], go_defaultSort = None\<rparr>"

definition GoNoGoTab_query :: "ServerGridParams \<Rightarrow> query" where
  "GoNoGoTab_query p = window_params p"

definition ScopeWindowsTable_options :: grid_options where
  "ScopeWindowsTable_options =
     \<lparr>go_endpoint = EP_releases, go_filterKeys = [''scope_window'', ''release_kind'', ''system_id''],
      go_debounceKeys = [], go_defaultSort = Some \<lparr>ds_field = ''scope_deadline'', ds_dir =
        Asc\<rparr>\<rparr>"

definition apiScopeWindow :: "json \<Rightarrow> string" where
  "apiScopeWindow urlValue = (if urlValue = J_str ''any'' then ''all'' else ''actionable'')"

definition ScopeWindowsTable_query :: "int option \<Rightarrow> ServerGridParams \<Rightarrow> query" where
  "ScopeWindowsTable_query systemId p =
     put_field (''scope_window'', J_str (apiScopeWindow (param p ''scope_window'')))
       (case systemId of
          Some i \<Rightarrow> if i \<noteq> 0 then put_field (''system_id'', J_int i) (all_params p) else
            all_params p
        | None \<Rightarrow> all_params p)"

text \<open>The option that the two toggles of the table show as chosen.\<close>

definition windowFilter :: "(string, string) jmap \<Rightarrow> string" where
  "windowFilter filters = (case jm_get filters ''scope_window'' of Some v \<Rightarrow> if v = [] then
    ''actionable'' else v | None \<Rightarrow> ''actionable'')"

definition kindFilter :: "(string, string) jmap \<Rightarrow> string" where
  "kindFilter filters = (case jm_get filters ''release_kind'' of Some v \<Rightarrow> if v = [] then ''project''
    else v | None \<Rightarrow> ''project'')"

subsection \<open>The pages\<close>

text \<open>What a page asks for, how, of whom, and the filters whose text it passes on unread although the handler
  wants more than a text.\<close>

record grid_page =
  gp_options :: grid_options
  gp_query :: "ServerGridParams \<Rightarrow> query"
  gp_call :: "query \<Rightarrow> call"
  gp_handler :: list_handler
  gp_columns :: "reader \<Rightarrow> column list"
  gp_controls :: "(string \<times> string list) list"
  gp_unread :: "string list"

definition grid_page :: "grid_options \<Rightarrow> (ServerGridParams \<Rightarrow> query) \<Rightarrow> (query
  option \<Rightarrow> call) \<Rightarrow> list_handler \<Rightarrow>
    (reader \<Rightarrow> column list) \<Rightarrow> (string \<times> string list) list \<Rightarrow> string list
      \<Rightarrow> grid_page" where
  "grid_page opts q call h cols ctl unread =
     \<lparr>gp_options = opts, gp_query = q, gp_call = (\<lambda>x. call (Some x)), gp_handler = h, gp_columns =
       cols,
      gp_controls = ctl, gp_unread = unread\<rparr>"

text \<open>\<open>user\<close> is the signed-in user's id, \<open>rel\<close> the release of the go/no-go tab,
  \<open>sys\<close> the system that a scope
  window table is fixed to.\<close>

definition grid_pages :: "int option \<Rightarrow> session_user option \<Rightarrow> int \<Rightarrow> int option
  \<Rightarrow> grid_page list" where
  "grid_pages user who rel sys =
     [grid_page ReleaseList_options ReleaseList_query releaseService_list handler_list_releases
        releaseColumns ReleaseList_controls [''release_kind'', ''system_id'', ''project_id'', ''open''],
      grid_page BookingList_options BookingList_query bookingService_listBookings handler_list_bookings
        bookingColumns BookingList_controls [''project_id'', ''start'', ''end''],
      grid_page EnvironmentList_options all_params environmentService_listEnvironments handler_list_environments
        environmentColumns EnvironmentList_controls
        [''status'', ''tier_id'', ''governance_gap'', ''compliance_gap'', ''quarantined'', ''owner_user_id'',
         ''expiring_within_days'', ''operations_group_id'', ''idle''],
      grid_page ChangeRequestList_options all_params changeRequestService_list handler_list_change_requests
        changeRequestColumns ChangeRequestList_controls [''environment_id'', ''host_id''],
      grid_page SystemCatalog_options all_params systemService_listSystems handler_list_systems
        (\<lambda>rd. systemColumns) [] [],
      grid_page InfrastructureComponentList_options all_params infrastructureComponentService_listComponents
        handler_list_components (\<lambda>rd. infraComponentColumns) InfrastructureComponentList_controls
          [''component_type''],
      grid_page IncidentList_options all_params incidentService_list handler_list_incidents incidentColumns
        IncidentList_controls [''system_id'', ''open''],
      grid_page DeploymentList_options all_params deploymentService_list handler_list_deployments
        (\<lambda>rd. deploymentColumns) DeploymentList_controls [],
      grid_page BuildList_options all_params buildService_list handler_list_builds (\<lambda>rd. buildColumns) []
        [''date_from'', ''date_to''],
      grid_page EnvironmentRequestList_options EnvironmentRequestList_query environmentRequestService_listRequests
        handler_list_environment_requests environmentRequestColumns [(''queue'', QUEUE_FILTERS)] [],
      grid_page EscalationWorklist_options (EscalationWorklist_query user) contentionService_list
        handler_list_contention_escalations (\<lambda>rd. EscalationWorklist_columns rd who)
        [(''escalation_state'', ESCALATION_STATE_FILTERS)] [],
      grid_page DecommissionWorklist_options DecommissionWorklist_query decommissionService_listWorklist
        handler_list_decommission_worklist DecommissionWorklist_columns
        [(''state'', DECOMMISSION_STATE_FILTERS), (''mine'', [[], ''true''])] [],
      grid_page PirActionList_options (PirActionList_query user) pirService_listActions handler_list_pir_actions
        PirActionList_columns
        [(''status'', [''any'', ''open'', ''in_progress'', ''done'', ''cancelled'']),
         (''overdue'', [''any'', ''true'', ''false''])] [],
      grid_page GoNoGoTab_options GoNoGoTab_query (goNoGoService_list rel) handler_list_go_no_go_decisions
        goNoGoColumns [] [],
      grid_page ScopeWindowsTable_options (ScopeWindowsTable_query sys) releaseService_list handler_list_releases
        scopeWindowColumns
        [(''scope_window'', [''actionable'', ''any'']), (''release_kind'', [''project'', ''enterprise'', ''all''])]
        [''release_kind'', ''system_id'']]"

text \<open>The request that a page sends when the URL says \<open>sp\<close>.\<close>

definition page_request :: "grid_page \<Rightarrow> params \<Rightarrow> request" where
  "page_request pg sp = fst (gp_call pg (gp_query pg (url_params (gp_options pg) sp)))"

lemmas page_options = ReleaseList_options_def BookingList_options_def EnvironmentList_options_def
  ChangeRequestList_options_def SystemCatalog_options_def InfrastructureComponentList_options_def
  IncidentList_options_def DeploymentList_options_def BuildList_options_def EnvironmentRequestList_options_def
  EscalationWorklist_options_def DecommissionWorklist_options_def PirActionList_options_def
  GoNoGoTab_options_def ScopeWindowsTable_options_def

end
