(* ===== verification/GridPageFacts.thy ===== *)
theory GridPageFacts
  imports GridPages ServerGridFacts
begin

text \<open>
  What the requests of the grid pages are to the server: every sort field, window and parameter name is one the
  handler takes; the tables of sort fields of the two sides agree; two options of a control never ask for the
  same rows.
\<close>

subsection \<open>Reading a query\<close>

named_theorems sent

lemma sent_as_Nil [sent]: "sent_as [] k = None"
  by (simp add: sent_as_def)

lemma map_of_replace:
  "map_of (map (\<lambda>g. if fst g = fst f then f else g) m) k =
     (if k = fst f then map_option (\<lambda>_. snd f) (map_of m k) else map_of m k)"
  by (induction m) auto

lemma map_of_put_field: "map_of (put_field f m) k = (if k = fst f then Some (snd f) else map_of m k)"
proof (cases "fst f \<in> fst ` set m")
  case True
  then have "map_of m (fst f) \<noteq> None" by (simp add: map_of_eq_None_iff)
  with True show ?thesis by (auto simp: put_field_def map_of_replace)
next
  case False
  then have "map_of m (fst f) = None" by (simp add: map_of_eq_None_iff)
  with False show ?thesis by (cases f) (auto simp: put_field_def map_add_def split: option.split)
qed

lemma sent_as_put_field [sent]: "sent_as (put_field f m) k = (if k = fst f then wire_text (snd f) else sent_as m k)"
  by (simp add: sent_as_def map_of_put_field)

lemma map_of_all_params: "map_of (all_params p) k = map_option pv_json (jm_get p k)"
  by (induction p) (auto simp: all_params_def)

lemma sent_as_all_params [sent]: "sent_as (all_params p) k = wire_text (param p k)"
  by (simp add: sent_as_def map_of_all_params param_def wire_text_def split: option.split)

lemma sent_as_append: "sent_as (a @ b) k = (case map_of a k of Some v \<Rightarrow> wire_text v | None
  \<Rightarrow> sent_as b k)"
  by (simp add: sent_as_def map_add_def split: option.split)

lemma sent_as_Cons [sent]: "sent_as ((k', v) # q) k = (if k = k' then wire_text v else sent_as q k)"
  by (simp add: sent_as_def)

lemma sent_as_window [sent]:
  "sent_as (window_params p @ q) k = (if k \<in> {''limit'', ''offset'', ''sort_by'', ''sort_dir''} then wire_text
    (param p k)
     else sent_as q k)"
  "sent_as (window_params p) k = (if k \<in> {''limit'', ''offset'', ''sort_by'', ''sort_dir''} then wire_text
    (param p k)
     else None)"
  by (simp_all add: window_params_def sent_as_def)

lemma sent_as_if [sent]: "sent_as (if b then p else q) k = (if b then sent_as p k else sent_as q k)"
  by simp

lemma truthy_texts [sent]: "\<not> truthy J_undefined" "truthy (J_str s) \<longleftrightarrow> s \<noteq> []"
  "truthy (J_int n) \<longleftrightarrow> n \<noteq> 0"
  by (simp_all add: truthy_def)

lemma wire_text_simps [simp]:
  "wire_text J_undefined = None" "wire_text J_null = None" "wire_text (J_bool b) = Some (if b then ''true'' else
    ''false'')"
  "wire_text (J_int n) = Some (show_int n)" "wire_text (J_str s) = Some s"
  by (simp_all add: wire_text_def)

text \<open>The two services that copy the filters they know.\<close>

lemma lookup_all_params: "nullish (map_of (all_params p) k) J_undefined = param p k"
  by (simp add: map_of_all_params param_def split: option.split)

lemma given_all_params:
  "given k (all_params p) = (if param p k \<noteq> J_undefined then [(k, param p k)] else [])"
  "if_truthy k (all_params p) = (if truthy (param p k) then [(k, param p k)] else [])"
  by (simp_all only: given_def if_truthy_def lookup_all_params Let_def)

lemma sent_as_optional [sent]:
  "sent_as ((if b then [(k', v)] else []) @ q) k = (if k = k' \<and> b then wire_text v else sent_as q k)"
  "sent_as (if b then [(k', v)] else []) k = (if k = k' \<and> b then wire_text v else None)"
  by (simp_all add: sent_as_def)

lemma sent_as_given [sent]:
  "sent_as (given k' (all_params p)) k = (if k = k' then wire_text (param p k') else None)"
  "sent_as (given k' (all_params p) @ q) k =
     (if k = k' \<and> param p k' \<noteq> J_undefined then wire_text (param p k') else sent_as q k)"
  "sent_as (if_truthy k' (all_params p)) k = (if k = k' \<and> truthy (param p k') then wire_text (param p k') else
    None)"
  "sent_as (if_truthy k' (all_params p) @ q) k =
     (if k = k' \<and> truthy (param p k') then wire_text (param p k') else sent_as q k)"
  by (auto simp: given_all_params sent_as_optional sent_as_Nil)

subsection \<open>The parameters of the hook\<close>

definition url_text :: "grid_options \<Rightarrow> params \<Rightarrow> string \<Rightarrow> json" where
  "url_text opts sp k =
     (if k = ''limit'' then J_int (url_pageSize sp)
      else if k = ''offset'' then J_int (url_page sp * url_pageSize sp)
      else if k = ''sort_by'' then J_str (sort_by (url_sort opts sp))
      else if k = ''sort_dir'' then J_str (show_dir (sort_dir (url_sort opts sp)))
      else if k \<in> set (go_filterKeys opts) then
        (case usp_get sp k of
           Some v \<Rightarrow> if v \<noteq> [] \<and> (v \<noteq> ''all'' \<or> k \<in> set (go_debounceKeys
             opts)) then J_str v else J_undefined
         | None \<Rightarrow> J_undefined)
      else J_undefined)"

lemma param_url: "param (url_params opts sp) k = url_text opts sp k"
proof -
  let ?s = "url_sort opts sp"
  have idem: "resolveSort (go_endpoint opts) (Some (sort_by ?s)) (Some (show_dir (sort_dir ?s))) (go_defaultSort
    opts) = ?s"
    by (simp add: url_sort_def resolveSort_accepts resolveSort_sort_by)
  have "jm_get (url_params opts sp) k =
    (if k = ''limit'' then Some (PNum (url_pageSize sp))
     else if k = ''offset'' then Some (PNum (url_page sp * url_pageSize sp))
     else if k = ''sort_by'' then Some (PStr (sort_by ?s))
     else if k = ''sort_dir'' then Some (PStr (show_dir (sort_dir ?s)))
     else case jm_get (url_filters opts sp) k of
         None \<Rightarrow> None
       | Some v \<Rightarrow> if v \<noteq> [] \<and> (v \<noteq> SELECT_SENTINEL \<or> k \<in> set
         (go_debounceKeys opts)) then Some (PStr v) else None)"
    unfolding url_params_def Let_def
    by (subst buildParams_spec) (simp_all add: url_filters_wf idem Let_def split: option.split)
  then show ?thesis
    by (simp add: param_def url_text_def get_url_filters pv_json_def SELECT_SENTINEL_def split: option.split)
qed

lemma url_text_simps:
  "url_text opts sp ''limit'' = J_int (url_pageSize sp)"
  "url_text opts sp ''offset'' = J_int (url_page sp * url_pageSize sp)"
  "url_text opts sp ''sort_by'' = J_str (sort_by (url_sort opts sp))"
  "url_text opts sp ''sort_dir'' = J_str (show_dir (sort_dir (url_sort opts sp)))"
  "k \<notin> {''limit'', ''offset'', ''sort_by'', ''sort_dir''} \<Longrightarrow> k \<notin> set (go_filterKeys
    opts) \<Longrightarrow> url_text opts sp k = J_undefined"
  by (simp_all add: url_text_def)

subsection \<open>What the handler says to them\<close>

definition takes :: "readers \<Rightarrow> params \<Rightarrow> string \<Rightarrow> grid_page \<Rightarrow> bool"
  where
  "takes lib sp k pg =
     (let v = verdict_of lib (gp_handler pg) (rq_query (page_request pg sp)) k in
      if k \<in> set (gp_unread pg) then v \<noteq> Ignored else v = Not_sent \<or> v = Accepted)"

text \<open>The handler is asked about each parameter it declares; nothing else is sent.\<close>

definition each_read :: "readers \<Rightarrow> string list \<Rightarrow> query \<Rightarrow> (string \<times>
  qtype) list \<Rightarrow> bool" where
  "each_read lib unread q ps =
     list_all (\<lambda>(k, t). if k \<in> set unread then True
                         else case sent_as q k of None \<Rightarrow> True | Some s \<Rightarrow> accepts lib t s)
                           ps"

lemma takesI:
  assumes "\<And>k. k \<notin> fst ` set (lh_params (gp_handler pg)) \<Longrightarrow> sent_as (rq_query
    (page_request pg sp)) k = None"
    and "each_read lib (gp_unread pg) (rq_query (page_request pg sp)) (lh_params (gp_handler pg))"
  shows "takes lib sp k pg"
proof (cases "map_of (lh_params (gp_handler pg)) k")
  case None
  then show ?thesis using assms(1) [of k] by (simp add: takes_def verdict_of_def map_of_eq_None_iff)
next
  case (Some t)
  then have "(k, t) \<in> set (lh_params (gp_handler pg))" by (rule map_of_SomeD)
  then show ?thesis using Some assms(2)
    by (auto simp: takes_def verdict_of_def each_read_def list_all_iff Let_def split: option.splits if_splits
      dest!: bspec)
qed

lemma accepts_limit:
  assumes "reads_javascript lib" "100 \<le> m"
  shows "accepts lib (Q_int (Some 1) (Some m)) (show_int (url_pageSize sp))"
  using assms url_pageSize_allowed [of sp]
  by (auto simp: accepts_def reads_javascript_def within_def ALLOWED_PAGE_SIZES_def)

lemma accepts_offset:
  assumes "reads_javascript lib"
  shows "accepts lib (Q_int (Some 0) None) (show_int (url_page sp * url_pageSize sp))"
  using assms url_page_range [of sp] url_pageSize_pos [of sp]
  by (simp add: accepts_def reads_javascript_def within_def)

lemma accepts_sort:
  assumes "set (sortable (whitelistFor (go_endpoint opts))) \<subseteq> set xs"
  shows "accepts lib (Q_one_of xs) (sort_by (url_sort opts sp))"
  using assms resolveSort_sort_by [of "go_endpoint opts"] by (auto simp: accepts_def url_sort_def isSortable_def)

lemma sort_accepted:
  "go_endpoint opts = EP_releases \<Longrightarrow> accepts lib (Q_one_of RELEASE_SORTS) (sort_by (url_sort opts
    sp))"
  "go_endpoint opts = EP_bookings \<Longrightarrow> accepts lib (Q_one_of BOOKING_SORTS) (sort_by (url_sort opts
    sp))"
  "go_endpoint opts = EP_environments \<Longrightarrow> accepts lib (Q_one_of ENVIRONMENT_SORTS) (sort_by (url_sort
    opts sp))"
  "go_endpoint opts = EP_change_requests \<Longrightarrow> accepts lib (Q_one_of CHANGE_REQUEST_SORTS) (sort_by
    (url_sort opts sp))"
  "go_endpoint opts = EP_systems \<Longrightarrow> accepts lib (Q_one_of SYSTEM_SORTS) (sort_by (url_sort opts sp))"
  "go_endpoint opts = EP_infrastructure_components \<Longrightarrow> accepts lib (Q_one_of INFRASTRUCTURE_SORTS)
    (sort_by (url_sort opts sp))"
  "go_endpoint opts = EP_incidents \<Longrightarrow> accepts lib (Q_one_of INCIDENT_SORTS) (sort_by (url_sort opts
    sp))"
  "go_endpoint opts = EP_deployments \<Longrightarrow> accepts lib (Q_one_of DEPLOYMENT_SORTS) (sort_by (url_sort
    opts sp))"
  "go_endpoint opts = EP_builds \<Longrightarrow> accepts lib (Q_one_of BUILD_SORTS) (sort_by (url_sort opts sp))"
  "go_endpoint opts = EP_environment_requests \<Longrightarrow> accepts lib (Q_one_of REQUEST_SORTS) (sort_by
    (url_sort opts sp))"
  "go_endpoint opts = EP_contention_escalations \<Longrightarrow> accepts lib (Q_one_of ESCALATION_SORTS) (sort_by
    (url_sort opts sp))"
  "go_endpoint opts = EP_decommissions \<Longrightarrow> accepts lib (Q_one_of DECOMMISSION_SORTS) (sort_by
    (url_sort opts sp))"
  "go_endpoint opts = EP_pir_actions \<Longrightarrow> accepts lib (Q_one_of PIR_ACTION_SORTS) (sort_by (url_sort
    opts sp))"
  "go_endpoint opts = EP_go_no_go \<Longrightarrow> accepts lib (Q_one_of GO_NO_GO_SORTS) (sort_by (url_sort opts
    sp))"
  by (rule accepts_sort; simp add: RELEASE_SORTS_def BOOKING_SORTS_def ENVIRONMENT_SORTS_def
    CHANGE_REQUEST_SORTS_def SYSTEM_SORTS_def INFRASTRUCTURE_SORTS_def INCIDENT_SORTS_def DEPLOYMENT_SORTS_def
      BUILD_SORTS_def REQUEST_SORTS_def ESCALATION_SORTS_def DECOMMISSION_SORTS_def PIR_ACTION_SORTS_def
        GO_NO_GO_SORTS_def)+

lemma accepts_listed: "s \<in> set xs \<Longrightarrow> accepts lib (Q_one_of xs) s"
  by (simp add: accepts_def)

lemma accepts_dir: "accepts lib (Q_one_of [''asc'', ''desc'']) (show_dir d)"
  by (cases d) (simp_all add: accepts_def show_dir_def)

lemma accepts_bool: "reads_javascript lib \<Longrightarrow> accepts lib Q_bool (if b then ''true'' else ''false'')"
  by (cases b) (simp_all add: accepts_def reads_javascript_def)

lemmas accepts_true_false = accepts_bool [of _ True, simplified] accepts_bool [of _ False, simplified]

lemma accepts_zero: "reads_javascript lib \<Longrightarrow> accepts lib (Q_int (Some 0) None) (show_int 0)"
  by (simp add: accepts_def reads_javascript_def within_def)

lemma accepts_int: "reads_javascript lib \<Longrightarrow> accepts lib (Q_int None None) (show_int n)"
  by (simp add: accepts_def reads_javascript_def within_def)

lemma accepts_text: "accepts lib Q_text s"
  by (simp add: accepts_def)

lemma accepts_text_option: "(case x of None \<Rightarrow> True | Some s \<Rightarrow> accepts lib Q_text s) = True"
  by (simp add: accepts_text split: option.split)

lemmas window_accepted = accepts_text_option accepts_true_false accepts_limit accepts_offset accepts_dir
  accepts_text accepts_listed

lemma offset_back: "url_page sp * url_pageSize sp div url_pageSize sp * url_pageSize sp = url_page sp *
  url_pageSize sp"
  using url_pageSize_pos [of sp] by simp

lemmas page_unfold = page_request_def grid_page_def list_handler_def page_params_def sort_params_def api_defs
  param_url

lemmas page_services = releaseService_list_def bookingService_listBookings_def
  environmentService_listEnvironments_def
  changeRequestService_list_def systemService_listSystems_def infrastructureComponentService_listComponents_def
  incidentService_list_def deploymentService_list_def buildService_list_def
    environmentRequestService_listRequests_def
  contentionService_list_def decommissionService_listWorklist_def pirService_listActions_def goNoGoService_list_def
  build_toParams_def deployment_toParams_def

lemmas page_queries = ReleaseList_query_def BookingList_query_def EnvironmentRequestList_query_def
  EscalationWorklist_query_def DecommissionWorklist_query_def PirActionList_query_def GoNoGoTab_query_def
  ScopeWindowsTable_query_def queueParams_def EscalationWorklist_stateParam_def EscalationWorklist_ownerParam_def
  DecommissionWorklist_stateParam_def mineParam_def PirActionList_statusParam_def PirActionList_ownerParam_def
  overdueParam_def apiScopeWindow_def apiAgreementGap_def apiActive_def
  ReleaseList_apiProjectId_def

text \<open>The readers of the pages.\<close>

lemma accepts_tri_state: "reads_javascript lib \<Longrightarrow>
  (case wire_text (tri_state v) of None \<Rightarrow> True | Some s \<Rightarrow> accepts lib Q_bool s)"
  by (auto simp: tri_state_def accepts_def reads_javascript_def)

lemma accepts_protection: "case wire_text (apiProtection v) of None \<Rightarrow> True | Some s \<Rightarrow>
  accepts lib (Q_one_of [''soft'', ''hard'']) s"
  by (auto simp: apiProtection_def accepts_def)

lemma sent_as_one_of [sent]:
  "sent_as (one_of_param k' vs v @ q) k =
     (if k = k' then if sent_as (one_of_param k' vs v) k' = None then sent_as q k else sent_as (one_of_param k' vs
       v) k'
      else sent_as q k)"
  by (auto simp: one_of_param_def sent_as_def Let_def split: json.split)

lemma sent_as_one_of_alone [sent]: "k \<noteq> k' \<Longrightarrow> sent_as (one_of_param k' vs v) k = None"
  by (simp add: one_of_param_def sent_as_def split: json.split)

lemma no_fallback [sent]: "(if x = None then None else x) = x"
  by simp

lemma sent_as_owner [sent]:
  "sent_as (owner_param k' u v) k =
     (if k = k' \<and> v = J_str ''me'' then map_option show_int u else None)"
  "sent_as (owner_param k' u v @ q) k =
     (if k = k' \<and> v = J_str ''me'' \<and> u \<noteq> None then map_option show_int u else sent_as q k)"
  by (auto simp: owner_param_def sent_as_def split: option.split)

lemma accepts_one_of: "set vs \<subseteq> set xs \<Longrightarrow>
  (case sent_as (one_of_param k vs v) k of None \<Rightarrow> True | Some s \<Rightarrow> accepts lib (Q_one_of xs)
    s)"
  by (auto simp: one_of_param_def sent_as_def accepts_def split: json.splits if_splits)

lemma accepts_int_option: "reads_javascript lib \<Longrightarrow>
  (case u of None \<Rightarrow> True | Some n \<Rightarrow> (accepts lib (Q_int None None) \<circ> show_int) n)"
  by (simp add: accepts_int split: option.split)

lemma release_page_accepted:
  assumes lib: "reads_javascript lib"
  shows "takes lib sp k (grid_page ReleaseList_options ReleaseList_query releaseService_list handler_list_releases
    releaseColumns ReleaseList_controls [''release_kind'', ''system_id'', ''project_id'', ''open''])"
  by (rule takesI)
    (simp_all add: page_services page_queries sent url_text_simps page_unfold handler_defs page_options
      each_read_def
      window_accepted accepts_bool accepts_int lib sort_accepted
      accepts_tri_state accepts_protection accepts_int_option accepts_one_of accepts_zero
        DECOMMISSION_STATE_LABELS_def)

lemma booking_page_accepted:
  assumes lib: "reads_javascript lib"
  shows "takes lib sp k (grid_page BookingList_options BookingList_query bookingService_listBookings
    handler_list_bookings bookingColumns BookingList_controls [''project_id'', ''start'', ''end''])"
  by (rule takesI)
    (simp_all add: page_services page_queries sent url_text_simps page_unfold handler_defs page_options
      each_read_def
      window_accepted accepts_bool accepts_int lib sort_accepted
      accepts_tri_state accepts_protection accepts_int_option accepts_one_of accepts_zero
        DECOMMISSION_STATE_LABELS_def)

lemma environment_page_accepted:
  assumes lib: "reads_javascript lib"
  shows "takes lib sp k (grid_page EnvironmentList_options all_params environmentService_listEnvironments
    handler_list_environments environmentColumns EnvironmentList_controls [''status'', ''tier_id'',
      ''governance_gap'', ''compliance_gap'', ''quarantined'', ''owner_user_id'', ''expiring_within_days'',
        ''operations_group_id'', ''idle''])"
  by (rule takesI)
    (simp_all add: page_services page_queries sent url_text_simps page_unfold handler_defs page_options
      each_read_def
      window_accepted accepts_bool accepts_int lib sort_accepted
      accepts_tri_state accepts_protection accepts_int_option accepts_one_of accepts_zero
        DECOMMISSION_STATE_LABELS_def)

lemma change_request_page_accepted:
  assumes lib: "reads_javascript lib"
  shows "takes lib sp k (grid_page ChangeRequestList_options all_params changeRequestService_list
    handler_list_change_requests changeRequestColumns ChangeRequestList_controls [''environment_id'', ''host_id''])"
  by (rule takesI)
    (simp_all add: page_services page_queries sent url_text_simps page_unfold handler_defs page_options
      each_read_def
      window_accepted accepts_bool accepts_int lib sort_accepted
      accepts_tri_state accepts_protection accepts_int_option accepts_one_of accepts_zero
        DECOMMISSION_STATE_LABELS_def)

lemma system_page_accepted:
  assumes lib: "reads_javascript lib"
  shows "takes lib sp k (grid_page SystemCatalog_options all_params systemService_listSystems handler_list_systems
    (\<lambda>rd. systemColumns) [] [])"
  by (rule takesI)
    (simp_all add: page_services page_queries sent url_text_simps page_unfold handler_defs page_options
      each_read_def
      window_accepted accepts_bool accepts_int lib sort_accepted
      accepts_tri_state accepts_protection accepts_int_option accepts_one_of accepts_zero
        DECOMMISSION_STATE_LABELS_def)

lemma component_page_accepted:
  assumes lib: "reads_javascript lib"
  shows "takes lib sp k (grid_page InfrastructureComponentList_options all_params
    infrastructureComponentService_listComponents handler_list_components (\<lambda>rd. infraComponentColumns)
      InfrastructureComponentList_controls [''component_type''])"
  by (rule takesI)
    (simp_all add: page_services page_queries sent url_text_simps page_unfold handler_defs page_options
      each_read_def
      window_accepted accepts_bool accepts_int lib sort_accepted
      accepts_tri_state accepts_protection accepts_int_option accepts_one_of accepts_zero
        DECOMMISSION_STATE_LABELS_def)

lemma incident_page_accepted:
  assumes lib: "reads_javascript lib"
  shows "takes lib sp k (grid_page IncidentList_options all_params incidentService_list handler_list_incidents
    incidentColumns IncidentList_controls [''system_id'', ''open''])"
  by (rule takesI)
    (simp_all add: page_services page_queries sent url_text_simps page_unfold handler_defs page_options
      each_read_def
      window_accepted accepts_bool accepts_int lib sort_accepted
      accepts_tri_state accepts_protection accepts_int_option accepts_one_of accepts_zero
        DECOMMISSION_STATE_LABELS_def)

lemma deployment_page_accepted:
  assumes lib: "reads_javascript lib"
  shows "takes lib sp k (grid_page DeploymentList_options all_params deploymentService_list
    handler_list_deployments (\<lambda>rd. deploymentColumns) DeploymentList_controls [])"
  by (rule takesI)
    (simp_all add: page_services page_queries sent url_text_simps page_unfold handler_defs page_options
      each_read_def
      window_accepted accepts_bool accepts_int lib sort_accepted
      accepts_tri_state accepts_protection accepts_int_option accepts_one_of accepts_zero
        DECOMMISSION_STATE_LABELS_def)

lemma build_page_accepted:
  assumes lib: "reads_javascript lib"
  shows "takes lib sp k (grid_page BuildList_options all_params buildService_list handler_list_builds (\<lambda>rd.
    buildColumns) [] [''date_from'', ''date_to''])"
  by (rule takesI)
    (simp_all add: page_services page_queries sent url_text_simps page_unfold handler_defs page_options
      each_read_def
      window_accepted accepts_bool accepts_int lib sort_accepted
      accepts_tri_state accepts_protection accepts_int_option accepts_one_of accepts_zero
        DECOMMISSION_STATE_LABELS_def)

lemma environment_request_page_accepted:
  assumes lib: "reads_javascript lib"
  shows "takes lib sp k (grid_page EnvironmentRequestList_options EnvironmentRequestList_query
    environmentRequestService_listRequests handler_list_environment_requests environmentRequestColumns [(''queue'',
      QUEUE_FILTERS)] [])"
  by (rule takesI)
    (simp_all add: page_services page_queries sent url_text_simps page_unfold handler_defs page_options
      each_read_def
      window_accepted accepts_bool accepts_int lib sort_accepted
      accepts_tri_state accepts_protection accepts_int_option accepts_one_of accepts_zero
        DECOMMISSION_STATE_LABELS_def)

lemma escalation_page_accepted:
  assumes lib: "reads_javascript lib"
  shows "takes lib sp k (grid_page EscalationWorklist_options (EscalationWorklist_query user)
    contentionService_list handler_list_contention_escalations (\<lambda>rd. EscalationWorklist_columns rd who)
      [(''escalation_state'', ESCALATION_STATE_FILTERS)] [])"
  by (rule takesI)
    (simp_all add: page_services page_queries sent url_text_simps page_unfold handler_defs page_options
      each_read_def
      window_accepted accepts_bool accepts_int lib sort_accepted
      accepts_tri_state accepts_protection accepts_int_option accepts_one_of accepts_zero
        DECOMMISSION_STATE_LABELS_def)

lemma decommission_page_accepted:
  assumes lib: "reads_javascript lib"
  shows "takes lib sp k (grid_page DecommissionWorklist_options DecommissionWorklist_query
    decommissionService_listWorklist handler_list_decommission_worklist DecommissionWorklist_columns [(''state'',
      DECOMMISSION_STATE_FILTERS), (''mine'', [[], ''true''])] [])"
  by (rule takesI)
    (simp_all add: page_services page_queries sent url_text_simps page_unfold handler_defs page_options
      each_read_def
      window_accepted accepts_bool accepts_int lib sort_accepted
      accepts_tri_state accepts_protection accepts_int_option accepts_one_of accepts_zero
        DECOMMISSION_STATE_LABELS_def)

lemma pir_action_page_accepted:
  assumes lib: "reads_javascript lib"
  shows "takes lib sp k (grid_page PirActionList_options (PirActionList_query user) pirService_listActions
    handler_list_pir_actions PirActionList_columns [(''status'', [''any'', ''open'', ''in_progress'', ''done'',
      ''cancelled'']), (''overdue'', [''any'', ''true'', ''false''])] [])"
  by (rule takesI)
    (simp_all add: page_services page_queries sent url_text_simps page_unfold handler_defs page_options
      each_read_def
      window_accepted accepts_bool accepts_int lib sort_accepted
      accepts_tri_state accepts_protection accepts_int_option accepts_one_of accepts_zero
        DECOMMISSION_STATE_LABELS_def)

lemma go_no_go_page_accepted:
  assumes lib: "reads_javascript lib"
  shows "takes lib sp k (grid_page GoNoGoTab_options GoNoGoTab_query (goNoGoService_list rel)
    handler_list_go_no_go_decisions goNoGoColumns [] [])"
  by (rule takesI)
    (simp_all add: page_services page_queries sent url_text_simps page_unfold handler_defs page_options
      each_read_def
      window_accepted accepts_bool accepts_int lib sort_accepted
      accepts_tri_state accepts_protection accepts_int_option accepts_one_of accepts_zero
        DECOMMISSION_STATE_LABELS_def)

lemma scope_window_page_accepted:
  assumes lib: "reads_javascript lib"
  shows "takes lib sp k (grid_page ScopeWindowsTable_options (ScopeWindowsTable_query sys) releaseService_list
    handler_list_releases scopeWindowColumns [(''scope_window'', [''actionable'', ''any'']), (''release_kind'',
      [''project'', ''enterprise'', ''all''])] [''release_kind'', ''system_id''])"
  by (rule takesI; cases sys)
    (simp_all add: page_services page_queries sent url_text_simps page_unfold handler_defs page_options
      each_read_def
      window_accepted accepts_bool accepts_int lib sort_accepted
      accepts_tri_state accepts_protection accepts_int_option accepts_one_of accepts_zero
        DECOMMISSION_STATE_LABELS_def)

lemmas pages_accepted = release_page_accepted booking_page_accepted environment_page_accepted
  change_request_page_accepted system_page_accepted component_page_accepted incident_page_accepted
    deployment_page_accepted build_page_accepted environment_request_page_accepted escalation_page_accepted
      decommission_page_accepted pir_action_page_accepted go_no_go_page_accepted scope_window_page_accepted

text \<open>A reader of decimal integers and of \<open>true\<close> and \<open>false\<close>.\<close>

definition decimal_readers :: readers where
  "decimal_readers =
     \<lparr>read_int = (\<lambda>s. if take 1 s = ''-'' then map_option uminus (js_Number (drop 1 s)) else
       js_Number s),
      read_bool = (\<lambda>s. if s = ''true'' then Some True else if s = ''false'' then Some False else None),
      read_datetime = (\<lambda>s. 10 \<le> length s)\<rparr>"

lemma show_nat_no_sign: "take 1 (show_nat n) \<noteq> ''-''"
proof
  assume "take 1 (show_nat n) = ''-''"
  then have "CHR ''-'' \<in> set (show_nat n)" by (metis in_set_takeD list.set_intros(1))
  with show_nat_digits show "False" by (fastforce simp: is_digit_def)
qed

lemma decimal_readers_read: "reads_javascript decimal_readers"
  using show_nat_no_sign by (auto simp: reads_javascript_def decimal_readers_def show_int_def js_Number_show_nat)

text \<open>
  C17: whatever the URL says, every parameter that a grid page sends is one its handler declares, and the handler
    accepts
  it: the window, the sort field and direction, and each filter that the page reads before passing it on. Only the
    filters
  listed with the page are passed on as the URL has them.
\<close>

theorem grid_requests_accepted:
  assumes "reads_javascript lib"
  shows "list_all (takes lib sp k) (grid_pages user who rel sys)"
  by (simp only: grid_pages_def list.pred_inject pages_accepted [OF assms] simp_thms)

theorem grid_requests_accepted_witness:
  "reads_javascript decimal_readers \<and>
   list_all (takes decimal_readers (usp_parse ''page=2&status=draft'') ''status'') (grid_pages (Some 7) None 3
     (Some 4))"
  by (intro conjI decimal_readers_read grid_requests_accepted)

subsection \<open>The two tables of sort fields\<close>

lemmas page_columns = releaseColumns_def scopeWindowColumns_def bookingColumns_def environmentColumns_def
  changeRequestColumns_def systemColumns_def infraComponentColumns_def incidentColumns_def deploymentColumns_def
    buildColumns_def environmentRequestColumns_def EscalationWorklist_columns_def DecommissionWorklist_columns_def
      PirActionList_columns_def goNoGoColumns_def over_rows_def

definition sorts_agree :: "reader \<Rightarrow> grid_page \<Rightarrow> bool" where
  "sorts_agree rd pg =
     (let wl = whitelistFor (go_endpoint (gp_options pg)); h = gp_handler pg; cols = gp_columns pg rd in
      set (sortable wl) = set (lh_sorts h) \<and> default_field wl = lh_default h \<and>
      show_dir (default_dir wl) = lh_default_dir h \<and> distinct (map col_field cols) \<and>
      list_all (\<lambda>c. if col_sortable c then col_field c \<in> set (lh_sorts h) else True) cols)"


subsection \<open>What a filter control changes\<close>

definition asked :: "grid_page \<Rightarrow> params \<Rightarrow> string option list" where
  "asked pg sp = map (\<lambda>kt. sent_as (rq_query (page_request pg sp)) (fst kt)) (lh_params (gp_handler pg))"

definition choices_differ :: "grid \<Rightarrow> grid_page \<Rightarrow> bool" where
  "choices_differ g pg =
     list_all (\<lambda>(k, vs). distinct (map (\<lambda>v. asked pg (usp_parse (loc (setFilter (gp_options pg) k v
       g)))) vs))
       (gp_controls pg)"

lemma usp_get_chosen:
  "k \<notin> set (go_debounceKeys opts) \<Longrightarrow> usp_get (usp_parse (loc (setFilter opts k v g))) k' =
     (if k' = ''page'' then None else if k' = k then Some v else usp_get (sp_ref g) k')"
  by (simp add: setFilter_def usp_get_after_patch)

lemma url_text_chosen:
  "k \<notin> set (go_debounceKeys opts) \<Longrightarrow> k \<in> set (go_filterKeys opts) \<Longrightarrow>
   k \<notin> {''limit'', ''offset'', ''sort_by'', ''sort_dir'', ''page''} \<Longrightarrow>
   url_text opts (usp_parse (loc (setFilter opts k v g))) k =
     (if v \<noteq> [] \<and> v \<noteq> ''all'' then J_str v else J_undefined)"
  by (simp add: url_text_def usp_get_chosen)

lemma sent_as_one_of_known [sent]:
  "sent_as (one_of_param k vs (J_str s)) k = (if s \<in> set vs then Some s else None)"
  "sent_as (one_of_param k vs J_undefined) k = None"
  by (simp_all add: one_of_param_def sent_as_def)

definition seen_in :: "string \<Rightarrow> string list" where
  "seen_in k = (if k = ''queue'' then [''mine'', ''actionable''] else if k = ''escalation_state'' then [''state'']
    else [k])"

lemma distinct_refined: "distinct (map f xs) \<Longrightarrow> (\<And>x y. g x = g y \<Longrightarrow> f x = f y)
  \<Longrightarrow> distinct (map g xs)"
  unfolding distinct_map inj_on_def by blast

lemma asked_sent:
  assumes "asked pg sp = asked pg sp'" "set ps \<subseteq> fst ` set (lh_params (gp_handler pg))"
  shows "map (sent_as (rq_query (page_request pg sp))) ps = map (sent_as (rq_query (page_request pg sp'))) ps"
proof (rule map_cong [OF refl])
  fix p
  assume "p \<in> set ps"
  with assms(2) obtain t where "(p, t) \<in> set (lh_params (gp_handler pg))" by auto
  with assms(1) show "sent_as (rq_query (page_request pg sp)) p = sent_as (rq_query (page_request pg sp')) p"
    by (auto simp: asked_def)
qed

lemma choices_differI:
  assumes "list_all (\<lambda>(k, vs). list_all (\<lambda>p. p \<in> fst ` set (lh_params (gp_handler pg)))
    (seen_in k) \<and>
    distinct (map (\<lambda>v. map (sent_as (rq_query (page_request pg (usp_parse (loc (setFilter (gp_options pg) k
      v g)))))) (seen_in k)) vs))
    (gp_controls pg)"
  shows "choices_differ g pg"
  unfolding choices_differ_def
proof (rule list.pred_mono_strong [OF assms], clarify)
  fix k vs
  assume "list_all (\<lambda>p. p \<in> fst ` set (lh_params (gp_handler pg))) (seen_in k)"
  then have sub: "set (seen_in k) \<subseteq> fst ` set (lh_params (gp_handler pg))" by (auto simp: list_all_iff)
  assume "distinct (map (\<lambda>v. map (sent_as (rq_query (page_request pg (usp_parse (loc (setFilter (gp_options
    pg) k v g)))))) (seen_in k)) vs)"
  then show "distinct (map (\<lambda>v. asked pg (usp_parse (loc (setFilter (gp_options pg) k v g)))) vs)"
    by (rule distinct_refined) (rule asked_sent [OF _ sub])
qed

lemmas control_defs = ReleaseList_controls_def BookingList_controls_def EnvironmentList_controls_def
  ChangeRequestList_controls_def InfrastructureComponentList_controls_def IncidentList_controls_def
    DeploymentList_controls_def BOOKING_STATUS_OPTIONS_def GAP_FILTER_OPTIONS_def PROTECTION_FILTER_OPTIONS_def
      PROTECTION_LABELS_def RELEASE_TYPES_def SEVERITIES_def DEPLOYMENT_STATUS_OPTIONS_def STATUS_FILTERS_def
        EXPIRY_WINDOW_FILTERS_def IDLE_FILTERS_def COMPONENT_TYPE_OPTIONS_def QUEUE_FILTERS_def
          ESCALATION_STATE_FILTERS_def DECOMMISSION_STATE_FILTERS_def apiProtection_def tri_state_def
            DECOMMISSION_STATE_LABELS_def

lemma release_choices_differ: "choices_differ g (grid_page ReleaseList_options ReleaseList_query
  releaseService_list handler_list_releases releaseColumns ReleaseList_controls [''release_kind'', ''system_id'',
    ''project_id'', ''open''])"
  by (rule choices_differI)
    (simp_all add: page_services page_queries sent url_text_chosen url_text_simps page_unfold handler_defs
      page_options control_defs seen_in_def)

lemma booking_choices_differ: "choices_differ g (grid_page BookingList_options BookingList_query
  bookingService_listBookings handler_list_bookings bookingColumns BookingList_controls [''project_id'', ''start'',
    ''end''])"
  by (rule choices_differI)
    (simp_all add: page_services page_queries sent url_text_chosen url_text_simps page_unfold handler_defs
      page_options control_defs seen_in_def)

lemma environment_choices_differ: "choices_differ g (grid_page EnvironmentList_options all_params
  environmentService_listEnvironments handler_list_environments environmentColumns EnvironmentList_controls
    [''status'', ''tier_id'', ''governance_gap'', ''compliance_gap'', ''quarantined'', ''owner_user_id'',
      ''expiring_within_days'', ''operations_group_id'', ''idle''])"
  by (rule choices_differI)
    (simp_all add: page_services page_queries sent url_text_chosen url_text_simps page_unfold handler_defs
      page_options control_defs seen_in_def)

lemma change_request_choices_differ: "choices_differ g (grid_page ChangeRequestList_options all_params
  changeRequestService_list handler_list_change_requests changeRequestColumns ChangeRequestList_controls
    [''environment_id'', ''host_id''])"
  by (rule choices_differI)
    (simp_all add: page_services page_queries sent url_text_chosen url_text_simps page_unfold handler_defs
      page_options control_defs seen_in_def)

lemma system_choices_differ: "choices_differ g (grid_page SystemCatalog_options all_params
  systemService_listSystems handler_list_systems (\<lambda>rd. systemColumns) [] [])"
  by (rule choices_differI)
    (simp_all add: page_services page_queries sent url_text_chosen url_text_simps page_unfold handler_defs
      page_options control_defs seen_in_def)

lemma component_choices_differ: "choices_differ g (grid_page InfrastructureComponentList_options all_params
  infrastructureComponentService_listComponents handler_list_components (\<lambda>rd. infraComponentColumns)
    InfrastructureComponentList_controls [''component_type''])"
  by (rule choices_differI)
    (simp_all add: page_services page_queries sent url_text_chosen url_text_simps page_unfold handler_defs
      page_options control_defs seen_in_def)

lemma incident_choices_differ: "choices_differ g (grid_page IncidentList_options all_params incidentService_list
  handler_list_incidents incidentColumns IncidentList_controls [''system_id'', ''open''])"
  by (rule choices_differI)
    (simp_all add: page_services page_queries sent url_text_chosen url_text_simps page_unfold handler_defs
      page_options control_defs seen_in_def)

lemma deployment_choices_differ: "choices_differ g (grid_page DeploymentList_options all_params
  deploymentService_list handler_list_deployments (\<lambda>rd. deploymentColumns) DeploymentList_controls [])"
  by (rule choices_differI)
    (simp_all add: page_services page_queries sent url_text_chosen url_text_simps page_unfold handler_defs
      page_options control_defs seen_in_def)

lemma build_choices_differ: "choices_differ g (grid_page BuildList_options all_params buildService_list
  handler_list_builds (\<lambda>rd. buildColumns) [] [''date_from'', ''date_to''])"
  by (rule choices_differI)
    (simp_all add: page_services page_queries sent url_text_chosen url_text_simps page_unfold handler_defs
      page_options control_defs seen_in_def)

lemma environment_request_choices_differ: "choices_differ g (grid_page EnvironmentRequestList_options
  EnvironmentRequestList_query environmentRequestService_listRequests handler_list_environment_requests
    environmentRequestColumns [(''queue'', QUEUE_FILTERS)] [])"
  by (rule choices_differI)
    (simp_all add: page_services page_queries sent url_text_chosen url_text_simps page_unfold handler_defs
      page_options control_defs seen_in_def)

lemma escalation_choices_differ: "choices_differ g (grid_page EscalationWorklist_options (EscalationWorklist_query
  user) contentionService_list handler_list_contention_escalations (\<lambda>rd. EscalationWorklist_columns rd who)
    [(''escalation_state'', ESCALATION_STATE_FILTERS)] [])"
  by (rule choices_differI)
    (simp_all add: page_services page_queries sent url_text_chosen url_text_simps page_unfold handler_defs
      page_options control_defs seen_in_def)

lemma decommission_choices_differ: "choices_differ g (grid_page DecommissionWorklist_options
  DecommissionWorklist_query decommissionService_listWorklist handler_list_decommission_worklist
    DecommissionWorklist_columns [(''state'', DECOMMISSION_STATE_FILTERS), (''mine'', [[], ''true''])] [])"
  by (rule choices_differI)
    (simp_all add: page_services page_queries sent url_text_chosen url_text_simps page_unfold handler_defs
      page_options control_defs seen_in_def)

lemma pir_action_choices_differ: "choices_differ g (grid_page PirActionList_options (PirActionList_query user)
  pirService_listActions handler_list_pir_actions PirActionList_columns [(''status'', [''any'', ''open'',
    ''in_progress'', ''done'', ''cancelled'']), (''overdue'', [''any'', ''true'', ''false''])] [])"
  by (rule choices_differI)
    (simp_all add: page_services page_queries sent url_text_chosen url_text_simps page_unfold handler_defs
      page_options control_defs seen_in_def)

lemma go_no_go_choices_differ: "choices_differ g (grid_page GoNoGoTab_options GoNoGoTab_query (goNoGoService_list
  rel) handler_list_go_no_go_decisions goNoGoColumns [] [])"
  by (rule choices_differI)
    (simp_all add: page_services page_queries sent url_text_chosen url_text_simps page_unfold handler_defs
      page_options control_defs seen_in_def)

lemma scope_window_choices_differ: "choices_differ g (grid_page ScopeWindowsTable_options (ScopeWindowsTable_query
  sys) releaseService_list handler_list_releases scopeWindowColumns [(''scope_window'', [''actionable'', ''any'']),
    (''release_kind'', [''project'', ''enterprise'', ''all''])] [''release_kind'', ''system_id''])"
  by (rule choices_differI; cases sys)
    (simp_all add: page_services page_queries sent url_text_chosen url_text_simps page_unfold handler_defs
      page_options control_defs seen_in_def)

lemmas pages_choices_differ = release_choices_differ booking_choices_differ environment_choices_differ
  change_request_choices_differ system_choices_differ component_choices_differ incident_choices_differ
    deployment_choices_differ build_choices_differ environment_request_choices_differ escalation_choices_differ
      decommission_choices_differ pir_action_choices_differ go_no_go_choices_differ scope_window_choices_differ

text \<open>
  Choosing an option of a filter of a grid page changes the question: in every state of the hook, two
  different options of one control make the handler see two different requests.
\<close>

theorem controls_change_the_request: "list_all (choices_differ g) (grid_pages user who rel sys)"
  by (simp only: grid_pages_def list.pred_inject pages_choices_differ simp_thms)

text \<open>
  The kind toggle of the scope windows table does not say what is asked: with no choice in the URL it shows
  "Project" as chosen, while the request carries no release kind and so asks for the same rows as "All" does; and
    the
  choice "All" is shown, too, so that the two states of one request look different.
\<close>

theorem scope_toggle_misstates_kind:
  "let pg = grid_page ScopeWindowsTable_options (ScopeWindowsTable_query None) releaseService_list
    handler_list_releases
         scopeWindowColumns [] [];
       g = mount []; all = usp_parse (loc (setFilter ScopeWindowsTable_options ''release_kind'' ''all'' g));
       project = usp_parse (loc (setFilter ScopeWindowsTable_options ''release_kind'' ''project'' g))
   in kindFilter (url_filters ScopeWindowsTable_options []) = ''project'' \<and>
      kindFilter (url_filters ScopeWindowsTable_options all) = ''all'' \<and>
      asked pg [] = asked pg all \<and> asked pg [] \<noteq> asked pg project"
  by code_simp

end
