(* ===== verification/GridSession.thy ===== *)
theory GridSession
  imports GridPageFacts ReleaseSlice
begin

text \<open>
  A grid page and its slice together: the hook fetches and clamps in the effects of one render, with the total and
    the
  loading flag that the slice had when that render began.
\<close>

lemma requests_commit:
  "requests (commit opts t p g) =
     (let new = (url_params opts (usp_parse (loc g)), nonce g) in
      if fetched g = Some new then requests g else abort_last (requests g) @ [(fst new, False)])"
  by (simp add: commit_def Let_def fetch_effect_def)

lemma nonce_commit [simp]: "nonce (commit opts t p g) = nonce g"
  by (simp add: commit_def Let_def)

lemma url_params_page:
  assumes "url_page sp \<noteq> url_page sp'" "url_pageSize sp = url_pageSize sp'"
  shows "url_params opts sp \<noteq> url_params opts sp'"
proof
  assume "url_params opts sp = url_params opts sp'"
  then have "param (url_params opts sp) ''offset'' = param (url_params opts sp') ''offset''" by simp
  then show "False" using assms url_pageSize_pos [of sp'] by (simp add: param_url url_text_simps)
qed

lemma loc_commit_pending: "loc (commit opts t True g) = loc g"
  by (simp add: commit_loc_cases Let_def split: option.split)

text \<open>
  A deep link loses its page to a stale total. The release list is opened at a page while the slice still
    holds the smaller
  total of an earlier, filtered visit and nothing is loading: the first render asks for the page and, in the same
    round of
  effects, clamps the URL to the last page of the stale total, because the loading flag that should hold the clamp
    back is set by that very
  request and read a render later. The request for the wanted page is aborted, the one for the stale last page
    stands, and it stays so when
  the server's total arrives, although the wanted page exists under it.
\<close>

theorem deep_link_lost_to_stale_total:
  assumes "0 < rs_total st" "rs_total st \<le> MAX_SAFE_INTEGER" "\<not> rs_listLoading st"
    and "last_page (rs_total st) (url_pageSize (usp_parse q)) < url_page (usp_parse q)"
    and "url_page (usp_parse q) \<le> last_page T (url_pageSize (usp_parse q))"
  shows "let opts = ReleaseList_options; sp = usp_parse q; st' = releases_pending st;
    st'' = releases_fulfilled \<lparr>pg_rows = rows, pg_total = T\<rparr> st';
             g = commit opts (Some (rs_total st)) (rs_listLoading st) (mount q);
             g' = commit opts (Some (rs_total st')) (rs_listLoading st') g;
             g'' = commit opts (Some (rs_total st'')) (rs_listLoading st'') g'; sp'' = usp_parse (loc g'')
         in requests g'' = [(url_params opts sp, True), (url_params opts sp'', False)] \<and>
            url_page sp'' = last_page (rs_total st) (url_pageSize sp) \<and> url_page sp'' < url_page sp"
proof -
  let ?o = ReleaseList_options
  let ?sp = "usp_parse q"
  let ?n = "last_page (rs_total st) (url_pageSize ?sp)"
  let ?sp' = "usp_set ''page'' (show_int ?n) ?sp"
  let ?g = "commit ?o (Some (rs_total st)) False (mount q)"
  let ?g' = "commit ?o (Some (rs_total st)) True ?g"
  note b = last_page_bounds [OF assms(1) url_pageSize_pos [of ?sp]]
  have m: "loc (mount q) = q" "clamped (mount q) = None" "fetched (mount q) = None" "requests (mount q) = []"
    "nonce (mount q) = 0"
    by (simp_all add: mount_def)
  have l: "loc ?g = usp_toString ?sp'"
    using assms by (simp add: commit_loc_cases Let_def m)
  have page: "url_page ?sp' = ?n" using b assms(2) by (intro url_page_set_page) simp_all
  have neq: "url_params ?o ?sp \<noteq> url_params ?o ?sp'"
    using assms(4) by (intro url_params_page) (simp_all add: page)
  have r: "requests ?g = [(url_params ?o ?sp, False)]" by (simp add: requests_commit m)
  have r': "requests ?g' = [(url_params ?o ?sp, True), (url_params ?o ?sp', False)]"
    using neq by (simp add: requests_commit r l usp_parse_toString fetched_commit m)
  have l': "loc ?g' = usp_toString ?sp'" by (simp add: loc_commit_pending l)
  have c: "loc (commit ?o (Some T) False ?g') = usp_toString ?sp'"
    using assms(4,5) by (simp add: commit_loc_cases [of _ _ _ ?g'] Let_def l' usp_parse_toString page)
  have "requests (commit ?o (Some T) False ?g') = requests ?g'"
    by (simp add: requests_commit [of _ _ _ ?g'] Let_def fetched_commit l l' usp_parse_toString)
  then show ?thesis
    using assms(3,4) by (simp add: Let_def releases_pending_def releases_fulfilled_def r' c usp_parse_toString page)
qed

theorem deep_link_lost_to_stale_total_witness:
  "let st = release_initial\<lparr>rs_total := 30\<rparr>; opts = ReleaseList_options; sp = usp_parse ''page=8'';
    st' = releases_pending st;
       st'' = releases_fulfilled \<lparr>pg_rows = [], pg_total = 400\<rparr> st';
       g = commit opts (Some (rs_total st)) (rs_listLoading st) (mount ''page=8'');
       g' = commit opts (Some (rs_total st')) (rs_listLoading st') g;
       g'' = commit opts (Some (rs_total st'')) (rs_listLoading st'') g'; sp'' = usp_parse (loc g'')
   in requests g'' = [(url_params opts sp, True), (url_params opts sp'', False)] \<and>
      url_page sp'' = last_page (rs_total st) (url_pageSize sp) \<and> url_page sp'' < url_page sp"
proof -
  have "url_page (usp_parse ''page=8'') = 8" "url_pageSize (usp_parse ''page=8'') = 25"
    "last_page 30 25 = 1" "last_page 400 25 = 15"
    by code_simp+
  then show ?thesis
    unfolding Let_def
    by (intro deep_link_lost_to_stale_total [unfolded Let_def]) (simp_all add: release_initial_def
      MAX_SAFE_INTEGER_def)
qed

end
