(* ===== verification/Worklists.thy ===== *)
theory Worklists
  imports GridPageFacts SliceFacts NavConfig
begin

text \<open>
  The pages that keep their rows in the component: the PIR actions, the contention escalations and the scope windows
  table. The state of such a page is its page of rows with the number of its newest request; the first two drop the
  answer to a superseded request, the third has no such guard. Then the dialog in which an owner records a
    decision, and
  what a page does when the signed-in user arrives after its first request.
\<close>

subsection \<open>Rows kept by the component\<close>

record local_page =
  lp_rows :: "json list"
  lp_total :: int
  lp_loading :: bool
  lp_error :: "string option"
  lp_generation :: "nat option"

definition local_page :: "bool \<Rightarrow> local_page" where
  "local_page loading = \<lparr>lp_rows = [], lp_total = 0, lp_loading = loading, lp_error = None, lp_generation =
    None\<rparr>"

text \<open>The handlers behind \<open>onFetch\<close>: a request, its rows with their total, its failure with the
  text that
  \<open>formatApiError\<close> made of the error.\<close>

definition guarded_page :: "string \<Rightarrow> nat \<Rightarrow> (json list \<times> int) lifecycle \<Rightarrow>
  local_page \<Rightarrow> local_page" where
  "guarded_page fallback myGeneration = on_cases
     (\<lambda>s. s\<lparr>lp_generation := Some myGeneration, lp_loading := True\<rparr>)
     (\<lambda>p s. if lp_generation s \<noteq> Some myGeneration then s
            else s\<lparr>lp_rows := fst p, lp_total := snd p, lp_error := None, lp_loading := False\<rparr>)
     (\<lambda>r s. if lp_generation s \<noteq> Some myGeneration then s
            else s\<lparr>lp_rows := [], lp_total := 0, lp_error := Some (nullish (rj_payload r) fallback),
              lp_loading := False\<rparr>)"

definition PirActionList_fetch :: "nat \<Rightarrow> (json list \<times> int) lifecycle \<Rightarrow> local_page
  \<Rightarrow> local_page" where
  "PirActionList_fetch = guarded_page ''Failed to load PIR actions''"

definition EscalationWorklist_fetch :: "nat \<Rightarrow> (json list \<times> int) lifecycle \<Rightarrow>
  local_page \<Rightarrow> local_page" where
  "EscalationWorklist_fetch = guarded_page ''Failed to load escalations''"

definition ScopeWindowsTable_fetch :: "nat \<Rightarrow> (json list \<times> int) lifecycle \<Rightarrow>
  local_page \<Rightarrow> local_page" where
  "ScopeWindowsTable_fetch n = on_cases
     (\<lambda>s. s\<lparr>lp_loading := True\<rparr>)
     (\<lambda>p s. s\<lparr>lp_rows := fst p, lp_total := snd p, lp_loading := False\<rparr>)
     (\<lambda>r s. s\<lparr>lp_rows := [], lp_total := 0, lp_loading := False\<rparr>)"

lemmas fetch_defs = PirActionList_fetch_def EscalationWorklist_fetch_def guarded_page_def

interpretation pir_page: latest_query PirActionList_fetch lp_generation
  by unfold_locales (simp_all add: fetch_defs)

interpretation escalation_page: latest_query EscalationWorklist_fetch lp_generation
  by unfold_locales (simp_all add: fetch_defs)

lemma keyed_run_simps: "keyed_run f [] s = s" "keyed_run f (e # es) s = keyed_run f es (keyed_step f e s)"
  by (simp_all add: keyed_run_def)

lemma guarded_page_simps:
  "lp_generation (guarded_page fb n l s) = (if l = Pending then Some n else lp_generation s)"
  "lp_loading (guarded_page fb n Pending s)"
  "lp_loading (guarded_page fb n (Fulfilled p) s) \<longleftrightarrow> lp_loading s \<and> lp_generation s
    \<noteq> Some n"
  "lp_loading (guarded_page fb n (Rejected r) s) \<longleftrightarrow> lp_loading s \<and> lp_generation s \<noteq>
    Some n"
  by (simp_all add: guarded_page_def on_cases_def split: lifecycle.split)

lemma guarded_settled:
  "list_all (\<lambda>e. \<not> is_sent e) es \<Longrightarrow> \<not> lp_loading s \<Longrightarrow> \<not>
    lp_loading (keyed_run (guarded_page fb) es s)"
proof (induction es arbitrary: s)
  case (Cons e es)
  then show ?case by (cases e) (simp_all add: keyed_run_simps guarded_page_simps)
qed (simp add: keyed_run_simps)

lemma guarded_until_answered:
  "list_all (\<lambda>e. \<not> is_sent e) es \<Longrightarrow> lp_generation s = Some n \<Longrightarrow>
    lp_loading s \<Longrightarrow>
   lp_loading (keyed_run (guarded_page fb) es s) \<longleftrightarrow> list_all (\<lambda>e. event_key e \<noteq>
     n) es"
proof (induction es arbitrary: s)
  case (Cons e es)
  then show ?case
    by (cases e; cases "event_key e = n") (simp_all add: keyed_run_simps guarded_page_simps guarded_settled)
qed (simp add: keyed_run_simps)

lemma guarded_loading:
  assumes "list_all (\<lambda>e. \<not> is_sent e) post"
  shows "lp_loading (keyed_run (guarded_page fb) (pre @ Sent n # post) s) = list_all (\<lambda>e. event_key e
    \<noteq> n) post"
proof -
  let ?s = "guarded_page fb n Pending (keyed_run (guarded_page fb) pre s)"
  have "lp_loading (keyed_run (guarded_page fb) post ?s) = list_all (\<lambda>e. event_key e \<noteq> n) post"
    using assms by (rule guarded_until_answered) (simp_all add: guarded_page_def)
  then show ?thesis by (simp add: keyed_run_def)
qed

text \<open>
  The worklists of PIR actions and of escalations show the answer to the request that was sent last, in
    whatever
  order the answers arrive, and the spinner is on exactly until that answer.
\<close>

theorem worklists_show_newest:
  assumes "list_all (\<lambda>e. \<not> is_sent e) post" and "list_all (\<lambda>e. \<not> is_sent e) post'"
  shows "keyed_run PirActionList_fetch (pre @ Sent n # post) s =
           keyed_run PirActionList_fetch (Sent n # filter (\<lambda>e. event_key e = n) post) (keyed_run
             PirActionList_fetch pre s) \<and>
         keyed_run EscalationWorklist_fetch (pre' @ Sent n' # post') s' =
           keyed_run EscalationWorklist_fetch (Sent n' # filter (\<lambda>e. event_key e = n') post')
             (keyed_run EscalationWorklist_fetch pre' s') \<and>
         lp_loading (keyed_run PirActionList_fetch (pre @ Sent n # post) s) = list_all (\<lambda>e. event_key e
           \<noteq> n) post \<and>
         lp_loading (keyed_run EscalationWorklist_fetch (pre' @ Sent n' # post') s') =
           list_all (\<lambda>e. event_key e \<noteq> n') post'"
  by (intro conjI pir_page.latest_wins [OF assms(1)] escalation_page.latest_wins [OF assms(2)])
     (simp_all only: PirActionList_fetch_def EscalationWorklist_fetch_def guarded_loading [OF assms(1)]
        guarded_loading [OF assms(2)])

theorem worklists_show_newest_witness:
  "let post = [Answered 2 ([J_int 5], 1), Answered (1::nat) ([J_int 3], 9)];
       pre = [Sent 1]; s = local_page True in
   keyed_run PirActionList_fetch (pre @ Sent 2 # post) s =
     keyed_run PirActionList_fetch (Sent 2 # filter (\<lambda>e. event_key e = 2) post) (keyed_run
       PirActionList_fetch pre s) \<and>
   keyed_run EscalationWorklist_fetch (pre @ Sent 2 # post) s =
     keyed_run EscalationWorklist_fetch (Sent 2 # filter (\<lambda>e. event_key e = 2) post)
       (keyed_run EscalationWorklist_fetch pre s) \<and>
   lp_loading (keyed_run PirActionList_fetch (pre @ Sent 2 # post) s) = list_all (\<lambda>e. event_key e \<noteq>
     2) post \<and>
   lp_loading (keyed_run EscalationWorklist_fetch (pre @ Sent 2 # post) s) = list_all (\<lambda>e. event_key e
     \<noteq> 2) post"
  unfolding Let_def by (rule worklists_show_newest) simp_all

text \<open>
  The scope windows table has no such guard: whatever was shown, when two requests overlap and the older one is
  answered last, the rows and the total of the older one stay on the screen, with the spinner off.
\<close>

theorem scope_table_keeps_stale_rows:
  "let s' = keyed_run ScopeWindowsTable_fetch [Sent 1, Sent 2, Answered 2 new, Answered 1 old] s
   in lp_rows s' = fst old \<and> lp_total s' = snd old \<and> \<not> lp_loading s'"
  by (simp add: keyed_run_def ScopeWindowsTable_fetch_def Let_def)

subsection \<open>The decision dialog\<close>

record decision_dialog =
  dd_target :: "json option"
  dd_yields :: "int option"
  dd_notes :: string
  dd_saving :: bool
  dd_error :: "string option"

definition decision_closed :: decision_dialog where
  "decision_closed = \<lparr>dd_target = None, dd_yields = None, dd_notes = [], dd_saving = False, dd_error =
    None\<rparr>"

definition openDecide :: "json \<Rightarrow> decision_dialog \<Rightarrow> decision_dialog" where
  "openDecide row s =
     s\<lparr>dd_target := Some row,
       dd_yields := (case row_key ''decision_yields_booking_id'' row of J_int n \<Rightarrow> Some n | _
         \<Rightarrow> None),
       dd_notes := text_key ''decision_notes'' row, dd_error := None\<rparr>"

text \<open>\<open>submitDecision\<close>: what it posts, and the state when the post settles;
  \<open>grid.refetch\<close> is the second component.\<close>

definition decide_body :: "decision_dialog \<Rightarrow> int \<Rightarrow> json" where
  "decide_body s y =
     J_obj [(''yields_booking_id'', J_int y),
            (''notes'', if js_trim (dd_notes s) = [] then J_null else J_str (js_trim (dd_notes s)))]"

definition submitDecision :: "decision_dialog \<Rightarrow> (call \<times> decision_dialog) option" where
  "submitDecision s =
     (case (dd_target s, dd_yields s) of
        (Some row, Some y) \<Rightarrow>
          Some (contentionService_decide (num_key ''id'' row) (decide_body s y), s\<lparr>dd_saving := True,
            dd_error := None\<rparr>)
      | _ \<Rightarrow> None)"

definition decision_settles :: "ApiError option \<Rightarrow> decision_dialog \<times> grid \<Rightarrow>
  decision_dialog \<times> grid" where
  "decision_settles err sg =
     (case err of
        None \<Rightarrow> ((fst sg)\<lparr>dd_target := None, dd_saving := False\<rparr>, refetch (snd sg))
      | Some e \<Rightarrow> ((fst sg)\<lparr>dd_error := Some (formatApiError e
        ''Failed to record this decision''), dd_saving := False\<rparr>,
                   snd sg))"

subsection \<open>A page that was opened before the user is known\<close>

text \<open>One render of such a page and its effects: the hook may ask \<open>onFetch\<close> for a page, which
  reads the user of
  that render.\<close>

definition render_page :: "grid_options \<Rightarrow> (int option \<Rightarrow> ServerGridParams \<Rightarrow>
  query) \<Rightarrow> int option \<times> int option \<times> bool \<Rightarrow>
    grid \<times> query list \<Rightarrow> grid \<times> query list" where
  "render_page opts q r gs =
     (let g' = commit opts (fst (snd r)) (snd (snd r)) (fst gs) in
      (g', if length (requests g') > length (requests (fst gs)) then snd gs @ [q (fst r) (fst (last (requests g')))]
           else snd gs))"

definition session_of :: "grid_options \<Rightarrow> (int option \<Rightarrow> ServerGridParams \<Rightarrow>
  query) \<Rightarrow> string \<Rightarrow>
    (int option \<times> int option \<times> bool) list \<Rightarrow> grid \<times> query list" where
  "session_of opts q url rs = fold (render_page opts q) rs (mount url, [])"

lemma commit_first_page:
  assumes "url_page (usp_parse (loc g)) = 0"
  shows "loc (commit opts t p g) = loc g" and "fetched (commit opts t p g) = Some (url_params opts (usp_parse (loc
    g)), nonce g)"
    and "nonce (commit opts t p g) = nonce g"
    and "requests (commit opts t p g) = (if fetched g = Some (url_params opts (usp_parse (loc g)), nonce g) then
      requests g
           else abort_last (requests g) @ [(url_params opts (usp_parse (loc g)), False)])"
proof -
  have "\<not> last_page t' ps < 0" for t' ps by (simp add: last_page_def)
  with assms show "loc (commit opts t p g) = loc g"
    by (auto simp: commit_loc_cases Let_def split: option.split)
qed (simp_all add: fetched_commit, simp_all add: commit_def Let_def fetch_effect_def)

lemma rerender_asks_nothing:
  assumes "url_page (usp_parse (loc g)) = 0" "fetched g = Some (url_params opts (usp_parse (loc g)), nonce g)"
  shows "snd (fold (render_page opts q) rs (g, sent)) = sent"
  using assms
proof (induction rs arbitrary: g)
  case (Cons r rs)
  let ?g = "commit opts (fst (snd r)) (snd (snd r)) g"
  have "render_page opts q r (g, sent) = (?g, sent)"
    using Cons.prems by (simp add: render_page_def Let_def commit_first_page)
  moreover have "snd (fold (render_page opts q) rs (?g, sent)) = sent"
    using Cons.prems by (intro Cons.IH) (simp_all add: commit_first_page)
  ultimately show ?case by simp
qed simp

lemma session_asks_once:
  assumes "url_page (usp_parse url) = 0"
  shows "snd (session_of opts q url (r # rs)) = [q (fst r) (url_params opts (usp_parse url))]"
proof -
  let ?g = "commit opts (fst (snd r)) (snd (snd r)) (mount url)"
  have "render_page opts q r (mount url, []) = (?g, [q (fst r) (url_params opts (usp_parse url))])"
    using assms by (simp add: render_page_def Let_def commit_first_page mount_def)
  moreover have "snd (fold (render_page opts q) rs (?g, s)) = s" for s
    using assms by (intro rerender_asks_nothing) (simp_all add: commit_first_page mount_def)
  ultimately show ?thesis by (simp add: session_of_def)
qed

text \<open>
  A reload forgets "mine". With a stored token the worklist is shown before the user is fetched; its first
    request is made
  without a user and so without the owner filter, and no later render, whoever has signed in by then, asks again:
    the one request of
  the page asks for everybody's rows, while its control shows "Mine". Opened with the user known, the same link
    asks for the
  user's own rows.
\<close>

theorem reload_forgets_mine:
  assumes "ls_token st = Some (c # cs)"
    and "router ''/pir-actions'' = Some ''/pir-actions''" "router ''/contentions'' = Some ''/contentions''"
  shows "open_url router (initialState st) ''/pir-actions?action_owner=me'' = NavConfig.visit.Shown
    ''PirActionList'' \<and>
    user (initialState st) = None \<and>
    map (\<lambda>q. sent_as q ''owner_id'')
      (snd (session_of PirActionList_options PirActionList_query ''action_owner=me'' ((None, t, p) # rs))) = [None]
        \<and>
    map (\<lambda>q. sent_as q ''owner_id'')
      (snd (session_of PirActionList_options PirActionList_query ''action_owner=me'' ((Some u, t, p) # rs))) =
      [Some (show_int u)] \<and>
    jm_get (url_filters PirActionList_options (usp_parse ''action_owner=me'')) ''action_owner'' = Some ''me'' \<and>
    open_url router (initialState st) ''/contentions?escalation_owner=me'' = NavConfig.visit.Shown
      ''ContentionEscalations'' \<and>
    map (\<lambda>q. sent_as q ''owner_user_id'')
      (snd (session_of EscalationWorklist_options EscalationWorklist_query ''escalation_owner=me'' ((None, t, p) #
        rs))) = [None] \<and>
    map (\<lambda>q. sent_as q ''owner_user_id'')
      (snd (session_of EscalationWorklist_options EscalationWorklist_query ''escalation_owner=me'' ((Some u, t, p)
        # rs))) =
      [Some (show_int u)]"
proof -
  have mine: "param (url_params PirActionList_options (usp_parse ''action_owner=me'')) ''action_owner'' = J_str
    ''me''"
    "param (url_params EscalationWorklist_options (usp_parse ''escalation_owner=me'')) ''escalation_owner'' = J_str
      ''me''"
    "jm_get (url_filters PirActionList_options (usp_parse ''action_owner=me'')) ''action_owner'' = Some ''me''"
    by code_simp+
  have parts: "fst (splitPathAndQuery ''/pir-actions?action_owner=me'') = ''/pir-actions''"
    "fst (splitPathAndQuery ''/contentions?escalation_owner=me'') = ''/contentions''"
    "find (\<lambda>r. ar_path r = ''/pir-actions'') (app_routes @ legacy_routes) =
       Some (app_route ''/pir-actions'' None (Shows ''PirActionList''))"
    "find (\<lambda>r. ar_path r = ''/contentions'') (app_routes @ legacy_routes) =
       Some (app_route ''/contentions'' None (Shows ''ContentionEscalations''))"
    "url_page (usp_parse ''action_owner=me'') = 0" "url_page (usp_parse ''escalation_owner=me'') = 0"
    by code_simp+
  show ?thesis
    using assms
    by (simp add: open_url_def parts visit_route_def app_route_def initialState_def session_asks_once
      PirActionList_query_def
        EscalationWorklist_query_def PirActionList_ownerParam_def EscalationWorklist_ownerParam_def mine sent
          page_queries
        wire_text_simps)
qed

theorem reload_forgets_mine_witness:
  "let st = \<lparr>ls_token = Some ''jwt'', ls_refresh = None, ls_impersonation = None\<rparr>; rs = [(Some 7,
    Some 40, False)] in
   open_url Some (initialState st) ''/pir-actions?action_owner=me'' = NavConfig.visit.Shown ''PirActionList'' \<and>
   user (initialState st) = None \<and>
   map (\<lambda>q. sent_as q ''owner_id'')
     (snd (session_of PirActionList_options PirActionList_query ''action_owner=me'' ((None, None, True) # rs))) =
       [None] \<and>
   map (\<lambda>q. sent_as q ''owner_id'')
     (snd (session_of PirActionList_options PirActionList_query ''action_owner=me'' ((Some 7, None, True) # rs))) =
     [Some (show_int 7)] \<and>
   jm_get (url_filters PirActionList_options (usp_parse ''action_owner=me'')) ''action_owner'' = Some ''me'' \<and>
   open_url Some (initialState st) ''/contentions?escalation_owner=me'' = NavConfig.visit.Shown
     ''ContentionEscalations'' \<and>
   map (\<lambda>q. sent_as q ''owner_user_id'')
     (snd (session_of EscalationWorklist_options EscalationWorklist_query ''escalation_owner=me'' ((None, None,
       True) # rs))) =
     [None] \<and>
   map (\<lambda>q. sent_as q ''owner_user_id'')
     (snd (session_of EscalationWorklist_options EscalationWorklist_query ''escalation_owner=me'' ((Some 7, None,
       True) # rs))) =
     [Some (show_int 7)]"
  unfolding Let_def by (rule reload_forgets_mine) simp_all

end
