(* ===== verification/Dashboard.thy ===== *)
theory Dashboard
  imports Worklists
begin

text \<open>
  The two landing pages: the dashboard with its count tiles, previews, contention horizon and health banner, and
    "My work"
  with its seven queues. Both are made of links into the grid pages, so their facts are about the composition of
    three parts: the
  route table, the URL read by the grid hook of the page that the route shows, and the request that the page sends.
\<close>

subsection \<open>Links into grid pages\<close>

text \<open>The components of the grid pages that stand behind a route, in the order of \<open>grid_pages\<close>;
  the go/no-go tab and
  the scope windows table are parts of other pages.\<close>

definition page_components :: "string list" where
  "page_components =
     [''ReleaseList'', ''BookingList'', ''EnvironmentList'', ''ChangeRequestList'', ''SystemCatalog'',
      ''InfrastructureComponentList'', ''IncidentList'', ''DeploymentList'', ''BuildList'',
        ''EnvironmentRequestList'',
      ''ContentionEscalations'', ''DecommissionWorklist'', ''PirActionList'']"

definition linked_page :: "grid_page list \<Rightarrow> string \<Rightarrow> grid_page option" where
  "linked_page pages url =
     (case find (\<lambda>r. ar_path r = fst (splitPathAndQuery url)) app_routes of
        Some r \<Rightarrow> (case ar_element r of Shows e \<Rightarrow> map_of (zip page_components pages) e |
          Redirects t \<Rightarrow> None)
      | None \<Rightarrow> None)"

text \<open>The request of the page when it is opened through the link.\<close>

definition linked_request :: "grid_page \<Rightarrow> string \<Rightarrow> request" where
  "linked_request pg url = page_request pg (usp_parse (snd (splitPathAndQuery url)))"

definition row_filters :: "grid_page \<Rightarrow> string list" where
  "row_filters pg =
     filter (\<lambda>k. k \<notin> {''limit'', ''offset'', ''sort_by'', ''sort_dir''}) (map fst (lh_params
       (gp_handler pg)))"

subsection \<open>The dashboard\<close>

record tile =
  tl_label :: string
  tl_to :: string
  tl_count :: call

definition bookingsHref :: "string \<Rightarrow> string" where
  "bookingsHref nowIso =
     ''/bookings/list?'' @ usp_toString [(''start'', nowIso), (''end'', nowIso), (''active'', ''true'')]"

definition fetchActiveEnvironments :: call where
  "fetchActiveEnvironments =
     environmentService_listEnvironments (Some [(''status'', J_str ''active''), (''limit'', J_int 1)])"

definition fetchLiveBookings :: "string \<Rightarrow> call" where
  "fetchLiveBookings nowIso = bookingService_listBookings
     (Some [(''start'', J_str nowIso), (''end'', J_str nowIso), (''active'', J_bool True), (''limit'', J_int 1)])"

definition fetchOpenReleases :: call where
  "fetchOpenReleases = releaseService_list (Some [(''open'', J_bool True), (''limit'', J_int 1)])"

definition fetchOpenIncidents :: call where
  "fetchOpenIncidents = incidentService_list (Some [(''open'', J_bool True), (''limit'', J_int 1)])"

definition stat_tiles :: "string \<Rightarrow> tile list" where
  "stat_tiles nowIso =
     [\<lparr>tl_label = ''Active environments'', tl_to = ''/environments?status=active'', tl_count =
       fetchActiveEnvironments\<rparr>,
      \<lparr>tl_label = ''Bookings live now'', tl_to = bookingsHref nowIso, tl_count = fetchLiveBookings
        nowIso\<rparr>,
      \<lparr>tl_label = ''Open releases'', tl_to = ''/releases?open=true'', tl_count = fetchOpenReleases\<rparr>,
      \<lparr>tl_label = ''Open incidents'', tl_to = ''/incidents?open=true'', tl_count =
        fetchOpenIncidents\<rparr>]"

text \<open>The two counts of the governance line, which only an administrator sees.\<close>

definition governance_counts :: "tile list" where
  "governance_counts =
     [\<lparr>tl_label = ''governance gap'', tl_to = ''/environments?governance_gap=true'',
       tl_count = environmentService_listEnvironments (Some [(''governance_gap'', J_bool True), (''limit'', J_int
         1)])\<rparr>,
      \<lparr>tl_label = ''quarantined'', tl_to = ''/environments?quarantined=true'',
       tl_count = environmentService_listEnvironments (Some [(''quarantined'', J_bool True), (''limit'', J_int
         1)])\<rparr>]"

text \<open>A count that is not there yet, one that could not be loaded, and a number.\<close>

datatype count = Not_yet | Not_loaded | Number int

record count_state =
  cs_count :: "int option"
  cs_failed :: bool
  cs_fetch :: "nat option"

definition StatTile_fetch :: "nat \<Rightarrow> int lifecycle \<Rightarrow> count_state \<Rightarrow> count_state"
  where
  "StatTile_fetch n = on_cases
     (\<lambda>s. \<lparr>cs_count = None, cs_failed = False, cs_fetch = Some n\<rparr>)
     (\<lambda>c s. if cs_fetch s \<noteq> Some n then s else s\<lparr>cs_count := Some c\<rparr>)
     (\<lambda>r s. if cs_fetch s \<noteq> Some n then s else s\<lparr>cs_failed := True\<rparr>)"

definition StatTile_shows :: "count_state \<Rightarrow> count" where
  "StatTile_shows s = (if cs_failed s then Not_loaded else case cs_count s of None \<Rightarrow> Not_yet | Some n
    \<Rightarrow> Number n)"

interpretation stat_tile: latest_query StatTile_fetch cs_fetch
  by unfold_locales (simp_all add: StatTile_fetch_def)

text \<open>What the governance line says: nothing before both counts have settled.\<close>

definition GovernanceGapLine :: "count \<Rightarrow> count \<Rightarrow> (string \<times> string) option" where
  "GovernanceGapLine gap quarantined =
     (if gap = Not_yet \<or> quarantined = Not_yet then None
      else Some
        (case gap of
           Number n \<Rightarrow> show_int n @ (if n = 1 then '' environment has'' else '' environments have'') @
             '' a governance gap''
         | _ \<Rightarrow> ''Couldn't load governance gap'',
         case quarantined of Number n \<Rightarrow> show_int n @ '' quarantined'' | _ \<Rightarrow>
           ''couldn't load quarantined count''))"

subsection \<open>What is coming up\<close>

definition SEVEN_DAYS_MS :: int where
  "SEVEN_DAYS_MS = 7 * 24 * 60 * 60 * 1000"

definition FOURTEEN_DAYS_MS :: int where
  "FOURTEEN_DAYS_MS = 14 * 24 * 60 * 60 * 1000"

definition PREVIEW_ROW_CAP :: nat where
  "PREVIEW_ROW_CAP = 5"

definition formatDate :: "reader \<Rightarrow> json \<Rightarrow> string" where
  "formatDate rd d0 =
     (if ServiceApi.truthy d0 then case js_date rd d0 of None \<Rightarrow> DASH | Some d \<Rightarrow> date_text
       rd (Some d) else DASH)"

definition ComingUpBookings_call :: "(date \<Rightarrow> string) \<Rightarrow> date \<Rightarrow> call" where
  "ComingUpBookings_call toISO now' = bookingService_listBookings
     (Some [(''start'', J_str (toISO now')), (''end'', J_str (toISO (now' + SEVEN_DAYS_MS))), (''active'', J_bool
       True),
            (''limit'', J_int 50), (''sort_by'', J_str ''start_date''), (''sort_dir'', J_str ''asc'')])"

text \<open>\<open>new Date(b.start_date).getTime() >= nowMs\<close>; reading the field of \<open>null\<close>
  raises.\<close>

fun starts_from :: "reader \<Rightarrow> date \<Rightarrow> json list \<Rightarrow> json list option" where
  "starts_from rd now' [] = Some []"
| "starts_from rd now' (b # bs) = do {
     s \<leftarrow> get_prop b ''start_date'';
     r \<leftarrow> starts_from rd now' bs;
     Some (if case js_date rd s of Some d \<Rightarrow> now' \<le> d | None \<Rightarrow> False then b # r else r)
       }"

definition ComingUpBookings_rows :: "reader \<Rightarrow> date \<Rightarrow> json list \<Rightarrow> json list
  option" where
  "ComingUpBookings_rows rd now' fetched' = map_option (take PREVIEW_ROW_CAP) (starts_from rd now' fetched')"

definition ComingUpBookings_item :: "reader \<Rightarrow> json \<Rightarrow> string \<times> string \<times>
  string" where
  "ComingUpBookings_item rd b =
     (''/bookings/'' @ js_text (row_key ''id'' b),
      (case row_key ''environment_name'' b of J_str s \<Rightarrow> s | _ \<Rightarrow> ''Environment '' @ js_text
        (row_key ''environment_id'' b)),
      ''Starts '' @ formatDate rd (row_key ''start_date'' b))"

definition ComingUpReleases_call :: "(date \<Rightarrow> string) \<Rightarrow> date \<Rightarrow> call" where
  "ComingUpReleases_call toISO now' = releaseService_listCalendar (toISO now') (toISO (now' + FOURTEEN_DAYS_MS))"

text \<open>The releases by their due date, the order of equal dates kept; \<open>None\<close> when a date does not
  parse and the
  comparison says nothing.\<close>

definition ComingUpReleases_rows :: "reader \<Rightarrow> json list \<Rightarrow> json list option" where
  "ComingUpReleases_rows rd es =
     (let xs = filter (\<lambda>r. ServiceApi.truthy (row_key ''start'' r)) es in
      if list_all (\<lambda>r. js_date rd (row_key ''start'' r) \<noteq> None) xs
      then Some (take PREVIEW_ROW_CAP (sort_key (\<lambda>r. nullish (js_date rd (row_key ''start'' r)) 0) xs))
        else None)"

text \<open>A preview: not loaded yet, failed, empty, or its rows.\<close>

datatype preview = Loading | Preview_failed | Nothing_due | Rows "json list"

definition preview_of :: "json list option \<Rightarrow> bool \<Rightarrow> preview" where
  "preview_of rows failed =
     (if failed then Preview_failed
      else case rows of None \<Rightarrow> Loading | Some xs \<Rightarrow> if xs = [] then Nothing_due else Rows
        xs)"

subsection \<open>The contention horizon and the health banner\<close>

definition HORIZON_WEEK_OPTIONS :: "int list" where
  "HORIZON_WEEK_OPTIONS = [2, 6, 12, 26]"

definition DEFAULT_HORIZON_WEEKS :: int where
  "DEFAULT_HORIZON_WEEKS = 6"

definition parseHorizonParam :: "string option \<Rightarrow> int" where
  "parseHorizonParam v =
     (case Option.bind v js_Number of
        Some n \<Rightarrow> if n \<in> set HORIZON_WEEK_OPTIONS then n else DEFAULT_HORIZON_WEEKS
      | None \<Rightarrow> DEFAULT_HORIZON_WEEKS)"

definition horizon_handleSelect :: "int \<Rightarrow> params \<Rightarrow> params" where
  "horizon_handleSelect next sp =
     (if next = parseHorizonParam (usp_get sp ''horizon_weeks'') then sp
      else usp_set ''horizon_weeks'' (show_int next) sp)"

datatype horizon = Horizon_error string | Horizon_wait | Horizon_count int int

definition ContentionHorizon_shows :: "params \<Rightarrow> ContentionForecastState \<Rightarrow> horizon" where
  "ContentionHorizon_shows sp st =
     (let weeks = parseHorizonParam (usp_get sp ''horizon_weeks''); e = nullish (cfc_error st) [] in
      if e \<noteq> [] then Horizon_error e
      else case (cfc_count st, cfc_weeks st) of
             (Some n, Some w) \<Rightarrow> if \<not> cfc_loading st \<and> w = weeks then Horizon_count n w else
               Horizon_wait
           | _ \<Rightarrow> Horizon_wait)"

definition HealthAlertBanner_names :: "json list \<Rightarrow> json list" where
  "HealthAlertBanner_names rows = map (row_key ''environment_name'') (filter (\<lambda>r. ServiceApi.truthy
    (row_key ''alert'' r)) rows)"

datatype banner = No_banner | Cannot_check | Degraded string

definition HealthAlertBanner :: "json list option \<Rightarrow> bool \<Rightarrow> banner" where
  "HealthAlertBanner rows failed =
     (if failed then Cannot_check
      else case map_option HealthAlertBanner_names rows of
             None \<Rightarrow> No_banner
           | Some [] \<Rightarrow> No_banner
           | Some names \<Rightarrow> Degraded (js_join '', '' (map js_text names)))"

subsection \<open>My work\<close>

definition EMPTY_QUEUE :: json where
  "EMPTY_QUEUE = J_obj [(''count'', J_int 0), (''items'', J_arr []), (''failed'', J_bool False)]"

definition WHOLE_RESPONSE_FAILED_QUEUE :: json where
  "WHOLE_RESPONSE_FAILED_QUEUE = J_obj [(''count'', J_int 0), (''items'', J_arr []), (''failed'', J_bool True)]"

definition queueFor :: "json option \<Rightarrow> string \<Rightarrow> string option \<Rightarrow> json" where
  "queueFor data key error =
     (let queues = (case data of Some d \<Rightarrow> row_key ''queues'' d | None \<Rightarrow> J_undefined);
          queue = (case queues of J_obj m \<Rightarrow> nullish (map_of m key) J_undefined | _ \<Rightarrow>
            J_undefined)
      in if ServiceApi.truthy queue then queue
         else case error of
           Some e \<Rightarrow> if e \<noteq> [] then WHOLE_RESPONSE_FAILED_QUEUE else EMPTY_QUEUE
         | None \<Rightarrow> EMPTY_QUEUE)"

record QueueConfig =
  q_key :: string
  q_title :: string
  q_viewAllHref :: string
  q_viewAllLabel :: string
  q_viewAllCaption :: "string option"

definition queue_config :: "string \<Rightarrow> string \<Rightarrow> string \<Rightarrow> string \<Rightarrow>
  string option \<Rightarrow> QueueConfig" where
  "queue_config k t h l c = \<lparr>q_key = k, q_title = t, q_viewAllHref = h, q_viewAllLabel = l, q_viewAllCaption
    = c\<rparr>"

definition QUEUES :: "QueueConfig list" where
  "QUEUES =
     [queue_config ''environment_requests'' ''Environment requests'' ''/environment-requests?queue=team''
        ''environment requests'' None,
      queue_config ''contentions'' ''Contentions'' ''/contentions?escalation_owner=me'' ''contentions'' None,
      queue_config ''decommissions'' ''Decommissions'' ''/decommissions?mine=true'' ''decommissions'' None,
      queue_config ''pir_actions'' ''PIR actions'' ''/pir-actions?action_owner=me'' ''PIR actions'' None,
      queue_config ''incidents'' ''Incidents'' ''/incidents?open=true'' ''incidents'' None,
      queue_config ''hypercare'' ''Hyper-care decisions'' ''/releases'' ''releases''
        (Some ''All releases; the list has no hyper-care filter''),
      queue_config ''runbook_tasks'' ''Runbook tasks ready for my team'' ''/releases'' ''releases''
        (Some ''All releases; runbooks live on each release'')]"

text \<open>The card of a queue: its two chips, and its body.\<close>

datatype queue_body = Cannot_load bool | Nothing_waiting | Queue_rows "json list"

definition QueueCard_chips :: "json \<Rightarrow> (string option \<times> json) option" where
  "QueueCard_chips queue =
     (if ServiceApi.truthy (row_key ''failed'' queue) then None
      else Some (case row_key ''overdue'' queue of
                   J_int n \<Rightarrow> if 0 < n then Some (show_int n @ '' overdue'') else None
                 | _ \<Rightarrow> None, row_key ''count'' queue))"

definition QueueCard_body :: "bool \<Rightarrow> json \<Rightarrow> queue_body option" where
  "QueueCard_body onRetry queue =
     (if ServiceApi.truthy (row_key ''failed'' queue) then Some (Cannot_load onRetry)
      else map_option (\<lambda>xs. if xs = [] then Nothing_waiting else Queue_rows xs) (array_of (row_key
        ''items'' queue)))"

definition MyWork_formatDue :: "reader \<Rightarrow> json \<Rightarrow> string option" where
  "MyWork_formatDue rd due =
     (if ServiceApi.truthy due then map_option (\<lambda>d. date_text rd (Some d)) (js_date rd due) else None)"

text \<open>A row: its link and title, its subtitle and its due date, where it has them.\<close>

definition renderRow :: "reader \<Rightarrow> json \<Rightarrow> (json \<times> json) \<times> json option \<times>
  string option" where
  "renderRow rd item =
     ((row_key ''url'' item, row_key ''title'' item),
      if ServiceApi.truthy (row_key ''subtitle'' item) then Some (row_key ''subtitle'' item) else None,
      case MyWork_formatDue rd (row_key ''due'' item) of
        Some due \<Rightarrow> if due \<noteq> [] then Some (''Due '' @ due) else None
      | None \<Rightarrow> None)"

text \<open>A spinner while the first response is on its way, the seven cards otherwise; without a response and
  with an error
  the error stands above them.\<close>

definition MyWork_cards :: "MyWorkState \<Rightarrow> (string \<times> queue_body option) list option" where
  "MyWork_cards st =
     (if mwk_loading st \<and> mwk_data st = None then None
      else Some (map (\<lambda>c. (q_title c, QueueCard_body True (queueFor (mwk_data st) (q_key c) (mwk_error
        st)))) QUEUES))"

subsection \<open>Two more links\<close>

definition gapBookingsHref :: "int \<Rightarrow> string" where
  "gapBookingsHref projectId = ''/bookings/list?project_id='' @ show_int projectId @ ''&agreement_gap=true''"

definition operated_environments_href :: "json \<Rightarrow> string" where
  "operated_environments_href row = ''/environments?operations_group_id='' @ js_text (row_key ''id'' row)"

end
