(* ===== verification/DashboardFacts.thy ===== *)
theory DashboardFacts
  imports Dashboard
begin

text \<open>
  That the links of the two landing pages ask what they promise: the number on a tile counts the rows of the list it
  opens, and a "View all" link asks the list for the queue it stands under.
\<close>

subsection \<open>Opening a link\<close>

lemma split_bookings: "splitPathAndQuery (bookingsHref nowIso) =
    (''/bookings/list'', usp_toString [(''start'', nowIso), (''end'', nowIso), (''active'', ''true'')])"
  by (simp add: splitPathAndQuery_def bookingsHref_def)

lemma split_links:
  "splitPathAndQuery ''/environments?status=active'' = (''/environments'', ''status=active'')"
  "splitPathAndQuery ''/environments?governance_gap=true'' = (''/environments'', ''governance_gap=true'')"
  "splitPathAndQuery ''/environments?quarantined=true'' = (''/environments'', ''quarantined=true'')"
  "splitPathAndQuery ''/releases?open=true'' = (''/releases'', ''open=true'')"
  "splitPathAndQuery ''/incidents?open=true'' = (''/incidents'', ''open=true'')"
  "splitPathAndQuery ''/releases'' = (''/releases'', [])"
  "splitPathAndQuery ''/environment-requests?queue=team'' = (''/environment-requests'', ''queue=team'')"
  "splitPathAndQuery ''/contentions?escalation_owner=me'' = (''/contentions'', ''escalation_owner=me'')"
  "splitPathAndQuery ''/decommissions?mine=true'' = (''/decommissions'', ''mine=true'')"
  "splitPathAndQuery ''/pir-actions?action_owner=me'' = (''/pir-actions'', ''action_owner=me'')"
  by code_simp+

lemma parsed_links:
  "usp_parse ''status=active'' = [(''status'', ''active'')]" "usp_parse ''governance_gap=true'' =
    [(''governance_gap'', ''true'')]"
  "usp_parse ''quarantined=true'' = [(''quarantined'', ''true'')]" "usp_parse ''open=true'' = [(''open'',
    ''true'')]"
  "usp_parse [] = []" "usp_parse ''queue=team'' = [(''queue'', ''team'')]"
  "usp_parse ''escalation_owner=me'' = [(''escalation_owner'', ''me'')]" "usp_parse ''mine=true'' = [(''mine'',
    ''true'')]"
  "usp_parse ''action_owner=me'' = [(''action_owner'', ''me'')]"
  by code_simp+

text \<open>The page that a component name stands for.\<close>

lemma routed_pages:
  "fst (splitPathAndQuery url) = ''/environments'' \<Longrightarrow> linked_page (grid_pages me who rel sys) url =
    Some (grid_pages me who rel sys ! 2)"
  "fst (splitPathAndQuery url) = ''/bookings/list'' \<Longrightarrow> linked_page (grid_pages me who rel sys) url =
    Some (grid_pages me who rel sys ! 1)"
  "fst (splitPathAndQuery url) = ''/releases'' \<Longrightarrow> linked_page (grid_pages me who rel sys) url = Some
    (grid_pages me who rel sys ! 0)"
  "fst (splitPathAndQuery url) = ''/incidents'' \<Longrightarrow> linked_page (grid_pages me who rel sys) url =
    Some (grid_pages me who rel sys ! 6)"
  "fst (splitPathAndQuery url) = ''/environment-requests'' \<Longrightarrow> linked_page (grid_pages me who rel
    sys) url = Some (grid_pages me who rel sys ! 9)"
  "fst (splitPathAndQuery url) = ''/contentions'' \<Longrightarrow> linked_page (grid_pages me who rel sys) url =
    Some (grid_pages me who rel sys ! 10)"
  "fst (splitPathAndQuery url) = ''/decommissions'' \<Longrightarrow> linked_page (grid_pages me who rel sys) url =
    Some (grid_pages me who rel sys ! 11)"
  "fst (splitPathAndQuery url) = ''/pir-actions'' \<Longrightarrow> linked_page (grid_pages me who rel sys) url =
    Some (grid_pages me who rel sys ! 12)"
  by (simp_all add: linked_page_def app_routes_def app_route_def page_components_def grid_pages_def)

text \<open>What the request of a link says, parameter by parameter.\<close>

definition counts_linked :: "grid_page list \<Rightarrow> tile \<Rightarrow> bool" where
  "counts_linked pages t =
     (case linked_page pages (tl_to t) of
        None \<Rightarrow> False
      | Some pg \<Rightarrow>
          let list = linked_request pg (tl_to t); counted = fst (tl_count t) in
          rq_verb counted = rq_verb list \<and> rq_path counted = rq_path list \<and>
          list_all (\<lambda>k. sent_as (rq_query counted) k = sent_as (rq_query list) k) (row_filters pg))"

lemmas link_parsing = split_bookings split_links usp_parse_toString parsed_links

lemmas link_requests = grid_pages_def row_filters_def page_services page_queries sent url_text_simps page_unfold
  handler_defs
  page_options

lemmas link_values = url_text_def usp_get_def tri_state_def apiProjectId_def apiProtection_def one_of_param_def
  owner_param_def
  sent_as_append sent_as_def

text \<open>
  C18: every number of the dashboard counts exactly the list that it opens: the request behind a tile, or behind a
    count of the
  governance line, goes to the handler of the linked page with the same value for every parameter that selects rows.
\<close>

theorem tiles_count_what_they_open:
  assumes "10 \<le> length nowIso"
  shows "list_all (counts_linked (grid_pages me who rel sys)) (stat_tiles nowIso @ governance_counts)"
proof -
  have now': "nowIso \<noteq> []" "nowIso \<noteq> ''all''" using assms by auto
  show ?thesis
    unfolding stat_tiles_def governance_counts_def list.pred_inject append.simps
    by (intro conjI TrueI;
        simp add: counts_linked_def routed_pages linked_request_def link_parsing;
        simp add: link_requests fetchLiveBookings_def fetchActiveEnvironments_def fetchOpenReleases_def
          fetchOpenIncidents_def Let_def;
        simp add: link_values now')
qed

theorem tiles_count_what_they_open_witness:
  "list_all (counts_linked (grid_pages (Some 7) None 1 None)) (stat_tiles ''2026-03-01T09:30:00.000Z'' @
    governance_counts)"
  by (rule tiles_count_what_they_open) simp

subsection \<open>My work\<close>

text \<open>A link asks exactly for the given filters.\<close>

definition asks_exactly :: "grid_page list \<Rightarrow> string \<Rightarrow> (string \<times> string) list
  \<Rightarrow> bool" where
  "asks_exactly pages url fs =
     (case linked_page pages url of
        None \<Rightarrow> False
      | Some pg \<Rightarrow> list_all (\<lambda>k. sent_as (rq_query (linked_request pg url)) k = map_of fs k)
        (row_filters pg))"

text \<open>
  "View all" under a queue of "My work" opens the list with the filter of that queue and no other: the
    requests my teams
  may act on, the escalations and PIR actions that are mine, the decommissions that are mine, the open incidents;
    the two queues whose list has no
  such filter open the unfiltered releases, and only these two say so in a caption.
\<close>

theorem queues_open_their_lists:
  "list_all2 (\<lambda>c fs. asks_exactly (grid_pages (Some u) who rel sys) (q_viewAllHref c) fs \<and>
       (q_viewAllCaption c = None \<longleftrightarrow> fs \<noteq> []))
     QUEUES
     [[(''actionable'', ''true'')], [(''owner_user_id'', show_int u)], [(''mine'', ''true'')], [(''owner_id'',
       show_int u)],
      [(''open'', ''true'')], [], []]"
  unfolding QUEUES_def queue_config_def list.rel_inject
  by (intro conjI TrueI;
      simp add: asks_exactly_def routed_pages linked_request_def link_parsing;
      simp add: link_requests; simp add: link_values)

subsection \<open>The preview of bookings\<close>

definition start_of :: "reader \<Rightarrow> json \<Rightarrow> date option" where
  "start_of rd b = Option.bind (get_prop b ''start_date'') (js_date rd)"

lemma starts_from_step: "start_of rd b = Some d \<Longrightarrow>
  starts_from rd n (b # bs) = map_option (\<lambda>r. if n \<le> d then b # r else r) (starts_from rd n bs)"
  by (cases "starts_from rd n bs"; cases "get_prop b ''start_date''") (simp_all add: start_of_def)

lemma starts_from_running:
  "list_all (\<lambda>b. case start_of rd b of Some d \<Rightarrow> d < n | None \<Rightarrow> False) run
    \<Longrightarrow>
   starts_from rd n (run @ bs) = starts_from rd n bs"
proof (induction run)
  case (Cons b run)
  then show ?case
    by (cases "start_of rd b"; cases "starts_from rd n bs") (simp_all add: starts_from_step del: starts_from.simps)
qed simp

lemma starts_from_coming:
  "list_all (\<lambda>b. case start_of rd b of Some d \<Rightarrow> n \<le> d | None \<Rightarrow> False) bs
    \<Longrightarrow> starts_from rd n bs = Some bs"
proof (induction bs)
  case (Cons b bs)
  then show ?case by (cases "start_of rd b") (simp_all add: starts_from_step del: starts_from.simps)
qed simp

text \<open>
  How far the preview of coming bookings reaches. The server is asked for the first fifty bookings of the week
    by start date,
  running ones included, and the page drops those: with \<open>r\<close> running bookings the preview shows the
    first
  five of the \<open>50 - r\<close> coming ones that fit, so that with fifty running bookings it shows none,
    whatever is coming.
\<close>

theorem preview_shows_what_fits:
  assumes "list_all (\<lambda>b. case start_of rd b of Some d \<Rightarrow> d < n | None \<Rightarrow> False) run"
    and "list_all (\<lambda>b. case start_of rd b of Some d \<Rightarrow> n \<le> d | None \<Rightarrow> False)
      coming"
  shows "ComingUpBookings_rows rd n (take 50 (run @ coming)) = Some (take (min 5 (50 - length run)) coming)"
proof -
  have "list_all P (take k xs)" if "list_all P xs" for P k and xs :: "json list"
    using that by (auto simp: list_all_iff dest: in_set_takeD)
  then show ?thesis
    using assms by (simp add: ComingUpBookings_rows_def PREVIEW_ROW_CAP_def starts_from_running starts_from_coming)
qed

definition epoch_reader :: reader where
  "epoch_reader = \<lparr>parse_date = js_Number, wall_time = (\<lambda>_. (0, 0)), date_text = (\<lambda>_.
    ''today''), time_text = (\<lambda>_. []),
     date_time_text = (\<lambda>_. ''today''), day_month_year = (\<lambda>_. ''today''), utc_day_month_year =
       (\<lambda>_. ''today''), now = 0\<rparr>"

theorem preview_shows_what_fits_witness:
  "ComingUpBookings_rows epoch_reader 100
     (take 50 (replicate 50 (J_obj [(''start_date'', J_str ''40'')]) @ [J_obj [(''start_date'', J_str ''130'')]])) =
   Some (take (min 5 (50 - length (replicate 50 (J_obj [(''start_date'', J_str ''40'')]))))
     [J_obj [(''start_date'', J_str ''130'')]])"
proof (rule preview_shows_what_fits)
  have "start_of epoch_reader (J_obj [(''start_date'', J_str ''40'')]) = Some 40" by code_simp
  then show "list_all (\<lambda>b. case start_of epoch_reader b of Some d \<Rightarrow> d < 100 | None
    \<Rightarrow> False)
    (replicate 50 (J_obj [(''start_date'', J_str ''40'')]))"
    by (simp add: list_all_iff)
  have "start_of epoch_reader (J_obj [(''start_date'', J_str ''130'')]) = Some 130" by code_simp
  then show "list_all (\<lambda>b. case start_of epoch_reader b of Some d \<Rightarrow> 100 \<le> d | None
    \<Rightarrow> False)
    [J_obj [(''start_date'', J_str ''130'')]]"
    by simp
qed

end
