(* ===== verification/Forms.thy ===== *)
theory Forms
  imports RecordSlices SystemSlices EnvironmentSlices BackendModels Dates
begin

text \<open>
  The forms behind the list pages: the dialogs of systems, hosts and environments, the incident form, the two
    change request
  dialogs, the booking form and the environment request form. A form is a record of its fields with the functions
    that open it on a
  row, check it, and build the payload; what the user reads when the save fails is a function of the outcome of the
    thunk.
  The parser and the printer of dates are parameters. Layout, the pickers and their options are left out.
\<close>

subsection \<open>What the forms share\<close>

record clock =
  parse :: "string \<Rightarrow> date option"
  toISO :: "date \<Rightarrow> string"
  local_input :: "date \<Rightarrow> string"

text \<open>\<open>new Date(text).toISOString()\<close>, which raises for an invalid date.\<close>

definition iso :: "clock \<Rightarrow> string \<Rightarrow> string option" where
  "iso clk s = map_option (toISO clk) (parse clk s)"

text \<open>\<open>v || undefined\<close>, \<open>v || null\<close>, \<open>row.k ?? ''\<close>.\<close>

definition or_undefined :: "string \<Rightarrow> json" where
  "or_undefined s = (if s = [] then J_undefined else J_str s)"

definition or_null :: "string \<Rightarrow> json" where
  "or_null s = (if s = [] then J_null else J_str s)"

definition int_or_null :: "int option \<Rightarrow> json" where
  "int_or_null v = (case v of Some i \<Rightarrow> J_int i | None \<Rightarrow> J_null)"

definition int_key :: "string \<Rightarrow> json \<Rightarrow> int option" where
  "int_key k r = (case row_key k r of J_int i \<Rightarrow> Some i | _ \<Rightarrow> None)"

definition object_or_empty :: "json \<Rightarrow> json" where
  "object_or_empty j = (if j = J_null \<or> j = J_undefined then J_obj [] else j)"

text \<open>The body as \<open>JSON.stringify\<close> writes it: a field that is \<open>undefined\<close> is left
  out.\<close>

definition json_body :: "(string \<times> json) list \<Rightarrow> json" where
  "json_body fs = J_obj (filter (\<lambda>f. snd f \<noteq> J_undefined) fs)"

text \<open>What a save comes to: a message under the form, a raised error, or a call with its payload.\<close>

datatype save = Refused string | Raises | Sends call json

text \<open>A thrown value: an \<open>Error\<close> with its message and its own fields, or any other value. A
  failed thunk under \<open>unwrap\<close> throws
  the payload of \<open>rejectWithValue\<close>, a text, or else the serialised error, which is a plain
    object.\<close>

datatype thrown = An_Error string json | A_value json

definition unwrapped :: "rejected \<Rightarrow> thrown" where
  "unwrapped r = A_value (case rj_payload r of
     Some s \<Rightarrow> J_str s
   | None \<Rightarrow> J_obj (case rj_message r of Some m \<Rightarrow> [(''message'', J_str m)] | None
     \<Rightarrow> []))"

text \<open>\<open>String(v)\<close>.\<close>

fun js_String :: "json \<Rightarrow> string" where
  "js_String J_undefined = ''undefined''"
| "js_String J_null = ''null''"
| "js_String (J_bool b) = (if b then ''true'' else ''false'')"
| "js_String (J_int i) = show_int i"
| "js_String (J_str s) = s"
| "js_String (J_arr xs) = js_join '','' (map (\<lambda>x. case x of J_undefined \<Rightarrow> [] | J_null
  \<Rightarrow> [] | _ \<Rightarrow> js_String x) xs)"
| "js_String (J_obj m) = ''[object Object]''"

text \<open>\<open>err instanceof Error ? err.message : String(err)\<close> with \<open>|| fallback\<close>, and
  \<open>err instanceof Error ? err.message :
  fallback\<close>.\<close>

definition message_or_String :: "string \<Rightarrow> thrown \<Rightarrow> string" where
  "message_or_String fallback t =
     (let message = (case t of An_Error m own \<Rightarrow> m | A_value v \<Rightarrow> js_String v) in
      if message = [] then fallback else message)"

definition message_or_fallback :: "string \<Rightarrow> thrown \<Rightarrow> string" where
  "message_or_fallback fallback t = (case t of An_Error m own \<Rightarrow> m | A_value v \<Rightarrow> fallback)"

subsection \<open>Dialogs of the list pages\<close>

text \<open>The state of a dialog that creates or edits a row.\<close>

record 'f dialog =
  dl_open :: bool
  dl_target :: "json option"
  dl_form :: 'f
  dl_error :: string
  dl_custom :: json

definition closed_dialog :: "'f \<Rightarrow> 'f dialog" where
  "closed_dialog f = \<lparr>dl_open = False, dl_target = None, dl_form = f, dl_error = [], dl_custom = J_obj
    []\<rparr>"

text \<open>\<open>pages/systems/SystemCatalog.tsx\<close>.\<close>

record SystemFormValues =
  sf_name :: string
  sf_description :: string
  sf_github_repository_url :: string

definition SystemCatalog_emptyForm :: SystemFormValues where
  "SystemCatalog_emptyForm = \<lparr>sf_name = [], sf_description = [], sf_github_repository_url = []\<rparr>"

definition SystemCatalog_openCreate :: "SystemFormValues dialog" where
  "SystemCatalog_openCreate = (closed_dialog SystemCatalog_emptyForm)\<lparr>dl_open := True\<rparr>"

definition SystemCatalog_openEdit :: "json \<Rightarrow> SystemFormValues dialog" where
  "SystemCatalog_openEdit system =
     \<lparr>dl_open = True, dl_target = Some system,
      dl_form = \<lparr>sf_name = text_key ''name'' system, sf_description = text_key ''description'' system,
        sf_github_repository_url = text_key ''github_repository_url'' system\<rparr>,
      dl_error = [], dl_custom = object_or_empty (row_key ''custom_fields'' system)\<rparr>"

definition SystemCatalog_data :: "SystemFormValues dialog \<Rightarrow> json" where
  "SystemCatalog_data d = json_body
     [(''name'', J_str (sf_name (dl_form d))),
      (''description'', or_undefined (sf_description (dl_form d))),
      (''github_repository_url'', or_undefined (sf_github_repository_url (dl_form d))),
      (''custom_fields'', dl_custom d)]"

definition SystemCatalog_handleSave :: "SystemFormValues dialog \<Rightarrow> save" where
  "SystemCatalog_handleSave d =
     (if js_trim (sf_name (dl_form d)) = [] then Refused ''Name is required''
      else case dl_target d of
             Some row \<Rightarrow> Sends (systemService_updateSystem (num_key ''id'' row) (SystemCatalog_data d))
               (SystemCatalog_data d)
           | None \<Rightarrow> Sends (systemService_createSystem (SystemCatalog_data d)) (SystemCatalog_data d))"

text \<open>\<open>pages/infrastructure/InfrastructureComponentList.tsx\<close>.\<close>

record HostFormValues =
  hf_name :: string
  hf_description :: string
  hf_component_type :: string
  hf_provider :: string
  hf_region :: string
  hf_location :: string
  hf_source :: string
  hf_external_id :: string

definition InfrastructureComponentList_emptyForm :: HostFormValues where
  "InfrastructureComponentList_emptyForm =
     \<lparr>hf_name = [], hf_description = [], hf_component_type = ''server'', hf_provider = [], hf_region = [],
       hf_location = [],
      hf_source = ''manual'', hf_external_id = []\<rparr>"

definition InfrastructureComponentList_openCreate :: "HostFormValues dialog" where
  "InfrastructureComponentList_openCreate = (closed_dialog InfrastructureComponentList_emptyForm)\<lparr>dl_open :=
    True\<rparr>"

definition InfrastructureComponentList_openEdit :: "json \<Rightarrow> HostFormValues dialog" where
  "InfrastructureComponentList_openEdit row =
     \<lparr>dl_open = True, dl_target = Some row,
      dl_form = \<lparr>hf_name = text_key ''name'' row, hf_description = text_key ''description'' row,
        hf_component_type = text_key ''component_type'' row, hf_provider = text_key ''provider'' row,
        hf_region = text_key ''region'' row, hf_location = text_key ''location'' row, hf_source = text_key
          ''source'' row,
        hf_external_id = text_key ''external_id'' row\<rparr>,
      dl_error = [], dl_custom = J_obj []\<rparr>"

definition InfrastructureComponentList_data :: "HostFormValues \<Rightarrow> json" where
  "InfrastructureComponentList_data f = json_body
     [(''name'', J_str (hf_name f)), (''description'', or_undefined (hf_description f)),
      (''component_type'', J_str (hf_component_type f)), (''provider'', or_undefined (hf_provider f)),
      (''region'', or_undefined (hf_region f)), (''location'', or_undefined (hf_location f)),
      (''source'', J_str (hf_source f)), (''external_id'', or_undefined (hf_external_id f))]"

definition InfrastructureComponentList_handleSave :: "HostFormValues dialog \<Rightarrow> save" where
  "InfrastructureComponentList_handleSave d =
     (if js_trim (hf_name (dl_form d)) = [] then Refused ''Name is required''
      else let data = InfrastructureComponentList_data (dl_form d) in
           case dl_target d of
             Some row \<Rightarrow> Sends (infrastructureComponentService_updateComponent (num_key ''id'' row)
               data) data
           | None \<Rightarrow> Sends (infrastructureComponentService_createComponent data) data)"

text \<open>\<open>pages/environments/EnvironmentList.tsx\<close>.\<close>

record EnvFormValues =
  ef_name :: string
  ef_description :: string
  ef_tier_id :: "int option"
  ef_owner_user_id :: "int option"
  ef_expires_at :: string
  ef_status :: string
  ef_operations_group_id :: "int option"

definition EnvironmentList_emptyForm :: EnvFormValues where
  "EnvironmentList_emptyForm =
     \<lparr>ef_name = [], ef_description = [], ef_tier_id = None, ef_owner_user_id = None, ef_expires_at = [],
      ef_status = ''active'', ef_operations_group_id = None\<rparr>"

definition EnvironmentList_openCreate :: "EnvFormValues dialog" where
  "EnvironmentList_openCreate = (closed_dialog EnvironmentList_emptyForm)\<lparr>dl_open := True\<rparr>"

definition EnvironmentList_openEdit :: "json \<Rightarrow> EnvFormValues dialog" where
  "EnvironmentList_openEdit env =
     \<lparr>dl_open = True, dl_target = Some env,
      dl_form = \<lparr>ef_name = text_key ''name'' env, ef_description = text_key ''description'' env,
        ef_tier_id = int_key ''tier_id'' env, ef_owner_user_id = int_key ''owner_user_id'' env,
        ef_expires_at = take 10 (text_key ''expires_at'' env), ef_status = text_key ''status'' env,
        ef_operations_group_id = int_key ''operations_group_id'' env\<rparr>,
      dl_error = [], dl_custom = object_or_empty (row_key ''custom_fields'' env)\<rparr>"

text \<open>An id of 0 is falsy.\<close>

definition set_id :: "int option \<Rightarrow> bool" where
  "set_id v \<longleftrightarrow> v \<noteq> None \<and> v \<noteq> Some 0"

definition EnvironmentList_data :: "EnvFormValues dialog \<Rightarrow> json \<Rightarrow> json" where
  "EnvironmentList_data d expires_at =
     (let f = dl_form d in json_body
       [(''name'', J_str (ef_name f)), (''description'', or_undefined (ef_description f)),
        (''tier_id'', int_or_null (ef_tier_id f)), (''owner_user_id'', int_or_null (ef_owner_user_id f)),
        (''expires_at'', expires_at), (''status'', J_str (ef_status f)), (''custom_fields'', dl_custom d),
        (''operations_group_id'',
          if set_id (ef_operations_group_id f) then int_or_null (ef_operations_group_id f) else J_null)])"

definition EnvironmentList_handleSave :: "clock \<Rightarrow> EnvFormValues dialog \<Rightarrow> save" where
  "EnvironmentList_handleSave clk d =
     (let f = dl_form d; at = iso clk (ef_expires_at f @ ''T00:00:00Z'') in
      if js_trim (ef_name f) = [] then Refused ''Name is required''
      else if \<not> set_id (ef_tier_id f) then Refused ''Tier is required''
      else if \<not> set_id (ef_owner_user_id f) then Refused ''A named owner is required''
      else if dl_target d = None \<and> ef_expires_at f = [] then Refused ''An expiry date is required''
      else case dl_target d of
        Some env \<Rightarrow>
          (if ef_expires_at f = []
           then Sends (environmentService_updateEnvironment (num_key ''id'' env) (EnvironmentList_data d J_null))
                  (EnvironmentList_data d J_null)
           else case at of
             Some t \<Rightarrow> Sends (environmentService_updateEnvironment (num_key ''id'' env)
               (EnvironmentList_data d (J_str t)))
                        (EnvironmentList_data d (J_str t))
           | None \<Rightarrow> Raises)
      | None \<Rightarrow>
          (case at of
             Some t \<Rightarrow> Sends (environmentService_createEnvironment (EnvironmentList_data d (J_str t)))
                        (EnvironmentList_data d (J_str t))
           | None \<Rightarrow> Raises))"

subsection \<open>The incident form\<close>

text \<open>The fields of \<open>pages/incidents/IncidentForm.tsx\<close>, and the last run of two of its effects:
  the system that the subsystem
  picker was reset for, and the incident that the fields were loaded from, by the number of the object the store
    holds.\<close>

record IncidentForm =
  if_title :: string
  if_description :: string
  if_severity :: string
  if_source :: string
  if_externalRef :: string
  if_detectedAt :: string
  if_environment :: "int option"
  if_deployment :: "int option"
  if_release :: "int option"
  if_fixRelease :: "int option"
  if_system :: "int option"
  if_subsystem :: "int option"
  if_custom :: json
  if_loading :: bool
  if_reset_for :: "int option option"
  if_loaded :: "nat option option"

definition IncidentForm_mount :: "bool \<Rightarrow> IncidentForm" where
  "IncidentForm_mount isEdit =
     \<lparr>if_title = [], if_description = [], if_severity = ''P3'', if_source = ''manual'', if_externalRef = [],
      if_detectedAt = [], if_environment = None, if_deployment = None, if_release = None, if_fixRelease = None,
      if_system = None, if_subsystem = None, if_custom = J_obj [], if_loading = isEdit, if_reset_for = None,
      if_loaded = None\<rparr>"

definition subsystem_effect :: "IncidentForm \<Rightarrow> IncidentForm" where
  "subsystem_effect s =
     (if if_reset_for s = Some (if_system s) then s
      else s\<lparr>if_reset_for := Some (if_system s), if_subsystem := None\<rparr>)"

text \<open>The detail of the store, \<open>None\<close> while there is none; the date is the first ten characters
  of its UTC text.\<close>

definition load_effect :: "clock \<Rightarrow> int option \<Rightarrow> (nat \<times> json) option \<Rightarrow>
  IncidentForm \<Rightarrow> IncidentForm" where
  "load_effect clk incidentId detail s =
     (if if_loaded s = Some (map_option fst detail) then s
      else let s = s\<lparr>if_loaded := Some (map_option fst detail)\<rparr> in
        case (incidentId, detail) of
          (Some i, Some (n, d)) \<Rightarrow>
            if int_key ''id'' d \<noteq> Some i then s
            else s\<lparr>if_title := text_key ''title'' d, if_description := text_key ''description'' d,
                   if_severity := text_key ''severity'' d, if_source := text_key ''source'' d,
                   if_externalRef := text_key ''external_ref'' d,
                   if_detectedAt := (if text_key ''detected_at'' d = [] then []
                     else take 10 (nullish (iso clk (text_key ''detected_at'' d)) [])),
                   if_environment := int_key ''environment_id'' d, if_deployment := int_key ''deployment_id'' d,
                   if_release := int_key ''release_id'' d, if_fixRelease := int_key ''fix_release_id'' d,
                   if_system := int_key ''system_id'' d, if_subsystem := int_key ''subsystem_id'' d,
                   if_custom := object_or_empty (row_key ''custom_fields'' d), if_loading := False\<rparr>
        | _ \<Rightarrow> s)"

text \<open>The effects of one render, in the order of the code.\<close>

definition IncidentForm_commit :: "clock \<Rightarrow> int option \<Rightarrow> (nat \<times> json) option
  \<Rightarrow> IncidentForm \<Rightarrow> IncidentForm" where
  "IncidentForm_commit clk incidentId detail s = load_effect clk incidentId detail (subsystem_effect s)"

definition no_fields :: "json \<Rightarrow> bool" where
  "no_fields j \<longleftrightarrow> fields_of j = []"

definition IncidentUpdate_payload :: "IncidentForm \<Rightarrow> json" where
  "IncidentUpdate_payload s = json_body
     ([(''title'', J_str (js_trim (if_title s))), (''description'', or_undefined (js_trim (if_description s))),
       (''severity'', J_str (if_severity s)), (''environment_id'', int_or_null (if_environment s)),
       (''deployment_id'', int_or_null (if_deployment s)), (''release_id'', int_or_null (if_release s)),
       (''fix_release_id'', int_or_null (if_fixRelease s)), (''system_id'', int_or_null (if_system s)),
       (''subsystem_id'', int_or_null (if_subsystem s)), (''external_ref'', or_null (js_trim (if_externalRef s)))] @
      (if no_fields (if_custom s) then [] else [(''custom_fields'', if_custom s)]))"

definition IncidentCreate_payload :: "IncidentForm \<Rightarrow> json \<Rightarrow> json" where
  "IncidentCreate_payload s detected_at = json_body
     [(''title'', J_str (js_trim (if_title s))), (''description'', or_undefined (js_trim (if_description s))),
      (''severity'', J_str (if_severity s)), (''detected_at'', detected_at),
      (''environment_id'', int_or_null (if_environment s)), (''deployment_id'', int_or_null (if_deployment s)),
      (''release_id'', int_or_null (if_release s)), (''fix_release_id'', int_or_null (if_fixRelease s)),
      (''system_id'', int_or_null (if_system s)), (''subsystem_id'', int_or_null (if_subsystem s)),
      (''source'', J_str (if if_source s = [] then ''manual'' else if_source s)),
      (''external_ref'', or_null (js_trim (if_externalRef s))),
      (''custom_fields'', if no_fields (if_custom s) then J_null else if_custom s)]"

definition IncidentForm_handleSubmit :: "clock \<Rightarrow> int option \<Rightarrow> IncidentForm \<Rightarrow>
  save" where
  "IncidentForm_handleSubmit clk incidentId s =
     (if js_trim (if_title s) = [] then Refused ''Title is required''
      else if if_severity s = [] then Refused ''Severity is required''
      else case incidentId of
        Some i \<Rightarrow> Sends (incidentService_update i (IncidentUpdate_payload s)) (IncidentUpdate_payload s)
      | None \<Rightarrow>
          (if if_detectedAt s = []
           then Sends (incidentService_create (IncidentCreate_payload s J_undefined)) (IncidentCreate_payload s
             J_undefined)
           else case iso clk (if_detectedAt s) of
             Some t \<Rightarrow> Sends (incidentService_create (IncidentCreate_payload s (J_str t)))
               (IncidentCreate_payload s (J_str t))
           | None \<Rightarrow> Raises))"

text \<open>\<open>extractErrorMessage\<close>: the detail of an answer that the error carries, its first message
  when it is a list.\<close>

definition chain :: "string list \<Rightarrow> json \<Rightarrow> json" where
  "chain ks j = fold row_key ks j"

definition extractErrorMessage :: "string \<Rightarrow> thrown \<Rightarrow> string" where
  "extractErrorMessage fallback err =
     (let v = (case err of An_Error m own \<Rightarrow> own | A_value v \<Rightarrow> v);
          rest = (case err of An_Error m own \<Rightarrow> m | A_value v \<Rightarrow> fallback) in
      case chain [''response'', ''data'', ''detail''] v of
        J_str s \<Rightarrow> s
      | J_arr (first # ds) \<Rightarrow>
          if truthy (row_key ''msg'' first)
          then (case row_key ''loc'' first of
                  J_arr ls \<Rightarrow> js_join ''.'' (map (\<lambda>x. case x of J_undefined \<Rightarrow> [] |
                    J_null \<Rightarrow> [] | _ \<Rightarrow> js_String x) ls)
                | _ \<Rightarrow> ''field'') @ '': '' @ js_String (row_key ''msg'' first)
          else rest
      | _ \<Rightarrow> rest)"

subsection \<open>The change request dialogs\<close>

text \<open>The fields of \<open>ChangeRequestForm.tsx\<close> and of \<open>ChangeRequestEditDialog.tsx\<close>,
  which has no lifecycle and no subsystem.\<close>

record ChangeRequestValues =
  cf_title :: string
  cf_description :: string
  cf_change_type :: string
  cf_lifecycle_id :: "int option"
  cf_environment_ids :: "int list"
  cf_host_ids :: "int list"
  cf_subsystem_id :: "int option"
  cf_scheduled_start :: string
  cf_scheduled_end :: string
  cf_has_outage :: bool
  cf_outage_start :: string
  cf_outage_end :: string
  cf_custom :: json

definition ChangeRequestForm_buildDefaults :: ChangeRequestValues where
  "ChangeRequestForm_buildDefaults =
     \<lparr>cf_title = [], cf_description = [], cf_change_type = ''configuration'', cf_lifecycle_id = None,
      cf_environment_ids = [], cf_host_ids = [], cf_subsystem_id = None, cf_scheduled_start = [], cf_scheduled_end
        = [],
      cf_has_outage = False, cf_outage_start = [], cf_outage_end = [], cf_custom = J_obj []\<rparr>"

text \<open>\<open>new Date(a) > new Date(b)\<close>: false when one of them is invalid.\<close>

definition date_after :: "clock \<Rightarrow> string \<Rightarrow> string \<Rightarrow> bool" where
  "date_after clk a b = (case (parse clk a, parse clk b) of (Some x, Some y) \<Rightarrow> y < x | _ \<Rightarrow>
    False)"

definition CHANGE_TYPES :: "string list" where
  "CHANGE_TYPES = [''configuration'', ''infrastructure'', ''code_deployment'']"

text \<open>The issues that both schemas find, by their path; the form is submitted when there is none.\<close>

definition change_issues :: "clock \<Rightarrow> ChangeRequestValues \<Rightarrow> (string \<times> string) list"
  where
  "change_issues clk v =
     (if js_trim (cf_title v) = [] then [(''title'', ''Title is required'')] else []) @
     (if cf_change_type v \<in> set CHANGE_TYPES then [] else [(''change_type'', ''Invalid input'')]) @
     (if cf_scheduled_start v = [] then [(''scheduled_start'', ''Scheduled start is required'')] else []) @
     (if cf_scheduled_end v = [] then [(''scheduled_end'', ''Scheduled end is required'')] else []) @
     (if cf_environment_ids v \<noteq> [] \<or> cf_host_ids v \<noteq> [] then []
      else [(''environment_ids'', ''Select at least one environment or host'')]) @
     (if date_after clk (cf_scheduled_end v) (cf_scheduled_start v) then []
      else [(''scheduled_end'', ''Scheduled end must be after start'')]) @
     (if cf_has_outage v \<and> (cf_outage_start v = [] \<or> cf_outage_end v = [])
      then [(''outage_start'', ''Outage start + end required when outage is flagged'')] else []) @
     (if cf_has_outage v \<and> cf_outage_start v \<noteq> [] \<and> cf_outage_end v \<noteq> [] \<and>
         \<not> date_after clk (cf_outage_end v) (cf_outage_start v)
      then [(''outage_end'', ''Outage end must be after outage start'')] else [])"

definition ChangeRequestForm_issues :: "clock \<Rightarrow> ChangeRequestValues \<Rightarrow> (string \<times>
  string) list" where
  "ChangeRequestForm_issues clk v =
     change_issues clk v @ (if cf_lifecycle_id v = None then [(''lifecycle_id'', ''Lifecycle is required'')] else
       [])"

definition ids :: "int list \<Rightarrow> json" where
  "ids xs = J_arr (map J_int xs)"

text \<open>The fields that the two payloads share; the date calls raise for a date that does not parse.\<close>

definition change_fields :: "clock \<Rightarrow> ChangeRequestValues \<Rightarrow> (string \<times> json) list
  option" where
  "change_fields clk v = do {
     ss \<leftarrow> iso clk (cf_scheduled_start v); se \<leftarrow> iso clk (cf_scheduled_end v);
     os \<leftarrow> (if cf_has_outage v \<and> cf_outage_start v \<noteq> [] then map_option J_str (iso clk
       (cf_outage_start v)) else Some J_null);
     oe \<leftarrow> (if cf_has_outage v \<and> cf_outage_end v \<noteq> [] then map_option J_str (iso clk
       (cf_outage_end v)) else Some J_null);
     Some [(''title'', J_str (js_trim (cf_title v))), (''description'', or_null (cf_description v)),
           (''change_type'', J_str (cf_change_type v)), (''environment_ids'', ids (cf_environment_ids v)),
           (''host_ids'', ids (cf_host_ids v)), (''scheduled_start'', J_str ss), (''scheduled_end'', J_str se),
           (''has_outage'', J_bool (cf_has_outage v)), (''outage_start'', os), (''outage_end'', oe),
           (''custom_fields'', if no_fields (cf_custom v) then J_null else cf_custom v)] }"

definition ChangeRequestForm_onSubmit :: "clock \<Rightarrow> ChangeRequestValues \<Rightarrow> save" where
  "ChangeRequestForm_onSubmit clk v =
     (case change_fields clk v of
        None \<Rightarrow> Raises
      | Some fs \<Rightarrow>
          let data = json_body (fs @ [(''lifecycle_id'', int_or_null (cf_lifecycle_id v)),
                                      (''subsystem_id'', int_or_null (cf_subsystem_id v))])
          in Sends (changeRequestService_create data) data)"

definition isoToLocalInput :: "clock \<Rightarrow> json \<Rightarrow> string" where
  "isoToLocalInput clk d0 =
     (case d0 of
        J_str s \<Rightarrow> if s = [] then [] else
          (case parse clk s of Some d \<Rightarrow> local_input clk d | None \<Rightarrow> ''NaN-NaN-NaNTNaN:NaN'')
      | _ \<Rightarrow> [])"

definition ints_of :: "json \<Rightarrow> int list" where
  "ints_of j = (case j of J_arr xs \<Rightarrow> concat (map (\<lambda>x. case x of J_int i \<Rightarrow> [i] | _
    \<Rightarrow> []) xs) | _ \<Rightarrow> [])"

definition ChangeRequestEditDialog_values :: "clock \<Rightarrow> json \<Rightarrow> ChangeRequestValues" where
  "ChangeRequestEditDialog_values clk r =
     \<lparr>cf_title = text_key ''title'' r, cf_description = text_key ''description'' r,
      cf_change_type = text_key ''change_type'' r, cf_lifecycle_id = None,
      cf_environment_ids = ints_of (row_key ''environment_ids'' r), cf_host_ids = ints_of (row_key ''host_ids'' r),
      cf_subsystem_id = None, cf_scheduled_start = isoToLocalInput clk (row_key ''scheduled_start'' r),
      cf_scheduled_end = isoToLocalInput clk (row_key ''scheduled_end'' r),
      cf_has_outage = truthy (row_key ''has_outage'' r),
      cf_outage_start = isoToLocalInput clk (row_key ''outage_start'' r),
      cf_outage_end = isoToLocalInput clk (row_key ''outage_end'' r),
      cf_custom = object_or_empty (row_key ''custom_fields'' r)\<rparr>"

definition ChangeRequestEditDialog_onSubmit :: "clock \<Rightarrow> json \<Rightarrow> ChangeRequestValues
  \<Rightarrow> save" where
  "ChangeRequestEditDialog_onSubmit clk r v =
     (case change_fields clk v of
        None \<Rightarrow> Raises
      | Some fs \<Rightarrow> Sends (changeRequestService_update (num_key ''id'' r) (json_body fs)) (json_body fs))"

text \<open>\<open>'error' in action\<close>: the message of the serialised error, never the payload.\<close>

definition action_message :: "string \<Rightarrow> rejected \<Rightarrow> string" where
  "action_message fallback r = nullish (rj_message r) fallback"

subsection \<open>The booking form\<close>

record BookingFormValues =
  bf_envIds :: "int list"
  bf_groupIds :: "int list"
  bf_projectName :: string
  bf_projectId :: "int option"
  bf_bookingTypeId :: "int option"
  bf_startDate :: string
  bf_endDate :: string
  bf_notes :: string
  bf_contextTag :: string
  bf_exclusiveUse :: bool
  bf_protectionLevel :: string
  bf_delegateUsers :: "int list"
  bf_custom :: json

definition BookingForm_buildDefaults :: "int list \<Rightarrow> BookingFormValues" where
  "BookingForm_buildDefaults envIds =
     \<lparr>bf_envIds = envIds, bf_groupIds = [], bf_projectName = [], bf_projectId = None, bf_bookingTypeId =
       None,
      bf_startDate = [], bf_endDate = [], bf_notes = [], bf_contextTag = ''none'', bf_exclusiveUse = False,
      bf_protectionLevel = ''soft'', bf_delegateUsers = [], bf_custom = J_obj []\<rparr>"

definition BookingForm_issues :: "BookingFormValues \<Rightarrow> (string \<times> string) list" where
  "BookingForm_issues v =
     (if js_trim (bf_projectName v) = [] then [(''projectName'', ''Purpose is required'')] else []) @
     (if bf_startDate v = [] then [(''startDate'', ''Start date is required'')] else []) @
     (if bf_endDate v = [] then [(''endDate'', ''End date is required'')] else []) @
     (if bf_contextTag v \<in> {''none'', ''deployment'', ''regression''} then [] else [(''contextTag'',
       ''Invalid input'')]) @
     (if bf_protectionLevel v \<in> {''soft'', ''hard''} then [] else [(''protectionLevel'', ''Invalid input'')]) @
     (if bf_envIds v \<noteq> [] \<or> bf_groupIds v \<noteq> [] then []
      else [(''envIds'', ''Select at least one environment or environment group'')])"

definition BookingForm_payload :: "BookingFormValues \<Rightarrow> int \<Rightarrow> string \<Rightarrow> string
  \<Rightarrow> json" where
  "BookingForm_payload v bookingType start' end' = json_body
     ([(''environment_ids'', ids (bf_envIds v))] @
      (if bf_groupIds v \<noteq> [] then [(''environment_group_ids'', ids (bf_groupIds v))] else []) @
      [(''project_name'', J_str (js_trim (bf_projectName v)))] @
      (case bf_projectId v of Some p \<Rightarrow> [(''project_id'', J_int p)] | None \<Rightarrow> []) @
      [(''start_date'', J_str start'), (''end_date'', J_str end'), (''booking_type_id'', J_int bookingType),
       (''exclusive_use_requested'', J_bool (bf_exclusiveUse v)), (''protection_level'', J_str (bf_protectionLevel
         v)),
       (''notes'', or_undefined (bf_notes v)), (''context_tag'', J_str (bf_contextTag v)),
       (''custom_fields'', bf_custom v),
       (''delegate_user_ids'', if bf_delegateUsers v \<noteq> [] then ids (bf_delegateUsers v) else J_undefined)])"

definition BookingForm_onSubmit :: "clock \<Rightarrow> BookingFormValues \<Rightarrow> save" where
  "BookingForm_onSubmit clk v =
     (case bf_bookingTypeId v of
        None \<Rightarrow> Refused ''Booking type is required''
      | Some t \<Rightarrow>
          (case (iso clk (bf_startDate v), iso clk (bf_endDate v)) of
             (Some a, Some b) \<Rightarrow> Sends (bookingRequestService_create (BookingForm_payload v t a b))
               (BookingForm_payload v t a b)
           | _ \<Rightarrow> Raises))"

text \<open>The type that the form starts with, the protection it brings, and the end that a type with a default
  duration sets while the
  user has not touched it.\<close>

definition default_booking_type :: "json list \<Rightarrow> int option \<Rightarrow> int option" where
  "default_booking_type bookingTypes chosen =
     (if chosen \<noteq> None then chosen
      else case find (\<lambda>bt. truthy (row_key ''is_active'' bt)) bookingTypes of
             Some bt \<Rightarrow> int_key ''id'' bt | None \<Rightarrow> None)"

definition default_protection :: "json \<Rightarrow> string" where
  "default_protection bt =
     (case row_key ''default_protection_level'' bt of J_str s \<Rightarrow> s | _ \<Rightarrow> ''soft'')"

definition default_end :: "clock \<Rightarrow> (date \<Rightarrow> date) \<Rightarrow> (date \<Rightarrow> date)
  \<Rightarrow> json option \<Rightarrow> string \<Rightarrow> bool \<Rightarrow> string \<Rightarrow>
    string" where
  "default_end clk wall of_wall bt startDate touched endDate =
     (case Option.bind bt (int_key ''default_duration_minutes'') of
        Some minutes \<Rightarrow>
          if minutes = 0 \<or> startDate = [] \<or> touched then endDate
          else (case parse clk startDate of Some d \<Rightarrow> local_input clk (addDuration wall of_wall d
            minutes) | None \<Rightarrow> endDate)
      | None \<Rightarrow> endDate)"

definition mayChooseProtection :: "string option \<Rightarrow> bool \<Rightarrow> bool" where
  "mayChooseProtection role' is_master_admin \<longleftrightarrow>
     role' = Some ''Admin'' \<or> role' = Some ''Release Manager'' \<or> is_master_admin"

subsection \<open>The environment request form\<close>

record RequestForm =
  rf_kind :: string
  rf_environmentId :: "int option"
  rf_proposedName :: string
  rf_tierId :: "int option"
  rf_expiresAt :: string
  rf_justification :: string

definition RequestForm_isValid :: "RequestForm \<Rightarrow> bool" where
  "RequestForm_isValid f \<longleftrightarrow>
     js_trim (rf_justification f) \<noteq> [] \<and>
     (if rf_kind f = ''access'' then rf_environmentId f \<noteq> None
      else js_trim (rf_proposedName f) \<noteq> [] \<and> rf_tierId f \<noteq> None \<and> rf_expiresAt f \<noteq>
        [])"

definition RequestForm_data :: "clock \<Rightarrow> RequestForm \<Rightarrow> json option" where
  "RequestForm_data clk f =
     (if rf_kind f = ''access''
      then Some (json_body [(''kind'', J_str (rf_kind f)), (''justification'', J_str (js_trim (rf_justification
        f))),
             (''environment_id'', int_or_null (rf_environmentId f))])
      else map_option (\<lambda>t. json_body
             [(''kind'', J_str (rf_kind f)), (''justification'', J_str (js_trim (rf_justification f))),
              (''proposed_name'', J_str (js_trim (rf_proposedName f))), (''tier_id'', int_or_null (rf_tierId f)),
              (''expires_at'', J_str t)]) (iso clk (rf_expiresAt f @ ''T00:00:00Z'')))"

text \<open>\<open>None\<close> when the button does nothing.\<close>

definition RequestForm_handleSubmit :: "clock \<Rightarrow> RequestForm \<Rightarrow> save option" where
  "RequestForm_handleSubmit clk f =
     (if RequestForm_isValid f
      then Some (case RequestForm_data clk f of
             Some data \<Rightarrow> Sends (environmentRequestService_createRequest data) data | None \<Rightarrow>
               Raises)
      else None)"

subsection \<open>What the user reads when the server refuses\<close>

definition SystemCatalog_saveFailed :: "rejected \<Rightarrow> string" where
  "SystemCatalog_saveFailed r = message_or_String ''Failed to save system'' (unwrapped r)"

definition SystemCatalog_deleteFailed :: "rejected \<Rightarrow> string" where
  "SystemCatalog_deleteFailed r = message_or_fallback ''Failed to delete system'' (unwrapped r)"

definition InfrastructureComponentList_saveFailed :: "rejected \<Rightarrow> string" where
  "InfrastructureComponentList_saveFailed r = message_or_String ''Failed to save host'' (unwrapped r)"

definition InfrastructureComponentList_deleteFailed :: "rejected \<Rightarrow> string" where
  "InfrastructureComponentList_deleteFailed r = message_or_String ''Failed to delete host'' (unwrapped r)"

definition EnvironmentList_saveFailed :: "rejected \<Rightarrow> string" where
  "EnvironmentList_saveFailed r = message_or_String ''Failed to save environment'' (unwrapped r)"

definition EnvironmentList_deleteFailed :: "rejected \<Rightarrow> string" where
  "EnvironmentList_deleteFailed r = message_or_fallback ''Failed to delete environment'' (unwrapped r)"

definition IncidentForm_saveFailed :: "rejected \<Rightarrow> string" where
  "IncidentForm_saveFailed r = extractErrorMessage ''Failed to save incident'' (unwrapped r)"

definition ChangeRequestForm_saveFailed :: "rejected \<Rightarrow> string" where
  "ChangeRequestForm_saveFailed r = action_message ''Failed to create change request'' r"

definition ChangeRequestEditDialog_saveFailed :: "rejected \<Rightarrow> string" where
  "ChangeRequestEditDialog_saveFailed r = action_message ''Failed to update change request'' r"

definition BookingForm_saveFailed :: "rejected \<Rightarrow> string" where
  "BookingForm_saveFailed r = nullish (rj_payload r) ''Failed to create booking request''"

definition RequestForm_saveFailed :: "rejected \<Rightarrow> string" where
  "RequestForm_saveFailed r = nullish (rj_payload r) ''Failed to create the request''"

end
