(* ===== verification/FormFacts.thy ===== *)
theory FormFacts
  imports Forms EnvironmentSlice WireTypes
begin

text \<open>
  What the forms guarantee: a payload that passes the form is one the handler's model accepts, an edit that changes
    nothing
  keeps the row; and what they lose: a cleared text, the subsystem of an incident, the reason of a refusal.
\<close>

subsection \<open>Bodies and rows\<close>

lemma map_of_filtered:
  "distinct (map fst fs) \<Longrightarrow> map_of (filter (\<lambda>f. snd f \<noteq> J_undefined) fs) k =
     (case map_of fs k of Some v \<Rightarrow> if v = J_undefined then None else Some v | None \<Rightarrow> None)"
proof (induction fs)
  case (Cons f fs)
  then have "fst f = k \<Longrightarrow> map_of fs k = None" by (auto simp: map_of_eq_None_iff)
  with Cons show ?case by (cases f) (auto split: option.split)
qed simp

lemma map_of_put: "map_of (put_field f m) k = (if k = fst f then Some (snd f) else map_of m k)"
proof (cases "fst f \<in> fst ` set m")
  case True
  then have "map_of m (fst f) \<noteq> None" by (simp add: map_of_eq_None_iff)
  moreover have "map_of (map (\<lambda>g. if fst g = fst f then f else g) m) k =
      (if k = fst f then map_option (\<lambda>_. snd f) (map_of m k) else map_of m k)"
    by (induction m) auto
  ultimately show ?thesis using True by (auto simp: put_field_def)
next
  case False
  then have "map_of m (fst f) = None" by (simp add: map_of_eq_None_iff)
  with False show ?thesis by (cases f) (auto simp: put_field_def map_add_def split: option.split)
qed

lemma map_of_put_all:
  "distinct (map fst fs) \<Longrightarrow> map_of (fold put_field fs m) k = (case map_of fs k of Some v
    \<Rightarrow> Some v | None \<Rightarrow> map_of m k)"
proof (induction fs arbitrary: m)
  case (Cons f fs)
  then have "fst f = k \<Longrightarrow> map_of fs k = None" by (auto simp: map_of_eq_None_iff)
  with Cons show ?case by (cases f) (auto simp: map_of_put split: option.split)
qed simp

text \<open>A patched row: the fields of the body, and the row's own where the body has none.\<close>

lemma row_key_patched:
  assumes "distinct (map fst fs)"
  shows "row_key k (merge_row (J_obj m) (json_body fs)) =
    (case map_of fs k of Some v \<Rightarrow> if v = J_undefined then row_key k (J_obj m) else v | None
      \<Rightarrow> row_key k (J_obj m))"
proof -
  have "distinct (map fst (filter (\<lambda>f. snd f \<noteq> J_undefined) fs))" using assms by (simp add:
    distinct_map_filter)
  then show ?thesis
    using assms
    by (simp add: merge_row_def json_body_def fields_of_def row_key_def get_prop_def map_of_put_all map_of_filtered
        split: option.split)
qed

text \<open>A field that is left out, or written with a value of the member's type.\<close>

definition fits :: "bool \<Rightarrow> ts \<Rightarrow> json \<Rightarrow> bool" where
  "fits r t v = (if v = J_undefined then \<not> r else has_type t v)"

lemma body_has_type:
  assumes "distinct (map fst fs)"
  shows "has_type (Obj ms) (json_body fs) \<longleftrightarrow>
    list_all (\<lambda>(k, r, t). case map_of fs k of None \<Rightarrow> \<not> r | Some v \<Rightarrow> fits r t
      v) ms"
  unfolding json_body_def has_type.simps json.case map_of_filtered [OF assms]
  by (rule list.pred_cong [OF refl]) (auto simp: fits_def split: option.split prod.split)

lemma fits_members [simp]:
  "fits r ts.Str (J_str s)" "fits r (nullable ts.Str) (J_str s)" "fits r (nullable ts.Str) J_null" "fits False t
    J_undefined"
  "fits r ts.Num (J_int i)" "fits r (nullable ts.Num) (J_int i)" "fits r (nullable ts.Num) J_null"
  "fits r ts.Bool (J_bool b)" "fits r (nullable ts.Bool) (J_bool b)" "fits r (nullable (Dict Any)) J_null"
  "fits False (nullable ts.Str) (or_undefined s)" "fits r (nullable ts.Str) (or_null s)"
  "fits r (nullable ts.Num) (int_or_null v)" "fits r (Arr ts.Num) (ids xs)" "fits r (nullable (Arr ts.Num)) (ids
    xs)"
  by (auto simp: fits_def or_undefined_def or_null_def int_or_null_def ids_def list_all_iff split: option.split)

lemma fits_custom [simp]: "has_type (Dict Any) c \<Longrightarrow> fits r (nullable (Dict Any)) c"
  by (auto simp: fits_def)

declare has_type.simps [simp del]

definition accepted :: "ts \<Rightarrow> save \<Rightarrow> bool" where
  "accepted t sv = (case sv of Sends c data \<Rightarrow> has_type t data | _ \<Rightarrow> True)"

lemma lits_fit [simp]:
  "v \<in> set ss \<Longrightarrow> fits r (lits ss) (J_str v)" "v \<in> set ss \<Longrightarrow> fits r (nullable
    (lits ss)) (J_str v)"
  by (auto simp: fits_def lits_def has_type.simps list_ex_iff)

lemma system_data_fits:
  assumes "has_type (Dict Any) (dl_custom d)"
  shows "has_type in_SystemCreate (SystemCatalog_data d)" "has_type in_SystemUpdate (SystemCatalog_data d)"
  using assms by (simp_all add: SystemCatalog_data_def in_SystemCreate_def in_SystemUpdate_def body_has_type)

definition HOST_TYPES :: "string list" where
  "HOST_TYPES = [''server'', ''container_runtime'', ''kubernetes_cluster'', ''managed_database'',
    ''load_balancer'', ''network'',
     ''cdn'', ''queue'', ''cache'', ''other'']"

lemma host_data_fits:
  assumes "hf_component_type f \<in> set HOST_TYPES" "hf_source f \<in> {''manual'', ''terraform'',
    ''docker_compose''}"
  shows "has_type in_InfrastructureComponentCreate (InfrastructureComponentList_data f)"
    "has_type in_InfrastructureComponentUpdate (InfrastructureComponentList_data f)"
proof -
  have t: "fits r (lits HOST_TYPES) (J_str (hf_component_type f))" "fits r (nullable (lits HOST_TYPES)) (J_str
    (hf_component_type f))"
    for r using assms by simp_all
  have u: "fits r (lits [''manual'', ''terraform'', ''docker_compose'']) (J_str (hf_source f))"
    "fits r (nullable (lits [''manual'', ''terraform'', ''docker_compose''])) (J_str (hf_source f))"
    for r using assms by (simp_all del: insert_iff singleton_iff)
  show "has_type in_InfrastructureComponentCreate (InfrastructureComponentList_data f)"
    by (simp add: InfrastructureComponentList_data_def in_InfrastructureComponentCreate_def body_has_type
        t [unfolded HOST_TYPES_def] u del: lits_fit)
  show "has_type in_InfrastructureComponentUpdate (InfrastructureComponentList_data f)"
    by (simp add: InfrastructureComponentList_data_def in_InfrastructureComponentUpdate_def body_has_type
        t [unfolded HOST_TYPES_def] u del: lits_fit)
qed

definition ENV_STATUSES :: "string list" where
  "ENV_STATUSES = [''active'', ''inactive'', ''maintenance'', ''decommissioned'']"

lemma set_id_Some: "set_id v \<Longrightarrow> \<exists>i. v = Some i"
  by (cases v) (auto simp: set_id_def)

lemma env_data_fits:
  assumes "has_type (Dict Any) (dl_custom d)" "ef_status (dl_form d) \<in> set ENV_STATUSES"
  shows "set_id (ef_tier_id (dl_form d)) \<Longrightarrow> set_id (ef_owner_user_id (dl_form d)) \<Longrightarrow>
      has_type in_EnvironmentCreate (EnvironmentList_data d (J_str t))"
    "has_type in_EnvironmentUpdate (EnvironmentList_data d (J_str t))"
    "has_type in_EnvironmentUpdate (EnvironmentList_data d J_null)"
proof -
  have s: "fits r (lits ENV_STATUSES) (J_str (ef_status (dl_form d)))"
    "fits r (nullable (lits ENV_STATUSES)) (J_str (ef_status (dl_form d)))" for r
    using assms by simp_all
  have n: "fits r ts.Num (int_or_null v)" if "set_id v" for r v
    using set_id_Some [OF that] by (auto simp: int_or_null_def)
  note s = s [unfolded ENV_STATUSES_def]
  show "set_id (ef_tier_id (dl_form d)) \<Longrightarrow> set_id (ef_owner_user_id (dl_form d)) \<Longrightarrow>
      has_type in_EnvironmentCreate (EnvironmentList_data d (J_str t))"
    using assms(1)
    by (simp add: EnvironmentList_data_def in_EnvironmentCreate_def body_has_type Let_def s n del: lits_fit)
  show "has_type in_EnvironmentUpdate (EnvironmentList_data d (J_str t))"
    "has_type in_EnvironmentUpdate (EnvironmentList_data d J_null)"
    using assms(1)
    by (simp_all add: EnvironmentList_data_def in_EnvironmentUpdate_def body_has_type Let_def s del: lits_fit)
qed

lemma incident_data_fits:
  assumes "has_type (Dict Any) (if_custom s)"
  shows "has_type in_IncidentUpdate (IncidentUpdate_payload s)"
    "has_type in_IncidentCreate (IncidentCreate_payload s (J_str t))"
    "has_type in_IncidentCreate (IncidentCreate_payload s J_undefined)"
  using assms
  by (simp_all add: IncidentUpdate_payload_def IncidentCreate_payload_def in_IncidentUpdate_def
    in_IncidentCreate_def
      body_has_type)

lemma issues_dates_parse:
  assumes "change_issues clk v = []"
  shows "\<exists>ss se. iso clk (cf_scheduled_start v) = Some ss \<and> iso clk (cf_scheduled_end v) = Some se"
    "cf_has_outage v \<Longrightarrow> \<exists>os oe. iso clk (cf_outage_start v) = Some os \<and> iso clk
      (cf_outage_end v) = Some oe"
  using assms by (auto simp: change_issues_def iso_def date_after_def split: if_splits option.splits)

lemma change_data_fits:
  assumes "has_type (Dict Any) (cf_custom v)" "change_fields clk v = Some fs"
  shows "cf_lifecycle_id v \<noteq> None \<Longrightarrow> has_type in_ChangeRequestCreate
      (json_body (fs @ [(''lifecycle_id'', int_or_null (cf_lifecycle_id v)), (''subsystem_id'', int_or_null
        (cf_subsystem_id v))]))"
    "has_type in_ChangeRequestUpdate (json_body fs)"
proof -
  from assms(2) obtain ss se os oe where fs: "fs =
      [(''title'', J_str (js_trim (cf_title v))), (''description'', or_null (cf_description v)),
       (''change_type'', J_str (cf_change_type v)), (''environment_ids'', ids (cf_environment_ids v)),
       (''host_ids'', ids (cf_host_ids v)), (''scheduled_start'', J_str ss), (''scheduled_end'', J_str se),
       (''has_outage'', J_bool (cf_has_outage v)), (''outage_start'', os), (''outage_end'', oe),
       (''custom_fields'', if no_fields (cf_custom v) then J_null else cf_custom v)]"
    and os: "os = J_null \<or> (\<exists>t. os = J_str t)" and oe: "oe = J_null \<or> (\<exists>t. oe = J_str t)"
    by (auto simp: change_fields_def bind_eq_Some_conv split: if_splits)
  have t: "fits r (nullable ts.Str) os" "fits r (nullable ts.Str) oe" for r using os oe by auto
  have c: "fits r (nullable (Dict Any)) (if no_fields (cf_custom v) then J_null else cf_custom v)" for r
    using assms(1) by simp
  show "has_type in_ChangeRequestUpdate (json_body fs)"
    unfolding fs by (simp add: in_ChangeRequestUpdate_def body_has_type t c del: if_split)
  show "has_type in_ChangeRequestCreate
      (json_body (fs @ [(''lifecycle_id'', int_or_null (cf_lifecycle_id v)), (''subsystem_id'', int_or_null
        (cf_subsystem_id v))]))"
    if "cf_lifecycle_id v \<noteq> None"
  proof -
    from that obtain l where "cf_lifecycle_id v = Some l" by auto
    then have "fits r ts.Num (int_or_null (cf_lifecycle_id v))" for r by (simp add: int_or_null_def)
    then show ?thesis
      unfolding fs by (simp add: in_ChangeRequestCreate_def body_has_type t c del: if_split)
  qed
qed

lemma booking_data_fits:
  assumes "has_type (Dict Any) (bf_custom v)" "bf_protectionLevel v \<in> {''soft'', ''hard''}"
  shows "has_type in_BookingRequestCreate (BookingForm_payload v t a b)"
proof -
  have p: "fits r (nullable (lits [''soft'', ''hard''])) (J_str (bf_protectionLevel v))" for r
    using assms(2) by (simp del: insert_iff singleton_iff)
  show ?thesis
    using assms(1)
    by (cases "bf_projectId v"; cases "bf_groupIds v = []"; cases "bf_delegateUsers v = []")
      (simp_all add: BookingForm_payload_def in_BookingRequestCreate_def body_has_type p del: lits_fit)
qed

lemma request_data_fits: "RequestForm_data clk f = Some data \<Longrightarrow> has_type in_EnvironmentRequestCreate
  data"
  by (auto simp: RequestForm_data_def in_EnvironmentRequestCreate_def body_has_type split: if_splits)

subsection \<open>Rows under an edit\<close>

lemma member_key: "has_type (Obj ms) (J_obj m) \<Longrightarrow> (k, True, t) \<in> set ms \<Longrightarrow>
  has_type t (row_key k (J_obj m))"
  by (auto simp: has_type.simps list_all_iff row_key_def get_prop_def split: option.splits)

lemma typed_values:
  "has_type ts.Str v \<longleftrightarrow> (\<exists>s. v = J_str s)" "has_type ts.Num v \<longleftrightarrow>
    (\<exists>i. v = J_int i)"
  "has_type (nullable t) v \<longleftrightarrow> has_type t v \<or> v = J_null" "has_type (lits ss) v
    \<longleftrightarrow> (\<exists>s \<in> set ss. v = J_str s)"
  "has_type (Dict Any) v \<longleftrightarrow> (\<exists>m. v = J_obj m)"
  by (auto simp: has_type.simps lits_def list_ex_iff list_all_iff split: json.splits)

text \<open>A field of the body that changes nothing in the row: it is left out, or it has the row's own
  value.\<close>

definition keeps :: "json \<Rightarrow> string \<times> json \<Rightarrow> bool" where
  "keeps r f \<longleftrightarrow> snd f = J_undefined \<or> snd f = row_key (fst f) r"

lemma patch_keeps:
  assumes "distinct (map fst fs)" "list_all (\<lambda>f. fst f \<in> set ex \<or> keeps (J_obj m) f) fs" "k
    \<notin> set ex"
  shows "row_key k (merge_row (J_obj m) (json_body fs)) = row_key k (J_obj m)"
proof (cases "map_of fs k")
  case (Some v)
  then have "keeps (J_obj m) (k, v)" using assms(2,3) by (fastforce simp: list_all_iff dest: map_of_SomeD)
  with Some show ?thesis by (auto simp: row_key_patched [OF assms(1)] keeps_def)
qed (simp add: row_key_patched [OF assms(1)])

lemma patch_sets:
  assumes "distinct (map fst fs)" "map_of fs k = Some v" "v \<noteq> J_undefined"
  shows "row_key k (merge_row (J_obj m) (json_body fs)) = v"
  using assms by (simp add: row_key_patched)

lemma keeps_text:
  "has_type ts.Str (row_key k r) \<Longrightarrow> keeps r (k, J_str (text_key k r))"
  "has_type (lits ss) (row_key k r) \<Longrightarrow> keeps r (k, J_str (text_key k r))"
  "has_type (nullable ts.Str) (row_key k r) \<Longrightarrow> keeps r (k, or_undefined (text_key k r))"
  "has_type (nullable ts.Num) (row_key k r) \<Longrightarrow> keeps r (k, int_or_null (int_key k r))"
  "has_type ts.Num (row_key k r) \<Longrightarrow> keeps r (k, int_or_null (int_key k r))"
  by (auto simp: keeps_def typed_values text_key_def or_undefined_def int_or_null_def int_key_def)

lemma system_edit_keeps:
  assumes "has_type SystemResponse (J_obj m)" "k \<noteq> ''custom_fields'' \<or> row_key ''custom_fields'' (J_obj
    m) \<noteq> J_null"
  shows "row_key k (merge_row (J_obj m) (SystemCatalog_data (SystemCatalog_openEdit (J_obj m)))) = row_key k (J_obj
    m)"
proof -
  note t = assms(1) [unfolded SystemResponse_def, THEN member_key]
  have "keeps (J_obj m) (''name'', J_str (text_key ''name'' (J_obj m)))"
    by (rule keeps_text(1)) (rule t, simp)
  moreover have "keeps (J_obj m) (''description'', or_undefined (text_key ''description'' (J_obj m)))"
    by (rule keeps_text(3)) (rule t, simp)
  moreover have "keeps (J_obj m) (''github_repository_url'', or_undefined (text_key ''github_repository_url''
    (J_obj m)))"
    by (rule keeps_text(3)) (rule t, simp)
  moreover have "has_type (nullable (Dict Any)) (row_key ''custom_fields'' (J_obj m))" by (rule t) simp
  then have "row_key ''custom_fields'' (J_obj m) = J_null \<or>
      keeps (J_obj m) (''custom_fields'', object_or_empty (row_key ''custom_fields'' (J_obj m)))"
    by (auto simp: typed_values keeps_def object_or_empty_def)
  ultimately show ?thesis
    using assms(2) unfolding SystemCatalog_data_def
    by (intro patch_keeps [where ex = "if row_key ''custom_fields'' (J_obj m) = J_null then [''custom_fields'']
      else []"])
      (auto simp: SystemCatalog_openEdit_def)
qed

lemma host_edit_keeps:
  assumes "has_type InfrastructureComponentResponse (J_obj m)"
  shows "row_key k (merge_row (J_obj m)
      (InfrastructureComponentList_data (dl_form (InfrastructureComponentList_openEdit (J_obj m))))) = row_key k
        (J_obj m)"
proof -
  note t = assms [unfolded InfrastructureComponentResponse_def, THEN member_key]
  have texts: "keeps (J_obj m) (''description'', or_undefined (text_key ''description'' (J_obj m)))"
    "keeps (J_obj m) (''provider'', or_undefined (text_key ''provider'' (J_obj m)))"
    "keeps (J_obj m) (''region'', or_undefined (text_key ''region'' (J_obj m)))"
    "keeps (J_obj m) (''location'', or_undefined (text_key ''location'' (J_obj m)))"
    "keeps (J_obj m) (''external_id'', or_undefined (text_key ''external_id'' (J_obj m)))"
    by (rule keeps_text(3), rule t, simp)+
  have "keeps (J_obj m) (''name'', J_str (text_key ''name'' (J_obj m)))"
    by (rule keeps_text(1)) (rule t, simp)
  moreover have "keeps (J_obj m) (''component_type'', J_str (text_key ''component_type'' (J_obj m)))"
    by (rule keeps_text(2) [OF t [of _ InfrastructureComponentType, unfolded InfrastructureComponentType_def]])
      (simp add: InfrastructureComponentType_def)
  moreover have "keeps (J_obj m) (''source'', J_str (text_key ''source'' (J_obj m)))"
    by (rule keeps_text(2) [OF t [of _ InfrastructureComponentSource, unfolded InfrastructureComponentSource_def]])
      (simp add: InfrastructureComponentSource_def)
  ultimately show ?thesis
    unfolding InfrastructureComponentList_data_def
    by (intro patch_keeps [where ex = "[]"]) (simp_all add: InfrastructureComponentList_openEdit_def texts)
qed

lemma env_edit_keeps:
  assumes "has_type EnvironmentResponse_t (J_obj m)" "k \<noteq> ''expires_at''"
    and "row_key ''operations_group_id'' (J_obj m) \<noteq> J_int 0"
    and "k \<noteq> ''custom_fields'' \<or> row_key ''custom_fields'' (J_obj m) \<noteq> J_null"
  shows "row_key k (merge_row (J_obj m) (EnvironmentList_data (EnvironmentList_openEdit (J_obj m)) at)) = row_key k
    (J_obj m)"
proof -
  note t = assms(1) [unfolded EnvironmentResponse_t_def, THEN member_key]
  have "keeps (J_obj m) (''name'', J_str (text_key ''name'' (J_obj m)))"
    by (rule keeps_text(1)) (rule t, simp)
  moreover have "keeps (J_obj m) (''description'', or_undefined (text_key ''description'' (J_obj m)))"
    by (rule keeps_text(3)) (rule t, simp)
  moreover have "keeps (J_obj m) (''tier_id'', int_or_null (int_key ''tier_id'' (J_obj m)))"
    by (rule keeps_text(5)) (rule t, simp)
  moreover have "keeps (J_obj m) (''owner_user_id'', int_or_null (int_key ''owner_user_id'' (J_obj m)))"
    by (rule keeps_text(4)) (rule t, simp)
  moreover have "keeps (J_obj m) (''status'', J_str (text_key ''status'' (J_obj m)))"
    by (rule keeps_text(2) [OF t [of _ EnvironmentStatus_t, unfolded EnvironmentStatus_t_def]])
      (simp add: EnvironmentStatus_t_def)
  moreover have "has_type (nullable (Dict Any)) (row_key ''custom_fields'' (J_obj m))" by (rule t) simp
  then have "row_key ''custom_fields'' (J_obj m) = J_null \<or>
      keeps (J_obj m) (''custom_fields'', object_or_empty (row_key ''custom_fields'' (J_obj m)))"
    by (auto simp: typed_values keeps_def object_or_empty_def)
  moreover have "has_type (nullable ts.Num) (row_key ''operations_group_id'' (J_obj m))" by (rule t) simp
  then have "keeps (J_obj m) (''operations_group_id'', if set_id (int_key ''operations_group_id'' (J_obj m))
      then int_or_null (int_key ''operations_group_id'' (J_obj m)) else J_null)"
    using assms(3) by (auto simp: typed_values keeps_def int_key_def int_or_null_def set_id_def)
  ultimately show ?thesis
    using assms(2,4) unfolding EnvironmentList_data_def Let_def
    by (intro patch_keeps [where ex = "''expires_at'' # (if row_key ''custom_fields'' (J_obj m) = J_null
          then [''custom_fields''] else [])"])
      (auto simp: EnvironmentList_openEdit_def simp del: if_split_asm)
qed

subsection \<open>What the forms guarantee\<close>

text \<open>Form by form.\<close>

lemma form_payloads_fit:
  assumes "has_type (Dict Any) (dl_custom sd)" "has_type (Dict Any) (dl_custom ed)" "has_type (Dict Any) (if_custom
    inc)"
    and "has_type (Dict Any) (cf_custom cv)" "has_type (Dict Any) (bf_custom bv)"
    and "hf_component_type (dl_form hd') \<in> set HOST_TYPES"
    and "hf_source (dl_form hd') \<in> {''manual'', ''terraform'', ''docker_compose''}"
    and "ef_status (dl_form ed) \<in> set ENV_STATUSES"
    and "ChangeRequestForm_issues clk cv = []" "BookingForm_issues bv = []"
  shows "accepted (if dl_target sd = None then in_SystemCreate else in_SystemUpdate) (SystemCatalog_handleSave sd)"
    and "accepted (if dl_target hd' = None then in_InfrastructureComponentCreate else
      in_InfrastructureComponentUpdate)
           (InfrastructureComponentList_handleSave hd')"
    and "accepted (if dl_target ed = None then in_EnvironmentCreate else in_EnvironmentUpdate)
      (EnvironmentList_handleSave clk ed)"
    and "accepted (if incident = None then in_IncidentCreate else in_IncidentUpdate) (IncidentForm_handleSubmit clk
      incident inc)"
    and "accepted in_ChangeRequestCreate (ChangeRequestForm_onSubmit clk cv) \<and> ChangeRequestForm_onSubmit clk
      cv \<noteq> Raises"
    and "accepted in_ChangeRequestUpdate (ChangeRequestEditDialog_onSubmit clk row cv) \<and>
         ChangeRequestEditDialog_onSubmit clk row cv \<noteq> Raises"
    and "accepted in_BookingRequestCreate (BookingForm_onSubmit clk bv)"
    and "case RequestForm_handleSubmit clk rf of Some sv \<Rightarrow> accepted in_EnvironmentRequestCreate sv |
      None \<Rightarrow> True"
proof -
  show "accepted (if dl_target sd = None then in_SystemCreate else in_SystemUpdate) (SystemCatalog_handleSave sd)"
    using system_data_fits [OF assms(1)] by (simp add: accepted_def SystemCatalog_handleSave_def split:
      option.split)
  show "accepted (if dl_target hd' = None then in_InfrastructureComponentCreate else
    in_InfrastructureComponentUpdate)
           (InfrastructureComponentList_handleSave hd')"
    using host_data_fits [OF assms(6,7)]
    by (simp add: accepted_def InfrastructureComponentList_handleSave_def Let_def split: option.split)
  show "accepted (if dl_target ed = None then in_EnvironmentCreate else in_EnvironmentUpdate)
    (EnvironmentList_handleSave clk ed)"
    using env_data_fits [OF assms(2,8)]
    by (simp add: accepted_def EnvironmentList_handleSave_def Let_def split: option.split)
  show "accepted (if incident = None then in_IncidentCreate else in_IncidentUpdate) (IncidentForm_handleSubmit clk
    incident inc)"
    using incident_data_fits [OF assms(3)] by (simp add: accepted_def IncidentForm_handleSubmit_def split:
      option.split)
  have issues: "change_issues clk cv = []" "cf_lifecycle_id cv \<noteq> None"
    using assms(9) by (auto simp: ChangeRequestForm_issues_def split: if_splits)
  have "change_fields clk cv \<noteq> None"
    using issues_dates_parse [OF issues(1)]
    by (cases "cf_has_outage cv"; cases "cf_outage_start cv = []"; cases "cf_outage_end cv = []") (auto simp:
      change_fields_def)
  then obtain fs where fs: "change_fields clk cv = Some fs" by auto
  show "accepted in_ChangeRequestCreate (ChangeRequestForm_onSubmit clk cv) \<and> ChangeRequestForm_onSubmit clk
    cv \<noteq> Raises"
    using change_data_fits [OF assms(4) fs] issues by (simp add: accepted_def ChangeRequestForm_onSubmit_def fs
      Let_def)
  show "accepted in_ChangeRequestUpdate (ChangeRequestEditDialog_onSubmit clk row cv) \<and>
         ChangeRequestEditDialog_onSubmit clk row cv \<noteq> Raises"
    using change_data_fits [OF assms(4) fs] by (simp add: accepted_def ChangeRequestEditDialog_onSubmit_def fs)
  have "bf_protectionLevel bv \<in> {''soft'', ''hard''}" using assms(10) by (auto simp: BookingForm_issues_def
    split: if_splits)
  from booking_data_fits [OF assms(5) this] show "accepted in_BookingRequestCreate (BookingForm_onSubmit clk bv)"
    by (simp add: accepted_def BookingForm_onSubmit_def split: option.split)
  show "case RequestForm_handleSubmit clk rf of Some sv \<Rightarrow> accepted in_EnvironmentRequestCreate sv |
    None \<Rightarrow> True"
    using request_data_fits by (auto simp: accepted_def RequestForm_handleSubmit_def split: option.split)
qed


definition sample_clock :: clock where
  "sample_clock = \<lparr>parse = (\<lambda>s. if s = [] then None else Some (if s = ''2026-01-02T09:00'' then 1
    else 0)),
     toISO = (\<lambda>d. ''2026-01-02T09:00:00.000Z''), local_input = (\<lambda>d. ''2026-01-02T09:00'')\<rparr>"

definition sample_change :: ChangeRequestValues where
  "sample_change = ChangeRequestForm_buildDefaults\<lparr>cf_title := ''Patch'', cf_lifecycle_id := Some 1,
    cf_environment_ids := [2],
     cf_scheduled_start := ''2026-01-02T08:00'', cf_scheduled_end := ''2026-01-02T09:00''\<rparr>"

definition sample_booking :: BookingFormValues where
  "sample_booking = (BookingForm_buildDefaults [2])\<lparr>bf_projectName := ''Test'', bf_bookingTypeId := Some 1,
     bf_startDate := ''2026-01-02T08:00'', bf_endDate := ''2026-01-02T09:00''\<rparr>"


text \<open>Dialog by dialog.\<close>

lemma unchanged_edit_kept:
  assumes "has_type SystemResponse (J_obj sys)" "has_type InfrastructureComponentResponse (J_obj host)"
    and "has_type EnvironmentResponse_t (J_obj env)" "row_key ''operations_group_id'' (J_obj env) \<noteq> J_int 0"
    and "EnvironmentList_handleSave clk (EnvironmentList_openEdit (J_obj env)) = Sends c data"
  shows "k \<noteq> ''custom_fields'' \<or> row_key ''custom_fields'' (J_obj sys) \<noteq> J_null \<Longrightarrow>
      row_key k (merge_row (J_obj sys) (SystemCatalog_data (SystemCatalog_openEdit (J_obj sys)))) = row_key k
        (J_obj sys)"
    and "row_key k (merge_row (J_obj host)
        (InfrastructureComponentList_data (dl_form (InfrastructureComponentList_openEdit (J_obj host))))) = row_key
          k (J_obj host)"
    and "k \<noteq> ''custom_fields'' \<or> row_key ''custom_fields'' (J_obj env) \<noteq> J_null \<Longrightarrow>
      k \<noteq> ''expires_at'' \<Longrightarrow>
      row_key k (merge_row (J_obj env) data) = row_key k (J_obj env)"
    and "row_key ''expires_at'' (J_obj env) = J_str (e # es) \<Longrightarrow>
      map_option J_str (iso clk (take 10 (e # es) @ ''T00:00:00Z'')) =
      Some (row_key ''expires_at'' (merge_row (J_obj env) data))"
proof -
  from assms(5) obtain at where data: "data = EnvironmentList_data (EnvironmentList_openEdit (J_obj env)) at"
    and at: "at = (if text_key ''expires_at'' (J_obj env) = [] then J_null
      else J_str (the (iso clk (take 10 (text_key ''expires_at'' (J_obj env)) @ ''T00:00:00Z''))))"
      "text_key ''expires_at'' (J_obj env) \<noteq> [] \<Longrightarrow> iso clk (take 10 (text_key ''expires_at''
        (J_obj env)) @ ''T00:00:00Z'') \<noteq> None"
    by (auto simp: EnvironmentList_handleSave_def EnvironmentList_openEdit_def Let_def split: if_splits
      option.splits)
  show "k \<noteq> ''custom_fields'' \<or> row_key ''custom_fields'' (J_obj sys) \<noteq> J_null \<Longrightarrow>
      row_key k (merge_row (J_obj sys) (SystemCatalog_data (SystemCatalog_openEdit (J_obj sys)))) = row_key k
        (J_obj sys)"
    by (rule system_edit_keeps [OF assms(1)])
  show "row_key k (merge_row (J_obj host)
        (InfrastructureComponentList_data (dl_form (InfrastructureComponentList_openEdit (J_obj host))))) = row_key
          k (J_obj host)"
    by (rule host_edit_keeps [OF assms(2)])
  show "k \<noteq> ''custom_fields'' \<or> row_key ''custom_fields'' (J_obj env) \<noteq> J_null \<Longrightarrow>
    k \<noteq> ''expires_at'' \<Longrightarrow>
      row_key k (merge_row (J_obj env) data) = row_key k (J_obj env)"
    unfolding data using env_edit_keeps [OF assms(3) _ assms(4)] by blast
  show "map_option J_str (iso clk (take 10 (e # es) @ ''T00:00:00Z'')) =
      Some (row_key ''expires_at'' (merge_row (J_obj env) data))" if "row_key ''expires_at'' (J_obj env) = J_str (e
        # es)"
  proof -
    from that have e: "text_key ''expires_at'' (J_obj env) = e # es" by (simp add: text_key_def)
    with at obtain s where s: "iso clk (take 10 (e # es) @ ''T00:00:00Z'') = Some s" and "at = J_str s" by auto
    then show ?thesis
      unfolding data EnvironmentList_data_def Let_def by (subst patch_sets) simp_all
  qed
qed


definition sample_system :: "(string \<times> json) list" where
  "sample_system = [(''id'', J_int 1), (''name'', J_str ''Billing''), (''description'', J_null), (''tenant_id'',
    J_int 1),
     (''github_repository_url'', J_str ''https://git''), (''custom_fields'', J_obj []), (''created_at'', J_str
       ''c''),
     (''updated_at'', J_str ''u'')]"

definition sample_host :: "(string \<times> json) list" where
  "sample_host = [(''id'', J_int 1), (''tenant_id'', J_int 1), (''name'', J_str ''db1''), (''description'', J_null),
     (''component_type'', J_str ''server''), (''provider'', J_str ''aws''), (''region'', J_null), (''location'',
       J_null),
     (''source'', J_str ''manual''), (''external_id'', J_null), (''custom_fields'', J_null), (''tags'', J_null),
     (''created_at'', J_str ''c''), (''updated_at'', J_str ''u'')]"

definition sample_env :: "(string \<times> json) list" where
  "sample_env = [(''id'', J_int 1), (''name'', J_str ''uat1''), (''description'', J_null), (''tier_id'', J_int 2),
     (''tier_name'', J_str ''UAT''), (''tier_color'', J_null), (''owner_user_id'', J_int 3), (''owner_username'',
       J_str ''ann''),
     (''expires_at'', J_str ''2026-01-02T17:00:00Z''), (''reserved_now'', J_bool False), (''idle'', J_bool False),
     (''decommission_state'', J_null), (''status'', J_str ''active''), (''tenant_id'', J_int 1),
       (''custom_fields'', J_obj []),
     (''operations_group_id'', J_null), (''operations_group_name'', J_null), (''access_url'', J_null),
     (''connection_notes'', J_null), (''support_contact'', J_null), (''sla_notes'', J_null),
       (''known_limitations'', J_null),
     (''decommission_notes'', J_null), (''created_at'', J_str ''c''), (''updated_at'', J_str ''u'')]"


subsection \<open>What the forms lose\<close>


text \<open>
  C16: The edit page of an incident that is opened before the incident is in the store drops its subsystem: loading
    the fields sets
  the system, and the effect that follows the system clears the subsystem that was just loaded. Saving without a
    change
  then takes the subsystem off the incident, while the system is kept.
\<close>

theorem incident_edit_drops_subsystem:
  assumes "row_key ''id'' (J_obj d) = J_int i" "row_key ''system_id'' (J_obj d) = J_int sys"
    and "row_key ''title'' (J_obj d) = J_str t" "js_trim t \<noteq> []" "row_key ''severity'' (J_obj d) = J_str (p
      # ps)"
    and "form = fold (IncidentForm_commit clk (Some i)) ([None, Some (n, J_obj d)] @ replicate (Suc k) (Some (n,
      J_obj d)))
           (IncidentForm_mount True)"
  shows "\<exists>c data. IncidentForm_handleSubmit clk (Some i) form = Sends c data \<and>
    row_key ''subsystem_id'' (merge_row (J_obj d) data) = J_null \<and>
    row_key ''system_id'' (merge_row (J_obj d) data) = J_int sys"
proof -
  let ?d = "Some (n, J_obj d)"
  define f where "f = fold (IncidentForm_commit clk (Some i)) [None, ?d, ?d] (IncidentForm_mount True)"
  have f: "if_loaded f = Some (Some n)" "if_reset_for f = Some (if_system f)" "if_system f = Some sys"
    "if_subsystem f = None"
    "if_title f = t" "if_severity f = p # ps"
    using assms(1-5)
    by (simp_all add: f_def IncidentForm_commit_def subsystem_effect_def load_effect_def IncidentForm_mount_def
      int_key_def
        text_key_def)
  then have "IncidentForm_commit clk (Some i) ?d f = f"
    by (simp add: IncidentForm_commit_def subsystem_effect_def load_effect_def)
  then have "fold (IncidentForm_commit clk (Some i)) (replicate j ?d) f = f" for j by (induction j) auto
  then have form: "form = f" unfolding assms(6) by (simp add: f_def)
  have "row_key ''subsystem_id'' (merge_row (J_obj d) (IncidentUpdate_payload f)) = J_null"
    "row_key ''system_id'' (merge_row (J_obj d) (IncidentUpdate_payload f)) = J_int sys"
    by (cases "no_fields (if_custom f)"; simp add: IncidentUpdate_payload_def row_key_patched f int_or_null_def)+
  then show ?thesis unfolding form using f assms(4) by (simp add: IncidentForm_handleSubmit_def)
qed

definition sample_incident :: "(string \<times> json) list" where
  "sample_incident = [(''id'', J_int 7), (''title'', J_str ''Down''), (''severity'', J_str ''P1''), (''system_id'',
    J_int 4),
     (''subsystem_id'', J_int 9)]"

theorem incident_edit_drops_subsystem_witness:
  "\<exists>c data. IncidentForm_handleSubmit sample_clock (Some 7)
       (fold (IncidentForm_commit sample_clock (Some 7)) [None, Some (0, J_obj sample_incident), Some (0, J_obj
         sample_incident)]
         (IncidentForm_mount True)) = Sends c data \<and>
     row_key ''subsystem_id'' (merge_row (J_obj sample_incident) data) = J_null \<and>
     row_key ''system_id'' (merge_row (J_obj sample_incident) data) = J_int 4 \<and>
     row_key ''subsystem_id'' (J_obj sample_incident) = J_int 9"
proof -
  have "row_key ''id'' (J_obj sample_incident) = J_int 7" "row_key ''system_id'' (J_obj sample_incident) = J_int 4"
    "row_key ''title'' (J_obj sample_incident) = J_str ''Down''" "js_trim ''Down'' \<noteq> []"
    "row_key ''severity'' (J_obj sample_incident) = J_str (CHR ''P'' # ''1'')"
    and r: "row_key ''subsystem_id'' (J_obj sample_incident) = J_int 9"
    by code_simp+
  from incident_edit_drops_subsystem [OF this(1-5), where clk = sample_clock and n = 0 and k = 0] show ?thesis
    unfolding r by simp
qed

text \<open>
  What the user reads when the server refuses a save with a reason. The dialogs of environments, bookings and
    environment requests
  show the reason. The dialogs of systems and hosts show [object Object] and the form of incidents its fixed
    sentence, whatever
  the server said, and the change request dialogs show the text of the HTTP status instead of the reason.
\<close>

theorem save_failures_shown:
  "SystemCatalog_saveFailed (reject_plain err) = ''[object Object]'' \<and>
   InfrastructureComponentList_saveFailed (reject_plain err) = ''[object Object]'' \<and>
   InfrastructureComponentList_deleteFailed (reject_plain err) = ''[object Object]'' \<and>
   IncidentForm_saveFailed (reject_plain err) = ''Failed to save incident'' \<and>
   ChangeRequestForm_saveFailed (reject_plain err) = nullish (ae_message err) ''Failed to create change request''
     \<and>
   EnvironmentList_deleteFailed (reject_plain err) = ''Failed to delete environment'' \<and>
   (case ae_detail err of
      Some (Detail_text s) \<Rightarrow>
        if js_trim s = [] then True
        else EnvironmentList_saveFailed (reject_with fallback err) = s \<and>
             BookingForm_saveFailed (reject_with fallback err) = s \<and>
             RequestForm_saveFailed (reject_with fallback err) = s
    | _ \<Rightarrow> True)"
  by (cases err)
    (auto simp: SystemCatalog_saveFailed_def InfrastructureComponentList_saveFailed_def
      InfrastructureComponentList_deleteFailed_def IncidentForm_saveFailed_def ChangeRequestForm_saveFailed_def
      EnvironmentList_deleteFailed_def EnvironmentList_saveFailed_def BookingForm_saveFailed_def
        RequestForm_saveFailed_def
      reject_plain_def reject_with_def unwrapped_def message_or_String_def message_or_fallback_def
        extractErrorMessage_def
      action_message_def formatApiError_text js_trim_def chain_def row_key_def get_prop_def Let_def split:
        option.split detail.split)

end
