(* ===== verification/DecommissionPanel.thy ===== *)
theory DecommissionPanel
  imports DecommissionSlice
begin

text \<open>
  The decommission panel of an environment (\<open>components/environments/DecommissionPanel.tsx\<close>): its
    state, its effects, its
  handlers, each in two halves around the call it awaits, and the controls it shows. Beside it the rules of the
    server for
  the same actions (\<open>environment_decommission_service.py\<close>), and one click as the composition of panel,
    server and slice.
\<close>

subsection \<open>The panel\<close>

record SignedStepView =
  sg_step_key :: string
  sg_signed_by_username :: "string option"
  sg_signed_at :: string
  sg_reference :: "string option"

record DecommissionPanelUser =
  pu_id :: js_id
  pu_username :: string
  pu_role :: string
  pu_is_master_admin :: bool

record DecommissionPanelEnvironment =
  pe_id :: js_id
  pe_owner_user_id :: "js_id option"
  pe_operations_group_id :: "js_id option"

record panel_props =
  pp_decommission :: "Decommission option"
  pp_remaining_bookings :: "RemainingBookingSummary list"
  pp_steps :: "DecommissionStep list"
  pp_env :: DecommissionPanelEnvironment
  pp_currentUser :: "DecommissionPanelUser option"

record panel =
  pn_inOperatingTeam :: bool
  pn_justInitiated :: "Decommission option"
  pn_signedSteps :: "SignedStepView list"
  pn_error :: "string option"
  pn_referenceDrafts :: "string \<Rightarrow> string option"
  pn_signing :: "string option"
  pn_tearingDown :: bool
  pn_deciding :: bool
  pn_extensionOpen :: bool
  pn_extensionReason :: string
  pn_extensionUntil :: string
  pn_extensionSubmitting :: bool
  pn_cancelOpen :: bool
  pn_cancelReason :: string
  pn_cancelSubmitting :: bool
  pn_initiateOpen :: bool
  pn_initiateReason :: string
  pn_initiateTeardown :: string
  pn_initiateSubmitting :: bool

text \<open>\<open>!value\<close> of a text or null; \<open>value || null\<close>.\<close>

definition unset :: "string option \<Rightarrow> bool" where
  "unset v \<longleftrightarrow> v = None \<or> v = Some []"

definition text_or_null :: "string \<Rightarrow> string option" where
  "text_or_null s = (if s = [] then None else Some s)"

definition toSignedStepViews :: "Attestation list option \<Rightarrow> SignedStepView list" where
  "toSignedStepViews attestations =
     map (\<lambda>a. \<lparr>sg_step_key = at_step_key a, sg_signed_by_username = at_signed_by_username a,
       sg_signed_at = at_signed_at a, sg_reference = at_reference a\<rparr>) (nullish attestations [])"

definition STATE_LABELS :: "DecommissionState \<Rightarrow> string" where
  "STATE_LABELS s = (case s of Warned \<Rightarrow> ''Warned'' | Due \<Rightarrow> ''Due'' | Extension_requested
    \<Rightarrow> ''Extension requested''
     | Torn_down \<Rightarrow> ''Torn down'' | Cancelled \<Rightarrow> ''Cancelled'')"

definition STATE_COLORS :: "DecommissionState \<Rightarrow> string" where
  "STATE_COLORS s = (case s of Warned \<Rightarrow> ''warning'' | Due \<Rightarrow> ''error'' | Extension_requested
    \<Rightarrow> ''info''
     | Torn_down \<Rightarrow> ''default'' | Cancelled \<Rightarrow> ''default'')"

definition isAdmin :: "DecommissionPanelUser option \<Rightarrow> bool" where
  "isAdmin currentUser = (case currentUser of Some u \<Rightarrow> pu_role u = ''Admin'' \<or> pu_is_master_admin u
    | None \<Rightarrow> False)"

definition isOwner :: "panel_props \<Rightarrow> bool" where
  "isOwner p = (case (pp_currentUser p, pe_owner_user_id (pp_env p)) of (Some u, Some i) \<Rightarrow> pu_id u = i
    | _ \<Rightarrow> False)"

text \<open>The effect that reads the operating team: the group whose members it asks for, if any, and what it
  makes of the answer.\<close>

definition team_effect_start :: "panel_props \<Rightarrow> panel \<Rightarrow> panel \<times> js_id option" where
  "team_effect_start p st =
     (if isAdmin (pp_currentUser p) then (st\<lparr>pn_inOperatingTeam := False\<rparr>, None)
      else case (pe_operations_group_id (pp_env p), pp_currentUser p) of
        (Some g, Some u) \<Rightarrow> if g = 0 then (st\<lparr>pn_inOperatingTeam := False\<rparr>, None) else
          (st, Some g)
      | _ \<Rightarrow> (st\<lparr>pn_inOperatingTeam := False\<rparr>, None))"

definition team_effect_end :: "DecommissionPanelUser \<Rightarrow> bool \<Rightarrow> ApiError + js_id list
  \<Rightarrow> panel \<Rightarrow> panel" where
  "team_effect_end currentUser cancelledEffect res st =
     (if cancelledEffect then st
      else case res of Inr rows \<Rightarrow> st\<lparr>pn_inOperatingTeam := list_ex (\<lambda>m. m = pu_id
        currentUser) rows\<rparr>
         | Inl e \<Rightarrow> st\<lparr>pn_inOperatingTeam := False\<rparr>)"

definition canRun :: "panel_props \<Rightarrow> panel \<Rightarrow> bool" where
  "canRun p st \<longleftrightarrow> isAdmin (pp_currentUser p) \<or> pn_inOperatingTeam st"

definition canDefend :: "panel_props \<Rightarrow> bool" where
  "canDefend p \<longleftrightarrow> isAdmin (pp_currentUser p) \<or> isOwner p"

definition effective :: "panel_props \<Rightarrow> panel \<Rightarrow> Decommission option" where
  "effective p st = (case pp_decommission p of Some d \<Rightarrow> Some d | None \<Rightarrow> pn_justInitiated
    st)"

text \<open>The effect on the id and the attestations of the decommission on screen.\<close>

definition signed_effect :: "panel_props \<Rightarrow> panel \<Rightarrow> panel" where
  "signed_effect p st = st\<lparr>pn_signedSteps := toSignedStepViews (map_option dc_attestations (effective p
    st))\<rparr>"

definition panel_mount :: "panel_props \<Rightarrow> panel" where
  "panel_mount p =
     \<lparr>pn_inOperatingTeam = False, pn_justInitiated = None,
      pn_signedSteps = toSignedStepViews (map_option dc_attestations (pp_decommission p)), pn_error = None,
      pn_referenceDrafts = (\<lambda>_. None), pn_signing = None, pn_tearingDown = False, pn_deciding = False,
      pn_extensionOpen = False, pn_extensionReason = [], pn_extensionUntil = [], pn_extensionSubmitting = False,
      pn_cancelOpen = False, pn_cancelReason = [], pn_cancelSubmitting = False, pn_initiateOpen = False,
      pn_initiateReason = [], pn_initiateTeardown = [], pn_initiateSubmitting = False\<rparr>"

definition isLive :: "Decommission \<Rightarrow> bool" where
  "isLive d \<longleftrightarrow> unset (dc_cancelled_at d) \<and> unset (dc_torn_down_at d)"

definition activeSteps :: "panel_props \<Rightarrow> DecommissionStep list" where
  "activeSteps p = filter ds_is_active (pp_steps p)"

definition signedKeys :: "panel \<Rightarrow> string set" where
  "signedKeys st = set (map sg_step_key (pn_signedSteps st))"

definition missingRequired :: "panel_props \<Rightarrow> panel \<Rightarrow> DecommissionStep list" where
  "missingRequired p st = filter (\<lambda>s. ds_is_required s \<and> ds_key s \<notin> signedKeys st) (activeSteps
    p)"

definition hasOpenExtensionRequest :: "Decommission \<Rightarrow> bool" where
  "hasOpenExtensionRequest d \<longleftrightarrow> dc_extension_requested_at d \<noteq> None \<and>
    dc_extension_decided_at d = None"

definition canRequestExtension :: "panel_props \<Rightarrow> Decommission \<Rightarrow> bool" where
  "canRequestExtension p d \<longleftrightarrow> canDefend p \<and> isLive d \<and> dc_extension_requested_at d =
    None"

definition canStartDecommission :: "panel_props \<Rightarrow> panel \<Rightarrow> bool" where
  "canStartDecommission p st \<longleftrightarrow> canRun p st \<and> \<not> (case effective p st of Some d
    \<Rightarrow> isLive d | None \<Rightarrow> False)"

text \<open>The controls the panel shows, in the order of the page, apart from the flags of calls under way;
  \<open>Tear_down\<close> is shown disabled
  while a required step is missing, and then it is not listed.\<close>

datatype control = Start_decommission | Request_extension | Decide_extension | Sign string | Tear_down |
  Cancel_decommission

definition controls :: "panel_props \<Rightarrow> panel \<Rightarrow> control list" where
  "controls p st =
     (if canStartDecommission p st then [Start_decommission] else []) @
     (case effective p st of
        None \<Rightarrow> []
      | Some d \<Rightarrow>
          (if canRequestExtension p d then [Request_extension] else []) @
          (if hasOpenExtensionRequest d \<and> canRun p st then [Decide_extension] else []) @
          concat (map (\<lambda>s. if find (\<lambda>a. sg_step_key a = ds_key s) (pn_signedSteps st) \<noteq> None
            then []
                           else if canRun p st \<and> isLive d then [Sign (ds_key s)] else []) (activeSteps p)) @
          (if canRun p st \<and> isLive d \<and> missingRequired p st = [] then [Tear_down] else []) @
          (if canRun p st \<and> unset (dc_cancelled_at d) then [Cancel_decommission] else []))"

subsection \<open>The handlers\<close>

text \<open>Before the call: the message goes, the button waits. After it: the message of the refusal, or the
  dialog closes.\<close>

definition refusal_text :: "string \<Rightarrow> rejected \<Rightarrow> string option" where
  "refusal_text fallback r = Some (nullish (rj_payload r) fallback)"

definition handleSign_start :: "string \<Rightarrow> panel \<Rightarrow> panel" where
  "handleSign_start stepKey st = st\<lparr>pn_error := None, pn_signing := Some stepKey\<rparr>"

definition handleSign_reference :: "string \<Rightarrow> panel \<Rightarrow> string option" where
  "handleSign_reference stepKey st = text_or_null (nullish (pn_referenceDrafts st stepKey) [])"

definition handleSign_end :: "panel_props \<Rightarrow> string \<Rightarrow> string \<Rightarrow> Attestation
  lifecycle \<Rightarrow> panel \<Rightarrow> panel" where
  "handleSign_end p nowIso stepKey result st =
     (case result of
        Rejected r \<Rightarrow> st\<lparr>pn_signing := None, pn_error := refusal_text
          ''Failed to sign this step'' r\<rparr>
      | _ \<Rightarrow> st\<lparr>pn_signing := None,
          pn_signedSteps := pn_signedSteps st @
            [\<lparr>sg_step_key = stepKey,
              sg_signed_by_username = Some (case pp_currentUser p of Some u \<Rightarrow> pu_username u | None
                \<Rightarrow> ''you''),
              sg_signed_at = nowIso, sg_reference = handleSign_reference stepKey st\<rparr>],
          pn_referenceDrafts := (pn_referenceDrafts st)(stepKey \<mapsto> [])\<rparr>)"

definition handleTearDown_start :: "panel \<Rightarrow> panel" where
  "handleTearDown_start st = st\<lparr>pn_error := None, pn_tearingDown := True\<rparr>"

definition handleTearDown_end :: "TeardownResult lifecycle \<Rightarrow> panel \<Rightarrow> panel" where
  "handleTearDown_end result st =
     (case result of
        Rejected r \<Rightarrow> st\<lparr>pn_tearingDown := False, pn_error := refusal_text
          ''Failed to tear down this environment'' r\<rparr>
      | _ \<Rightarrow> st\<lparr>pn_tearingDown := False\<rparr>)"

definition handleDecideExtension_start :: "panel \<Rightarrow> panel" where
  "handleDecideExtension_start st = st\<lparr>pn_error := None, pn_deciding := True\<rparr>"

definition handleDecideExtension_end :: "Decommission lifecycle \<Rightarrow> panel \<Rightarrow> panel" where
  "handleDecideExtension_end result st =
     (case result of
        Rejected r \<Rightarrow> st\<lparr>pn_deciding := False, pn_error := refusal_text
          ''Failed to record the extension decision'' r\<rparr>
      | _ \<Rightarrow> st\<lparr>pn_deciding := False\<rparr>)"

definition handleRequestExtension_start :: "panel \<Rightarrow> panel" where
  "handleRequestExtension_start st = st\<lparr>pn_error := None, pn_extensionSubmitting := True\<rparr>"

definition handleRequestExtension_end :: "Decommission lifecycle \<Rightarrow> panel \<Rightarrow> panel" where
  "handleRequestExtension_end result st =
     (case result of
        Rejected r \<Rightarrow> st\<lparr>pn_extensionSubmitting := False, pn_error := refusal_text
          ''Failed to request an extension'' r\<rparr>
      | _ \<Rightarrow> st\<lparr>pn_extensionSubmitting := False, pn_extensionOpen := False, pn_extensionReason :=
        [],
               pn_extensionUntil := []\<rparr>)"

definition handleCancel_start :: "panel \<Rightarrow> panel" where
  "handleCancel_start st = st\<lparr>pn_error := None, pn_cancelSubmitting := True\<rparr>"

definition handleCancel_end :: "Decommission lifecycle \<Rightarrow> panel \<Rightarrow> panel" where
  "handleCancel_end result st =
     (case result of
        Rejected r \<Rightarrow> st\<lparr>pn_cancelSubmitting := False, pn_error := refusal_text
          ''Failed to cancel this decommission'' r\<rparr>
      | _ \<Rightarrow> st\<lparr>pn_cancelSubmitting := False, pn_cancelOpen := False, pn_cancelReason :=
        []\<rparr>)"

definition handleInitiate_start :: "panel \<Rightarrow> panel" where
  "handleInitiate_start st = st\<lparr>pn_error := None, pn_initiateSubmitting := True\<rparr>"

text \<open>The payload has the date only when one was chosen.\<close>

definition handleInitiate_data :: "panel \<Rightarrow> string \<times> string option" where
  "handleInitiate_data st = (pn_initiateReason st, text_or_null (pn_initiateTeardown st))"

definition handleInitiate_end :: "Decommission lifecycle \<Rightarrow> panel \<Rightarrow> panel" where
  "handleInitiate_end result st =
     (case result of
        Rejected r \<Rightarrow> st\<lparr>pn_initiateSubmitting := False, pn_error := refusal_text
          ''Failed to start this decommission'' r\<rparr>
      | Fulfilled d \<Rightarrow> st\<lparr>pn_initiateSubmitting := False, pn_justInitiated := Some d,
        pn_initiateOpen := False,
                        pn_initiateReason := [], pn_initiateTeardown := []\<rparr>
      | Pending \<Rightarrow> st)"

text \<open>The buttons of the three dialogs, and the date that a day of the picker becomes.\<close>

definition initiate_enabled :: "panel \<Rightarrow> bool" where
  "initiate_enabled st \<longleftrightarrow> js_trim (pn_initiateReason st) \<noteq> [] \<and> \<not>
    pn_initiateSubmitting st"

definition extension_enabled :: "panel \<Rightarrow> bool" where
  "extension_enabled st \<longleftrightarrow>
     js_trim (pn_extensionReason st) \<noteq> [] \<and> pn_extensionUntil st \<noteq> [] \<and> \<not>
       pn_extensionSubmitting st"

definition cancel_enabled :: "panel \<Rightarrow> bool" where
  "cancel_enabled st \<longleftrightarrow> js_trim (pn_cancelReason st) \<noteq> [] \<and> \<not>
    pn_cancelSubmitting st"

definition setInitiateTeardown :: "string \<Rightarrow> panel \<Rightarrow> panel" where
  "setInitiateTeardown v st = st\<lparr>pn_initiateTeardown := (if v = [] then [] else v @ ''T00:00:00Z'')\<rparr>"

definition setExtensionUntil :: "string \<Rightarrow> panel \<Rightarrow> panel" where
  "setExtensionUntil v st = st\<lparr>pn_extensionUntil := v @ ''T00:00:00Z''\<rparr>"

end
