(* ===== verification/DecommissionServer.thy ===== *)
theory DecommissionServer
  imports DecommissionPanel
begin

text \<open>
  The server's rules for a decommission (\<open>backend/app/services/environment_decommission_service.py\<close>),
    for one environment:
  who may act, what is live, and what each operation refuses, in the order of its checks. The clock and the reading
    of
  dates are parameters; the rows are those that are not deleted, newest first.
\<close>

record moment =
  mo_now :: string
  mo_instant :: "string \<Rightarrow> int"
  mo_start_of_day :: int
  mo_plus_days :: "string \<Rightarrow> int \<Rightarrow> string"

datatype refusal = Not_found string | Forbidden string | Conflict string | Unprocessable string

record server =
  sv_environment_id :: js_id
  sv_owner_user_id :: "js_id option"
  sv_operations_group_id :: "js_id option"
  sv_decommissioned :: bool
  sv_members :: "(js_id \<times> js_id) list"
  sv_steps :: "DecommissionStep list"
  sv_notice_days :: int
  sv_rows :: "Decommission list"

subsection \<open>Who may act, and on what\<close>

definition list_members :: "server \<Rightarrow> js_id \<Rightarrow> js_id list" where
  "list_members s g = take 500 (map snd (filter (\<lambda>m. fst m = g) (sv_members s)))"

definition assert_may_run :: "server \<Rightarrow> DecommissionPanelUser \<Rightarrow> refusal option" where
  "assert_may_run s u =
     (if pu_role u = ''Admin'' \<or> pu_is_master_admin u then None
      else if (case sv_operations_group_id s of Some g \<Rightarrow> (g, pu_id u) \<in> set (sv_members s) | None
        \<Rightarrow> False) then None
      else Some (Forbidden
        ''Only the operating team for this environment, or an admin, can run its decommission''))"

definition assert_may_defend :: "server \<Rightarrow> DecommissionPanelUser \<Rightarrow> refusal option" where
  "assert_may_defend s u =
     (if pu_role u = ''Admin'' \<or> pu_is_master_admin u then None
      else if sv_owner_user_id s = Some (pu_id u) then None
      else Some (Forbidden ''Only this environment's owner, or an admin, can do this''))"

definition decommission_state :: "moment \<Rightarrow> Decommission \<Rightarrow> DecommissionState" where
  "decommission_state mo row =
     (if dc_cancelled_at row \<noteq> None then Cancelled
      else if dc_torn_down_at row \<noteq> None then Torn_down
      else if dc_extension_requested_at row \<noteq> None \<and> dc_extension_decided_at row = None then
        Extension_requested
      else if mo_start_of_day mo \<le> mo_instant mo (dc_scheduled_teardown_at row) then Warned else Due)"

definition live_predicate :: "Decommission \<Rightarrow> bool" where
  "live_predicate row \<longleftrightarrow> dc_cancelled_at row = None \<and> dc_torn_down_at row = None"

definition get_live :: "server \<Rightarrow> Decommission option" where
  "get_live s = find live_predicate (sv_rows s)"

definition get_most_recent :: "server \<Rightarrow> Decommission option" where
  "get_most_recent s = (case sv_rows s of [] \<Rightarrow> None | r # rs \<Rightarrow> Some r)"

definition get_decommission_by_id :: "server \<Rightarrow> js_id \<Rightarrow> Decommission option" where
  "get_decommission_by_id s i = find (\<lambda>r. dc_id r = i) (sv_rows s)"

definition assert_still_live :: "Decommission \<Rightarrow> refusal option" where
  "assert_still_live row =
     (if live_predicate row then None
      else Some (Conflict ''This decommission is no longer live: it has been cancelled or torn down''))"

definition missing_required_steps :: "server \<Rightarrow> Decommission \<Rightarrow> string list" where
  "missing_required_steps s row =
     filter (\<lambda>k. k \<notin> set (map at_step_key (dc_attestations row)))
       (map ds_key (filter ds_is_required (filter ds_is_active (sv_steps s))))"

text \<open>The first check that refuses.\<close>

fun first_refusal :: "refusal option list \<Rightarrow> refusal option" where
  "first_refusal [] = None"
| "first_refusal (Some r # cs) = Some r"
| "first_refusal (None # cs) = first_refusal cs"

definition to_read :: "moment \<Rightarrow> Decommission \<Rightarrow> Decommission" where
  "to_read mo row = row\<lparr>dc_state := decommission_state mo row\<rparr>"

definition save_row :: "Decommission \<Rightarrow> server \<Rightarrow> server" where
  "save_row row s = s\<lparr>sv_rows := map (\<lambda>r. if dc_id r = dc_id row then row else r) (sv_rows
    s)\<rparr>"

subsection \<open>The operations\<close>

definition refuse_when :: "bool \<Rightarrow> refusal \<Rightarrow> refusal option" where
  "refuse_when c r = (if c then Some r else None)"

definition initiate_checks :: "moment \<Rightarrow> server \<Rightarrow> DecommissionPanelUser \<Rightarrow> string
  \<times> string option \<Rightarrow> refusal option" where
  "initiate_checks mo s u data = first_refusal
     [assert_may_run s u,
      refuse_when (js_trim (fst data) = []) (Unprocessable ''A reason is required''),
      refuse_when (get_live s \<noteq> None) (Conflict ''This environment already has a live decommission''),
      refuse_when (case snd data of
          Some t \<Rightarrow> mo_instant mo t < mo_instant mo (mo_plus_days mo (mo_now mo) (sv_notice_days s)) |
            None \<Rightarrow> False)
        (Unprocessable ''scheduled_teardown_at cannot be earlier than the notice period'')]"

definition initiate :: "moment \<Rightarrow> js_id \<Rightarrow> server \<Rightarrow> DecommissionPanelUser
  \<Rightarrow> string \<times> string option \<Rightarrow>
    refusal + server \<times> Decommission" where
  "initiate mo new_id s u data =
     (case initiate_checks mo s u data of
        Some r \<Rightarrow> Inl r
      | None \<Rightarrow>
          let row = \<lparr>dc_id = new_id, dc_environment_id = sv_environment_id s, dc_reason = js_trim (fst data),
                dc_warned_at = mo_now mo,
                dc_scheduled_teardown_at = nullish (snd data) (mo_plus_days mo (mo_now mo) (sv_notice_days s)),
                dc_initiated_by = pu_id u, dc_extension_requested_at = None, dc_extension_reason = None,
                dc_extension_until = None, dc_extension_decided_at = None, dc_extension_granted = None,
                dc_torn_down_at = None, dc_cancelled_at = None, dc_cancel_reason = None, dc_state = Warned,
                dc_initiated_by_username = Some (pu_username u), dc_attestations = []\<rparr>
          in Inr (s\<lparr>sv_rows := row # sv_rows s\<rparr>, to_read mo row))"

definition request_extension_checks :: "moment \<Rightarrow> server \<Rightarrow> Decommission \<Rightarrow>
  DecommissionPanelUser \<Rightarrow> string \<Rightarrow> refusal option" where
  "request_extension_checks mo s row u until = first_refusal
     [assert_may_defend s u, assert_still_live row,
      refuse_when (dc_extension_requested_at row \<noteq> None)
        (Conflict ''This decommission already has an extension request on record''),
      refuse_when (mo_instant mo until \<le> mo_instant mo (dc_scheduled_teardown_at row))
        (Unprocessable ''until must be strictly later than the current scheduled_teardown_at'')]"

definition request_extension :: "moment \<Rightarrow> server \<Rightarrow> Decommission \<Rightarrow>
  DecommissionPanelUser \<Rightarrow> string \<times> string \<Rightarrow>
    refusal + server \<times> Decommission" where
  "request_extension mo s row u data =
     (case request_extension_checks mo s row u (snd data) of
        Some r \<Rightarrow> Inl r
      | None \<Rightarrow> let row = row\<lparr>dc_extension_requested_at := Some (mo_now mo), dc_extension_reason
        := Some (js_trim (fst data)),
                              dc_extension_until := Some (snd data)\<rparr>
                in Inr (save_row row s, to_read mo row))"

definition decide_extension_checks :: "server \<Rightarrow> Decommission \<Rightarrow> DecommissionPanelUser
  \<Rightarrow> refusal option" where
  "decide_extension_checks s row u = first_refusal
     [assert_may_run s u, assert_still_live row,
      refuse_when (dc_extension_requested_at row = None \<or> dc_extension_decided_at row \<noteq> None)
        (Conflict ''There is no undecided extension request on this decommission'')]"

definition decide_extension :: "moment \<Rightarrow> server \<Rightarrow> Decommission \<Rightarrow>
  DecommissionPanelUser \<Rightarrow> bool \<Rightarrow>
    refusal + server \<times> Decommission" where
  "decide_extension mo s row u granted =
     (case decide_extension_checks s row u of
        Some r \<Rightarrow> Inl r
      | None \<Rightarrow> let row = row\<lparr>dc_extension_decided_at := Some (mo_now mo), dc_extension_granted
        := Some granted,
                    dc_scheduled_teardown_at := (if granted then nullish (dc_extension_until row)
                      (dc_scheduled_teardown_at row)
                                                 else dc_scheduled_teardown_at row)\<rparr>
                in Inr (save_row row s, to_read mo row))"

definition sign_attestation_checks :: "server \<Rightarrow> Decommission \<Rightarrow> DecommissionPanelUser
  \<Rightarrow> string \<Rightarrow> refusal option" where
  "sign_attestation_checks s row u k = first_refusal
     [assert_may_run s u, assert_still_live row,
      refuse_when (k \<notin> set (map ds_key (sv_steps s))) (Unprocessable ''not a recognised decommission step''),
      refuse_when (k \<in> set (map at_step_key (dc_attestations row))) (Conflict ''already signed'')]"

definition sign_attestation :: "moment \<Rightarrow> js_id \<Rightarrow> server \<Rightarrow> Decommission
  \<Rightarrow> DecommissionPanelUser \<Rightarrow>
    string \<times> string option \<Rightarrow> refusal + server \<times> Attestation" where
  "sign_attestation mo new_id s row u data =
     (case sign_attestation_checks s row u (fst data) of
        Some r \<Rightarrow> Inl r
      | None \<Rightarrow>
          let a = \<lparr>at_id = new_id, at_decommission_id = dc_id row, at_step_key = fst data, at_signed_by =
            pu_id u,
                   at_signed_at = mo_now mo, at_reference = snd data, at_notes = None,
                   at_signed_by_username = Some (pu_username u)\<rparr>
          in Inr (save_row (row\<lparr>dc_attestations := dc_attestations row @ [a]\<rparr>) s, a))"

definition tear_down_checks :: "server \<Rightarrow> Decommission \<Rightarrow> DecommissionPanelUser \<Rightarrow>
  refusal option" where
  "tear_down_checks s row u = first_refusal
     [assert_may_run s u, assert_still_live row,
      refuse_when (missing_required_steps s row \<noteq> [])
        (Unprocessable (''Every required step must be signed before teardown. Still missing: '' @
          js_join '', '' (missing_required_steps s row)))]"

definition tear_down :: "moment \<Rightarrow> server \<Rightarrow> Decommission \<Rightarrow> DecommissionPanelUser
  \<Rightarrow> refusal + server \<times> Decommission" where
  "tear_down mo s row u =
     (case tear_down_checks s row u of
        Some r \<Rightarrow> Inl r
      | None \<Rightarrow> let row = row\<lparr>dc_torn_down_at := Some (mo_now mo)\<rparr>
                in Inr ((save_row row s)\<lparr>sv_decommissioned := True\<rparr>, to_read mo row))"

definition cancel_checks :: "server \<Rightarrow> Decommission \<Rightarrow> DecommissionPanelUser \<Rightarrow>
  string \<Rightarrow> refusal option" where
  "cancel_checks s row u reason = first_refusal
     [assert_may_run s u,
      refuse_when (dc_cancelled_at row \<noteq> None) (Conflict ''This decommission has already been cancelled''),
      refuse_when (js_trim reason = []) (Unprocessable ''A reason is required'')]"

definition cancel :: "moment \<Rightarrow> server \<Rightarrow> Decommission \<Rightarrow> DecommissionPanelUser
  \<Rightarrow> string \<Rightarrow> refusal + server \<times> Decommission" where
  "cancel mo s row u reason =
     (case cancel_checks s row u reason of
        Some r \<Rightarrow> Inl r
      | None \<Rightarrow> let row = row\<lparr>dc_cancelled_at := Some (mo_now mo), dc_cancel_reason := Some
        (js_trim reason)\<rparr>
                in Inr (save_row row s, to_read mo row))"

subsection \<open>One click\<close>

text \<open>What the user does: a control with what its dialog sends.\<close>

datatype click =
  Initiate string "string option"
| Extend string string
| Decide bool
| Sign_step string "string option"
| Tear
| Cancel_with string

definition control_of :: "click \<Rightarrow> control" where
  "control_of c = (case c of Initiate r t \<Rightarrow> Start_decommission | Extend r t \<Rightarrow>
    Request_extension | Decide g \<Rightarrow> Decide_extension
     | Sign_step k r \<Rightarrow> Sign k | Tear \<Rightarrow> Tear_down | Cancel_with r \<Rightarrow>
       Cancel_decommission)"

text \<open>The row of a path with an id.\<close>

definition with_row :: "server \<Rightarrow> js_id \<Rightarrow> (Decommission \<Rightarrow> refusal + 'r)
  \<Rightarrow> refusal + 'r" where
  "with_row s i f = (case get_decommission_by_id s i of Some row \<Rightarrow> f row | None \<Rightarrow> Inl
    (Not_found ''Decommission not found''))"

text \<open>The refusal of a click that names the decommission with an id, \<open>None\<close> when the server
  accepts it.\<close>

definition server_refusal :: "moment \<Rightarrow> server \<Rightarrow> DecommissionPanelUser \<Rightarrow> js_id
  option \<Rightarrow> click \<Rightarrow> refusal option" where
  "server_refusal mo s u i c =
     (case c of
        Initiate r t \<Rightarrow> initiate_checks mo s u (r, t)
      | _ \<Rightarrow> (case Option.bind i (get_decommission_by_id s) of
          None \<Rightarrow> Some (Not_found ''Decommission not found'')
        | Some row \<Rightarrow>
            (case c of
               Initiate r t \<Rightarrow> None
             | Extend r t \<Rightarrow> request_extension_checks mo s row u t
             | Decide g \<Rightarrow> decide_extension_checks s row u
             | Sign_step k r \<Rightarrow> sign_attestation_checks s row u k
             | Tear \<Rightarrow> tear_down_checks s row u
             | Cancel_with r \<Rightarrow> cancel_checks s row u r)))"

text \<open>The panel on the page of the environment, and the system of server, slice and panel.\<close>

record system =
  sy_server :: server
  sy_slice :: DecommissionSliceState
  sy_panel :: panel

definition page_props :: "DecommissionPanelUser \<Rightarrow> system \<Rightarrow> panel_props" where
  "page_props u sys =
     \<lparr>pp_decommission = current (sy_slice sys), pp_remaining_bookings = remainingBookings (sy_slice sys),
      pp_steps = filter ds_is_active (sv_steps (sy_server sys)),
      pp_env = \<lparr>pe_id = sv_environment_id (sy_server sys), pe_owner_user_id = sv_owner_user_id (sy_server
        sys),
        pe_operations_group_id = sv_operations_group_id (sy_server sys)\<rparr>,
      pp_currentUser = Some u\<rparr>"

definition api_error :: "refusal \<Rightarrow> ApiError" where
  "api_error r = \<lparr>ae_detail = Some (Detail_text (case r of Not_found t \<Rightarrow> t | Forbidden t
    \<Rightarrow> t | Conflict t \<Rightarrow> t | Unprocessable t \<Rightarrow> t)), ae_message = None\<rparr>"

definition answer :: "refusal + server \<times> 'p \<Rightarrow> server \<Rightarrow> server \<times> (ApiError +
  'p)" where
  "answer res s = (case res of Inl r \<Rightarrow> (s, Inl (api_error r)) | Inr (s', p) \<Rightarrow> (s', Inr p))"

text \<open>A write whose answer replaces the decommission on screen, after which the effect on its attestations
  runs.\<close>

definition settle :: "DecommissionPanelUser \<Rightarrow> DecommissionAction \<Rightarrow> server \<Rightarrow>
  (panel \<Rightarrow> panel) \<Rightarrow> bool \<Rightarrow> system \<Rightarrow> system" where
  "settle u act s' end_handler accepted sys =
     (let sys' = \<lparr>sy_server = s', sy_slice = decommission_reducer act (sy_slice sys), sy_panel = end_handler
       (sy_panel sys)\<rparr>
      in if accepted then sys'\<lparr>sy_panel := signed_effect (page_props u sys') (sy_panel sys')\<rparr> else
        sys')"

definition accepted_answer :: "ApiError + 'p \<Rightarrow> bool" where
  "accepted_answer r = (case r of Inr p \<Rightarrow> True | Inl e \<Rightarrow> False)"

definition teardown_result :: "RemainingBookingSummary list \<Rightarrow> Decommission \<Rightarrow>
  TeardownResult" where
  "teardown_result bookings d = Decommission.extend d (TeardownResult.fields bookings)"

definition panel_click :: "moment \<Rightarrow> js_id \<Rightarrow> RemainingBookingSummary list \<Rightarrow>
  DecommissionPanelUser \<Rightarrow> click \<Rightarrow> system \<Rightarrow>
    system" where
  "panel_click mo new_id bookings u c sys =
     (let p = page_props u sys; st = sy_panel sys; s = sy_server sys in
      if control_of c \<notin> set (controls p st) then sys
      else case (c, effective p st) of
        (Initiate reason teardown, _) \<Rightarrow>
          let st = handleInitiate_start (st\<lparr>pn_initiateReason := reason, pn_initiateTeardown := nullish
            teardown []\<rparr>);
              (s', r) = answer (initiate mo new_id s u (handleInitiate_data st)) s;
              l = thunk_with ''Failed to initiate decommissioning'' r
          in settle u (InitiateDecommission l) s' (handleInitiate_end l) (accepted_answer r) (sys\<lparr>sy_panel
            := st\<rparr>)
      | (Extend reason until, Some d) \<Rightarrow>
          let st = handleRequestExtension_start (st\<lparr>pn_extensionReason := reason, pn_extensionUntil :=
            until\<rparr>);
              (s', r) = answer (with_row s (dc_id d) (\<lambda>row. request_extension mo s row u (reason, until)))
                s;
              l = thunk_with ''Failed to request an extension'' r
          in settle u (RequestExtension l) s' (handleRequestExtension_end l) (accepted_answer r)
            (sys\<lparr>sy_panel := st\<rparr>)
      | (Decide granted, Some d) \<Rightarrow>
          let (s', r) = answer (with_row s (dc_id d) (\<lambda>row. decide_extension mo s row u granted)) s;
              l = thunk_with ''Failed to record the extension decision'' r
          in settle u (DecideExtension l) s' (handleDecideExtension_end l) (accepted_answer r)
               (sys\<lparr>sy_panel := handleDecideExtension_start st\<rparr>)
      | (Sign_step k reference, Some d) \<Rightarrow>
          let st = handleSign_start k (st\<lparr>pn_referenceDrafts := (pn_referenceDrafts st)(k :=
            reference)\<rparr>);
              (s', r) = answer (with_row s (dc_id d) (\<lambda>row. sign_attestation mo new_id s row u (k,
                handleSign_reference k st))) s;
              l = thunk_with ''Failed to sign this step'' r
          in settle u (SignAttestation l) s' (handleSign_end p (mo_now mo) k l) False (sys\<lparr>sy_panel :=
            st\<rparr>)
      | (Tear, Some d) \<Rightarrow>
          let (s', r) = answer (with_row s (dc_id d) (\<lambda>row. tear_down mo s row u)) s;
              l = thunk_with ''Failed to tear down this environment'' (map_sum id (teardown_result bookings) r)
          in settle u (TearDown l) s' (handleTearDown_end l) (accepted_answer r) (sys\<lparr>sy_panel :=
            handleTearDown_start st\<rparr>)
      | (Cancel_with reason, Some d) \<Rightarrow>
          let st = handleCancel_start (st\<lparr>pn_cancelReason := reason\<rparr>);
              (s', r) = answer (with_row s (dc_id d) (\<lambda>row. cancel mo s row u reason)) s;
              l = thunk_with ''Failed to cancel this decommission'' r
          in settle u (CancelDecommission l) s' (handleCancel_end l) (accepted_answer r) (sys\<lparr>sy_panel :=
            st\<rparr>)
      | (_, None) \<Rightarrow> sys)"

end
