(* ===== verification/DecommissionFacts.thy ===== *)
theory DecommissionFacts
  imports DecommissionServer
begin

text \<open>
  The panel against the server: while one user works on the page, the panel shows the server's row and its
    signatures after
  every click, and a control is shown exactly when the server would accept it, with one exception.
\<close>

subsection \<open>The panel agrees with the server\<close>

text \<open>Equal up to what the panel does not read from the row: the computed state, and the signatures, which it
  keeps itself.\<close>

definition same_record :: "Decommission \<Rightarrow> Decommission \<Rightarrow> bool" where
  "same_record d r \<longleftrightarrow> d\<lparr>dc_state := dc_state r, dc_attestations := dc_attestations
    r\<rparr> = r"

definition in_team :: "server \<Rightarrow> DecommissionPanelUser \<Rightarrow> bool" where
  "in_team s u = (case sv_operations_group_id s of Some g \<Rightarrow> (g, pu_id u) \<in> set (sv_members s) |
    None \<Rightarrow> False)"

definition stamped :: "Decommission \<Rightarrow> bool" where
  "stamped r \<longleftrightarrow> dc_cancelled_at r \<noteq> Some [] \<and> dc_torn_down_at r \<noteq> Some []"

definition head_only_live :: "Decommission list \<Rightarrow> bool" where
  "head_only_live rows \<longleftrightarrow> list_all (\<lambda>r. \<not> live_predicate r) (tl rows)"

definition agrees :: "DecommissionPanelUser \<Rightarrow> server \<Rightarrow> Decommission option \<Rightarrow>
  panel \<Rightarrow> bool" where
  "agrees u s cur st \<longleftrightarrow>
     (isAdmin (Some u) \<or> pn_inOperatingTeam st \<longleftrightarrow> isAdmin (Some u) \<or> in_team s u) \<and>
     head_only_live (sv_rows s) \<and> distinct (map dc_id (sv_rows s)) \<and> list_all stamped (sv_rows s) \<and>
     (case sv_rows s of
        [] \<Rightarrow> cur = None \<and> pn_justInitiated st = None
      | r # rs \<Rightarrow> (case cur of Some d \<Rightarrow> same_record d r | None \<Rightarrow> False) \<and>
                 signedKeys st = set (map at_step_key (dc_attestations r)))"

definition mirrors :: "DecommissionPanelUser \<Rightarrow> system \<Rightarrow> bool" where
  "mirrors u sys \<longleftrightarrow> agrees u (sy_server sys) (current (sy_slice sys)) (sy_panel sys)"

lemma same_record_fields:
  assumes "same_record d r"
  shows "dc_id d = dc_id r" "dc_cancelled_at d = dc_cancelled_at r" "dc_torn_down_at d = dc_torn_down_at r"
    "dc_extension_requested_at d = dc_extension_requested_at r" "dc_extension_decided_at d =
      dc_extension_decided_at r"
    "dc_scheduled_teardown_at d = dc_scheduled_teardown_at r"
  using assms by (cases d; cases r; simp add: same_record_def)+

lemma same_record_read [simp]: "same_record (to_read mo r) r"
  by (cases r) (simp add: same_record_def to_read_def)

lemma read_attestations [simp]: "dc_attestations (to_read mo r) = dc_attestations r"
  by (simp add: to_read_def)

lemma same_record_attested: "same_record d r \<Longrightarrow> same_record d (r\<lparr>dc_attestations :=
  as\<rparr>)"
  by (cases d; cases r) (simp add: same_record_def)

lemma signedKeys_views: "signedKeys (st\<lparr>pn_signedSteps := toSignedStepViews (Some as)\<rparr>) = set (map
  at_step_key as)"
  by (simp add: signedKeys_def toSignedStepViews_def comp_def)

lemma may_run_iff: "assert_may_run s u = None \<longleftrightarrow> isAdmin (Some u) \<or> in_team s u"
  by (simp add: assert_may_run_def isAdmin_def in_team_def)

lemma first_refusal_None [simp]: "first_refusal cs = None \<longleftrightarrow> list_all (\<lambda>c. c = None) cs"
  by (induction cs rule: first_refusal.induct) auto

lemma refuse_when_None [simp]: "refuse_when c r = None \<longleftrightarrow> \<not> c"
  by (simp add: refuse_when_def)

text \<open>A click of the panel on the head row, and what saving it does to the rows.\<close>

lemma agrees_row:
  assumes "agrees u s cur st" "sv_rows s = r # rs"
  obtains d where "cur = Some d" "same_record d r" "get_decommission_by_id s (dc_id d) = Some r"
    "signedKeys st = set (map at_step_key (dc_attestations r))"
    "\<And>r'. dc_id r' = dc_id r \<Longrightarrow> sv_rows (save_row r' s) = r' # rs" "stamped r"
proof -
  from assms obtain d where d: "cur = Some d" "same_record d r" and k: "signedKeys st = set (map at_step_key
    (dc_attestations r))"
    by (auto simp: agrees_def split: option.splits)
  have "get_decommission_by_id s (dc_id d) = Some r"
    by (simp add: get_decommission_by_id_def assms(2) same_record_fields [OF d(2)])
  moreover have "sv_rows (save_row r' s) = r' # rs" if "dc_id r' = dc_id r" for r'
  proof -
    have "dc_id r \<notin> dc_id ` set rs" using assms by (simp add: agrees_def)
    then have "map (\<lambda>x. if dc_id x = dc_id r then r' else x) rs = rs" by (intro map_idI) (metis image_eqI)
    with that show ?thesis by (simp add: save_row_def assms(2))
  qed
  ultimately show ?thesis using that d k assms by (auto simp: agrees_def)
qed

lemma agrees_saved:
  assumes "agrees u s cur st" "sv_rows s = r # rs" "dc_id r' = dc_id r" "stamped r'"
    and "sv_rows s' = r' # rs" "sv_operations_group_id s' = sv_operations_group_id s" "sv_members s' = sv_members s"
    and "pn_inOperatingTeam st' = pn_inOperatingTeam st" "cur' = Some d'" "same_record d' r'"
    and "signedKeys st' = set (map at_step_key (dc_attestations r'))"
  shows "agrees u s' cur' st'"
proof -
  have "in_team s' u = in_team s u" using assms(6,7) by (simp add: in_team_def split: option.split)
  with assms show ?thesis by (simp add: agrees_def head_only_live_def)
qed

lemma agrees_panel:
  assumes "agrees u s cur st" "pn_inOperatingTeam st' = pn_inOperatingTeam st" "signedKeys st' = signedKeys st"
    "pn_justInitiated st' = pn_justInitiated st"
  shows "agrees u s cur st'"
  using assms by (simp add: agrees_def split: list.splits)

subsection \<open>What is offered, and what is accepted\<close>

text \<open>What the dialogs leave to the server: a reason that is not blank, and dates that respect the
  notice.\<close>

definition fair_input :: "moment \<Rightarrow> server \<Rightarrow> Decommission option \<Rightarrow> click
  \<Rightarrow> bool" where
  "fair_input mo s d c =
     (case c of
        Initiate reason t \<Rightarrow> js_trim reason \<noteq> [] \<and>
          (case t of Some t \<Rightarrow> mo_instant mo (mo_plus_days mo (mo_now mo) (sv_notice_days s)) \<le>
            mo_instant mo t | None \<Rightarrow> True)
      | Extend reason until \<Rightarrow>
          (case d of Some d \<Rightarrow> mo_instant mo (dc_scheduled_teardown_at d) < mo_instant mo until | None
            \<Rightarrow> True)
      | Sign_step k r \<Rightarrow> k \<in> set (map ds_key (filter ds_is_active (sv_steps s)))
      | Cancel_with reason \<Rightarrow> js_trim reason \<noteq> []
      | _ \<Rightarrow> True)"

lemma page_props_simps [simp]:
  "pp_decommission (page_props u sys) = current (sy_slice sys)" "pp_currentUser (page_props u sys) = Some u"
  "pp_steps (page_props u sys) = filter ds_is_active (sv_steps (sy_server sys))"
  "pe_owner_user_id (pp_env (page_props u sys)) = sv_owner_user_id (sy_server sys)"
  by (simp_all add: page_props_def)

lemma effective_current [simp]: "current (sy_slice sys) = Some d \<Longrightarrow> effective (page_props u sys) st
  = Some d"
  by (simp add: effective_def)

lemma may_defend_iff: "assert_may_defend (sy_server sys) u = None \<longleftrightarrow> canDefend (page_props u
  sys)"
  by (auto simp: assert_may_defend_def canDefend_def isAdmin_def isOwner_def split: option.split)

lemma find_None: "find P xs = None \<longleftrightarrow> list_all (\<lambda>x. \<not> P x) xs"
  by (induction xs) auto

lemma signed_found: "find (\<lambda>a. sg_step_key a = k) (pn_signedSteps st) \<noteq> None \<longleftrightarrow> k
  \<in> signedKeys st"
  by (auto simp: find_None_iff signedKeys_def)

lemma live_unset: "stamped r \<Longrightarrow> unset (dc_cancelled_at r) \<longleftrightarrow> dc_cancelled_at r =
  None"
  "stamped r \<Longrightarrow> unset (dc_torn_down_at r) \<longleftrightarrow> dc_torn_down_at r = None"
  by (auto simp: stamped_def unset_def)

lemma missing_agree:
  assumes "signedKeys st = set (map at_step_key (dc_attestations r))"
  shows "missingRequired (page_props u sys) st = [] \<longleftrightarrow> missing_required_steps (sy_server sys) r
    = []"
  unfolding missing_required_steps_def missingRequired_def activeSteps_def page_props_simps assms
  by (auto simp: filter_empty_conv)

lemma controls_of_row:
  assumes "mirrors u sys" "sv_rows (sy_server sys) = r # rs"
  shows "set (controls (page_props u sys) (sy_panel sys)) =
    {c. case c of
       Start_decommission \<Rightarrow> assert_may_run (sy_server sys) u = None \<and> \<not> live_predicate r
     | Request_extension \<Rightarrow> assert_may_defend (sy_server sys) u = None \<and> live_predicate r \<and>
       dc_extension_requested_at r = None
     | Decide_extension \<Rightarrow> assert_may_run (sy_server sys) u = None \<and> dc_extension_requested_at r
       \<noteq> None \<and>
         dc_extension_decided_at r = None
     | Sign k \<Rightarrow> assert_may_run (sy_server sys) u = None \<and> live_predicate r \<and>
         k \<in> set (map ds_key (filter ds_is_active (sv_steps (sy_server sys)))) \<and> k \<notin> set (map
           at_step_key (dc_attestations r))
     | Tear_down \<Rightarrow> assert_may_run (sy_server sys) u = None \<and> live_predicate r \<and>
       missing_required_steps (sy_server sys) r = []
     | Cancel_decommission \<Rightarrow> assert_may_run (sy_server sys) u = None \<and> dc_cancelled_at r = None}"
proof -
  from assms obtain d where d: "current (sy_slice sys) = Some d" "same_record d r"
    and k: "signedKeys (sy_panel sys) = set (map at_step_key (dc_attestations r))" and st: "stamped r"
    unfolding mirrors_def by (rule agrees_row)
  note same = same_record_fields [OF d(2)]
  have run: "canRun (page_props u sys) (sy_panel sys) \<longleftrightarrow> assert_may_run (sy_server sys) u = None"
    using assms by (simp add: mirrors_def agrees_def canRun_def may_run_iff)
  have live: "isLive d \<longleftrightarrow> live_predicate r"
    using live_unset [OF st] by (simp add: isLive_def live_predicate_def same)
  note cancelled = live_unset(1) [OF st]
  show ?thesis
    unfolding controls_def canStartDecommission_def canRequestExtension_def hasOpenExtensionRequest_def run
      signed_found k
      may_defend_iff [symmetric] missing_agree [OF k] effective_current [OF d(1)] option.case live cancelled same
    by (rule set_eqI, rename_tac c, case_tac c) (auto simp: activeSteps_def)
qed

lemma controls_of_none:
  assumes "mirrors u sys" "sv_rows (sy_server sys) = []"
  shows "set (controls (page_props u sys) (sy_panel sys)) =
    (if assert_may_run (sy_server sys) u = None then {Start_decommission} else {})"
    "effective (page_props u sys) (sy_panel sys) = None"
proof -
  from assms show e: "effective (page_props u sys) (sy_panel sys) = None"
    by (simp add: mirrors_def agrees_def effective_def)
  have run: "canRun (page_props u sys) (sy_panel sys) \<longleftrightarrow> assert_may_run (sy_server sys) u = None"
    using assms by (simp add: mirrors_def agrees_def canRun_def may_run_iff)
  show "set (controls (page_props u sys) (sy_panel sys)) =
      (if assert_may_run (sy_server sys) u = None then {Start_decommission} else {})"
    by (simp add: controls_def canStartDecommission_def e run)
qed

text \<open>
  C13: Offered and accepted agree. On a panel that agrees with the server, a control is shown, enabled, exactly
    when the server would
  accept the click, given the inputs that the dialogs leave to the server: no control is missing for whoever may
    act, and none
  leads to a refusal. The one exception is the decision on an extension: the panel still offers it on a
    decommission that has
  ended with the request undecided, where the server refuses it.
\<close>

theorem offered_exactly_when_accepted:
  assumes "mirrors u sys" "fair_input mo (sy_server sys) (current (sy_slice sys)) c"
  shows "control_of c \<in> set (controls (page_props u sys) (sy_panel sys)) \<longleftrightarrow>
    server_refusal mo (sy_server sys) u (map_option dc_id (effective (page_props u sys) (sy_panel sys))) c = None
      \<or>
    (case (c, sv_rows (sy_server sys)) of
       (Decide g, r # rs) \<Rightarrow> assert_may_run (sy_server sys) u = None \<and> hasOpenExtensionRequest r
         \<and> \<not> live_predicate r
     | _ \<Rightarrow> False)"
proof (cases "sv_rows (sy_server sys)")
  case Nil
  show ?thesis
    using assms(2) by (cases c) (auto simp: controls_of_none [OF assms(1) Nil] control_of_def server_refusal_def
      initiate_checks_def
        get_live_def Nil fair_input_def split: option.splits)
next
  case (Cons r rs)
  from assms(1) obtain d where d: "current (sy_slice sys) = Some d" "same_record d r"
    and g: "get_decommission_by_id (sy_server sys) (dc_id d) = Some r"
    unfolding mirrors_def by (rule agrees_row [OF _ Cons]) blast
  note same = same_record_fields [OF d(2)]
  note g = g [unfolded same]
  have live: "get_live (sy_server sys) = None \<longleftrightarrow> \<not> live_predicate r"
    using assms(1) Cons by (auto simp: mirrors_def agrees_def head_only_live_def get_live_def find_None
      list_all_iff)
  have active: "k \<in> set (map ds_key (sv_steps (sy_server sys)))"
    if "k \<in> set (map ds_key (filter ds_is_active (sv_steps (sy_server sys))))" for k
    using that by auto
  show ?thesis
    using assms(2) active
    by (cases c) (auto simp: controls_of_row [OF assms(1) Cons] control_of_def server_refusal_def
      initiate_checks_def live Cons
        effective_current [OF d(1)] g d(1) fair_input_def request_extension_checks_def decide_extension_checks_def
        sign_attestation_checks_def tear_down_checks_def cancel_checks_def assert_still_live_def
          hasOpenExtensionRequest_def same
        split: option.splits if_splits)
qed

subsection \<open>Clicks\<close>

lemma signed_effect_shown:
  "current (sy_slice sys) = Some d \<Longrightarrow>
   signed_effect (page_props u sys) st = st\<lparr>pn_signedSteps := toSignedStepViews (Some (dc_attestations
     d))\<rparr>"
  by (simp add: signed_effect_def)

lemma settle_refused:
  assumes "mirrors u sys" "current (decommission_reducer act (sy_slice sys)) = current (sy_slice sys)"
    and "pn_inOperatingTeam (endh (sy_panel sys)) = pn_inOperatingTeam (sy_panel sys)"
      "signedKeys (endh (sy_panel sys)) = signedKeys (sy_panel sys)"
      "pn_justInitiated (endh (sy_panel sys)) = pn_justInitiated (sy_panel sys)"
  shows "mirrors u (settle u act (sy_server sys) endh False sys)"
  using assms agrees_panel [OF _ assms(3-5)] by (simp add: mirrors_def settle_def)

lemma settle_saved:
  assumes "mirrors u sys" "sv_rows (sy_server sys) = r # rs" "dc_id r' = dc_id r" "stamped r'" "sv_rows s' = r' #
    rs"
    and "sv_operations_group_id s' = sv_operations_group_id (sy_server sys)" "sv_members s' = sv_members (sy_server
      sys)"
    and "current (decommission_reducer act (sy_slice sys)) = Some (to_read mo r')"
    and "pn_inOperatingTeam (endh (sy_panel sys)) = pn_inOperatingTeam (sy_panel sys)"
  shows "mirrors u (settle u act s' endh True sys)"
proof -
  have a: "dc_attestations (to_read mo r') = dc_attestations r'" by (simp add: to_read_def)
  show ?thesis
    unfolding mirrors_def
    by (rule agrees_saved [OF assms(1) [unfolded mirrors_def] assms(2-4), where d' = "to_read mo r'"])
      (simp_all add: settle_def assms signed_effect_shown signedKeys_views a)
qed

lemma update_shown:
  "current sl = Some d \<Longrightarrow> dc_id d' = dc_id d \<Longrightarrow> current (update_current d' sl) = Some
    d'"
  by (simp add: update_current_def)

lemma mirrors_panel:
  "mirrors u sys \<Longrightarrow> pn_inOperatingTeam st' = pn_inOperatingTeam (sy_panel sys) \<Longrightarrow>
    signedKeys st' = signedKeys (sy_panel sys) \<Longrightarrow>
   pn_justInitiated st' = pn_justInitiated (sy_panel sys) \<Longrightarrow> mirrors u (sys\<lparr>sy_panel :=
     st'\<rparr>)"
  unfolding mirrors_def using agrees_panel by simp

lemmas panel_halves =
  handleInitiate_start_def handleInitiate_end_def handleRequestExtension_start_def handleRequestExtension_end_def
  handleDecideExtension_start_def handleDecideExtension_end_def handleSign_start_def handleSign_end_def
  handleTearDown_start_def handleTearDown_end_def handleCancel_start_def handleCancel_end_def signedKeys_def

text \<open>The answer of a write on the row of the panel.\<close>

lemma answer_row:
  assumes "mirrors u sys" "sv_rows (sy_server sys) = r # rs" "current (sy_slice sys) = Some d"
  shows "with_row (sy_server sys) (dc_id d) f = f r"
proof -
  from assms have "get_decommission_by_id (sy_server sys) (dc_id d) = Some r"
    unfolding mirrors_def by (metis agrees_row option.inject)
  then show ?thesis by (simp add: with_row_def)
qed

lemma save_row_simps [simp]:
  "sv_operations_group_id (save_row r' s) = sv_operations_group_id s" "sv_members (save_row r' s) = sv_members s"
  by (simp_all add: save_row_def)

text \<open>A write of the server on the head row: what it answers is the row it saved, still the head and still
  stamped.\<close>

definition row_write :: "moment \<Rightarrow> server \<Rightarrow> Decommission \<Rightarrow> Decommission list
  \<Rightarrow> refusal + server \<times> Decommission \<Rightarrow> bool" where
  "row_write mo s r rs res \<longleftrightarrow>
     (case res of
        Inl x \<Rightarrow> True
      | Inr (s', d') \<Rightarrow> \<exists>r'. d' = to_read mo r' \<and> dc_id r' = dc_id r \<and> stamped r'
        \<and> sv_rows s' = r' # rs \<and>
          sv_operations_group_id s' = sv_operations_group_id s \<and> sv_members s' = sv_members s)"

lemma settle_write:
  assumes m: "mirrors u sys" and rows: "sv_rows (sy_server sys) = r # rs" and cur: "current (sy_slice sys) = Some d"
    and res: "row_write mo (sy_server sys) r rs res"
    and h: "\<And>e. h (Inl e) = Rejected (rej e)" "\<And>d'. h (Inr d') = Fulfilled (g d')"
    and act: "\<And>d'. dc_id d' = dc_id d \<Longrightarrow> current (decommission_reducer (act (Fulfilled (g d')))
      (sy_slice sys)) = Some d'"
      "\<And>e. decommission_reducer (act (Rejected e)) (sy_slice sys) = sy_slice sys"
    and endh: "\<And>l st. pn_inOperatingTeam (endh l st) = pn_inOperatingTeam st"
      "\<And>e st. signedKeys (endh (Rejected e) st) = signedKeys st"
      "\<And>e st. pn_justInitiated (endh (Rejected e) st) = pn_justInitiated st"
  shows "mirrors u (case answer res (sy_server sys) of (s', x) \<Rightarrow>
    settle u (act (h x)) s' (endh (h x)) (accepted_answer x) sys)"
proof (cases res)
  case (Inl x)
  show ?thesis
    using settle_refused [OF m, where act = "act (Rejected (rej (api_error x)))" and endh = "endh (Rejected (rej
      (api_error x)))"]
    by (simp add: Inl answer_def accepted_answer_def h act endh)
next
  case (Inr y)
  then obtain s' r' where y: "y = (s', to_read mo r')" and r': "dc_id r' = dc_id r" "stamped r'" "sv_rows s' = r' #
    rs"
    "sv_operations_group_id s' = sv_operations_group_id (sy_server sys)" "sv_members s' = sv_members (sy_server
      sys)"
    using res by (auto simp: row_write_def split: prod.splits)
  from m rows cur have "dc_id d = dc_id r" unfolding mirrors_def by (metis agrees_row option.inject
    same_record_fields(1))
  then have "dc_id (to_read mo r') = dc_id d" by (simp add: r' to_read_def)
  from settle_saved [OF m rows r', where act = "act (Fulfilled (g (to_read mo r')))" and endh = "endh (Fulfilled (g
    (to_read mo r')))"
      and mo = mo] act(1) [OF this]
  show ?thesis by (simp add: Inr y answer_def accepted_answer_def h endh)
qed

lemma row_writes:
  assumes "mirrors u sys" "sv_rows (sy_server sys) = r # rs" "mo_now mo \<noteq> []"
  shows "row_write mo (sy_server sys) r rs (request_extension mo (sy_server sys) r u data)"
    "row_write mo (sy_server sys) r rs (decide_extension mo (sy_server sys) r u granted)"
    "row_write mo (sy_server sys) r rs (cancel mo (sy_server sys) r u reason)"
    "row_write mo (sy_server sys) r rs (tear_down mo (sy_server sys) r u)"
proof -
  from assms have st: "stamped r" and saved: "\<And>r'. dc_id r' = dc_id r \<Longrightarrow> sv_rows (save_row r'
    (sy_server sys)) = r' # rs"
    unfolding mirrors_def by (metis agrees_row)+
  show "row_write mo (sy_server sys) r rs (request_extension mo (sy_server sys) r u data)"
    "row_write mo (sy_server sys) r rs (decide_extension mo (sy_server sys) r u granted)"
    "row_write mo (sy_server sys) r rs (cancel mo (sy_server sys) r u reason)"
    "row_write mo (sy_server sys) r rs (tear_down mo (sy_server sys) r u)"
    using st assms(3)
    by (auto simp: row_write_def request_extension_def decide_extension_def cancel_def tear_down_def Let_def saved
      stamped_def
        intro!: exI split: option.split)
qed

text \<open>The clicks of a panel that shows the row.\<close>

lemma not_offered [simp]:
  "control_of c \<notin> set (controls (page_props u sys) (sy_panel sys)) \<Longrightarrow> panel_click mo i b u c
    sys = sys"
  by (simp add: panel_click_def)

lemma truncate_teardown: "Decommission.truncate (teardown_result b d) = d" "dc_id (teardown_result b d) = dc_id d"
  by (cases d, simp add: teardown_result_def Decommission.defs TeardownResult.defs)+

lemma row_clicks:
  assumes m: "mirrors u sys" and rows: "sv_rows (sy_server sys) = r # rs" and cur: "current (sy_slice sys) = Some d"
    and now: "mo_now mo \<noteq> []"
  shows "mirrors u (panel_click mo i b u (Extend reason until) sys)" "mirrors u (panel_click mo i b u (Decide
    granted) sys)"
    "mirrors u (panel_click mo i b u (Cancel_with reason) sys)" "mirrors u (panel_click mo i b u Tear sys)"
proof -
  note writes = row_writes [OF m rows now]
  have m1: "mirrors u (sys\<lparr>sy_panel := handleRequestExtension_start ((sy_panel
    sys)\<lparr>pn_extensionReason := reason,
      pn_extensionUntil := until\<rparr>)\<rparr>)"
    and m2: "mirrors u (sys\<lparr>sy_panel := handleDecideExtension_start (sy_panel sys)\<rparr>)"
    and m3: "mirrors u (sys\<lparr>sy_panel := handleCancel_start ((sy_panel sys)\<lparr>pn_cancelReason :=
      reason\<rparr>)\<rparr>)"
    and m4: "mirrors u (sys\<lparr>sy_panel := handleTearDown_start (sy_panel sys)\<rparr>)"
    by (rule mirrors_panel [OF m]; simp add: panel_halves)+
  show "mirrors u (panel_click mo i b u (Extend reason until) sys)"
    using m settle_write [OF m1, where h = "thunk_with ''Failed to request an extension''" and act =
      RequestExtension and
        endh = handleRequestExtension_end and res = "request_extension mo (sy_server sys) r u (reason, until)" and
          g = id and
        mo = mo and r = r and rs = rs and d = d]
      writes(1)
    by (simp add: panel_click_def Let_def effective_current [OF cur] answer_row [OF m rows cur] control_of_def rows
      cur
        thunk_with_def update_shown [OF cur] panel_halves split: lifecycle.split)
  show "mirrors u (panel_click mo i b u (Decide granted) sys)"
    using m settle_write [OF m2, where h = "thunk_with ''Failed to record the extension decision''" and act =
      DecideExtension and
        endh = handleDecideExtension_end and res = "decide_extension mo (sy_server sys) r u granted" and g = id and
        mo = mo and r = r and rs = rs and d = d]
      writes(2)
    by (simp add: panel_click_def Let_def effective_current [OF cur] answer_row [OF m rows cur] control_of_def rows
      cur
        thunk_with_def update_shown [OF cur] panel_halves split: lifecycle.split)
  show "mirrors u (panel_click mo i b u (Cancel_with reason) sys)"
    using m settle_write [OF m3, where h = "thunk_with ''Failed to cancel this decommission''" and act =
      CancelDecommission and
        endh = handleCancel_end and res = "cancel mo (sy_server sys) r u reason" and g = id and
        mo = mo and r = r and rs = rs and d = d]
      writes(3)
    by (simp add: panel_click_def Let_def effective_current [OF cur] answer_row [OF m rows cur] control_of_def rows
      cur
        thunk_with_def update_shown [OF cur] panel_halves split: lifecycle.split)
  show "mirrors u (panel_click mo i b u Tear sys)"
    using m settle_write [OF m4, where h = "\<lambda>x. thunk_with ''Failed to tear down this environment''
      (map_sum id (teardown_result b) x)"
        and act = TearDown and endh = handleTearDown_end and res = "tear_down mo (sy_server sys) r u" and
        g = "teardown_result b" and mo = mo and r = r and rs = rs and d = d]
      writes(4)
    by (simp add: panel_click_def Let_def effective_current [OF cur] answer_row [OF m rows cur] control_of_def rows
      cur
        thunk_with_def truncate_teardown panel_halves split: lifecycle.split)
qed

lemma sign_click:
  assumes m: "mirrors u sys" and rows: "sv_rows (sy_server sys) = r # rs" and cur: "current (sy_slice sys) = Some d"
  shows "mirrors u (panel_click mo i b u (Sign_step k reference) sys)"
proof -
  from m rows cur have d: "same_record d r" and st: "stamped r" and keys: "signedKeys (sy_panel sys) = set (map
    at_step_key (dc_attestations r))"
    and saved: "\<And>r'. dc_id r' = dc_id r \<Longrightarrow> sv_rows (save_row r' (sy_server sys)) = r' # rs"
    unfolding mirrors_def by (metis agrees_row option.inject)+
  let ?st = "handleSign_start k ((sy_panel sys)\<lparr>pn_referenceDrafts := (pn_referenceDrafts (sy_panel sys))(k
    := reference)\<rparr>)"
  have m': "mirrors u (sys\<lparr>sy_panel := ?st\<rparr>)" by (rule mirrors_panel [OF m]) (simp_all add:
    panel_halves)
  let ?res = "sign_attestation mo i (sy_server sys) r u (k, handleSign_reference k ?st)"
  let ?p = "page_props u sys"
  have click: "panel_click mo i b u (Sign_step k reference) sys =
      (if Sign k \<notin> set (controls ?p (sy_panel sys)) then sys
       else case answer ?res (sy_server sys) of (s', x) \<Rightarrow>
         settle u (SignAttestation (thunk_with ''Failed to sign this step'' x)) s'
           (handleSign_end ?p (mo_now mo) k (thunk_with ''Failed to sign this step'' x)) False (sys\<lparr>sy_panel
             := ?st\<rparr>))"
    by (simp add: panel_click_def Let_def effective_current [OF cur] answer_row [OF m rows cur] control_of_def)
  show ?thesis
  proof (cases ?res)
    case (Inl x)
    then show ?thesis
      using m settle_refused [OF m', where act = "SignAttestation (Rejected (reject_with
        ''Failed to sign this step'' (api_error x)))"]
      by (simp add: click answer_def thunk_with_def panel_halves)
  next
    case (Inr y)
    then obtain a where y: "y = (save_row (r\<lparr>dc_attestations := dc_attestations r @ [a]\<rparr>) (sy_server
      sys), a)" "at_step_key a = k"
      by (auto simp: sign_attestation_def Let_def split: option.splits)
    let ?r' = "r\<lparr>dc_attestations := dc_attestations r @ [a]\<rparr>"
    have "agrees u (save_row ?r' (sy_server sys)) (Some d) (handleSign_end ?p (mo_now mo) k (Fulfilled a) ?st)"
      using saved [of ?r'] st keys same_record_attested [OF d]
      by (intro agrees_saved [OF m [unfolded mirrors_def] rows, where r' = ?r' and d' = d])
        (auto simp: stamped_def panel_halves y(2))
    with m show ?thesis
      by (simp add: click Inr y(1) answer_def thunk_with_def settle_def mirrors_def cur)
  qed
qed

lemma initiate_click:
  assumes m: "mirrors u sys" and i: "i \<notin> dc_id ` set (sv_rows (sy_server sys))"
  shows "mirrors u (panel_click mo i b u (Initiate reason teardown) sys)"
proof -
  let ?s = "sy_server sys"
  let ?st = "handleInitiate_start ((sy_panel sys)\<lparr>pn_initiateReason := reason, pn_initiateTeardown :=
    nullish teardown []\<rparr>)"
  have m': "mirrors u (sys\<lparr>sy_panel := ?st\<rparr>)" by (rule mirrors_panel [OF m]) (simp_all add:
    panel_halves)
  let ?res = "initiate mo i ?s u (handleInitiate_data ?st)"
  have click: "panel_click mo i b u (Initiate reason teardown) sys =
      (if Start_decommission \<notin> set (controls (page_props u sys) (sy_panel sys)) then sys
       else case answer ?res ?s of (s', x) \<Rightarrow>
         settle u (InitiateDecommission (thunk_with ''Failed to initiate decommissioning'' x)) s'
           (handleInitiate_end (thunk_with ''Failed to initiate decommissioning'' x)) (accepted_answer x)
             (sys\<lparr>sy_panel := ?st\<rparr>))"
    by (simp add: panel_click_def Let_def control_of_def)
  show ?thesis
  proof (cases ?res)
    case (Inl x)
    then show ?thesis
      using m settle_refused [OF m', where act = "InitiateDecommission (Rejected (reject_with
        ''Failed to initiate decommissioning'' (api_error x)))"]
      by (simp add: click answer_def thunk_with_def accepted_answer_def panel_halves)
  next
    case (Inr y)
    then obtain row where y: "y = (?s\<lparr>sv_rows := row # sv_rows ?s\<rparr>, to_read mo row)" and row: "dc_id
      row = i" "stamped row"
        "dc_attestations row = []" and live: "get_live ?s = None"
      by (auto simp: initiate_def initiate_checks_def Let_def stamped_def split: option.splits)
    let ?sys = "\<lparr>sy_server = ?s\<lparr>sv_rows := row # sv_rows ?s\<rparr>,
      sy_slice = decommission_reducer (InitiateDecommission (Fulfilled (to_read mo row))) (sy_slice sys),
      sy_panel = handleInitiate_end (Fulfilled (to_read mo row)) ?st\<rparr>"
    have e: "current (sy_slice ?sys) = Some (to_read mo row)" by simp
    have "list_all (\<lambda>r. \<not> live_predicate r) (sv_rows ?s)" using live by (simp add: get_live_def
      find_None)
    then have "mirrors u (?sys\<lparr>sy_panel := signed_effect (page_props u ?sys) (sy_panel ?sys)\<rparr>)"
      using m i row unfolding mirrors_def signed_effect_shown [OF e]
      by (simp add: agrees_def head_only_live_def in_team_def panel_halves toSignedStepViews_def split:
        option.split)
    with m show ?thesis
      by (simp add: click Inr y answer_def thunk_with_def accepted_answer_def settle_def Let_def)
  qed
qed

lemma click_keeps:
  assumes "mirrors u sys" "mo_now mo \<noteq> []" "i \<notin> dc_id ` set (sv_rows (sy_server sys))"
  shows "mirrors u (panel_click mo i b u c sys)"
proof (cases "sv_rows (sy_server sys)")
  case Nil
  show ?thesis
  proof (cases c)
    case (Initiate reason t)
    then show ?thesis using initiate_click assms by simp
  qed (use assms(1) in \<open>simp_all add: controls_of_none [OF assms(1) Nil] control_of_def\<close>)
next
  case (Cons r rs)
  obtain d where d: "current (sy_slice sys) = Some d" by (rule agrees_row [OF assms(1) [unfolded mirrors_def] Cons])
  show ?thesis
    using row_clicks [OF assms(1) Cons d assms(2)] sign_click [OF assms(1) Cons d] initiate_click [OF assms(1,3)]
    by (cases c) simp_all
qed

subsection \<open>The page of an environment\<close>

text \<open>The next id of the server, and a run of clicks, each with the moment it is answered and the bookings
  left.\<close>

definition fresh_id :: "server \<Rightarrow> js_id" where
  "fresh_id s = fold max (map dc_id (sv_rows s)) 0 + 1"

definition panel_run :: "DecommissionPanelUser \<Rightarrow> (moment \<times> RemainingBookingSummary list \<times>
  click) list \<Rightarrow> system \<Rightarrow> system" where
  "panel_run u evs sys = fold (\<lambda>(mo, b, c) sys. panel_click mo (fresh_id (sy_server sys)) b u c sys) evs
    sys"

text \<open>The page once its reads are answered: the most recent decommission in the slice, the panel mounted on
  it, its team known.\<close>

definition page_opened :: "moment \<Rightarrow> DecommissionPanelUser \<Rightarrow> server \<Rightarrow> system"
  where
  "page_opened mo u s =
     (let slice = decommission_reducer (FetchDecommission (Fulfilled (map_option (to_read mo) (get_most_recent s))))
            (decommission_reducer (FetchDecommission Pending) initialState);
          sys = \<lparr>sy_server = s, sy_slice = slice, sy_panel = panel_mount \<lparr>pp_decommission = current
            slice,
            pp_remaining_bookings = [], pp_steps = [], pp_env = \<lparr>pe_id = sv_environment_id s,
            pe_owner_user_id = sv_owner_user_id s, pe_operations_group_id = sv_operations_group_id s\<rparr>,
              pp_currentUser = Some u\<rparr>\<rparr>;
          (st, asked) = team_effect_start (page_props u sys) (sy_panel sys)
      in sys\<lparr>sy_panel := (case asked of Some g \<Rightarrow> team_effect_end u False (Inr (list_members s
        g)) st | None \<Rightarrow> st)\<rparr>)"

definition server_ok :: "server \<Rightarrow> bool" where
  "server_ok s \<longleftrightarrow> head_only_live (sv_rows s) \<and> distinct (map dc_id (sv_rows s)) \<and>
    list_all stamped (sv_rows s) \<and>
     sv_operations_group_id s \<noteq> Some 0 \<and> length (sv_members s) \<le> 500"

lemma fold_max_le: "x \<in> set xs \<or> x = (a :: int) \<Longrightarrow> x \<le> fold max xs a"
proof (induction xs arbitrary: a x)
  case (Cons y ys)
  show ?case
  proof (cases "x \<in> set ys")
    case True
    with Cons.IH [of x "max y a"] show ?thesis by simp
  next
    case False
    with Cons.prems have "x \<le> max y a" by auto
    also have "\<dots> \<le> fold max ys (max y a)" by (rule Cons.IH) simp
    finally show ?thesis by simp
  qed
qed simp

lemma fresh_id_fresh: "fresh_id s \<notin> dc_id ` set (sv_rows s)"
proof
  assume "fresh_id s \<in> dc_id ` set (sv_rows s)"
  then have "fresh_id s \<le> fold max (map dc_id (sv_rows s)) 0" by (intro fold_max_le) auto
  then show False by (simp add: fresh_id_def)
qed

lemma run_keeps: "list_all (\<lambda>(mo, b, c). mo_now mo \<noteq> []) evs \<Longrightarrow> mirrors u sys
  \<Longrightarrow> mirrors u (panel_run u evs sys)"
proof (induction evs arbitrary: sys)
  case (Cons e evs)
  obtain mo b c where e: "e = (mo, b, c)" by (cases e)
  with Cons have "mirrors u (panel_click mo (fresh_id (sy_server sys)) b u c sys)"
    by (intro click_keeps fresh_id_fresh) auto
  with Cons show ?case by (simp add: panel_run_def e)
qed (simp add: panel_run_def)

lemma opened_mirrors:
  assumes "server_ok s"
  shows "mirrors u (page_opened mo u s)"
proof -
  have "length (filter P (sv_members s)) \<le> 500" for P
    using order_trans [OF length_filter_le, of "sv_members s" 500 P] assms by (simp add: server_ok_def)
  then have "list_members s g = map snd (filter (\<lambda>m. fst m = g) (sv_members s))" for g by (simp add:
    list_members_def)
  moreover have "list_ex (\<lambda>m. m = pu_id u) (map snd (filter (\<lambda>m. fst m = g) (sv_members s)))
    \<longleftrightarrow>
      (g, pu_id u) \<in> set (sv_members s)" for g
    by (force simp: list_ex_iff)
  ultimately show ?thesis
    using assms
    by (cases "sv_rows s") (auto simp: mirrors_def agrees_def page_opened_def server_ok_def Let_def
      team_effect_start_def
        team_effect_end_def page_props_def panel_mount_def in_team_def get_most_recent_def signedKeys_def
          toSignedStepViews_def
        initialState_def isAdmin_def split: option.splits)
qed


definition sample_moment :: moment where
  "sample_moment = \<lparr>mo_now = ''2026-01-02'', mo_instant = (\<lambda>s. int (length s)), mo_start_of_day = 0,
     mo_plus_days = (\<lambda>s n. s @ ''+'')\<rparr>"

definition sample_user :: DecommissionPanelUser where
  "sample_user = \<lparr>pu_id = 5, pu_username = ''ann'', pu_role = ''Developer'', pu_is_master_admin =
    False\<rparr>"

definition sample_server :: server where
  "sample_server = \<lparr>sv_environment_id = 1, sv_owner_user_id = Some 5, sv_operations_group_id = Some 2,
    sv_decommissioned = False,
     sv_members = [(2, 5)], sv_steps = [sample_step 1 0], sv_notice_days = 5, sv_rows = []\<rparr>"

definition sample_clicks :: "(moment \<times> RemainingBookingSummary list \<times> click) list" where
  "sample_clicks = map (\<lambda>c. (sample_moment, [], c))
     [Initiate ''old'' None, Sign_step ''k'' None, Extend ''more'' ''2026-01-02++'', Decide True, Extend ''again''
       ''x'', Tear]"


theorem offered_exactly_when_accepted_witness:
  "let sys = panel_run sample_user (take 1 sample_clicks) (page_opened sample_moment sample_user sample_server) in
   Sign ''k'' \<in> set (controls (page_props sample_user sys) (sy_panel sys)) \<and>
   Tear_down \<notin> set (controls (page_props sample_user sys) (sy_panel sys))"
proof -
  let ?sys = "panel_run sample_user (take 1 sample_clicks) (page_opened sample_moment sample_user sample_server)"
  have m: "mirrors sample_user ?sys"
    by (intro run_keeps opened_mirrors) (simp add: sample_clicks_def sample_moment_def, code_simp)
  have f: "fair_input sample_moment (sy_server ?sys) (current (sy_slice ?sys)) (Sign_step ''k'' None)"
    "fair_input sample_moment (sy_server ?sys) (current (sy_slice ?sys)) Tear"
    by code_simp+
  have r: "server_refusal sample_moment (sy_server ?sys) sample_user
      (map_option dc_id (effective (page_props sample_user ?sys) (sy_panel ?sys))) (Sign_step ''k'' None) = None"
    "server_refusal sample_moment (sy_server ?sys) sample_user
      (map_option dc_id (effective (page_props sample_user ?sys) (sy_panel ?sys))) Tear \<noteq> None"
    by code_simp+
  show ?thesis
    using offered_exactly_when_accepted [OF m f(1)] offered_exactly_when_accepted [OF m f(2)] r
    by (simp add: Let_def control_of_def)
qed

end
