(* ===== verification/GoNoGoDialog.thy ===== *)
theory GoNoGoDialog
  imports Forms
begin

text \<open>
  Recording a go/no-go decision (\<open>components/releases/RecordDecisionDialog.tsx\<close>): the drafts of the
    dialog, every handler that
  edits them, the readiness it shows and the payload; and the decision that the tab of a release puts under its grid
  (\<open>GoNoGoTab.tsx\<close>).
\<close>

subsection \<open>The drafts\<close>

record SignoffDraft =
  so_userId :: "int option"
  so_verdict :: string
  so_dissentNote :: string

record ConditionDraft =
  co_key :: int
  co_text :: string
  co_ownerUserId :: "int option"
  co_dueDate :: string

record decision_dialog =
  rd_outcome :: string
  rd_rationale :: string
  rd_decidedAt :: string
  rd_attendeeIds :: "int list"
  rd_signoffs :: "int \<Rightarrow> SignoffDraft option"
  rd_conditions :: "ConditionDraft list"
  rd_conditionKeySeq :: int
  rd_readiness :: "json option"
  rd_readinessFailed :: bool
  rd_readinessLoading :: bool
  rd_saving :: bool
  rd_error :: "string option"

definition OUTCOME_OPTIONS :: "(string \<times> string) list" where
  "OUTCOME_OPTIONS = [(''go'', ''Go''), (''conditional_go'', ''Conditional Go''), (''no_go'', ''No Go'')]"

definition outcomeLabel :: "string \<Rightarrow> string" where
  "outcomeLabel value = nullish (map_of OUTCOME_OPTIONS value) value"

definition decision_mount :: decision_dialog where
  "decision_mount =
     \<lparr>rd_outcome = ''go'', rd_rationale = [], rd_decidedAt = [], rd_attendeeIds = [], rd_signoffs =
       (\<lambda>_. None), rd_conditions = [],
      rd_conditionKeySeq = 0, rd_readiness = None, rd_readinessFailed = False, rd_readinessLoading = False,
        rd_saving = False,
      rd_error = None\<rparr>"

text \<open>The effect of opening, with the local text of the clock; the sequence of keys goes on.\<close>

definition decision_open :: "string \<Rightarrow> decision_dialog \<Rightarrow> decision_dialog" where
  "decision_open nowLocal st = st\<lparr>rd_outcome := ''go'', rd_rationale := [], rd_decidedAt := nowLocal,
    rd_attendeeIds := [],
     rd_signoffs := (\<lambda>_. None), rd_conditions := [], rd_error := None, rd_readinessLoading := True,
       rd_readinessFailed := False\<rparr>"

definition readiness_answered :: "json option \<Rightarrow> decision_dialog \<Rightarrow> decision_dialog" where
  "readiness_answered answer st =
     (case answer of Some r \<Rightarrow> st\<lparr>rd_readiness := Some r, rd_readinessLoading := False\<rparr>
      | None \<Rightarrow> st\<lparr>rd_readiness := None, rd_readinessFailed := True, rd_readinessLoading :=
        False\<rparr>)"

subsection \<open>The handlers\<close>

definition old_verdict :: "decision_dialog \<Rightarrow> int \<Rightarrow> string" where
  "old_verdict st i = (case rd_signoffs st i of Some d \<Rightarrow> so_verdict d | None \<Rightarrow> rd_outcome
    st)"

definition old_user :: "decision_dialog \<Rightarrow> int \<Rightarrow> int option" where
  "old_user st i = (case rd_signoffs st i of Some d \<Rightarrow> so_userId d | None \<Rightarrow> None)"

definition old_note :: "decision_dialog \<Rightarrow> int \<Rightarrow> string" where
  "old_note st i = (case rd_signoffs st i of Some d \<Rightarrow> so_dissentNote d | None \<Rightarrow> [])"

definition handleSignoffUserChange :: "int \<Rightarrow> int option \<Rightarrow> decision_dialog \<Rightarrow>
  decision_dialog" where
  "handleSignoffUserChange i user st = st\<lparr>rd_signoffs := (rd_signoffs st)(i \<mapsto>
     \<lparr>so_userId = user, so_verdict = old_verdict st i, so_dissentNote = old_note st i\<rparr>)\<rparr>"

definition handleSignoffVerdictChange :: "int \<Rightarrow> string \<Rightarrow> decision_dialog \<Rightarrow>
  decision_dialog" where
  "handleSignoffVerdictChange i verdict st = st\<lparr>rd_signoffs := (rd_signoffs st)(i \<mapsto>
     \<lparr>so_userId = old_user st i, so_verdict = verdict, so_dissentNote = old_note st i\<rparr>)\<rparr>"

definition handleSignoffNoteChange :: "int \<Rightarrow> string \<Rightarrow> decision_dialog \<Rightarrow>
  decision_dialog" where
  "handleSignoffNoteChange i note st = st\<lparr>rd_signoffs := (rd_signoffs st)(i \<mapsto>
     \<lparr>so_userId = old_user st i, so_verdict = old_verdict st i, so_dissentNote = note\<rparr>)\<rparr>"

definition handleAddCondition :: "decision_dialog \<Rightarrow> decision_dialog" where
  "handleAddCondition st =
     st\<lparr>rd_conditions := rd_conditions st @ [\<lparr>co_key = rd_conditionKeySeq st, co_text = [],
       co_ownerUserId = None, co_dueDate = []\<rparr>],
        rd_conditionKeySeq := rd_conditionKeySeq st + 1\<rparr>"

definition handleRemoveCondition :: "int \<Rightarrow> decision_dialog \<Rightarrow> decision_dialog" where
  "handleRemoveCondition key st = st\<lparr>rd_conditions := filter (\<lambda>c. co_key c \<noteq> key)
    (rd_conditions st)\<rparr>"

datatype condition_patch = Patch_text string | Patch_owner "int option" | Patch_due string

definition patched :: "condition_patch \<Rightarrow> ConditionDraft \<Rightarrow> ConditionDraft" where
  "patched patch c = (case patch of Patch_text t \<Rightarrow> c\<lparr>co_text := t\<rparr> | Patch_owner u
    \<Rightarrow> c\<lparr>co_ownerUserId := u\<rparr>
     | Patch_due d \<Rightarrow> c\<lparr>co_dueDate := d\<rparr>)"

definition updateCondition :: "int \<Rightarrow> condition_patch \<Rightarrow> decision_dialog \<Rightarrow>
  decision_dialog" where
  "updateCondition key patch st = st\<lparr>rd_conditions := map (\<lambda>c. if co_key c = key then patched patch
    c else c) (rd_conditions st)\<rparr>"

definition canSave :: "decision_dialog \<Rightarrow> bool" where
  "canSave st \<longleftrightarrow> rd_decidedAt st \<noteq> [] \<and> js_trim (rd_rationale st) \<noteq> []"

subsection \<open>The payload\<close>

definition trimmed_or_null :: "string \<Rightarrow> json" where
  "trimmed_or_null s = or_null (js_trim s)"

definition signoff_payload :: "json list \<Rightarrow> decision_dialog \<Rightarrow> json list" where
  "signoff_payload perspectives st = concat (map (\<lambda>p.
     case rd_signoffs st (num_key ''id'' p) of
       None \<Rightarrow> []
     | Some draft \<Rightarrow>
         (case so_userId draft of
            None \<Rightarrow> []
          | Some u \<Rightarrow> [json_body [(''perspective_id'', J_int (num_key ''id'' p)), (''user_id'', J_int u),
              (''verdict'', J_str (so_verdict draft)), (''dissent_note'', trimmed_or_null (so_dissentNote
                draft))]]))
     (filter (\<lambda>p. truthy (row_key ''is_active'' p)) perspectives))"

definition condition_payload :: "decision_dialog \<Rightarrow> json list" where
  "condition_payload st = concat (map (\<lambda>c.
     if js_trim (co_text c) = [] then []
     else [json_body [(''text'', J_str (js_trim (co_text c))), (''owner_user_id'', int_or_null (co_ownerUserId c)),
       (''due_date'', or_null (co_dueDate c))]]) (rd_conditions st))"

definition decision_payload :: "json list \<Rightarrow> decision_dialog \<Rightarrow> string \<Rightarrow> json"
  where
  "decision_payload perspectives st decided_at = json_body
     [(''outcome'', J_str (rd_outcome st)), (''rationale'', J_str (js_trim (rd_rationale st))), (''decided_at'',
       J_str decided_at),
      (''attendees'', ids (rd_attendeeIds st)), (''signoffs'', J_arr (signoff_payload perspectives st)),
      (''conditions'', J_arr (condition_payload st))]"

text \<open>\<open>None\<close> when the button does nothing; the date raises before anything is sent.\<close>

definition handleRecord :: "clock \<Rightarrow> int \<Rightarrow> json list \<Rightarrow> decision_dialog
  \<Rightarrow> save option" where
  "handleRecord clk releaseId perspectives st =
     (if \<not> canSave st then None
      else Some (case iso clk (rd_decidedAt st) of
        Some t \<Rightarrow> Sends (goNoGoService_record releaseId (decision_payload perspectives st t))
          (decision_payload perspectives st t)
      | None \<Rightarrow> Raises))"

definition handleRecord_end :: "rejected option \<Rightarrow> decision_dialog \<Rightarrow> decision_dialog" where
  "handleRecord_end failed st =
     (case failed of Some r \<Rightarrow> st\<lparr>rd_saving := False, rd_error := Some (nullish (rj_payload r)
       ''Failed to record the decision'')\<rparr>
      | None \<Rightarrow> st\<lparr>rd_saving := False\<rparr>)"

subsection \<open>The readiness it shows\<close>

definition REHEARSAL_FINDING_TYPES :: "string list" where
  "REHEARSAL_FINDING_TYPES = [''rehearsal_missing'', ''rehearsal_stale'']"

definition wide_dash :: string where
  "wide_dash = '' '' @ [CHR 0xE2, CHR 0x80, CHR 0x94] @ '' ''"

definition rehearsalFindingType :: "json option \<Rightarrow> string option" where
  "rehearsalFindingType readiness =
     (case readiness of
        None \<Rightarrow> None
      | Some r \<Rightarrow> map_option (text_key ''type'')
          (find (\<lambda>f. text_key ''type'' f \<in> set REHEARSAL_FINDING_TYPES) (rows_of (row_key ''warnings''
            r) @ rows_of (row_key ''blockers'' r))))"

definition rehearsalAnswer :: "json option \<Rightarrow> string" where
  "rehearsalAnswer readiness =
     (if rehearsalFindingType readiness = Some ''rehearsal_missing'' then ''No'' @ wide_dash @
       ''no rollback rehearsal has been recorded.''
      else if rehearsalFindingType readiness = Some ''rehearsal_stale'' then ''Not currently'' @ wide_dash @
        ''the rehearsal on record is stale.''
      else if readiness = None then ''Unknown'' @ wide_dash @ ''the readiness check has not loaded.''
      else ''Yes'' @ wide_dash @ ''a current rollback rehearsal is on record.'')"

definition rehearsalAnswerFromSnapshot :: "string option \<Rightarrow> string" where
  "rehearsalAnswerFromSnapshot t =
     (if t = Some ''rehearsal_missing'' then ''No'' @ wide_dash @
       ''no rollback rehearsal had been recorded at decision time.''
      else if t = Some ''rehearsal_stale'' then ''Not currently'' @ wide_dash @
        ''the rehearsal on record was stale at decision time.''
      else ''Yes'' @ wide_dash @ ''a current rollback rehearsal was on record at decision time.'')"

subsection \<open>The decision under the grid\<close>

text \<open>\<open>reduce\<close> with \<open>>\<close> on the times: a time that does not parse is never
  later.\<close>

definition later_decision :: "clock \<Rightarrow> json \<Rightarrow> json \<Rightarrow> json" where
  "later_decision clk acc d =
     (case (parse clk (text_key ''decided_at'' d), parse clk (text_key ''decided_at'' acc)) of
        (Some x, Some y) \<Rightarrow> if y < x then d else acc | _ \<Rightarrow> acc)"

definition latest_decision :: "clock \<Rightarrow> json list \<Rightarrow> json option" where
  "latest_decision clk decisions = (case decisions of [] \<Rightarrow> None | d # ds \<Rightarrow> Some (foldl
    (later_decision clk) d ds))"

end
