(* ===== verification/GoNoGoFacts.thy ===== *)
theory GoNoGoFacts
  imports GoNoGoDialog FormFacts
begin

text \<open>
  What is recorded of a go/no-go decision, after any editing of the dialog, and which decision the tab shows under
    its grid.
\<close>

declare has_type.simps [simp del]

subsection \<open>Editing the dialog\<close>

datatype dialog_edit =
  Open_dialog string
| Readiness "json option"
| Set_outcome string
| Set_rationale string
| Set_decidedAt string
| Set_attendees "int list"
| Signoff_user int "int option"
| Signoff_verdict int string
| Signoff_note int string
| Add_condition
| Remove_condition int
| Edit_condition int condition_patch
| Record_failed rejected

fun decision_edit :: "dialog_edit \<Rightarrow> decision_dialog \<Rightarrow> decision_dialog" where
  "decision_edit (Open_dialog now) st = decision_open now st"
| "decision_edit (Readiness a) st = readiness_answered a st"
| "decision_edit (Set_outcome v) st = st\<lparr>rd_outcome := v\<rparr>"
| "decision_edit (Set_rationale v) st = st\<lparr>rd_rationale := v\<rparr>"
| "decision_edit (Set_decidedAt v) st = st\<lparr>rd_decidedAt := v\<rparr>"
| "decision_edit (Set_attendees v) st = st\<lparr>rd_attendeeIds := v\<rparr>"
| "decision_edit (Signoff_user i u) st = handleSignoffUserChange i u st"
| "decision_edit (Signoff_verdict i v) st = handleSignoffVerdictChange i v st"
| "decision_edit (Signoff_note i n) st = handleSignoffNoteChange i n st"
| "decision_edit Add_condition st = handleAddCondition st"
| "decision_edit (Remove_condition k) st = handleRemoveCondition k st"
| "decision_edit (Edit_condition k p) st = updateCondition k p st"
| "decision_edit (Record_failed r) st = handleRecord_end (Some r) st"

definition keys_apart :: "decision_dialog \<Rightarrow> bool" where
  "keys_apart st \<longleftrightarrow> distinct (map co_key (rd_conditions st)) \<and> list_all (\<lambda>k. k <
    rd_conditionKeySeq st) (map co_key (rd_conditions st))"

lemma patched_key [simp]: "co_key (patched p c) = co_key c"
  by (simp add: patched_def split: condition_patch.split)

lemma updated_keys: "map co_key (rd_conditions (updateCondition k p st)) = map co_key (rd_conditions st)"
  by (simp add: updateCondition_def)

lemma edit_keeps_apart: "keys_apart st \<Longrightarrow> keys_apart (decision_edit e st)"
proof (cases e)
  case Add_condition
  moreover assume "keys_apart st"
  ultimately show ?thesis by (auto simp: keys_apart_def handleAddCondition_def list_all_iff)
next
  case (Edit_condition k p)
  moreover assume "keys_apart st"
  moreover have "rd_conditionKeySeq (updateCondition k p st) = rd_conditionKeySeq st" by (simp add:
    updateCondition_def)
  ultimately show ?thesis by (simp add: keys_apart_def updated_keys del: list.map)
next
  case (Remove_condition k)
  moreover assume "keys_apart st"
  ultimately show ?thesis by (simp add: keys_apart_def handleRemoveCondition_def list_all_iff distinct_map_filter)
qed (auto simp: keys_apart_def decision_open_def readiness_answered_def handleSignoffUserChange_def
  handleSignoffVerdictChange_def
    handleSignoffNoteChange_def handleRecord_end_def split: option.split)

lemma edits_keep_apart: "keys_apart (fold decision_edit es decision_mount)"
proof -
  have "keys_apart (fold decision_edit es st)" if "keys_apart st" for st
    using that by (induction es arbitrary: st) (simp_all add: edit_keeps_apart)
  moreover have "keys_apart decision_mount" by (simp add: keys_apart_def decision_mount_def)
  ultimately show ?thesis by blast
qed

subsection \<open>The payload\<close>

lemma signoff_types: "list_all (has_type in_GoNoGoSignoffCreate) (signoff_payload ps st)"
  by (auto simp: signoff_payload_def list_all_iff in_GoNoGoSignoffCreate_def body_has_type trimmed_or_null_def
    split: option.split)

lemma condition_types: "list_all (has_type in_GoNoGoConditionCreate) (condition_payload st)"
  by (auto simp: condition_payload_def list_all_iff in_GoNoGoConditionCreate_def body_has_type)

lemma fits_arr [simp]: "list_all (has_type t) xs \<Longrightarrow> fits r (Arr t) (J_arr xs)"
  by (simp add: fits_def has_type.simps)

lemma decision_types: "has_type in_GoNoGoDecisionCreate (decision_payload ps st t)"
  by (simp add: decision_payload_def in_GoNoGoDecisionCreate_def body_has_type signoff_types condition_types)

text \<open>The perspectives that are signed, and the texts that are sent.\<close>

definition signed_perspectives :: "json list \<Rightarrow> decision_dialog \<Rightarrow> int list" where
  "signed_perspectives ps st =
     filter (\<lambda>i. old_user st i \<noteq> None) (map (num_key ''id'') (filter (\<lambda>p. truthy (row_key
       ''is_active'' p)) ps))"

lemma signoffs_of: "map (num_key ''perspective_id'') (signoff_payload ps st) = signed_perspectives ps st"
proof (induction ps)
  case (Cons p ps)
  then show ?case
    by (simp add: signoff_payload_def signed_perspectives_def old_user_def num_key_def row_key_def get_prop_def
      json_body_def
        split: option.split)
qed (simp add: signoff_payload_def signed_perspectives_def)

lemma conditions_of: "map (text_key ''text'') (condition_payload st) =
    filter (\<lambda>t. t \<noteq> []) (map (\<lambda>c. js_trim (co_text c)) (rd_conditions st))"
proof -
  have "map (text_key ''text'') (concat (map (\<lambda>c. if js_trim (co_text c) = [] then []
     else [json_body [(''text'', J_str (js_trim (co_text c))), (''owner_user_id'', int_or_null (co_ownerUserId c)),
       (''due_date'', or_null (co_dueDate c))]]) cs)) = filter (\<lambda>t. t \<noteq> []) (map (\<lambda>c.
         js_trim (co_text c)) cs)" for cs
    by (induction cs) (simp_all add: text_key_def row_key_def get_prop_def json_body_def)
  then show ?thesis by (simp add: condition_payload_def)
qed


definition sample_perspectives :: "json list" where
  "sample_perspectives = [J_obj [(''id'', J_int 1), (''is_active'', J_bool True)], J_obj [(''id'', J_int 2),
    (''is_active'', J_bool True)],
     J_obj [(''id'', J_int 3), (''is_active'', J_bool False)]]"

definition sample_edits :: "dialog_edit list" where
  "sample_edits = [Open_dialog ''now'', Signoff_verdict 1 ''no_go'', Signoff_user 2 (Some 9), Signoff_user 3 (Some
    9), Add_condition,
     Add_condition, Edit_condition 1 (Patch_text '' fix ''), Remove_condition 0, Add_condition]"


subsection \<open>The decision under the grid\<close>

lemma later_cases: "later_decision clk a d = a \<or> later_decision clk a d = d"
  by (simp add: later_decision_def split: option.split)

lemma latest_is_newest:
  assumes "latest_decision clk ds = Some d" "list_all (\<lambda>d. parse clk (text_key ''decided_at'' d) \<noteq>
    None) ds"
  shows "d \<in> set ds \<and> (\<forall>e \<in> set ds. the (parse clk (text_key ''decided_at'' e)) \<le> the
    (parse clk (text_key ''decided_at'' d)))"
proof -
  let ?t = "\<lambda>d. the (parse clk (text_key ''decided_at'' d))" and ?ok = "\<lambda>d. parse clk (text_key
    ''decided_at'' d) \<noteq> None"
  have "foldl (later_decision clk) a es \<in> insert a (set es) \<and> (\<forall>e \<in> insert a (set es). ?t e
    \<le> ?t (foldl (later_decision clk) a es))"
    if "?ok a" "list_all ?ok es" for a es
    using that
  proof (induction es arbitrary: a)
    case (Cons e es)
    let ?b = "later_decision clk a e"
    have b: "?ok ?b" "?t a \<le> ?t ?b" "?t e \<le> ?t ?b" "?b \<in> {a, e}"
      using Cons.prems later_cases [of clk a e] by (auto simp: later_decision_def split: option.splits if_splits)
    from Cons.IH [OF b(1)] Cons.prems b show ?case by (auto intro: order_trans)
  qed simp
  with assms show ?thesis by (cases ds) (auto simp: latest_decision_def)
qed

end
