(* ===== verification/BookingDetail.thy ===== *)
theory BookingDetail
  imports Forms
begin

text \<open>
  The page of a booking (\<open>pages/bookings/BookingDetail.tsx\<close>): its state, the load, the handlers that
    move a booking or add an
  environment, each with the answers it awaits, and the grouping of the bookings of a request by the environment
    group they came
  from. The answers of the services are inputs.
\<close>

subsection \<open>Grouping\<close>

record booking_group =
  bg_groupId :: int
  bg_groupName :: string
  bg_bookings :: "json list"

record grouping =
  gr_groupOrder :: "int list"
  gr_groupsMap :: "int \<Rightarrow> booking_group option"
  gr_ungrouped :: "json list"

definition group_name :: "int \<Rightarrow> json \<Rightarrow> string" where
  "group_name gid b = (case row_key ''environment_group_name'' b of J_str s \<Rightarrow> s | _ \<Rightarrow>
    ''Group #'' @ show_int gid)"

definition group_step :: "grouping \<Rightarrow> json \<Rightarrow> grouping" where
  "group_step st b =
     (case int_key ''environment_group_id'' b of
        Some gid \<Rightarrow>
          let st = (if gr_groupsMap st gid = None
                    then st\<lparr>gr_groupOrder := gr_groupOrder st @ [gid],
                           gr_groupsMap := (gr_groupsMap st)(gid \<mapsto>
                             \<lparr>bg_groupId = gid, bg_groupName = group_name gid b, bg_bookings =
                               []\<rparr>)\<rparr>
                    else st)
          in st\<lparr>gr_groupsMap := (gr_groupsMap st)(gid := map_option (\<lambda>g. g\<lparr>bg_bookings :=
            bg_bookings g @ [b]\<rparr>) (gr_groupsMap st gid))\<rparr>
      | None \<Rightarrow> st\<lparr>gr_ungrouped := gr_ungrouped st @ [b]\<rparr>)"

definition groupBookingsByEnvironmentGroup :: "json list \<Rightarrow> booking_group list \<times> json list" where
  "groupBookingsByEnvironmentGroup bookings =
     (let st = foldl group_step \<lparr>gr_groupOrder = [], gr_groupsMap = (\<lambda>_. None), gr_ungrouped =
       []\<rparr> bookings
      in (concat (map (\<lambda>gid. case gr_groupsMap st gid of Some g \<Rightarrow> [g] | None \<Rightarrow> [])
        (gr_groupOrder st)), gr_ungrouped st))"

subsection \<open>The page\<close>

record booking_page =
  bd_booking :: "json option"
  bd_bookingRequest :: "json option"
  bd_allowedTransitions :: "json list"
  bd_history :: "json list"
  bd_loading :: bool
  bd_error :: "string option"
  bd_addEnvOpen :: bool
  bd_addEnvId :: "int option"
  bd_addEnvStart :: string
  bd_addEnvEnd :: string
  bd_addEnvSaving :: bool

definition booking_mount :: booking_page where
  "booking_mount = \<lparr>bd_booking = None, bd_bookingRequest = None, bd_allowedTransitions = [], bd_history =
    [], bd_loading = True,
     bd_error = None, bd_addEnvOpen = False, bd_addEnvId = None, bd_addEnvStart = [], bd_addEnvEnd = [],
       bd_addEnvSaving = False\<rparr>"

definition load_start :: "booking_page \<Rightarrow> booking_page" where
  "load_start st = st\<lparr>bd_loading := True, bd_error := None\<rparr>"

text \<open>\<open>Promise.all\<close> of the booking, its transitions and its history; then the request, whose
  failure is ignored.\<close>

definition load_end :: "ApiError + json \<times> json list \<times> json list \<Rightarrow> ApiError + json
  \<Rightarrow> booking_page \<Rightarrow> booking_page" where
  "load_end answers rq st =
     (case answers of
        Inl e \<Rightarrow> st\<lparr>bd_error := Some (formatApiError e ''Failed to load booking''), bd_loading :=
          False\<rparr>
      | Inr (b, transitions, hist) \<Rightarrow>
          let st = st\<lparr>bd_booking := Some b, bd_allowedTransitions := transitions, bd_history := hist,
            bd_loading := False\<rparr> in
          if int_key ''booking_request_id'' b = None then st
          else case rq of Inr r \<Rightarrow> st\<lparr>bd_bookingRequest := Some r\<rparr> | Inl e \<Rightarrow>
            st)"

text \<open>The notes of a move: what the prompt returns, \<open>None\<close> when it was dismissed, for a move
  back to draft.\<close>

definition transition_notes :: "string \<Rightarrow> string option \<Rightarrow> string option" where
  "transition_notes toState prompt = (if toState = ''draft'' then prompt else None)"

definition transition_call :: "int \<Rightarrow> string \<Rightarrow> string option \<Rightarrow> call" where
  "transition_call i toState prompt =
     bookingService_transitionState i toState (transition_notes toState prompt)"

definition handleTransition_end :: "ApiError + json \<times> json list \<times> json list \<Rightarrow>
  booking_page \<Rightarrow> booking_page" where
  "handleTransition_end answers st =
     (case answers of
        Inl e \<Rightarrow> st\<lparr>bd_error := Some (formatApiError e ''Transition failed'')\<rparr>
      | Inr (b, transitions, hist) \<Rightarrow> st\<lparr>bd_booking := Some b, bd_allowedTransitions :=
        transitions, bd_history := hist\<rparr>)"

text \<open>A move of one booking of the request: the request is read again, and the booking of the page when it is
  the one moved.\<close>

definition handleMemberTransition_end :: "int \<Rightarrow> ApiError + json \<Rightarrow> ApiError + json
  \<Rightarrow> booking_page \<Rightarrow> booking_page" where
  "handleMemberTransition_end i rq b st =
     (case (bd_bookingRequest st, bd_booking st) of
        (Some _, Some booking) \<Rightarrow>
          (case rq of
             Inl e \<Rightarrow> st\<lparr>bd_error := Some (formatApiError e ''Transition failed'')\<rparr>
           | Inr r \<Rightarrow>
               let st = st\<lparr>bd_bookingRequest := Some r\<rparr> in
               if int_key ''id'' booking = Some i
               then (case b of Inr b \<Rightarrow> st\<lparr>bd_booking := Some b\<rparr>
                     | Inl e \<Rightarrow> st\<lparr>bd_error := Some (formatApiError e
                       ''Transition failed'')\<rparr>)
               else st)
      | _ \<Rightarrow> st)"

definition resetAddEnvForm :: "booking_page \<Rightarrow> booking_page" where
  "resetAddEnvForm st = st\<lparr>bd_addEnvId := None, bd_addEnvStart := [], bd_addEnvEnd := []\<rparr>"

text \<open>\<open>None\<close> when there is nothing to add; a date that does not parse raises inside the
  \<open>try\<close>.\<close>

definition addEnv_data :: "clock \<Rightarrow> booking_page \<Rightarrow> json option" where
  "addEnv_data clk st =
     (let text = (\<lambda>s. if s = [] then Some J_undefined else map_option J_str (iso clk s)) in
      case (bd_addEnvId st, text (bd_addEnvStart st), text (bd_addEnvEnd st)) of
        (Some i, Some a, Some b) \<Rightarrow> Some (json_body [(''environment_id'', J_int i), (''start_date'', a),
          (''end_date'', b)])
      | _ \<Rightarrow> None)"

definition handleAddEnvConfirm_end :: "ApiError + json \<Rightarrow> booking_page \<Rightarrow> booking_page" where
  "handleAddEnvConfirm_end rq st =
     (case rq of
        Inr r \<Rightarrow> resetAddEnvForm (st\<lparr>bd_bookingRequest := Some r, bd_addEnvOpen := False,
          bd_addEnvSaving := False\<rparr>)
      | Inl e \<Rightarrow> st\<lparr>bd_error := Some (formatApiError e ''Failed to add environment''),
        bd_addEnvSaving := False\<rparr>)"

text \<open>What the page shows: the moves of the booking itself only while there is no request, and the
  environments still to add.\<close>

definition offered_moves :: "booking_page \<Rightarrow> json list" where
  "offered_moves st = (if bd_bookingRequest st = None then bd_allowedTransitions st else [])"

definition request_bookings :: "booking_page \<Rightarrow> json list" where
  "request_bookings st = (case bd_bookingRequest st of Some r \<Rightarrow> rows_of (row_key ''bookings'' r) | None
    \<Rightarrow> [])"

definition availableEnvs :: "json list \<Rightarrow> booking_page \<Rightarrow> json list" where
  "availableEnvs environments st =
     filter (\<lambda>e. row_key ''id'' e \<notin> set (map (row_key ''environment_id'') (request_bookings st)))
       environments"

end
