(* ===== verification/BookingDetailFacts.thy ===== *)
theory BookingDetailFacts
  imports BookingDetail "HOL-Library.Multiset"
begin

text \<open>
  The grouping of a request's bookings is the obvious one, and no booking is lost or shown twice; what a move of a
    booking
  leaves behind on the page.
\<close>

subsection \<open>Grouping\<close>

definition gid_of :: "json \<Rightarrow> int option" where
  "gid_of b = int_key ''environment_group_id'' b"

definition of_group :: "int \<Rightarrow> json list \<Rightarrow> json list" where
  "of_group g bs = filter (\<lambda>b. gid_of b = Some g) bs"

text \<open>The group ids, each where it first appears.\<close>

definition group_ids :: "json list \<Rightarrow> int list" where
  "group_ids bs = rev (remdups (rev (List.map_filter gid_of bs)))"

lemma group_ids_snoc: "group_ids (bs @ [b]) = (case gid_of b of
    Some g \<Rightarrow> if g \<in> set (group_ids bs) then group_ids bs else group_ids bs @ [g] | None
      \<Rightarrow> group_ids bs)"
  by (simp add: group_ids_def map_filter_def split: option.split)

lemma set_group_ids: "set (group_ids bs) = {g. of_group g bs \<noteq> []}"
  by (force simp: group_ids_def map_filter_def of_group_def filter_empty_conv)

definition group_of :: "json list \<Rightarrow> int \<Rightarrow> booking_group" where
  "group_of bs g = \<lparr>bg_groupId = g, bg_groupName = group_name g (List.hd (of_group g bs)), bg_bookings =
    of_group g bs\<rparr>"

lemma group_fold:
  "foldl group_step \<lparr>gr_groupOrder = [], gr_groupsMap = (\<lambda>_. None), gr_ungrouped = []\<rparr> bs =
     \<lparr>gr_groupOrder = group_ids bs, gr_groupsMap = (\<lambda>g. if of_group g bs = [] then None else Some
       (group_of bs g)),
      gr_ungrouped = filter (\<lambda>b. gid_of b = None) bs\<rparr>"
proof (induction bs rule: rev_induct)
  case Nil
  show ?case by (simp add: group_ids_def map_filter_def of_group_def)
next
  case (snoc b bs)
  have other: "of_group g (bs @ [b]) = of_group g bs" if "gid_of b \<noteq> Some g" for g using that by (simp add:
    of_group_def)
  have own: "of_group g (bs @ [b]) = of_group g bs @ [b]" if "gid_of b = Some g" for g using that by (simp add:
    of_group_def)
  note step = group_step_def [of _ b, folded gid_of_def]
  have e: "foldl group_step \<lparr>gr_groupOrder = [], gr_groupsMap = (\<lambda>_. None), gr_ungrouped =
    []\<rparr> (bs @ [b]) =
      group_step \<lparr>gr_groupOrder = group_ids bs, gr_groupsMap = (\<lambda>g. if of_group g bs = [] then None
        else Some (group_of bs g)),
        gr_ungrouped = filter (\<lambda>b. gid_of b = None) bs\<rparr> b"
    by (simp only: foldl_append foldl.simps snoc.IH)
  show ?case
  proof (cases "gid_of b")
    case None
    then show ?thesis unfolding e step by (auto simp: group_ids_snoc other group_of_def fun_eq_iff)
  next
    case (Some g)
    have ids: "group_ids (bs @ [b]) = (if of_group g bs = [] then group_ids bs @ [g] else group_ids bs)"
      by (simp add: group_ids_snoc Some set_group_ids)
    show ?thesis
      unfolding e step by (simp add: Some ids Let_def) (auto simp: group_of_def own [OF Some] other Some fun_eq_iff)
  qed
qed

text \<open>
  The bookings of a request are grouped as a reader expects: one group for each environment group, in the
    order in which the groups
  first appear, each with its bookings in their order and the name its first booking carries; the others stay in
    their order; and
  every booking is shown exactly once.
\<close>

theorem bookings_grouped:
  "groupBookingsByEnvironmentGroup bs = (map (group_of bs) (group_ids bs), filter (\<lambda>b. gid_of b = None) bs)
    \<and>
   distinct (map bg_groupId (fst (groupBookingsByEnvironmentGroup bs))) \<and>
   mset (concat (map bg_bookings (fst (groupBookingsByEnvironmentGroup bs))) @ snd (groupBookingsByEnvironmentGroup
     bs)) = mset bs"
proof -
  have g: "groupBookingsByEnvironmentGroup bs = (map (group_of bs) (group_ids bs), filter (\<lambda>b. gid_of b =
    None) bs)"
  proof -
    have "concat (map (\<lambda>g. case (if of_group g bs = [] then None else Some (group_of bs g)) of Some x
      \<Rightarrow> [x] | None \<Rightarrow> []) gs) =
        map (group_of bs) gs" if "set gs \<subseteq> set (group_ids bs)" for gs
      using that by (induction gs) (auto simp: set_group_ids)
    then show ?thesis by (simp add: groupBookingsByEnvironmentGroup_def group_fold Let_def)
  qed
  have d: "distinct (group_ids bs)" by (simp add: group_ids_def)
  have "mset (concat (map (\<lambda>g. of_group g bs) gs)) = mset (filter (\<lambda>b. \<exists>g \<in> set gs.
    gid_of b = Some g) bs)" if "distinct gs" for gs
    using that
  proof (induction gs)
    case (Cons g gs)
    have "mset (of_group g bs) + mset (filter (\<lambda>b. \<exists>g \<in> set gs. gid_of b = Some g) bs) =
        mset (filter (\<lambda>b. gid_of b = Some g \<or> (\<exists>g \<in> set gs. gid_of b = Some g)) bs)"
      using Cons.prems by (induction bs) (auto simp: of_group_def)
    with Cons show ?case by simp
  qed simp
  note once = this [OF d]
  have "filter (\<lambda>b. \<exists>g \<in> set (group_ids bs). gid_of b = Some g) bs = filter (\<lambda>b. gid_of
    b \<noteq> None) bs"
    by (rule filter_cong) (auto simp: set_group_ids of_group_def filter_empty_conv)
  with once have "mset (concat (map (\<lambda>g. of_group g bs) (group_ids bs)) @ filter (\<lambda>b. gid_of b =
    None) bs) = mset bs"
    using multiset_partition [of "mset bs" "\<lambda>b. gid_of b \<noteq> None"] by simp
  then show ?thesis
    using d by (simp add: g group_of_def comp_def)
qed

subsection \<open>Moves\<close>

text \<open>
  A move of one booking of the request leaves the transitions and the history of the page as they were, also when
    it is the
  booking of the page that moved; and dismissing the question for the reason of a move back to draft does not stop
    the move: the
  call goes out, without notes.
\<close>

lemma member_move_leaves_history:
  "bd_history (handleMemberTransition_end i rq b st) = bd_history st"
  "bd_allowedTransitions (handleMemberTransition_end i rq b st) = bd_allowedTransitions st"
  by (simp_all add: handleMemberTransition_end_def Let_def split: option.split sum.split)

lemma dismissed_prompt_moves:
  "transition_call i ''draft'' None = bookingService_transitionState i ''draft'' None"
  by (simp add: transition_call_def transition_notes_def)

text \<open>An environment that the request already holds is not offered again.\<close>

lemma no_environment_twice:
  "e \<in> set (availableEnvs environments st) \<Longrightarrow> row_key ''id'' e \<notin> set (map (row_key
    ''environment_id'') (request_bookings st))"
  by (simp add: availableEnvs_def)

end
