(* ===== verification/VerifyPanel.thy ===== *)
theory VerifyPanel
  imports JsMap JsString "HOL-Library.Multiset"
begin

text \<open>
  The verification of an environment's dependencies: what the server counts and lists
  (\<open>backend/app/services/environment_service.py\<close>, \<open>verify_environment\<close>), and what the
    panel of
  \<open>pages/environments/EnvironmentDetail.tsx\<close> makes of the answer. The rows that the queries return are
    inputs;
  a query for the rows of given ids is a filter.
\<close>

subsection \<open>The server\<close>

record SysDep =
  sy_from :: int
  sy_to :: int
  sy_to_name :: "string option"
  sy_type :: string

record CompDep =
  co_from :: int
  co_from_name :: "string option"
  co_to :: int
  co_to_name :: "string option"
  co_type :: string

record SysItem =
  si_to_system_id :: int
  si_to_system_name :: string
  si_dependency_type :: string
  si_status :: string

record SysResult =
  sr_system_id :: int
  sr_system_name :: string
  sr_dependencies :: "SysItem list"

record CompItem =
  ci_from_subsystem_id :: int
  ci_from_subsystem_name :: string
  ci_to_subsystem_id :: int
  ci_to_subsystem_name :: string
  ci_dependency_type :: string
  ci_status :: string

record VerifyResult =
  vr_total_dependencies :: nat
  vr_satisfied_count :: nat
  vr_mocked_count :: nat
  vr_missing_count :: nat
  vr_systems :: "SysResult list"
  vr_component_total :: nat
  vr_component_satisfied :: nat
  vr_component_mocked :: nat
  vr_component_missing :: nat
  vr_component_dependencies :: "CompItem list"

text \<open>The tables that the function reads: the systems of the environment with their names, the dependencies of
  the tenant, the subsystems of the environment with their mock flag, the living subsystems of the tenant with
  their system.\<close>

record env_tables =
  et_systems :: "(int \<times> string) list"
  et_sys_deps :: "SysDep list"
  et_env_subs :: "(int \<times> bool) list"
  et_subs :: "(int \<times> int) list"
  et_comp_deps :: "CompDep list"

definition py_dict :: "('k \<times> 'v) list \<Rightarrow> ('k, 'v) jmap" where
  "py_dict kvs = fold (\<lambda>(k, v). jm_set k v) kvs []"

definition named :: "string \<Rightarrow> int \<Rightarrow> string option \<Rightarrow> string" where
  "named label i name = (case name of Some n \<Rightarrow> n | None \<Rightarrow> label @ show_int i)"

definition sys_item :: "(int, string) jmap \<Rightarrow> SysDep \<Rightarrow> SysItem" where
  "sys_item env_system_map dep =
     \<lparr>si_to_system_id = sy_to dep, si_to_system_name = named ''System#'' (sy_to dep) (sy_to_name dep),
      si_dependency_type = sy_type dep,
      si_status = (if jm_has env_system_map (sy_to dep) then ''satisfied'' else ''missing'')\<rparr>"

text \<open>The running counts of the loop over the systems.\<close>

record counts =
  ct_total :: nat
  ct_satisfied :: nat
  ct_mocked :: nat
  ct_missing :: nat

definition no_counts :: counts where
  "no_counts = \<lparr>ct_total = 0, ct_satisfied = 0, ct_mocked = 0, ct_missing = 0\<rparr>"

definition count_status :: "string \<Rightarrow> counts \<Rightarrow> counts" where
  "count_status st c =
     (let c = (if st = ''satisfied'' then c\<lparr>ct_satisfied := ct_satisfied c + 1\<rparr>
               else if st = ''mocked'' then c\<lparr>ct_mocked := ct_mocked c + 1\<rparr>
               else c\<lparr>ct_missing := ct_missing c + 1\<rparr>)
      in c\<lparr>ct_total := ct_total c + 1\<rparr>)"

definition verify_dep :: "(int, string) jmap \<Rightarrow> SysDep \<Rightarrow> SysItem list \<times> counts
  \<Rightarrow> SysItem list \<times> counts" where
  "verify_dep env_system_map dep acc =
     (let item = sys_item env_system_map dep in (fst acc @ [item], count_status (si_status item) (snd acc)))"

definition verify_system :: "(int, string) jmap \<Rightarrow> SysDep list \<Rightarrow> int \<times> string
  \<Rightarrow> SysResult list \<times> counts \<Rightarrow>
  SysResult list \<times> counts" where
  "verify_system env_system_map all_deps es acc =
     (let (items, c) = fold (verify_dep env_system_map) (filter (\<lambda>d. sy_from d = fst es) all_deps) ([], snd
       acc) in
      (fst acc @ [\<lparr>sr_system_id = fst es, sr_system_name = snd es, sr_dependencies = items\<rparr>], c))"

definition comp_item :: "(int, bool) jmap \<Rightarrow> CompDep \<Rightarrow> CompItem" where
  "comp_item env_sub_map dep =
     \<lparr>ci_from_subsystem_id = co_from dep, ci_from_subsystem_name = named ''SubSystem#'' (co_from dep)
       (co_from_name dep),
      ci_to_subsystem_id = co_to dep, ci_to_subsystem_name = named ''SubSystem#'' (co_to dep) (co_to_name dep),
      ci_dependency_type = co_type dep,
      ci_status = (case jm_get env_sub_map (co_to dep) of
          Some is_mocked \<Rightarrow> if is_mocked then ''mocked'' else ''satisfied''
        | None \<Rightarrow> ''missing'')\<rparr>"

definition verify_comp :: "(int, bool) jmap \<Rightarrow> CompDep \<Rightarrow> CompItem list \<times> counts
  \<Rightarrow> CompItem list \<times> counts" where
  "verify_comp env_sub_map dep acc =
     (let item = comp_item env_sub_map dep in (fst acc @ [item], count_status (ci_status item) (snd acc)))"

definition verify_environment :: "env_tables \<Rightarrow> VerifyResult" where
  "verify_environment t =
     (let env_system_map = py_dict (et_systems t);
          system_ids = jm_keys env_system_map;
          all_deps = filter (\<lambda>d. sy_from d \<in> set system_ids) (et_sys_deps t);
          (systems_result, c) = fold (verify_system env_system_map all_deps) env_system_map ([], no_counts);
          env_sub_map = py_dict (et_env_subs t);
          env_subsystem_ids = map fst (filter (\<lambda>s. snd s \<in> set system_ids) (et_subs t));
          all_comp_deps = (if system_ids = [] \<or> env_subsystem_ids = [] then []
            else filter (\<lambda>d. co_from d \<in> set env_subsystem_ids) (et_comp_deps t));
          (comp_dep_items, k) = fold (verify_comp env_sub_map) all_comp_deps ([], no_counts)
      in \<lparr>vr_total_dependencies = ct_total c, vr_satisfied_count = ct_satisfied c, vr_mocked_count =
        ct_mocked c,
          vr_missing_count = ct_missing c, vr_systems = systems_result, vr_component_total = ct_total k,
          vr_component_satisfied = ct_satisfied k, vr_component_mocked = ct_mocked k,
          vr_component_missing = ct_missing k, vr_component_dependencies = comp_dep_items\<rparr>)"

subsection \<open>The panel\<close>

definition allDepItems :: "VerifyResult \<Rightarrow> (string \<times> SysItem) list" where
  "allDepItems r = concat (map (\<lambda>s. map (\<lambda>d. (sr_system_name s, d)) (sr_dependencies s))
    (vr_systems r))"

definition nonSatisfiedItems :: "VerifyResult \<Rightarrow> (string \<times> SysItem) list" where
  "nonSatisfiedItems r = filter (\<lambda>d. si_status (snd d) \<noteq> ''satisfied'') (allDepItems r)"

definition nonSatisfiedComponentItems :: "VerifyResult \<Rightarrow> CompItem list" where
  "nonSatisfiedComponentItems r = filter (\<lambda>d. ci_status d \<noteq> ''satisfied'')
    (vr_component_dependencies r)"

datatype verdict = No_dependencies | All_satisfied | Gaps

definition panel_verdict :: "VerifyResult \<Rightarrow> verdict" where
  "panel_verdict r =
     (if vr_total_dependencies r = 0 then No_dependencies
      else if vr_missing_count r = 0 \<and> vr_mocked_count r = 0 \<and> vr_component_missing r = 0 \<and>
        vr_component_mocked r = 0
        then All_satisfied
      else Gaps)"

text \<open>The table of gaps of the systems stands under the verdict \<open>Gaps\<close>; the one of the
  components under any.\<close>

definition panel_gaps :: "VerifyResult \<Rightarrow> (string \<times> SysItem) list" where
  "panel_gaps r = (if panel_verdict r = Gaps then nonSatisfiedItems r else [])"

definition panel_component_gaps :: "VerifyResult \<Rightarrow> CompItem list" where
  "panel_component_gaps r = (if 0 < vr_component_total r then nonSatisfiedComponentItems r else [])"

subsection \<open>What is to be verified\<close>

text \<open>The dependencies that start in the environment, and those of them that it does not meet.\<close>

definition system_ids_of :: "env_tables \<Rightarrow> int set" where
  "system_ids_of t = fst ` set (et_systems t)"

definition own_sys_deps :: "env_tables \<Rightarrow> SysDep list" where
  "own_sys_deps t = filter (\<lambda>d. sy_from d \<in> system_ids_of t) (et_sys_deps t)"

definition own_comp_deps :: "env_tables \<Rightarrow> CompDep list" where
  "own_comp_deps t = filter (\<lambda>d. \<exists>s \<in> set (et_subs t). fst s = co_from d \<and> snd s \<in>
    system_ids_of t) (et_comp_deps t)"

definition sys_gaps :: "env_tables \<Rightarrow> SysDep list" where
  "sys_gaps t = filter (\<lambda>d. sy_to d \<notin> system_ids_of t) (own_sys_deps t)"

definition comp_gaps :: "env_tables \<Rightarrow> CompDep list" where
  "comp_gaps t = filter (\<lambda>d. map_of (rev (et_env_subs t)) (co_to d) \<noteq> Some False) (own_comp_deps t)"

subsection \<open>Lemmas\<close>

lemma fold_jm_set_get: "jm_get (fold (\<lambda>(k, v). jm_set k v) kvs m) k = (case map_of (rev kvs) k of Some v
  \<Rightarrow> Some v | None \<Rightarrow> jm_get m k)"
  by (induction kvs arbitrary: m) (auto simp: map_add_def split: option.split)

lemma py_dict_get: "jm_get (py_dict kvs) k = map_of (rev kvs) k"
  by (simp add: py_dict_def fold_jm_set_get split: option.split)

lemma py_dict_wf: "jm_wf (py_dict kvs)"
proof -
  have "jm_wf (fold (\<lambda>(k, v). jm_set k v) kvs m)" if "jm_wf m" for m
    using that by (induction kvs arbitrary: m) (auto simp: jm_wf_set)
  then show ?thesis unfolding py_dict_def by simp
qed

lemma py_dict_keys: "set (jm_keys (py_dict kvs)) = fst ` set kvs"
proof -
  have "k \<in> set (jm_keys (py_dict kvs)) \<longleftrightarrow> map_of (rev kvs) k \<noteq> None" for k
    by (simp add: set_jm_keys jm_has_get py_dict_get)
  then show ?thesis by (auto simp: map_of_eq_None_iff)
qed

text \<open>The counts of a run of statuses.\<close>

lemma count_statuses:
  "ct_total (fold count_status sts c) = ct_total c + length sts"
  "ct_satisfied (fold count_status sts c) = ct_satisfied c + length (filter (\<lambda>s. s = ''satisfied'') sts)"
  "ct_mocked (fold count_status sts c) = ct_mocked c + length (filter (\<lambda>s. s = ''mocked'') sts)"
  "ct_missing (fold count_status sts c) = ct_missing c + length (filter (\<lambda>s. s \<noteq> ''satisfied''
    \<and> s \<noteq> ''mocked'') sts)"
  by (induction sts arbitrary: c) (simp_all add: count_status_def Let_def)

lemma verify_deps:
  "fold (verify_dep m) deps (items, c) = (items @ map (sys_item m) deps, fold count_status (map (\<lambda>d.
    si_status (sys_item m d)) deps) c)"
  by (induction deps arbitrary: items c) (simp_all add: verify_dep_def Let_def)

lemma verify_comps:
  "fold (verify_comp m) deps (items, c) = (items @ map (comp_item m) deps, fold count_status (map (\<lambda>d.
    ci_status (comp_item m d)) deps) c)"
  by (induction deps arbitrary: items c) (simp_all add: verify_comp_def Let_def)

definition own_of :: "SysDep list \<Rightarrow> int \<times> string \<Rightarrow> SysDep list" where
  "own_of deps es = filter (\<lambda>d. sy_from d = fst es) deps"

lemma verify_systems:
  "fold (verify_system m deps) ess (rs, c) =
     (rs @ map (\<lambda>es. \<lparr>sr_system_id = fst es, sr_system_name = snd es, sr_dependencies = map
       (sys_item m) (own_of deps es)\<rparr>) ess,
      fold count_status (map (\<lambda>d. si_status (sys_item m d)) (concat (map (own_of deps) ess))) c)"
  by (induction ess arbitrary: rs c) (simp_all add: verify_system_def verify_deps own_of_def)

text \<open>Grouping by distinct keys loses and doubles nothing; each row keeps its key's value.\<close>

lemma mset_grouped:
  "distinct (map fst kvs) \<Longrightarrow>
   mset (concat (map (\<lambda>kv. map (\<lambda>d. (snd kv, d)) (filter (\<lambda>d. f d = fst kv) xs)) kvs)) =
   mset (map (\<lambda>d. (the (map_of kvs (f d)), d)) (filter (\<lambda>d. f d \<in> fst ` set kvs) xs))"
proof (induction kvs)
  case (Cons kv kvs)
  then have new: "fst kv \<notin> fst ` set kvs" by simp
  have split: "mset (filter (\<lambda>d. f d \<in> fst ` set (kv # kvs)) xs) =
      mset (filter (\<lambda>d. f d = fst kv) xs) + mset (filter (\<lambda>d. f d \<in> fst ` set kvs) xs)"
    using new by (induction xs) auto
  have "mset (map (\<lambda>d. (the (map_of (kv # kvs) (f d)), d)) (filter (\<lambda>d. f d \<in> fst ` set (kv #
    kvs)) xs)) =
      image_mset (\<lambda>d. (the (map_of (kv # kvs) (f d)), d)) (mset (filter (\<lambda>d. f d = fst kv) xs)) +
      image_mset (\<lambda>d. (the (map_of (kv # kvs) (f d)), d)) (mset (filter (\<lambda>d. f d \<in> fst ` set
        kvs) xs))"
    unfolding mset_map split by simp
  moreover have "image_mset (\<lambda>d. (the (map_of (kv # kvs) (f d)), d)) (mset (filter (\<lambda>d. f d = fst
    kv) xs)) =
      mset (map (\<lambda>d. (snd kv, d)) (filter (\<lambda>d. f d = fst kv) xs))"
    unfolding mset_map by (rule image_mset_cong) (cases kv, auto)
  moreover have "image_mset (\<lambda>d. (the (map_of (kv # kvs) (f d)), d)) (mset (filter (\<lambda>d. f d \<in>
    fst ` set kvs) xs)) =
      mset (map (\<lambda>d. (the (map_of kvs (f d)), d)) (filter (\<lambda>d. f d \<in> fst ` set kvs) xs))"
    unfolding mset_map using new by (intro image_mset_cong) (cases kv, auto)
  ultimately show ?case using Cons by simp
qed simp

lemma own_sys_deps_keys: "own_sys_deps t = filter (\<lambda>d. sy_from d \<in> set (jm_keys (py_dict (et_systems
  t)))) (et_sys_deps t)"
  by (simp add: own_sys_deps_def system_ids_of_def py_dict_keys)

lemma own_comp_deps_ids:
  "own_comp_deps t =
     (let ids = map fst (filter (\<lambda>s. snd s \<in> set (jm_keys (py_dict (et_systems t)))) (et_subs t)) in
      if jm_keys (py_dict (et_systems t)) = [] \<or> ids = [] then [] else filter (\<lambda>d. co_from d \<in> set
        ids) (et_comp_deps t))"
proof (cases "map fst (filter (\<lambda>s. snd s \<in> set (jm_keys (py_dict (et_systems t)))) (et_subs t)) = []")
  case True
  then have "\<not> (\<exists>s \<in> set (et_subs t). fst s = c \<and> snd s \<in> system_ids_of t)" for c
    by (auto simp: filter_empty_conv py_dict_keys system_ids_of_def)
  then show ?thesis using True by (simp add: own_comp_deps_def)
next
  case False
  then have "jm_keys (py_dict (et_systems t)) \<noteq> []" by auto
  moreover have "(\<exists>s \<in> set (et_subs t). fst s = c \<and> snd s \<in> system_ids_of t)
    \<longleftrightarrow>
      c \<in> set (map fst (filter (\<lambda>s. snd s \<in> set (jm_keys (py_dict (et_systems t)))) (et_subs t)))"
        for c
    unfolding py_dict_keys system_ids_of_def by auto
  ultimately show ?thesis using False unfolding own_comp_deps_def Let_def by simp
qed

text \<open>The answer, with the loops gone.\<close>

lemma verify_environment_eq:
  fixes t :: env_tables
  defines "m \<equiv> py_dict (et_systems t)" and "k \<equiv> py_dict (et_env_subs t)"
  shows "verify_environment t =
    (let sts = map (\<lambda>d. si_status (sys_item m d)) (concat (map (own_of (own_sys_deps t)) m));
         cts = map (\<lambda>d. ci_status (comp_item k d)) (own_comp_deps t);
         c = fold count_status sts no_counts; e = fold count_status cts no_counts
     in \<lparr>vr_total_dependencies = ct_total c, vr_satisfied_count = ct_satisfied c, vr_mocked_count =
       ct_mocked c,
         vr_missing_count = ct_missing c,
         vr_systems = map (\<lambda>es. \<lparr>sr_system_id = fst es, sr_system_name = snd es,
           sr_dependencies = map (sys_item m) (own_of (own_sys_deps t) es)\<rparr>) m,
         vr_component_total = ct_total e, vr_component_satisfied = ct_satisfied e, vr_component_mocked = ct_mocked
           e,
         vr_component_missing = ct_missing e, vr_component_dependencies = map (comp_item k) (own_comp_deps
           t)\<rparr>)"
  unfolding verify_environment_def m_def k_def
  by (simp only: Let_def verify_systems verify_comps own_sys_deps_keys own_comp_deps_ids case_prod_conv append_Nil)

lemma sys_status:
  "si_status (sys_item (py_dict (et_systems t)) d) = (if sy_to d \<in> system_ids_of t then ''satisfied'' else
    ''missing'')"
  using py_dict_keys [of "et_systems t"] by (simp add: sys_item_def system_ids_of_def jm_has_def jm_keys_def)

lemma comp_status:
  "ci_status (comp_item (py_dict (et_env_subs t)) d) \<noteq> ''satisfied'' \<longleftrightarrow> map_of (rev
    (et_env_subs t)) (co_to d) \<noteq> Some False"
  by (simp add: comp_item_def py_dict_get split: option.split)

lemma mset_grouped_deps: "mset (concat (map (own_of (own_sys_deps t)) (py_dict (et_systems t)))) = mset
  (own_sys_deps t)"
proof -
  let ?m = "py_dict (et_systems t)"
  have wf: "distinct (map fst ?m)" using py_dict_wf [of "et_systems t"] by (simp add: jm_wf_def)
  have all: "filter (\<lambda>d. sy_from d \<in> fst ` set ?m) (own_sys_deps t) = own_sys_deps t"
    by (rule filter_True) (simp add: own_sys_deps_keys jm_keys_def)
  have "image_mset snd (mset (concat (map (\<lambda>kv. map (\<lambda>d. (snd kv, d)) (filter (\<lambda>d. sy_from
    d = fst kv) (own_sys_deps t))) ?m))) =
      mset (own_sys_deps t)"
    unfolding mset_grouped [OF wf] all by (simp add: multiset.map_comp comp_def)
  moreover have "image_mset snd (mset (concat (map (\<lambda>kv. map (\<lambda>d. (snd kv, d)) (filter (\<lambda>d.
    sy_from d = fst kv) (own_sys_deps t))) ks))) =
      mset (concat (map (own_of (own_sys_deps t)) ks))" for ks :: "(int \<times> string) list"
    by (induction ks) (simp_all add: own_of_def multiset.map_comp comp_def)
  ultimately show ?thesis by simp
qed

lemma sys_item_parts:
  "si_to_system_id (sys_item m d) = sy_to d" "si_dependency_type (sys_item m d) = sy_type d"
  by (simp_all add: sys_item_def)

lemma items_eq:
  fixes t :: env_tables
  defines "m \<equiv> py_dict (et_systems t)"
  shows "allDepItems (verify_environment t) =
    map (\<lambda>(n, d). (n, sys_item m d)) (concat (map (\<lambda>kv. map (\<lambda>d. (snd kv, d)) (filter
      (\<lambda>d. sy_from d = fst kv) (own_sys_deps t))) m))"
proof -
  have "concat (map (\<lambda>s. map (\<lambda>d. (sr_system_name s, d)) (sr_dependencies s)) (map (\<lambda>es.
    \<lparr>sr_system_id = fst es,
        sr_system_name = snd es, sr_dependencies = map (sys_item m) (own_of (own_sys_deps t) es)\<rparr>) ks)) =
      map (\<lambda>(n, d). (n, sys_item m d)) (concat (map (\<lambda>kv. map (\<lambda>d. (snd kv, d)) (filter
        (\<lambda>d. sy_from d = fst kv) (own_sys_deps t))) ks))"
    for ks
    by (induction ks) (simp_all add: own_of_def)
  then show ?thesis unfolding allDepItems_def verify_environment_eq m_def Let_def by simp
qed

lemma gap_counts:
  "vr_total_dependencies (verify_environment t) = length (own_sys_deps t)"
  "vr_missing_count (verify_environment t) = length (sys_gaps t)" "vr_mocked_count (verify_environment t) = 0"
  "vr_component_missing (verify_environment t) + vr_component_mocked (verify_environment t) = length (comp_gaps t)"
  "vr_component_total (verify_environment t) = length (own_comp_deps t)"
proof -
  let ?ds = "concat (map (own_of (own_sys_deps t)) (py_dict (et_systems t)))"
  have len: "length (filter P ?ds) = length (filter P (own_sys_deps t))" for P
    by (metis mset_filter mset_grouped_deps size_mset)
  show "vr_total_dependencies (verify_environment t) = length (own_sys_deps t)"
    using len [of "\<lambda>d. True"] by (simp add: verify_environment_eq Let_def count_statuses no_counts_def)
  show "vr_missing_count (verify_environment t) = length (sys_gaps t)"
    using len [of "\<lambda>d. sy_to d \<notin> system_ids_of t"]
    by (simp add: verify_environment_eq Let_def count_statuses no_counts_def filter_map comp_def sys_status
      sys_gaps_def
        if_distrib [of "\<lambda>s. s = _"] cong: if_cong)
  show "vr_mocked_count (verify_environment t) = 0"
    by (simp add: verify_environment_eq Let_def count_statuses no_counts_def filter_map comp_def sys_status)
  have both: "length (filter (\<lambda>s. s \<noteq> ''satisfied'' \<and> s \<noteq> ''mocked'') cts) + length
    (filter (\<lambda>s. s = ''mocked'') cts) =
      length (filter (\<lambda>s. s \<noteq> ''satisfied'') cts)" for cts :: "string list"
    by (induction cts) auto
  have "vr_component_missing (verify_environment t) + vr_component_mocked (verify_environment t) =
      length (filter (\<lambda>s. s \<noteq> ''satisfied'') (map (\<lambda>d. ci_status (comp_item (py_dict
        (et_env_subs t)) d)) (own_comp_deps t)))"
    unfolding both [symmetric] by (simp add: verify_environment_eq Let_def count_statuses no_counts_def)
  then show "vr_component_missing (verify_environment t) + vr_component_mocked (verify_environment t) = length
    (comp_gaps t)"
    by (simp add: filter_map comp_def comp_status comp_gaps_def)
  show "vr_component_total (verify_environment t) = length (own_comp_deps t)"
    by (simp add: verify_environment_eq Let_def count_statuses no_counts_def)
qed

lemma gaps_listed:
  "mset (map (\<lambda>(n, i). (Some n, si_to_system_id i, si_dependency_type i)) (nonSatisfiedItems
    (verify_environment t))) =
   mset (map (\<lambda>d. (map_of (rev (et_systems t)) (sy_from d), sy_to d, sy_type d)) (sys_gaps t))"
proof -
  let ?m = "py_dict (et_systems t)"
  let ?P = "\<lambda>p. sy_to (snd p) \<notin> system_ids_of t"
  define row where "row = (\<lambda>p :: string \<times> SysDep. (Some (fst p), sy_to (snd p), sy_type (snd p)))"
  define xs where "xs = concat (map (\<lambda>kv. map (\<lambda>d. (snd kv, d)) (filter (\<lambda>d. sy_from d =
    fst kv) (own_sys_deps t))) ?m)"
  have wf: "distinct (map fst ?m)" using py_dict_wf [of "et_systems t"] by (simp add: jm_wf_def)
  have all: "filter (\<lambda>d. sy_from d \<in> fst ` set ?m) (own_sys_deps t) = own_sys_deps t"
    by (rule filter_True) (simp add: own_sys_deps_keys jm_keys_def)
  have xs: "mset xs = mset (map (\<lambda>d. (the (map_of ?m (sy_from d)), d)) (own_sys_deps t))"
    unfolding xs_def mset_grouped [OF wf] all ..
  have "map (\<lambda>(n, i). (Some n, si_to_system_id i, si_dependency_type i)) (nonSatisfiedItems
    (verify_environment t)) =
      map row (filter ?P xs)"
    unfolding nonSatisfiedItems_def items_eq xs_def [symmetric] row_def
    by (simp add: filter_map comp_def split_def sys_status sys_item_parts)
  also have "mset \<dots> = mset (map row (filter ?P (map (\<lambda>d. (the (map_of ?m (sy_from d)), d))
    (own_sys_deps t))))"
    unfolding mset_map mset_filter xs ..
  also have "map row (filter ?P (map (\<lambda>d. (the (map_of ?m (sy_from d)), d)) (own_sys_deps t))) =
      map (\<lambda>d. (map_of (rev (et_systems t)) (sy_from d), sy_to d, sy_type d)) (sys_gaps t)"
  proof -
    have "Some (the (map_of ?m (sy_from d))) = map_of (rev (et_systems t)) (sy_from d)" if "d \<in> set
      (own_sys_deps t)" for d
    proof -
      from that have "jm_get ?m (sy_from d) \<noteq> None" by (simp add: own_sys_deps_keys set_jm_keys)
      then show ?thesis by (auto simp: jm_get_def [symmetric] py_dict_get)
    qed
    then show ?thesis by (simp add: row_def sys_gaps_def filter_map comp_def)
  qed
  finally show ?thesis .
qed

text \<open>
  C24: The verification panel tells the coverage of the environment. It says that there are no dependencies, or that
  all are satisfied, exactly when that is so of the tables of the server; the gaps it lists are the dependencies of
  the environment's systems whose target is not in it, each under its system's name, and the dependencies of its
  components whose target is not in it or is mocked, and the chips count them.
\<close>

theorem verify_panel_tells_coverage:
  "(panel_verdict (verify_environment t) = No_dependencies \<longleftrightarrow> own_sys_deps t = []) \<and>
   (panel_verdict (verify_environment t) = All_satisfied \<longleftrightarrow> own_sys_deps t \<noteq> [] \<and>
     sys_gaps t = [] \<and> comp_gaps t = []) \<and>
   mset (map (\<lambda>(n, i). (Some n, si_to_system_id i, si_dependency_type i)) (panel_gaps (verify_environment
     t))) =
     mset (map (\<lambda>d. (map_of (rev (et_systems t)) (sy_from d), sy_to d, sy_type d)) (sys_gaps t)) \<and>
   map (\<lambda>i. (ci_from_subsystem_id i, ci_to_subsystem_id i, ci_dependency_type i)) (panel_component_gaps
     (verify_environment t)) =
     map (\<lambda>d. (co_from d, co_to d, co_type d)) (comp_gaps t) \<and>
   vr_missing_count (verify_environment t) = length (sys_gaps t) \<and>
   vr_component_missing (verify_environment t) + vr_component_mocked (verify_environment t) = length (comp_gaps t)"
proof (intro conjI)
  show none: "panel_verdict (verify_environment t) = No_dependencies \<longleftrightarrow> own_sys_deps t = []"
    by (simp add: panel_verdict_def gap_counts)
  show all: "panel_verdict (verify_environment t) = All_satisfied \<longleftrightarrow> own_sys_deps t \<noteq> []
    \<and> sys_gaps t = [] \<and> comp_gaps t = []"
  proof -
    have "comp_gaps t = [] \<longleftrightarrow> vr_component_missing (verify_environment t) = 0 \<and>
      vr_component_mocked (verify_environment t) = 0"
      using gap_counts(4) [of t] by (metis add_eq_0_iff_both_eq_0 length_0_conv)
    then show ?thesis by (auto simp: panel_verdict_def gap_counts(1-3))
  qed
  have "panel_verdict (verify_environment t) \<noteq> Gaps \<Longrightarrow> sys_gaps t = []"
    using none all by (cases "panel_verdict (verify_environment t)") (auto simp: sys_gaps_def)
  then show "mset (map (\<lambda>(n, i). (Some n, si_to_system_id i, si_dependency_type i)) (panel_gaps
    (verify_environment t))) =
      mset (map (\<lambda>d. (map_of (rev (et_systems t)) (sy_from d), sy_to d, sy_type d)) (sys_gaps t))"
    using gaps_listed [of t] by (cases "panel_verdict (verify_environment t) = Gaps") (simp_all add: panel_gaps_def)
  have "own_comp_deps t = [] \<Longrightarrow> comp_gaps t = []" by (simp add: comp_gaps_def)
  then show "map (\<lambda>i. (ci_from_subsystem_id i, ci_to_subsystem_id i, ci_dependency_type i))
    (panel_component_gaps (verify_environment t)) =
      map (\<lambda>d. (co_from d, co_to d, co_type d)) (comp_gaps t)"
    unfolding panel_component_gaps_def gap_counts
    by (simp add: nonSatisfiedComponentItems_def verify_environment_eq Let_def filter_map comp_def comp_status
      comp_gaps_def)
       (simp add: comp_item_def)
qed (simp_all add: gap_counts)

end
