(* ===== verification/SystemDetail.thy ===== *)
theory SystemDetail
  imports Forms ApiClient
begin

text \<open>
  The page of a system (\<open>pages/systems/SystemDetail.tsx\<close>): the edit form of the overview, the dialogs
    of
  subsystems and of the two kinds of dependencies, the list of component dependencies that the page keeps for
  itself, the picker that reads every subsystem with a raw \<open>fetch\<close>, and the two imports. A handler is a
  function from the page to what it sends, and a second function that takes the outcome. The session of the page
  is the page beside the systems slice, so that an answer and the effect that follows it are one step.
\<close>

subsection \<open>Options\<close>

definition DEP_TYPE_OPTIONS :: "(string \<times> string) list" where
  "DEP_TYPE_OPTIONS = [(''api_call'', ''API Call''), (''database'', ''Database''), (''message_queue'',
    ''Message Queue''),
     (''event'', ''Event''), (''file'', ''File''), (''other'', ''Other'')]"

definition DEP_DIRECTION_OPTIONS :: "(string \<times> string) list" where
  "DEP_DIRECTION_OPTIONS = [(''one_way'', ''One-way''), (''two_way'', ''Two-way'')]"

definition DEP_SOURCE_OPTIONS :: "(string \<times> string) list" where
  "DEP_SOURCE_OPTIONS = [(''manual'', ''Manual''), (''terraform'', ''Terraform''), (''docker_compose'',
    ''Docker Compose'')]"

definition HTTP_METHOD_OPTIONS :: "(string \<times> string) list" where
  "HTTP_METHOD_OPTIONS = [(''get'', ''GET''), (''post'', ''POST''), (''put'', ''PUT''), (''patch'', ''PATCH''),
     (''delete'', ''DELETE''), (''head'', ''HEAD''), (''options'', ''OPTIONS'')]"

definition COMPONENT_TYPE_OPTIONS :: "(string \<times> string) list" where
  "COMPONENT_TYPE_OPTIONS = [(''web_service'', ''Web Service''), (''api_gateway'', ''API Gateway''),
     (''database'', ''Database''), (''cache'', ''Cache''), (''message_queue'', ''Message Queue''), (''worker'',
       ''Worker''),
     (''frontend'', ''Frontend''), (''other'', ''Other'')]"

definition option_values :: "(string \<times> string) list \<Rightarrow> string list" where
  "option_values opts = map fst opts"

subsection \<open>State\<close>

record SubFormValues =
  sub_name :: string
  sub_description :: string
  sub_component_type :: string
  sub_technology :: string

definition emptySubForm :: SubFormValues where
  "emptySubForm = \<lparr>sub_name = [], sub_description = [], sub_component_type = ''other'', sub_technology =
    []\<rparr>"

record DepFormValues =
  df_to_system_id :: "int option"
  df_dependency_type :: string
  df_direction :: string

definition emptyDepForm :: DepFormValues where
  "emptyDepForm = \<lparr>df_to_system_id = None, df_dependency_type = ''api_call'', df_direction =
    ''one_way''\<rparr>"

record CompDepFormValues =
  cd_from_subsystem_id :: "int option"
  cd_to_subsystem_id :: "int option"
  cd_dependency_type :: string
  cd_direction :: string

definition emptyCompDepForm :: CompDepFormValues where
  "emptyCompDepForm = \<lparr>cd_from_subsystem_id = None, cd_to_subsystem_id = None, cd_dependency_type =
    ''api_call'',
     cd_direction = ''one_way''\<rparr>"

record DepEditFormValues =
  de_dependency_type :: string
  de_direction :: string
  de_source :: string

record CompDepEditFormValues = DepEditFormValues +
  de_protocol :: string
  de_port :: string

record EndpointDraft =
  ed_http_method :: string
  ed_path :: string
  ed_description :: string

definition empty_draft :: EndpointDraft where
  "empty_draft = \<lparr>ed_http_method = [], ed_path = [], ed_description = []\<rparr>"

text \<open>A dialog that imports a file: the file's name and content stay with the browser.\<close>

record import_dialog =
  im_open :: bool
  im_file :: "string option"
  im_loading :: bool
  im_result :: "json option"
  im_error :: "string option"

definition import_closed :: import_dialog where
  "import_closed = \<lparr>im_open = False, im_file = None, im_loading = False, im_result = None, im_error =
    None\<rparr>"

record system_page =
  sd_systemId :: int
  sd_editMode :: bool
  sd_sysForm :: SystemFormValues
  sd_sysFormError :: string
  sd_sysCustomFieldValues :: json
  sd_sub :: "SubFormValues dialog"
  sd_subDeleteTarget :: "json option"
  sd_depDialogOpen :: bool
  sd_depForm :: DepFormValues
  sd_depFormError :: string
  sd_depDeleteTarget :: "json option"
  sd_depEditTarget :: "json option"
  sd_depEditForm :: DepEditFormValues
  sd_depEditFormError :: string
  sd_compDepDialogOpen :: bool
  sd_compDepForm :: CompDepFormValues
  sd_compDepFormError :: string
  sd_compDepDeleteTarget :: "json option"
  sd_compDepEditTarget :: "json option"
  sd_compDepEditForm :: CompDepEditFormValues
  sd_compDepEditFormError :: string
  sd_endpointDraftVisible :: bool
  sd_endpointDraft :: EndpointDraft
  sd_endpointDraftError :: string
  sd_endpointSaving :: bool
  sd_allSubsystems :: "json list"
  sd_allSubsystemsLoading :: bool
  sd_allCompDeps :: "json list"
  sd_compDepsLoading :: bool
  sd_dcImport :: import_dialog
  sd_tfImport :: import_dialog

definition system_mount :: "int \<Rightarrow> system_page" where
  "system_mount i = \<lparr>sd_systemId = i, sd_editMode = False, sd_sysForm = SystemCatalog_emptyForm,
    sd_sysFormError = [],
     sd_sysCustomFieldValues = J_obj [], sd_sub = closed_dialog emptySubForm, sd_subDeleteTarget = None,
     sd_depDialogOpen = False, sd_depForm = emptyDepForm, sd_depFormError = [], sd_depDeleteTarget = None,
     sd_depEditTarget = None,
     sd_depEditForm = \<lparr>de_dependency_type = ''api_call'', de_direction = ''one_way'', de_source =
       ''manual''\<rparr>,
     sd_depEditFormError = [], sd_compDepDialogOpen = False, sd_compDepForm = emptyCompDepForm, sd_compDepFormError
       = [],
     sd_compDepDeleteTarget = None, sd_compDepEditTarget = None,
     sd_compDepEditForm = \<lparr>de_dependency_type = ''api_call'', de_direction = ''one_way'', de_source =
       ''manual'',
       de_protocol = [], de_port = []\<rparr>,
     sd_compDepEditFormError = [], sd_endpointDraftVisible = False, sd_endpointDraft = empty_draft,
     sd_endpointDraftError = [], sd_endpointSaving = False, sd_allSubsystems = [], sd_allSubsystemsLoading = False,
     sd_allCompDeps = [], sd_compDepsLoading = False, sd_dcImport = import_closed, sd_tfImport =
       import_closed\<rparr>"

text \<open>What the page reads when it mounts, and again when the id in its address changes.\<close>

definition system_fetches :: "int \<Rightarrow> call list" where
  "system_fetches systemId = [systemService_getSystem systemId, systemService_listSubSystems systemId,
     dependencyService_listSystemDependencies systemId, customFieldService_listDefinitions ''subsystem'',
     customFieldService_listDefinitions ''system'']"

subsection \<open>The overview\<close>

text \<open>The effect on \<open>currentSystem\<close>.\<close>

definition system_form_effect :: "json option \<Rightarrow> system_page \<Rightarrow> system_page" where
  "system_form_effect currentSystem p =
     (case currentSystem of
        None \<Rightarrow> p
      | Some system \<Rightarrow> p\<lparr>sd_sysForm := \<lparr>sf_name = text_key ''name'' system,
            sf_description = text_key ''description'' system,
            sf_github_repository_url = text_key ''github_repository_url'' system\<rparr>,
          sd_sysCustomFieldValues := object_or_empty (row_key ''custom_fields'' system)\<rparr>)"

definition system_edit :: "system_page \<Rightarrow> system_page" where
  "system_edit p = p\<lparr>sd_editMode := True\<rparr>"

definition system_cancel :: "system_page \<Rightarrow> system_page" where
  "system_cancel p = p\<lparr>sd_editMode := False\<rparr>"

definition system_update_data :: "system_page \<Rightarrow> json" where
  "system_update_data p = json_body
     [(''name'', J_str (sf_name (sd_sysForm p))),
      (''description'', or_undefined (sf_description (sd_sysForm p))),
      (''github_repository_url'', or_undefined (sf_github_repository_url (sd_sysForm p))),
      (''custom_fields'', sd_sysCustomFieldValues p)]"

definition handleSysUpdate :: "system_page \<Rightarrow> save" where
  "handleSysUpdate p =
     (if js_trim (sf_name (sd_sysForm p)) = [] then Refused ''Name is required''
      else Sends (systemService_updateSystem (sd_systemId p) (system_update_data p)) (system_update_data p))"

text \<open>The end of an awaited thunk: \<open>None\<close> when it was fulfilled.\<close>

definition handleSysUpdate_end :: "rejected option \<Rightarrow> system_page \<Rightarrow> system_page" where
  "handleSysUpdate_end outcome p =
     (case outcome of
        None \<Rightarrow> p\<lparr>sd_editMode := False, sd_sysFormError := []\<rparr>
      | Some r \<Rightarrow> p\<lparr>sd_sysFormError := message_or_String ''Failed to update'' (unwrapped
        r)\<rparr>)"

subsection \<open>Subsystems\<close>

definition openSubCreate :: "system_page \<Rightarrow> system_page" where
  "openSubCreate p = p\<lparr>sd_sub := \<lparr>dl_open = True, dl_target = None, dl_form = emptySubForm, dl_error
    = [],
     dl_custom = J_obj []\<rparr>\<rparr>"

text \<open>\<open>sub.component_type ?? 'other'\<close>.\<close>

definition or_other :: "json \<Rightarrow> string" where
  "or_other v = (case v of J_str s \<Rightarrow> s | _ \<Rightarrow> ''other'')"

definition openSubEdit :: "json \<Rightarrow> system_page \<Rightarrow> system_page" where
  "openSubEdit row p = p\<lparr>sd_sub := \<lparr>dl_open = True, dl_target = Some row,
     dl_form = \<lparr>sub_name = text_key ''name'' row, sub_description = text_key ''description'' row,
       sub_component_type = or_other (row_key ''component_type'' row), sub_technology = text_key ''technology''
         row\<rparr>,
     dl_error = [], dl_custom = object_or_empty (row_key ''custom_fields'' row)\<rparr>\<rparr>"

definition closeSub :: "system_page \<Rightarrow> system_page" where
  "closeSub p = p\<lparr>sd_sub := (sd_sub p)\<lparr>dl_open := False, dl_custom := J_obj []\<rparr>\<rparr>"

definition sub_data :: "SubFormValues dialog \<Rightarrow> json" where
  "sub_data d = json_body
     [(''name'', J_str (sub_name (dl_form d))), (''description'', or_undefined (sub_description (dl_form d))),
      (''component_type'', J_str (sub_component_type (dl_form d))),
      (''technology'', or_undefined (sub_technology (dl_form d))), (''custom_fields'', dl_custom d)]"

definition handleSubSave :: "system_page \<Rightarrow> save" where
  "handleSubSave p =
     (let d = sd_sub p in
      if js_trim (sub_name (dl_form d)) = [] then Refused ''Name is required''
      else case dl_target d of
             Some row \<Rightarrow> Sends (systemService_updateSubSystem (sd_systemId p) (num_key ''id'' row)
               (sub_data d)) (sub_data d)
           | None \<Rightarrow> Sends (systemService_createSubSystem (sd_systemId p) (sub_data d)) (sub_data d))"

definition handleSubSave_end :: "rejected option \<Rightarrow> system_page \<Rightarrow> system_page" where
  "handleSubSave_end outcome p =
     (case outcome of
        None \<Rightarrow> closeSub p
      | Some r \<Rightarrow> p\<lparr>sd_sub := (sd_sub p)\<lparr>dl_error := message_or_String
        ''Failed to save subsystem'' (unwrapped r)\<rparr>\<rparr>)"

definition handleSubDelete :: "system_page \<Rightarrow> call option" where
  "handleSubDelete p = map_option (\<lambda>row. systemService_deleteSubSystem (sd_systemId p) (num_key ''id''
    row)) (sd_subDeleteTarget p)"

text \<open>\<open>try ... finally\<close> without a \<open>catch\<close>: the dialog closes whatever the
  outcome.\<close>

definition handleSubDelete_end :: "rejected option \<Rightarrow> system_page \<Rightarrow> system_page" where
  "handleSubDelete_end outcome p = p\<lparr>sd_subDeleteTarget := None\<rparr>"

subsection \<open>System dependencies\<close>

definition openDepCreate :: "system_page \<Rightarrow> system_page" where
  "openDepCreate p = p\<lparr>sd_depForm := emptyDepForm, sd_depFormError := [], sd_depDialogOpen := True\<rparr>"

definition dep_data :: "DepFormValues \<Rightarrow> json" where
  "dep_data f = json_body [(''to_system_id'', int_or_null (df_to_system_id f)),
     (''dependency_type'', J_str (df_dependency_type f)), (''direction'', J_str (df_direction f))]"

definition handleDepSave :: "system_page \<Rightarrow> save" where
  "handleDepSave p =
     (if \<not> set_id (df_to_system_id (sd_depForm p)) then Refused ''Please select a target system''
      else Sends (dependencyService_createSystemDependency (sd_systemId p) (dep_data (sd_depForm p))) (dep_data
        (sd_depForm p)))"

definition handleDepSave_end :: "rejected option \<Rightarrow> system_page \<Rightarrow> system_page" where
  "handleDepSave_end outcome p =
     (case outcome of
        None \<Rightarrow> p\<lparr>sd_depDialogOpen := False\<rparr>
      | Some r \<Rightarrow> p\<lparr>sd_depFormError := message_or_String ''Failed to create dependency''
        (unwrapped r)\<rparr>)"

definition handleDepDelete :: "system_page \<Rightarrow> call option" where
  "handleDepDelete p = map_option (\<lambda>dep. dependencyService_deleteSystemDependency (sd_systemId p) (num_key
    ''id'' dep))
     (sd_depDeleteTarget p)"

definition handleDepDelete_end :: "rejected option \<Rightarrow> system_page \<Rightarrow> system_page" where
  "handleDepDelete_end outcome p = p\<lparr>sd_depDeleteTarget := None\<rparr>"

definition openDepEdit :: "json \<Rightarrow> system_page \<Rightarrow> system_page" where
  "openDepEdit dep p = p\<lparr>sd_depEditTarget := Some dep,
     sd_depEditForm := \<lparr>de_dependency_type = text_key ''dependency_type'' dep, de_direction = text_key
       ''direction'' dep,
       de_source = text_key ''source'' dep\<rparr>, sd_depEditFormError := []\<rparr>"

definition dep_edit_data :: "DepEditFormValues \<Rightarrow> json" where
  "dep_edit_data f = json_body [(''dependency_type'', J_str (de_dependency_type f)),
     (''direction'', J_str (de_direction f)), (''source'', J_str (de_source f))]"

definition handleDepEditSave :: "system_page \<Rightarrow> save option" where
  "handleDepEditSave p =
     map_option (\<lambda>dep. Sends (dependencyService_updateSystemDependency (sd_systemId p) (num_key ''id'' dep)
         (dep_edit_data (sd_depEditForm p))) (dep_edit_data (sd_depEditForm p)))
       (sd_depEditTarget p)"

definition handleDepEditSave_end :: "rejected option \<Rightarrow> system_page \<Rightarrow> system_page" where
  "handleDepEditSave_end outcome p =
     (case outcome of
        None \<Rightarrow> p\<lparr>sd_depEditTarget := None\<rparr>
      | Some r \<Rightarrow> p\<lparr>sd_depEditFormError := message_or_String ''Failed to update dependency''
        (unwrapped r)\<rparr>)"

text \<open>The systems that can still be chosen: not this one, and not the target of an outgoing
  dependency.\<close>

definition outgoingDepTargetIds :: "json list \<Rightarrow> json list" where
  "outgoingDepTargetIds systemDependencies =
     map (row_key ''to_system_id'') (filter (\<lambda>d. \<not> ServiceApi.truthy (row_key ''is_incoming'' d))
       systemDependencies)"

definition availableForDep :: "int \<Rightarrow> json list \<Rightarrow> json list \<Rightarrow> json list" where
  "availableForDep systemId systems systemDependencies =
     filter (\<lambda>s. row_id s \<noteq> J_int systemId \<and> row_id s \<notin> set (outgoingDepTargetIds
       systemDependencies)) systems"

subsection \<open>Component dependencies\<close>

text \<open>The merge of the answers: the first row of each id. A call that failed answers no rows.\<close>

definition merge_dep :: "json \<Rightarrow> json list \<times> json list \<Rightarrow> json list \<times> json
  list" where
  "merge_dep dep acc =
     (case acc of (seen, merged) \<Rightarrow>
        if row_id dep \<in> set seen then (seen, merged) else (seen @ [row_id dep], merged @ [dep]))"

definition merge_deps :: "(ApiError + json list) list \<Rightarrow> json list" where
  "merge_deps answers =
     snd (foldl (\<lambda>acc rows. foldl (\<lambda>acc dep. merge_dep dep acc) acc rows) ([], [])
       (map (\<lambda>a. case a of Inl e \<Rightarrow> [] | Inr rows \<Rightarrow> rows) answers))"

definition loadCompDeps_calls :: "json list \<Rightarrow> call list" where
  "loadCompDeps_calls subsystems = map (\<lambda>row. dependencyService_listComponentDependencies (num_key ''id''
    row)) subsystems"

definition loadCompDeps_start :: "json list \<Rightarrow> system_page \<Rightarrow> system_page" where
  "loadCompDeps_start subsystems p = (if subsystems = [] then p else p\<lparr>sd_compDepsLoading := True\<rparr>)"

definition loadCompDeps_end :: "(ApiError + json list) list \<Rightarrow> system_page \<Rightarrow> system_page"
  where
  "loadCompDeps_end answers p = p\<lparr>sd_allCompDeps := merge_deps answers, sd_compDepsLoading := False\<rparr>"

text \<open>The effect keyed on the tab.\<close>

definition compDeps_effect :: "string \<Rightarrow> json list \<Rightarrow> system_page \<Rightarrow> system_page
  \<times> call list" where
  "compDeps_effect tab subsystems p =
     (if tab \<noteq> ''component-deps'' then (p, []) else (loadCompDeps_start subsystems p, loadCompDeps_calls
       subsystems))"

text \<open>
  The picker of targets: one raw \<open>fetch\<close> per system, with the token of the session and not the one of
    an
  impersonation. An answer that is not ok, or that is no JSON, is no rows.
\<close>

definition raw_fetch_header :: "storage \<Rightarrow> string" where
  "raw_fetch_header st = bearer (case ls_token st of Some t \<Rightarrow> t | None \<Rightarrow> [])"

definition raw_fetch_url :: "json \<Rightarrow> string" where
  "raw_fetch_url system = ''/api/v1/systems/'' @ show_int (num_key ''id'' system) @ ''/subsystems''"

definition picker_row :: "json \<Rightarrow> json \<Rightarrow> json" where
  "picker_row system row = J_obj [(''id'', row_id row), (''name'', row_key ''name'' row), (''system_id'', row_id
    system),
     (''system_name'', row_key ''name'' system)]"

definition openCompDepCreate_start :: "storage \<Rightarrow> json list \<Rightarrow> system_page \<Rightarrow>
  system_page \<times> (string \<times> string) list" where
  "openCompDepCreate_start st systems p =
     (p\<lparr>sd_compDepForm := emptyCompDepForm, sd_compDepFormError := [], sd_compDepDialogOpen := True,
        sd_allSubsystemsLoading := True\<rparr>,
      map (\<lambda>system. (raw_fetch_url system, raw_fetch_header st)) systems)"

definition openCompDepCreate_end :: "json list \<Rightarrow> (json list) option list \<Rightarrow> system_page
  \<Rightarrow> system_page" where
  "openCompDepCreate_end systems answers p =
     p\<lparr>sd_allSubsystems := concat (map (\<lambda>(system, a). case a of None \<Rightarrow> [] | Some subs
       \<Rightarrow> map (picker_row system) subs)
         (zip systems answers)),
       sd_allSubsystemsLoading := False\<rparr>"

definition comp_dep_data :: "CompDepFormValues \<Rightarrow> json" where
  "comp_dep_data f = json_body [(''to_subsystem_id'', int_or_null (cd_to_subsystem_id f)),
     (''dependency_type'', J_str (cd_dependency_type f)), (''direction'', J_str (cd_direction f))]"

definition handleCompDepSave :: "system_page \<Rightarrow> save" where
  "handleCompDepSave p =
     (let f = sd_compDepForm p in
      if \<not> set_id (cd_from_subsystem_id f) then Refused ''Please select a source subsystem''
      else if \<not> set_id (cd_to_subsystem_id f) then Refused ''Please select a target subsystem''
      else Sends (dependencyService_createComponentDependency (case cd_from_subsystem_id f of Some i \<Rightarrow>
        i | None \<Rightarrow> 0) (comp_dep_data f))
             (comp_dep_data f))"

text \<open>After a success the list is loaded again, over the subsystems that the handler closed over.\<close>

definition handleCompDepSave_end :: "json list \<Rightarrow> rejected option \<Rightarrow> system_page
  \<Rightarrow> system_page" where
  "handleCompDepSave_end subsystems outcome p =
     (case outcome of
        None \<Rightarrow> loadCompDeps_start subsystems (p\<lparr>sd_compDepDialogOpen := False\<rparr>)
      | Some r \<Rightarrow> p\<lparr>sd_compDepFormError := message_or_String
        ''Failed to create component dependency'' (unwrapped r)\<rparr>)"

definition openCompDepEdit :: "json \<Rightarrow> system_page \<Rightarrow> system_page" where
  "openCompDepEdit dep p = p\<lparr>sd_compDepEditTarget := Some dep,
     sd_compDepEditForm := \<lparr>de_dependency_type = text_key ''dependency_type'' dep, de_direction = text_key
       ''direction'' dep,
       de_source = text_key ''source'' dep, de_protocol = text_key ''protocol'' dep,
       de_port = (case int_key ''port'' dep of Some i \<Rightarrow> show_int i | None \<Rightarrow> [])\<rparr>,
     sd_compDepEditFormError := []\<rparr>"

text \<open>\<open>port !==
  '' ? Number(port) : undefined\<close>; \<open>number\<close> is what is written of \<open>Number\<close> of a text.\<close>

definition comp_dep_edit_data :: "(string \<Rightarrow> json) \<Rightarrow> CompDepEditFormValues \<Rightarrow>
  json" where
  "comp_dep_edit_data number f = json_body
     [(''dependency_type'', J_str (de_dependency_type f)), (''direction'', J_str (de_direction f)),
      (''source'', J_str (de_source f)), (''protocol'', or_undefined (de_protocol f)),
      (''port'', if de_port f = [] then J_undefined else number (de_port f))]"

definition handleCompDepEditSave :: "(string \<Rightarrow> json) \<Rightarrow> system_page \<Rightarrow> save
  option" where
  "handleCompDepEditSave number p =
     map_option (\<lambda>dep. let data = comp_dep_edit_data number (sd_compDepEditForm p) in
         Sends (dependencyService_updateComponentDependency (num_key ''from_subsystem_id'' dep) (num_key ''id''
           dep) data) data)
       (sd_compDepEditTarget p)"

text \<open>\<open>prev.map(d => d.id === updated.id ? updated : d)\<close>.\<close>

definition replace_row :: "json \<Rightarrow> json list \<Rightarrow> json list" where
  "replace_row updated rows = map (\<lambda>d. if row_id d = row_id updated then updated else d) rows"

definition handleCompDepEditSave_end :: "thrown + json \<Rightarrow> system_page \<Rightarrow> system_page" where
  "handleCompDepEditSave_end outcome p =
     (case outcome of
        Inr updated \<Rightarrow> p\<lparr>sd_allCompDeps := replace_row updated (sd_allCompDeps p),
          sd_compDepEditTarget := None\<rparr>
      | Inl t \<Rightarrow> p\<lparr>sd_compDepEditFormError := message_or_String
        ''Failed to update component dependency'' t\<rparr>)"

definition cancelEndpointDraft :: "system_page \<Rightarrow> system_page" where
  "cancelEndpointDraft p = p\<lparr>sd_endpointDraftVisible := False, sd_endpointDraft := empty_draft,
    sd_endpointDraftError := []\<rparr>"

definition closeCompDepEditDialog :: "system_page \<Rightarrow> system_page" where
  "closeCompDepEditDialog p = cancelEndpointDraft (p\<lparr>sd_compDepEditTarget := None\<rparr>)"

definition draft_data :: "EndpointDraft \<Rightarrow> json" where
  "draft_data d = json_body [(''http_method'', or_null (ed_http_method d)), (''path'', J_str (js_trim (ed_path d))),
     (''description'', or_null (js_trim (ed_description d)))]"

definition handleEndpointAdd :: "system_page \<Rightarrow> save option" where
  "handleEndpointAdd p =
     map_option (\<lambda>dep.
         if js_trim (ed_path (sd_endpointDraft p)) = [] then Refused ''Path is required''
         else Sends (dependencyService_createComponentEndpoint (num_key ''from_subsystem_id'' dep) (num_key ''id''
           dep)
                (draft_data (sd_endpointDraft p))) (draft_data (sd_endpointDraft p)))
       (sd_compDepEditTarget p)"

text \<open>The click itself, up to the \<open>await\<close>.\<close>

definition handleEndpointAdd_start :: "system_page \<Rightarrow> system_page" where
  "handleEndpointAdd_start p =
     (case handleEndpointAdd p of
        None \<Rightarrow> p
      | Some (Refused m) \<Rightarrow> p\<lparr>sd_endpointDraftError := m\<rparr>
      | Some _ \<Rightarrow> p\<lparr>sd_endpointSaving := True, sd_endpointDraftError := []\<rparr>)"

definition handleEndpointAdd_end :: "thrown + json \<Rightarrow> system_page \<Rightarrow> system_page" where
  "handleEndpointAdd_end outcome p =
     (case outcome of
        Inr updated \<Rightarrow> p\<lparr>sd_allCompDeps := replace_row updated (sd_allCompDeps p),
          sd_compDepEditTarget := Some updated,
          sd_endpointDraft := empty_draft, sd_endpointDraftVisible := False, sd_endpointSaving := False\<rparr>
      | Inl t \<Rightarrow> p\<lparr>sd_endpointDraftError := ''Failed to add endpoint'', sd_endpointSaving :=
        False\<rparr>)"

definition handleEndpointDelete :: "int \<Rightarrow> system_page \<Rightarrow> call option" where
  "handleEndpointDelete endpointId p =
     map_option (\<lambda>dep. dependencyService_deleteComponentEndpoint (num_key ''from_subsystem_id'' dep)
       (num_key ''id'' dep) endpointId)
       (sd_compDepEditTarget p)"

text \<open>A failure is only told in the snackbar.\<close>

definition handleEndpointDelete_end :: "thrown + json \<Rightarrow> system_page \<Rightarrow> system_page \<times>
  string option" where
  "handleEndpointDelete_end outcome p =
     (case outcome of
        Inr updated \<Rightarrow> (p\<lparr>sd_allCompDeps := replace_row updated (sd_allCompDeps p),
          sd_compDepEditTarget := Some updated\<rparr>, None)
      | Inl t \<Rightarrow> (p, Some (message_or_fallback ''Failed to delete endpoint'' t)))"

definition handleCompDepDelete :: "system_page \<Rightarrow> call option" where
  "handleCompDepDelete p =
     map_option (\<lambda>dep. dependencyService_deleteComponentDependency (num_key ''from_subsystem_id'' dep)
       (num_key ''id'' dep))
       (sd_compDepDeleteTarget p)"

text \<open>The row that the click was on is the one that is taken off the list.\<close>

definition handleCompDepDelete_end :: "json \<Rightarrow> rejected option \<Rightarrow> system_page \<Rightarrow>
  system_page \<times> string" where
  "handleCompDepDelete_end dep outcome p =
     (case outcome of
        None \<Rightarrow> (p\<lparr>sd_allCompDeps := filter (\<lambda>d. row_id d \<noteq> row_id dep)
          (sd_allCompDeps p), sd_compDepDeleteTarget := None\<rparr>,
          ''Dependency deleted'')
      | Some r \<Rightarrow> (p, message_or_fallback ''Failed to delete dependency'' (unwrapped r)))"

subsection \<open>Imports\<close>

definition openImport :: "import_dialog \<Rightarrow> import_dialog" where
  "openImport d = d\<lparr>im_file := None, im_result := None, im_error := None, im_open := True\<rparr>"

text \<open>\<open>None\<close> without a file or a system; else the path and the id in the form, beside the
  file.\<close>

definition handleImport :: "string \<Rightarrow> json option \<Rightarrow> import_dialog \<Rightarrow> (string
  \<times> string \<times> string) option" where
  "handleImport path currentSystem d =
     (case (im_file d, currentSystem) of
        (Some f, Some system) \<Rightarrow> Some (path, show_int (num_key ''id'' system), f)
      | _ \<Rightarrow> None)"

definition handleImport_start :: "import_dialog \<Rightarrow> import_dialog" where
  "handleImport_start d = d\<lparr>im_loading := True, im_result := None, im_error := None\<rparr>"

text \<open>After a success the subsystems and the topology of the system are read again.\<close>

definition handleImport_end :: "int \<Rightarrow> ApiError + json \<Rightarrow> import_dialog \<Rightarrow>
  import_dialog \<times> call list" where
  "handleImport_end systemId outcome d =
     (case outcome of
        Inr result \<Rightarrow> (d\<lparr>im_result := Some result, im_loading := False\<rparr>,
          [systemService_listSubSystems systemId, getSystemTopology systemId])
      | Inl e \<Rightarrow> (d\<lparr>im_error := Some (formatApiError e ''Import failed''), im_loading :=
        False\<rparr>, []))"

definition handleDcImport :: "json option \<Rightarrow> system_page \<Rightarrow> (string \<times> string \<times>
  string) option" where
  "handleDcImport currentSystem p = handleImport ''/import/docker-compose'' currentSystem (sd_dcImport p)"

definition handleTfImport :: "json option \<Rightarrow> system_page \<Rightarrow> (string \<times> string \<times>
  string) option" where
  "handleTfImport currentSystem p = handleImport ''/import/terraform'' currentSystem (sd_tfImport p)"

subsection \<open>The page with its slice\<close>

record system_session =
  ss_page :: system_page
  ss_store :: SystemState

text \<open>
  What happens to the page: its id changes with the address, the page being the same element of the routes; an
  action of the systems slice arrives; the form is opened, typed in, abandoned; a save ends. An action that puts a
  record into \<open>currentSystem\<close> puts a new object there, so the effect on it runs.
\<close>

datatype system_event =
    Visit int
  | Arrives SystemAction
  | Begin_edit
  | Cancel_edit
  | Type_fields SystemFormValues
  | Save_ends "rejected option"

definition sets_current :: "SystemAction \<Rightarrow> SystemState \<Rightarrow> bool" where
  "sets_current a st =
     (case a of
        FetchSystem (lifecycle.Fulfilled s) \<Rightarrow> True
      | UpdateSystem (lifecycle.Fulfilled s) \<Rightarrow> is_row (row_id s) (sys_currentSystem st)
      | _ \<Rightarrow> False)"

fun system_step :: "system_event \<Rightarrow> system_session \<Rightarrow> system_session" where
  "system_step (Visit i) s = s\<lparr>ss_page := (ss_page s)\<lparr>sd_systemId := i\<rparr>\<rparr>"
| "system_step (Arrives a) s =
     (let st = sys_reducer a (ss_store s) in
      \<lparr>ss_page = (if sets_current a (ss_store s) then system_form_effect (sys_currentSystem st) (ss_page s)
        else ss_page s),
       ss_store = st\<rparr>)"
| "system_step Begin_edit s = s\<lparr>ss_page := system_edit (ss_page s)\<rparr>"
| "system_step Cancel_edit s = s\<lparr>ss_page := system_cancel (ss_page s)\<rparr>"
| "system_step (Type_fields f) s = s\<lparr>ss_page := (ss_page s)\<lparr>sd_sysForm := f\<rparr>\<rparr>"
| "system_step (Save_ends r) s = s\<lparr>ss_page := handleSysUpdate_end r (ss_page s)\<rparr>"

definition system_run :: "system_event list \<Rightarrow> system_session \<Rightarrow> system_session" where
  "system_run evs s = fold system_step evs s"

text \<open>The page mounts over whatever the slice holds; its first effect runs on that.\<close>

definition system_open :: "int \<Rightarrow> SystemState \<Rightarrow> system_session" where
  "system_open i st = \<lparr>ss_page = system_form_effect (sys_currentSystem st) (system_mount i), ss_store =
    st\<rparr>"

text \<open>What the page shows of its slice: the record that is in it, or a failure when there is none.\<close>

definition system_shown :: "system_session \<Rightarrow> json option" where
  "system_shown s = sys_currentSystem (ss_store s)"

definition system_failure :: "system_session \<Rightarrow> string option" where
  "system_failure s = (if sys_currentSystem (ss_store s) = None then sys_error (ss_store s) else None)"

end
