(* ===== verification/EnvironmentDetail.thy ===== *)
theory EnvironmentDetail
  imports Forms
begin

text \<open>
  The page of an environment (\<open>pages/environments/EnvironmentDetail.tsx\<close>): the edit form with its
    pickers,
  the dialogs of systems and of installed versions, the rows of the systems tab, the mock notes of the components
  tab, and the panel that verifies the dependencies, beside the function of the server that counts them
  (\<open>services/environment_service.py\<close>).
\<close>

subsection \<open>State\<close>

record VersionForm =
  vf_subsystem_id :: int
  vf_build_id :: string
  vf_version_label :: string
  vf_installed_at :: "string option"

definition empty_version :: VersionForm where
  "empty_version = \<lparr>vf_subsystem_id = 0, vf_build_id = [], vf_version_label = [], vf_installed_at =
    None\<rparr>"

record EditVersionForm =
  xf_build_id :: string
  xf_version_label :: string
  xf_installed_at :: string

record env_page =
  en_envId :: int
  en_editMode :: bool
  en_envCustomFieldValues :: json
  en_envForm :: EnvFormValues
  en_envFormError :: string
  en_users :: "json list"
  en_versionDialogOpen :: bool
  en_versionForm :: VersionForm
  en_versionFormError :: string
  en_editVersionTarget :: "json option"
  en_editVersionForm :: EditVersionForm
  en_editVersionError :: string
  en_sysDialogOpen :: bool
  en_sysForm :: "int option"
  en_sysFormError :: string
  en_sysDeleteTarget :: "json option"
  en_hostsDialogTarget :: "json option"
  en_typeDialogTarget :: "json option"

definition env_mount :: "int \<Rightarrow> env_page" where
  "env_mount i = \<lparr>en_envId = i, en_editMode = False, en_envCustomFieldValues = J_obj [],
     en_envForm = EnvironmentList_emptyForm, en_envFormError = [], en_users = [], en_versionDialogOpen = False,
     en_versionForm = empty_version, en_versionFormError = [], en_editVersionTarget = None,
     en_editVersionForm = \<lparr>xf_build_id = [], xf_version_label = [], xf_installed_at = []\<rparr>,
       en_editVersionError = [],
     en_sysDialogOpen = False, en_sysForm = None, en_sysFormError = [], en_sysDeleteTarget = None,
     en_hostsDialogTarget = None, en_typeDialogTarget = None\<rparr>"

definition users_loaded :: "ApiError + json list \<Rightarrow> env_page \<Rightarrow> env_page" where
  "users_loaded answer p = p\<lparr>en_users := (case answer of Inr us \<Rightarrow> us | Inl e \<Rightarrow>
    [])\<rparr>"

text \<open>What the page reads when it mounts or its id changes, and when the components tab is shown.\<close>

definition env_fetches :: "int \<Rightarrow> call list" where
  "env_fetches envId = [environmentService_getEnvironment envId, environmentService_listSystemsInEnvironment envId,
     customFieldService_listDefinitions ''environment'', userGroupService_listGroups (Some []),
     decommissionService_getForEnvironment envId, decommissionService_listSteps (Some True)]"

definition components_effect :: "string \<Rightarrow> int \<Rightarrow> call list" where
  "components_effect tab envId = (if tab \<noteq> ''components'' then [] else
    [environmentService_listEnvironmentSubsystems envId])"

definition handleVerify :: "int \<Rightarrow> call" where
  "handleVerify envId = dependencyService_verifyEnvironment envId"

subsection \<open>The overview\<close>

definition env_form_effect :: "json option \<Rightarrow> env_page \<Rightarrow> env_page" where
  "env_form_effect currentEnvironment p =
     (case currentEnvironment of
        None \<Rightarrow> p
      | Some env \<Rightarrow> p\<lparr>en_envForm :=
            \<lparr>ef_name = text_key ''name'' env, ef_description = text_key ''description'' env,
             ef_tier_id = int_key ''tier_id'' env, ef_owner_user_id = int_key ''owner_user_id'' env,
             ef_expires_at = take 10 (text_key ''expires_at'' env), ef_status = text_key ''status'' env,
             ef_operations_group_id = int_key ''operations_group_id'' env\<rparr>,
          en_envCustomFieldValues := object_or_empty (row_key ''custom_fields'' env)\<rparr>)"

definition env_edit :: "env_page \<Rightarrow> env_page" where
  "env_edit p = p\<lparr>en_editMode := True\<rparr>"

definition env_cancel :: "env_page \<Rightarrow> env_page" where
  "env_cancel p = p\<lparr>en_editMode := False\<rparr>"

definition env_update_data :: "env_page \<Rightarrow> json \<Rightarrow> json" where
  "env_update_data p expires_at =
     (let f = en_envForm p in json_body
       [(''name'', J_str (ef_name f)), (''description'', or_undefined (ef_description f)),
        (''tier_id'', int_or_null (ef_tier_id f)), (''owner_user_id'', int_or_null (ef_owner_user_id f)),
        (''expires_at'', expires_at), (''status'', J_str (ef_status f)),
        (''custom_fields'', en_envCustomFieldValues p),
        (''operations_group_id'',
          if set_id (ef_operations_group_id f) then int_or_null (ef_operations_group_id f) else J_null)])"

definition handleEnvUpdate :: "clock \<Rightarrow> env_page \<Rightarrow> save" where
  "handleEnvUpdate clk p =
     (let f = en_envForm p in
      if js_trim (ef_name f) = [] then Refused ''Name is required''
      else if \<not> set_id (ef_tier_id f) then Refused ''Tier is required''
      else if \<not> set_id (ef_owner_user_id f) then Refused ''A named owner is required''
      else if ef_expires_at f = []
        then Sends (environmentService_updateEnvironment (en_envId p) (env_update_data p J_null)) (env_update_data
          p J_null)
      else case iso clk (ef_expires_at f @ ''T00:00:00Z'') of
             Some t \<Rightarrow> Sends (environmentService_updateEnvironment (en_envId p) (env_update_data p
               (J_str t)))
               (env_update_data p (J_str t))
           | None \<Rightarrow> Raises)"

definition handleEnvUpdate_end :: "rejected option \<Rightarrow> env_page \<Rightarrow> env_page" where
  "handleEnvUpdate_end outcome p =
     (case outcome of
        None \<Rightarrow> p\<lparr>en_editMode := False, en_envFormError := []\<rparr>
      | Some r \<Rightarrow> p\<lparr>en_envFormError := message_or_String ''Failed to update environment''
        (unwrapped r)\<rparr>)"

text \<open>
  The options of the three pickers: the active tiers with the one chosen, and before the users and the groups the
  owner and the group of the record while the form still has them and the list does not.
\<close>

definition tier_options :: "json list \<Rightarrow> env_page \<Rightarrow> json list" where
  "tier_options tiers p =
     filter (\<lambda>t. ServiceApi.truthy (row_key ''is_active'' t) \<or> Some (row_id t) = map_option J_int
       (ef_tier_id (en_envForm p))) tiers"

definition kept_option :: "int option \<Rightarrow> json \<Rightarrow> json list \<Rightarrow> int list" where
  "kept_option chosen stored rows =
     (case chosen of
        Some i \<Rightarrow> if stored = J_int i \<and> (\<forall>r \<in> set rows. row_id r \<noteq> J_int i) then
          [i] else []
      | None \<Rightarrow> [])"

definition owner_options :: "json option \<Rightarrow> env_page \<Rightarrow> json list" where
  "owner_options currentEnvironment p =
     (case currentEnvironment of
        Some env \<Rightarrow> map J_int (kept_option (ef_owner_user_id (en_envForm p)) (row_key ''owner_user_id''
          env) (en_users p))
      | None \<Rightarrow> []) @ map row_id (en_users p)"

definition group_options :: "json option \<Rightarrow> json list \<Rightarrow> env_page \<Rightarrow> json list"
  where
  "group_options currentEnvironment groups p =
     J_str [] # (case currentEnvironment of
        Some env \<Rightarrow> map J_int (kept_option (ef_operations_group_id (en_envForm p)) (row_key
          ''operations_group_id'' env) groups)
      | None \<Rightarrow> []) @ map row_id groups"

subsection \<open>Systems of the environment\<close>

definition openSysCreate :: "env_page \<Rightarrow> env_page" where
  "openSysCreate p = p\<lparr>en_sysForm := None, en_sysFormError := [], en_sysDialogOpen := True\<rparr>"

text \<open>The button of a row that a dependency requires.\<close>

definition addMissing :: "json \<Rightarrow> env_page \<Rightarrow> env_page" where
  "addMissing sys p = p\<lparr>en_sysForm := int_key ''id'' sys, en_sysFormError := [], en_sysDialogOpen :=
    True\<rparr>"

definition env_system_data :: "int \<Rightarrow> json" where
  "env_system_data i = json_body [(''system_id'', J_int i)]"

definition handleSysSave :: "env_page \<Rightarrow> save" where
  "handleSysSave p =
     (case en_sysForm p of
        Some i \<Rightarrow> if i = 0 then Refused ''Please select a system''
                  else Sends (environmentService_addSystemToEnvironment (en_envId p) (env_system_data i))
                    (env_system_data i)
      | None \<Rightarrow> Refused ''Please select a system'')"

text \<open>After a success the components of the environment are read again.\<close>

definition handleSysSave_end :: "rejected option \<Rightarrow> env_page \<Rightarrow> env_page \<times> call list"
  where
  "handleSysSave_end outcome p =
     (case outcome of
        None \<Rightarrow> (p\<lparr>en_sysDialogOpen := False\<rparr>,
          [environmentService_listEnvironmentSubsystems (en_envId p)])
      | Some r \<Rightarrow> (p\<lparr>en_sysFormError := message_or_String ''Failed to save'' (unwrapped
        r)\<rparr>, []))"

definition handleSysDelete :: "env_page \<Rightarrow> call option" where
  "handleSysDelete p =
     map_option (\<lambda>row. environmentService_removeSystemFromEnvironment (en_envId p) (num_key ''system_id''
       row)) (en_sysDeleteTarget p)"

definition handleSysDelete_end :: "rejected option \<Rightarrow> env_page \<Rightarrow> env_page \<times> call list
  \<times> string" where
  "handleSysDelete_end outcome p =
     (case outcome of
        None \<Rightarrow> (p\<lparr>en_sysDeleteTarget := None\<rparr>,
          [environmentService_listEnvironmentSubsystems (en_envId p)], ''System removed'')
      | Some r \<Rightarrow> (p, [], message_or_fallback ''Failed to remove system'' (unwrapped r)))"

definition availableSystems :: "json list \<Rightarrow> json list \<Rightarrow> json list" where
  "availableSystems systems environmentSystems =
     filter (\<lambda>s. row_id s \<notin> set (map (row_key ''system_id'') environmentSystems)) systems"

datatype SystemsRow = Present string json string | Missing string json string

fun systems_row_id :: "SystemsRow \<Rightarrow> string" where
  "systems_row_id (Present i r n) = i"
| "systems_row_id (Missing i r n) = i"

definition systemsRows :: "json list \<Rightarrow> json list \<Rightarrow> SystemsRow list" where
  "systemsRows environmentSystems missingSystems =
     map (\<lambda>e. Present (''present-'' @ js_String (row_id e)) e (text_key ''name'' (row_key ''system'' e)))
       environmentSystems @
     map (\<lambda>s. Missing (''missing-'' @ js_String (row_id s)) s (text_key ''name'' s)) missingSystems"

subsection \<open>Components and their versions\<close>

definition toggle_mock_data :: "json \<Rightarrow> json" where
  "toggle_mock_data row = json_body [(''is_mocked'', J_bool (\<not> ServiceApi.truthy (row_key ''is_mocked''
    row)))]"

definition mock_notes_data :: "string \<Rightarrow> json" where
  "mock_notes_data text = json_body [(''mock_notes'', or_null text)]"

definition mock_update :: "int \<Rightarrow> json \<Rightarrow> json \<Rightarrow> call" where
  "mock_update envId row data = environmentService_updateEnvironmentSubsystem envId (num_key ''subsystem_id'' row)
    data"

text \<open>
  The notes are typed into a controlled field whose value is the row of the store: a key adds to what the field
  shows and sends the whole text at once, and React puts the stored text back until an answer replaces the row.
\<close>

record notes_field =
  nf_stored :: string
  nf_in_flight :: "string list"

datatype notes_event = Key_typed char | Notes_answered

fun notes_step :: "notes_event \<Rightarrow> notes_field \<Rightarrow> notes_field" where
  "notes_step (Key_typed c) f = f\<lparr>nf_in_flight := nf_in_flight f @ [nf_stored f @ [c]]\<rparr>"
| "notes_step Notes_answered f =
     (case nf_in_flight f of [] \<Rightarrow> f | t # ts \<Rightarrow> \<lparr>nf_stored = t, nf_in_flight =
       ts\<rparr>)"

definition versionableSubsystems :: "json list \<Rightarrow> json list" where
  "versionableSubsystems envSubsystems = filter (\<lambda>s. \<not> ServiceApi.truthy (row_key ''is_mocked'' s))
    envSubsystems"

definition openVersionDialog :: "env_page \<Rightarrow> env_page" where
  "openVersionDialog p = p\<lparr>en_versionForm := empty_version, en_versionFormError := [], en_versionDialogOpen
    := True\<rparr>"

text \<open>The date of a version is kept as the ISO text; \<open>None\<close> when the text of the field does not
  parse and raises.\<close>

definition type_installed_at :: "clock \<Rightarrow> string \<Rightarrow> env_page \<Rightarrow> env_page option"
  where
  "type_installed_at clk s p =
     (if s = [] then Some (p\<lparr>en_versionForm := (en_versionForm p)\<lparr>vf_installed_at :=
       None\<rparr>\<rparr>)
      else map_option (\<lambda>t. p\<lparr>en_versionForm := (en_versionForm p)\<lparr>vf_installed_at := Some
        t\<rparr>\<rparr>) (iso clk s))"

definition version_data :: "VersionForm \<Rightarrow> json" where
  "version_data f = json_body [(''subsystem_id'', J_int (vf_subsystem_id f)), (''build_id'', J_str (vf_build_id f)),
     (''version_label'', J_str (vf_version_label f)),
     (''installed_at'', case vf_installed_at f of Some t \<Rightarrow> J_str t | None \<Rightarrow> J_undefined)]"

definition handleVersionSave :: "env_page \<Rightarrow> save" where
  "handleVersionSave p =
     (let f = en_versionForm p in
      if vf_subsystem_id f = 0 then Refused ''Please select a subsystem''
      else if js_trim (vf_build_id f) = [] then Refused ''Build ID is required''
      else if js_trim (vf_version_label f) = [] then Refused ''Version Label is required''
      else Sends (versionService_recordVersion (en_envId p) (version_data f)) (version_data f))"

definition handleVersionSave_end :: "rejected option \<Rightarrow> env_page \<Rightarrow> env_page \<times> call
  list" where
  "handleVersionSave_end outcome p =
     (case outcome of
        None \<Rightarrow> (p\<lparr>en_versionDialogOpen := False, en_versionForm := empty_version,
          en_versionFormError := []\<rparr>,
          [environmentService_listEnvironmentSubsystems (en_envId p)])
      | Some r \<Rightarrow> (p\<lparr>en_versionFormError := message_or_String ''Failed to record version''
        (unwrapped r)\<rparr>, []))"

definition edit_version_data :: "clock \<Rightarrow> EditVersionForm \<Rightarrow> json option" where
  "edit_version_data clk f =
     (let at = (if xf_installed_at f = [] then Some J_undefined else map_option J_str (iso clk (xf_installed_at
       f))) in
      map_option (\<lambda>t. json_body [(''build_id'', or_undefined (xf_build_id f)),
        (''version_label'', or_undefined (xf_version_label f)), (''installed_at'', t)]) at)"

definition handleEditVersionSave :: "clock \<Rightarrow> json option \<Rightarrow> env_page \<Rightarrow> save
  option" where
  "handleEditVersionSave clk currentEnvironment p =
     (case (en_editVersionTarget p, currentEnvironment) of
        (Some v, Some env) \<Rightarrow> Some (case edit_version_data clk (en_editVersionForm p) of
            None \<Rightarrow> Raises
          | Some data \<Rightarrow> Sends (versionService_updateVersion (num_key ''id'' env) (num_key ''id'' v)
            data) data)
      | _ \<Rightarrow> None)"

text \<open>\<open>(e as {message?: string})?.message ?? fallback\<close>: of a text there is no message.\<close>

definition handleEditVersionSave_end :: "rejected option \<Rightarrow> env_page \<Rightarrow> env_page" where
  "handleEditVersionSave_end outcome p =
     (case outcome of
        None \<Rightarrow> p\<lparr>en_editVersionTarget := None\<rparr>
      | Some r \<Rightarrow> p\<lparr>en_editVersionError := (case (rj_payload r, rj_message r) of
          (None, Some m) \<Rightarrow> m | _ \<Rightarrow> ''Failed to save changes'')\<rparr>)"

end
