(* ===== verification/DetailPages.thy ===== *)
theory DetailPages
  imports SystemDetail EnvironmentDetail
begin

text \<open>
  What the detail pages share: a page of one record, whose id is in the address, with an edit form that an effect
  fills from the record in the store. The events of such a page, and the contract under which a save sends what was
  loaded or typed last to the id that was visited last.
\<close>

subsection \<open>Events of a detail page\<close>

datatype 'f page_event =
    Visits int
  | Loads json
  | Begins
  | Cancels
  | Types 'f
  | Save_settles "rejected option"

fun system_page_step :: "SystemFormValues page_event \<Rightarrow> system_page \<Rightarrow> system_page" where
  "system_page_step (Visits i) p = p\<lparr>sd_systemId := i\<rparr>"
| "system_page_step (Loads r) p = system_form_effect (Some r) p"
| "system_page_step Begins p = system_edit p"
| "system_page_step Cancels p = system_cancel p"
| "system_page_step (Types f) p = p\<lparr>sd_sysForm := f\<rparr>"
| "system_page_step (Save_settles r) p = handleSysUpdate_end r p"

fun env_page_step :: "EnvFormValues page_event \<Rightarrow> env_page \<Rightarrow> env_page" where
  "env_page_step (Visits i) p = p\<lparr>en_envId := i\<rparr>"
| "env_page_step (Loads r) p = env_form_effect (Some r) p"
| "env_page_step Begins p = env_edit p"
| "env_page_step Cancels p = env_cancel p"
| "env_page_step (Types f) p = p\<lparr>en_envForm := f\<rparr>"
| "env_page_step (Save_settles r) p = handleEnvUpdate_end r p"

fun fills :: "'f page_event \<Rightarrow> bool" where
  "fills (Loads r) \<longleftrightarrow> True"
| "fills (Types f) \<longleftrightarrow> True"
| "fills e \<longleftrightarrow> False"

fun moves :: "'f page_event \<Rightarrow> bool" where
  "moves (Visits i) \<longleftrightarrow> True"
| "moves e \<longleftrightarrow> False"

text \<open>What filled the form last, when it was a record or a typed form, and the id visited last.\<close>

definition last_load :: "'f page_event list \<Rightarrow> json option" where
  "last_load evs = (case filter fills (rev evs) of Loads r # es \<Rightarrow> Some r | _ \<Rightarrow> None)"

definition last_typed :: "'f page_event list \<Rightarrow> 'f option" where
  "last_typed evs = (case filter fills (rev evs) of Types f # es \<Rightarrow> Some f | _ \<Rightarrow> None)"

definition last_visit :: "'f page_event list \<Rightarrow> int option" where
  "last_visit evs = (case filter moves (rev evs) of Visits i # es \<Rightarrow> Some i | _ \<Rightarrow> None)"

subsection \<open>The contract\<close>

locale record_page =
  fixes step :: "'f page_event \<Rightarrow> 'p \<Rightarrow> 'p"
    and body :: "'p \<Rightarrow> 'b"
    and target :: "'p \<Rightarrow> int"
    and typed :: "'p \<Rightarrow> 'f"
  assumes body_kept: "\<not> fills e \<Longrightarrow> body (step e p) = body p"
    and typed_kept: "\<not> fills e \<Longrightarrow> typed (step e p) = typed p"
    and body_loaded: "body (step (Loads r) p) = body (step (Loads r) q)"
    and typed_set: "typed (step (Types f) p) = f"
    and target_visited: "target (step (Visits i) p) = i"
    and target_kept: "\<not> moves e \<Longrightarrow> target (step e p) = target p"
begin

text \<open>The body is that of the record loaded last, whatever else happened since, wherever the page has
  gone.\<close>

lemma body_of_last: "last_load evs = Some r \<Longrightarrow> body (fold step evs p) = body (step (Loads r) q)"
proof (induction evs rule: rev_induct)
  case (snoc e evs)
  show ?case
  proof (cases e)
    case (Loads r')
    with snoc.prems show ?thesis using body_loaded [of r "fold step evs p" q] by (simp add: last_load_def)
  next
    case (Types f)
    with snoc.prems show ?thesis by (simp add: last_load_def)
  qed (use snoc in \<open>simp_all add: last_load_def body_kept\<close>)
qed (simp add: last_load_def)

lemma typed_of_last: "last_typed evs = Some f \<Longrightarrow> typed (fold step evs p) = f"
proof (induction evs rule: rev_induct)
  case (snoc e evs)
  show ?case
  proof (cases e)
    case (Loads r')
    with snoc.prems show ?thesis by (simp add: last_typed_def)
  next
    case (Types f)
    with snoc.prems show ?thesis by (simp add: last_typed_def typed_set)
  qed (use snoc in \<open>simp_all add: last_typed_def typed_kept\<close>)
qed (simp add: last_typed_def)

lemma target_of_last: "last_visit evs = Some i \<Longrightarrow> target (fold step evs p) = i"
proof (induction evs rule: rev_induct)
  case (snoc e evs)
  show ?case
  proof (cases e)
    case (Visits i')
    with snoc.prems show ?thesis by (simp add: last_visit_def target_visited)
  qed (use snoc in \<open>simp_all add: last_visit_def target_kept\<close>)
qed (simp add: last_visit_def)

end

interpretation system_detail: record_page system_page_step system_update_data sd_systemId sd_sysForm
proof
  fix e :: "SystemFormValues page_event" and p
  show "\<not> fills e \<Longrightarrow> system_update_data (system_page_step e p) = system_update_data p"
    and "\<not> fills e \<Longrightarrow> sd_sysForm (system_page_step e p) = sd_sysForm p"
    and "\<not> moves e \<Longrightarrow> sd_systemId (system_page_step e p) = sd_systemId p"
    by (cases e; simp add: system_update_data_def system_edit_def system_cancel_def handleSysUpdate_end_def
        system_form_effect_def split: option.split)+
qed (simp_all add: system_update_data_def system_form_effect_def)

interpretation env_detail: record_page env_page_step env_update_data en_envId en_envForm
proof
  fix e :: "EnvFormValues page_event" and p
  show "\<not> fills e \<Longrightarrow> env_update_data (env_page_step e p) = env_update_data p"
    and "\<not> fills e \<Longrightarrow> en_envForm (env_page_step e p) = en_envForm p"
    and "\<not> moves e \<Longrightarrow> en_envId (env_page_step e p) = en_envId p"
    by (cases e; simp add: fun_eq_iff env_update_data_def env_edit_def env_cancel_def handleEnvUpdate_end_def
        env_form_effect_def split: option.split)+
qed (simp_all add: fun_eq_iff env_update_data_def env_form_effect_def)

subsection \<open>The component dependencies of a system page\<close>

text \<open>
  The events of the tab: an answer of the load, the row that is opened, the fields and the endpoint draft that are
  typed, the buttons, and the answers, in any order. A removal carries the row that was confirmed.
\<close>

datatype deps_event =
    Deps_load "(ApiError + json list) list"
  | Open_row json
  | Close_row
  | Type_row CompDepEditFormValues
  | Show_draft
  | Type_draft EndpointDraft
  | Cancel_draft
  | Click_add
  | Endpoint_added "thrown + json"
  | Endpoint_deleted "thrown + json"
  | Row_saved "thrown + json"
  | Row_removed json "rejected option"

fun deps_step :: "deps_event \<Rightarrow> system_page \<Rightarrow> system_page" where
  "deps_step (Deps_load answers) p = loadCompDeps_end answers p"
| "deps_step (Open_row dep) p = openCompDepEdit dep p"
| "deps_step Close_row p = closeCompDepEditDialog p"
| "deps_step (Type_row f) p = p\<lparr>sd_compDepEditForm := f\<rparr>"
| "deps_step Show_draft p = p\<lparr>sd_endpointDraftVisible := True\<rparr>"
| "deps_step (Type_draft d) p = p\<lparr>sd_endpointDraft := d\<rparr>"
| "deps_step Cancel_draft p = cancelEndpointDraft p"
| "deps_step Click_add p = handleEndpointAdd_start p"
| "deps_step (Endpoint_added outcome) p = handleEndpointAdd_end outcome p"
| "deps_step (Endpoint_deleted outcome) p = fst (handleEndpointDelete_end outcome p)"
| "deps_step (Row_saved outcome) p = handleCompDepEditSave_end outcome p"
| "deps_step (Row_removed dep outcome) p = fst (handleCompDepDelete_end dep outcome p)"

definition deps_run :: "deps_event list \<Rightarrow> system_page \<Rightarrow> system_page" where
  "deps_run evs p = fold deps_step evs p"

end
