(* ===== verification/DetailFacts.thy ===== *)
theory DetailFacts
  imports DetailPages FormFacts
begin

text \<open>
  What the pages of a system and of an environment guarantee and lose: the list of component dependencies has no
  id twice; an edit that changes nothing keeps the row; and a save sends what was loaded or typed last to the id
  visited last, so a visit that fails, or an edit that was cancelled, reaches the wrong record.
\<close>

declare has_type.simps [simp del]

subsection \<open>The list of component dependencies\<close>

definition answered :: "(ApiError + json list) list \<Rightarrow> json list" where
  "answered answers = concat (map (\<lambda>a. case a of Inl e \<Rightarrow> [] | Inr rows \<Rightarrow> rows)
    answers)"

text \<open>The first row of each id, in the order in which the ids appear.\<close>

definition first_of_each :: "json list \<Rightarrow> json list" where
  "first_of_each rows = map (\<lambda>k. the (find (\<lambda>d. row_id d = k) rows)) (rev (remdups (rev (map row_id
    rows))))"

lemma merge_rows:
  "foldl (\<lambda>acc rows. foldl (\<lambda>acc dep. merge_dep dep acc) acc rows) acc rss = foldl (\<lambda>acc
    dep. merge_dep dep acc) acc (concat rss)"
  by (induction rss arbitrary: acc) auto

lemma merge_fold:
  "foldl (\<lambda>acc dep. merge_dep dep acc) ([], []) rows = (rev (remdups (rev (map row_id rows))),
    first_of_each rows)"
proof (induction rows rule: rev_induct)
  case (snoc d rows)
  have found: "find (\<lambda>e. row_id e = k) rows \<noteq> None" if "k \<in> set (map row_id rows)" for k
    using that by (auto simp: find_None_iff)
  have old: "the (find (\<lambda>e. row_id e = k) (rows @ [d])) = the (find (\<lambda>e. row_id e = k) rows)" if "k
    \<in> set (map row_id rows)" for k
    using found [OF that] by (induction rows) auto
  have new: "find (\<lambda>e. row_id e = row_id d) (rows @ [d]) = Some d" if "row_id d \<notin> set (map row_id
    rows)"
    using that by (induction rows) auto
  show ?case
  proof (cases "row_id d \<in> set (map row_id rows)")
    case True
    then have "first_of_each (rows @ [d]) = first_of_each rows"
      unfolding first_of_each_def using old by (auto intro!: map_cong)
    with snoc True show ?thesis by (auto simp: merge_dep_def)
  next
    case False
    then have "first_of_each (rows @ [d]) = first_of_each rows @ [d]"
      unfolding first_of_each_def using old new by (auto intro!: map_cong)
    with snoc False show ?thesis by (auto simp: merge_dep_def)
  qed
qed (simp add: first_of_each_def)

lemma merge_deps_first: "merge_deps answers = first_of_each (answered answers)"
  by (simp add: merge_deps_def merge_rows merge_fold answered_def)

lemma ids_first_of_each: "map row_id (first_of_each rows) = rev (remdups (rev (map row_id rows)))"
proof -
  have "row_id (the (find (\<lambda>d. row_id d = k) rows)) = k" if "k \<in> set (map row_id rows)" for k
  proof -
    from that obtain d where "find (\<lambda>d. row_id d = k) rows = Some d" by (cases "find (\<lambda>d. row_id d
      = k) rows") (auto simp: find_None_iff)
    then show ?thesis using find_SomeD [of "\<lambda>d. row_id d = k" rows d] by simp
  qed
  then show ?thesis unfolding first_of_each_def by (auto intro!: map_idI)
qed

lemma ids_replace_row: "map row_id (replace_row u rows) = map row_id rows"
  by (induction rows) (auto simp: replace_row_def)

lemma replaced_listed: "u \<in> set (replace_row u rows) \<longleftrightarrow> row_id u \<in> row_id ` set rows"
  by (induction rows) (auto simp: replace_row_def)

lemma deps_step_ids:
  "map row_id (sd_allCompDeps (deps_step e p)) =
     (case e of Deps_load answers \<Rightarrow> rev (remdups (rev (map row_id (answered answers))))
      | Row_removed dep None \<Rightarrow> filter (\<lambda>k. k \<noteq> row_id dep) (map row_id (sd_allCompDeps
        p))
      | _ \<Rightarrow> map row_id (sd_allCompDeps p))"
  by (cases e) (simp_all add: loadCompDeps_end_def merge_deps_first ids_first_of_each openCompDepEdit_def
      closeCompDepEditDialog_def cancelEndpointDraft_def handleEndpointAdd_start_def handleEndpointAdd_end_def
      handleEndpointDelete_end_def handleCompDepEditSave_end_def handleCompDepDelete_end_def ids_replace_row
      filter_map comp_def split: option.split save.split sum.split)

lemma deps_run_distinct: "distinct (map row_id (sd_allCompDeps p)) \<Longrightarrow> distinct (map row_id
  (sd_allCompDeps (deps_run evs p)))"
proof (induction evs arbitrary: p)
  case (Cons e evs)
  from Cons.prems have "distinct (map row_id (sd_allCompDeps (deps_step e p)))"
    unfolding deps_step_ids by (auto split: deps_event.split option.split)
  with Cons.IH show ?case by (simp add: deps_run_def)
qed (simp add: deps_run_def)


subsection \<open>The dialog of a component dependency\<close>

text \<open>
  C26: The dialog of a component dependency carries values from one row into another. An endpoint draft that is
    still
  open when a row is saved is open again, with its text, under the next row, and adding it posts it there. And an
  answer to an endpoint that comes after its dialog was closed puts its row back under the form of the row that was
  opened since: saving then writes the values of that row to the first one.
\<close>

theorem dependency_dialog_crosses_rows:
  "(let p = deps_run [Open_row a, Show_draft, Type_draft draft, Row_saved (Inr u), Open_row b] p0
    in sd_endpointDraftVisible p \<and>
       handleEndpointAdd p = Some (if js_trim (ed_path draft) = [] then Refused ''Path is required''
         else Sends (dependencyService_createComponentEndpoint (num_key ''from_subsystem_id'' b) (num_key ''id'' b)
           (draft_data draft))
           (draft_data draft))) \<and>
   (let p = deps_run [Open_row a, Show_draft, Type_draft draft, Click_add, Close_row, Open_row b, Endpoint_added
     (Inr u)] p0;
        data = comp_dep_edit_data number (sd_compDepEditForm (openCompDepEdit b p0))
    in handleCompDepEditSave number p =
         Some (Sends (dependencyService_updateComponentDependency (num_key ''from_subsystem_id'' u) (num_key ''id''
           u) data) data))"
proof -
  have start: "sd_compDepEditForm (handleEndpointAdd_start p) = sd_compDepEditForm p" for p
    by (simp add: handleEndpointAdd_start_def split: option.split save.split)
  show ?thesis
    by (simp add: deps_run_def openCompDepEdit_def handleCompDepEditSave_end_def handleEndpointAdd_def
      closeCompDepEditDialog_def
        cancelEndpointDraft_def handleEndpointAdd_end_def handleCompDepEditSave_def Let_def start)
qed

subsection \<open>The picker of targets\<close>

text \<open>
  C27: While a tenant is impersonated, the picker of component dependencies reads the subsystems of every system
    with
  the token of the administrator, where every other request of the page carries the one of the impersonation; and
    when
  the reads fail, the picker is empty without a word.
\<close>

theorem picker_reads_as_administrator:
  assumes "tok \<noteq> []" "ls_token (ls s) = Some own" "own \<noteq> tok" "st = ls (enterImpersonation tok tenant
    s)"
  shows "map snd (snd (openCompDepCreate_start st systems p)) = replicate (length systems) (bearer own) \<and>
    authorization (request_interceptor st rq) = Some (bearer tok) \<and> bearer own \<noteq> bearer tok \<and>
    sd_allSubsystems (openCompDepCreate_end systems (map (\<lambda>x. None) systems) p) = []"
proof -
  have "sd_allSubsystems (openCompDepCreate_end systems (map (\<lambda>x. None) systems) p) = []"
    by (simp add: openCompDepCreate_end_def concat_eq_Nil_conv zip_map2 split_def)
  then show ?thesis using assms(1-3)
    by (simp add: assms(4) openCompDepCreate_start_def raw_fetch_header_def enterImpersonation_def
      map_replicate_const comp_def
        request_interceptor_def active_token_def bearer_def)
qed

definition sample_session :: session where
  "sample_session = setCredentials \<lparr>u_id = 1, username = ''root'', email = [], role = ''master_admin'',
    tenant_id = 1,
     is_master_admin = True\<rparr> ''own'' None
     \<lparr>auth = AuthSlice.initialState cleared, ls = cleared\<rparr>"

theorem picker_reads_as_administrator_witness:
  "map snd (snd (openCompDepCreate_start (ls (enterImpersonation ''imp'' \<lparr>t_id = 2, t_name = ''B'', t_slug =
    ''b''\<rparr> sample_session))
     [J_obj sample_system] (system_mount 1))) = [bearer ''own'']"
  using picker_reads_as_administrator [of "''imp''" sample_session "''own''" _ "\<lparr>t_id = 2, t_name = ''B'',
    t_slug = ''b''\<rparr>"
      "[J_obj sample_system]" "system_mount 1"]
  by (simp add: sample_session_def setCredentials_def Let_def)

subsection \<open>What a save writes, and where\<close>

text \<open>The forms of the pages are those of the list dialogs over the loaded record.\<close>

lemma system_body_loaded:
  "system_update_data (system_page_step (Loads r) p) = SystemCatalog_data (SystemCatalog_openEdit r)"
  by (simp add: system_update_data_def system_form_effect_def SystemCatalog_data_def SystemCatalog_openEdit_def)

lemma env_body_loaded:
  "env_update_data (env_page_step (Loads r) p) at = EnvironmentList_data (EnvironmentList_openEdit r) at"
  by (simp add: env_update_data_def env_form_effect_def EnvironmentList_data_def EnvironmentList_openEdit_def
    Let_def)

text \<open>The name in a body reaches whatever row the body is written to.\<close>

lemma body_name:
  "row_key ''name'' (merge_row (J_obj m) (system_update_data p)) = J_str (sf_name (sd_sysForm p))"
  "row_key ''name'' (merge_row (J_obj m) (env_update_data q at)) = J_str (ef_name (en_envForm q))"
  unfolding system_update_data_def env_update_data_def Let_def by (rule patch_sets; simp)+



text \<open>Cancelling leaves the typed fields where they are: the next edit shows them, and its save writes
  them.\<close>

theorem cancelled_edit_is_saved:
  "sd_sysForm (fold system_page_step (evs @ [Types f, Cancels, Begins]) p) = f \<and>
   row_key ''name'' (merge_row (J_obj m) (system_update_data (fold system_page_step (evs @ [Types f, Cancels,
     Begins]) p))) =
     J_str (sf_name f) \<and>
   en_envForm (fold env_page_step (evs' @ [Types g, Cancels, Begins]) q) = g \<and>
   row_key ''name'' (merge_row (J_obj m) (env_update_data (fold env_page_step (evs' @ [Types g, Cancels, Begins])
     q) at)) =
     J_str (ef_name g)"
proof -
  have "sd_sysForm (fold system_page_step (evs @ [Types f, Cancels, Begins]) p) = f"
    by (rule system_detail.typed_of_last) (simp add: last_typed_def)
  moreover have "en_envForm (fold env_page_step (evs' @ [Types g, Cancels, Begins]) q) = g"
    by (rule env_detail.typed_of_last) (simp add: last_typed_def)
  ultimately show ?thesis unfolding body_name by (simp del: fold_append)
qed

text \<open>
  C21: A visit to a system that fails is not told to the user who has seen another one: the page goes on showing the
  old record without an error, and an edit from there writes the name of the old record over the system that was
  asked for.
\<close>

theorem failed_visit_overwrites:
  assumes "row_key ''name'' (J_obj m) = J_str n" "js_trim n \<noteq> []"
    and "s = system_run [Arrives (FetchSystem (lifecycle.Fulfilled (J_obj m))), Visit j, Arrives (FetchSystem
      Pending),
      Arrives (FetchSystem (lifecycle.Rejected r)), Begin_edit] s0"
  shows "system_shown s = Some (J_obj m) \<and> system_failure s = None \<and>
    handleSysUpdate (ss_page s) = Sends (systemService_updateSystem j (system_update_data (ss_page s)))
      (system_update_data (ss_page s)) \<and>
    row_key ''name'' (merge_row (J_obj other) (system_update_data (ss_page s))) = J_str n"
  unfolding body_name using assms(1,2)
  by (simp add: assms(3) system_run_def system_shown_def system_failure_def sets_current_def on_fetchSystem_def
    Let_def
      system_form_effect_def system_edit_def handleSysUpdate_def text_key_def)

theorem failed_visit_overwrites_witness:
  "row_key ''name'' (merge_row (J_obj sample_host) (system_update_data (ss_page
     (system_run [Arrives (FetchSystem (lifecycle.Fulfilled (J_obj sample_system))), Visit 2, Arrives (FetchSystem
       Pending),
        Arrives (FetchSystem (lifecycle.Rejected \<lparr>rj_payload = None, rj_message = Some ''404'', rj_aborted =
          False\<rparr>)), Begin_edit]
       (system_open 1 sys_initial))))) = J_str ''Billing''"
proof -
  have n: "row_key ''name'' (J_obj sample_system) = J_str ''Billing''" "js_trim ''Billing'' \<noteq> []" by
    code_simp+
  show ?thesis using failed_visit_overwrites [OF n refl] by blast
qed

subsection \<open>Edits in the dialogs of a system\<close>

lemma sub_data_fits:
  assumes "has_type (Dict Any) (dl_custom d)" "sub_component_type (dl_form d) \<in> set (option_values
    COMPONENT_TYPE_OPTIONS)"
  shows "has_type in_SubSystemCreate (sub_data d)" "has_type in_SubSystemUpdate (sub_data d)"
proof -
  have t: "fits r (lits (option_values COMPONENT_TYPE_OPTIONS)) (J_str (sub_component_type (dl_form d)))"
    "fits r (nullable (lits (option_values COMPONENT_TYPE_OPTIONS))) (J_str (sub_component_type (dl_form d)))" for r
    using assms(2) by simp_all
  note t = t [unfolded option_values_def COMPONENT_TYPE_OPTIONS_def list.map fst_conv]
  show "has_type in_SubSystemCreate (sub_data d)" "has_type in_SubSystemUpdate (sub_data d)"
    using assms(1) by (simp_all add: sub_data_def in_SubSystemCreate_def in_SubSystemUpdate_def body_has_type t
      del: lits_fit)
qed

definition dep_options :: "string \<Rightarrow> string \<Rightarrow> string \<Rightarrow> bool" where
  "dep_options ty dir src \<longleftrightarrow> ty \<in> set (option_values DEP_TYPE_OPTIONS) \<and> dir \<in> set
    (option_values DEP_DIRECTION_OPTIONS) \<and>
     src \<in> set (option_values DEP_SOURCE_OPTIONS)"

lemma dep_options_fit:
  assumes "dep_options ty dir src"
  shows "fits r (lits [''api_call'', ''database'', ''message_queue'', ''event'', ''file'', ''other'']) (J_str ty)"
    "fits r (nullable (lits [''api_call'', ''database'', ''message_queue'', ''event'', ''file'', ''other'']))
      (J_str ty)"
    "fits r (lits [''one_way'', ''two_way'']) (J_str dir)" "fits r (nullable (lits [''one_way'', ''two_way'']))
      (J_str dir)"
    "fits r (nullable (lits [''manual'', ''terraform'', ''docker_compose''])) (J_str src)"
  using assms unfolding dep_options_def option_values_def DEP_TYPE_OPTIONS_def DEP_DIRECTION_OPTIONS_def
    DEP_SOURCE_OPTIONS_def
    list.map fst_conv
  by (blast intro: lits_fit)+

lemma option_members:
  "has_type DependencyType (row_key a r) \<Longrightarrow> has_type DependencyDirection (row_key b r)
    \<Longrightarrow> has_type DependencySource (row_key c r) \<Longrightarrow>
   dep_options (text_key a r) (text_key b r) (text_key c r)"
  by (auto simp: DependencyType_def DependencyDirection_def DependencySource_def typed_values dep_options_def
    text_key_def
      option_values_def DEP_TYPE_OPTIONS_def DEP_DIRECTION_OPTIONS_def DEP_SOURCE_OPTIONS_def)

lemma keeps_options:
  "has_type DependencyType (row_key k r) \<Longrightarrow> keeps r (k, J_str (text_key k r))"
  "has_type DependencyDirection (row_key k r) \<Longrightarrow> keeps r (k, J_str (text_key k r))"
  "has_type DependencySource (row_key k r) \<Longrightarrow> keeps r (k, J_str (text_key k r))"
  unfolding DependencyType_def DependencyDirection_def DependencySource_def by (rule keeps_text(2), assumption)+

lemma sub_edit_keeps:
  assumes "has_type SubSystemResponse (J_obj m)" "row_key ''custom_fields'' (J_obj m) \<noteq> J_null"
  shows "row_key k (merge_row (J_obj m) (sub_data (sd_sub (openSubEdit (J_obj m) p)))) = row_key k (J_obj m)"
proof -
  note t = assms(1) [unfolded SubSystemResponse_def, THEN member_key]
  have "keeps (J_obj m) (''name'', J_str (text_key ''name'' (J_obj m)))"
    by (rule keeps_text(1)) (rule t, simp)
  moreover have "keeps (J_obj m) (''description'', or_undefined (text_key ''description'' (J_obj m)))"
    "keeps (J_obj m) (''technology'', or_undefined (text_key ''technology'' (J_obj m)))"
    by (rule keeps_text(3), rule t, simp)+
  moreover have "has_type ts.Str (row_key ''component_type'' (J_obj m))" by (rule t) simp
  then have "keeps (J_obj m) (''component_type'', J_str (or_other (row_key ''component_type'' (J_obj m))))"
    by (auto simp: typed_values keeps_def or_other_def)
  moreover have "has_type (nullable (Dict Any)) (row_key ''custom_fields'' (J_obj m))" by (rule t) simp
  then have "keeps (J_obj m) (''custom_fields'', object_or_empty (row_key ''custom_fields'' (J_obj m)))"
    using assms(2) by (auto simp: typed_values keeps_def object_or_empty_def)
  ultimately show ?thesis
    unfolding sub_data_def by (intro patch_keeps [where ex = "[]"]) (simp_all add: openSubEdit_def)
qed

lemma dep_edit_keeps:
  assumes "has_type SystemDependencyResponse (J_obj m)"
  shows "row_key k (merge_row (J_obj m) (dep_edit_data (sd_depEditForm (openDepEdit (J_obj m) p)))) = row_key k
    (J_obj m)"
    and "has_type in_SystemDependencyUpdate (dep_edit_data (sd_depEditForm (openDepEdit (J_obj m) p)))"
proof -
  note t = assms [unfolded SystemDependencyResponse_def, THEN member_key]
  have ty: "has_type DependencyType (row_key ''dependency_type'' (J_obj m))" "has_type DependencyDirection (row_key
    ''direction'' (J_obj m))"
    "has_type DependencySource (row_key ''source'' (J_obj m))"
    by (rule t, simp)+
  show "row_key k (merge_row (J_obj m) (dep_edit_data (sd_depEditForm (openDepEdit (J_obj m) p)))) = row_key k
    (J_obj m)"
    unfolding dep_edit_data_def by (intro patch_keeps [where ex = "[]"]) (simp_all add: openDepEdit_def
      keeps_options ty)
  show "has_type in_SystemDependencyUpdate (dep_edit_data (sd_depEditForm (openDepEdit (J_obj m) p)))"
    by (simp add: dep_edit_data_def in_SystemDependencyUpdate_def body_has_type openDepEdit_def
        dep_options_fit [OF option_members [OF ty]] del: lits_fit)
qed

lemma show_int_nonempty: "show_int i \<noteq> []"
  by (simp add: show_int_def show_nat_nonempty)

lemma comp_dep_edit_keeps:
  assumes "has_type ComponentDependencyResponse (J_obj m)" "\<And>i. number (show_int i) = J_int i"
  shows "row_key k (merge_row (J_obj m) (comp_dep_edit_data number (sd_compDepEditForm (openCompDepEdit (J_obj m)
    p)))) = row_key k (J_obj m)"
    and "has_type in_ComponentDependencyUpdate (comp_dep_edit_data number (sd_compDepEditForm (openCompDepEdit
      (J_obj m) p)))"
proof -
  note t = assms(1) [unfolded ComponentDependencyResponse_def, THEN member_key]
  have ty: "has_type DependencyType (row_key ''dependency_type'' (J_obj m))" "has_type DependencyDirection (row_key
    ''direction'' (J_obj m))"
    "has_type DependencySource (row_key ''source'' (J_obj m))"
    by (rule t, simp)+
  have protocol: "keeps (J_obj m) (''protocol'', or_undefined (text_key ''protocol'' (J_obj m)))"
    by (rule keeps_text(3), rule t, simp)
  let ?port = "case int_key ''port'' (J_obj m) of Some i \<Rightarrow> show_int i | None \<Rightarrow> []"
  let ?sent = "if ?port = [] then J_undefined else number ?port"
  have "has_type (nullable ts.Num) (row_key ''port'' (J_obj m))" by (rule t) simp
  then have port: "keeps (J_obj m) (''port'', ?sent)" and fit: "fits False (nullable ts.Num) ?sent"
    using assms(2) by (auto simp: typed_values keeps_def int_key_def show_int_nonempty)
  show "row_key k (merge_row (J_obj m) (comp_dep_edit_data number (sd_compDepEditForm (openCompDepEdit (J_obj m)
    p)))) = row_key k (J_obj m)"
    unfolding comp_dep_edit_data_def using port protocol
    by (cases "int_key ''port'' (J_obj m)"; intro patch_keeps [where ex = "[]"])
      (simp_all add: openCompDepEdit_def keeps_options ty show_int_nonempty)
  show "has_type in_ComponentDependencyUpdate (comp_dep_edit_data number (sd_compDepEditForm (openCompDepEdit
    (J_obj m) p)))"
    using fit by (cases "int_key ''port'' (J_obj m)"; simp add: show_int_nonempty comp_dep_edit_data_def
      in_ComponentDependencyUpdate_def body_has_type openCompDepEdit_def
        dep_options_fit [OF option_members [OF ty]] del: lits_fit)
qed


definition sample_subsystem :: "(string \<times> json) list" where
  "sample_subsystem = [(''id'', J_int 4), (''name'', J_str ''API''), (''description'', J_null), (''system_id'',
    J_int 1),
     (''tenant_id'', J_int 1), (''component_type'', J_str ''worker''), (''technology'', J_null),
       (''custom_fields'', J_obj []),
     (''created_at'', J_str ''c''), (''updated_at'', J_str ''u'')]"

definition sample_dependency :: "(string \<times> json) list" where
  "sample_dependency = [(''id'', J_int 5), (''from_system_id'', J_int 1), (''to_system_id'', J_int 2),
     (''dependency_type'', J_str ''event''), (''direction'', J_str ''two_way''), (''source'', J_str ''terraform''),
       (''tenant_id'', J_int 1),
     (''to_system'', J_obj [(''id'', J_int 2), (''name'', J_str ''Ledger''), (''description'', J_null)]),
       (''is_incoming'', J_bool False)]"

definition sample_comp_dependency :: "(string \<times> json) list" where
  "sample_comp_dependency = [(''id'', J_int 6), (''from_subsystem_id'', J_int 4), (''to_subsystem_id'', J_int 7),
     (''dependency_type'', J_str ''api_call''), (''direction'', J_str ''one_way''), (''label'', J_null),
       (''protocol'', J_str ''HTTP''),
     (''port'', J_int 8080), (''source'', J_str ''manual''), (''tenant_id'', J_int 1),
     (''to_subsystem'', J_obj [(''id'', J_int 7), (''name'', J_str ''DB''), (''description'', J_null),
       (''system_id'', J_int 2)]),
     (''is_incoming'', J_bool False), (''endpoints'', J_arr [])]"

text \<open>A reader of numbers for the witness: of the whole numbers that are printed in decimal.\<close>

definition sample_number :: "string \<Rightarrow> json" where
  "sample_number s = J_int (if hd s = CHR ''-'' then - int (read_nat (tl s)) else int (read_nat s))"

lemma sample_number_show: "sample_number (show_int i) = J_int i"
  by (simp add: sample_number_def show_int_def show_nat_not_minus)


text \<open>What the dialogs lose: a cleared protocol or port stays, being sent as no field at all.\<close>

lemma cleared_protocol_stays:
  "row_key ''protocol'' (merge_row (J_obj m) (comp_dep_edit_data number (f\<lparr>de_protocol := []\<rparr>))) =
    row_key ''protocol'' (J_obj m)"
  "row_key ''port'' (merge_row (J_obj m) (comp_dep_edit_data number (f\<lparr>de_port := []\<rparr>))) = row_key
    ''port'' (J_obj m)"
  by (simp_all add: comp_dep_edit_data_def row_key_patched or_undefined_def)

subsection \<open>The page of an environment\<close>

text \<open>The value that the form was filled with is among the options of its picker, whatever the lists
  hold.\<close>

lemma filled_value_offered:
  assumes "int_key ''owner_user_id'' env = Some i" "int_key ''operations_group_id'' env = Some g"
  shows "J_int i \<in> set (owner_options (Some env) (env_form_effect (Some env) p))"
    and "J_int g \<in> set (group_options (Some env) groups (env_form_effect (Some env) p))"
proof -
  have offered: "J_int v \<in> set (map J_int (kept_option (Some v) (J_int v) rows) @ map row_id rows)" for v rows
    by (cases "J_int v \<in> row_id ` set rows") (force simp: kept_option_def)+
  have "row_key ''owner_user_id'' env = J_int i" "row_key ''operations_group_id'' env = J_int g"
    using assms by (auto simp: int_key_def split: json.splits)
  then show "J_int i \<in> set (owner_options (Some env) (env_form_effect (Some env) p))"
    and "J_int g \<in> set (group_options (Some env) groups (env_form_effect (Some env) p))"
    using offered [of i] offered [of g groups] assms
    by (simp_all add: owner_options_def group_options_def env_form_effect_def)
qed

text \<open>The rows of the systems tab have distinct ids, the present and the missing ones apart.\<close>

lemma systems_rows_distinct:
  assumes "distinct (map row_id present)" "distinct (map row_id missing)"
    and "set (map row_id (present @ missing)) \<subseteq> range J_int"
  shows "distinct (map systems_row_id (systemsRows present missing))"
proof -
  have inj: "inj_on js_String (range J_int)" using show_int_inject by (auto simp: inj_on_def)
  have d: "distinct (map (\<lambda>r. pre @ js_String (row_id r)) rs)" if "distinct (map row_id rs)" "set (map
    row_id rs) \<subseteq> range J_int" for pre rs
  proof -
    have "distinct (map ((@) pre \<circ> js_String) (map row_id rs))"
      unfolding distinct_map [of _ "map row_id rs"] using that inj_on_subset [OF inj] by (auto simp: inj_on_def)
    then show ?thesis by (simp add: comp_def)
  qed
  have "map systems_row_id (systemsRows present missing) =
      map (\<lambda>r. ''present-'' @ js_String (row_id r)) present @ map (\<lambda>r. ''missing-'' @ js_String
        (row_id r)) missing"
    by (simp add: systemsRows_def)
  then show ?thesis using d [of present "''present-''"] d [of missing "''missing-''"] assms by auto
qed

text \<open>Keys typed into the mock notes before the first answer overwrite each other: only the last one is
  kept.\<close>

lemma mock_notes_lose_keys:
  assumes "f = fold notes_step (map Key_typed (cs @ [c]) @ replicate (Suc (length cs)) Notes_answered)
    \<lparr>nf_stored = t, nf_in_flight = []\<rparr>"
  shows "nf_stored f = t @ [c] \<and> nf_in_flight f = []"
proof -
  have typed: "fold notes_step (map Key_typed ds) \<lparr>nf_stored = t, nf_in_flight = q\<rparr> =
    \<lparr>nf_stored = t, nf_in_flight = q @ map (\<lambda>d. t @ [d]) ds\<rparr>"
    for ds q
    by (induction ds arbitrary: q) simp_all
  have answers: "fold notes_step (replicate (length q) Notes_answered) \<lparr>nf_stored = s, nf_in_flight =
    q\<rparr> =
      \<lparr>nf_stored = last (s # q), nf_in_flight = []\<rparr>" for s q
    by (induction q arbitrary: s) simp_all
  show ?thesis
    unfolding assms fold_append comp_def typed using answers [of "map (\<lambda>d. t @ [d]) (cs @ [c])" t] by simp
qed

end
