(* ===== verification/Spec2Isabelle.thy ===== *)
theory Spec2Isabelle
  imports BookingLanes ServerGridFacts SharedList ApiClientFacts TopologyElkFacts EdgeGeometry Dates
    ReleaseSlice EnvironmentSlice BookingSlice ServiceContract AppDrawer RouteMeta LifecycleFacts
    SliceFacts RowStores CompositeFacts WireFacts GridSession DashboardFacts FormFacts DecommissionFacts GoNoGoFacts BookingDetailFacts
    VerifyPanel DetailFacts
begin

text \<open>
  A model of the browser program of envmgr (\<open>frontend/src\<close>), the environment and release manager, and
  the theorems that make its logic correct.

  The program is a React application over a Redux store. A page reads its grid parameters from the URL
  (\<open>useServerGrid\<close>), which dispatches the list query of a slice; the slice's thunk calls a service,
    which
  sends the request through one HTTP client (\<open>services/api.ts\<close>) that attaches the stored token and
  exchanges an expired one; the answer comes back to the slice as an action. Pickers bypass the store
  and share one request per list (\<open>useSharedList\<close>). The topology page turns one API response into a
  graph, collapses it, lays it out with ELK and draws it. The theories follow these parts.

  Shared. \<open>EnvPrelude\<close>: JavaScript arrays (\<open>findIndex\<close>, assignment at an index, in-place
    edits).
  \<open>JsString\<close>: strings as their UTF-8 bytes with the string and number conversions the program uses.
  \<open>JsMap\<close>: the insertion ordered \<open>Map\<close> and its grouping idiom, an interface
    (\<open>jmap_bucket\<close>) of the
  topology code. \<open>UrlParams\<close>: \<open>URLSearchParams\<close>, with the round trip from a query to its
    text and back.

  Session. \<open>AuthSlice\<close>: \<open>store/authSlice.ts\<close> with the \<open>localStorage\<close> entries
    it writes, the user load of
  \<open>App.tsx\<close> and the banner. \<open>ApiClient\<close>: both interceptors of
    \<open>services/api.ts\<close> as an event system: the
  state is the slice, the exchange in flight, the calls on the wire and the ones waiting, and an event is
  a call sent, an answer, a settled exchange or a change of the session. \<open>ApiClientFacts\<close>: the
    invariant
  that an exchange is shared, which gives that no refresh token is presented twice and no request is
  sent more than twice; the liveness of the waiting requests; and the interleavings that lose a session.

  Grids. \<open>GridParams\<close>: \<open>hooks/serverGridParams.ts\<close> with the sort whitelists.
    \<open>ServerGrid\<close>:
  \<open>hooks/useServerGrid.ts\<close> as an event system: the refs of the hook are the state; a render with its
  effects in their order, a keystroke, a debounce timer and a navigation are the events.
  \<open>ServerGridFacts\<close>: its invariants and what becomes of drafts, timers, pages and requests.

  Grid pages. \<open>GridCells\<close> and \<open>GridColumns\<close>: the columns of the fifteen grids with what a
    cell shows for a row, or that it
  raises. \<open>GridPages\<close>: the options each page hands to the hook, the options of its filter controls,
    what its \<open>onFetch\<close> makes of the
  parameters and the service function it ends in. \<open>ListHandlers\<close>: the parameters that the list
    handlers of the backend declare,
  and what they accept of them; the readers of numbers, booleans and dates of the server are parameters.
    \<open>GridPageFacts\<close>: the
  requests of the pages are accepted, the sort tables of the two sides agree, and no two options of a control ask
    the same.
  \<open>Worklists\<close>: the pages that keep their rows themselves, and what a reload does to the filter "mine".
    \<open>GridSession\<close>: the hook and a
  slice in the effects of one render. \<open>Dashboard\<close> and \<open>DashboardFacts\<close>: the two landing
    pages and their links, from the route over the
  URL to the request of the page.

  Lists. \<open>SharedList\<close>: \<open>hooks/useSharedList.ts\<close> with every interleaving of mounts, key
    changes, settlements
  and deliveries, and the hooks that are its callers.

  Slices. \<open>RtkLifecycle\<close>: \<open>services/apiError.ts\<close>, the outcome of a thunk, and the
    interface \<open>list_query\<close>:
  the three reducer cases of a list query, what a page may rely on, and the session of the query under
  requests, answers, failures, aborts and unmounting. \<open>ReleaseTypes\<close> and \<open>ReleaseSlice\<close>,
  \<open>EnvironmentSlice\<close>, \<open>BookingSlice\<close> and \<open>DecommissionSlice\<close>: the types, the
    thunks (functions of the
  service they call) and the reducers of the slices of these names, each an interpretation of
  \<open>list_query\<close>, with the invariants of what they hold.

  The other slices. \<open>SliceKit\<close>: rows as JSON values, the outcome cases that the slices share, and
    thunks over a
  function from a service call to its outcome. \<open>AdminSlices\<close>, \<open>PolicySlices\<close>,
    \<open>EnvironmentSlices\<close>, \<open>SystemSlices\<close>
  and \<open>RecordSlices\<close>: twenty-nine slices of \<open>src/store\<close>, each with its state, its start
    value, one definition for
  each case of the reducer, its actions and its thunks. \<open>CompositeSlices\<close>:
    \<open>runbookSlice.ts\<close>, \<open>closeoutSlice.ts\<close>
  and \<open>enterpriseMembershipSlice.ts\<close>, whose thunks make several calls. \<open>SliceFacts\<close>:
    which of their lists are
  honest under aborted requests, which queries keep the newest answer (\<open>latest_query\<close>), and the secret
    of an API
  key. \<open>RowStores\<close>: collections that mirror the table of the server (\<open>row_store\<close>) and
    stay in display order
  (\<open>ordered_store\<close>). \<open>CompositeFacts\<close>: the composites of runbooks, refused writes and
    late reads.

  Types. \<open>TsTypes\<close>: TypeScript types as descriptions of JSON values, with a check that every value of
    one type is
  of another, proved sound. \<open>WireTypes\<close>: the interfaces of \<open>src/types\<close> and of the
    services. \<open>BackendModels\<close>: the
  response and request models (\<open>backend/app/api/v1/schemas\<close>) as descriptions of the JSON they send and
    accept.
  \<open>WireTable\<close>: for each service function its handler, the handler's model and the type the function
    declares.
  \<open>WireFacts\<close>: answers have their types and payloads are accepted, with the exceptions. Numbers are
    integers, string
  literals count as strings, and the constraints that a model puts on a value beyond its type are not modelled.

  Topology. \<open>Topology\<close>: \<open>components/topology\<close> from the API response to the collapse
    model, the regrouping
  by host and the focus set. \<open>TopologyFacts\<close>: nothing dangles, nothing is lost, nothing is counted
    twice.
  \<open>TopologyElk\<close> and \<open>TopologyElkFacts\<close>: the ELK graph, the drawn graph and the layout
    engine with its
  fallback; ELK itself is a parameter. \<open>EdgeGeometry\<close>: where an edge meets the border of a node, over
  exact rationals.

  Services. \<open>ServiceApi\<close>: requests, responses and the values in them. \<open>ServiceCalls\<close>:
    every function of
  \<open>src/services\<close> as the request it sends and what it makes of the response.
    \<open>BackendRoutes\<close>: the routing
  table of the FastAPI application (\<open>backend/app/main.py\<close> and the routers it includes, in order).
  \<open>ServiceContract\<close>: every request reaches the handler meant for it, with parameters that the handler
    knows.
  The matching of a path is run on the pieces of a request, which is proved to agree with the matching of
  its text, so that the table is evaluated with the identifiers left open.

  Navigation. \<open>NavConfig\<close>: the drawer tables (\<open>components/navConfig.tsx\<close>,
    \<open>adminNavConfig.tsx\<close>), the entity
  pages (\<open>pages/admin/entityConfigTabs.ts\<close>), the active item (\<open>NavDrawer.tsx\<close>), the
    routes of \<open>App.tsx\<close> with
  their guards and the old addresses (\<open>legacyRedirects.tsx\<close>). \<open>NavFacts\<close>: what a drawer
    item opens, for whom, and
  what it highlights. \<open>RouteMeta\<close>: \<open>components/layout/routeMeta.ts\<close> and
    \<open>hooks/usePageTitle.ts\<close>, where the bound
  of the loop over parents is the number of pages and is proved to suffice. \<open>AppDrawer\<close>:
    \<open>store/uiSlice.ts\<close> with the
  effects of \<open>components/AppLayout.tsx\<close>.

  Lifecycles. \<open>LifecycleEditor\<close>: the template editor of
    \<open>components/admin/LifecycleTemplatesPanel.tsx\<close> as a state and
  its handlers, the transition check of \<open>components/lifecycle/TransitionControls.tsx\<close> and the server's
  \<open>validate_transition\<close>. \<open>LifecycleFacts\<close>: saved templates are well typed, what saving
    and renaming lose, and
  that the two checks are one.

  Helpers. \<open>BookingLanes\<close>: the swimlanes of \<open>components/bookingLanes.ts\<close>, sound and
    optimal. \<open>Dates\<close>:
  \<open>utils/dates.ts\<close> and \<open>utils/duration.ts\<close>; date parsing, the clock and the time zone are
    parameters.

  Recursions end by structure or by a measure; the only fuel is in the loop that counts working days
  (\<open>Dates.working_loop\<close>), for which enough fuel is proved to be there. Numbers of the program are
    doubles;
  the model keeps ids, sizes and instants as integers, geometry as rationals, and the invalid number as a
  value of its own where the code can meet it.

  Forms. \<open>Forms\<close>: the dialogs of systems, hosts and environments, the incident form with two of its
  effects, the two change request dialogs with their schemas, the booking form and the environment request form,
  each as a record of its fields with the functions that open it on a row, check it, build the payload and show a
  refusal. The parser and printers of dates are parameters. \<open>FormFacts\<close>: payloads have the type of the
  request model, an edit without a change keeps the row, and what is lost: a cleared text, the subsystem of an
  incident, the reason of a refusal. A patch is \<open>merge_row\<close>, the handlers' update with
  \<open>exclude_unset\<close>.

  Detail pages. \<open>DecommissionPanel\<close>: the panel of an environment with its effects, its handlers in two halves
  around the call they await, and the controls it shows. \<open>DecommissionServer\<close>: the rules of the server for the
  same actions (\<open>environment_decommission_service.py\<close>), and one click as panel, server and slice together.
  \<open>DecommissionFacts\<close>: the panel follows the server through every sequence of clicks, and a control is shown
  exactly when the server would accept it, with one exception. \<open>GoNoGoDialog\<close> and \<open>GoNoGoFacts\<close>: the dialog
  that records a decision, edited in any way. \<open>BookingDetail\<close> and \<open>BookingDetailFacts\<close>: the page of a booking
  and the grouping of the bookings of its request. The clock and the reading of dates are parameters
  (\<open>moment\<close>, \<open>clock\<close>); one user works on the panel, what others do in the meantime arrives with the next read.

  \<open>SystemDetail\<close> and \<open>EnvironmentDetail\<close>: the pages of a system and of an environment, each a
  record of its hooks with one definition for every effect and handler, a handler in two halves around its
  \<open>await\<close>. \<open>DetailPages\<close>: the events of such a page and the contract \<open>record_page\<close> that both meet; the
  events of the list of component dependencies. \<open>DetailFacts\<close>: what a save writes and where, the list without
  doubles, edits that keep the row, and the races of the dependency dialog. \<open>VerifyPanel\<close>: the function of the
  server that verifies an environment and the panel that shows its answer, against the tables it is computed from.

  Not modelled: what the other handlers of the backend do, layout and styling, the pickers of the forms, and of the
  remaining detail pages (releases, projects, PIRs, runbooks) the panels and dialogs: they repeat the shapes
  modelled here over other rows. The admin panels other than the lifecycle templates are left out for the same reason.
\<close>

subsection \<open>What every list page may rely on\<close>


end
